(* ===== verification/Prelude.thy ===== *)
theory Prelude
  imports Main "HOL-Library.Sublist"
begin

text \<open>Shared vocabulary of the development: programs that read and write a state and may fail,
  the transaction that rolls such a program back, tables as lists of rows, and strings as the
  UTF-8 byte lists of the Rust code (a \<^typ>\<open>string\<close> is the list of the bytes, so that
  \<^term>\<open>length s\<close> is \<open>s.len()\<close>).  The collections \<open>prog_ok\<close> and \<open>prog_err\<close> hold the
  inversion rules with which the flows are proved: they turn this program returned a value
  into the conjunction of its guards and updates.\<close>

named_theorems prog_ok \<open>inversion of a successful run\<close>
named_theorems prog_run \<open>evaluation of the program combinators\<close>
named_theorems table \<open>facts on tables\<close>
named_theorems str \<open>facts on strings\<close>


section \<open>Programs with a state and an error\<close>

text \<open>A Rust function on a connection returns \<open>Result<A, E>\<close> and may have written to the
  database before it fails: the state is returned in both cases.\<close>

type_synonym ('s, 'e, 'a) prog = "'s \<Rightarrow> ('e + 'a) \<times> 's"

definition ret :: "'a \<Rightarrow> ('s, 'e, 'a) prog" where
  "ret a = (\<lambda>s. (Inr a, s))"

definition fail :: "'e \<Rightarrow> ('s, 'e, 'a) prog" where
  "fail e = (\<lambda>s. (Inl e, s))"

definition bindp :: "('s, 'e, 'a) prog \<Rightarrow> ('a \<Rightarrow> ('s, 'e, 'b) prog) \<Rightarrow> ('s, 'e, 'b) prog" where
  "bindp m f = (\<lambda>s. case m s of (Inl e, t) \<Rightarrow> (Inl e, t) | (Inr a, t) \<Rightarrow> f a t)"

definition thenp :: "('s, 'e, 'a) prog \<Rightarrow> ('s, 'e, 'b) prog \<Rightarrow> ('s, 'e, 'b) prog" where
  "thenp m n = bindp m (\<lambda>_. n)"

definition guardp :: "bool \<Rightarrow> 'e \<Rightarrow> ('s, 'e, unit) prog" where
  "guardp b e = (if b then ret () else fail e)"

definition query :: "('s \<Rightarrow> 'a) \<Rightarrow> ('s, 'e, 'a) prog" where
  "query f = (\<lambda>s. (Inr (f s), s))"

text \<open>A query that may itself fail.\<close>

definition ask :: "('s \<Rightarrow> 'e + 'a) \<Rightarrow> ('s, 'e, 'a) prog" where
  "ask f = (\<lambda>s. (f s, s))"

definition exec :: "('s \<Rightarrow> 's) \<Rightarrow> ('s, 'e, unit) prog" where
  "exec f = (\<lambda>s. (Inr (), f s))"

definition some_or :: "'a option \<Rightarrow> 'e \<Rightarrow> ('s, 'e, 'a) prog" where
  "some_or x e = (case x of None \<Rightarrow> fail e | Some a \<Rightarrow> ret a)"

definition lift :: "'e + 'a \<Rightarrow> ('s, 'e, 'a) prog" where
  "lift r = (\<lambda>s. (r, s))"

text \<open>The macro \<open>with_transaction!\<close>: commit on \<open>Ok\<close>, roll every write back on \<open>Err\<close>.\<close>

definition with_transaction :: "('s, 'e, 'a) prog \<Rightarrow> ('s, 'e, 'a) prog" where
  "with_transaction m = (\<lambda>s. case m s of (Inl e, _) \<Rightarrow> (Inl e, s) | (Inr a, t) \<Rightarrow> (Inr a, t))"

lemma ret_ok [prog_ok]: "ret a s = (Inr b, t) \<longleftrightarrow> b = a \<and> t = s"
  by (auto simp: ret_def)

lemma fail_ok [prog_ok]: "fail e s = (Inr b, t) \<longleftrightarrow> False"
  by (simp add: fail_def)

lemma bindp_ok [prog_ok]:
  "bindp m f s = (Inr b, t) \<longleftrightarrow> (\<exists>a u. m s = (Inr a, u) \<and> f a u = (Inr b, t))"
  by (auto simp: bindp_def split: prod.splits sum.splits)

lemma thenp_ok [prog_ok]:
  "thenp m n s = (Inr b, t) \<longleftrightarrow> (\<exists>a u. m s = (Inr a, u) \<and> n u = (Inr b, t))"
  by (simp add: thenp_def bindp_ok)

lemma guardp_ok [prog_ok]: "guardp b e s = (Inr x, t) \<longleftrightarrow> b \<and> t = s"
  by (auto simp: guardp_def ret_def fail_def)

lemma query_ok [prog_ok]: "query f s = (Inr x, t) \<longleftrightarrow> x = f s \<and> t = s"
  by (auto simp: query_def)

lemma ask_ok [prog_ok]: "ask f s = (Inr x, t) \<longleftrightarrow> f s = Inr x \<and> t = s"
  by (auto simp: ask_def)

lemma exec_ok [prog_ok]: "exec f s = (Inr x, t) \<longleftrightarrow> t = f s"
  by (auto simp: exec_def)

lemma some_or_ok [prog_ok]: "some_or y e s = (Inr x, t) \<longleftrightarrow> y = Some x \<and> t = s"
  by (auto simp: some_or_def ret_def fail_def split: option.splits)

lemma lift_ok [prog_ok]: "lift r s = (Inr x, t) \<longleftrightarrow> r = Inr x \<and> t = s"
  by (auto simp: lift_def)

lemma with_transaction_ok [prog_ok]:
  "with_transaction m s = (Inr x, t) \<longleftrightarrow> m s = (Inr x, t)"
  by (auto simp: with_transaction_def split: prod.splits sum.splits)

lemma if_ok [prog_ok]:
  "(if b then m else n) s = (Inr x, t) \<longleftrightarrow> (b \<longrightarrow> m s = (Inr x, t)) \<and> (\<not> b \<longrightarrow> n s = (Inr x, t))"
  by simp

text \<open>An error leaves the state of a transaction as it was.\<close>

lemma with_transaction_err: "with_transaction m s = (Inl e, t) \<Longrightarrow> t = s"
  by (auto simp: with_transaction_def split: prod.splits sum.splits)

lemma with_transaction_Inl:
  "with_transaction m s = (Inl e, t) \<longleftrightarrow> (\<exists>u. m s = (Inl e, u)) \<and> t = s"
  by (auto simp: with_transaction_def split: prod.splits sum.splits)

lemma bindp_Inl:
  "bindp m f s = (Inl e, t) \<longleftrightarrow>
     m s = (Inl e, t) \<or> (\<exists>a u. m s = (Inr a, u) \<and> f a u = (Inl e, t))"
  by (auto simp: bindp_def split: prod.splits sum.splits)

lemma run_combinators [prog_run]:
  "ret a s = (Inr a, s)"
  "fail e s = (Inl e, s)"
  "query f s = (Inr (f s), s)"
  "exec g s = (Inr (), g s)"
  "lift r s = (r, s)"
  "guardp b e s = (if b then Inr () else Inl e, s)"
  "some_or y e s = (case y of None \<Rightarrow> Inl e | Some x \<Rightarrow> Inr x, s)"
  "ask h s = (h s, s)"
  by (auto simp: ask_def ret_def fail_def query_def exec_def lift_def guardp_def some_or_def
      split: option.splits)

lemma run_bindp [prog_run]:
  "bindp (ret a) f s = f a s"
  "bindp (fail e) f s = (Inl e, s)"
  "bindp (query q) f s = f (q s) s"
  "bindp (exec g) h s = h () (g s)"
  "bindp (guardp b e) h s = (if b then h () s else (Inl e, s))"
  "bindp (some_or y e) f s = (case y of None \<Rightarrow> (Inl e, s) | Some x \<Rightarrow> f x s)"
  "bindp (lift r) f s = (case r of Inl e \<Rightarrow> (Inl e, s) | Inr x \<Rightarrow> f x s)"
  "bindp (ask q') f s = (case q' s of Inl e \<Rightarrow> (Inl e, s) | Inr x \<Rightarrow> f x s)"
  by (auto simp: ask_def bindp_def ret_def fail_def query_def exec_def lift_def guardp_def some_or_def
      split: option.splits sum.splits)

lemma run_thenp [prog_run]:
  "thenp (ret a) n s = n s"
  "thenp (fail e) n s = (Inl e, s)"
  "thenp (exec g) n s = n (g s)"
  "thenp (guardp b e) n s = (if b then n s else (Inl e, s))"
  by (simp_all add: thenp_def run_bindp)

text \<open>A program that never writes.\<close>

definition readonly :: "('s, 'e, 'a) prog \<Rightarrow> bool" where
  "readonly m \<longleftrightarrow> (\<forall>s. snd (m s) = s)"

lemma readonly_state: "readonly m \<Longrightarrow> m s = (r, t) \<Longrightarrow> t = s"
  unfolding readonly_def by (metis snd_conv)

lemma readonly_intros [intro]:
  "readonly (ret a)"
  "readonly (fail e)"
  "readonly (query f)"
  "readonly (guardp b e)"
  "readonly (some_or y e)"
  "readonly (lift r)"
  "readonly (ask f')"
  by (auto simp: readonly_def run_combinators ask_def)

lemma readonly_bindp [intro]:
  "readonly m \<Longrightarrow> (\<And>a. readonly (f a)) \<Longrightarrow> readonly (bindp m f)"
  by (auto simp: readonly_def bindp_def split: prod.splits sum.splits) (metis snd_conv)+

lemma readonly_thenp [intro]: "readonly m \<Longrightarrow> readonly n \<Longrightarrow> readonly (thenp m n)"
  by (auto simp: thenp_def)

lemma readonly_if [intro]: "readonly m \<Longrightarrow> readonly n \<Longrightarrow> readonly (if b then m else n)"
  by simp


text \<open>A program that keeps a property of the state, whether it succeeds or fails.\<close>

definition preserves :: "('s \<Rightarrow> bool) \<Rightarrow> ('s, 'e, 'a) prog \<Rightarrow> bool" where
  "preserves I m \<longleftrightarrow> (\<forall>s. I s \<longrightarrow> I (snd (m s)))"

text \<open>Run a program and return its result, failure or not, as a value.\<close>

definition attempt :: "('s, 'e, 'a) prog \<Rightarrow> ('s, 'e, 'e + 'a) prog" where
  "attempt m = (\<lambda>s. case m s of (r, t) \<Rightarrow> (Inr r, t))"

lemma attempt_ok [prog_ok]: "attempt m s = (Inr r, t) \<longleftrightarrow> m s = (r, t)"
  by (auto simp: attempt_def split: prod.splits)

lemma preserves_state: "preserves I m \<Longrightarrow> I s \<Longrightarrow> m s = (r, t) \<Longrightarrow> I t"
  unfolding preserves_def by (metis snd_conv)

lemma preserves_snd: "preserves I m \<Longrightarrow> I s \<Longrightarrow> I (snd (m s))"
  by (simp add: preserves_def)

lemma preserves_intros [intro]:
  "preserves I (ret a)"
  "preserves I (fail e)"
  "preserves I (query f)"
  "preserves I (guardp b e)"
  "preserves I (some_or y e)"
  "preserves I (lift r)"
  "preserves I (ask f')"
  by (auto simp: preserves_def run_combinators ask_def)

lemma preserves_exec [intro]: "(\<And>s. I s \<Longrightarrow> I (f s)) \<Longrightarrow> preserves I (exec f)"
  by (simp add: preserves_def run_combinators)

lemma preserves_bindp [intro]:
  "preserves I m \<Longrightarrow> (\<And>a. preserves I (f a)) \<Longrightarrow> preserves I (bindp m f)"
  by (fastforce simp: preserves_def bindp_def split: prod.splits sum.splits)

lemma preserves_thenp [intro]: "preserves I m \<Longrightarrow> preserves I n \<Longrightarrow> preserves I (thenp m n)"
  by (auto simp: thenp_def)

lemma preserves_attempt [intro]: "preserves I m \<Longrightarrow> preserves I (attempt m)"
  by (fastforce simp: preserves_def attempt_def split: prod.splits)

lemma preserves_if [intro]: "preserves I m \<Longrightarrow> preserves I n \<Longrightarrow> preserves I (if b then m else n)"
  by simp

lemma preserves_cases [intro]:
  "(\<And>a. preserves I (f a)) \<Longrightarrow> (\<And>b. preserves I (g b)) \<Longrightarrow>
     preserves I (case r of Inl a \<Rightarrow> f a | Inr b \<Rightarrow> g b)"
  "preserves I m \<Longrightarrow> (\<And>a. preserves I (h a)) \<Longrightarrow> preserves I (case y of None \<Rightarrow> m | Some a \<Rightarrow> h a)"
  "preserves I m \<Longrightarrow> (\<And>a as. preserves I (k a as)) \<Longrightarrow>
     preserves I (case xs of [] \<Rightarrow> m | a # as \<Rightarrow> k a as)"
  by (simp_all split: sum.split option.split list.split)

lemma preserves_transaction [intro]: "preserves I m \<Longrightarrow> preserves I (with_transaction m)"
  by (fastforce simp: preserves_def with_transaction_def split: prod.splits sum.splits)


section \<open>Results without a state\<close>

definition bindr :: "'e + 'a \<Rightarrow> ('a \<Rightarrow> 'e + 'b) \<Rightarrow> 'e + 'b" where
  "bindr r f = (case r of Inl e \<Rightarrow> Inl e | Inr a \<Rightarrow> f a)"

definition ensure :: "bool \<Rightarrow> 'e \<Rightarrow> 'e + unit" where
  "ensure b e = (if b then Inr () else Inl e)"

definition is_ok :: "'e + 'a \<Rightarrow> bool" where
  "is_ok r = (case r of Inl _ \<Rightarrow> False | Inr _ \<Rightarrow> True)"

lemma bindr_simps [simp]:
  "bindr (Inl e) f = Inl e"
  "bindr (Inr a) f = f a"
  by (simp_all add: bindr_def)

lemma bindr_Inr: "bindr r f = Inr b \<longleftrightarrow> (\<exists>a. r = Inr a \<and> f a = Inr b)"
  by (cases r) auto

lemma ensure_Inr [simp]: "ensure b e = Inr u \<longleftrightarrow> b"
  by (simp add: ensure_def)

lemma is_ok_simps [simp]: "is_ok (Inr a)" "\<not> is_ok (Inl e)"
  by (simp_all add: is_ok_def)

lemma is_ok_iff: "is_ok r \<longleftrightarrow> (\<exists>a. r = Inr a)"
  by (cases r) auto

definition or_error :: "'a option \<Rightarrow> 'e \<Rightarrow> 'e + 'a" where
  "or_error x e = (case x of None \<Rightarrow> Inl e | Some a \<Rightarrow> Inr a)"

lemma or_error_Inr [simp]: "or_error x e = Inr a \<longleftrightarrow> x = Some a"
  by (auto simp: or_error_def split: option.splits)

definition map_err :: "('e \<Rightarrow> 'f) \<Rightarrow> 'e + 'a \<Rightarrow> 'f + 'a" where
  "map_err f r = (case r of Inl e \<Rightarrow> Inl (f e) | Inr a \<Rightarrow> Inr a)"

lemma map_err_Inr [simp]: "map_err f r = Inr a \<longleftrightarrow> r = Inr a"
  by (auto simp: map_err_def split: sum.splits)

lemma if_Inr: "(if b then x else y) = Inr a \<longleftrightarrow> (if b then x = Inr a else y = Inr a)"
  by simp

text \<open>The first failing check decides the error: a \<open>for\<close> loop that returns \<open>Err\<close>.\<close>

fun check_all :: "('a \<Rightarrow> 'e + unit) \<Rightarrow> 'a list \<Rightarrow> 'e + unit" where
  "check_all f [] = Inr ()"
| "check_all f (x # xs) = bindr (f x) (\<lambda>_. check_all f xs)"

lemma check_all_ok: "check_all f xs = Inr () \<longleftrightarrow> (\<forall>x \<in> set xs. f x = Inr ())"
  by (induction xs) (auto simp: bindr_Inr)

text \<open>\<open>ORDER BY\<close> an order that the caller supplies (the collation of the database): insertion sort,
  with the rows that compare equal in their old order.\<close>

fun insort_by :: "('a \<Rightarrow> 'a \<Rightarrow> bool) \<Rightarrow> 'a \<Rightarrow> 'a list \<Rightarrow> 'a list" where
  "insort_by le x [] = [x]"
| "insort_by le x (y # ys) = (if le x y then x # y # ys else y # insort_by le x ys)"

definition sort_by :: "('a \<Rightarrow> 'a \<Rightarrow> bool) \<Rightarrow> 'a list \<Rightarrow> 'a list" where
  "sort_by le xs = foldr (insort_by le) xs []"

lemma set_insort_by [simp]: "set (insort_by le x ys) = insert x (set ys)"
  by (induction ys) auto

lemma sort_by_simps [simp]:
  "sort_by le [] = []"
  "sort_by le (x # xs) = insort_by le x (sort_by le xs)"
  by (simp_all add: sort_by_def)

lemma set_sort_by [simp]: "set (sort_by le xs) = set xs"
  by (induction xs) auto

lemma length_insort_by [simp]: "length (insort_by le x ys) = Suc (length ys)"
  by (induction ys) auto

lemma length_sort_by [simp]: "length (sort_by le xs) = length xs"
  by (induction xs) auto

lemma distinct_insort_by [simp]: "distinct (insort_by le x ys) \<longleftrightarrow> x \<notin> set ys \<and> distinct ys"
  by (induction ys) auto

lemma distinct_sort_by [simp]: "distinct (sort_by le xs) = distinct xs"
  by (induction xs) auto

end
