(* ===== verification/Strings.thy ===== *)
theory Strings
  imports Prelude
begin

text \<open>Rust strings.  A \<^typ>\<open>string\<close> is the list of the bytes of a UTF-8 string; \<open>utf8_chars\<close>
  cuts it into its characters (a byte that starts a character with its continuation bytes).  The
  functions of \<open>str\<close> that the sources call are defined here: \<open>split\<close>, \<open>split_whitespace\<close>, \<open>trim\<close>,
  \<open>strip_prefix\<close>, \<open>find\<close> of a byte, the ASCII predicates and case folding.\<close>

section \<open>Bytes and characters\<close>

definition byte :: "char \<Rightarrow> nat" where
  "byte c = of_char c"

definition is_cont :: "char \<Rightarrow> bool" where
  "is_cont c \<longleftrightarrow> 128 \<le> byte c \<and> byte c < 192"

function (sequential) utf8_chars :: "string \<Rightarrow> string list" where
  "utf8_chars [] = []"
| "utf8_chars (c # cs) = (c # takeWhile is_cont cs) # utf8_chars (dropWhile is_cont cs)"
  by pat_completeness auto
termination
  by (relation "measure length") (auto simp: le_imp_less_Suc length_dropWhile_le)

lemma concat_utf8_chars [str]: "concat (utf8_chars s) = s"
  by (induction s rule: utf8_chars.induct) auto

lemma length_utf8_chars [str]: "length (utf8_chars s) \<le> length s"
proof (induction s rule: utf8_chars.induct)
  case (2 c cs)
  then show ?case
    using length_dropWhile_le [of is_cont cs] by simp
qed simp

lemma utf8_chars_nonempty [str]: "x \<in> set (utf8_chars s) \<Longrightarrow> x \<noteq> []"
  by (induction s rule: utf8_chars.induct) auto

definition char_count :: "string \<Rightarrow> nat" where
  "char_count s = length (utf8_chars s)"

text \<open>The characters with the Unicode property White\_Space, as \<open>char::is_whitespace\<close> has them.\<close>

definition whitespace :: "string list" where
  "whitespace =
     [[CHR 0x09], [CHR 0x0A], [CHR 0x0B], [CHR 0x0C], [CHR 0x0D], [CHR 0x20],
      [CHR 0xC2, CHR 0x85], [CHR 0xC2, CHR 0xA0], [CHR 0xE1, CHR 0x9A, CHR 0x80],
      [CHR 0xE2, CHR 0x80, CHR 0x80], [CHR 0xE2, CHR 0x80, CHR 0x81], [CHR 0xE2, CHR 0x80, CHR 0x82],
      [CHR 0xE2, CHR 0x80, CHR 0x83], [CHR 0xE2, CHR 0x80, CHR 0x84], [CHR 0xE2, CHR 0x80, CHR 0x85],
      [CHR 0xE2, CHR 0x80, CHR 0x86], [CHR 0xE2, CHR 0x80, CHR 0x87], [CHR 0xE2, CHR 0x80, CHR 0x88],
      [CHR 0xE2, CHR 0x80, CHR 0x89], [CHR 0xE2, CHR 0x80, CHR 0x8A], [CHR 0xE2, CHR 0x80, CHR 0xA8],
      [CHR 0xE2, CHR 0x80, CHR 0xA9], [CHR 0xE2, CHR 0x80, CHR 0xAF], [CHR 0xE2, CHR 0x81, CHR 0x9F],
      [CHR 0xE3, CHR 0x80, CHR 0x80]]"

definition is_whitespace :: "string \<Rightarrow> bool" where
  "is_whitespace ch \<longleftrightarrow> ch \<in> set whitespace"

definition trim_end_list :: "string list \<Rightarrow> string list" where
  "trim_end_list cs = rev (dropWhile is_whitespace (rev cs))"

definition trim :: "string \<Rightarrow> string" where
  "trim s = concat (trim_end_list (dropWhile is_whitespace (utf8_chars s)))"

definition blank :: "string \<Rightarrow> bool" where
  "blank s \<longleftrightarrow> trim s = []"

lemma trim_Nil [simp]: "trim [] = []"
  by (simp add: trim_def trim_end_list_def)

text \<open>The characters of a part of a text are that part of its characters, so that trimming twice is
  trimming once.\<close>

definition chunked :: "string list \<Rightarrow> bool" where
  "chunked css \<longleftrightarrow> (\<forall>ch \<in> set css. ch \<noteq> [] \<and> (\<forall>k \<in> set (tl ch). is_cont k))
     \<and> (\<forall>ch \<in> set (tl css). \<not> is_cont (hd ch))"

lemma chunked_utf8_chars: "chunked (utf8_chars s)"
proof (induction s rule: utf8_chars.induct)
  case (2 c cs)
  have "\<not> is_cont (hd ch)" if "ch \<in> set (utf8_chars (dropWhile is_cont cs))" for ch
  proof (cases "dropWhile is_cont cs")
    case Nil
    then show ?thesis
      using that by (simp only: utf8_chars.simps list.set empty_iff)
  next
    case (Cons b bs)
    then have "\<not> is_cont b"
      by (metis hd_dropWhile list.discI list.sel(1))
    moreover have "ch = b # takeWhile is_cont bs \<or> ch \<in> set (tl (utf8_chars (dropWhile is_cont cs)))"
      using that by (auto simp: Cons)
    ultimately show ?thesis
      using 2 by (auto simp: chunked_def)
  qed
  with 2 show ?case
    by (auto simp: chunked_def dest: set_takeWhileD)
qed (simp add: chunked_def)

lemma chunked_tl: "chunked (ch # css) \<Longrightarrow> chunked css"
  by (cases css) (auto simp: chunked_def)

lemma utf8_chars_concat: "chunked css \<Longrightarrow> utf8_chars (concat css) = css"
proof (induction css)
  case (Cons ch css)
  obtain c ks where ch: "ch = c # ks" and ks: "\<forall>k \<in> set ks. is_cont k"
    using Cons.prems by (cases ch) (auto simp: chunked_def)
  have "concat css = [] \<or> \<not> is_cont (hd (concat css))"
    using Cons.prems by (cases css) (auto simp: chunked_def hd_append)
  moreover have "takeWhile is_cont (ks @ r) = ks \<and> dropWhile is_cont (ks @ r) = r"
    if "r = [] \<or> \<not> is_cont (hd r)" for r
    using ks that by (induction ks; cases r) auto
  ultimately have "takeWhile is_cont (ks @ concat css) = ks \<and> dropWhile is_cont (ks @ concat css) = concat css"
    by blast
  then show ?case
    using Cons chunked_tl [OF Cons.prems] by (simp add: ch)
qed simp

lemma chunked_dropWhile: "chunked css \<Longrightarrow> chunked (dropWhile P css)"
  by (induction css) (auto dest: chunked_tl)

lemma chunked_append: "chunked (xs @ ys) \<Longrightarrow> chunked xs"
  by (cases xs) (auto simp: chunked_def)

lemma chunked_trim_end: "chunked css \<Longrightarrow> chunked (trim_end_list css)"
proof -
  have "css = trim_end_list css @ rev (takeWhile is_whitespace (rev css))"
    unfolding trim_end_list_def rev_append [symmetric] by simp
  then show "chunked css \<Longrightarrow> chunked (trim_end_list css)"
    using chunked_append by metis
qed

lemma trim_end_list_fix:
  assumes "css = [] \<or> \<not> is_whitespace (hd css)"
  shows "trim_end_list css = [] \<or> \<not> is_whitespace (hd (trim_end_list css))"
    and "trim_end_list (trim_end_list css) = trim_end_list css"
proof -
  have "css = trim_end_list css @ rev (takeWhile is_whitespace (rev css))"
    unfolding trim_end_list_def rev_append [symmetric] by simp
  then have "trim_end_list css = [] \<or> hd (trim_end_list css) = hd css"
    by (metis hd_append2)
  then show "trim_end_list css = [] \<or> \<not> is_whitespace (hd (trim_end_list css))"
    using assms by (auto simp: trim_end_list_def)
  show "trim_end_list (trim_end_list css) = trim_end_list css"
    by (simp add: trim_end_list_def)
qed

lemma trim_trim [simp]: "trim (trim s) = trim s"
proof -
  let ?a = "dropWhile is_whitespace (utf8_chars s)"
  have a: "?a = [] \<or> \<not> is_whitespace (hd ?a)"
    using hd_dropWhile [of is_whitespace "utf8_chars s"] by blast
  have chars: "utf8_chars (concat (trim_end_list ?a)) = trim_end_list ?a"
    by (intro utf8_chars_concat chunked_trim_end chunked_dropWhile chunked_utf8_chars)
  have "dropWhile is_whitespace (trim_end_list ?a) = trim_end_list ?a"
    using trim_end_list_fix(1) [OF a] by (cases "trim_end_list ?a") auto
  then show ?thesis
    unfolding trim_def chars by (simp only: trim_end_list_fix(2) [OF a])
qed

lemma dropWhile_end_Nil:
  "rev (dropWhile P (rev (dropWhile P xs))) = [] \<longleftrightarrow> (\<forall>x \<in> set xs. P x)"
proof
  assume "rev (dropWhile P (rev (dropWhile P xs))) = []"
  then have "\<forall>x \<in> set (dropWhile P xs). P x"
    by (simp add: dropWhile_eq_Nil_conv)
  then have "dropWhile P xs = []"
    by (metis dropWhile_eq_Nil_conv hd_dropWhile hd_in_set)
  then show "\<forall>x \<in> set xs. P x"
    by (simp add: dropWhile_eq_Nil_conv)
next
  assume "\<forall>x \<in> set xs. P x"
  then have "dropWhile P xs = []"
    unfolding dropWhile_eq_Nil_conv .
  then show "rev (dropWhile P (rev (dropWhile P xs))) = []"
    by (simp only: dropWhile.simps rev.simps)
qed

lemma blank_iff: "blank s \<longleftrightarrow> (\<forall>ch \<in> set (utf8_chars s). is_whitespace ch)"
proof -
  let ?cs = "trim_end_list (dropWhile is_whitespace (utf8_chars s))"
  have "set ?cs \<subseteq> set (utf8_chars s)"
    unfolding trim_end_list_def by (auto dest!: set_dropWhileD)
  then have "[] \<notin> set ?cs"
    using utf8_chars_nonempty by blast
  then have "blank s \<longleftrightarrow> ?cs = []"
    unfolding blank_def trim_def concat_eq_Nil_conv by (cases ?cs) auto
  then show ?thesis
    by (simp only: trim_end_list_def dropWhile_end_Nil)
qed


section \<open>Splitting\<close>

fun split_on :: "char \<Rightarrow> string \<Rightarrow> string list" where
  "split_on c [] = [[]]"
| "split_on c (x # xs) =
     (if x = c then [] # split_on c xs
      else (case split_on c xs of [] \<Rightarrow> [[x]] | p # ps \<Rightarrow> (x # p) # ps))"

lemma split_on_nonempty [simp]: "split_on c s \<noteq> []"
  by (induction s) (auto split: list.splits)

lemma split_on_no_sep [str]: "p \<in> set (split_on c s) \<Longrightarrow> c \<notin> set p"
  by (induction s arbitrary: p) (auto split: list.splits if_splits)

lemma split_on_single [str]: "c \<notin> set s \<Longrightarrow> split_on c s = [s]"
  by (induction s) auto

lemma split_on_append_sep [str]: "c \<notin> set p \<Longrightarrow> split_on c (p @ c # s) = p # split_on c s"
  by (induction p) auto

fun join :: "string \<Rightarrow> string list \<Rightarrow> string" where
  "join sep [] = []"
| "join sep [x] = x"
| "join sep (x # y # ys) = x @ sep @ join sep (y # ys)"

lemma split_on_join [str]:
  "xs \<noteq> [] \<Longrightarrow> \<forall>x \<in> set xs. c \<notin> set x \<Longrightarrow> split_on c (join [c] xs) = xs"
proof (induction xs rule: induct_list012)
  case (3 x y zs)
  then show ?case
    using split_on_append_sep [of c x "join [c] (y # zs)"] by simp
qed (auto simp: split_on_single)

lemma join_split_on [str]: "join [c] (split_on c s) = s"
proof (induction s)
  case (Cons x xs)
  obtain p ps where "split_on c xs = p # ps"
    using split_on_nonempty by (metis list.exhaust)
  with Cons show ?case
    by (cases ps) auto
qed simp

text \<open>\<open>str::find\<close> of a byte, and \<open>split_once\<close>.\<close>

definition split_once :: "char \<Rightarrow> string \<Rightarrow> (string \<times> string) option" where
  "split_once c s =
     (if c \<in> set s then Some (takeWhile (\<lambda>x. x \<noteq> c) s, tl (dropWhile (\<lambda>x. x \<noteq> c) s)) else None)"

lemma split_once_Some [str]:
  "split_once c s = Some (a, b) \<longleftrightarrow> s = a @ c # b \<and> c \<notin> set a"
proof
  assume h: "split_once c s = Some (a, b)"
  then have c: "c \<in> set s" "a = takeWhile (\<lambda>x. x \<noteq> c) s" "b = tl (dropWhile (\<lambda>x. x \<noteq> c) s)"
    by (auto simp: split_once_def split: if_splits)
  then have "dropWhile (\<lambda>x. x \<noteq> c) s \<noteq> []"
    by (auto simp: dropWhile_eq_Nil_conv)
  then have "dropWhile (\<lambda>x. x \<noteq> c) s = c # b"
    using c(3) hd_dropWhile [of "\<lambda>x. x \<noteq> c" s] by (metis list.collapse)
  then show "s = a @ c # b \<and> c \<notin> set a"
    using c(2) takeWhile_dropWhile_id [of "\<lambda>x. x \<noteq> c" s] set_takeWhileD by metis
next
  assume "s = a @ c # b \<and> c \<notin> set a"
  then show "split_once c s = Some (a, b)"
    by (auto simp: split_once_def takeWhile_append dropWhile_append)
qed

text \<open>\<open>split_whitespace\<close>: the maximal runs of characters that are not white space.\<close>

fun words_of :: "string list \<Rightarrow> string \<Rightarrow> string list" where
  "words_of [] acc = (if acc = [] then [] else [acc])"
| "words_of (ch # chs) acc =
     (if is_whitespace ch then (if acc = [] then words_of chs [] else acc # words_of chs [])
      else words_of chs (acc @ ch))"

definition split_whitespace :: "string \<Rightarrow> string list" where
  "split_whitespace s = words_of (utf8_chars s) []"

lemma words_of_nonempty: "w \<in> set (words_of chs acc) \<Longrightarrow> w \<noteq> []"
  by (induction chs acc rule: words_of.induct) (auto split: if_splits)

lemma split_whitespace_nonempty [str]: "w \<in> set (split_whitespace s) \<Longrightarrow> w \<noteq> []"
  by (simp add: split_whitespace_def words_of_nonempty)


section \<open>Prefixes, suffixes and ASCII\<close>

definition starts_with :: "string \<Rightarrow> string \<Rightarrow> bool" where
  "starts_with s p \<longleftrightarrow> take (length p) s = p"

definition ends_with :: "string \<Rightarrow> string \<Rightarrow> bool" where
  "ends_with s p \<longleftrightarrow> length p \<le> length s \<and> drop (length s - length p) s = p"

definition strip_prefix :: "string \<Rightarrow> string \<Rightarrow> string option" where
  "strip_prefix s p = (if starts_with s p then Some (drop (length p) s) else None)"

lemma starts_with_iff [str]: "starts_with s p \<longleftrightarrow> (\<exists>r. s = p @ r)"
  unfolding starts_with_def by (metis append_eq_conv_conj append_take_drop_id)

lemma strip_prefix_Some [str]: "strip_prefix s p = Some r \<longleftrightarrow> s = p @ r"
  unfolding strip_prefix_def starts_with_def
  by (auto simp: append_eq_conv_conj) (metis append_take_drop_id)

definition ascii_lower :: "char \<Rightarrow> bool" where
  "ascii_lower c \<longleftrightarrow> 97 \<le> byte c \<and> byte c \<le> 122"

definition ascii_upper :: "char \<Rightarrow> bool" where
  "ascii_upper c \<longleftrightarrow> 65 \<le> byte c \<and> byte c \<le> 90"

definition ascii_digit :: "char \<Rightarrow> bool" where
  "ascii_digit c \<longleftrightarrow> 48 \<le> byte c \<and> byte c \<le> 57"

definition ascii_alpha :: "char \<Rightarrow> bool" where
  "ascii_alpha c \<longleftrightarrow> ascii_lower c \<or> ascii_upper c"

definition ascii_alnum :: "char \<Rightarrow> bool" where
  "ascii_alnum c \<longleftrightarrow> ascii_alpha c \<or> ascii_digit c"

definition ascii_punct :: "char \<Rightarrow> bool" where
  "ascii_punct c \<longleftrightarrow> (33 \<le> byte c \<and> byte c \<le> 47) \<or> (58 \<le> byte c \<and> byte c \<le> 64)
     \<or> (91 \<le> byte c \<and> byte c \<le> 96) \<or> (123 \<le> byte c \<and> byte c \<le> 126)"

definition to_lower :: "char \<Rightarrow> char" where
  "to_lower c = (if ascii_upper c then char_of (byte c + 32) else c)"

definition to_upper :: "char \<Rightarrow> char" where
  "to_upper c = (if ascii_lower c then char_of (byte c - 32) else c)"

definition to_ascii_lowercase :: "string \<Rightarrow> string" where
  "to_ascii_lowercase s = map to_lower s"

definition to_ascii_uppercase :: "string \<Rightarrow> string" where
  "to_ascii_uppercase s = map to_upper s"

definition eq_ignore_ascii_case :: "string \<Rightarrow> string \<Rightarrow> bool" where
  "eq_ignore_ascii_case s t \<longleftrightarrow> to_ascii_lowercase s = to_ascii_lowercase t"

lemma byte_bound: "byte c < 256"
  by (simp add: byte_def)

lemma byte_char_of: "n < 256 \<Longrightarrow> byte (char_of n) = n"
  by (simp add: byte_def)

lemma byte_inj [simp]: "byte c = byte d \<longleftrightarrow> c = d"
  by (simp add: byte_def)

lemma to_lower_idem [simp]: "to_lower (to_lower c) = to_lower c"
  by (auto simp: to_lower_def ascii_upper_def byte_char_of)

lemma to_ascii_lowercase_idem [simp]:
  "to_ascii_lowercase (to_ascii_lowercase s) = to_ascii_lowercase s"
  by (simp add: to_ascii_lowercase_def)

lemma length_to_ascii_lowercase [simp]: "length (to_ascii_lowercase s) = length s"
  by (simp add: to_ascii_lowercase_def)

text \<open>The order of Rust's \<open>str\<close>, byte by byte.\<close>

fun str_le :: "string \<Rightarrow> string \<Rightarrow> bool" where
  "str_le [] _ = True"
| "str_le (_ # _) [] = False"
| "str_le (x # xs) (y # ys) = (byte x < byte y \<or> (x = y \<and> str_le xs ys))"

lemma str_le_refl [simp]: "str_le s s"
  by (induction s) auto

lemma str_le_trans: "str_le a b \<Longrightarrow> str_le b c \<Longrightarrow> str_le a c"
  by (induction a b arbitrary: c rule: str_le.induct) (case_tac c; auto)+

lemma str_le_antisym: "str_le a b \<Longrightarrow> str_le b a \<Longrightarrow> a = b"
proof (induction a b rule: str_le.induct)
  case (1 b)
  then show ?case
    by (cases b) auto
qed auto

lemma str_le_total: "str_le a b \<or> str_le b a"
proof (induction a b rule: str_le.induct)
  case (3 x xs y ys)
  then show ?case
    by (auto simp: not_less_iff_gr_or_eq)
qed auto


section \<open>Slices, numbers and quotes\<close>

text \<open>\<open>&s[n..]\<close> panics (\<open>None\<close>) unless \<open>n\<close> is the start of a character or the end of the string.\<close>

definition char_boundary :: "string \<Rightarrow> nat \<Rightarrow> bool" where
  "char_boundary s n \<longleftrightarrow> n = length s \<or> (n < length s \<and> \<not> is_cont (s ! n))"

definition slice_from :: "string \<Rightarrow> nat \<Rightarrow> string option" where
  "slice_from s n = (if char_boundary s n then Some (drop n s) else None)"

lemma slice_from_beyond: "length s < n \<Longrightarrow> slice_from s n = None"
  by (simp add: slice_from_def char_boundary_def)

fun decimal_nat :: "nat \<Rightarrow> string" where
  "decimal_nat n = (if n < 10 then [char_of (48 + n)] else decimal_nat (n div 10) @ [char_of (48 + n mod 10)])"

declare decimal_nat.simps [simp del]

definition decimal :: "int \<Rightarrow> string" where
  "decimal n = (if n < 0 then ''-'' @ decimal_nat (nat (- n)) else decimal_nat (nat n))"

definition quoted :: "string \<Rightarrow> string" where
  "quoted s = [CHR 0x27] @ s @ [CHR 0x27]"

text \<open>\<open>str::parse\<close> for a signed integer type with bounds \<open>lo\<close> and \<open>hi\<close>: an optional sign and at least one
  digit.\<close>

fun digits_value :: "int \<Rightarrow> string \<Rightarrow> int option" where
  "digits_value acc [] = Some acc"
| "digits_value acc (c # cs) =
     (if ascii_digit c then digits_value (10 * acc + int (byte c - 48)) cs else None)"

definition parse_int :: "int \<Rightarrow> int \<Rightarrow> string \<Rightarrow> int option" where
  "parse_int lo hi s =
     (let (sign, ds) = (case s of [] \<Rightarrow> (1, []) | c # cs \<Rightarrow>
            if c = CHR ''-'' then (- 1, cs) else if c = CHR ''+'' then (1, cs) else (1, s))
      in if ds = [] then None
         else (case digits_value 0 ds of
                 None \<Rightarrow> None
               | Some v \<Rightarrow> if lo \<le> sign * v \<and> sign * v \<le> hi then Some (sign * v) else None))"

lemma parse_int_bounds: "parse_int lo hi s = Some v \<Longrightarrow> lo \<le> v \<and> v \<le> hi"
  by (auto simp: parse_int_def Let_def split: prod.splits if_splits option.splits)

end
