(* ===== verification/Errors.thy ===== *)
theory Errors
  imports Strings
begin

text \<open>The error type of the hub (\<open>oidc-core/src/errors.rs\<close>) and its two translations: the HTTP
  status of a domain error, and the OAuth error body of the OIDC endpoints
  (\<open>oidc-oidc/src/errors.rs\<close>).  The translation to an OAuth body hides the internal reason.\<close>

(*@ oidc-core/src/errors.rs 6-99 OidcError *)
datatype oidc_error =
    AuthenticationFailed string
  | AuthorizationDenied string
  | InvalidInput string
  | NotFound string
  | Conflict string
  | TokenExpired
  | InvalidTokenSignature
  | InvalidRequest
  | InvalidClient
  | UnsupportedGrantType
  | UnauthorizedClient
  | InvalidScope string
  | InvalidRequestObject string
  | InvalidClientAssertion string
  | InvalidDPoPProof string
  | AuthorizationPending
  | SlowDown
  | ExpiredToken
  | InvalidSubjectToken string
  | InvalidActorToken string
  | LoginRequired string
  | AccountSelectionRequired string
  | Internal string

(*@ oidc-core/src/errors.rs 103-132 OidcError::http_status *)
fun http_status :: "oidc_error \<Rightarrow> nat" where
  "http_status (AuthenticationFailed _) = 401"
| "http_status InvalidTokenSignature = 401"
| "http_status TokenExpired = 401"
| "http_status InvalidClient = 401"
| "http_status (AuthorizationDenied _) = 403"
| "http_status (InvalidScope _) = 403"
| "http_status (InvalidInput _) = 400"
| "http_status InvalidRequest = 400"
| "http_status UnsupportedGrantType = 400"
| "http_status UnauthorizedClient = 400"
| "http_status (InvalidRequestObject _) = 400"
| "http_status (InvalidClientAssertion _) = 400"
| "http_status (InvalidDPoPProof _) = 400"
| "http_status AuthorizationPending = 400"
| "http_status SlowDown = 400"
| "http_status ExpiredToken = 400"
| "http_status (InvalidSubjectToken _) = 400"
| "http_status (InvalidActorToken _) = 400"
| "http_status (LoginRequired _) = 400"
| "http_status (AccountSelectionRequired _) = 400"
| "http_status (NotFound _) = 404"
| "http_status (Conflict _) = 409"
| "http_status (Internal _) = 500"

(*@ oidc-oidc/src/errors.rs 12-18 OidcErrorResponse *)
record error_response =
  er_error :: string
  er_description :: "string option"
  er_uri :: "string option"

(*@ oidc-oidc/src/errors.rs 21-105 OidcErrorResponse constructors *)
definition oauth_error :: "string \<Rightarrow> string \<Rightarrow> error_response" where
  "oauth_error code description =
     \<lparr>er_error = code, er_description = Some description, er_uri = None\<rparr>"

(*@ oidc-oidc/src/errors.rs 107-134 authorization_pending, slow_down, expired_token *)
definition polling_error :: "string \<Rightarrow> error_response" where
  "polling_error code =
     oauth_error code
      (if code = ''authorization_pending''
       then ''The authorization request is still pending as the end user has not yet completed the authorization''
       else if code = ''slow_down'' then ''The client is polling faster than the allowed interval''
       else ''The device code has expired'')"

(*@ oidc-oidc/src/errors.rs 161-168 OidcErrorResponse::from_internal *)
definition from_internal :: "string \<Rightarrow> error_response" where
  "from_internal reason = oauth_error ''server_error'' ''An internal error occurred''"

(*@ oidc-oidc/src/errors.rs 181-193 OidcErrorResponse::http_status *)
definition oauth_status :: "error_response \<Rightarrow> nat" where
  "oauth_status r =
     (let e = er_error r in
      if e \<in> {''invalid_request'', ''invalid_grant'', ''invalid_scope'', ''unsupported_grant_type''}
      then 400
      else if e = ''invalid_client'' then 401
      else if e = ''unauthorized_client'' \<or> e = ''access_denied'' then 403
      else if e = ''server_error'' then 500
      else if e = ''temporarily_unavailable'' then 503
      else if e \<in> {''authorization_pending'', ''slow_down'', ''expired_token''} then 400
      else 500)"

(*@ oidc-oidc/src/errors.rs 211-269 from_oidc_error *)
fun from_oidc_error :: "oidc_error \<Rightarrow> error_response" where
  "from_oidc_error InvalidRequest = oauth_error ''invalid_request'' ''Invalid request parameters''"
| "from_oidc_error InvalidClient = oauth_error ''invalid_client'' ''Client authentication failed''"
| "from_oidc_error UnsupportedGrantType =
     oauth_error ''unsupported_grant_type'' ''The authorization grant type is not supported''"
| "from_oidc_error UnauthorizedClient =
     oauth_error ''unauthorized_client'' ''Client is not authorized for this grant type''"
| "from_oidc_error (InvalidScope msg) = oauth_error ''invalid_scope'' msg"
| "from_oidc_error (AuthenticationFailed _) = oauth_error ''invalid_grant'' ''Invalid credentials''"
| "from_oidc_error TokenExpired = oauth_error ''invalid_grant'' ''Token has expired''"
| "from_oidc_error InvalidTokenSignature = oauth_error ''invalid_grant'' ''Invalid token''"
| "from_oidc_error (AuthorizationDenied msg) = oauth_error ''access_denied'' msg"
| "from_oidc_error (NotFound _) = oauth_error ''invalid_request'' ''Resource not found''"
| "from_oidc_error (Conflict _) =
     oauth_error ''invalid_request'' ''A resource with that identifier already exists''"
| "from_oidc_error (InvalidInput msg) = oauth_error ''invalid_request'' (''Invalid input: '' @ msg)"
| "from_oidc_error (InvalidClientAssertion _) =
     oauth_error ''invalid_client'' ''Invalid client assertion''"
| "from_oidc_error (InvalidRequestObject msg) =
     oauth_error ''invalid_request'' (''Invalid request object: '' @ msg)"
| "from_oidc_error (InvalidDPoPProof msg) =
     oauth_error ''invalid_request'' (''Invalid DPoP proof: '' @ msg)"
| "from_oidc_error AuthorizationPending = polling_error ''authorization_pending''"
| "from_oidc_error SlowDown = polling_error ''slow_down''"
| "from_oidc_error ExpiredToken = polling_error ''expired_token''"
| "from_oidc_error (InvalidSubjectToken msg) =
     oauth_error ''invalid_request'' (''Invalid subject token: '' @ msg)"
| "from_oidc_error (InvalidActorToken msg) =
     oauth_error ''invalid_request'' (''Invalid actor token: '' @ msg)"
| "from_oidc_error (LoginRequired msg) =
     oauth_error ''invalid_request'' (''Login required: '' @ msg)"
| "from_oidc_error (AccountSelectionRequired msg) =
     oauth_error ''invalid_request'' (''Account selection required: '' @ msg)"
| "from_oidc_error (Internal msg) = from_internal msg"

text \<open>The texts of the \<open>#[error]\<close> attributes.\<close>

(*@ oidc-core/src/errors.rs 5-98 Display of OidcError *)
fun error_text :: "oidc_error \<Rightarrow> string" where
  "error_text (AuthenticationFailed m) = ''authentication failed: '' @ m"
| "error_text (AuthorizationDenied m) = ''authorization denied: '' @ m"
| "error_text (InvalidInput m) = ''invalid input: '' @ m"
| "error_text (NotFound m) = ''not found: '' @ m"
| "error_text (Conflict m) = ''conflict: '' @ m"
| "error_text TokenExpired = ''token expired''"
| "error_text InvalidTokenSignature = ''invalid token signature''"
| "error_text InvalidRequest = ''invalid request''"
| "error_text InvalidClient = ''invalid client''"
| "error_text UnsupportedGrantType = ''unsupported grant type''"
| "error_text UnauthorizedClient = ''unauthorized client''"
| "error_text (InvalidScope m) = ''invalid scope: '' @ m"
| "error_text (InvalidRequestObject m) = ''invalid request object: '' @ m"
| "error_text (InvalidClientAssertion m) = ''invalid client assertion: '' @ m"
| "error_text (InvalidDPoPProof m) = ''invalid DPoP proof: '' @ m"
| "error_text AuthorizationPending = ''authorization pending''"
| "error_text SlowDown = ''slow down''"
| "error_text ExpiredToken = ''expired token''"
| "error_text (InvalidSubjectToken m) = ''invalid subject token: '' @ m"
| "error_text (InvalidActorToken m) = ''invalid actor token: '' @ m"
| "error_text (LoginRequired m) = ''login required: '' @ m"
| "error_text (AccountSelectionRequired m) = ''account selection required: '' @ m"
| "error_text (Internal m) = ''internal error: '' @ m"

type_synonym 'a result = "oidc_error + 'a"

text \<open>The errors whose text must not reach a client: their translation is the same whatever the
  reason says.\<close>

definition reason_hidden :: "oidc_error \<Rightarrow> bool" where
  "reason_hidden e = (case e of AuthenticationFailed _ \<Rightarrow> True | NotFound _ \<Rightarrow> True
     | Conflict _ \<Rightarrow> True | InvalidClientAssertion _ \<Rightarrow> True | Internal _ \<Rightarrow> True | _ \<Rightarrow> False)"

definition same_kind :: "oidc_error \<Rightarrow> oidc_error \<Rightarrow> bool" where
  "same_kind e f = (case (e, f) of
       (AuthenticationFailed _, AuthenticationFailed _) \<Rightarrow> True
     | (NotFound _, NotFound _) \<Rightarrow> True
     | (Conflict _, Conflict _) \<Rightarrow> True
     | (InvalidClientAssertion _, InvalidClientAssertion _) \<Rightarrow> True
     | (Internal _, Internal _) \<Rightarrow> True
     | _ \<Rightarrow> e = f)"

text \<open>The OAuth body of an error never leaks the reason of a failed authentication, a missing
  or a conflicting resource, a rejected client assertion or an internal failure: two errors of the
  same such kind have the same body; the body has one of the registered OAuth error codes (so that
  \<open>http_status\<close> never takes its fallback arm), and a server error is answered exactly for
  an internal failure.\<close>

theorem oauth_error_body:
  "(same_kind e f \<longrightarrow> from_oidc_error e = from_oidc_error f)
   \<and> er_error (from_oidc_error e) \<in>
       {''invalid_request'', ''invalid_client'', ''unsupported_grant_type'', ''unauthorized_client'',
        ''invalid_scope'', ''invalid_grant'', ''access_denied'', ''authorization_pending'',
        ''slow_down'', ''expired_token'', ''server_error''}
   \<and> (oauth_status (from_oidc_error e) = 500 \<longleftrightarrow> http_status e = 500)"
proof -
  have "same_kind e f \<longrightarrow> from_oidc_error e = from_oidc_error f"
    by (cases e; cases f) (simp_all add: same_kind_def from_internal_def)
  moreover have "er_error (from_oidc_error e) \<in>
       {''invalid_request'', ''invalid_client'', ''unsupported_grant_type'', ''unauthorized_client'',
        ''invalid_scope'', ''invalid_grant'', ''access_denied'', ''authorization_pending'',
        ''slow_down'', ''expired_token'', ''server_error''}"
    by (cases e) (simp_all add: oauth_error_def polling_error_def from_internal_def)
  moreover have "oauth_status (from_oidc_error e) = 500 \<longleftrightarrow> http_status e = 500"
    by (cases e)
      (simp_all add: oauth_status_def Let_def oauth_error_def polling_error_def from_internal_def)
  ultimately show ?thesis
    by blast
qed

lemma oauth_error_body_witness:
  "from_oidc_error (AuthenticationFailed ''no such user'') = from_oidc_error (AuthenticationFailed ''wrong password'')"
  using oauth_error_body [of "AuthenticationFailed ''no such user''" "AuthenticationFailed ''wrong password''"]
  by (simp add: same_kind_def)

end
