(* ===== verification/Response_Type.thy ===== *)
theory Response_Type
  imports Errors
begin

text \<open>The \<open>response_type\<close> of an authorization request
  (\<open>oidc-core/src/models/response_type.rs\<close>): parsing a set of space separated components, the
  canonical text and the flow predicates, and the whitelist of \<open>oidc-oidc/src/validation.rs\<close>.
  \<open>HashSet\<close> iterates in an order of its own; it is the parameter \<open>order\<close>, which decides only
  which unknown component an error names.\<close>

(*@ oidc-core/src/models/response_type.rs 17-21 ResponseType *)
record response_type =
  rt_code :: bool
  rt_token :: bool
  rt_id_token :: bool

(*@ oidc-core/src/models/response_type.rs 25-71 ResponseType::CODE *)
definition rt :: "bool \<Rightarrow> bool \<Rightarrow> bool \<Rightarrow> response_type" where
  "rt c t i = \<lparr>rt_code = c, rt_token = t, rt_id_token = i\<rparr>"

(*@ oidc-core/src/models/response_type.rs 74-82 ResponseType::ALL_SUPPORTED *)
definition all_supported :: "response_type list" where
  "all_supported =
     [rt True False False, rt False True False, rt False False True, rt True True False,
      rt True False True, rt False True True, rt True True True]"

(*@ oidc-core/src/models/response_type.rs 85-115 ResponseType::parse *)
definition parse_response_type ::
  "(string list \<Rightarrow> string list) \<Rightarrow> string \<Rightarrow> response_type result" where
  "parse_response_type order s =
     (let parts = order (remdups (split_on (CHR '' '') s));
          code = ''code'' \<in> set parts;
          token = ''token'' \<in> set parts;
          id_token = ''id_token'' \<in> set parts
      in case List.find (\<lambda>p. p \<notin> {''code'', ''token'', ''id_token''}) parts of
           Some p \<Rightarrow> Inl (InvalidInput (''unsupported response_type component: '' @ p))
         | None \<Rightarrow>
             if \<not> code \<and> \<not> token \<and> \<not> id_token
             then Inl (InvalidInput
                    ''response_type must contain at least one of: code, token, id_token'')
             else Inr (rt code token id_token))"

text \<open>\<open>as_str\<close> panics on the value without a component, which no constructor of the module
  builds: the result is an option.\<close>

(*@ oidc-core/src/models/response_type.rs 118-129 ResponseType::as_str *)
definition as_str :: "response_type \<Rightarrow> string option" where
  "as_str r = (case (rt_code r, rt_token r, rt_id_token r) of
      (True, False, False) \<Rightarrow> Some ''code''
    | (False, True, False) \<Rightarrow> Some ''token''
    | (False, False, True) \<Rightarrow> Some ''id_token''
    | (True, True, False) \<Rightarrow> Some ''code token''
    | (True, False, True) \<Rightarrow> Some ''code id_token''
    | (False, True, True) \<Rightarrow> Some ''id_token token''
    | (True, True, True) \<Rightarrow> Some ''code id_token token''
    | (False, False, False) \<Rightarrow> None)"

(*@ oidc-core/src/models/response_type.rs 145-147 ResponseType::is_implicit_or_hybrid *)
definition is_implicit_or_hybrid :: "response_type \<Rightarrow> bool" where
  "is_implicit_or_hybrid r \<longleftrightarrow> rt_token r \<or> rt_id_token r"

(*@ oidc-core/src/models/response_type.rs 150-160 From<String> for ResponseType *)
definition response_type_from :: "(string list \<Rightarrow> string list) \<Rightarrow> string \<Rightarrow> response_type" where
  "response_type_from order s =
     (case parse_response_type order s of Inl _ \<Rightarrow> rt True False False | Inr r \<Rightarrow> r)"

(*@ oidc-oidc/src/validation.rs 43-54 validate_response_type *)
definition validate_response_type :: "string \<Rightarrow> unit result" where
  "validate_response_type s =
     (if s \<in> {''code'', ''id_token'', ''code id_token'', ''token'', ''code token'', ''id_token token'',
              ''code id_token token''}
      then Inr () else Inl InvalidRequest)"

text \<open>The components of a text, as a set.\<close>

definition components :: "string \<Rightarrow> string set" where
  "components s = set (split_on (CHR '' '') s)"

lemma components_known:
  assumes "components s \<subseteq> {a, b, c}"
  shows "a \<in> components s \<or> b \<in> components s \<or> c \<in> components s"
proof -
  have "last (split_on (CHR '' '') s) \<in> components s"
    unfolding components_def by (rule last_in_set) (rule split_on_nonempty)
  with assms show ?thesis
    by auto
qed

lemma parse_response_type_ok:
  assumes "\<And>xs. set (order xs) = set xs"
  shows "parse_response_type order s = Inr r \<longleftrightarrow>
    components s \<subseteq> {''code'', ''token'', ''id_token''} \<and>
    r = rt (''code'' \<in> components s) (''token'' \<in> components s) (''id_token'' \<in> components s)"
proof (cases "components s \<subseteq> {''code'', ''token'', ''id_token''}")
  case True
  then have "List.find (\<lambda>p. p \<notin> {''code'', ''token'', ''id_token''})
      (order (remdups (split_on (CHR '' '') s))) = None"
    unfolding find_None_iff components_def by (simp only: assms set_remdups) blast
  with True components_known [OF True] show ?thesis
    unfolding parse_response_type_def Let_def
    by (simp only: option.case assms set_remdups flip: components_def) auto
next
  case False
  then have "List.find (\<lambda>p. p \<notin> {''code'', ''token'', ''id_token''})
      (order (remdups (split_on (CHR '' '') s))) \<noteq> None"
    unfolding find_None_iff components_def by (simp only: assms set_remdups) blast
  with False show ?thesis
    unfolding parse_response_type_def Let_def by auto
qed

lemma components_canonical:
  "components ''code'' = {''code''}"
  "components ''token'' = {''token''}"
  "components ''id_token'' = {''id_token''}"
  "components ''code token'' = {''code'', ''token''}"
  "components ''code id_token'' = {''code'', ''id_token''}"
  "components ''id_token token'' = {''id_token'', ''token''}"
  "components ''code id_token token'' = {''code'', ''id_token'', ''token''}"
  by (simp_all add: components_def)

text \<open>The seven supported response types are exactly the values \<open>parse\<close> returns; parsing the
  canonical text of any of them gives it back, whatever the order in which the components are
  visited; and the whitelist of the request validation accepts exactly these canonical texts.\<close>

theorem response_type_roundtrip:
  assumes order: "\<And>xs. set (order xs) = set xs"
  shows "((\<exists>s. parse_response_type order s = Inr r) \<longleftrightarrow> r \<in> set all_supported) \<and>
    (r \<in> set all_supported \<longrightarrow> (\<exists>s. as_str r = Some s \<and> parse_response_type order s = Inr r)) \<and>
    (validate_response_type t = Inr () \<longleftrightarrow> Some t \<in> as_str ` set all_supported)"
proof (intro conjI)
  show canonical: "r \<in> set all_supported \<longrightarrow>
      (\<exists>s. as_str r = Some s \<and> parse_response_type order s = Inr r)"
    unfolding all_supported_def
    by (auto simp: parse_response_type_ok [OF order] as_str_def rt_def components_canonical)
  have "r \<in> set all_supported" if "parse_response_type order s = Inr r" for s
    using that components_known [of s "''code''" "''token''" "''id_token''"]
    by (auto simp: parse_response_type_ok [OF order] all_supported_def rt_def)
  with canonical show "(\<exists>s. parse_response_type order s = Inr r) \<longleftrightarrow> r \<in> set all_supported"
    by blast
  show "validate_response_type t = Inr () \<longleftrightarrow> Some t \<in> as_str ` set all_supported"
    by (auto simp: validate_response_type_def all_supported_def as_str_def rt_def)
qed

lemma response_type_roundtrip_witness:
  "\<exists>s. as_str (rt True False True) = Some s \<and>
       parse_response_type (\<lambda>xs. xs) s = Inr (rt True False True)"
  using response_type_roundtrip [of "\<lambda>xs. xs" "rt True False True" "''code''"]
  by (simp add: all_supported_def)

end
