(* ===== verification/Json.thy ===== *)
theory Json
  imports Strings
begin

text \<open>JSON values as \<open>serde_json::Value\<close> has them, and the operations the sources use.  An
  object is a \<open>BTreeMap\<close>: an association list in the byte order of its keys, without duplicates
  (\<open>json_ok\<close>).  The interface \<open>keyed_map\<close> states what a lookup returns after an insertion; it is
  interpreted on the object operations and its fold lemmas serve the claim builders.\<close>

datatype json =
    JNull
  | JBool bool
  | JNum int
  | JFloat nat
  | JStr string
  | JArr "json list"
  | JObj "(string \<times> json) list"

type_synonym members = "(string \<times> json) list"

section \<open>Objects\<close>

definition obj_get :: "members \<Rightarrow> string \<Rightarrow> json option" where
  "obj_get m k = map_of m k"

fun obj_insert :: "string \<Rightarrow> json \<Rightarrow> members \<Rightarrow> members" where
  "obj_insert k v [] = [(k, v)]"
| "obj_insert k v ((l, w) # m) =
     (if k = l then (k, v) # m
      else if str_le k l then (k, v) # (l, w) # m
      else (l, w) # obj_insert k v m)"

definition keys_sorted :: "members \<Rightarrow> bool" where
  "keys_sorted m \<longleftrightarrow> sorted_wrt (\<lambda>a b. str_le a b \<and> a \<noteq> b) (map fst m)"

lemma obj_get_Nil [simp]: "obj_get [] k = None"
  by (simp add: obj_get_def)

lemma obj_get_insert [simp]:
  "obj_get (obj_insert k v m) l = (if k = l then Some v else obj_get m l)"
  by (induction k v m rule: obj_insert.induct) (auto simp: obj_get_def)

lemma obj_insert_keys: "fst ` set (obj_insert k v m) = insert k (fst ` set m)"
  by (induction k v m rule: obj_insert.induct) auto

lemma keys_sorted_insert: "keys_sorted m \<Longrightarrow> keys_sorted (obj_insert k v m)"
proof (induction k v m rule: obj_insert.induct)
  case (1 k v)
  then show ?case
    by (simp add: keys_sorted_def)
next
  case (2 k v l w m)
  have head: "\<forall>x \<in> fst ` set m. str_le l x \<and> l \<noteq> x"
    using 2(2) by (auto simp: keys_sorted_def)
  consider "k = l" | "k \<noteq> l" "str_le k l" | "k \<noteq> l" "\<not> str_le k l"
    by blast
  then show ?case
  proof cases
    case 1
    then show ?thesis
      using 2(2) by (simp add: keys_sorted_def)
  next
    case 2
    then show ?thesis
      using head \<open>keys_sorted ((l, w) # m)\<close> str_le_trans [of k l] str_le_antisym [of k l]
      by (auto simp: keys_sorted_def)
  next
    case 3
    have "keys_sorted m"
      using 2(2) by (simp add: keys_sorted_def)
    then have sorted: "keys_sorted (obj_insert k v m)"
      using 2(1) 3 by simp
    have "str_le l k"
      using 3 str_le_total by blast
    then have "\<forall>x \<in> fst ` set (obj_insert k v m). str_le l x \<and> l \<noteq> x"
      using head 3(1) by (simp add: obj_insert_keys)
    with sorted 3 show ?thesis
      by (simp add: keys_sorted_def)
  qed
qed

text \<open>What a map keyed by strings promises its clients.\<close>

locale keyed_map =
  fixes emptym :: "'m"
    and look :: "'m \<Rightarrow> string \<Rightarrow> 'v option"
    and ins :: "string \<Rightarrow> 'v \<Rightarrow> 'm \<Rightarrow> 'm"
    and wf :: "'m \<Rightarrow> bool"
  assumes look_empty: "look emptym k = None"
    and look_ins: "look (ins k v m) l = (if k = l then Some v else look m l)"
    and wf_empty: "wf emptym"
    and wf_ins: "wf m \<Longrightarrow> wf (ins k v m)"
begin

definition ins_all :: "(string \<times> 'v) list \<Rightarrow> 'm \<Rightarrow> 'm" where
  "ins_all kvs m = fold (\<lambda>(k, v). ins k v) kvs m"

lemma look_ins_all_other: "k \<notin> fst ` set kvs \<Longrightarrow> look (ins_all kvs m) k = look m k"
  unfolding ins_all_def by (induction kvs arbitrary: m) (auto simp: look_ins split: prod.splits)

lemma look_ins_all_distinct:
  "distinct (map fst kvs) \<Longrightarrow> (k, v) \<in> set kvs \<Longrightarrow> look (ins_all kvs m) k = Some v"
proof (induction kvs arbitrary: m)
  case (Cons kv kvs)
  show ?case
  proof (cases "kv = (k, v)")
    case True
    then have "k \<notin> fst ` set kvs"
      using Cons(2) by auto
    with True show ?thesis
      using look_ins_all_other [of k kvs "ins k v m"] by (simp add: ins_all_def look_ins)
  next
    case False
    with Cons show ?thesis
      by (auto simp: ins_all_def split: prod.splits)
  qed
qed simp

lemma wf_ins_all: "wf m \<Longrightarrow> wf (ins_all kvs m)"
  unfolding ins_all_def by (induction kvs arbitrary: m) (auto simp: wf_ins split: prod.splits)

end

interpretation obj: keyed_map "[]" obj_get obj_insert keys_sorted
  by unfold_locales (auto simp: keys_sorted_def intro: keys_sorted_insert [unfolded keys_sorted_def])


section \<open>Access\<close>

text \<open>\<open>Value::get\<close> with a key: only an object has members.\<close>

fun jget :: "json \<Rightarrow> string \<Rightarrow> json option" where
  "jget (JObj m) k = obj_get m k"
| "jget _ k = None"

fun as_str_json :: "json \<Rightarrow> string option" where
  "as_str_json (JStr s) = Some s"
| "as_str_json _ = None"

fun as_array :: "json \<Rightarrow> json list option" where
  "as_array (JArr xs) = Some xs"
| "as_array _ = None"

fun as_object :: "json \<Rightarrow> members option" where
  "as_object (JObj m) = Some m"
| "as_object _ = None"

fun is_array :: "json \<Rightarrow> bool" where
  "is_array (JArr _) = True"
| "is_array _ = False"

definition strs :: "string list \<Rightarrow> json" where
  "strs xs = JArr (map JStr xs)"

definition json_object :: "(string \<times> json) list \<Rightarrow> json" where
  "json_object kvs = JObj (obj.ins_all kvs [])"

definition opt_json :: "('a \<Rightarrow> json) \<Rightarrow> 'a option \<Rightarrow> json" where
  "opt_json f x = (case x of None \<Rightarrow> JNull | Some a \<Rightarrow> f a)"

lemma get_json_object:
  "distinct (map fst kvs) \<Longrightarrow> (k, v) \<in> set kvs \<Longrightarrow> jget (json_object kvs) k = Some v"
  by (simp add: json_object_def obj.look_ins_all_distinct)

lemma get_json_object_none: "k \<notin> fst ` set kvs \<Longrightarrow> jget (json_object kvs) k = None"
  by (simp add: json_object_def obj.look_ins_all_other)


section \<open>Dotted paths\<close>

text \<open>\<open>value_at_path\<close> and \<open>insert_claim\<close> of \<open>protocol_mappers.rs\<close>: a path is cut at the dots and
  its empty parts are dropped.\<close>

definition path_parts :: "string \<Rightarrow> string list" where
  "path_parts path = filter (\<lambda>p. p \<noteq> []) (split_on (CHR ''.'') path)"

fun walk :: "json \<Rightarrow> string list \<Rightarrow> json option" where
  "walk v [] = Some v"
| "walk v (p # ps) = (case jget v p of None \<Rightarrow> None | Some w \<Rightarrow> walk w ps)"

(*@ oidc-oidc/src/protocol_mappers.rs 117-121 value_at_path *)
definition value_at_path :: "json \<Rightarrow> string \<Rightarrow> json option" where
  "value_at_path v path = walk v (path_parts path)"

text \<open>The loop of \<open>insert_claim\<close> descends through the parts but the last, making an object of
  whatever it meets that is not one.\<close>

fun insert_at :: "members \<Rightarrow> string list \<Rightarrow> json \<Rightarrow> members" where
  "insert_at m [] v = m"
| "insert_at m [p] v = obj_insert p v m"
| "insert_at m (p # q # ps) v =
     (let inner = (case obj_get m p of Some (JObj o') \<Rightarrow> o' | _ \<Rightarrow> [])
      in obj_insert p (JObj (insert_at inner (q # ps) v)) m)"

(*@ oidc-oidc/src/protocol_mappers.rs 149-165 insert_claim *)
definition insert_claim :: "members \<Rightarrow> string \<Rightarrow> json \<Rightarrow> members" where
  "insert_claim m path v = insert_at m (path_parts path) v"

lemma walk_insert_at: "ps \<noteq> [] \<Longrightarrow> walk (JObj (insert_at m ps v)) ps = Some v"
  by (induction m ps v rule: insert_at.induct) (simp_all add: Let_def)

definition comparable :: "string list \<Rightarrow> string list \<Rightarrow> bool" where
  "comparable p q \<longleftrightarrow> prefix p q \<or> prefix q p"

lemma walk_not_object: "(\<And>m. v \<noteq> JObj m) \<Longrightarrow> ps \<noteq> [] \<Longrightarrow> walk v ps = None"
  by (cases ps; cases v) auto

lemma walk_empty_object: "ps \<noteq> [] \<Longrightarrow> walk (JObj []) ps = None"
  by (cases ps) auto

lemma walk_insert_at_other:
  "\<not> comparable ps qs \<Longrightarrow> walk (JObj (insert_at m ps v)) qs = walk (JObj m) qs"
proof (induction m ps v arbitrary: qs rule: insert_at.induct)
  case (1 m v)
  then show ?case
    by (simp add: comparable_def)
next
  case (2 m p v)
  then show ?case
    by (cases qs) (auto simp: comparable_def)
next
  case (3 m p q ps v)
  obtain r rs where qs: "qs = r # rs"
    using 3(2) by (cases qs) (auto simp: comparable_def)
  show ?case
  proof (cases "p = r")
    case False
    then show ?thesis
      by (simp add: qs Let_def)
  next
    case True
    let ?inner = "case obj_get m p of Some (JObj o') \<Rightarrow> o' | _ \<Rightarrow> []"
    have nc: "\<not> comparable (q # ps) rs"
      using 3(2) True qs by (auto simp: comparable_def)
    then have rs: "rs \<noteq> []"
      by (auto simp: comparable_def)
    have "walk (JObj (insert_at ?inner (q # ps) v)) rs = walk (JObj ?inner) rs"
      using 3(1) nc by simp
    also have "\<dots> = (case obj_get m p of None \<Rightarrow> None | Some w \<Rightarrow> walk w rs)"
      using rs walk_not_object [OF _ rs] walk_empty_object [OF rs]
      by (auto split: option.splits json.splits)
    finally show ?thesis
      using True by (simp add: qs Let_def)
  qed
qed

lemma keys_sorted_insert_at: "keys_sorted m \<Longrightarrow> keys_sorted (insert_at m ps v)"
  by (cases "(m, ps, v)" rule: insert_at.cases) (auto simp: Let_def intro: keys_sorted_insert)

text \<open>Writing a claim at a dotted path makes a later read of that path return the value, and it
  leaves the value at every other path alone, unless one of the two paths extends the other; the
  object stays sorted by its keys.  The path is the one without its empty parts.\<close>

theorem insert_claim_frame:
  assumes "path_parts p \<noteq> []" and "\<not> comparable (path_parts p) (path_parts q)"
    and "keys_sorted m"
  shows "value_at_path (JObj (insert_claim m p v)) p = Some v
    \<and> value_at_path (JObj (insert_claim m p v)) q = value_at_path (JObj m) q
    \<and> keys_sorted (insert_claim m p v)"
  using assms walk_insert_at walk_insert_at_other keys_sorted_insert_at
  by (simp add: value_at_path_def insert_claim_def)

lemma insert_claim_frame_witness:
  "value_at_path (JObj (insert_claim [(''a'', JNum 1)] ''b.c'' (JBool True))) ''a'' = Some (JNum 1)"
proof -
  have "path_parts ''b.c'' = [''b'', ''c'']" "path_parts ''a'' = [''a'']"
    by (simp_all add: path_parts_def)
  then have "value_at_path (JObj (insert_claim [(''a'', JNum 1)] ''b.c'' (JBool True))) ''a''
      = value_at_path (JObj [(''a'', JNum 1)]) ''a''"
    using insert_claim_frame [of "''b.c''" "''a''" "[(''a'', JNum 1)]" "JBool True"]
    by (simp add: comparable_def keys_sorted_def)
  then show ?thesis
    by (simp add: value_at_path_def path_parts_def obj_get_def)
qed

end
