(* ===== verification/Models.thy ===== *)
theory Models
  imports Response_Type Json
begin

text \<open>The data of the hub, one record for each struct of \<open>oidc-core/src/models\<close> that the flows
  read or write, with every field.  A UUID is a number (the text form is a parameter where the code
  prints it), a \<open>DateTime<Utc>\<close> is an integer number of microseconds, a \<open>serde_json::Value\<close> a
  \<^typ>\<open>json\<close>.  Columns that only the tables have (\<open>deleted_at\<close> of a role or a group) are fields too.\<close>

type_synonym uuid = nat

definition nil_uuid :: uuid where
  "nil_uuid = 0"
type_synonym instant = int

section \<open>Time\<close>

definition secs :: "int \<Rightarrow> int" where
  "secs n = n * 1000000"

definition minutes :: "int \<Rightarrow> int" where
  "minutes n = secs (n * 60)"

definition hours :: "int \<Rightarrow> int" where
  "hours n = minutes (n * 60)"

definition days :: "int \<Rightarrow> int" where
  "days n = hours (n * 24)"

text \<open>\<open>DateTime::timestamp\<close> rounds down; \<open>TimeDelta::num_seconds\<close> rounds towards zero.\<close>

definition timestamp :: "instant \<Rightarrow> int" where
  "timestamp t = t div 1000000"

definition num_seconds :: "int \<Rightarrow> int" where
  "num_seconds d = (if 0 \<le> d then d div 1000000 else - ((- d) div 1000000))"

lemma secs_mono [simp]: "secs a \<le> secs b \<longleftrightarrow> a \<le> b" "secs a < secs b \<longleftrightarrow> a < b"
  by (simp_all add: secs_def)

lemma num_seconds_secs [simp]: "num_seconds (secs n) = n"
  using nonzero_mult_div_cancel_right [of "1000000 :: int" "- n"]
  by (simp add: num_seconds_def secs_def)

lemmas durations = days_def hours_def minutes_def secs_def


section \<open>Realms, clients and users\<close>

(*@ oidc-core/src/models/realm.rs 38-51 Realm *)
record realm =
  r_id :: uuid
  r_name :: string
  r_display_name :: string
  r_enabled :: bool
  r_config :: json
  r_deleted_at :: "instant option"

(*@ oidc-core/src/models/client.rs 112-117 ClientType *)
datatype client_type = Confidential | Public

(*@ oidc-core/src/models/client.rs 10-89 Client *)
record client =
  c_id :: uuid
  c_realm_id :: uuid
  c_client_id :: string
  c_client_type :: client_type
  c_client_secret_hash :: "string option"
  c_name :: string
  c_redirect_uris :: "string list"
  c_allowed_scopes :: "string list"
  c_allowed_grant_types :: "string list"
  c_pkce_required :: bool
  c_enabled :: bool
  c_deleted_at :: "instant option"
  c_token_endpoint_auth_method :: string
  c_jwks_uri :: "string option"
  c_jwks :: "json option"
  c_request_uris :: "string list"
  c_client_secret_encrypted :: "string option"
  c_frontchannel_logout_uri :: "string option"
  c_frontchannel_logout_session_required :: bool
  c_backchannel_logout_uri :: "string option"
  c_backchannel_logout_session_required :: bool
  c_post_logout_redirect_uris :: "string list"
  c_subject_type :: string
  c_sector_identifier_uri :: "string option"
  c_response_modes :: "string list"
  c_id_token_alg :: "string option"
  c_id_token_enc :: "string option"
  c_id_token_key_encrypted :: "string option"
  c_id_token_key_pem :: "string option"
  c_request_object_alg :: "string option"
  c_request_object_enc :: "string option"
  c_request_object_key_encrypted :: "string option"
  c_request_object_key_pem :: "string option"

(*@ oidc-core/src/models/user.rs 77-142 User *)
record user =
  u_id :: uuid
  u_realm_id :: uuid
  u_email :: string
  u_email_verified :: bool
  u_username :: "string option"
  u_password_hash :: "string option"
  u_given_name :: "string option"
  u_family_name :: "string option"
  u_middle_name :: "string option"
  u_nickname :: "string option"
  u_preferred_username :: "string option"
  u_profile :: "string option"
  u_picture :: "string option"
  u_website :: "string option"
  u_gender :: "string option"
  u_birthdate :: "string option"
  u_zoneinfo :: "string option"
  u_phone_number :: "string option"
  u_phone_number_verified :: "bool option"
  u_street_address :: "string option"
  u_locality :: "string option"
  u_region :: "string option"
  u_postal_code :: "string option"
  u_country :: "string option"
  u_locale :: string
  u_attributes :: json
  u_enabled :: bool
  u_deleted_at :: "instant option"
  u_updated_at :: instant
  u_created_at :: instant


section \<open>Grants and sessions\<close>

(*@ oidc-core/src/models/session.rs 6-63 Session *)
record session =
  s_id :: uuid
  s_sid :: string
  s_user_id :: "uuid option"
  s_realm_id :: uuid
  s_client_id :: uuid
  s_grant_type :: string
  s_access_token_hash :: string
  s_refresh_token_hash :: "string option"
  s_id_token_jti :: "string option"
  s_scope :: "string list"
  s_revoked :: bool
  s_expires_at :: instant
  s_refresh_expires_at :: "instant option"
  s_offline_session :: bool
  s_offline_max_expires_at :: "instant option"
  s_created_at :: instant
  s_last_used_at :: "instant option"
  s_token_family_id :: "uuid option"
  s_previous_session_id :: "uuid option"
  s_rotated_at :: "instant option"
  s_reused_at :: "instant option"
  s_family_revoked :: bool
  s_authorization_details :: "json option"
  s_resource :: "string list"
  s_acr :: string
  s_amr :: "string list"

(*@ oidc-core/src/models/auth_code.rs 61-106 AuthCode *)
record auth_code =
  ac_id :: uuid
  ac_code :: string
  ac_client_id :: uuid
  ac_user_id :: uuid
  ac_realm_id :: uuid
  ac_redirect_uri :: string
  ac_scope :: "string list"
  ac_code_challenge :: string
  ac_code_challenge_method :: string
  ac_nonce :: "string option"
  ac_used :: bool
  ac_claims_request :: "json option"
  ac_display :: "string option"
  ac_response_type :: response_type
  ac_acr_values :: "string list"
  ac_claims_locales :: "string list"
  ac_expires_at :: instant
  ac_response_mode :: "string option"
  ac_authorization_details :: "json option"
  ac_resource :: "string list"
  ac_auth_acr :: "string option"
  ac_auth_amr :: "string list"

(*@ oidc-core/src/models/device_code.rs 9-38 DeviceCode *)
record device_code =
  dc_id :: uuid
  dc_client_id :: uuid
  dc_realm_id :: uuid
  dc_device_code :: string
  dc_user_code :: string
  dc_verification_uri :: string
  dc_verification_uri_complete :: "string option"
  dc_expires_at :: instant
  dc_interval :: int
  dc_used :: bool
  dc_authorized :: bool
  dc_user_id :: "uuid option"
  dc_scope :: "string list"
  dc_created_at :: instant

(*@ oidc-core/src/models/ciba.rs 7-13 CibaClientConfig *)
record ciba_config =
  cc_client_id :: uuid
  cc_delivery_mode :: string
  cc_notification_endpoint :: "string option"
  cc_request_lifetime_seconds :: int
  cc_polling_interval_seconds :: int

(*@ oidc-core/src/models/ciba.rs 16-41 CibaAuthenticationRequest *)
record ciba_request =
  cr_id :: uuid
  cr_auth_req_id_hash :: string
  cr_auth_req_id_encrypted :: string
  cr_client_id :: uuid
  cr_realm_id :: uuid
  cr_user_id :: uuid
  cr_scope :: "string list"
  cr_binding_message :: "string option"
  cr_request_context :: "string option"
  cr_notification_token_encrypted :: "string option"
  cr_delivery_mode :: string
  cr_notification_endpoint :: "string option"
  cr_status :: string
  cr_interval_seconds :: int
  cr_last_polled_at :: "instant option"
  cr_requested_acr :: "string list"
  cr_auth_time :: "instant option"
  cr_acr :: "string option"
  cr_amr :: "string list"
  cr_expires_at :: instant
  cr_created_at :: instant
  cr_updated_at :: instant


section \<open>Roles, groups, scopes, mappers and organizations\<close>

(*@ oidc-core/src/models/role.rs 106-124 Role *)
record role =
  ro_id :: uuid
  ro_realm_id :: uuid
  ro_name :: string
  ro_description :: "string option"
  ro_permissions :: "string list"
  ro_created_at :: instant
  ro_updated_at :: instant
  ro_client_id :: "uuid option"
  ro_deleted_at :: "instant option"

(*@ oidc-core/src/models/group.rs 105-120 Group *)
record group =
  g_id :: uuid
  g_realm_id :: uuid
  g_name :: string
  g_description :: "string option"
  g_parent_id :: "uuid option"
  g_created_at :: instant
  g_updated_at :: instant
  g_deleted_at :: "instant option"

(*@ oidc-core/src/models/scope.rs 10-21 Scope *)
record scope =
  sc_id :: uuid
  sc_realm_id :: uuid
  sc_name :: string
  sc_description :: "string option"
  sc_enabled :: bool

(*@ oidc-core/src/models/protocol_mapper.rs 180-186 ClientScopeAssignment *)
record client_scope_assignment =
  csa_scope_id :: uuid
  csa_name :: string
  csa_description :: "string option"
  csa_enabled :: bool
  csa_assignment_type :: string

(*@ oidc-core/src/models/protocol_mapper.rs 9-16 ProtocolMapperType *)
datatype mapper_type =
  UserProperty | UserAttribute | HardcodedClaim | Audience | RealmRoles | ClientRoles

(*@ oidc-core/src/models/protocol_mapper.rs 50-62 ProtocolMapper *)
record protocol_mapper =
  pm_id :: uuid
  pm_scope_id :: uuid
  pm_name :: string
  pm_mapper_type :: mapper_type
  pm_claim_name :: "string option"
  pm_source :: "string option"
  pm_claim_value :: "json option"
  pm_multivalued :: bool
  pm_access_token :: bool
  pm_id_token :: bool
  pm_userinfo :: bool

(*@ oidc-core/src/models/organization.rs 10-22 Organization *)
record organization =
  o_id :: uuid
  o_realm_id :: uuid
  o_name :: string
  o_alias :: string
  o_enabled :: bool
  o_attributes :: json
  o_claim_attribute_names :: "string list"
  o_redirect_url :: "string option"
  o_created_at :: instant
  o_updated_at :: instant
  o_deleted_at :: "instant option"

(*@ oidc-core/src/models/organization.rs 116-119 OrganizationMembershipKind *)
datatype membership_kind = Managed | Unmanaged

(*@ oidc-core/src/models/organization.rs 122-127 OrganizationMembership *)
record membership =
  om_organization_id :: uuid
  om_user_id :: uuid
  om_kind :: membership_kind
  om_joined_at :: instant


section \<open>Consents, audit events, required actions and workflows\<close>

(*@ oidc-core/src/models/user_consent.rs 5-14 UserConsent *)
record user_consent =
  uc_id :: uuid
  uc_user_id :: uuid
  uc_realm_id :: uuid
  uc_client_id :: uuid
  uc_scopes :: "string list"
  uc_created_at :: instant
  uc_updated_at :: instant

(*@ oidc-core/src/models/audit_event.rs 34-42 ActorType *)
datatype actor_type = UserActor | ApiKeyActor | SystemActor

(*@ oidc-core/src/models/audit_event.rs 6-30 AuditEvent *)
record audit_event =
  ae_id :: uuid
  ae_realm_id :: "uuid option"
  ae_event_type :: string
  ae_actor_id :: "uuid option"
  ae_actor_type :: actor_type
  ae_target_type :: "string option"
  ae_target_id :: "uuid option"
  ae_details :: json
  ae_ip_address :: "string option"
  ae_user_agent :: "string option"
  ae_created_at :: instant

(*@ oidc-core/src/models/required_action.rs 5-13 RequiredActionKind *)
datatype required_action = UpdatePassword | VerifyEmail | UpdateProfile | ConfigureMfa | AcceptTerms

(*@ oidc-core/src/models/workflow.rs 8-16 WorkflowCondition *)
datatype workflow_condition =
  UserEnabled bool
| EmailVerified bool
| UserAttributeEquals string string
| InactiveForDays int
| HasRole uuid
| InGroup uuid

(*@ oidc-core/src/models/workflow.rs 19-33 WorkflowAction *)
datatype workflow_action =
  DisableUser
| EnableUser
| DeleteUser
| AddRequiredAction required_action
| RemoveRequiredAction required_action
| RevokeSessions
| SetUserAttribute string string
| RemoveUserAttribute string
| GrantRole uuid
| RevokeRole uuid
| JoinGroup uuid
| LeaveGroup uuid

(*@ oidc-core/src/models/workflow.rs 35-40 WorkflowStep *)
record workflow_step =
  ws_action :: workflow_action
  ws_after_seconds :: int

(*@ oidc-core/src/models/workflow.rs 42-47 WorkflowSchedule *)
record workflow_schedule =
  wsch_every_seconds :: int
  wsch_batch_size :: int

(*@ oidc-core/src/models/workflow.rs 53-69 Workflow *)
record workflow =
  w_id :: uuid
  w_realm_id :: uuid
  w_name :: string
  w_description :: "string option"
  w_enabled :: bool
  w_trigger_events :: "string list"
  w_conditions :: "workflow_condition list"
  w_steps :: "workflow_step list"
  w_schedule :: "workflow_schedule option"
  w_last_scheduled_at :: "instant option"
  w_created_at :: instant
  w_updated_at :: instant
  w_deleted_at :: "instant option"

(*@ oidc-core/src/models/workflow.rs 136-144 WorkflowExecutionStatus *)
datatype execution_status = Queued | Waiting | Running | Completed | Failed | Cancelled

(*@ oidc-core/src/models/workflow.rs 174-190 WorkflowExecution *)
record execution =
  x_id :: uuid
  x_workflow_id :: uuid
  x_realm_id :: uuid
  x_user_id :: uuid
  x_trigger_event :: string
  x_status :: execution_status
  x_current_step :: int
  x_attempts :: int
  x_next_run_at :: instant
  x_last_error :: "string option"
  x_started_at :: "instant option"
  x_completed_at :: "instant option"
  x_created_at :: instant
  x_updated_at :: instant


section \<open>Requesting party tokens\<close>

(*@ oidc-core/src/models/authorization_service.rs 70-80 RptGrant *)
record rpt_grant =
  rp_id :: uuid
  rp_realm_id :: uuid
  rp_resource_server_id :: uuid
  rp_subject_id :: uuid
  rp_client_id :: uuid
  rp_permissions :: json
  rp_revoked :: bool
  rp_expires_at :: instant
  rp_created_at :: instant


section \<open>Authorization services\<close>

(*@ oidc-core/src/models/authorization_service.rs 7-21 ProtectedResource *)
record protected_resource =
  pr_id :: uuid
  pr_realm_id :: uuid
  pr_resource_server_id :: uuid
  pr_owner_id :: "uuid option"
  pr_name :: string
  pr_display_name :: "string option"
  pr_resource_type :: "string option"
  pr_uris :: "string list"
  pr_scopes :: "string list"
  pr_attributes :: json
  pr_icon_uri :: "string option"
  pr_created_at :: instant
  pr_updated_at :: instant

(*@ oidc-core/src/models/authorization_service.rs 24-36 AuthorizationPolicy *)
record authorization_policy =
  ap_id :: uuid
  ap_realm_id :: uuid
  ap_resource_server_id :: uuid
  ap_name :: string
  ap_description :: "string option"
  ap_policy_type :: string
  ap_logic :: string
  ap_config :: json
  ap_created_at :: instant
  ap_updated_at :: instant

(*@ oidc-core/src/models/authorization_service.rs 39-53 AuthorizationPermission *)
record authorization_permission =
  az_id :: uuid
  az_realm_id :: uuid
  az_resource_server_id :: uuid
  az_name :: string
  az_description :: "string option"
  az_resources :: "uuid list"
  az_scopes :: "string list"
  az_policies :: "uuid list"
  az_decision_strategy :: string
  az_created_at :: instant
  az_updated_at :: instant

text \<open>The column \<open>token_hash\<close> of the table is a field too.\<close>

(*@ oidc-core/src/models/authorization_service.rs 56-67 PermissionTicket *)
record permission_ticket =
  pt_id :: uuid
  pt_token_hash :: string
  pt_realm_id :: uuid
  pt_resource_server_id :: uuid
  pt_requester_id :: "uuid option"
  pt_resource_id :: uuid
  pt_scopes :: "string list"
  pt_granted :: bool
  pt_used :: bool
  pt_expires_at :: instant
  pt_created_at :: instant


section \<open>Second factors, required actions, links in mails\<close>

(*@ oidc-core/src/models/mfa.rs 6-14 TotpCredential *)
record totp_credential =
  tc_id :: uuid
  tc_user_id :: uuid
  tc_secret_encrypted :: string
  tc_label :: string
  tc_created_at :: instant
  tc_last_used_at :: "instant option"

(*@ oidc-core/src/models/mfa.rs 17-26 WebauthnCredential *)
record webauthn_credential =
  wc_id :: uuid
  wc_user_id :: uuid
  wc_credential_id :: string
  wc_credential :: json
  wc_label :: string
  wc_created_at :: instant
  wc_last_used_at :: "instant option"

(*@ oidc-core/src/models/mfa.rs 29-34 RecoveryCode *)
record recovery_code =
  rv_id :: uuid
  rv_user_id :: uuid
  rv_code_hash :: string
  rv_used_at :: "instant option"

(*@ oidc-core/src/models/mfa.rs 37-49 MfaCeremony *)
record mfa_ceremony =
  mf_id :: uuid
  mf_token_hash :: string
  mf_user_id :: uuid
  mf_realm_id :: uuid
  mf_client_id :: "uuid option"
  mf_purpose :: string
  mf_state :: json
  mf_attempts :: int
  mf_expires_at :: instant
  mf_used_at :: "instant option"
  mf_created_at :: instant

(*@ oidc-core/src/models/required_action.rs 159-167 RequiredActionSession *)
record action_session =
  acs_id :: uuid
  acs_token_hash :: string
  acs_user_id :: uuid
  acs_realm_id :: uuid
  acs_client_id :: uuid
  acs_expires_at :: instant
  acs_used_at :: "instant option"

(*@ oidc-core/src/models/federated_identity.rs 8-27 FederatedIdentity *)
record federated_identity =
  fi_id :: uuid
  fi_user_id :: uuid
  fi_realm_id :: uuid
  fi_identity_provider_id :: uuid
  fi_upstream_subject :: string
  fi_upstream_username :: "string option"
  fi_upstream_email :: "string option"
  fi_created_at :: instant
  fi_last_used_at :: "instant option"

(*@ oidc-core/src/models/pushed_authorization_request.rs 10-27 PushedAuthorizationRequest *)
record pushed_request =
  par_id :: uuid
  par_client_id :: uuid
  par_realm_id :: uuid
  par_request_uri_token :: string
  par_request_params :: json
  par_expires_at :: instant
  par_used :: bool
  par_created_at :: instant

(*@ oidc-core/src/models/password_reset_token.rs 6-21 PasswordResetToken *)
record reset_token =
  rt_id :: uuid
  rt_user_id :: uuid
  rt_realm_id :: uuid
  rt_token_hash :: string
  rt_used :: bool
  rt_expires_at :: instant
  rt_created_at :: instant

(*@ oidc-core/src/models/account_recovery_token.rs 11-32 AccountRecoveryToken *)
record recovery_token =
  art_id :: uuid
  art_user_id :: uuid
  art_realm_id :: uuid
  art_token_hash :: string
  art_expires_at :: instant
  art_used :: bool
  art_used_at :: "instant option"
  art_created_by :: uuid
  art_creator_ip :: "string option"
  art_created_at :: instant

(*@ oidc-core/src/models/email_verification_token.rs 6-23 EmailVerificationToken *)
record email_token =
  ev_id :: uuid
  ev_user_id :: uuid
  ev_realm_id :: uuid
  ev_email :: string
  ev_token_hash :: string
  ev_used :: bool
  ev_expires_at :: instant
  ev_created_at :: instant

(*@ oidc-core/src/models/organization.rs 163-168 OrganizationInvitationStatus *)
datatype invitation_status = InvitePending | InviteAccepted | InviteRevoked | InviteExpired

(*@ oidc-core/src/models/organization.rs 171-184 OrganizationInvitation *)
record invitation =
  in_id :: uuid
  in_organization_id :: uuid
  in_email :: string
  in_first_name :: "string option"
  in_last_name :: "string option"
  in_token_hash :: string
  in_status :: invitation_status
  in_invited_by :: "uuid option"
  in_expires_at :: instant
  in_created_at :: instant
  in_accepted_at :: "instant option"


section \<open>User federation\<close>

(*@ oidc-core/src/models/user_federation.rs 10-14 UserFederationType *)
datatype federation_type = Ldap | ActiveDirectory | Kerberos

text \<open>The column \<open>deleted_at\<close> of the table is a field too.\<close>

(*@ oidc-core/src/models/user_federation.rs 42-60 UserFederationProvider *)
record federation_provider =
  fp_id :: uuid
  fp_realm_id :: uuid
  fp_name :: string
  fp_provider_type :: federation_type
  fp_enabled :: bool
  fp_priority :: int
  fp_gateway_url :: string
  fp_gateway_secret :: string
  fp_config :: json
  fp_import_users :: bool
  fp_sync_groups :: bool
  fp_deleted_at :: "instant option"

(*@ oidc-core/src/models/user_federation.rs 128-146 DirectoryUser *)
record directory_user =
  du_external_id :: string
  du_username :: string
  du_email :: string
  du_dn :: "string option"
  du_given_name :: "string option"
  du_family_name :: "string option"
  du_enabled :: bool
  du_groups :: "string list"
  du_attributes :: json

(*@ oidc-core/src/models/user_federation.rs 177-186 FederatedDirectoryUser *)
record directory_link =
  dl_id :: uuid
  dl_provider_id :: uuid
  dl_user_id :: uuid
  dl_external_id :: string
  dl_external_username :: string
  dl_external_dn :: "string option"
  dl_last_login_at :: "instant option"
  dl_last_synced_at :: instant


section \<open>Upstream identity providers\<close>

(*@ oidc-core/src/models/identity_provider.rs 52-61 IdentityProviderType *)
datatype idp_type = Idp_Oidc | Idp_Google | Idp_GitHub | Idp_Saml

(*@ oidc-core/src/models/identity_provider.rs 8-48 IdentityProvider *)
record identity_provider =
  ip_id :: uuid
  ip_realm_id :: uuid
  ip_alias :: string
  ip_display_name :: string
  ip_provider_type :: idp_type
  ip_enabled :: bool
  ip_issuer :: string
  ip_authorization_url :: string
  ip_token_url :: string
  ip_userinfo_url :: string
  ip_jwks_url :: string
  ip_client_id :: string
  ip_client_secret :: string
  ip_scopes :: "string list"
  ip_saml_metadata_xml :: "string option"
  ip_saml_attribute_mapping :: json
  ip_auto_create_users :: bool
  ip_link_users_by_email :: bool
  ip_deleted_at :: "instant option"

(*@ oidc-core/src/models/social_login_state.rs 10-37 SocialLoginState *)
record social_state =
  sl_id :: uuid
  sl_state_token_hash :: string
  sl_realm_id :: uuid
  sl_identity_provider_id :: uuid
  sl_client_id :: uuid
  sl_redirect_uri :: string
  sl_original_state :: "string option"
  sl_nonce :: "string option"
  sl_code_challenge :: string
  sl_requested_scopes :: "string list"
  sl_expires_at :: instant
  sl_used :: bool
  sl_created_at :: instant

(*@ oidc-core/src/models/organization.rs 78-81 OrganizationDomainKind *)
datatype domain_kind = Exact_Domain | Wildcard_Domain

(*@ oidc-core/src/models/organization.rs 85-93 OrganizationDomain *)
record org_domain =
  od_id :: uuid
  od_organization_id :: uuid
  od_domain :: string
  od_kind :: domain_kind
  od_verified :: bool
  od_verification_token_hash :: "string option"

text \<open>A row of \<open>organization_identity_providers\<close>.\<close>

record org_provider =
  op_organization_id :: uuid
  op_identity_provider_id :: uuid
  op_redirect_on_email_domain :: bool


section \<open>API keys\<close>

(*@ oidc-core/src/models/api_key.rs 7-35 ApiKey *)
record api_key =
  ak_id :: uuid
  ak_realm_id :: uuid
  ak_name :: string
  ak_prefix :: string
  ak_hashed_secret :: string
  ak_scopes :: "string list"
  ak_revoked :: bool
  ak_request_count :: int
  ak_expires_at :: "instant option"
  ak_last_used_at :: "instant option"
  ak_created_at :: instant
  ak_created_by :: "uuid option"
  ak_rotated_at :: "instant option"


section \<open>Client policies\<close>

(*@ oidc-core/src/models/client_policy.rs 10-15 ClientRegistrationContext *)
datatype registration_context = Admin_Context | Dynamic_Context

(*@ oidc-core/src/models/client_policy.rs 17-23 MatchMode *)
datatype match_mode = Match_Any | Match_All

(*@ oidc-core/src/models/client_policy.rs 25-48 ClientPolicyCondition *)
datatype policy_condition =
  Always
| Registration_Context "registration_context list"
| Client_Type client_type
| Client_Id string
| Grant_Types "string list" match_mode
| Client_Scopes "string list" match_mode

(*@ oidc-core/src/models/client_policy.rs 50-74 ClientPolicyExecutor *)
datatype policy_executor =
  Require_Pkce
| Secure_Redirect_Uris bool
| Allowed_Grant_Types "string list"
| Allowed_Scopes "string list"
| Allowed_Client_Auth_Methods "string list"
| Require_Client_Type client_type
| Maximum_Redirect_Uris nat
| Require_Pairwise_Subject

(*@ oidc-core/src/models/client_policy.rs 76-85 ClientPolicyProfile *)
record policy_profile =
  pp_id :: uuid
  pp_realm_id :: uuid
  pp_name :: string
  pp_description :: "string option"
  pp_executors :: "policy_executor list"
  pp_created_at :: instant
  pp_updated_at :: instant

(*@ oidc-core/src/models/client_policy.rs 87-99 ClientPolicy *)
record client_policy =
  cp_id :: uuid
  cp_realm_id :: uuid
  cp_name :: string
  cp_description :: "string option"
  cp_enabled :: bool
  cp_priority :: int
  cp_conditions :: "policy_condition list"
  cp_profile_ids :: "uuid list"
  cp_created_at :: instant
  cp_updated_at :: instant

end
