(* ===== verification/Store.thy ===== *)
theory Store
  imports Models Errors
begin

text \<open>The database: one list of rows for each table that the flows use, and the queries and
  updates of \<open>oidc-repository/src/repositories\<close> on it.  A \<open>SELECT\<close> that yields at most one row is
  \<open>List.find\<close>, one that yields many is \<open>filter\<close>, an \<open>UPDATE ... WHERE\<close> maps the rows the clause
  selects.  A comparison with a \<open>NULL\<close> column is not true.  \<open>now\<close> is \<open>NOW()\<close>, the start of the
  transaction.  A transport failure of the database (which every operation turns into
  \<open>Internal\<close>) is not modelled.\<close>

record db =
  d_realms :: "realm list"
  d_clients :: "client list"
  d_users :: "user list"
  d_sessions :: "session list"
  d_codes :: "auth_code list"
  d_devices :: "device_code list"
  d_ciba :: "ciba_request list"
  d_ciba_configs :: "ciba_config list"
  d_roles :: "role list"
  d_groups :: "group list"
  d_user_roles :: "(uuid \<times> uuid) list"
  d_user_groups :: "(uuid \<times> uuid) list"
  d_group_roles :: "(uuid \<times> uuid) list"
  d_role_composites :: "(uuid \<times> uuid) list"
  d_scopes :: "scope list"
  d_client_scopes :: "(uuid \<times> uuid \<times> string) list"
  d_mappers :: "protocol_mapper list"
  d_orgs :: "organization list"
  d_memberships :: "membership list"
  d_org_groups :: "(uuid \<times> uuid) list"
  d_consents :: "user_consent list"
  d_audit :: "audit_event list"
  d_required_actions :: "(uuid \<times> required_action) list"
  d_workflows :: "workflow list"
  d_executions :: "execution list"
  d_rpts :: "rpt_grant list"
  d_resources :: "protected_resource list"
  d_policies :: "authorization_policy list"
  d_permissions :: "authorization_permission list"
  d_tickets :: "permission_ticket list"
  d_totp :: "totp_credential list"
  d_webauthn :: "webauthn_credential list"
  d_recovery_codes :: "recovery_code list"
  d_ceremonies :: "mfa_ceremony list"
  d_terms :: "(uuid \<times> string) list"
  d_action_sessions :: "action_session list"
  d_identities :: "federated_identity list"
  d_pars :: "pushed_request list"
  d_reset_tokens :: "reset_token list"
  d_recovery_tokens :: "recovery_token list"
  d_providers :: "federation_provider list"
  d_directory_links :: "directory_link list"
  d_email_tokens :: "email_token list"
  d_invitations :: "invitation list"
  d_api_keys :: "api_key list"
  d_policy_profiles :: "policy_profile list"
  d_client_policies :: "client_policy list"
  d_identity_providers :: "identity_provider list"
  d_social_states :: "social_state list"
  d_org_domains :: "org_domain list"
  d_org_providers :: "org_provider list"

definition update_where :: "('a \<Rightarrow> bool) \<Rightarrow> ('a \<Rightarrow> 'a) \<Rightarrow> 'a list \<Rightarrow> 'a list" where
  "update_where P f rows = map (\<lambda>x. if P x then f x else x) rows"

text \<open>\<open>column > NOW()\<close> for a nullable column.\<close>

definition after :: "instant option \<Rightarrow> instant \<Rightarrow> bool" where
  "after t now = (case t of None \<Rightarrow> False | Some x \<Rightarrow> now < x)"

lemma after_simps [simp]: "\<not> after None now" "after (Some x) now \<longleftrightarrow> now < x"
  by (simp_all add: after_def)

lemma set_update_where [table]:
  "set (update_where P f rows) = (\<lambda>x. if P x then f x else x) ` set rows"
  by (simp add: update_where_def)

lemma update_where_elem [table]:
  "x \<in> set (update_where P f rows) \<longleftrightarrow>
     (\<exists>y \<in> set rows. P y \<and> x = f y \<or> \<not> P y \<and> x = y)"
  unfolding set_update_where by (auto split: if_splits)

lemma map_update_where [table]:
  "(\<And>x. g (f x) = g x) \<Longrightarrow> map g (update_where P f rows) = map g rows"
  unfolding update_where_def by (induction rows) auto

lemma length_update_where [simp]: "length (update_where P f rows) = length rows"
  by (simp add: update_where_def)

lemma find_Some_set [table]: "List.find P rows = Some x \<Longrightarrow> x \<in> set rows \<and> P x"
  by (auto simp: find_Some_iff)

lemma find_update_where_None [table]:
  assumes "\<And>x. P x \<Longrightarrow> Q x \<Longrightarrow> \<not> P (f x)" and "\<And>x. P (f x) \<Longrightarrow> P x"
    and "\<And>x. x \<in> set rows \<Longrightarrow> P x \<Longrightarrow> Q x"
  shows "List.find P (update_where Q f rows) = None"
proof -
  have "\<not> P (if Q x then f x else x)" if "x \<in> set rows" for x
    using assms that by metis
  then show ?thesis
    unfolding find_None_iff set_update_where by blast
qed


lemma find_update_where [table]:
  "(\<And>x. P (f x) = P x) \<Longrightarrow>
     List.find P (update_where Q f rows) = map_option (\<lambda>x. if Q x then f x else x) (List.find P rows)"
  unfolding update_where_def by (induction rows) auto

lemma find_append [table]:
  "List.find P (xs @ ys) = (case List.find P xs of None \<Rightarrow> List.find P ys | Some x \<Rightarrow> Some x)"
  by (induction xs) auto

lemma find_append_new [table]:
  "\<forall>x \<in> set xs. \<not> P x \<Longrightarrow> List.find P (xs @ [y]) = (if P y then Some y else None)"
  by (induction xs) auto

text \<open>The operators \<open>||\<close> and \<open>-\<close> of PostgreSQL on \<open>jsonb\<close>: objects are merged, everything else is
  concatenated as arrays; a key is removed from an object, a string from an array, and nothing can be
  removed from a scalar.\<close>

fun as_elems :: "json \<Rightarrow> json list" where
  "as_elems (JArr xs) = xs"
| "as_elems v = [v]"

fun pg_concat :: "json \<Rightarrow> json \<Rightarrow> json" where
  "pg_concat (JObj a) (JObj b) = JObj (obj.ins_all b a)"
| "pg_concat a b = JArr (as_elems a @ as_elems b)"

fun pg_minus :: "json \<Rightarrow> string \<Rightarrow> json option" where
  "pg_minus (JObj m) k = Some (JObj (filter (\<lambda>(n, _). n \<noteq> k) m))"
| "pg_minus (JArr xs) k = Some (JArr (filter (\<lambda>v. v \<noteq> JStr k) xs))"
| "pg_minus _ k = None"


section \<open>Clients, users, realms\<close>

(*@ oidc-repository/src/repositories/client_repo.rs 45-57 ClientRepo::find_by_id *)
definition client_by_id :: "uuid \<Rightarrow> db \<Rightarrow> client option" where
  "client_by_id i d = List.find (\<lambda>c. c_id c = i \<and> c_deleted_at c = None) (d_clients d)"

(*@ oidc-repository/src/repositories/client_repo.rs 60-73 ClientRepo::find_by_client_id *)
definition client_by_client_id :: "string \<Rightarrow> db \<Rightarrow> client option" where
  "client_by_client_id cid d =
     List.find (\<lambda>c. c_client_id c = cid \<and> c_deleted_at c = None) (d_clients d)"

(*@ oidc-repository/src/repositories/user_repo.rs 54-65 UserRepo::find_by_id *)
definition user_by_id :: "uuid \<Rightarrow> db \<Rightarrow> user option" where
  "user_by_id i d = List.find (\<lambda>u. u_id u = i \<and> u_deleted_at u = None) (d_users d)"

(*@ oidc-repository/src/repositories/user_repo.rs 68-82 UserRepo::find_by_email *)
definition user_by_email :: "uuid \<Rightarrow> string \<Rightarrow> db \<Rightarrow> user option" where
  "user_by_email realm email d =
     List.find (\<lambda>u. u_realm_id u = realm \<and> u_email u = email \<and> u_deleted_at u = None) (d_users d)"

(*@ oidc-repository/src/repositories/user_repo.rs 37-51 UserRepo::find_by_username *)
definition user_by_username :: "(string \<Rightarrow> string) \<Rightarrow> uuid \<Rightarrow> string \<Rightarrow> db \<Rightarrow> user option" where
  "user_by_username lower realm name d =
     List.find (\<lambda>u. u_realm_id u = realm \<and> map_option lower (u_username u) = Some (lower name)
                    \<and> u_deleted_at u = None) (d_users d)"

(*@ oidc-repository/src/repositories/realm_repo.rs 17-29 RealmRepo::find_by_id *)
definition realm_by_id :: "uuid \<Rightarrow> db \<Rightarrow> realm option" where
  "realm_by_id i d = List.find (\<lambda>r. r_id r = i \<and> r_deleted_at r = None) (d_realms d)"

(*@ oidc-repository/src/repositories/realm_repo.rs 32-44 RealmRepo::find_by_name *)
definition realm_by_name :: "string \<Rightarrow> db \<Rightarrow> realm option" where
  "realm_by_name name d = List.find (\<lambda>r. r_name r = name \<and> r_deleted_at r = None) (d_realms d)"

(*@ oidc-repository/src/repositories/group_repo.rs 203-222 GroupRepo::find_by_user_id *)
definition groups_of_user :: "uuid \<Rightarrow> db \<Rightarrow> group list" where
  "groups_of_user uid d =
     filter (\<lambda>g. g_deleted_at g = None \<and> (uid, g_id g) \<in> set (d_user_groups d)) (d_groups d)"

(*@ oidc-repository/src/repositories/organization_repo.rs 466-476 OrganizationRepo::is_managed_user_blocked *)
definition is_managed_user_blocked :: "uuid \<Rightarrow> db \<Rightarrow> bool" where
  "is_managed_user_blocked uid d \<longleftrightarrow>
     (\<exists>om \<in> set (d_memberships d). \<exists>org \<in> set (d_orgs d).
        o_id org = om_organization_id om \<and> om_user_id om = uid \<and> om_kind om = Managed
        \<and> (\<not> o_enabled org \<or> o_deleted_at org \<noteq> None))"


section \<open>Authorization codes\<close>

(*@ oidc-repository/src/repositories/auth_code_repo.rs 14-31 AuthCodeRepo::find_by_code *)
definition code_by_code :: "(string \<Rightarrow> string) \<Rightarrow> instant \<Rightarrow> string \<Rightarrow> db \<Rightarrow> auth_code option" where
  "code_by_code sha now code d =
     List.find (\<lambda>ac. ac_code ac = sha code \<and> \<not> ac_used ac \<and> now < ac_expires_at ac) (d_codes d)"

text \<open>The table has unique keys on the identifier and on the code.\<close>

(*@ oidc-repository/src/repositories/auth_code_repo.rs 34-72 AuthCodeRepo::create *)
definition code_create :: "(string \<Rightarrow> string) \<Rightarrow> auth_code \<Rightarrow> (db, oidc_error, unit) prog" where
  "code_create sha ac =
     bindp (query d_codes) (\<lambda>codes.
     thenp (guardp (\<forall>x \<in> set codes. ac_id x \<noteq> ac_id ac \<and> ac_code x \<noteq> sha (ac_code ac))
              (Conflict ''duplicate key''))
       (exec (d_codes_update (\<lambda>cs. cs @ [ac\<lparr>ac_code := sha (ac_code ac)\<rparr>]))))"

(*@ oidc-repository/src/repositories/auth_code_repo.rs 75-81 AuthCodeRepo::mark_used *)
definition code_mark_used :: "uuid \<Rightarrow> db \<Rightarrow> db" where
  "code_mark_used i = d_codes_update (update_where (\<lambda>ac. ac_id ac = i) (ac_used_update (\<lambda>_. True)))"

(*@ oidc-repository/src/repositories/auth_code_repo.rs 84-91 AuthCodeRepo::cleanup_expired *)
definition code_cleanup :: "instant \<Rightarrow> db \<Rightarrow> db" where
  "code_cleanup now = d_codes_update (filter (\<lambda>ac. \<not> ac_expires_at ac < now))"


section \<open>Device codes\<close>

(*@ oidc-repository/src/repositories/device_code_repo.rs 21-56 DeviceCodeRepo::create *)
definition device_create :: "device_code \<Rightarrow> (db, oidc_error, unit) prog" where
  "device_create dc =
     bindp (query d_devices) (\<lambda>devs.
     thenp (guardp (\<forall>x \<in> set devs. dc_id x \<noteq> dc_id dc) (Conflict ''duplicate key''))
       (exec (d_devices_update (\<lambda>ds. ds @ [dc]))))"

(*@ oidc-repository/src/repositories/device_code_repo.rs 59-73 DeviceCodeRepo::find_by_device_code *)
definition device_by_hash :: "instant \<Rightarrow> string \<Rightarrow> db \<Rightarrow> device_code option" where
  "device_by_hash now h d =
     List.find (\<lambda>dc. dc_device_code dc = h \<and> \<not> dc_used dc \<and> now < dc_expires_at dc) (d_devices d)"

(*@ oidc-repository/src/repositories/device_code_repo.rs 76-90 DeviceCodeRepo::find_by_user_code *)
definition device_by_user_code :: "instant \<Rightarrow> string \<Rightarrow> db \<Rightarrow> device_code option" where
  "device_by_user_code now code d =
     List.find (\<lambda>dc. dc_user_code dc = code \<and> now < dc_expires_at dc) (d_devices d)"

(*@ oidc-repository/src/repositories/device_code_repo.rs 93-105 DeviceCodeRepo::mark_authorized *)
definition device_mark_authorized :: "uuid \<Rightarrow> uuid \<Rightarrow> db \<Rightarrow> db" where
  "device_mark_authorized i uid =
     d_devices_update (update_where (\<lambda>dc. dc_id dc = i \<and> \<not> dc_used dc)
       (\<lambda>dc. dc\<lparr>dc_authorized := True, dc_user_id := Some uid\<rparr>))"

(*@ oidc-repository/src/repositories/device_code_repo.rs 108-114 DeviceCodeRepo::mark_used *)
definition device_mark_used :: "uuid \<Rightarrow> db \<Rightarrow> db" where
  "device_mark_used i = d_devices_update (update_where (\<lambda>dc. dc_id dc = i) (dc_used_update (\<lambda>_. True)))"

(*@ oidc-repository/src/repositories/device_code_repo.rs 117-124 DeviceCodeRepo::cleanup_expired *)
definition device_cleanup :: "instant \<Rightarrow> db \<Rightarrow> db" where
  "device_cleanup now = d_devices_update (filter (\<lambda>dc. \<not> dc_expires_at dc < now))"


section \<open>CIBA requests\<close>

(*@ oidc-repository/src/repositories/ciba_repo.rs 13-29 CibaRepo::config *)
definition ciba_config_of :: "uuid \<Rightarrow> db \<Rightarrow> ciba_config option" where
  "ciba_config_of cid d = List.find (\<lambda>c. cc_client_id c = cid) (d_ciba_configs d)"

(*@ oidc-repository/src/repositories/ciba_repo.rs 40-47 CibaRepo::create *)
definition ciba_create :: "ciba_request \<Rightarrow> (db, oidc_error, unit) prog" where
  "ciba_create r =
     bindp (query d_ciba) (\<lambda>rs.
     thenp (guardp (\<forall>x \<in> set rs. cr_id x \<noteq> cr_id r \<and> cr_auth_req_id_hash x \<noteq> cr_auth_req_id_hash r)
              (Conflict ''duplicate key''))
       (exec (d_ciba_update (\<lambda>rs. rs @ [r]))))"

(*@ oidc-repository/src/repositories/ciba_repo.rs 49-62 CibaRepo::find_for_update *)
definition ciba_by_hash :: "string \<Rightarrow> db \<Rightarrow> ciba_request option" where
  "ciba_by_hash h d = List.find (\<lambda>r. cr_auth_req_id_hash r = h) (d_ciba d)"

(*@ oidc-repository/src/repositories/ciba_repo.rs 64-78 CibaRepo::find_user_request *)
definition ciba_user_request :: "uuid \<Rightarrow> uuid \<Rightarrow> db \<Rightarrow> ciba_request option" where
  "ciba_user_request i uid d = List.find (\<lambda>r. cr_id r = i \<and> cr_user_id r = uid) (d_ciba d)"

definition ciba_decidable :: "uuid \<Rightarrow> uuid \<Rightarrow> instant \<Rightarrow> ciba_request \<Rightarrow> bool" where
  "ciba_decidable i uid now r \<longleftrightarrow>
     cr_id r = i \<and> cr_user_id r = uid \<and> cr_status r = ''pending'' \<and> now < cr_expires_at r"

text \<open>The number of rows changed is the result.\<close>

(*@ oidc-repository/src/repositories/ciba_repo.rs 105-116 CibaRepo::decide *)
definition ciba_decide ::
  "instant \<Rightarrow> uuid \<Rightarrow> uuid \<Rightarrow> string \<Rightarrow> instant \<Rightarrow> string \<Rightarrow> string list \<Rightarrow> (db, oidc_error, nat) prog" where
  "ciba_decide now i uid status auth_time acr amr =
     bindp (query (\<lambda>d. length (filter (ciba_decidable i uid now) (d_ciba d)))) (\<lambda>n.
     thenp (exec (d_ciba_update (update_where (ciba_decidable i uid now)
              (\<lambda>r. r\<lparr>cr_status := status, cr_auth_time := Some auth_time, cr_acr := Some acr,
                     cr_amr := amr, cr_updated_at := now\<rparr>))))
       (ret n))"

(*@ oidc-repository/src/repositories/ciba_repo.rs 118-126 CibaRepo::record_poll *)
definition ciba_record_poll :: "instant \<Rightarrow> uuid \<Rightarrow> int \<Rightarrow> db \<Rightarrow> db" where
  "ciba_record_poll now i interval =
     d_ciba_update (update_where (\<lambda>r. cr_id r = i)
       (\<lambda>r. r\<lparr>cr_last_polled_at := Some now, cr_interval_seconds := interval, cr_updated_at := now\<rparr>))"

(*@ oidc-repository/src/repositories/ciba_repo.rs 127-139 CibaRepo::consume, CibaRepo::expire *)
definition ciba_set_status :: "instant \<Rightarrow> string \<Rightarrow> uuid \<Rightarrow> db \<Rightarrow> db" where
  "ciba_set_status now status i =
     d_ciba_update (update_where (\<lambda>r. cr_id r = i)
       (\<lambda>r. r\<lparr>cr_status := status, cr_updated_at := now\<rparr>))"

definition ciba_consume :: "instant \<Rightarrow> uuid \<Rightarrow> db \<Rightarrow> db" where
  "ciba_consume now = ciba_set_status now ''consumed''"

definition ciba_expire :: "instant \<Rightarrow> uuid \<Rightarrow> db \<Rightarrow> db" where
  "ciba_expire now = ciba_set_status now ''expired''"

(*@ oidc-repository/src/repositories/ciba_repo.rs 141-148 CibaRepo::cleanup_expired *)
definition ciba_cleanup :: "instant \<Rightarrow> db \<Rightarrow> db" where
  "ciba_cleanup now =
     d_ciba_update (filter (\<lambda>r. \<not> (cr_expires_at r < now \<or>
       (cr_status r \<in> {''consumed'', ''denied'', ''expired''} \<and> cr_updated_at r < now - days 1))))"


section \<open>Requesting party tokens and consents\<close>

(*@ oidc-repository/src/repositories/authorization_service_repo.rs 254-261 AuthorizationServiceRepo::find_active_rpt *)
definition active_rpt :: "instant \<Rightarrow> uuid \<Rightarrow> db \<Rightarrow> rpt_grant option" where
  "active_rpt now i d =
     List.find (\<lambda>g. rp_id g = i \<and> \<not> rp_revoked g \<and> now < rp_expires_at g) (d_rpts d)"

(*@ oidc-repository/src/repositories/authorization_service_repo.rs 281-289 AuthorizationServiceRepo::revoke_rpt *)
definition revoke_rpt :: "uuid \<Rightarrow> db \<Rightarrow> db" where
  "revoke_rpt i = d_rpts_update (update_where (\<lambda>g. rp_id g = i) (rp_revoked_update (\<lambda>_. True)))"

(*@ oidc-repository/src/repositories/user_consent_repo.rs 10-23 UserConsentRepo::find *)
definition consent_of :: "uuid \<Rightarrow> uuid \<Rightarrow> db \<Rightarrow> user_consent option" where
  "consent_of uid cid d = List.find (\<lambda>c. uc_user_id c = uid \<and> uc_client_id c = cid) (d_consents d)"

text \<open>The granted scopes are added to those of an earlier consent, without duplicates among the new
  ones, and sorted; the pair of user and client is a key.\<close>

fun push_new :: "'a list \<Rightarrow> 'a list \<Rightarrow> 'a list" where
  "push_new xs [] = xs"
| "push_new xs (y # ys) = push_new (if y \<in> set xs then xs else xs @ [y]) ys"

lemma set_push_new [simp]: "set (push_new xs ys) = set xs \<union> set ys"
  by (induction ys arbitrary: xs) auto

(*@ oidc-repository/src/repositories/user_consent_repo.rs 40-71 UserConsentRepo::grant *)
definition consent_grant :: "instant \<Rightarrow> uuid \<Rightarrow> uuid \<Rightarrow> uuid \<Rightarrow> uuid \<Rightarrow> string list \<Rightarrow> db \<Rightarrow> db" where
  "consent_grant now new_id uid realm cid scopes d =
     (case consent_of uid cid d of
        None \<Rightarrow> d\<lparr>d_consents := d_consents d @
           [\<lparr>uc_id = new_id, uc_user_id = uid, uc_realm_id = realm, uc_client_id = cid,
             uc_scopes = sort_by str_le (push_new [] scopes), uc_created_at = now, uc_updated_at = now\<rparr>]\<rparr>
      | Some c \<Rightarrow> d\<lparr>d_consents := update_where (\<lambda>c. uc_user_id c = uid \<and> uc_client_id c = cid)
           (\<lambda>x. x\<lparr>uc_scopes := sort_by str_le (push_new (uc_scopes c) scopes), uc_updated_at := now\<rparr>)
           (d_consents d)\<rparr>)"

(*@ oidc-repository/src/repositories/user_consent_repo.rs 73-85 UserConsentRepo::revoke *)
definition consent_revoke :: "uuid \<Rightarrow> uuid \<Rightarrow> db \<Rightarrow> db" where
  "consent_revoke uid cid =
     d_consents_update (filter (\<lambda>c. \<not> (uc_user_id c = uid \<and> uc_client_id c = cid)))"


section \<open>One-time credentials\<close>

text \<open>What the tables of codes promise the flows: a credential that is found is live, and once it is
  consumed it is never found again, whatever else is consumed afterwards.\<close>

locale one_time_store =
  fixes find :: "instant \<Rightarrow> 'key \<Rightarrow> 'db \<Rightarrow> 'row option"
    and ident :: "'row \<Rightarrow> uuid"
    and consume :: "uuid \<Rightarrow> 'db \<Rightarrow> 'db"
    and ok :: "'db \<Rightarrow> bool"
  assumes consumed: "ok d \<Longrightarrow> find now key d = Some row \<Longrightarrow> find later key (consume (ident row) d) = None"
    and consume_other: "ok d \<Longrightarrow> find now key d = None \<Longrightarrow> find now key (consume i d) = None"
    and ok_consume: "ok d \<Longrightarrow> ok (consume i d)"
begin

lemma never_found_again:
  assumes "ok d" and "find now key d = Some row"
  shows "find later key (fold consume is (consume (ident row) d)) = None"
proof -
  have stays: "find later key (fold consume is e) = None" if "ok e" "find later key e = None" for e
    using that by (induction "is" arbitrary: e) (auto simp: consume_other ok_consume)
  show ?thesis
    using assms by (intro stays ok_consume consumed)
qed

end

text \<open>The tables of codes keep the promise as long as no two rows have the same key: the key of
  \<open>authorization_codes\<close> is unique in the schema, that of \<open>device_codes\<close> is the hash of 32 random
  bytes.\<close>

definition codes_ok :: "db \<Rightarrow> bool" where
  "codes_ok d \<longleftrightarrow> distinct (map ac_code (d_codes d))"

definition devices_ok :: "db \<Rightarrow> bool" where
  "devices_ok d \<longleftrightarrow> distinct (map dc_device_code (d_devices d))"

lemma distinct_map_same: "distinct (map f xs) \<Longrightarrow> x \<in> set xs \<Longrightarrow> y \<in> set xs \<Longrightarrow> f x = f y \<Longrightarrow> x = y"
  by (auto simp: distinct_map dest: inj_onD)

interpretation codes: one_time_store "code_by_code sha" ac_id code_mark_used codes_ok for sha
proof (unfold_locales, goal_cases)
  case (1 d now key row later)
  then have row: "row \<in> set (d_codes d)" "ac_code row = sha key"
    by (auto simp: code_by_code_def dest!: find_Some_set)
  have "ac_id x = ac_id row" if "x \<in> set (d_codes d)" "ac_code x = sha key" for x
    using distinct_map_same [of ac_code "d_codes d" x row] 1(1) that row by (simp add: codes_ok_def)
  then show ?case
    unfolding code_by_code_def code_mark_used_def by (auto intro!: find_update_where_None)
next
  case (2 d now key i)
  then show ?case
    by (auto simp: code_by_code_def code_mark_used_def find_None_iff set_update_where split: if_splits)
next
  case (3 d i)
  then show ?case
    by (simp add: codes_ok_def code_mark_used_def map_update_where)
qed

interpretation devices: one_time_store device_by_hash dc_id device_mark_used devices_ok
proof (unfold_locales, goal_cases)
  case (1 d now key row later)
  then have row: "row \<in> set (d_devices d)" "dc_device_code row = key"
    by (auto simp: device_by_hash_def dest!: find_Some_set)
  have "dc_id x = dc_id row" if "x \<in> set (d_devices d)" "dc_device_code x = key" for x
    using distinct_map_same [of dc_device_code "d_devices d" x row] 1(1) that row
    by (simp add: devices_ok_def)
  then show ?case
    unfolding device_by_hash_def device_mark_used_def by (auto intro!: find_update_where_None)
next
  case (2 d now key i)
  then show ?case
    by (auto simp: device_by_hash_def device_mark_used_def find_None_iff set_update_where split: if_splits)
next
  case (3 d i)
  then show ?case
    by (simp add: devices_ok_def device_mark_used_def map_update_where)
qed

end
