(* ===== verification/Sessions.thy ===== *)
theory Sessions
  imports Store
begin

text \<open>The session table (\<open>oidc-repository/src/repositories/session_repo.rs\<close>).  A row is one issued
  access token with, when it has one, its refresh token; the rows that one refresh token chain
  produced share their \<open>token_family_id\<close>.\<close>

section \<open>Queries\<close>

(*@ oidc-repository/src/repositories/session_repo.rs 24-35 SessionRepo::find_by_id *)
definition session_by_id :: "uuid \<Rightarrow> db \<Rightarrow> session option" where
  "session_by_id i d = List.find (\<lambda>s. s_id s = i) (d_sessions d)"

(*@ oidc-repository/src/repositories/session_repo.rs 38-51 SessionRepo::find_by_access_token_hash *)
definition session_by_access_hash :: "instant \<Rightarrow> string \<Rightarrow> db \<Rightarrow> session option" where
  "session_by_access_hash now h d =
     List.find (\<lambda>s. s_access_token_hash s = h \<and> \<not> s_revoked s \<and> now < s_expires_at s) (d_sessions d)"

(*@ oidc-repository/src/repositories/session_repo.rs 98-111 SessionRepo::find_by_refresh_token_hash *)
definition session_by_refresh_hash :: "string \<Rightarrow> db \<Rightarrow> session option" where
  "session_by_refresh_hash h d =
     List.find (\<lambda>s. s_refresh_token_hash s = Some h \<and> \<not> s_revoked s) (d_sessions d)"

(*@ oidc-repository/src/repositories/session_repo.rs 114-127 SessionRepo::find_active_by_refresh_token_hash *)
definition session_active_by_refresh_hash :: "instant \<Rightarrow> string \<Rightarrow> db \<Rightarrow> session option" where
  "session_active_by_refresh_hash now h d =
     List.find (\<lambda>s. s_refresh_token_hash s = Some h \<and> \<not> s_revoked s
       \<and> after (s_refresh_expires_at s) now
       \<and> (\<not> s_offline_session s \<or> after (s_offline_max_expires_at s) now)) (d_sessions d)"

(*@ oidc-repository/src/repositories/session_repo.rs 205-222 SessionRepo::find_active_by_user_id *)
definition sessions_active_of_user :: "instant \<Rightarrow> uuid \<Rightarrow> db \<Rightarrow> session list" where
  "sessions_active_of_user now uid d =
     filter (\<lambda>s. s_user_id s = Some uid \<and> \<not> s_offline_session s \<and> \<not> s_revoked s
       \<and> now < s_expires_at s) (d_sessions d)"

definition grant_is_active :: "instant \<Rightarrow> session \<Rightarrow> bool" where
  "grant_is_active now s \<longleftrightarrow> \<not> s_revoked s \<and> s_rotated_at s = None \<and>
     ((s_offline_session s \<and> after (s_refresh_expires_at s) now
         \<and> after (s_offline_max_expires_at s) now)
      \<or> (\<not> s_offline_session s \<and> (now < s_expires_at s \<or> after (s_refresh_expires_at s) now)))"

(*@ oidc-repository/src/repositories/session_repo.rs 225-243 SessionRepo::find_active_grants_by_user_id *)
definition sessions_active_grants :: "instant \<Rightarrow> uuid \<Rightarrow> db \<Rightarrow> session list" where
  "sessions_active_grants now uid d =
     sort_key (\<lambda>s. - s_created_at s)
       (filter (\<lambda>s. s_user_id s = Some uid \<and> grant_is_active now s) (d_sessions d))"

(*@ oidc-repository/src/repositories/session_repo.rs 246-257 SessionRepo::find_by_sid *)
definition session_by_sid :: "string \<Rightarrow> db \<Rightarrow> session option" where
  "session_by_sid sid d = List.find (\<lambda>s. s_sid s = sid) (d_sessions d)"

definition session_matches :: "uuid option \<Rightarrow> uuid option \<Rightarrow> bool option \<Rightarrow> session \<Rightarrow> bool" where
  "session_matches uid realm rvk s \<longleftrightarrow>
     (case uid of None \<Rightarrow> True | Some u \<Rightarrow> s_user_id s = Some u)
     \<and> (case realm of None \<Rightarrow> True | Some r \<Rightarrow> s_realm_id s = r)
     \<and> (case rvk of None \<Rightarrow> True | Some b \<Rightarrow> s_revoked s = b)"

text \<open>PostgreSQL rejects a negative \<open>LIMIT\<close> or \<open>OFFSET\<close>.\<close>

(*@ oidc-repository/src/repositories/session_repo.rs 285-349 SessionRepo::list *)
definition session_list ::
  "uuid option \<Rightarrow> uuid option \<Rightarrow> bool option \<Rightarrow> int \<Rightarrow> int \<Rightarrow> db \<Rightarrow> session list result" where
  "session_list uid realm rvk limit offset d =
     (if limit < 0 then Inl (Internal ''LIMIT must not be negative'')
      else if offset < 0 then Inl (Internal ''OFFSET must not be negative'')
      else Inr (take (nat limit) (drop (nat offset)
             (sort_key (\<lambda>s. - s_created_at s) (filter (session_matches uid realm rvk) (d_sessions d))))))"

(*@ oidc-repository/src/repositories/session_repo.rs 353-408 SessionRepo::count *)
definition session_count :: "uuid option \<Rightarrow> uuid option \<Rightarrow> bool option \<Rightarrow> db \<Rightarrow> nat" where
  "session_count uid realm rvk d = length (filter (session_matches uid realm rvk) (d_sessions d))"


section \<open>Updates\<close>

text \<open>\<open>created_at\<close> is not among the inserted columns: the schema's default is \<open>NOW()\<close>.  The primary
  key is unique and an offline session needs its absolute expiry.\<close>

(*@ oidc-repository/src/repositories/session_repo.rs 54-95 SessionRepo::create *)
definition session_create :: "instant \<Rightarrow> session \<Rightarrow> (db, oidc_error, unit) prog" where
  "session_create now s =
     bindp (query d_sessions) (\<lambda>rows.
     thenp (guardp (\<forall>x \<in> set rows. s_id x \<noteq> s_id s) (Conflict ''duplicate key''))
    (thenp (guardp (\<not> s_offline_session s \<or> s_offline_max_expires_at s \<noteq> None)
              (Internal ''sessions_offline_max_expiry''))
       (exec (d_sessions_update (\<lambda>rows. rows @ [s\<lparr>s_created_at := now, s_last_used_at := None\<rparr>])))))"

definition update_sessions :: "(session \<Rightarrow> bool) \<Rightarrow> (session \<Rightarrow> session) \<Rightarrow> db \<Rightarrow> db" where
  "update_sessions P f = d_sessions_update (update_where P f)"

(*@ oidc-repository/src/repositories/session_repo.rs 130-136 SessionRepo::revoke *)
definition session_revoke :: "uuid \<Rightarrow> db \<Rightarrow> db" where
  "session_revoke i = update_sessions (\<lambda>s. s_id s = i) (s_revoked_update (\<lambda>_. True))"

(*@ oidc-repository/src/repositories/session_repo.rs 139-145 SessionRepo::mark_reused *)
definition session_mark_reused :: "instant \<Rightarrow> uuid \<Rightarrow> db \<Rightarrow> db" where
  "session_mark_reused now i = update_sessions (\<lambda>s. s_id s = i) (s_reused_at_update (\<lambda>_. Some now))"

(*@ oidc-repository/src/repositories/session_repo.rs 148-158 SessionRepo::revoke_by_user_id *)
definition session_revoke_user :: "uuid \<Rightarrow> db \<Rightarrow> db" where
  "session_revoke_user uid =
     update_sessions (\<lambda>s. s_user_id s = Some uid \<and> \<not> s_revoked s) (s_revoked_update (\<lambda>_. True))"

(*@ oidc-repository/src/repositories/session_repo.rs 161-171 SessionRepo::revoke_online_by_user_id *)
definition session_revoke_online_user :: "uuid \<Rightarrow> db \<Rightarrow> db" where
  "session_revoke_online_user uid =
     update_sessions (\<lambda>s. s_user_id s = Some uid \<and> \<not> s_offline_session s \<and> \<not> s_revoked s)
       (s_revoked_update (\<lambda>_. True))"

(*@ oidc-repository/src/repositories/session_repo.rs 174-185 SessionRepo::revoke_by_user_and_client *)
definition session_revoke_user_client :: "uuid \<Rightarrow> uuid \<Rightarrow> db \<Rightarrow> db" where
  "session_revoke_user_client uid cid =
     update_sessions (\<lambda>s. s_user_id s = Some uid \<and> s_client_id s = cid \<and> \<not> s_revoked s)
       (s_revoked_update (\<lambda>_. True))"

(*@ oidc-repository/src/repositories/session_repo.rs 188-199 SessionRepo::revoke_other_user_sessions *)
definition session_revoke_others :: "uuid \<Rightarrow> uuid \<Rightarrow> db \<Rightarrow> db" where
  "session_revoke_others uid current =
     update_sessions (\<lambda>s. s_user_id s = Some uid \<and> s_id s \<noteq> current \<and> \<not> s_offline_session s
         \<and> \<not> s_revoked s) (s_revoked_update (\<lambda>_. True))"

(*@ oidc-repository/src/repositories/session_repo.rs 260-266 SessionRepo::mark_rotated *)
definition session_mark_rotated :: "instant \<Rightarrow> uuid \<Rightarrow> db \<Rightarrow> db" where
  "session_mark_rotated now i =
     update_sessions (\<lambda>s. s_id s = i) (\<lambda>s. s\<lparr>s_rotated_at := Some now, s_last_used_at := Some now\<rparr>)"

(*@ oidc-repository/src/repositories/session_repo.rs 269-280 SessionRepo::revoke_family *)
definition session_revoke_family :: "uuid \<Rightarrow> db \<Rightarrow> db" where
  "session_revoke_family f =
     update_sessions (\<lambda>s. s_token_family_id s = Some f) (\<lambda>s. s\<lparr>s_revoked := True, s_family_revoked := True\<rparr>)"

(*@ oidc-repository/src/repositories/session_repo.rs 411-420 SessionRepo::cleanup_expired *)
definition session_cleanup :: "instant \<Rightarrow> db \<Rightarrow> db" where
  "session_cleanup now =
     d_sessions_update (filter (\<lambda>s. \<not>
       ((s_offline_session s \<and> (case s_offline_max_expires_at s of None \<Rightarrow> False | Some t \<Rightarrow> t < now))
        \<or> (\<not> s_offline_session s
            \<and> (case s_refresh_expires_at s of None \<Rightarrow> s_expires_at s < now | Some t \<Rightarrow> t < now)))))"

lemmas session_updates = session_revoke_def session_mark_reused_def session_revoke_user_def
  session_revoke_online_user_def session_revoke_user_client_def session_revoke_others_def
  session_mark_rotated_def session_revoke_family_def


section \<open>Facts\<close>

lemma d_sessions_update_sessions [simp]:
  "d_sessions (update_sessions P f d) = update_where P f (d_sessions d)"
  by (simp add: update_sessions_def)

lemma session_create_ok [prog_ok]:
  "session_create now s d = (Inr u, e) \<longleftrightarrow>
     (\<forall>x \<in> set (d_sessions d). s_id x \<noteq> s_id s)
     \<and> (s_offline_session s \<longrightarrow> s_offline_max_expires_at s \<noteq> None)
     \<and> e = d\<lparr>d_sessions := d_sessions d @ [s\<lparr>s_created_at := now, s_last_used_at := None\<rparr>]\<rparr>"
  by (auto simp: session_create_def prog_ok)

text \<open>Token revocation is monotone: no update of the repository makes a revoked session usable
  again.  \<open>stays_revoked\<close> is closed under composition, so that a whole flow has it when its writes
  do.\<close>

definition revoked_in :: "db \<Rightarrow> uuid \<Rightarrow> bool" where
  "revoked_in d i \<longleftrightarrow> (\<forall>s \<in> set (d_sessions d). s_id s = i \<longrightarrow> s_revoked s)"

lemma revoked_in_update_sessions:
  assumes "\<And>s. s_id (f s) = s_id s" and "\<And>s. s_revoked s \<Longrightarrow> s_revoked (f s)"
    and "revoked_in d i"
  shows "revoked_in (update_sessions P f d) i"
  using assms unfolding revoked_in_def d_sessions_update_sessions set_update_where by auto

lemma revoked_session_not_found:
  assumes "revoked_in d i"
  shows "session_by_access_hash now h d = Some s \<Longrightarrow> s_id s \<noteq> i"
    and "session_by_refresh_hash h d = Some s \<Longrightarrow> s_id s \<noteq> i"
    and "session_active_by_refresh_hash now h d = Some s \<Longrightarrow> s_id s \<noteq> i"
  using assms
  by (auto simp: revoked_in_def session_by_access_hash_def session_by_refresh_hash_def
      session_active_by_refresh_hash_def dest!: find_Some_set)

text \<open>C8 Revocation is final and complete.  A session that is revoked stays so under every update of
  the session repository, and none of the three lookups by a token finds it.  Revoking all sessions of a user leaves
  no active grant and no active session of the user; revoking the online ones leaves the
  offline grants exactly as they were.\<close>

theorem revocation_final:
  assumes "revoked_in d i"
  shows "revoked_in (session_revoke j d) i \<and> revoked_in (session_mark_reused now j d) i
    \<and> revoked_in (session_revoke_user uid d) i \<and> revoked_in (session_revoke_online_user uid d) i
    \<and> revoked_in (session_revoke_user_client uid cid d) i
    \<and> revoked_in (session_revoke_others uid j d) i \<and> revoked_in (session_mark_rotated now j d) i
    \<and> revoked_in (session_revoke_family f d) i \<and> revoked_in (session_cleanup now d) i
    \<and> i \<notin> s_id ` set_option (session_by_access_hash now h d)
    \<and> i \<notin> s_id ` set_option (session_by_refresh_hash h d)
    \<and> i \<notin> s_id ` set_option (session_active_by_refresh_hash now h d)
    \<and> sessions_active_grants now uid (session_revoke_user uid d) = []
    \<and> sessions_active_of_user now uid (session_revoke_user uid d) = []
    \<and> filter s_offline_session (sessions_active_grants now uid (session_revoke_online_user uid d))
        = filter s_offline_session (sessions_active_grants now uid d)"
proof (intro conjI)
  have "filter (\<lambda>s. s_user_id s = Some uid \<and> grant_is_active now s)
      (d_sessions (session_revoke_user uid d)) = []"
    by (auto simp: filter_empty_conv session_revoke_user_def set_update_where grant_is_active_def)
  then show "sessions_active_grants now uid (session_revoke_user uid d) = []"
    by (simp only: sessions_active_grants_def) simp
  show "sessions_active_of_user now uid (session_revoke_user uid d) = []"
    by (auto simp: sessions_active_of_user_def filter_empty_conv session_revoke_user_def
        set_update_where)
  let ?off = "\<lambda>s. s_user_id s = Some uid \<and> grant_is_active now s \<and> s_offline_session s"
  have "filter ?off (update_where (\<lambda>s. s_user_id s = Some uid \<and> \<not> s_offline_session s \<and> \<not> s_revoked s)
      (s_revoked_update (\<lambda>_. True)) rows) = filter ?off rows" for rows
    unfolding update_where_def by (induction rows) (auto simp: grant_is_active_def)
  then show "filter s_offline_session (sessions_active_grants now uid (session_revoke_online_user uid d))
        = filter s_offline_session (sessions_active_grants now uid d)"
    by (simp add: sessions_active_grants_def filter_sort session_revoke_online_user_def)
  show "i \<notin> s_id ` set_option (session_by_access_hash now h d)"
    using revoked_session_not_found(1) [OF assms] by force
  show "i \<notin> s_id ` set_option (session_by_refresh_hash h d)"
    using revoked_session_not_found(2) [OF assms] by force
  show "i \<notin> s_id ` set_option (session_active_by_refresh_hash now h d)"
    using revoked_session_not_found(3) [OF assms] by force
  show "revoked_in (session_cleanup now d) i"
    using assms by (simp add: revoked_in_def session_cleanup_def)
qed (unfold session_updates, (rule revoked_in_update_sessions [OF _ _ assms]; simp)+)

text \<open>An example of a revoked session.\<close>

definition sample_session :: session where
  "sample_session =
     \<lparr>s_id = 1, s_sid = ''sid'', s_user_id = Some 7, s_realm_id = 3, s_client_id = 5,
      s_grant_type = ''authorization_code'', s_access_token_hash = ''a'',
      s_refresh_token_hash = Some ''r'', s_id_token_jti = None, s_scope = [''openid''],
      s_revoked = False, s_expires_at = minutes 15, s_refresh_expires_at = Some (days 7),
      s_offline_session = False, s_offline_max_expires_at = None, s_created_at = 0,
      s_last_used_at = None, s_token_family_id = Some 9, s_previous_session_id = None,
      s_rotated_at = None, s_reused_at = None, s_family_revoked = False,
      s_authorization_details = None, s_resource = [], s_acr = ''urn:mace:incommon:iap:bronze'',
      s_amr = [''pwd'']\<rparr>"

definition empty_db :: db where
  "empty_db =
     \<lparr>d_realms = [], d_clients = [], d_users = [], d_sessions = [], d_codes = [], d_devices = [],
      d_ciba = [], d_ciba_configs = [], d_roles = [], d_groups = [], d_user_roles = [],
      d_user_groups = [], d_group_roles = [], d_role_composites = [], d_scopes = [],
      d_client_scopes = [], d_mappers = [], d_orgs = [], d_memberships = [], d_org_groups = [],
      d_consents = [], d_audit = [], d_required_actions = [], d_workflows = [], d_executions = [],
      d_rpts = [], d_resources = [], d_policies = [], d_permissions = [], d_tickets = [], d_totp = [],
      d_webauthn = [], d_recovery_codes = [], d_ceremonies = [], d_terms = [], d_action_sessions = [],
      d_identities = [], d_pars = [], d_reset_tokens = [], d_recovery_tokens = [], d_providers = [], d_directory_links = [],
      d_email_tokens = [], d_invitations = [], d_api_keys = [], d_policy_profiles = [],
      d_client_policies = [], d_identity_providers = [], d_social_states = [], d_org_domains = [], d_org_providers = []\<rparr>"

lemma revocation_final_witness:
  "1 \<notin> s_id ` set_option (session_by_refresh_hash ''r''
       (empty_db\<lparr>d_sessions := [sample_session\<lparr>s_revoked := True\<rparr>]\<rparr>))"
proof -
  have "revoked_in (empty_db\<lparr>d_sessions := [sample_session\<lparr>s_revoked := True\<rparr>]\<rparr>) 1"
    by (simp add: revoked_in_def)
  from revocation_final [OF this] show ?thesis
    by blast
qed

end
