(* ===== verification/Roles.thy ===== *)
theory Roles
  imports Sessions
begin

text \<open>Roles: composition without cycles (\<open>role_composite_repo.rs\<close>), the roles and permissions a
  user effectively has (\<open>role_repo.rs\<close>, \<open>user_role_repo.rs\<close>), and the role claims of a token
  (\<open>oidc-oidc/src/role_claims.rs\<close>).  The recursive queries add children to the result until nothing
  new appears; as many rounds as the table has edges are enough (\<open>closure_rtrancl\<close>).\<close>

section \<open>Recursive queries\<close>

fun rounds :: "nat \<Rightarrow> (uuid \<times> uuid) list \<Rightarrow> uuid list \<Rightarrow> uuid list" where
  "rounds 0 edges xs = xs"
| "rounds (Suc n) edges xs =
     (let ys = rounds n edges xs
      in remdups (ys @ map snd (filter (\<lambda>(p, c). p \<in> set ys) edges)))"

definition closure :: "(uuid \<times> uuid) list \<Rightarrow> uuid list \<Rightarrow> uuid list" where
  "closure edges xs = rounds (length edges) edges xs"

lemma set_rounds_Suc:
  "set (rounds (Suc n) edges xs) = set (rounds n edges xs) \<union> set edges `` set (rounds n edges xs)"
  by (auto simp: Let_def image_iff split: prod.splits)

declare rounds.simps(2) [simp del]

lemma rounds_sound: "set (rounds n edges xs) \<subseteq> (set edges)\<^sup>* `` set xs"
proof (induction n)
  case (Suc n)
  then show ?case
    unfolding set_rounds_Suc by (auto intro: rtrancl_into_rtrancl)
qed auto

lemma rounds_mono: "set xs \<subseteq> set (rounds n edges xs)"
  by (induction n) (auto simp: set_rounds_Suc)

lemma rounds_bound: "set (rounds n edges xs) \<subseteq> set xs \<union> snd ` set edges"
  by (induction n) (force simp: set_rounds_Suc)+

lemma rounds_grow:
  "set (rounds (Suc n) edges xs) = set (rounds n edges xs)
   \<or> Suc n \<le> card (set (rounds (Suc n) edges xs) - set xs)"
proof (induction n)
  case 0
  show ?case
  proof (cases "set (rounds (Suc 0) edges xs) = set (rounds 0 edges xs)")
    case False
    then have "set (rounds (Suc 0) edges xs) - set xs \<noteq> {}"
      using rounds_mono [of xs "Suc 0" edges] by auto
    then show ?thesis
      by (metis List.finite_set card_gt_0_iff finite_Diff less_eq_Suc_le)
  qed simp
next
  case (Suc n)
  show ?case
  proof (cases "set (rounds (Suc (Suc n)) edges xs) = set (rounds (Suc n) edges xs)")
    case False
    then have "set (rounds (Suc n) edges xs) \<noteq> set (rounds n edges xs)"
      unfolding set_rounds_Suc [of "Suc n"] set_rounds_Suc [of n] by blast
    with Suc have "Suc n \<le> card (set (rounds (Suc n) edges xs) - set xs)"
      by blast
    moreover have "set (rounds (Suc n) edges xs) - set xs \<subset> set (rounds (Suc (Suc n)) edges xs) - set xs"
      using False rounds_mono [of xs "Suc n" edges] unfolding set_rounds_Suc [of "Suc n"] by auto
    then have "card (set (rounds (Suc n) edges xs) - set xs)
        < card (set (rounds (Suc (Suc n)) edges xs) - set xs)"
      by (intro psubset_card_mono) simp_all
    ultimately show ?thesis
      by linarith
  qed simp
qed

lemma closure_closed: "set edges `` set (closure edges xs) \<subseteq> set (closure edges xs)"
proof -
  let ?n = "length edges"
  have "set (rounds (Suc ?n) edges xs) - set xs \<subseteq> snd ` set edges"
    using rounds_bound by blast
  then have "card (set (rounds (Suc ?n) edges xs) - set xs) \<le> card (snd ` set edges)"
    by (intro card_mono) auto
  also have "\<dots> \<le> ?n"
    by (metis card_image_le card_length le_trans List.finite_set)
  finally have "set (rounds (Suc ?n) edges xs) = set (rounds ?n edges xs)"
    using rounds_grow [of ?n edges xs] by linarith
  then show ?thesis
    unfolding set_rounds_Suc closure_def by blast
qed

lemma closure_rtrancl: "set (closure edges xs) = (set edges)\<^sup>* `` set xs"
proof
  show "set (closure edges xs) \<subseteq> (set edges)\<^sup>* `` set xs"
    by (simp add: closure_def rounds_sound)
  show "(set edges)\<^sup>* `` set xs \<subseteq> set (closure edges xs)"
  proof
    fix y
    assume "y \<in> (set edges)\<^sup>* `` set xs"
    then obtain x where x: "x \<in> set xs" and xy: "(x, y) \<in> (set edges)\<^sup>*"
      by blast
    from xy show "y \<in> set (closure edges xs)"
    proof induction
      case base
      then show ?case
        using x rounds_mono unfolding closure_def by blast
    next
      case (step y z)
      then show ?case
        using closure_closed by blast
    qed
  qed
qed


section \<open>Composite roles\<close>

definition children :: "uuid \<Rightarrow> db \<Rightarrow> uuid list" where
  "children p d = map snd (filter (\<lambda>e. fst e = p) (d_role_composites d))"

(*@ oidc-repository/src/repositories/role_composite_repo.rs 66-88 would_create_cycle *)
definition would_create_cycle :: "uuid \<Rightarrow> uuid \<Rightarrow> db \<Rightarrow> bool" where
  "would_create_cycle parent child d \<longleftrightarrow>
     parent \<in> set (closure (d_role_composites d) (children child d))"

text \<open>Both columns reference the role table.\<close>

(*@ oidc-repository/src/repositories/role_composite_repo.rs 10-33 RoleCompositeRepo::add *)
definition composite_add :: "uuid \<Rightarrow> uuid \<Rightarrow> (db, oidc_error, unit) prog" where
  "composite_add parent child =
     bindp (query (would_create_cycle parent child)) (\<lambda>cyc.
     thenp (guardp (\<not> (parent = child \<or> cyc))
              (InvalidInput ''A composite role cannot contain itself directly or indirectly''))
    (bindp (query (\<lambda>d. ro_id ` set (d_roles d))) (\<lambda>known.
     thenp (guardp (parent \<in> known \<and> child \<in> known) (Internal ''foreign key violation''))
       (exec (d_role_composites_update
          (\<lambda>es. if (parent, child) \<in> set es then es else es @ [(parent, child)]))))))"

(*@ oidc-repository/src/repositories/role_composite_repo.rs 35-48 RoleCompositeRepo::remove *)
definition composite_remove :: "uuid \<Rightarrow> uuid \<Rightarrow> db \<Rightarrow> db" where
  "composite_remove parent child = d_role_composites_update (filter (\<lambda>e. e \<noteq> (parent, child)))"

text \<open>The states the two operations reach from a database.\<close>

inductive composite_step :: "db \<Rightarrow> db \<Rightarrow> bool" where
  added: "composite_add p c d = (r, e) \<Longrightarrow> composite_step d e"
| removed: "composite_step d (composite_remove p c d)"

inductive_cases composite_stepE: "composite_step d e"

lemma cycle_iff:
  "would_create_cycle p c d \<longleftrightarrow> (c, p) \<in> (set (d_role_composites d))\<^sup>+"
proof -
  have "set (children c d) = set (d_role_composites d) `` {c}"
    by (force simp: children_def)
  then show ?thesis
    unfolding would_create_cycle_def closure_rtrancl
    by (auto simp: trancl_unfold_left)
qed

lemma composite_add_acyclic:
  assumes "acyclic (set (d_role_composites d))" and "composite_add p c d = (r, e)"
  shows "acyclic (set (d_role_composites e))"
proof (cases "p = c \<or> would_create_cycle p c d")
  case True
  with assms show ?thesis
    by (auto simp: composite_add_def prog_run split: if_splits)
next
  case False
  then have "(c, p) \<notin> (set (d_role_composites d))\<^sup>*"
    by (simp add: cycle_iff rtrancl_eq_or_trancl)
  then have "acyclic (insert (p, c) (set (d_role_composites d)))"
    using assms(1) by (simp add: acyclic_insert)
  moreover have "set (d_role_composites e) \<in>
      {set (d_role_composites d), insert (p, c) (set (d_role_composites d))}"
    using assms(2) by (auto simp: composite_add_def prog_run split: if_splits)
  ultimately show ?thesis
    using assms(1) by auto
qed

text \<open>C9 The composite roles never contain a cycle: every sequence of additions and removals keeps
  the relation acyclic, because an addition is refused exactly when the parent is the child or
  is reachable from it, however long the chain.\<close>

theorem composite_acyclic:
  assumes "acyclic (set (d_role_composites d))" and "composite_step\<^sup>*\<^sup>* d e"
  shows "acyclic (set (d_role_composites e))
    \<and> (fst (composite_add p c e) =
          Inl (InvalidInput ''A composite role cannot contain itself directly or indirectly'')
       \<longleftrightarrow> (c, p) \<in> (set (d_role_composites e))\<^sup>*)"
proof
  from assms(2) show "acyclic (set (d_role_composites e))"
  proof induction
    case base
    show ?case
      by (rule assms(1))
  next
    case (step y z)
    from step(2) show ?case
    proof (rule composite_stepE)
      fix p c r
      assume "composite_add p c y = (r, z)"
      with step(3) show ?thesis
        by (rule composite_add_acyclic)
    next
      fix p c
      assume "z = composite_remove p c y"
      then have "set (d_role_composites z) \<subseteq> set (d_role_composites y)"
        by (auto simp: composite_remove_def)
      with step(3) show ?thesis
        by (rule acyclic_subset)
    qed
  qed
  show "fst (composite_add p c e) =
          Inl (InvalidInput ''A composite role cannot contain itself directly or indirectly'')
       \<longleftrightarrow> (c, p) \<in> (set (d_role_composites e))\<^sup>*"
    by (auto simp: composite_add_def prog_run cycle_iff rtrancl_eq_or_trancl)
qed

lemma composite_acyclic_witness:
  "acyclic (set (d_role_composites (composite_remove 1 2 (empty_db\<lparr>d_role_composites := [(1, 2)]\<rparr>))))"
proof -
  let ?d = "empty_db\<lparr>d_role_composites := [(1, 2)]\<rparr>"
  have "acyclic (set (d_role_composites ?d))"
    by (simp add: acyclic_insert) (simp add: acyclic_def)
  moreover have "composite_step\<^sup>*\<^sup>* ?d (composite_remove 1 2 ?d)"
    by (rule r_into_rtranclp) (rule removed)
  ultimately show ?thesis
    using composite_acyclic by blast
qed


section \<open>Effective roles\<close>

text \<open>The common table expressions \<open>direct_roles\<close> and \<open>effective\<close>, the same in the two queries.\<close>

definition direct_roles :: "uuid \<Rightarrow> db \<Rightarrow> uuid list" where
  "direct_roles uid d =
     map snd (filter (\<lambda>e. fst e = uid) (d_user_roles d))
     @ map snd (filter (\<lambda>e. (uid, fst e) \<in> set (d_user_groups d)) (d_group_roles d))"

definition effective_roles :: "uuid \<Rightarrow> db \<Rightarrow> uuid list" where
  "effective_roles uid d = closure (d_role_composites d) (direct_roles uid d)"

text \<open>\<open>collate\<close> is the order of the database's collation.\<close>

(*@ oidc-repository/src/repositories/user_role_repo.rs 28-49 UserRoleRepo::find_effective_permissions *)
definition effective_permissions :: "(string \<Rightarrow> string \<Rightarrow> bool) \<Rightarrow> uuid \<Rightarrow> db \<Rightarrow> string list" where
  "effective_permissions collate uid d =
     sort_by collate (remdups (concat (map ro_permissions
       (filter (\<lambda>r. ro_id r \<in> set (effective_roles uid d) \<and> ro_deleted_at r = None) (d_roles d)))))"

definition names_le :: "(string \<Rightarrow> string \<Rightarrow> bool) \<Rightarrow> string \<times> string option \<Rightarrow> string \<times> string option \<Rightarrow> bool" where
  "names_le collate a b = (case (snd a, snd b) of
      (None, Some _) \<Rightarrow> True
    | (Some _, None) \<Rightarrow> False
    | (None, None) \<Rightarrow> collate (fst a) (fst b)
    | (Some x, Some y) \<Rightarrow> if x = y then collate (fst a) (fst b) else collate x y)"

text \<open>The client of a client role, as the left join finds it: a role of a deleted client is
  dropped.\<close>

definition role_name_row :: "db \<Rightarrow> role \<Rightarrow> (string \<times> string option) list" where
  "role_name_row d r = (case ro_client_id r of
       None \<Rightarrow> [(ro_name r, None)]
     | Some cid \<Rightarrow> (case client_by_id cid d of None \<Rightarrow> [] | Some c \<Rightarrow> [(ro_name r, Some (c_client_id c))]))"

(*@ oidc-repository/src/repositories/role_repo.rs 265-286 RoleRepo::find_effective_names_by_user_id *)
definition effective_names :: "(string \<Rightarrow> string \<Rightarrow> bool) \<Rightarrow> uuid \<Rightarrow> db \<Rightarrow> (string \<times> string option) list" where
  "effective_names collate uid d =
     sort_by (names_le collate) (remdups (concat (map (role_name_row d)
       (filter (\<lambda>r. ro_id r \<in> set (effective_roles uid d) \<and> ro_deleted_at r = None) (d_roles d)))))"

text \<open>What the queries mean: a user holds a role directly, through a group, or as a descendant of a
  role held.\<close>

inductive holds :: "db \<Rightarrow> uuid \<Rightarrow> uuid \<Rightarrow> bool" for d uid where
  direct: "(uid, r) \<in> set (d_user_roles d) \<Longrightarrow> holds d uid r"
| through_group: "(uid, g) \<in> set (d_user_groups d) \<Longrightarrow> (g, r) \<in> set (d_group_roles d) \<Longrightarrow> holds d uid r"
| composite: "holds d uid p \<Longrightarrow> (p, r) \<in> set (d_role_composites d) \<Longrightarrow> holds d uid r"

lemma set_direct_roles:
  "r \<in> set (direct_roles uid d) \<longleftrightarrow> (uid, r) \<in> set (d_user_roles d)
     \<or> (\<exists>g. (uid, g) \<in> set (d_user_groups d) \<and> (g, r) \<in> set (d_group_roles d))"
  by (force simp: direct_roles_def)

lemma effective_roles_holds: "r \<in> set (effective_roles uid d) \<longleftrightarrow> holds d uid r"
proof
  assume "r \<in> set (effective_roles uid d)"
  then obtain r0 where r0: "r0 \<in> set (direct_roles uid d)"
    and reach: "(r0, r) \<in> (set (d_role_composites d))\<^sup>*"
    unfolding effective_roles_def closure_rtrancl by blast
  from reach show "holds d uid r"
    using r0 by induction (auto simp: set_direct_roles intro: holds.intros)
next
  assume "holds d uid r"
  then show "r \<in> set (effective_roles uid d)"
    unfolding effective_roles_def closure_rtrancl
  proof induction
    case (direct r)
    then show ?case
      using set_direct_roles by blast
  next
    case (through_group g r)
    then show ?case
      using set_direct_roles by blast
  next
    case (composite p r)
    then show ?case
      by (auto intro: rtrancl_into_rtrancl)
  qed
qed

text \<open>C10 The permission query returns exactly the permissions of the undeleted roles a user holds, in
  the sense of the inductive relation \<open>holds\<close>, each once; the name query returns exactly the
  names of these roles with the client of the client roles.\<close>

theorem effective_permissions_correct:
  "set (effective_permissions collate uid d) =
       {p. \<exists>r \<in> set (d_roles d). holds d uid (ro_id r) \<and> ro_deleted_at r = None
             \<and> p \<in> set (ro_permissions r)}
   \<and> distinct (effective_permissions collate uid d)
   \<and> set (effective_names collate uid d) =
       {n. \<exists>r \<in> set (d_roles d). holds d uid (ro_id r) \<and> ro_deleted_at r = None
             \<and> n \<in> set (role_name_row d r)}
   \<and> distinct (effective_names collate uid d)"
  unfolding effective_permissions_def effective_names_def
  by (auto simp: effective_roles_holds)

(*@ oidc-repository/src/repositories/group_repo.rs 112-118 GroupRepo::delete *)
definition group_delete :: "instant \<Rightarrow> uuid \<Rightarrow> db \<Rightarrow> db" where
  "group_delete now i =
     d_groups_update (update_where (\<lambda>g. g_id g = i) (g_deleted_at_update (\<lambda>_. Some now)))"

text \<open>Deleting a group takes no permission and no role name from its members: the queries join
  the assignment tables without looking at the group, and the deletion only marks its row.  The
  group itself does vanish from the groups of every user.\<close>

theorem deleted_group_keeps_granting:
  "effective_permissions collate uid (group_delete now g d) = effective_permissions collate uid d
   \<and> effective_names collate uid (group_delete now g d) = effective_names collate uid d
   \<and> g \<notin> g_id ` set (groups_of_user uid (group_delete now g d))"
proof -
  have eff: "effective_roles uid (group_delete now g d) = effective_roles uid d"
    by (simp add: effective_roles_def direct_roles_def group_delete_def)
  have row: "role_name_row (group_delete now g d) = role_name_row d"
    by (intro ext) (simp add: role_name_row_def client_by_id_def group_delete_def cong: option.case_cong)
  have roles: "d_roles (group_delete now g d) = d_roles d"
    by (simp add: group_delete_def)
  have "g \<notin> g_id ` set (groups_of_user uid (group_delete now g d))"
  proof
    assume "g \<in> g_id ` set (groups_of_user uid (group_delete now g d))"
    then obtain x where x: "x \<in> set (update_where (\<lambda>x. g_id x = g) (g_deleted_at_update (\<lambda>_. Some now)) (d_groups d))"
      and "g_id x = g" "g_deleted_at x = None"
      unfolding groups_of_user_def group_delete_def by fastforce
    from x obtain y where "g_id y = g \<and> x = g_deleted_at_update (\<lambda>_. Some now) y \<or> g_id y \<noteq> g \<and> x = y"
      unfolding update_where_elem by blast
    then show False
      using \<open>g_id x = g\<close> \<open>g_deleted_at x = None\<close> by (elim disjE conjE) simp_all
  qed
  then show ?thesis
    unfolding effective_permissions_def effective_names_def eff row roles by simp
qed


section \<open>Role claims\<close>

(*@ oidc-oidc/src/role_claims.rs 9-13 TokenRoleClaims *)
record role_claims =
  rc_roles :: "string list option"
  rc_realm_access :: "json option"
  rc_resource_access :: "json option"

definition some_if :: "bool \<Rightarrow> 'a \<Rightarrow> 'a option" where
  "some_if b x = (if b then Some x else None)"

text \<open>\<open>entry(client_id).or_default().push(role)\<close> on the map of the roles by client, kept as an
  association list in key order.\<close>

fun push_role :: "string \<Rightarrow> string \<Rightarrow> (string \<times> string list) list \<Rightarrow> (string \<times> string list) list" where
  "push_role c r [] = [(c, [r])]"
| "push_role c r ((k, rs) # m) =
     (if c = k then (k, rs @ [r]) # m
      else if str_le c k then (c, [r]) # (k, rs) # m
      else (k, rs) # push_role c r m)"

(*@ oidc-oidc/src/role_claims.rs 15-53 resolve_role_claims *)
definition resolve_role_claims :: "(string \<Rightarrow> string \<Rightarrow> bool) \<Rightarrow> uuid \<Rightarrow> db \<Rightarrow> role_claims" where
  "resolve_role_claims collate uid d =
     (let effective = effective_names collate uid d;
          realm_roles = map fst (filter (\<lambda>(_, c). c = None) effective);
          client_roles = fold (\<lambda>(r, c) m. case c of None \<Rightarrow> m | Some cid \<Rightarrow> push_role cid r m) effective [];
          realm_access = some_if (realm_roles \<noteq> []) (json_object [(''roles'', strs realm_roles)]);
          resource_access = some_if (client_roles \<noteq> [])
            (json_object (map (\<lambda>(cid, rs). (cid, json_object [(''roles'', strs rs)])) client_roles))
      in \<lparr>rc_roles = Option.bind (Option.bind (Option.bind realm_access (\<lambda>v. jget v ''roles'')) as_array)
              (\<lambda>xs. Some (List.map_filter as_str_json xs)),
          rc_realm_access = realm_access,
          rc_resource_access = resource_access\<rparr>)"

lemma map_filter_as_str [simp]: "List.map_filter as_str_json (map (JStr \<circ> f) xs) = map f xs"
  by (induction xs) (auto simp: map_filter_simps)

lemma push_role_keys: "fst ` set (push_role c r m) = insert c (fst ` set m)"
  by (induction c r m rule: push_role.induct) auto

lemma client_roles_keys:
  "fst ` set (fold (\<lambda>(r, c) m. case c of None \<Rightarrow> m | Some cid \<Rightarrow> push_role cid r m) ns m)
   = fst ` set m \<union> {cid. \<exists>r. (r, Some cid) \<in> set ns}"
proof (induction ns arbitrary: m)
  case (Cons n ns)
  obtain r c where n: "n = (r, c)"
    by (cases n)
  show ?case
  proof (cases c)
    case None
    then show ?thesis
      using Cons [of m] n by simp
  next
    case (Some cid)
    then show ?thesis
      using Cons [of "push_role cid r m"] n by (simp add: push_role_keys) blast
  qed
qed simp

lemma resolve_role_claims_roles:
  "rc_roles (resolve_role_claims collate uid d) =
     (let rs = map fst (filter (\<lambda>(_, c). c = None) (effective_names collate uid d))
      in if rs = [] then None else Some rs)"
proof -
  have roles: "jget (json_object [(''roles'', strs rs)]) ''roles'' = Some (strs rs)" for rs
    by (rule get_json_object) simp_all
  show ?thesis
    unfolding resolve_role_claims_def Let_def some_if_def by (simp add: roles) (simp add: strs_def)
qed

text \<open>The role claims of a token contain the realm roles the user holds and nothing else: the
  list claim is present exactly when the user holds an undeleted realm role, its members
  are the names of these, and the resource access claim is present exactly when the user holds
  an undeleted role of an undeleted client.\<close>

theorem role_claims_correct:
  "set (case rc_roles (resolve_role_claims collate uid d) of None \<Rightarrow> [] | Some rs \<Rightarrow> rs) =
       {ro_name r |r. r \<in> set (d_roles d) \<and> holds d uid (ro_id r) \<and> ro_deleted_at r = None
                      \<and> ro_client_id r = None}
   \<and> (rc_resource_access (resolve_role_claims collate uid d) = None) =
       (\<not> (\<exists>r \<in> set (d_roles d). holds d uid (ro_id r) \<and> ro_deleted_at r = None
             \<and> Option.bind (ro_client_id r) (\<lambda>c. client_by_id c d) \<noteq> None))"
proof
  have row: "(n, None) \<in> set (role_name_row d r) \<longleftrightarrow> n = ro_name r \<and> ro_client_id r = None" for n r
    by (auto simp: role_name_row_def split: option.splits)
  have "set (case rc_roles (resolve_role_claims collate uid d) of None \<Rightarrow> [] | Some rs \<Rightarrow> rs) =
      {n. (n, None) \<in> set (effective_names collate uid d)}"
    by (force simp: resolve_role_claims_roles Let_def filter_empty_conv)
  then show "set (case rc_roles (resolve_role_claims collate uid d) of None \<Rightarrow> [] | Some rs \<Rightarrow> rs) =
       {ro_name r |r. r \<in> set (d_roles d) \<and> holds d uid (ro_id r) \<and> ro_deleted_at r = None
                      \<and> ro_client_id r = None}"
    by (auto simp: effective_names_def effective_roles_holds row)
  let ?m = "fold (\<lambda>(r, c) m. case c of None \<Rightarrow> m | Some cid \<Rightarrow> push_role cid r m)
      (effective_names collate uid d) []"
  have "?m = [] \<longleftrightarrow> (\<forall>n cid. (n, Some cid) \<notin> set (effective_names collate uid d))"
    using client_roles_keys [of "effective_names collate uid d" "[]"] by (auto simp flip: set_empty)
  moreover have "(\<exists>n cid. (n, Some cid) \<in> set (role_name_row d r)) \<longleftrightarrow>
      Option.bind (ro_client_id r) (\<lambda>c. client_by_id c d) \<noteq> None" for r
  proof (cases "ro_client_id r")
    case (Some cid)
    then show ?thesis
      by (cases "client_by_id cid d") (auto simp: role_name_row_def)
  qed (simp add: role_name_row_def)
  ultimately show "(rc_resource_access (resolve_role_claims collate uid d) = None) =
       (\<not> (\<exists>r \<in> set (d_roles d). holds d uid (ro_id r) \<and> ro_deleted_at r = None
             \<and> Option.bind (ro_client_id r) (\<lambda>c. client_by_id c d) \<noteq> None))"
    by (simp add: resolve_role_claims_def Let_def some_if_def effective_names_def
        effective_roles_holds) blast
qed

end
