(* ===== verification/Env.thy ===== *)
theory Env
  imports Models Errors "HOL-Library.Word"
begin

text \<open>What an operation takes from outside the repository's code, as one record \<^term>\<open>env\<close>: the clock
  and the random source (indexed by the number of the reading within the operation, so that two
  readings may differ), the cryptographic primitives, the encoders and parsers of third-party
  crates, and the settings of \<open>OidcState\<close>.  Nothing is assumed of these functions unless a theorem
  names the assumption.  The generators of \<open>oidc-core/src/utils/token.rs\<close> and \<open>pkce.rs\<close> are
  defined over them.\<close>

(*@ oidc-oidc/src/tokens/jwt_service.rs 230-239 JwtTokenService *)
record token_service =
  ts_issuer :: string
  ts_rsa_kid :: string
  ts_ed_kid :: string
  ts_access_ttl :: int
  ts_id_ttl :: int
  ts_sign_rs256 :: "string \<Rightarrow> string result"
  ts_sign_eddsa :: "string \<Rightarrow> string"
  ts_verify_rs256 :: "string \<Rightarrow> string \<Rightarrow> bool"
  ts_verify_eddsa :: "string \<Rightarrow> string \<Rightarrow> bool"

(*@ oidc-oidc/src/tokens/jwt_service.rs 56-60 JwtHeader *)
record jwt_header =
  h_alg :: string
  h_typ :: string
  h_kid :: string

(*@ oidc-oidc/src/tokens/jwt_service.rs 64-73 ClientAssertionClaims *)
record assertion_claims =
  as_iss :: string
  as_sub :: string
  as_aud :: string
  as_exp :: int
  as_iat :: int
  as_jti :: "string option"

(*@ oidc-oidc/src/tokens/jwt_service.rs 77-111 AccessTokenClaims *)
record access_claims =
  at_sub :: string
  at_aud :: json
  at_iss :: string
  at_exp :: int
  at_iat :: int
  at_jti :: "string option"
  at_scope :: string
  at_azp :: "string option"
  at_cnf :: "json option"
  at_authorization_details :: "json option"
  at_organization :: "json option"
  at_realm_access :: "json option"
  at_resource_access :: "json option"
  at_custom_claims :: members

(*@ oidc-oidc/src/tokens/jwt_service.rs 115-121 IdTokenClaims, the fields that are checked *)
record id_claims =
  ic_sub :: string
  ic_aud :: json
  ic_iss :: string
  ic_exp :: int

(*@ oidc-oidc/src/tokens/dpop.rs 19-29 DpopHeader *)
record dpop_header =
  dh_typ :: string
  dh_alg :: string
  dh_jwk :: json
  dh_kid :: "string option"

(*@ oidc-oidc/src/tokens/dpop.rs 33-48 DpopClaims *)
record dpop_claims =
  dp_jti :: string
  dp_htm :: string
  dp_htu :: string
  dp_iat :: "64 word"
  dp_ath :: "string option"
  dp_cnf :: "json option"

text \<open>The audience is a string or a list of strings.\<close>

(*@ oidc-oidc/src/tokens/request_object.rs 22-92 RequestObjectClaims, AudValue *)
record request_claims =
  rq_iss :: string
  rq_aud :: "string + string list"
  rq_exp :: int
  rq_iat :: int
  rq_nbf :: "int option"
  rq_jti :: "string option"
  rq_client_id :: "string option"
  rq_response_type :: "string option"
  rq_redirect_uri :: "string option"
  rq_scope :: "string option"
  rq_state :: "string option"
  rq_nonce :: "string option"
  rq_display :: "string option"
  rq_prompt :: "string option"
  rq_max_age :: "int option"
  rq_login_hint :: "string option"
  rq_code_challenge :: "string option"
  rq_code_challenge_method :: "string option"
  rq_claims :: "json option"
  rq_request_uri :: "string option"
  rq_response_mode :: "string option"

(*@ oidc-oidc/src/flows/jwt_bearer.rs 35-52 JwtBearerAssertionClaims *)
record bearer_claims =
  jb_iss :: string
  jb_sub :: string
  jb_aud :: string
  jb_exp :: int
  jb_iat :: "int option"
  jb_jti :: "string option"
  jb_scope :: "string option"

(*@ oidc-oidc/src/endpoints/authorize.rs 143-148 ConsentToken *)
record consent_token =
  ct_user_id :: uuid
  ct_client_id :: uuid
  ct_scopes :: "string list"
  ct_expires_at :: int

record env =
  e_clock :: "nat \<Rightarrow> instant"
  e_db_now :: instant
  e_uuid :: "nat \<Rightarrow> uuid"
  e_random :: "nat \<Rightarrow> string option"
  e_sha256 :: "string \<Rightarrow> string"
  e_hex :: "string \<Rightarrow> string"
  e_b64 :: "string \<Rightarrow> string"
  e_unb64 :: "string \<Rightarrow> string option"
  e_uuid_text :: "uuid \<Rightarrow> string"
  e_url_host :: "string \<Rightarrow> string option"
  e_collate :: "string \<Rightarrow> string \<Rightarrow> bool"
  e_text_json :: "string option \<Rightarrow> json option"
  e_json_text :: "members \<Rightarrow> string"
  e_parse_header :: "string \<Rightarrow> jwt_header option"
  e_parse_access :: "string \<Rightarrow> access_claims option"
  e_parse_assertion :: "string \<Rightarrow> assertion_claims option"
  e_pairwise_salt :: string
  e_services :: "uuid \<Rightarrow> token_service result"
  e_decrypt :: "string \<Rightarrow> string result"
  e_iv :: string
  e_cek :: string
  e_aes_seal :: "string \<Rightarrow> string \<Rightarrow> string \<Rightarrow> string option"
  e_aes_open :: "string \<Rightarrow> string \<Rightarrow> string \<Rightarrow> string option"
  e_rsa_wrap :: "string \<Rightarrow> string \<Rightarrow> string result"
  e_rsa_unwrap :: "string \<Rightarrow> string \<Rightarrow> string result"
  e_hasher_verify :: "string \<Rightarrow> string \<Rightarrow> bool result"
  e_rsa_verify :: "string \<Rightarrow> string \<Rightarrow> string \<Rightarrow> string \<Rightarrow> unit result"
  e_ed25519_verify :: "string \<Rightarrow> string \<Rightarrow> string \<Rightarrow> unit result"
  e_hmac :: "string \<Rightarrow> string \<Rightarrow> string \<Rightarrow> string"
  e_is_utf8 :: "string \<Rightarrow> bool"
  e_lower :: "string \<Rightarrow> string"
  e_upper :: "string \<Rightarrow> string"
  e_char_lower :: "string \<Rightarrow> string"
  e_encrypt :: "string \<Rightarrow> string result"
  e_url_scheme :: "string \<Rightarrow> string option"
  e_parse_uuid :: "string \<Rightarrow> uuid option"
  e_parse_json :: "string \<Rightarrow> json option"
  e_parse_id :: "string \<Rightarrow> id_claims option"
  e_parse_dpop_header :: "string \<Rightarrow> string + dpop_header"
  e_parse_dpop_claims :: "string \<Rightarrow> string + dpop_claims"
  e_b64_standard :: "string \<Rightarrow> string option"
  e_unb64_padded :: "string \<Rightarrow> string option"
  e_value_text :: "json \<Rightarrow> string"
  e_hash_password :: "string \<Rightarrow> string result"
  e_notify :: "string \<Rightarrow> string \<Rightarrow> string \<Rightarrow> bool"
  e_rfc3339 :: "string \<Rightarrow> instant option"
  e_passkey_ok :: "json \<Rightarrow> bool"
  e_passkey_state_ok :: "json \<Rightarrow> bool"
  e_passkey_start :: "uuid \<Rightarrow> json list \<Rightarrow> json \<times> json"
  e_passkey_finish :: "json \<Rightarrow> json \<Rightarrow> json \<Rightarrow> json option"
  e_passkey_register_start :: "uuid \<Rightarrow> string \<Rightarrow> string \<Rightarrow> json list \<Rightarrow> json \<times> json"
  e_passkey_register :: "json \<Rightarrow> json \<Rightarrow> (string \<times> json) option"
  e_origin :: "unit result"
  e_form_encode :: "string \<Rightarrow> string"
  e_passkey_registration_ok :: "json \<Rightarrow> bool"
  e_direct_ldap :: "federation_provider \<Rightarrow> string \<Rightarrow> string \<Rightarrow> directory_user option result"
  e_gateway_login :: "federation_provider \<Rightarrow> string \<Rightarrow> string \<Rightarrow> (bool \<times> directory_user option) result"
  e_gateway_kerberos :: "federation_provider \<Rightarrow> string \<Rightarrow> (bool \<times> directory_user option) result"
  e_url_port :: "string \<Rightarrow> int option"
  e_percent :: "string \<Rightarrow> string"
  e_unpercent :: "string \<Rightarrow> string"
  e_query_text :: "(string \<rightharpoonup> string) \<Rightarrow> string"
  e_key :: "string result"
  e_unhex :: "string \<Rightarrow> string option"
  e_parse_request :: "string \<Rightarrow> string + request_claims"
  e_parse_bearer :: "string \<Rightarrow> bearer_claims option"
  e_consent_text :: "consent_token \<Rightarrow> string"
  e_parse_consent :: "string \<Rightarrow> consent_token option"

text \<open>The text that a library puts into its error is not modelled.\<close>

definition library_text :: string where
  "library_text = ''detail of the library''"


section \<open>Random values and hashes\<close>

(*@ oidc-core/src/utils/token.rs 9-14 generate_opaque_token *)
definition generate_opaque_token :: "env \<Rightarrow> nat \<Rightarrow> string result" where
  "generate_opaque_token E k = (case e_random E k of
      None \<Rightarrow> Inl (Internal ''getrandom failed'')
    | Some buf \<Rightarrow> Inr (e_b64 E (take 32 buf)))"

(*@ oidc-core/src/utils/token.rs 20-25 generate_sid *)
definition generate_sid :: "env \<Rightarrow> nat \<Rightarrow> string result" where
  "generate_sid E k = (case e_random E k of
      None \<Rightarrow> Inl (Internal ''getrandom failed'')
    | Some buf \<Rightarrow> Inr (e_hex E (take 16 buf)))"

text \<open>\<open>generate_sid().unwrap_or_default()\<close>.\<close>

definition sid_or_default :: "env \<Rightarrow> nat \<Rightarrow> string" where
  "sid_or_default E k = (case generate_sid E k of Inl _ \<Rightarrow> [] | Inr s \<Rightarrow> s)"

definition user_code_charset :: string where
  "user_code_charset = ''BCDFGHJKLMNPQRSTVWXYZ''"

(*@ oidc-core/src/utils/token.rs 30-41 generate_user_code *)
definition generate_user_code :: "env \<Rightarrow> nat \<Rightarrow> string result" where
  "generate_user_code E k = (case e_random E k of
      None \<Rightarrow> Inl (Internal ''getrandom failed'')
    | Some buf \<Rightarrow>
        let code = map (\<lambda>b. user_code_charset ! (byte b mod length user_code_charset)) (take 8 buf)
        in Inr (take 4 code @ ''-'' @ drop 4 code))"

(*@ oidc-core/src/utils/token.rs 53-59 compute_session_state *)
definition compute_session_state :: "env \<Rightarrow> string \<Rightarrow> string \<Rightarrow> string \<Rightarrow> string" where
  "compute_session_state E cid sid origin =
     e_b64 E (e_sha256 E (cid @ '' '' @ sid @ '' '' @ origin))"

(*@ oidc-core/src/utils/token.rs 66-76 extract_origin *)
definition extract_origin :: "env \<Rightarrow> string \<Rightarrow> string option" where
  "extract_origin E url =
     Option.bind (e_url_scheme E url) (\<lambda>scheme. Option.bind (e_url_host E url) (\<lambda>host.
     Some (scheme @ ''://'' @ host @ (case e_url_port E url of None \<Rightarrow> [] | Some p \<Rightarrow> '':'' @ decimal p))))"

(*@ oidc-core/src/utils/token.rs 79-83 sha2_256_hex *)
definition sha2_256_hex :: "env \<Rightarrow> string \<Rightarrow> string" where
  "sha2_256_hex E data = e_hex E (e_sha256 E data)"

(*@ oidc-core/src/utils/token.rs 87-104 compute_at_hash, compute_c_hash *)
definition left_half_hash :: "env \<Rightarrow> string \<Rightarrow> string" where
  "left_half_hash E s = (let h = e_sha256 E s in e_b64 E (take (length h div 2) h))"

(*@ oidc-core/src/utils/token.rs 116-122 compute_pairwise_sub *)
definition compute_pairwise_sub :: "env \<Rightarrow> string \<Rightarrow> string \<Rightarrow> string" where
  "compute_pairwise_sub E user_id sector =
     e_b64 E (e_sha256 E (user_id @ ''|'' @ sector @ ''|'' @ e_pairwise_salt E))"

(*@ oidc-core/src/utils/token.rs 131-143 extract_sector_identifier *)
definition extract_sector_identifier :: "env \<Rightarrow> string option \<Rightarrow> string list \<Rightarrow> string option" where
  "extract_sector_identifier E uri redirect_uris = (case uri of
      Some u \<Rightarrow> e_url_host E u
    | None \<Rightarrow> (case redirect_uris of [] \<Rightarrow> None | first # _ \<Rightarrow> e_url_host E first))"

(*@ oidc-core/src/utils/pkce.rs 18-23 s256_challenge *)
definition s256_challenge :: "env \<Rightarrow> string \<Rightarrow> string" where
  "s256_challenge E verifier = e_b64 E (e_sha256 E verifier)"

(*@ oidc-core/src/utils/pkce.rs 27-30 verify_s256 *)
definition verify_s256 :: "env \<Rightarrow> string \<Rightarrow> string \<Rightarrow> bool" where
  "verify_s256 E verifier challenge \<longleftrightarrow> s256_challenge E verifier = challenge"

text \<open>The subject of a user for a client, the same lines in every flow.\<close>

(*@ oidc-oidc/src/flows/authorization_code.rs 76-90 subject of a token *)
definition subject_for :: "env \<Rightarrow> client \<Rightarrow> uuid \<Rightarrow> string" where
  "subject_for E c uid =
     (if c_subject_type c = ''pairwise''
      then compute_pairwise_sub E (e_uuid_text E uid)
             (case extract_sector_identifier E (c_sector_identifier_uri c) (c_redirect_uris c) of
                None \<Rightarrow> [] | Some s \<Rightarrow> s)
      else e_uuid_text E uid)"

text \<open>A user code has the shape of two groups of four letters of the 21 letter alphabet without
  vowels, joined by a hyphen, for every block of eight random bytes (and it is an error, never a
  weaker code, when the random source fails).\<close>

theorem user_code_shape:
  assumes "e_random E k = Some buf" and "8 \<le> length buf"
  shows "\<exists>a b. generate_user_code E k = Inr (a @ ''-'' @ b) \<and> length a = 4 \<and> length b = 4
    \<and> set a \<union> set b \<subseteq> set user_code_charset
    \<and> set user_code_charset \<inter> set ''AEIOU'' = {}"
proof -
  let ?code = "map (\<lambda>b. user_code_charset ! (byte b mod length user_code_charset)) (take 8 buf)"
  have "length user_code_charset = 21"
    by (simp add: user_code_charset_def)
  then have "user_code_charset ! (byte b mod length user_code_charset) \<in> set user_code_charset" for b
    by (intro nth_mem) simp
  then have letters: "set ?code \<subseteq> set user_code_charset"
    by auto
  have "set (take 4 ?code) \<union> set (drop 4 ?code) \<subseteq> set user_code_charset"
    using letters set_take_subset [of 4 ?code] set_drop_subset [of 4 ?code] by blast
  moreover have "set user_code_charset \<inter> set ''AEIOU'' = {}"
    by (simp add: user_code_charset_def)
  ultimately show ?thesis
    using assms by (intro exI [of _ "take 4 ?code"] exI [of _ "drop 4 ?code"])
      (simp add: generate_user_code_def Let_def)
qed

text \<open>A concrete environment: the primitives are toy functions, the clock stands still.\<close>

definition sample_service :: token_service where
  "sample_service =
     \<lparr>ts_issuer = ''https://op'', ts_rsa_kid = ''k1'', ts_ed_kid = ''k2'', ts_access_ttl = 900,
      ts_id_ttl = 3600, ts_sign_rs256 = (\<lambda>d. Inr (CHR ''r'' # d)), ts_sign_eddsa = (\<lambda>d. CHR ''e'' # d),
      ts_verify_rs256 = (\<lambda>d s. s = CHR ''r'' # d), ts_verify_eddsa = (\<lambda>d s. s = CHR ''e'' # d)\<rparr>"

definition sample_env :: env where
  "sample_env =
     \<lparr>e_clock = (\<lambda>_. 0), e_db_now = 0, e_uuid = (\<lambda>k. 100 + k), e_random = (\<lambda>_. Some ''abcdefgh''),
      e_sha256 = (\<lambda>s. s), e_hex = (\<lambda>s. s), e_b64 = (\<lambda>s. s), e_unb64 = Some, e_uuid_text = (\<lambda>_. ''uuid''),
      e_url_host = (\<lambda>_. None), e_collate = str_le, e_text_json = (\<lambda>_. None), e_json_text = (\<lambda>_. ''{}''),
      e_parse_header = (\<lambda>_. None), e_parse_access = (\<lambda>_. None), e_parse_assertion = (\<lambda>_. None),
      e_pairwise_salt = ''salt'', e_services = (\<lambda>_. Inr sample_service),
      e_decrypt = Inr, e_iv = replicate 12 (CHR ''i''),
      e_cek = replicate 32 (CHR ''k''), e_aes_seal = (\<lambda>_ _ t. Some (t @ replicate 16 (CHR ''t''))),
      e_aes_open = (\<lambda>_ _ t. Some (take (length t - 16) t)), e_rsa_wrap = (\<lambda>_. Inr), e_rsa_unwrap = (\<lambda>_. Inr),
      e_hasher_verify = (\<lambda>p h. Inr (p = h)), e_rsa_verify = (\<lambda>_ _ _ _. Inr ()),
      e_ed25519_verify = (\<lambda>_ _ _. Inr ()), e_hmac = (\<lambda>_ s d. s @ d), e_is_utf8 = (\<lambda>_. True),
      e_lower = (\<lambda>s. s), e_upper = (\<lambda>s. s), e_char_lower = to_ascii_lowercase, e_encrypt = Inr,
      e_url_scheme = (\<lambda>_. None), e_parse_uuid = (\<lambda>_. Some 7), e_parse_json = (\<lambda>_. None),
      e_parse_id = (\<lambda>_. None), e_parse_dpop_header = (\<lambda>_. Inl []), e_parse_dpop_claims = (\<lambda>_. Inl []),
      e_b64_standard = Some, e_unb64_padded = Some,
      e_value_text = (\<lambda>_. ''null''), e_hash_password = Inr,
      e_notify = (\<lambda>_ _ _. True), e_rfc3339 = (\<lambda>_. None), e_passkey_ok = (\<lambda>_. True),
      e_passkey_state_ok = (\<lambda>_. True), e_passkey_start = (\<lambda>_ _. (JNull, JNull)),
      e_passkey_finish = (\<lambda>_ _ _. None), e_passkey_register_start = (\<lambda>_ _ _ _. (JNull, JNull)),
      e_passkey_register = (\<lambda>_ _. None), e_origin = Inr (), e_form_encode = (\<lambda>s. s),
      e_passkey_registration_ok = (\<lambda>_. True), e_direct_ldap = (\<lambda>_ _ _. Inr None),
      e_gateway_login = (\<lambda>_ _ _. Inr (False, None)), e_gateway_kerberos = (\<lambda>_ _. Inr (False, None)),
      e_url_port = (\<lambda>_. None), e_percent = (\<lambda>s. s), e_unpercent = (\<lambda>s. s), e_query_text = (\<lambda>_. ''q''), e_key = Inr ''key'', e_unhex = Some,
      e_parse_request = (\<lambda>_. Inl []), e_parse_bearer = (\<lambda>_. None), e_consent_text = (\<lambda>_. ''consent''),
      e_parse_consent = (\<lambda>_. None)\<rparr>"

lemma user_code_shape_witness:
  "\<exists>a b. generate_user_code sample_env 0 = Inr (a @ ''-'' @ b) \<and> length a = 4 \<and> length b = 4"
  using user_code_shape [of sample_env 0 "''abcdefgh''"] by (auto simp: sample_env_def)

end
