(* ===== verification/Tokens.thy ===== *)
theory Tokens
  imports Env
begin

text \<open>The token service (\<open>oidc-oidc/src/tokens/jwt_service.rs\<close>): building and signing access and ID
  tokens, verifying them, and the two kinds of client assertion (RFC 7523).  A claims object is the
  list of its members in the order in which they are serialised: the fields of the struct, absent
  options skipped, then the flattened custom claims.  Such a list can hold a name twice, as the text
  of the token then does.\<close>

section \<open>Encoding\<close>

(*@ oidc-oidc/src/tokens/jwt_service.rs 1230-1233 b64_encode *)
definition b64_encode :: "env \<Rightarrow> string \<Rightarrow> string" where
  "b64_encode E = e_b64 E"

(*@ oidc-oidc/src/tokens/jwt_service.rs 56-60 JwtHeader serialised *)
definition header_members :: "jwt_header \<Rightarrow> members" where
  "header_members h =
     [(''alg'', JStr (h_alg h)), (''typ'', JStr (h_typ h)), (''kid'', JStr (h_kid h))]"

definition rs256_header :: "token_service \<Rightarrow> jwt_header" where
  "rs256_header svc = \<lparr>h_alg = ''RS256'', h_typ = ''JWT'', h_kid = ts_rsa_kid svc\<rparr>"

definition eddsa_header :: "token_service \<Rightarrow> jwt_header" where
  "eddsa_header svc = \<lparr>h_alg = ''EdDSA'', h_typ = ''JWT'', h_kid = ts_ed_kid svc\<rparr>"

definition signing_input :: "env \<Rightarrow> jwt_header \<Rightarrow> members \<Rightarrow> string" where
  "signing_input E h claims =
     e_b64 E (e_json_text E (header_members h)) @ ''.'' @ e_b64 E (e_json_text E claims)"

(*@ oidc-oidc/src/tokens/jwt_service.rs 441-461 encode_jwt *)
definition encode_jwt :: "env \<Rightarrow> token_service \<Rightarrow> members \<Rightarrow> string result" where
  "encode_jwt E svc claims =
     (let input = signing_input E (rs256_header svc) claims
      in bindr (ts_sign_rs256 svc input) (\<lambda>sig. Inr (input @ ''.'' @ e_b64 E sig)))"

(*@ oidc-oidc/src/tokens/jwt_service.rs 464-484 encode_jwt_eddsa *)
definition encode_jwt_eddsa :: "env \<Rightarrow> token_service \<Rightarrow> members \<Rightarrow> string" where
  "encode_jwt_eddsa E svc claims =
     (let input = signing_input E (eddsa_header svc) claims
      in input @ ''.'' @ e_b64 E (ts_sign_eddsa svc input))"

(*@ oidc-oidc/src/tokens/jwt_service.rs 520-556 decode_jwt *)
definition decode_jwt ::
  "env \<Rightarrow> token_service \<Rightarrow> (string \<Rightarrow> 'c option) \<Rightarrow> string \<Rightarrow> 'c result" where
  "decode_jwt E svc parse token =
     (case split_on (CHR ''.'') token of
        [p0, p1, p2] \<Rightarrow>
          (case Option.bind (e_unb64 E p0) (e_parse_header E) of
             None \<Rightarrow> Inl InvalidTokenSignature
           | Some h \<Rightarrow>
               (case e_unb64 E p2 of
                  None \<Rightarrow> Inl InvalidTokenSignature
                | Some sig \<Rightarrow>
                    if \<not> (if h_alg h = ''RS256'' then ts_verify_rs256 svc (p0 @ ''.'' @ p1) sig
                         else if h_alg h = ''EdDSA'' then ts_verify_eddsa svc (p0 @ ''.'' @ p1) sig
                         else False)
                    then Inl InvalidTokenSignature
                    else (case Option.bind (e_unb64 E p1) parse of
                            None \<Rightarrow> Inl InvalidTokenSignature
                          | Some c \<Rightarrow> Inr c)))
      | _ \<Rightarrow> Inl InvalidTokenSignature)"

(*@ oidc-oidc/src/tokens/jwt_service.rs 593-621 verify_eddsa_token *)
definition verify_eddsa_token ::
  "env \<Rightarrow> token_service \<Rightarrow> (string \<Rightarrow> 'c option) \<Rightarrow> string \<Rightarrow> 'c result" where
  "verify_eddsa_token E svc parse token =
     (case split_on (CHR ''.'') token of
        [p0, p1, p2] \<Rightarrow>
          (case Option.bind (e_unb64 E p0) (e_parse_header E) of
             None \<Rightarrow> Inl InvalidTokenSignature
           | Some h \<Rightarrow>
               if h_alg h \<noteq> ''EdDSA'' then Inl InvalidTokenSignature
               else (case e_unb64 E p2 of
                  None \<Rightarrow> Inl InvalidTokenSignature
                | Some sig \<Rightarrow>
                    if \<not> ts_verify_eddsa svc (p0 @ ''.'' @ p1) sig then Inl InvalidTokenSignature
                    else (case Option.bind (e_unb64 E p1) parse of
                            None \<Rightarrow> Inl InvalidTokenSignature
                          | Some c \<Rightarrow> Inr c)))
      | _ \<Rightarrow> Inl InvalidTokenSignature)"


section \<open>Access tokens\<close>

(*@ oidc-core/src/traits/token_service.rs 86-97 AccessTokenExtraClaims *)
record access_extra =
  ax_custom_claims :: members
  ax_additional_audiences :: "string list"
  ax_organization :: "json option"
  ax_realm_access :: "json option"
  ax_resource_access :: "json option"

definition no_access_extra :: access_extra where
  "no_access_extra = \<lparr>ax_custom_claims = [], ax_additional_audiences = [], ax_organization = None,
     ax_realm_access = None, ax_resource_access = None\<rparr>"

(*@ oidc-oidc/src/tokens/jwt_service.rs 23-37 aud_serde::serialize *)
fun aud_serialize :: "json \<Rightarrow> json" where
  "aud_serialize (JArr [JStr s]) = JStr s"
| "aud_serialize v = v"

definition opt_member :: "string \<Rightarrow> ('a \<Rightarrow> json) \<Rightarrow> 'a option \<Rightarrow> members" where
  "opt_member k f x = (case x of None \<Rightarrow> [] | Some a \<Rightarrow> [(k, f a)])"

(*@ oidc-oidc/src/tokens/jwt_service.rs 77-111 AccessTokenClaims serialised *)
definition access_members :: "access_claims \<Rightarrow> members" where
  "access_members c =
     [(''sub'', JStr (at_sub c)), (''aud'', aud_serialize (at_aud c)), (''iss'', JStr (at_iss c)),
      (''exp'', JNum (at_exp c)), (''iat'', JNum (at_iat c))]
     @ opt_member ''jti'' JStr (at_jti c)
     @ [(''scope'', JStr (at_scope c))]
     @ opt_member ''azp'' JStr (at_azp c)
     @ opt_member ''cnf'' (\<lambda>v. v) (at_cnf c)
     @ opt_member ''authorization_details'' (\<lambda>v. v) (at_authorization_details c)
     @ opt_member ''organization'' (\<lambda>v. v) (at_organization c)
     @ opt_member ''realm_access'' (\<lambda>v. v) (at_realm_access c)
     @ opt_member ''resource_access'' (\<lambda>v. v) (at_resource_access c)
     @ at_custom_claims c"

text \<open>\<open>values.push\<close> of every audience that is not there yet.\<close>

fun push_audiences :: "string list \<Rightarrow> string list \<Rightarrow> string list" where
  "push_audiences aud [] = aud"
| "push_audiences aud (a # rest) = push_audiences (if a \<in> set aud then aud else aud @ [a]) rest"

(*@ oidc-oidc/src/tokens/jwt_service.rs 1053-1089 audience and azp of an access token *)
definition access_audience ::
  "string \<Rightarrow> string list option \<Rightarrow> string list \<Rightarrow> string list \<times> string option" where
  "access_audience audience resource additional =
     (let (aud, azp) = (case resource of
             Some (r # rs) \<Rightarrow> (audience # r # rs, Some audience)
           | _ \<Rightarrow> ([audience], None))
      in if additional = [] then (aud, azp)
         else let values = push_audiences aud additional
              in (values, if 1 < length values then Some audience else azp))"

definition join_scopes :: "string list \<Rightarrow> string" where
  "join_scopes = join '' ''"

(*@ oidc-oidc/src/tokens/jwt_service.rs 1042-1109 issue_access_token_with_extra *)
definition issue_access_token ::
  "env \<Rightarrow> nat \<Rightarrow> token_service \<Rightarrow> int \<Rightarrow> string \<Rightarrow> string \<Rightarrow> string list \<Rightarrow> string option \<Rightarrow>
   json option \<Rightarrow> string list option \<Rightarrow> access_extra \<Rightarrow> (access_claims \<times> string) result" where
  "issue_access_token E k svc now subject audience scopes dpop_jkt details resource extra =
     (let (aud, azp) = access_audience audience resource (ax_additional_audiences extra)
      in bindr (generate_opaque_token E k) (\<lambda>jti.
         let claims =
           \<lparr>at_sub = subject, at_aud = JArr (map JStr aud), at_iss = ts_issuer svc,
            at_exp = now + ts_access_ttl svc, at_iat = now, at_jti = Some jti,
            at_scope = join_scopes scopes, at_azp = azp,
            at_cnf = map_option (\<lambda>jkt. json_object [(''jkt'', JStr jkt)]) dpop_jkt,
            at_authorization_details = details, at_organization = ax_organization extra,
            at_realm_access = ax_realm_access extra, at_resource_access = ax_resource_access extra,
            at_custom_claims = ax_custom_claims extra\<rparr>
         in bindr (encode_jwt E svc (access_members claims)) (\<lambda>token. Inr (claims, token))))"

text \<open>The record that \<open>verify_access_token_with_claims\<close> copies out of the claims drops \<open>jti\<close> and
  \<open>azp\<close>; every other field is the claim itself, so the claims stand for it.\<close>

(*@ oidc-oidc/src/tokens/jwt_service.rs 1123-1149 verify_access_token_with_claims *)
definition verify_access_token ::
  "env \<Rightarrow> token_service \<Rightarrow> int \<Rightarrow> string \<Rightarrow> access_claims result" where
  "verify_access_token E svc now token =
     bindr (decode_jwt E svc (e_parse_access E) token) (\<lambda>c.
     bindr (ensure (\<not> at_exp c < now) TokenExpired) (\<lambda>_.
     bindr (ensure (at_iss c = ts_issuer svc) InvalidTokenSignature) (\<lambda>_. Inr c)))"


section \<open>ID tokens\<close>

(*@ oidc-core/src/traits/token_service.rs 8-82 IdTokenExtraClaims *)
record id_extra =
  ix_custom_claims :: members
  ix_additional_audiences :: "string list"
  ix_nonce :: "string option"
  ix_at_hash :: "string option"
  ix_c_hash :: "string option"
  ix_auth_time :: "int option"
  ix_sid :: "string option"
  ix_email :: "string option"
  ix_email_verified :: "bool option"
  ix_name :: "string option"
  ix_given_name :: "string option"
  ix_family_name :: "string option"
  ix_middle_name :: "string option"
  ix_nickname :: "string option"
  ix_preferred_username :: "string option"
  ix_profile :: "string option"
  ix_picture :: "string option"
  ix_website :: "string option"
  ix_gender :: "string option"
  ix_birthdate :: "string option"
  ix_zoneinfo :: "string option"
  ix_locale :: "string option"
  ix_phone_number :: "string option"
  ix_phone_number_verified :: "bool option"
  ix_updated_at :: "int option"
  ix_acr :: "string option"
  ix_amr :: "string list option"
  ix_azp :: "string option"
  ix_address :: "json option"
  ix_roles :: "string list option"
  ix_realm_access :: "json option"
  ix_resource_access :: "json option"
  ix_groups :: "string list option"
  ix_organization :: "json option"

(*@ oidc-oidc/src/tokens/jwt_service.rs 115-195 IdTokenClaims serialised *)
definition id_members ::
  "token_service \<Rightarrow> int \<Rightarrow> string \<Rightarrow> string \<Rightarrow> id_extra \<Rightarrow> members" where
  "id_members svc now subject audience x =
     [(''sub'', JStr subject),
      (''aud'', aud_serialize (if ix_additional_audiences x = [] then JStr audience
                  else JArr (map JStr (push_audiences [audience] (ix_additional_audiences x))))),
      (''iss'', JStr (ts_issuer svc)), (''exp'', JNum (now + ts_id_ttl svc)), (''iat'', JNum now),
      (''auth_time'', JNum (case ix_auth_time x of None \<Rightarrow> now | Some t \<Rightarrow> t))]
     @ opt_member ''nonce'' JStr (ix_nonce x) @ opt_member ''sid'' JStr (ix_sid x)
     @ opt_member ''at_hash'' JStr (ix_at_hash x) @ opt_member ''c_hash'' JStr (ix_c_hash x)
     @ opt_member ''email'' JStr (ix_email x)
     @ opt_member ''email_verified'' JBool (ix_email_verified x)
     @ opt_member ''name'' JStr (ix_name x) @ opt_member ''given_name'' JStr (ix_given_name x)
     @ opt_member ''family_name'' JStr (ix_family_name x)
     @ opt_member ''middle_name'' JStr (ix_middle_name x)
     @ opt_member ''nickname'' JStr (ix_nickname x)
     @ opt_member ''preferred_username'' JStr (ix_preferred_username x)
     @ opt_member ''profile'' JStr (ix_profile x) @ opt_member ''picture'' JStr (ix_picture x)
     @ opt_member ''website'' JStr (ix_website x) @ opt_member ''gender'' JStr (ix_gender x)
     @ opt_member ''birthdate'' JStr (ix_birthdate x) @ opt_member ''zoneinfo'' JStr (ix_zoneinfo x)
     @ opt_member ''locale'' JStr (ix_locale x)
     @ opt_member ''phone_number'' JStr (ix_phone_number x)
     @ opt_member ''phone_number_verified'' JBool (ix_phone_number_verified x)
     @ opt_member ''updated_at'' JNum (ix_updated_at x)
     @ opt_member ''acr'' JStr (ix_acr x) @ opt_member ''amr'' strs (ix_amr x)
     @ opt_member ''azp'' JStr (case ix_azp x of Some a \<Rightarrow> Some a
          | None \<Rightarrow> if ix_additional_audiences x = [] then None else Some audience)
     @ opt_member ''address'' (\<lambda>v. v) (ix_address x)
     @ opt_member ''roles'' strs (ix_roles x) @ opt_member ''groups'' strs (ix_groups x)
     @ opt_member ''organization'' (\<lambda>v. v) (ix_organization x)
     @ opt_member ''realm_access'' (\<lambda>v. v) (ix_realm_access x)
     @ opt_member ''resource_access'' (\<lambda>v. v) (ix_resource_access x)
     @ ix_custom_claims x"

(*@ oidc-oidc/src/tokens/jwt_service.rs 1163-1227 issue_id_token *)
definition issue_id_token ::
  "env \<Rightarrow> token_service \<Rightarrow> int \<Rightarrow> string \<Rightarrow> string \<Rightarrow> id_extra \<Rightarrow> string result" where
  "issue_id_token E svc now subject audience x =
     encode_jwt E svc (id_members svc now subject audience x)"


section \<open>Facts\<close>

lemma push_audiences_set: "set (push_audiences aud xs) = set aud \<union> set xs"
  by (induction aud xs rule: push_audiences.induct) auto

lemma push_audiences_prefix: "\<exists>ys. push_audiences aud xs = aud @ ys"
  by (induction aud xs rule: push_audiences.induct) auto

text \<open>The audience of an access token starts with the client, contains exactly the client, the
  requested resources and the audiences of the mappers, and there is an authorised party, the
  client, exactly when the audience has more than one member (RFC 8707, OIDC Core section 2).\<close>

theorem access_audience_correct:
  "hd (fst (access_audience client resource additional)) = client
   \<and> set (fst (access_audience client resource additional)) =
        {client} \<union> (case resource of None \<Rightarrow> {} | Some rs \<Rightarrow> set rs) \<union> set additional
   \<and> snd (access_audience client resource additional) =
        (if 1 < length (fst (access_audience client resource additional)) then Some client else None)"
proof -
  define base where "base = (case resource of Some (r # rs) \<Rightarrow> client # r # rs | _ \<Rightarrow> [client])"
  have base: "hd base = client" "base \<noteq> []"
    "set base = {client} \<union> (case resource of None \<Rightarrow> {} | Some rs \<Rightarrow> set rs)"
    by (auto simp: base_def split: option.splits list.splits)
  obtain ys where ys: "push_audiences base additional = base @ ys"
    using push_audiences_prefix by blast
  have "hd (push_audiences base additional) = client"
    using base ys by simp
  moreover have "access_audience client resource additional =
      (if additional = [] then (base, if 1 < length base then Some client else None)
       else (push_audiences base additional,
             if 1 < length (push_audiences base additional) then Some client else None))"
    using ys by (auto simp: access_audience_def base_def Let_def split: option.splits list.splits)
  ultimately show ?thesis
    using base push_audiences_set [of base additional] by auto
qed

lemma decode_jwt_ok:
  "decode_jwt E svc parse token = Inr c \<longleftrightarrow>
     (\<exists>p0 p1 p2 h sig. split_on (CHR ''.'') token = [p0, p1, p2]
        \<and> Option.bind (e_unb64 E p0) (e_parse_header E) = Some h
        \<and> e_unb64 E p2 = Some sig
        \<and> (h_alg h = ''RS256'' \<and> ts_verify_rs256 svc (p0 @ ''.'' @ p1) sig
           \<or> h_alg h = ''EdDSA'' \<and> ts_verify_eddsa svc (p0 @ ''.'' @ p1) sig)
        \<and> Option.bind (e_unb64 E p1) parse = Some c)"
  unfolding decode_jwt_def
  by (auto split: list.splits option.splits if_splits)

text \<open>C6 A token is only ever accepted with a signature: if verification returns claims, the header
  names RS256 or EdDSA (so \<open>alg: none\<close> and the HMAC algorithms are rejected), the signature over
  the first two segments verifies under the service's key of that algorithm, the claims are those
  of the second segment, they are not expired and their issuer is the service's.\<close>

theorem verify_access_token_sound:
  assumes "verify_access_token E svc now token = Inr c"
  shows "now \<le> at_exp c \<and> at_iss c = ts_issuer svc
    \<and> (\<exists>p0 p1 p2 h sig. token = p0 @ ''.'' @ p1 @ ''.'' @ p2
        \<and> Option.bind (e_unb64 E p0) (e_parse_header E) = Some h \<and> e_unb64 E p2 = Some sig
        \<and> (h_alg h = ''RS256'' \<and> ts_verify_rs256 svc (p0 @ ''.'' @ p1) sig
           \<or> h_alg h = ''EdDSA'' \<and> ts_verify_eddsa svc (p0 @ ''.'' @ p1) sig)
        \<and> Option.bind (e_unb64 E p1) (e_parse_access E) = Some c)"
proof -
  from assms have dec: "decode_jwt E svc (e_parse_access E) token = Inr c"
    and c: "now \<le> at_exp c" "at_iss c = ts_issuer svc"
    by (auto simp: verify_access_token_def bindr_Inr)
  have "token = p0 @ ''.'' @ p1 @ ''.'' @ p2" if "split_on (CHR ''.'') token = [p0, p1, p2]" for p0 p1 p2
    using that join_split_on [of "CHR ''.''" token] by simp
  with dec c show ?thesis
    unfolding decode_jwt_ok by blast
qed

text \<open>C7 Round trip of an access token: with a signature scheme that accepts its own signatures and
  encoders that decode what they encode, the token that is issued verifies until its expiry and
  gives back the claims it was issued with (subject, issuer, time of issue, scope, the thumbprint of
  the DPoP key as the confirmation, authorization details); after its expiry it is an expired token, nothing else.\<close>

theorem access_token_roundtrip:
  assumes b64: "\<And>s. e_unb64 E (e_b64 E s) = Some s" "\<And>s. CHR ''.'' \<notin> set (e_b64 E s)"
    and sig: "\<And>d s. ts_sign_rs256 svc d = Inr s \<Longrightarrow> ts_verify_rs256 svc d s"
    and header: "e_parse_header E (e_json_text E (header_members (rs256_header svc))) = Some (rs256_header svc)"
    and issued: "issue_access_token E k svc now subject audience scopes jkt details resource extra
                   = Inr (c, token)"
    and claims: "e_parse_access E (e_json_text E (access_members c)) = Some c"
  shows "verify_access_token E svc t token =
      (if now + ts_access_ttl svc < t then Inl TokenExpired else Inr c)
    \<and> at_sub c = subject \<and> at_iss c = ts_issuer svc \<and> at_scope c = join_scopes scopes
    \<and> at_iat c = now \<and> at_authorization_details c = details
    \<and> at_cnf c = map_option (\<lambda>k. json_object [(''jkt'', JStr k)]) jkt"
proof -
  from issued obtain jti where
    c: "c = \<lparr>at_sub = subject,
            at_aud = JArr (map JStr (fst (access_audience audience resource (ax_additional_audiences extra)))),
            at_iss = ts_issuer svc, at_exp = now + ts_access_ttl svc, at_iat = now, at_jti = Some jti,
            at_scope = join_scopes scopes,
            at_azp = snd (access_audience audience resource (ax_additional_audiences extra)),
            at_cnf = map_option (\<lambda>jkt. json_object [(''jkt'', JStr jkt)]) jkt,
            at_authorization_details = details, at_organization = ax_organization extra,
            at_realm_access = ax_realm_access extra, at_resource_access = ax_resource_access extra,
            at_custom_claims = ax_custom_claims extra\<rparr>"
    and enc: "encode_jwt E svc (access_members c) = Inr token"
    unfolding issue_access_token_def by (auto simp: bindr_Inr Let_def split: prod.splits)
  let ?p0 = "e_b64 E (e_json_text E (header_members (rs256_header svc)))"
  let ?p1 = "e_b64 E (e_json_text E (access_members c))"
  from enc obtain s where s: "ts_sign_rs256 svc (?p0 @ ''.'' @ ?p1) = Inr s"
    and token: "token = join ''.'' [?p0, ?p1, e_b64 E s]"
    by (auto simp: encode_jwt_def signing_input_def Let_def bindr_Inr)
  have "split_on (CHR ''.'') token = [?p0, ?p1, e_b64 E s]"
    unfolding token by (rule split_on_join) (auto simp: b64(2))
  then have "decode_jwt E svc (e_parse_access E) token = Inr c"
    unfolding decode_jwt_ok using b64(1) header claims sig [OF s]
    by (auto simp: rs256_header_def)
  then show ?thesis
    by (simp add: verify_access_token_def ensure_def c)
qed

text \<open>The assumptions at a concrete service: a base64 that writes no dot, a signature that is a tagged
  copy of its input, a parser for the two texts that occur.\<close>

definition b64_toy :: "string \<Rightarrow> string" where
  "b64_toy s = concat (map (\<lambda>c. if c = CHR ''.'' then ''_d'' else if c = CHR ''_'' then ''_u'' else [c]) s)"

fun unb64_toy :: "string \<Rightarrow> string option" where
  "unb64_toy [] = Some []"
| "unb64_toy (c # cs) =
     (if c = CHR ''_'' then
        (case cs of [] \<Rightarrow> None
         | x # xs \<Rightarrow> map_option (\<lambda>r. (if x = CHR ''d'' then CHR ''.'' else CHR ''_'') # r) (unb64_toy xs))
      else map_option (\<lambda>r. c # r) (unb64_toy cs))"

lemma unb64_b64_toy: "unb64_toy (b64_toy s) = Some s"
  by (induction s) (auto simp: b64_toy_def)

lemma b64_toy_no_dot: "CHR ''.'' \<notin> set (b64_toy s)"
  by (induction s) (auto simp: b64_toy_def)

definition toy_claims :: access_claims where
  "toy_claims = \<lparr>at_sub = ''alice'', at_aud = JArr [JStr ''app''], at_iss = ''https://op'', at_exp = 900,
     at_iat = 0, at_jti = Some (b64_toy ''abcdefgh''), at_scope = ''openid'', at_azp = None, at_cnf = None,
     at_authorization_details = None, at_organization = None, at_realm_access = None,
     at_resource_access = None, at_custom_claims = []\<rparr>"

definition toy_env :: env where
  "toy_env = sample_env\<lparr>e_b64 := b64_toy, e_unb64 := unb64_toy,
     e_json_text := (\<lambda>m. if map fst m = [''alg'', ''typ'', ''kid''] then ''h'' else ''c''),
     e_parse_header := (\<lambda>_. Some (rs256_header sample_service)),
     e_parse_access := (\<lambda>_. Some toy_claims)\<rparr>"

lemma toy_issue:
  "issue_access_token toy_env 0 sample_service 0 ''alice'' ''app'' [''openid''] None None None no_access_extra
   = Inr (toy_claims, join ''.'' [b64_toy ''h'', b64_toy ''c'', b64_toy (''r'' @ join ''.'' [b64_toy ''h'', b64_toy ''c''])])"
  by (simp add: issue_access_token_def access_audience_def generate_opaque_token_def toy_env_def
      sample_env_def sample_service_def encode_jwt_def signing_input_def toy_claims_def no_access_extra_def
      join_scopes_def header_members_def access_members_def opt_member_def Let_def)

lemma access_token_roundtrip_witness:
  "\<exists>token. verify_access_token toy_env sample_service 900 token = Inr toy_claims
     \<and> verify_access_token toy_env sample_service 901 token = Inl TokenExpired"
proof -
  let ?token = "join ''.'' [b64_toy ''h'', b64_toy ''c'', b64_toy (''r'' @ join ''.'' [b64_toy ''h'', b64_toy ''c''])]"
  have "verify_access_token toy_env sample_service t ?token =
      (if 0 + ts_access_ttl sample_service < t then Inl TokenExpired else Inr toy_claims)" for t
    by (rule conjunct1 [OF access_token_roundtrip [OF _ _ _ _ toy_issue]])
      (auto simp: toy_env_def unb64_b64_toy b64_toy_no_dot sample_service_def)
  then have "verify_access_token toy_env sample_service 900 ?token = Inr toy_claims
     \<and> verify_access_token toy_env sample_service 901 ?token = Inl TokenExpired"
    by (simp add: sample_service_def)
  then show ?thesis
    by blast
qed

lemma verify_access_token_sound_witness:
  "at_iss toy_claims = ts_issuer sample_service"
proof -
  have "\<exists>token. verify_access_token toy_env sample_service 0 token = Inr toy_claims"
  proof
    let ?t = "''h.c.rh_dc''"
    have "split_on (CHR ''.'') ?t = [''h'', ''c'', ''rh_dc'']"
      by simp
    then show "verify_access_token toy_env sample_service 0 ?t = Inr toy_claims"
      by (simp add: verify_access_token_def decode_jwt_def toy_env_def sample_env_def sample_service_def
          rs256_header_def toy_claims_def ensure_def)
  qed
  then show ?thesis
    using verify_access_token_sound by blast
qed

end
