(* ===== verification/Claims.thy ===== *)
theory Claims
  imports Roles Tokens
begin

text \<open>The claims of a token that come from the database: organizations
  (\<open>oidc-oidc/src/organization_claims.rs\<close> with the queries of \<open>organization_repo.rs\<close>) and protocol
  mappers (\<open>oidc-oidc/src/protocol_mappers.rs\<close>, the validation of a mapper in
  \<open>oidc-core/src/models/protocol_mapper.rs\<close>), and the resolution of scopes for a client
  (\<open>scope_repo.rs\<close>).\<close>

section \<open>Scopes\<close>

(*@ oidc-oidc/src/organization_claims.rs 9-16 is_scope_allowed *)
definition is_scope_allowed :: "string \<Rightarrow> string list \<Rightarrow> bool" where
  "is_scope_allowed requested allowed \<longleftrightarrow>
     requested \<in> set allowed
     \<or> (starts_with requested ''organization:'' \<and> ''organization'' \<in> set allowed)"

(*@ oidc-repository/src/repositories/scope_repo.rs 222-228 crate_scope_allowed *)
definition crate_scope_allowed :: "string \<Rightarrow> string list \<Rightarrow> bool" where
  "crate_scope_allowed requested allowed \<longleftrightarrow>
     (\<exists>s \<in> set allowed. s = requested
        \<or> (starts_with requested s \<and> length s < length requested \<and> requested ! length s = CHR '':''))"

definition assignment_le :: "(string \<Rightarrow> string \<Rightarrow> bool) \<Rightarrow> client_scope_assignment \<Rightarrow> client_scope_assignment \<Rightarrow> bool" where
  "assignment_le collate a b \<longleftrightarrow>
     (if csa_assignment_type a = csa_assignment_type b then collate (csa_name a) (csa_name b)
      else collate (csa_assignment_type a) (csa_assignment_type b))"

(*@ oidc-repository/src/repositories/scope_repo.rs 15-27 ScopeRepo::list_by_client *)
definition scopes_of_client :: "(string \<Rightarrow> string \<Rightarrow> bool) \<Rightarrow> uuid \<Rightarrow> db \<Rightarrow> client_scope_assignment list" where
  "scopes_of_client collate cid d =
     sort_by (assignment_le collate)
       (concat (map (\<lambda>(c, sid, kind).
            if c = cid then map (\<lambda>s. \<lparr>csa_scope_id = sc_id s, csa_name = sc_name s,
                 csa_description = sc_description s, csa_enabled = sc_enabled s,
                 csa_assignment_type = kind\<rparr>) (filter (\<lambda>s. sc_id s = sid) (d_scopes d))
            else []) (d_client_scopes d)))"

text \<open>The defaults are appended in order, each unless it is there already.\<close>

fun append_missing :: "string list \<Rightarrow> string list \<Rightarrow> string list" where
  "append_missing acc [] = acc"
| "append_missing acc (x # xs) = append_missing (if x \<in> set acc then acc else acc @ [x]) xs"

(*@ oidc-repository/src/repositories/scope_repo.rs 63-93 ScopeRepo::resolve_names_for_client *)
definition resolve_names_for_client ::
  "(string \<Rightarrow> string \<Rightarrow> bool) \<Rightarrow> uuid \<Rightarrow> string list \<Rightarrow> string list \<Rightarrow> db \<Rightarrow> string list result" where
  "resolve_names_for_client collate cid requested legacy_allowed d =
     (let assignments = scopes_of_client collate cid d;
          allowed = legacy_allowed @ map csa_name (filter csa_enabled assignments)
      in bindr (check_all (\<lambda>n. ensure (crate_scope_allowed n allowed) (InvalidScope n)) requested) (\<lambda>_.
         Inr (append_missing requested
           (map csa_name (filter (\<lambda>a. csa_enabled a \<and> csa_assignment_type a = ''default'') assignments)))))"

lemma set_append_missing: "set (append_missing acc xs) = set acc \<union> set xs"
  by (induction acc xs rule: append_missing.induct) auto

definition allowed_names :: "(string \<Rightarrow> string \<Rightarrow> bool) \<Rightarrow> uuid \<Rightarrow> string list \<Rightarrow> db \<Rightarrow> string list" where
  "allowed_names collate cid legacy d =
     legacy @ map csa_name (filter csa_enabled (scopes_of_client collate cid d))"

lemma resolve_names_Inr:
  "resolve_names_for_client collate cid requested legacy d = Inr granted \<longleftrightarrow>
     (\<forall>s \<in> set requested. crate_scope_allowed s (allowed_names collate cid legacy d))
     \<and> granted = append_missing requested (map csa_name (filter (\<lambda>a. csa_enabled a
          \<and> csa_assignment_type a = ''default'') (scopes_of_client collate cid d)))"
  by (auto simp: resolve_names_for_client_def Let_def bindr_Inr check_all_ok allowed_names_def)

lemma resolve_names_Inl:
  "resolve_names_for_client collate cid requested legacy d = Inl e \<Longrightarrow>
     \<exists>s \<in> set requested. e = InvalidScope s \<and> \<not> crate_scope_allowed s (allowed_names collate cid legacy d)"
proof -
  let ?ok = "\<lambda>n. ensure (crate_scope_allowed n (allowed_names collate cid legacy d)) (InvalidScope n)"
  have "check_all ?ok xs = Inl e \<Longrightarrow> \<exists>s \<in> set xs. e = InvalidScope s
      \<and> \<not> crate_scope_allowed s (allowed_names collate cid legacy d)" for xs
    by (induction xs) (auto simp: ensure_def split: if_splits)
  then show "resolve_names_for_client collate cid requested legacy d = Inl e \<Longrightarrow> ?thesis"
    by (cases "check_all ?ok requested")
      (auto simp: resolve_names_for_client_def Let_def allowed_names_def)
qed

text \<open>The scopes granted to a client are the requested ones followed by the enabled default scopes
  of the client, and nothing else, provided every requested scope is one of the client's or a
  parameterised form \<open>scope:value\<close> of one; otherwise the request fails and the error names a
  requested scope that is not.\<close>

theorem resolve_names_correct:
  "if \<forall>s \<in> set requested. crate_scope_allowed s (allowed_names collate cid legacy d)
   then \<exists>granted. resolve_names_for_client collate cid requested legacy d = Inr granted
          \<and> take (length requested) granted = requested
          \<and> set granted = set requested \<union> {csa_name a |a. a \<in> set (scopes_of_client collate cid d)
                \<and> csa_enabled a \<and> csa_assignment_type a = ''default''}
   else \<exists>s \<in> set requested. resolve_names_for_client collate cid requested legacy d = Inl (InvalidScope s)
          \<and> \<not> crate_scope_allowed s (allowed_names collate cid legacy d)"
proof (cases "\<forall>s \<in> set requested. crate_scope_allowed s (allowed_names collate cid legacy d)")
  case True
  have "\<exists>ys. append_missing acc xs = acc @ ys" for acc xs
    by (induction acc xs rule: append_missing.induct) auto
  then have "take (length requested) (append_missing requested xs) = requested" for xs
    by (metis append_eq_conv_conj)
  with True show ?thesis
    by (auto simp: resolve_names_Inr set_append_missing)
next
  case False
  then have "\<nexists>granted. resolve_names_for_client collate cid requested legacy d = Inr granted"
    by (simp add: resolve_names_Inr)
  then obtain e where e: "resolve_names_for_client collate cid requested legacy d = Inl e"
    by (metis sumE)
  from resolve_names_Inl [OF e] False e show ?thesis
    by auto
qed

lemma resolve_names_correct_witness:
  "\<exists>granted. resolve_names_for_client str_le 5 [''openid''] [''openid''] empty_db = Inr granted"
  using resolve_names_correct [of "[''openid'']" str_le 5 "[''openid'']" empty_db]
  by (auto simp: crate_scope_allowed_def allowed_names_def)


section \<open>Rows of the organization table\<close>

text \<open>A row of a result is the list of its columns; \<open>Row::get\<close> fails when there is no column at the
  index or when its type is not the one asked for.  \<open>text_json\<close> says what reading a text column as
  JSON gives.\<close>

datatype column =
  CUuid uuid | CText "string option" | CBool bool | CJson json | CTime instant

definition column_error :: oidc_error where
  "column_error = Internal ''column''"

definition at_index :: "column list \<Rightarrow> nat \<Rightarrow> column result" where
  "at_index row i = (if i < length row then Inr (row ! i) else Inl column_error)"

(*@ oidc-repository/src/mapper.rs 24-84 the column readers *)
definition col_uuid :: "column list \<Rightarrow> nat \<Rightarrow> uuid result" where
  "col_uuid row i = bindr (at_index row i) (\<lambda>c. case c of CUuid u \<Rightarrow> Inr u | _ \<Rightarrow> Inl column_error)"

definition col_opt_string :: "column list \<Rightarrow> nat \<Rightarrow> string option result" where
  "col_opt_string row i =
     bindr (at_index row i) (\<lambda>c. case c of CText t \<Rightarrow> Inr t | _ \<Rightarrow> Inl column_error)"

definition col_string :: "column list \<Rightarrow> nat \<Rightarrow> string result" where
  "col_string row i =
     bindr (col_opt_string row i) (\<lambda>t. case t of Some s \<Rightarrow> Inr s | None \<Rightarrow> Inl column_error)"

definition col_bool :: "column list \<Rightarrow> nat \<Rightarrow> bool result" where
  "col_bool row i = bindr (at_index row i) (\<lambda>c. case c of CBool b \<Rightarrow> Inr b | _ \<Rightarrow> Inl column_error)"

definition col_time :: "column list \<Rightarrow> nat \<Rightarrow> instant result" where
  "col_time row i = bindr (at_index row i) (\<lambda>c. case c of CTime t \<Rightarrow> Inr t | _ \<Rightarrow> Inl column_error)"

definition col_json :: "(string option \<Rightarrow> json option) \<Rightarrow> column list \<Rightarrow> nat \<Rightarrow> json result" where
  "col_json text_json row i = bindr (at_index row i) (\<lambda>c. case c of
       CJson j \<Rightarrow> Inr j
     | CText t \<Rightarrow> (case text_json t of Some j \<Rightarrow> Inr j | None \<Rightarrow> Inl column_error)
     | _ \<Rightarrow> Inl column_error)"

text \<open>An element of the JSON array that is not a string is printed; the printed text is not needed
  here and is the empty string.\<close>

definition json_string_vec :: "json \<Rightarrow> string list" where
  "json_string_vec j = (case j of
      JArr xs \<Rightarrow> map (\<lambda>v. case v of JStr s \<Rightarrow> s | _ \<Rightarrow> []) xs
    | _ \<Rightarrow> [])"

(*@ oidc-repository/src/repositories/organization_repo.rs 617-630 OrganizationRepo::map_organization *)
definition map_organization :: "(string option \<Rightarrow> json option) \<Rightarrow> column list \<Rightarrow> organization result" where
  "map_organization text_json row =
     bindr (col_uuid row 0) (\<lambda>i. bindr (col_uuid row 1) (\<lambda>realm.
     bindr (col_string row 2) (\<lambda>name. bindr (col_string row 3) (\<lambda>alias.
     bindr (col_bool row 4) (\<lambda>enabled. bindr (col_json text_json row 5) (\<lambda>attributes.
     bindr (col_json text_json row 6) (\<lambda>names. bindr (col_opt_string row 7) (\<lambda>redirect_url.
     bindr (col_time row 8) (\<lambda>created. bindr (col_time row 9) (\<lambda>updated.
       Inr \<lparr>o_id = i, o_realm_id = realm, o_name = name, o_alias = alias, o_enabled = enabled,
            o_attributes = attributes, o_claim_attribute_names = json_string_vec names,
            o_redirect_url = redirect_url, o_created_at = created, o_updated_at = updated,
            o_deleted_at = None\<rparr>))))))))))"

text \<open>The columns of the two select lists: \<open>COLUMNS\<close>, used by the other queries of the repository,
  and the list written out in \<open>find_enabled_by_user_id\<close>.\<close>

(*@ oidc-repository/src/repositories/organization_repo.rs 13-13 COLUMNS *)
definition organization_columns :: "organization \<Rightarrow> column list" where
  "organization_columns o' =
     [CUuid (o_id o'), CUuid (o_realm_id o'), CText (Some (o_name o')), CText (Some (o_alias o')),
      CBool (o_enabled o'), CJson (o_attributes o'), CJson (strs (o_claim_attribute_names o')),
      CText (o_redirect_url o'), CTime (o_created_at o'), CTime (o_updated_at o')]"

(*@ oidc-repository/src/repositories/organization_repo.rs 451-455 select list of find_enabled_by_user_id *)
definition enabled_columns :: "organization \<Rightarrow> column list" where
  "enabled_columns o' =
     [CUuid (o_id o'), CUuid (o_realm_id o'), CText (Some (o_name o')), CText (Some (o_alias o')),
      CBool (o_enabled o'), CJson (o_attributes o'), CText (o_redirect_url o'),
      CTime (o_created_at o'), CTime (o_updated_at o')]"

definition member_orgs :: "(string \<Rightarrow> string \<Rightarrow> bool) \<Rightarrow> uuid \<Rightarrow> db \<Rightarrow> organization list" where
  "member_orgs collate uid d =
     sort_by (\<lambda>a b. collate (o_alias a) (o_alias b))
       (filter (\<lambda>org. o_enabled org \<and> o_deleted_at org = None
          \<and> (\<exists>om \<in> set (d_memberships d). om_organization_id om = o_id org \<and> om_user_id om = uid))
        (d_orgs d))"

fun map_rows :: "('a \<Rightarrow> 'e + 'b) \<Rightarrow> 'a list \<Rightarrow> 'e + 'b list" where
  "map_rows f [] = Inr []"
| "map_rows f (x # xs) = bindr (f x) (\<lambda>y. bindr (map_rows f xs) (\<lambda>ys. Inr (y # ys)))"

(*@ oidc-repository/src/repositories/organization_repo.rs 446-463 OrganizationRepo::find_enabled_by_user_id *)
definition enabled_orgs_of_user :: "env \<Rightarrow> uuid \<Rightarrow> db \<Rightarrow> organization list result" where
  "enabled_orgs_of_user E uid d =
     map_rows (\<lambda>org. map_organization (e_text_json E) (enabled_columns org)) (member_orgs (e_collate E) uid d)"

lemma map_organization_columns:
  "o_deleted_at org = None \<Longrightarrow> map_organization tj (organization_columns org) = Inr org"
  by (cases org)
    (simp add: map_organization_def organization_columns_def col_uuid_def col_string_def col_opt_string_def
      col_bool_def col_json_def col_time_def at_index_def json_string_vec_def strs_def comp_def)

lemma map_organization_enabled: "map_organization tj (enabled_columns org) = Inl column_error"
  by (cases "tj (o_redirect_url org)")
    (simp_all add: map_organization_def enabled_columns_def col_uuid_def col_string_def col_opt_string_def
      col_bool_def col_json_def col_time_def at_index_def)

lemma enabled_orgs_of_user_eq:
  "enabled_orgs_of_user E uid d =
     (if member_orgs (e_collate E) uid d = [] then Inr [] else Inl column_error)"
  by (cases "member_orgs (e_collate E) uid d")
    (simp_all add: enabled_orgs_of_user_def map_organization_enabled)


section \<open>Organization claim\<close>

(*@ oidc-repository/src/repositories/organization_repo.rs 411-426 OrganizationRepo::find_user_group_names_and_roles *)
definition org_groups_and_roles ::
  "(string \<Rightarrow> string \<Rightarrow> bool) \<Rightarrow> uuid \<Rightarrow> uuid \<Rightarrow> db \<Rightarrow> string list \<times> string list" where
  "org_groups_and_roles collate oid uid d =
     (let gids = filter (\<lambda>g. (uid, g) \<in> set (d_user_groups d))
                   (map snd (filter (\<lambda>e. fst e = oid) (d_org_groups d)));
          rids = map snd (filter (\<lambda>e. fst e \<in> set gids) (d_group_roles d))
      in (sort_by collate (remdups (map g_name
              (filter (\<lambda>g. g_id g \<in> set gids \<and> g_deleted_at g = None) (d_groups d)))),
          sort_by collate (remdups (map ro_name
              (filter (\<lambda>r. ro_id r \<in> set rids \<and> ro_deleted_at r = None) (d_roles d))))))"

(*@ oidc-oidc/src/organization_claims.rs 18-28 disclosed_attributes *)
definition disclosed_attributes :: "json \<Rightarrow> string list \<Rightarrow> json" where
  "disclosed_attributes attributes names = (case as_object attributes of
      None \<Rightarrow> JObj []
    | Some values \<Rightarrow> json_object (List.map_filter (\<lambda>n. map_option (\<lambda>v. (n, v)) (obj_get values n)) names))"

text \<open>\<open>HashSet\<close> iteration decides only the order of the names in the last error, which is the order
  of the request here.\<close>

(*@ oidc-oidc/src/organization_claims.rs 30-106 resolve_organization_claim *)
definition resolve_organization_claim :: "env \<Rightarrow> uuid \<Rightarrow> string list \<Rightarrow> db \<Rightarrow> json option result" where
  "resolve_organization_claim E uid scopes d =
     (let has_any = ''organization'' \<in> set scopes;
          requested = List.map_filter (\<lambda>s. strip_prefix s ''organization:'') scopes
      in if \<not> has_any \<and> requested = [] then Inr None
         else if [] \<in> set requested
         then Inl (InvalidScope ''organization scope must include a non-empty alias'')
         else bindr (enabled_orgs_of_user E uid d) (\<lambda>organizations.
           let all_requested = ''*'' \<in> set requested;
               has_specific = (\<exists>a \<in> set requested. a \<noteq> ''*'')
           in if (has_any \<and> requested \<noteq> []) \<or> (all_requested \<and> has_specific)
              then Inl (InvalidScope ''organization, organization:*, and organization:<alias> scope formats cannot be mixed'')
              else if has_any \<and> 1 < length organizations
              then Inl (AccountSelectionRequired ''the user belongs to multiple organizations; request organization:<alias> or organization:*'')
              else let chosen = filter (\<lambda>org. has_any \<or> all_requested \<or> o_alias org \<in> set requested) organizations;
                       claim = json_object (map (\<lambda>org.
                         (o_alias org,
                          let (groups, roles) = org_groups_and_roles (e_collate E) (o_id org) uid d
                          in json_object [(''id'', JStr (e_uuid_text E (o_id org))), (''name'', JStr (o_name org)),
                               (''attributes'', disclosed_attributes (o_attributes org) (o_claim_attribute_names org)),
                               (''groups'', strs groups), (''roles'', strs roles)])) chosen);
                       missing = filter (\<lambda>a. jget claim a = None) (remdups requested)
                   in if \<not> all_requested \<and> missing \<noteq> []
                      then Inl (InvalidScope (''user is not a member of requested organization(s): '' @ join '', '' missing))
                      else Inr (Some claim)))"

text \<open>A user who is a member of an enabled organization can never get an organization claim: the
  query that lists the user's organizations selects nine columns, without
  \<open>claim_attribute_names\<close>, and its rows are read with the indices of the ten column list, so that
  every request for an organization scope by such a user fails with an internal error (or, for an
  empty alias, with the scope error that is checked before).  A claim that is returned is the
  empty object, for a user without organizations.\<close>

theorem organization_claim_never_disclosed:
  "(member_orgs (e_collate E) uid d \<noteq> [] \<and> ''organization'' \<in> set scopes
      \<and> ''organization:'' \<notin> set scopes
      \<longrightarrow> resolve_organization_claim E uid scopes d = Inl column_error)
   \<and> (resolve_organization_claim E uid scopes d = Inr (Some claim)
      \<longrightarrow> claim = JObj [] \<and> member_orgs (e_collate E) uid d = [])"
proof (intro conjI impI; (elim conjE)?)
  assume h: "member_orgs (e_collate E) uid d \<noteq> []" "''organization'' \<in> set scopes"
    "''organization:'' \<notin> set scopes"
  have "[] \<notin> set (List.map_filter (\<lambda>s. strip_prefix s ''organization:'') scopes)"
  proof
    assume "[] \<in> set (List.map_filter (\<lambda>s. strip_prefix s ''organization:'') scopes)"
    then obtain s where "s \<in> set scopes" "strip_prefix s ''organization:'' = Some []"
      by (force simp: List.map_filter_def)
    with h(3) show False
      by (simp add: strip_prefix_Some)
  qed
  with h(1, 2) show "resolve_organization_claim E uid scopes d = Inl column_error"
    by (simp add: resolve_organization_claim_def Let_def enabled_orgs_of_user_eq)
next
  assume h: "resolve_organization_claim E uid scopes d = Inr (Some claim)"
  then show "member_orgs (e_collate E) uid d = []"
    by (auto simp: resolve_organization_claim_def Let_def enabled_orgs_of_user_eq split: if_splits)
  from h this show "claim = JObj []"
    by (auto simp: resolve_organization_claim_def Let_def enabled_orgs_of_user_eq json_object_def
        obj.ins_all_def split: if_splits)
qed

lemma organization_claim_never_disclosed_witness:
  "resolve_organization_claim sample_env 7 [''organization'']
     (empty_db\<lparr>d_orgs := [\<lparr>o_id = 1, o_realm_id = 3, o_name = ''Acme'', o_alias = ''acme'', o_enabled = True,
          o_attributes = JObj [], o_claim_attribute_names = [], o_redirect_url = None,
          o_created_at = 0, o_updated_at = 0, o_deleted_at = None\<rparr>],
        d_memberships := [\<lparr>om_organization_id = 1, om_user_id = 7, om_kind = Unmanaged, om_joined_at = 0\<rparr>]\<rparr>)
   = Inl column_error"
  by (rule mp [OF conjunct1 [OF organization_claim_never_disclosed]]) (simp add: member_orgs_def)


section \<open>Protocol mappers\<close>

definition mapper_le :: "(string \<Rightarrow> string \<Rightarrow> bool) \<Rightarrow> string \<times> protocol_mapper \<Rightarrow> string \<times> protocol_mapper \<Rightarrow> bool" where
  "mapper_le collate a b \<longleftrightarrow>
     (if fst a = fst b then collate (pm_name (snd a)) (pm_name (snd b)) else collate (fst a) (fst b))"

(*@ oidc-repository/src/repositories/protocol_mapper_repo.rs 47-58 ProtocolMapperRepo::list_active_for_client *)
definition active_mappers :: "(string \<Rightarrow> string \<Rightarrow> bool) \<Rightarrow> uuid \<Rightarrow> string list \<Rightarrow> db \<Rightarrow> protocol_mapper list" where
  "active_mappers collate cid granted d =
     map snd (sort_by (mapper_le collate)
       (concat (map (\<lambda>pm. concat (map (\<lambda>s. map (\<lambda>_. (sc_name s, pm))
            (filter (\<lambda>(c, sid, _). c = cid \<and> sid = sc_id s) (d_client_scopes d)))
          (filter (\<lambda>s. sc_id s = pm_scope_id pm \<and> sc_enabled s \<and> sc_name s \<in> set granted) (d_scopes d))))
        (d_mappers d))))"

(*@ oidc-oidc/src/protocol_mappers.rs 123-147 user_property *)
definition user_property :: "env \<Rightarrow> user \<Rightarrow> string \<Rightarrow> json option" where
  "user_property E u source =
     (if source = ''id'' then Some (JStr (e_uuid_text E (u_id u)))
      else if source = ''email'' then Some (JStr (u_email u))
      else if source = ''email_verified'' then Some (JBool (u_email_verified u))
      else if source = ''username'' then map_option JStr (u_username u)
      else if source = ''given_name'' then map_option JStr (u_given_name u)
      else if source = ''family_name'' then map_option JStr (u_family_name u)
      else if source = ''middle_name'' then map_option JStr (u_middle_name u)
      else if source = ''nickname'' then map_option JStr (u_nickname u)
      else if source = ''preferred_username'' then map_option JStr (u_preferred_username u)
      else if source = ''profile'' then map_option JStr (u_profile u)
      else if source = ''picture'' then map_option JStr (u_picture u)
      else if source = ''website'' then map_option JStr (u_website u)
      else if source = ''gender'' then map_option JStr (u_gender u)
      else if source = ''birthdate'' then map_option JStr (u_birthdate u)
      else if source = ''zoneinfo'' then map_option JStr (u_zoneinfo u)
      else if source = ''locale'' then Some (JStr (u_locale u))
      else if source = ''phone_number'' then map_option JStr (u_phone_number u)
      else if source = ''phone_number_verified'' then map_option JBool (u_phone_number_verified u)
      else if source = ''updated_at'' then Some (JNum (timestamp (u_updated_at u)))
      else None)"

(*@ oidc-oidc/src/protocol_mappers.rs 14-21 MappedClaims *)
record mapped_claims =
  mc_access_token :: members
  mc_id_token :: members
  mc_userinfo :: members
  mc_access_audiences :: "string list"
  mc_id_audiences :: "string list"

definition no_mapped_claims :: mapped_claims where
  "no_mapped_claims = \<lparr>mc_access_token = [], mc_id_token = [], mc_userinfo = [],
     mc_access_audiences = [], mc_id_audiences = []\<rparr>"

text \<open>A \<open>BTreeSet<String>\<close>: sorted, without duplicates.\<close>

fun set_insert :: "string \<Rightarrow> string list \<Rightarrow> string list" where
  "set_insert x [] = [x]"
| "set_insert x (y # ys) =
     (if x = y then y # ys else if str_le x y then x # y # ys else y # set_insert x ys)"

definition or_default :: "string option \<Rightarrow> string" where
  "or_default s = (case s of None \<Rightarrow> [] | Some x \<Rightarrow> x)"

(*@ oidc-oidc/src/protocol_mappers.rs 68-98 value of a mapper *)
definition mapper_value ::
  "env \<Rightarrow> user option \<Rightarrow> (string \<times> string option) list \<Rightarrow> protocol_mapper \<Rightarrow> json option" where
  "mapper_value E user roles pm = (case pm_mapper_type pm of
       UserProperty \<Rightarrow> Option.bind user (\<lambda>u. user_property E u (or_default (pm_source pm)))
     | UserAttribute \<Rightarrow> Option.bind user (\<lambda>u. value_at_path (u_attributes u) (or_default (pm_source pm)))
     | HardcodedClaim \<Rightarrow> pm_claim_value pm
     | RealmRoles \<Rightarrow> Some (strs (map fst (filter (\<lambda>(_, c). c = None) roles)))
     | ClientRoles \<Rightarrow> Some (strs (map fst (filter (\<lambda>(_, c). c = Some (or_default (pm_source pm))) roles)))
     | Audience \<Rightarrow> None)"

(*@ oidc-oidc/src/protocol_mappers.rs 50-112 one round of the loop of resolve_mapped_claims *)
definition apply_mapper ::
  "env \<Rightarrow> user option \<Rightarrow> (string \<times> string option) list \<Rightarrow> protocol_mapper \<Rightarrow> mapped_claims \<Rightarrow> mapped_claims" where
  "apply_mapper E user roles pm r =
     (if pm_mapper_type pm = Audience then
        (case Option.bind (pm_claim_value pm) as_str_json of
           Some (a # as) \<Rightarrow>
             r\<lparr>mc_access_audiences := (if pm_access_token pm then set_insert (a # as) (mc_access_audiences r)
                                       else mc_access_audiences r),
               mc_id_audiences := (if pm_id_token pm then set_insert (a # as) (mc_id_audiences r)
                                   else mc_id_audiences r)\<rparr>
         | _ \<Rightarrow> r)
      else (case pm_claim_name pm of
          None \<Rightarrow> r
        | Some name \<Rightarrow>
            (case mapper_value E user roles pm of
               None \<Rightarrow> r
             | Some v \<Rightarrow>
                 let value = (if pm_multivalued pm \<and> \<not> is_array v then JArr [v] else v)
                 in r\<lparr>mc_access_token := (if pm_access_token pm then insert_claim (mc_access_token r) name value
                                          else mc_access_token r),
                      mc_id_token := (if pm_id_token pm then insert_claim (mc_id_token r) name value
                                      else mc_id_token r),
                      mc_userinfo := (if pm_userinfo pm then insert_claim (mc_userinfo r) name value
                                      else mc_userinfo r)\<rparr>)))"

(*@ oidc-oidc/src/protocol_mappers.rs 23-115 resolve_mapped_claims *)
definition resolve_mapped_claims ::
  "env \<Rightarrow> uuid \<Rightarrow> user option \<Rightarrow> string list \<Rightarrow> db \<Rightarrow> mapped_claims" where
  "resolve_mapped_claims E cid user granted d =
     (let mappers = active_mappers (e_collate E) cid granted d;
          roles = (case user of
             Some u \<Rightarrow> if \<exists>pm \<in> set mappers. pm_mapper_type pm \<in> {RealmRoles, ClientRoles}
                       then effective_names (e_collate E) (u_id u) d else []
           | None \<Rightarrow> [])
      in fold (apply_mapper E user roles) mappers no_mapped_claims)"

definition protected_claims :: "string list" where
  "protected_claims =
     [''iss'', ''sub'', ''aud'', ''exp'', ''iat'', ''jti'', ''scope'', ''azp'', ''nonce'', ''auth_time'', ''sid'',
      ''at_hash'', ''c_hash'', ''cnf'', ''authorization_details'', ''organization'', ''realm_access'',
      ''resource_access'', ''roles'', ''groups'', ''acr'', ''amr'', ''address'', ''name'', ''given_name'',
      ''family_name'', ''middle_name'', ''nickname'', ''preferred_username'', ''profile'', ''picture'',
      ''website'', ''gender'', ''birthdate'', ''zoneinfo'', ''locale'', ''email'', ''email_verified'',
      ''phone_number'', ''phone_number_verified'', ''updated_at'']"

definition user_properties :: "string list" where
  "user_properties =
     [''id'', ''email'', ''email_verified'', ''username'', ''given_name'', ''family_name'', ''middle_name'',
      ''nickname'', ''preferred_username'', ''profile'', ''picture'', ''website'', ''gender'', ''birthdate'',
      ''zoneinfo'', ''locale'', ''phone_number'', ''phone_number_verified'', ''updated_at'']"

(*@ oidc-core/src/models/protocol_mapper.rs 66-175 ProtocolMapper::validate *)
definition validate_mapper :: "protocol_mapper \<Rightarrow> unit result" where
  "validate_mapper pm =
     (if trim (pm_name pm) = [] then Inl (InvalidInput ''mapper name must not be empty'')
      else if pm_mapper_type pm = Audience then
        (if Option.bind (pm_claim_value pm) as_str_json = None
         then Inl (InvalidInput ''audience mapper requires a string value'') else Inr ())
      else let claim_name = trim (or_default (pm_claim_name pm)) in
        if claim_name = [] then Inl (InvalidInput ''claim name must not be empty'')
        else if hd (split_on (CHR ''.'') claim_name) \<in> set protected_claims
        then Inl (InvalidInput ''claim name conflicts with a protected token claim'')
        else if pm_mapper_type pm \<in> {UserProperty, UserAttribute, ClientRoles}
                \<and> trim (or_default (pm_source pm)) = []
        then Inl (InvalidInput ''this mapper type requires a source'')
        else if pm_mapper_type pm = UserProperty \<and> or_default (pm_source pm) \<notin> set user_properties
        then Inl (InvalidInput ''unsupported user property'')
        else if pm_mapper_type pm = HardcodedClaim \<and> pm_claim_value pm = None
        then Inl (InvalidInput ''hardcoded mapper requires a value'')
        else Inr ())"

text \<open>The top level claim that a mapper writes: the first part of its path.\<close>

definition claim_root :: "string \<Rightarrow> string option" where
  "claim_root name = (case path_parts name of [] \<Rightarrow> None | p # _ \<Rightarrow> Some p)"

lemma insert_claim_root:
  "k \<in> fst ` set (insert_claim m name v) \<Longrightarrow> k \<in> fst ` set m \<or> claim_root name = Some k"
  unfolding insert_claim_def claim_root_def
  by (cases "(m, path_parts name, v)" rule: insert_at.cases) (auto simp: obj_insert_keys Let_def)

definition clean_name :: "string \<Rightarrow> bool" where
  "clean_name name \<longleftrightarrow> trim name = name \<and> \<not> starts_with name ''.''"

lemma clean_name_root:
  assumes "clean_name name" and "name \<noteq> []"
  shows "claim_root name = Some (hd (split_on (CHR ''.'') name))"
proof -
  obtain p ps where ps: "split_on (CHR ''.'') name = p # ps"
    using split_on_nonempty by (metis list.exhaust)
  then have name: "name = join ''.'' (p # ps)"
    using join_split_on by metis
  have "p \<noteq> []"
  proof
    assume "p = []"
    then have "ps \<noteq> []"
      using name assms(2) by auto
    then have "starts_with name ''.''"
      using name \<open>p = []\<close> by (cases ps) (auto simp: starts_with_def)
    with assms(1) show False
      by (simp add: clean_name_def)
  qed
  then show ?thesis
    by (simp add: claim_root_def path_parts_def ps)
qed

definition writes_protected :: "members \<Rightarrow> bool" where
  "writes_protected m \<longleftrightarrow> (\<exists>k \<in> fst ` set m. k \<in> set protected_claims)"

lemma apply_mapper_protected:
  assumes "validate_mapper pm = Inr ()" and "\<forall>n. pm_claim_name pm = Some n \<longrightarrow> clean_name n"
    and "\<not> writes_protected (mc_access_token r) \<and> \<not> writes_protected (mc_id_token r)
         \<and> \<not> writes_protected (mc_userinfo r)"
  shows "\<not> writes_protected (mc_access_token (apply_mapper E user roles pm r))
    \<and> \<not> writes_protected (mc_id_token (apply_mapper E user roles pm r))
    \<and> \<not> writes_protected (mc_userinfo (apply_mapper E user roles pm r))"
proof (cases "pm_mapper_type pm = Audience")
  case True
  with assms(3) show ?thesis
    by (auto simp: apply_mapper_def split: option.splits list.splits)
next
  case False
  have keep: "\<not> writes_protected (insert_claim m n v)"
    if "\<not> writes_protected m" "pm_claim_name pm = Some n" for m n v
  proof -
    have "clean_name n" "trim n = n" "n \<noteq> []" "hd (split_on (CHR ''.'') n) \<notin> set protected_claims"
      using assms(1, 2) that False
      by (auto simp: validate_mapper_def Let_def or_default_def clean_name_def split: if_splits)
    then have "claim_root n \<noteq> Some k" if "k \<in> set protected_claims" for k
      using clean_name_root [of n] that by auto
    then show ?thesis
      using that(1) insert_claim_root [of _ m n v] unfolding writes_protected_def by blast
  qed
  from False assms(3) show ?thesis
    by (auto simp: apply_mapper_def Let_def keep split: option.splits)
qed

text \<open>C11 Mappers whose claim names carry no surrounding white space and do not begin with a dot, and
  which pass validation, never write a protected token claim: no claim they
  produce, in the access token, the ID token or the user info, has one of the 41 protected names
  at the top level, whatever the user, the roles and the granted scopes.\<close>

theorem validated_mappers_keep_protected:
  assumes "\<forall>pm \<in> set (d_mappers d). validate_mapper pm = Inr ()
             \<and> (\<forall>n. pm_claim_name pm = Some n \<longrightarrow> clean_name n)"
  shows "\<not> writes_protected (mc_access_token (resolve_mapped_claims E cid user granted d))
    \<and> \<not> writes_protected (mc_id_token (resolve_mapped_claims E cid user granted d))
    \<and> \<not> writes_protected (mc_userinfo (resolve_mapped_claims E cid user granted d))"
proof -
  have all: "\<not> writes_protected (mc_access_token (fold (apply_mapper E user roles) pms r))
    \<and> \<not> writes_protected (mc_id_token (fold (apply_mapper E user roles) pms r))
    \<and> \<not> writes_protected (mc_userinfo (fold (apply_mapper E user roles) pms r))"
    if "\<forall>pm \<in> set pms. validate_mapper pm = Inr () \<and> (\<forall>n. pm_claim_name pm = Some n \<longrightarrow> clean_name n)"
      and "\<not> writes_protected (mc_access_token r) \<and> \<not> writes_protected (mc_id_token r)
         \<and> \<not> writes_protected (mc_userinfo r)" for pms r roles
    using that by (induction pms arbitrary: r) (auto simp: apply_mapper_protected)
  have sub: "set (active_mappers (e_collate E) cid granted d) \<subseteq> set (d_mappers d)"
    by (auto simp: active_mappers_def)
  show ?thesis
    unfolding resolve_mapped_claims_def Let_def
  proof (rule all)
    show "\<forall>pm \<in> set (active_mappers (e_collate E) cid granted d). validate_mapper pm = Inr ()
        \<and> (\<forall>n. pm_claim_name pm = Some n \<longrightarrow> clean_name n)"
      using assms sub by blast
  qed (simp add: no_mapped_claims_def writes_protected_def)
qed

definition dotted_mapper :: protocol_mapper where
  "dotted_mapper = \<lparr>pm_id = 1, pm_scope_id = 2, pm_name = ''m'', pm_mapper_type = HardcodedClaim,
     pm_claim_name = Some ''.sub'', pm_source = None, pm_claim_value = Some (JStr ''admin''),
     pm_multivalued = False, pm_access_token = True, pm_id_token = True, pm_userinfo = True\<rparr>"

lemma trim_examples: "trim ''.sub'' = ''.sub''" "trim ''m'' = ''m''" "trim ''dept'' = ''dept''"
  by (simp_all add: trim_def trim_end_list_def is_whitespace_def whitespace_def is_cont_def byte_def)

lemma validated_mappers_keep_protected_witness:
  "\<not> writes_protected (mc_access_token (resolve_mapped_claims sample_env 5 None [''openid'']
      (empty_db\<lparr>d_mappers := [dotted_mapper\<lparr>pm_claim_name := Some ''dept''\<rparr>]\<rparr>)))"
  by (rule conjunct1 [OF validated_mappers_keep_protected])
    (simp add: validate_mapper_def dotted_mapper_def or_default_def trim_examples protected_claims_def
      clean_name_def starts_with_def)

lemma filter_opt_member:
  "filter (\<lambda>(k, _). k = n) (opt_member k f x) = (if k = n then opt_member k f x else [])"
  by (simp add: opt_member_def split: option.splits)

text \<open>Without the condition on the dot the protection fails: the mapper with the claim name \<open>.sub\<close> is
  valid, because the root that validation looks at is the empty text before the dot, but writing
  the claim drops the empty part and sets the top level claim \<open>sub\<close>, so that the
  access token issued from it carries the name \<open>sub\<close> twice, the second time with the
  value the mapper chose.\<close>

theorem dotted_claim_name_overrides_subject:
  "validate_mapper dotted_mapper = Inr ()
   \<and> mc_access_token (apply_mapper E user roles dotted_mapper no_mapped_claims) = [(''sub'', JStr ''admin'')]
   \<and> filter (\<lambda>(k, _). k = ''sub'')
       (access_members (c\<lparr>at_custom_claims :=
          mc_access_token (apply_mapper E user roles dotted_mapper no_mapped_claims)\<rparr>))
     = [(''sub'', JStr (at_sub c)), (''sub'', JStr ''admin'')]"
proof (intro conjI)
  show "validate_mapper dotted_mapper = Inr ()"
    by (simp add: validate_mapper_def dotted_mapper_def or_default_def trim_examples protected_claims_def)
  have claim: "mc_access_token (apply_mapper E user roles dotted_mapper no_mapped_claims) = [(''sub'', JStr ''admin'')]"
    by (simp add: apply_mapper_def dotted_mapper_def mapper_value_def no_mapped_claims_def insert_claim_def
        path_parts_def Let_def)
  then show "mc_access_token (apply_mapper E user roles dotted_mapper no_mapped_claims) = [(''sub'', JStr ''admin'')]" .
  show "filter (\<lambda>(k, _). k = ''sub'')
       (access_members (c\<lparr>at_custom_claims :=
          mc_access_token (apply_mapper E user roles dotted_mapper no_mapped_claims)\<rparr>))
     = [(''sub'', JStr (at_sub c)), (''sub'', JStr ''admin'')]"
    unfolding claim access_members_def by (simp add: filter_opt_member)
qed

end
