(* ===== verification/Acr.thy ===== *)
theory Acr
  imports Errors
begin

text \<open>Authentication context and locale resolution (\<open>oidc-core/src/utils/acr.rs\<close>).  The error of
  \<open>resolve_acr_amr\<close> is a text that prints the requested values and the achieved one; here it is that
  pair.\<close>

(*@ oidc-core/src/utils/acr.rs 12-13 ACR_BRONZE, ACR_SILVER *)
definition acr_bronze :: string where "acr_bronze = ''urn:mace:incommon:iap:bronze''"
definition acr_silver :: string where "acr_silver = ''urn:mace:incommon:iap:silver''"

(*@ oidc-core/src/utils/acr.rs 16-16 SUPPORTED_ACR_VALUES *)
definition supported_acr_values :: "string list" where
  "supported_acr_values = [acr_bronze, acr_silver]"

(*@ oidc-core/src/utils/acr.rs 31-42 SUPPORTED_AMR_VALUES *)
definition supported_amr_values :: "string list" where
  "supported_amr_values = [''pwd'', ''mfa'', ''otp'', ''sms'', ''device_code'', ''token_exchange'', ''social'',
     ''hwk'', ''user'', ''recovery'']"

(*@ oidc-core/src/utils/acr.rs 46-51 ResolvedAcrAmr *)
record resolved_acr_amr =
  ra_acr :: string
  ra_amr :: "string list"

(*@ oidc-core/src/utils/acr.rs 134-140 acr_level *)
definition acr_level :: "string \<Rightarrow> nat" where
  "acr_level acr = (if acr = acr_bronze then 1 else if acr = acr_silver then 2 else 0)"

(*@ oidc-core/src/utils/acr.rs 79-83 achieved_acr *)
definition achieved_acr :: "string \<Rightarrow> string" where
  "achieved_acr auth_method = (if auth_method = ''mfa'' then acr_silver else acr_bronze)"

(*@ oidc-core/src/utils/acr.rs 86-94 amr *)
definition amr_of_method :: "string \<Rightarrow> string list" where
  "amr_of_method m =
     (if m = ''mfa'' then [''mfa'', ''pwd'']
      else if m = ''otp'' then [''otp'']
      else if m = ''sms'' then [''sms'']
      else if m = ''device_code'' then [''device_code'']
      else if m = ''token_exchange'' then [''token_exchange'']
      else if m = ''social'' then [''social'']
      else [''pwd''])"

text \<open>The loop over the requested values skips the unsupported ones and stops at the first that the
  achieved level satisfies.\<close>

fun first_satisfied :: "string \<Rightarrow> string list \<Rightarrow> string option" where
  "first_satisfied achieved [] = None"
| "first_satisfied achieved (r # rs) =
     (if r \<notin> set supported_acr_values then first_satisfied achieved rs
      else if acr_level r \<le> acr_level achieved then Some r
      else first_satisfied achieved rs)"

(*@ oidc-core/src/utils/acr.rs 74-130 resolve_acr_amr *)
definition resolve_acr_amr :: "string \<Rightarrow> string list \<Rightarrow> (string list \<times> string) + resolved_acr_amr" where
  "resolve_acr_amr auth_method requested =
     (let achieved = achieved_acr auth_method; amr = amr_of_method auth_method
      in if requested = [] then Inr \<lparr>ra_acr = achieved, ra_amr = amr\<rparr>
         else (case first_satisfied achieved requested of
                 Some r \<Rightarrow> Inr \<lparr>ra_acr = r, ra_amr = amr\<rparr>
               | None \<Rightarrow> Inl (requested, achieved)))"

lemma first_satisfied_Some:
  "first_satisfied a rs = Some r \<Longrightarrow>
     (\<exists>xs ys. rs = xs @ r # ys \<and> r \<in> set supported_acr_values \<and> acr_level r \<le> acr_level a
        \<and> (\<forall>x \<in> set xs. x \<in> set supported_acr_values \<longrightarrow> acr_level a < acr_level x))"
proof (induction rs)
  case (Cons x rs)
  show ?case
  proof (cases "x \<in> set supported_acr_values \<and> acr_level x \<le> acr_level a")
    case True
    with Cons.prems have "x = r"
      by simp
    with True show ?thesis
      by (intro exI [of _ "[]"] exI [of _ rs]) simp
  next
    case False
    with Cons.prems have "first_satisfied a rs = Some r"
      by (auto split: if_splits)
    with Cons.IH obtain xs ys where "rs = xs @ r # ys" "r \<in> set supported_acr_values"
      "acr_level r \<le> acr_level a" "\<forall>x \<in> set xs. x \<in> set supported_acr_values \<longrightarrow> acr_level a < acr_level x"
      by blast
    with False show ?thesis
      by (intro exI [of _ "x # xs"] exI [of _ ys]) auto
  qed
qed simp

lemma first_satisfied_None:
  "first_satisfied a rs = None \<longleftrightarrow>
     (\<forall>r \<in> set rs. r \<in> set supported_acr_values \<longrightarrow> acr_level a < acr_level r)"
  by (induction rs) auto

text \<open>The reported authentication context is never stronger than the achieved one.  Resolution
  fails exactly when values are requested and none of the supported ones among them is within the
  achieved level; otherwise it reports the most preferred such value (or the achieved one
  when nothing is requested), with supported authentication methods.\<close>

theorem acr_never_overclaimed:
  "case resolve_acr_amr m requested of
     Inl (req, achieved) \<Rightarrow> requested \<noteq> [] \<and> req = requested \<and> achieved = achieved_acr m
        \<and> (\<forall>r \<in> set requested. r \<notin> set supported_acr_values \<or> acr_level (achieved_acr m) < acr_level r)
   | Inr ra \<Rightarrow> acr_level (ra_acr ra) \<le> acr_level (achieved_acr m)
        \<and> ra_acr ra \<in> set supported_acr_values \<and> ra_amr ra \<noteq> []
        \<and> set (ra_amr ra) \<subseteq> set supported_amr_values
        \<and> (if requested = [] then ra_acr ra = achieved_acr m
           else \<exists>xs ys. requested = xs @ ra_acr ra # ys
                \<and> (\<forall>x \<in> set xs. x \<notin> set supported_acr_values \<or> acr_level (achieved_acr m) < acr_level x))"
proof -
  have amr: "amr_of_method m \<noteq> []" "set (amr_of_method m) \<subseteq> set supported_amr_values"
    by (simp_all add: amr_of_method_def supported_amr_values_def)
  have sup: "achieved_acr m \<in> set supported_acr_values"
    by (simp add: achieved_acr_def supported_acr_values_def)
  show ?thesis
  proof (cases "requested = []")
    case True
    with amr sup show ?thesis
      by (simp add: resolve_acr_amr_def Let_def)
  next
    case False
    show ?thesis
    proof (cases "first_satisfied (achieved_acr m) requested")
      case None
      then have "\<forall>r \<in> set requested. r \<notin> set supported_acr_values
          \<or> acr_level (achieved_acr m) < acr_level r"
        by (auto simp: first_satisfied_None)
      with False None show ?thesis
        by (simp add: resolve_acr_amr_def Let_def)
    next
      case (Some r)
      from first_satisfied_Some [OF this] False Some amr show ?thesis
        by (auto simp: resolve_acr_amr_def Let_def)
    qed
  qed
qed

lemma acr_never_overclaimed_witness:
  "acr_level (ra_acr (projr (resolve_acr_amr ''mfa'' [''x'', acr_bronze]))) \<le> 2"
  using acr_never_overclaimed [where m = "''mfa''" and requested = "[''x'', acr_bronze]"]
  by (auto simp: achieved_acr_def acr_level_def acr_bronze_def acr_silver_def split: sum.splits)


section \<open>Locales\<close>

(*@ oidc-core/src/utils/acr.rs 150-175 resolve_locale *)
definition resolve_locale :: "string \<Rightarrow> string list \<Rightarrow> string" where
  "resolve_locale user_locale claims_locales =
     (if claims_locales = [] then user_locale
      else if \<exists>r \<in> set claims_locales. user_locale = r \<or> starts_with user_locale (r @ ''-'')
      then user_locale
      else (case List.find (\<lambda>r. starts_with r (user_locale @ ''-'')) claims_locales of
              Some r \<Rightarrow> r
            | None \<Rightarrow> hd claims_locales))"

text \<open>A locale is chosen from the user's own and the requested ones; it is the user's whenever a
  requested locale is the user's or one of its prefixes, and otherwise a requested locale
  that extends the user's is taken before the first one.\<close>

theorem resolve_locale_choice:
  "resolve_locale u ls \<in> insert u (set ls)
   \<and> (u \<in> set ls \<longrightarrow> resolve_locale u ls = u)
   \<and> (resolve_locale u ls \<noteq> u \<and> (\<exists>r \<in> set ls. starts_with r (u @ ''-''))
        \<longrightarrow> starts_with (resolve_locale u ls) (u @ ''-''))"
proof -
  have found: "r \<in> set xs \<and> starts_with r (u @ ''-'')"
    if "List.find (\<lambda>r. starts_with r (u @ ''-'')) xs = Some r" for r xs
    using that by (auto simp: find_Some_iff)
  show ?thesis
    by (cases ls) (auto simp: resolve_locale_def find_None_iff split: option.splits dest: found)
qed

lemma resolve_locale_choice_witness: "resolve_locale ''fr'' [''de'', ''fr''] = ''fr''"
  using resolve_locale_choice [of "''fr''" "[''de'', ''fr'']"] by simp

end
