(* ===== verification/Issue.thy ===== *)
theory Issue
  imports Claims Acr Jwe
begin

text \<open>What the grant flows share when they issue tokens: the address claim
  (\<open>oidc-core/src/models/address.rs\<close>), the offline session policy of the realm
  (\<open>offline_session.rs\<close>), the encryption of ID tokens (\<open>oidc-oidc/src/flows/mod.rs\<close>,
  \<open>oidc-core/src/utils/jwe.rs\<close>), and the token response.\<close>

section \<open>Address claim\<close>

definition city_line :: "string option \<Rightarrow> string option \<Rightarrow> string option \<Rightarrow> string" where
  "city_line locality region postal = (case (locality, region, postal) of
       (Some loc, Some reg, Some pc) \<Rightarrow> pc @ '' '' @ loc @ '', '' @ reg
     | (Some loc, Some reg, None) \<Rightarrow> loc @ '', '' @ reg
     | (Some loc, None, Some pc) \<Rightarrow> pc @ '' '' @ loc
     | (Some loc, None, None) \<Rightarrow> loc
     | (None, Some reg, Some pc) \<Rightarrow> pc @ '' '' @ reg
     | (None, Some reg, None) \<Rightarrow> reg
     | (None, None, Some pc) \<Rightarrow> pc
     | (None, None, None) \<Rightarrow> [])"

(*@ oidc-core/src/models/address.rs 112-165 AddressClaim::from_components *)
definition formatted_address ::
  "string option \<Rightarrow> string option \<Rightarrow> string option \<Rightarrow> string option \<Rightarrow> string option \<Rightarrow> string option" where
  "formatted_address street locality region postal country =
     (if street = None \<and> locality = None \<and> region = None \<and> postal = None \<and> country = None then None
      else let city = city_line locality region postal
           in Some (join [CHR 0x0A] ((case street of None \<Rightarrow> [] | Some s \<Rightarrow> [s])
                @ (if city = [] then [] else [city])
                @ (case country of None \<Rightarrow> [] | Some c \<Rightarrow> [c]))))"

text \<open>\<open>address_claim\<close> leaves \<open>formatted\<close> to be generated; \<open>is_empty\<close> holds exactly when no component
  is set.\<close>

(*@ oidc-core/src/models/user.rs 182-192 User::address_claim *)
definition address_claim :: "user \<Rightarrow> json option" where
  "address_claim u =
     (let formatted = formatted_address (u_street_address u) (u_locality u) (u_region u)
                        (u_postal_code u) (u_country u);
          fields = [(''formatted'', formatted), (''street_address'', u_street_address u),
             (''locality'', u_locality u), (''region'', u_region u), (''postal_code'', u_postal_code u),
             (''country'', u_country u)]
      in if \<forall>f \<in> set fields. snd f = None then None
         else Some (JObj (List.map_filter (\<lambda>(k, v). map_option (\<lambda>s. (k, JStr s)) v) fields)))"


section \<open>Offline sessions\<close>

(*@ oidc-core/src/models/offline_session.rs 5-10 OfflineSessionPolicy *)
record offline_policy =
  op_idle_seconds :: int
  op_max_seconds :: int

(*@ oidc-core/src/models/offline_session.rs 12-27 OfflineSessionPolicy::default *)
definition default_policy :: offline_policy where
  "default_policy = \<lparr>op_idle_seconds = 30 * 24 * 60 * 60, op_max_seconds = 90 * 24 * 60 * 60\<rparr>"

definition i64_ok :: "int \<Rightarrow> bool" where
  "i64_ok n \<longleftrightarrow> - (2 ^ 63) \<le> n \<and> n < 2 ^ 63"

fun field_i64 :: "json option \<Rightarrow> int \<Rightarrow> int option" where
  "field_i64 None n = Some n"
| "field_i64 (Some (JNum k)) n = (if i64_ok k then Some k else None)"
| "field_i64 (Some _) n = None"

text \<open>\<open>serde_json::from_value\<close> of the struct: an object whose missing members take their defaults, or
  an array of at most two elements in the order of the fields.\<close>

fun policy_of_json :: "json \<Rightarrow> offline_policy option" where
  "policy_of_json (JObj m) =
     (case (field_i64 (obj_get m ''idle_seconds'') (op_idle_seconds default_policy),
            field_i64 (obj_get m ''max_seconds'') (op_max_seconds default_policy)) of
        (Some i, Some x) \<Rightarrow> Some \<lparr>op_idle_seconds = i, op_max_seconds = x\<rparr>
      | _ \<Rightarrow> None)"
| "policy_of_json (JArr xs) =
     (if 2 < length xs then None
      else (case (field_i64 (case xs of [] \<Rightarrow> None | a # _ \<Rightarrow> Some a) (op_idle_seconds default_policy),
                  field_i64 (case xs of [_, b] \<Rightarrow> Some b | _ \<Rightarrow> None) (op_max_seconds default_policy)) of
        (Some i, Some x) \<Rightarrow> Some \<lparr>op_idle_seconds = i, op_max_seconds = x\<rparr>
      | _ \<Rightarrow> None))"
| "policy_of_json _ = None"

(*@ oidc-core/src/models/offline_session.rs 30-36 OfflineSessionPolicy::from_realm_config *)
definition policy_from_config :: "json \<Rightarrow> offline_policy" where
  "policy_from_config config =
     (case Option.bind (jget config ''offline_sessions'') policy_of_json of
        None \<Rightarrow> default_policy | Some p \<Rightarrow> p)"

(*@ oidc-core/src/models/offline_session.rs 38-49 OfflineSessionPolicy::validate *)
definition validate_policy :: "offline_policy \<Rightarrow> string + unit" where
  "validate_policy p =
     (if op_idle_seconds p \<le> 0 then Inl ''Offline session idle timeout must be greater than zero''
      else if op_max_seconds p \<le> 0 then Inl ''Offline session maximum lifetime must be greater than zero''
      else if op_max_seconds p < op_idle_seconds p
      then Inl ''Offline session idle timeout cannot exceed its maximum lifetime''
      else Inr ())"

text \<open>The policy of the session's realm, when the session is an offline one.\<close>

(*@ oidc-oidc/src/flows/authorization_code.rs 91-104 offline policy of a grant *)
definition offline_policy_for :: "bool \<Rightarrow> uuid \<Rightarrow> (db, oidc_error, offline_policy option) prog" where
  "offline_policy_for offline realm =
     (if offline then
        bindp (query (realm_by_id realm)) (\<lambda>r.
        bindp (some_or r (NotFound ''realm'')) (\<lambda>r.
          ret (Some (policy_from_config (r_config r)))))
      else ret None)"


section \<open>Encrypted ID tokens\<close>

(*@ oidc-core/src/utils/jwe.rs 344-382 encrypt_id_token_if_configured *)
definition encrypt_if_configured ::
  "env \<Rightarrow> string \<Rightarrow> string option \<Rightarrow> string option \<Rightarrow> string option \<Rightarrow> string option \<Rightarrow> string option result" where
  "encrypt_if_configured E token alg enc key pem = (case alg of
      None \<Rightarrow> Inr None
    | Some alg \<Rightarrow>
        if (case enc of Some e \<Rightarrow> e \<noteq> ''A256GCM'' | None \<Rightarrow> False)
        then Inl (InvalidInput (''Unsupported JWE enc: '' @ the enc @ ''. Only A256GCM is supported.''))
        else if alg = ''dir'' then
          (case key of None \<Rightarrow> Inl (InvalidInput ''JWE dir requires a symmetric key'')
           | Some k \<Rightarrow> bindr (encrypt_jwe_dir E token k) (\<lambda>t. Inr (Some t)))
        else if alg = ''RSA-OAEP-256'' then
          (case pem of None \<Rightarrow> Inl (InvalidInput ''JWE RSA-OAEP-256 requires an RSA public key PEM'')
           | Some k \<Rightarrow> bindr (encrypt_jwe_rsa E token k) (\<lambda>t. Inr (Some t)))
        else Inl (InvalidInput (''Unsupported JWE alg: '' @ alg @ ''. Supported: dir, RSA-OAEP-256'')))"

(*@ oidc-oidc/src/flows/mod.rs 24-59 maybe_encrypt_id_token *)
definition maybe_encrypt_id_token :: "env \<Rightarrow> string \<Rightarrow> client \<Rightarrow> string result" where
  "maybe_encrypt_id_token E jws c =
     (if c_id_token_alg c = None then Inr jws
      else bindr (if c_id_token_alg c = Some ''dir'' then
               (case c_id_token_key_encrypted c of
                  Some k \<Rightarrow> bindr (e_decrypt E k) (\<lambda>key. Inr (Some key))
                | None \<Rightarrow> Inl (InvalidInput ''Client has JWE dir configured but no encryption key''))
             else Inr None) (\<lambda>key.
           bindr (encrypt_if_configured E jws (c_id_token_alg c) (c_id_token_enc c) key
                    (c_id_token_key_pem c)) (\<lambda>jwe.
             Inr (case jwe of Some t \<Rightarrow> t | None \<Rightarrow> jws))))"

text \<open>An ID token leaves in the clear only for a client without an encryption algorithm: when the
  client has one and the token is returned, it is the output of the configured encryption under
  the client's key, and every other configuration is an error.\<close>

theorem id_token_encryption:
  assumes "maybe_encrypt_id_token E jws c = Inr t"
  shows "if c_id_token_alg c = None then t = jws
    else c_id_token_enc c \<in> {None, Some ''A256GCM''} \<and>
     ((c_id_token_alg c = Some ''dir'' \<and> (\<exists>k key. c_id_token_key_encrypted c = Some k
          \<and> e_decrypt E k = Inr key \<and> encrypt_jwe_dir E jws key = Inr t))
      \<or> (c_id_token_alg c = Some ''RSA-OAEP-256'' \<and> (\<exists>pem. c_id_token_key_pem c = Some pem
          \<and> encrypt_jwe_rsa E jws pem = Inr t)))"
  using assms
  by (auto simp: maybe_encrypt_id_token_def encrypt_if_configured_def bindr_Inr
      split: if_splits option.splits)


section \<open>Token responses\<close>

record token_response =
  tr_access_token :: string
  tr_token_type :: string
  tr_expires_in :: int
  tr_refresh_token :: "string option"
  tr_refresh_expires_in :: "int option"
  tr_id_token :: "string option"
  tr_scope :: string

definition token_type_of :: "string option \<Rightarrow> string" where
  "token_type_of jkt = (if jkt = None then ''Bearer'' else ''DPoP'')"

definition no_id_extra :: id_extra where
  "no_id_extra =
     \<lparr>ix_custom_claims = [], ix_additional_audiences = [], ix_nonce = None, ix_at_hash = None,
      ix_c_hash = None, ix_auth_time = None, ix_sid = None, ix_email = None, ix_email_verified = None,
      ix_name = None, ix_given_name = None, ix_family_name = None, ix_middle_name = None,
      ix_nickname = None, ix_preferred_username = None, ix_profile = None, ix_picture = None,
      ix_website = None, ix_gender = None, ix_birthdate = None, ix_zoneinfo = None, ix_locale = None,
      ix_phone_number = None, ix_phone_number_verified = None, ix_updated_at = None, ix_acr = None,
      ix_amr = None, ix_azp = None, ix_address = None, ix_roles = None, ix_realm_access = None,
      ix_resource_access = None, ix_groups = None, ix_organization = None\<rparr>"

text \<open>The claims of an access token that every user flow adds: the role claims only for the scope
  \<open>roles\<close>.\<close>

(*@ oidc-oidc/src/flows/authorization_code.rs 131-141 AccessTokenExtraClaims of a user grant *)
definition user_access_extra ::
  "mapped_claims \<Rightarrow> role_claims \<Rightarrow> json option \<Rightarrow> string list \<Rightarrow> access_extra" where
  "user_access_extra mapped roles org scopes =
     \<lparr>ax_custom_claims = mc_access_token mapped, ax_additional_audiences = mc_access_audiences mapped,
      ax_organization = org,
      ax_realm_access = (if ''roles'' \<in> set scopes then rc_realm_access roles else None),
      ax_resource_access = (if ''roles'' \<in> set scopes then rc_resource_access roles else None)\<rparr>"

text \<open>The profile claims of a user that the code and the device flow put in an ID token.\<close>

definition profile_extra :: "user \<Rightarrow> id_extra \<Rightarrow> id_extra" where
  "profile_extra u x = x\<lparr>ix_email := Some (u_email u), ix_email_verified := Some (u_email_verified u),
     ix_name := u_username u, ix_given_name := u_given_name u, ix_family_name := u_family_name u,
     ix_middle_name := u_middle_name u, ix_nickname := u_nickname u,
     ix_preferred_username := u_preferred_username u, ix_profile := u_profile u,
     ix_picture := u_picture u, ix_website := u_website u, ix_gender := u_gender u,
     ix_birthdate := u_birthdate u, ix_zoneinfo := u_zoneinfo u, ix_phone_number := u_phone_number u,
     ix_phone_number_verified := u_phone_number_verified u,
     ix_updated_at := Some (timestamp (u_updated_at u))\<rparr>"


definition sample_client :: client where
  "sample_client =
     \<lparr>c_id = 5, c_realm_id = 3, c_client_id = ''app'', c_client_type = Public, c_client_secret_hash = None,
      c_name = ''App'', c_redirect_uris = [''https://app/cb''], c_allowed_scopes = [''openid''],
      c_allowed_grant_types = [''authorization_code''], c_pkce_required = True, c_enabled = True,
      c_deleted_at = None, c_token_endpoint_auth_method = ''none'', c_jwks_uri = None, c_jwks = None,
      c_request_uris = [], c_client_secret_encrypted = None, c_frontchannel_logout_uri = None,
      c_frontchannel_logout_session_required = False, c_backchannel_logout_uri = None,
      c_backchannel_logout_session_required = False, c_post_logout_redirect_uris = [],
      c_subject_type = ''public'', c_sector_identifier_uri = None, c_response_modes = [],
      c_id_token_alg = None, c_id_token_enc = None, c_id_token_key_encrypted = None,
      c_id_token_key_pem = None, c_request_object_alg = None, c_request_object_enc = None,
      c_request_object_key_encrypted = None, c_request_object_key_pem = None\<rparr>"

definition sample_user :: user where
  "sample_user =
     \<lparr>u_id = 7, u_realm_id = 3, u_email = ''a@b.org'', u_email_verified = True, u_username = Some ''alice'',
      u_password_hash = Some ''pw'', u_given_name = None, u_family_name = None, u_middle_name = None,
      u_nickname = None, u_preferred_username = None, u_profile = None, u_picture = None,
      u_website = None, u_gender = None, u_birthdate = None, u_zoneinfo = None, u_phone_number = None,
      u_phone_number_verified = None, u_street_address = None, u_locality = None, u_region = None,
      u_postal_code = None, u_country = None, u_locale = ''en'', u_attributes = JObj [],
      u_enabled = True, u_deleted_at = None, u_updated_at = 0, u_created_at = 0\<rparr>"

lemma id_token_encryption_witness: "maybe_encrypt_id_token sample_env ''t'' sample_client = Inr ''t'' \<and> ''t'' = ''t''"
proof
  show ok: "maybe_encrypt_id_token sample_env ''t'' sample_client = Inr ''t''"
    by (simp add: maybe_encrypt_id_token_def sample_client_def)
  from id_token_encryption [OF this] show "''t'' = ''t''"
    by (simp add: sample_client_def)
qed

end
