(* ===== verification/Grants.thy ===== *)
theory Grants
  imports Issue
begin

text \<open>The authorization code flow and the client credentials flow
  (\<open>oidc-oidc/src/flows/authorization_code.rs\<close>, \<open>client_credentials.rs\<close>), each a program on the
  database in the order of the code: guards, lookups, writes, token issuance, the new session.  The
  readings of the clock and of the random source are numbered in the order in which the code takes
  them.\<close>

section \<open>Authorization code\<close>

(*@ oidc-oidc/src/flows/authorization_code.rs 165-222 IdTokenExtraClaims of the code flow *)
definition code_id_extra ::
  "env \<Rightarrow> auth_code \<Rightarrow> user \<Rightarrow> client \<Rightarrow> string \<Rightarrow> string \<Rightarrow> string \<Rightarrow> string \<Rightarrow> string list \<Rightarrow>
   mapped_claims \<Rightarrow> role_claims \<Rightarrow> string list \<Rightarrow> json option \<Rightarrow> id_extra" where
  "code_id_extra E ac u c code access_token sid acr amr mapped roles group_names org =
     (profile_extra u no_id_extra)
       \<lparr>ix_custom_claims := mc_id_token mapped, ix_additional_audiences := mc_id_audiences mapped,
        ix_nonce := ac_nonce ac, ix_at_hash := Some (left_half_hash E access_token),
        ix_c_hash := Some (left_half_hash E code), ix_auth_time := Some (timestamp (e_clock E 1)),
        ix_sid := Some sid, ix_locale := Some (resolve_locale (u_locale u) (ac_claims_locales ac)),
        ix_acr := Some acr, ix_amr := Some amr,
        ix_azp := (if ac_resource ac = [] then None else Some (c_client_id c)),
        ix_address := (if ''address'' \<in> set (ac_scope ac) then address_claim u else None),
        ix_roles := rc_roles roles, ix_realm_access := rc_realm_access roles,
        ix_resource_access := rc_resource_access roles,
        ix_groups := (if group_names = [] then None else Some group_names), ix_organization := org\<rparr>"

(*@ oidc-oidc/src/flows/authorization_code.rs 233-271 Session of the code flow *)
definition code_session ::
  "env \<Rightarrow> auth_code \<Rightarrow> client \<Rightarrow> string \<Rightarrow> string \<Rightarrow> string \<Rightarrow> offline_policy option \<Rightarrow> string \<Rightarrow> string list \<Rightarrow> session" where
  "code_session E ac c sid access_token refresh_token policy acr amr =
     (let now = e_clock E 3 in
     \<lparr>s_id = e_uuid E 1, s_sid = sid, s_user_id = Some (ac_user_id ac), s_realm_id = ac_realm_id ac,
      s_client_id = c_id c, s_grant_type = ''authorization_code'',
      s_access_token_hash = sha2_256_hex E access_token,
      s_refresh_token_hash = Some (sha2_256_hex E refresh_token), s_id_token_jti = None,
      s_scope = ac_scope ac, s_revoked = False, s_expires_at = now + minutes 15,
      s_refresh_expires_at = (case policy of Some p \<Rightarrow> Some (now + secs (op_idle_seconds p))
                              | None \<Rightarrow> Some (now + days 7)),
      s_offline_session = (''offline_access'' \<in> set (ac_scope ac)),
      s_offline_max_expires_at = map_option (\<lambda>p. now + secs (op_max_seconds p)) policy,
      s_created_at = now, s_last_used_at = None, s_token_family_id = Some (e_uuid E 0),
      s_previous_session_id = None, s_rotated_at = None, s_reused_at = None, s_family_revoked = False,
      s_authorization_details = ac_authorization_details ac, s_resource = ac_resource ac,
      s_acr = acr, s_amr = amr\<rparr>)"

text \<open>The part after the code is marked used: tokens and session.\<close>

(*@ oidc-oidc/src/flows/authorization_code.rs 69-280 tokens and session of the code flow *)
definition issue_for_code ::
  "env \<Rightarrow> string \<Rightarrow> string option \<Rightarrow> auth_code \<Rightarrow> client \<Rightarrow> (db, oidc_error, token_response) prog" where
  "issue_for_code E code jkt ac c =
     bindp (query (user_by_id (ac_user_id ac))) (\<lambda>u.
     bindp (some_or u (NotFound ''user'')) (\<lambda>u.
     bindp (offline_policy_for (''offline_access'' \<in> set (ac_scope ac)) (ac_realm_id ac)) (\<lambda>policy.
     bindp (ask (resolve_organization_claim E (u_id u) (ac_scope ac))) (\<lambda>org.
     bindp (query (resolve_role_claims (e_collate E) (u_id u))) (\<lambda>roles.
     bindp (query (resolve_mapped_claims E (c_id c) (Some u) (ac_scope ac))) (\<lambda>mapped.
     bindp (lift (e_services E (ac_realm_id ac))) (\<lambda>svc.
     bindp (lift (issue_access_token E 1 svc (timestamp (e_clock E 0)) (subject_for E c (ac_user_id ac))
              (c_client_id c) (ac_scope ac) jkt (ac_authorization_details ac) (Some (ac_resource ac))
              (user_access_extra mapped roles org (ac_scope ac)))) (\<lambda>(_, access_token).
     bindp (query (\<lambda>d. map g_name (groups_of_user (u_id u) d))) (\<lambda>group_names.
     let sid = sid_or_default E 0;
         acr = (case ac_auth_acr ac of None \<Rightarrow> acr_bronze | Some a \<Rightarrow> a);
         amr = (if ac_auth_amr ac = [] then [''pwd''] else ac_auth_amr ac)
     in bindp (lift (issue_id_token E svc (timestamp (e_clock E 2)) (subject_for E c (ac_user_id ac))
              (c_client_id c) (code_id_extra E ac u c code access_token sid acr amr mapped roles group_names org)))
          (\<lambda>id_token.
     bindp (lift (maybe_encrypt_id_token E id_token c)) (\<lambda>id_token.
     bindp (lift (generate_opaque_token E 2)) (\<lambda>refresh_token.
     let s = code_session E ac c sid access_token refresh_token policy acr amr
     in thenp (session_create (e_db_now E) s)
       (ret \<lparr>tr_access_token = access_token, tr_token_type = token_type_of jkt, tr_expires_in = 900,
             tr_refresh_token = Some refresh_token,
             tr_refresh_expires_in = map_option (\<lambda>t. num_seconds (t - e_clock E 3)) (s_refresh_expires_at s),
             tr_id_token = Some id_token, tr_scope = join_scopes (ac_scope ac)\<rparr>)))))))))))))"

(*@ oidc-oidc/src/flows/authorization_code.rs 26-280 AuthorizationCodeFlow::execute *)
definition auth_code_flow ::
  "env \<Rightarrow> string \<Rightarrow> string \<Rightarrow> string \<Rightarrow> string \<Rightarrow> string option \<Rightarrow> (db, oidc_error, token_response) prog" where
  "auth_code_flow E code redirect_uri client_id code_verifier jkt =
     with_transaction
       (bindp (query (code_by_code (sha2_256_hex E) (e_db_now E) code)) (\<lambda>found.
        bindp (some_or found InvalidRequest) (\<lambda>ac.
        thenp (guardp (\<not> ac_used ac) InvalidRequest)
       (thenp (guardp (ac_redirect_uri ac = redirect_uri) InvalidRequest)
       (bindp (query (client_by_client_id client_id)) (\<lambda>found.
        bindp (some_or found InvalidClient) (\<lambda>c.
        thenp (guardp (c_id c = ac_client_id ac \<and> c_enabled c) InvalidClient)
       (thenp (guardp (verify_s256 E code_verifier (ac_code_challenge ac)) InvalidRequest)
       (thenp (exec (code_mark_used (ac_id ac)))
          (issue_for_code E code jkt ac c))))))))))"


section \<open>Client credentials\<close>

(*@ oidc-oidc/src/flows/client_credentials.rs 75-107 Session of the client credentials flow *)
definition client_session :: "env \<Rightarrow> client \<Rightarrow> string list \<Rightarrow> string \<Rightarrow> session" where
  "client_session E c scopes access_token =
     (let now = e_clock E 1 in
     \<lparr>s_id = e_uuid E 0, s_sid = sid_or_default E 1, s_user_id = None, s_realm_id = c_realm_id c,
      s_client_id = c_id c, s_grant_type = ''client_credentials'',
      s_access_token_hash = sha2_256_hex E access_token, s_refresh_token_hash = None,
      s_id_token_jti = None, s_scope = scopes, s_revoked = False, s_expires_at = now + minutes 15,
      s_refresh_expires_at = None, s_offline_session = False, s_offline_max_expires_at = None,
      s_created_at = now, s_last_used_at = None, s_token_family_id = None,
      s_previous_session_id = None, s_rotated_at = None, s_reused_at = None, s_family_revoked = False,
      s_authorization_details = None, s_resource = [], s_acr = acr_bronze, s_amr = [''client_secret'']\<rparr>)"

(*@ oidc-oidc/src/flows/client_credentials.rs 22-121 ClientCredentialsFlow::execute *)
definition client_credentials_flow ::
  "env \<Rightarrow> client \<Rightarrow> string list \<Rightarrow> string option \<Rightarrow> (db, oidc_error, token_response) prog" where
  "client_credentials_flow E c requested_scopes jkt =
     with_transaction
       (thenp (guardp (c_enabled c) InvalidClient)
       (thenp (guardp (''offline_access'' \<notin> set requested_scopes)
            (InvalidScope ''offline_access requires an end-user authorization code flow''))
       (let requested = (if requested_scopes = []
                         then filter (\<lambda>s. s \<noteq> ''offline_access'') (c_allowed_scopes c) else requested_scopes)
        in bindp (ask (resolve_names_for_client (e_collate E) (c_id c) requested (c_allowed_scopes c))) (\<lambda>scopes.
        bindp (query (resolve_mapped_claims E (c_id c) None scopes)) (\<lambda>mapped.
        bindp (lift (e_services E (c_realm_id c))) (\<lambda>svc.
        bindp (lift (issue_access_token E 0 svc (timestamp (e_clock E 0)) (c_client_id c) (c_client_id c)
                 scopes jkt None None
                 (no_access_extra\<lparr>ax_custom_claims := mc_access_token mapped,
                    ax_additional_audiences := mc_access_audiences mapped\<rparr>))) (\<lambda>(_, access_token).
        thenp (session_create (e_db_now E) (client_session E c scopes access_token))
          (ret \<lparr>tr_access_token = access_token, tr_token_type = token_type_of jkt, tr_expires_in = 900,
                tr_refresh_token = None, tr_refresh_expires_in = None, tr_id_token = None,
                tr_scope = join_scopes scopes\<rparr>))))))))"


section \<open>Facts\<close>

lemma offline_policy_for_ok [prog_ok]:
  "offline_policy_for b realm d = (Inr p, e) \<longleftrightarrow> e = d \<and>
     (if b then \<exists>r. realm_by_id realm d = Some r \<and> p = Some (policy_from_config (r_config r)) else p = None)"
  by (auto simp: offline_policy_for_def prog_ok)

lemma bindp_prod_ok [prog_ok]:
  "bindp m (\<lambda>(x, y). f x y) s = (Inr b, t) \<longleftrightarrow> (\<exists>x y u. m s = (Inr (x, y), u) \<and> f x y u = (Inr b, t))"
  by (auto simp: bindp_ok)

text \<open>What a successful issuance for a code has done to the database.\<close>

lemma issue_for_code_ok:
  assumes "issue_for_code E code jkt ac c d = (Inr r, e)"
  shows "\<exists>u policy access_token refresh_token.
      user_by_id (ac_user_id ac) d = Some u
      \<and> (policy = None \<longleftrightarrow> ''offline_access'' \<notin> set (ac_scope ac))
      \<and> generate_opaque_token E 2 = Inr refresh_token
      \<and> tr_access_token r = access_token \<and> tr_refresh_token r = Some refresh_token
      \<and> tr_scope r = join_scopes (ac_scope ac) \<and> tr_token_type r = token_type_of jkt
      \<and> (let s = code_session E ac c (sid_or_default E 0) access_token refresh_token policy
              (case ac_auth_acr ac of None \<Rightarrow> acr_bronze | Some a \<Rightarrow> a)
              (if ac_auth_amr ac = [] then [''pwd''] else ac_auth_amr ac)
         in (\<forall>x \<in> set (d_sessions d). s_id x \<noteq> e_uuid E 1)
            \<and> e = d\<lparr>d_sessions := d_sessions d @ [s\<lparr>s_created_at := e_db_now E\<rparr>]\<rparr>)"
  using assms unfolding issue_for_code_def Let_def
  by (fastforce simp: prog_ok code_session_def Let_def split: if_splits)


lemma auth_code_flow_ok:
  "auth_code_flow E code uri cid verifier jkt d = (Inr r, e) \<longleftrightarrow>
     (\<exists>ac c. code_by_code (sha2_256_hex E) (e_db_now E) code d = Some ac \<and> \<not> ac_used ac
        \<and> ac_redirect_uri ac = uri \<and> client_by_client_id cid d = Some c
        \<and> c_id c = ac_client_id ac \<and> c_enabled c \<and> verify_s256 E verifier (ac_code_challenge ac)
        \<and> issue_for_code E code jkt ac c (code_mark_used (ac_id ac) d) = (Inr r, e))"
  by (auto simp: auth_code_flow_def prog_ok)

lemma code_mark_used_other [simp]:
  "d_sessions (code_mark_used i d) = d_sessions d"
  "d_users (code_mark_used i d) = d_users d"
  "d_clients (code_mark_used i d) = d_clients d"
  "user_by_id u (code_mark_used i d) = user_by_id u d"
  by (simp_all add: code_mark_used_def user_by_id_def)

text \<open>The session that the code flow inserts.\<close>

definition session_of_code :: "env \<Rightarrow> auth_code \<Rightarrow> client \<Rightarrow> token_response \<Rightarrow> session \<Rightarrow> bool" where
  "session_of_code E ac c r s \<longleftrightarrow>
     s_user_id s = Some (ac_user_id ac) \<and> s_client_id s = c_id c \<and> s_realm_id s = ac_realm_id ac
     \<and> s_scope s = ac_scope ac \<and> s_resource s = ac_resource ac
     \<and> s_access_token_hash s = sha2_256_hex E (tr_access_token r)
     \<and> s_refresh_token_hash s = map_option (sha2_256_hex E) (tr_refresh_token r)
     \<and> \<not> s_revoked s \<and> \<not> s_family_revoked s \<and> s_rotated_at s = None \<and> s_reused_at s = None
     \<and> s_token_family_id s = Some (e_uuid E 0) \<and> s_previous_session_id s = None
     \<and> s_expires_at s = e_clock E 3 + minutes 15
     \<and> (s_offline_session s \<longleftrightarrow> ''offline_access'' \<in> set (ac_scope ac))
     \<and> (s_offline_max_expires_at s = None \<longleftrightarrow> \<not> s_offline_session s)
     \<and> s_acr s = (case ac_auth_acr ac of None \<Rightarrow> acr_bronze | Some a \<Rightarrow> a)"

text \<open>C1 The authorization code flow issues tokens only against a live code, presented with its
  redirect URI by the enabled client it was issued to and with the verifier of its challenge, for
  an existing user.  It then marks the code used and inserts exactly one session, with the
  user, the client, the realm, the scopes and the assurance of the code, in a new token family,
  holding the hashes of the tokens returned, and changes nothing else in the database.\<close>

theorem auth_code_flow_correct:
  assumes "auth_code_flow E code uri cid verifier jkt d = (Inr r, e)"
  shows "\<exists>ac c s. ac \<in> set (d_codes d) \<and> ac_code ac = sha2_256_hex E code \<and> \<not> ac_used ac
      \<and> e_db_now E < ac_expires_at ac \<and> ac_redirect_uri ac = uri
      \<and> client_by_client_id cid d = Some c \<and> c_id c = ac_client_id ac \<and> c_enabled c
      \<and> s256_challenge E verifier = ac_code_challenge ac
      \<and> user_by_id (ac_user_id ac) d \<noteq> None
      \<and> session_of_code E ac c r s
      \<and> e = code_mark_used (ac_id ac) d\<lparr>d_sessions := d_sessions d @ [s]\<rparr>"
proof -
  from assms obtain ac c where
    found: "code_by_code (sha2_256_hex E) (e_db_now E) code d = Some ac"
    and guards: "ac_redirect_uri ac = uri" "client_by_client_id cid d = Some c" "c_id c = ac_client_id ac"
      "c_enabled c" "verify_s256 E verifier (ac_code_challenge ac)"
    and issue: "issue_for_code E code jkt ac c (code_mark_used (ac_id ac) d) = (Inr r, e)"
    unfolding auth_code_flow_ok by blast
  from found have code: "ac \<in> set (d_codes d)" "ac_code ac = sha2_256_hex E code" "\<not> ac_used ac"
    "e_db_now E < ac_expires_at ac"
    by (auto simp: code_by_code_def dest!: find_Some_set)
  from issue_for_code_ok [OF issue] obtain u policy at rt where
    u: "user_by_id (ac_user_id ac) d = Some u"
    and policy: "policy = None \<longleftrightarrow> ''offline_access'' \<notin> set (ac_scope ac)"
    and r: "tr_access_token r = at" "tr_refresh_token r = Some rt"
    and e: "e = code_mark_used (ac_id ac) d\<lparr>d_sessions := d_sessions d @
        [(code_session E ac c (sid_or_default E 0) at rt policy
            (case ac_auth_acr ac of None \<Rightarrow> acr_bronze | Some a \<Rightarrow> a)
            (if ac_auth_amr ac = [] then [''pwd''] else ac_auth_amr ac))\<lparr>s_created_at := e_db_now E\<rparr>]\<rparr>"
    by (auto simp: Let_def)
  let ?s = "(code_session E ac c (sid_or_default E 0) at rt policy
            (case ac_auth_acr ac of None \<Rightarrow> acr_bronze | Some a \<Rightarrow> a)
            (if ac_auth_amr ac = [] then [''pwd''] else ac_auth_amr ac))\<lparr>s_created_at := e_db_now E\<rparr>"
  have "session_of_code E ac c r ?s"
    using r policy by (simp add: session_of_code_def code_session_def Let_def)
  then show ?thesis
    using code guards u e by (metis option.distinct(1) verify_s256_def)
qed

text \<open>C2 An authorization code is redeemed at most once.  After a successful exchange the same code
  is refused with \<open>invalid_request\<close>, for every client, verifier and redirect URI, at every later time
  and after any further redemptions, and the refused attempt changes nothing; the unique key of
  the code column is kept.\<close>

theorem auth_code_single_use:
  assumes "codes_ok d" and "auth_code_flow E code uri cid verifier jkt d = (Inr r, e)"
    and "sha2_256_hex E' = sha2_256_hex E"
  shows "auth_code_flow E' code uri' cid' verifier' jkt' (fold code_mark_used is e)
           = (Inl InvalidRequest, fold code_mark_used is e)
    \<and> codes_ok e"
proof
  from assms(2) obtain ac c where
    found: "code_by_code (sha2_256_hex E) (e_db_now E) code d = Some ac"
    and issue: "issue_for_code E code jkt ac c (code_mark_used (ac_id ac) d) = (Inr r, e)"
    unfolding auth_code_flow_ok by blast
  from issue_for_code_ok [OF issue] have codes: "d_codes e = d_codes (code_mark_used (ac_id ac) d)"
    by (auto simp: Let_def)
  have same: "d_codes (fold code_mark_used is x) = d_codes (fold code_mark_used is y)"
    if "d_codes x = d_codes y" for x y
    using that by (induction "is" arbitrary: x y) (simp_all add: code_mark_used_def)
  have "code_by_code (sha2_256_hex E) (e_db_now E') code (fold code_mark_used is (code_mark_used (ac_id ac) d)) = None"
    by (rule codes.never_found_again [OF assms(1) found])
  then have "code_by_code (sha2_256_hex E') (e_db_now E') code (fold code_mark_used is e) = None"
    unfolding assms(3) code_by_code_def same [OF codes] .
  then show "auth_code_flow E' code uri' cid' verifier' jkt' (fold code_mark_used is e)
           = (Inl InvalidRequest, fold code_mark_used is e)"
    by (simp add: auth_code_flow_def with_transaction_def prog_run)
  show "codes_ok e"
    using assms(1) codes.ok_consume [of d "ac_id ac"] by (simp add: codes_ok_def codes)
qed

text \<open>A failed exchange leaves no trace: whatever the error, every write of the attempt is rolled
  back, so that a wrong verifier, redirect URI or client does not burn the code; a code that is
  not live or is presented with the wrong redirect URI or verifier is an invalid request,
  and the wrong or a disabled client an invalid client.\<close>

theorem auth_code_flow_errors:
  "(\<forall>err e. auth_code_flow E code uri cid verifier jkt d = (Inl err, e) \<longrightarrow> e = d)
   \<and> (case code_by_code (sha2_256_hex E) (e_db_now E) code d of
        None \<Rightarrow> fst (auth_code_flow E code uri cid verifier jkt d) = Inl InvalidRequest
      | Some ac \<Rightarrow>
          if ac_redirect_uri ac \<noteq> uri
          then fst (auth_code_flow E code uri cid verifier jkt d) = Inl InvalidRequest
          else (case client_by_client_id cid d of
             None \<Rightarrow> fst (auth_code_flow E code uri cid verifier jkt d) = Inl InvalidClient
           | Some c \<Rightarrow>
               if c_id c \<noteq> ac_client_id ac \<or> \<not> c_enabled c
               then fst (auth_code_flow E code uri cid verifier jkt d) = Inl InvalidClient
               else s256_challenge E verifier = ac_code_challenge ac
                 \<or> fst (auth_code_flow E code uri cid verifier jkt d) = Inl InvalidRequest))"
proof
  show "\<forall>err e. auth_code_flow E code uri cid verifier jkt d = (Inl err, e) \<longrightarrow> e = d"
    unfolding auth_code_flow_def by (auto dest: with_transaction_err)
  have unused: "\<not> ac_used ac" if "code_by_code (sha2_256_hex E) (e_db_now E) code d = Some ac" for ac
    using that by (auto simp: code_by_code_def dest!: find_Some_set)
  show "case code_by_code (sha2_256_hex E) (e_db_now E) code d of
        None \<Rightarrow> fst (auth_code_flow E code uri cid verifier jkt d) = Inl InvalidRequest
      | Some ac \<Rightarrow>
          if ac_redirect_uri ac \<noteq> uri
          then fst (auth_code_flow E code uri cid verifier jkt d) = Inl InvalidRequest
          else (case client_by_client_id cid d of
             None \<Rightarrow> fst (auth_code_flow E code uri cid verifier jkt d) = Inl InvalidClient
           | Some c \<Rightarrow>
               if c_id c \<noteq> ac_client_id ac \<or> \<not> c_enabled c
               then fst (auth_code_flow E code uri cid verifier jkt d) = Inl InvalidClient
               else s256_challenge E verifier = ac_code_challenge ac
                 \<or> fst (auth_code_flow E code uri cid verifier jkt d) = Inl InvalidRequest)"
    by (auto simp: auth_code_flow_def with_transaction_def prog_run unused verify_s256_def
        split: option.splits)
qed

text \<open>The client credentials flow gives no user access and no refresh token: a success needs an
  enabled client that did not ask for \<open>offline_access\<close>, the granted scopes are those resolved
  for the client, and the one inserted session has no user, no refresh token and no family.\<close>

theorem client_credentials_correct:
  assumes "client_credentials_flow E c requested jkt d = (Inr r, e)"
  shows "c_enabled c \<and> ''offline_access'' \<notin> set requested
    \<and> tr_refresh_token r = None \<and> tr_id_token r = None \<and> tr_expires_in r = 900
    \<and> (\<exists>scopes s. resolve_names_for_client (e_collate E) (c_id c)
            (if requested = [] then filter (\<lambda>s. s \<noteq> ''offline_access'') (c_allowed_scopes c) else requested)
            (c_allowed_scopes c) d = Inr scopes
        \<and> tr_scope r = join_scopes scopes \<and> s_scope s = scopes \<and> s_user_id s = None
        \<and> s_client_id s = c_id c \<and> s_refresh_token_hash s = None \<and> s_token_family_id s = None
        \<and> s_access_token_hash s = sha2_256_hex E (tr_access_token r)
        \<and> s_expires_at s = e_clock E 1 + minutes 15 \<and> \<not> s_revoked s
        \<and> e = d\<lparr>d_sessions := d_sessions d @ [s]\<rparr>)"
proof -
  from assms obtain scopes access_token where
    guards: "c_enabled c" "''offline_access'' \<notin> set requested"
    and scopes: "resolve_names_for_client (e_collate E) (c_id c)
            (if requested = [] then filter (\<lambda>s. s \<noteq> ''offline_access'') (c_allowed_scopes c) else requested)
            (c_allowed_scopes c) d = Inr scopes"
    and r: "r = \<lparr>tr_access_token = access_token, tr_token_type = token_type_of jkt, tr_expires_in = 900,
                tr_refresh_token = None, tr_refresh_expires_in = None, tr_id_token = None,
                tr_scope = join_scopes scopes\<rparr>"
    and e: "e = d\<lparr>d_sessions := d_sessions d @
        [client_session E c scopes access_token\<lparr>s_created_at := e_db_now E, s_last_used_at := None\<rparr>]\<rparr>"
    unfolding client_credentials_flow_def Let_def by (auto simp: prog_ok)
  let ?s = "client_session E c scopes access_token\<lparr>s_created_at := e_db_now E, s_last_used_at := None\<rparr>"
  have "s_scope ?s = scopes \<and> s_user_id ?s = None \<and> s_client_id ?s = c_id c
      \<and> s_refresh_token_hash ?s = None \<and> s_token_family_id ?s = None
      \<and> s_access_token_hash ?s = sha2_256_hex E (tr_access_token r)
      \<and> s_expires_at ?s = e_clock E 1 + minutes 15 \<and> \<not> s_revoked ?s"
    by (simp add: client_session_def Let_def r)
  then show ?thesis
    using guards scopes r e by (intro conjI exI [of _ scopes] exI [of _ ?s]) simp_all
qed


text \<open>Signing and random values that never fail are enough for tokens to be issued.\<close>

definition issuer_works :: "env \<Rightarrow> token_service \<Rightarrow> bool" where
  "issuer_works E svc \<longleftrightarrow> (\<forall>x. \<exists>s. ts_sign_rs256 svc x = Inr s) \<and> (\<forall>k. e_random E k \<noteq> None)"

lemma issuer_works_tokens:
  assumes "issuer_works E svc"
  shows "\<exists>c t. issue_access_token E k svc now sub aud scopes jkt details res x = Inr (c, t)"
    and "\<exists>t. issue_id_token E svc now sub aud y = Inr t"
    and "\<exists>t. generate_opaque_token E k = Inr t"
proof -
  have enc: "\<exists>t. encode_jwt E svc m = Inr t" for m
    using assms by (auto simp: issuer_works_def encode_jwt_def Let_def bindr_Inr)
  show rnd: "\<exists>t. generate_opaque_token E k = Inr t"
    using assms by (auto simp: issuer_works_def generate_opaque_token_def split: option.splits)
  show "\<exists>t. issue_id_token E svc now sub aud y = Inr t"
    using enc by (simp add: issue_id_token_def)
  show "\<exists>c t. issue_access_token E k svc now sub aud scopes jkt details res x = Inr (c, t)"
    using enc rnd unfolding issue_access_token_def Let_def
    by (auto simp: bindr_Inr split: prod.splits)
qed

lemma auth_code_flow_total:
  assumes "code_by_code (sha2_256_hex E) (e_db_now E) code d = Some ac" and "ac_redirect_uri ac = uri"
    and "client_by_client_id cid d = Some c" and "c_id c = ac_client_id ac" and "c_enabled c"
    and "s256_challenge E verifier = ac_code_challenge ac"
    and "user_by_id (ac_user_id ac) d = Some u" and "''offline_access'' \<notin> set (ac_scope ac)"
    and "resolve_organization_claim E (u_id u) (ac_scope ac) (code_mark_used (ac_id ac) d) = Inr org"
    and "e_services E (ac_realm_id ac) = Inr svc" and "issuer_works E svc"
    and "c_id_token_alg c = None" and "\<forall>s \<in> set (d_sessions d). s_id s \<noteq> e_uuid E 1"
  shows "\<exists>r e. auth_code_flow E code uri cid verifier jkt d = (Inr r, e)"
proof -
  let ?d = "code_mark_used (ac_id ac) d"
  let ?roles = "resolve_role_claims (e_collate E) (u_id u) ?d"
  let ?mapped = "resolve_mapped_claims E (c_id c) (Some u) (ac_scope ac) ?d"
  let ?acr = "case ac_auth_acr ac of None \<Rightarrow> acr_bronze | Some a \<Rightarrow> a"
  let ?amr = "if ac_auth_amr ac = [] then [''pwd''] else ac_auth_amr ac"
  obtain cl at where access: "issue_access_token E 1 svc (timestamp (e_clock E 0))
      (subject_for E c (ac_user_id ac)) (c_client_id c) (ac_scope ac) jkt (ac_authorization_details ac)
      (Some (ac_resource ac)) (user_access_extra ?mapped ?roles org (ac_scope ac)) = Inr (cl, at)"
    using issuer_works_tokens(1) [OF assms(11)] by blast
  obtain idt where idt: "issue_id_token E svc (timestamp (e_clock E 2)) (subject_for E c (ac_user_id ac))
      (c_client_id c) (code_id_extra E ac u c code at (sid_or_default E 0) ?acr ?amr ?mapped ?roles
        (map g_name (groups_of_user (u_id u) ?d)) org) = Inr idt"
    using issuer_works_tokens(2) [OF assms(11)] by blast
  obtain refresh where refresh: "generate_opaque_token E 2 = Inr refresh"
    using issuer_works_tokens(3) [OF assms(11)] by blast
  obtain e where create: "session_create (e_db_now E)
      (code_session E ac c (sid_or_default E 0) at refresh None ?acr ?amr) ?d = (Inr (), e)"
    using assms(8, 13) by (simp add: session_create_ok code_session_def Let_def)
  have "offline_policy_for (''offline_access'' \<in> set (ac_scope ac)) (ac_realm_id ac) ?d = (Inr None, ?d)"
    using assms(8) by (simp add: offline_policy_for_ok)
  then have "\<exists>r. issue_for_code E code jkt ac c ?d = (Inr r, e)"
    unfolding issue_for_code_def maybe_encrypt_id_token_def prog_ok Let_def
    using assms(7, 9, 10, 12) access idt refresh create
    by (auto simp: prog_ok split del: if_split)
  moreover have "\<not> ac_used ac"
    using assms(1) by (auto simp: code_by_code_def dest!: find_Some_set)
  ultimately show ?thesis
    unfolding auth_code_flow_ok using assms(1-6) by (auto simp: verify_s256_def)
qed

text \<open>Progress of the code flow: a live code presented correctly is exchanged for tokens, for a
  user who exists, without offline access, when the organization claim resolves, the token service
  and the random source work, the client takes signed ID tokens and the new session identifier
  is fresh.  Nothing asks whether the user is still enabled.\<close>

theorem auth_code_flow_progress:
  assumes "code_by_code (sha2_256_hex E) (e_db_now E) code d = Some ac" and "ac_redirect_uri ac = uri"
    and "client_by_client_id cid d = Some c" and "c_id c = ac_client_id ac" and "c_enabled c"
    and "s256_challenge E verifier = ac_code_challenge ac"
    and "user_by_id (ac_user_id ac) d = Some u" and "''offline_access'' \<notin> set (ac_scope ac)"
    and "resolve_organization_claim E (u_id u) (ac_scope ac) (code_mark_used (ac_id ac) d) = Inr org"
    and "e_services E (ac_realm_id ac) = Inr svc" and "issuer_works E svc"
    and "c_id_token_alg c = None" and "\<forall>s \<in> set (d_sessions d). s_id s \<noteq> e_uuid E 1"
  shows "\<exists>r e. auth_code_flow E code uri cid verifier jkt d = (Inr r, e)"
  using assms by (rule auth_code_flow_total)


section \<open>A run\<close>

definition sample_code :: auth_code where
  "sample_code =
     \<lparr>ac_id = 11, ac_code = ''code'', ac_client_id = 5, ac_user_id = 7, ac_realm_id = 3,
      ac_redirect_uri = ''https://app/cb'', ac_scope = [''openid''], ac_code_challenge = ''v'',
      ac_code_challenge_method = ''S256'', ac_nonce = None, ac_used = False, ac_claims_request = None,
      ac_display = None, ac_response_type = rt True False False, ac_acr_values = [],
      ac_claims_locales = [], ac_expires_at = minutes 10, ac_response_mode = None,
      ac_authorization_details = None, ac_resource = [], ac_auth_acr = None, ac_auth_amr = []\<rparr>"

definition sample_db :: db where
  "sample_db = empty_db\<lparr>d_clients := [sample_client], d_users := [sample_user], d_codes := [sample_code]\<rparr>"

lemmas sample_defs = sample_db_def empty_db_def sample_client_def sample_user_def sample_code_def
  sample_env_def sample_service_def

lemmas lookup_defs = code_by_code_def client_by_client_id_def client_by_id_def user_by_id_def
  realm_by_id_def code_mark_used_def update_where_def groups_of_user_def

lemma no_roles: "d_roles d = [] \<Longrightarrow> effective_names le u d = []"
  by (simp add: effective_names_def)

lemma no_org_scope: "resolve_organization_claim E u [''openid''] d = Inr None"
  by (simp add: resolve_organization_claim_def List.map_filter_def strip_prefix_def starts_with_def)

lemma sample_issuer: "issuer_works sample_env sample_service"
  by (simp add: issuer_works_def sample_env_def sample_service_def)

lemma sample_found:
  "code_by_code (sha2_256_hex sample_env) (e_db_now sample_env) ''code''
     (sample_db\<lparr>d_users := us\<rparr>) = Some sample_code"
  by (simp add: code_by_code_def sample_defs sha2_256_hex_def minutes_def secs_def)

lemmas sample_total = auth_code_flow_total [OF sample_found _ _ _ _ _ _ _ _ _ sample_issuer,
    where c = sample_client and uri = "''https://app/cb''" and cid = "''app''" and verifier = "''v''" and org = None]

lemma sample_run:
  "\<exists>r e. auth_code_flow sample_env ''code'' ''https://app/cb'' ''app'' ''v'' None
           (sample_db\<lparr>d_users := [sample_user]\<rparr>) = (Inr r, e)"
  by (rule sample_total [where u = sample_user])
    (simp_all add: sample_defs lookup_defs s256_challenge_def no_org_scope)

lemma auth_code_flow_progress_witness:
  "\<exists>r e. auth_code_flow sample_env ''code'' ''https://app/cb'' ''app'' ''v'' None
           (sample_db\<lparr>d_users := [sample_user\<lparr>u_enabled := False\<rparr>]\<rparr>) = (Inr r, e)"
  by (rule auth_code_flow_progress [OF sample_found _ _ _ _ _ _ _ _ _ sample_issuer,
        where c = sample_client and u = "sample_user\<lparr>u_enabled := False\<rparr>" and org = None])
    (simp_all add: sample_defs lookup_defs s256_challenge_def no_org_scope)

lemma auth_code_flow_correct_witness:
  "\<exists>r e. auth_code_flow sample_env ''code'' ''https://app/cb'' ''app'' ''v'' None
           (sample_db\<lparr>d_users := [sample_user]\<rparr>) = (Inr r, e) \<and> length (d_sessions e) = 1"
proof -
  obtain r e where run: "auth_code_flow sample_env ''code'' ''https://app/cb'' ''app'' ''v'' None
      (sample_db\<lparr>d_users := [sample_user]\<rparr>) = (Inr r, e)"
    using sample_run by blast
  from auth_code_flow_correct [OF run] have "length (d_sessions e) = 1"
    by (auto simp: sample_db_def empty_db_def)
  with run show ?thesis
    by blast
qed

lemma auth_code_single_use_witness:
  "\<exists>e. auth_code_flow sample_env ''code'' ''x'' ''y'' ''z'' None e = (Inl InvalidRequest, e)"
proof -
  obtain r e where run: "auth_code_flow sample_env ''code'' ''https://app/cb'' ''app'' ''v'' None
      (sample_db\<lparr>d_users := [sample_user]\<rparr>) = (Inr r, e)"
    using sample_run by blast
  have "codes_ok (sample_db\<lparr>d_users := [sample_user]\<rparr>)"
    by (simp add: codes_ok_def sample_db_def)
  from auth_code_single_use [OF this run, of sample_env "''x''" "''y''" "''z''" None "[]"] show ?thesis
    by auto
qed

lemma auth_code_flow_errors_witness:
  "snd (auth_code_flow sample_env ''bad'' ''x'' ''y'' ''z'' None empty_db) = empty_db"
proof -
  have none: "code_by_code (sha2_256_hex sample_env) (e_db_now sample_env) ''bad'' empty_db = None"
    by (simp add: code_by_code_def empty_db_def)
  note err = auth_code_flow_errors [of sample_env "''bad''" "''x''" "''y''" "''z''" None empty_db]
  from err none have "fst (auth_code_flow sample_env ''bad'' ''x'' ''y'' ''z'' None empty_db) = Inl InvalidRequest"
    by simp
  then obtain e where "auth_code_flow sample_env ''bad'' ''x'' ''y'' ''z'' None empty_db = (Inl InvalidRequest, e)"
    by (cases "auth_code_flow sample_env ''bad'' ''x'' ''y'' ''z'' None empty_db") auto
  with conjunct1 [OF err] show ?thesis
    by fastforce
qed

lemma client_credentials_correct_witness:
  "\<exists>r e. client_credentials_flow sample_env sample_client [''openid''] None empty_db = (Inr r, e)
     \<and> tr_refresh_token r = None"
proof -
  have names: "resolve_names_for_client (e_collate sample_env) (c_id sample_client) [''openid'']
      (c_allowed_scopes sample_client) empty_db = Inr [''openid'']"
    by (simp add: resolve_names_Inr allowed_names_def crate_scope_allowed_def scopes_of_client_def
        sample_client_def empty_db_def)
  obtain cl t where "issue_access_token sample_env 0 sample_service (timestamp (e_clock sample_env 0))
      (c_client_id sample_client) (c_client_id sample_client) [''openid''] None None None
      (no_access_extra\<lparr>ax_custom_claims := mc_access_token (resolve_mapped_claims sample_env
          (c_id sample_client) None [''openid''] empty_db),
         ax_additional_audiences := mc_access_audiences (resolve_mapped_claims sample_env
          (c_id sample_client) None [''openid''] empty_db)\<rparr>) = Inr (cl, t)"
    using issuer_works_tokens(1) [OF sample_issuer] by blast
  moreover have "e_services sample_env i = Inr sample_service" for i
    by (simp add: sample_env_def)
  moreover have "c_enabled sample_client"
    by (simp add: sample_client_def)
  moreover have "\<forall>x \<in> set (d_sessions empty_db). s_id x \<noteq> i" for i
    by (simp add: empty_db_def)
  ultimately obtain r e where run:
    "client_credentials_flow sample_env sample_client [''openid''] None empty_db = (Inr r, e)"
    using names unfolding client_credentials_flow_def Let_def
    by (simp add: prog_ok client_session_def Let_def)
  with client_credentials_correct [OF run] show ?thesis
    by blast
qed

end
