(* ===== verification/Refresh.thy ===== *)
theory Refresh
  imports Grants
begin

text \<open>The refresh token flow (\<open>oidc-oidc/src/flows/refresh_token.rs\<close>).  Its first phase looks for
  replays and commits what it writes although it returns an error; its second phase rotates the
  token in a transaction.  The two phases run on two connections, so they take an environment each:
  their clocks differ, and other transactions may run between them.\<close>

section \<open>Phase 1: replay detection\<close>

definition refresh_expired :: "instant \<Rightarrow> session \<Rightarrow> bool" where
  "refresh_expired now s \<longleftrightarrow>
     (case s_refresh_expires_at s of None \<Rightarrow> True | Some t \<Rightarrow> t \<le> now)
     \<or> (case s_offline_max_expires_at s of None \<Rightarrow> False | Some t \<Rightarrow> t \<le> now)"

(*@ oidc-oidc/src/flows/refresh_token.rs 34-92 RefreshTokenFlow::execute, phase 1 *)
definition refresh_phase1 :: "env \<Rightarrow> string \<Rightarrow> uuid \<Rightarrow> (db, oidc_error, unit) prog" where
  "refresh_phase1 E refresh_hash client =
     bindp (query (session_by_refresh_hash refresh_hash)) (\<lambda>found.
     bindp (some_or found InvalidRequest) (\<lambda>s.
     thenp (guardp (s_client_id s = client) InvalidClient)
    (thenp (guardp (\<not> (s_revoked s \<or> s_family_revoked s)) InvalidRequest)
    (if refresh_expired (e_clock E 0) s then
       thenp (exec (case s_token_family_id s of
                      Some f \<Rightarrow> session_revoke_family f
                    | None \<Rightarrow> session_revoke (s_id s)))
         (fail InvalidRequest)
     else if s_rotated_at s \<noteq> None then
       thenp (exec (session_mark_reused (e_db_now E) (s_id s)))
      (thenp (exec (case s_token_family_id s of Some f \<Rightarrow> session_revoke_family f | None \<Rightarrow> (\<lambda>d. d)))
         (fail InvalidRequest))
     else ret ()))))"


section \<open>Phase 2: rotation\<close>

(*@ oidc-oidc/src/flows/refresh_token.rs 226-245 IdTokenExtraClaims of the refresh flow *)
definition refresh_id_extra ::
  "env \<Rightarrow> session \<Rightarrow> user \<Rightarrow> string \<Rightarrow> string \<Rightarrow> mapped_claims \<Rightarrow> role_claims \<Rightarrow> json option \<Rightarrow> id_extra" where
  "refresh_id_extra E s u access_token sid mapped roles org =
     no_id_extra
       \<lparr>ix_custom_claims := mc_id_token mapped, ix_additional_audiences := mc_id_audiences mapped,
        ix_at_hash := Some (left_half_hash E access_token),
        ix_auth_time := Some (timestamp (e_clock E 2)), ix_sid := Some sid,
        ix_email := Some (u_email u), ix_email_verified := Some (u_email_verified u),
        ix_name := u_username u, ix_given_name := u_given_name u, ix_family_name := u_family_name u,
        ix_acr := Some (s_acr s), ix_amr := Some (s_amr s), ix_organization := org,
        ix_roles := rc_roles roles, ix_realm_access := rc_realm_access roles,
        ix_resource_access := rc_resource_access roles\<rparr>"

(*@ oidc-oidc/src/flows/refresh_token.rs 258-299 new session of the refresh flow *)
definition refreshed_session ::
  "env \<Rightarrow> session \<Rightarrow> uuid \<Rightarrow> string \<Rightarrow> string \<Rightarrow> string \<Rightarrow> instant option \<Rightarrow> session" where
  "refreshed_session E s uid sid access_token refresh_token refresh_expires_at =
     (let now = e_clock E 4 in
     \<lparr>s_id = e_uuid E 0, s_sid = sid, s_user_id = Some uid, s_realm_id = s_realm_id s,
      s_client_id = s_client_id s, s_grant_type = ''refresh_token'',
      s_access_token_hash = sha2_256_hex E access_token,
      s_refresh_token_hash = Some (sha2_256_hex E refresh_token), s_id_token_jti = None,
      s_scope = s_scope s, s_revoked = False, s_expires_at = now + minutes 15,
      s_refresh_expires_at = refresh_expires_at, s_offline_session = s_offline_session s,
      s_offline_max_expires_at = s_offline_max_expires_at s, s_created_at = now,
      s_last_used_at = None, s_token_family_id = s_token_family_id s,
      s_previous_session_id = Some (s_id s), s_rotated_at = None, s_reused_at = None,
      s_family_revoked = False, s_authorization_details = s_authorization_details s,
      s_resource = s_resource s, s_acr = s_acr s, s_amr = s_amr s\<rparr>)"

(*@ oidc-oidc/src/flows/refresh_token.rs 262-272 refresh_expires_at *)
definition next_refresh_expiry :: "instant \<Rightarrow> session \<Rightarrow> offline_policy option \<Rightarrow> instant option result" where
  "next_refresh_expiry now s policy = (case policy of
      Some p \<Rightarrow> (case s_offline_max_expires_at s of
          None \<Rightarrow> Inl InvalidRequest
        | Some maximum \<Rightarrow> Inr (Some (min (now + secs (op_idle_seconds p)) maximum)))
    | None \<Rightarrow> Inr (Some (now + days 7)))"

(*@ oidc-oidc/src/flows/refresh_token.rs 94-315 RefreshTokenFlow::execute, phase 2 *)
definition refresh_phase2 ::
  "env \<Rightarrow> string \<Rightarrow> uuid \<Rightarrow> string option \<Rightarrow> (db, oidc_error, token_response) prog" where
  "refresh_phase2 E refresh_hash client jkt =
     with_transaction
       (bindp (query (session_by_refresh_hash refresh_hash)) (\<lambda>found.
        bindp (some_or found InvalidRequest) (\<lambda>s.
        thenp (guardp (s_client_id s = client) InvalidClient)
       (thenp (guardp (\<not> s_revoked s \<and> \<not> s_family_revoked s \<and> s_rotated_at s = None) InvalidRequest)
       (thenp (guardp (\<not> refresh_expired (e_clock E 0) s) InvalidRequest)
       (bindp (some_or (s_user_id s) (NotFound ''user'')) (\<lambda>uid.
        bindp (query (user_by_id uid)) (\<lambda>u.
        bindp (some_or u (NotFound ''user'')) (\<lambda>u.
        thenp (guardp (u_enabled u) (AuthorizationDenied ''Account disabled''))
       (bindp (query (is_managed_user_blocked (u_id u))) (\<lambda>blocked.
        thenp (guardp (\<not> blocked) (AuthorizationDenied ''Account organization is disabled''))
       (bindp (query (client_by_id (s_client_id s))) (\<lambda>c.
        bindp (some_or c InvalidClient) (\<lambda>c.
        thenp (guardp (c_enabled c) InvalidClient)
       (bindp (offline_policy_for (s_offline_session s) (s_realm_id s)) (\<lambda>policy.
        bindp (ask (resolve_organization_claim E uid (s_scope s))) (\<lambda>org.
        bindp (query (resolve_role_claims (e_collate E) uid)) (\<lambda>roles.
        bindp (query (resolve_mapped_claims E (c_id c) (Some u) (s_scope s))) (\<lambda>mapped.
        bindp (lift (e_services E (s_realm_id s))) (\<lambda>svc.
        bindp (lift (issue_access_token E 1 svc (timestamp (e_clock E 1)) (subject_for E c uid)
                 (c_client_id c) (s_scope s) jkt None None
                 (user_access_extra mapped roles org (s_scope s)))) (\<lambda>(_, access_token).
        bindp (lift (issue_id_token E svc (timestamp (e_clock E 3)) (subject_for E c uid) (c_client_id c)
                 (refresh_id_extra E s u access_token (sid_or_default E 0) mapped roles org))) (\<lambda>id_token.
        bindp (lift (maybe_encrypt_id_token E id_token c)) (\<lambda>id_token.
        bindp (lift (generate_opaque_token E 2)) (\<lambda>new_token.
        bindp (lift (next_refresh_expiry (e_clock E 4) s policy)) (\<lambda>expiry.
        thenp (session_create (e_db_now E)
                 (refreshed_session E s uid (sid_or_default E 0) access_token new_token expiry))
       (thenp (exec (session_mark_rotated (e_db_now E) (s_id s)))
          (ret \<lparr>tr_access_token = access_token, tr_token_type = token_type_of jkt, tr_expires_in = 900,
                tr_refresh_token = Some new_token,
                tr_refresh_expires_in = map_option (\<lambda>t. num_seconds (t - e_clock E 4)) expiry,
                tr_id_token = Some id_token, tr_scope = join_scopes (s_scope s)\<rparr>)))))))))))))))))))))))))))"

(*@ oidc-oidc/src/flows/refresh_token.rs 26-33 RefreshTokenFlow::execute *)
definition refresh_flow ::
  "env \<Rightarrow> env \<Rightarrow> string \<Rightarrow> uuid \<Rightarrow> string option \<Rightarrow> (db, oidc_error, token_response) prog" where
  "refresh_flow E1 E2 refresh_token client jkt =
     (let h = sha2_256_hex E1 refresh_token
      in thenp (refresh_phase1 E1 h client) (refresh_phase2 E2 h client jkt))"


section \<open>Facts\<close>

definition usable :: "instant \<Rightarrow> uuid \<Rightarrow> session \<Rightarrow> bool" where
  "usable now client s \<longleftrightarrow> s_client_id s = client \<and> \<not> s_revoked s \<and> \<not> s_family_revoked s
     \<and> s_rotated_at s = None \<and> \<not> refresh_expired now s"

lemma refresh_phase1_ok:
  "refresh_phase1 E h client d = (Inr u, e) \<longleftrightarrow> e = d \<and>
     (\<exists>s. session_by_refresh_hash h d = Some s \<and> usable (e_clock E 0) client s)"
  by (auto simp: refresh_phase1_def prog_ok usable_def split: if_splits)

text \<open>The session that replaces a rotated one.\<close>

definition successor :: "env \<Rightarrow> session \<Rightarrow> token_response \<Rightarrow> session \<Rightarrow> bool" where
  "successor E s r n \<longleftrightarrow>
     s_id n = e_uuid E 0 \<and> s_previous_session_id n = Some (s_id s)
     \<and> s_token_family_id n = s_token_family_id s \<and> s_user_id n = s_user_id s
     \<and> s_client_id n = s_client_id s \<and> s_realm_id n = s_realm_id s \<and> s_scope n = s_scope s
     \<and> s_acr n = s_acr s \<and> s_amr n = s_amr s \<and> s_resource n = s_resource s
     \<and> s_authorization_details n = s_authorization_details s
     \<and> s_offline_session n = s_offline_session s
     \<and> s_offline_max_expires_at n = s_offline_max_expires_at s
     \<and> \<not> s_revoked n \<and> \<not> s_family_revoked n \<and> s_rotated_at n = None
     \<and> s_access_token_hash n = sha2_256_hex E (tr_access_token r)
     \<and> s_refresh_token_hash n = map_option (sha2_256_hex E) (tr_refresh_token r)
     \<and> (\<exists>t. s_refresh_expires_at n = Some t
          \<and> (if s_offline_session s then \<exists>m. s_offline_max_expires_at s = Some m \<and> t \<le> m
             else t = e_clock E 4 + days 7))"

lemma next_refresh_expiry_ok:
  assumes "next_refresh_expiry now s policy = Inr x"
  shows "\<exists>t. x = Some t \<and> (case policy of
      Some _ \<Rightarrow> \<exists>m. s_offline_max_expires_at s = Some m \<and> t \<le> m
    | None \<Rightarrow> t = now + days 7)"
  using assms by (auto simp: next_refresh_expiry_def split: option.splits)

lemma refresh_phase2_ok:
  assumes "refresh_phase2 E h client jkt d = (Inr r, e)"
  shows "\<exists>s c u n. session_by_refresh_hash h d = Some s \<and> usable (e_clock E 0) client s
    \<and> client_by_id client d = Some c \<and> c_enabled c
    \<and> s_user_id s \<noteq> None \<and> user_by_id (the (s_user_id s)) d = Some u \<and> u_enabled u
    \<and> \<not> is_managed_user_blocked (u_id u) d
    \<and> successor E s r n \<and> (\<forall>x \<in> set (d_sessions d). s_id x \<noteq> s_id n)
    \<and> e = session_mark_rotated (e_db_now E) (s_id s) (d\<lparr>d_sessions := d_sessions d @ [n]\<rparr>)"
proof -
  from assms obtain s uid u c policy access_token new_token expiry where
    s: "session_by_refresh_hash h d = Some s" "s_client_id s = client" "\<not> s_revoked s"
      "\<not> s_family_revoked s" "s_rotated_at s = None" "\<not> refresh_expired (e_clock E 0) s"
    and u: "s_user_id s = Some uid" "user_by_id uid d = Some u" "u_enabled u"
      "\<not> is_managed_user_blocked (u_id u) d"
    and c: "client_by_id (s_client_id s) d = Some c" "c_enabled c"
    and policy: "offline_policy_for (s_offline_session s) (s_realm_id s) d = (Inr policy, d)"
    and expiry: "next_refresh_expiry (e_clock E 4) s policy = Inr expiry"
    and fresh: "\<forall>x \<in> set (d_sessions d). s_id x \<noteq> s_id (refreshed_session E s uid (sid_or_default E 0) access_token new_token expiry)"
    and r: "tr_access_token r = access_token" "tr_refresh_token r = Some new_token"
    and e: "e = session_mark_rotated (e_db_now E) (s_id s) (d\<lparr>d_sessions := d_sessions d @
        [refreshed_session E s uid (sid_or_default E 0) access_token new_token expiry
           \<lparr>s_created_at := e_db_now E, s_last_used_at := None\<rparr>]\<rparr>)"
    unfolding refresh_phase2_def by (auto simp: prog_ok)
  let ?n = "refreshed_session E s uid (sid_or_default E 0) access_token new_token expiry
           \<lparr>s_created_at := e_db_now E, s_last_used_at := None\<rparr>"
  have "(policy = None) = (\<not> s_offline_session s)"
    using policy by (auto simp: offline_policy_for_ok split: if_splits)
  then have "successor E s r ?n"
    using next_refresh_expiry_ok [OF expiry] r u
    by (auto simp: successor_def refreshed_session_def Let_def split: option.splits)
  moreover have "\<forall>x \<in> set (d_sessions d). s_id x \<noteq> s_id ?n"
    using fresh by simp
  moreover have "usable (e_clock E 0) client s"
    using s by (simp add: usable_def)
  ultimately show ?thesis
    using s u c e by (intro exI [of _ s] exI [of _ c] exI [of _ u] exI [of _ ?n]) simp
qed

lemma refresh_flow_ok:
  "refresh_flow E1 E2 token client jkt d = (Inr r, e) \<longleftrightarrow>
     (\<exists>s. session_by_refresh_hash (sha2_256_hex E1 token) d = Some s \<and> usable (e_clock E1 0) client s)
     \<and> refresh_phase2 E2 (sha2_256_hex E1 token) client jkt d = (Inr r, e)"
  by (auto simp: refresh_flow_def Let_def thenp_ok refresh_phase1_ok)


lemma other_tables [simp]:
  "d_users (session_mark_rotated now i d) = d_users d"
  "d_codes (update_sessions P f d) = d_codes d"
  "d_codes (session_mark_rotated now i d) = d_codes d"
  by (simp_all add: session_mark_rotated_def update_sessions_def)

text \<open>Looking a token up after its session was rotated finds the rotated session.\<close>

lemma lookup_after_rotation:
  assumes "session_by_refresh_hash h d = Some s"
  shows "session_by_refresh_hash h (session_mark_rotated now (s_id s) (d\<lparr>d_sessions := d_sessions d @ ns\<rparr>))
    = Some (s\<lparr>s_rotated_at := Some now, s_last_used_at := Some now\<rparr>)"
  using assms
  by (simp add: session_by_refresh_hash_def session_mark_rotated_def find_update_where find_append)

text \<open>C4 A refresh succeeds only for a refresh token whose session belongs to the authenticated client,
  is neither revoked nor rotated, is unexpired at both phases, and whose user and client exist and
  are enabled and whose organization is not disabled.  It inserts one successor in the same family,
  with the same user, client, realm, scopes and assurance (a refresh never widens a grant), an
  expiry that never exceeds the absolute one of an offline family, and marks the old session
  rotated; nothing else changes.\<close>

theorem refresh_flow_correct:
  assumes "refresh_flow E1 E2 token client jkt d = (Inr r, e)"
  shows "\<exists>s n u c. session_by_refresh_hash (sha2_256_hex E1 token) d = Some s
    \<and> usable (e_clock E1 0) client s \<and> usable (e_clock E2 0) client s
    \<and> client_by_id client d = Some c \<and> c_enabled c
    \<and> user_by_id (the (s_user_id s)) d = Some u \<and> u_enabled u \<and> \<not> is_managed_user_blocked (u_id u) d
    \<and> successor E2 s r n
    \<and> e = session_mark_rotated (e_db_now E2) (s_id s) (d\<lparr>d_sessions := d_sessions d @ [n]\<rparr>)"
  using assms refresh_phase2_ok unfolding refresh_flow_ok by fastforce

text \<open>C3 Theft detection.  When a refresh token that was already rotated is presented again by its
  client, whether before or after its expiry, the request fails with \<open>invalid_request\<close> and the whole
  family is revoked: every session of the family, the successor with its unused refresh token
  included, is revoked and found by no later lookup.  The revocation is kept although the request
  fails.\<close>

theorem refresh_replay_revokes_family:
  assumes "refresh_flow E1 E2 token client jkt d = (Inr r, e)"
    and "session_by_refresh_hash (sha2_256_hex E1 token) d = Some s"
    and "s_token_family_id s = Some f" and "sha2_256_hex E3 = sha2_256_hex E1"
  shows "\<exists>e'. refresh_flow E3 E4 token client jkt' e = (Inl InvalidRequest, e')
    \<and> (\<forall>x \<in> set (d_sessions e'). s_token_family_id x = Some f \<longrightarrow> s_revoked x)
    \<and> (\<forall>h. case session_by_refresh_hash h e' of None \<Rightarrow> True | Some x \<Rightarrow> s_token_family_id x \<noteq> Some f)
    \<and> (\<forall>h t. case session_by_access_hash t h e' of None \<Rightarrow> True | Some x \<Rightarrow> s_token_family_id x \<noteq> Some f)"
proof -
  from assms(1, 2) obtain n where
    s: "usable (e_clock E1 0) client s"
    and e: "e = session_mark_rotated (e_db_now E2) (s_id s) (d\<lparr>d_sessions := d_sessions d @ [n]\<rparr>)"
    using refresh_phase2_ok [of E2 "sha2_256_hex E1 token" client jkt d r e] unfolding refresh_flow_ok
    by auto
  let ?s = "s\<lparr>s_rotated_at := Some (e_db_now E2), s_last_used_at := Some (e_db_now E2)\<rparr>"
  have found: "session_by_refresh_hash (sha2_256_hex E3 token) e = Some ?s"
    unfolding e assms(4) by (rule lookup_after_rotation [OF assms(2)])
  define e' where "e' = (if refresh_expired (e_clock E3 0) ?s then session_revoke_family f e
      else session_revoke_family f (session_mark_reused (e_db_now E3) (s_id s) e))"
  have run: "refresh_flow E3 E4 token client jkt' e = (Inl InvalidRequest, e')"
    using s assms(3) found
    by (simp add: refresh_flow_def Let_def refresh_phase1_def thenp_def bindp_def query_def some_or_def
        guardp_def exec_def ret_def fail_def usable_def e'_def)
  have revoked: "\<forall>x \<in> set (d_sessions e'). s_token_family_id x = Some f \<longrightarrow> s_revoked x"
    unfolding e'_def by (auto simp: session_revoke_family_def update_where_elem)
  then show ?thesis
    using run by (intro exI [of _ e'])
      (auto simp: session_by_refresh_hash_def session_by_access_hash_def split: option.splits
        dest!: find_Some_set)
qed

text \<open>C5 The two phases have different fates.  A failed second phase leaves no trace; a failed request
  as a whole either leaves the database as it was or is an invalid request with a token that had
  expired or had been rotated: then every session of the family of the token is revoked; without a
  family, the session of an expired token is revoked, and that of a replayed token is marked reused
  with nothing revoked.\<close>

theorem refresh_flow_errors:
  assumes "refresh_flow E1 E2 token client jkt d = (Inl err, e)"
  shows "e = d \<or> (err = InvalidRequest \<and> (\<exists>s. session_by_refresh_hash (sha2_256_hex E1 token) d = Some s
      \<and> s_client_id s = client \<and> (refresh_expired (e_clock E1 0) s \<or> s_rotated_at s \<noteq> None)
      \<and> (case s_token_family_id s of
           Some f \<Rightarrow> \<forall>x \<in> set (d_sessions e). s_token_family_id x = Some f \<longrightarrow> s_revoked x \<and> s_family_revoked x
         | None \<Rightarrow> if refresh_expired (e_clock E1 0) s then revoked_in e (s_id s)
                   else map s_revoked (d_sessions e) = map s_revoked (d_sessions d)
                      \<and> (\<forall>x \<in> set (d_sessions e). s_id x = s_id s \<longrightarrow> s_reused_at x = Some (e_db_now E1)))))"
proof -
  let ?h = "sha2_256_hex E1 token"
  consider "refresh_phase1 E1 ?h client d = (Inl err, e)"
    | "refresh_phase2 E2 ?h client jkt d = (Inl err, e)"
    using assms unfolding refresh_flow_def Let_def thenp_def bindp_Inl refresh_phase1_ok by blast
  then show ?thesis
  proof cases
    case 2
    then show ?thesis
      unfolding refresh_phase2_def by (auto dest: with_transaction_err)
  next
    case 1
    show ?thesis
    proof (cases "session_by_refresh_hash ?h d")
      case None
      with 1 show ?thesis
        by (simp add: refresh_phase1_def prog_run)
    next
      case (Some s)
      have "e = d \<or> (s_client_id s = client \<and> (refresh_expired (e_clock E1 0) s \<or> s_rotated_at s \<noteq> None)
          \<and> err = InvalidRequest
          \<and> e = (if refresh_expired (e_clock E1 0) s
                then (case s_token_family_id s of Some f \<Rightarrow> session_revoke_family f
                      | None \<Rightarrow> session_revoke (s_id s)) d
                else (case s_token_family_id s of Some f \<Rightarrow> session_revoke_family f | None \<Rightarrow> (\<lambda>d. d))
                       (session_mark_reused (e_db_now E1) (s_id s) d)))"
        using 1 Some by (auto simp: refresh_phase1_def prog_run split: if_splits)
      then show ?thesis
        using Some
        by (auto simp: session_revoke_family_def session_revoke_def session_mark_reused_def revoked_in_def
            update_where_elem map_update_where split: option.splits if_splits)
    qed
  qed
qed

text \<open>A refresh run on the database that the sample exchange of a code leaves.\<close>

lemma refresh_progress:
  assumes "session_by_refresh_hash (sha2_256_hex E1 token) d = Some s"
    and "sha2_256_hex E2 = sha2_256_hex E1"
    and "usable (e_clock E1 0) client s" and "usable (e_clock E2 0) client s"
    and "s_user_id s = Some uid" and "user_by_id uid d = Some u" and "u_enabled u"
    and "\<not> is_managed_user_blocked (u_id u) d" and "client_by_id client d = Some c" and "c_enabled c"
    and "\<not> s_offline_session s" and "resolve_organization_claim E2 uid (s_scope s) d = Inr org"
    and "e_services E2 (s_realm_id s) = Inr svc" and "issuer_works E2 svc"
    and "c_id_token_alg c = None" and "\<forall>x \<in> set (d_sessions d). s_id x \<noteq> e_uuid E2 0"
  shows "\<exists>r e. refresh_flow E1 E2 token client jkt d = (Inr r, e)"
proof -
  let ?roles = "resolve_role_claims (e_collate E2) uid d"
  let ?mapped = "resolve_mapped_claims E2 (c_id c) (Some u) (s_scope s) d"
  obtain cl at where access: "issue_access_token E2 1 svc (timestamp (e_clock E2 1)) (subject_for E2 c uid)
      (c_client_id c) (s_scope s) jkt None None (user_access_extra ?mapped ?roles org (s_scope s)) = Inr (cl, at)"
    using issuer_works_tokens(1) [OF assms(14)] by blast
  obtain idt where idt: "issue_id_token E2 svc (timestamp (e_clock E2 3)) (subject_for E2 c uid)
      (c_client_id c) (refresh_id_extra E2 s u at (sid_or_default E2 0) ?mapped ?roles org) = Inr idt"
    using issuer_works_tokens(2) [OF assms(14)] by blast
  obtain rt where rt: "generate_opaque_token E2 2 = Inr rt"
    using issuer_works_tokens(3) [OF assms(14)] by blast
  obtain e where create: "session_create (e_db_now E2)
      (refreshed_session E2 s uid (sid_or_default E2 0) at rt (Some (e_clock E2 4 + days 7))) d = (Inr (), e)"
    using assms(11, 16) by (simp add: session_create_ok refreshed_session_def Let_def)
  have policy: "offline_policy_for (s_offline_session s) (s_realm_id s) d = (Inr None, d)"
    using assms(11) by (simp add: offline_policy_for_ok)
  have "\<exists>r. refresh_phase2 E2 (sha2_256_hex E1 token) client jkt d
      = (Inr r, session_mark_rotated (e_db_now E2) (s_id s) e)"
    unfolding refresh_phase2_def maybe_encrypt_id_token_def next_refresh_expiry_def prog_ok
    using assms access idt rt create policy
    by (auto simp: prog_ok usable_def split del: if_split)
  with assms(1, 3) show ?thesis
    unfolding refresh_flow_ok by blast
qed

definition refresh_db :: db where
  "refresh_db = sample_db\<lparr>d_sessions := [sample_session]\<rparr>"

lemma sample_refresh:
  "\<exists>r e. refresh_flow sample_env sample_env ''r'' 5 None refresh_db = (Inr r, e)"
proof (rule refresh_progress [OF _ refl _ _ _ _ _ _ _ _ _ _ _ sample_issuer,
      where s = sample_session and uid = 7 and u = sample_user and c = sample_client and org = None])
  show "session_by_refresh_hash (sha2_256_hex sample_env ''r'') refresh_db = Some sample_session"
    by (simp add: session_by_refresh_hash_def refresh_db_def sample_session_def sha2_256_hex_def sample_env_def)
  show "usable (e_clock sample_env 0) 5 sample_session" "usable (e_clock sample_env 0) 5 sample_session"
    by (simp_all add: usable_def refresh_expired_def sample_session_def sample_env_def durations)
  show "resolve_organization_claim sample_env 7 (s_scope sample_session) refresh_db = Inr None"
    by (simp add: sample_session_def no_org_scope)
  show "\<not> is_managed_user_blocked (u_id sample_user) refresh_db"
    by (simp add: is_managed_user_blocked_def refresh_db_def sample_db_def empty_db_def)
qed (simp_all add: sample_session_def refresh_db_def sample_defs user_by_id_def client_by_id_def)

lemma sample_refresh_found:
  "session_by_refresh_hash (sha2_256_hex sample_env ''r'') refresh_db = Some sample_session"
  "s_token_family_id sample_session = Some 9"
  by (simp_all add: session_by_refresh_hash_def refresh_db_def sample_session_def sha2_256_hex_def sample_env_def)

lemma refresh_flow_correct_witness:
  "\<exists>r e (n :: session). refresh_flow sample_env sample_env ''r'' 5 None refresh_db = (Inr r, e)
     \<and> s_scope n = [''openid'']"
proof -
  obtain r e where run: "refresh_flow sample_env sample_env ''r'' 5 None refresh_db = (Inr r, e)"
    using sample_refresh by blast
  from refresh_flow_correct [OF run] obtain s n where
    "session_by_refresh_hash (sha2_256_hex sample_env ''r'') refresh_db = Some s" "successor sample_env s r n"
    by blast
  then have "s_scope n = [''openid'']"
    by (auto simp: successor_def sample_refresh_found sample_session_def)
  with run show ?thesis
    by blast
qed

lemma refresh_replay_revokes_family_witness:
  "\<exists>e e'. refresh_flow sample_env sample_env ''r'' 5 None e = (Inl InvalidRequest, e')
     \<and> (\<forall>x \<in> set (d_sessions e'). s_token_family_id x = Some 9 \<longrightarrow> s_revoked x)"
proof -
  obtain r e where run: "refresh_flow sample_env sample_env ''r'' 5 None refresh_db = (Inr r, e)"
    using sample_refresh by blast
  from refresh_replay_revokes_family [OF run sample_refresh_found refl] show ?thesis
    by blast
qed

lemma refresh_flow_errors_witness:
  "\<exists>err e. refresh_flow sample_env sample_env ''x'' 5 None empty_db = (Inl err, e)
     \<and> (e = empty_db \<or> err = InvalidRequest)"
proof -
  have run: "refresh_flow sample_env sample_env ''x'' 5 None empty_db = (Inl InvalidRequest, empty_db)"
    by (simp add: refresh_flow_def Let_def refresh_phase1_def session_by_refresh_hash_def empty_db_def
        prog_run thenp_def bindp_def)
  with refresh_flow_errors [OF run] show ?thesis
    by blast
qed

end
