(* ===== verification/Device.thy ===== *)
theory Device
  imports Refresh
begin

text \<open>The device authorization grant: the flow at the token endpoint
  (\<open>oidc-oidc/src/flows/device_code.rs\<close>), the creation of a device code and its confirmation by the
  user (\<open>oidc-oidc/src/endpoints/device_authorization.rs\<close>).\<close>

section \<open>Token request\<close>

definition device_grant :: string where
  "device_grant = ''urn:ietf:params:oauth:grant-type:device_code''"

(*@ oidc-oidc/src/flows/device_code.rs 153-188 IdTokenExtraClaims of the device flow *)
definition device_id_extra ::
  "env \<Rightarrow> user \<Rightarrow> string \<Rightarrow> string \<Rightarrow> mapped_claims \<Rightarrow> role_claims \<Rightarrow> json option \<Rightarrow> id_extra" where
  "device_id_extra E u access_token sid mapped roles org =
     (profile_extra u no_id_extra)
       \<lparr>ix_custom_claims := mc_id_token mapped, ix_additional_audiences := mc_id_audiences mapped,
        ix_at_hash := Some (left_half_hash E access_token),
        ix_auth_time := Some (timestamp (e_clock E 2)), ix_sid := Some sid,
        ix_locale := Some (u_locale u), ix_acr := Some acr_bronze, ix_amr := Some [''device_code''],
        ix_roles := rc_roles roles, ix_realm_access := rc_realm_access roles,
        ix_resource_access := rc_resource_access roles, ix_organization := org\<rparr>"

(*@ oidc-oidc/src/flows/device_code.rs 197-231 Session of the device flow *)
definition device_session ::
  "env \<Rightarrow> device_code \<Rightarrow> client \<Rightarrow> uuid \<Rightarrow> string \<Rightarrow> string \<Rightarrow> string \<Rightarrow> session" where
  "device_session E dc c uid sid access_token refresh_token =
     (let now = e_clock E 4 in
     \<lparr>s_id = e_uuid E 1, s_sid = sid, s_user_id = Some uid, s_realm_id = dc_realm_id dc,
      s_client_id = c_id c, s_grant_type = device_grant,
      s_access_token_hash = sha2_256_hex E access_token,
      s_refresh_token_hash = Some (sha2_256_hex E refresh_token), s_id_token_jti = None,
      s_scope = dc_scope dc, s_revoked = False, s_expires_at = now + minutes 15,
      s_refresh_expires_at = Some (now + days 7), s_offline_session = False,
      s_offline_max_expires_at = None, s_created_at = now, s_last_used_at = None,
      s_token_family_id = Some (e_uuid E 0), s_previous_session_id = None, s_rotated_at = None,
      s_reused_at = None, s_family_revoked = False, s_authorization_details = None, s_resource = [],
      s_acr = acr_bronze, s_amr = [''pwd'']\<rparr>)"

(*@ oidc-oidc/src/flows/device_code.rs 91-244 tokens and session of the device flow *)
definition issue_for_device ::
  "env \<Rightarrow> string option \<Rightarrow> device_code \<Rightarrow> uuid \<Rightarrow> user \<Rightarrow> client \<Rightarrow> (db, oidc_error, token_response) prog" where
  "issue_for_device E jkt dc uid u c =
     thenp (guardp (''offline_access'' \<notin> set (dc_scope dc))
        (InvalidScope ''offline_access requires an interactive authorization code flow''))
    (bindp (ask (resolve_organization_claim E (u_id u) (dc_scope dc))) (\<lambda>org.
     bindp (query (resolve_role_claims (e_collate E) (u_id u))) (\<lambda>roles.
     bindp (query (resolve_mapped_claims E (c_id c) (Some u) (dc_scope dc))) (\<lambda>mapped.
     bindp (lift (e_services E (dc_realm_id dc))) (\<lambda>svc.
     bindp (lift (issue_access_token E 1 svc (timestamp (e_clock E 1)) (subject_for E c uid)
              (c_client_id c) (dc_scope dc) jkt None None
              (user_access_extra mapped roles org (dc_scope dc)))) (\<lambda>(_, access_token).
     let sid = sid_or_default E 0
     in bindp (lift (issue_id_token E svc (timestamp (e_clock E 3)) (subject_for E c uid)
              (c_client_id c) (device_id_extra E u access_token sid mapped roles org))) (\<lambda>id_token.
     bindp (lift (maybe_encrypt_id_token E id_token c)) (\<lambda>id_token.
     bindp (lift (generate_opaque_token E 2)) (\<lambda>refresh_token.
     thenp (session_create (e_db_now E) (device_session E dc c uid sid access_token refresh_token))
       (ret \<lparr>tr_access_token = access_token, tr_token_type = token_type_of jkt, tr_expires_in = 900,
             tr_refresh_token = Some refresh_token, tr_refresh_expires_in = None,
             tr_id_token = Some id_token, tr_scope = join_scopes (dc_scope dc)\<rparr>))))))))))"

(*@ oidc-oidc/src/flows/device_code.rs 33-246 DeviceCodeFlow::execute *)
definition device_flow ::
  "env \<Rightarrow> string \<Rightarrow> string \<Rightarrow> string option \<Rightarrow> (db, oidc_error, token_response) prog" where
  "device_flow E device_code client_id jkt =
     with_transaction
       (bindp (query (device_by_hash (e_db_now E) (sha2_256_hex E device_code))) (\<lambda>found.
        bindp (some_or found ExpiredToken) (\<lambda>dc.
        thenp (guardp (e_uuid_text E (dc_client_id dc) = client_id) InvalidClient)
       (thenp (guardp (\<not> dc_expires_at dc < e_clock E 0) ExpiredToken)
       (thenp (guardp (\<not> dc_used dc) (AuthorizationDenied ''Device code already exchanged''))
       (thenp (guardp (dc_authorized dc) AuthorizationPending)
       (bindp (some_or (dc_user_id dc) AuthorizationPending) (\<lambda>uid.
        bindp (query (user_by_id uid)) (\<lambda>u.
        bindp (some_or u (NotFound ''user'')) (\<lambda>u.
        bindp (query (client_by_client_id client_id)) (\<lambda>c.
        bindp (some_or c InvalidClient) (\<lambda>c.
        thenp (guardp (c_enabled c) InvalidClient)
       (thenp (exec (device_mark_used (dc_id dc)))
          (issue_for_device E jkt dc uid u c))))))))))))))"


section \<open>Device request and confirmation\<close>

text \<open>The second part of the device authorization request, for the client that the endpoint has
  authenticated: \<open>realm_named\<close> is the realm found for the parameter \<open>realm\<close> of a client without a
  realm (\<open>nil\<close>), \<open>scope_param\<close> the parameter \<open>scope\<close>, empty when it is missing.\<close>

record device_answer =
  da_device_code :: string
  da_user_code :: string
  da_verification_uri :: string
  da_verification_uri_complete :: string
  da_expires_in :: int
  da_interval :: int


definition last_segment :: "string \<Rightarrow> string" where
  "last_segment s = last (split_on (CHR ''/'') s)"

(*@ oidc-oidc/src/endpoints/device_authorization.rs 67-149 device_authorization_handler *)
definition device_request ::
  "env \<Rightarrow> string \<Rightarrow> string \<Rightarrow> client \<Rightarrow> uuid option \<Rightarrow> string \<Rightarrow> (db, oidc_error, device_answer) prog" where
  "device_request E issuer base_issuer c realm_named scope_param =
     (let realm = (if c_realm_id c = nil_uuid
                   then (case realm_named of None \<Rightarrow> nil_uuid | Some r \<Rightarrow> r) else c_realm_id c);
          uri = (if issuer = base_issuer then issuer @ ''/oidc/device''
                 else base_issuer @ ''/realms/'' @ last_segment issuer @ ''/login'');
          requested = (if scope_param = [] then [''openid''] else split_whitespace scope_param)
      in bindp (lift (generate_opaque_token E 0)) (\<lambda>code.
         bindp (lift (generate_user_code E 1)) (\<lambda>user_code.
         bindp (ask (resolve_names_for_client (e_collate E) (c_id c) requested (c_allowed_scopes c))) (\<lambda>scopes.
         thenp (guardp (''offline_access'' \<notin> set scopes)
            (InvalidScope ''offline_access requires an interactive authorization code flow''))
        (let complete = uri @ ''?user_code='' @ user_code
         in thenp (device_create
            \<lparr>dc_id = e_uuid E 0, dc_client_id = c_id c, dc_realm_id = realm,
             dc_device_code = sha2_256_hex E code, dc_user_code = user_code,
             dc_verification_uri = uri, dc_verification_uri_complete = Some complete,
             dc_expires_at = e_clock E 0 + secs 900, dc_interval = 5, dc_used = False,
             dc_authorized = False, dc_user_id = None, dc_scope = scopes, dc_created_at = e_clock E 0\<rparr>)
          (ret \<lparr>da_device_code = code, da_user_code = user_code, da_verification_uri = uri,
                da_verification_uri_complete = complete, da_expires_in = 900, da_interval = 5\<rparr>))))))"

text \<open>The confirmation: \<open>sid\<close> is the session identifier in the cookie, when its MAC is right, and
  \<open>parse_uuid\<close> the parser of the \<open>uuid\<close> crate.\<close>

(*@ oidc-oidc/src/endpoints/device_authorization.rs 389-446 device_authorization_confirm_handler *)
definition device_confirm ::
  "env \<Rightarrow> (string \<Rightarrow> uuid option) \<Rightarrow> string option \<Rightarrow> string \<Rightarrow> (db, oidc_error, unit) prog" where
  "device_confirm E parse_uuid sid typed_code =
     bindp (some_or sid (AuthenticationFailed ''No active session'')) (\<lambda>sid.
     bindp (some_or (parse_uuid sid) (Internal ''Invalid session ID'')) (\<lambda>i.
     bindp (query (session_by_id i)) (\<lambda>s.
     bindp (some_or s (AuthenticationFailed ''Session not found'')) (\<lambda>s.
     bindp (some_or (s_user_id s) (AuthenticationFailed ''No user in session'')) (\<lambda>uid.
     bindp (query (device_by_user_code (e_db_now E) (e_upper E (trim typed_code)))) (\<lambda>dc.
     bindp (some_or dc (NotFound ''Device code not found or expired'')) (\<lambda>dc.
     exec (device_mark_authorized (dc_id dc) uid))))))))"


section \<open>Facts\<close>

lemma device_mark_used_other [simp]:
  "d_sessions (device_mark_used i d) = d_sessions d"
  "user_by_id u (device_mark_used i d) = user_by_id u d"
  by (simp_all add: device_mark_used_def user_by_id_def)

lemma issue_for_device_ok:
  assumes "issue_for_device E jkt dc uid u c d = (Inr r, e)"
  shows "\<exists>access_token refresh_token. ''offline_access'' \<notin> set (dc_scope dc)
      \<and> tr_access_token r = access_token \<and> tr_refresh_token r = Some refresh_token
      \<and> tr_scope r = join_scopes (dc_scope dc) \<and> tr_token_type r = token_type_of jkt
      \<and> (let s = device_session E dc c uid (sid_or_default E 0) access_token refresh_token
         in (\<forall>x \<in> set (d_sessions d). s_id x \<noteq> e_uuid E 1)
            \<and> e = d\<lparr>d_sessions := d_sessions d @ [s\<lparr>s_created_at := e_db_now E\<rparr>]\<rparr>)"
  using assms unfolding issue_for_device_def Let_def
  by (fastforce simp: prog_ok device_session_def Let_def)

lemma device_flow_ok:
  "device_flow E code cid jkt d = (Inr r, e) \<longleftrightarrow>
     (\<exists>dc uid u c. device_by_hash (e_db_now E) (sha2_256_hex E code) d = Some dc
        \<and> e_uuid_text E (dc_client_id dc) = cid \<and> \<not> dc_expires_at dc < e_clock E 0
        \<and> \<not> dc_used dc \<and> dc_authorized dc \<and> dc_user_id dc = Some uid \<and> user_by_id uid d = Some u
        \<and> client_by_client_id cid d = Some c \<and> c_enabled c
        \<and> issue_for_device E jkt dc uid u c (device_mark_used (dc_id dc) d) = (Inr r, e))"
  by (auto simp: device_flow_def prog_ok)

text \<open>The session that the device flow inserts.\<close>

definition session_of_device :: "env \<Rightarrow> device_code \<Rightarrow> uuid \<Rightarrow> client \<Rightarrow> token_response \<Rightarrow> session \<Rightarrow> bool" where
  "session_of_device E dc uid c r s \<longleftrightarrow>
     s_id s = e_uuid E 1 \<and> s_user_id s = Some uid \<and> s_client_id s = c_id c \<and> s_realm_id s = dc_realm_id dc
     \<and> s_scope s = dc_scope dc
     \<and> s_access_token_hash s = sha2_256_hex E (tr_access_token r)
     \<and> s_refresh_token_hash s = map_option (sha2_256_hex E) (tr_refresh_token r)
     \<and> \<not> s_revoked s \<and> \<not> s_family_revoked s \<and> s_rotated_at s = None \<and> s_reused_at s = None
     \<and> s_token_family_id s = Some (e_uuid E 0) \<and> s_previous_session_id s = None
     \<and> s_expires_at s = e_clock E 4 + minutes 15
     \<and> s_refresh_expires_at s = Some (e_clock E 4 + days 7)
     \<and> \<not> s_offline_session s \<and> s_offline_max_expires_at s = None
     \<and> s_acr s = acr_bronze"

text \<open>C12 The device flow issues tokens only for a live, unused device code that a user has authorised,
  to an enabled client whose public identifier is the text of the UUID the code was issued to;
  the new session belongs to that user and carries the scopes of the code, never offline access.
  The code is marked used.  If no two rows carry the same device code hash (the codes are random, but
  the index of the schema is not unique), every later request with the code is answered with
  \<open>expired_token\<close>, whatever else is redeemed in between.\<close>

theorem device_flow_correct:
  assumes "device_flow E code cid jkt d = (Inr r, e)"
  shows "\<exists>dc uid c s. dc \<in> set (d_devices d) \<and> dc_device_code dc = sha2_256_hex E code
      \<and> \<not> dc_used dc \<and> e_db_now E < dc_expires_at dc \<and> dc_authorized dc \<and> dc_user_id dc = Some uid
      \<and> user_by_id uid d \<noteq> None \<and> client_by_client_id cid d = Some c \<and> c_enabled c
      \<and> e_uuid_text E (dc_client_id dc) = cid \<and> ''offline_access'' \<notin> set (dc_scope dc)
      \<and> session_of_device E dc uid c r s
      \<and> e = device_mark_used (dc_id dc) d\<lparr>d_sessions := d_sessions d @ [s]\<rparr>
      \<and> (devices_ok d \<longrightarrow> (\<forall>E' cid' jkt' is. sha2_256_hex E' = sha2_256_hex E \<longrightarrow>
            device_flow E' code cid' jkt' (fold device_mark_used is e)
              = (Inl ExpiredToken, fold device_mark_used is e)))"
proof -
  from assms obtain dc uid u c where
    found: "device_by_hash (e_db_now E) (sha2_256_hex E code) d = Some dc"
    and guards: "e_uuid_text E (dc_client_id dc) = cid" "dc_authorized dc" "dc_user_id dc = Some uid"
      "user_by_id uid d = Some u" "client_by_client_id cid d = Some c" "c_enabled c"
    and issue: "issue_for_device E jkt dc uid u c (device_mark_used (dc_id dc) d) = (Inr r, e)"
    unfolding device_flow_ok by blast
  have row: "dc \<in> set (d_devices d)" "dc_device_code dc = sha2_256_hex E code" "\<not> dc_used dc"
    "e_db_now E < dc_expires_at dc"
    using find_Some_set [OF found [unfolded device_by_hash_def]] by auto
  from issue_for_device_ok [OF issue] obtain at rt where
    tokens: "tr_access_token r = at" "tr_refresh_token r = Some rt" "''offline_access'' \<notin> set (dc_scope dc)"
    and e: "e = device_mark_used (dc_id dc) d\<lparr>d_sessions := d_sessions d
        @ [device_session E dc c uid (sid_or_default E 0) at rt\<lparr>s_created_at := e_db_now E\<rparr>]\<rparr>"
    by (auto simp: Let_def)
  let ?s = "device_session E dc c uid (sid_or_default E 0) at rt\<lparr>s_created_at := e_db_now E\<rparr>"
  have sess: "session_of_device E dc uid c r ?s"
    using tokens by (simp add: session_of_device_def device_session_def Let_def)
  have later: "device_flow E' code cid' jkt' (fold device_mark_used is e)
              = (Inl ExpiredToken, fold device_mark_used is e)"
    if "devices_ok d" "sha2_256_hex E' = sha2_256_hex E" for E' cid' jkt' "is"
  proof -
    have same: "d_devices (fold device_mark_used is x) = d_devices (fold device_mark_used is y)"
      if "d_devices x = d_devices y" for x y
      using that by (induction "is" arbitrary: x y) (simp_all add: device_mark_used_def)
    have "device_by_hash now h (fold device_mark_used is e)
        = device_by_hash now h (fold device_mark_used is (device_mark_used (dc_id dc) d))" for now h
      using same [of e "device_mark_used (dc_id dc) d"] by (simp add: device_by_hash_def e)
    then have "device_by_hash (e_db_now E') (sha2_256_hex E' code) (fold device_mark_used is e) = None"
      using devices.never_found_again [OF that(1) found] that(2) by simp
    then show ?thesis
      by (simp add: device_flow_def with_transaction_def prog_run)
  qed
  have "e = device_mark_used (dc_id dc) d\<lparr>d_sessions := d_sessions d @ [?s]\<rparr>"
    using e .
  with row guards tokens(3) sess later show ?thesis
    by (intro exI [of _ dc] exI [of _ uid] exI [of _ c] exI [of _ ?s]) simp
qed

text \<open>The answers of the device flow to a polling client, for every state of the code: a code
  that is unknown, used or expired is an expired token (never the \<open>access_denied\<close> or
  \<open>slow_down\<close> that the comment of the function promises), a client whose public identifier is not the
  UUID text in the code is an invalid client, a code no user has confirmed is pending; and a failed
  request changes nothing.\<close>

theorem device_flow_answers:
  "(\<forall>err e. device_flow E code cid jkt d = (Inl err, e) \<longrightarrow> e = d)
   \<and> (case device_by_hash (e_db_now E) (sha2_256_hex E code) d of
        None \<Rightarrow> device_flow E code cid jkt d = (Inl ExpiredToken, d)
      | Some dc \<Rightarrow>
          if e_uuid_text E (dc_client_id dc) \<noteq> cid then device_flow E code cid jkt d = (Inl InvalidClient, d)
          else if dc_expires_at dc < e_clock E 0 then device_flow E code cid jkt d = (Inl ExpiredToken, d)
          else (dc_authorized dc \<and> dc_user_id dc \<noteq> None)
                \<or> device_flow E code cid jkt d = (Inl AuthorizationPending, d))
   \<and> (device_by_hash (e_db_now E) (sha2_256_hex E code) d = None
        \<longleftrightarrow> (\<forall>dc \<in> set (d_devices d). dc_device_code dc = sha2_256_hex E code
               \<longrightarrow> dc_used dc \<or> dc_expires_at dc \<le> e_db_now E))"
proof (intro conjI)
  show "\<forall>err e. device_flow E code cid jkt d = (Inl err, e) \<longrightarrow> e = d"
    unfolding device_flow_def by (auto dest: with_transaction_err)
  have unused: "\<not> dc_used dc" if "device_by_hash (e_db_now E) (sha2_256_hex E code) d = Some dc" for dc
    using that by (auto simp: device_by_hash_def dest!: find_Some_set)
  show "case device_by_hash (e_db_now E) (sha2_256_hex E code) d of
        None \<Rightarrow> device_flow E code cid jkt d = (Inl ExpiredToken, d)
      | Some dc \<Rightarrow>
          if e_uuid_text E (dc_client_id dc) \<noteq> cid then device_flow E code cid jkt d = (Inl InvalidClient, d)
          else if dc_expires_at dc < e_clock E 0 then device_flow E code cid jkt d = (Inl ExpiredToken, d)
          else (dc_authorized dc \<and> dc_user_id dc \<noteq> None)
                \<or> device_flow E code cid jkt d = (Inl AuthorizationPending, d)"
    by (auto simp: device_flow_def with_transaction_def prog_run unused split: option.splits)
  show "device_by_hash (e_db_now E) (sha2_256_hex E code) d = None
        \<longleftrightarrow> (\<forall>dc \<in> set (d_devices d). dc_device_code dc = sha2_256_hex E code
               \<longrightarrow> dc_used dc \<or> dc_expires_at dc \<le> e_db_now E)"
    by (auto simp: device_by_hash_def find_None_iff not_less)
qed

lemma device_create_ok:
  "device_create dc d = (Inr u, e) \<longleftrightarrow>
     (\<forall>x \<in> set (d_devices d). dc_id x \<noteq> dc_id dc) \<and> e = d\<lparr>d_devices := d_devices d @ [dc]\<rparr>"
  by (auto simp: device_create_def prog_ok)

lemma device_request_ok:
  assumes "device_request E iss base c realm scope d = (Inr a, e)"
  shows "\<exists>dc. e = d\<lparr>d_devices := d_devices d @ [dc]\<rparr> \<and> (\<forall>x \<in> set (d_devices d). dc_id x \<noteq> dc_id dc)
    \<and> dc_device_code dc = sha2_256_hex E (da_device_code a) \<and> dc_user_code dc = da_user_code a
    \<and> dc_client_id dc = c_id c \<and> \<not> dc_used dc \<and> \<not> dc_authorized dc
    \<and> dc_expires_at dc = e_clock E 0 + secs 900 \<and> ''offline_access'' \<notin> set (dc_scope dc)
    \<and> resolve_names_for_client (e_collate E) (c_id c)
        (if scope = [] then [''openid''] else split_whitespace scope) (c_allowed_scopes c) d = Inr (dc_scope dc)"
  using assms unfolding device_request_def Let_def
  by (auto simp: prog_ok device_create_ok)

lemma device_confirm_ok:
  "device_confirm E parse sid typed d = (Inr u, e) \<longleftrightarrow>
     (\<exists>i k s uid dc. sid = Some k \<and> parse k = Some i \<and> session_by_id i d = Some s \<and> s_user_id s = Some uid
        \<and> device_by_user_code (e_db_now E) (e_upper E (trim typed)) d = Some dc
        \<and> e = device_mark_authorized (dc_id dc) uid d)"
  by (auto simp: device_confirm_def prog_ok)

text \<open>A device code goes from the request through the confirmation to the token: after the request
  every poll of the client in the lifetime is answered with \<open>authorization_pending\<close> and changes
  nothing, until a user with a session types the user code; then the code is authorised for exactly
  that user, with the scopes the client was allowed at the request.  The device code and the user
  code must be new to the table.\<close>

theorem device_grant_lifecycle:
  assumes "device_request E iss base c realm scope d = (Inr a, d1)"
    and "\<forall>x \<in> set (d_devices d). dc_device_code x \<noteq> sha2_256_hex E (da_device_code a)
           \<and> dc_user_code x \<noteq> da_user_code a"
    and "sha2_256_hex E' = sha2_256_hex E" and "e_db_now E' < e_clock E 0 + secs 900"
    and "e_clock E' 0 \<le> e_clock E 0 + secs 900"
  shows "device_flow E' (da_device_code a) (e_uuid_text E' (c_id c)) jkt d1 = (Inl AuthorizationPending, d1)
    \<and> (\<forall>E'' parse sid typed d2. e_upper E'' (trim typed) = da_user_code a
          \<longrightarrow> device_confirm E'' parse sid typed d1 = (Inr (), d2)
          \<longrightarrow> (\<exists>k i s dc. sid = Some k \<and> parse k = Some i \<and> session_by_id i d1 = Some s
                \<and> device_by_hash (e_db_now E') (sha2_256_hex E' (da_device_code a)) d2 = Some dc
                \<and> dc_authorized dc \<and> dc_user_id dc = s_user_id s
                \<and> resolve_names_for_client (e_collate E) (c_id c)
                     (if scope = [] then [''openid''] else split_whitespace scope)
                     (c_allowed_scopes c) d = Inr (dc_scope dc)))"
proof -
  from device_request_ok [OF assms(1)] obtain dc where
    d1: "d1 = d\<lparr>d_devices := d_devices d @ [dc]\<rparr>" and new: "\<forall>x \<in> set (d_devices d). dc_id x \<noteq> dc_id dc"
    and dc: "dc_device_code dc = sha2_256_hex E (da_device_code a)" "dc_user_code dc = da_user_code a"
      "dc_client_id dc = c_id c" "\<not> dc_used dc" "\<not> dc_authorized dc" "dc_expires_at dc = e_clock E 0 + secs 900"
    and scope: "resolve_names_for_client (e_collate E) (c_id c)
        (if scope = [] then [''openid''] else split_whitespace scope) (c_allowed_scopes c) d = Inr (dc_scope dc)"
    by blast
  have found: "device_by_hash (e_db_now E') (sha2_256_hex E' (da_device_code a)) d1 = Some dc"
    using dc assms(2-4) by (simp add: device_by_hash_def d1 find_append_new)
  have pending: "device_flow E' (da_device_code a) (e_uuid_text E' (c_id c)) jkt d1 = (Inl AuthorizationPending, d1)"
    using dc assms(5) by (simp add: device_flow_def with_transaction_def prog_run found)
  have confirmed: "\<exists>k i s dc. sid = Some k \<and> parse k = Some i \<and> session_by_id i d1 = Some s
                \<and> device_by_hash (e_db_now E') (sha2_256_hex E' (da_device_code a)) d2 = Some dc
                \<and> dc_authorized dc \<and> dc_user_id dc = s_user_id s
                \<and> resolve_names_for_client (e_collate E) (c_id c)
                     (if scope = [] then [''openid''] else split_whitespace scope)
                     (c_allowed_scopes c) d = Inr (dc_scope dc)"
    if code: "e_upper E'' (trim typed) = da_user_code a"
      and run: "device_confirm E'' parse sid typed d1 = (Inr (), d2)" for E'' parse sid typed d2
  proof -
    from run obtain i k s uid x where
      s: "sid = Some k" "parse k = Some i" "session_by_id i d1 = Some s" "s_user_id s = Some uid"
      and x: "device_by_user_code (e_db_now E'') (da_user_code a) d1 = Some x"
      and d2: "d2 = device_mark_authorized (dc_id x) uid d1"
      unfolding device_confirm_ok code by blast
    have "x = dc"
      using x assms(2) by (simp add: device_by_user_code_def d1 find_append_new split: if_splits)
    then have "device_by_hash (e_db_now E') (sha2_256_hex E' (da_device_code a)) d2
        = Some (dc\<lparr>dc_authorized := True, dc_user_id := Some uid\<rparr>)"
      using found dc by (simp add: d2 device_by_hash_def device_mark_authorized_def find_update_where)
    with s scope show ?thesis
      by (intro exI [of _ k] exI [of _ i] exI [of _ s]) simp
  qed
  show ?thesis
    using pending confirmed by blast
qed

text \<open>The confirmation asks for a session, but not for one that is alive: a revoked and expired
  session is as good as any other, and its user is the one the device acts for afterwards.\<close>

theorem device_confirm_accepts_dead_session:
  assumes "session_by_id i d = Some s" and "s_user_id s = Some uid" and "parse k = Some i"
    and "device_by_user_code (e_db_now E) (e_upper E (trim typed)) d = Some dc" and "\<not> dc_used dc"
  shows "device_confirm E parse (Some k) typed (session_revoke i d)
       = (Inr (), device_mark_authorized (dc_id dc) uid (session_revoke i d))
    \<and> revoked_in (session_revoke i d) i
    \<and> dc\<lparr>dc_authorized := True, dc_user_id := Some uid\<rparr>
        \<in> set (d_devices (device_mark_authorized (dc_id dc) uid (session_revoke i d)))"
proof (intro conjI)
  let ?d = "session_revoke i d"
  have devs: "d_devices ?d = d_devices d"
    by (simp add: session_revoke_def update_sessions_def)
  have dc: "dc \<in> set (d_devices d)"
    using assms(4) by (auto simp: device_by_user_code_def dest!: find_Some_set)
  have "session_by_id i ?d = Some (s\<lparr>s_revoked := True\<rparr>)"
    using assms(1) find_Some_set [OF assms(1) [unfolded session_by_id_def]]
    by (simp add: session_by_id_def session_revoke_def update_sessions_def find_update_where)
  moreover have "device_by_user_code (e_db_now E) (e_upper E (trim typed)) ?d = Some dc"
    using assms(4) by (simp add: device_by_user_code_def devs)
  ultimately show "device_confirm E parse (Some k) typed ?d = (Inr (), device_mark_authorized (dc_id dc) uid ?d)"
    unfolding device_confirm_ok using assms(2, 3) by auto
  have "s_revoked x" if x: "x \<in> set (d_sessions ?d)" and i: "s_id x = i" for x
  proof -
    have rows: "d_sessions ?d = map (\<lambda>y. if s_id y = i then s_revoked_update (\<lambda>_. True) y else y) (d_sessions d)"
      by (simp add: session_revoke_def update_sessions_def update_where_def)
    from x [unfolded rows set_map] obtain y where "x = (if s_id y = i then s_revoked_update (\<lambda>_. True) y else y)"
      by (rule imageE)
    with i show ?thesis
      by (cases "s_id y = i") simp_all
  qed
  then show "revoked_in ?d i"
    by (simp add: revoked_in_def)
  show "dc\<lparr>dc_authorized := True, dc_user_id := Some uid\<rparr> \<in> set (d_devices (device_mark_authorized (dc_id dc) uid ?d))"
    using dc assms(5) by (force simp: device_mark_authorized_def set_update_where devs)
qed


section \<open>A run\<close>

definition sample_device :: device_code where
  "sample_device =
     \<lparr>dc_id = 21, dc_client_id = 5, dc_realm_id = 3, dc_device_code = ''dev'', dc_user_code = ''BCDF-GHJK'',
      dc_verification_uri = ''https://op/oidc/device'', dc_verification_uri_complete = None,
      dc_expires_at = minutes 15, dc_interval = 5, dc_used = False, dc_authorized = True,
      dc_user_id = Some 7, dc_scope = [''openid''], dc_created_at = 0\<rparr>"

definition device_db :: db where
  "device_db = empty_db\<lparr>d_clients := [sample_client\<lparr>c_client_id := ''uuid''\<rparr>], d_users := [sample_user],
     d_devices := [sample_device], d_sessions := [sample_session]\<rparr>"

lemma issue_for_device_total:
  assumes "''offline_access'' \<notin> set (dc_scope dc)"
    and "resolve_organization_claim E (u_id u) (dc_scope dc) d = Inr org"
    and "e_services E (dc_realm_id dc) = Inr svc" and "issuer_works E svc"
    and "c_id_token_alg c = None" and "\<forall>s \<in> set (d_sessions d). s_id s \<noteq> e_uuid E 1"
  shows "\<exists>r e. issue_for_device E jkt dc uid u c d = (Inr r, e)"
proof -
  let ?roles = "resolve_role_claims (e_collate E) (u_id u) d"
  let ?mapped = "resolve_mapped_claims E (c_id c) (Some u) (dc_scope dc) d"
  obtain cl at where access: "issue_access_token E 1 svc (timestamp (e_clock E 1)) (subject_for E c uid)
      (c_client_id c) (dc_scope dc) jkt None None (user_access_extra ?mapped ?roles org (dc_scope dc)) = Inr (cl, at)"
    using issuer_works_tokens(1) [OF assms(4)] by blast
  obtain idt where idt: "issue_id_token E svc (timestamp (e_clock E 3)) (subject_for E c uid) (c_client_id c)
      (device_id_extra E u at (sid_or_default E 0) ?mapped ?roles org) = Inr idt"
    using issuer_works_tokens(2) [OF assms(4)] by blast
  obtain rt where rt: "generate_opaque_token E 2 = Inr rt"
    using issuer_works_tokens(3) [OF assms(4)] by blast
  obtain e where create: "session_create (e_db_now E)
      (device_session E dc c uid (sid_or_default E 0) at rt) d = (Inr (), e)"
    using assms(6) by (simp add: session_create_ok device_session_def Let_def)
  show ?thesis
    unfolding issue_for_device_def maybe_encrypt_id_token_def prog_ok Let_def
    using assms access idt rt create by (auto simp: prog_ok split del: if_split)
qed

lemma sample_device_run:
  "\<exists>r e. device_flow sample_env ''dev'' ''uuid'' None device_db = (Inr r, e)"
proof -
  let ?c = "sample_client\<lparr>c_client_id := ''uuid''\<rparr>"
  have "\<exists>r e. issue_for_device sample_env None sample_device 7 sample_user ?c
      (device_mark_used (dc_id sample_device) device_db) = (Inr r, e)"
    by (rule issue_for_device_total [OF _ _ _ sample_issuer, where org = None])
      (simp_all add: sample_device_def no_org_scope sample_env_def sample_client_def device_db_def
        sample_session_def)
  then show ?thesis
    unfolding device_flow_ok
    by (simp add: device_by_hash_def device_db_def sample_device_def sample_defs sha2_256_hex_def
        durations user_by_id_def client_by_client_id_def)
qed

lemma device_flow_correct_witness:
  "\<exists>r e. device_flow sample_env ''dev'' ''uuid'' None device_db = (Inr r, e) \<and> length (d_sessions e) = 2
     \<and> device_flow sample_env ''dev'' ''uuid'' None e = (Inl ExpiredToken, e)"
proof -
  obtain r e where run: "device_flow sample_env ''dev'' ''uuid'' None device_db = (Inr r, e)"
    using sample_device_run by blast
  have ok: "devices_ok device_db"
    by (simp add: devices_ok_def device_db_def)
  note correct = device_flow_correct [OF run]
  have later: "\<forall>E' cid' jkt' is. sha2_256_hex E' = sha2_256_hex sample_env \<longrightarrow>
            device_flow E' ''dev'' cid' jkt' (fold device_mark_used is e)
              = (Inl ExpiredToken, fold device_mark_used is e)"
    using correct ok by blast
  have "length (d_sessions e) = 2"
    using correct by (elim exE conjE) (simp add: device_db_def)
  moreover have "device_flow sample_env ''dev'' ''uuid'' None e = (Inl ExpiredToken, e)"
    using later [rule_format, of sample_env "''uuid''" None "[]"] by simp
  ultimately show ?thesis
    using run by blast
qed

lemma device_flow_answers_witness:
  "device_flow sample_env ''x'' ''uuid'' None device_db = (Inl ExpiredToken, device_db)"
  using device_flow_answers [of sample_env "''x''" "''uuid''" None device_db]
  by (simp add: device_by_hash_def device_db_def sample_device_def sample_defs sha2_256_hex_def)

lemma device_confirm_accepts_dead_session_witness:
  "fst (device_confirm sample_env (\<lambda>_. Some 1) (Some ''1'') ''BCDF-GHJK'' (session_revoke 1 device_db)) = Inr ()"
proof -
  have "trim ''BCDF-GHJK'' = ''BCDF-GHJK''"
    by (simp add: trim_def trim_end_list_def is_whitespace_def whitespace_def is_cont_def byte_def)
  then show ?thesis
    using device_confirm_accepts_dead_session [of 1 device_db sample_session 7 "\<lambda>_. Some 1" "''1''" sample_env
        "''BCDF-GHJK''" sample_device]
    by (simp add: session_by_id_def device_by_user_code_def device_db_def sample_device_def
        sample_session_def sample_defs durations)
qed

lemma device_grant_lifecycle_witness:
  "\<exists>a e. device_request sample_env ''https://op'' ''https://op'' sample_client None [] empty_db = (Inr a, e)
     \<and> device_flow sample_env (da_device_code a) ''uuid'' None e = (Inl AuthorizationPending, e)"
proof -
  have names: "resolve_names_for_client (e_collate sample_env) (c_id sample_client) [''openid'']
      (c_allowed_scopes sample_client) empty_db = Inr [''openid'']"
    by (simp add: resolve_names_Inr allowed_names_def crate_scope_allowed_def scopes_of_client_def
        sample_client_def empty_db_def)
  have "\<exists>a e. device_request sample_env ''https://op'' ''https://op'' sample_client None [] empty_db = (Inr a, e)"
    using names unfolding device_request_def Let_def
    by (simp add: prog_ok device_create_ok generate_opaque_token_def generate_user_code_def
        sample_env_def empty_db_def)
  then obtain a e where run:
    "device_request sample_env ''https://op'' ''https://op'' sample_client None [] empty_db = (Inr a, e)"
    by blast
  have "e_uuid_text sample_env (c_id sample_client) = ''uuid''"
    by (simp add: sample_env_def)
  with device_grant_lifecycle [OF run, of sample_env None] run show ?thesis
    by (auto simp: empty_db_def sample_env_def secs_def)
qed

end
