(* ===== verification/Workflows.thy ===== *)
theory Workflows
  imports Sessions Env
begin

text \<open>The workflow engine (\<open>oidc-repository/src/repositories/workflow_repo.rs\<close>,
  \<open>oidc-core/src/models/workflow.rs\<close>) and the audit trail that drives it
  (\<open>audit_event_repo.rs\<close>: every event that is recorded is dispatched to the workflows of its realm).
  The engine reads the clock and draws identifiers inside its loops, so its programs run on the
  database together with the number of readings made so far.\<close>

type_synonym wf = "db \<times> nat"
type_synonym 'a wf_prog = "(wf, oidc_error, 'a) prog"

definition fresh :: "env \<Rightarrow> uuid wf_prog" where
  "fresh E = (\<lambda>(d, k). (Inr (e_uuid E k), (d, Suc k)))"

definition tick :: "env \<Rightarrow> instant wf_prog" where
  "tick E = (\<lambda>(d, k). (Inr (e_clock E k), (d, Suc k)))"

definition on_db :: "(db \<Rightarrow> db) \<Rightarrow> unit wf_prog" where
  "on_db f = exec (\<lambda>(d, k). (f d, k))"

definition from_db :: "(db \<Rightarrow> 'a) \<Rightarrow> 'a wf_prog" where
  "from_db q = query (\<lambda>(d, k). q d)"

text \<open>A program on the database and the counter, started with the counter at \<open>k\<close>, as a program on the
  database alone.\<close>

definition counted :: "nat \<Rightarrow> 'a wf_prog \<Rightarrow> (db, oidc_error, 'a) prog" where
  "counted k m = (\<lambda>d. case m (d, k) of (r, (e, _)) \<Rightarrow> (r, e))"


section \<open>Names\<close>

(*@ oidc-core/src/models/required_action.rs 23-31 RequiredActionKind::as_str *)
fun required_action_text :: "required_action \<Rightarrow> string" where
  "required_action_text UpdatePassword = ''update_password''"
| "required_action_text VerifyEmail = ''verify_email''"
| "required_action_text UpdateProfile = ''update_profile''"
| "required_action_text ConfigureMfa = ''configure_mfa''"
| "required_action_text AcceptTerms = ''accept_terms''"

definition all_required_actions :: "required_action list" where
  "all_required_actions = [UpdatePassword, VerifyEmail, UpdateProfile, ConfigureMfa, AcceptTerms]"

(*@ oidc-core/src/models/required_action.rs 34-42 RequiredActionKind::from_str *)
definition required_action_of :: "string \<Rightarrow> required_action option" where
  "required_action_of s = List.find (\<lambda>a. required_action_text a = s) all_required_actions"

(*@ oidc-core/src/models/workflow.rs 147-156 WorkflowExecutionStatus::as_str *)
fun status_text :: "execution_status \<Rightarrow> string" where
  "status_text Queued = ''queued''"
| "status_text Waiting = ''waiting''"
| "status_text Running = ''running''"
| "status_text Completed = ''completed''"
| "status_text Failed = ''failed''"
| "status_text Cancelled = ''cancelled''"

(*@ oidc-core/src/models/workflow.rs 159-172 WorkflowExecutionStatus::from_str *)
definition status_of :: "string \<Rightarrow> execution_status option" where
  "status_of s =
     (if s = ''queued'' then Some Queued else if s = ''waiting'' then Some Waiting
      else if s = ''running'' then Some Running else if s = ''completed'' then Some Completed
      else if s = ''failed'' then Some Failed else if s = ''cancelled'' then Some Cancelled else None)"

definition tagged :: "string \<Rightarrow> (string \<times> json) list \<Rightarrow> json" where
  "tagged name kvs = json_object ((''type'', JStr name) # kvs)"

text \<open>An action as the JSON that the derived serialisation gives.\<close>

fun action_json :: "env \<Rightarrow> workflow_action \<Rightarrow> json" where
  "action_json E DisableUser = tagged ''disable_user'' []"
| "action_json E EnableUser = tagged ''enable_user'' []"
| "action_json E DeleteUser = tagged ''delete_user'' []"
| "action_json E (AddRequiredAction a) =
     tagged ''add_required_action'' [(''action'', JStr (required_action_text a))]"
| "action_json E (RemoveRequiredAction a) =
     tagged ''remove_required_action'' [(''action'', JStr (required_action_text a))]"
| "action_json E RevokeSessions = tagged ''revoke_sessions'' []"
| "action_json E (SetUserAttribute n v) =
     tagged ''set_user_attribute'' [(''name'', JStr n), (''value'', JStr v)]"
| "action_json E (RemoveUserAttribute n) = tagged ''remove_user_attribute'' [(''name'', JStr n)]"
| "action_json E (GrantRole i) = tagged ''grant_role'' [(''role_id'', JStr (e_uuid_text E i))]"
| "action_json E (RevokeRole i) = tagged ''revoke_role'' [(''role_id'', JStr (e_uuid_text E i))]"
| "action_json E (JoinGroup i) = tagged ''join_group'' [(''group_id'', JStr (e_uuid_text E i))]"
| "action_json E (LeaveGroup i) = tagged ''leave_group'' [(''group_id'', JStr (e_uuid_text E i))]"


section \<open>Validation\<close>

definition ascii_event_char :: "char \<Rightarrow> bool" where
  "ascii_event_char c \<longleftrightarrow> ascii_alnum c \<or> c \<in> set ''._-*''"

(*@ oidc-core/src/models/workflow.rs 108-130 loop over the steps of Workflow::validate *)
fun validate_steps :: "workflow_step list \<Rightarrow> unit result" where
  "validate_steps [] = Inr ()"
| "validate_steps (st # rest) =
     bindr (ensure (0 \<le> ws_after_seconds st \<and> ws_after_seconds st \<le> 31536000)
              (InvalidInput ''step delay must be between zero and one year'')) (\<lambda>_.
     bindr (ensure (\<not> (ws_action st = DeleteUser \<and> rest \<noteq> []))
              (InvalidInput ''delete user must be the final workflow action'')) (\<lambda>_.
     bindr (ensure (case ws_action st of
                SetUserAttribute n _ \<Rightarrow> \<not> (trim n = [] \<or> 120 < length n)
              | RemoveUserAttribute n \<Rightarrow> \<not> (trim n = [] \<or> 120 < length n)
              | _ \<Rightarrow> True) (InvalidInput ''attribute names must contain 1 to 120 characters'')) (\<lambda>_.
     validate_steps rest)))"

(*@ oidc-core/src/models/workflow.rs 72-132 Workflow::validate *)
definition validate_workflow :: "workflow \<Rightarrow> unit result" where
  "validate_workflow w =
     bindr (ensure (\<not> (trim (w_name w) = [] \<or> 120 < length (utf8_chars (w_name w))))
              (InvalidInput ''workflow name must contain 1 to 120 characters'')) (\<lambda>_.
     bindr (ensure (\<not> (w_steps w = [] \<or> 50 < length (w_steps w)))
              (InvalidInput ''a workflow must contain 1 to 50 steps'')) (\<lambda>_.
     bindr (ensure (\<not> (50 < length (w_trigger_events w)
                 \<or> (\<exists>v \<in> set (w_trigger_events w). v = [] \<or> 100 < length v
                       \<or> \<not> (\<forall>c \<in> set v. ascii_event_char c))))
              (InvalidInput ''event names must be valid and no longer than 100 characters'')) (\<lambda>_.
     bindr (case w_schedule w of None \<Rightarrow> Inr ()
            | Some s \<Rightarrow>
                bindr (ensure (60 \<le> wsch_every_seconds s \<and> wsch_every_seconds s \<le> 31536000)
                   (InvalidInput ''schedule interval must be between 60 seconds and one year'')) (\<lambda>_.
                ensure (1 \<le> wsch_batch_size s \<and> wsch_batch_size s \<le> 1000)
                   (InvalidInput ''schedule batch size must be between 1 and 1000''))) (\<lambda>_.
     validate_steps (w_steps w)))))"


section \<open>Events\<close>

(*@ oidc-repository/src/repositories/workflow_repo.rs 503-509 WorkflowRepo::event_matches *)
definition event_matches :: "string \<Rightarrow> string \<Rightarrow> bool" where
  "event_matches pattern event \<longleftrightarrow>
     pattern = ''*'' \<or> pattern = event
     \<or> (pattern \<noteq> [] \<and> last pattern = CHR ''*'' \<and> starts_with event (butlast pattern))"

(*@ oidc-repository/src/repositories/workflow_repo.rs 490-502 WorkflowRepo::event_user *)
definition event_user :: "audit_event \<Rightarrow> uuid option" where
  "event_user ev =
     (if (case ae_target_type ev of None \<Rightarrow> False | Some t \<Rightarrow> to_ascii_lowercase t = ''user'')
      then ae_target_id ev
      else if starts_with (ae_event_type ev) ''user.'' \<or> starts_with (ae_event_type ev) ''LOGIN_''
      then ae_actor_id ev
      else None)"

(*@ oidc-repository/src/repositories/workflow_repo.rs 510-521 WorkflowRepo::lifecycle_audit *)
definition lifecycle_audit :: "env \<Rightarrow> uuid \<Rightarrow> string \<Rightarrow> uuid \<Rightarrow> uuid \<Rightarrow> json \<Rightarrow> unit wf_prog" where
  "lifecycle_audit E realm event execution user details =
     bindp (fresh E) (\<lambda>i.
       on_db (d_audit_update (\<lambda>rows. rows @
         [\<lparr>ae_id = i, ae_realm_id = Some realm, ae_event_type = event, ae_actor_id = None,
           ae_actor_type = SystemActor, ae_target_type = Some ''user'', ae_target_id = Some user,
           ae_details = json_object [(''execution_id'', JStr (e_uuid_text E execution)), (''details'', details)],
           ae_ip_address = None, ae_user_agent = None, ae_created_at = e_db_now E\<rparr>])))"


section \<open>Actions and conditions\<close>

definition update_user :: "uuid \<Rightarrow> (user \<Rightarrow> user) \<Rightarrow> db \<Rightarrow> db" where
  "update_user uid f = d_users_update (update_where (\<lambda>u. u_id u = uid \<and> u_deleted_at u = None) f)"

definition insert_once :: "'a \<Rightarrow> 'a list \<Rightarrow> 'a list" where
  "insert_once x xs = (if x \<in> set xs then xs else xs @ [x])"

definition without :: "'a \<Rightarrow> 'a list \<Rightarrow> 'a list" where
  "without x xs = filter (\<lambda>y. y \<noteq> x) xs"

text \<open>What each action writes.  The attribute actions are the only ones that the database can
  refuse: nothing can be removed from attributes that are a JSON scalar.\<close>

definition set_attribute :: "string \<Rightarrow> string \<Rightarrow> json \<Rightarrow> json" where
  "set_attribute n v attrs = pg_concat attrs (JObj [(n, JStr v)])"

(*@ oidc-repository/src/repositories/workflow_repo.rs 380-444 WorkflowRepo::execute_action *)
fun perform :: "instant \<Rightarrow> uuid \<Rightarrow> workflow_action \<Rightarrow> db \<Rightarrow> db" where
  "perform now uid DisableUser = update_user uid (\<lambda>u. u\<lparr>u_enabled := False, u_updated_at := now\<rparr>)"
| "perform now uid EnableUser = update_user uid (\<lambda>u. u\<lparr>u_enabled := True, u_updated_at := now\<rparr>)"
| "perform now uid DeleteUser =
     update_user uid (\<lambda>u. u\<lparr>u_deleted_at := Some now, u_enabled := False, u_updated_at := now\<rparr>)"
| "perform now uid (AddRequiredAction a) = d_required_actions_update (insert_once (uid, a))"
| "perform now uid (RemoveRequiredAction a) = d_required_actions_update (without (uid, a))"
| "perform now uid RevokeSessions =
     update_sessions (\<lambda>s. s_user_id s = Some uid \<and> \<not> s_revoked s) (s_revoked_update (\<lambda>_. True))"
| "perform now uid (SetUserAttribute n v) =
     update_user uid (\<lambda>u. u\<lparr>u_attributes := set_attribute n v (u_attributes u), u_updated_at := now\<rparr>)"
| "perform now uid (RemoveUserAttribute n) =
     update_user uid (\<lambda>u. u\<lparr>u_attributes := the (pg_minus (u_attributes u) n), u_updated_at := now\<rparr>)"
| "perform now uid (GrantRole rid) = (\<lambda>d.
     if \<exists>r \<in> set (d_roles d). \<exists>u \<in> set (d_users d).
          ro_id r = rid \<and> u_id u = uid \<and> ro_realm_id r = u_realm_id u \<and> ro_deleted_at r = None
     then d_user_roles_update (insert_once (uid, rid)) d else d)"
| "perform now uid (RevokeRole rid) = d_user_roles_update (without (uid, rid))"
| "perform now uid (JoinGroup gid) = (\<lambda>d.
     if \<exists>g \<in> set (d_groups d). \<exists>u \<in> set (d_users d).
          g_id g = gid \<and> u_id u = uid \<and> g_realm_id g = u_realm_id u \<and> g_deleted_at g = None
     then d_user_groups_update (insert_once (uid, gid)) d else d)"
| "perform now uid (LeaveGroup gid) = d_user_groups_update (without (uid, gid))"

fun can_perform :: "uuid \<Rightarrow> workflow_action \<Rightarrow> db \<Rightarrow> bool" where
  "can_perform uid (RemoveUserAttribute n) d \<longleftrightarrow>
     (\<forall>u \<in> set (d_users d). u_id u = uid \<and> u_deleted_at u = None \<longrightarrow> pg_minus (u_attributes u) n \<noteq> None)"
| "can_perform uid _ d \<longleftrightarrow> True"

definition execute_action :: "env \<Rightarrow> uuid \<Rightarrow> workflow_action \<Rightarrow> unit wf_prog" where
  "execute_action E uid a =
     bindp (from_db (can_perform uid a)) (\<lambda>ok.
     thenp (guardp ok (Internal ''cannot delete from scalar''))
       (on_db (perform (e_db_now E) uid a)))"

definition last_login :: "uuid \<Rightarrow> db \<Rightarrow> instant option" where
  "last_login uid d =
     (case map ae_created_at (filter (\<lambda>a. ae_actor_id a = Some uid \<and> ae_event_type a = ''user.authenticated'')
              (d_audit d)) of
        [] \<Rightarrow> None | t # ts \<Rightarrow> Some (fold max ts t))"

(*@ oidc-repository/src/repositories/workflow_repo.rs 446-489 WorkflowRepo::conditions_match *)
fun condition_holds :: "instant \<Rightarrow> db \<Rightarrow> user \<Rightarrow> workflow_condition \<Rightarrow> bool" where
  "condition_holds now d u (UserEnabled b) \<longleftrightarrow> u_enabled u = b"
| "condition_holds now d u (EmailVerified b) \<longleftrightarrow> u_email_verified u = b"
| "condition_holds now d u (UserAttributeEquals n v) \<longleftrightarrow>
     Option.bind (jget (u_attributes u) n) as_str_json = Some v"
| "condition_holds now d u (HasRole i) \<longleftrightarrow> (u_id u, i) \<in> set (d_user_roles d)"
| "condition_holds now d u (InGroup i) \<longleftrightarrow> (u_id u, i) \<in> set (d_user_groups d)"
| "condition_holds now d u (InactiveForDays n) \<longleftrightarrow>
     (case last_login (u_id u) d of None \<Rightarrow> u_created_at u | Some t \<Rightarrow> t) < now - days n"


section \<open>Executions\<close>

definition active :: "execution_status \<Rightarrow> bool" where
  "active s \<longleftrightarrow> s \<in> {Queued, Waiting, Running}"

definition same_slot :: "execution \<Rightarrow> execution \<Rightarrow> bool" where
  "same_slot x y \<longleftrightarrow> x_workflow_id x = x_workflow_id y \<and> x_user_id x = x_user_id y"

text \<open>The partial unique index \<open>workflow_executions_active_uq\<close>: at most one active execution for a
  workflow and a user.  An update that breaks it fails.\<close>

definition one_active :: "execution list \<Rightarrow> bool" where
  "one_active xs \<longleftrightarrow> distinct (map (\<lambda>x. (x_workflow_id x, x_user_id x)) (filter (\<lambda>x. active (x_status x)) xs))"

definition update_executions :: "(execution \<Rightarrow> bool) \<Rightarrow> (execution \<Rightarrow> execution) \<Rightarrow> nat wf_prog" where
  "update_executions P f =
     bindp (from_db d_executions) (\<lambda>xs.
     thenp (guardp (one_active (update_where P f xs)) (Conflict ''workflow_executions_active_uq''))
    (thenp (on_db (d_executions_update (\<lambda>_. update_where P f xs)))
       (ret (length (filter P xs)))))"

definition workflow_by_id :: "uuid \<Rightarrow> db \<Rightarrow> workflow option" where
  "workflow_by_id i d = List.find (\<lambda>w. w_id w = i \<and> w_deleted_at w = None) (d_workflows d)"

(*@ oidc-repository/src/repositories/workflow_repo.rs 89-96 WorkflowRepo::list *)
definition workflows_of_realm :: "env \<Rightarrow> uuid \<Rightarrow> db \<Rightarrow> workflow list" where
  "workflows_of_realm E realm d =
     sort_by (\<lambda>v w. e_collate E (e_lower E (w_name v)) (e_lower E (w_name w)))
       (filter (\<lambda>w. w_realm_id w = realm \<and> w_deleted_at w = None) (d_workflows d))"

definition execution_by_id :: "uuid \<Rightarrow> db \<Rightarrow> execution option" where
  "execution_by_id i d = List.find (\<lambda>x. x_id x = i) (d_executions d)"

(*@ oidc-repository/src/repositories/workflow_repo.rs 147-181 WorkflowRepo::activate *)
definition activate :: "env \<Rightarrow> workflow \<Rightarrow> uuid \<Rightarrow> string \<Rightarrow> uuid option wf_prog" where
  "activate E w uid trigger =
     bindp (from_db (\<lambda>d. List.find (\<lambda>u. u_id u = uid \<and> u_realm_id u = w_realm_id w
              \<and> u_deleted_at u = None) (d_users d))) (\<lambda>u.
     bindp (some_or u (NotFound ''user not found'')) (\<lambda>u.
     bindp (from_db (\<lambda>d. \<forall>c \<in> set (w_conditions w). condition_holds (e_db_now E) d u c)) (\<lambda>hold.
     if \<not> hold then ret None
     else bindp (fresh E) (\<lambda>i.
          bindp (tick E) (\<lambda>now.
          let delay = (case w_steps w of [] \<Rightarrow> 0 | st # _ \<Rightarrow> ws_after_seconds st);
              x = \<lparr>x_id = i, x_workflow_id = w_id w, x_realm_id = w_realm_id w, x_user_id = uid,
                   x_trigger_event = trigger, x_status = (if 0 < delay then Waiting else Queued),
                   x_current_step = 0, x_attempts = 0, x_next_run_at = now + secs delay,
                   x_last_error = None, x_started_at = None, x_completed_at = None,
                   x_created_at = now, x_updated_at = now\<rparr>
          in bindp (from_db (\<lambda>d. \<exists>y \<in> set (d_executions d). x_id y = i
                       \<or> (active (x_status y) \<and> same_slot y x))) (\<lambda>conflict.
             if conflict then ret None
             else thenp (on_db (d_executions_update (\<lambda>xs. xs @ [x])))
                 (thenp (lifecycle_audit E (w_realm_id w) ''workflow.activated'' i uid
                      (json_object [(''workflow_id'', JStr (e_uuid_text E (w_id w))), (''trigger'', JStr trigger)]))
                   (ret (Some i)))))))))"

definition step_details :: "env \<Rightarrow> workflow \<Rightarrow> int \<Rightarrow> string \<times> json \<Rightarrow> json" where
  "step_details E w i extra =
     json_object [(''workflow_id'', JStr (e_uuid_text E (w_id w))), (''step'', JNum i), extra]"

text \<open>The loop of \<open>process\<close> from step \<open>i\<close> with the remaining steps.\<close>

(*@ oidc-repository/src/repositories/workflow_repo.rs 341-377 loop of WorkflowRepo::process *)
fun run_steps :: "env \<Rightarrow> workflow \<Rightarrow> execution \<Rightarrow> int \<Rightarrow> workflow_step list \<Rightarrow> execution_status wf_prog" where
  "run_steps E w x i [] = ret Completed"
| "run_steps E w x i (st # rest) =
     bindp (attempt (execute_action E (x_user_id x) (ws_action st))) (\<lambda>done.
     case done of
       Inl err \<Rightarrow>
         thenp (update_executions (\<lambda>y. x_id y = x_id x) (\<lambda>y. y\<lparr>x_status := Failed,
             x_attempts := x_attempts y + 1, x_last_error := Some (error_text err), x_updated_at := e_db_now E\<rparr>))
        (thenp (lifecycle_audit E (x_realm_id x) ''workflow.failed'' (x_id x) (x_user_id x)
             (step_details E w i (''error'', JStr (error_text err))))
          (ret Failed))
     | Inr _ \<Rightarrow>
         thenp (lifecycle_audit E (x_realm_id x) ''workflow.step_completed'' (x_id x) (x_user_id x)
             (step_details E w i (''action'', action_json E (ws_action st))))
        (case rest of
           [] \<Rightarrow>
             thenp (update_executions (\<lambda>y. x_id y = x_id x) (\<lambda>y. y\<lparr>x_status := Completed,
                 x_current_step := i + 1, x_completed_at := Some (e_db_now E), x_updated_at := e_db_now E\<rparr>))
            (thenp (lifecycle_audit E (x_realm_id x) ''workflow.completed'' (x_id x) (x_user_id x)
                 (json_object [(''workflow_id'', JStr (e_uuid_text E (w_id w)))]))
              (ret Completed))
         | nxt # _ \<Rightarrow>
             if 0 < ws_after_seconds nxt then
               bindp (tick E) (\<lambda>now.
               thenp (update_executions (\<lambda>y. x_id y = x_id x) (\<lambda>y. y\<lparr>x_status := Waiting,
                   x_current_step := i + 1, x_next_run_at := now + secs (ws_after_seconds nxt),
                   x_updated_at := e_db_now E\<rparr>))
                 (ret Waiting))
             else
               thenp (update_executions (\<lambda>y. x_id y = x_id x) (\<lambda>y. y\<lparr>x_current_step := i + 1,
                   x_updated_at := e_db_now E\<rparr>))
                 (run_steps E w x (i + 1) rest)))"

(*@ oidc-repository/src/repositories/workflow_repo.rs 522-530 WorkflowRepo::finish_cancelled *)
definition finish_cancelled :: "env \<Rightarrow> execution \<Rightarrow> string \<Rightarrow> execution_status wf_prog" where
  "finish_cancelled E x reason =
     thenp (update_executions (\<lambda>y. x_id y = x_id x) (\<lambda>y. y\<lparr>x_status := Cancelled,
         x_last_error := Some reason, x_completed_at := Some (e_db_now E), x_updated_at := e_db_now E\<rparr>))
       (ret Cancelled)"

text \<open>A negative step, as a \<open>usize\<close>, is beyond every list.\<close>

definition remaining_steps :: "workflow \<Rightarrow> execution \<Rightarrow> workflow_step list" where
  "remaining_steps w x = (if x_current_step x < 0 then [] else drop (nat (x_current_step x)) (w_steps w))"

(*@ oidc-repository/src/repositories/workflow_repo.rs 322-378 WorkflowRepo::process *)
definition process_execution :: "env \<Rightarrow> uuid \<Rightarrow> execution_status wf_prog" where
  "process_execution E i =
     bindp (from_db (execution_by_id i)) (\<lambda>x.
     bindp (some_or x (NotFound ''workflow execution not found'')) (\<lambda>x.
     bindp (from_db (workflow_by_id (x_workflow_id x))) (\<lambda>w.
     case w of
       None \<Rightarrow> finish_cancelled E x ''Workflow is unavailable''
     | Some w \<Rightarrow>
         if \<not> w_enabled w then finish_cancelled E x ''Workflow is disabled''
         else thenp (update_executions (\<lambda>y. x_id y = i) (\<lambda>y. y\<lparr>x_status := Running,
                x_started_at := (case x_started_at y of None \<Rightarrow> Some (e_db_now E) | t \<Rightarrow> t),
                x_updated_at := e_db_now E\<rparr>))
             (run_steps E w x (x_current_step x) (remaining_steps w x)))))"


section \<open>Runs\<close>

(*@ oidc-repository/src/repositories/workflow_repo.rs 18-26 WorkflowRunReport *)
record run_report =
  rr_scheduled :: nat
  rr_enqueued :: nat
  rr_completed :: nat
  rr_waiting :: nat
  rr_failed :: nat
  rr_cancelled :: nat

definition no_report :: run_report where
  "no_report = \<lparr>rr_scheduled = 0, rr_enqueued = 0, rr_completed = 0, rr_waiting = 0, rr_failed = 0,
     rr_cancelled = 0\<rparr>"

definition report_outcome :: "oidc_error + execution_status \<Rightarrow> run_report \<Rightarrow> run_report" where
  "report_outcome r = (case r of
       Inr Completed \<Rightarrow> rr_completed_update Suc
     | Inr Waiting \<Rightarrow> rr_waiting_update Suc
     | Inr Cancelled \<Rightarrow> rr_cancelled_update Suc
     | Inr Failed \<Rightarrow> rr_failed_update Suc
     | Inr _ \<Rightarrow> (\<lambda>x. x)
     | Inl _ \<Rightarrow> rr_failed_update Suc)"

fun process_all :: "env \<Rightarrow> uuid list \<Rightarrow> run_report \<Rightarrow> run_report wf_prog" where
  "process_all E [] rep = ret rep"
| "process_all E (i # rest) rep =
     bindp (attempt (process_execution E i)) (\<lambda>r. process_all E rest (report_outcome r rep))"

fun activate_all :: "env \<Rightarrow> workflow \<Rightarrow> string \<Rightarrow> uuid list \<Rightarrow> run_report \<Rightarrow> run_report wf_prog" where
  "activate_all E w trigger [] rep = ret rep"
| "activate_all E w trigger (u # us) rep =
     bindp (activate E w u trigger) (\<lambda>r.
       activate_all E w trigger us (if r = None then rep else rr_enqueued_update Suc rep))"

text \<open>The users of a batch: those whose last scheduled execution is the longest ago, the ones without
  any first, then by creation.\<close>

definition last_scheduled :: "uuid \<Rightarrow> uuid \<Rightarrow> db \<Rightarrow> instant option" where
  "last_scheduled wid uid d =
     (case map x_created_at (filter (\<lambda>x. x_user_id x = uid \<and> x_workflow_id x = wid
              \<and> x_trigger_event x = ''schedule'') (d_executions d)) of
        [] \<Rightarrow> None | t # ts \<Rightarrow> Some (fold max ts t))"

definition batch_le :: "uuid \<Rightarrow> db \<Rightarrow> user \<Rightarrow> user \<Rightarrow> bool" where
  "batch_le wid d u v =
     (case (last_scheduled wid (u_id u) d, last_scheduled wid (u_id v) d) of
        (None, None) \<Rightarrow> u_created_at u \<le> u_created_at v
      | (None, Some _) \<Rightarrow> True
      | (Some _, None) \<Rightarrow> False
      | (Some s, Some t) \<Rightarrow> s < t \<or> (s = t \<and> u_created_at u \<le> u_created_at v))"

definition batch_users :: "workflow \<Rightarrow> int \<Rightarrow> db \<Rightarrow> uuid list" where
  "batch_users w n d =
     take (nat n) (map u_id (sort_by (batch_le (w_id w) d)
       (filter (\<lambda>u. u_realm_id u = w_realm_id w \<and> u_deleted_at u = None) (d_users d))))"

fun schedule_all :: "env \<Rightarrow> instant \<Rightarrow> workflow list \<Rightarrow> run_report \<Rightarrow> run_report wf_prog" where
  "schedule_all E now [] rep = ret rep"
| "schedule_all E now (w # ws) rep =
     (case w_schedule w of
        None \<Rightarrow> schedule_all E now ws rep
      | Some s \<Rightarrow>
          bindp (from_db (batch_users w (wsch_batch_size s))) (\<lambda>us.
          bindp (activate_all E w ''schedule'' us rep) (\<lambda>rep.
          thenp (on_db (d_workflows_update (update_where (\<lambda>v. w_id v = w_id w)
                   (\<lambda>v. v\<lparr>w_last_scheduled_at := Some now, w_updated_at := now\<rparr>))))
            (schedule_all E now ws (rr_scheduled_update Suc rep)))))"

definition schedule_due :: "instant \<Rightarrow> workflow \<Rightarrow> bool" where
  "schedule_due now w \<longleftrightarrow> w_enabled w \<and>
     (case w_schedule w of None \<Rightarrow> False
      | Some s \<Rightarrow> (case w_last_scheduled_at w of None \<Rightarrow> True
                  | Some last_time \<Rightarrow> last_time + secs (wsch_every_seconds s) \<le> now))"

(*@ oidc-repository/src/repositories/workflow_repo.rs 248-291 WorkflowRepo::enqueue_schedules *)
definition enqueue_schedules :: "env \<Rightarrow> uuid option \<Rightarrow> run_report \<Rightarrow> run_report wf_prog" where
  "enqueue_schedules E realm rep =
     bindp (from_db (\<lambda>d. case realm of
        Some r \<Rightarrow> workflows_of_realm E r d
      | None \<Rightarrow> sort_key w_created_at (filter (\<lambda>w. w_enabled w \<and> w_schedule w \<noteq> None
                  \<and> w_deleted_at w = None) (d_workflows d)))) (\<lambda>ws.
     bindp (tick E) (\<lambda>now. schedule_all E now (filter (schedule_due now) ws) rep))"

definition due :: "instant \<Rightarrow> uuid option \<Rightarrow> execution \<Rightarrow> bool" where
  "due now realm x \<longleftrightarrow> (case realm of None \<Rightarrow> True | Some r \<Rightarrow> x_realm_id x = r)
     \<and> x_status x \<in> {Queued, Waiting} \<and> x_next_run_at x \<le> now"

(*@ oidc-repository/src/repositories/workflow_repo.rs 218-246 WorkflowRepo::run_due *)
definition run_due :: "env \<Rightarrow> uuid option \<Rightarrow> int \<Rightarrow> bool \<Rightarrow> run_report wf_prog" where
  "run_due E realm limit include_schedules =
     bindp (if include_schedules then enqueue_schedules E realm no_report else ret no_report) (\<lambda>rep.
     bindp (from_db (\<lambda>d. take (nat (max 1 (min 1000 limit)))
              (map x_id (sort_key x_next_run_at (filter (due (e_db_now E) realm) (d_executions d)))))) (\<lambda>ids.
     process_all E ids rep))"

fun activate_matching :: "env \<Rightarrow> workflow list \<Rightarrow> uuid \<Rightarrow> string \<Rightarrow> run_report \<Rightarrow> run_report wf_prog" where
  "activate_matching E [] uid event rep = ret rep"
| "activate_matching E (w # ws) uid event rep =
     bindp (activate E w uid event) (\<lambda>r.
       activate_matching E ws uid event (if r = None then rep else rr_enqueued_update Suc rep))"

(*@ oidc-repository/src/repositories/workflow_repo.rs 183-216 WorkflowRepo::dispatch_event *)
definition dispatch_event :: "env \<Rightarrow> audit_event \<Rightarrow> run_report wf_prog" where
  "dispatch_event E ev =
     (case (ae_realm_id ev, event_user ev) of
        (Some realm, Some uid) \<Rightarrow>
          if starts_with (ae_event_type ev) ''workflow.'' then ret no_report
          else bindp (from_db (workflows_of_realm E realm)) (\<lambda>ws.
               bindp (activate_matching E (filter (\<lambda>w. w_enabled w
                   \<and> (\<exists>p \<in> set (w_trigger_events w). event_matches p (ae_event_type ev))) ws)
                   uid (ae_event_type ev) no_report) (\<lambda>rep.
               bindp (run_due E (Some realm) 200 False) (\<lambda>ran.
               ret (rep\<lparr>rr_completed := rr_completed rep + rr_completed ran,
                        rr_waiting := rr_waiting rep + rr_waiting ran,
                        rr_failed := rr_failed rep + rr_failed ran,
                        rr_cancelled := rr_cancelled rep + rr_cancelled ran\<rparr>))))
      | _ \<Rightarrow> ret no_report)"

(*@ oidc-repository/src/repositories/audit_event_repo.rs 316-353 AuditEventRepo::create *)
definition audit_create :: "env \<Rightarrow> audit_event \<Rightarrow> unit wf_prog" where
  "audit_create E ev =
     thenp (on_db (d_audit_update (\<lambda>rows. rows @ [ev])))
    (thenp (attempt (dispatch_event E ev))
       (ret ()))"


section \<open>Administration\<close>

(*@ oidc-repository/src/repositories/workflow_repo.rs 293-306 WorkflowRepo::retry *)
definition retry_execution :: "env \<Rightarrow> uuid \<Rightarrow> uuid \<Rightarrow> unit wf_prog" where
  "retry_execution E i realm =
     bindp (update_executions (\<lambda>x. x_id x = i \<and> x_realm_id x = realm \<and> x_status x = Failed)
              (\<lambda>x. x\<lparr>x_status := Queued, x_attempts := x_attempts x + 1, x_next_run_at := e_db_now E,
                     x_last_error := None, x_completed_at := None, x_updated_at := e_db_now E\<rparr>)) (\<lambda>n.
     guardp (n \<noteq> 0) (InvalidInput ''only failed executions can be retried''))"

(*@ oidc-repository/src/repositories/workflow_repo.rs 307-320 WorkflowRepo::cancel *)
definition cancel_execution :: "env \<Rightarrow> uuid \<Rightarrow> uuid \<Rightarrow> unit wf_prog" where
  "cancel_execution E i realm =
     bindp (update_executions (\<lambda>x. x_id x = i \<and> x_realm_id x = realm
                \<and> x_status x \<in> {Queued, Waiting, Failed})
              (\<lambda>x. x\<lparr>x_status := Cancelled, x_completed_at := Some (e_db_now E), x_updated_at := e_db_now E\<rparr>)) (\<lambda>n.
     guardp (n \<noteq> 0) (InvalidInput ''execution cannot be cancelled''))"

(*@ oidc-repository/src/repositories/workflow_repo.rs 124-133 WorkflowRepo::delete *)
definition delete_workflow :: "env \<Rightarrow> uuid \<Rightarrow> unit wf_prog" where
  "delete_workflow E i =
     thenp (on_db (d_workflows_update (update_where (\<lambda>w. w_id w = i)
              (\<lambda>w. w\<lparr>w_deleted_at := Some (e_db_now E), w_enabled := False, w_updated_at := e_db_now E\<rparr>))))
    (thenp (update_executions (\<lambda>x. x_workflow_id x = i \<and> active (x_status x))
              (\<lambda>x. x\<lparr>x_status := Cancelled, x_completed_at := Some (e_db_now E), x_updated_at := e_db_now E,
                     x_last_error := Some ''Workflow deleted''\<rparr>))
       (ret ()))"

text \<open>The unique index on the lower case names of a realm is a conflict on creation and on update.\<close>

definition name_taken :: "env \<Rightarrow> workflow \<Rightarrow> db \<Rightarrow> bool" where
  "name_taken E w d \<longleftrightarrow> (\<exists>v \<in> set (d_workflows d). w_id v \<noteq> w_id w \<and> w_realm_id v = w_realm_id w
     \<and> w_deleted_at v = None \<and> e_lower E (w_name v) = e_lower E (w_name w))"

(*@ oidc-repository/src/repositories/workflow_repo.rs 104-113 WorkflowRepo::create *)
definition create_workflow :: "env \<Rightarrow> workflow \<Rightarrow> unit wf_prog" where
  "create_workflow E w =
     bindp (lift (validate_workflow w)) (\<lambda>_.
     bindp (from_db (\<lambda>d. name_taken E w d \<or> w_id w \<in> w_id ` set (d_workflows d))) (\<lambda>clash.
     thenp (guardp (\<not> clash) (Conflict ''duplicate key''))
       (on_db (d_workflows_update (\<lambda>ws. ws @ [w\<lparr>w_deleted_at := None\<rparr>])))))"

(*@ oidc-repository/src/repositories/workflow_repo.rs 114-123 WorkflowRepo::update *)
definition update_workflow :: "env \<Rightarrow> workflow \<Rightarrow> unit wf_prog" where
  "update_workflow E w =
     bindp (lift (validate_workflow w)) (\<lambda>_.
     bindp (from_db (\<lambda>d. name_taken E w d \<and> workflow_by_id (w_id w) d \<noteq> None)) (\<lambda>clash.
     thenp (guardp (\<not> clash) (Conflict ''duplicate key''))
       (on_db (d_workflows_update (update_where (\<lambda>v. w_id v = w_id w \<and> w_deleted_at v = None)
          (\<lambda>v. v\<lparr>w_name := w_name w, w_description := w_description w, w_enabled := w_enabled w,
                 w_trigger_events := w_trigger_events w, w_conditions := w_conditions w,
                 w_steps := w_steps w, w_schedule := w_schedule w, w_updated_at := w_updated_at w\<rparr>))))))"

definition referenced_roles :: "workflow \<Rightarrow> uuid list" where
  "referenced_roles w =
     concat (map (\<lambda>c. case c of HasRole i \<Rightarrow> [i] | _ \<Rightarrow> []) (w_conditions w))
     @ concat (map (\<lambda>st. case ws_action st of GrantRole i \<Rightarrow> [i] | RevokeRole i \<Rightarrow> [i] | _ \<Rightarrow> []) (w_steps w))"

definition referenced_groups :: "workflow \<Rightarrow> uuid list" where
  "referenced_groups w =
     concat (map (\<lambda>c. case c of InGroup i \<Rightarrow> [i] | _ \<Rightarrow> []) (w_conditions w))
     @ concat (map (\<lambda>st. case ws_action st of JoinGroup i \<Rightarrow> [i] | LeaveGroup i \<Rightarrow> [i] | _ \<Rightarrow> []) (w_steps w))"

(*@ oidc-repository/src/repositories/workflow_repo.rs 29-88 WorkflowRepo::validate_references *)
definition validate_references :: "env \<Rightarrow> workflow \<Rightarrow> db \<Rightarrow> unit result" where
  "validate_references E w d =
     bindr (check_all (\<lambda>i. ensure (\<exists>r \<in> set (d_roles d). ro_id r = i \<and> ro_realm_id r = w_realm_id w
                                 \<and> ro_deleted_at r = None)
              (InvalidInput (''role '' @ e_uuid_text E i @ '' does not exist in this realm'')))
           (remdups (sort (referenced_roles w)))) (\<lambda>_.
     check_all (\<lambda>i. ensure (\<exists>g \<in> set (d_groups d). g_id g = i \<and> g_realm_id g = w_realm_id w
                          \<and> g_deleted_at g = None)
              (InvalidInput (''group '' @ e_uuid_text E i @ '' does not exist in this realm'')))
           (remdups (sort (referenced_groups w))))"


end
