(* ===== verification/Workflow_Props.thy ===== *)
theory Workflow_Props
  imports Workflows
begin

text \<open>What the workflow engine guarantees: its executions stay in order under every operation,
  finished executions are final, and one pass of the engine over an execution does what its steps
  say.  An execution that is left without steps by an update of its workflow is lost.\<close>


section \<open>Every operation keeps the executions in order\<close>

lemma on_db_ok [prog_ok]: "on_db f s = (Inr x, t) \<longleftrightarrow> t = (f (fst s), snd s)"
  by (cases s) (auto simp: on_db_def exec_ok)

lemma from_db_ok [prog_ok]: "from_db q s = (Inr x, t) \<longleftrightarrow> x = q (fst s) \<and> t = s"
  by (cases s) (auto simp: from_db_def query_def)

lemma fresh_ok [prog_ok]: "fresh E s = (Inr x, t) \<longleftrightarrow> x = e_uuid E (snd s) \<and> t = (fst s, Suc (snd s))"
  by (cases s) (auto simp: fresh_def)

lemma tick_ok [prog_ok]: "tick E s = (Inr x, t) \<longleftrightarrow> x = e_clock E (snd s) \<and> t = (fst s, Suc (snd s))"
  by (cases s) (auto simp: tick_def)

lemma update_executions_ok [prog_ok]:
  "update_executions P f s = (Inr n, t) \<longleftrightarrow>
     one_active (update_where P f (d_executions (fst s))) \<and> n = length (filter P (d_executions (fst s)))
     \<and> t = (fst s\<lparr>d_executions := update_where P f (d_executions (fst s))\<rparr>, snd s)"
  by (auto simp: update_executions_def prog_ok)


text \<open>The statement of the invariant over the executions alone: identifiers are unique and no slot has
  two active executions.\<close>

definition executions_ok :: "execution list \<Rightarrow> bool" where
  "executions_ok xs \<longleftrightarrow> distinct (map x_id xs) \<and> one_active xs"

lemma one_active_append:
  "one_active (xs @ [x]) \<longleftrightarrow> one_active xs
     \<and> (active (x_status x) \<longrightarrow> (\<forall>y \<in> set xs. active (x_status y) \<longrightarrow> \<not> same_slot y x))"
  by (auto simp: one_active_def same_slot_def image_iff) metis+

text \<open>An update that activates nothing keeps the index.\<close>

lemma one_active_update:
  assumes "one_active xs"
    and "\<And>y. y \<in> set xs \<Longrightarrow> P y \<Longrightarrow> active (x_status (f y)) \<Longrightarrow> active (x_status y)"
    and "\<And>y. x_workflow_id (f y) = x_workflow_id y \<and> x_user_id (f y) = x_user_id y"
  shows "one_active (update_where P f xs)"
  using assms(1, 2)
proof (induction xs)
  case (Cons x xs)
  let ?slot = "\<lambda>x. (x_workflow_id x, x_user_id x)"
  have sub: "set (map ?slot (filter (\<lambda>x. active (x_status x)) (update_where P f xs)))
      \<subseteq> set (map ?slot (filter (\<lambda>x. active (x_status x)) xs))"
    using Cons(3) assms(3) by (auto simp: update_where_def split: if_splits)
  have tail: "one_active (update_where P f xs)"
    using Cons by (auto simp: one_active_def split: if_splits)
  show ?case
    using Cons(2) Cons(3) [of x] assms(3) [of x] tail sub
    by (auto simp: one_active_def update_where_def split: if_splits)
qed (simp add: one_active_def update_where_def)


abbreviation rows :: "wf \<Rightarrow> execution list" where
  "rows s \<equiv> d_executions (fst s)"

definition finished :: "execution \<Rightarrow> bool" where
  "finished x \<longleftrightarrow> x_status x \<in> {Completed, Cancelled}"

text \<open>The invariant of the engine, with a set of executions \<open>F\<close> that must stay as they are.\<close>

definition in_order :: "execution set \<Rightarrow> wf \<Rightarrow> bool" where
  "in_order F s \<longleftrightarrow> executions_ok (rows s) \<and> F \<subseteq> set (rows s)"

lemma ids_update: "(\<And>y. x_id (f y) = x_id y) \<Longrightarrow> map x_id (update_where P f xs) = map x_id xs"
  by (rule map_update_where)

lemma in_order_update [intro]:
  assumes "\<And>y. x_id (f y) = x_id y" and "\<And>y. y \<in> F \<Longrightarrow> \<not> P y"
  shows "preserves (in_order F) (update_executions P f)"
  unfolding preserves_def update_executions_def
proof (intro allI impI)
  fix s assume "in_order F s"
  then show "in_order F (snd (bindp (from_db d_executions) (\<lambda>xs.
     thenp (guardp (one_active (update_where P f xs)) (Conflict ''workflow_executions_active_uq''))
    (thenp (on_db (d_executions_update (\<lambda>_. update_where P f xs)))
       (ret (length (filter P xs))))) s))"
    using assms
    by (cases s) (auto simp: in_order_def executions_ok_def from_db_def on_db_def prog_run thenp_def
        ids_update update_where_elem; blast)
qed

lemma in_order_db [intro]: "(\<And>d. d_executions (f d) = d_executions d) \<Longrightarrow> preserves (in_order F) (on_db f)"
  unfolding on_db_def by (rule preserves_exec) (auto simp: in_order_def)

lemma in_order_reads [intro]:
  "preserves (in_order F) (from_db q)" "preserves (in_order F) (fresh E)" "preserves (in_order F) (tick E)"
  by (auto simp: preserves_def from_db_def fresh_def tick_def prog_run in_order_def split: prod.splits)

lemma d_executions_perform [simp]: "d_executions (perform now uid a d) = d_executions d"
  by (cases a) (simp_all add: update_user_def update_sessions_def)

lemma in_order_audit [intro]: "preserves (in_order F) (lifecycle_audit E r ev x u details)"
  unfolding lifecycle_audit_def by (intro preserves_bindp in_order_reads in_order_db) simp

lemma in_order_action [intro]: "preserves (in_order F) (execute_action E uid a)"
  unfolding execute_action_def by (intro preserves_bindp preserves_thenp in_order_reads in_order_db preserves_intros) simp

lemma in_order_steps:
  assumes "\<forall>y \<in> F. x_id y \<noteq> x_id x"
  shows "preserves (in_order F) (run_steps E w x i steps)"
proof (induction steps arbitrary: i)
  case Nil
  then show ?case
    by auto
next
  case (Cons st rest)
  have upd: "preserves (in_order F) (update_executions (\<lambda>y. x_id y = x_id x) f)"
    if "\<And>y. x_id (f y) = x_id y" for f
    using that assms by (intro in_order_update) auto
  show ?case
    unfolding run_steps.simps
    by (intro preserves_bindp preserves_attempt in_order_action preserves_cases preserves_thenp
        upd in_order_audit preserves_intros preserves_if in_order_reads Cons) simp_all
qed

lemma wf_run [prog_run]:
  "from_db q s = (Inr (q (fst s)), s)"
  "on_db f s = (Inr (), (f (fst s), snd s))"
  "fresh E s = (Inr (e_uuid E (snd s)), (fst s, Suc (snd s)))"
  "tick E s = (Inr (e_clock E (snd s)), (fst s, Suc (snd s)))"
  by (cases s, simp add: from_db_def on_db_def fresh_def tick_def prog_run)+

lemma run_from_db [prog_run]: "bindp (from_db q) f s = f (q (fst s)) s"
  by (cases s) (simp add: from_db_def prog_run)

lemma in_order_process:
  assumes "\<forall>y \<in> F. x_id y \<noteq> i"
  shows "preserves (in_order F) (process_execution E i)"
  unfolding preserves_def
proof (intro allI impI)
  fix s assume s: "in_order F s"
  show "in_order F (snd (process_execution E i s))"
  proof (cases "execution_by_id i (fst s)")
    case None
    with s show ?thesis
      by (simp add: process_execution_def prog_run)
  next
    case (Some x)
    then have i: "x_id x = i"
      by (auto simp: execution_by_id_def dest!: find_Some_set)
    have upd: "preserves (in_order F) (update_executions (\<lambda>y. x_id y = i) f)"
      if "\<And>y. x_id (f y) = x_id y" for f
      using that assms by (intro in_order_update) auto
    have "preserves (in_order F) (bindp (from_db (workflow_by_id (x_workflow_id x))) (\<lambda>w.
       case w of
         None \<Rightarrow> finish_cancelled E x ''Workflow is unavailable''
       | Some w \<Rightarrow>
           if \<not> w_enabled w then finish_cancelled E x ''Workflow is disabled''
           else thenp (update_executions (\<lambda>y. x_id y = i) (\<lambda>y. y\<lparr>x_status := Running,
                  x_started_at := (case x_started_at y of None \<Rightarrow> Some (e_db_now E) | t \<Rightarrow> t),
                  x_updated_at := e_db_now E\<rparr>))
               (run_steps E w x (x_current_step x) (remaining_steps w x))))"
      unfolding finish_cancelled_def i
      using assms i
      by (intro preserves_bindp preserves_cases preserves_if preserves_thenp upd in_order_steps
          in_order_reads preserves_intros) simp_all
    from preserves_snd [OF this s] Some show ?thesis
      by (simp add: process_execution_def prog_run)
  qed
qed

lemma in_order_process_all:
  "\<forall>y \<in> F. x_id y \<notin> set ids \<Longrightarrow> preserves (in_order F) (process_all E ids rep)"
proof (induction ids arbitrary: rep)
  case (Cons i ids)
  then show ?case
    unfolding process_all.simps
    by (intro preserves_bindp preserves_attempt in_order_process) auto
qed auto

lemma in_order_append:
  "in_order F s \<Longrightarrow> x_id x \<notin> x_id ` set (rows s) \<Longrightarrow> \<forall>y \<in> set (rows s). active (x_status y) \<longrightarrow> \<not> same_slot y x
     \<Longrightarrow> in_order F (d_executions_update (\<lambda>xs. xs @ [x]) (fst s), k)"
  by (auto simp: in_order_def executions_ok_def one_active_append)

text \<open>An activation inserts its execution only where the index and the key have room.\<close>

lemma in_order_insert:
  "preserves (in_order F) (bindp (from_db (\<lambda>d. \<exists>y \<in> set (d_executions d). x_id y = x_id x
       \<or> (active (x_status y) \<and> same_slot y x))) (\<lambda>conflict.
     if conflict then ret None
     else thenp (on_db (d_executions_update (\<lambda>xs. xs @ [x])))
         (thenp (lifecycle_audit E r ev i u details) (ret (Some j)))))"
  unfolding preserves_def
proof (intro allI impI)
  fix s assume s: "in_order F s"
  let ?clash = "\<exists>y \<in> set (rows s). x_id y = x_id x \<or> (active (x_status y) \<and> same_slot y x)"
  have rest: "preserves (in_order F) (thenp (lifecycle_audit E r ev i u details) (ret (Some j)))"
    by (intro preserves_thenp in_order_audit preserves_intros)
  show "in_order F (snd (bindp (from_db (\<lambda>d. \<exists>y \<in> set (d_executions d). x_id y = x_id x
       \<or> (active (x_status y) \<and> same_slot y x))) (\<lambda>conflict.
     if conflict then ret None
     else thenp (on_db (d_executions_update (\<lambda>xs. xs @ [x])))
         (thenp (lifecycle_audit E r ev i u details) (ret (Some j)))) s))"
  proof (cases ?clash)
    case True
    with s show ?thesis
      by (simp add: prog_run)
  next
    case False
    then have "in_order F (d_executions_update (\<lambda>xs. xs @ [x]) (fst s), snd s)"
      using s by (intro in_order_append) auto
    from preserves_snd [OF rest this] False show ?thesis
      by (cases s) (auto simp: prog_run on_db_def)
  qed
qed

lemma in_order_activate [intro]: "preserves (in_order F) (activate E w u trigger)"
  unfolding activate_def Let_def
  by (intro preserves_bindp in_order_reads preserves_intros preserves_if
      in_order_insert [where x = "\<lparr>x_id = i, x_workflow_id = w_id w, x_realm_id = w_realm_id w, x_user_id = u,
                   x_trigger_event = trigger, x_status = st,
                   x_current_step = 0, x_attempts = 0, x_next_run_at = t,
                   x_last_error = None, x_started_at = None, x_completed_at = None,
                   x_created_at = now, x_updated_at = now\<rparr>" for i st t now, simplified])

lemma in_order_activate_all [intro]: "preserves (in_order F) (activate_all E w trigger us rep)"
  by (induction us arbitrary: rep) auto

lemma in_order_activate_matching [intro]: "preserves (in_order F) (activate_matching E ws u ev rep)"
  by (induction ws arbitrary: rep) auto

lemma in_order_schedule_all [intro]: "preserves (in_order F) (schedule_all E now ws rep)"
proof (induction ws arbitrary: rep)
  case (Cons w ws)
  then show ?case
    unfolding schedule_all.simps
    by (intro preserves_cases preserves_bindp preserves_thenp in_order_reads in_order_activate_all
        in_order_db) simp_all
qed auto

lemma in_order_schedules [intro]: "preserves (in_order F) (enqueue_schedules E realm rep)"
  unfolding enqueue_schedules_def by (intro preserves_bindp in_order_reads in_order_schedule_all)

lemma in_order_run_due:
  assumes "\<forall>y \<in> F. finished y"
  shows "preserves (in_order F) (run_due E realm limit sched)"
proof -
  let ?ids = "\<lambda>d. take (nat (max 1 (min 1000 limit)))
              (map x_id (sort_key x_next_run_at (filter (due (e_db_now E) realm) (d_executions d))))"
  have batch: "preserves (in_order F) (bindp (from_db ?ids) (\<lambda>ids. process_all E ids rep))" for rep
    unfolding preserves_def
  proof (intro allI impI)
    fix s assume s: "in_order F s"
    have "x_id y \<notin> set (?ids (fst s))" if "y \<in> F" for y
    proof
      assume "x_id y \<in> set (?ids (fst s))"
      then obtain z where z: "z \<in> set (rows s)" "due (e_db_now E) realm z" "x_id z = x_id y"
        by (auto dest!: in_set_takeD)
      have "z = y"
        using s z that distinct_map_same [of x_id "rows s" z y] by (auto simp: in_order_def executions_ok_def)
      with z that assms show False
        by (auto simp: due_def finished_def)
    qed
    then have "preserves (in_order F) (process_all E (?ids (fst s)) rep)"
      by (intro in_order_process_all) blast
    from preserves_snd [OF this s] show "in_order F (snd (bindp (from_db ?ids) (\<lambda>ids. process_all E ids rep) s))"
      by (simp only: run_from_db)
  qed
  show ?thesis
    unfolding run_due_def by (intro preserves_bindp preserves_if in_order_schedules preserves_intros batch)
qed

lemma in_order_dispatch:
  "\<forall>y \<in> F. finished y \<Longrightarrow> preserves (in_order F) (dispatch_event E ev)"
  unfolding dispatch_event_def
  by (auto intro!: preserves_bindp in_order_run_due split: option.split)

lemma in_order_audit_create:
  "\<forall>y \<in> F. finished y \<Longrightarrow> preserves (in_order F) (audit_create E ev)"
  unfolding audit_create_def
  by (intro preserves_thenp preserves_attempt in_order_dispatch in_order_db preserves_intros) simp_all

lemma in_order_admin:
  assumes "\<forall>y \<in> F. finished y"
  shows "preserves (in_order F) (retry_execution E i realm)"
    and "preserves (in_order F) (cancel_execution E i realm)"
    and "preserves (in_order F) (delete_workflow E i)"
  unfolding retry_execution_def cancel_execution_def delete_workflow_def
  using assms
  by (auto intro!: preserves_bindp preserves_thenp in_order_update in_order_db preserves_intros
      simp: finished_def active_def)

text \<open>The executions of workflows stay in order.  Every operation of the engine (recording an
  event with all the activations and runs it triggers, a run of the due executions with or without
  the schedules, an activation, a retry, a cancellation, the deletion of a workflow), whether it
  succeeds or fails half way, keeps the identifiers unique, never leaves two active executions
  of one workflow for one user, and leaves every completed or cancelled execution exactly as it was.\<close>

theorem executions_in_order:
  assumes "executions_ok (d_executions d)"
    and "m \<in> {(\<lambda>s. snd (audit_create E ev s)), (\<lambda>s. snd (run_due E realm limit schedules s)),
              (\<lambda>s. snd (activate E w uid trigger s)), (\<lambda>s. snd (retry_execution E i r s)),
              (\<lambda>s. snd (cancel_execution E i r s)), (\<lambda>s. snd (delete_workflow E i s))}"
  shows "executions_ok (d_executions (fst (m (d, k))))
    \<and> {x \<in> set (d_executions d). finished x} \<subseteq> set (d_executions (fst (m (d, k))))"
proof -
  let ?F = "{x \<in> set (d_executions d). finished x}"
  have start: "in_order ?F (d, k)"
    using assms(1) by (auto simp: in_order_def)
  have fin: "\<forall>y \<in> ?F. finished y"
    by simp
  have "in_order ?F (m (d, k))"
    using assms(2) preserves_snd [OF in_order_audit_create [OF fin, of E ev] start]
      preserves_snd [OF in_order_run_due [OF fin, of E realm limit schedules] start]
      preserves_snd [OF in_order_activate [of ?F E w uid trigger] start]
      preserves_snd [OF in_order_admin(1) [OF fin, of E i r] start]
      preserves_snd [OF in_order_admin(2) [OF fin, of E i r] start]
      preserves_snd [OF in_order_admin(3) [OF fin, of E i] start]
    by blast
  then show ?thesis
    by (simp add: in_order_def)
qed


section \<open>One pass over an execution\<close>


definition bare :: "db \<Rightarrow> db" where
  "bare d = d\<lparr>d_audit := [], d_executions := []\<rparr>"





lemma bare_updates [simp]:
  "bare (d_audit_update f d) = bare d" "bare (d_executions_update g d) = bare d"
  by (simp_all add: bare_def)




lemma updated_row:
  assumes "y \<in> set (update_where (\<lambda>y. x_id y = i) f xs)" and "x_id y = i" and "\<And>y. x_id (f y) = x_id y"
  shows "\<exists>z \<in> set xs. x_id z = i \<and> y = f z"
proof -
  from assms(1) [unfolded update_where_elem] obtain z where
    "z \<in> set xs" and "x_id z = i \<and> y = f z \<or> x_id z \<noteq> i \<and> y = z"
    by blast
  then show ?thesis
    using assms(2) by blast
qed

lemma update_where_none: "\<forall>x \<in> set xs. \<not> P x \<Longrightarrow> update_where P f xs = xs"
  by (simp add: update_where_def map_idI)

lemma updated_in: "x \<in> set xs \<Longrightarrow> x_id x = i \<Longrightarrow> f x \<in> set (update_where (\<lambda>y. x_id y = i) f xs)"
  unfolding update_where_elem by blast

lemma find_by_id:
  "distinct (map x_id xs) \<Longrightarrow> x \<in> set xs \<Longrightarrow> y \<in> set xs \<Longrightarrow> x_id y = x_id x \<Longrightarrow> y = x"
  using distinct_map_same [of x_id xs y x] by simp

lemma found_active:
  assumes "execution_by_id i d = Some x" and "active (x_status x)" and "executions_ok (d_executions d)"
  shows "\<forall>y \<in> set (d_executions d). x_id y = i \<longrightarrow> active (x_status y)"
proof (intro ballI impI)
  fix y assume y: "y \<in> set (d_executions d)" "x_id y = i"
  have "x \<in> set (d_executions d)" "x_id x = i"
    using assms(1) by (auto simp: execution_by_id_def dest!: find_Some_set)
  then have "y = x"
    using y assms(3) find_by_id [of "d_executions d" x y] by (simp add: executions_ok_def)
  with assms(2) show "active (x_status y)"
    by simp
qed

lemma update_row:
  assumes "one_active (d_executions d)" and "\<forall>y \<in> set (d_executions d). x_id y = i \<longrightarrow> active (x_status y)"
    and "\<And>y. x_workflow_id (f y) = x_workflow_id y \<and> x_user_id (f y) = x_user_id y"
  shows "update_executions (\<lambda>y. x_id y = i) f (d, k)
     = (Inr (length (filter (\<lambda>y. x_id y = i) (d_executions d))),
        (d\<lparr>d_executions := update_where (\<lambda>y. x_id y = i) f (d_executions d)\<rparr>, k))"
  using one_active_update [OF assms(1), of "\<lambda>y. x_id y = i" f] assms(2, 3)
  by (simp add: update_executions_ok)



lemma activate_blocked:
  assumes "y \<in> set (d_executions e)" and "active (x_status y)"
    and "x_workflow_id y = w_id w" and "x_user_id y = u"
  shows "fst (activate E w u trigger (e, k)) \<in> {Inr None, Inl (NotFound ''user not found'')}"
proof -
  have "\<exists>y \<in> set (d_executions e). active (x_status y) \<and> x_workflow_id y = w_id w \<and> x_user_id y = u"
    using assms by blast
  then show ?thesis
    unfolding activate_def Let_def bindp_def
    by (simp add: prog_run same_slot_def bex_disj_distrib split: option.split)
qed

lemma idle_update:
  assumes "one_active (d_executions e)" and "\<forall>z \<in> set (d_executions e). \<not> P z"
  shows "update_executions P g (e, k) = (Inr 0, (e, k))"
  unfolding update_executions_ok using assms(1) update_where_none [OF assms(2), of g] assms(2)
  by (simp add: filter_empty_conv)

text \<open>An execution can be lost.  When a workflow is updated so that it has no step left at which a
  waiting execution stands, the next pass reports the execution as completed but leaves its row in
  the status \<open>running\<close>: from then on no run picks it up, it can neither be cancelled nor retried, and it
  blocks every further activation of the workflow for its user.\<close>

theorem shortened_workflow_strands_execution:
  assumes "execution_by_id i d = Some x" and "workflow_by_id (x_workflow_id x) d = Some w" and "w_enabled w"
    and "active (x_status x)" and "executions_ok (d_executions d)"
    and "int (length (w_steps w)) \<le> x_current_step x"
  shows "\<exists>e y. process_execution E i (d, k) = (Inr Completed, (e, k))
    \<and> y \<in> set (d_executions e) \<and> x_id y = i \<and> x_status y = Running
    \<and> (\<forall>now realm. \<not> due now realm y)
    \<and> (\<forall>E k r. fst (cancel_execution E i r (e, k)) = Inl (InvalidInput ''execution cannot be cancelled'')
          \<and> fst (retry_execution E i r (e, k)) = Inl (InvalidInput ''only failed executions can be retried''))
    \<and> (\<forall>E k trigger. fst (activate E w (x_user_id x) trigger (e, k))
          \<in> {Inr None, Inl (NotFound ''user not found'')})"
proof -
  let ?f = "\<lambda>y. y\<lparr>x_status := Running, x_started_at := (case x_started_at y of None \<Rightarrow> Some (e_db_now E) | t \<Rightarrow> t),
      x_updated_at := e_db_now E\<rparr>"
  let ?e = "d\<lparr>d_executions := update_where (\<lambda>y. x_id y = i) ?f (d_executions d)\<rparr>"
  have x: "x \<in> set (d_executions d)" "x_id x = i"
    using assms(1) by (auto simp: execution_by_id_def dest!: find_Some_set)
  have wid: "x_workflow_id x = w_id w"
    using assms(2) by (auto simp: workflow_by_id_def dest!: find_Some_set)
  have act: "\<forall>y \<in> set (d_executions d). x_id y = i \<longrightarrow> active (x_status y)"
    using assms(1, 4, 5) by (rule found_active)
  have one: "one_active (d_executions d)"
    using assms(5) by (simp add: executions_ok_def)
  have none: "remaining_steps w x = []"
    using assms(6) by (simp add: remaining_steps_def)
  have run: "process_execution E i (d, k) = (Inr Completed, (?e, k))"
    unfolding process_execution_def
    by (simp add: prog_run assms(1-3) thenp_def bindp_def update_row [OF one act] none)
  have y: "?f x \<in> set (d_executions ?e)"
    using updated_in [OF x, of ?f] by simp
  have one': "one_active (d_executions ?e)"
    using one_active_update [OF one, of "\<lambda>y. x_id y = i" ?f] act by simp
  have status: "x_status z = Running" if "z \<in> set (d_executions ?e)" "x_id z = i" for z
  proof -
    have z: "z \<in> set (update_where (\<lambda>y. x_id y = i) ?f (d_executions d))"
      using that(1) by simp
    have "\<exists>v \<in> set (d_executions d). x_id v = i \<and> z = ?f v"
      by (rule updated_row [OF z that(2)]) simp
    then show ?thesis
      by (elim bexE conjE) simp
  qed
  have "update_executions (\<lambda>z. x_id z = i \<and> x_realm_id z = r \<and> x_status z \<in> {Queued, Waiting, Failed}) g (?e, k)
      = (Inr 0, (?e, k))"
    and "update_executions (\<lambda>z. x_id z = i \<and> x_realm_id z = r \<and> x_status z = Failed) g (?e, k) = (Inr 0, (?e, k))"
    for g k r
    using status by (intro idle_update [OF one'] ballI; fastforce)+
  then have admin: "fst (cancel_execution E i r (?e, k)) = Inl (InvalidInput ''execution cannot be cancelled'')"
    "fst (retry_execution E i r (?e, k)) = Inl (InvalidInput ''only failed executions can be retried'')" for E k r
    unfolding cancel_execution_def retry_execution_def bindp_def by (simp_all only: prod.case sum.case run_combinators simp_thms if_False fst_conv)
  have block_activation: "fst (activate E w (x_user_id x) trigger (?e, k)) \<in> {Inr None, Inl (NotFound ''user not found'')}"
    for E k trigger
    using y wid by (intro activate_blocked [OF y]) (simp_all add: active_def)
  show ?thesis
    using run y x(2) admin block_activation
    by (intro exI [of _ ?e] exI [of _ "?f x"]) (simp add: due_def)
qed


section \<open>A run\<close>

definition sample_workflow :: workflow where
  "sample_workflow =
     \<lparr>w_id = 31, w_realm_id = 3, w_name = ''leaver'', w_description = None, w_enabled = True,
      w_trigger_events = [''user.*''], w_conditions = [],
      w_steps = [\<lparr>ws_action = DisableUser, ws_after_seconds = 0\<rparr>,
                 \<lparr>ws_action = RevokeSessions, ws_after_seconds = 60\<rparr>],
      w_schedule = None, w_last_scheduled_at = None, w_created_at = 0, w_updated_at = 0,
      w_deleted_at = None\<rparr>"

definition sample_execution :: execution where
  "sample_execution =
     \<lparr>x_id = 41, x_workflow_id = 31, x_realm_id = 3, x_user_id = 7, x_trigger_event = ''user.left'',
      x_status = Queued, x_current_step = 0, x_attempts = 0, x_next_run_at = 0, x_last_error = None,
      x_started_at = None, x_completed_at = None, x_created_at = 0, x_updated_at = 0\<rparr>"

definition sample_event :: audit_event where
  "sample_event =
     \<lparr>ae_id = 51, ae_realm_id = Some 3, ae_event_type = ''user.left'', ae_actor_id = Some 7,
      ae_actor_type = UserActor, ae_target_type = None, ae_target_id = None, ae_details = JNull,
      ae_ip_address = None, ae_user_agent = None, ae_created_at = 0\<rparr>"

definition workflow_db :: "workflow_step list \<Rightarrow> int \<Rightarrow> db" where
  "workflow_db steps i = empty_db\<lparr>d_workflows := [sample_workflow\<lparr>w_steps := steps\<rparr>],
     d_executions := [sample_execution\<lparr>x_current_step := i\<rparr>]\<rparr>"

lemma workflow_db_found:
  "execution_by_id 41 (workflow_db steps i) = Some (sample_execution\<lparr>x_current_step := i\<rparr>)"
  "workflow_by_id 31 (workflow_db steps i) = Some (sample_workflow\<lparr>w_steps := steps\<rparr>)"
  "executions_ok (d_executions (workflow_db steps i))"
  by (simp_all add: workflow_db_def execution_by_id_def workflow_by_id_def sample_execution_def
      sample_workflow_def executions_ok_def one_active_def)

lemma executions_in_order_witness:
  "executions_ok (d_executions (fst (snd (audit_create sample_env sample_event
       (workflow_db (w_steps sample_workflow) 0, 0)))))"
  using executions_in_order [OF workflow_db_found(3) [of "w_steps sample_workflow" 0],
      of "\<lambda>s. snd (audit_create sample_env sample_event s)" sample_env sample_event None 0 False
         sample_workflow 0 "[]" 0 0 0]
  by simp


lemma shortened_workflow_strands_execution_witness:
  "\<exists>e y. process_execution sample_env 41 (workflow_db [\<lparr>ws_action = DisableUser, ws_after_seconds = 0\<rparr>] 1, 0)
       = (Inr Completed, (e, 0)) \<and> y \<in> set (d_executions e) \<and> x_status y = Running"
proof -
  let ?steps = "[\<lparr>ws_action = DisableUser, ws_after_seconds = 0\<rparr>]"
  have w: "workflow_by_id (x_workflow_id (sample_execution\<lparr>x_current_step := 1\<rparr>)) (workflow_db ?steps 1)
      = Some (sample_workflow\<lparr>w_steps := ?steps\<rparr>)"
    using workflow_db_found(2) by (simp add: sample_execution_def)
  from shortened_workflow_strands_execution [OF workflow_db_found(1) w, of sample_env 0] show ?thesis
    by (simp add: workflow_db_found(3) sample_workflow_def sample_execution_def active_def) blast
qed

end
