(* ===== verification/Hub.thy ===== *)
theory Hub
  imports Tokens Store
begin

text \<open>The part of the server state (\<open>oidc-oidc/src/state.rs\<close>) that finds the token service for a token
  presented to an endpoint: the issuer and the first audience are read from the payload before the
  signature is checked, and choose the keys with which it is then checked.  The service of a realm
  (its keys, or the global ones when it has none, with a given issuer) is a parameter: it holds
  the PEM parser of the \<open>rsa\<close> and \<open>ed25519\<close> crates.\<close>

record hub =
  hb_issuer :: string
  hb_base_issuer :: string
  hb_service :: token_service
  hb_realm_service :: "uuid \<Rightarrow> string \<Rightarrow> token_service result"

definition trim_slashes :: "string \<Rightarrow> string" where
  "trim_slashes s = rev (dropWhile (\<lambda>c. c = CHR ''/'') (rev s))"

(*@ oidc-oidc/src/state.rs 55-66 is_realm_scoped_issuer, protocol_endpoint *)
definition protocol_endpoint :: "hub \<Rightarrow> string \<Rightarrow> string \<Rightarrow> string" where
  "protocol_endpoint H global_path realm_path =
     hb_issuer H @ (if hb_issuer H \<noteq> hb_base_issuer H
                       \<and> starts_with (hb_issuer H) (trim_slashes (hb_base_issuer H) @ ''/realms/'')
                    then realm_path else global_path)"

(*@ oidc-oidc/src/state.rs 68-70 token_endpoint_uri *)
definition token_endpoint_uri :: "hub \<Rightarrow> string" where
  "token_endpoint_uri H = protocol_endpoint H ''/oidc/token'' ''/protocol/openid-connect/token''"

(*@ oidc-oidc/src/state.rs 76-78 par_endpoint_uri *)
definition par_endpoint_uri :: "hub \<Rightarrow> string" where
  "par_endpoint_uri H = protocol_endpoint H ''/oidc/par'' ''/protocol/openid-connect/par''"

(*@ oidc-oidc/src/state.rs 243-268 resolve_realm_id_from_issuer *)
definition resolve_realm :: "hub \<Rightarrow> string \<Rightarrow> db \<Rightarrow> uuid option result" where
  "resolve_realm H issuer d =
     (let base = trim_slashes (hb_base_issuer H); iss = trim_slashes issuer
      in if iss = base then Inr None
         else (case strip_prefix iss (base @ ''/realms/'') of
                 None \<Rightarrow> Inr None
               | Some name \<Rightarrow>
                   if name = [] \<or> CHR ''/'' \<in> set name then Inl InvalidTokenSignature
                   else (case realm_by_name name d of
                           None \<Rightarrow> Inl InvalidTokenSignature
                         | Some r \<Rightarrow> Inr (Some (r_id r)))))"

(*@ oidc-oidc/src/state.rs 270-279 client_id_from_aud *)
fun client_id_from_aud :: "json \<Rightarrow> string option" where
  "client_id_from_aud (JStr s) = Some s"
| "client_id_from_aud (JArr (JStr s # _)) = Some s"
| "client_id_from_aud _ = None"

(*@ oidc-oidc/src/state.rs 216-241 token_service_for_token_context *)
definition context_service :: "hub \<Rightarrow> string \<Rightarrow> string option \<Rightarrow> db \<Rightarrow> token_service result" where
  "context_service H issuer client_id d =
     bindr (resolve_realm H issuer d) (\<lambda>realm.
     case realm of
       Some r \<Rightarrow> hb_realm_service H r issuer
     | None \<Rightarrow>
         (case Option.bind client_id (\<lambda>c. client_by_client_id c d) of
            Some c \<Rightarrow> hb_realm_service H (c_realm_id c) issuer
          | None \<Rightarrow> if issuer = hb_base_issuer H then Inr (hb_service H) else Inl InvalidTokenSignature))"

text \<open>The payload of a token, its signature not checked: the second of the parts between the dots, in
  base64 with or without padding.\<close>

(*@ oidc-oidc/src/state.rs 281-296 decode_jwt_payload_unverified *)
definition payload_unverified :: "env \<Rightarrow> (string \<Rightarrow> 'c option) \<Rightarrow> string \<Rightarrow> 'c result" where
  "payload_unverified E parse token =
     (case split_on (CHR ''.'') token of
        _ # segment # _ \<Rightarrow>
          (case (case e_unb64 E segment of Some b \<Rightarrow> Some b | None \<Rightarrow> e_unb64_padded E segment) of
             None \<Rightarrow> Inl InvalidTokenSignature
           | Some bytes \<Rightarrow> (case parse bytes of None \<Rightarrow> Inl InvalidTokenSignature | Some c \<Rightarrow> Inr c))
      | _ \<Rightarrow> Inl InvalidTokenSignature)"

(*@ oidc-oidc/src/state.rs 189-200 verify_access_token_with_claims_any_issuer *)
definition verify_access_any :: "env \<Rightarrow> hub \<Rightarrow> int \<Rightarrow> string \<Rightarrow> db \<Rightarrow> access_claims result" where
  "verify_access_any E H now token d =
     bindr (payload_unverified E (e_parse_access E) token) (\<lambda>c.
     bindr (context_service H (at_iss c) (client_id_from_aud (at_aud c)) d) (\<lambda>svc.
     verify_access_token E svc now token))"

(*@ oidc-oidc/src/tokens/jwt_service.rs 1151-1161 verify_id_token *)
definition verify_id_token :: "env \<Rightarrow> token_service \<Rightarrow> int \<Rightarrow> string \<Rightarrow> string result" where
  "verify_id_token E svc now token =
     bindr (decode_jwt E svc (e_parse_id E) token) (\<lambda>c.
     bindr (ensure (\<not> ic_exp c < now) TokenExpired) (\<lambda>_.
     bindr (ensure (ic_iss c = ts_issuer svc) InvalidTokenSignature) (\<lambda>_. Inr (ic_sub c))))"

(*@ oidc-oidc/src/state.rs 203-214 verify_id_token_any_issuer *)
definition verify_id_any :: "env \<Rightarrow> hub \<Rightarrow> int \<Rightarrow> string \<Rightarrow> db \<Rightarrow> string result" where
  "verify_id_any E H now token d =
     bindr (payload_unverified E (e_parse_id E) token) (\<lambda>c.
     bindr (context_service H (ic_iss c) (client_id_from_aud (ic_aud c)) d) (\<lambda>svc.
     verify_id_token E svc now token))"


section \<open>Facts\<close>

text \<open>A token is signed by a service when its last part is a signature, by one of the two keys, of the
  first two.\<close>

definition signed_by :: "env \<Rightarrow> token_service \<Rightarrow> string \<Rightarrow> bool" where
  "signed_by E svc token \<longleftrightarrow> (\<exists>p0 p1 p2 sig. split_on (CHR ''.'') token = [p0, p1, p2] \<and> e_unb64 E p2 = Some sig
     \<and> (ts_verify_rs256 svc (p0 @ ''.'' @ p1) sig \<or> ts_verify_eddsa svc (p0 @ ''.'' @ p1) sig))"

text \<open>The services that the hub accepts for a token with this issuer and audience: those of the realm
  that the issuer names, of the realm of the client, or the global one.\<close>

definition hub_service :: "hub \<Rightarrow> token_service \<Rightarrow> bool" where
  "hub_service H svc \<longleftrightarrow> svc = hb_service H \<or> (\<exists>realm issuer. hb_realm_service H realm issuer = Inr svc)"

lemma context_service_hub:
  "context_service H issuer cid d = Inr svc \<Longrightarrow> hub_service H svc"
  unfolding context_service_def hub_service_def
  by (auto simp: bindr_Inr split: option.splits if_splits)

lemma decode_jwt_signed:
  assumes "decode_jwt E svc parse token = Inr c"
  shows "signed_by E svc token"
  using assms unfolding decode_jwt_ok signed_by_def by blast

text \<open>The payload that chooses the service is the payload that is verified.\<close>

lemma payload_verified:
  assumes "payload_unverified E parse token = Inr c" and "decode_jwt E svc parse token = Inr c'"
  shows "c = c'"
  using assms unfolding decode_jwt_ok payload_unverified_def
  by (auto simp: bind_eq_Some_conv split: option.splits)

lemma verify_access_any_ok:
  assumes "verify_access_any E H now token d = Inr c"
  shows "\<exists>svc. context_service H (at_iss c) (client_id_from_aud (at_aud c)) d = Inr svc
           \<and> signed_by E svc token \<and> at_iss c = ts_issuer svc \<and> now \<le> at_exp c"
proof -
  from assms obtain c0 svc where
    pay: "payload_unverified E (e_parse_access E) token = Inr c0"
    and svc: "context_service H (at_iss c0) (client_id_from_aud (at_aud c0)) d = Inr svc"
    and ver: "verify_access_token E svc now token = Inr c"
    unfolding verify_access_any_def bindr_Inr by auto
  from ver have dec: "decode_jwt E svc (e_parse_access E) token = Inr c"
    and c: "\<not> at_exp c < now" "at_iss c = ts_issuer svc"
    unfolding verify_access_token_def by (auto simp: bindr_Inr)
  from payload_verified [OF pay dec] svc decode_jwt_signed [OF dec] c show ?thesis
    by auto
qed

lemma verify_id_any_ok:
  assumes "verify_id_any E H now token d = Inr sub"
  shows "\<exists>c svc. payload_unverified E (e_parse_id E) token = Inr c \<and> ic_sub c = sub \<and> now \<le> ic_exp c
           \<and> context_service H (ic_iss c) (client_id_from_aud (ic_aud c)) d = Inr svc
           \<and> signed_by E svc token"
proof -
  from assms obtain c0 svc where
    pay: "payload_unverified E (e_parse_id E) token = Inr c0"
    and svc: "context_service H (ic_iss c0) (client_id_from_aud (ic_aud c0)) d = Inr svc"
    and ver: "verify_id_token E svc now token = Inr sub"
    unfolding verify_id_any_def bindr_Inr by auto
  from ver obtain c where dec: "decode_jwt E svc (e_parse_id E) token = Inr c"
    and c: "\<not> ic_exp c < now" "ic_sub c = sub"
    unfolding verify_id_token_def by (auto simp: bindr_Inr)
  from payload_verified [OF pay dec] pay svc decode_jwt_signed [OF dec] c show ?thesis
    by (intro exI [of _ c] exI [of _ svc]) auto
qed

end
