(* ===== verification/Dpop.thy ===== *)
theory Dpop
  imports Env Json
begin

text \<open>Signatures under a key in JWK form (\<open>oidc-oidc/src/tokens/jwt_service.rs\<close>) and DPoP proofs
  (\<open>oidc-oidc/src/tokens/dpop.rs\<close>): the check of a proof, the thumbprint of its key and the
  normalisation of the URI.  \<open>i64\<close> times are 64 bit words: the release build of the code wraps.  A slice
  outside a string or inside a character panics; \<open>None\<close> is that panic.\<close>

section \<open>Keys and signatures\<close>

definition str_member :: "json \<Rightarrow> string \<Rightarrow> string option" where
  "str_member j k = Option.bind (jget j k) as_str_json"

definition str_member_or_empty :: "json \<Rightarrow> string \<Rightarrow> string" where
  "str_member_or_empty j k = (case str_member j k of None \<Rightarrow> [] | Some s \<Rightarrow> s)"

definition member_or :: "json \<Rightarrow> string \<Rightarrow> oidc_error \<Rightarrow> string result" where
  "member_or j k e = (case str_member j k of None \<Rightarrow> Inl e | Some s \<Rightarrow> Inr s)"

text \<open>The algorithm is the one that the key names; the RSA branch does not look at the type of the
  key.  \<open>e_rsa_verify\<close> and \<open>e_ed25519_verify\<close> decode the key and check the signature.\<close>

(*@ oidc-oidc/src/tokens/jwt_service.rs 800-855 verify_signature_with_jwk *)
definition verify_signature_with_jwk :: "env \<Rightarrow> string \<Rightarrow> string \<Rightarrow> json \<Rightarrow> unit result" where
  "verify_signature_with_jwk E signing_input signature jwk =
     (let alg = str_member_or_empty jwk ''alg''; kty = str_member_or_empty jwk ''kty''
      in if alg = ''RS256'' then
           bindr (member_or jwk ''n'' (InvalidClientAssertion ''RSA JWK missing n'')) (\<lambda>n.
           bindr (member_or jwk ''e'' (InvalidClientAssertion ''RSA JWK missing e'')) (\<lambda>e.
           e_rsa_verify E n e signing_input signature))
         else if alg = ''EdDSA'' then
           bindr (ensure (kty = ''OKP'' \<and> str_member_or_empty jwk ''crv'' = ''Ed25519'')
                    (InvalidClientAssertion ''unsupported OKP curve for EdDSA'')) (\<lambda>_.
           bindr (member_or jwk ''x'' (InvalidClientAssertion ''Ed25519 JWK missing x'')) (\<lambda>x.
           e_ed25519_verify E x signing_input signature))
         else Inl (InvalidClientAssertion (''unsupported JWK alg: '' @ alg)))"

(*@ oidc-oidc/src/tokens/dpop.rs 248-308 compute_jwk_thumbprint *)
definition compute_jwk_thumbprint :: "env \<Rightarrow> json \<Rightarrow> string result" where
  "compute_jwk_thumbprint E jwk =
     bindr (member_or jwk ''kty'' (InvalidDPoPProof (''JWK missing '' @ quoted ''kty''))) (\<lambda>kty.
     bindr (if kty = ''RSA'' then
              bindr (member_or jwk ''n'' (InvalidDPoPProof (''RSA JWK missing '' @ quoted ''n''))) (\<lambda>n.
              bindr (member_or jwk ''e'' (InvalidDPoPProof (''RSA JWK missing '' @ quoted ''e''))) (\<lambda>e.
              Inr [(''e'', JStr e), (''kty'', JStr ''RSA''), (''n'', JStr n)]))
            else if kty = ''OKP'' then
              bindr (member_or jwk ''crv'' (InvalidDPoPProof (''OKP JWK missing '' @ quoted ''crv''))) (\<lambda>crv.
              bindr (member_or jwk ''x'' (InvalidDPoPProof (''OKP JWK missing '' @ quoted ''x''))) (\<lambda>x.
              Inr [(''crv'', JStr crv), (''kty'', JStr ''OKP''), (''x'', JStr x)]))
            else Inl (InvalidDPoPProof (''Unsupported JWK kty for thumbprint: '' @ quoted kty)))
       (\<lambda>canonical. Inr (e_b64 E (e_sha256 E (e_json_text E canonical)))))"


section \<open>Proofs\<close>

text \<open>The scheme of the result is fixed, the rest of the original string follows its scheme; the host is
  folded character by character, and the path starts at the length of the folded host.\<close>

definition slice_authority :: "env \<Rightarrow> string \<Rightarrow> string \<Rightarrow> string option" where
  "slice_authority E scheme trimmed =
     (let scheme_end = (if CHR '':'' \<in> set trimmed
                        then length (takeWhile (\<lambda>c. c \<noteq> CHR '':'') trimmed) + 3 else 0)
      in Option.bind (slice_from trimmed scheme_end) (\<lambda>rest.
         let authority = concat (map (e_char_lower E) (takeWhile (\<lambda>c. c \<noteq> ''/'') (utf8_chars rest)))
         in Option.bind (slice_from rest (length authority)) (\<lambda>path. Some (scheme @ authority @ path))))"

(*@ oidc-oidc/src/tokens/dpop.rs 333-379 normalize_uri *)
definition normalize_uri :: "env \<Rightarrow> string \<Rightarrow> string option" where
  "normalize_uri E uri =
     (let without_fragment = hd (split_on (CHR ''#'') uri);
          without_query = hd (split_on (CHR ''?'') without_fragment);
          trimmed = rev (dropWhile (\<lambda>c. c = CHR ''/'') (rev without_query));
          lower = e_lower E trimmed
      in if starts_with lower ''https://'' then slice_authority E ''https://'' trimmed
         else if starts_with lower ''http://'' then slice_authority E ''http://'' trimmed
         else Some trimmed)"

(*@ oidc-oidc/src/tokens/dpop.rs 317-323 compute_ath *)
definition compute_ath :: "env \<Rightarrow> string \<Rightarrow> string" where
  "compute_ath E token = e_b64 E (e_sha256 E token)"

(*@ oidc-oidc/src/tokens/dpop.rs 52-61 DpopProof *)
record dpop_proof =
  dpf_jwk_thumbprint :: string
  dpf_htm :: string
  dpf_htu :: string
  dpf_ath :: "string option"

(*@ oidc-oidc/src/tokens/dpop.rs 181-182 iat_diff *)
definition iat_diff :: "64 word \<Rightarrow> 64 word \<Rightarrow> 64 word" where
  "iat_diff iat now = (let d = iat - now in if sint d < 0 then - d else d)"

definition outside_window :: "64 word \<Rightarrow> 64 word \<Rightarrow> bool" where
  "outside_window iat now \<longleftrightarrow> 300 < sint (iat_diff iat now)"

text \<open>The checks before the URI, the check of the URI, which may panic, and those after it.\<close>

(*@ oidc-oidc/src/tokens/dpop.rs 91-145 header checks of verify_dpop_proof *)
definition dpop_parse_header :: "env \<Rightarrow> string \<Rightarrow> (string \<times> string \<times> string \<times> dpop_header) result" where
  "dpop_parse_header E value =
     (case split_on (CHR ''.'') value of
        [p0, p1, p2] \<Rightarrow>
          (case e_unb64 E p0 of
             None \<Rightarrow> Inl (InvalidDPoPProof ''DPoP proof header is not valid base64url'')
           | Some bytes \<Rightarrow>
               (case e_parse_dpop_header E bytes of
                  Inl err \<Rightarrow> Inl (InvalidDPoPProof (''DPoP proof header is not valid JSON: '' @ err))
                | Inr h \<Rightarrow>
                    bindr (ensure (dh_typ h = ''dpop+jwt'') (InvalidDPoPProof
                      (''DPoP proof typ must be '' @ quoted ''dpop+jwt'' @ '', got '' @ quoted (dh_typ h)))) (\<lambda>_.
                    bindr (ensure (dh_alg h = ''RS256'' \<or> dh_alg h = ''EdDSA'') (InvalidDPoPProof
                      (''DPoP proof alg must be RS256 or EdDSA, got '' @ quoted (dh_alg h)))) (\<lambda>_.
                    bindr (ensure (as_object (dh_jwk h) \<noteq> None) (InvalidDPoPProof
                      (''DPoP proof header must contain a '' @ quoted ''jwk''))) (\<lambda>_.
                    bindr (ensure (jget (dh_jwk h) ''d'' = None) (InvalidDPoPProof
                      (''DPoP proof jwk must not contain private key material ('' @ quoted ''d'' @ '')''))) (\<lambda>_.
                    let kty = str_member_or_empty (dh_jwk h) ''kty''
                    in bindr (ensure (kty = ''RSA'' \<or> kty = ''OKP'') (InvalidDPoPProof
                         (''DPoP proof jwk kty must be RSA or OKP, got '' @ quoted kty))) (\<lambda>_.
                       Inr (p0, p1, p2, h))))))))
      | _ \<Rightarrow> Inl (InvalidDPoPProof ''DPoP proof must be a JWT with 3 parts''))"

(*@ oidc-oidc/src/tokens/dpop.rs 148-168 claims checks of verify_dpop_proof *)
definition dpop_parse_claims :: "env \<Rightarrow> string \<Rightarrow> string \<Rightarrow> dpop_claims result" where
  "dpop_parse_claims E p1 expected_method =
     (case e_unb64 E p1 of
        None \<Rightarrow> Inl (InvalidDPoPProof ''DPoP proof claims are not valid base64url'')
      | Some bytes \<Rightarrow>
          (case e_parse_dpop_claims E bytes of
             Inl err \<Rightarrow> Inl (InvalidDPoPProof (''DPoP proof claims are not valid JSON: '' @ err))
           | Inr c \<Rightarrow>
               bindr (ensure (dp_jti c \<noteq> []) (InvalidDPoPProof
                  (''DPoP proof must contain a '' @ quoted ''jti'' @ '' claim''))) (\<lambda>_.
               bindr (ensure (e_upper E (dp_htm c) = e_upper E expected_method) (InvalidDPoPProof
                  (''DPoP proof htm must be '' @ quoted expected_method @ '', got '' @ quoted (dp_htm c)))) (\<lambda>_.
               Inr c))))"

definition with_alg :: "dpop_header \<Rightarrow> json" where
  "with_alg h = (case dh_jwk h of
       JObj m \<Rightarrow> if obj_get m ''alg'' = None then JObj (obj_insert ''alg'' (JStr (dh_alg h)) m) else JObj m
     | j \<Rightarrow> j)"

(*@ oidc-oidc/src/tokens/dpop.rs 180-235 window, ath, signature and thumbprint of verify_dpop_proof *)
definition dpop_finish ::
  "env \<Rightarrow> string option \<Rightarrow> 64 word \<Rightarrow> string \<times> string \<times> string \<times> dpop_header \<Rightarrow> dpop_claims \<Rightarrow> dpop_proof result" where
  "dpop_finish E access_token now parsed c =
     (let (p0, p1, p2, h) = parsed in
      bindr (ensure (\<not> outside_window (dp_iat c) now) (InvalidDPoPProof
         (''DPoP proof iat is outside the acceptable window ('' @ decimal (sint (iat_diff (dp_iat c) now))
            @ ''s from now)''))) (\<lambda>_.
      bindr (case access_token of
               None \<Rightarrow> Inr ()
             | Some token \<Rightarrow>
                 (case dp_ath c of
                    Some ath \<Rightarrow> ensure (ath = compute_ath E token)
                       (InvalidDPoPProof ''DPoP proof ath does not match the access token hash'')
                  | None \<Rightarrow> Inl (InvalidDPoPProof
                       (''DPoP proof must contain '' @ quoted ''ath'' @ '' when used with a protected resource'')))) (\<lambda>_.
      case e_unb64 E p2 of
        None \<Rightarrow> Inl (InvalidDPoPProof ''DPoP proof signature is not valid base64url'')
      | Some signature \<Rightarrow>
          (case verify_signature_with_jwk E (p0 @ ''.'' @ p1) signature (with_alg h) of
             Inl _ \<Rightarrow> Inl (InvalidDPoPProof ''DPoP proof signature verification failed'')
           | Inr _ \<Rightarrow>
               bindr (compute_jwk_thumbprint E (dh_jwk h)) (\<lambda>t.
               Inr \<lparr>dpf_jwk_thumbprint = t, dpf_htm = dp_htm c, dpf_htu = dp_htu c, dpf_ath = dp_ath c\<rparr>)))))"

(*@ oidc-oidc/src/tokens/dpop.rs 84-235 verify_dpop_proof *)
definition verify_dpop_proof ::
  "env \<Rightarrow> string \<Rightarrow> string \<Rightarrow> string \<Rightarrow> string option \<Rightarrow> 64 word \<Rightarrow> dpop_proof result option" where
  "verify_dpop_proof E value expected_method expected_uri access_token now =
     (case dpop_parse_header E value of
        Inl err \<Rightarrow> Some (Inl err)
      | Inr (p0, p1, p2, h) \<Rightarrow>
          (case dpop_parse_claims E p1 expected_method of
             Inl err \<Rightarrow> Some (Inl err)
           | Inr c \<Rightarrow>
               (case (normalize_uri E (dp_htu c), normalize_uri E expected_uri) of
                  (Some htu, Some expected) \<Rightarrow>
                    Some (bindr (ensure (htu = expected) (InvalidDPoPProof
                       (''DPoP proof htu must be '' @ quoted expected @ '', got '' @ quoted htu))) (\<lambda>_.
                      dpop_finish E access_token now (p0, p1, p2, h) c))
                | _ \<Rightarrow> None)))"



section \<open>Facts\<close>

lemma sint64_bounds: "- (2 ^ 63) \<le> sint (x :: 64 word)" "sint (x :: 64 word) < 2 ^ 63"
  using sint_ge [of x] sint_lt [of x] by simp_all

text \<open>Subtraction without a wrap.\<close>

lemma sint_diff_small:
  fixes a b :: "64 word"
  assumes "- (2 ^ 63) \<le> sint a - sint b" and "sint a - sint b < 2 ^ 63"
  shows "sint (a - b) = sint a - sint b"
proof -
  have "sint (a - b) = signed_take_bit 63 (sint a - sint b)"
    by (simp add: sint_word_ariths(2))
  then show ?thesis
    using assms by (simp add: signed_take_bit_int_eq_self)
qed

lemma sint_neg_small:
  fixes a :: "64 word"
  assumes "- (2 ^ 63) < sint a"
  shows "sint (- a) = - sint a"
  using sint_diff_small [of 0 a] assms sint64_bounds(2) [of a] by simp

lemma sint_most_negative: "sint (a :: 64 word) = - (2 ^ 63) \<longleftrightarrow> a = 2 ^ 63"
proof -
  have "sint (2 ^ 63 :: 64 word) = - (2 ^ 63)"
    by simp
  then show ?thesis
    by (metis signed_word_eqI)
qed

lemma sint_iat_diff:
  "sint (iat_diff iat now) = (if iat - now = 2 ^ 63 then - (2 ^ 63) else \<bar>sint (iat - now)\<bar>)"
proof (cases "iat - now = 2 ^ 63")
  case True
  then show ?thesis
    by (simp add: iat_diff_def Let_def)
next
  case False
  then have "- (2 ^ 63) < sint (iat - now)"
    using sint_most_negative [of "iat - now"] sint64_bounds(1) [of "iat - now"] by linarith
  with False show ?thesis
    using sint_neg_small [of "iat - now"] by (simp add: iat_diff_def Let_def)
qed

lemma outside_window_iff:
  "outside_window iat now \<longleftrightarrow> iat - now \<noteq> 2 ^ 63 \<and> 300 < \<bar>sint (iat - now)\<bar>"
  by (auto simp: outside_window_def sint_iat_diff)

text \<open>The time window of DPoP proofs, with the wrap-around of \<open>i64\<close>: for every clock before
  the year 146 billion, the release build accepts exactly the issue times within 300 seconds of
  the clock, and the one issue time whose difference to the clock is \<open>i64::MIN\<close>, whose absolute
  value wraps to a negative number (a debug build panics there).\<close>

theorem dpop_window:
  assumes "0 \<le> sint now" and "sint now < 2 ^ 62"
  shows "\<not> outside_window iat now \<longleftrightarrow>
    \<bar>sint iat - sint now\<bar> \<le> 300 \<or> sint iat = sint now - 2 ^ 63"
proof (cases "- (2 ^ 63) \<le> sint iat - sint now")
  case True
  then have "sint (iat - now) = sint iat - sint now"
    using assms sint64_bounds(2) [of iat] by (intro sint_diff_small) auto
  then show ?thesis
    using sint_most_negative [of "iat - now"] by (auto simp: outside_window_iff)
next
  case False
  have wrap: "sint (iat - now) = sint iat - sint now + 2 ^ 64"
  proof -
    have "sint (iat - now) = signed_take_bit 63 (sint iat - sint now)"
      by (simp add: sint_word_ariths(2))
    also have "\<dots> = signed_take_bit 63 (sint iat - sint now + 2 ^ 64)"
      by (rule signed_take_bit_eq_iff_take_bit_eq [THEN iffD2])
        (simp add: take_bit_eq_mod)
    also have "\<dots> = sint iat - sint now + 2 ^ 64"
      using False assms sint64_bounds(1) [of iat] by (intro signed_take_bit_int_eq_self) auto
    finally show ?thesis .
  qed
  have "300 < sint (iat - now)"
    using wrap assms sint64_bounds(1) [of iat] by simp
  then have "outside_window iat now"
    using sint_most_negative [of "iat - now"] by (auto simp: outside_window_iff)
  then show ?thesis
    using False by auto
qed


lemma dpop_parse_header_ok:
  "dpop_parse_header E value = Inr (p0, p1, p2, h) \<longleftrightarrow>
     split_on (CHR ''.'') value = [p0, p1, p2]
     \<and> (\<exists>bytes. e_unb64 E p0 = Some bytes \<and> e_parse_dpop_header E bytes = Inr h)
     \<and> dh_typ h = ''dpop+jwt'' \<and> (dh_alg h = ''RS256'' \<or> dh_alg h = ''EdDSA'')
     \<and> as_object (dh_jwk h) \<noteq> None \<and> jget (dh_jwk h) ''d'' = None
     \<and> (str_member_or_empty (dh_jwk h) ''kty'' = ''RSA'' \<or> str_member_or_empty (dh_jwk h) ''kty'' = ''OKP'')"
  unfolding dpop_parse_header_def Let_def
  by (auto simp: bindr_Inr split: list.splits option.splits sum.splits)

lemma dpop_parse_claims_ok:
  "dpop_parse_claims E p1 method = Inr c \<longleftrightarrow>
     (\<exists>bytes. e_unb64 E p1 = Some bytes \<and> e_parse_dpop_claims E bytes = Inr c)
     \<and> dp_jti c \<noteq> [] \<and> e_upper E (dp_htm c) = e_upper E method"
  unfolding dpop_parse_claims_def
  by (auto simp: bindr_Inr split: option.splits sum.splits)

lemma dpop_finish_ok:
  "dpop_finish E token now (p0, p1, p2, h) c = Inr p \<longleftrightarrow>
     \<not> outside_window (dp_iat c) now
     \<and> (\<forall>t. token = Some t \<longrightarrow> dp_ath c = Some (compute_ath E t))
     \<and> (\<exists>sig. e_unb64 E p2 = Some sig
          \<and> verify_signature_with_jwk E (p0 @ ''.'' @ p1) sig (with_alg h) = Inr ())
     \<and> (\<exists>t. compute_jwk_thumbprint E (dh_jwk h) = Inr t
          \<and> p = \<lparr>dpf_jwk_thumbprint = t, dpf_htm = dp_htm c, dpf_htu = dp_htu c, dpf_ath = dp_ath c\<rparr>)"
  unfolding dpop_finish_def Let_def prod.case
  by (auto simp: bindr_Inr split: option.splits sum.splits)

lemma verify_dpop_proof_ok:
  "verify_dpop_proof E value method uri token now = Some (Inr p) \<longleftrightarrow>
     (\<exists>p0 p1 p2 h c u. dpop_parse_header E value = Inr (p0, p1, p2, h)
        \<and> dpop_parse_claims E p1 method = Inr c
        \<and> normalize_uri E (dp_htu c) = Some u \<and> normalize_uri E uri = Some u
        \<and> dpop_finish E token now (p0, p1, p2, h) c = Inr p)"
  unfolding verify_dpop_proof_def
  by (auto simp: bindr_Inr split: option.splits sum.splits prod.splits)

text \<open>C17 An accepted DPoP proof is fresh and bound to the request.  Its header and its claims are what its
  first two segments decode to: a \<open>dpop+jwt\<close>, signed with RS256 or EdDSA, with an RSA or OKP key that has
  no private part, a non-empty \<open>jti\<close>, this method, this URI, an issue time within 300 seconds of the clock
  (or exactly \<open>2 ^ 63\<close> seconds away, where the absolute value of an \<open>i64\<close> wraps), and the hash of the access
  token where one is presented; its third segment is a signature over the other two under the key of the
  header, and the result holds the thumbprint of that key and the method, URI and hash of the claims.\<close>

theorem dpop_proof_sound:
  assumes "verify_dpop_proof E value method uri token now = Some (Inr p)"
  shows "\<exists>p0 p1 p2 head body h c sig. split_on (CHR ''.'') value = [p0, p1, p2]
    \<and> e_unb64 E p0 = Some head \<and> e_parse_dpop_header E head = Inr h
    \<and> e_unb64 E p1 = Some body \<and> e_parse_dpop_claims E body = Inr c
    \<and> dh_typ h = ''dpop+jwt'' \<and> dh_alg h \<in> {''RS256'', ''EdDSA''}
    \<and> str_member_or_empty (dh_jwk h) ''kty'' \<in> {''RSA'', ''OKP''}
    \<and> jget (dh_jwk h) ''d'' = None \<and> dp_jti c \<noteq> []
    \<and> e_upper E (dp_htm c) = e_upper E method
    \<and> normalize_uri E (dp_htu c) = normalize_uri E uri \<and> normalize_uri E uri \<noteq> None
    \<and> (\<bar>sint (dp_iat c - now)\<bar> \<le> 300 \<or> dp_iat c - now = 2 ^ 63)
    \<and> (\<forall>t. token = Some t \<longrightarrow> dp_ath c = Some (compute_ath E t))
    \<and> e_unb64 E p2 = Some sig
    \<and> verify_signature_with_jwk E (p0 @ ''.'' @ p1) sig (with_alg h) = Inr ()
    \<and> compute_jwk_thumbprint E (dh_jwk h) = Inr (dpf_jwk_thumbprint p)
    \<and> dpf_htm p = dp_htm c \<and> dpf_htu p = dp_htu c \<and> dpf_ath p = dp_ath c"
proof -
  from assms obtain p0 p1 p2 h c u where
    h: "dpop_parse_header E value = Inr (p0, p1, p2, h)" and c: "dpop_parse_claims E p1 method = Inr c"
    and u: "normalize_uri E (dp_htu c) = Some u" "normalize_uri E uri = Some u"
    and fin: "dpop_finish E token now (p0, p1, p2, h) c = Inr p"
    unfolding verify_dpop_proof_ok by blast
  from fin obtain sig where sig: "e_unb64 E p2 = Some sig"
    "verify_signature_with_jwk E (p0 @ ''.'' @ p1) sig (with_alg h) = Inr ()"
    unfolding dpop_finish_ok by blast
  have thumb: "compute_jwk_thumbprint E (dh_jwk h) = Inr (dpf_jwk_thumbprint p)"
    using fin by (auto simp: dpop_finish_ok)
  obtain head body where decoded: "e_unb64 E p0 = Some head" "e_parse_dpop_header E head = Inr h"
      "e_unb64 E p1 = Some body" "e_parse_dpop_claims E body = Inr c"
    using h c unfolding dpop_parse_header_ok dpop_parse_claims_ok by blast
  have parts: "split_on (CHR ''.'') value = [p0, p1, p2]" "dh_typ h = ''dpop+jwt''" "dh_alg h \<in> {''RS256'', ''EdDSA''}"
      "str_member_or_empty (dh_jwk h) ''kty'' \<in> {''RSA'', ''OKP''}" "jget (dh_jwk h) ''d'' = None" "dp_jti c \<noteq> []"
      "e_upper E (dp_htm c) = e_upper E method"
    using h c unfolding dpop_parse_header_ok dpop_parse_claims_ok by blast+
  have window: "\<bar>sint (dp_iat c - now)\<bar> \<le> 300 \<or> dp_iat c - now = 2 ^ 63"
    using fin unfolding dpop_finish_ok outside_window_iff by linarith
  have bound: "\<forall>t. token = Some t \<longrightarrow> dp_ath c = Some (compute_ath E t)" "dpf_htm p = dp_htm c"
      "dpf_htu p = dp_htu c" "dpf_ath p = dp_ath c"
    using fin by (auto simp: dpop_finish_ok)
  have uris: "normalize_uri E (dp_htu c) = normalize_uri E uri" "normalize_uri E uri \<noteq> None"
    using u by simp_all
  show ?thesis
    using decoded parts window bound uris sig thumb by blast
qed


section \<open>Key confusion\<close>

text \<open>The key type of the thumbprint and the algorithm of the signature are chosen by different members of
  the key: a key of type OKP may carry the members of an RSA key, and with the algorithm RS256 it is
  these that the signature is checked with.\<close>

definition confused_jwk :: "string \<Rightarrow> string \<Rightarrow> string \<Rightarrow> string \<Rightarrow> json" where
  "confused_jwk crv x n e =
     json_object [(''kty'', JStr ''OKP''), (''crv'', JStr crv), (''x'', JStr x), (''n'', JStr n), (''e'', JStr e)]"

definition okp_jwk :: "string \<Rightarrow> string \<Rightarrow> json" where
  "okp_jwk crv x = json_object [(''kty'', JStr ''OKP''), (''crv'', JStr crv), (''x'', JStr x)]"

lemma obj_get_object [simp]: "jget (json_object kvs) k = map_of (rev kvs) k"
proof -
  have "obj_get (obj.ins_all kvs m) k = (case map_of (rev kvs) k of None \<Rightarrow> obj_get m k | Some v \<Rightarrow> Some v)" for m
    unfolding obj.ins_all_def
    by (induction kvs arbitrary: m) (auto simp: map_add_def split: option.splits)
  then show ?thesis
    by (simp add: json_object_def split: option.splits)
qed

text \<open>The key of a proof can be confused: whoever can sign under any RSA key is accepted as
  the holder of any Ed25519 key whose public part he knows.  For every curve point \<open>x\<close> and every
  RSA key \<open>(n, e)\<close>, a proof with the header key \<open>confused_jwk\<close>, signed under that RSA key, is accepted
  with the thumbprint of the Ed25519 key: tokens that are bound to the Ed25519 key can be used
  without it.\<close>

theorem dpop_key_confusion:
  assumes "split_on (CHR ''.'') value = [p0, p1, p2]"
    and "e_unb64 E p0 = Some hb" and "e_parse_dpop_header E hb = Inr h"
    and "dh_typ h = ''dpop+jwt''" and "dh_alg h = ''RS256''" and "dh_jwk h = confused_jwk crv x n e"
    and "e_unb64 E p1 = Some cb" and "e_parse_dpop_claims E cb = Inr c" and "dp_jti c \<noteq> []"
    and "e_upper E (dp_htm c) = e_upper E method"
    and "normalize_uri E (dp_htu c) = Some u" and "normalize_uri E uri = Some u"
    and "\<not> outside_window (dp_iat c) now"
    and "\<forall>t. token = Some t \<longrightarrow> dp_ath c = Some (compute_ath E t)"
    and "e_unb64 E p2 = Some sig" and "e_rsa_verify E n e (p0 @ ''.'' @ p1) sig = Inr ()"
  shows "\<exists>p. verify_dpop_proof E value method uri token now = Some (Inr p)
    \<and> compute_jwk_thumbprint E (okp_jwk crv x) = Inr (dpf_jwk_thumbprint p)"
proof -
  have members: "str_member (dh_jwk h) ''kty'' = Some ''OKP''" "str_member (dh_jwk h) ''crv'' = Some crv"
    "str_member (dh_jwk h) ''x'' = Some x" "str_member (dh_jwk h) ''n'' = Some n"
    "str_member (dh_jwk h) ''e'' = Some e" "jget (dh_jwk h) ''alg'' = None" "jget (dh_jwk h) ''d'' = None"
    by (simp_all add: assms(6) str_member_def confused_jwk_def)
  obtain m where jwk: "dh_jwk h = JObj m"
    by (simp add: assms(6) confused_jwk_def json_object_def)
  have "verify_signature_with_jwk E (p0 @ ''.'' @ p1) sig (with_alg h) = Inr ()"
    using members assms(5, 16) unfolding jwk
    by (simp add: verify_signature_with_jwk_def with_alg_def jwk str_member_or_empty_def str_member_def
        member_or_def)
  moreover have thumb: "compute_jwk_thumbprint E (dh_jwk h) = compute_jwk_thumbprint E (okp_jwk crv x)"
    using members
    by (simp add: compute_jwk_thumbprint_def member_or_def okp_jwk_def str_member_def)
  moreover obtain t where "compute_jwk_thumbprint E (dh_jwk h) = Inr t"
    using members by (simp add: compute_jwk_thumbprint_def member_or_def)
  ultimately have "dpop_finish E token now (p0, p1, p2, h) c
      = Inr \<lparr>dpf_jwk_thumbprint = t, dpf_htm = dp_htm c, dpf_htu = dp_htu c, dpf_ath = dp_ath c\<rparr>"
    using assms(13-15) by (auto simp: dpop_finish_ok)
  moreover have "dpop_parse_header E value = Inr (p0, p1, p2, h)"
    using assms(1-5) members jwk by (simp add: dpop_parse_header_ok str_member_or_empty_def)
  moreover have "dpop_parse_claims E p1 method = Inr c"
    using assms(7-10) by (simp add: dpop_parse_claims_ok)
  ultimately show ?thesis
    using assms(11, 12) thumb \<open>compute_jwk_thumbprint E (dh_jwk h) = Inr t\<close>
    unfolding verify_dpop_proof_ok
    by (metis dpop_proof.select_convs(1))
qed



section \<open>A panic\<close>

lemma normalize_uri_panics:
  assumes "host \<noteq> []" and "set host \<inter> set ''#?/'' = {}"
    and "starts_with (e_lower E (''https://'' @ host)) ''https://''"
    and "length host < length (concat (map (e_char_lower E) (utf8_chars host)))"
  shows "normalize_uri E (''https://'' @ host) = None"
proof -
  let ?uri = "''https://'' @ host"
  have split: "split_on (CHR ''#'') ?uri = [?uri]" "split_on (CHR ''?'') ?uri = [?uri]"
    using assms(2) by (auto simp: split_on_single)
  have "last host \<noteq> CHR ''/''"
    using assms(1, 2) last_in_set [of host] by (metis disjoint_iff list.set_intros(1) list.set_intros(2))
  then have trimmed: "rev (dropWhile (\<lambda>c. c = CHR ''/'') (rev ?uri)) = ?uri"
    by (cases host rule: rev_cases) (use assms(1) in auto)
  have chars: "takeWhile (\<lambda>c. c \<noteq> ''/'') (utf8_chars host) = utf8_chars host"
  proof -
    have "''/'' \<notin> set (utf8_chars host)"
    proof
      assume "''/'' \<in> set (utf8_chars host)"
      then have "CHR ''/'' \<in> set (concat (utf8_chars host))"
        by force
      then show False
        using assms(2) by (simp add: concat_utf8_chars)
    qed
    then show ?thesis
      by (auto simp: takeWhile_eq_all_conv)
  qed
  have path: "slice_from host (length (concat (map (e_char_lower E)
      (takeWhile (\<lambda>c. c \<noteq> ''/'') (utf8_chars host))))) = None"
    unfolding chars by (rule slice_from_beyond [OF assms(4)])
  have "slice_from ?uri 8 \<in> {None, Some host}"
    by (auto simp: slice_from_def)
  moreover have "CHR '':'' \<in> set ?uri" "length (takeWhile (\<lambda>c. c \<noteq> CHR '':'') ?uri) + 3 = 8"
    by simp_all
  ultimately have "slice_authority E ''https://'' ?uri = None"
    using path unfolding slice_authority_def Let_def by auto
  then show ?thesis
    using assms(3) split trimmed by (simp add: normalize_uri_def Let_def)
qed

text \<open>A proof can make the server panic: when folding the case of the host lengthens it, as with the
  letter I with a dot (two bytes, of which \<open>to_lowercase\<close> makes three), the path is sliced beyond the end
  of the URI, before any signature is checked.\<close>

theorem dpop_uri_panics:
  assumes "dpop_parse_header E value = Inr (p0, p1, p2, h)" and "dpop_parse_claims E p1 method = Inr c"
    and "dp_htu c = ''https://'' @ host" and "host \<noteq> []" and "set host \<inter> set ''#?/'' = {}"
    and "starts_with (e_lower E (dp_htu c)) ''https://''"
    and "length host < length (concat (map (e_char_lower E) (utf8_chars host)))"
  shows "verify_dpop_proof E value method uri token now = None"
proof -
  have "normalize_uri E (dp_htu c) = None"
    using normalize_uri_panics [of host E] assms(3-7) by simp
  then show ?thesis
    using assms(1, 2) by (simp add: verify_dpop_proof_def)
qed


section \<open>A run\<close>

definition sample_header :: dpop_header where
  "sample_header = \<lparr>dh_typ = ''dpop+jwt'', dh_alg = ''RS256'', dh_jwk = confused_jwk ''Ed25519'' ''X'' ''N'' ''E'',
     dh_kid = None\<rparr>"

definition sample_proof_claims :: "string \<Rightarrow> dpop_claims" where
  "sample_proof_claims htu = \<lparr>dp_jti = ''j'', dp_htm = ''POST'', dp_htu = htu, dp_iat = 0, dp_ath = None,
     dp_cnf = None\<rparr>"

definition dpop_env :: "string \<Rightarrow> env" where
  "dpop_env htu = sample_env\<lparr>e_parse_dpop_header := (\<lambda>_. Inr sample_header),
     e_parse_dpop_claims := (\<lambda>_. Inr (sample_proof_claims htu)),
     e_char_lower := (\<lambda>c. if c = [CHR 0xC4, CHR 0xB0] then [CHR 0x69, CHR 0xCC, CHR 0x87]
                         else to_ascii_lowercase c)\<rparr>"

lemmas dpop_sample = dpop_env_def sample_header_def sample_proof_claims_def sample_env_def

lemma sample_window: "\<not> outside_window 0 0"
  by (simp add: outside_window_def iat_diff_def)

lemma sample_key:
  "str_member (dh_jwk sample_header) ''kty'' = Some ''OKP''"
  "str_member (dh_jwk sample_header) ''crv'' = Some ''Ed25519''"
  "str_member (dh_jwk sample_header) ''x'' = Some ''X''"
  "jget (dh_jwk sample_header) ''d'' = None"
  "as_object (dh_jwk sample_header) \<noteq> None"
  by (simp_all add: sample_header_def str_member_def confused_jwk_def) (simp add: json_object_def)

lemma sample_parsed:
  "dpop_parse_header (dpop_env htu) ''h.c.s'' = Inr (''h'', ''c'', ''s'', sample_header)"
  "dpop_parse_claims (dpop_env htu) ''c'' ''POST'' = Inr (sample_proof_claims htu)"
proof -
  have "dh_typ sample_header = ''dpop+jwt''" "dh_alg sample_header = ''RS256''"
    "e_parse_dpop_header (dpop_env htu) b = Inr sample_header" "e_unb64 (dpop_env htu) b = Some b" for b
    by (simp_all add: sample_header_def dpop_env_def) (simp add: sample_env_def)
  then show "dpop_parse_header (dpop_env htu) ''h.c.s'' = Inr (''h'', ''c'', ''s'', sample_header)"
    using sample_key by (simp add: dpop_parse_header_ok str_member_or_empty_def)
  show "dpop_parse_claims (dpop_env htu) ''c'' ''POST'' = Inr (sample_proof_claims htu)"
    by (simp add: dpop_parse_claims_ok) (simp add: dpop_sample)
qed

lemma sample_uri: "normalize_uri (dpop_env ''op'') ''op'' = Some ''op''"
  by (simp add: normalize_uri_def dpop_sample starts_with_def)

lemma dpop_key_confusion_witness:
  "\<exists>p. verify_dpop_proof (dpop_env ''op'') ''h.c.s'' ''POST'' ''op'' None 0 = Some (Inr p)
     \<and> compute_jwk_thumbprint (dpop_env ''op'') (okp_jwk ''Ed25519'' ''X'') = Inr (dpf_jwk_thumbprint p)"
proof (rule dpop_key_confusion [where h = sample_header and c = "sample_proof_claims ''op''" and n = "''N''"
      and e = "''E''" and u = "''op''"])
  show "normalize_uri (dpop_env ''op'') ''op'' = Some ''op''"
    by (rule sample_uri)
  show "normalize_uri (dpop_env ''op'') (dp_htu (sample_proof_claims ''op'')) = Some ''op''"
    using sample_uri by (simp add: sample_proof_claims_def)
  show "\<not> outside_window (dp_iat (sample_proof_claims ''op'')) 0"
    using sample_window by (simp add: sample_proof_claims_def)
qed (simp_all add: dpop_sample)

lemma dpop_proof_sound_witness:
  "\<exists>p t. verify_dpop_proof (dpop_env ''op'') ''h.c.s'' ''POST'' ''op'' None 0 = Some (Inr p)
     \<and> compute_jwk_thumbprint (dpop_env ''op'') t = Inr (dpf_jwk_thumbprint p)"
proof -
  obtain t where thumb: "compute_jwk_thumbprint (dpop_env ''op'') (dh_jwk sample_header) = Inr t"
    using sample_key by (simp add: compute_jwk_thumbprint_def member_or_def)
  have "verify_signature_with_jwk (dpop_env ''op'') (''h'' @ ''.'' @ ''c'') ''s'' (with_alg sample_header) = Inr ()"
    by (simp add: verify_signature_with_jwk_def with_alg_def sample_header_def confused_jwk_def
        json_object_def obj.ins_all_def byte_def member_or_def str_member_def str_member_or_empty_def
        Let_def obj_get_def)
      (simp add: dpop_sample)
  then obtain p where "dpop_finish (dpop_env ''op'') None 0 (''h'', ''c'', ''s'', sample_header)
      (sample_proof_claims ''op'') = Inr p"
    using thumb sample_window
    by (simp add: dpop_finish_ok sample_proof_claims_def) (simp add: dpop_env_def sample_env_def)
  then have run: "verify_dpop_proof (dpop_env ''op'') ''h.c.s'' ''POST'' ''op'' None 0 = Some (Inr p)"
    using sample_uri sample_parsed unfolding verify_dpop_proof_ok
    by (metis dpop_claims.select_convs(3) sample_proof_claims_def)
  from dpop_proof_sound [OF run] run show ?thesis
    by blast
qed

lemma dpop_window_witness: "\<not> outside_window (word_of_int (- 300)) 0 \<and> \<not> outside_window (2 ^ 63) 0 \<and> outside_window 301 0"
  using dpop_window [of 0 "word_of_int (- 300)"] dpop_window [of 0 "2 ^ 63"] dpop_window [of 0 301] by simp

lemma dpop_uri_panics_witness:
  "verify_dpop_proof (dpop_env (''https://'' @ [CHR 0xC4, CHR 0xB0])) ''h.c.s'' ''POST'' ''op'' None 0 = None"
proof (rule dpop_uri_panics [where h = sample_header and host = "[CHR 0xC4, CHR 0xB0]"])
  show "dpop_parse_header (dpop_env (''https://'' @ [CHR 0xC4, CHR 0xB0])) ''h.c.s'' = Inr (''h'', ''c'', ''s'', sample_header)"
    by (rule sample_parsed)
  show "dpop_parse_claims (dpop_env (''https://'' @ [CHR 0xC4, CHR 0xB0])) ''c'' ''POST''
      = Inr (sample_proof_claims (''https://'' @ [CHR 0xC4, CHR 0xB0]))"
    by (rule sample_parsed)
qed (simp_all add: dpop_sample starts_with_def is_cont_def byte_def)

end
