(* ===== verification/Client_Auth.thy ===== *)
theory Client_Auth
  imports Dpop Issue Sessions
begin

text \<open>Client authentication: client assertions (\<open>oidc-oidc/src/tokens/jwt_service.rs\<close>), the
  authentication at the token endpoint (\<open>endpoints/token.rs\<close>) and at the other endpoints
  (\<open>endpoints/client_auth.rs\<close>), two copies of the same procedure with their own errors.  The
  parameters of a request are a map; \<open>authorization\<close> is the text of the header of that name, \<open>None\<close> when
  it is missing or not text.\<close>

type_synonym params = "string \<rightharpoonup> string"

section \<open>Client assertions\<close>

(*@ oidc-oidc/src/tokens/jwt_service.rs 625-646 parse_client_assertion_unverified *)
definition parse_assertion ::
  "env \<Rightarrow> string \<Rightarrow> (jwt_header \<times> assertion_claims \<times> string \<times> string) result" where
  "parse_assertion E token =
     (case split_on (CHR ''.'') token of
        [p0, p1, p2] \<Rightarrow>
          (case e_unb64 E p0 of
             None \<Rightarrow> Inl (InvalidClientAssertion ''invalid header encoding'')
           | Some hb \<Rightarrow>
          (case e_parse_header E hb of
             None \<Rightarrow> Inl (InvalidClientAssertion ''invalid header JSON'')
           | Some h \<Rightarrow>
          (case e_unb64 E p1 of
             None \<Rightarrow> Inl (InvalidClientAssertion ''invalid claims encoding'')
           | Some cb \<Rightarrow>
          (case e_parse_assertion E cb of
             None \<Rightarrow> Inl (InvalidClientAssertion ''invalid claims JSON'')
           | Some c \<Rightarrow>
          (case e_unb64 E p2 of
             None \<Rightarrow> Inl (InvalidClientAssertion ''invalid signature encoding'')
           | Some sig \<Rightarrow> Inr (h, c, p0 @ ''.'' @ p1, sig))))))
      | _ \<Rightarrow> Inl (InvalidClientAssertion ''invalid JWT format''))"

text \<open>The checks of the claims, the same lines for both kinds of assertion.\<close>

(*@ oidc-oidc/src/tokens/jwt_service.rs 936-960 claims checks of an assertion *)
definition check_assertion :: "assertion_claims \<Rightarrow> string \<Rightarrow> string \<Rightarrow> int \<Rightarrow> unit result" where
  "check_assertion c expected_aud expected_iss now =
     bindr (ensure (as_iss c = expected_iss) (InvalidClientAssertion ''iss does not match client_id'')) (\<lambda>_.
     bindr (ensure (as_sub c = expected_iss) (InvalidClientAssertion ''sub does not match client_id'')) (\<lambda>_.
     bindr (ensure (as_aud c = expected_aud) (InvalidClientAssertion ''aud does not match token endpoint'')) (\<lambda>_.
     bindr (ensure (\<not> as_exp c < now) (InvalidClientAssertion ''client assertion expired'')) (\<lambda>_.
     ensure (\<not> now + 300 < as_iat c)
       (InvalidClientAssertion ''client assertion issued too far in the future'')))))"

fun first_key :: "string \<Rightarrow> string \<Rightarrow> json list \<Rightarrow> json option" where
  "first_key kid alg [] = None"
| "first_key kid alg (k # ks) =
     (let key_alg = str_member_or_empty k ''alg''
      in if str_member_or_empty k ''kid'' = kid \<and> (key_alg = alg \<or> key_alg = []) then Some k
         else first_key kid alg ks)"

(*@ oidc-oidc/src/tokens/jwt_service.rs 754-773 find_jwk_in_jwks *)
definition find_jwk :: "json \<Rightarrow> string \<Rightarrow> string \<Rightarrow> json result" where
  "find_jwk jwks kid alg =
     (case Option.bind (jget jwks ''keys'') as_array of
        None \<Rightarrow> Inl (InvalidClientAssertion ''jwks has no keys array'')
      | Some ks \<Rightarrow>
          (case first_key kid alg ks of
             None \<Rightarrow> Inl (InvalidClientAssertion (''no JWK found for kid='' @ kid @ '' alg='' @ alg))
           | Some k \<Rightarrow> Inr k))"

(*@ oidc-oidc/src/tokens/jwt_service.rs 656-696 verify_client_assertion *)
definition verify_client_assertion ::
  "env \<Rightarrow> string \<Rightarrow> json \<Rightarrow> string \<Rightarrow> string \<Rightarrow> int \<Rightarrow> assertion_claims result" where
  "verify_client_assertion E token jwks expected_aud expected_iss now =
     bindr (parse_assertion E token) (\<lambda>(h, c, input, sig).
     bindr (check_assertion c expected_aud expected_iss now) (\<lambda>_.
     bindr (find_jwk jwks (h_kid h) (h_alg h)) (\<lambda>k.
     bindr (verify_signature_with_jwk E input sig k) (\<lambda>_. Inr c))))"

(*@ oidc-oidc/src/tokens/jwt_service.rs 861-919 verify_hmac_signature *)
definition verify_hmac_signature :: "env \<Rightarrow> string \<Rightarrow> string \<Rightarrow> string \<Rightarrow> string \<Rightarrow> unit result" where
  "verify_hmac_signature E input sig secret alg =
     (if alg \<in> {''HS256'', ''HS384'', ''HS512''}
      then ensure (e_hmac E alg secret input = sig) (InvalidClientAssertion ''HMAC signature verification failed'')
      else Inl (InvalidClientAssertion (''unsupported HMAC alg: '' @ alg)))"

(*@ oidc-oidc/src/tokens/jwt_service.rs 925-980 verify_client_secret_jwt *)
definition verify_client_secret_jwt ::
  "env \<Rightarrow> string \<Rightarrow> string \<Rightarrow> string \<Rightarrow> string \<Rightarrow> int \<Rightarrow> assertion_claims result" where
  "verify_client_secret_jwt E token secret expected_aud expected_iss now =
     bindr (parse_assertion E token) (\<lambda>(h, c, input, sig).
     bindr (check_assertion c expected_aud expected_iss now) (\<lambda>_.
     bindr (ensure (h_alg h \<in> {''HS256'', ''HS384'', ''HS512''})
        (InvalidClientAssertion (''client_secret_jwt requires HS256/HS384/HS512, got: '' @ h_alg h))) (\<lambda>_.
     bindr (verify_hmac_signature E input sig secret (h_alg h)) (\<lambda>_. Inr c))))"


section \<open>Presented credentials\<close>

(*@ oidc-oidc/src/endpoints/token.rs 25-30 PresentedClientAuthMethod *)
datatype presented = PresentedNone | PresentedBasic | PresentedPost | PresentedAssertion

definition basic_credentials :: "string option \<Rightarrow> string option" where
  "basic_credentials authorization = Option.bind authorization (\<lambda>a. strip_prefix a ''Basic '')"

(*@ oidc-oidc/src/endpoints/token.rs 55-69 presented_auth_method *)
definition presented_method :: "string option \<Rightarrow> params \<Rightarrow> presented result" where
  "presented_method authorization params =
     (case (basic_credentials authorization \<noteq> None, params ''client_assertion'' \<noteq> None,
            params ''client_secret'' \<noteq> None) of
        (True, False, False) \<Rightarrow> Inr PresentedBasic
      | (False, True, False) \<Rightarrow> Inr PresentedAssertion
      | (False, False, True) \<Rightarrow> Inr PresentedPost
      | (False, False, False) \<Rightarrow> Inr PresentedNone
      | _ \<Rightarrow> Inl InvalidClient)"

(*@ oidc-oidc/src/endpoints/client_auth.rs 17-36 detect_presented_client_auth_method *)
definition detect_method :: "string option \<Rightarrow> params \<Rightarrow> error_response + presented" where
  "detect_method authorization params =
     (case (basic_credentials authorization \<noteq> None, params ''client_assertion'' \<noteq> None,
            params ''client_secret'' \<noteq> None) of
        (True, False, False) \<Rightarrow> Inr PresentedBasic
      | (False, True, False) \<Rightarrow> Inr PresentedAssertion
      | (False, False, True) \<Rightarrow> Inr PresentedPost
      | _ \<Rightarrow> Inl (oauth_error ''invalid_client'' ''Invalid client authentication''))"

definition or_insert :: "string \<Rightarrow> string \<Rightarrow> params \<Rightarrow> params" where
  "or_insert k v p = (if p k = None then p(k \<mapsto> v) else p)"

text \<open>The credentials of the header, written into the parameters where these do not have them;
  \<open>None\<close> when the parameters name another client.\<close>

(*@ oidc-oidc/src/endpoints/client_auth.rs 38-67 inject_basic_auth_credentials *)
definition inject_basic :: "env \<Rightarrow> string option \<Rightarrow> params \<Rightarrow> params option" where
  "inject_basic E authorization params =
     (case basic_credentials authorization of
        None \<Rightarrow> Some params
      | Some credentials \<Rightarrow>
          (case e_b64_standard E credentials of
             None \<Rightarrow> Some params
           | Some bytes \<Rightarrow>
               if \<not> e_is_utf8 E bytes then Some params
               else (case split_once (CHR '':'') bytes of
                       None \<Rightarrow> Some params
                     | Some (cid, secret) \<Rightarrow>
                         if params ''client_id'' \<noteq> None \<and> params ''client_id'' \<noteq> Some cid then None
                         else Some (or_insert ''client_secret'' secret (or_insert ''client_id'' cid params)))))"

definition jwt_bearer_type :: string where
  "jwt_bearer_type = ''urn:ietf:params:oauth:client-assertion-type:jwt-bearer''"


section \<open>Authentication at the token endpoint\<close>

definition check_secret :: "env \<Rightarrow> params \<Rightarrow> client \<Rightarrow> unit result" where
  "check_secret E params c =
     bindr (or_error (params ''client_secret'') InvalidClient) (\<lambda>secret.
     bindr (or_error (c_client_secret_hash c) InvalidClient) (\<lambda>hash.
     bindr (e_hasher_verify E secret hash) (\<lambda>ok.
     ensure ok InvalidClient)))"

(*@ oidc-oidc/src/endpoints/token.rs 232-378 authenticate_client *)
definition authenticate_client ::
  "env \<Rightarrow> params \<Rightarrow> presented \<Rightarrow> string \<Rightarrow> int \<Rightarrow> db \<Rightarrow> (client \<times> string) result" where
  "authenticate_client E params method uri now d =
     (case params ''client_assertion'' of
        Some assertion \<Rightarrow>
          bindr (ensure (method = PresentedAssertion) InvalidClient) (\<lambda>_.
          bindr (or_error (params ''client_assertion_type'') InvalidClient) (\<lambda>typ.
          bindr (ensure (typ = jwt_bearer_type) InvalidClient) (\<lambda>_.
          bindr (parse_assertion E assertion) (\<lambda>(_, claims, _, _).
          bindr (ensure (params ''client_id'' = None \<or> params ''client_id'' = Some (as_iss claims)) InvalidClient) (\<lambda>_.
          let cid = as_iss claims
          in bindr (or_error (client_by_client_id cid d) InvalidClient) (\<lambda>c.
             bindr (ensure (c_enabled c) InvalidClient) (\<lambda>_.
             bindr (if c_token_endpoint_auth_method c = ''private_key_jwt'' then
                      bindr (or_error (c_jwks c) (InvalidClientAssertion ''client has no jwks'')) (\<lambda>jwks.
                      bindr (verify_client_assertion E assertion jwks uri cid now) (\<lambda>_. Inr ()))
                    else if c_token_endpoint_auth_method c = ''client_secret_jwt'' then
                      bindr (or_error (c_client_secret_encrypted c)
                        (InvalidClientAssertion ''client has no encrypted secret for client_secret_jwt'')) (\<lambda>enc.
                      bindr (map_err (\<lambda>_. InvalidClientAssertion ''failed to decrypt client secret'')
                        (e_decrypt E enc)) (\<lambda>secret.
                      bindr (ensure (e_is_utf8 E secret)
                        (InvalidClientAssertion ''invalid client secret encoding'')) (\<lambda>_.
                      bindr (verify_client_secret_jwt E assertion secret uri cid now) (\<lambda>_. Inr ()))))
                    else Inl InvalidClient) (\<lambda>_.
             Inr (c, cid)))))))))
      | None \<Rightarrow>
          bindr (or_error (params ''client_id'') InvalidClient) (\<lambda>cid.
          bindr (or_error (client_by_client_id cid d) InvalidClient) (\<lambda>c.
          bindr (ensure (c_enabled c) InvalidClient) (\<lambda>_.
          bindr (if c_token_endpoint_auth_method c = ''none'' then
                   ensure (method = PresentedNone \<and> c_client_type c \<noteq> Confidential) InvalidClient
                 else if c_token_endpoint_auth_method c = ''client_secret_basic'' then
                   bindr (ensure (method = PresentedBasic) InvalidClient) (\<lambda>_. check_secret E params c)
                 else if c_token_endpoint_auth_method c = ''client_secret_post'' then
                   bindr (ensure (method = PresentedPost) InvalidClient) (\<lambda>_. check_secret E params c)
                 else Inl InvalidClient) (\<lambda>_.
          Inr (c, cid))))))"


section \<open>Authentication at the other endpoints\<close>

definition invalid_client :: "string \<Rightarrow> error_response" where
  "invalid_client = oauth_error ''invalid_client''"

definition enabled_client :: "string \<Rightarrow> db \<Rightarrow> error_response + client" where
  "enabled_client cid d = (case client_by_client_id cid d of
       None \<Rightarrow> Inl (invalid_client ''Client not found'')
     | Some c \<Rightarrow> if c_enabled c then Inr c else Inl (invalid_client ''Client is disabled''))"

(*@ oidc-oidc/src/endpoints/client_auth.rs 69-222 authenticate_client_for_endpoint *)
definition authenticate_for_endpoint ::
  "env \<Rightarrow> params \<Rightarrow> presented \<Rightarrow> string \<Rightarrow> int \<Rightarrow> db \<Rightarrow> error_response + client" where
  "authenticate_for_endpoint E params method uri now d =
     (case params ''client_assertion'' of
        Some assertion \<Rightarrow>
          bindr (ensure (method = PresentedAssertion) (invalid_client ''Invalid client authentication'')) (\<lambda>_.
          bindr (or_error (params ''client_assertion_type'') (invalid_client ''Missing client_assertion_type'')) (\<lambda>typ.
          bindr (ensure (typ = jwt_bearer_type) (invalid_client ''Unsupported client_assertion_type'')) (\<lambda>_.
          bindr (map_err (\<lambda>e. invalid_client (''Invalid client assertion: '' @ error_text e))
                   (parse_assertion E assertion)) (\<lambda>(_, claims, _, _).
          bindr (ensure (params ''client_id'' = None \<or> params ''client_id'' = Some (as_iss claims))
                   (invalid_client ''Mismatched client_id'')) (\<lambda>_.
          let cid = as_iss claims
          in bindr (enabled_client cid d) (\<lambda>c.
             bindr (if c_token_endpoint_auth_method c = ''private_key_jwt'' then
                      bindr (or_error (c_jwks c) (invalid_client ''Client has no JWKS for private_key_jwt'')) (\<lambda>jwks.
                      bindr (map_err (\<lambda>e. invalid_client (''JWT verification failed: '' @ error_text e))
                        (verify_client_assertion E assertion jwks uri cid now)) (\<lambda>_. Inr ()))
                    else if c_token_endpoint_auth_method c = ''client_secret_jwt'' then
                      bindr (or_error (c_client_secret_encrypted c)
                        (invalid_client ''Client has no encrypted secret for client_secret_jwt'')) (\<lambda>enc.
                      bindr (map_err (\<lambda>_. invalid_client ''Failed to decrypt client secret'')
                        (bindr (e_decrypt E enc) (\<lambda>bytes.
                           bindr (ensure (e_is_utf8 E bytes)
                             (Internal ''decrypted secret is not valid UTF-8'')) (\<lambda>_. Inr bytes)))) (\<lambda>secret.
                      bindr (map_err (\<lambda>e. invalid_client (''JWT verification failed: '' @ error_text e))
                        (verify_client_secret_jwt E assertion secret uri cid now)) (\<lambda>_. Inr ())))
                    else Inl (invalid_client ''Client not configured for JWT assertion authentication'')) (\<lambda>_.
             Inr c)))))))
      | None \<Rightarrow>
          bindr (or_error (params ''client_id'') (invalid_client ''Missing client_id'')) (\<lambda>cid.
          bindr (or_error (params ''client_secret'') (invalid_client ''Missing client_secret'')) (\<lambda>secret.
          bindr (enabled_client cid d) (\<lambda>c.
          bindr (if c_token_endpoint_auth_method c = ''client_secret_basic'' then
                   ensure (method = PresentedBasic) (invalid_client ''Invalid client authentication'')
                 else if c_token_endpoint_auth_method c = ''client_secret_post'' then
                   ensure (method = PresentedPost) (invalid_client ''Invalid client authentication'')
                 else Inl (invalid_client ''Client not configured for secret authentication'')) (\<lambda>_.
          bindr (or_error (c_client_secret_hash c)
                   (invalid_client ''Public clients cannot authenticate with secret credentials'')) (\<lambda>hash.
          bindr (ensure (e_hasher_verify E secret hash = Inr True) (invalid_client ''Invalid client credentials'')) (\<lambda>_.
          Inr c)))))))"



section \<open>Facts\<close>

lemma check_assertion_ok [simp]:
  "check_assertion c aud iss now = Inr () \<longleftrightarrow> as_iss c = iss \<and> as_sub c = iss \<and> as_aud c = aud
     \<and> now \<le> as_exp c \<and> as_iat c \<le> now + 300"
  by (auto simp: check_assertion_def bindr_Inr)

lemma verify_client_assertion_ok:
  "verify_client_assertion E token jwks aud iss now = Inr c \<longleftrightarrow>
     (\<exists>h input sig k. parse_assertion E token = Inr (h, c, input, sig)
        \<and> check_assertion c aud iss now = Inr () \<and> find_jwk jwks (h_kid h) (h_alg h) = Inr k
        \<and> verify_signature_with_jwk E input sig k = Inr ())"
  unfolding verify_client_assertion_def by (fastforce simp: bindr_Inr)

lemma verify_client_secret_jwt_ok:
  "verify_client_secret_jwt E token secret aud iss now = Inr c \<longleftrightarrow>
     (\<exists>h input sig. parse_assertion E token = Inr (h, c, input, sig)
        \<and> check_assertion c aud iss now = Inr () \<and> h_alg h \<in> {''HS256'', ''HS384'', ''HS512''}
        \<and> e_hmac E (h_alg h) secret input = sig)"
  unfolding verify_client_secret_jwt_def verify_hmac_signature_def
  by (fastforce simp: bindr_Inr split: if_splits)

lemma check_secret_ok [simp]:
  "check_secret E params c = Inr () \<longleftrightarrow>
     (\<exists>secret hash. params ''client_secret'' = Some secret \<and> c_client_secret_hash c = Some hash
        \<and> e_hasher_verify E secret hash = Inr True)"
  by (auto simp: check_secret_def bindr_Inr)

text \<open>What proves to the server that a request comes from a client: nothing for a public client that is
  registered so, its secret, an assertion signed under a key of its set, or one authenticated with
  its secret, in each case by the method it is registered for.\<close>

definition by_secret :: "env \<Rightarrow> params \<Rightarrow> presented \<Rightarrow> client \<Rightarrow> bool" where
  "by_secret E params method c \<longleftrightarrow>
     (c_token_endpoint_auth_method c = ''client_secret_basic'' \<and> method = PresentedBasic
      \<or> c_token_endpoint_auth_method c = ''client_secret_post'' \<and> method = PresentedPost)
     \<and> (\<exists>secret hash. params ''client_secret'' = Some secret \<and> c_client_secret_hash c = Some hash
          \<and> e_hasher_verify E secret hash = Inr True)"

definition by_assertion :: "env \<Rightarrow> params \<Rightarrow> presented \<Rightarrow> string \<Rightarrow> int \<Rightarrow> client \<Rightarrow> bool" where
  "by_assertion E params method uri now c \<longleftrightarrow>
     method = PresentedAssertion \<and> params ''client_assertion_type'' = Some jwt_bearer_type
     \<and> (\<exists>token h a input sig. params ''client_assertion'' = Some token
          \<and> parse_assertion E token = Inr (h, a, input, sig)
          \<and> (params ''client_id'' = None \<or> params ''client_id'' = Some (c_client_id c))
          \<and> as_iss a = c_client_id c \<and> as_sub a = c_client_id c \<and> as_aud a = uri \<and> now \<le> as_exp a
          \<and> as_iat a \<le> now + 300
          \<and> (c_token_endpoint_auth_method c = ''private_key_jwt''
                \<and> (\<exists>jwks k. c_jwks c = Some jwks \<and> find_jwk jwks (h_kid h) (h_alg h) = Inr k
                     \<and> verify_signature_with_jwk E input sig k = Inr ())
              \<or> c_token_endpoint_auth_method c = ''client_secret_jwt''
                \<and> (\<exists>enc secret. c_client_secret_encrypted c = Some enc \<and> e_decrypt E enc = Inr secret
                     \<and> e_is_utf8 E secret \<and> h_alg h \<in> {''HS256'', ''HS384'', ''HS512''}
                     \<and> e_hmac E (h_alg h) secret input = sig)))"

definition identified :: "env \<Rightarrow> params \<Rightarrow> presented \<Rightarrow> string \<Rightarrow> int \<Rightarrow> client \<Rightarrow> bool" where
  "identified E params method uri now c \<longleftrightarrow>
     (if params ''client_assertion'' = None
      then params ''client_id'' = Some (c_client_id c)
           \<and> (c_token_endpoint_auth_method c = ''none'' \<and> method = PresentedNone
                \<and> c_client_type c = Public
              \<or> by_secret E params method c)
      else by_assertion E params method uri now c)"

lemma client_found_id: "client_by_client_id cid d = Some c \<Longrightarrow> c_client_id c = cid"
  using find_Some_set [of "\<lambda>c. c_client_id c = cid \<and> c_deleted_at c = None" "d_clients d" c]
  by (auto simp: client_by_client_id_def)

lemma not_confidential: "t \<noteq> Confidential \<longleftrightarrow> t = Public"
  by (cases t) auto

lemma authenticate_client_ok:
  "authenticate_client E params method uri now d = Inr (c, cid) \<longleftrightarrow>
     client_by_client_id cid d = Some c \<and> c_enabled c \<and> identified E params method uri now c"
proof (cases "params ''client_assertion''")
  case None
  have "authenticate_client E params method uri now d = Inr (c, cid) \<longleftrightarrow>
     params ''client_id'' = Some cid \<and> client_by_client_id cid d = Some c \<and> c_enabled c
     \<and> (c_token_endpoint_auth_method c = ''none'' \<and> method = PresentedNone \<and> c_client_type c = Public
         \<or> by_secret E params method c)"
    unfolding authenticate_client_def None option.case by_secret_def
    by (auto simp: bindr_Inr not_confidential if_Inr split: if_split_asm)
  then show ?thesis
    using client_found_id [of cid d c] by (auto simp: identified_def None)
next
  case (Some token)
  have step: "authenticate_client E params method uri now d = Inr (c, cid) \<longleftrightarrow>
     (\<exists>h a input sig. method = PresentedAssertion
        \<and> params ''client_assertion_type'' = Some jwt_bearer_type
        \<and> parse_assertion E token = Inr (h, a, input, sig)
        \<and> (params ''client_id'' = None \<or> params ''client_id'' = Some (as_iss a)) \<and> cid = as_iss a
        \<and> client_by_client_id cid d = Some c \<and> c_enabled c
        \<and> (c_token_endpoint_auth_method c = ''private_key_jwt''
             \<and> (\<exists>jwks b. c_jwks c = Some jwks \<and> verify_client_assertion E token jwks uri cid now = Inr b)
            \<or> c_token_endpoint_auth_method c = ''client_secret_jwt''
             \<and> (\<exists>enc secret b. c_client_secret_encrypted c = Some enc \<and> e_decrypt E enc = Inr secret
                  \<and> e_is_utf8 E secret \<and> verify_client_secret_jwt E token secret uri cid now = Inr b)))"
    unfolding authenticate_client_def Some option.case Let_def
    by (auto simp: bindr_Inr if_Inr split: if_split_asm)
  show ?thesis
    unfolding step verify_client_assertion_ok verify_client_secret_jwt_ok
    using client_found_id [of cid d c] by (auto simp: identified_def by_assertion_def Some)
qed

lemma enabled_client_ok [simp]:
  "enabled_client cid d = Inr c \<longleftrightarrow> client_by_client_id cid d = Some c \<and> c_enabled c"
  by (auto simp: enabled_client_def split: option.splits)

lemma either_method:
  "(if a then ensure p e else if b then ensure q e else Inl f) = Inr u \<longleftrightarrow> a \<and> p \<or> \<not> a \<and> b \<and> q"
  by auto

lemma authenticate_for_endpoint_ok:
  "authenticate_for_endpoint E params method uri now d = Inr c \<longleftrightarrow>
     client_by_client_id (c_client_id c) d = Some c \<and> c_enabled c \<and> identified E params method uri now c
     \<and> c_token_endpoint_auth_method c \<noteq> ''none''"
proof (cases "params ''client_assertion''")
  case None
  have "authenticate_for_endpoint E params method uri now d = Inr c \<longleftrightarrow>
     (\<exists>cid. params ''client_id'' = Some cid \<and> client_by_client_id cid d = Some c \<and> c_enabled c
        \<and> by_secret E params method c)"
    unfolding authenticate_for_endpoint_def None option.case by_secret_def bindr_Inr either_method
    by auto
  then show ?thesis
    using client_found_id [of _ d c] by (auto simp: identified_def None by_secret_def)
next
  case (Some token)
  have step: "authenticate_for_endpoint E params method uri now d = Inr c \<longleftrightarrow>
     (\<exists>h a input sig. method = PresentedAssertion
        \<and> params ''client_assertion_type'' = Some jwt_bearer_type
        \<and> parse_assertion E token = Inr (h, a, input, sig)
        \<and> (params ''client_id'' = None \<or> params ''client_id'' = Some (as_iss a))
        \<and> client_by_client_id (as_iss a) d = Some c \<and> c_enabled c
        \<and> (c_token_endpoint_auth_method c = ''private_key_jwt''
             \<and> (\<exists>jwks b. c_jwks c = Some jwks \<and> verify_client_assertion E token jwks uri (as_iss a) now = Inr b)
            \<or> c_token_endpoint_auth_method c = ''client_secret_jwt''
             \<and> (\<exists>enc secret b. c_client_secret_encrypted c = Some enc \<and> e_decrypt E enc = Inr secret
                  \<and> e_is_utf8 E secret \<and> verify_client_secret_jwt E token secret uri (as_iss a) now = Inr b)))"
    unfolding authenticate_for_endpoint_def Some option.case Let_def
    by (auto simp: bindr_Inr if_Inr split: if_split_asm)
  have swap: "client_by_client_id (as_iss a) d = Some c \<longleftrightarrow>
      as_iss a = c_client_id c \<and> client_by_client_id (c_client_id c) d = Some c" for a :: assertion_claims
    using client_found_id [of "as_iss a" d c] by auto
  show ?thesis
    unfolding step swap verify_client_assertion_ok verify_client_secret_jwt_ok
    by (auto simp: identified_def by_assertion_def Some)
qed

text \<open>C16 A client is authenticated at the token endpoint only by the method it is registered with, and
  only on proof: an enabled client that the request names, which is registered without
  authentication and public and presented no credential, or presented the secret of its
  stored hash in the registered way, or an assertion for this endpoint about itself, within its
  validity, signed under a key of its key set or authenticated with its secret.\<close>

theorem authenticate_client_sound:
  assumes "authenticate_client E params method uri now d = Inr (c, cid)"
  shows "client_by_client_id cid d = Some c \<and> c_client_id c = cid \<and> c_enabled c
    \<and> identified E params method uri now c
    \<and> (c_token_endpoint_auth_method c \<noteq> ''none'' \<longrightarrow> by_secret E params method c
         \<or> by_assertion E params method uri now c)"
  using assms client_found_id [of cid d c] unfolding authenticate_client_ok identified_def
  by (auto split: if_split_asm)

text \<open>The two copies of client authentication agree: for every request, the endpoints for introspection,
  revocation and the others accept exactly the clients that the token endpoint accepts, except the
  public ones that are registered without authentication.\<close>

theorem endpoint_authentication_agrees:
  "(\<exists>method p. detect_method authorization params = Inr method \<and> inject_basic E authorization params = Some p
      \<and> authenticate_for_endpoint E p method uri now d = Inr c)
   \<longleftrightarrow> (\<exists>method p. presented_method authorization params = Inr method
      \<and> inject_basic E authorization params = Some p
      \<and> authenticate_client E p method uri now d = Inr (c, c_client_id c)
      \<and> c_token_endpoint_auth_method c \<noteq> ''none'')"
proof -
  have detect: "detect_method authorization params = Inr m \<longleftrightarrow>
      presented_method authorization params = Inr m \<and> m \<noteq> PresentedNone" for m
    by (cases "basic_credentials authorization"; cases "params ''client_assertion''";
        cases "params ''client_secret''") (auto simp: detect_method_def presented_method_def)
  have some: "identified E p PresentedNone uri now c \<Longrightarrow> c_token_endpoint_auth_method c = ''none''" for p
    by (auto simp: identified_def by_secret_def by_assertion_def split: if_split_asm)
  show ?thesis
    unfolding detect authenticate_for_endpoint_ok authenticate_client_ok using some by blast
qed

text \<open>A key without an algorithm is found, but it can never verify an assertion: the lookup takes a key
  that does not name an algorithm for every algorithm, the signature check then knows only the
  algorithm that the key names, so that a client whose key set leaves the optional member out
  cannot authenticate.\<close>

theorem key_without_alg_unusable:
  assumes "jget jwks ''keys'' = Some (JArr [key])" and "jget key ''alg'' = None"
    and "str_member key ''kid'' = Some kid"
  shows "find_jwk jwks kid alg = Inr key \<and> verify_client_assertion E token jwks aud iss now \<noteq> Inr c"
proof
  have no_alg: "str_member_or_empty key ''alg'' = []"
    using assms(2) by (simp add: str_member_or_empty_def str_member_def)
  show "find_jwk jwks kid alg = Inr key"
    using assms no_alg by (simp add: find_jwk_def str_member_or_empty_def)
  have found: "k = key" if "find_jwk jwks i a = Inr k" for i a k
    using that assms(1) by (auto simp: find_jwk_def Let_def split: option.splits if_splits)
  have "verify_signature_with_jwk E input sig key \<noteq> Inr ()" for input sig
    using no_alg by (simp add: verify_signature_with_jwk_def)
  then show "verify_client_assertion E token jwks aud iss now \<noteq> Inr c"
    unfolding verify_client_assertion_ok using found by blast
qed



section \<open>A run\<close>

definition secret_client :: client where
  "secret_client = sample_client\<lparr>c_client_type := Confidential, c_client_secret_hash := Some ''s3'',
     c_token_endpoint_auth_method := ''client_secret_basic'',
     c_allowed_grant_types := [''authorization_code'', ''client_credentials'', ''refresh_token'']\<rparr>"

definition secret_params :: params where
  "secret_params = [''client_id'' \<mapsto> ''app'', ''client_secret'' \<mapsto> ''s3'']"

lemma secret_client_identified:
  "authenticate_client sample_env secret_params PresentedBasic uri now (empty_db\<lparr>d_clients := [secret_client]\<rparr>)
     = Inr (secret_client, ''app'')"
  by (simp add: authenticate_client_ok identified_def by_secret_def secret_params_def secret_client_def
      sample_client_def client_by_client_id_def) (simp add: sample_env_def)

lemma authenticate_client_sound_witness:
  "by_secret sample_env secret_params PresentedBasic secret_client
     \<or> by_assertion sample_env secret_params PresentedBasic ''u'' 0 secret_client"
proof -
  have "c_token_endpoint_auth_method secret_client \<noteq> ''none''"
    by (simp add: secret_client_def)
  with authenticate_client_sound [OF secret_client_identified] show ?thesis
    by blast
qed

lemma key_without_alg_unusable_witness:
  "find_jwk (json_object [(''keys'', JArr [json_object [(''kid'', JStr ''k'')]])]) ''k'' ''RS256''
     = Inr (json_object [(''kid'', JStr ''k'')])"
  using key_without_alg_unusable [of "json_object [(''keys'', JArr [json_object [(''kid'', JStr ''k'')]])]"
      "json_object [(''kid'', JStr ''k'')]" "''k''" "''RS256''"]
  by (simp add: str_member_def)

end
