(* ===== verification/Token_Info.thy ===== *)
theory Token_Info
  imports Client_Auth Hub Refresh
begin

text \<open>The endpoints that look a token up: revocation (\<open>oidc-oidc/src/endpoints/revoke.rs\<close>),
  introspection (\<open>introspect.rs\<close>) and user information (\<open>userinfo.rs\<close>).\<close>

section \<open>Revocation\<close>

definition rpt_of :: "env \<Rightarrow> access_claims \<Rightarrow> string option" where
  "rpt_of E c = Option.bind (obj_get (at_custom_claims c) ''rpt_id'') as_str_json"

text \<open>The session and its whole family.\<close>

(*@ oidc-oidc/src/endpoints/revoke.rs 76-82 revocation of a session that was found *)
definition revoke_session :: "session \<Rightarrow> db \<Rightarrow> db" where
  "revoke_session s = (case s_token_family_id s of
       Some f \<Rightarrow> session_revoke_family f
     | None \<Rightarrow> session_revoke (s_id s))"

definition revoke_if_own :: "client \<Rightarrow> session \<Rightarrow> db \<Rightarrow> db" where
  "revoke_if_own c s d = (if s_client_id s = c_id c then revoke_session s d else d)"

text \<open>The grant of a requesting party token, when the token is one and its grant is active.\<close>

definition active_rpt_of :: "env \<Rightarrow> hub \<Rightarrow> string \<Rightarrow> db \<Rightarrow> rpt_grant option" where
  "active_rpt_of E H token d =
     (case verify_access_any E H (timestamp (e_clock E 1)) token d of
        Inl _ \<Rightarrow> None
      | Inr claims \<Rightarrow> Option.bind (rpt_of E claims) (\<lambda>t.
          Option.bind (e_parse_uuid E t) (\<lambda>i. active_rpt (e_db_now E) i d)))"

text \<open>The session that the endpoint finds for the token.\<close>

definition hinted_session :: "env \<Rightarrow> string \<Rightarrow> string option \<Rightarrow> db \<Rightarrow> session option" where
  "hinted_session E token hint d =
     (let h = sha2_256_hex E token;
          by_refresh = session_by_refresh_hash h d;
          by_access = session_by_access_hash (e_db_now E) h d
      in if hint = Some ''refresh_token''
         then (case by_refresh of Some s \<Rightarrow> Some s | None \<Rightarrow> by_access)
         else (case by_access of Some s \<Rightarrow> Some s | None \<Rightarrow> by_refresh))"

(*@ oidc-oidc/src/endpoints/revoke.rs 51-118 revocation of a token by an authenticated client *)
definition revoke_token :: "env \<Rightarrow> hub \<Rightarrow> client \<Rightarrow> string \<Rightarrow> string option \<Rightarrow> db \<Rightarrow> db" where
  "revoke_token E H c token hint d =
     (case active_rpt_of E H token d of
        Some g \<Rightarrow> if rp_client_id g = c_id c \<or> rp_resource_server_id g = c_id c
                  then revoke_rpt (rp_id g) d else d
      | None \<Rightarrow>
          (case hinted_session E token hint d of
             Some s \<Rightarrow> revoke_if_own c s d
           | None \<Rightarrow> d))"

text \<open>The client of a request to one of these endpoints.\<close>

definition request_client ::
  "env \<Rightarrow> params \<Rightarrow> presented \<Rightarrow> string \<Rightarrow> (db, error_response, client) prog" where
  "request_client E p method uri = ask (authenticate_for_endpoint E p method uri (timestamp (e_clock E 0)))"

definition with_token ::
  "env \<Rightarrow> string option \<Rightarrow> params \<Rightarrow> (params \<Rightarrow> presented \<Rightarrow> string \<Rightarrow> (db, error_response, 'a) prog) \<Rightarrow>
   (db, error_response, 'a) prog" where
  "with_token E authorization params f =
     bindp (lift (detect_method authorization params)) (\<lambda>method.
     bindp (some_or (inject_basic E authorization params) (invalid_client ''Mismatched client_id'')) (\<lambda>p.
     bindp (some_or (p ''token'') (oauth_error ''invalid_request'' ''Missing token'')) (\<lambda>token.
     with_transaction (f p method token))))"

(*@ oidc-oidc/src/endpoints/revoke.rs 20-120 revoke_handler *)
definition revoke_handler ::
  "env \<Rightarrow> hub \<Rightarrow> string option \<Rightarrow> params \<Rightarrow> string \<Rightarrow> (db, error_response, json) prog" where
  "revoke_handler E H authorization params uri =
     with_token E authorization params (\<lambda>p method token.
       bindp (request_client E p method uri) (\<lambda>c.
       thenp (exec (revoke_token E H c token (p ''token_type_hint''))) (ret (JObj []))))"


section \<open>Introspection\<close>

definition inactive :: json where
  "inactive = json_object [(''active'', JBool False)]"

definition put_opt :: "string \<Rightarrow> ('a \<Rightarrow> json) \<Rightarrow> 'a option \<Rightarrow> members \<Rightarrow> members" where
  "put_opt k f x m = (case x of None \<Rightarrow> m | Some v \<Rightarrow> obj_insert k (f v) m)"

definition first_audience :: "env \<Rightarrow> json \<Rightarrow> string" where
  "first_audience E aud = (case client_id_from_aud aud of Some s \<Rightarrow> s | None \<Rightarrow> e_value_text E aud)"

(*@ oidc-oidc/src/endpoints/introspect.rs 96-172 response of introspect_handler *)
definition introspection_body :: "env \<Rightarrow> access_claims \<Rightarrow> db \<Rightarrow> json" where
  "introspection_body E c d =
     (let username = Option.bind (e_parse_uuid E (at_sub c)) (\<lambda>i.
            map_option (\<lambda>u. case u_username u of Some n \<Rightarrow> n | None \<Rightarrow> u_email u) (user_by_id i d));
          base = obj.ins_all
            [(''active'', JBool True), (''sub'', JStr (at_sub c)),
             (''client_id'', JStr (first_audience E (at_aud c))), (''aud'', at_aud c),
             (''scope'', JStr (at_scope c)),
             (''token_type'', JStr (if at_cnf c = None then ''Bearer'' else ''DPoP'')),
             (''exp'', JNum (at_exp c)), (''iat'', JNum (at_iat c)), (''username'', opt_json JStr username)] [];
          m = put_opt ''resource_access'' id (at_resource_access c)
              (put_opt ''realm_access'' id (at_realm_access c)
              (put_opt ''organization'' id (at_organization c)
              (put_opt ''authorization_details'' id (at_authorization_details c)
              (put_opt ''cnf'' id (at_cnf c) base))))
      in JObj (obj.ins_all (at_custom_claims c) m))"

text \<open>Whether the record behind a verified token lets this client see it.\<close>

definition visible_to :: "env \<Rightarrow> client \<Rightarrow> string \<Rightarrow> access_claims \<Rightarrow> db \<Rightarrow> bool" where
  "visible_to E c token claims d =
     (case rpt_of E claims of
        Some t \<Rightarrow>
          (case Option.bind (e_parse_uuid E t) (\<lambda>i. active_rpt (e_db_now E) i d) of
             None \<Rightarrow> False
           | Some g \<Rightarrow> rp_client_id g = c_id c \<or> rp_resource_server_id g = c_id c)
      | None \<Rightarrow>
          (case session_by_access_hash (e_db_now E) (sha2_256_hex E token) d of
             None \<Rightarrow> False
           | Some s \<Rightarrow> \<not> s_revoked s \<and> s_client_id s = c_id c))"

(*@ oidc-oidc/src/endpoints/introspect.rs 56-93 introspection by an authenticated client *)
definition introspect_token :: "env \<Rightarrow> hub \<Rightarrow> client \<Rightarrow> string \<Rightarrow> db \<Rightarrow> json" where
  "introspect_token E H c token d =
     (case verify_access_any E H (timestamp (e_clock E 1)) token d of
        Inl _ \<Rightarrow> inactive
      | Inr claims \<Rightarrow> if visible_to E c token claims d then introspection_body E claims d else inactive)"

(*@ oidc-oidc/src/endpoints/introspect.rs 27-176 introspect_handler *)
definition introspect_handler ::
  "env \<Rightarrow> hub \<Rightarrow> string option \<Rightarrow> params \<Rightarrow> string \<Rightarrow> (db, error_response, json) prog" where
  "introspect_handler E H authorization params uri =
     with_token E authorization params (\<lambda>p method token.
       bindp (request_client E p method uri) (\<lambda>c. query (introspect_token E H c token)))"



section \<open>User information\<close>

text \<open>The answers of the endpoint: 401 with a detail, 500, or the claims.\<close>

datatype userinfo_reply = Unauthorized "string option" | ServerError | UserClaims members

(*@ oidc-oidc/src/endpoints/userinfo.rs 287-295 extract_bearer_token *)
definition extract_bearer :: "string option \<Rightarrow> string option" where
  "extract_bearer header = Option.bind header (\<lambda>h. case strip_prefix h ''Bearer '' of
       Some t \<Rightarrow> Some t | None \<Rightarrow> strip_prefix h ''bearer '')"

text \<open>A header that is present may still not be text, the inner \<open>None\<close>.  \<open>Inl\<close> is the detail of the
  refusal, \<open>None\<close> a panic.\<close>

(*@ oidc-oidc/src/endpoints/userinfo.rs 45-74 possession of the key of a bound token *)
definition check_possession ::
  "env \<Rightarrow> string \<Rightarrow> string \<Rightarrow> access_claims \<Rightarrow> string option option \<Rightarrow> (string + unit) option" where
  "check_possession E token endpoint claims dpop =
     (case at_cnf claims of
        None \<Rightarrow> Some (Inr ())
      | Some cnf \<Rightarrow>
          let jkt = str_member_or_empty cnf ''jkt''
          in if jkt = [] then Some (Inl ''DPoP-bound token has no jkt'')
             else (case dpop of
                None \<Rightarrow> Some (Inl ''DPoP proof required for DPoP-bound token'')
              | Some None \<Rightarrow> Some (Inl ''DPoP header is not valid UTF-8'')
              | Some (Some value) \<Rightarrow>
                  (case verify_dpop_proof E value ''GET'' endpoint (Some token)
                          (word_of_int (timestamp (e_clock E 2))) of
                     None \<Rightarrow> None
                   | Some (Inl _) \<Rightarrow> Some (Inl ''Invalid DPoP proof'')
                   | Some (Inr p) \<Rightarrow>
                       Some (if dpf_jwk_thumbprint p \<noteq> jkt
                             then Inl ''DPoP proof key does not match token binding'' else Inr ()))))"

text \<open>The granted scopes are a hash set: \<open>scopes\<close> is one listing of it, in the order of its iteration.\<close>

(*@ oidc-oidc/src/endpoints/userinfo.rs 109-237 claims of the response *)
definition userinfo_members :: "env \<Rightarrow> string \<Rightarrow> uuid \<Rightarrow> user \<Rightarrow> string list \<Rightarrow> db \<Rightarrow> members" where
  "userinfo_members E sub cid u scopes d =
     (let m = [(''sub'', JStr sub)];
          m = (if ''email'' \<in> set scopes
               then obj.ins_all [(''email'', JStr (u_email u)), (''email_verified'', JBool (u_email_verified u))] m
               else m);
          m = (if ''profile'' \<in> set scopes then
                 obj.ins_all [(''locale'', JStr (u_locale u)), (''updated_at'', JNum (timestamp (u_updated_at u)))]
                  (put_opt ''zoneinfo'' JStr (u_zoneinfo u) (put_opt ''birthdate'' JStr (u_birthdate u)
                  (put_opt ''gender'' JStr (u_gender u) (put_opt ''website'' JStr (u_website u)
                  (put_opt ''picture'' JStr (u_picture u) (put_opt ''profile'' JStr (u_profile u)
                  (put_opt ''preferred_username'' JStr (u_preferred_username u)
                  (put_opt ''nickname'' JStr (u_nickname u) (put_opt ''name'' JStr (u_username u)
                  (put_opt ''middle_name'' JStr (u_middle_name u) (put_opt ''family_name'' JStr (u_family_name u)
                  (put_opt ''given_name'' JStr (u_given_name u) m))))))))))))
               else m);
          m = (if ''address'' \<in> set scopes then put_opt ''address'' id (address_claim u) m else m);
          m = (if ''phone'' \<in> set scopes
               then put_opt ''phone_number_verified'' JBool (u_phone_number_verified u)
                      (put_opt ''phone_number'' JStr (u_phone_number u) m)
               else m);
          roles = resolve_role_claims (e_collate E) (u_id u) d;
          m = put_opt ''resource_access'' id (rc_resource_access roles)
                (put_opt ''realm_access'' id (rc_realm_access roles) (put_opt ''roles'' strs (rc_roles roles) m));
          groups = groups_of_user (u_id u) d;
          m = (if groups = [] then m else obj_insert ''groups'' (strs (map g_name groups)) m);
          m = (if \<exists>s \<in> set scopes. s = ''organization'' \<or> starts_with s ''organization:''
               then (case resolve_organization_claim E (u_id u) scopes d of
                       Inr (Some org) \<Rightarrow> obj_insert ''organization'' org m
                     | _ \<Rightarrow> m)
               else m)
      in obj.ins_all (mc_userinfo (resolve_mapped_claims E cid (Some u) scopes d)) m)"

(*@ oidc-oidc/src/endpoints/userinfo.rs 25-247 userinfo_handler *)
definition userinfo_handler ::
  "env \<Rightarrow> hub \<Rightarrow> (string list \<Rightarrow> string list) \<Rightarrow> string option \<Rightarrow> string option option \<Rightarrow> string \<Rightarrow> db \<Rightarrow>
   userinfo_reply option" where
  "userinfo_handler E H listing authorization dpop endpoint d =
     (case extract_bearer authorization of
        None \<Rightarrow> Some (Unauthorized None)
      | Some token \<Rightarrow>
     (case verify_access_any E H (timestamp (e_clock E 1)) token d of
        Inl _ \<Rightarrow> Some (Unauthorized None)
      | Inr claims \<Rightarrow>
     (case check_possession E token endpoint claims dpop of
        None \<Rightarrow> None
      | Some (Inl detail) \<Rightarrow> Some (Unauthorized (Some detail))
      | Some (Inr _) \<Rightarrow>
     (case session_by_access_hash (e_db_now E) (sha2_256_hex E token) d of
        None \<Rightarrow> Some (Unauthorized None)
      | Some s \<Rightarrow>
          if s_revoked s then Some (Unauthorized None)
          else (case s_user_id s of
             None \<Rightarrow> Some (Unauthorized None)
           | Some uid \<Rightarrow>
          (case user_by_id uid d of
             None \<Rightarrow> Some (Unauthorized None)
           | Some u \<Rightarrow> Some (UserClaims (userinfo_members E (at_sub claims) (s_client_id s) u
                               (listing (s_scope s)) d))))))))"


section \<open>Facts\<close>

text \<open>The rows that the revocation of a session reaches.\<close>

definition same_grant :: "session \<Rightarrow> session \<Rightarrow> bool" where
  "same_grant s x \<longleftrightarrow> (case s_token_family_id s of
       Some f \<Rightarrow> s_token_family_id x = Some f
     | None \<Rightarrow> s_id x = s_id s)"

lemma revoke_session_rows:
  "x \<in> set (d_sessions (revoke_session s d)) \<Longrightarrow>
     (\<exists>y \<in> set (d_sessions d). s_id x = s_id y \<and> s_access_token_hash x = s_access_token_hash y
        \<and> s_refresh_token_hash x = s_refresh_token_hash y \<and> same_grant s x = same_grant s y
        \<and> (if same_grant s y then s_revoked x else x = y))"
  by (cases "s_token_family_id s")
    (auto simp: revoke_session_def session_revoke_family_def session_revoke_def same_grant_def
      update_where_elem)

lemma same_grant_refl [simp]: "same_grant s s"
  by (auto simp: same_grant_def split: option.splits)

definition hash_owned :: "string \<Rightarrow> session \<Rightarrow> db \<Rightarrow> bool" where
  "hash_owned h s d \<longleftrightarrow> (\<forall>x \<in> set (d_sessions d).
     s_access_token_hash x = h \<or> s_refresh_token_hash x = Some h \<longrightarrow> same_grant s x)"

lemma revoked_not_found:
  assumes "hash_owned h s d"
  shows "session_by_access_hash now h (revoke_session s d) = None"
    and "session_by_refresh_hash h (revoke_session s d) = None"
proof -
  have "s_revoked x" if "x \<in> set (d_sessions (revoke_session s d))"
    "s_access_token_hash x = h \<or> s_refresh_token_hash x = Some h" for x
    using revoke_session_rows [OF that(1)] assms that(2) by (force simp: hash_owned_def split: if_splits)
  then show "session_by_access_hash now h (revoke_session s d) = None"
    "session_by_refresh_hash h (revoke_session s d) = None"
    by (auto simp: session_by_access_hash_def session_by_refresh_hash_def find_None_iff)
qed


text \<open>An access or refresh token that is not a requesting party token.\<close>

definition ordinary :: "env \<Rightarrow> string \<Rightarrow> bool" where
  "ordinary E token \<longleftrightarrow>
     (\<forall>c. payload_unverified E (e_parse_access E) token = Inr c \<longrightarrow> rpt_of E c = None)"

definition later :: "env \<Rightarrow> (nat \<Rightarrow> instant) \<Rightarrow> instant \<Rightarrow> env" where
  "later E clk now = E\<lparr>e_clock := clk, e_db_now := now\<rparr>"

lemma later_fields [simp]:
  "e_sha256 (later E clk now) = e_sha256 E" "e_hex (later E clk now) = e_hex E"
  "e_unb64 (later E clk now) = e_unb64 E" "e_unb64_padded (later E clk now) = e_unb64_padded E"
  "e_parse_access (later E clk now) = e_parse_access E"
  by (simp_all add: later_def)

lemma later_simps [simp]:
  "sha2_256_hex (later E clk now) = sha2_256_hex E"
  "payload_unverified (later E clk now) = payload_unverified E"
  "rpt_of (later E clk now) = rpt_of E"
  "ordinary (later E clk now) = ordinary E"
proof -
  show pay: "payload_unverified (later E clk now) = payload_unverified E"
    unfolding payload_unverified_def later_fields by (rule refl)
  show rpt: "rpt_of (later E clk now) = rpt_of E"
    by (simp add: rpt_of_def fun_eq_iff)
  show "ordinary (later E clk now) = ordinary E"
    by (simp add: ordinary_def fun_eq_iff pay rpt)
qed (simp add: sha2_256_hex_def fun_eq_iff)

lemma ordinary_verified:
  "ordinary E token \<Longrightarrow> verify_access_any E H now token d = Inr c \<Longrightarrow> rpt_of E c = None"
  unfolding ordinary_def verify_access_any_def bindr_Inr
  using payload_verified by (fastforce simp: verify_access_token_def bindr_Inr)

lemma ordinary_no_rpt: "ordinary E token \<Longrightarrow> active_rpt_of E H token d = None"
  by (auto simp: active_rpt_of_def ordinary_verified split: sum.splits)

lemma introspect_ordinary_None:
  assumes "ordinary E token" and "session_by_access_hash (e_db_now E) (sha2_256_hex E token) d = None"
  shows "introspect_token E H c token d = inactive"
  using assms by (auto simp: introspect_token_def visible_to_def ordinary_verified split: sum.splits)

lemma userinfo_None:
  assumes "session_by_access_hash (e_db_now E) (sha2_256_hex E token) d = None"
  shows "userinfo_handler E H listing (Some (''Bearer '' @ token)) dpop endpoint d \<noteq> Some (UserClaims m)"
proof -
  have "extract_bearer (Some (''Bearer '' @ token)) = Some token"
    by (simp add: extract_bearer_def strip_prefix_def starts_with_def)
  then show ?thesis
    using assms by (auto simp: userinfo_handler_def split: sum.splits option.splits)
qed

lemma refresh_None:
  assumes "session_by_refresh_hash (sha2_256_hex E token) d = None"
  shows "refresh_flow E E' token client jkt d = (Inl InvalidRequest, d)"
  using assms by (simp add: refresh_flow_def refresh_phase1_def Let_def thenp_def [of "refresh_phase1 _ _ _"])
    (simp add: bindp_def query_def some_or_def fail_def thenp_def refresh_phase1_def)

text \<open>C14 Revocation takes effect at once and on the whole grant: when its own client revokes an ordinary
  token, access or refresh, every session of the token's family is revoked, and a request of another
  client changes nothing.  If no session outside the family carries the hash of the token (tokens are
  random, but the indexes of the schema are not unique), then from then on, at every later time,
  introspection answers inactive to every client, the user information endpoint gives no claims, and
  a refresh is refused without a change.\<close>

theorem revocation_effective:
  assumes "ordinary E token" and "hinted_session E token hint d = Some s"
    and "s_client_id s = c_id c"
  shows "(\<forall>x \<in> set (d_sessions (revoke_token E H c token hint d)). same_grant s x \<longrightarrow> s_revoked x)
    \<and> (c_id c' \<noteq> c_id c \<longrightarrow> revoke_token E H c' token hint d = d)
    \<and> ((\<forall>x \<in> set (d_sessions d). s_access_token_hash x = sha2_256_hex E token
            \<or> s_refresh_token_hash x = Some (sha2_256_hex E token) \<longrightarrow> same_grant s x) \<longrightarrow>
         introspect_token (later E clk now) H c' token (revoke_token E H c token hint d) = inactive
       \<and> userinfo_handler (later E clk now) H listing (Some (''Bearer '' @ token)) dpop endpoint
           (revoke_token E H c token hint d) \<noteq> Some (UserClaims m)
       \<and> refresh_flow (later E clk now) E' token client jkt (revoke_token E H c token hint d)
           = (Inl InvalidRequest, revoke_token E H c token hint d))"
proof -
  have e: "revoke_token E H c token hint d = revoke_session s d"
    using assms by (simp add: revoke_token_def ordinary_no_rpt revoke_if_own_def)
  have other: "c_id c' \<noteq> c_id c \<longrightarrow> revoke_token E H c' token hint d = d"
    using assms by (simp add: revoke_token_def ordinary_no_rpt revoke_if_own_def)
  have rows: "same_grant s x \<longrightarrow> s_revoked x" if "x \<in> set (d_sessions (revoke_session s d))" for x
    using revoke_session_rows [OF that] by (auto split: if_splits)
  note gone = revoked_not_found [of "sha2_256_hex E token" s d, unfolded hash_owned_def]
  show ?thesis
    unfolding e using rows other [unfolded e] gone assms(1)
    by (intro conjI impI ballI introspect_ordinary_None userinfo_None refresh_None) simp_all
qed

text \<open>C15 Introspection discloses a token only to whom it concerns: an answer other than
  inactive needs a token whose signature verifies under a service of the hub, which is not expired,
  and behind which there is a live session of the asking client, or an active grant of a requesting
  party token for which the asking client is the requesting party or the resource server.\<close>

theorem introspection_sound:
  assumes "introspect_token E H c token d \<noteq> inactive"
  shows "\<exists>claims svc. verify_access_any E H (timestamp (e_clock E 1)) token d = Inr claims
    \<and> hub_service H svc \<and> signed_by E svc token \<and> timestamp (e_clock E 1) \<le> at_exp claims
    \<and> introspect_token E H c token d = introspection_body E claims d
    \<and> (case rpt_of E claims of
         None \<Rightarrow> \<exists>s \<in> set (d_sessions d). s_access_token_hash s = sha2_256_hex E token \<and> \<not> s_revoked s
                  \<and> e_db_now E < s_expires_at s \<and> s_client_id s = c_id c
       | Some t \<Rightarrow> \<exists>g \<in> set (d_rpts d). e_parse_uuid E t = Some (rp_id g) \<and> \<not> rp_revoked g
                  \<and> e_db_now E < rp_expires_at g
                  \<and> (rp_client_id g = c_id c \<or> rp_resource_server_id g = c_id c))"
proof -
  from assms obtain claims where ver: "verify_access_any E H (timestamp (e_clock E 1)) token d = Inr claims"
    and vis: "visible_to E c token claims d"
    by (auto simp: introspect_token_def split: sum.splits if_splits)
  from verify_access_any_ok [OF ver] obtain svc where svc: "hub_service H svc" "signed_by E svc token"
    "timestamp (e_clock E 1) \<le> at_exp claims"
    using context_service_hub by blast
  have "case rpt_of E claims of
         None \<Rightarrow> \<exists>s \<in> set (d_sessions d). s_access_token_hash s = sha2_256_hex E token \<and> \<not> s_revoked s
                  \<and> e_db_now E < s_expires_at s \<and> s_client_id s = c_id c
       | Some t \<Rightarrow> \<exists>g \<in> set (d_rpts d). e_parse_uuid E t = Some (rp_id g) \<and> \<not> rp_revoked g
                  \<and> e_db_now E < rp_expires_at g
                  \<and> (rp_client_id g = c_id c \<or> rp_resource_server_id g = c_id c)"
    using vis by (auto simp: visible_to_def session_by_access_hash_def active_rpt_def bind_eq_Some_conv
        split: option.splits dest!: find_Some_set)
  moreover have "introspect_token E H c token d = introspection_body E claims d"
    using ver vis by (simp add: introspect_token_def)
  ultimately show ?thesis
    using ver svc by blast
qed


lemma obj_get_put_opt [simp]: "k \<noteq> l \<Longrightarrow> obj_get (put_opt k f x m) l = obj_get m l"
  by (simp add: put_opt_def split: option.splits)

lemma userinfo_members_sub:
  assumes "''sub'' \<notin> fst ` set (mc_userinfo (resolve_mapped_claims E cid (Some u) scopes d))"
  shows "obj_get (userinfo_members E sub cid u scopes d) ''sub'' = Some (JStr sub)"
  using assms unfolding userinfo_members_def Let_def
  by (simp add: obj.look_ins_all_other obj_get_def [of "[_]"] split: option.split sum.split)

lemma check_possession_ok:
  assumes "check_possession E token endpoint claims dpop = Some (Inr ())" and "at_cnf claims = Some cnf"
  shows "\<exists>value p. dpop = Some (Some value)
    \<and> verify_dpop_proof E value ''GET'' endpoint (Some token) (word_of_int (timestamp (e_clock E 2))) = Some (Inr p)
    \<and> str_member cnf ''jkt'' = Some (dpf_jwk_thumbprint p) \<and> dpf_jwk_thumbprint p \<noteq> []"
  using assms
  by (auto simp: check_possession_def Let_def str_member_or_empty_def
      split: if_splits option.splits sum.splits)

text \<open>The user information endpoint gives claims only to the holder of a live token of an end user:
  the token verifies, a token that is bound to a key comes with a proof of possession of that
  key for this endpoint and this token, the session behind the token is neither revoked nor expired
  and belongs to a user who exists, and the subject of the claims is the subject of the token, unless
  a claim mapper writes the subject.\<close>

theorem userinfo_sound:
  assumes "userinfo_handler E H listing authorization dpop endpoint d = Some (UserClaims m)"
  shows "\<exists>token claims svc s uid u. extract_bearer authorization = Some token
    \<and> verify_access_any E H (timestamp (e_clock E 1)) token d = Inr claims
    \<and> hub_service H svc \<and> signed_by E svc token \<and> timestamp (e_clock E 1) \<le> at_exp claims
    \<and> (\<forall>cnf. at_cnf claims = Some cnf \<longrightarrow> (\<exists>value p. dpop = Some (Some value)
        \<and> verify_dpop_proof E value ''GET'' endpoint (Some token)
            (word_of_int (timestamp (e_clock E 2))) = Some (Inr p)
        \<and> str_member cnf ''jkt'' = Some (dpf_jwk_thumbprint p) \<and> dpf_jwk_thumbprint p \<noteq> []))
    \<and> s \<in> set (d_sessions d) \<and> s_access_token_hash s = sha2_256_hex E token \<and> \<not> s_revoked s
    \<and> e_db_now E < s_expires_at s \<and> s_user_id s = Some uid \<and> user_by_id uid d = Some u
    \<and> m = userinfo_members E (at_sub claims) (s_client_id s) u (listing (s_scope s)) d
    \<and> (''sub'' \<notin> fst ` set (mc_userinfo (resolve_mapped_claims E (s_client_id s) (Some u) (listing (s_scope s)) d))
        \<longrightarrow> obj_get m ''sub'' = Some (JStr (at_sub claims)))"
proof -
  from assms obtain token claims s uid u where
    token: "extract_bearer authorization = Some token"
    and ver: "verify_access_any E H (timestamp (e_clock E 1)) token d = Inr claims"
    and poss: "check_possession E token endpoint claims dpop = Some (Inr ())"
    and sess: "session_by_access_hash (e_db_now E) (sha2_256_hex E token) d = Some s"
    and user: "s_user_id s = Some uid" "user_by_id uid d = Some u"
    and m: "m = userinfo_members E (at_sub claims) (s_client_id s) u (listing (s_scope s)) d"
    unfolding userinfo_handler_def by (auto split: sum.splits option.splits if_splits)
  from verify_access_any_ok [OF ver] obtain svc where
    svc: "hub_service H svc" "signed_by E svc token" "timestamp (e_clock E 1) \<le> at_exp claims"
    using context_service_hub by blast
  have row: "s \<in> set (d_sessions d)" "s_access_token_hash s = sha2_256_hex E token" "\<not> s_revoked s"
    "e_db_now E < s_expires_at s"
    using find_Some_set [OF sess [unfolded session_by_access_hash_def]] by auto
  show ?thesis
    using token ver svc check_possession_ok [OF poss] row user m
      userinfo_members_sub [of E "s_client_id s" u "listing (s_scope s)" d "at_sub claims"]
    by blast
qed


section \<open>A run\<close>

definition sample_hub :: hub where
  "sample_hub = \<lparr>hb_issuer = ''https://op'', hb_base_issuer = ''https://op'', hb_service = sample_service,
     hb_realm_service = (\<lambda>_ _. Inr sample_service)\<rparr>"

definition info_db :: db where
  "info_db = empty_db\<lparr>d_users := [sample_user],
     d_sessions := [sample_session\<lparr>s_access_token_hash := ''h.c.rh_dc'', s_client_id := c_id secret_client\<rparr>]\<rparr>"

lemma toy_hash [simp]: "sha2_256_hex toy_env t = t"
  by (simp add: sha2_256_hex_def toy_env_def sample_env_def)

lemma toy_clock [simp]: "e_clock toy_env k = 0" "e_db_now toy_env = 0"
  by (simp_all add: toy_env_def sample_env_def)

lemma toy_payload: "payload_unverified toy_env (e_parse_access toy_env) ''h.c.rh_dc'' = Inr toy_claims"
  by (simp add: payload_unverified_def) (simp add: toy_env_def)

lemma toy_verified: "verify_access_any toy_env sample_hub 0 ''h.c.rh_dc'' d = Inr toy_claims"
proof -
  have "context_service sample_hub (at_iss toy_claims) (client_id_from_aud (at_aud toy_claims)) d
      = Inr sample_service"
    by (auto simp: context_service_def resolve_realm_def sample_hub_def toy_claims_def split: option.splits)
  moreover have "verify_access_token toy_env sample_service 0 ''h.c.rh_dc'' = Inr toy_claims"
    by (simp add: verify_access_token_def decode_jwt_def toy_env_def sample_env_def sample_service_def
        rs256_header_def toy_claims_def ensure_def)
  ultimately show ?thesis
    by (simp add: verify_access_any_def toy_payload)
qed

lemma toy_rpt [simp]: "rpt_of toy_env toy_claims = None"
  by (simp add: rpt_of_def toy_claims_def)

lemma info_session:
  "session_by_access_hash 0 ''h.c.rh_dc'' info_db
     = Some (sample_session\<lparr>s_access_token_hash := ''h.c.rh_dc'', s_client_id := c_id secret_client\<rparr>)"
  by (simp add: session_by_access_hash_def info_db_def sample_session_def minutes_def secs_def)

lemma introspection_sound_witness:
  "introspect_token toy_env sample_hub secret_client ''h.c.rh_dc'' info_db
     = introspection_body toy_env toy_claims info_db"
proof -
  have "introspect_token toy_env sample_hub secret_client ''h.c.rh_dc'' info_db
     = introspection_body toy_env toy_claims info_db"
    by (simp add: introspect_token_def toy_verified visible_to_def info_session sample_session_def
        timestamp_def)
  moreover have "jget (introspection_body toy_env toy_claims info_db) ''active'' = Some (JBool True)"
    by (simp add: introspection_body_def Let_def toy_claims_def put_opt_def obj.ins_all_def byte_def obj_get_def)
  moreover have "jget inactive ''active'' = Some (JBool False)"
    by (simp add: inactive_def)
  ultimately have "introspect_token toy_env sample_hub secret_client ''h.c.rh_dc'' info_db \<noteq> inactive"
    by auto
  from introspection_sound [OF this] show ?thesis
    by (auto simp: toy_verified timestamp_def)
qed

lemma userinfo_sound_witness:
  "\<exists>m. userinfo_handler toy_env sample_hub (\<lambda>s. s) (Some ''Bearer h.c.rh_dc'') None ''u'' info_db
     = Some (UserClaims m) \<and> e_db_now toy_env < minutes 15"
proof -
  have "extract_bearer (Some ''Bearer h.c.rh_dc'') = Some ''h.c.rh_dc''"
    by (simp add: extract_bearer_def strip_prefix_def starts_with_def)
  moreover have "user_by_id 7 info_db = Some sample_user"
    by (simp add: user_by_id_def info_db_def sample_user_def)
  moreover have "check_possession toy_env ''h.c.rh_dc'' ''u'' toy_claims None = Some (Inr ())"
    by (simp add: check_possession_def toy_claims_def)
  ultimately obtain m where run: "userinfo_handler toy_env sample_hub (\<lambda>s. s) (Some ''Bearer h.c.rh_dc'') None ''u'' info_db
     = Some (UserClaims m)"
    by (simp add: userinfo_handler_def toy_verified info_session sample_session_def timestamp_def)
  from userinfo_sound [OF run] obtain s where "s \<in> set (d_sessions info_db)" "e_db_now toy_env < s_expires_at s"
    by blast
  with run show ?thesis
    by (auto simp: info_db_def sample_session_def)
qed

lemma revocation_effective_witness:
  "introspect_token (later toy_env (\<lambda>_. 0) 5) sample_hub secret_client ''h.c.rh_dc''
     (revoke_token toy_env sample_hub secret_client ''h.c.rh_dc'' None info_db) = inactive"
proof -
  let ?s = "sample_session\<lparr>s_access_token_hash := ''h.c.rh_dc'', s_client_id := c_id secret_client\<rparr>"
  have "ordinary toy_env ''h.c.rh_dc''"
    using toy_payload by (simp add: ordinary_def)
  moreover have "hinted_session toy_env ''h.c.rh_dc'' None info_db = Some ?s"
    by (simp add: hinted_session_def info_session)
  moreover have "s_client_id ?s = c_id secret_client"
    by simp
  moreover have "\<forall>x \<in> set (d_sessions info_db). s_access_token_hash x = sha2_256_hex toy_env ''h.c.rh_dc''
      \<or> s_refresh_token_hash x = Some (sha2_256_hex toy_env ''h.c.rh_dc'') \<longrightarrow> same_grant ?s x"
    by (auto simp: info_db_def)
  ultimately show ?thesis
    using revocation_effective [where E = toy_env and clk = "\<lambda>_. 0" and now = 5 and c' = secret_client and H = sample_hub] by blast
qed

end
