(* ===== verification/Audit_Log.thy ===== *)
theory Audit_Log
  imports Workflow_Props
begin

text \<open>What recording an audit event leaves alone.  \<open>AuditEventRepo::create\<close> dispatches the event to the
  workflows of the realm, whose actions write users, sessions, roles, groups and required actions;
  the credentials, clients, consents and grants are out of their reach.  The endpoints record events
  and ignore a failure.\<close>

text \<open>The \<open>audit\<close> helpers of the endpoints: the event is recorded, a failure is logged only.\<close>

definition record_event :: "env \<Rightarrow> nat \<Rightarrow> audit_event \<Rightarrow> db \<Rightarrow> db" where
  "record_event E k ev d = fst (snd (audit_create E ev (d, k)))"

text \<open>A property of the database that no action of a workflow and no book-keeping of the engine disturbs
  survives the recording of any event.\<close>

locale undisturbed =
  fixes I :: "db \<Rightarrow> bool"
  assumes audit: "I d \<Longrightarrow> I (d_audit_update f1 d)"
    and executions: "I d \<Longrightarrow> I (d_executions_update f2 d)"
    and perform: "I d \<Longrightarrow> I (perform now uid a d)"
begin

abbreviation keeps :: "wf \<Rightarrow> bool" where
  "keeps s \<equiv> I (fst s)"

lemma keeps_db [intro]: "(\<And>d. I d \<Longrightarrow> I (f d)) \<Longrightarrow> preserves keeps (on_db f)"
  unfolding on_db_def by (rule preserves_exec) auto

lemma keeps_reads [intro]:
  "preserves keeps (from_db q)" "preserves keeps (fresh E)" "preserves keeps (tick E)"
  by (auto simp: preserves_def from_db_def fresh_def tick_def prog_run split: prod.splits)

lemma keeps_update [intro]: "preserves keeps (update_executions P f)"
  unfolding update_executions_def
  by (intro preserves_bindp preserves_thenp keeps_db keeps_reads preserves_intros executions)

lemma keeps_lifecycle [intro]: "preserves keeps (lifecycle_audit E r ev x u details)"
  unfolding lifecycle_audit_def by (intro preserves_bindp keeps_reads keeps_db audit)

lemma keeps_action [intro]: "preserves keeps (execute_action E uid a)"
  unfolding execute_action_def
  by (intro preserves_bindp preserves_thenp keeps_reads keeps_db preserves_intros perform)

lemma keeps_steps [intro]: "preserves keeps (run_steps E w x i steps)"
proof (induction steps arbitrary: i)
  case (Cons st rest)
  show ?case
    unfolding run_steps.simps
    by (intro preserves_bindp preserves_attempt keeps_action preserves_cases preserves_thenp
        keeps_update keeps_lifecycle preserves_intros preserves_if keeps_reads Cons)
qed auto

lemma keeps_process [intro]: "preserves keeps (process_execution E i)"
  unfolding process_execution_def finish_cancelled_def
  by (intro preserves_bindp keeps_reads preserves_intros preserves_cases preserves_if preserves_thenp
      keeps_update keeps_steps)

lemma keeps_process_all [intro]: "preserves keeps (process_all E ids rep)"
  by (induction E ids rep rule: process_all.induct) auto

lemma keeps_activate [intro]: "preserves keeps (activate E w uid trigger)"
  unfolding activate_def Let_def
  by (intro preserves_bindp keeps_reads preserves_intros preserves_if preserves_thenp keeps_db executions
      keeps_lifecycle)

lemma keeps_matching [intro]: "preserves keeps (activate_matching E ws uid event rep)"
  by (induction E ws uid event rep rule: activate_matching.induct) auto

lemma keeps_run_due [intro]: "preserves keeps (run_due E realm n False)"
  unfolding run_due_def by (simp add: preserves_bindp preserves_intros keeps_reads keeps_process_all)

lemma keeps_dispatch [intro]: "preserves keeps (dispatch_event E ev)"
  unfolding dispatch_event_def
  by (auto split: option.splits intro!: preserves_bindp preserves_if)

lemma keeps_audit_create [intro]: "preserves keeps (audit_create E ev)"
  unfolding audit_create_def by (intro preserves_thenp keeps_db audit preserves_attempt keeps_dispatch preserves_intros)

lemma keeps_record: "I d \<Longrightarrow> I (record_event E k ev d)"
  using preserves_snd [OF keeps_audit_create, where s = "(d, k)"] by (simp add: record_event_def)

end

text \<open>A view of the database that none of the tables in reach is part of.\<close>

locale out_of_reach =
  fixes view :: "db \<Rightarrow> 'v"
  assumes audit: "view (d_audit_update f1 d) = view d"
    and executions: "view (d_executions_update f2 d) = view d"
    and users: "view (d_users_update f4 d) = view d"
    and required_actions: "view (d_required_actions_update f5 d) = view d"
    and sessions: "view (d_sessions_update f6 d) = view d"
    and user_roles: "view (d_user_roles_update f7 d) = view d"
    and user_groups: "view (d_user_groups_update f8 d) = view d"

sublocale out_of_reach \<subseteq> unseen: undisturbed "\<lambda>d. view d = v" for v
proof
  show "view (perform now uid a d) = v" if "view d = v" for now uid a d
    using that by (cases a) (simp_all add: update_user_def update_sessions_def users required_actions
        sessions user_roles user_groups)
qed (simp_all add: audit executions)

text \<open>Everything the workflows cannot reach, as one view: the database with the tables that they write
  emptied.\<close>

definition beyond_workflows :: "db \<Rightarrow> db" where
  "beyond_workflows d = d\<lparr>d_audit := [], d_executions := [], d_workflows := [], d_users := [],
     d_required_actions := [], d_sessions := [], d_user_roles := [], d_user_groups := []\<rparr>"

interpretation beyond: out_of_reach beyond_workflows
  by unfold_locales (simp_all add: beyond_workflows_def)

lemma beyond_fields:
  assumes "beyond_workflows d = beyond_workflows e"
  shows "d_ciba d = d_ciba e" "d_ciba_configs d = d_ciba_configs e" "d_clients d = d_clients e"
    "d_consents d = d_consents e" "d_codes d = d_codes e" "d_devices d = d_devices e"
    "d_realms d = d_realms e" "d_rpts d = d_rpts e" "d_roles d = d_roles e"
    "d_identities d = d_identities e"
  using assms by (auto simp: beyond_workflows_def dest: arg_cong [where f = d_ciba]
      arg_cong [where f = d_ciba_configs] arg_cong [where f = d_clients] arg_cong [where f = d_consents]
      arg_cong [where f = d_codes] arg_cong [where f = d_devices] arg_cong [where f = d_realms]
      arg_cong [where f = d_rpts] arg_cong [where f = d_roles]
      arg_cong [where f = d_identities])

lemma record_event_beyond: "beyond_workflows (record_event E k ev d) = beyond_workflows d"
  by (rule beyond.unseen.keeps_record) (rule refl)

lemmas record_event_fields [simp] = beyond_fields [OF record_event_beyond]

text \<open>Workflows only revoke sessions, and they never touch a password.\<close>

interpretation revoked: undisturbed "\<lambda>d. revoked_in d i" for i
proof
  show "revoked_in (perform now uid a d) i" if "revoked_in d i" for now uid a d
    using that by (cases a) (auto simp: update_user_def revoked_in_update_sessions, auto simp: revoked_in_def)
qed (simp_all add: revoked_in_def)

definition password_is :: "uuid \<Rightarrow> string option \<Rightarrow> db \<Rightarrow> bool" where
  "password_is i h d \<longleftrightarrow> (\<forall>u \<in> set (d_users d). u_id u = i \<longrightarrow> u_password_hash u = h)"

interpretation password: undisturbed "password_is i h" for i h
proof
  show "password_is i h (perform now uid a d)" if "password_is i h d" for now uid a d
    using that by (cases a) (auto simp: password_is_def update_user_def update_sessions_def set_update_where)
qed (simp_all add: password_is_def)

end
