(* ===== verification/Validation.thy ===== *)
theory Validation
  imports Env
begin

text \<open>Validation of what users type: addresses, names and passwords
  (\<open>oidc-core/src/utils/validation.rs\<close>), and the password policy of a realm
  (\<open>oidc-core/src/models/password_policy.rs\<close>).  The policy's loops are the ones of the code; the
  specification \<open>rules\<close> says what each rule means.\<close>

section \<open>Addresses and names\<close>

definition has_whitespace :: "string \<Rightarrow> bool" where
  "has_whitespace s \<longleftrightarrow> (\<exists>ch \<in> set (utf8_chars s). is_whitespace ch)"

(*@ oidc-core/src/utils/validation.rs 16-50 is_valid_email *)
definition is_valid_email :: "string \<Rightarrow> bool" where
  "is_valid_email email =
     (if email = [] \<or> 320 < length email then False
      else if length (filter (\<lambda>c. c = CHR ''@'') email) \<noteq> 1 then False
      else (case split_once (CHR ''@'') email of
              None \<Rightarrow> False
            | Some (name, domain) \<Rightarrow>
                if name = [] \<or> has_whitespace name then False
                else if domain = [] \<or> has_whitespace domain then False
                else if CHR ''.'' \<notin> set domain then False
                else if length (last (split_on (CHR ''.'') domain)) < 2 then False
                else True))"

text \<open>The four flags of the loops over the characters: upper case, lower case, digit, anything else.\<close>

definition is_ascii :: "(char \<Rightarrow> bool) \<Rightarrow> string \<Rightarrow> bool" where
  "is_ascii P ch = (case ch of [b] \<Rightarrow> P b | _ \<Rightarrow> False)"

type_synonym flags = "bool \<times> bool \<times> bool \<times> bool"

definition class_step :: "string \<Rightarrow> flags \<Rightarrow> flags" where
  "class_step ch = (\<lambda>(upper, lower, digit, special).
     if is_ascii ascii_upper ch then (True, lower, digit, special)
     else if is_ascii ascii_lower ch then (upper, True, digit, special)
     else if is_ascii ascii_digit ch then (upper, lower, True, special)
     else (upper, lower, digit, True))"

definition classes :: "string \<Rightarrow> flags" where
  "classes s = fold class_step (utf8_chars s) (False, False, False, False)"

(*@ oidc-core/src/utils/validation.rs 58-75 is_strong_password *)
definition is_strong_password :: "string \<Rightarrow> bool" where
  "is_strong_password password =
     (if length password < 8 then False
      else (case classes password of (upper, lower, digit, _) \<Rightarrow> upper \<and> lower \<and> digit))"

(*@ oidc-core/src/utils/validation.rs 82-97 is_valid_username *)
definition is_valid_username :: "string \<Rightarrow> bool" where
  "is_valid_username name =
     (if \<not> (2 \<le> length name \<and> length name \<le> 100) then False
      else let first = hd (utf8_chars name); final = last (utf8_chars name)
           in if first = '' '' \<or> first = ''-'' \<or> final = '' '' \<or> final = ''-'' then False
              else \<forall>ch \<in> set (utf8_chars name). is_ascii ascii_alnum ch \<or> ch = '' '' \<or> ch = ''-'')"

(*@ oidc-core/src/models/user.rs 165-178 User::validate *)
definition validate_user :: "user \<Rightarrow> unit result" where
  "validate_user u =
     (let email = trim (u_email u)
      in if email = [] then Inl (InvalidInput ''email must not be empty'')
         else if CHR ''@'' \<notin> set email \<or> CHR ''.'' \<notin> set email
         then Inl (InvalidInput (''Invalid email format: '' @ email))
         else Inr ())"


section \<open>The password policy of a realm\<close>

(*@ oidc-core/src/models/password_policy.rs 12-53 PasswordPolicy *)
record password_policy =
  pp_min_length :: nat
  pp_max_length :: nat
  pp_require_uppercase :: bool
  pp_require_lowercase :: bool
  pp_require_digit :: bool
  pp_require_special :: bool
  pp_min_unique_chars :: nat
  pp_password_history_count :: nat
  pp_max_identical_consecutive :: nat
  pp_disallowed_passwords :: "string list"

(*@ oidc-core/src/models/password_policy.rs 55-80 PasswordPolicy::default *)
definition default_password_policy :: password_policy where
  "default_password_policy =
     \<lparr>pp_min_length = 8, pp_max_length = 128, pp_require_uppercase = True, pp_require_lowercase = True,
      pp_require_digit = True, pp_require_special = False, pp_min_unique_chars = 0,
      pp_password_history_count = 0, pp_max_identical_consecutive = 0, pp_disallowed_passwords = []\<rparr>"

text \<open>\<open>serde_json::from_value\<close>: \<open>usize\<close> has 32 bits on the \<open>wasm32\<close> target the server runs on.  The
  struct is an object, or an array in the order of the fields; a missing member takes its default, a
  member of the wrong type fails the whole policy, which then falls back to the default one.\<close>

definition usize_max :: int where
  "usize_max = 2 ^ 32 - 1"

fun usize_or :: "nat \<Rightarrow> json option \<Rightarrow> nat option" where
  "usize_or n None = Some n"
| "usize_or n (Some (JNum k)) = (if 0 \<le> k \<and> k \<le> usize_max then Some (nat k) else None)"
| "usize_or n (Some _) = None"

fun bool_or :: "bool \<Rightarrow> json option \<Rightarrow> bool option" where
  "bool_or b None = Some b"
| "bool_or b (Some (JBool c)) = Some c"
| "bool_or b (Some _) = None"

fun strings_or :: "json option \<Rightarrow> string list option" where
  "strings_or None = Some []"
| "strings_or (Some (JArr vs)) =
     (if \<forall>v \<in> set vs. as_str_json v \<noteq> None then Some (List.map_filter as_str_json vs) else None)"
| "strings_or (Some _) = None"

definition policy_fields :: "(nat \<Rightarrow> string \<Rightarrow> json option) \<Rightarrow> password_policy option" where
  "policy_fields field =
     Option.bind (usize_or 8 (field 0 ''min_length'')) (\<lambda>a.
     Option.bind (usize_or 128 (field 1 ''max_length'')) (\<lambda>b.
     Option.bind (bool_or True (field 2 ''require_uppercase'')) (\<lambda>c.
     Option.bind (bool_or True (field 3 ''require_lowercase'')) (\<lambda>e.
     Option.bind (bool_or True (field 4 ''require_digit'')) (\<lambda>f.
     Option.bind (bool_or False (field 5 ''require_special'')) (\<lambda>g.
     Option.bind (usize_or 0 (field 6 ''min_unique_chars'')) (\<lambda>h.
     Option.bind (usize_or 0 (field 7 ''password_history_count'')) (\<lambda>i.
     Option.bind (usize_or 0 (field 8 ''max_identical_consecutive'')) (\<lambda>j.
     Option.bind (strings_or (field 9 ''disallowed_passwords'')) (\<lambda>k.
     Some \<lparr>pp_min_length = a, pp_max_length = b, pp_require_uppercase = c, pp_require_lowercase = e,
       pp_require_digit = f, pp_require_special = g, pp_min_unique_chars = h,
       pp_password_history_count = i, pp_max_identical_consecutive = j, pp_disallowed_passwords = k\<rparr>))))))))))"

fun password_policy_of_json :: "json \<Rightarrow> password_policy option" where
  "password_policy_of_json (JObj m) = policy_fields (\<lambda>_ name. obj_get m name)"
| "password_policy_of_json (JArr vs) =
     (if 10 < length vs then None
      else policy_fields (\<lambda>i _. if i < length vs then Some (vs ! i) else None))"
| "password_policy_of_json _ = None"

(*@ oidc-core/src/models/password_policy.rs 114-119 PasswordPolicy::from_realm_config *)
definition password_policy_of :: "json \<Rightarrow> password_policy" where
  "password_policy_of config =
     (case Option.bind (jget config ''password_policy'') password_policy_of_json of
        None \<Rightarrow> default_password_policy | Some p \<Rightarrow> p)"

text \<open>The loop over the characters with the previous one, the current run and the longest.\<close>

fun longest_run :: "'a list \<Rightarrow> 'a option \<Rightarrow> nat \<Rightarrow> nat \<Rightarrow> nat" where
  "longest_run [] prev current best = best"
| "longest_run (ch # chs) prev current best =
     (if Some ch = prev
      then longest_run chs (Some ch) (current + 1) (if best < current + 1 then current + 1 else best)
      else longest_run chs (Some ch) 1 best)"

definition push_if :: "bool \<Rightarrow> string \<Rightarrow> string list \<Rightarrow> string list" where
  "push_if b name violated = (if b then violated @ [name] else violated)"

(*@ oidc-core/src/models/password_policy.rs 125-219 PasswordPolicy::validate_password *)
definition validate_password :: "env \<Rightarrow> password_policy \<Rightarrow> string \<Rightarrow> string list + unit" where
  "validate_password E p password =
     (let v = push_if (length password < pp_min_length p) ''min_length'' [];
          v = push_if (pp_max_length p < length password) ''max_length'' v;
          (upper, lower, digit, special) = classes password;
          v = push_if (pp_require_uppercase p \<and> \<not> upper) ''require_uppercase'' v;
          v = push_if (pp_require_lowercase p \<and> \<not> lower) ''require_lowercase'' v;
          v = push_if (pp_require_digit p \<and> \<not> digit) ''require_digit'' v;
          v = push_if (pp_require_special p \<and> \<not> special) ''require_special'' v;
          v = (if 0 < pp_min_unique_chars p
               then push_if (length (remdups (utf8_chars password)) < pp_min_unique_chars p)
                      ''min_unique_chars'' v
               else v);
          v = (if 0 < pp_max_identical_consecutive p \<and> password \<noteq> []
               then push_if (pp_max_identical_consecutive p < longest_run (utf8_chars password) None 1 1)
                      ''max_identical_consecutive'' v
               else v);
          v = (if pp_disallowed_passwords p \<noteq> []
               then push_if (\<exists>w \<in> set (pp_disallowed_passwords p). e_lower E password = e_lower E w)
                      ''disallowed_password'' v
               else v)
      in if v = [] then Inr () else Inl v)"

(*@ oidc-core/src/models/password_policy.rs 96-104 PasswordPolicyViolation Display *)
definition violation_text :: "string list \<Rightarrow> string" where
  "violation_text rules = ''password violates the following rules: '' @ join '', '' rules"


section \<open>What the rules mean\<close>

definition contains :: "(char \<Rightarrow> bool) \<Rightarrow> string \<Rightarrow> bool" where
  "contains P s \<longleftrightarrow> (\<exists>ch \<in> set (utf8_chars s). is_ascii P ch)"

definition alphanumeric :: "string \<Rightarrow> bool" where
  "alphanumeric ch \<longleftrightarrow> is_ascii ascii_upper ch \<or> is_ascii ascii_lower ch \<or> is_ascii ascii_digit ch"

lemma ascii_disjoint:
  "is_ascii ascii_upper ch \<Longrightarrow> \<not> is_ascii ascii_lower ch \<and> \<not> is_ascii ascii_digit ch"
  "is_ascii ascii_lower ch \<Longrightarrow> \<not> is_ascii ascii_digit ch"
  by (auto simp: is_ascii_def ascii_upper_def ascii_lower_def ascii_digit_def split: list.splits)

lemma fold_class_step:
  "fold class_step chs (u, l, n, x) =
     (u \<or> (\<exists>ch \<in> set chs. is_ascii ascii_upper ch), l \<or> (\<exists>ch \<in> set chs. is_ascii ascii_lower ch),
      n \<or> (\<exists>ch \<in> set chs. is_ascii ascii_digit ch), x \<or> (\<exists>ch \<in> set chs. \<not> alphanumeric ch))"
proof (induction chs arbitrary: u l n x)
  case (Cons ch chs)
  then show ?case
    using ascii_disjoint [of ch] by (auto simp: class_step_def alphanumeric_def)
qed simp

lemma classes_eq:
  "classes s = (contains ascii_upper s, contains ascii_lower s, contains ascii_digit s,
     \<exists>ch \<in> set (utf8_chars s). \<not> alphanumeric ch)"
  by (simp add: classes_def fold_class_step contains_def)

lemma prefix_replicate:
  "x \<noteq> p \<Longrightarrow> prefix (replicate k c) (replicate n p @ x # xs) \<Longrightarrow> c = p \<Longrightarrow> k \<le> n"
proof (induction n arbitrary: k)
  case 0
  then show ?case
    by (cases k) auto
next
  case (Suc n)
  then show ?case
    by (cases k) auto
qed

lemma run_at_boundary:
  assumes "x \<noteq> p"
  shows "sublist (replicate (Suc k) c) (replicate n p @ x # xs)
     \<longleftrightarrow> Suc k \<le> n \<and> c = p \<or> sublist (replicate (Suc k) c) (x # xs)"
proof (induction n)
  case (Suc n)
  have "prefix (replicate (Suc k) c) (replicate (Suc n) p @ x # xs) \<longleftrightarrow> c = p \<and> k \<le> n"
  proof
    assume "prefix (replicate (Suc k) c) (replicate (Suc n) p @ x # xs)"
    with prefix_replicate [OF assms, of k c n xs] show "c = p \<and> k \<le> n"
      by auto
  next
    assume "c = p \<and> k \<le> n"
    then have "replicate (Suc n) p = replicate (Suc k) c @ replicate (n - k) p"
      by (metis Suc_le_mono add_diff_inverse_nat diff_Suc_Suc linorder_not_less replicate_add)
    then show "prefix (replicate (Suc k) c) (replicate (Suc n) p @ x # xs)"
      by (metis append.assoc prefixI)
  qed
  then show ?case
    using Suc by (auto simp: sublist_Cons_right)
qed simp

lemma sublist_replicate: "sublist (replicate (Suc k) c) (replicate n p) \<longleftrightarrow> Suc k \<le> n \<and> c = p"
proof
  assume s: "sublist (replicate (Suc k) c) (replicate n p)"
  then have "c \<in> set (replicate n p)"
    using set_mono_sublist by fastforce
  then show "Suc k \<le> n \<and> c = p"
    using sublist_length_le [OF s] by (simp split: if_splits)
next
  assume "Suc k \<le> n \<and> c = p"
  then have "replicate n p = [] @ replicate (Suc k) c @ replicate (n - Suc k) p"
    by (metis append_Nil le_add_diff_inverse replicate_add)
  then show "sublist (replicate (Suc k) c) (replicate n p)"
    by (metis sublist_appendI)
qed

lemma replicate_single: "replicate (Suc 0) c @ xs = c # xs"
  by simp

lemma longest_run_from:
  "current \<le> best \<Longrightarrow> 1 \<le> best \<Longrightarrow> k < longest_run chs (Some p) current best
     \<longleftrightarrow> k < best \<or> (\<exists>c. sublist (replicate (Suc k) c) (replicate current p @ chs))"
proof (induction chs arbitrary: p current best)
  case Nil
  then show ?case
    by (auto simp: sublist_replicate simp del: replicate_Suc)
next
  case (Cons ch chs)
  show ?case
  proof (cases "ch = p")
    case True
    have shift: "replicate current p @ p # chs = replicate (current + 1) p @ chs"
      by (simp add: replicate_app_Cons_same)
    have long: "\<exists>c. sublist (replicate (Suc k) c) (replicate (current + 1) p @ chs)" if "k < current + 1"
    proof -
      have "sublist (replicate (Suc k) p) (replicate (current + 1) p)"
        using that unfolding sublist_replicate by simp
      then show ?thesis
        by (meson sublist_append_rightI sublist_order.order_trans)
    qed
    show ?thesis
      using Cons(1) [of "current + 1" "if best < current + 1 then current + 1 else best" p] Cons(2, 3) True
        long by (auto simp: shift simp del: replicate_Suc)
  next
    case False
    have "k < longest_run chs (Some ch) 1 best
        \<longleftrightarrow> k < best \<or> (\<exists>c. sublist (replicate (Suc k) c) (ch # chs))"
      using Cons(1) [of 1 best ch] Cons(3) by (simp add: replicate_single del: replicate_Suc)
    then show ?thesis
      using False Cons(2) by (auto simp: run_at_boundary [OF False] simp del: replicate_Suc)
  qed
qed

text \<open>The rule of each name, as a condition on the password.\<close>

definition rules :: "env \<Rightarrow> password_policy \<Rightarrow> string \<Rightarrow> (string \<times> bool) list" where
  "rules E p s =
     [(''min_length'', pp_min_length p \<le> length s),
      (''max_length'', length s \<le> pp_max_length p),
      (''require_uppercase'', pp_require_uppercase p \<longrightarrow> contains ascii_upper s),
      (''require_lowercase'', pp_require_lowercase p \<longrightarrow> contains ascii_lower s),
      (''require_digit'', pp_require_digit p \<longrightarrow> contains ascii_digit s),
      (''require_special'', pp_require_special p \<longrightarrow> (\<exists>ch \<in> set (utf8_chars s). \<not> alphanumeric ch)),
      (''min_unique_chars'', pp_min_unique_chars p \<le> card (set (utf8_chars s))),
      (''max_identical_consecutive'', pp_max_identical_consecutive p = 0
         \<or> (\<nexists>ch. sublist (replicate (Suc (pp_max_identical_consecutive p)) ch) (utf8_chars s))),
      (''disallowed_password'', \<forall>w \<in> set (pp_disallowed_passwords p). e_lower E s \<noteq> e_lower E w)]"

lemma longest_run_spec:
  assumes "chs \<noteq> []" and "0 < k"
  shows "k < longest_run chs None 1 1 \<longleftrightarrow> (\<exists>c. sublist (replicate (Suc k) c) chs)"
proof -
  obtain ch rest where chs: "chs = ch # rest"
    using assms(1) by (cases chs) auto
  have "k < longest_run rest (Some ch) 1 1 \<longleftrightarrow> k < 1 \<or> (\<exists>c. sublist (replicate (Suc k) c) (ch # rest))"
    using longest_run_from [of 1 1 k rest ch] by (simp add: replicate_single del: replicate_Suc)
  then show ?thesis
    using assms(2) by (simp add: chs del: replicate_Suc)
qed

definition broken :: "(string \<times> bool) list \<Rightarrow> string list" where
  "broken rs = map fst (filter (\<lambda>(_, ok). \<not> ok) rs)"

lemma broken_Cons: "broken ((name, ok) # rs) = (if \<not> ok then [name] else []) @ broken rs"
  by (simp add: broken_def)

lemma broken_Nil: "broken [] = []"
  by (simp add: broken_def)

lemma push_if_append: "push_if b name v = v @ (if b then [name] else [])"
  by (simp add: push_if_def)

lemma if_push_if: "(if a then push_if b name v else v) = push_if (a \<and> b) name v"
  by (simp add: push_if_def)

text \<open>A password is accepted exactly when it keeps every rule of the policy, and otherwise the report
  names exactly the rules it breaks, each once, in their fixed order: the flags and the counters of the
  loop agree with what the rules mean.  The lengths count bytes.\<close>

theorem validate_password_correct:
  "validate_password E p s =
     (if broken (rules E p s) = [] then Inr () else Inl (broken (rules E p s)))"
proof -
  have unique: "0 < pp_min_unique_chars p \<and> length (remdups (utf8_chars s)) < pp_min_unique_chars p
      \<longleftrightarrow> \<not> pp_min_unique_chars p \<le> card (set (utf8_chars s))"
    by (auto simp: length_remdups_card_conv not_le)
  have empty: "utf8_chars s = [] \<longleftrightarrow> s = []"
    by (cases s) auto
  let ?max = "pp_max_identical_consecutive p"
  have "\<not> (\<exists>c. sublist (replicate (Suc ?max) c) (utf8_chars s))" if "s = []"
    using that by simp
  then have run: "(0 < ?max \<and> s \<noteq> []) \<and> ?max < longest_run (utf8_chars s) None 1 1
      \<longleftrightarrow> \<not> (?max = 0 \<or> (\<nexists>c. sublist (replicate (Suc ?max) c) (utf8_chars s)))"
    using longest_run_spec [of "utf8_chars s" ?max] empty by (auto simp del: replicate_Suc)
  have words: "pp_disallowed_passwords p \<noteq> [] \<and> (\<exists>w \<in> set (pp_disallowed_passwords p). e_lower E s = e_lower E w)
      \<longleftrightarrow> \<not> (\<forall>w \<in> set (pp_disallowed_passwords p). e_lower E s \<noteq> e_lower E w)"
    by auto
  show ?thesis
    unfolding validate_password_def rules_def Let_def classes_eq prod.case if_push_if unique run words
    by (simp only: push_if_append broken_Cons broken_Nil not_le not_imp append.assoc append_Nil append_Nil2)
qed

end
