(* ===== verification/Policies.thy ===== *)
theory Policies
  imports Env
begin

text \<open>The policies of the authorization services (\<open>oidc-core/src/models/authorization_service.rs\<close>):
  a policy reads its configuration from JSON at every evaluation, a permission combines the answers of
  its policies.  The typed language \<open>rule\<close> below is what the configurations mean: reading a
  configuration is an abstraction function, and evaluation refines the meaning of its result.\<close>

section \<open>Evaluation\<close>

(*@ oidc-core/src/models/authorization_service.rs 83-93 AuthorizationContext *)
record authorization_context =
  cx_subject_id :: "uuid option"
  cx_client_id :: string
  cx_owner_id :: "uuid option"
  cx_roles :: "string list"
  cx_groups :: "string list"
  cx_user_attributes :: json
  cx_resource_attributes :: json
  cx_token_claims :: json
  cx_now :: instant

(*@ oidc-core/src/models/authorization_service.rs 96-110 AuthorizationPolicy::validate *)
definition validate_policy_row :: "authorization_policy \<Rightarrow> string + unit" where
  "validate_policy_row p =
     (if trim (ap_name p) = [] then Inl ''policy name is required''
      else if ap_policy_type p \<notin> {''user'', ''role'', ''group'', ''client'', ''owner'', ''attribute'', ''time''}
      then Inl ''unsupported policy type''
      else if ap_logic p \<notin> {''positive'', ''negative''}
      then Inl ''policy logic must be positive or negative''
      else Inr ())"

(*@ oidc-core/src/models/authorization_service.rs 170-179 value_list *)
definition value_list :: "json \<Rightarrow> string \<Rightarrow> string list" where
  "value_list config key =
     (case Option.bind (jget config key) as_array of
        None \<Rightarrow> []
      | Some values \<Rightarrow> List.map_filter as_str_json values)"

(*@ oidc-core/src/models/authorization_service.rs 181-187 contains_uuid *)
definition contains_uuid :: "env \<Rightarrow> json \<Rightarrow> string \<Rightarrow> uuid option \<Rightarrow> bool" where
  "contains_uuid E config key actual =
     (case actual of
        None \<Rightarrow> False
      | Some i \<Rightarrow> \<exists>expected \<in> set (value_list config key). expected = e_uuid_text E i)"

definition text_member :: "json \<Rightarrow> string \<Rightarrow> string option" where
  "text_member config key = Option.bind (jget config key) as_str_json"

(*@ oidc-core/src/models/authorization_service.rs 189-197 matches_values *)
definition matches_values :: "json \<Rightarrow> string \<Rightarrow> string list \<Rightarrow> bool" where
  "matches_values config key actual =
     (let expected = value_list config key
      in if text_member config ''match'' = Some ''all''
         then expected \<noteq> [] \<and> (\<forall>v \<in> set expected. v \<in> set actual)
         else (\<exists>v \<in> set expected. v \<in> set actual))"

text \<open>\<open>try_fold\<close> with \<open>Value::get\<close> over the parts of the key, the empty ones included.\<close>

definition attribute_value :: "json \<Rightarrow> string \<Rightarrow> json option" where
  "attribute_value source key = walk source (split_on (CHR ''.'') key)"

(*@ oidc-core/src/models/authorization_service.rs 199-230 evaluate_attribute *)
definition evaluate_attribute :: "json \<Rightarrow> authorization_context \<Rightarrow> bool" where
  "evaluate_attribute config ctx =
     (let key = (case text_member config ''key'' of None \<Rightarrow> [] | Some k \<Rightarrow> k)
      in if key = [] then False
         else
           let source = (if text_member config ''source'' = Some ''token'' then cx_token_claims ctx
                  else if text_member config ''source'' = Some ''resource'' then cx_resource_attributes ctx
                  else cx_user_attributes ctx);
               actual = attribute_value source key;
               operator = (case text_member config ''operator'' of None \<Rightarrow> ''equals'' | Some t \<Rightarrow> t);
               expected = (case jget config ''value'' of None \<Rightarrow> JNull | Some v \<Rightarrow> v)
           in if operator = ''present'' then (case actual of None \<Rightarrow> False | Some v \<Rightarrow> v \<noteq> JNull)
              else if operator = ''not_equals'' then actual \<noteq> Some expected
              else if operator = ''contains'' then
                (case actual of
                   Some (JArr values) \<Rightarrow> expected \<in> set values
                 | Some (JStr v) \<Rightarrow> (case as_str_json expected of None \<Rightarrow> False | Some item \<Rightarrow> sublist item v)
                 | _ \<Rightarrow> False)
              else actual = Some expected)"

text \<open>The day of the week, 1 for Monday: 1 January 1970 was a Thursday.\<close>

definition iso_weekday :: "instant \<Rightarrow> int" where
  "iso_weekday now = (timestamp now div 86400 + 3) mod 7 + 1"

definition bound_member :: "env \<Rightarrow> json \<Rightarrow> string \<Rightarrow> instant option" where
  "bound_member E config key = Option.bind (text_member config key) (e_rfc3339 E)"

(*@ oidc-core/src/models/authorization_service.rs 232-251 evaluate_time *)
definition evaluate_time :: "env \<Rightarrow> json \<Rightarrow> instant \<Rightarrow> bool" where
  "evaluate_time E config now =
     (let after_start = (case bound_member E config ''not_before'' of None \<Rightarrow> True | Some t \<Rightarrow> t \<le> now);
          before_end = (case bound_member E config ''not_on_or_after'' of None \<Rightarrow> True | Some t \<Rightarrow> now < t);
          weekday_allowed = (case Option.bind (jget config ''weekdays'') as_array of
             None \<Rightarrow> True
           | Some allowed \<Rightarrow> \<exists>v \<in> set allowed. v = JNum (iso_weekday now))
      in after_start \<and> before_end \<and> weekday_allowed)"

(*@ oidc-core/src/models/authorization_service.rs 112-130 AuthorizationPolicy::evaluate *)
definition evaluate :: "env \<Rightarrow> authorization_policy \<Rightarrow> authorization_context \<Rightarrow> bool" where
  "evaluate E p ctx =
     (let t = ap_policy_type p;
          matched =
            (if t = ''user'' then contains_uuid E (ap_config p) ''users'' (cx_subject_id ctx)
             else if t = ''role'' then matches_values (ap_config p) ''roles'' (cx_roles ctx)
             else if t = ''group'' then matches_values (ap_config p) ''groups'' (cx_groups ctx)
             else if t = ''client'' then (\<exists>v \<in> set (value_list (ap_config p) ''clients''). v = cx_client_id ctx)
             else if t = ''owner'' then cx_subject_id ctx \<noteq> None \<and> cx_subject_id ctx = cx_owner_id ctx
             else if t = ''attribute'' then evaluate_attribute (ap_config p) ctx
             else if t = ''time'' then evaluate_time E (ap_config p) (cx_now ctx)
             else False)
      in if ap_logic p = ''negative'' then \<not> matched else matched)"

(*@ oidc-core/src/models/authorization_service.rs 134-148 AuthorizationPermission::validate *)
definition validate_permission :: "authorization_permission \<Rightarrow> string + unit" where
  "validate_permission p =
     (if trim (az_name p) = [] then Inl ''permission name is required''
      else if az_policies p = [] then Inl ''at least one policy is required''
      else if az_decision_strategy p \<notin> {''affirmative'', ''unanimous'', ''consensus''}
      then Inl ''invalid decision strategy''
      else Inr ())"

(*@ oidc-core/src/models/authorization_service.rs 150-156 AuthorizationPermission::applies_to *)
definition applies_to :: "authorization_permission \<Rightarrow> uuid \<Rightarrow> string list \<Rightarrow> bool" where
  "applies_to p resource requested \<longleftrightarrow>
     (az_resources p = [] \<or> resource \<in> set (az_resources p))
     \<and> (az_scopes p = [] \<or> (\<forall>s \<in> set requested. s \<in> set (az_scopes p)))"

(*@ oidc-core/src/models/authorization_service.rs 158-167 AuthorizationPermission::decide *)
definition decide :: "authorization_permission \<Rightarrow> bool list \<Rightarrow> bool" where
  "decide p results =
     (if results = [] then False
      else if az_decision_strategy p = ''unanimous'' then (\<forall>v \<in> set results. v)
      else if az_decision_strategy p = ''consensus''
      then length results < length (filter (\<lambda>v. v) results) * 2
      else (\<exists>v \<in> set results. v))"


section \<open>What a policy means\<close>

datatype attribute_source = UserAttributes | TokenClaims | ResourceAttributes
datatype attribute_test = Present | Differs json | Contains json | Equals json

datatype rule =
    Subject "string set"
  | AnyRole "string set"
  | AllRoles "string set"
  | AnyGroup "string set"
  | AllGroups "string set"
  | Requester "string set"
  | Owner
  | Attribute attribute_source "string list" attribute_test
  | During "instant option" "instant option" "int set option"
  | Never

type_synonym policy = "bool \<times> rule"

fun source_of :: "attribute_source \<Rightarrow> authorization_context \<Rightarrow> json" where
  "source_of UserAttributes ctx = cx_user_attributes ctx"
| "source_of TokenClaims ctx = cx_token_claims ctx"
| "source_of ResourceAttributes ctx = cx_resource_attributes ctx"

fun passes :: "attribute_test \<Rightarrow> json option \<Rightarrow> bool" where
  "passes Present v \<longleftrightarrow> v \<notin> {None, Some JNull}"
| "passes (Differs e) v \<longleftrightarrow> v \<noteq> Some e"
| "passes (Contains e) v \<longleftrightarrow> (\<exists>vs. v = Some (JArr vs) \<and> e \<in> set vs)
     \<or> (\<exists>s t. v = Some (JStr s) \<and> e = JStr t \<and> sublist t s)"
| "passes (Equals e) v \<longleftrightarrow> v = Some e"

fun satisfied :: "env \<Rightarrow> rule \<Rightarrow> authorization_context \<Rightarrow> bool" where
  "satisfied E (Subject us) ctx \<longleftrightarrow> (\<exists>i. cx_subject_id ctx = Some i \<and> e_uuid_text E i \<in> us)"
| "satisfied E (AnyRole rs) ctx \<longleftrightarrow> rs \<inter> set (cx_roles ctx) \<noteq> {}"
| "satisfied E (AllRoles rs) ctx \<longleftrightarrow> rs \<noteq> {} \<and> rs \<subseteq> set (cx_roles ctx)"
| "satisfied E (AnyGroup gs) ctx \<longleftrightarrow> gs \<inter> set (cx_groups ctx) \<noteq> {}"
| "satisfied E (AllGroups gs) ctx \<longleftrightarrow> gs \<noteq> {} \<and> gs \<subseteq> set (cx_groups ctx)"
| "satisfied E (Requester cs) ctx \<longleftrightarrow> cx_client_id ctx \<in> cs"
| "satisfied E Owner ctx \<longleftrightarrow> (\<exists>i. cx_subject_id ctx = Some i \<and> cx_owner_id ctx = Some i)"
| "satisfied E (Attribute src path test) ctx \<longleftrightarrow> passes test (walk (source_of src ctx) path)"
| "satisfied E (During start end_time week) ctx \<longleftrightarrow> (\<forall>t. start = Some t \<longrightarrow> t \<le> cx_now ctx)
     \<and> (\<forall>t. end_time = Some t \<longrightarrow> cx_now ctx < t) \<and> (\<forall>ds. week = Some ds \<longrightarrow> iso_weekday (cx_now ctx) \<in> ds)"
| "satisfied E Never ctx \<longleftrightarrow> False"

definition permits :: "env \<Rightarrow> policy \<Rightarrow> authorization_context \<Rightarrow> bool" where
  "permits E p ctx \<longleftrightarrow> (fst p \<longleftrightarrow> satisfied E (snd p) ctx)"

text \<open>The abstraction function: the rule that a configuration describes.\<close>

definition value_set :: "json \<Rightarrow> string \<Rightarrow> string set" where
  "value_set config key =
     {s. \<exists>vs. Option.bind (jget config key) as_array = Some vs \<and> JStr s \<in> set vs}"

definition attribute_rule :: "json \<Rightarrow> rule" where
  "attribute_rule config =
     (case text_member config ''key'' of
        None \<Rightarrow> Never
      | Some [] \<Rightarrow> Never
      | Some key \<Rightarrow> Attribute
          (case text_member config ''source'' of
             Some s \<Rightarrow> if s = ''token'' then TokenClaims else if s = ''resource'' then ResourceAttributes
                       else UserAttributes
           | None \<Rightarrow> UserAttributes)
          (split_on (CHR ''.'') key)
          (let e = (case jget config ''value'' of None \<Rightarrow> JNull | Some v \<Rightarrow> v)
           in case text_member config ''operator'' of
             Some t \<Rightarrow> if t = ''present'' then Present else if t = ''not_equals'' then Differs e
                       else if t = ''contains'' then Contains e else Equals e
           | None \<Rightarrow> Equals e))"

definition rule_of :: "env \<Rightarrow> string \<Rightarrow> json \<Rightarrow> rule" where
  "rule_of E t config =
     (let everything = (text_member config ''match'' = Some ''all'') in
      if t = ''user'' then Subject (value_set config ''users'')
      else if t = ''role'' then (if everything then AllRoles else AnyRole) (value_set config ''roles'')
      else if t = ''group'' then (if everything then AllGroups else AnyGroup) (value_set config ''groups'')
      else if t = ''client'' then Requester (value_set config ''clients'')
      else if t = ''owner'' then Owner
      else if t = ''attribute'' then attribute_rule config
      else if t = ''time'' then
        During (bound_member E config ''not_before'') (bound_member E config ''not_on_or_after'')
          (map_option (\<lambda>allowed. {k. JNum k \<in> set allowed}) (Option.bind (jget config ''weekdays'') as_array))
      else Never)"

definition policy_abs :: "env \<Rightarrow> authorization_policy \<Rightarrow> policy" where
  "policy_abs E p = (ap_logic p \<noteq> ''negative'', rule_of E (ap_policy_type p) (ap_config p))"

lemma as_str_json_Some: "as_str_json v = Some s \<longleftrightarrow> v = JStr s"
  by (cases v) auto

lemma set_value_list: "set (value_list config key) = value_set config key"
proof (cases "Option.bind (jget config key) as_array")
  case None
  then show ?thesis
    by (simp add: value_list_def value_set_def)
next
  case (Some vs)
  have "set (List.map_filter as_str_json vs) = {s. JStr s \<in> set vs}"
    by (induction vs) (auto simp: List.map_filter_def as_str_json_Some image_iff split: option.splits)
  with Some show ?thesis
    by (simp add: value_list_def value_set_def)
qed

lemma value_list_Nil: "value_list config key = [] \<longleftrightarrow> value_set config key = {}"
  unfolding set_value_list [symmetric] by simp

lemma matches_values_eq:
  "matches_values config key actual \<longleftrightarrow>
     (if text_member config ''match'' = Some ''all''
      then value_set config key \<noteq> {} \<and> value_set config key \<subseteq> set actual
      else value_set config key \<inter> set actual \<noteq> {})"
  by (auto simp: matches_values_def Let_def value_list_Nil set_value_list)

lemma passes_eq:
  "passes Present v = (case v of None \<Rightarrow> False | Some w \<Rightarrow> w \<noteq> JNull)"
  "passes (Contains e) v = (case v of
       Some (JArr values) \<Rightarrow> e \<in> set values
     | Some (JStr s) \<Rightarrow> (case as_str_json e of None \<Rightarrow> False | Some item \<Rightarrow> sublist item s)
     | _ \<Rightarrow> False)"
  by (auto simp: as_str_json_Some split: option.splits json.splits)

lemma evaluate_attribute_eq: "evaluate_attribute config ctx \<longleftrightarrow> satisfied E (attribute_rule config) ctx"
proof (cases "text_member config ''key''")
  case None
  then show ?thesis
    by (simp add: evaluate_attribute_def attribute_rule_def)
next
  case (Some key)
  show ?thesis
  proof (cases key)
    case Nil
    with Some show ?thesis
      by (simp add: evaluate_attribute_def attribute_rule_def)
  next
    case (Cons c cs)
    with Some show ?thesis
      unfolding evaluate_attribute_def attribute_rule_def attribute_value_def Let_def
      by (cases "text_member config ''source''"; cases "text_member config ''operator''")
        (simp_all add: passes_eq del: passes.simps(1, 3))
  qed
qed

text \<open>Evaluation refines the typed policy language: for every policy row and every context, the
  code's answer is the one of the policy that its configuration describes, whatever JSON the
  configuration holds.\<close>

theorem evaluate_refines: "evaluate E p ctx \<longleftrightarrow> permits E (policy_abs E p) ctx"
proof -
  have time: "evaluate_time E config (cx_now ctx) \<longleftrightarrow>
      satisfied E (rule_of E ''time'' config) ctx" for config
    by (auto simp: evaluate_time_def rule_of_def Let_def split: option.splits)
  have user: "contains_uuid E config key (cx_subject_id ctx)
      \<longleftrightarrow> (\<exists>i. cx_subject_id ctx = Some i \<and> e_uuid_text E i \<in> value_set config key)" for config key
    by (auto simp: contains_uuid_def set_value_list split: option.splits)
  have owner: "cx_subject_id ctx \<noteq> None \<and> cx_subject_id ctx = cx_owner_id ctx
      \<longleftrightarrow> (\<exists>i. cx_subject_id ctx = Some i \<and> cx_owner_id ctx = Some i)"
    by auto
  show ?thesis
    using time [of "ap_config p"]
    unfolding evaluate_def permits_def policy_abs_def Let_def fst_conv snd_conv
    by (auto simp: rule_of_def Let_def matches_values_eq set_value_list user owner
        evaluate_attribute_eq [of _ _ E])
qed

end
