(* ===== verification/Uma.thy ===== *)
theory Uma
  imports Policies Token_Info
begin

text \<open>The authorization services (\<open>oidc-oidc/src/endpoints/authorization_services.rs\<close>,
  \<open>oidc-repository/src/repositories/authorization_service_repo.rs\<close>): registration of resources,
  permission tickets, and the grant that turns a ticket or a permission request into a requesting
  party token.  The scopes of a token are collected in a hash set, \<open>listing\<close> is the order of its
  iteration.  JSON answers of the resource endpoints are the resources themselves.\<close>

section \<open>Tables\<close>

(*@ oidc-repository/src/repositories/client_repo.rs 79-93 ClientRepo::find_by_client_id_in_realm *)
definition client_in_realm :: "string \<Rightarrow> uuid \<Rightarrow> db \<Rightarrow> client option" where
  "client_in_realm cid realm d =
     List.find (\<lambda>c. c_client_id c = cid \<and> c_realm_id c = realm \<and> c_deleted_at c = None) (d_clients d)"

(*@ oidc-repository/src/repositories/authorization_service_repo.rs 13-22 AuthorizationServiceRepo::list_resources *)
definition resources_of :: "env \<Rightarrow> uuid \<Rightarrow> db \<Rightarrow> protected_resource list" where
  "resources_of E server d =
     sort_by (\<lambda>x y. e_collate E (pr_name x) (pr_name y))
       (filter (\<lambda>r. pr_resource_server_id r = server) (d_resources d))"

(*@ oidc-repository/src/repositories/authorization_service_repo.rs 24-33 AuthorizationServiceRepo::find_resource *)
definition resource_by_id :: "uuid \<Rightarrow> db \<Rightarrow> protected_resource option" where
  "resource_by_id i d = List.find (\<lambda>r. pr_id r = i) (d_resources d)"

text \<open>The schema has a unique key on the server and the name.\<close>

definition name_free :: "protected_resource \<Rightarrow> protected_resource list \<Rightarrow> bool" where
  "name_free r rows \<longleftrightarrow> (\<forall>x \<in> set rows. pr_id x \<noteq> pr_id r \<longrightarrow>
     \<not> (pr_resource_server_id x = pr_resource_server_id r \<and> pr_name x = pr_name r))"

(*@ oidc-repository/src/repositories/authorization_service_repo.rs 47-59 AuthorizationServiceRepo::create_resource *)
definition resource_create :: "instant \<Rightarrow> protected_resource \<Rightarrow> (db, oidc_error, unit) prog" where
  "resource_create now r =
     bindp (query d_resources) (\<lambda>rows.
     thenp (guardp (name_free r rows \<and> (\<forall>x \<in> set rows. pr_id x \<noteq> pr_id r)) (Conflict ''duplicate key''))
       (exec (d_resources_update (\<lambda>rows. rows @ [r\<lparr>pr_created_at := now, pr_updated_at := now\<rparr>]))))"

(*@ oidc-repository/src/repositories/authorization_service_repo.rs 61-73 AuthorizationServiceRepo::update_resource *)
definition resource_update :: "instant \<Rightarrow> protected_resource \<Rightarrow> (db, oidc_error, unit) prog" where
  "resource_update now r =
     bindp (query d_resources) (\<lambda>rows.
     thenp (guardp (name_free r rows) (Conflict ''duplicate key''))
       (exec (d_resources_update (update_where (\<lambda>x. pr_id x = pr_id r)
          (\<lambda>x. x\<lparr>pr_owner_id := pr_owner_id r, pr_name := pr_name r, pr_display_name := pr_display_name r,
             pr_resource_type := pr_resource_type r, pr_uris := pr_uris r, pr_scopes := pr_scopes r,
             pr_attributes := pr_attributes r, pr_icon_uri := pr_icon_uri r, pr_updated_at := now\<rparr>)))))"

(*@ oidc-repository/src/repositories/authorization_service_repo.rs 75-80 AuthorizationServiceRepo::delete_resource *)
definition resource_delete :: "uuid \<Rightarrow> db \<Rightarrow> db" where
  "resource_delete i = d_resources_update (filter (\<lambda>r. pr_id r \<noteq> i))"

(*@ oidc-repository/src/repositories/authorization_service_repo.rs 82-89 AuthorizationServiceRepo::list_policies *)
definition policies_of :: "env \<Rightarrow> uuid \<Rightarrow> db \<Rightarrow> authorization_policy list" where
  "policies_of E server d =
     sort_by (\<lambda>x y. e_collate E (ap_name x) (ap_name y))
       (filter (\<lambda>p. ap_resource_server_id p = server) (d_policies d))"

(*@ oidc-repository/src/repositories/authorization_service_repo.rs 129-136 AuthorizationServiceRepo::list_permissions *)
definition permissions_of :: "env \<Rightarrow> uuid \<Rightarrow> db \<Rightarrow> authorization_permission list" where
  "permissions_of E server d =
     sort_by (\<lambda>x y. e_collate E (az_name x) (az_name y))
       (filter (\<lambda>p. az_resource_server_id p = server) (d_permissions d))"

(*@ oidc-repository/src/repositories/authorization_service_repo.rs 186-196 AuthorizationServiceRepo::create_ticket *)
definition ticket_create :: "instant \<Rightarrow> permission_ticket \<Rightarrow> (db, oidc_error, unit) prog" where
  "ticket_create now t =
     bindp (query d_tickets) (\<lambda>rows.
     thenp (guardp (\<forall>x \<in> set rows. pt_id x \<noteq> pt_id t \<and> pt_token_hash x \<noteq> pt_token_hash t)
              (Conflict ''duplicate key''))
       (exec (d_tickets_update (\<lambda>rows. rows @ [t\<lparr>pt_created_at := now\<rparr>]))))"

(*@ oidc-repository/src/repositories/authorization_service_repo.rs 198-205 AuthorizationServiceRepo::find_active_ticket *)
definition active_ticket :: "instant \<Rightarrow> string \<Rightarrow> db \<Rightarrow> permission_ticket option" where
  "active_ticket now h d =
     List.find (\<lambda>t. pt_token_hash t = h \<and> \<not> pt_used t \<and> now < pt_expires_at t) (d_tickets d)"

text \<open>The answer of the update is whether exactly one row was changed.\<close>

definition consumable :: "instant \<Rightarrow> uuid \<Rightarrow> permission_ticket \<Rightarrow> bool" where
  "consumable now i t \<longleftrightarrow> pt_id t = i \<and> \<not> pt_used t \<and> now < pt_expires_at t"

(*@ oidc-repository/src/repositories/authorization_service_repo.rs 216-223 AuthorizationServiceRepo::consume_ticket *)
definition ticket_consume :: "instant \<Rightarrow> uuid \<Rightarrow> bool \<Rightarrow> (db, oidc_error, bool) prog" where
  "ticket_consume now i granted =
     bindp (query (\<lambda>d. length (filter (consumable now i) (d_tickets d)))) (\<lambda>n.
     thenp (exec (d_tickets_update (update_where (consumable now i)
              (\<lambda>t. t\<lparr>pt_used := True, pt_granted := granted\<rparr>))))
       (ret (n = 1)))"

(*@ oidc-repository/src/repositories/authorization_service_repo.rs 234-242 AuthorizationServiceRepo::revoke_ticket *)
definition ticket_revoke :: "uuid \<Rightarrow> db \<Rightarrow> db" where
  "ticket_revoke i = d_tickets_update (update_where (\<lambda>t. pt_id t = i)
     (\<lambda>t. t\<lparr>pt_used := True, pt_granted := False\<rparr>))"

(*@ oidc-repository/src/repositories/authorization_service_repo.rs 244-252 AuthorizationServiceRepo::create_rpt *)
definition rpt_create :: "instant \<Rightarrow> rpt_grant \<Rightarrow> (db, oidc_error, unit) prog" where
  "rpt_create now g =
     bindp (query d_rpts) (\<lambda>rows.
     thenp (guardp (\<forall>x \<in> set rows. rp_id x \<noteq> rp_id g) (Conflict ''duplicate key''))
       (exec (d_rpts_update (\<lambda>rows. rows @ [g\<lparr>rp_created_at := now\<rparr>]))))"

(*@ oidc-repository/src/repositories/authorization_service_repo.rs 291-305 AuthorizationServiceRepo::cleanup_expired *)
definition authorization_cleanup :: "instant \<Rightarrow> db \<Rightarrow> db" where
  "authorization_cleanup now =
     d_tickets_update (filter (\<lambda>t. \<not> (pt_expires_at t < now \<or> (pt_used t \<and> pt_created_at t < now - days 1))))
     \<circ> d_rpts_update (filter (\<lambda>g. \<not> (rp_expires_at g < now \<or> (rp_revoked g \<and> rp_created_at g < now - days 1))))"


section \<open>Resource servers\<close>

(*@ oidc-oidc/src/endpoints/authorization_services.rs 62-68 bearer *)
definition bearer :: "string option \<Rightarrow> string result" where
  "bearer authorization =
     (case Option.bind authorization (\<lambda>h. strip_prefix h ''Bearer '') of
        None \<Rightarrow> Inl (AuthenticationFailed ''Bearer token required'')
      | Some t \<Rightarrow> Inr t)"

(*@ oidc-oidc/src/endpoints/authorization_services.rs 70-76 aud_contains *)
fun aud_contains :: "json \<Rightarrow> string \<Rightarrow> bool" where
  "aud_contains (JStr v) expected \<longleftrightarrow> v = expected"
| "aud_contains (JArr vs) expected \<longleftrightarrow> (\<exists>v \<in> set vs. as_str_json v = Some expected)"
| "aud_contains _ expected \<longleftrightarrow> False"

(*@ oidc-oidc/src/endpoints/authorization_services.rs 78-94 realm_and_server *)
definition realm_and_server :: "string \<Rightarrow> string \<Rightarrow> db \<Rightarrow> (realm \<times> client) result" where
  "realm_and_server realm_name server_id d =
     bindr (or_error (realm_by_name realm_name d) (NotFound ''realm'')) (\<lambda>r.
     bindr (or_error (Option.bind (client_in_realm server_id (r_id r) d) (\<lambda>c. if c_enabled c then Some c else None))
        (NotFound ''resource server'')) (\<lambda>c. Inr (r, c)))"

(*@ oidc-oidc/src/endpoints/authorization_services.rs 96-110 require_resource_server_token *)
definition require_server_token :: "env \<Rightarrow> hub \<Rightarrow> string option \<Rightarrow> client \<Rightarrow> db \<Rightarrow> unit result" where
  "require_server_token E H authorization server d =
     bindr (bearer authorization) (\<lambda>token.
     bindr (verify_access_any E H (timestamp (e_clock E 0)) token d) (\<lambda>claims.
     ensure (at_sub claims = c_client_id server \<or> aud_contains (at_aud claims) (c_client_id server))
       (AuthorizationDenied ''token is not valid for this resource server'')))"

definition server_for :: "env \<Rightarrow> hub \<Rightarrow> string \<Rightarrow> string \<Rightarrow> string option \<Rightarrow> (db, oidc_error, realm \<times> client) prog" where
  "server_for E H realm_name server_id authorization =
     bindp (ask (realm_and_server realm_name server_id)) (\<lambda>(r, server).
     thenp (ask (require_server_token E H authorization server))
       (ret (r, server)))"

(*@ oidc-oidc/src/endpoints/authorization_services.rs 23-40 ResourceRegistrationRequest *)
record resource_request =
  rq_name :: string
  rq_display_name :: "string option"
  rq_resource_type :: "string option"
  rq_owner :: "uuid option"
  rq_uris :: "string list"
  rq_scopes :: "string list"
  rq_attributes :: json
  rq_icon_uri :: "string option"

definition owner_in_realm :: "uuid option \<Rightarrow> uuid \<Rightarrow> db \<Rightarrow> bool" where
  "owner_in_realm owner realm d \<longleftrightarrow> (case owner of
       None \<Rightarrow> True
     | Some i \<Rightarrow> (case user_by_id i d of None \<Rightarrow> False | Some u \<Rightarrow> u_realm_id u = realm))"

(*@ oidc-oidc/src/endpoints/authorization_services.rs 112-167 register_resource *)
definition register_resource ::
  "env \<Rightarrow> hub \<Rightarrow> string \<Rightarrow> string \<Rightarrow> string option \<Rightarrow> resource_request \<Rightarrow>
   (db, oidc_error, protected_resource) prog" where
  "register_resource E H realm_name server_id authorization req =
     bindp (server_for E H realm_name server_id authorization) (\<lambda>(r, server).
     thenp (guardp (trim (rq_name req) \<noteq> []) (InvalidInput ''resource name is required''))
    (thenp (guardp (as_object (rq_attributes req) \<noteq> None)
              (InvalidInput ''resource attributes must be a JSON object''))
    (let now = e_clock E 1;
         res = \<lparr>pr_id = e_uuid E 0, pr_realm_id = r_id r, pr_resource_server_id = c_id server,
           pr_owner_id = rq_owner req, pr_name = trim (rq_name req), pr_display_name = rq_display_name req,
           pr_resource_type = rq_resource_type req, pr_uris = rq_uris req, pr_scopes = rq_scopes req,
           pr_attributes = rq_attributes req, pr_icon_uri = rq_icon_uri req, pr_created_at = now,
           pr_updated_at = now\<rparr>
     in bindp (query (resources_of E (c_id server))) (\<lambda>items.
        thenp (guardp (\<forall>x \<in> set items. \<not> eq_ignore_ascii_case (pr_name x) (pr_name res))
                 (InvalidInput ''a resource with this name already exists''))
       (bindp (query (owner_in_realm (pr_owner_id res) (r_id r))) (\<lambda>ok.
        thenp (guardp ok (InvalidInput ''resource owner is not in this realm''))
       (thenp (resource_create (e_db_now E) res)
          (ret res))))))))"

definition owned_resource :: "uuid \<Rightarrow> client \<Rightarrow> (db, oidc_error, protected_resource) prog" where
  "owned_resource i server =
     bindp (query (resource_by_id i)) (\<lambda>res.
     some_or (Option.bind res (\<lambda>x. if pr_resource_server_id x = c_id server then Some x else None))
       (NotFound ''resource''))"

(*@ oidc-oidc/src/endpoints/authorization_services.rs 204-254 update_registered_resource *)
definition update_registered_resource ::
  "env \<Rightarrow> hub \<Rightarrow> string \<Rightarrow> string \<Rightarrow> uuid \<Rightarrow> string option \<Rightarrow> resource_request \<Rightarrow>
   (db, oidc_error, protected_resource) prog" where
  "update_registered_resource E H realm_name server_id i authorization req =
     bindp (server_for E H realm_name server_id authorization) (\<lambda>(r, server).
     thenp (guardp (trim (rq_name req) \<noteq> [] \<and> as_object (rq_attributes req) \<noteq> None)
              (InvalidInput ''resource name and JSON object attributes are required''))
    (bindp (owned_resource i server) (\<lambda>res.
     bindp (query (resources_of E (c_id server))) (\<lambda>items.
     thenp (guardp (\<forall>x \<in> set items. pr_id x = pr_id res \<or> \<not> eq_ignore_ascii_case (pr_name x) (trim (rq_name req)))
              (InvalidInput ''a resource with this name already exists''))
    (bindp (query (owner_in_realm (rq_owner req) (pr_realm_id res))) (\<lambda>ok.
     thenp (guardp ok (InvalidInput ''resource owner is not in this realm''))
    (let res = res\<lparr>pr_name := trim (rq_name req), pr_display_name := rq_display_name req,
           pr_resource_type := rq_resource_type req, pr_owner_id := rq_owner req, pr_uris := rq_uris req,
           pr_scopes := rq_scopes req, pr_attributes := rq_attributes req, pr_icon_uri := rq_icon_uri req\<rparr>
     in thenp (resource_update (e_db_now E) res)
          (ret res))))))))"

(*@ oidc-oidc/src/endpoints/authorization_services.rs 256-275 delete_registered_resource *)
definition delete_registered_resource ::
  "env \<Rightarrow> hub \<Rightarrow> string \<Rightarrow> string \<Rightarrow> uuid \<Rightarrow> string option \<Rightarrow> (db, oidc_error, unit) prog" where
  "delete_registered_resource E H realm_name server_id i authorization =
     bindp (server_for E H realm_name server_id authorization) (\<lambda>(r, server).
     bindp (owned_resource i server) (\<lambda>res.
     exec (resource_delete (pr_id res))))"

(*@ oidc-oidc/src/endpoints/authorization_services.rs 277-319 create_permission_ticket *)
definition create_permission_ticket ::
  "env \<Rightarrow> hub \<Rightarrow> string \<Rightarrow> string \<Rightarrow> string option \<Rightarrow> uuid \<Rightarrow> string list \<Rightarrow> uuid option \<Rightarrow>
   (db, oidc_error, string) prog" where
  "create_permission_ticket E H realm_name server_id authorization resource scopes requester =
     bindp (server_for E H realm_name server_id authorization) (\<lambda>(r, server).
     bindp (owned_resource resource server) (\<lambda>res.
     thenp (guardp (\<forall>s \<in> set scopes. s \<in> set (pr_scopes res)) (InvalidScope ''resource scope is not registered''))
    (bindp (lift (generate_opaque_token E 0)) (\<lambda>token.
     let now = e_clock E 1
     in thenp (ticket_create (e_db_now E)
          \<lparr>pt_id = e_uuid E 0, pt_token_hash = sha2_256_hex E token, pt_realm_id = r_id r,
           pt_resource_server_id = c_id server, pt_requester_id = requester, pt_resource_id = pr_id res,
           pt_scopes = scopes, pt_granted = False, pt_used = False, pt_expires_at = now + minutes 5,
           pt_created_at = now\<rparr>)
        (ret token)))))"


section \<open>The decision on a request\<close>

definition permission_allows ::
  "env \<Rightarrow> authorization_policy list \<Rightarrow> authorization_context \<Rightarrow> authorization_permission \<Rightarrow> bool" where
  "permission_allows E policies ctx p =
     decide p (map (\<lambda>i. case List.find (\<lambda>q. ap_id q = i) policies of
         None \<Rightarrow> False | Some q \<Rightarrow> evaluate E q ctx) (az_policies p))"

definition role_values :: "env \<Rightarrow> uuid \<Rightarrow> db \<Rightarrow> string list" where
  "role_values E uid d =
     filter (\<lambda>v. v \<noteq> []) (concat (map (\<lambda>(name, client).
       [name, case client of None \<Rightarrow> [] | Some c \<Rightarrow> c @ '':'' @ name]) (effective_names (e_collate E) uid d)))"

definition context_for ::
  "env \<Rightarrow> instant \<Rightarrow> user \<Rightarrow> string \<Rightarrow> members \<Rightarrow> protected_resource \<Rightarrow> db \<Rightarrow> authorization_context" where
  "context_for E now u client claims res d =
     \<lparr>cx_subject_id = Some (u_id u), cx_client_id = client, cx_owner_id = pr_owner_id res,
      cx_roles = role_values E (u_id u) d, cx_groups = map g_name (groups_of_user (u_id u) d),
      cx_user_attributes = u_attributes u, cx_resource_attributes = pr_attributes res,
      cx_token_claims = JObj claims, cx_now = now\<rparr>"

definition granted_json :: "env \<Rightarrow> protected_resource \<Rightarrow> string list \<Rightarrow> json" where
  "granted_json E res scopes =
     json_object [(''rsid'', JStr (e_uuid_text E (pr_id res))), (''rsname'', JStr (pr_name res)),
       (''scopes'', strs scopes)]"

text \<open>The loop over the requests, with the number of the next reading of the clock.\<close>

(*@ oidc-oidc/src/endpoints/authorization_services.rs 589-668 evaluate_requests *)
fun evaluate_requests ::
  "env \<Rightarrow> nat \<Rightarrow> uuid \<Rightarrow> user \<Rightarrow> string \<Rightarrow> members \<Rightarrow> (uuid \<times> string list) list \<Rightarrow> db \<Rightarrow> json list" where
  "evaluate_requests E k server u client claims [] d = []"
| "evaluate_requests E k server u client claims ((rid, scopes) # rest) d =
     (case Option.bind (resource_by_id rid d)
             (\<lambda>r. if pr_resource_server_id r = server then Some r else None) of
        None \<Rightarrow> evaluate_requests E k server u client claims rest d
      | Some res \<Rightarrow>
          if \<not> (\<forall>s \<in> set scopes. s \<in> set (pr_scopes res))
          then evaluate_requests E k server u client claims rest d
          else if \<exists>p \<in> set (permissions_of E server d). applies_to p rid scopes
                   \<and> permission_allows E (policies_of E server d)
                       (context_for E (e_clock E k) u client claims res d) p
          then granted_json E res scopes # evaluate_requests E (Suc k) server u client claims rest d
          else evaluate_requests E (Suc k) server u client claims rest d)"

text \<open>\<open>collect\<close> of an iterator of results: the first error decides.\<close>

fun collect :: "('a \<Rightarrow> 'e + 'b) \<Rightarrow> 'a list \<Rightarrow> 'e + 'b list" where
  "collect f [] = Inr []"
| "collect f (x # xs) = bindr (f x) (\<lambda>y. bindr (collect f xs) (\<lambda>ys. Inr (y # ys)))"

(*@ oidc-oidc/src/endpoints/authorization_services.rs 782-802 parse_permission_parameter *)
definition parse_permission_parameter :: "env \<Rightarrow> string option \<Rightarrow> (uuid \<times> string list) list result" where
  "parse_permission_parameter E value =
     (case value of
        None \<Rightarrow> Inr []
      | Some v \<Rightarrow> collect (\<lambda>part.
          let (res, scopes) = (case split_once (CHR ''#'') part of Some x \<Rightarrow> x | None \<Rightarrow> (part, []))
          in bindr (or_error (e_parse_uuid E (trim res)) (InvalidInput ''permission resource must be a UUID''))
               (\<lambda>i. Inr (i, split_whitespace scopes)))
          (filter (\<lambda>part. \<not> blank part) (split_on (CHR '','') v)))"

definition rsid_of :: "json \<Rightarrow> string option" where
  "rsid_of p = Option.bind (jget p ''rsid'') as_str_json"

definition scopes_of :: "json \<Rightarrow> json list" where
  "scopes_of p = (case Option.bind (jget p ''scopes'') as_array of None \<Rightarrow> [] | Some vs \<Rightarrow> vs)"

fun add_scopes :: "json list \<Rightarrow> json \<Rightarrow> json" where
  "add_scopes new (JObj m) =
     (case obj_get m ''scopes'' of
        Some (JArr vs) \<Rightarrow> JObj (obj_insert ''scopes'' (JArr (push_new vs new)) m)
      | _ \<Rightarrow> JObj m)"
| "add_scopes new v = v"

fun merge_into :: "string \<Rightarrow> json list \<Rightarrow> json list \<Rightarrow> json list" where
  "merge_into rsid new [] = []"
| "merge_into rsid new (p # ps) =
     (if rsid_of p = Some rsid then add_scopes new p # ps else p # merge_into rsid new ps)"

(*@ oidc-oidc/src/endpoints/authorization_services.rs 751-780 merge_permissions *)
definition merge_permissions :: "json list \<Rightarrow> json \<Rightarrow> json list" where
  "merge_permissions current previous =
     (case as_array previous of
        None \<Rightarrow> current
      | Some ps \<Rightarrow> fold (\<lambda>p current.
          case rsid_of p of
            None \<Rightarrow> current
          | Some i \<Rightarrow> if \<exists>q \<in> set current. rsid_of q = Some i then merge_into i (scopes_of p) current
                      else current @ [p]) ps current)"


section \<open>Requesting party tokens\<close>

record rpt_response =
  ra_access_token :: string
  ra_token_type :: string
  ra_scope :: string
  ra_permissions :: json
  ra_upgraded :: bool

(*@ oidc-oidc/src/endpoints/authorization_services.rs 670-749 issue_rpt *)
definition issue_rpt ::
  "env \<Rightarrow> (string list \<Rightarrow> string list) \<Rightarrow> client \<Rightarrow> uuid \<Rightarrow> uuid \<Rightarrow> json list \<Rightarrow> string option \<Rightarrow> bool \<Rightarrow>
   (db, oidc_error, rpt_response) prog" where
  "issue_rpt E listing c server subject permissions jkt upgraded =
     thenp (guardp (permissions \<noteq> []) (AuthorizationDenied ''no permissions were granted''))
    (bindp (query (client_by_id server)) (\<lambda>s.
     bindp (some_or s (NotFound ''resource server'')) (\<lambda>s.
     let i = e_uuid E 0; now = e_clock E 0; value = JArr permissions;
         scopes = listing (List.map_filter as_str_json (concat (map scopes_of permissions)));
         custom = obj.ins_all [(''authorization'', json_object [(''permissions'', value)]),
                    (''rpt_id'', JStr (e_uuid_text E i))] []
     in bindp (lift (e_services E (c_realm_id c))) (\<lambda>svc.
        bindp (lift (issue_access_token E 0 svc (timestamp (e_clock E 1)) (e_uuid_text E subject)
                 (c_client_id c) scopes jkt None (Some [c_client_id s])
                 (no_access_extra\<lparr>ax_custom_claims := custom\<rparr>))) (\<lambda>(_, token).
        thenp (rpt_create (e_db_now E)
            \<lparr>rp_id = i, rp_realm_id = c_realm_id c, rp_resource_server_id = server, rp_subject_id = subject,
             rp_client_id = c_id c, rp_permissions = value, rp_revoked = False,
             rp_expires_at = now + minutes 15, rp_created_at = now\<rparr>)
          (ret \<lparr>ra_access_token = token, ra_token_type = token_type_of jkt, ra_scope = join_scopes scopes,
                ra_permissions = value, ra_upgraded = upgraded\<rparr>))))))"

definition active_in_realm :: "uuid \<Rightarrow> uuid \<Rightarrow> db \<Rightarrow> user option" where
  "active_in_realm i realm d =
     Option.bind (user_by_id i d) (\<lambda>u. if u_enabled u \<and> u_realm_id u = realm then Some u else None)"

text \<open>The previous token of an upgrade, when the request has one: it must be active and belong to the
  same user and client.\<close>

definition previous_grant ::
  "env \<Rightarrow> hub \<Rightarrow> client \<Rightarrow> uuid \<Rightarrow> string option \<Rightarrow> db \<Rightarrow> rpt_grant option result" where
  "previous_grant E H c subject rpt d =
     (case rpt of
        None \<Rightarrow> Inr None
      | Some token \<Rightarrow>
          bindr (map_err (\<lambda>_. InvalidSubjectToken ''RPT is invalid'')
            (verify_access_any E H (timestamp (e_clock E 1)) token d)) (\<lambda>claims.
          bindr (or_error (Option.bind (rpt_of E claims) (e_parse_uuid E))
            (InvalidSubjectToken ''RPT identifier is missing'')) (\<lambda>i.
          bindr (or_error (Option.bind (active_rpt (e_db_now E) i d)
              (\<lambda>g. if rp_subject_id g = subject \<and> rp_client_id g = c_id c then Some g else None))
            (AuthorizationDenied ''RPT cannot be upgraded'')) (\<lambda>g. Inr (Some g)))))"

text \<open>What is requested: the server, the permissions and the ticket when there is one.\<close>

definition requested_permissions ::
  "env \<Rightarrow> client \<Rightarrow> uuid \<Rightarrow> params \<Rightarrow> rpt_grant option \<Rightarrow> db \<Rightarrow>
   (uuid \<times> (uuid \<times> string list) list \<times> uuid option) result" where
  "requested_permissions E c subject params previous d =
     (case params ''ticket'' of
        Some token \<Rightarrow>
          bindr (or_error (active_ticket (e_db_now E) (sha2_256_hex E token) d)
            (InvalidInput ''permission ticket is invalid or expired'')) (\<lambda>t.
          bindr (ensure (pt_realm_id t = c_realm_id c
                \<and> (case pt_requester_id t of None \<Rightarrow> True | Some i \<Rightarrow> i = subject))
            (AuthorizationDenied ''permission ticket requester does not match'')) (\<lambda>_.
          Inr (pt_resource_server_id t, [(pt_resource_id t, pt_scopes t)], Some (pt_id t))))
      | None \<Rightarrow>
          bindr (case params ''audience'' of
              Some audience \<Rightarrow> bindr (or_error (client_in_realm audience (c_realm_id c) d)
                (NotFound ''resource server'')) (\<lambda>s. Inr (c_id s))
            | None \<Rightarrow> (case previous of
                Some g \<Rightarrow> Inr (rp_resource_server_id g)
              | None \<Rightarrow> Inl (InvalidInput ''audience is required without a ticket''))) (\<lambda>server.
          bindr (parse_permission_parameter E (params ''permission'')) (\<lambda>requested.
          bindr (ensure (requested \<noteq> []) (InvalidInput ''permission is required'')) (\<lambda>_.
          Inr (server, requested, None)))))"

text \<open>There is no transaction: a ticket stays consumed when a later step fails.\<close>

(*@ oidc-oidc/src/endpoints/authorization_services.rs 321-473 uma_ticket_grant *)
definition uma_ticket_grant ::
  "env \<Rightarrow> hub \<Rightarrow> (string list \<Rightarrow> string list) \<Rightarrow> client \<Rightarrow> params \<Rightarrow> string option \<Rightarrow>
   (db, oidc_error, rpt_response) prog" where
  "uma_ticket_grant E H listing c params jkt =
     bindp (some_or (params ''claim_token'') (InvalidInput ''claim_token is required'')) (\<lambda>claim_token.
     thenp (guardp (params ''claim_token_format'' \<in> {None, Some ''urn:ietf:params:oauth:token-type:jwt''})
              (InvalidInput ''unsupported claim_token_format''))
    (bindp (ask (\<lambda>d. map_err (\<lambda>_. InvalidSubjectToken ''claim token is invalid'')
              (verify_access_any E H (timestamp (e_clock E 0)) claim_token d))) (\<lambda>claims.
     bindp (some_or (e_parse_uuid E (at_sub claims))
              (InvalidSubjectToken ''an end-user claim token is required'')) (\<lambda>subject.
     bindp (query (active_in_realm subject (c_realm_id c))) (\<lambda>u.
     bindp (some_or u (InvalidSubjectToken ''user is not active in this realm'')) (\<lambda>u.
     bindp (ask (previous_grant E H c subject (params ''rpt''))) (\<lambda>previous.
     bindp (ask (requested_permissions E c subject params previous)) (\<lambda>(server, requested, ticket).
     thenp (guardp (case previous of None \<Rightarrow> True | Some g \<Rightarrow> rp_resource_server_id g = server)
              (AuthorizationDenied ''RPT belongs to a different resource server''))
    (bindp (query (evaluate_requests E 2 server u (c_client_id c) (at_custom_claims claims) requested)) (\<lambda>granted.
     if length granted \<noteq> length requested
     then thenp (case ticket of None \<Rightarrow> ret () | Some i \<Rightarrow> thenp (ticket_consume (e_db_now E) i False) (ret ()))
            (fail (AuthorizationDenied ''the requested permission was denied''))
     else bindp (case ticket of None \<Rightarrow> ret True | Some i \<Rightarrow> ticket_consume (e_db_now E) i True) (\<lambda>consumed.
          thenp (guardp consumed (InvalidInput ''permission ticket was already used''))
         (bindp (issue_rpt E listing c server subject
                   (case previous of None \<Rightarrow> granted | Some g \<Rightarrow> merge_permissions granted (rp_permissions g))
                   jkt (previous \<noteq> None)) (\<lambda>answer.
          thenp (case previous of None \<Rightarrow> ret () | Some g \<Rightarrow> exec (revoke_rpt (rp_id g)))
            (ret answer))))))))))))))"

definition first_aud :: "json \<Rightarrow> string option" where
  "first_aud aud = (case as_str_json aud of
       Some s \<Rightarrow> Some s
     | None \<Rightarrow> Option.bind (as_array aud) (\<lambda>vs. case List.map_filter as_str_json vs of [] \<Rightarrow> None | s # _ \<Rightarrow> Some s))"

definition each_scope :: "protected_resource \<Rightarrow> (uuid \<times> string list) list" where
  "each_scope res = (if pr_scopes res = [] then [(pr_id res, [])] else map (\<lambda>s. (pr_id res, [s])) (pr_scopes res))"

(*@ oidc-oidc/src/endpoints/authorization_services.rs 475-543 entitlement *)
definition entitlement ::
  "env \<Rightarrow> hub \<Rightarrow> (string list \<Rightarrow> string list) \<Rightarrow> string \<Rightarrow> string \<Rightarrow> string option \<Rightarrow>
   (db, oidc_error, rpt_response) prog" where
  "entitlement E H listing realm_name server_id authorization =
     bindp (ask (realm_and_server realm_name server_id)) (\<lambda>(_, server).
     bindp (lift (bearer authorization)) (\<lambda>token.
     bindp (ask (verify_access_any E H (timestamp (e_clock E 0)) token)) (\<lambda>claims.
     bindp (some_or (e_parse_uuid E (at_sub claims)) (AuthorizationDenied ''end-user token required'')) (\<lambda>subject.
     bindp (query (active_in_realm subject (c_realm_id server))) (\<lambda>u.
     bindp (some_or u (AuthorizationDenied ''user is not active'')) (\<lambda>u.
     bindp (some_or (first_aud (at_aud claims)) (AuthorizationDenied ''requesting client is missing'')) (\<lambda>cid.
     bindp (query (\<lambda>d. Option.bind (client_in_realm cid (c_realm_id server) d)
              (\<lambda>c. if c_enabled c then Some c else None))) (\<lambda>c.
     bindp (some_or c (AuthorizationDenied ''requesting client is inactive'')) (\<lambda>c.
     bindp (query (\<lambda>d. evaluate_requests E 2 (c_id server) u (c_client_id c) (at_custom_claims claims)
              (concat (map each_scope (resources_of E (c_id server) d))) d)) (\<lambda>granted.
     issue_rpt E listing c (c_id server) subject (merge_permissions [] (JArr granted)) None False))))))))))"

(*@ oidc-oidc/src/endpoints/authorization_services.rs 545-587 evaluate_rpt *)
definition evaluate_rpt ::
  "env \<Rightarrow> hub \<Rightarrow> string \<Rightarrow> string \<Rightarrow> string option \<Rightarrow> uuid \<Rightarrow> string list \<Rightarrow> db \<Rightarrow> bool result" where
  "evaluate_rpt E H realm_name server_id authorization resource scopes d =
     bindr (realm_and_server realm_name server_id d) (\<lambda>(_, server).
     bindr (bearer authorization) (\<lambda>token.
     bindr (verify_access_any E H (timestamp (e_clock E 0)) token d) (\<lambda>claims.
     bindr (ensure (aud_contains (at_aud claims) (c_client_id server))
        (AuthorizationDenied ''RPT audience does not match'')) (\<lambda>_.
     bindr (or_error (Option.bind (rpt_of E claims) (e_parse_uuid E)) (AuthorizationDenied ''RPT required'')) (\<lambda>i.
     bindr (or_error (Option.bind (active_rpt (e_db_now E) i d)
          (\<lambda>g. if rp_resource_server_id g = c_id server then Some g else None))
        (AuthorizationDenied ''RPT is inactive'')) (\<lambda>g.
     Inr (case as_array (rp_permissions g) of
            None \<Rightarrow> False
          | Some ps \<Rightarrow> \<exists>p \<in> set ps. rsid_of p = Some (e_uuid_text E resource)
              \<and> (\<forall>s \<in> set scopes. \<exists>v \<in> set (scopes_of p). as_str_json v = Some s))))))))"

end
