(* ===== verification/Uma_Props.thy ===== *)
theory Uma_Props
  imports Uma
begin

text \<open>What the authorization services guarantee: a requesting party token carries only permissions
  that the policies of the resource server permit, or that an earlier token carried, and a ticket is
  redeemed once.\<close>

section \<open>Decisions\<close>

text \<open>The specification of a decision, over the typed policies.\<close>

definition permission_grants ::
  "env \<Rightarrow> authorization_policy list \<Rightarrow> authorization_context \<Rightarrow> authorization_permission \<Rightarrow> bool" where
  "permission_grants E policies ctx p =
     (let verdict = (\<lambda>i. \<exists>q. List.find (\<lambda>q. ap_id q = i) policies = Some q \<and> permits E (policy_abs E q) ctx);
          n = length (az_policies p); yes = length (filter verdict (az_policies p))
      in if az_decision_strategy p = ''unanimous'' then 0 < n \<and> yes = n
         else if az_decision_strategy p = ''consensus'' then n < 2 * yes
         else 0 < yes)"

lemma permission_allows_eq: "permission_allows E policies ctx p \<longleftrightarrow> permission_grants E policies ctx p"
proof -
  let ?v = "\<lambda>i. case List.find (\<lambda>q. ap_id q = i) policies of None \<Rightarrow> False | Some q \<Rightarrow> evaluate E q ctx"
  have v: "?v i \<longleftrightarrow> (\<exists>q. List.find (\<lambda>q. ap_id q = i) policies = Some q \<and> permits E (policy_abs E q) ctx)" for i
    by (simp add: evaluate_refines split: option.splits)
  have all: "(\<forall>x \<in> set (map f xs). x) \<longleftrightarrow> length (filter f xs) = length xs" for f and xs :: "uuid list"
    using length_filter_less [of _ xs f] by (auto simp: filter_id_conv)
      (metis filter_id_conv length_filter_less less_irrefl)
  have some: "(\<exists>x \<in> set (map f xs). x) \<longleftrightarrow> 0 < length (filter f xs)" for f and xs :: "uuid list"
    by (auto simp: filter_empty_conv)
  have count: "length (filter (\<lambda>x. x) (map f xs)) = length (filter f xs)" for f and xs :: "uuid list"
    by (induction xs) auto
  show ?thesis
    unfolding permission_allows_def permission_grants_def decide_def Let_def v [symmetric] all some count
    by (auto simp: mult.commute)
qed

definition permitted ::
  "env \<Rightarrow> uuid \<Rightarrow> user \<Rightarrow> string \<Rightarrow> members \<Rightarrow> instant \<Rightarrow> db \<Rightarrow> uuid \<Rightarrow> string list \<Rightarrow> bool" where
  "permitted E server u client claims now d rid scopes \<longleftrightarrow>
     (\<exists>res. resource_by_id rid d = Some res \<and> pr_resource_server_id res = server
        \<and> set scopes \<subseteq> set (pr_scopes res)
        \<and> (\<exists>p \<in> set (d_permissions d). az_resource_server_id p = server \<and> applies_to p rid scopes
             \<and> permission_grants E (policies_of E server d) (context_for E now u client claims res d) p))"

lemma evaluate_requests_length:
  "length (evaluate_requests E k server u client claims requested d) \<le> length requested"
proof (induction E k server u client claims requested d rule: evaluate_requests.induct)
  case (2 E k server u client claims rid scopes rest d)
  then show ?case
    by (auto split: option.splits intro: le_SucI)
qed simp

lemma set_permissions_of:
  "set (permissions_of E server d) = {p \<in> set (d_permissions d). az_resource_server_id p = server}"
  by (auto simp: permissions_of_def)

lemma evaluate_requests_all:
  assumes "length (evaluate_requests E k server u client claims requested d) = length requested"
    and "(rid, scopes) \<in> set requested"
  shows "\<exists>j. permitted E server u client claims (e_clock E j) d rid scopes"
  using assms
proof (induction E k server u client claims requested d rule: evaluate_requests.induct)
  case (2 E k server u client claims r ss rest d)
  have len: "length (evaluate_requests E j server u client claims rest d) < Suc (length rest)" for j
    using evaluate_requests_length [of E j server u client claims rest d] by simp
  then have ne: "length (evaluate_requests E j server u client claims rest d) \<noteq> Suc (length rest)" for j
    using less_irrefl by metis
  from 2(5) obtain res where res: "resource_by_id r d = Some res" "pr_resource_server_id res = server"
    by (auto simp: ne split: option.splits if_splits bind_splits)
  with 2(5) have ok: "\<forall>s \<in> set ss. s \<in> set (pr_scopes res)"
    by (auto simp: ne split: if_splits)
  with 2(5) res obtain p where p: "p \<in> set (permissions_of E server d)" "applies_to p r ss"
      "permission_allows E (policies_of E server d) (context_for E (e_clock E k) u client claims res d) p"
    and rest: "length (evaluate_requests E (Suc k) server u client claims rest d) = length rest"
    by (auto simp: ne split: if_splits)
  have head: "permitted E server u client claims (e_clock E k) d r ss"
    using res ok p by (auto simp: permitted_def set_permissions_of permission_allows_eq)
  show ?case
  proof (cases "(rid, scopes) = (r, ss)")
    case True
    with head show ?thesis
      by auto
  next
    case False
    then have tail: "(rid, scopes) \<in> set rest"
      using 2(6) by auto
    have some: "Option.bind (resource_by_id r d) (\<lambda>r. if pr_resource_server_id r = server then Some r else None) = Some res"
      using res by simp
    have ex: "\<exists>p \<in> set (permissions_of E server d). applies_to p r ss
        \<and> permission_allows E (policies_of E server d) (context_for E (e_clock E k) u client claims res d) p"
      using p by blast
    show ?thesis
      using 2(3) [OF some _ ex rest tail] ok by blast
  qed
qed simp


section \<open>Merged permissions\<close>

definition wf_permission :: "json \<Rightarrow> bool" where
  "wf_permission p \<longleftrightarrow> (\<exists>m vs. p = JObj m \<and> obj_get m ''scopes'' = Some (JArr vs))"

text \<open>A permission list as a set of pairs of a resource and a scope.\<close>

definition scope_pairs :: "json list \<Rightarrow> (string \<times> json) set" where
  "scope_pairs ps = {(i, s). \<exists>p \<in> set ps. rsid_of p = Some i \<and> s \<in> set (scopes_of p)}"

lemma scope_pairs_simps [simp]:
  "scope_pairs [] = {}"
  "scope_pairs (p # ps) = (case rsid_of p of None \<Rightarrow> {} | Some i \<Rightarrow> {i} \<times> set (scopes_of p)) \<union> scope_pairs ps"
  "scope_pairs (ps @ qs) = scope_pairs ps \<union> scope_pairs qs"
  by (auto simp: scope_pairs_def split: option.splits)

lemma add_scopes_wf:
  assumes "wf_permission p"
  shows "wf_permission (add_scopes new p)" and "rsid_of (add_scopes new p) = rsid_of p"
    and "set (scopes_of (add_scopes new p)) = set (scopes_of p) \<union> set new"
proof -
  from assms obtain m vs where p: "p = JObj m" "obj_get m ''scopes'' = Some (JArr vs)"
    unfolding wf_permission_def by blast
  then show "wf_permission (add_scopes new p)" and "rsid_of (add_scopes new p) = rsid_of p"
    and "set (scopes_of (add_scopes new p)) = set (scopes_of p) \<union> set new"
    by (simp_all add: wf_permission_def rsid_of_def scopes_of_def)
qed

lemma merge_into_pairs:
  assumes "\<forall>p \<in> set ps. wf_permission p" and "\<exists>q \<in> set ps. rsid_of q = Some i"
  shows "scope_pairs (merge_into i new ps) = scope_pairs ps \<union> {i} \<times> set new"
    and "\<forall>p \<in> set (merge_into i new ps). wf_permission p"
  using assms
proof (induction ps)
  case (Cons p ps)
  case 1
  with Cons(1) show ?case
    by (cases "rsid_of p = Some i") (auto simp: add_scopes_wf)
next
  case (Cons p ps)
  case 2
  with Cons(2) show ?case
    by (cases "rsid_of p = Some i") (auto simp: add_scopes_wf)
qed simp_all

lemma merge_permissions_pairs:
  assumes "\<forall>p \<in> set ps. wf_permission p" and "\<forall>p \<in> set current. wf_permission p"
  shows "scope_pairs (merge_permissions current (JArr ps)) = scope_pairs current \<union> scope_pairs ps
      \<and> (\<forall>q \<in> set (merge_permissions current (JArr ps)). wf_permission q)"
proof -
  let ?step = "\<lambda>p current. case rsid_of p of
            None \<Rightarrow> current
          | Some i \<Rightarrow> if \<exists>q \<in> set current. rsid_of q = Some i then merge_into i (scopes_of p) current
                      else current @ [p]"
  have "scope_pairs (fold ?step ps current) = scope_pairs current \<union> scope_pairs ps
      \<and> (\<forall>q \<in> set (fold ?step ps current). wf_permission q)"
    using assms
  proof (induction ps arbitrary: current)
    case (Cons p ps)
    have "(\<forall>q \<in> set (?step p current). wf_permission q)
        \<and> scope_pairs (?step p current) = scope_pairs current
            \<union> (case rsid_of p of None \<Rightarrow> {} | Some i \<Rightarrow> {i} \<times> set (scopes_of p))"
      using Cons(2, 3) merge_into_pairs [of current] by (auto split: option.splits)
    then show ?case
      using Cons.IH [of "?step p current"] Cons.prems(1) by (simp only: fold_simps comp_apply list.set ball_simps) auto
  qed simp
  then show ?thesis
    by (simp add: merge_permissions_def)
qed

lemma granted_wf: "\<forall>p \<in> set (evaluate_requests E k server u client claims requested d). wf_permission p"
proof (induction E k server u client claims requested d rule: evaluate_requests.induct)
  case (2 E k server u client claims rid scopes rest d)
  have "wf_permission (granted_json E res scopes)" for res
    unfolding wf_permission_def granted_json_def json_object_def strs_def
    by (intro exI conjI, rule refl, rule obj.look_ins_all_distinct) simp_all
  with 2 show ?case
    by (auto split: option.splits)
qed simp


section \<open>The grant\<close>

lemma ticket_consume_ok [prog_ok]:
  "ticket_consume now i granted d = (Inr b, e) \<longleftrightarrow>
     b = (length (filter (consumable now i) (d_tickets d)) = 1)
     \<and> e = d\<lparr>d_tickets := update_where (consumable now i)
              (\<lambda>t. t\<lparr>pt_used := True, pt_granted := granted\<rparr>) (d_tickets d)\<rparr>"
  by (auto simp: ticket_consume_def prog_ok)

lemma consumed_unusable:
  "t \<in> set (update_where (consumable now i) (\<lambda>t. t\<lparr>pt_used := True, pt_granted := b\<rparr>) rows)
     \<Longrightarrow> \<not> consumable now i t"
proof -
  have "\<not> consumable now i (y\<lparr>pt_used := True, pt_granted := b\<rparr>)" for y
    by (simp add: consumable_def)
  then show "t \<in> set (update_where (consumable now i) (\<lambda>t. t\<lparr>pt_used := True, pt_granted := b\<rparr>) rows)
      \<Longrightarrow> \<not> consumable now i t"
    unfolding update_where_elem by blast
qed

lemma revoke_rpt_rows:
  "d_tickets (revoke_rpt i d) = d_tickets d"
  "d_rpts (revoke_rpt i d) = update_where (\<lambda>g. rp_id g = i) (\<lambda>g. g\<lparr>rp_revoked := True\<rparr>) (d_rpts d)"
  by (simp_all add: revoke_rpt_def)

lemma previous_facts:
  assumes "previous_grant E H c subject rpt d = Inr (Some g)"
  shows "g \<in> set (d_rpts d) \<and> \<not> rp_revoked g \<and> e_db_now E < rp_expires_at g \<and> rp_subject_id g = subject
    \<and> rp_client_id g = c_id c
    \<and> (\<exists>t rc i. rpt = Some t \<and> verify_access_any E H (timestamp (e_clock E 1)) t d = Inr rc
         \<and> rpt_of E rc = Some i \<and> e_parse_uuid E i = Some (rp_id g))"
proof (cases rpt)
  case (Some token)
  obtain rc i t where run: "verify_access_any E H (timestamp (e_clock E 1)) token d = Inr rc" "rpt_of E rc = Some t"
      "e_parse_uuid E t = Some i" "active_rpt (e_db_now E) i d = Some g" "rp_subject_id g = subject"
      "rp_client_id g = c_id c"
    using assms unfolding previous_grant_def Some option.case bindr_Inr or_error_Inr bind_eq_Some_conv map_err_Inr
    by (auto split: if_split_asm)
  then show ?thesis
    using Some by (auto simp: active_rpt_def dest!: find_Some_set)
qed (use assms in \<open>simp add: previous_grant_def\<close>)

lemma requested_facts:
  assumes "requested_permissions E c subject params previous d = Inr (server, requested, ticket)"
  shows "case params ''ticket'' of
      Some token \<Rightarrow> \<exists>t \<in> set (d_tickets d). pt_token_hash t = sha2_256_hex E token \<and> \<not> pt_used t
        \<and> e_db_now E < pt_expires_at t \<and> pt_realm_id t = c_realm_id c
        \<and> (pt_requester_id t = None \<or> pt_requester_id t = Some subject) \<and> server = pt_resource_server_id t
        \<and> requested = [(pt_resource_id t, pt_scopes t)] \<and> ticket = Some (pt_id t)
    | None \<Rightarrow> ticket = None \<and> requested \<noteq> [] \<and> parse_permission_parameter E (params ''permission'') = Inr requested"
proof (cases "params ''ticket''")
  case None
  then show ?thesis
    using assms by (auto simp: requested_permissions_def bindr_Inr)
next
  case (Some token)
  then obtain t where "active_ticket (e_db_now E) (sha2_256_hex E token) d = Some t" "pt_realm_id t = c_realm_id c"
      "case pt_requester_id t of None \<Rightarrow> True | Some i \<Rightarrow> i = subject"
      "server = pt_resource_server_id t" "requested = [(pt_resource_id t, pt_scopes t)]" "ticket = Some (pt_id t)"
    using assms by (auto simp: requested_permissions_def bindr_Inr)
  then show ?thesis
    using Some by (auto simp: active_ticket_def split: option.splits dest!: find_Some_set)
qed

lemma previous_known:
  "previous_grant E H c subject rpt d = Inr (Some g) \<Longrightarrow> g \<in> set (d_rpts d)"
proof (cases rpt)
  case (Some token)
  assume "previous_grant E H c subject rpt d = Inr (Some g)"
  then have "\<exists>i. active_rpt (e_db_now E) i d = Some g"
    unfolding previous_grant_def Some option.case bindr_Inr or_error_Inr bind_eq_Some_conv
    by (elim exE conjE) (simp split: if_split_asm, blast)
  then show ?thesis
    by (auto simp: active_rpt_def dest: find_Some_set)
qed (simp add: previous_grant_def)

lemma rpt_create_ok [prog_ok]:
  "rpt_create now g d = (Inr u, e) \<longleftrightarrow>
     (\<forall>x \<in> set (d_rpts d). rp_id x \<noteq> rp_id g) \<and> e = d\<lparr>d_rpts := d_rpts d @ [g\<lparr>rp_created_at := now\<rparr>]\<rparr>"
  by (auto simp: rpt_create_def prog_ok)

text \<open>The row written for a token.\<close>

definition new_rpt :: "env \<Rightarrow> client \<Rightarrow> uuid \<Rightarrow> uuid \<Rightarrow> json list \<Rightarrow> rpt_grant" where
  "new_rpt E c server subject permissions =
     \<lparr>rp_id = e_uuid E 0, rp_realm_id = c_realm_id c, rp_resource_server_id = server, rp_subject_id = subject,
      rp_client_id = c_id c, rp_permissions = JArr permissions, rp_revoked = False,
      rp_expires_at = e_clock E 0 + minutes 15, rp_created_at = e_db_now E\<rparr>"

lemma issue_rpt_ok:
  assumes "issue_rpt E listing c server subject permissions jkt upgraded d = (Inr r, e)"
  shows "permissions \<noteq> []" and "ra_permissions r = JArr permissions"
    and "\<forall>x \<in> set (d_rpts d). rp_id x \<noteq> e_uuid E 0"
    and "e = d\<lparr>d_rpts := d_rpts d @ [new_rpt E c server subject permissions]\<rparr>"
  using assms unfolding issue_rpt_def Let_def new_rpt_def by (auto simp: prog_ok)

lemma optional_ok:
  "(case x of None \<Rightarrow> ret y | Some i \<Rightarrow> f i) d = (Inr z, e)
     \<longleftrightarrow> (case x of None \<Rightarrow> z = y \<and> e = d | Some i \<Rightarrow> f i d = (Inr z, e))"
  by (auto simp: prog_ok split: option.splits)

text \<open>A run that returns a token, step by step: the ticket is consumed in \<open>d1\<close>, the token is issued in
  \<open>d2\<close>.\<close>

definition final_permissions :: "json list \<Rightarrow> rpt_grant option \<Rightarrow> json list" where
  "final_permissions granted previous =
     (case previous of None \<Rightarrow> granted | Some g \<Rightarrow> merge_permissions granted (rp_permissions g))"

lemma uma_ok:
  assumes "uma_ticket_grant E H listing c params jkt d = (Inr r, e)"
  shows "\<exists>token claims subject u previous server requested ticket d1 d2.
    params ''claim_token'' = Some token
    \<and> verify_access_any E H (timestamp (e_clock E 0)) token d = Inr claims
    \<and> e_parse_uuid E (at_sub claims) = Some subject \<and> active_in_realm subject (c_realm_id c) d = Some u
    \<and> previous_grant E H c subject (params ''rpt'') d = Inr previous
    \<and> requested_permissions E c subject params previous d = Inr (server, requested, ticket)
    \<and> (case previous of None \<Rightarrow> True | Some g \<Rightarrow> rp_resource_server_id g = server)
    \<and> length (evaluate_requests E 2 server u (c_client_id c) (at_custom_claims claims) requested d)
        = length requested
    \<and> (case ticket of None \<Rightarrow> d1 = d | Some i \<Rightarrow> ticket_consume (e_db_now E) i True d = (Inr True, d1))
    \<and> issue_rpt E listing c server subject (final_permissions
         (evaluate_requests E 2 server u (c_client_id c) (at_custom_claims claims) requested d) previous)
         jkt (previous \<noteq> None) d1 = (Inr r, d2)
    \<and> e = (case previous of None \<Rightarrow> d2 | Some g \<Rightarrow> revoke_rpt (rp_id g) d2)"
  using assms unfolding uma_ticket_grant_def
  apply (simp add: prog_ok map_err_Inr)
  apply (elim exE conjE)
  apply (simp add: prog_ok map_err_Inr optional_ok final_permissions_def split: if_split_asm)
  subgoal for token claims subject u ticket
    by (cases ticket) (auto simp: prog_ok cong: option.case_cong)
  done

definition requested_pairs :: "env \<Rightarrow> (uuid \<times> string list) list \<Rightarrow> (string \<times> json) set" where
  "requested_pairs E requested = (\<Union>(rid, scopes) \<in> set requested. {e_uuid_text E rid} \<times> JStr ` set scopes)"

definition carried :: "rpt_grant option \<Rightarrow> json list" where
  "carried previous = (case previous of None \<Rightarrow> []
     | Some g \<Rightarrow> (case as_array (rp_permissions g) of None \<Rightarrow> [] | Some ps \<Rightarrow> ps))"

lemma granted_json_parts:
  "rsid_of (granted_json E res scopes) = Some (e_uuid_text E (pr_id res))"
  "scopes_of (granted_json E res scopes) = map JStr scopes"
  by (simp_all add: rsid_of_def scopes_of_def granted_json_def strs_def)

lemma granted_pairs:
  assumes "length (evaluate_requests E k server u client claims requested d) = length requested"
  shows "scope_pairs (evaluate_requests E k server u client claims requested d) = requested_pairs E requested"
  using assms
proof (induction E k server u client claims requested d rule: evaluate_requests.induct)
  case (2 E k server u client claims r ss rest d)
  have len: "length (evaluate_requests E j server u client claims rest d) \<noteq> Suc (length rest)" for j
    using evaluate_requests_length [of E j server u client claims rest d] by simp
  have found: "resource_by_id r d = Some res \<Longrightarrow> pr_id res = r" for res
    by (auto simp: resource_by_id_def dest: find_Some_set)
  from 2 show ?case
    by (auto simp: len granted_json_parts found requested_pairs_def split: option.splits if_splits bind_splits)
qed (simp add: requested_pairs_def)

lemma final_pairs:
  assumes "\<forall>p \<in> set granted. wf_permission p" and "\<forall>p \<in> set (carried previous). wf_permission p"
  shows "scope_pairs (final_permissions granted previous) = scope_pairs granted \<union> scope_pairs (carried previous)
    \<and> (\<forall>p \<in> set (final_permissions granted previous). wf_permission p)"
proof (cases previous)
  case None
  then show ?thesis
    using assms by (simp add: final_permissions_def carried_def)
next
  case (Some g)
  show ?thesis
  proof (cases "rp_permissions g")
    case (JArr ps)
    then show ?thesis
      using assms merge_permissions_pairs [of ps granted] Some by (simp add: final_permissions_def carried_def)
  qed (use assms Some in \<open>simp_all add: final_permissions_def carried_def merge_permissions_def\<close>)
qed

text \<open>C18 A requesting party token is issued only when the claim token verifies, its subject is an enabled user
  of the client's realm, a previous token in the request verifies and its row is neither revoked nor expired
  and of the same user, client and resource server, a ticket in the request is unused, unexpired, of the
  client's realm and of this user when it names one, and every requested scope of every requested resource (of
  the ticket when there is one, else of the parameter) is permitted, at that moment, by a permission
  of the resource server under its policies.  The token lasts fifteen minutes, its row is new, the ticket
  that was presented can not be used again and the previous token is revoked.  If the permissions of the
  previous token are well formed (objects with a list of scopes, \<open>wf_permission\<close>, which is what the endpoint
  writes), then so are those of the new token, and they are exactly the requested pairs and the pairs of the
  previous token: those of the previous token are not decided again, so an upgrade renews permissions
  that were withdrawn in the meantime.\<close>

theorem rpt_needs_permission:
  assumes "uma_ticket_grant E H listing c params jkt d = (Inr r, e)"
  shows "\<exists>token claims subject u previous server requested ticket ps.
      params ''claim_token'' = Some token
    \<and> verify_access_any E H (timestamp (e_clock E 0)) token d = Inr claims
    \<and> e_parse_uuid E (at_sub claims) = Some subject
    \<and> user_by_id subject d = Some u \<and> u_enabled u \<and> u_realm_id u = c_realm_id c
    \<and> previous_grant E H c subject (params ''rpt'') d = Inr previous
    \<and> requested_permissions E c subject params previous d = Inr (server, requested, ticket)
    \<and> (case previous of
         None \<Rightarrow> params ''rpt'' = None
       | Some g \<Rightarrow> g \<in> set (d_rpts d) \<and> \<not> rp_revoked g \<and> e_db_now E < rp_expires_at g \<and> rp_subject_id g = subject
           \<and> rp_client_id g = c_id c \<and> rp_resource_server_id g = server
           \<and> (\<exists>t rc i. params ''rpt'' = Some t \<and> verify_access_any E H (timestamp (e_clock E 1)) t d = Inr rc
                \<and> rpt_of E rc = Some i \<and> e_parse_uuid E i = Some (rp_id g)))
    \<and> (case params ''ticket'' of
         Some token \<Rightarrow> \<exists>t \<in> set (d_tickets d). pt_token_hash t = sha2_256_hex E token \<and> \<not> pt_used t
           \<and> e_db_now E < pt_expires_at t \<and> pt_realm_id t = c_realm_id c
           \<and> (pt_requester_id t = None \<or> pt_requester_id t = Some subject) \<and> server = pt_resource_server_id t
           \<and> requested = [(pt_resource_id t, pt_scopes t)] \<and> ticket = Some (pt_id t)
       | None \<Rightarrow> ticket = None \<and> requested \<noteq> [] \<and> parse_permission_parameter E (params ''permission'') = Inr requested)
    \<and> (\<forall>(rid, scopes) \<in> set requested.
         \<exists>j. permitted E server u (c_client_id c) (at_custom_claims claims) (e_clock E j) d rid scopes)
    \<and> ra_permissions r = JArr ps \<and> new_rpt E c server subject ps \<in> set (d_rpts e)
    \<and> (\<forall>g \<in> set (d_rpts d). rp_id g \<noteq> e_uuid E 0)
    \<and> (\<forall>i. ticket = Some i \<longrightarrow> (\<forall>t \<in> set (d_tickets e). \<not> consumable (e_db_now E) i t))
    \<and> (\<forall>h. previous = Some h \<longrightarrow> (\<forall>g \<in> set (d_rpts e). rp_id g = rp_id h \<longrightarrow> rp_revoked g))
    \<and> ((\<forall>p \<in> set (carried previous). wf_permission p)
        \<longrightarrow> scope_pairs ps = requested_pairs E requested \<union> scope_pairs (carried previous)
           \<and> (\<forall>p \<in> set ps. wf_permission p))"
proof -
  obtain token claims subject u previous server requested ticket d1 d2 where
    facts: "params ''claim_token'' = Some token"
      "verify_access_any E H (timestamp (e_clock E 0)) token d = Inr claims"
      "e_parse_uuid E (at_sub claims) = Some subject" "active_in_realm subject (c_realm_id c) d = Some u"
      "previous_grant E H c subject (params ''rpt'') d = Inr previous"
      "requested_permissions E c subject params previous d = Inr (server, requested, ticket)"
    and same: "case previous of None \<Rightarrow> True | Some g \<Rightarrow> rp_resource_server_id g = server"
    and len: "length (evaluate_requests E 2 server u (c_client_id c) (at_custom_claims claims) requested d)
        = length requested"
    and consume: "case ticket of None \<Rightarrow> d1 = d | Some i \<Rightarrow> ticket_consume (e_db_now E) i True d = (Inr True, d1)"
    and issue: "issue_rpt E listing c server subject (final_permissions
         (evaluate_requests E 2 server u (c_client_id c) (at_custom_claims claims) requested d) previous)
         jkt (previous \<noteq> None) d1 = (Inr r, d2)"
    and e: "e = (case previous of None \<Rightarrow> d2 | Some g \<Rightarrow> revoke_rpt (rp_id g) d2)"
    using uma_ok [OF assms] by blast
  let ?ps = "final_permissions
         (evaluate_requests E 2 server u (c_client_id c) (at_custom_claims claims) requested d) previous"
  have d1: "d_rpts d1 = d_rpts d" "\<forall>i. ticket = Some i \<longrightarrow> (\<forall>t \<in> set (d_tickets d1). \<not> consumable (e_db_now E) i t)"
    using consume consumed_unusable by (auto simp: prog_ok split: option.splits)
  note row = issue_rpt_ok [OF issue]
  have new: "new_rpt E c server subject ?ps \<in> set (d_rpts e)"
  proof (cases previous)
    case None
    with e row(4) show ?thesis
      by simp
  next
    case (Some g)
    have "g \<in> set (d_rpts d)"
      using facts(5) previous_known unfolding Some by blast
    with row(3) d1(1) have "rp_id (new_rpt E c server subject ?ps) \<noteq> rp_id g"
      by (auto simp: new_rpt_def)
    moreover have "new_rpt E c server subject ?ps \<in> set (d_rpts d2)"
      unfolding row(4) by simp
    ultimately show ?thesis
      unfolding e Some revoke_rpt_rows option.case update_where_elem by blast
  qed
  have tickets: "\<forall>i. ticket = Some i \<longrightarrow> (\<forall>t \<in> set (d_tickets e). \<not> consumable (e_db_now E) i t)"
    using d1(2) unfolding e row(4) by (cases previous) (simp_all add: revoke_rpt_rows)
  have revoked: "\<forall>h. previous = Some h \<longrightarrow> (\<forall>g \<in> set (d_rpts e). rp_id g = rp_id h \<longrightarrow> rp_revoked g)"
    unfolding e by (auto simp: revoke_rpt_rows update_where_elem)
  have "\<forall>(rid, scopes) \<in> set requested.
      \<exists>j. permitted E server u (c_client_id c) (at_custom_claims claims) (e_clock E j) d rid scopes"
    using evaluate_requests_all [OF len] by blast
  moreover have "user_by_id subject d = Some u \<and> u_enabled u \<and> u_realm_id u = c_realm_id c"
    using facts(4) by (simp add: active_in_realm_def bind_eq_Some_conv split: if_split_asm)
  moreover have "case previous of
         None \<Rightarrow> params ''rpt'' = None
       | Some g \<Rightarrow> g \<in> set (d_rpts d) \<and> \<not> rp_revoked g \<and> e_db_now E < rp_expires_at g \<and> rp_subject_id g = subject
           \<and> rp_client_id g = c_id c \<and> rp_resource_server_id g = server
           \<and> (\<exists>t rc i. params ''rpt'' = Some t \<and> verify_access_any E H (timestamp (e_clock E 1)) t d = Inr rc
                \<and> rpt_of E rc = Some i \<and> e_parse_uuid E i = Some (rp_id g))"
  proof (cases previous)
    case None
    then show ?thesis
      using facts(5) by (auto simp: previous_grant_def bindr_Inr split: option.splits)
  next
    case (Some g)
    then show ?thesis
      using previous_facts facts(5) same by simp
  qed
  moreover note requested_facts [OF facts(6)]
  moreover have "\<forall>g \<in> set (d_rpts d). rp_id g \<noteq> e_uuid E 0"
    using row(3) unfolding d1(1) .
  moreover have "(\<forall>p \<in> set (carried previous). wf_permission p)
      \<longrightarrow> scope_pairs ?ps = requested_pairs E requested \<union> scope_pairs (carried previous)
         \<and> (\<forall>p \<in> set ?ps. wf_permission p)"
    using final_pairs [OF granted_wf, of previous] granted_pairs [OF len] by simp
  ultimately show ?thesis
    using facts row(2) new tickets revoked by blast
qed

definition uma_db :: db where
  "uma_db = empty_db\<lparr>d_users := [sample_user], d_clients := [sample_client],
     d_resources := [\<lparr>pr_id = 7, pr_realm_id = 3, pr_resource_server_id = 5, pr_owner_id = Some 7,
       pr_name = ''file'', pr_display_name = None, pr_resource_type = None, pr_uris = [],
       pr_scopes = [''read''], pr_attributes = JObj [], pr_icon_uri = None, pr_created_at = 0,
       pr_updated_at = 0\<rparr>],
     d_policies := [\<lparr>ap_id = 1, ap_realm_id = 3, ap_resource_server_id = 5, ap_name = ''owner'',
       ap_description = None, ap_policy_type = ''owner'', ap_logic = ''positive'', ap_config = JObj [],
       ap_created_at = 0, ap_updated_at = 0\<rparr>],
     d_permissions := [\<lparr>az_id = 2, az_realm_id = 3, az_resource_server_id = 5, az_name = ''p'',
       az_description = None, az_resources = [7], az_scopes = [], az_policies = [1],
       az_decision_strategy = ''unanimous'', az_created_at = 0, az_updated_at = 0\<rparr>]\<rparr>"

definition uma_params :: params where
  "uma_params = (\<lambda>_. None)(''claim_token'' \<mapsto> ''h.c.rh_dc'', ''audience'' \<mapsto> ''app'', ''permission'' \<mapsto> ''r#read'')"

lemma uma_text:
  "split_on (CHR '','') ''r#read'' = [''r#read'']" "blank ''r#read'' \<longleftrightarrow> False"
  "split_once (CHR ''#'') ''r#read'' = Some (''r'', ''read'')" "split_whitespace ''read'' = [''read'']"
  by code_simp+

lemma uma_request:
  "requested_permissions toy_env sample_client 7 uma_params None uma_db = Inr (5, [(7, [''read''])], None)"
  by (simp add: requested_permissions_def uma_params_def uma_db_def client_in_realm_def sample_client_def
      parse_permission_parameter_def toy_env_def sample_env_def ensure_def uma_text or_error_def)

lemma uma_evaluated:
  "evaluate_requests toy_env 2 5 sample_user ''app'' [] [(7, [''read''])] uma_db
     = [granted_json toy_env (hd (d_resources uma_db)) [''read'']]"
  by (simp add: uma_db_def resource_by_id_def permissions_of_def policies_of_def applies_to_def
      permission_allows_def decide_def evaluate_def context_for_def sample_user_def)

lemma toy_issues: "\<exists>claims token. issue_access_token toy_env 0 sample_service now sub cid scopes cnf None (Some [aud])
    (no_access_extra\<lparr>ax_custom_claims := custom\<rparr>) = Inr (claims, token)"
  by (simp add: issue_access_token_def access_audience_def generate_opaque_token_def toy_env_def
      sample_env_def sample_service_def encode_jwt_def signing_input_def no_access_extra_def Let_def)

lemma rpt_needs_permission_witness:
  "\<exists>r e. uma_ticket_grant toy_env sample_hub (\<lambda>s. s) sample_client uma_params None uma_db = (Inr r, e)
     \<and> (\<exists>ps. ra_permissions r = JArr ps \<and> (''uuid'', JStr ''read'') \<in> scope_pairs ps)"
proof -
  have "active_in_realm 7 3 uma_db = Some sample_user"
    by (simp add: active_in_realm_def uma_db_def user_by_id_def sample_user_def)
  moreover have "e_parse_uuid toy_env x = Some 7" for x
    by (simp add: toy_env_def sample_env_def)
  moreover have "uma_params ''claim_token'' = Some ''h.c.rh_dc''" "uma_params ''claim_token_format'' = None"
    "uma_params ''rpt'' = None"
    by (simp_all add: uma_params_def)
  moreover have "\<exists>a e. issue_rpt toy_env (\<lambda>s. s) sample_client 5 7
      [granted_json toy_env (hd (d_resources uma_db)) [''read'']] None False uma_db = (Inr a, e)"
  proof -
    have "client_by_id 5 uma_db = Some sample_client" "d_rpts uma_db = []"
      "e_services toy_env 3 = Inr sample_service"
      by (simp_all add: client_by_id_def uma_db_def empty_db_def sample_client_def toy_env_def sample_env_def)
    then show ?thesis
      using toy_issues by (simp add: issue_rpt_def prog_ok Let_def sample_client_def)
  qed
  ultimately have "\<exists>r e. uma_ticket_grant toy_env sample_hub (\<lambda>s. s) sample_client uma_params None uma_db = (Inr r, e)"
    using uma_request uma_evaluated
    by (auto simp: uma_ticket_grant_def toy_verified prog_ok previous_grant_def timestamp_def sample_client_def
        toy_claims_def simp del: evaluate_requests.simps)
  then obtain r e where run: "uma_ticket_grant toy_env sample_hub (\<lambda>s. s) sample_client uma_params None uma_db = (Inr r, e)"
    by blast
  have "previous_grant toy_env sample_hub sample_client i (uma_params ''rpt'') uma_db = Inr previous
      \<Longrightarrow> previous = None" for i previous
    by (simp add: previous_grant_def uma_params_def)
  moreover have "e_parse_uuid toy_env x = Some i \<Longrightarrow> i = 7" for x i
    by (simp add: toy_env_def sample_env_def)
  moreover have "(''uuid'', JStr ''read'') \<in> requested_pairs toy_env [(7, [''read''])]"
    by (simp add: requested_pairs_def toy_env_def sample_env_def)
  moreover have "carried None = []"
    by (simp add: carried_def)
  moreover obtain subject previous server requested ticket ps where
    "\<exists>x. e_parse_uuid toy_env x = Some subject"
    "previous_grant toy_env sample_hub sample_client subject (uma_params ''rpt'') uma_db = Inr previous"
    "requested_permissions toy_env sample_client subject uma_params previous uma_db = Inr (server, requested, ticket)"
    "ra_permissions r = JArr ps"
    "(\<forall>p \<in> set (carried previous). wf_permission p)
        \<longrightarrow> scope_pairs ps = requested_pairs toy_env requested \<union> scope_pairs (carried previous)
           \<and> (\<forall>p \<in> set ps. wf_permission p)"
    using rpt_needs_permission [OF run] by blast
  ultimately have "(''uuid'', JStr ''read'') \<in> scope_pairs ps"
    using uma_request by fastforce
  with run \<open>ra_permissions r = JArr ps\<close> show ?thesis
    by blast
qed

end
