(* ===== verification/Account.thy ===== *)
theory Account
  imports Token_Info Audit_Log Validation
begin

text \<open>The account pages of an end user (\<open>oidc-oidc/src/endpoints/account.rs\<close>) and the signed session
  cookie of the browser (\<open>oidc-oidc/src/session_cookie.rs\<close>).  Every handler starts with
  \<open>current_account\<close>; the JSON answers are the values they are built from.  The \<open>audit\<close> helper records
  the event and drops a failure, the workflows it triggers are those of theory \<open>Workflows\<close>.\<close>

section \<open>The session cookie\<close>

definition cookie_mac :: "env \<Rightarrow> string \<Rightarrow> string \<Rightarrow> string" where
  "cookie_mac E key sid = e_hex E (e_hmac E ''HS256'' key sid)"

(*@ oidc-oidc/src/session_cookie.rs 26-34 create_session_cookie_value *)
definition create_cookie :: "env \<Rightarrow> string \<Rightarrow> string \<Rightarrow> string" where
  "create_cookie E sid key = sid @ ''.'' @ cookie_mac E key sid"

(*@ oidc-oidc/src/session_cookie.rs 40-66 verify_session_cookie_value *)
definition verify_cookie :: "env \<Rightarrow> string \<Rightarrow> string \<Rightarrow> string option" where
  "verify_cookie E value key =
     (case split_once (CHR ''.'') value of
        None \<Rightarrow> None
      | Some (sid, mac) \<Rightarrow> if cookie_mac E key sid = mac then Some sid else None)"

text \<open>The loop over the pairs of the header returns at the first pair that verifies.\<close>

fun first_cookie :: "env \<Rightarrow> string \<Rightarrow> string list \<Rightarrow> string option" where
  "first_cookie E key [] = None"
| "first_cookie E key (pair # pairs) =
     (case Option.bind (strip_prefix (trim pair) ''oidc_session='') (\<lambda>v. verify_cookie E v key) of
        Some sid \<Rightarrow> Some sid
      | None \<Rightarrow> first_cookie E key pairs)"

(*@ oidc-oidc/src/session_cookie.rs 89-106 extract_session_id_from_headers *)
definition extract_session_id :: "env \<Rightarrow> string option \<Rightarrow> string \<Rightarrow> string option" where
  "extract_session_id E header key =
     Option.bind header (\<lambda>h. first_cookie E key (split_on (CHR '';'') h))"

(*@ oidc-oidc/src/session_cookie.rs 69-75 session_cookie_header *)
definition session_cookie_header :: "env \<Rightarrow> string \<Rightarrow> string \<Rightarrow> string" where
  "session_cookie_header E sid key =
     ''oidc_session='' @ create_cookie E sid key @ ''; HttpOnly; Secure; SameSite=Lax; Max-Age=86400; Path=/''"

text \<open>A cookie value is accepted for a session identifier exactly when it is the value that the hub
  creates for it under the same key and the identifier has no dot, which the text of a UUID never has.\<close>

theorem cookie_roundtrip:
  "verify_cookie E value key = Some sid \<longleftrightarrow> value = create_cookie E sid key \<and> CHR ''.'' \<notin> set sid"
proof -
  have "verify_cookie E value key = Some sid \<longleftrightarrow> split_once (CHR ''.'') value = Some (sid, cookie_mac E key sid)"
    by (auto simp: verify_cookie_def split: option.splits if_splits)
  then show ?thesis
    by (simp add: split_once_Some create_cookie_def)
qed

lemma first_cookie_Some:
  assumes "first_cookie E key pairs = Some sid"
  shows "\<exists>pair \<in> set pairs. trim pair = ''oidc_session='' @ create_cookie E sid key \<and> CHR ''.'' \<notin> set sid"
  using assms
proof (induction pairs)
  case (Cons pair pairs)
  then show ?case
    by (cases "Option.bind (strip_prefix (trim pair) ''oidc_session='') (\<lambda>v. verify_cookie E v key)")
      (auto simp: bind_eq_Some_conv strip_prefix_Some cookie_roundtrip)
qed simp


section \<open>The account of a request\<close>

(*@ oidc-oidc/src/endpoints/account.rs 29-57 current_account *)
definition current_account :: "env \<Rightarrow> hub \<Rightarrow> string option \<Rightarrow> db \<Rightarrow> (user \<times> session) result" where
  "current_account E H authorization d =
     (case Option.bind authorization (\<lambda>h. strip_prefix h ''Bearer '') of
        None \<Rightarrow> Inl (AuthenticationFailed ''Bearer token required'')
      | Some token \<Rightarrow>
          if token = [] then Inl (AuthenticationFailed ''Bearer token required'')
          else bindr (verify_access_any E H (timestamp (e_clock E 0)) token d) (\<lambda>_.
               bindr (or_error (session_by_access_hash (e_db_now E) (sha2_256_hex E token) d)
                 (AuthenticationFailed ''Active session required'')) (\<lambda>s.
               bindr (or_error (s_user_id s) (AuthenticationFailed ''User session required'')) (\<lambda>uid.
               bindr (or_error (Option.bind (user_by_id uid d) (\<lambda>u. if u_enabled u then Some u else None))
                 (AuthenticationFailed ''Active user required'')) (\<lambda>u.
               Inr (u, s))))))"

lemma current_account_Inr:
  "current_account E H authorization d = Inr (u, s) \<Longrightarrow>
     (\<exists>token claims. authorization = Some (''Bearer '' @ token)
        \<and> verify_access_any E H (timestamp (e_clock E 0)) token d = Inr claims
        \<and> s_access_token_hash s = sha2_256_hex E token)
     \<and> s \<in> set (d_sessions d) \<and> \<not> s_revoked s \<and> e_db_now E < s_expires_at s
     \<and> s_user_id s = Some (u_id u) \<and> u \<in> set (d_users d) \<and> u_enabled u \<and> u_deleted_at u = None"
  unfolding current_account_def
  by (auto simp: bindr_Inr or_error_Inr bind_eq_Some_conv strip_prefix_Some session_by_access_hash_def
      user_by_id_def split: option.splits if_splits dest!: find_Some_set)

(*@ oidc-oidc/src/endpoints/account.rs 59-64 optional *)
definition optional_text :: "string option \<Rightarrow> string option" where
  "optional_text value = Option.bind value (\<lambda>v. if trim v = [] then None else Some (trim v))"

text \<open>The key of the table is the realm and the address, deleted rows included.\<close>

(*@ oidc-repository/src/repositories/user_repo.rs 135-200 UserRepo::update *)
definition user_update :: "instant \<Rightarrow> user \<Rightarrow> (db, oidc_error, unit) prog" where
  "user_update now u =
     bindp (query d_users) (\<lambda>rows.
     thenp (guardp (\<forall>x \<in> set rows. u_id x = u_id u \<and> u_deleted_at x = None \<longrightarrow>
              (\<forall>y \<in> set rows. u_id y \<noteq> u_id u \<longrightarrow> \<not> (u_realm_id y = u_realm_id x \<and> u_email y = u_email u)))
              (Conflict ''duplicate key''))
       (exec (d_users_update (update_where (\<lambda>x. u_id x = u_id u \<and> u_deleted_at x = None)
          (\<lambda>x. u\<lparr>u_id := u_id x, u_realm_id := u_realm_id x, u_deleted_at := u_deleted_at x,
                 u_created_at := u_created_at x,
                 u_phone_number_verified := Some (u_phone_number_verified u = Some True),
                 u_updated_at := now\<rparr>)))))"

(*@ oidc-oidc/src/endpoints/account.rs 431-453 audit *)
definition account_audit :: "env \<Rightarrow> user \<Rightarrow> string \<Rightarrow> json \<Rightarrow> db \<Rightarrow> db" where
  "account_audit E u event details =
     record_event E 2
       \<lparr>ae_id = e_uuid E 0, ae_realm_id = Some (u_realm_id u), ae_event_type = event,
        ae_actor_id = Some (u_id u), ae_actor_type = UserActor, ae_target_type = Some ''user'',
        ae_target_id = Some (u_id u), ae_details = details, ae_ip_address = None, ae_user_agent = None,
        ae_created_at = e_clock E 1\<rparr>"


section \<open>Profile\<close>

(*@ oidc-oidc/src/endpoints/account.rs 119-140 UpdateProfileRequest *)
record profile_request =
  up_email :: "string option"
  up_current_password :: "string option"
  up_username :: "string option"
  up_given_name :: "string option"
  up_family_name :: "string option"
  up_middle_name :: "string option"
  up_nickname :: "string option"
  up_preferred_username :: "string option"
  up_picture :: "string option"
  up_website :: "string option"
  up_gender :: "string option"
  up_birthdate :: "string option"
  up_zoneinfo :: "string option"
  up_phone_number :: "string option"
  up_street_address :: "string option"
  up_locality :: "string option"
  up_region :: "string option"
  up_postal_code :: "string option"
  up_country :: "string option"
  up_locale :: "string option"

definition with_profile :: "env \<Rightarrow> profile_request \<Rightarrow> user \<Rightarrow> user" where
  "with_profile E req u = u\<lparr>
     u_username := optional_text (up_username req), u_given_name := optional_text (up_given_name req),
     u_family_name := optional_text (up_family_name req), u_middle_name := optional_text (up_middle_name req),
     u_nickname := optional_text (up_nickname req),
     u_preferred_username := optional_text (up_preferred_username req),
     u_picture := optional_text (up_picture req), u_website := optional_text (up_website req),
     u_gender := optional_text (up_gender req), u_birthdate := optional_text (up_birthdate req),
     u_zoneinfo := optional_text (up_zoneinfo req), u_phone_number := optional_text (up_phone_number req),
     u_street_address := optional_text (up_street_address req), u_locality := optional_text (up_locality req),
     u_region := optional_text (up_region req), u_postal_code := optional_text (up_postal_code req),
     u_country := map_option (e_upper E) (optional_text (up_country req)),
     u_locale := (case optional_text (up_locale req) of None \<Rightarrow> ''en'' | Some l \<Rightarrow> l)\<rparr>"

text \<open>The address of the request, when it differs from the one of the user.\<close>

definition new_email :: "env \<Rightarrow> profile_request \<Rightarrow> user \<Rightarrow> string option" where
  "new_email E req u = Option.bind (up_email req) (\<lambda>e.
     let e = e_lower E (trim e) in if e \<noteq> u_email u then Some e else None)"

definition password_matches :: "env \<Rightarrow> string option \<Rightarrow> user \<Rightarrow> bool" where
  "password_matches E password u = (case u_password_hash u of
       None \<Rightarrow> False
     | Some h \<Rightarrow> e_hasher_verify E (case password of None \<Rightarrow> [] | Some p \<Rightarrow> p) h = Inr True)"

definition change_email :: "env \<Rightarrow> profile_request \<Rightarrow> user \<Rightarrow> (db, oidc_error, user) prog" where
  "change_email E req u =
     (case new_email E req u of
        None \<Rightarrow> ret u
      | Some email \<Rightarrow>
          thenp (guardp (is_valid_email email) (InvalidInput ''Enter a valid email address''))
         (thenp (guardp (password_matches E (up_current_password req) u)
            (InvalidInput ''Current password is required to change email''))
         (bindp (query (user_by_email (u_realm_id u) email)) (\<lambda>x.
          thenp (guardp (case x of None \<Rightarrow> True | Some y \<Rightarrow> u_id y = u_id u)
            (Conflict ''An account already uses this email address''))
            (ret (u\<lparr>u_email := email, u_email_verified := False\<rparr>))))))"

text \<open>The answer is the profile and whether the user has any permission.\<close>

(*@ oidc-oidc/src/endpoints/account.rs 142-205 update_profile_handler *)
definition update_profile ::
  "env \<Rightarrow> hub \<Rightarrow> string option \<Rightarrow> profile_request \<Rightarrow> (db, oidc_error, user \<times> bool) prog" where
  "update_profile E H authorization req =
     bindp (ask (current_account E H authorization)) (\<lambda>(u, s).
     bindp (change_email E req u) (\<lambda>u.
     let u = with_profile E req u
     in thenp (lift (validate_user u))
       (thenp (user_update (e_db_now E) u)
       (thenp (exec (account_audit E u ''ACCOUNT_PROFILE_UPDATED'' (JObj [])))
       (bindp (query (effective_permissions (e_collate E) (u_id u))) (\<lambda>permissions.
        ret (u, permissions \<noteq> [])))))))"


section \<open>Password, sessions, identities and applications\<close>

text \<open>The second component of the answer, \<open>other_sessions_revoked\<close>, is always true.\<close>

(*@ oidc-oidc/src/endpoints/account.rs 213-251 change_password_handler *)
definition change_password ::
  "env \<Rightarrow> hub \<Rightarrow> string option \<Rightarrow> string \<Rightarrow> string \<Rightarrow> (db, oidc_error, bool \<times> bool) prog" where
  "change_password E H authorization current_password new_password =
     bindp (ask (current_account E H authorization)) (\<lambda>(u, s).
     bindp (some_or (u_password_hash u) (InvalidInput ''This account does not have a local password'')) (\<lambda>hash.
     bindp (lift (e_hasher_verify E current_password hash)) (\<lambda>right.
     thenp (guardp right (InvalidInput ''Current password is incorrect''))
    (bindp (lift (e_hasher_verify E new_password hash)) (\<lambda>same.
     thenp (guardp (\<not> same) (InvalidInput ''Choose a different password''))
    (bindp (query (realm_by_id (u_realm_id u))) (\<lambda>r.
     bindp (some_or r (Internal ''Realm not found'')) (\<lambda>r.
     thenp (lift (map_err (\<lambda>v. InvalidInput (violation_text v))
              (validate_password E (password_policy_of (r_config r)) new_password)))
    (bindp (lift (e_hash_password E new_password)) (\<lambda>new_hash.
     let u = u\<lparr>u_password_hash := Some new_hash\<rparr>
     in thenp (user_update (e_db_now E) u)
       (thenp (exec (session_revoke_others (u_id u) (s_id s)))
       (thenp (exec (account_audit E u ''ACCOUNT_PASSWORD_CHANGED'' (JObj [])))
          (ret (True, True))))))))))))))"

text \<open>The answer is whether the session is the current one.\<close>

(*@ oidc-oidc/src/endpoints/account.rs 281-308 revoke_session_handler *)
definition revoke_own_session :: "env \<Rightarrow> hub \<Rightarrow> string option \<Rightarrow> uuid \<Rightarrow> (db, oidc_error, bool) prog" where
  "revoke_own_session E H authorization i =
     bindp (ask (current_account E H authorization)) (\<lambda>(u, current).
     bindp (query (\<lambda>d. Option.bind (session_by_id i d)
              (\<lambda>s. if s_user_id s = Some (u_id u) then Some s else None))) (\<lambda>s.
     bindp (some_or s (NotFound ''session'')) (\<lambda>s.
     thenp (exec (case s_token_family_id s of
              Some f \<Rightarrow> session_revoke_family f | None \<Rightarrow> session_revoke (s_id s)))
    (thenp (exec (account_audit E u ''ACCOUNT_SESSION_REVOKED''
              (json_object [(''session_id'', JStr (e_uuid_text E i))])))
       (ret (i = s_id current))))))"

(*@ oidc-repository/src/repositories/federated_identity_repo.rs 36-51 FederatedIdentityRepo::find_by_user_id *)
definition identities_of_user :: "uuid \<Rightarrow> db \<Rightarrow> federated_identity list" where
  "identities_of_user uid d = filter (\<lambda>f. fi_user_id f = uid) (d_identities d)"

definition identity_of :: "uuid \<Rightarrow> uuid \<Rightarrow> federated_identity \<Rightarrow> bool" where
  "identity_of i uid f \<longleftrightarrow> fi_id f = i \<and> fi_user_id f = uid"

text \<open>A \<open>DELETE\<close> answers how many rows it removed.\<close>

(*@ oidc-repository/src/repositories/federated_identity_repo.rs 95-107 FederatedIdentityRepo::delete_for_user *)
definition identity_delete_for_user :: "uuid \<Rightarrow> uuid \<Rightarrow> (db, oidc_error, nat) prog" where
  "identity_delete_for_user i uid =
     bindp (query (\<lambda>d. length (filter (identity_of i uid) (d_identities d)))) (\<lambda>n.
     thenp (exec (d_identities_update (filter (\<lambda>f. \<not> identity_of i uid f))))
       (ret n))"

(*@ oidc-oidc/src/endpoints/account.rs 339-369 unlink_identity_handler *)
definition unlink_identity :: "env \<Rightarrow> hub \<Rightarrow> string option \<Rightarrow> uuid \<Rightarrow> (db, oidc_error, unit) prog" where
  "unlink_identity E H authorization i =
     bindp (ask (current_account E H authorization)) (\<lambda>(u, s).
     bindp (query (identities_of_user (u_id u))) (\<lambda>identities.
     thenp (guardp (\<not> (u_password_hash u = None \<and> length identities \<le> 1))
       (InvalidInput ''Add a local password or another identity before unlinking this sign-in method''))
    (bindp (identity_delete_for_user i (u_id u)) (\<lambda>n.
     thenp (guardp (n \<noteq> 0) (NotFound ''linked identity''))
       (exec (account_audit E u ''ACCOUNT_IDENTITY_UNLINKED''
          (json_object [(''identity_id'', JStr (e_uuid_text E i))])))))))"

(*@ oidc-oidc/src/endpoints/account.rs 404-429 revoke_application_handler *)
definition revoke_application :: "env \<Rightarrow> hub \<Rightarrow> string option \<Rightarrow> uuid \<Rightarrow> (db, oidc_error, unit) prog" where
  "revoke_application E H authorization cid =
     bindp (ask (current_account E H authorization)) (\<lambda>(u, s).
     bindp (query (\<lambda>d. length (filter (\<lambda>c. uc_user_id c = u_id u \<and> uc_client_id c = cid) (d_consents d)))) (\<lambda>n.
     thenp (exec (consent_revoke (u_id u) cid))
    (thenp (guardp (n \<noteq> 0) (NotFound ''application grant''))
    (thenp (exec (session_revoke_user_client (u_id u) cid))
       (exec (account_audit E u ''ACCOUNT_APPLICATION_REVOKED''
          (json_object [(''client_id'', JStr (e_uuid_text E cid))])))))))"


lemma user_update_ok:
  "user_update now u d = (Inr x, e) \<longleftrightarrow>
     (\<forall>x \<in> set (d_users d). u_id x = u_id u \<and> u_deleted_at x = None \<longrightarrow>
        (\<forall>y \<in> set (d_users d). u_id y \<noteq> u_id u \<longrightarrow> \<not> (u_realm_id y = u_realm_id x \<and> u_email y = u_email u)))
     \<and> e = d\<lparr>d_users := update_where (\<lambda>x. u_id x = u_id u \<and> u_deleted_at x = None)
          (\<lambda>x. u\<lparr>u_id := u_id x, u_realm_id := u_realm_id x, u_deleted_at := u_deleted_at x,
                 u_created_at := u_created_at x,
                 u_phone_number_verified := Some (u_phone_number_verified u = Some True),
                 u_updated_at := now\<rparr>) (d_users d)\<rparr>"
  by (auto simp: user_update_def prog_ok)

lemma change_password_ok:
  assumes "change_password E H authorization old new d = (Inr r, e)"
  shows "\<exists>u s hash realm new_hash. current_account E H authorization d = Inr (u, s)
    \<and> u_password_hash u = Some hash \<and> e_hasher_verify E old hash = Inr True
    \<and> e_hasher_verify E new hash = Inr False \<and> realm_by_id (u_realm_id u) d = Some realm
    \<and> validate_password E (password_policy_of (r_config realm)) new = Inr ()
    \<and> e_hash_password E new = Inr new_hash
    \<and> (\<exists>m. user_update (e_db_now E) (u\<lparr>u_password_hash := Some new_hash\<rparr>) d = (Inr (), m)
         \<and> e = account_audit E (u\<lparr>u_password_hash := Some new_hash\<rparr>) ''ACCOUNT_PASSWORD_CHANGED'' (JObj [])
                (session_revoke_others (u_id u) (s_id s) m))"
  using assms unfolding change_password_def
  by (simp add: prog_ok map_err_Inr Let_def, elim exE conjE, intro exI conjI, (assumption | simp)+)

lemma revoke_others_sessions:
  assumes "t \<in> set (d_sessions d)" and "s_user_id t = Some uid" and "\<not> s_offline_session t" and "s_id t \<noteq> i"
    and unique: "\<forall>x \<in> set (d_sessions d). s_id x = s_id t \<longrightarrow> x = t"
  shows "revoked_in (session_revoke_others uid i d) (s_id t)"
  using assms by (auto simp: revoked_in_def session_revoke_others_def set_update_where)

text \<open>A change of the password succeeds only for the bearer of a live session of an enabled user, who
  shows the current password, with a different new password that satisfies the policy of the realm.
  Afterwards the hash of the new password is the only one stored for the user, and every other online
  session of the user is revoked, whatever the workflows do that the audit event triggers.  The answer
  says that the other sessions are revoked, but the offline sessions are all still there, usable as before,
  when that event is recorded.\<close>

theorem change_password_correct:
  assumes "change_password E H authorization old new d = (Inr r, e)"
    and ids: "distinct (map s_id (d_sessions d))" "distinct (map u_id (d_users d))"
  shows "\<exists>u s hash realm new_hash m. current_account E H authorization d = Inr (u, s)
    \<and> u_password_hash u = Some hash \<and> e_hasher_verify E old hash = Inr True
    \<and> e_hasher_verify E new hash = Inr False \<and> realm_by_id (u_realm_id u) d = Some realm
    \<and> validate_password E (password_policy_of (r_config realm)) new = Inr ()
    \<and> e_hash_password E new = Inr new_hash \<and> password_is (u_id u) (Some new_hash) e
    \<and> (\<forall>t \<in> set (d_sessions d). s_user_id t = Some (u_id u) \<and> \<not> s_offline_session t \<and> s_id t \<noteq> s_id s
         \<longrightarrow> revoked_in e (s_id t))
    \<and> r = (True, True)
    \<and> e = account_audit E (u\<lparr>u_password_hash := Some new_hash\<rparr>) ''ACCOUNT_PASSWORD_CHANGED'' (JObj []) m
    \<and> (\<forall>t \<in> set (d_sessions d). s_offline_session t \<or> s_id t = s_id s \<longrightarrow> t \<in> set (d_sessions m))"
proof -
  obtain u s hash realm new_hash n where
    ok: "current_account E H authorization d = Inr (u, s)" "u_password_hash u = Some hash"
      "e_hasher_verify E old hash = Inr True" "e_hasher_verify E new hash = Inr False"
      "realm_by_id (u_realm_id u) d = Some realm"
      "validate_password E (password_policy_of (r_config realm)) new = Inr ()"
      "e_hash_password E new = Inr new_hash"
    and n: "user_update (e_db_now E) (u\<lparr>u_password_hash := Some new_hash\<rparr>) d = (Inr (), n)"
    and e: "e = account_audit E (u\<lparr>u_password_hash := Some new_hash\<rparr>) ''ACCOUNT_PASSWORD_CHANGED'' (JObj [])
                (session_revoke_others (u_id u) (s_id s) n)"
    using change_password_ok [OF assms(1)] by blast
  let ?m = "session_revoke_others (u_id u) (s_id s) n"
  note acc = current_account_Inr [OF ok(1)]
  have sess: "d_sessions n = d_sessions d"
    using n by (simp add: user_update_ok)
  have "password_is (u_id u) (Some new_hash) n"
  proof -
    have "x = u" if "x \<in> set (d_users d)" "u_id x = u_id u" for x
      using that acc ids(2) by (metis inj_onD distinct_map)
    then have "u_deleted_at x = None" if "x \<in> set (d_users d)" "u_id x = u_id u" for x
      using that acc by blast
    then show ?thesis
      using n unfolding user_update_ok password_is_def by (auto simp: update_where_elem)
  qed
  then have "password_is (u_id u) (Some new_hash) ?m"
    by (simp add: password_is_def session_revoke_others_def update_sessions_def)
  then have pw: "password_is (u_id u) (Some new_hash) e"
    unfolding e account_audit_def by (rule password.keeps_record)
  have rev: "revoked_in e (s_id t)" if "t \<in> set (d_sessions d)" "s_user_id t = Some (u_id u)"
      "\<not> s_offline_session t" "s_id t \<noteq> s_id s" for t
  proof -
    have "\<forall>x \<in> set (d_sessions n). s_id x = s_id t \<longrightarrow> x = t"
      using that(1) ids(1) unfolding sess by (metis inj_onD distinct_map)
    then have "revoked_in ?m (s_id t)"
      using revoke_others_sessions [of t n] that sess by simp
    then show ?thesis
      unfolding e account_audit_def by (rule revoked.keeps_record)
  qed
  have "\<forall>t \<in> set (d_sessions d). s_offline_session t \<or> s_id t = s_id s \<longrightarrow> t \<in> set (d_sessions ?m)"
    unfolding session_revoke_others_def d_sessions_update_sessions sess by (auto simp: update_where_elem)
  moreover have "r = (True, True)"
    using assms(1) unfolding change_password_def by (auto simp: prog_ok Let_def)
  ultimately show ?thesis
    using ok pw rev e by blast
qed

definition account_db :: db where
  "account_db = info_db\<lparr>d_realms := [\<lparr>r_id = 3, r_name = ''acme'', r_display_name = ''Acme'', r_enabled = True,
     r_config = JObj [], r_deleted_at = None\<rparr>],
     d_identities := [\<lparr>fi_id = 60, fi_user_id = 7, fi_realm_id = 3, fi_identity_provider_id = 61,
       fi_upstream_subject = ''s'', fi_upstream_username = None, fi_upstream_email = None,
       fi_created_at = 0, fi_last_used_at = None\<rparr>]\<rparr>"

definition account_session :: session where
  "account_session = sample_session\<lparr>s_access_token_hash := ''h.c.rh_dc'', s_client_id := c_id secret_client\<rparr>"

lemma account_known: "current_account toy_env sample_hub (Some ''Bearer h.c.rh_dc'') account_db = Inr (sample_user, account_session)"
proof -
  have "session_by_access_hash 0 ''h.c.rh_dc'' account_db = Some account_session"
    using info_session by (simp add: session_by_access_hash_def account_db_def account_session_def)
  moreover have "user_by_id 7 account_db = Some sample_user"
    by (simp add: user_by_id_def account_db_def info_db_def sample_user_def)
  moreover have "strip_prefix ''Bearer h.c.rh_dc'' ''Bearer '' = Some ''h.c.rh_dc''"
    by (simp add: strip_prefix_Some)
  ultimately show ?thesis
    by (simp add: current_account_def toy_verified timestamp_def or_error_def account_session_def
        sample_session_def sample_user_def)
qed

lemma account_ids: "distinct (map s_id (d_sessions account_db))" "distinct (map u_id (d_users account_db))"
  "distinct (map fi_id (d_identities account_db))"
  by (simp_all add: account_db_def info_db_def)

lemma account_password: "validate_password toy_env (password_policy_of (JObj [])) ''Correct-Horse-9'' = Inr ()"
  by code_simp

lemma change_password_correct_witness:
  "\<exists>e. change_password toy_env sample_hub (Some ''Bearer h.c.rh_dc'') ''pw'' ''Correct-Horse-9'' account_db
       = (Inr (True, True), e) \<and> password_is 7 (Some ''Correct-Horse-9'') e"
proof -
  have "realm_by_id 3 account_db = Some (hd (d_realms account_db))"
    by (simp add: realm_by_id_def account_db_def)
  moreover have "e_hasher_verify toy_env p h = Inr (p = h)" "e_hash_password toy_env p = Inr p" for p h
    by (simp_all add: toy_env_def sample_env_def)
  moreover have "r_config (hd (d_realms account_db)) = JObj []" "d_users account_db = [sample_user]"
    by (simp_all add: account_db_def info_db_def)
  moreover have "u_password_hash sample_user = Some ''pw''" "u_realm_id sample_user = 3"
    by (simp_all add: sample_user_def)
  ultimately have "\<exists>e. change_password toy_env sample_hub (Some ''Bearer h.c.rh_dc'') ''pw'' ''Correct-Horse-9'' account_db
       = (Inr (True, True), e)"
    using account_password unfolding change_password_def
    by (simp add: prog_ok account_known Let_def user_update_ok)
  then obtain e where run: "change_password toy_env sample_hub (Some ''Bearer h.c.rh_dc'') ''pw'' ''Correct-Horse-9'' account_db
       = (Inr (True, True), e)"
    by blast
  obtain u s new_hash where u: "current_account toy_env sample_hub (Some ''Bearer h.c.rh_dc'') account_db = Inr (u, s)"
    and h: "e_hash_password toy_env ''Correct-Horse-9'' = Inr new_hash" "password_is (u_id u) (Some new_hash) e"
    using change_password_correct [OF run account_ids(1, 2)] by blast
  from u have "u_id u = 7"
    by (auto simp: account_known sample_user_def)
  moreover from h(1) have "new_hash = ''Correct-Horse-9''"
    by (simp add: toy_env_def sample_env_def)
  ultimately have "password_is 7 (Some ''Correct-Horse-9'') e"
    using h(2) by simp
  with run show ?thesis
    by (intro exI conjI)
qed

lemma filter_one: "distinct (map f xs) \<Longrightarrow> length (filter (\<lambda>x. P x \<and> f x = i) xs) \<le> 1"
  by (induction xs) (auto simp: filter_empty_conv image_iff)

text \<open>Unlinking an identity never takes away the last way to sign in: afterwards the user still has a local
  password or another linked identity, and the identity that was named is gone.\<close>

theorem sign_in_method_remains:
  assumes "unlink_identity E H authorization i d = (Inr x, e)"
    and ids: "distinct (map fi_id (d_identities d))"
  shows "\<exists>u s. current_account E H authorization d = Inr (u, s)
    \<and> (u_password_hash u \<noteq> None \<or> identities_of_user (u_id u) e \<noteq> [])
    \<and> d_identities e = filter (\<lambda>f. \<not> identity_of i (u_id u) f) (d_identities d)
    \<and> (\<exists>f \<in> set (d_identities d). identity_of i (u_id u) f)"
proof -
  obtain u s where acc: "current_account E H authorization d = Inr (u, s)"
    and many: "u_password_hash u = None \<longrightarrow> 1 < length (identities_of_user (u_id u) d)"
    and found: "filter (identity_of i (u_id u)) (d_identities d) \<noteq> []"
    and rows: "d_identities e = filter (\<lambda>f. \<not> identity_of i (u_id u) f) (d_identities d)"
    using assms(1) unfolding unlink_identity_def
    by (auto simp: prog_ok identity_delete_for_user_def account_audit_def not_le)
  have "identities_of_user (u_id u) e = filter (\<lambda>f. fi_id f \<noteq> i) (identities_of_user (u_id u) d)"
    unfolding identities_of_user_def rows filter_filter by (rule filter_cong) (auto simp: identity_of_def)
  moreover have "length (filter (\<lambda>f. fi_id f = i) (identities_of_user (u_id u) d)) \<le> 1"
    using filter_one [OF ids] unfolding identities_of_user_def filter_filter .
  ultimately have "u_password_hash u = None \<longrightarrow> identities_of_user (u_id u) e \<noteq> []"
    using many sum_length_filter_compl [of "\<lambda>f. fi_id f = i" "identities_of_user (u_id u) d"] by auto
  with acc rows found show ?thesis
    by (auto simp: filter_empty_conv)
qed

lemma sign_in_method_remains_witness:
  "\<exists>e. unlink_identity toy_env sample_hub (Some ''Bearer h.c.rh_dc'') 60 account_db = (Inr (), e)
     \<and> d_identities e = []"
proof -
  have "\<exists>e. unlink_identity toy_env sample_hub (Some ''Bearer h.c.rh_dc'') 60 account_db = (Inr (), e)"
  proof -
    have "u_id sample_user = 7" "u_password_hash sample_user = Some ''pw''"
      by (simp_all add: sample_user_def)
    moreover have "filter (identity_of 60 7) (d_identities account_db) \<noteq> []"
      by (simp add: account_db_def identity_of_def)
    ultimately show ?thesis
      by (simp add: unlink_identity_def prog_ok account_known identity_delete_for_user_def)
  qed
  then obtain e where run: "unlink_identity toy_env sample_hub (Some ''Bearer h.c.rh_dc'') 60 account_db = (Inr (), e)"
    by blast
  from sign_in_method_remains [OF run account_ids(3)] show ?thesis
    using run by (auto simp: account_known account_db_def identity_of_def sample_user_def)
qed

end
