(* ===== verification/Ciba.thy ===== *)
theory Ciba
  imports Device Client_Auth Account
begin

text \<open>Client initiated backchannel authentication: the request of the client and the decision of the user
  (\<open>oidc-oidc/src/endpoints/ciba.rs\<close>) and the redemption at the token endpoint
  (\<open>oidc-oidc/src/flows/ciba.rs\<close>).  The life of a request is a small state machine, \<open>request_step\<close>
  below, which every operation of the code refines.\<close>

section \<open>Token request\<close>

definition ciba_grant :: string where
  "ciba_grant = ''urn:openid:params:grant-type:ciba''"

(*@ oidc-oidc/src/flows/ciba.rs 124-170 IdTokenExtraClaims of the CIBA flow *)
definition ciba_id_extra ::
  "env \<Rightarrow> ciba_request \<Rightarrow> string \<Rightarrow> user \<Rightarrow> string \<Rightarrow> string \<Rightarrow> mapped_claims \<Rightarrow> role_claims \<Rightarrow> json option \<Rightarrow> id_extra"
  where
  "ciba_id_extra E q auth_req_id u access_token sid mapped roles org =
     (profile_extra u no_id_extra)
       \<lparr>ix_custom_claims := obj_insert ''urn:openid:params:jwt:claim:auth_req_id'' (JStr auth_req_id)
          (mc_id_token mapped),
        ix_additional_audiences := mc_id_audiences mapped,
        ix_at_hash := Some (left_half_hash E access_token),
        ix_auth_time := map_option timestamp (cr_auth_time q), ix_sid := Some sid,
        ix_locale := Some (u_locale u), ix_acr := cr_acr q, ix_amr := Some (cr_amr q),
        ix_roles := rc_roles roles, ix_realm_access := rc_realm_access roles,
        ix_resource_access := rc_resource_access roles, ix_organization := org\<rparr>"

(*@ oidc-oidc/src/flows/ciba.rs 173-204 Session of the CIBA flow *)
definition ciba_session ::
  "env \<Rightarrow> ciba_request \<Rightarrow> client \<Rightarrow> user \<Rightarrow> string \<Rightarrow> string \<Rightarrow> string \<Rightarrow> session" where
  "ciba_session E q c u sid access_token refresh_token =
     (let now = e_clock E 3 in
     \<lparr>s_id = e_uuid E 0, s_sid = sid, s_user_id = Some (u_id u), s_realm_id = cr_realm_id q,
      s_client_id = c_id c, s_grant_type = ciba_grant,
      s_access_token_hash = sha2_256_hex E access_token,
      s_refresh_token_hash = Some (sha2_256_hex E refresh_token), s_id_token_jti = None,
      s_scope = cr_scope q, s_revoked = False, s_expires_at = now + minutes 15,
      s_refresh_expires_at = Some (now + days 7), s_offline_session = False,
      s_offline_max_expires_at = None, s_created_at = now, s_last_used_at = None,
      s_token_family_id = Some (e_uuid E 1), s_previous_session_id = None, s_rotated_at = None,
      s_reused_at = None, s_family_revoked = False, s_authorization_details = None, s_resource = [],
      s_acr = (case cr_acr q of None \<Rightarrow> acr_bronze | Some a \<Rightarrow> a), s_amr = cr_amr q\<rparr>)"

definition issue_for_ciba ::
  "env \<Rightarrow> string \<Rightarrow> string option \<Rightarrow> ciba_request \<Rightarrow> user \<Rightarrow> client \<Rightarrow> (db, oidc_error, token_response) prog" where
  "issue_for_ciba E auth_req_id jkt q u c =
     bindp (ask (resolve_organization_claim E (u_id u) (cr_scope q))) (\<lambda>org.
     bindp (query (resolve_role_claims (e_collate E) (u_id u))) (\<lambda>roles.
     bindp (query (resolve_mapped_claims E (c_id c) (Some u) (cr_scope q))) (\<lambda>mapped.
     bindp (lift (e_services E (cr_realm_id q))) (\<lambda>svc.
     bindp (lift (issue_access_token E 0 svc (timestamp (e_clock E 1)) (subject_for E c (u_id u))
              (c_client_id c) (cr_scope q) jkt None None
              (user_access_extra mapped roles org (cr_scope q)))) (\<lambda>(_, access_token).
     bindp (lift (generate_sid E 1)) (\<lambda>sid.
     bindp (lift (issue_id_token E svc (timestamp (e_clock E 2)) (subject_for E c (u_id u))
              (c_client_id c) (ciba_id_extra E q auth_req_id u access_token sid mapped roles org))) (\<lambda>id_token.
     bindp (lift (maybe_encrypt_id_token E id_token c)) (\<lambda>id_token.
     bindp (lift (generate_opaque_token E 2)) (\<lambda>refresh_token.
     thenp (session_create (e_db_now E) (ciba_session E q c u sid access_token refresh_token))
    (thenp (exec (ciba_consume (e_db_now E) (cr_id q)))
       (ret \<lparr>tr_access_token = access_token, tr_token_type = token_type_of jkt, tr_expires_in = 900,
             tr_refresh_token = Some refresh_token, tr_refresh_expires_in = None,
             tr_id_token = Some id_token, tr_scope = join_scopes (cr_scope q)\<rparr>)))))))))))"

text \<open>A protocol error is a result of the transaction, so that its writes are kept.\<close>

(*@ oidc-oidc/src/flows/ciba.rs 16-19 CibaOutcome *)
datatype ciba_outcome = Tokens token_response | ProtocolError oidc_error

(*@ oidc-oidc/src/flows/ciba.rs 46-62 the pending branch *)
definition poll_pending :: "env \<Rightarrow> ciba_request \<Rightarrow> (db, oidc_error, ciba_outcome) prog" where
  "poll_pending E q =
     (if (case cr_last_polled_at q of None \<Rightarrow> False
          | Some last_poll \<Rightarrow> e_clock E 1 < last_poll + secs (cr_interval_seconds q))
      then thenp (exec (ciba_record_poll (e_db_now E) (cr_id q) (min (cr_interval_seconds q + 5) 60)))
             (ret (ProtocolError SlowDown))
      else thenp (exec (ciba_record_poll (e_db_now E) (cr_id q) (cr_interval_seconds q)))
             (ret (ProtocolError AuthorizationPending)))"

definition ciba_transaction ::
  "env \<Rightarrow> string \<Rightarrow> string \<Rightarrow> string option \<Rightarrow> (db, oidc_error, ciba_outcome) prog" where
  "ciba_transaction E auth_req_id client_id jkt =
     bindp (query (ciba_by_hash (sha2_256_hex E auth_req_id))) (\<lambda>found.
     bindp (some_or found ExpiredToken) (\<lambda>q.
     if cr_expires_at q \<le> e_clock E 0
     then thenp (exec (ciba_expire (e_db_now E) (cr_id q))) (ret (ProtocolError ExpiredToken))
     else bindp (query (client_by_id (cr_client_id q))) (\<lambda>c.
          bindp (some_or (Option.bind c (\<lambda>c. if c_enabled c then Some c else None)) InvalidClient) (\<lambda>c.
          thenp (guardp (c_client_id c = client_id) InvalidClient)
         (if cr_status q = ''pending'' then poll_pending E q
          else if cr_status q = ''denied''
          then fail (AuthorizationDenied ''The user denied the authentication request'')
          else if cr_status q \<in> {''consumed'', ''expired''} then fail ExpiredToken
          else if cr_status q = ''approved''
          then bindp (query (user_by_id (cr_user_id q))) (\<lambda>u.
               bindp (some_or (Option.bind u (\<lambda>u. if u_enabled u then Some u else None)) (NotFound ''user'')) (\<lambda>u.
               bindp (issue_for_ciba E auth_req_id jkt q u c) (\<lambda>tokens. ret (Tokens tokens))))
          else fail InvalidRequest)))))"

(*@ oidc-oidc/src/flows/ciba.rs 22-215 CibaFlow::execute *)
definition ciba_flow ::
  "env \<Rightarrow> string \<Rightarrow> string \<Rightarrow> string option \<Rightarrow> (db, oidc_error, token_response) prog" where
  "ciba_flow E auth_req_id client_id jkt =
     bindp (with_transaction (ciba_transaction E auth_req_id client_id jkt))
       (\<lambda>outcome. case outcome of Tokens t \<Rightarrow> ret t | ProtocolError e \<Rightarrow> fail e)"


section \<open>Authentication request\<close>

definition catching :: "('e \<Rightarrow> 'f) \<Rightarrow> ('s, 'e, 'a) prog \<Rightarrow> ('s, 'f, 'a) prog" where
  "catching f m = (\<lambda>s. case m s of (Inl e, t) \<Rightarrow> (Inl (f e), t) | (Inr a, t) \<Rightarrow> (Inr a, t))"

definition internal :: "oidc_error \<Rightarrow> error_response" where
  "internal e = from_internal (error_text e)"

record ciba_answer =
  ba_auth_req_id :: string
  ba_expires_in :: int
  ba_interval :: int

definition nonempty_param :: "params \<Rightarrow> string \<Rightarrow> bool" where
  "nonempty_param params key \<longleftrightarrow> (\<exists>v. params key = Some v \<and> v \<noteq> [])"

definition audience_is :: "json option \<Rightarrow> string \<Rightarrow> bool" where
  "audience_is aud cid \<longleftrightarrow> (case aud of
       Some (JStr a) \<Rightarrow> a = cid
     | Some (JArr vs) \<Rightarrow> \<exists>v \<in> set vs. as_str_json v = Some cid
     | _ \<Rightarrow> False)"

text \<open>The user that the hint names.  An empty \<open>login_hint\<close> next to an \<open>id_token_hint\<close> passes the count
  of the hints and is then the one that is looked up.\<close>

(*@ oidc-oidc/src/endpoints/ciba.rs 88-132 the hints *)
definition hinted_user :: "env \<Rightarrow> hub \<Rightarrow> client \<Rightarrow> params \<Rightarrow> db \<Rightarrow> error_response + user" where
  "hinted_user E H c params d =
     bindr (case params ''login_hint'' of
         Some hint \<Rightarrow> Inr (case user_by_email (c_realm_id c) (e_lower E hint) d of
             Some u \<Rightarrow> Some u
           | None \<Rightarrow> user_by_username (e_lower E) (c_realm_id c) hint d)
       | None \<Rightarrow>
           (let hint = the (params ''id_token_hint'')
            in bindr (map_err (\<lambda>_. oauth_error ''invalid_request'' ''Invalid id_token_hint'')
                 (verify_id_any E H (timestamp (e_clock E 1)) hint d)) (\<lambda>subject.
               bindr (map_err (\<lambda>_. oauth_error ''invalid_request'' ''Invalid id_token_hint'')
                 (payload_unverified E (e_parse_json E) hint)) (\<lambda>claims.
               bindr (ensure (audience_is (jget claims ''aud'') (c_client_id c))
                 (oauth_error ''invalid_request'' ''id_token_hint was not issued to this client'')) (\<lambda>_.
               bindr (or_error (e_parse_uuid E subject)
                 (oauth_error ''invalid_request'' ''Invalid id_token_hint subject'')) (\<lambda>i.
               Inr (user_by_id i d))))))) (\<lambda>u.
     or_error (Option.bind u (\<lambda>u. if u_enabled u \<and> u_realm_id u = c_realm_id c then Some u else None))
       (oauth_error ''unknown_user_id'' ''The supplied user hint does not identify an active user''))"

definition ciba_audit ::
  "env \<Rightarrow> nat \<Rightarrow> nat \<Rightarrow> uuid \<Rightarrow> uuid \<Rightarrow> uuid \<Rightarrow> actor_type \<Rightarrow> string \<Rightarrow> json \<Rightarrow> db \<Rightarrow> db" where
  "ciba_audit E k t realm actor target actor_type event details =
     record_event E (Suc k)
       \<lparr>ae_id = e_uuid E k, ae_realm_id = Some realm, ae_event_type = event, ae_actor_id = Some actor,
        ae_actor_type = actor_type, ae_target_type = Some ''ciba_request'', ae_target_id = Some target,
        ae_details = details, ae_ip_address = None, ae_user_agent = None, ae_created_at = e_clock E t\<rparr>"

text \<open>The parameters after the injection of HTTP Basic credentials, with the method they amount to; \<open>i32\<close>
  is the type of \<open>requested_expiry\<close>.\<close>

definition parse_i32 :: "string \<Rightarrow> int option" where
  "parse_i32 = parse_int (- (2 ^ 31)) (2 ^ 31 - 1)"

definition one_hint :: "params \<Rightarrow> bool" where
  "one_hint params \<longleftrightarrow>
     length (filter (nonempty_param params) [''login_hint'', ''id_token_hint'', ''login_hint_token'']) = 1"

definition trimmed_param :: "params \<Rightarrow> string \<Rightarrow> string option" where
  "trimmed_param params key =
     Option.bind (params key) (\<lambda>v. if trim v = [] then None else Some (trim v))"

definition lifetime_of :: "params \<Rightarrow> ciba_config \<Rightarrow> error_response + int" where
  "lifetime_of params cfg =
     bindr (case params ''requested_expiry'' of
         None \<Rightarrow> Inr (cc_request_lifetime_seconds cfg)
       | Some v \<Rightarrow> or_error (parse_i32 v)
           (oauth_error ''invalid_request'' ''requested_expiry must be an integer'')) (\<lambda>lifetime.
     bindr (ensure (1 \<le> lifetime \<and> lifetime \<le> cc_request_lifetime_seconds cfg)
       (oauth_error ''invalid_request'' ''requested_expiry exceeds the configured lifetime'')) (\<lambda>_.
     Inr lifetime))"

definition notification_token :: "params \<Rightarrow> ciba_config \<Rightarrow> error_response + string option" where
  "notification_token params cfg =
     (let token = params ''client_notification_token''
      in if cc_delivery_mode cfg = ''ping''
         then bindr (ensure (\<exists>t. token = Some t \<and> 16 \<le> length t)
                (oauth_error ''invalid_request'' ''ping mode requires a high-entropy client_notification_token''))
                (\<lambda>_. Inr token)
         else bindr (ensure (token = None)
                (oauth_error ''invalid_request'' ''client_notification_token is only valid in ping mode''))
                (\<lambda>_. Inr None))"

definition ciba_scopes :: "env \<Rightarrow> client \<Rightarrow> params \<Rightarrow> db \<Rightarrow> error_response + string list" where
  "ciba_scopes E c params d =
     (let requested = (case params ''scope'' of None \<Rightarrow> [''openid''] | Some s \<Rightarrow> split_whitespace s)
      in bindr (ensure (''openid'' \<in> set requested)
           (oauth_error ''invalid_scope'' ''CIBA requires the openid scope'')) (\<lambda>_.
         bindr (map_err from_oidc_error
           (resolve_names_for_client (e_collate E) (c_id c) requested (c_allowed_scopes c) d)) (\<lambda>scopes.
         bindr (ensure (''offline_access'' \<notin> set scopes)
           (oauth_error ''invalid_scope'' ''offline_access is not available through CIBA'')) (\<lambda>_.
         Inr scopes))))"

(*@ oidc-oidc/src/endpoints/ciba.rs 24-239 authentication_request *)
definition authentication_request ::
  "env \<Rightarrow> hub \<Rightarrow> params \<Rightarrow> presented \<Rightarrow> string option \<Rightarrow> (db, error_response, ciba_answer) prog" where
  "authentication_request E H params method realm_name =
     bindp (ask (authenticate_for_endpoint E params method
         (protocol_endpoint H ''/oidc/backchannel-authentication'' ''/protocol/openid-connect/ext/ciba/auth'')
         (timestamp (e_clock E 0)))) (\<lambda>c.
     thenp (guardp (ciba_grant \<in> set (c_allowed_grant_types c))
       (oauth_error ''unauthorized_client'' ''CIBA is not enabled for this client''))
    (thenp (ask (\<lambda>d. case realm_name of
         None \<Rightarrow> Inr ()
       | Some name \<Rightarrow>
           bindr (or_error (realm_by_name name d) (oauth_error ''invalid_request'' ''Unknown realm'')) (\<lambda>r.
           ensure (r_id r = c_realm_id c)
             (oauth_error ''invalid_client'' ''Client does not belong to this realm''))))
    (bindp (query (ciba_config_of (c_id c))) (\<lambda>cfg.
     bindp (some_or cfg (oauth_error ''unauthorized_client'' ''CIBA client settings are not configured'')) (\<lambda>cfg.
     thenp (guardp (one_hint params) (oauth_error ''invalid_request'' ''Provide exactly one user hint''))
    (thenp (guardp (params ''login_hint_token'' = None) (oauth_error ''invalid_request''
       ''login_hint_token is not supported; use login_hint or id_token_hint''))
    (thenp (guardp (params ''user_code'' = None)
       (oauth_error ''invalid_request'' ''The user_code parameter is not supported''))
    (bindp (ask (hinted_user E H c params)) (\<lambda>u.
     bindp (ask (ciba_scopes E c params)) (\<lambda>scopes.
     let message = trimmed_param params ''binding_message''
     in thenp (guardp (case message of None \<Rightarrow> True | Some m \<Rightarrow> char_count m \<le> 20)
          (oauth_error ''invalid_binding_message'' ''binding_message must be 20 characters or fewer''))
       (bindp (lift (lifetime_of params cfg)) (\<lambda>lifetime.
        bindp (lift (notification_token params cfg)) (\<lambda>token.
        bindp (lift (case token of None \<Rightarrow> Inr None
             | Some t \<Rightarrow> map_err internal (bindr (e_encrypt E t) (\<lambda>x. Inr (Some x))))) (\<lambda>sealed_token.
        bindp (lift (map_err internal (generate_opaque_token E 0))) (\<lambda>auth_req_id.
        bindp (lift (map_err internal (e_encrypt E auth_req_id))) (\<lambda>sealed_id.
        let now = e_clock E 2; q =
          \<lparr>cr_id = e_uuid E 0, cr_auth_req_id_hash = sha2_256_hex E auth_req_id,
           cr_auth_req_id_encrypted = sealed_id, cr_client_id = c_id c, cr_realm_id = c_realm_id c,
           cr_user_id = u_id u, cr_scope = scopes, cr_binding_message = message,
           cr_request_context = params ''request_context'', cr_notification_token_encrypted = sealed_token,
           cr_delivery_mode = cc_delivery_mode cfg, cr_notification_endpoint = cc_notification_endpoint cfg,
           cr_status = ''pending'', cr_interval_seconds = cc_polling_interval_seconds cfg,
           cr_last_polled_at = None,
           cr_requested_acr = (case params ''acr_values'' of None \<Rightarrow> [] | Some v \<Rightarrow> split_whitespace v),
           cr_auth_time = None, cr_acr = None, cr_amr = [], cr_expires_at = now + secs lifetime,
           cr_created_at = now, cr_updated_at = now\<rparr>
        in thenp (catching internal (ciba_create q))
          (thenp (exec (ciba_audit E 1 3 (c_realm_id c) (c_id c) (cr_id q) SystemActor ''CIBA_REQUEST_CREATED''
             (json_object [(''user_id'', JStr (e_uuid_text E (u_id u))),
                (''delivery_mode'', JStr (cc_delivery_mode cfg)), (''scopes'', strs scopes)])))
             (ret \<lparr>ba_auth_req_id = auth_req_id, ba_expires_in = lifetime,
                   ba_interval = cr_interval_seconds q\<rparr>))))))))))))))))))"


section \<open>The decision of the user\<close>

(*@ oidc-oidc/src/endpoints/ciba.rs 392-395 acr_satisfies *)
definition acr_satisfies :: "string \<Rightarrow> string \<Rightarrow> bool" where
  "acr_satisfies actual requested \<longleftrightarrow>
     actual = requested \<or> (actual = acr_silver \<and> requested = acr_bronze)"

(*@ oidc-oidc/src/endpoints/ciba.rs 326-345 delivery of the notification *)
definition deliver_ping :: "env \<Rightarrow> ciba_request \<Rightarrow> bool result" where
  "deliver_ping E q =
     (if cr_delivery_mode q \<noteq> ''ping'' then Inr True
      else bindr (or_error (cr_notification_endpoint q) (Internal ''ping endpoint missing'')) (\<lambda>uri.
           bindr (or_error (cr_notification_token_encrypted q) (Internal ''notification token missing'')) (\<lambda>sealed.
           bindr (e_decrypt E sealed) (\<lambda>token.
           bindr (ensure (e_is_utf8 E token) (Internal ''decrypted secret is not valid UTF-8'')) (\<lambda>_.
           bindr (e_decrypt E (cr_auth_req_id_encrypted q)) (\<lambda>auth_req_id.
           bindr (ensure (e_is_utf8 E auth_req_id) (Internal ''decrypted secret is not valid UTF-8'')) (\<lambda>_.
           Inr (e_notify E uri token auth_req_id))))))))"

text \<open>There is no transaction: the consent is stored before the decision, and the decision stays when the
  delivery fails.\<close>

(*@ oidc-oidc/src/endpoints/ciba.rs 260-363 decide_request *)
definition decide_request ::
  "env \<Rightarrow> hub \<Rightarrow> string option \<Rightarrow> uuid \<Rightarrow> string \<Rightarrow> (db, oidc_error, string \<times> bool) prog" where
  "decide_request E H authorization i decision =
     thenp (guardp (decision = ''approve'' \<or> decision = ''deny'')
       (InvalidInput ''decision must be approve or deny''))
    (bindp (ask (current_account E H authorization)) (\<lambda>(u, s).
     bindp (query (ciba_user_request i (u_id u))) (\<lambda>q.
     bindp (some_or q (NotFound ''CIBA request'')) (\<lambda>q.
     thenp (guardp (cr_status q = ''pending'' \<and> e_clock E 1 < cr_expires_at q)
       (Conflict ''This request is no longer pending''))
    (thenp (guardp (decision = ''approve'' \<and> cr_requested_acr q \<noteq> [] \<longrightarrow>
          (\<exists>v \<in> set (cr_requested_acr q). acr_satisfies (s_acr s) v))
       (AuthorizationDenied ''Sign in with a stronger authentication method before approving this request''))
    (let status = (if decision = ''approve'' then ''approved'' else ''denied'')
     in thenp (exec (if status = ''approved''
          then consent_grant (e_db_now E) (e_uuid E 0) (u_id u) (u_realm_id u) (cr_client_id q) (cr_scope q)
          else (\<lambda>d. d)))
       (bindp (ciba_decide (e_db_now E) i (u_id u) status (e_clock E 2) (s_acr s) (s_amr s)) (\<lambda>n.
        thenp (guardp (n \<noteq> 0) (Conflict ''This request was already handled''))
       (bindp (lift (deliver_ping E q)) (\<lambda>delivered.
        thenp (exec (ciba_audit E 1 3 (cr_realm_id q) (u_id u) (cr_id q) UserActor
             (if status = ''approved'' then ''CIBA_REQUEST_APPROVED'' else ''CIBA_REQUEST_DENIED'')
             (json_object [(''client_id'', JStr (e_uuid_text E (cr_client_id q))),
                (''notification_delivered'', JBool delivered)])))
          (ret (status, delivered))))))))))))"

(*@ oidc-oidc/src/endpoints/ciba.rs 438-467 validate_config *)
definition validate_ciba_config :: "env \<Rightarrow> ciba_config \<Rightarrow> unit result" where
  "validate_ciba_config E cfg =
     (if cc_delivery_mode cfg \<notin> {''poll'', ''ping''}
      then Inl (InvalidInput ''delivery mode must be poll or ping'')
      else bindr (if cc_delivery_mode cfg = ''ping''
             then bindr (or_error (cc_notification_endpoint cfg)
                    (InvalidInput ''ping mode requires a notification endpoint'')) (\<lambda>uri.
                  bindr (or_error (e_url_scheme E uri) (InvalidInput ''invalid notification endpoint'')) (\<lambda>scheme.
                  ensure (scheme = ''https'') (InvalidInput ''notification endpoint must use HTTPS'')))
             else Inr ()) (\<lambda>_.
           ensure (60 \<le> cc_request_lifetime_seconds cfg \<and> cc_request_lifetime_seconds cfg \<le> 900
               \<and> 2 \<le> cc_polling_interval_seconds cfg \<and> cc_polling_interval_seconds cfg \<le> 60)
             (InvalidInput ''CIBA lifetime or interval is outside the allowed range'')))"

end
