(* ===== verification/Ciba_Props.thy ===== *)
theory Ciba_Props
  imports Ciba
begin

text \<open>What the backchannel authentication guarantees.  The life of a request is the state machine
  \<open>request_step\<close>; every operation of theory \<open>Ciba\<close> moves a request by at most one of its steps, tokens
  are the answer of exactly the step \<open>Redeemed\<close>, and over any history a request is redeemed at most
  once.\<close>

section \<open>Runs\<close>

lemma with_transaction_run:
  "with_transaction m d = (case m d of (Inr a, e) \<Rightarrow> (Inr a, e) | (Inl x, e) \<Rightarrow> (Inl x, d))"
  by (simp add: with_transaction_def split: prod.splits sum.splits)

lemma poll_pending_run:
  "\<exists>n err. poll_pending E q d = (Inr (ProtocolError err), ciba_record_poll (e_db_now E) (cr_id q) n d)
     \<and> (err = SlowDown \<or> err = AuthorizationPending)"
  by (auto simp: poll_pending_def prog_ok)

lemma option_filter_Some: "Option.bind x (\<lambda>c. if P c then Some c else None) = Some y \<longleftrightarrow> x = Some y \<and> P y"
  by (cases x) auto

lemma ciba_transaction_ok:
  "ciba_transaction E a cid jkt d = (Inr out, e) \<longleftrightarrow>
     (\<exists>q. ciba_by_hash (sha2_256_hex E a) d = Some q
        \<and> (if cr_expires_at q \<le> e_clock E 0
           then out = ProtocolError ExpiredToken \<and> e = ciba_expire (e_db_now E) (cr_id q) d
           else \<exists>c. client_by_id (cr_client_id q) d = Some c \<and> c_enabled c \<and> c_client_id c = cid
             \<and> (cr_status q = ''pending'' \<and> poll_pending E q d = (Inr out, e)
              \<or> cr_status q = ''approved'' \<and> (\<exists>u t. user_by_id (cr_user_id q) d = Some u \<and> u_enabled u
                   \<and> issue_for_ciba E a jkt q u c d = (Inr t, e) \<and> out = Tokens t))))"
  unfolding ciba_transaction_def
  by (auto simp: prog_ok option_filter_Some split: if_split_asm)


text \<open>How a run of the flow ends: nothing is written, or the request is found and marked expired, polled or
  consumed.\<close>

lemma ciba_flow_cases:
  obtains (refused) err where "ciba_flow E a cid jkt d = (Inl err, d)"
  | (expired) q where "ciba_by_hash (sha2_256_hex E a) d = Some q" "cr_expires_at q \<le> e_clock E 0"
      "ciba_flow E a cid jkt d = (Inl ExpiredToken, ciba_expire (e_db_now E) (cr_id q) d)"
  | (polled) q err n where "ciba_by_hash (sha2_256_hex E a) d = Some q" "cr_status q = ''pending''"
      "ciba_flow E a cid jkt d = (Inl err, ciba_record_poll (e_db_now E) (cr_id q) n d)"
      "err = SlowDown \<or> err = AuthorizationPending"
  | (redeemed) q c u t e where "ciba_by_hash (sha2_256_hex E a) d = Some q" "e_clock E 0 < cr_expires_at q"
      "client_by_id (cr_client_id q) d = Some c" "c_enabled c" "c_client_id c = cid"
      "cr_status q = ''approved''" "user_by_id (cr_user_id q) d = Some u" "u_enabled u"
      "issue_for_ciba E a jkt q u c d = (Inr t, e)" "ciba_flow E a cid jkt d = (Inr t, e)"
proof (cases "ciba_transaction E a cid jkt d")
  case (Pair r e)
  show thesis
  proof (cases r)
    case (Inl err)
    then show thesis
      using Pair refused by (simp add: ciba_flow_def bindp_def with_transaction_run)
  next
    case (Inr out)
    have run: "ciba_flow E a cid jkt d = (case out of Tokens t \<Rightarrow> ret t | ProtocolError e \<Rightarrow> fail e) e"
      using Pair Inr by (simp add: ciba_flow_def bindp_def with_transaction_run)
    have tr: "ciba_transaction E a cid jkt d = (Inr out, e)"
      using Pair Inr by simp
    from this [unfolded ciba_transaction_ok] obtain q where q: "ciba_by_hash (sha2_256_hex E a) d = Some q"
      and rest: "if cr_expires_at q \<le> e_clock E 0
           then out = ProtocolError ExpiredToken \<and> e = ciba_expire (e_db_now E) (cr_id q) d
           else \<exists>c. client_by_id (cr_client_id q) d = Some c \<and> c_enabled c \<and> c_client_id c = cid
             \<and> (cr_status q = ''pending'' \<and> poll_pending E q d = (Inr out, e)
              \<or> cr_status q = ''approved'' \<and> (\<exists>u t. user_by_id (cr_user_id q) d = Some u \<and> u_enabled u
                   \<and> issue_for_ciba E a jkt q u c d = (Inr t, e) \<and> out = Tokens t))"
      by blast
    show thesis
    proof (cases "cr_expires_at q \<le> e_clock E 0")
      case True
      with rest run q expired show thesis
        by (simp add: fail_def)
    next
      case False
      with rest obtain c where c: "client_by_id (cr_client_id q) d = Some c" "c_enabled c" "c_client_id c = cid"
        and alt: "cr_status q = ''pending'' \<and> poll_pending E q d = (Inr out, e)
              \<or> cr_status q = ''approved'' \<and> (\<exists>u t. user_by_id (cr_user_id q) d = Some u \<and> u_enabled u
                   \<and> issue_for_ciba E a jkt q u c d = (Inr t, e) \<and> out = Tokens t)"
        by auto
      from alt show thesis
      proof (elim disjE conjE exE)
        assume "cr_status q = ''pending''" "poll_pending E q d = (Inr out, e)"
        then show thesis
          using poll_pending_run [of E q d] run q polled by (auto simp: fail_def)
      next
        fix u t
        assume "cr_status q = ''approved''" "user_by_id (cr_user_id q) d = Some u" "u_enabled u"
          "issue_for_ciba E a jkt q u c d = (Inr t, e)" "out = Tokens t"
        then show thesis
          using False run q c redeemed by (simp add: ret_def)
      qed
    qed
  qed
qed

lemma issue_for_ciba_ok:
  assumes "issue_for_ciba E a jkt q u c d = (Inr r, e)"
  shows "\<exists>access_token refresh_token sid. tr_access_token r = access_token
      \<and> tr_refresh_token r = Some refresh_token \<and> tr_scope r = join_scopes (cr_scope q)
      \<and> tr_token_type r = token_type_of jkt \<and> (\<forall>x \<in> set (d_sessions d). s_id x \<noteq> e_uuid E 0)
      \<and> e = ciba_consume (e_db_now E) (cr_id q) (d\<lparr>d_sessions := d_sessions d
          @ [ciba_session E q c u sid access_token refresh_token\<lparr>s_created_at := e_db_now E\<rparr>]\<rparr>)"
  using assms unfolding issue_for_ciba_def
  by (auto simp: prog_ok ciba_session_def Let_def)


lemma ciba_create_ok:
  "ciba_create q d = (Inr u, e) \<longleftrightarrow>
     (\<forall>x \<in> set (d_ciba d). cr_id x \<noteq> cr_id q \<and> cr_auth_req_id_hash x \<noteq> cr_auth_req_id_hash q)
     \<and> e = d\<lparr>d_ciba := d_ciba d @ [q]\<rparr>"
  by (auto simp: ciba_create_def prog_ok)


section \<open>The rows of the requests\<close>

lemma ciba_audit_rows [simp]: "d_ciba (ciba_audit E k t realm actor target typ event details d) = d_ciba d"
  by (simp add: ciba_audit_def)

lemma consent_grant_rows [simp]: "d_ciba (consent_grant now i uid realm cid scopes d) = d_ciba d"
  by (simp add: consent_grant_def split: option.splits)

definition decided :: "string \<Rightarrow> instant \<Rightarrow> string \<Rightarrow> string list \<Rightarrow> instant \<Rightarrow> ciba_request \<Rightarrow> ciba_request" where
  "decided status t acr amr now r = r\<lparr>cr_status := status, cr_auth_time := Some t, cr_acr := Some acr,
     cr_amr := amr, cr_updated_at := now\<rparr>"

text \<open>A program that takes the states of \<open>I\<close> to states of \<open>J\<close>, whatever its result.\<close>

definition leads :: "('s \<Rightarrow> bool) \<Rightarrow> ('s \<Rightarrow> bool) \<Rightarrow> ('s, 'e, 'a) prog \<Rightarrow> bool" where
  "leads I J m \<longleftrightarrow> (\<forall>s. I s \<longrightarrow> J (snd (m s)))"

lemma leads_readonly: "readonly m \<Longrightarrow> (\<And>s. I s \<Longrightarrow> J s) \<Longrightarrow> leads I J m"
  by (simp add: leads_def readonly_def)

lemma leads_exec: "(\<And>s. I s \<Longrightarrow> J (g s)) \<Longrightarrow> leads I J (exec g)"
  by (simp add: leads_def run_combinators)

lemma leads_bindp: "leads I J m \<Longrightarrow> (\<And>s. J s \<Longrightarrow> K s) \<Longrightarrow> (\<And>a. leads J K (f a)) \<Longrightarrow> leads I K (bindp m f)"
  unfolding leads_def bindp_def by (fastforce split: prod.splits sum.splits)

lemma leads_after_read:
  "readonly m \<Longrightarrow> (\<And>s. I s \<Longrightarrow> K s) \<Longrightarrow> (\<And>a. leads I K (f a)) \<Longrightarrow> leads I K (bindp m f)"
  by (rule leads_bindp [where J = I]) (auto simp: leads_readonly)

lemma leads_after_lift:
  "(\<And>s. I s \<Longrightarrow> K s) \<Longrightarrow> (\<And>a. r = Inr a \<Longrightarrow> leads I K (f a)) \<Longrightarrow> leads I K (bindp (lift r) f)"
  by (auto simp: leads_def run_bindp split: sum.splits)

lemma leads_after_exec:
  "(\<And>s. I s \<Longrightarrow> I (g s)) \<Longrightarrow> (\<And>s. I s \<Longrightarrow> K s) \<Longrightarrow> (\<And>a. leads I K (f a)) \<Longrightarrow> leads I K (bindp (exec g) f)"
  by (rule leads_bindp [OF leads_exec])

lemma leads_preserves: "preserves I m \<longleftrightarrow> leads I I m"
  by (simp add: leads_def preserves_def)

lemma leads_snd: "leads I J m \<Longrightarrow> I s \<Longrightarrow> J (snd (m s))"
  by (simp add: leads_def)

definition decision_rows :: "uuid \<Rightarrow> ciba_request list \<Rightarrow> db \<Rightarrow> bool" where
  "decision_rows i tbl e \<longleftrightarrow> d_ciba e = tbl
   \<or> (\<exists>uid now status t acr amr. status \<in> {''approved'', ''denied''}
        \<and> d_ciba e = update_where (ciba_decidable i uid now) (decided status t acr amr now) tbl)"

lemma ciba_decide_leads:
  assumes "status \<in> {''approved'', ''denied''}"
  shows "leads (\<lambda>e. d_ciba e = tbl) (decision_rows i tbl) (ciba_decide now i uid status t acr amr)"
proof -
  have "d_ciba (snd (ciba_decide now i uid status t acr amr e))
      = update_where (ciba_decidable i uid now) (decided status t acr amr now) (d_ciba e)" for e
    by (simp add: ciba_decide_def decided_def [abs_def] run_bindp run_thenp run_combinators)
  with assms show ?thesis
    unfolding leads_def decision_rows_def by blast
qed

lemma decide_request_rows:
  "decision_rows i (d_ciba d) (snd (decide_request E H authorization i decision d))"
proof -
  have "leads (\<lambda>e. d_ciba e = tbl) (decision_rows i tbl) (decide_request E H authorization i decision)" for tbl
    unfolding decide_request_def thenp_def Let_def case_prod_unfold
    apply (rule leads_after_read, rule readonly_intros, simp add: decision_rows_def)+
    apply (rule leads_after_exec, simp, simp add: decision_rows_def)
    apply (rule leads_bindp [OF ciba_decide_leads], simp, assumption)
    apply (unfold leads_preserves [symmetric])
    apply (intro preserves_bindp preserves_intros preserves_exec)
    apply (simp add: decision_rows_def)
    done
  then show ?thesis
    by (rule leads_snd) (rule refl)
qed


definition request_rows :: "env \<Rightarrow> ciba_request list \<Rightarrow> db \<Rightarrow> bool" where
  "request_rows E tbl e \<longleftrightarrow> d_ciba e = tbl
   \<or> (\<exists>q token. d_ciba e = tbl @ [q] \<and> cr_status q = ''pending'' \<and> generate_opaque_token E 0 = Inr token
        \<and> cr_auth_req_id_hash q = sha2_256_hex E token
        \<and> (\<forall>x \<in> set tbl. cr_id x \<noteq> cr_id q \<and> cr_auth_req_id_hash x \<noteq> cr_auth_req_id_hash q))"

lemma ciba_create_leads:
  assumes "cr_status q = ''pending''" and "generate_opaque_token E 0 = Inr token"
    and "cr_auth_req_id_hash q = sha2_256_hex E token"
  shows "leads (\<lambda>e. d_ciba e = tbl) (request_rows E tbl) (catching f (ciba_create q))"
proof -
  have "d_ciba (snd (catching f (ciba_create q) e)) = (if \<forall>x \<in> set (d_ciba e). cr_id x \<noteq> cr_id q
      \<and> cr_auth_req_id_hash x \<noteq> cr_auth_req_id_hash q then d_ciba e @ [q] else d_ciba e)" for e
    by (simp add: catching_def ciba_create_def run_bindp run_thenp run_combinators)
  with assms show ?thesis
    unfolding leads_def request_rows_def by auto
qed

lemma authentication_request_rows:
  "request_rows E (d_ciba d) (snd (authentication_request E H params presented realm d))"
proof -
  have "leads (\<lambda>e. d_ciba e = tbl) (request_rows E tbl) (authentication_request E H params presented realm)" for tbl
    unfolding authentication_request_def thenp_def Let_def
    apply (rule leads_after_lift, simp add: request_rows_def
        | rule leads_after_read, rule readonly_intros, simp add: request_rows_def)+
    apply (rule leads_bindp [OF ciba_create_leads], simp, simp add: map_err_Inr, simp, assumption)
    apply (unfold leads_preserves [symmetric])
    apply (intro preserves_bindp preserves_intros preserves_exec)
    apply (simp add: request_rows_def)
    done
  then show ?thesis
    by (rule leads_snd) (rule refl)
qed



section \<open>The state machine\<close>

datatype phase = Pending | Approved | Denied | Consumed | Expired

datatype request_event = Poll | Approve | Deny | Redeem | Time_Out

inductive request_step :: "phase \<Rightarrow> request_event \<Rightarrow> phase \<Rightarrow> bool" where
  "request_step Pending Poll Pending"
| "request_step Pending Approve Approved"
| "request_step Pending Deny Denied"
| "request_step Approved Redeem Consumed"
| "request_step p Time_Out Expired"

inductive_cases redeem_step [elim!]: "request_step p Redeem q"
inductive_simps step_to [simp]: "request_step p ev Consumed" "request_step p ev Approved"
  "request_step p ev Denied"

definition phase_of :: "string \<Rightarrow> phase option" where
  "phase_of s = (if s = ''pending'' then Some Pending else if s = ''approved'' then Some Approved
     else if s = ''denied'' then Some Denied else if s = ''consumed'' then Some Consumed
     else if s = ''expired'' then Some Expired else None)"

definition request_phase :: "ciba_request list \<Rightarrow> uuid \<Rightarrow> phase option" where
  "request_phase tbl i = Option.bind (List.find (\<lambda>r. cr_id r = i) tbl) (\<lambda>r. phase_of (cr_status r))"

text \<open>The operations on the table, each with its own environment.\<close>

datatype ciba_op =
    Token_Request env string string "string option"
  | Decision env hub "string option" uuid string
  | New_Request env hub params presented "string option"
  | Clean_Up instant

fun after_op :: "ciba_op \<Rightarrow> db \<Rightarrow> db" where
  "after_op (Token_Request E a cid jkt) d = snd (ciba_flow E a cid jkt d)"
| "after_op (Decision E H authorization i decision) d = snd (decide_request E H authorization i decision d)"
| "after_op (New_Request E H params pres realm) d = snd (authentication_request E H params pres realm d)"
| "after_op (Clean_Up now) d = ciba_cleanup now d"

text \<open>The operation answers with tokens for the authentication request with this hash.\<close>

fun issues :: "string \<Rightarrow> ciba_op \<Rightarrow> db \<Rightarrow> bool" where
  "issues h (Token_Request E a cid jkt) d \<longleftrightarrow> sha2_256_hex E a = h \<and> is_ok (fst (ciba_flow E a cid jkt d))"
| "issues h _ d \<longleftrightarrow> False"

definition requests_ok :: "ciba_request list \<Rightarrow> bool" where
  "requests_ok tbl \<longleftrightarrow> distinct (map cr_id tbl) \<and> distinct (map cr_auth_req_id_hash tbl)"

lemma find_update_id:
  assumes "\<And>r. cr_id (f r) = cr_id r"
  shows "List.find (\<lambda>r. cr_id r = i) (update_where P f tbl)
    = map_option (\<lambda>r. if P r then f r else r) (List.find (\<lambda>r. cr_id r = i) tbl)"
  using assms by (intro find_update_where) simp

lemma requests_ok_update:
  assumes "\<And>r. cr_id (f r) = cr_id r" and "\<And>r. cr_auth_req_id_hash (f r) = cr_auth_req_id_hash r"
  shows "requests_ok (update_where P f tbl) \<longleftrightarrow> requests_ok tbl"
  using assms by (simp add: requests_ok_def map_update_where)

lemma issue_rows: "issue_for_ciba E a jkt q u c d = (Inr r, e) \<Longrightarrow>
    d_ciba e = update_where (\<lambda>r. cr_id r = cr_id q) (\<lambda>r. r\<lparr>cr_status := ''consumed'', cr_updated_at := e_db_now E\<rparr>) (d_ciba d)"
  using issue_for_ciba_ok [of E a jkt q u c d r e] by (auto simp: ciba_consume_def ciba_set_status_def)

lemma requests_ok_after:
  assumes "requests_ok (d_ciba d)"
  shows "requests_ok (d_ciba (after_op op d))"
proof (cases op)
  case (Token_Request E a cid jkt)
  show ?thesis
    by (cases rule: ciba_flow_cases [of E a cid jkt d])
      (use assms Token_Request in \<open>auto simp: ciba_expire_def ciba_set_status_def ciba_record_poll_def
        requests_ok_update issue_rows\<close>)
next
  case (Decision E H authorization i decision)
  have "requests_ok (update_where P (decided status t acr amr now) (d_ciba d))" for P status t acr amr now
    using assms by (subst requests_ok_update) (simp_all add: decided_def)
  then show ?thesis
    using decide_request_rows [of i d E H authorization decision] assms Decision
    by (auto simp: decision_rows_def)
next
  case (New_Request E H params pres realm)
  then show ?thesis
    using authentication_request_rows [of E d H params pres realm] assms
    by (fastforce simp: request_rows_def requests_ok_def)
next
  case (Clean_Up now)
  then show ?thesis
    using assms by (auto simp: ciba_cleanup_def requests_ok_def intro: distinct_map_filter)
qed

lemma requests_ok_same:
  assumes "requests_ok tbl" and "q \<in> set tbl" and "r \<in> set tbl"
  shows "cr_id q = cr_id r \<longleftrightarrow> q = r" and "cr_auth_req_id_hash q = cr_auth_req_id_hash r \<longleftrightarrow> q = r"
  using assms unfolding requests_ok_def by (metis distinct_map inj_onD)+

lemma ciba_by_hash_set: "ciba_by_hash h d = Some q \<Longrightarrow> q \<in> set (d_ciba d) \<and> cr_auth_req_id_hash q = h"
  by (auto simp: ciba_by_hash_def dest: find_Some_set)

lemma phase_of_simps [simp]:
  "phase_of ''pending'' = Some Pending" "phase_of ''approved'' = Some Approved"
  "phase_of ''denied'' = Some Denied" "phase_of ''consumed'' = Some Consumed"
  "phase_of ''expired'' = Some Expired"
  by (simp_all add: phase_of_def)

text \<open>C25 The operations on authentication requests refine the state machine: a token request, a decision of the
  user or a new authentication request moves every request of the table by at most one step of
  \<open>request_step\<close>, and a token request answers with tokens exactly when it redeems the request of its
  identifier, that is, moves it from approved to consumed.\<close>

theorem ciba_refines_machine:
  assumes ok: "requests_ok (d_ciba d)" and q: "List.find (\<lambda>r. cr_id r = i) (d_ciba d) = Some q"
    and p: "phase_of (cr_status q) = Some p" and "\<forall>now. op \<noteq> Clean_Up now"
  shows "\<exists>p'. request_phase (d_ciba (after_op op d)) i = Some p'
    \<and> (p' = p \<or> (\<exists>ev. request_step p ev p'))
    \<and> (issues (cr_auth_req_id_hash q) op d \<longleftrightarrow> request_step p Redeem p')"
proof (cases op)
  case (Token_Request E a cid jkt)
  have qi: "q \<in> set (d_ciba d)" "cr_id q = i"
    using find_Some_set [OF q] by auto
  show ?thesis
  proof (cases rule: ciba_flow_cases [of E a cid jkt d])
    case (refused err)
    with q p Token_Request show ?thesis
      by (auto simp: request_phase_def is_ok_def)
  next
    case (expired x)
    with q p Token_Request show ?thesis
      by (auto simp: request_phase_def is_ok_def ciba_expire_def ciba_set_status_def find_update_id
          intro: request_step.intros)
  next
    case (polled x err n)
    with q p Token_Request show ?thesis
      by (auto simp: request_phase_def is_ok_def ciba_record_poll_def find_update_id)
  next
    case (redeemed x c u t e)
    note x = ciba_by_hash_set [OF redeemed(1)]
    have same: "cr_auth_req_id_hash q = sha2_256_hex E a \<longleftrightarrow> cr_id x = i"
      using requests_ok_same [OF ok qi(1) conjunct1 [OF x]] x qi by auto
    have "request_phase (d_ciba e) i = Some (if cr_id x = i then Consumed else p)"
      using q p qi by (auto simp: issue_rows [OF redeemed(9)] request_phase_def find_update_id)
    moreover have "cr_id x = i \<longrightarrow> p = Approved"
      using requests_ok_same(1) [OF ok qi(1) conjunct1 [OF x]] qi p redeemed(6) by auto
    ultimately show ?thesis
      using redeemed(10) Token_Request same by (auto simp: is_ok_def intro: request_step.intros)
  qed
next
  case (Decision E H authorization j decision)
  have "request_phase (update_where (ciba_decidable j uid now) (decided status t acr amr now) (d_ciba d)) i
      = (if ciba_decidable j uid now q then phase_of status else Some p)" for uid now status t acr amr
    using q p by (simp add: request_phase_def find_update_id decided_def)
  moreover have "ciba_decidable j uid now q \<Longrightarrow> p = Pending" for uid now
    using p by (simp add: ciba_decidable_def)
  ultimately show ?thesis
    using decide_request_rows [of j d E H authorization decision] Decision q p
    unfolding decision_rows_def
    by (auto simp: request_phase_def intro: request_step.intros split: if_splits)
next
  case (New_Request E H params pres realm)
  then show ?thesis
    using authentication_request_rows [of E d H params pres realm] q p
    by (auto simp: request_rows_def request_phase_def find_append)
next
  case (Clean_Up now)
  with assms(4) show ?thesis
    by blast
qed

section \<open>Histories\<close>

fun issue_count :: "string \<Rightarrow> ciba_op list \<Rightarrow> db \<Rightarrow> nat" where
  "issue_count h [] d = 0"
| "issue_count h (op # ops) d = (if issues h op d then 1 else 0) + issue_count h ops (after_op op d)"

text \<open>The identifiers of new requests differ from the one with the hash \<open>h\<close>.\<close>

fun other_token :: "string \<Rightarrow> ciba_op \<Rightarrow> bool" where
  "other_token h (New_Request E H params pres realm) \<longleftrightarrow>
     (case generate_opaque_token E 0 of Inl _ \<Rightarrow> True | Inr t \<Rightarrow> sha2_256_hex E t \<noteq> h)"
| "other_token h _ \<longleftrightarrow> True"

definition spent :: "string \<Rightarrow> ciba_request list \<Rightarrow> bool" where
  "spent h tbl \<longleftrightarrow> (\<forall>r \<in> set tbl. cr_auth_req_id_hash r = h \<longrightarrow> cr_status r \<in> {''consumed'', ''denied'', ''expired''})"

lemma spent_no_issue: "spent h (d_ciba d) \<Longrightarrow> \<not> issues h op d"
proof (induction h op d rule: issues.induct)
  case (1 h E a cid jkt d)
  show ?case
    by (cases rule: ciba_flow_cases [of E a cid jkt d])
      (use 1 ciba_by_hash_set in \<open>fastforce simp: is_ok_def spent_def\<close>)+
qed simp_all

lemma spent_update:
  assumes "\<And>r. cr_auth_req_id_hash (f r) = cr_auth_req_id_hash r"
    and "\<And>r. r \<in> set tbl \<Longrightarrow> P r \<Longrightarrow> cr_status r \<in> {''consumed'', ''denied'', ''expired''}
      \<Longrightarrow> cr_status (f r) \<in> {''consumed'', ''denied'', ''expired''}"
    and "spent h tbl"
  shows "spent h (update_where P f tbl)"
  unfolding spent_def
proof (intro ballI impI)
  fix r
  assume "r \<in> set (update_where P f tbl)" and h: "cr_auth_req_id_hash r = h"
  then obtain y where y: "y \<in> set tbl" and r: "P y \<and> r = f y \<or> \<not> P y \<and> r = y"
    unfolding update_where_elem by blast
  with assms(1) h have "cr_auth_req_id_hash y = h"
    by auto
  with assms(3) y have "cr_status y \<in> {''consumed'', ''denied'', ''expired''}"
    by (simp add: spent_def)
  with assms(2) y r show "cr_status r \<in> {''consumed'', ''denied'', ''expired''}"
    by blast
qed

lemma spent_after:
  assumes "spent h (d_ciba d)" and "other_token h op"
  shows "spent h (d_ciba (after_op op d))"
proof (cases op)
  case (Token_Request E a cid jkt)
  show ?thesis
    by (cases rule: ciba_flow_cases [of E a cid jkt d])
      (use assms Token_Request in \<open>auto simp: ciba_expire_def ciba_set_status_def ciba_record_poll_def
        issue_rows intro!: spent_update\<close>)
next
  case (Decision E H authorization i decision)
  have "spent h (update_where (ciba_decidable i uid now) (decided status t acr amr now) (d_ciba d))"
    for uid now status t acr amr
    using assms(1) by (intro spent_update) (auto simp: decided_def ciba_decidable_def)
  then show ?thesis
    using decide_request_rows [of i d E H authorization decision] assms(1) Decision
    by (auto simp: decision_rows_def)
next
  case (New_Request E H params pres realm)
  then show ?thesis
    using authentication_request_rows [of E d H params pres realm] assms
    by (auto simp: request_rows_def spent_def)
next
  case (Clean_Up now)
  with assms(1) show ?thesis
    by (simp add: ciba_cleanup_def spent_def)
qed

lemma issue_spends:
  assumes "requests_ok (d_ciba d)" and "issues h op d"
  shows "spent h (d_ciba (after_op op d))"
proof -
  obtain E a cid jkt where op: "op = Token_Request E a cid jkt" "sha2_256_hex E a = h"
      "is_ok (fst (ciba_flow E a cid jkt d))"
    using assms(2) by (cases op) auto
  show ?thesis
  proof (cases rule: ciba_flow_cases [of E a cid jkt d])
    case (redeemed q c u t e)
    note q = ciba_by_hash_set [OF redeemed(1)]
    have "cr_status r = ''consumed''" if "r \<in> set (d_ciba e)" "cr_auth_req_id_hash r = h" for r
    proof -
      from that(1) obtain y where y: "y \<in> set (d_ciba d)"
        and r: "r = (if cr_id y = cr_id q then y\<lparr>cr_status := ''consumed'', cr_updated_at := e_db_now E\<rparr> else y)"
        unfolding issue_rows [OF redeemed(9)] set_update_where by auto
      from r that(2) have "cr_auth_req_id_hash y = h"
        by (simp split: if_splits)
      with q op(2) have "y = q"
        using requests_ok_same(2) [OF assms(1) y conjunct1 [OF q]] by simp
      with r show ?thesis
        by simp
    qed
    with redeemed(10) op(1) show ?thesis
      by (simp add: spent_def)
  qed (use op in \<open>auto simp: is_ok_def\<close>)
qed

lemma spent_count:
  "spent h (d_ciba d) \<Longrightarrow> list_all (other_token h) ops \<Longrightarrow> issue_count h ops d = 0"
  by (induction ops arbitrary: d) (auto simp: spent_no_issue spent_after)

text \<open>Over any history of token requests, decisions, new requests and clean-ups, with any clocks and in any
  order, one authentication request yields tokens at most once.  Random identifiers are taken not to
  repeat.\<close>

theorem ciba_issued_at_most_once:
  assumes "requests_ok (d_ciba d)" and "list_all (other_token h) ops"
  shows "issue_count h ops d \<le> 1"
  using assms
proof (induction ops arbitrary: d)
  case (Cons op ops)
  show ?case
  proof (cases "issues h op d")
    case True
    with Cons.prems have "issue_count h ops (after_op op d) = 0"
      by (intro spent_count issue_spends) auto
    with True show ?thesis
      by simp
  next
    case False
    with Cons show ?thesis
      by (simp add: requests_ok_after)
  qed
qed simp



section \<open>Tokens\<close>

text \<open>Tokens are issued only for a request that its user approved and that has not expired, to the enabled
  client that made the request, for an enabled user.  The one session that is added is that user's at that
  client, with the scopes of the request and with the authentication of the approval, and it holds the
  hashes of the tokens that are returned; nothing else changes but the request, which is consumed.\<close>

theorem ciba_flow_correct:
  assumes "ciba_flow E a cid jkt d = (Inr r, e)"
  shows "\<exists>q c u access_token refresh_token sid. q \<in> set (d_ciba d)
    \<and> cr_auth_req_id_hash q = sha2_256_hex E a \<and> cr_status q = ''approved'' \<and> e_clock E 0 < cr_expires_at q
    \<and> client_by_id (cr_client_id q) d = Some c \<and> c_enabled c \<and> c_client_id c = cid
    \<and> user_by_id (cr_user_id q) d = Some u \<and> u_enabled u
    \<and> tr_access_token r = access_token \<and> tr_refresh_token r = Some refresh_token
    \<and> tr_scope r = join_scopes (cr_scope q)
    \<and> (let s = ciba_session E q c u sid access_token refresh_token
       in s_user_id s = Some (u_id u) \<and> s_client_id s = c_id c \<and> s_scope s = cr_scope q
          \<and> s_amr s = cr_amr q \<and> s_access_token_hash s = sha2_256_hex E access_token
          \<and> s_refresh_token_hash s = Some (sha2_256_hex E refresh_token)
          \<and> (\<forall>x \<in> set (d_sessions d). s_id x \<noteq> s_id s)
          \<and> e = ciba_consume (e_db_now E) (cr_id q)
                  (d\<lparr>d_sessions := d_sessions d @ [s\<lparr>s_created_at := e_db_now E\<rparr>]\<rparr>))"
proof (cases rule: ciba_flow_cases [of E a cid jkt d])
  case (redeemed q c u t f)
  then have issue: "issue_for_ciba E a jkt q u c d = (Inr r, e)"
    using assms by simp
  show ?thesis
  proof -
    obtain at rt sid where "tr_access_token r = at" "tr_refresh_token r = Some rt"
        "tr_scope r = join_scopes (cr_scope q)" "\<forall>x \<in> set (d_sessions d). s_id x \<noteq> e_uuid E 0"
        "e = ciba_consume (e_db_now E) (cr_id q) (d\<lparr>d_sessions := d_sessions d
          @ [ciba_session E q c u sid at rt\<lparr>s_created_at := e_db_now E\<rparr>]\<rparr>)"
      using issue_for_ciba_ok [OF issue] by blast
    moreover have "s_id (ciba_session E q c u sid at rt) = e_uuid E 0"
        "s_user_id (ciba_session E q c u sid at rt) = Some (u_id u)"
        "s_client_id (ciba_session E q c u sid at rt) = c_id c"
        "s_scope (ciba_session E q c u sid at rt) = cr_scope q" "s_amr (ciba_session E q c u sid at rt) = cr_amr q"
        "s_access_token_hash (ciba_session E q c u sid at rt) = sha2_256_hex E at"
        "s_refresh_token_hash (ciba_session E q c u sid at rt) = Some (sha2_256_hex E rt)"
      by (simp_all add: ciba_session_def Let_def)
    ultimately show ?thesis
      using redeemed(2-8) ciba_by_hash_set [OF redeemed(1)] unfolding Let_def
      by (intro exI [of _ q] exI [of _ c] exI [of _ u] exI [of _ at] exI [of _ rt] exI [of _ sid]) simp
  qed
qed (use assms in simp_all)


section \<open>Runs on a sample\<close>

lemma issue_for_ciba_total:
  assumes "resolve_organization_claim E (u_id u) (cr_scope q) d = Inr org"
    and "e_services E (cr_realm_id q) = Inr svc" and "issuer_works E svc"
    and "c_id_token_alg c = None" and "\<forall>s \<in> set (d_sessions d). s_id s \<noteq> e_uuid E 0"
  shows "\<exists>r e. issue_for_ciba E a jkt q u c d = (Inr r, e)"
proof -
  let ?roles = "resolve_role_claims (e_collate E) (u_id u) d"
  let ?mapped = "resolve_mapped_claims E (c_id c) (Some u) (cr_scope q) d"
  obtain cl at where access: "issue_access_token E 0 svc (timestamp (e_clock E 1)) (subject_for E c (u_id u))
      (c_client_id c) (cr_scope q) jkt None None (user_access_extra ?mapped ?roles org (cr_scope q)) = Inr (cl, at)"
    using issuer_works_tokens(1) [OF assms(3)] by blast
  obtain sid where sid: "generate_sid E 1 = Inr sid"
  proof -
    have "\<exists>buf. e_random E 1 = Some buf"
      using assms(3) unfolding issuer_works_def by blast
    then show ?thesis
      using that by (auto simp: generate_sid_def)
  qed
  obtain idt where idt: "issue_id_token E svc (timestamp (e_clock E 2)) (subject_for E c (u_id u)) (c_client_id c)
      (ciba_id_extra E q a u at sid ?mapped ?roles org) = Inr idt"
    using issuer_works_tokens(2) [OF assms(3)] by blast
  obtain rt where rt: "generate_opaque_token E 2 = Inr rt"
    using issuer_works_tokens(3) [OF assms(3)] by blast
  obtain e where create: "session_create (e_db_now E) (ciba_session E q c u sid at rt) d = (Inr (), e)"
    using assms(5) by (simp add: session_create_ok ciba_session_def Let_def)
  show ?thesis
    unfolding issue_for_ciba_def maybe_encrypt_id_token_def prog_ok Let_def
    using assms access sid idt rt create by (auto simp: prog_ok split del: if_split)
qed

definition sample_request :: ciba_request where
  "sample_request =
     \<lparr>cr_id = 31, cr_auth_req_id_hash = ''req'', cr_auth_req_id_encrypted = ''x'', cr_client_id = 5,
      cr_realm_id = 3, cr_user_id = 7, cr_scope = [''openid''], cr_binding_message = None,
      cr_request_context = None, cr_notification_token_encrypted = None, cr_delivery_mode = ''poll'',
      cr_notification_endpoint = None, cr_status = ''approved'', cr_interval_seconds = 5,
      cr_last_polled_at = None, cr_requested_acr = [], cr_auth_time = Some 0, cr_acr = None, cr_amr = [''pwd''],
      cr_expires_at = minutes 5, cr_created_at = 0, cr_updated_at = 0\<rparr>"

definition ciba_db :: db where
  "ciba_db = empty_db\<lparr>d_clients := [sample_client], d_users := [sample_user], d_ciba := [sample_request],
     d_sessions := [sample_session]\<rparr>"

lemma sample_ciba_run: "\<exists>r e. ciba_flow sample_env ''req'' ''app'' None ciba_db = (Inr r, e)"
proof -
  have "\<exists>r e. issue_for_ciba sample_env ''req'' None sample_request sample_user sample_client ciba_db = (Inr r, e)"
    by (rule issue_for_ciba_total [OF _ _ sample_issuer, where org = None])
      (simp_all add: sample_request_def no_org_scope sample_env_def sample_client_def ciba_db_def
        sample_session_def)
  then obtain r e where "issue_for_ciba sample_env ''req'' None sample_request sample_user sample_client ciba_db = (Inr r, e)"
    by blast
  moreover have "ciba_by_hash (sha2_256_hex sample_env ''req'') ciba_db = Some sample_request"
    "\<not> cr_expires_at sample_request \<le> e_clock sample_env 0" "client_by_id 5 ciba_db = Some sample_client"
    "user_by_id 7 ciba_db = Some sample_user"
    by (simp_all add: ciba_by_hash_def ciba_db_def sample_request_def sample_env_def sha2_256_hex_def durations
        client_by_id_def user_by_id_def sample_client_def sample_user_def)
  moreover have "cr_client_id sample_request = 5" "cr_user_id sample_request = 7"
    "cr_status sample_request = ''approved''" "c_enabled sample_client" "c_client_id sample_client = ''app''"
    "u_enabled sample_user"
    by (simp_all add: sample_request_def sample_client_def sample_user_def)
  ultimately have "ciba_transaction sample_env ''req'' ''app'' None ciba_db = (Inr (Tokens r), e)"
    unfolding ciba_transaction_ok by simp
  then show ?thesis
    by (auto simp: ciba_flow_def prog_ok)
qed

lemma ciba_flow_correct_witness:
  "\<exists>r e. ciba_flow sample_env ''req'' ''app'' None ciba_db = (Inr r, e) \<and> length (d_sessions e) = 2"
proof -
  obtain r e where run: "ciba_flow sample_env ''req'' ''app'' None ciba_db = (Inr r, e)"
    using sample_ciba_run by blast
  from ciba_flow_correct [OF this] have "length (d_sessions e) = 2"
    by (auto simp: Let_def ciba_consume_def ciba_set_status_def) (simp add: ciba_db_def)
  with run show ?thesis
    by blast
qed

lemma sample_requests_ok: "requests_ok (d_ciba ciba_db)"
  by (simp add: requests_ok_def ciba_db_def)

lemma ciba_refines_machine_witness:
  "\<exists>p'. request_phase (d_ciba (after_op (Token_Request sample_env ''req'' ''app'' None) ciba_db)) 31 = Some p'
     \<and> p' = Consumed"
proof -
  have "List.find (\<lambda>r. cr_id r = 31) (d_ciba ciba_db) = Some sample_request"
    by (simp add: ciba_db_def sample_request_def)
  moreover have "phase_of (cr_status sample_request) = Some Approved"
    by (simp add: sample_request_def)
  moreover have "issues (cr_auth_req_id_hash sample_request) (Token_Request sample_env ''req'' ''app'' None) ciba_db"
    using sample_ciba_run by (auto simp: sample_request_def is_ok_def sha2_256_hex_def sample_env_def)
  ultimately show ?thesis
    using ciba_refines_machine [OF sample_requests_ok, of 31 sample_request Approved
        "Token_Request sample_env ''req'' ''app'' None"] by auto
qed

lemma ciba_issued_at_most_once_witness:
  "issue_count ''req'' [Token_Request sample_env ''req'' ''app'' None, Token_Request sample_env ''req'' ''app'' None,
     Clean_Up 0] ciba_db \<le> 1"
  by (rule ciba_issued_at_most_once [OF sample_requests_ok]) simp

end
