(* ===== verification/Factors.thy ===== *)
theory Factors
  imports Account Ciba_Props
begin

text \<open>The tables of second factors and of required actions
  (\<open>oidc-repository/src/repositories/mfa_repo.rs\<close>, \<open>required_action_repo.rs\<close>): authenticator apps,
  passkeys, recovery codes, the ceremonies in which one of them is shown or enrolled, the actions a
  user still owes, and the sessions in which they are carried out.\<close>

section \<open>Authenticator apps and passkeys\<close>

(*@ oidc-repository/src/repositories/mfa_repo.rs 11-31 MfaRepo::find_totp *)
definition find_totp :: "uuid \<Rightarrow> db \<Rightarrow> totp_credential option" where
  "find_totp uid d = List.find (\<lambda>t. tc_user_id t = uid) (d_totp d)"

text \<open>A second credential of a user replaces the first one, under the old identifier.\<close>

(*@ oidc-repository/src/repositories/mfa_repo.rs 33-43 MfaRepo::save_totp *)
definition save_totp :: "totp_credential \<Rightarrow> (db, oidc_error, unit) prog" where
  "save_totp t =
     bindp (query d_totp) (\<lambda>rows.
     if \<exists>x \<in> set rows. tc_user_id x = tc_user_id t
     then exec (d_totp_update (update_where (\<lambda>x. tc_user_id x = tc_user_id t)
            (\<lambda>x. x\<lparr>tc_secret_encrypted := tc_secret_encrypted t, tc_label := tc_label t,
                   tc_created_at := tc_created_at t, tc_last_used_at := None\<rparr>)))
     else thenp (guardp (\<forall>x \<in> set rows. tc_id x \<noteq> tc_id t) (Conflict ''duplicate key''))
            (exec (d_totp_update (\<lambda>rows. rows @ [t\<lparr>tc_last_used_at := None\<rparr>]))))"

(*@ oidc-repository/src/repositories/mfa_repo.rs 45-53 MfaRepo::touch_totp *)
definition touch_totp :: "instant \<Rightarrow> uuid \<Rightarrow> db \<Rightarrow> db" where
  "touch_totp now i = d_totp_update (update_where (\<lambda>t. tc_id t = i) (\<lambda>t. t\<lparr>tc_last_used_at := Some now\<rparr>))"

(*@ oidc-repository/src/repositories/mfa_repo.rs 55-63 MfaRepo::delete_totp *)
definition delete_totp :: "uuid \<Rightarrow> db \<Rightarrow> db" where
  "delete_totp uid = d_totp_update (filter (\<lambda>t. tc_user_id t \<noteq> uid))"

(*@ oidc-repository/src/repositories/mfa_repo.rs 65-85 MfaRepo::list_webauthn *)
definition list_webauthn :: "uuid \<Rightarrow> db \<Rightarrow> webauthn_credential list" where
  "list_webauthn uid d =
     sort_by (\<lambda>a b. wc_created_at a \<le> wc_created_at b) (filter (\<lambda>w. wc_user_id w = uid) (d_webauthn d))"

(*@ oidc-repository/src/repositories/mfa_repo.rs 87-94 MfaRepo::save_webauthn *)
definition save_webauthn :: "webauthn_credential \<Rightarrow> (db, oidc_error, unit) prog" where
  "save_webauthn w =
     bindp (query d_webauthn) (\<lambda>rows.
     thenp (guardp (\<forall>x \<in> set rows. wc_id x \<noteq> wc_id w \<and> wc_credential_id x \<noteq> wc_credential_id w)
              (Conflict ''duplicate key''))
       (exec (d_webauthn_update (\<lambda>rows. rows @ [w\<lparr>wc_last_used_at := None\<rparr>]))))"

(*@ oidc-repository/src/repositories/mfa_repo.rs 96-109 MfaRepo::update_webauthn_counter *)
definition update_webauthn_counter :: "instant \<Rightarrow> uuid \<Rightarrow> json \<Rightarrow> db \<Rightarrow> db" where
  "update_webauthn_counter now i credential =
     d_webauthn_update (update_where (\<lambda>w. wc_id w = i)
       (\<lambda>w. w\<lparr>wc_credential := credential, wc_last_used_at := Some now\<rparr>))"

(*@ oidc-repository/src/repositories/mfa_repo.rs 111-124 MfaRepo::delete_webauthn *)
definition delete_webauthn :: "uuid \<Rightarrow> uuid \<Rightarrow> db \<Rightarrow> db" where
  "delete_webauthn uid i = d_webauthn_update (filter (\<lambda>w. \<not> (wc_id w = i \<and> wc_user_id w = uid)))"

(*@ oidc-repository/src/repositories/mfa_repo.rs 126-149 MfaRepo::reset_user *)
definition reset_mfa :: "uuid \<Rightarrow> db \<Rightarrow> db" where
  "reset_mfa uid d =
     d\<lparr>d_totp := filter (\<lambda>t. tc_user_id t \<noteq> uid) (d_totp d),
       d_webauthn := filter (\<lambda>w. wc_user_id w \<noteq> uid) (d_webauthn d),
       d_recovery_codes := filter (\<lambda>r. rv_user_id r \<noteq> uid) (d_recovery_codes d),
       d_ceremonies := filter (\<lambda>c. mf_user_id c \<noteq> uid) (d_ceremonies d)\<rparr>"

text \<open>Whether a user has a second factor, the test that the password flow, the required actions and the
  enrolment repeat.\<close>

(*@ oidc-oidc/src/endpoints/required_actions.rs 50-51 has_mfa *)
definition has_mfa :: "uuid \<Rightarrow> db \<Rightarrow> bool" where
  "has_mfa uid d \<longleftrightarrow> find_totp uid d \<noteq> None \<or> list_webauthn uid d \<noteq> []"


section \<open>Recovery codes\<close>

fun insert_recovery_codes :: "recovery_code list \<Rightarrow> (db, oidc_error, unit) prog" where
  "insert_recovery_codes [] = ret ()"
| "insert_recovery_codes (c # cs) =
     bindp (query d_recovery_codes) (\<lambda>rows.
     thenp (guardp (\<forall>x \<in> set rows. rv_id x \<noteq> rv_id c) (Conflict ''duplicate key''))
    (thenp (exec (d_recovery_codes_update (\<lambda>rows. rows @ [c\<lparr>rv_used_at := None\<rparr>])))
       (insert_recovery_codes cs)))"

(*@ oidc-repository/src/repositories/mfa_repo.rs 151-172 MfaRepo::replace_recovery_codes *)
definition replace_recovery_codes :: "uuid \<Rightarrow> recovery_code list \<Rightarrow> (db, oidc_error, unit) prog" where
  "replace_recovery_codes uid cs =
     thenp (exec (d_recovery_codes_update (filter (\<lambda>r. rv_user_id r \<noteq> uid))))
       (insert_recovery_codes cs)"

(*@ oidc-repository/src/repositories/mfa_repo.rs 174-191 MfaRepo::available_recovery_codes *)
definition available_recovery_codes :: "uuid \<Rightarrow> db \<Rightarrow> recovery_code list" where
  "available_recovery_codes uid d =
     filter (\<lambda>r. rv_user_id r = uid \<and> rv_used_at r = None) (d_recovery_codes d)"

(*@ oidc-repository/src/repositories/mfa_repo.rs 193-205 MfaRepo::use_recovery_code *)
definition use_recovery_code :: "instant \<Rightarrow> uuid \<Rightarrow> db \<Rightarrow> db" where
  "use_recovery_code now i =
     d_recovery_codes_update (update_where (\<lambda>r. rv_id r = i \<and> rv_used_at r = None)
       (\<lambda>r. r\<lparr>rv_used_at := Some now\<rparr>))"

(*@ oidc-repository/src/repositories/mfa_repo.rs 207-221 MfaRepo::recovery_code_count *)
definition recovery_code_count :: "uuid \<Rightarrow> db \<Rightarrow> nat" where
  "recovery_code_count uid d =
     length (filter (\<lambda>r. rv_user_id r = uid \<and> rv_used_at r = None) (d_recovery_codes d))"


section \<open>Ceremonies\<close>

(*@ oidc-repository/src/repositories/mfa_repo.rs 223-230 MfaRepo::create_ceremony *)
definition create_ceremony :: "mfa_ceremony \<Rightarrow> (db, oidc_error, unit) prog" where
  "create_ceremony c =
     bindp (query d_ceremonies) (\<lambda>rows.
     thenp (guardp (\<forall>x \<in> set rows. mf_id x \<noteq> mf_id c \<and> mf_token_hash x \<noteq> mf_token_hash c)
              (Conflict ''duplicate key''))
       (exec (d_ceremonies_update (\<lambda>rows. rows @ [c\<lparr>mf_used_at := None\<rparr>]))))"

(*@ oidc-repository/src/repositories/mfa_repo.rs 232-254 MfaRepo::find_ceremony_for_update *)
definition find_ceremony :: "string \<Rightarrow> db \<Rightarrow> mfa_ceremony option" where
  "find_ceremony h d = List.find (\<lambda>c. mf_token_hash c = h) (d_ceremonies d)"

(*@ oidc-repository/src/repositories/mfa_repo.rs 256-264 MfaRepo::fail_ceremony *)
definition fail_ceremony :: "uuid \<Rightarrow> db \<Rightarrow> db" where
  "fail_ceremony i =
     d_ceremonies_update (update_where (\<lambda>c. mf_id c = i) (\<lambda>c. c\<lparr>mf_attempts := mf_attempts c + 1\<rparr>))"

(*@ oidc-repository/src/repositories/mfa_repo.rs 265-273 MfaRepo::use_ceremony *)
definition use_ceremony :: "instant \<Rightarrow> uuid \<Rightarrow> db \<Rightarrow> db" where
  "use_ceremony now i =
     d_ceremonies_update (update_where (\<lambda>c. mf_id c = i \<and> mf_used_at c = None)
       (\<lambda>c. c\<lparr>mf_used_at := Some now\<rparr>))"


section \<open>Required actions\<close>

text \<open>The rows of \<open>user_required_actions\<close> are kept in the order in which they were inserted, which is
  that of \<open>created_at\<close>; every stored action parses.\<close>

(*@ oidc-repository/src/repositories/required_action_repo.rs 11-28 RequiredActionRepo::list *)
definition required_actions_of :: "uuid \<Rightarrow> db \<Rightarrow> required_action list" where
  "required_actions_of uid d = map snd (filter (\<lambda>(u, _). u = uid) (d_required_actions d))"

(*@ oidc-repository/src/repositories/required_action_repo.rs 29-45 RequiredActionRepo::replace *)
definition replace_required_actions :: "uuid \<Rightarrow> required_action list \<Rightarrow> db \<Rightarrow> db" where
  "replace_required_actions uid actions =
     d_required_actions_update (\<lambda>rows.
       push_new (filter (\<lambda>(u, _). u \<noteq> uid) rows) (map (\<lambda>a. (uid, a)) actions))"

(*@ oidc-repository/src/repositories/required_action_repo.rs 46-59 RequiredActionRepo::complete *)
definition complete_action :: "uuid \<Rightarrow> required_action \<Rightarrow> db \<Rightarrow> db" where
  "complete_action uid a = d_required_actions_update (filter (\<lambda>row. row \<noteq> (uid, a)))"

(*@ oidc-repository/src/repositories/required_action_repo.rs 60-74 RequiredActionRepo::has_accepted_terms *)
definition has_accepted_terms :: "uuid \<Rightarrow> string \<Rightarrow> db \<Rightarrow> bool" where
  "has_accepted_terms uid version d \<longleftrightarrow> (uid, version) \<in> set (d_terms d)"

(*@ oidc-repository/src/repositories/required_action_repo.rs 75-83 RequiredActionRepo::accept_terms *)
definition accept_terms :: "uuid \<Rightarrow> string \<Rightarrow> db \<Rightarrow> db" where
  "accept_terms uid version = d_terms_update (\<lambda>rows. push_new rows [(uid, version)])"

(*@ oidc-repository/src/repositories/required_action_repo.rs 84-91 RequiredActionRepo::create_session *)
definition create_action_session :: "action_session \<Rightarrow> (db, oidc_error, unit) prog" where
  "create_action_session s =
     bindp (query d_action_sessions) (\<lambda>rows.
     thenp (guardp (\<forall>x \<in> set rows. acs_id x \<noteq> acs_id s \<and> acs_token_hash x \<noteq> acs_token_hash s)
              (Conflict ''duplicate key''))
       (exec (d_action_sessions_update (\<lambda>rows. rows @ [s\<lparr>acs_used_at := None\<rparr>]))))"

(*@ oidc-repository/src/repositories/required_action_repo.rs 92-110 RequiredActionRepo::find_session *)
definition find_action_session :: "instant \<Rightarrow> string \<Rightarrow> db \<Rightarrow> action_session option" where
  "find_action_session now h d =
     List.find (\<lambda>s. acs_token_hash s = h \<and> acs_used_at s = None \<and> now < acs_expires_at s)
       (d_action_sessions d)"

(*@ oidc-repository/src/repositories/required_action_repo.rs 111-119 RequiredActionRepo::use_session *)
definition use_action_session :: "instant \<Rightarrow> uuid \<Rightarrow> db \<Rightarrow> db" where
  "use_action_session now i =
     d_action_sessions_update (update_where (\<lambda>s. acs_id s = i) (\<lambda>s. s\<lparr>acs_used_at := Some now\<rparr>))"

end
