(* ===== verification/Totp.thy ===== *)
theory Totp
  imports Factors "HOL-Library.Signed_Division"
begin

unbundle bit_operations_syntax

text \<open>Time-based one-time passwords and the base 32 text of their secrets (the first part of
  \<open>oidc-oidc/src/endpoints/mfa.rs\<close>), on machine words as the code has them.\<close>

type_synonym u32 = "32 word"

definition octet :: "char \<Rightarrow> u32" where
  "octet c = of_nat (byte c)"


section \<open>Base 32\<close>

definition base32_alphabet :: string where
  "base32_alphabet = ''ABCDEFGHIJKLMNOPQRSTUVWXYZ234567''"

text \<open>The inner loop emits five bits at a time, the highest first.\<close>

function emit :: "u32 \<Rightarrow> nat \<Rightarrow> string \<Rightarrow> nat \<times> string" where
  "emit buffer bits out =
     (if 5 \<le> bits
      then emit buffer (bits - 5) (out @ [base32_alphabet ! unat (drop_bit (bits - 5) buffer AND 31)])
      else (bits, out))"
  by pat_completeness auto
termination
  by (relation "measure (\<lambda>(_, bits, _). bits)") auto

declare emit.simps [simp del]

fun base32_loop :: "string \<Rightarrow> u32 \<Rightarrow> nat \<Rightarrow> string \<Rightarrow> string" where
  "base32_loop [] buffer bits out =
     (if 0 < bits then out @ [base32_alphabet ! unat (push_bit (5 - bits) buffer AND 31)] else out)"
| "base32_loop (b # bs) buffer bits out =
     (let buffer = push_bit 8 buffer OR octet b; (bits, out) = emit buffer (bits + 8) out
      in base32_loop bs buffer bits out)"

(*@ oidc-oidc/src/endpoints/mfa.rs 87-103 base32 *)
definition base32 :: "string \<Rightarrow> string" where
  "base32 bytes = base32_loop bytes 0 0 []"


text \<open>The reference: the text is the bit string of the bytes, cut into groups of five.\<close>

definition bits_be :: "nat \<Rightarrow> u32 \<Rightarrow> bool list" where
  "bits_be n w = map (bit w) (rev [0..<n])"

definition byte_bits :: "char \<Rightarrow> bool list" where
  "byte_bits c = bits_be 8 (octet c)"

definition symbol_value :: "char \<Rightarrow> nat" where
  "symbol_value c = length (takeWhile (\<lambda>x. x \<noteq> c) base32_alphabet)"

definition symbol_bits :: "char \<Rightarrow> bool list" where
  "symbol_bits c = bits_be 5 (of_nat (symbol_value c))"

lemma length_bits_be [simp]: "length (bits_be n w) = n"
  by (simp add: bits_be_def)

lemma symbol_value_nth: "v < 32 \<Longrightarrow> symbol_value (base32_alphabet ! v) = v"
proof -
  have "list_all (\<lambda>v. symbol_value (base32_alphabet ! v) = v) [0..<32]"
    by code_simp
  then show "v < 32 \<Longrightarrow> symbol_value (base32_alphabet ! v) = v"
    by (simp add: list_all_iff)
qed

lemma five_bits_less: "unat (w AND 31 :: u32) < 32"
proof -
  have "w AND 31 \<le> (31 :: u32)"
    by (rule word_and_le1)
  then show ?thesis
    by (simp add: word_le_nat_alt)
qed

lemma and_31: "w AND 31 = (take_bit 5 w :: u32)"
  by (simp add: take_bit_eq_mask mask_eq_exp_minus_1)

lemma symbol_bits_nth:
  "symbol_bits (base32_alphabet ! unat (w AND 31)) = bits_be 5 w"
proof -
  have "symbol_bits (base32_alphabet ! unat (w AND 31)) = bits_be 5 (w AND 31)"
    by (simp add: symbol_bits_def symbol_value_nth [OF five_bits_less])
  also have "\<dots> = bits_be 5 w"
    by (simp add: bits_be_def and_31 bit_take_bit_iff)
  finally show ?thesis .
qed

lemma rev_upt_add: "rev [0..<m + n] = map (\<lambda>i. n + i) (rev [0..<m]) @ rev [0..<n]"
  by (induction m) simp_all

lemma bits_be_append: "bits_be m (drop_bit n w) @ bits_be n w = bits_be (m + n) w"
  by (simp add: bits_be_def bit_drop_bit_eq rev_upt_add o_def)

lemma bits_be_cong: "(\<And>i. i < n \<Longrightarrow> bit v i = bit w i) \<Longrightarrow> bits_be n v = bits_be n w"
  by (simp add: bits_be_def)

lemma bits_be_shift:
  assumes "m + k \<le> 32"
  shows "bits_be (m + k) (push_bit k w) = bits_be m w @ replicate k False"
proof -
  have "bits_be m (drop_bit k (push_bit k w)) = bits_be m w"
    using assms by (intro bits_be_cong) (simp add: bit_simps)
  moreover have "bits_be k (push_bit k w) = replicate k False"
    by (rule nth_equalityI) (auto simp: bits_be_def rev_nth bit_simps)
  ultimately show ?thesis
    by (simp flip: bits_be_append)
qed

lemma octet_bits: "bit (octet b) i \<Longrightarrow> i < 8"
proof -
  have "octet b = take_bit 8 (octet b)"
    using byte_bound [of b] by (simp add: octet_def take_bit_of_nat take_bit_nat_eq_self)
  then show "bit (octet b) i \<Longrightarrow> i < 8"
    by (metis bit_take_bit_iff)
qed

lemma bits_be_octet:
  assumes "k \<le> 24"
  shows "bits_be (k + 8) (push_bit 8 w OR octet b) = bits_be k w @ byte_bits b"
proof -
  have "bits_be k (drop_bit 8 (push_bit 8 w OR octet b)) = bits_be k w"
    using assms by (intro bits_be_cong) (auto simp: bit_simps dest: octet_bits)
  moreover have "bits_be 8 (push_bit 8 w OR octet b) = byte_bits b"
    unfolding byte_bits_def by (intro bits_be_cong) (simp add: bit_simps)
  ultimately show ?thesis
    by (simp flip: bits_be_append)
qed

lemma emit_bits:
  "\<exists>cs. emit buffer bits out = (bits mod 5, out @ cs) \<and> length cs = bits div 5
     \<and> concat (map symbol_bits cs) @ bits_be (bits mod 5) buffer = bits_be bits buffer
     \<and> set cs \<subseteq> set base32_alphabet"
proof (induction buffer bits out rule: emit.induct)
  case (1 buffer bits out)
  let ?c = "base32_alphabet ! unat (drop_bit (bits - 5) buffer AND 31)"
  show ?case
  proof (cases "5 \<le> bits")
    case True
    from 1 [OF True] obtain cs where cs: "emit buffer (bits - 5) (out @ [?c]) = ((bits - 5) mod 5, (out @ [?c]) @ cs)"
      "length cs = (bits - 5) div 5" "set cs \<subseteq> set base32_alphabet"
      "concat (map symbol_bits cs) @ bits_be ((bits - 5) mod 5) buffer = bits_be (bits - 5) buffer"
      by blast
    have "length base32_alphabet = 32"
      by (simp add: base32_alphabet_def)
    then have "?c \<in> set base32_alphabet"
      using five_bits_less by (intro nth_mem) simp
    moreover have "symbol_bits ?c @ bits_be (bits - 5) buffer = bits_be bits buffer"
      using True by (simp add: symbol_bits_nth bits_be_append)
    moreover have "(bits - 5) mod 5 = bits mod 5" "bits div 5 = Suc ((bits - 5) div 5)"
      using True by (simp_all add: le_mod_geq le_div_geq)
    ultimately show ?thesis
      using cs True by (intro exI [of _ "?c # cs"]) (simp add: emit.simps [of buffer bits])
  qed (simp add: emit.simps [of buffer bits])
qed

lemma base32_loop_bits:
  assumes "bits < 5"
  shows "\<exists>cs. base32_loop bs buffer bits out = out @ cs
     \<and> concat (map symbol_bits cs)
         = bits_be bits buffer @ concat (map byte_bits bs) @ replicate (5 * length cs - (bits + 8 * length bs)) False
     \<and> length cs = (bits + 8 * length bs + 4) div 5 \<and> set cs \<subseteq> set base32_alphabet"
  using assms
proof (induction bs arbitrary: buffer bits out)
  case Nil
  let ?c = "base32_alphabet ! unat (push_bit (5 - bits) buffer AND 31)"
  have "length base32_alphabet = 32"
    by (simp add: base32_alphabet_def)
  then have "?c \<in> set base32_alphabet"
    using five_bits_less by (intro nth_mem) simp
  moreover have "symbol_bits ?c = bits_be bits buffer @ replicate (5 - bits) False"
    using Nil bits_be_shift [of bits "5 - bits" buffer] by (simp add: symbol_bits_nth)
  moreover have "(bits + 4) div 5 = (if 0 < bits then 1 else 0)"
    using Nil by auto
  ultimately show ?case
    using Nil by (intro exI [of _ "if 0 < bits then [?c] else []"]) (simp add: bits_be_def)
next
  case (Cons b bs)
  let ?buffer = "push_bit 8 buffer OR octet b"
  obtain cs where cs: "emit ?buffer (bits + 8) out = ((bits + 8) mod 5, out @ cs)" "length cs = (bits + 8) div 5"
    "concat (map symbol_bits cs) @ bits_be ((bits + 8) mod 5) ?buffer = bits_be (bits + 8) ?buffer"
    "set cs \<subseteq> set base32_alphabet"
    using emit_bits by blast
  obtain ds where ds: "base32_loop bs ?buffer ((bits + 8) mod 5) (out @ cs) = (out @ cs) @ ds"
    "concat (map symbol_bits ds) = bits_be ((bits + 8) mod 5) ?buffer @ concat (map byte_bits bs)
       @ replicate (5 * length ds - ((bits + 8) mod 5 + 8 * length bs)) False"
    "length ds = ((bits + 8) mod 5 + 8 * length bs + 4) div 5" "set ds \<subseteq> set base32_alphabet"
    using Cons.IH [of "(bits + 8) mod 5" ?buffer "out @ cs"] by auto
  have size: "5 * length cs + (bits + 8) mod 5 = bits + 8"
    by (simp add: cs(2) mult_div_mod_eq)
  have len: "length (cs @ ds) = (bits + 8 * length (b # bs) + 4) div 5"
    using size unfolding length_append ds(3) by simp
  have pad: "5 * length ds - ((bits + 8) mod 5 + 8 * length bs) = 5 * length (cs @ ds) - (bits + 8 * length (b # bs))"
    using size by simp
  have "concat (map symbol_bits (cs @ ds))
      = (concat (map symbol_bits cs) @ bits_be ((bits + 8) mod 5) ?buffer) @ concat (map byte_bits bs)
        @ replicate (5 * length (cs @ ds) - (bits + 8 * length (b # bs))) False"
    by (simp only: map_append concat_append ds(2) pad append_assoc)
  also have "\<dots> = bits_be bits buffer @ concat (map byte_bits (b # bs))
        @ replicate (5 * length (cs @ ds) - (bits + 8 * length (b # bs))) False"
    using Cons.prems by (simp add: cs(3) bits_be_octet)
  finally have "concat (map symbol_bits (cs @ ds)) = \<dots>" .
  with cs(1,4) ds(1,4) len show ?case
    by (intro exI [of _ "cs @ ds"]) (simp add: Let_def)
qed

text \<open>The base 32 text of a secret is its bit string, cut into groups of five and filled up with fewer
  than five zero bits, one symbol of the alphabet for each group: the 32 bit buffer and the counter of
  pending bits of the loop lose nothing, whatever the length of the secret.\<close>

theorem base32_correct:
  "concat (map symbol_bits (base32 bs))
     = concat (map byte_bits bs) @ replicate (5 * length (base32 bs) - 8 * length bs) False
   \<and> length (base32 bs) = (8 * length bs + 4) div 5 \<and> set (base32 bs) \<subseteq> set base32_alphabet"
  using base32_loop_bits [of 0 bs 0 "[]"] by (auto simp: base32_def bits_be_def)


section \<open>One-time passwords\<close>

(*@ oidc-oidc/src/endpoints/mfa.rs 107-107 to_be_bytes of the step *)
definition be_bytes :: "int \<Rightarrow> string" where
  "be_bytes step =
     map (\<lambda>i. char_of (unat (drop_bit (8 * i) (word_of_int step :: 64 word) AND 255))) [7, 6, 5, 4, 3, 2, 1, 0]"

definition six_digits :: "nat \<Rightarrow> string" where
  "six_digits n = (let s = decimal_nat n in replicate (6 - length s) CHR ''0'' @ s)"

definition truncated :: "string \<Rightarrow> u32" where
  "truncated digest =
     (let offset = unat (octet (digest ! 19) AND 15)
      in push_bit 24 (octet (digest ! offset) AND 0x7F) OR push_bit 16 (octet (digest ! (offset + 1)))
         OR push_bit 8 (octet (digest ! (offset + 2))) OR octet (digest ! (offset + 3)))"

(*@ oidc-oidc/src/endpoints/mfa.rs 105-115 totp_at *)
definition totp_at :: "env \<Rightarrow> string \<Rightarrow> int \<Rightarrow> string" where
  "totp_at E secret step =
     six_digits (unat (truncated (e_hmac E ''SHA1'' secret (be_bytes step)) mod 1000000))"

definition code_shape :: "string \<Rightarrow> bool" where
  "code_shape code \<longleftrightarrow> length code = 6 \<and> list_all ascii_digit code"

text \<open>\<open>now / 30\<close> rounds towards zero.\<close>

(*@ oidc-oidc/src/endpoints/mfa.rs 117-127 verify_totp *)
definition verify_totp :: "env \<Rightarrow> string \<Rightarrow> string \<Rightarrow> int \<Rightarrow> bool" where
  "verify_totp E secret code now \<longleftrightarrow>
     code_shape code \<and> list_ex (\<lambda>window. totp_at E secret (now sdiv 30 + window) = code) [- 1, 0, 1]"

(*@ oidc-oidc/src/endpoints/mfa.rs 129-139 matching_totp_step *)
definition matching_totp_step :: "env \<Rightarrow> string \<Rightarrow> string \<Rightarrow> int \<Rightarrow> int option" where
  "matching_totp_step E secret code now =
     (if code_shape code
      then List.find (\<lambda>step. totp_at E secret step = code) (map (\<lambda>window. now sdiv 30 + window) [- 1, 0, 1])
      else None)"


text \<open>A code that is generated has six decimal digits, so that the check of the shape refuses none of
  them.\<close>

lemma ascii_digit_char_of: "n < (10 :: nat) \<Longrightarrow> ascii_digit (char_of (48 + n))"
  by (simp add: ascii_digit_def byte_char_of)

lemma decimal_nat_digits: "list_all ascii_digit (decimal_nat n)"
proof (induction n rule: decimal_nat.induct)
  case (1 n)
  then show ?case
    by (simp add: decimal_nat.simps [of n] ascii_digit_char_of)
qed

lemma decimal_nat_length: "0 < k \<Longrightarrow> n < 10 ^ k \<Longrightarrow> length (decimal_nat n) \<le> k"
proof (induction k arbitrary: n)
  case (Suc k)
  show ?case
  proof (cases "n < 10")
    case False
    then have "0 < k"
      using Suc.prems by (cases k) auto
    moreover have "n div 10 < 10 ^ k"
      using Suc.prems by (simp add: less_mult_imp_div_less mult.commute)
    ultimately have "length (decimal_nat (n div 10)) \<le> k"
      by (rule Suc.IH)
    then show ?thesis
      by (simp add: decimal_nat.simps [of n])
  qed (simp add: decimal_nat.simps [of n])
qed simp

lemma code_shape_six_digits: "n < 1000000 \<Longrightarrow> code_shape (six_digits n)"
  using decimal_nat_length [of 6 n] decimal_nat_digits [of n]
  by (auto simp: code_shape_def six_digits_def Let_def list_all_iff ascii_digit_def byte_def)

lemma totp_at_shape: "code_shape (totp_at E secret step)"
  unfolding totp_at_def by (intro code_shape_six_digits) (simp add: unat_word_ariths unat_mod)

lemma matching_totp_step_Some:
  "matching_totp_step E secret code now = Some step \<Longrightarrow>
     totp_at E secret step = code \<and> step \<in> {now sdiv 30 - 1, now sdiv 30, now sdiv 30 + 1}"
  by (auto simp: matching_totp_step_def split: if_splits)

lemma verify_totp_iff: "verify_totp E secret code now \<longleftrightarrow> matching_totp_step E secret code now \<noteq> None"
  by (auto simp: verify_totp_def matching_totp_step_def)

lemma verify_totp_window:
  "verify_totp E secret code now \<longleftrightarrow>
     (\<exists>step \<in> {now sdiv 30 - 1, now sdiv 30, now sdiv 30 + 1}. code = totp_at E secret step)"
  unfolding verify_totp_def by (auto simp: totp_at_shape)

end
