(* ===== verification/Required_Actions.thy ===== *)
theory Required_Actions
  imports Factors
begin

text \<open>The actions a user still owes before a sign-in is complete
  (\<open>oidc-core/src/models/required_action.rs\<close>, \<open>oidc-oidc/src/endpoints/required_actions.rs\<close>): the flow
  configuration of a realm, the pending actions, the session in which they are carried out, and the
  handlers of that session.\<close>

section \<open>The flow configuration\<close>

(*@ oidc-core/src/models/required_action.rs 63-70 TermsPolicy *)
record terms_policy =
  tp_enabled :: bool
  tp_version :: string
  tp_text :: string

(*@ oidc-core/src/models/required_action.rs 73-82 StepUpPolicy *)
record step_up_policy =
  su_enabled :: bool
  su_client_ids :: "string list"
  su_scopes :: "string list"
  su_max_auth_age :: "int option"

(*@ oidc-core/src/models/required_action.rs 45-60 AuthenticationFlowConfig *)
record flow_config =
  fc_enabled :: bool
  fc_action_order :: "required_action list"
  fc_require_verified_email :: bool
  fc_require_complete_profile :: bool
  fc_require_mfa :: bool
  fc_terms :: terms_policy
  fc_step_up :: step_up_policy

definition default_terms :: terms_policy where
  "default_terms = \<lparr>tp_enabled = False, tp_version = [], tp_text = []\<rparr>"

definition default_step_up :: step_up_policy where
  "default_step_up = \<lparr>su_enabled = False, su_client_ids = [], su_scopes = [], su_max_auth_age = None\<rparr>"

(*@ oidc-core/src/models/required_action.rs 84-100 AuthenticationFlowConfig::default *)
definition default_flow :: flow_config where
  "default_flow =
     \<lparr>fc_enabled = False, fc_action_order = all_required_actions, fc_require_verified_email = False,
      fc_require_complete_profile = False, fc_require_mfa = False, fc_terms = default_terms,
      fc_step_up = default_step_up\<rparr>"

text \<open>\<open>serde_json::from_value\<close>: a struct of \<open>n\<close> fields is an object or an array of at most \<open>n\<close> elements, a
  missing member takes its default and a member of the wrong type fails the whole value; a unit variant
  is its name, or an object with the name as the only key and \<open>null\<close> as its value.\<close>

fun from_struct :: "nat \<Rightarrow> ((nat \<Rightarrow> string \<Rightarrow> json option) \<Rightarrow> 'a option) \<Rightarrow> json \<Rightarrow> 'a option" where
  "from_struct n f (JObj m) = f (\<lambda>_ name. obj_get m name)"
| "from_struct n f (JArr vs) =
     (if n < length vs then None else f (\<lambda>i _. if i < length vs then Some (vs ! i) else None))"
| "from_struct n f _ = None"

fun text_or :: "string \<Rightarrow> json option \<Rightarrow> string option" where
  "text_or s None = Some s"
| "text_or s (Some (JStr t)) = Some t"
| "text_or s (Some _) = None"

fun optional_i64 :: "json option \<Rightarrow> int option option" where
  "optional_i64 None = Some None"
| "optional_i64 (Some JNull) = Some None"
| "optional_i64 (Some (JNum k)) = (if - (2 ^ 63) \<le> k \<and> k < 2 ^ 63 then Some (Some k) else None)"
| "optional_i64 (Some _) = None"

fun action_of_json :: "json \<Rightarrow> required_action option" where
  "action_of_json (JStr s) = required_action_of s"
| "action_of_json (JObj [(s, JNull)]) = required_action_of s"
| "action_of_json _ = None"

fun actions_or :: "json option \<Rightarrow> required_action list option" where
  "actions_or None = Some all_required_actions"
| "actions_or (Some (JArr vs)) =
     (if \<forall>v \<in> set vs. action_of_json v \<noteq> None then Some (List.map_filter action_of_json vs) else None)"
| "actions_or (Some _) = None"

definition terms_fields :: "(nat \<Rightarrow> string \<Rightarrow> json option) \<Rightarrow> terms_policy option" where
  "terms_fields field =
     Option.bind (bool_or False (field 0 ''enabled'')) (\<lambda>a.
     Option.bind (text_or [] (field 1 ''version'')) (\<lambda>b.
     Option.bind (text_or [] (field 2 ''text'')) (\<lambda>c.
     Some \<lparr>tp_enabled = a, tp_version = b, tp_text = c\<rparr>)))"

definition step_up_fields :: "(nat \<Rightarrow> string \<Rightarrow> json option) \<Rightarrow> step_up_policy option" where
  "step_up_fields field =
     Option.bind (bool_or False (field 0 ''enabled'')) (\<lambda>a.
     Option.bind (strings_or (field 1 ''client_ids'')) (\<lambda>b.
     Option.bind (strings_or (field 2 ''scopes'')) (\<lambda>c.
     Option.bind (optional_i64 (field 3 ''max_auth_age_seconds'')) (\<lambda>m.
     Some \<lparr>su_enabled = a, su_client_ids = b, su_scopes = c, su_max_auth_age = m\<rparr>))))"

fun member_or :: "'a \<Rightarrow> (json \<Rightarrow> 'a option) \<Rightarrow> json option \<Rightarrow> 'a option" where
  "member_or a f None = Some a"
| "member_or a f (Some v) = f v"

definition flow_fields :: "(nat \<Rightarrow> string \<Rightarrow> json option) \<Rightarrow> flow_config option" where
  "flow_fields field =
     Option.bind (bool_or False (field 0 ''enabled'')) (\<lambda>a.
     Option.bind (actions_or (field 1 ''action_order'')) (\<lambda>b.
     Option.bind (bool_or False (field 2 ''require_verified_email'')) (\<lambda>c.
     Option.bind (bool_or False (field 3 ''require_complete_profile'')) (\<lambda>e.
     Option.bind (bool_or False (field 4 ''require_mfa'')) (\<lambda>f.
     Option.bind (member_or default_terms (from_struct 3 terms_fields) (field 5 ''terms'')) (\<lambda>g.
     Option.bind (member_or default_step_up (from_struct 4 step_up_fields) (field 6 ''step_up'')) (\<lambda>h.
     Some \<lparr>fc_enabled = a, fc_action_order = b, fc_require_verified_email = c,
       fc_require_complete_profile = e, fc_require_mfa = f, fc_terms = g, fc_step_up = h\<rparr>)))))))"

(*@ oidc-core/src/models/required_action.rs 103-109 AuthenticationFlowConfig::from_realm_config *)
definition flow_config_of :: "json \<Rightarrow> flow_config" where
  "flow_config_of config =
     (case Option.bind (jget config ''authentication_flow'') (from_struct 7 flow_fields) of
        None \<Rightarrow> default_flow | Some f \<Rightarrow> f)"

text \<open>\<open>normalize\<close> is called by the tests only: a configuration is used as it was stored.\<close>

(*@ oidc-core/src/models/required_action.rs 110-138 AuthenticationFlowConfig::normalize *)
definition normalize_flow :: "flow_config \<Rightarrow> flow_config" where
  "normalize_flow f =
     f\<lparr>fc_action_order := push_new [] (fc_action_order f @ all_required_actions),
       fc_terms := (fc_terms f)\<lparr>tp_version := trim (tp_version (fc_terms f)), tp_text := trim (tp_text (fc_terms f))\<rparr>,
       fc_step_up := (fc_step_up f)\<lparr>su_client_ids := filter (\<lambda>v. v \<noteq> []) (map trim (su_client_ids (fc_step_up f))),
         su_scopes := filter (\<lambda>v. v \<noteq> []) (map trim (su_scopes (fc_step_up f)))\<rparr>\<rparr>"

(*@ oidc-core/src/models/required_action.rs 140-155 AuthenticationFlowConfig::validate *)
definition validate_flow :: "flow_config \<Rightarrow> string + unit" where
  "validate_flow f =
     (if tp_enabled (fc_terms f) \<and> trim (tp_version (fc_terms f)) = []
      then Inl ''A terms version is required when terms acceptance is enabled''
      else if tp_enabled (fc_terms f) \<and> trim (tp_text (fc_terms f)) = []
      then Inl ''Terms text is required when terms acceptance is enabled''
      else case su_max_auth_age (fc_step_up f) of
        Some v \<Rightarrow> if v < 0 then Inl ''Maximum authentication age cannot be negative'' else Inr ()
      | None \<Rightarrow> Inr ())"


section \<open>Pending actions\<close>

(*@ oidc-oidc/src/endpoints/required_actions.rs 33-41 profile_complete *)
definition profile_complete :: "user \<Rightarrow> bool" where
  "profile_complete u \<longleftrightarrow>
     (case u_given_name u of None \<Rightarrow> False | Some v \<Rightarrow> trim v \<noteq> [])
     \<and> (case u_family_name u of None \<Rightarrow> False | Some v \<Rightarrow> trim v \<noteq> [])"

definition terms_in_force :: "flow_config \<Rightarrow> bool" where
  "terms_in_force f \<longleftrightarrow> tp_enabled (fc_terms f) \<and> tp_version (fc_terms f) \<noteq> []"

text \<open>The first \<open>retain\<close>, whether a stored action is still owed.\<close>

fun still_owed :: "flow_config \<Rightarrow> user \<Rightarrow> bool \<Rightarrow> required_action \<Rightarrow> bool" where
  "still_owed f u mfa VerifyEmail = (\<not> u_email_verified u)"
| "still_owed f u mfa UpdateProfile = (\<not> profile_complete u)"
| "still_owed f u mfa ConfigureMfa = (\<not> mfa)"
| "still_owed f u mfa AcceptTerms = terms_in_force f"
| "still_owed f u mfa UpdatePassword = True"

definition position_of :: "required_action list \<Rightarrow> required_action \<Rightarrow> int" where
  "position_of order a =
     (if a \<in> set order then int (length (takeWhile (\<lambda>v. v \<noteq> a) order)) else usize_max)"

text \<open>What the flow of the realm adds to the stored actions.\<close>

definition policy_actions :: "flow_config \<Rightarrow> user \<Rightarrow> bool \<Rightarrow> bool \<Rightarrow> required_action list" where
  "policy_actions f u mfa accepted =
     (if fc_enabled f
      then (if fc_require_verified_email f \<and> \<not> u_email_verified u then [VerifyEmail] else [])
         @ (if fc_require_complete_profile f \<and> \<not> profile_complete u then [UpdateProfile] else [])
         @ (if fc_require_mfa f \<and> \<not> mfa then [ConfigureMfa] else [])
         @ (if terms_in_force f \<and> \<not> accepted then [AcceptTerms] else [])
      else [])"

text \<open>\<open>dedup\<close> removes adjacent duplicates.\<close>

(*@ oidc-oidc/src/endpoints/required_actions.rs 43-97 pending_actions *)
definition pending_actions :: "user \<Rightarrow> realm \<Rightarrow> db \<Rightarrow> required_action list" where
  "pending_actions u r d =
     (let f = flow_config_of (r_config r);
          mfa = has_mfa (u_id u) d;
          accepted = has_accepted_terms (u_id u) (tp_version (fc_terms f)) d;
          owed = filter (still_owed f u mfa) (required_actions_of (u_id u) d);
          owed = (if terms_in_force f \<and> accepted then filter (\<lambda>a. a \<noteq> AcceptTerms) owed else owed)
      in remdups_adj (sort_by (\<lambda>a b. position_of (fc_action_order f) a \<le> position_of (fc_action_order f) b)
           (owed @ policy_actions f u mfa accepted)))"


section \<open>The session of the actions\<close>

(*@ oidc-oidc/src/endpoints/required_actions.rs 24-31 RequiredActionChallenge *)
record action_challenge =
  ach_required_actions :: "string list"
  ach_action_token :: string
  ach_terms :: "(string \<times> string) option"
  ach_user_email :: string
  ach_realm :: string

definition terms_to_show :: "flow_config \<Rightarrow> required_action list \<Rightarrow> (string \<times> string) option" where
  "terms_to_show f actions =
     (if AcceptTerms \<in> set actions then Some (tp_version (fc_terms f), tp_text (fc_terms f)) else None)"

text \<open>The clock, the identifier and the random value are the readings \<open>k\<close>, \<open>i\<close> and \<open>n\<close> of the caller.\<close>

(*@ oidc-oidc/src/endpoints/required_actions.rs 99-135 create_challenge *)
definition create_challenge ::
  "env \<Rightarrow> nat \<Rightarrow> nat \<Rightarrow> nat \<Rightarrow> user \<Rightarrow> realm \<Rightarrow> uuid \<Rightarrow> required_action list
     \<Rightarrow> (db, oidc_error, action_challenge) prog" where
  "create_challenge E n i k u r cid actions =
     bindp (lift (generate_opaque_token E n)) (\<lambda>token.
     thenp (create_action_session
              \<lparr>acs_id = e_uuid E i, acs_token_hash = sha2_256_hex E token, acs_user_id = u_id u,
               acs_realm_id = r_id r, acs_client_id = cid, acs_expires_at = e_clock E k + minutes 10,
               acs_used_at = None\<rparr>)
       (ret \<lparr>ach_required_actions = map required_action_text actions, ach_action_token = token,
             ach_terms = terms_to_show (flow_config_of (r_config r)) actions,
             ach_user_email = u_email u, ach_realm = r_name r\<rparr>))"

(*@ oidc-oidc/src/endpoints/required_actions.rs 137-157 action_user *)
definition action_user :: "env \<Rightarrow> string \<Rightarrow> db \<Rightarrow> (action_session \<times> user \<times> realm) result" where
  "action_user E token d =
     bindr (or_error (find_action_session (e_db_now E) (sha2_256_hex E token) d)
       (AuthenticationFailed ''Required-action session is invalid or expired'')) (\<lambda>s.
     bindr (or_error (user_by_id (acs_user_id s) d) (AuthenticationFailed ''User not found'')) (\<lambda>u.
     bindr (or_error (realm_by_id (acs_realm_id s) d) (AuthenticationFailed ''Realm not found'')) (\<lambda>r.
     Inr (s, u, r))))"

(*@ oidc-oidc/src/endpoints/required_actions.rs 192-198 response_status *)
record action_status =
  ast_complete :: bool
  ast_required_actions :: "string list"
  ast_terms :: "(string \<times> string) option"
  ast_user_email :: string
  ast_realm :: string

(*@ oidc-oidc/src/endpoints/required_actions.rs 182-206 response_status, status_handler *)
definition response_status :: "env \<Rightarrow> string \<Rightarrow> (db, oidc_error, action_status) prog" where
  "response_status E token =
     bindp (ask (action_user E token)) (\<lambda>(s, u, r).
     bindp (query (pending_actions u r)) (\<lambda>actions.
     thenp (if actions = [] then exec (use_action_session (e_db_now E) (acs_id s)) else ret ())
       (ret \<lparr>ast_complete = (actions = []), ast_required_actions = map required_action_text actions,
             ast_terms = terms_to_show (flow_config_of (r_config r)) actions,
             ast_user_email = u_email u, ast_realm = r_name r\<rparr>)))"

(*@ oidc-oidc/src/endpoints/required_actions.rs 208-242 password_handler *)
definition action_password :: "env \<Rightarrow> string \<Rightarrow> string \<Rightarrow> (db, oidc_error, action_status) prog" where
  "action_password E token new_password =
     bindp (ask (action_user E token)) (\<lambda>(s, u, r).
     bindp (query (required_actions_of (u_id u))) (\<lambda>stored.
     thenp (guardp (UpdatePassword \<in> set stored) (InvalidInput ''Password update is not required''))
    (thenp (lift (map_err (\<lambda>v. InvalidInput (violation_text v))
              (validate_password E (password_policy_of (r_config r)) new_password)))
    (thenp (guardp (\<not> (case u_password_hash u of None \<Rightarrow> False
              | Some h \<Rightarrow> e_hasher_verify E new_password h = Inr True))
              (InvalidInput ''Choose a password you have not already used''))
    (bindp (lift (e_hash_password E new_password)) (\<lambda>new_hash.
     thenp (user_update (e_db_now E) (u\<lparr>u_password_hash := Some new_hash\<rparr>))
    (thenp (exec (session_revoke_user (u_id u)))
    (thenp (exec (complete_action (u_id u) UpdatePassword))
       (response_status E token)))))))))"

(*@ oidc-oidc/src/endpoints/required_actions.rs 244-266 profile_handler *)
definition action_profile ::
  "env \<Rightarrow> string \<Rightarrow> string \<Rightarrow> string \<Rightarrow> string option \<Rightarrow> (db, oidc_error, action_status) prog" where
  "action_profile E token given family username =
     bindp (ask (action_user E token)) (\<lambda>(s, u, r).
     thenp (guardp (trim given \<noteq> [] \<and> trim family \<noteq> []) (InvalidInput ''First and last name are required''))
    (thenp (user_update (e_db_now E) (u\<lparr>u_given_name := Some (trim given), u_family_name := Some (trim family),
              u_username := optional_text username\<rparr>))
    (thenp (exec (complete_action (u_id u) UpdateProfile))
       (response_status E token))))"

(*@ oidc-oidc/src/endpoints/required_actions.rs 268-289 terms_handler *)
definition action_terms :: "env \<Rightarrow> string \<Rightarrow> string \<Rightarrow> bool \<Rightarrow> (db, oidc_error, action_status) prog" where
  "action_terms E token version accepted =
     thenp (guardp accepted (AuthorizationDenied ''The terms must be accepted to continue''))
    (bindp (ask (action_user E token)) (\<lambda>(s, u, r).
     let f = flow_config_of (r_config r)
     in thenp (guardp (tp_enabled (fc_terms f) \<and> tp_version (fc_terms f) = version)
                (InvalidInput ''Terms version is no longer current''))
       (thenp (exec (accept_terms (u_id u) version))
       (thenp (exec (complete_action (u_id u) AcceptTerms))
          (response_status E token)))))"

(*@ oidc-oidc/src/endpoints/required_actions.rs 291-308 complete_mfa_handler *)
definition action_complete_mfa :: "env \<Rightarrow> string \<Rightarrow> (db, oidc_error, action_status) prog" where
  "action_complete_mfa E token =
     bindp (ask (action_user E token)) (\<lambda>(s, u, r).
     bindp (query (has_mfa (u_id u))) (\<lambda>configured.
     thenp (guardp configured (InvalidInput ''Configure an authenticator before continuing''))
    (thenp (exec (complete_action (u_id u) ConfigureMfa))
       (response_status E token))))"


section \<open>What is pending\<close>

text \<open>When an action is owed, from the stored actions, the flow of the realm and the state of the user.\<close>

fun owes :: "flow_config \<Rightarrow> user \<Rightarrow> bool \<Rightarrow> bool \<Rightarrow> bool \<Rightarrow> required_action \<Rightarrow> bool" where
  "owes f u mfa accepted stored UpdatePassword = stored"
| "owes f u mfa accepted stored VerifyEmail =
     (\<not> u_email_verified u \<and> (stored \<or> fc_enabled f \<and> fc_require_verified_email f))"
| "owes f u mfa accepted stored UpdateProfile =
     (\<not> profile_complete u \<and> (stored \<or> fc_enabled f \<and> fc_require_complete_profile f))"
| "owes f u mfa accepted stored ConfigureMfa =
     (\<not> mfa \<and> (stored \<or> fc_enabled f \<and> fc_require_mfa f))"
| "owes f u mfa accepted stored AcceptTerms =
     (terms_in_force f \<and> \<not> accepted \<and> (stored \<or> fc_enabled f))"

definition owed_by :: "user \<Rightarrow> realm \<Rightarrow> db \<Rightarrow> required_action \<Rightarrow> bool" where
  "owed_by u r d a =
     (let f = flow_config_of (r_config r)
      in owes f u (has_mfa (u_id u) d) (has_accepted_terms (u_id u) (tp_version (fc_terms f)) d)
           ((u_id u, a) \<in> set (d_required_actions d)) a)"

lemma required_actions_of_mem: "a \<in> set (required_actions_of uid d) \<longleftrightarrow> (uid, a) \<in> set (d_required_actions d)"
  by (force simp: required_actions_of_def)

lemma pending_actions_mem: "a \<in> set (pending_actions u r d) \<longleftrightarrow> owed_by u r d a"
  by (cases a) (auto simp: pending_actions_def owed_by_def Let_def policy_actions_def required_actions_of_mem)

lemma sorted_insort_by:
  assumes "\<And>x y. le x y \<or> le y x" and "\<And>x y z. le x y \<Longrightarrow> le y z \<Longrightarrow> le x z" and "sorted_wrt le xs"
  shows "sorted_wrt le (insort_by le x xs)"
  using assms(3)
proof (induction xs)
  case (Cons y ys)
  then show ?case
    using assms(1) [of x y] assms(2) by auto
qed simp

lemma sorted_sort_by:
  assumes "\<And>x y. le x y \<or> le y x" and "\<And>x y z. le x y \<Longrightarrow> le y z \<Longrightarrow> le x z"
  shows "sorted_wrt le (sort_by le xs)"
  by (induction xs) (simp_all add: sorted_insort_by [OF assms])

lemma sorted_remdups_adj_key:
  fixes k :: "'a \<Rightarrow> int"
  shows "sorted_wrt (\<lambda>a b. k a \<le> k b) xs \<Longrightarrow> sorted_wrt (\<lambda>a b. k a \<le> k b) (remdups_adj xs)"
  by (induction xs rule: remdups_adj.induct) auto

lemma distinct_remdups_adj_key:
  fixes k :: "'a \<Rightarrow> int"
  shows "sorted_wrt (\<lambda>a b. k a \<le> k b) xs \<Longrightarrow> inj_on k (set xs) \<Longrightarrow> distinct (remdups_adj xs)"
proof (induction xs rule: remdups_adj.induct)
  case (3 x y xs)
  show ?case
  proof (cases "x = y")
    case True
    with 3 show ?thesis
      by simp
  next
    case False
    have "x \<noteq> z" if "z \<in> set (y # xs)" for z
    proof
      assume "x = z"
      then have "k x = k y"
        using 3(3) that by (auto intro: antisym)
      with False 3(4) show False
        by (auto dest: inj_onD)
    qed
    with 3 False show ?thesis
      by (auto simp: inj_on_def)
  qed
qed simp_all

lemma nth_position_of: "a \<in> set order \<Longrightarrow> order ! nat (position_of order a) = a"
  unfolding position_of_def by (induction order) auto

lemma position_of_inj: "inj_on (position_of order) (set order)"
  by (metis inj_onI nth_position_of)

text \<open>The pending actions of a user are exactly those that the stored actions or the flow of the realm
  ask for and that the state of the user does not satisfy yet, in the order of the realm.  When that order
  names every action, none occurs twice.\<close>

theorem pending_actions_correct:
  defines "order \<equiv> (\<lambda>r. fc_action_order (flow_config_of (r_config r)))"
  shows "(a \<in> set (pending_actions u r d) \<longleftrightarrow> owed_by u r d a)
    \<and> sorted_wrt (\<lambda>a b. position_of (order r) a \<le> position_of (order r) b) (pending_actions u r d)
    \<and> (set all_required_actions \<subseteq> set (order r) \<longrightarrow> distinct (pending_actions u r d))"
proof -
  let ?le = "\<lambda>a b. position_of (order r) a \<le> position_of (order r) b"
  obtain rows where pending: "pending_actions u r d = remdups_adj (sort_by ?le rows)"
    by (auto simp: pending_actions_def Let_def order_def)
  have sorted: "sorted_wrt ?le (sort_by ?le rows)"
    by (rule sorted_sort_by) auto
  have "set (sort_by ?le rows) \<subseteq> set (order r)" if "set all_required_actions \<subseteq> set (order r)"
  proof
    fix b
    have "b \<in> set all_required_actions"
      by (cases b) (simp_all add: all_required_actions_def)
    with that show "b \<in> set (order r)"
      by blast
  qed
  then have "distinct (pending_actions u r d)" if "set all_required_actions \<subseteq> set (order r)"
    unfolding pending using that sorted position_of_inj [of "order r"]
    by (blast intro: distinct_remdups_adj_key inj_on_subset)
  moreover have "sorted_wrt ?le (pending_actions u r d)"
    unfolding pending by (rule sorted_remdups_adj_key [OF sorted])
  ultimately show ?thesis
    by (simp add: pending_actions_mem)
qed

text \<open>A realm whose order leaves actions out: \<open>normalize\<close> would add them, but no configuration that is
  stored or read is normalized.  The actions that are left out compare equal, and equal neighbours only
  are merged, so that an action that is stored and required by the flow is owed twice.\<close>

definition partial_order_config :: json where
  "partial_order_config = JObj [(''authentication_flow'', JObj
     [(''action_order'', JArr [JStr ''accept_terms'']), (''enabled'', JBool True),
      (''require_verified_email'', JBool True)])]"

definition acme :: "json \<Rightarrow> realm" where
  "acme config = \<lparr>r_id = 3, r_name = ''acme'', r_display_name = ''Acme'', r_enabled = True,
     r_config = config, r_deleted_at = None\<rparr>"

definition owing_db :: db where
  "owing_db = empty_db\<lparr>d_required_actions := [(3, VerifyEmail), (3, UpdatePassword)]\<rparr>"

lemma partial_order_duplicates:
  "pending_actions (sample_user\<lparr>u_id := 3, u_email_verified := False\<rparr>)
     (acme partial_order_config) owing_db = [VerifyEmail, UpdatePassword, VerifyEmail]"
  by code_simp

lemma pending_actions_witness:
  "distinct (pending_actions (sample_user\<lparr>u_id := 3, u_email_verified := False\<rparr>)
     (acme JNull) owing_db)"
proof -
  have "set all_required_actions \<subseteq> set (fc_action_order (flow_config_of (r_config (acme JNull))))"
    by code_simp
  then show ?thesis
    using pending_actions_correct by blast
qed


section \<open>Carrying the actions out\<close>

text \<open>The four handlers as one operation.\<close>

datatype action_request =
  NewPassword string
| NewProfile string string "string option"
| Terms string bool
| MfaConfigured

fun run_action :: "env \<Rightarrow> string \<Rightarrow> action_request \<Rightarrow> (db, oidc_error, action_status) prog" where
  "run_action E token (NewPassword p) = action_password E token p"
| "run_action E token (NewProfile given family username) = action_profile E token given family username"
| "run_action E token (Terms version accepted) = action_terms E token version accepted"
| "run_action E token MfaConfigured = action_complete_mfa E token"

fun handled :: "action_request \<Rightarrow> required_action" where
  "handled (NewPassword _) = UpdatePassword"
| "handled (NewProfile _ _ _) = UpdateProfile"
| "handled (Terms _ _) = AcceptTerms"
| "handled MfaConfigured = ConfigureMfa"

lemma action_user_Inr:
  "action_user E token d = Inr (s, u, r) \<longleftrightarrow>
     find_action_session (e_db_now E) (sha2_256_hex E token) d = Some s
     \<and> user_by_id (acs_user_id s) d = Some u \<and> realm_by_id (acs_realm_id s) d = Some r"
  by (auto simp: action_user_def bindr_Inr or_error_Inr)

lemma action_user_by_id:
  assumes "action_user E token d = Inr (s, u, r)"
  shows "user_by_id (u_id u) d = Some u"
proof -
  have u: "user_by_id (acs_user_id s) d = Some u"
    using assms by (simp add: action_user_Inr)
  then have "u_id u = acs_user_id s"
    unfolding user_by_id_def by (auto dest: find_Some_set)
  with u show ?thesis
    by simp
qed

lemma user_update_run:
  "user_update now u d = (Inr x, e) \<longleftrightarrow>
     (\<forall>x \<in> set (d_users d). u_id x = u_id u \<and> u_deleted_at x = None \<longrightarrow>
        (\<forall>y \<in> set (d_users d). u_id y \<noteq> u_id u \<longrightarrow> \<not> (u_realm_id y = u_realm_id x \<and> u_email y = u_email u)))
     \<and> e = d_users_update (update_where (\<lambda>x. u_id x = u_id u \<and> u_deleted_at x = None)
          (\<lambda>x. u\<lparr>u_id := u_id x, u_realm_id := u_realm_id x, u_deleted_at := u_deleted_at x,
                 u_created_at := u_created_at x,
                 u_phone_number_verified := Some (u_phone_number_verified u = Some True),
                 u_updated_at := now\<rparr>)) d"
  unfolding user_update_def by (simp add: prog_ok)

text \<open>What the handlers leave alone: after one of them the user is the old one up to the fields that it
  writes, the session and the realm are the same, and no action is owed that was not owed before.\<close>

definition same_user :: "user \<Rightarrow> user \<Rightarrow> bool" where
  "same_user u v \<longleftrightarrow> u_id v = u_id u \<and> u_email_verified v = u_email_verified u
     \<and> (profile_complete u \<longrightarrow> profile_complete v)"

lemma user_update_by_id:
  assumes "user_update now v d = (Inr x, e)" and "user_by_id i d = Some u" and "u_id v = u_id u"
  shows "user_by_id i e = Some (v\<lparr>u_id := u_id u, u_realm_id := u_realm_id u, u_deleted_at := u_deleted_at u,
    u_created_at := u_created_at u, u_phone_number_verified := Some (u_phone_number_verified v = Some True),
    u_updated_at := now\<rparr>)"
proof -
  have u: "u_id u = i" "u_deleted_at u = None"
    using assms(2) by (auto simp: user_by_id_def dest: find_Some_set)
  have "user_by_id i e = map_option (\<lambda>x. if u_id x = u_id v \<and> u_deleted_at x = None
          then v\<lparr>u_id := u_id x, u_realm_id := u_realm_id x, u_deleted_at := u_deleted_at x,
            u_created_at := u_created_at x, u_phone_number_verified := Some (u_phone_number_verified v = Some True),
            u_updated_at := now\<rparr> else x) (user_by_id i d)"
    using assms(1) unfolding user_update_run user_by_id_def by (auto intro: find_update_where)
  then show ?thesis
    using assms(2,3) u by simp
qed

lemma response_status_ok:
  assumes "response_status E token d = (Inr st, e)"
  obtains s u r where "action_user E token d = Inr (s, u, r)"
    "ast_complete st \<longleftrightarrow> pending_actions u r d = []"
    "ast_required_actions st = map required_action_text (pending_actions u r d)"
    "e = (if pending_actions u r d = [] then use_action_session (e_db_now E) (acs_id s) d else d)"
proof -
  from assms obtain s u r where u: "action_user E token d = Inr (s, u, r)"
    unfolding response_status_def bindp_ok ask_ok by (metis prod_cases3)
  with assms have "thenp (if pending_actions u r d = [] then exec (use_action_session (e_db_now E) (acs_id s)) else ret ())
       (ret \<lparr>ast_complete = (pending_actions u r d = []),
             ast_required_actions = map required_action_text (pending_actions u r d),
             ast_terms = terms_to_show (flow_config_of (r_config r)) (pending_actions u r d),
             ast_user_email = u_email u, ast_realm = r_name r\<rparr>) d = (Inr st :: action_status result, e)"
    by (simp add: response_status_def bindp_ok ask_ok query_ok)
  then show thesis
    using that [OF u] by (cases "pending_actions u r d = []") (simp_all add: prog_ok)
qed

text \<open>The state in which a handler asks for the status.\<close>

definition acted :: "env \<Rightarrow> action_request \<Rightarrow> user \<Rightarrow> db \<Rightarrow> db \<Rightarrow> bool" where
  "acted E a u d m \<longleftrightarrow>
     (\<exists>v. user_by_id (u_id u) m = Some v \<and> same_user u v
        \<and> (handled a = UpdateProfile \<longrightarrow> profile_complete v))
     \<and> d_required_actions m = filter (\<lambda>row. row \<noteq> (u_id u, handled a)) (d_required_actions d)
     \<and> d_totp m = d_totp d \<and> d_webauthn m = d_webauthn d
     \<and> (handled a \<noteq> AcceptTerms \<longrightarrow> d_terms m = d_terms d) \<and> set (d_terms d) \<subseteq> set (d_terms m)
     \<and> d_action_sessions m = d_action_sessions d \<and> d_realms m = d_realms d"

lemma session_revoke_user_keeps:
  "d_users (session_revoke_user uid d) = d_users d"
  "d_required_actions (session_revoke_user uid d) = d_required_actions d"
  "d_totp (session_revoke_user uid d) = d_totp d" "d_webauthn (session_revoke_user uid d) = d_webauthn d"
  "d_terms (session_revoke_user uid d) = d_terms d"
  "d_action_sessions (session_revoke_user uid d) = d_action_sessions d"
  "d_realms (session_revoke_user uid d) = d_realms d"
  by (simp_all add: session_revoke_user_def update_sessions_def)

lemma acted_after_update:
  assumes "user_update now v d = (Inr x, m)" and "user_by_id i d = Some u" and "u_id v = u_id u"
    and "u_email_verified v = u_email_verified u" and "profile_complete u \<longrightarrow> profile_complete v"
    and "handled a = UpdateProfile \<longrightarrow> profile_complete v"
    and "d_users e = d_users m" "d_totp e = d_totp m" "d_webauthn e = d_webauthn m" "d_terms e = d_terms m"
      "d_action_sessions e = d_action_sessions m" "d_realms e = d_realms m" "d_required_actions e = d_required_actions m"
  shows "acted E a u d (complete_action (u_id u) (handled a) e)"
proof -
  have id: "u_id u = i"
    using assms(2) by (auto simp: user_by_id_def dest: find_Some_set)
  have "user_by_id (u_id u) (complete_action (u_id u) (handled a) e) = user_by_id i m"
    using assms(7) id by (simp add: user_by_id_def complete_action_def)
  note user_update_by_id [OF assms(1,2,3)]
  moreover have "d_totp m = d_totp d" "d_webauthn m = d_webauthn d" "d_terms m = d_terms d"
      "d_action_sessions m = d_action_sessions d" "d_realms m = d_realms d" "d_required_actions m = d_required_actions d"
    using assms(1) by (simp_all add: user_update_run)
  ultimately show ?thesis
    using assms id unfolding acted_def same_user_def
    by (auto simp: complete_action_def user_by_id_def profile_complete_def)
qed

lemma run_action_acts:
  assumes "run_action E token a d = (Inr st, e)"
  shows "\<exists>s u r m. action_user E token d = Inr (s, u, r) \<and> acted E a u d m
    \<and> response_status E token m = (Inr st, e)
    \<and> (handled a = AcceptTerms \<longrightarrow> has_accepted_terms (u_id u) (tp_version (fc_terms (flow_config_of (r_config r)))) m)
    \<and> (handled a = ConfigureMfa \<longrightarrow> has_mfa (u_id u) m)"
proof (cases a)
  case (NewPassword p)
  with assms obtain s u r new_hash m x where u: "action_user E token d = Inr (s, u, r)"
    and m: "user_update (e_db_now E) (u\<lparr>u_password_hash := Some new_hash\<rparr>) d = (Inr x, m)"
    and run: "response_status E token (complete_action (u_id u) UpdatePassword (session_revoke_user (u_id u) m)) = (Inr st, e)"
    unfolding action_password_def by (auto simp: action_password_def prog_ok)
  have "acted E a u d (complete_action (u_id u) (handled a) (session_revoke_user (u_id u) m))"
    using u [unfolded action_user_Inr]
    by (intro acted_after_update [OF m, of "acs_user_id s"])
      (simp_all add: NewPassword session_revoke_user_keeps profile_complete_def)
  with u run show ?thesis
    by (auto simp: NewPassword)
next
  case (NewProfile given family username)
  with assms obtain s u r m x where u: "action_user E token d = Inr (s, u, r)"
    and trims: "trim given \<noteq> []" "trim family \<noteq> []"
    and m: "user_update (e_db_now E) (u\<lparr>u_given_name := Some (trim given), u_family_name := Some (trim family),
              u_username := optional_text username\<rparr>) d = (Inr x, m)"
    and run: "response_status E token (complete_action (u_id u) UpdateProfile m) = (Inr st, e)"
    by (auto simp: action_profile_def prog_ok)
  have "acted E a u d (complete_action (u_id u) (handled a) m)"
    using u [unfolded action_user_Inr] trims
    by (intro acted_after_update [OF m, of "acs_user_id s"])
      (simp_all add: NewProfile profile_complete_def)
  with u run show ?thesis
    by (auto simp: NewProfile)
next
  case (Terms version accepted)
  with assms obtain s u r where u: "action_user E token d = Inr (s, u, r)"
    and version: "tp_version (fc_terms (flow_config_of (r_config r))) = version"
    and run: "response_status E token (complete_action (u_id u) AcceptTerms (accept_terms (u_id u) version d)) = (Inr st, e)"
    by (auto simp: action_terms_def prog_ok Let_def)
  have "user_by_id (u_id u) d = Some u"
    using u by (rule action_user_by_id)
  then have "acted E a u d (complete_action (u_id u) AcceptTerms (accept_terms (u_id u) version d))"
    by (auto simp: acted_def Terms same_user_def complete_action_def accept_terms_def user_by_id_def)
  moreover have "has_accepted_terms (u_id u) version (complete_action (u_id u) AcceptTerms (accept_terms (u_id u) version d))"
    by (simp add: has_accepted_terms_def complete_action_def accept_terms_def)
  ultimately show ?thesis
    using u run version by (intro exI [of _ s] exI [of _ u] exI [of _ r]) (auto simp: Terms)
next
  case MfaConfigured
  with assms obtain s u r where u: "action_user E token d = Inr (s, u, r)" and mfa: "has_mfa (u_id u) d"
    and run: "response_status E token (complete_action (u_id u) ConfigureMfa d) = (Inr st, e)"
    by (auto simp: action_complete_mfa_def prog_ok)
  have "user_by_id (u_id u) d = Some u"
    using u by (rule action_user_by_id)
  then have "acted E a u d (complete_action (u_id u) ConfigureMfa d)"
    by (auto simp: acted_def MfaConfigured same_user_def complete_action_def user_by_id_def)
  moreover have "has_mfa (u_id u) (complete_action (u_id u) ConfigureMfa d)"
    using mfa by (simp add: has_mfa_def find_totp_def list_webauthn_def complete_action_def)
  ultimately show ?thesis
    using u run by (intro exI [of _ s] exI [of _ u] exI [of _ r]) (auto simp: MfaConfigured)
qed

lemma has_mfa_cong: "d_totp e = d_totp d \<Longrightarrow> d_webauthn e = d_webauthn d \<Longrightarrow> has_mfa uid e = has_mfa uid d"
  by (simp add: has_mfa_def find_totp_def list_webauthn_def)

lemma owed_after:
  assumes "acted E a u d m" and "user_by_id (u_id u) m = Some v"
    and "handled a = AcceptTerms \<longrightarrow> has_accepted_terms (u_id u) (tp_version (fc_terms (flow_config_of (r_config r)))) m"
    and "handled a = ConfigureMfa \<longrightarrow> has_mfa (u_id u) m" and "owed_by v r m b"
  shows "owed_by u r d b \<and> b \<noteq> handled a"
proof -
  have same: "u_id v = u_id u" "u_email_verified v = u_email_verified u" "profile_complete u \<longrightarrow> profile_complete v"
    "handled a = UpdateProfile \<longrightarrow> profile_complete v"
    and tables: "d_required_actions m = filter (\<lambda>row. row \<noteq> (u_id u, handled a)) (d_required_actions d)"
      "set (d_terms d) \<subseteq> set (d_terms m)"
    using assms(1,2) by (auto simp: acted_def same_user_def)
  have mfa: "has_mfa (u_id u) m = has_mfa (u_id u) d"
    using assms(1) by (intro has_mfa_cong) (simp_all add: acted_def)
  show ?thesis
    using assms(3,4,5) same tables mfa
    by (cases b; cases a) (auto simp: owed_by_def Let_def has_accepted_terms_def)
qed

lemma use_action_session_keeps:
  "pending_actions u r (use_action_session now i d) = pending_actions u r d"
  "user_by_id j (use_action_session now i d) = user_by_id j d"
  by (simp_all add: pending_actions_def has_mfa_def find_totp_def list_webauthn_def has_accepted_terms_def
      required_actions_of_def user_by_id_def use_action_session_def)

lemma used_session_not_found:
  assumes "find_action_session now h d = Some s" and "distinct (map acs_token_hash (d_action_sessions d))"
  shows "find_action_session now' h (use_action_session t (acs_id s) d) = None"
proof -
  have s: "s \<in> set (d_action_sessions d)" "acs_token_hash s = h"
    using assms(1) by (auto simp: find_action_session_def dest: find_Some_set)
  have "acs_id x = acs_id s" if "x \<in> set (d_action_sessions d)" "acs_token_hash x = h" for x
    using distinct_map_same [OF assms(2) that(1) s(1)] that(2) s(2) by simp
  then show ?thesis
    unfolding find_action_session_def use_action_session_def by (auto intro!: find_update_where_None)
qed

text \<open>A handler of the action session that succeeds makes progress: the action it stands for is not owed
  any more, nothing is owed that was not owed before, and its answer lists what is left.  It says that the
  sign-in may be repeated exactly when nothing is left, and then the token of the session is spent for
  good.\<close>

theorem required_actions_progress:
  assumes "run_action E token a d = (Inr st, e)"
    and keys: "distinct (map acs_token_hash (d_action_sessions d))"
  shows "\<exists>s u r v. action_user E token d = Inr (s, u, r) \<and> user_by_id (u_id u) e = Some v
    \<and> set (pending_actions v r e) \<subseteq> set (pending_actions u r d) - {handled a}
    \<and> ast_required_actions st = map required_action_text (pending_actions v r e)
    \<and> (ast_complete st \<longleftrightarrow> pending_actions v r e = [])
    \<and> (ast_complete st \<longrightarrow> (\<forall>now'. find_action_session now' (sha2_256_hex E token) e = None))"
proof -
  from run_action_acts [OF assms(1)] obtain s u r m where u: "action_user E token d = Inr (s, u, r)"
    and acted: "acted E a u d m" and status: "response_status E token m = (Inr st, e)"
    and met: "handled a = AcceptTerms \<longrightarrow> has_accepted_terms (u_id u) (tp_version (fc_terms (flow_config_of (r_config r)))) m"
      "handled a = ConfigureMfa \<longrightarrow> has_mfa (u_id u) m"
    by blast
  from response_status_ok [OF status] obtain s' v r' where again: "action_user E token m = Inr (s', v, r')"
    and answer: "ast_complete st \<longleftrightarrow> pending_actions v r' m = []"
      "ast_required_actions st = map required_action_text (pending_actions v r' m)"
    and e: "e = (if pending_actions v r' m = [] then use_action_session (e_db_now E) (acs_id s') m else m)"
    by blast
  have tables: "d_action_sessions m = d_action_sessions d" "d_realms m = d_realms d"
    using acted by (simp_all add: acted_def)
  have "s' = s" "r' = r"
    using u again by (simp_all add: action_user_Inr find_action_session_def realm_by_id_def tables)
  have "u_id u = acs_user_id s"
    using u by (auto simp: action_user_Inr user_by_id_def dest: find_Some_set)
  with again \<open>s' = s\<close> have v: "user_by_id (u_id u) m = Some v"
    by (simp add: action_user_Inr)
  have "set (pending_actions v r m) \<subseteq> set (pending_actions u r d) - {handled a}"
    using owed_after [OF acted v met] unfolding subset_iff Diff_iff pending_actions_mem by blast
  moreover have same: "pending_actions v r e = pending_actions v r m" "user_by_id (u_id u) e = Some v"
    using v by (simp_all add: e use_action_session_keeps)
  moreover have "find_action_session now' (sha2_256_hex E token) e = None" if "ast_complete st" for now'
  proof -
    have "find_action_session (e_db_now E) (sha2_256_hex E token) m = Some s"
      using again \<open>s' = s\<close> by (simp add: action_user_Inr)
    moreover have "e = use_action_session (e_db_now E) (acs_id s) m"
      using that answer(1) e \<open>s' = s\<close> by simp
    ultimately show ?thesis
      using used_session_not_found keys tables(1) by metis
  qed
  ultimately show ?thesis
    using u answer \<open>r' = r\<close> by (intro exI [of _ s] exI [of _ u] exI [of _ r] exI [of _ v]) simp
qed

definition action_db :: db where
  "action_db = empty_db\<lparr>d_users := [sample_user], d_realms := [acme (JObj [])],
     d_required_actions := [(7, ConfigureMfa)],
     d_totp := [\<lparr>tc_id = 70, tc_user_id = 7, tc_secret_encrypted = ''enc'', tc_label = ''app'',
       tc_created_at = 0, tc_last_used_at = None\<rparr>],
     d_action_sessions := [\<lparr>acs_id = 71, acs_token_hash = ''tok'', acs_user_id = 7, acs_realm_id = 3,
       acs_client_id = 5, acs_expires_at = 10, acs_used_at = None\<rparr>]\<rparr>"

lemma action_db_run:
  "\<exists>st e. run_action sample_env ''tok'' MfaConfigured action_db = (Inr st, e) \<and> ast_complete st"
proof -
  have hash: "sha2_256_hex sample_env ''tok'' = ''tok''" "e_db_now sample_env = 0"
    by (simp_all add: sha2_256_hex_def sample_env_def)
  have u: "action_user sample_env ''tok'' d = Inr (hd (d_action_sessions action_db), sample_user, acme (JObj []))"
    if "d_action_sessions d = d_action_sessions action_db" "d_users d = d_users action_db" "d_realms d = d_realms action_db" for d
    using that by (simp add: action_user_Inr find_action_session_def hash user_by_id_def realm_by_id_def
        action_db_def sample_user_def acme_def)
  have pending: "pending_actions sample_user (acme (JObj [])) (complete_action (u_id sample_user) ConfigureMfa action_db) = []"
    by code_simp
  have "has_mfa (u_id sample_user) action_db"
    by code_simp
  then show ?thesis
    by (simp add: action_complete_mfa_def response_status_def prog_run bindp_def u pending)
      (simp add: u prog_run complete_action_def thenp_def bindp_def pending [unfolded complete_action_def])
qed

lemma required_actions_progress_witness:
  "\<exists>e. find_action_session 5 ''tok'' e = None
     \<and> (\<exists>st. run_action sample_env ''tok'' MfaConfigured action_db = (Inr st, e))"
proof -
  obtain st e where run: "run_action sample_env ''tok'' MfaConfigured action_db = (Inr st, e)" and "ast_complete st"
    using action_db_run by blast
  have "distinct (map acs_token_hash (d_action_sessions action_db))"
    by (simp add: action_db_def)
  from required_actions_progress [OF run this] \<open>ast_complete st\<close>
  have "find_action_session 5 (sha2_256_hex sample_env ''tok'') e = None"
    by blast
  with run show ?thesis
    by (auto simp: sha2_256_hex_def sample_env_def)
qed

end
