(* ===== verification/Mfa.thy ===== *)
theory Mfa
  imports Totp Required_Actions
begin

text \<open>Second factors (\<open>oidc-oidc/src/endpoints/mfa.rs\<close>): enrolment of an authenticator app or a passkey,
  recovery codes, and the ceremony of a sign-in.\<close>

section \<open>Ceremonies and their users\<close>

definition challenge_error :: oidc_error where
  "challenge_error = AuthenticationFailed ''MFA challenge is invalid or expired''"

definition max_attempts :: int where
  "max_attempts = 5"

(*@ oidc-oidc/src/endpoints/mfa.rs 141-153 valid_ceremony *)
definition valid_ceremony :: "mfa_ceremony \<Rightarrow> uuid \<Rightarrow> string \<Rightarrow> instant \<Rightarrow> bool" where
  "valid_ceremony c uid purpose now \<longleftrightarrow>
     \<not> (mf_user_id c \<noteq> uid \<or> mf_purpose c \<noteq> purpose \<or> mf_used_at c \<noteq> None \<or> mf_expires_at c \<le> now
        \<or> mf_attempts c \<ge> max_attempts)"

definition bearer_of :: "string option \<Rightarrow> string option" where
  "bearer_of authorization = Option.bind authorization (\<lambda>h. strip_prefix h ''Bearer '')"

(*@ oidc-oidc/src/endpoints/mfa.rs 155-179 current_user *)
definition mfa_user :: "env \<Rightarrow> hub \<Rightarrow> string option \<Rightarrow> db \<Rightarrow> user result" where
  "mfa_user E H authorization d =
     (case bearer_of authorization of
        None \<Rightarrow> Inl (AuthenticationFailed ''Authentication required'')
      | Some raw \<Rightarrow>
          bindr (verify_access_any E H (timestamp (e_clock E 0)) raw d) (\<lambda>_.
          or_error (Option.bind (session_by_access_hash (e_db_now E) (sha2_256_hex E raw) d) (\<lambda>s.
                    Option.bind (s_user_id s) (\<lambda>uid. user_by_id uid d)))
            (AuthenticationFailed ''Authentication required'')))"

(*@ oidc-oidc/src/endpoints/mfa.rs 181-200 enrollment_user *)
definition enrollment_user :: "env \<Rightarrow> hub \<Rightarrow> string option \<Rightarrow> db \<Rightarrow> user result" where
  "enrollment_user E H authorization d =
     (case mfa_user E H authorization d of
        Inr u \<Rightarrow> Inr u
      | Inl _ \<Rightarrow>
          bindr (or_error (bearer_of authorization) (AuthenticationFailed ''Authentication required'')) (\<lambda>raw.
          bindr (action_user E raw d) (\<lambda>(s, u, r).
          bindr (ensure (ConfigureMfa \<in> set (pending_actions u r d))
            (AuthorizationDenied ''MFA enrollment is not required'')) (\<lambda>_.
          Inr u))))"

(*@ oidc-oidc/src/endpoints/mfa.rs 202-230 current_mfa_user *)
definition current_mfa_user :: "env \<Rightarrow> hub \<Rightarrow> string option \<Rightarrow> db \<Rightarrow> user result" where
  "current_mfa_user E H authorization d =
     bindr (or_error (bearer_of authorization) (AuthenticationFailed ''Authentication required'')) (\<lambda>raw.
     bindr (verify_access_any E H (timestamp (e_clock E 0)) raw d) (\<lambda>_.
     bindr (or_error (session_by_access_hash (e_db_now E) (sha2_256_hex E raw) d)
       (AuthenticationFailed ''Active session required'')) (\<lambda>s.
     bindr (ensure (s_acr s = acr_silver \<and> ''mfa'' \<in> set (s_amr s))
       (AuthorizationDenied ''Complete MFA again before changing recovery methods'')) (\<lambda>_.
     bindr (or_error (s_user_id s) (AuthenticationFailed ''User session required'')) (\<lambda>uid.
     or_error (user_by_id uid d) (AuthenticationFailed ''User not found''))))))"


section \<open>Recovery codes\<close>

text \<open>The hexadecimal text of eight random bytes, in groups of four.\<close>

(*@ oidc-oidc/src/endpoints/mfa.rs 232-243 recovery_plaintext *)
definition recovery_plaintext :: "env \<Rightarrow> nat \<Rightarrow> string result" where
  "recovery_plaintext E n = (case e_random E n of
      None \<Rightarrow> Inl (Internal library_text)
    | Some buf \<Rightarrow>
        let s = e_upper E (e_hex E (take 8 buf))
        in Inr (take 4 s @ ''-'' @ take 4 (drop 4 s) @ ''-'' @ take 4 (drop 8 s) @ ''-'' @ take 4 (drop 12 s)))"

fun make_codes :: "env \<Rightarrow> uuid \<Rightarrow> nat \<Rightarrow> nat \<Rightarrow> nat \<Rightarrow> (string list \<times> recovery_code list) result" where
  "make_codes E uid n i 0 = Inr ([], [])"
| "make_codes E uid n i (Suc k) =
     bindr (recovery_plaintext E n) (\<lambda>code.
     bindr (e_hash_password E code) (\<lambda>hash.
     bindr (make_codes E uid (Suc n) (Suc i) k) (\<lambda>(plain, stored).
     Inr (code # plain,
          \<lparr>rv_id = e_uuid E i, rv_user_id = uid, rv_code_hash = hash, rv_used_at = None\<rparr> # stored))))"

text \<open>\<open>n\<close> and \<open>i\<close> are the next readings of the random source and of the identifiers.\<close>

(*@ oidc-oidc/src/endpoints/mfa.rs 245-264 replace_recovery *)
definition replace_recovery :: "env \<Rightarrow> nat \<Rightarrow> nat \<Rightarrow> uuid \<Rightarrow> (db, oidc_error, string list) prog" where
  "replace_recovery E n i uid =
     bindp (lift (make_codes E uid n i 10)) (\<lambda>(plain, stored).
     thenp (replace_recovery_codes uid stored)
       (ret plain))"


section \<open>Enrolment\<close>

definition new_ceremony :: "env \<Rightarrow> nat \<Rightarrow> nat \<Rightarrow> string \<Rightarrow> uuid \<Rightarrow> uuid \<Rightarrow> uuid option \<Rightarrow> string \<Rightarrow> json \<Rightarrow> mfa_ceremony" where
  "new_ceremony E i k token uid realm cid purpose st =
     \<lparr>mf_id = e_uuid E i, mf_token_hash = sha2_256_hex E token, mf_user_id = uid, mf_realm_id = realm,
      mf_client_id = cid, mf_purpose = purpose, mf_state = st, mf_attempts = 0,
      mf_expires_at = e_clock E k + minutes 5, mf_used_at = None, mf_created_at = e_clock E k\<rparr>"

text \<open>The answer is the token, the secret in base 32 and the address for the app.\<close>

(*@ oidc-oidc/src/endpoints/mfa.rs 280-314 totp_start_handler *)
definition totp_start :: "env \<Rightarrow> hub \<Rightarrow> string option \<Rightarrow> (db, oidc_error, string \<times> string \<times> string) prog" where
  "totp_start E H authorization =
     bindp (ask (enrollment_user E H authorization)) (\<lambda>u.
     bindp (some_or (e_random E 0) (Internal library_text)) (\<lambda>buf.
     let secret = take 20 buf; shown = base32 secret
     in bindp (lift (generate_opaque_token E 1)) (\<lambda>token.
        bindp (lift (e_encrypt E secret)) (\<lambda>encrypted.
        thenp (create_ceremony (new_ceremony E 0 1 token (u_id u) (u_realm_id u) None ''totp_enrollment''
                 (json_object [(''secret'', JStr encrypted)])))
          (let issuer = e_form_encode E ''OpenID Connect Hub''; account = e_form_encode E (u_email u)
           in ret (token, shown,
                ''otpauth://totp/'' @ issuer @ '':'' @ account @ ''?secret='' @ shown @ ''&issuer='' @ issuer
                @ ''&algorithm=SHA1&digits=6&period=30''))))))"

text \<open>No transaction surrounds the handler: what it has written stays when a later step fails.\<close>

(*@ oidc-oidc/src/endpoints/mfa.rs 316-355 totp_finish_handler *)
definition totp_finish ::
  "env \<Rightarrow> hub \<Rightarrow> string option \<Rightarrow> string \<Rightarrow> string \<Rightarrow> string option \<Rightarrow> (db, oidc_error, string list) prog" where
  "totp_finish E H authorization token code label =
     bindp (ask (enrollment_user E H authorization)) (\<lambda>u.
     bindp (query (find_ceremony (sha2_256_hex E token))) (\<lambda>c.
     bindp (some_or c challenge_error) (\<lambda>c.
     thenp (guardp (valid_ceremony c (u_id u) ''totp_enrollment'' (e_clock E 1)) challenge_error)
    (bindp (some_or (Option.bind (jget (mf_state c) ''secret'') as_str_json)
              (Internal ''TOTP enrollment state is incomplete'')) (\<lambda>encrypted.
     bindp (lift (e_decrypt E encrypted)) (\<lambda>secret.
     if \<not> verify_totp E secret (trim code) (timestamp (e_clock E 2))
     then thenp (exec (fail_ceremony (mf_id c))) (fail (AuthenticationFailed ''Invalid authenticator code''))
     else thenp (save_totp \<lparr>tc_id = e_uuid E 0, tc_user_id = u_id u, tc_secret_encrypted = encrypted,
                   tc_label = (case label of None \<Rightarrow> ''Authenticator app'' | Some l \<Rightarrow> l),
                   tc_created_at = e_clock E 3, tc_last_used_at = None\<rparr>)
         (thenp (exec (use_ceremony (e_db_now E) (mf_id c)))
            (replace_recovery E 0 1 (u_id u)))))))))"

definition passkeys_of :: "env \<Rightarrow> uuid \<Rightarrow> db \<Rightarrow> json list result" where
  "passkeys_of E uid d =
     (let creds = map wc_credential (list_webauthn uid d)
      in if list_all (e_passkey_ok E) creds then Inr creds else Inl (Internal library_text))"

(*@ oidc-oidc/src/endpoints/mfa.rs 357-398 webauthn_start_handler *)
definition webauthn_start :: "env \<Rightarrow> hub \<Rightarrow> string option \<Rightarrow> (db, oidc_error, string \<times> json) prog" where
  "webauthn_start E H authorization =
     bindp (ask (enrollment_user E H authorization)) (\<lambda>u.
     bindp (ask (passkeys_of E (u_id u))) (\<lambda>creds.
     thenp (lift (e_origin E))
    (let (challenge, st) = e_passkey_register_start E (u_id u) (u_email u)
           (case u_username u of None \<Rightarrow> u_email u | Some n \<Rightarrow> n) creds
     in bindp (lift (generate_opaque_token E 0)) (\<lambda>token.
        thenp (create_ceremony (new_ceremony E 0 1 token (u_id u) (u_realm_id u) None ''webauthn_enrollment'' st))
          (ret (token, challenge))))))"

text \<open>The answer is the stored passkey and, when the user had no recovery code left, ten new ones.\<close>

(*@ oidc-oidc/src/endpoints/mfa.rs 400-441 webauthn_finish_handler *)
definition webauthn_finish ::
  "env \<Rightarrow> hub \<Rightarrow> string option \<Rightarrow> string \<Rightarrow> json \<Rightarrow> string option
     \<Rightarrow> (db, oidc_error, webauthn_credential \<times> string list option) prog" where
  "webauthn_finish E H authorization token response label =
     bindp (ask (enrollment_user E H authorization)) (\<lambda>u.
     bindp (query (find_ceremony (sha2_256_hex E token))) (\<lambda>c.
     bindp (some_or c challenge_error) (\<lambda>c.
     thenp (guardp (valid_ceremony c (u_id u) ''webauthn_enrollment'' (e_clock E 1)) challenge_error)
    (thenp (guardp (e_passkey_registration_ok E (mf_state c)) (Internal library_text))
    (thenp (lift (e_origin E))
    (bindp (some_or (e_passkey_register E (mf_state c) response)
              (AuthenticationFailed ''Passkey registration could not be verified'')) (\<lambda>(cred_id, cred).
     let w = \<lparr>wc_id = e_uuid E 0, wc_user_id = u_id u, wc_credential_id = cred_id, wc_credential = cred,
              wc_label = (case label of None \<Rightarrow> ''Passkey'' | Some l \<Rightarrow> l),
              wc_created_at = e_clock E 2, wc_last_used_at = None\<rparr>
     in thenp (save_webauthn w)
       (thenp (exec (use_ceremony (e_db_now E) (mf_id c)))
       (bindp (query (recovery_code_count (u_id u))) (\<lambda>n.
        if n = 0 then bindp (replace_recovery E 0 1 (u_id u)) (\<lambda>codes. ret (w, Some codes))
        else ret (w, None)))))))))))"

(*@ oidc-oidc/src/endpoints/mfa.rs 443-458 recovery_regenerate_handler *)
definition recovery_regenerate :: "env \<Rightarrow> hub \<Rightarrow> string option \<Rightarrow> (db, oidc_error, string list) prog" where
  "recovery_regenerate E H authorization =
     bindp (ask (current_mfa_user E H authorization)) (\<lambda>u.
     bindp (query (has_mfa (u_id u))) (\<lambda>enrolled.
     thenp (guardp enrolled (InvalidInput ''Enroll an authenticator before generating recovery codes''))
       (replace_recovery E 0 0 (u_id u))))"

(*@ oidc-oidc/src/endpoints/mfa.rs 459-467 delete_totp_handler *)
definition delete_totp_handler :: "env \<Rightarrow> hub \<Rightarrow> string option \<Rightarrow> (db, oidc_error, unit) prog" where
  "delete_totp_handler E H authorization =
     bindp (ask (current_mfa_user E H authorization)) (\<lambda>u. exec (delete_totp (u_id u)))"

(*@ oidc-oidc/src/endpoints/mfa.rs 468-480 delete_webauthn_handler *)
definition delete_webauthn_handler :: "env \<Rightarrow> hub \<Rightarrow> string option \<Rightarrow> uuid option \<Rightarrow> (db, oidc_error, unit) prog" where
  "delete_webauthn_handler E H authorization i =
     bindp (ask (current_mfa_user E H authorization)) (\<lambda>u.
     bindp (some_or i (InvalidInput ''credential_id is required'')) (\<lambda>i.
     exec (delete_webauthn (u_id u) i)))"


section \<open>Sign-in\<close>

(*@ oidc-oidc/src/endpoints/mfa.rs 51-56 LoginMfaProof *)
record mfa_proof =
  lp_ceremony_token :: string
  lp_totp_code :: "string option"
  lp_recovery_code :: "string option"
  lp_webauthn_response :: "(string \<times> json) option"

(*@ oidc-oidc/src/endpoints/mfa.rs 59-65 LoginMfaChallenge *)
record mfa_challenge =
  lc_ceremony_token :: string
  lc_methods :: "string list"
  lc_webauthn :: "json option"

text \<open>The readings of the random source, the identifiers and the clock are those of the caller.\<close>

(*@ oidc-oidc/src/endpoints/mfa.rs 482-540 begin_login *)
definition begin_login ::
  "env \<Rightarrow> nat \<Rightarrow> nat \<Rightarrow> nat \<Rightarrow> uuid \<Rightarrow> uuid \<Rightarrow> uuid \<Rightarrow> (db, oidc_error, mfa_challenge) prog" where
  "begin_login E n i k uid realm cid =
     bindp (query (find_totp uid)) (\<lambda>totp.
     bindp (ask (passkeys_of E uid)) (\<lambda>passkeys.
     bindp (query (recovery_code_count uid)) (\<lambda>codes.
     thenp (lift (e_origin E))
    (let start = (if passkeys = [] then None else Some (e_passkey_start E uid passkeys))
     in bindp (lift (generate_opaque_token E n)) (\<lambda>token.
        thenp (create_ceremony (new_ceremony E i k token uid realm (Some cid) ''login''
                 (json_object [(''webauthn'', case start of None \<Rightarrow> JNull | Some (_, st) \<Rightarrow> st)])))
          (ret \<lparr>lc_ceremony_token = token,
                lc_methods = (if totp = None then [] else [''totp'']) @ (if passkeys = [] then [] else [''webauthn''])
                  @ (if 0 < codes then [''recovery_code''] else []),
                lc_webauthn = map_option fst start\<rparr>))))))"

text \<open>The three kinds of proof: the result is the list of methods, or nothing when the proof is wrong.\<close>

definition judge_totp :: "env \<Rightarrow> nat \<Rightarrow> uuid \<Rightarrow> string \<Rightarrow> (db, oidc_error, string list option) prog" where
  "judge_totp E k uid code =
     bindp (query (find_totp uid)) (\<lambda>totp.
     case totp of
       None \<Rightarrow> ret None
     | Some t \<Rightarrow>
         bindp (lift (e_decrypt E (tc_secret_encrypted t))) (\<lambda>secret.
         case matching_totp_step E secret (trim code) (timestamp (e_clock E k)) of
           None \<Rightarrow> ret None
         | Some step \<Rightarrow>
             if (case tc_last_used_at t of None \<Rightarrow> False | Some v \<Rightarrow> step \<le> timestamp v sdiv 30) then ret None
             else thenp (exec (touch_totp (e_db_now E) (tc_id t))) (ret (Some [''pwd'', ''otp'', ''mfa'']))))"

definition judge_recovery :: "env \<Rightarrow> uuid \<Rightarrow> string \<Rightarrow> (db, oidc_error, string list option) prog" where
  "judge_recovery E uid code =
     bindp (query (available_recovery_codes uid)) (\<lambda>codes.
     case List.find (\<lambda>r. e_hasher_verify E (e_upper E (trim code)) (rv_code_hash r) = Inr True) codes of
       None \<Rightarrow> ret None
     | Some r \<Rightarrow> thenp (exec (use_recovery_code (e_db_now E) (rv_id r))) (ret (Some [''pwd'', ''recovery'', ''mfa''])))"

definition judge_passkey ::
  "env \<Rightarrow> uuid \<Rightarrow> json \<Rightarrow> string \<times> json \<Rightarrow> (db, oidc_error, string list option) prog" where
  "judge_passkey E uid st response =
     (case Option.bind (jget st ''webauthn'') (\<lambda>v. if v = JNull then None else Some v) of
        None \<Rightarrow> ret None
      | Some v \<Rightarrow>
          thenp (guardp (e_passkey_state_ok E v) (Internal library_text))
         (bindp (query (list_webauthn uid)) (\<lambda>rows.
          case List.find (\<lambda>w. wc_credential_id w = fst response) rows of
            None \<Rightarrow> ret None
          | Some w \<Rightarrow>
              thenp (guardp (e_passkey_ok E (wc_credential w)) (Internal library_text))
             (thenp (lift (e_origin E))
               (case e_passkey_finish E v (snd response) (wc_credential w) of
                  None \<Rightarrow> ret None
                | Some cred \<Rightarrow>
                    thenp (exec (update_webauthn_counter (e_db_now E) (wc_id w) cred))
                      (ret (Some [''pwd'', ''hwk'', ''user'', ''mfa''])))))))"

text \<open>The second and later kinds of proof in a request are ignored.\<close>

definition judge :: "env \<Rightarrow> nat \<Rightarrow> uuid \<Rightarrow> json \<Rightarrow> mfa_proof \<Rightarrow> (db, oidc_error, string list option) prog" where
  "judge E k uid st p =
     (case lp_totp_code p of
        Some code \<Rightarrow> judge_totp E k uid code
      | None \<Rightarrow> (case lp_recovery_code p of
          Some code \<Rightarrow> judge_recovery E uid code
        | None \<Rightarrow> (case lp_webauthn_response p of
            Some response \<Rightarrow> judge_passkey E uid st response
          | None \<Rightarrow> ret None)))"

text \<open>The clock is read for the ceremony (\<open>k\<close>) and for the code (\<open>Suc k\<close>).\<close>

(*@ oidc-oidc/src/endpoints/mfa.rs 542-644 verify_login *)
definition verify_login ::
  "env \<Rightarrow> nat \<Rightarrow> uuid \<Rightarrow> uuid \<Rightarrow> uuid \<Rightarrow> mfa_proof \<Rightarrow> (db, oidc_error, string list option) prog" where
  "verify_login E k uid realm cid p =
     bindp (query (find_ceremony (sha2_256_hex E (lp_ceremony_token p)))) (\<lambda>c.
     bindp (some_or c challenge_error) (\<lambda>c.
     thenp (guardp (valid_ceremony c uid ''login'' (e_clock E k)) challenge_error)
    (thenp (guardp (mf_realm_id c = realm \<and> mf_client_id c = Some cid)
              (AuthenticationFailed ''MFA challenge does not match this login''))
    (bindp (judge E (Suc k) uid (mf_state c) p) (\<lambda>verified.
     case verified of
       Some amr \<Rightarrow> thenp (exec (use_ceremony (e_db_now E) (mf_id c))) (ret (Some amr))
     | None \<Rightarrow> thenp (exec (fail_ceremony (mf_id c))) (ret None))))))"

end
