(* ===== verification/Federation.thy ===== *)
theory Federation
  imports Mfa
begin

text \<open>User federation (\<open>oidc-oidc/src/federation.rs\<close>, \<open>oidc-core/src/models/user_federation.rs\<close>,
  \<open>oidc-repository/src/repositories/user_federation_repo.rs\<close>): the checks of a provider and of the user
  that a directory answers, the import of that user with its link and its groups, and the directory part
  of a sign-in.  The directory itself (LDAP, the HTTP gateway, Kerberos) is a parameter.\<close>

section \<open>Providers and directory users\<close>

(*@ oidc-core/src/models/user_federation.rs 16-24 Display of UserFederationType *)
fun federation_type_text :: "federation_type \<Rightarrow> string" where
  "federation_type_text Ldap = ''ldap''"
| "federation_type_text ActiveDirectory = ''active_directory''"
| "federation_type_text Kerberos = ''kerberos''"

(*@ oidc-core/src/models/user_federation.rs 26-39 FromStr of UserFederationType *)
definition federation_type_of :: "string \<Rightarrow> federation_type result" where
  "federation_type_of s =
     (if s = ''ldap'' then Inr Ldap
      else if s = ''active_directory'' then Inr ActiveDirectory
      else if s = ''kerberos'' then Inr Kerberos
      else Inl (InvalidInput ''unknown user federation type''))"

text \<open>The scheme of an address is known exactly when the address parses.\<close>

(*@ oidc-core/src/models/user_federation.rs 87-91 UserFederationProvider::uses_direct_directory *)
definition uses_direct_directory :: "env \<Rightarrow> federation_provider \<Rightarrow> bool" where
  "uses_direct_directory E p \<longleftrightarrow>
     (case e_url_scheme E (fp_gateway_url p) of
        None \<Rightarrow> False | Some s \<Rightarrow> s \<in> {''ldap'', ''ldaps'', ''ldap+starttls''})"

definition config_flag :: "json \<Rightarrow> string \<Rightarrow> bool" where
  "config_flag config name \<longleftrightarrow> jget config name = Some (JBool True)"

fun is_object :: "json \<Rightarrow> bool" where
  "is_object (JObj m) = True"
| "is_object _ = False"

(*@ oidc-core/src/models/user_federation.rs 93-124 UserFederationProvider::validate *)
definition validate_provider :: "env \<Rightarrow> federation_provider \<Rightarrow> unit result" where
  "validate_provider E p =
     bindr (ensure (trim (fp_name p) \<noteq> []) (InvalidInput ''name must not be empty'')) (\<lambda>_.
     bindr (or_error (e_url_scheme E (fp_gateway_url p)) (InvalidInput ''gateway_url must be a valid URL'')) (\<lambda>scheme.
     let local = (case e_url_host E (fp_gateway_url p) of
                    None \<Rightarrow> False | Some h \<Rightarrow> h \<in> {''localhost'', ''127.0.0.1'', ''::1''});
         insecure = config_flag (fp_config p) ''allow_insecure_transport''
     in bindr (ensure (scheme \<in> {''https'', ''ldaps'', ''ldap+starttls''} \<or> scheme = ''http'' \<and> local
                 \<or> scheme = ''ldap'' \<and> (local \<or> insecure))
          (InvalidInput ''connection URL must use HTTPS or LDAPS; plain HTTP/LDAP is restricted to localhost unless allow_insecure_transport is enabled'')) (\<lambda>_.
        bindr (ensure (\<not> (uses_direct_directory E p \<and> fp_provider_type p = Kerberos))
          (InvalidInput ''Kerberos providers require a federation gateway URL'')) (\<lambda>_.
        ensure (is_object (fp_config p)) (InvalidInput ''config must be a JSON object'')))))"

(*@ oidc-core/src/models/user_federation.rs 155-174 DirectoryUser::validate *)
definition validate_directory_user :: "directory_user \<Rightarrow> unit result" where
  "validate_directory_user u =
     bindr (ensure (\<not> (trim (du_external_id u) = [] \<or> trim (du_username u) = []))
       (InvalidInput ''directory user needs an external ID and username'')) (\<lambda>_.
     bindr (ensure (is_valid_email (du_email u)) (InvalidInput ''directory user returned an invalid email'')) (\<lambda>_.
     ensure (is_object (du_attributes u)) (InvalidInput ''directory user attributes must be a JSON object'')))"

(*@ oidc-oidc/src/state.rs 386-391 OidcState::decrypt_sensitive_string *)
definition decrypt_string :: "env \<Rightarrow> string \<Rightarrow> string result" where
  "decrypt_string E s =
     bindr (e_decrypt E s) (\<lambda>b.
     if e_is_utf8 E b then Inr b else Inl (Internal ''decrypted secret is not valid UTF-8''))"

text \<open>The answer of the gateway, read after the secret of the request has been decrypted.\<close>

definition gateway_user :: "env \<Rightarrow> federation_provider \<Rightarrow> (bool \<times> directory_user option) result \<Rightarrow> directory_user option result" where
  "gateway_user E p answer =
     bindr (decrypt_string E (fp_gateway_secret p)) (\<lambda>_.
     bindr answer (\<lambda>(authenticated, user).
     if \<not> authenticated then Inr None
     else bindr (or_error user (Internal ''federation gateway omitted authenticated user'')) (\<lambda>u.
          bindr (validate_directory_user u) (\<lambda>_. Inr (Some u)))))"

(*@ oidc-oidc/src/federation.rs 76-107 authenticate *)
definition directory_login :: "env \<Rightarrow> federation_provider \<Rightarrow> string \<Rightarrow> string \<Rightarrow> directory_user option result" where
  "directory_login E p identifier password =
     (if uses_direct_directory E p then e_direct_ldap E p identifier password
      else gateway_user E p (e_gateway_login E p identifier password))"

(*@ oidc-oidc/src/federation.rs 109-136 authenticate_kerberos *)
definition kerberos_login :: "env \<Rightarrow> federation_provider \<Rightarrow> string \<Rightarrow> directory_user option result" where
  "kerberos_login E p token = gateway_user E p (e_gateway_kerberos E p token)"


section \<open>Tables\<close>

definition provider_le :: "env \<Rightarrow> federation_provider \<Rightarrow> federation_provider \<Rightarrow> bool" where
  "provider_le E p q \<longleftrightarrow>
     (if fp_priority p = fp_priority q then e_collate E (fp_name p) (fp_name q) else fp_priority p < fp_priority q)"

(*@ oidc-repository/src/repositories/user_federation_repo.rs 13-26 UserFederationRepo::find_provider *)
definition provider_by_id :: "uuid \<Rightarrow> db \<Rightarrow> federation_provider option" where
  "provider_by_id i d = List.find (\<lambda>p. fp_id p = i \<and> fp_deleted_at p = None) (d_providers d)"

(*@ oidc-repository/src/repositories/user_federation_repo.rs 28-43 UserFederationRepo::list_providers *)
definition providers_of :: "env \<Rightarrow> uuid \<Rightarrow> db \<Rightarrow> federation_provider list" where
  "providers_of E realm d =
     sort_by (provider_le E) (filter (\<lambda>p. fp_realm_id p = realm \<and> fp_deleted_at p = None) (d_providers d))"

(*@ oidc-repository/src/repositories/user_federation_repo.rs 45-60 UserFederationRepo::list_enabled *)
definition enabled_providers :: "env \<Rightarrow> uuid \<Rightarrow> db \<Rightarrow> federation_provider list" where
  "enabled_providers E realm d =
     sort_by (provider_le E)
       (filter (\<lambda>p. fp_realm_id p = realm \<and> fp_enabled p \<and> fp_deleted_at p = None) (d_providers d))"

(*@ oidc-repository/src/repositories/user_federation_repo.rs 62-72 UserFederationRepo::create_provider *)
definition provider_create :: "federation_provider \<Rightarrow> (db, oidc_error, unit) prog" where
  "provider_create p =
     bindp (query d_providers) (\<lambda>rows.
     thenp (guardp (\<forall>x \<in> set rows. fp_id x \<noteq> fp_id p \<and> \<not> (fp_realm_id x = fp_realm_id p \<and> fp_name x = fp_name p))
              (Conflict ''duplicate key''))
       (exec (d_providers_update (\<lambda>rows. rows @ [p\<lparr>fp_deleted_at := None\<rparr>]))))"

(*@ oidc-repository/src/repositories/user_federation_repo.rs 74-84 UserFederationRepo::update_provider *)
definition provider_update :: "federation_provider \<Rightarrow> (db, oidc_error, unit) prog" where
  "provider_update p =
     bindp (query d_providers) (\<lambda>rows.
     thenp (guardp (\<forall>x \<in> set rows. fp_id x = fp_id p \<and> fp_deleted_at x = None \<longrightarrow>
              (\<forall>y \<in> set rows. fp_id y \<noteq> fp_id p \<longrightarrow> \<not> (fp_realm_id y = fp_realm_id x \<and> fp_name y = fp_name p)))
              (Conflict ''duplicate key''))
       (exec (d_providers_update (update_where (\<lambda>x. fp_id x = fp_id p \<and> fp_deleted_at x = None)
          (\<lambda>x. p\<lparr>fp_id := fp_id x, fp_realm_id := fp_realm_id x, fp_deleted_at := fp_deleted_at x\<rparr>)))))"

(*@ oidc-repository/src/repositories/user_federation_repo.rs 86-89 UserFederationRepo::delete_provider *)
definition provider_delete :: "instant \<Rightarrow> uuid \<Rightarrow> db \<Rightarrow> db" where
  "provider_delete now i =
     d_providers_update (update_where (\<lambda>p. fp_id p = i) (\<lambda>p. p\<lparr>fp_deleted_at := Some now, fp_enabled := False\<rparr>))"

(*@ oidc-repository/src/repositories/user_federation_repo.rs 102-116 UserFederationRepo::find_link_by_external_id *)
definition link_by_external_id :: "uuid \<Rightarrow> string \<Rightarrow> db \<Rightarrow> directory_link option" where
  "link_by_external_id i external d =
     List.find (\<lambda>l. dl_provider_id l = i \<and> dl_external_id l = external) (d_directory_links d)"

text \<open>The conflict clause names the key of provider and external identifier; the key of provider and user is
  checked for every row.\<close>

(*@ oidc-repository/src/repositories/user_federation_repo.rs 118-128 UserFederationRepo::upsert_link *)
definition link_upsert :: "directory_link \<Rightarrow> (db, oidc_error, unit) prog" where
  "link_upsert l =
     bindp (query d_directory_links) (\<lambda>rows.
     let same = (\<lambda>x. dl_provider_id x = dl_provider_id l \<and> dl_external_id x = dl_external_id l)
     in thenp (guardp (\<forall>x \<in> set rows. \<not> same x \<longrightarrow>
                 \<not> (dl_provider_id x = dl_provider_id l \<and> dl_user_id x = dl_user_id l)) (Conflict ''duplicate key''))
          (if \<exists>x \<in> set rows. same x
           then exec (d_directory_links_update (update_where same
                  (\<lambda>x. x\<lparr>dl_user_id := dl_user_id l, dl_external_username := dl_external_username l,
                         dl_external_dn := dl_external_dn l,
                         dl_last_login_at := (case dl_last_login_at l of None \<Rightarrow> dl_last_login_at x | Some t \<Rightarrow> Some t),
                         dl_last_synced_at := dl_last_synced_at l\<rparr>)))
           else thenp (guardp (\<forall>x \<in> set rows. dl_id x \<noteq> dl_id l) (Conflict ''duplicate key''))
                  (exec (d_directory_links_update (\<lambda>rows. rows @ [l])))))"

(*@ oidc-repository/src/repositories/user_federation_repo.rs 130-144 UserFederationRepo::count_links *)
definition count_links :: "uuid \<Rightarrow> db \<Rightarrow> nat" where
  "count_links i d = length (filter (\<lambda>l. dl_provider_id l = i) (d_directory_links d))"

text \<open>The key of realm and address holds for deleted users too.\<close>

(*@ oidc-repository/src/repositories/user_repo.rs 84-132 UserRepo::create *)
definition user_create :: "instant \<Rightarrow> user \<Rightarrow> (db, oidc_error, unit) prog" where
  "user_create now u =
     bindp (query d_users) (\<lambda>rows.
     thenp (guardp (\<forall>x \<in> set rows. u_id x \<noteq> u_id u \<and> \<not> (u_realm_id x = u_realm_id u \<and> u_email x = u_email u))
              (Conflict ''duplicate key''))
       (exec (d_users_update (\<lambda>rows. rows @
          [u\<lparr>u_phone_number_verified := Some (u_phone_number_verified u = Some True), u_deleted_at := None,
             u_created_at := now\<rparr>]))))"

(*@ oidc-repository/src/repositories/group_repo.rs 46-61 GroupRepo::find_by_name *)
definition group_by_name :: "uuid \<Rightarrow> string \<Rightarrow> db \<Rightarrow> group option" where
  "group_by_name realm name d =
     List.find (\<lambda>g. g_realm_id g = realm \<and> g_name g = name \<and> g_deleted_at g = None) (d_groups d)"

(*@ oidc-repository/src/repositories/group_repo.rs 63-85 GroupRepo::create *)
definition group_create :: "group \<Rightarrow> (db, oidc_error, unit) prog" where
  "group_create g =
     bindp (query d_groups) (\<lambda>rows.
     thenp (guardp (\<forall>x \<in> set rows. g_id x \<noteq> g_id g
              \<and> \<not> (g_realm_id x = g_realm_id g \<and> g_name x = g_name g \<and> g_deleted_at x = None))
              (Conflict ''duplicate key''))
       (exec (d_groups_update (\<lambda>rows. rows @ [g\<lparr>g_deleted_at := None\<rparr>]))))"

(*@ oidc-repository/src/repositories/user_group_repo.rs 33-44 UserGroupRepo::assign *)
definition group_assign :: "uuid \<Rightarrow> uuid \<Rightarrow> (db, oidc_error, unit) prog" where
  "group_assign uid gid =
     bindp (query d_user_groups) (\<lambda>rows.
     thenp (guardp ((uid, gid) \<notin> set rows) (Conflict ''duplicate key''))
       (exec (d_user_groups_update (\<lambda>rows. rows @ [(uid, gid)]))))"


section \<open>Import\<close>

(*@ oidc-oidc/src/federation.rs 289-321 new_user *)
definition directory_new_user :: "env \<Rightarrow> nat \<Rightarrow> nat \<Rightarrow> uuid \<Rightarrow> directory_user \<Rightarrow> user" where
  "directory_new_user E i k realm du =
     \<lparr>u_id = e_uuid E i, u_realm_id = realm, u_email = du_email du, u_email_verified = True,
      u_username = Some (du_username du), u_password_hash = None, u_given_name = du_given_name du,
      u_family_name = du_family_name du, u_middle_name = None, u_nickname = None,
      u_preferred_username = Some (du_username du), u_profile = None, u_picture = None, u_website = None,
      u_gender = None, u_birthdate = None, u_zoneinfo = None, u_phone_number = None,
      u_phone_number_verified = None, u_street_address = None, u_locality = None, u_region = None,
      u_postal_code = None, u_country = None, u_locale = ''en'', u_attributes = du_attributes du,
      u_enabled = du_enabled du, u_deleted_at = None, u_updated_at = e_clock E k, u_created_at = e_clock E k\<rparr>"

(*@ oidc-oidc/src/federation.rs 323-333 apply_directory_values *)
definition with_directory_values :: "env \<Rightarrow> nat \<Rightarrow> directory_user \<Rightarrow> user \<Rightarrow> user" where
  "with_directory_values E k du u =
     u\<lparr>u_email := du_email du, u_email_verified := True, u_username := Some (du_username du),
       u_preferred_username := Some (du_username du), u_given_name := du_given_name du,
       u_family_name := du_family_name du, u_attributes := du_attributes du, u_enabled := du_enabled du,
       u_updated_at := e_clock E k\<rparr>"

(*@ oidc-oidc/src/federation.rs 218-241 store_link *)
definition store_link ::
  "env \<Rightarrow> nat \<Rightarrow> nat \<Rightarrow> federation_provider \<Rightarrow> user \<Rightarrow> directory_user \<Rightarrow> bool \<Rightarrow> (db, oidc_error, unit) prog" where
  "store_link E i k p u du login =
     link_upsert
       \<lparr>dl_id = e_uuid E i, dl_provider_id = fp_id p, dl_user_id = u_id u, dl_external_id = du_external_id du,
        dl_external_username = du_username du, dl_external_dn = du_dn du,
        dl_last_login_at = (if login then Some (e_clock E k) else None), dl_last_synced_at = e_clock E k\<rparr>"

fun join_groups :: "env \<Rightarrow> nat \<Rightarrow> nat \<Rightarrow> federation_provider \<Rightarrow> uuid \<Rightarrow> string list \<Rightarrow> (db, oidc_error, unit) prog" where
  "join_groups E i k p uid [] = ret ()"
| "join_groups E i k p uid (name # names) =
     (let name = trim name
      in if name = [] then join_groups E i k p uid names
         else bindp (query (group_by_name (fp_realm_id p) name)) (\<lambda>found.
              bindp (case found of
                       Some g \<Rightarrow> ret (g_id g)
                     | None \<Rightarrow>
                         thenp (group_create
                           \<lparr>g_id = e_uuid E i, g_realm_id = fp_realm_id p, g_name = name,
                            g_description = Some (''Synchronized from '' @ fp_name p), g_parent_id = None,
                            g_created_at = e_clock E k, g_updated_at = e_clock E k, g_deleted_at = None\<rparr>)
                           (ret (e_uuid E i))) (\<lambda>gid.
              bindp (query (\<lambda>d. gid \<in> g_id ` set (groups_of_user uid d))) (\<lambda>member.
              thenp (if member then ret () else group_assign uid gid)
                (join_groups E (Suc i) (Suc k) p uid names)))))"

(*@ oidc-oidc/src/federation.rs 243-287 sync_groups *)
definition sync_groups ::
  "env \<Rightarrow> nat \<Rightarrow> nat \<Rightarrow> federation_provider \<Rightarrow> user \<Rightarrow> directory_user \<Rightarrow> (db, oidc_error, unit) prog" where
  "sync_groups E i k p u du =
     (if fp_sync_groups p then join_groups E i k p (u_id u) (du_groups du) else ret ())"

text \<open>The readings of the identifiers and of the clock start at \<open>i\<close> and \<open>k\<close>.\<close>

(*@ oidc-oidc/src/federation.rs 167-216 import_user *)
definition import_user ::
  "env \<Rightarrow> nat \<Rightarrow> nat \<Rightarrow> federation_provider \<Rightarrow> directory_user \<Rightarrow> bool \<Rightarrow> (db, oidc_error, user) prog" where
  "import_user E i k p du login =
     bindp (query (link_by_external_id (fp_id p) (du_external_id du))) (\<lambda>link.
     case link of
       Some l \<Rightarrow>
         bindp (query (user_by_id (dl_user_id l))) (\<lambda>u.
         bindp (some_or u (Internal ''federated user link has no local user'')) (\<lambda>u.
         let u = with_directory_values E k du u
         in thenp (user_update (e_db_now E) u)
           (thenp (store_link E (Suc i) (Suc k) p u du login)
           (thenp (sync_groups E (i + 2) (k + 2) p u du)
              (ret u)))))
     | None \<Rightarrow>
         bindp (query (user_by_email (fp_realm_id p) (du_email du))) (\<lambda>existing.
         thenp (guardp (\<not> (existing \<noteq> None \<and> \<not> config_flag (fp_config p) ''link_existing_users''))
                  (AuthenticationFailed ''a local user already owns this email address''))
        (let u = with_directory_values E k du
               (case existing of Some u \<Rightarrow> u | None \<Rightarrow> directory_new_user E i k (fp_realm_id p) du)
         in bindp (query (user_by_id (u_id u))) (\<lambda>found.
            thenp (if found \<noteq> None then user_update (e_db_now E) u
                   else if fp_import_users p then user_create (e_db_now E) u
                   else fail (AuthenticationFailed ''user import is disabled''))
           (thenp (store_link E (Suc i) (Suc k) p u du login)
           (thenp (sync_groups E (i + 2) (k + 2) p u du)
              (ret u)))))))"


section \<open>The directory part of a sign-in\<close>

text \<open>The first provider that knows the user decides; a provider that fails is passed over, an import that
  fails is not.\<close>

fun try_directories ::
  "env \<Rightarrow> (federation_provider \<Rightarrow> directory_user option result) \<Rightarrow> federation_provider list
     \<Rightarrow> (db, oidc_error, (user \<times> string) option) prog" where
  "try_directories E login [] = ret None"
| "try_directories E login (p # ps) =
     (case login p of
        Inr (Some du) \<Rightarrow>
          bindp (import_user E 10 10 p du True) (\<lambda>u.
          ret (Some (u, federation_type_text (fp_provider_type p))))
      | _ \<Rightarrow> try_directories E login ps)"

(*@ oidc-oidc/src/flows/password.rs 50-76 authenticate_directory *)
definition authenticate_directory ::
  "env \<Rightarrow> uuid \<Rightarrow> string \<Rightarrow> string \<Rightarrow> (db, oidc_error, (user \<times> string) option) prog" where
  "authenticate_directory E realm identifier password =
     bindp (query (enabled_providers E realm)) (\<lambda>ps.
     try_directories E (\<lambda>p. directory_login E p identifier password)
       (filter (\<lambda>p. fp_provider_type p \<noteq> Kerberos) ps))"

(*@ oidc-oidc/src/flows/password.rs 78-101 authenticate_kerberos_directory *)
definition authenticate_kerberos_directory ::
  "env \<Rightarrow> uuid \<Rightarrow> string \<Rightarrow> (db, oidc_error, user option) prog" where
  "authenticate_kerberos_directory E realm token =
     bindp (query (enabled_providers E realm)) (\<lambda>ps.
     bindp (try_directories E (\<lambda>p. kerberos_login E p token)
              (filter (\<lambda>p. fp_provider_type p = Kerberos) ps)) (\<lambda>found.
     ret (map_option fst found)))"

end
