(* ===== verification/Password.thy ===== *)
theory Password
  imports Federation Uma
begin

text \<open>The password flow (\<open>oidc-oidc/src/flows/password.rs\<close>) and the login endpoint
  (\<open>oidc-oidc/src/endpoints/login.rs\<close>).  The identifiers and the clock are read at fixed indices below
  10, an import from a directory reads from 10 on and the workflows of an audit event from 1000 on.\<close>

section \<open>Failed attempts\<close>

text \<open>The subquery looks at deleted users too; \<open>LIMIT 1\<close> takes the only row of the key.\<close>

(*@ oidc-repository/src/repositories/audit_event_repo.rs 293-313 AuditEventRepo::count_recent_failures *)
definition count_recent_failures :: "instant \<Rightarrow> string \<Rightarrow> uuid \<Rightarrow> db \<Rightarrow> nat" where
  "count_recent_failures now email realm d =
     (case List.find (\<lambda>u. u_email u = email \<and> u_realm_id u = realm) (d_users d) of
        None \<Rightarrow> 0
      | Some u \<Rightarrow> length (filter (\<lambda>ev. ae_event_type ev = ''LOGIN_FAILURE'' \<and> ae_actor_id ev = Some (u_id u)
                                     \<and> now - minutes 5 < ae_created_at ev) (d_audit d)))"

(*@ oidc-oidc/src/flows/password.rs 247-259 LOGIN_FAILURE event *)
definition login_failure :: "env \<Rightarrow> uuid \<Rightarrow> string \<Rightarrow> audit_event" where
  "login_failure E realm email =
     \<lparr>ae_id = e_uuid E 0, ae_realm_id = Some realm, ae_event_type = ''LOGIN_FAILURE'', ae_actor_id = None,
      ae_actor_type = UserActor, ae_target_type = None, ae_target_id = None,
      ae_details = json_object [(''email'', JStr email)], ae_ip_address = None, ae_user_agent = None,
      ae_created_at = e_clock E 8\<rparr>"


section \<open>The user of a sign-in\<close>

definition bad_credentials :: oidc_error where
  "bad_credentials = AuthenticationFailed ''Invalid credentials''"

definition local_user :: "env \<Rightarrow> uuid \<Rightarrow> string \<Rightarrow> db \<Rightarrow> user option" where
  "local_user E realm identifier d =
     (if CHR 0x40 \<in> set identifier then user_by_email realm identifier d
      else user_by_username (e_lower E) realm identifier d)"

text \<open>The second component is the method of a directory that knew the user.\<close>

(*@ oidc-oidc/src/flows/password.rs 167-214 user of the sign-in *)
definition sign_in_user ::
  "env \<Rightarrow> uuid \<Rightarrow> string \<Rightarrow> string \<Rightarrow> string option \<Rightarrow> (db, oidc_error, user \<times> string option) prog" where
  "sign_in_user E realm identifier password kerberos =
     (case kerberos of
        Some token \<Rightarrow>
          bindp (authenticate_kerberos_directory E realm token) (\<lambda>found.
          bindp (some_or found bad_credentials) (\<lambda>u.
          ret (u, Some ''kerberos'')))
      | None \<Rightarrow>
          bindp (query (local_user E realm identifier)) (\<lambda>found.
          case Option.bind found (\<lambda>u. if u_password_hash u = None then None else Some u) of
            Some u \<Rightarrow> ret (u, None)
          | None \<Rightarrow>
              bindp (authenticate_directory E realm identifier password) (\<lambda>found.
              bindp (some_or found bad_credentials) (\<lambda>(u, amr).
              ret (u, Some amr)))))"

text \<open>A wrong password is recorded and then answered with an error.\<close>

(*@ oidc-oidc/src/flows/password.rs 216-264 checks of the user *)
definition check_sign_in ::
  "env \<Rightarrow> uuid \<Rightarrow> string \<Rightarrow> string \<Rightarrow> user \<times> string option \<Rightarrow> (db, oidc_error, unit) prog" where
  "check_sign_in E realm identifier password found =
     (case found of (u, federation_amr) \<Rightarrow>
        thenp (guardp (u_enabled u) (AuthorizationDenied ''Account disabled''))
       (bindp (query (is_managed_user_blocked (u_id u))) (\<lambda>blocked.
        thenp (guardp (\<not> blocked) (AuthorizationDenied ''Account organization is disabled''))
       (bindp (if federation_amr \<noteq> None then ret True
               else bindp (some_or (u_password_hash u) bad_credentials) (\<lambda>h.
                    lift (map_err (\<lambda>e. Internal (error_text e)) (e_hasher_verify E password h)))) (\<lambda>valid.
        if valid then ret ()
        else thenp (exec (record_event E 1000 (login_failure E realm identifier))) (fail bad_credentials))))))"


section \<open>Tokens and session\<close>

record password_result =
  pw_access_token :: string
  pw_refresh_token :: string
  pw_id_token :: string
  pw_token_type :: string
  pw_session_id :: uuid
  pw_user :: user

(*@ oidc-oidc/src/flows/password.rs 40-45 PasswordFlowOutcome *)
datatype password_outcome =
  Authenticated password_result
| Mfa_Required mfa_challenge
| Actions_Required action_challenge
| Mfa_Rejected

text \<open>The methods of the session: those of the second factor, or the password with the method of the
  directory; a Kerberos ticket replaces the password.\<close>

(*@ oidc-oidc/src/flows/password.rs 302-318 acr and amr of the session *)
definition session_methods :: "string list option \<Rightarrow> string option \<Rightarrow> string list" where
  "session_methods verified federation_amr =
     (let amr = (case verified of Some ms \<Rightarrow> ms
                 | None \<Rightarrow> ''pwd'' # (case federation_amr of None \<Rightarrow> [] | Some f \<Rightarrow> [f]))
      in case federation_amr of
           None \<Rightarrow> amr
         | Some f \<Rightarrow>
             let amr = (if f = ''kerberos'' then filter (\<lambda>v. v \<noteq> ''pwd'') amr else amr)
             in if f \<in> set amr then amr else amr @ [f])"

(*@ oidc-oidc/src/flows/password.rs 323-339 step_up *)
definition step_up_wanted :: "flow_config \<Rightarrow> client \<Rightarrow> string list \<Rightarrow> string list \<Rightarrow> bool" where
  "step_up_wanted f c requested_scopes requested_acr_values \<longleftrightarrow>
     acr_silver \<in> set requested_acr_values
     \<or> fc_enabled f \<and> su_enabled (fc_step_up f)
       \<and> (su_client_ids (fc_step_up f) = [] \<or> c_client_id c \<in> set (su_client_ids (fc_step_up f)))
       \<and> (su_scopes (fc_step_up f) = [] \<or> (\<exists>v \<in> set (su_scopes (fc_step_up f)). v \<in> set requested_scopes))"

(*@ oidc-oidc/src/flows/password.rs 423-458 IdTokenExtraClaims of the password flow *)
definition password_id_extra ::
  "env \<Rightarrow> user \<Rightarrow> string \<Rightarrow> string \<Rightarrow> string \<Rightarrow> string list \<Rightarrow> mapped_claims \<Rightarrow> role_claims \<Rightarrow> id_extra" where
  "password_id_extra E u access_token sid acr amr mapped roles =
     (profile_extra u no_id_extra)
       \<lparr>ix_custom_claims := mc_id_token mapped, ix_additional_audiences := mc_id_audiences mapped,
        ix_at_hash := Some (left_half_hash E access_token), ix_auth_time := Some (timestamp (e_clock E 5)),
        ix_sid := Some sid, ix_locale := Some (u_locale u), ix_acr := Some acr, ix_amr := Some amr,
        ix_roles := rc_roles roles, ix_realm_access := rc_realm_access roles,
        ix_resource_access := rc_resource_access roles\<rparr>"

(*@ oidc-oidc/src/flows/password.rs 469-503 Session of the password flow *)
definition password_session ::
  "env \<Rightarrow> user \<Rightarrow> client \<Rightarrow> string list \<Rightarrow> string \<Rightarrow> string \<Rightarrow> string \<Rightarrow> string \<Rightarrow> string list \<Rightarrow> session" where
  "password_session E u c scopes sid access_token refresh_token acr amr =
     (let now = e_clock E 7 in
     \<lparr>s_id = e_uuid E 3, s_sid = sid, s_user_id = Some (u_id u), s_realm_id = u_realm_id u,
      s_client_id = c_id c, s_grant_type = (if ''kerberos'' \<in> set amr then ''kerberos'' else ''password''),
      s_access_token_hash = sha2_256_hex E access_token,
      s_refresh_token_hash = Some (sha2_256_hex E refresh_token), s_id_token_jti = None, s_scope = scopes,
      s_revoked = False, s_expires_at = now + minutes 15, s_refresh_expires_at = Some (now + days 7),
      s_offline_session = False, s_offline_max_expires_at = None, s_created_at = now, s_last_used_at = None,
      s_token_family_id = Some (e_uuid E 4), s_previous_session_id = None, s_rotated_at = None,
      s_reused_at = None, s_family_revoked = False, s_authorization_details = None, s_resource = [],
      s_acr = acr, s_amr = amr\<rparr>)"

definition login_event :: "env \<Rightarrow> user \<Rightarrow> client \<Rightarrow> session \<Rightarrow> audit_event" where
  "login_event E u c s =
     \<lparr>ae_id = e_uuid E 6, ae_realm_id = Some (u_realm_id u), ae_event_type = ''user.authenticated'',
      ae_actor_id = Some (u_id u), ae_actor_type = UserActor, ae_target_type = Some ''user'',
      ae_target_id = Some (u_id u),
      ae_details = json_object [(''client_id'', JStr (e_uuid_text E (c_id c))), (''grant_type'', JStr (s_grant_type s))],
      ae_ip_address = None, ae_user_agent = None, ae_created_at = e_clock E 7\<rparr>"

(*@ oidc-oidc/src/flows/password.rs 354-541 tokens and session of the password flow *)
definition issue_for_password ::
  "env \<Rightarrow> string option \<Rightarrow> user \<Rightarrow> client \<Rightarrow> string list \<Rightarrow> string \<Rightarrow> string list \<Rightarrow> (db, oidc_error, password_result) prog" where
  "issue_for_password E jkt u c requested_scopes acr amr =
     thenp (guardp (''offline_access'' \<notin> set requested_scopes)
              (InvalidScope ''offline_access requires an interactive authorization code flow''))
    (let requested = (if requested_scopes = []
                      then filter (\<lambda>s. s \<noteq> ''offline_access'') (c_allowed_scopes c) else requested_scopes)
     in bindp (ask (resolve_names_for_client (e_collate E) (c_id c) requested (c_allowed_scopes c))) (\<lambda>scopes.
     bindp (query (resolve_role_claims (e_collate E) (u_id u))) (\<lambda>roles.
     bindp (query (resolve_mapped_claims E (c_id c) (Some u) scopes)) (\<lambda>mapped.
     let sid = sid_or_default E 2
     in bindp (lift (e_services E (u_realm_id u))) (\<lambda>svc.
     bindp (lift (issue_access_token E 7 svc (timestamp (e_clock E 4)) (subject_for E c (u_id u))
              (c_client_id c) scopes jkt None None
              (no_access_extra\<lparr>ax_custom_claims := mc_access_token mapped,
                 ax_additional_audiences := mc_access_audiences mapped\<rparr>))) (\<lambda>(_, access_token).
     bindp (lift (issue_id_token E svc (timestamp (e_clock E 6)) (subject_for E c (u_id u)) (c_client_id c)
              (password_id_extra E u access_token sid acr amr mapped roles))) (\<lambda>id_token.
     bindp (lift (maybe_encrypt_id_token E id_token c)) (\<lambda>id_token.
     bindp (lift (generate_opaque_token E 3)) (\<lambda>refresh_token.
     let s = password_session E u c scopes sid access_token refresh_token acr amr
     in thenp (session_create (e_db_now E) s)
       (thenp (exec (consent_grant (e_db_now E) (e_uuid E 5) (u_id u) (u_realm_id u) (c_id c) scopes))
       (thenp (exec (record_event E 1000 (login_event E u c s)))
         (ret \<lparr>pw_access_token = access_token, pw_refresh_token = refresh_token, pw_id_token = id_token,
               pw_token_type = token_type_of jkt, pw_session_id = s_id s, pw_user = u\<rparr>))))))))))))"

text \<open>The second factor: nothing to do, a challenge, a rejection or the methods that were shown.\<close>

datatype factor_outcome = Not_Enrolled | Challenge mfa_challenge | Rejected | Shown "string list"

(*@ oidc-oidc/src/flows/password.rs 281-303 second factor of the password flow *)
definition second_factor ::
  "env \<Rightarrow> user \<Rightarrow> realm \<Rightarrow> client \<Rightarrow> mfa_proof option \<Rightarrow> (db, oidc_error, factor_outcome) prog" where
  "second_factor E u r c proof =
     bindp (query (has_mfa (u_id u))) (\<lambda>enrolled.
     if \<not> enrolled then ret Not_Enrolled
     else case proof of
       Some p \<Rightarrow>
         bindp (verify_login E 1 (u_id u) (r_id r) (c_id c) p) (\<lambda>verified.
         case verified of None \<Rightarrow> ret Rejected | Some amr \<Rightarrow> ret (Shown amr))
     | None \<Rightarrow> bindp (begin_login E 0 1 1 (u_id u) (r_id r) (c_id c)) (\<lambda>ch. ret (Challenge ch)))"

(*@ oidc-oidc/src/flows/password.rs 320-352 required actions of the password flow *)
definition actions_owed ::
  "user \<Rightarrow> realm \<Rightarrow> client \<Rightarrow> bool \<Rightarrow> string list \<Rightarrow> string list \<Rightarrow> db \<Rightarrow> required_action list" where
  "actions_owed u r c enrolled requested_scopes requested_acr_values d =
     (let actions = pending_actions u r d
      in if step_up_wanted (flow_config_of (r_config r)) c requested_scopes requested_acr_values
            \<and> \<not> enrolled \<and> ConfigureMfa \<notin> set actions
         then actions @ [ConfigureMfa] else actions)"

definition finish_sign_in ::
  "env \<Rightarrow> string option \<Rightarrow> user \<Rightarrow> realm \<Rightarrow> client \<Rightarrow> string option \<Rightarrow> string list \<Rightarrow> string list \<Rightarrow> string list option
     \<Rightarrow> (db, oidc_error, password_outcome) prog" where
  "finish_sign_in E jkt u r c federation_amr requested_scopes requested_acr_values shown =
     bindp (query (actions_owed u r c (shown \<noteq> None) requested_scopes requested_acr_values)) (\<lambda>actions.
     if actions \<noteq> []
     then bindp (create_challenge E 1 2 3 u r (c_id c) actions) (\<lambda>ch. ret (Actions_Required ch))
     else bindp (issue_for_password E jkt u c requested_scopes
                   (if shown = None then acr_bronze else acr_silver) (session_methods shown federation_amr))
            (\<lambda>result. ret (Authenticated result)))"

text \<open>The sign-in of a user who has been found: the checks, the client, the second factor.\<close>

(*@ oidc-oidc/src/flows/password.rs 216-310 PasswordFlow::execute *)
definition sign_in_to_client ::
  "env \<Rightarrow> string \<Rightarrow> string \<Rightarrow> string option \<Rightarrow> realm \<Rightarrow> string option \<Rightarrow> mfa_proof option \<Rightarrow> string list
     \<Rightarrow> string list \<Rightarrow> user \<Rightarrow> string option \<Rightarrow> (db, oidc_error, password_outcome) prog" where
  "sign_in_to_client E email password client_id r jkt proof requested_scopes requested_acr_values u federation_amr =
     thenp (check_sign_in E (r_id r) email password (u, federation_amr))
    (bindp (query (client_in_realm (case client_id of None \<Rightarrow> ''admin-ui'' | Some i \<Rightarrow> i) (r_id r))) (\<lambda>c.
     bindp (some_or c InvalidClient) (\<lambda>c.
     thenp (guardp (c_enabled c) InvalidClient)
    (bindp (second_factor E u r c proof) (\<lambda>factor.
     case factor of
       Rejected \<Rightarrow> ret Mfa_Rejected
     | Challenge ch \<Rightarrow> ret (Mfa_Required ch)
     | Not_Enrolled \<Rightarrow> finish_sign_in E jkt u r c federation_amr requested_scopes requested_acr_values None
     | Shown amr \<Rightarrow> finish_sign_in E jkt u r c federation_amr requested_scopes requested_acr_values (Some amr))))))"

(*@ oidc-oidc/src/flows/password.rs 111-215 PasswordFlow::execute *)
definition password_flow ::
  "env \<Rightarrow> string \<Rightarrow> string \<Rightarrow> string option \<Rightarrow> string option \<Rightarrow> string option \<Rightarrow> mfa_proof option \<Rightarrow> string list
     \<Rightarrow> string list \<Rightarrow> string option \<Rightarrow> (db, oidc_error, password_outcome) prog" where
  "password_flow E email password client_id realm_name jkt proof requested_scopes requested_acr_values kerberos =
     thenp (guardp (kerberos \<noteq> None \<or> trim email \<noteq> [] \<and> length email \<le> 320) bad_credentials)
    (thenp (guardp (kerberos \<noteq> None \<or> password \<noteq> [] \<and> 8 \<le> length password) bad_credentials)
    (with_transaction
       (bindp (query (realm_by_name (case realm_name of None \<Rightarrow> ''master'' | Some n \<Rightarrow> n))) (\<lambda>r.
        bindp (some_or r bad_credentials) (\<lambda>r.
        thenp (guardp (r_enabled r) (AuthorizationDenied ''Realm disabled''))
       (bindp (query (\<lambda>d. if kerberos \<noteq> None then 0 else count_recent_failures (e_db_now E) email (r_id r) d)) (\<lambda>failures.
        thenp (guardp (failures < 5) (AuthorizationDenied ''Too many failed attempts. Please try again later.''))
       (bindp (sign_in_user E (r_id r) email password kerberos) (\<lambda>(u, federation_amr).
        sign_in_to_client E email password client_id r jkt proof requested_scopes requested_acr_values u federation_amr)))))))))"


section \<open>The login endpoint\<close>

(*@ oidc-oidc/src/endpoints/login.rs 19-32 LoginRequest *)
record login_request =
  lr_email :: string
  lr_password :: string
  lr_client_id :: "string option"
  lr_realm :: "string option"
  lr_requested_scopes :: "string list"
  lr_requested_acr_values :: "string list"
  lr_mfa :: "mfa_proof option"

text \<open>A response of the endpoint: the tokens with the value of the session cookie, one of the challenges, or
  the refusal of a second factor, which is a response too; every other failure is an error.\<close>

datatype login_answer =
  Signed_In password_result string
| Factor_Challenge mfa_challenge
| Action_Challenge action_challenge
| Factor_Refused error_response

text \<open>The key of the cookie is decoded after the flow has committed.\<close>

(*@ oidc-oidc/src/endpoints/login.rs 120-206 execute_login *)
definition execute_login ::
  "env \<Rightarrow> string result \<Rightarrow> login_request \<Rightarrow> string option \<Rightarrow> (db, error_response, login_answer) prog" where
  "execute_login E cookie_key req kerberos d =
     (case password_flow E (lr_email req) (lr_password req) (lr_client_id req) (lr_realm req) None (lr_mfa req)
             (lr_requested_scopes req) (lr_requested_acr_values req) kerberos d of
        (Inl err, e) \<Rightarrow> (Inl (from_oidc_error err), e)
      | (Inr (Mfa_Required ch), e) \<Rightarrow> (Inr (Factor_Challenge ch), e)
      | (Inr (Actions_Required ch), e) \<Rightarrow> (Inr (Action_Challenge ch), e)
      | (Inr Mfa_Rejected, e) \<Rightarrow>
          (Inr (Factor_Refused (from_oidc_error (AuthenticationFailed ''MFA verification failed''))), e)
      | (Inr (Authenticated r), e) \<Rightarrow>
          (map_err from_oidc_error (bindr cookie_key (\<lambda>key.
             Inr (Signed_In r (session_cookie_header E (e_uuid_text E (pw_session_id r)) key)))), e))"

(*@ oidc-oidc/src/endpoints/login.rs 71-76 login_handler *)
definition login_handler :: "env \<Rightarrow> string result \<Rightarrow> login_request \<Rightarrow> (db, error_response, login_answer) prog" where
  "login_handler E cookie_key req = execute_login E cookie_key req None"

text \<open>Every error, and a missing ticket, is answered with the same challenge, here \<open>None\<close>.\<close>

(*@ oidc-oidc/src/endpoints/login.rs 79-105 kerberos_login_handler *)
definition kerberos_login_handler ::
  "env \<Rightarrow> string result \<Rightarrow> string option \<Rightarrow> login_request \<Rightarrow> db \<Rightarrow> login_answer option \<times> db" where
  "kerberos_login_handler E cookie_key authorization req d =
     (case Option.bind (Option.bind authorization (\<lambda>h. strip_prefix h ''Negotiate ''))
             (\<lambda>t. if trim t = [] then None else Some t) of
        None \<Rightarrow> (None, d)
      | Some token \<Rightarrow>
          (case execute_login E cookie_key (req\<lparr>lr_email := [], lr_password := []\<rparr>) (Some token) d of
             (Inl _, e) \<Rightarrow> (None, e)
           | (Inr answer, e) \<Rightarrow> (Some answer, e)))"

end
