(* ===== verification/Mfa_Props.thy ===== *)
theory Mfa_Props
  imports Mfa
begin

text \<open>What the second factors guarantee.  A sign-in that passes has shown a fresh proof in a live ceremony
  of its own, which is then spent; and over any history of operations at most five proofs are judged in
  one ceremony and at most one is accepted.\<close>

section \<open>Sign-in\<close>

definition login_error :: oidc_error where
  "login_error = AuthenticationFailed ''MFA challenge does not match this login''"

lemma verify_login_ok:
  assumes "verify_login E k uid realm cid p d = (Inr r, e)"
  obtains c m where "find_ceremony (sha2_256_hex E (lp_ceremony_token p)) d = Some c"
    "valid_ceremony c uid ''login'' (e_clock E k)" "mf_realm_id c = realm" "mf_client_id c = Some cid"
    "judge E (Suc k) uid (mf_state c) p d = (Inr r, m)"
    "e = (if r = None then fail_ceremony (mf_id c) m else use_ceremony (e_db_now E) (mf_id c) m)"
  using assms unfolding verify_login_def
  by (auto simp: prog_ok split: option.splits)

lemma judge_totp_Some:
  assumes "judge_totp E k uid code d = (Inr (Some amr), m)"
  obtains t secret step where "find_totp uid d = Some t" "e_decrypt E (tc_secret_encrypted t) = Inr secret"
    "matching_totp_step E secret (trim code) (timestamp (e_clock E k)) = Some step"
    "\<forall>v. tc_last_used_at t = Some v \<longrightarrow> timestamp v sdiv 30 < step"
    "m = touch_totp (e_db_now E) (tc_id t) d" "amr = [''pwd'', ''otp'', ''mfa'']"
  using assms unfolding judge_totp_def
  by (auto simp: prog_ok not_le split: option.splits if_split_asm)

lemma judge_recovery_Some:
  assumes "judge_recovery E uid code d = (Inr (Some amr), m)"
  obtains r where "r \<in> set (available_recovery_codes uid d)"
    "e_hasher_verify E (e_upper E (trim code)) (rv_code_hash r) = Inr True"
    "m = use_recovery_code (e_db_now E) (rv_id r) d" "amr = [''pwd'', ''recovery'', ''mfa'']"
  using assms unfolding judge_recovery_def
  by (auto simp: prog_ok split: option.splits dest: find_Some_set)

lemma judge_passkey_Some:
  assumes "judge_passkey E uid st response d = (Inr (Some amr), m)"
  obtains v w cred where "jget st ''webauthn'' = Some v" "v \<noteq> JNull" "w \<in> set (d_webauthn d)" "wc_user_id w = uid"
    "wc_credential_id w = fst response" "e_passkey_finish E v (snd response) (wc_credential w) = Some cred"
    "m = update_webauthn_counter (e_db_now E) (wc_id w) cred d" "amr = [''pwd'', ''hwk'', ''user'', ''mfa'']"
  using assms unfolding judge_passkey_def
  by (auto simp: prog_ok list_webauthn_def bind_eq_Some_conv split: option.splits if_split_asm dest!: find_Some_set)

lemma judge_keeps: "d_ceremonies (snd (judge E k uid st p d)) = d_ceremonies d"
proof -
  have "preserves (\<lambda>e. d_ceremonies e = d_ceremonies d) (judge E k uid st p)"
    unfolding judge_def judge_totp_def judge_recovery_def judge_passkey_def
    by (intro preserves_cases preserves_bindp preserves_thenp preserves_if preserves_intros preserves_exec)
      (simp_all add: touch_totp_def use_recovery_code_def update_webauthn_counter_def)
  then show ?thesis
    by (rule preserves_snd) (rule refl)
qed

text \<open>What a proof that is accepted has shown, by its kind.\<close>

definition app_shown :: "env \<Rightarrow> instant \<Rightarrow> uuid \<Rightarrow> mfa_proof \<Rightarrow> db \<Rightarrow> bool" where
  "app_shown E now uid p d \<longleftrightarrow>
     (\<exists>code t secret step. lp_totp_code p = Some code \<and> find_totp uid d = Some t
        \<and> e_decrypt E (tc_secret_encrypted t) = Inr secret \<and> trim code = totp_at E secret step
        \<and> \<bar>step - timestamp now sdiv 30\<bar> \<le> 1
        \<and> (\<forall>v. tc_last_used_at t = Some v \<longrightarrow> timestamp v sdiv 30 < step))"

definition code_shown :: "env \<Rightarrow> uuid \<Rightarrow> mfa_proof \<Rightarrow> db \<Rightarrow> db \<Rightarrow> bool" where
  "code_shown E uid p d e \<longleftrightarrow>
     (\<exists>code r. lp_recovery_code p = Some code \<and> r \<in> set (available_recovery_codes uid d)
        \<and> e_hasher_verify E (e_upper E (trim code)) (rv_code_hash r) = Inr True
        \<and> r \<notin> set (available_recovery_codes uid e)
        \<and> set (available_recovery_codes uid e) \<subseteq> set (available_recovery_codes uid d))"

definition passkey_shown :: "env \<Rightarrow> uuid \<Rightarrow> json \<Rightarrow> mfa_proof \<Rightarrow> db \<Rightarrow> bool" where
  "passkey_shown E uid st p d \<longleftrightarrow>
     (\<exists>response v w cred. lp_webauthn_response p = Some response \<and> jget st ''webauthn'' = Some v
        \<and> w \<in> set (d_webauthn d) \<and> wc_user_id w = uid \<and> wc_credential_id w = fst response
        \<and> e_passkey_finish E v (snd response) (wc_credential w) = Some cred)"

lemma matching_step_near:
  "matching_totp_step E secret code now = Some step \<Longrightarrow> code = totp_at E secret step \<and> \<bar>step - now sdiv 30\<bar> \<le> 1"
  by (auto dest!: matching_totp_step_Some)

lemma used_code_unavailable:
  assumes "r \<in> set (available_recovery_codes uid d)"
    and "d_recovery_codes e = d_recovery_codes (use_recovery_code now (rv_id r) d)"
  shows "r \<notin> set (available_recovery_codes uid e)
    \<and> set (available_recovery_codes uid e) \<subseteq> set (available_recovery_codes uid d)"
proof -
  let ?P = "\<lambda>x. rv_id x = rv_id r \<and> rv_used_at x = None"
  have rows: "d_recovery_codes e = update_where ?P (\<lambda>x. x\<lparr>rv_used_at := Some now\<rparr>) (d_recovery_codes d)"
    using assms(2) by (simp add: use_recovery_code_def)
  have "x \<in> set (d_recovery_codes d) \<and> \<not> ?P x" if x: "x \<in> set (available_recovery_codes uid e)" for x
  proof -
    have x': "x \<in> set (d_recovery_codes e)" "rv_used_at x = None"
      using x unfolding available_recovery_codes_def by auto
    from x'(1) [unfolded rows update_where_elem] obtain y where "y \<in> set (d_recovery_codes d)"
      "?P y \<and> x = y\<lparr>rv_used_at := Some now\<rparr> \<or> \<not> ?P y \<and> x = y"
      by (elim bexE)
    moreover have "rv_used_at (y\<lparr>rv_used_at := Some now\<rparr>) \<noteq> None"
      by simp
    ultimately show ?thesis
      using x'(2) by metis
  qed
  then show ?thesis
    using assms(1) by (auto simp: available_recovery_codes_def)
qed

lemma use_ceremony_keeps [simp]: "d_recovery_codes (use_ceremony now i d) = d_recovery_codes d"
  by (simp add: use_ceremony_def)

definition ceremonies_ok :: "mfa_ceremony list \<Rightarrow> bool" where
  "ceremonies_ok tbl \<longleftrightarrow> distinct (map mf_id tbl) \<and> distinct (map mf_token_hash tbl)"

lemma find_ceremony_set: "find_ceremony h d = Some c \<Longrightarrow> c \<in> set (d_ceremonies d) \<and> mf_token_hash c = h"
  by (auto simp: find_ceremony_def dest: find_Some_set)

lemma find_hash_update:
  assumes "\<And>x. mf_token_hash (f x) = mf_token_hash x"
  shows "List.find (\<lambda>c. mf_token_hash c = h) (update_where P f tbl)
    = map_option (\<lambda>c. if P c then f c else c) (List.find (\<lambda>c. mf_token_hash c = h) tbl)"
  using assms by (intro find_update_where) simp

lemma spent_ceremony_refused:
  assumes "find_ceremony h d = Some c" and "d_ceremonies e = d_ceremonies (use_ceremony now (mf_id c) d)"
    and "sha2_256_hex E (lp_ceremony_token p) = h"
  shows "fst (verify_login E k uid realm cid p e) = Inl challenge_error"
proof -
  have "find_ceremony h e = Some (if mf_used_at c = None then c\<lparr>mf_used_at := Some now\<rparr> else c)"
    using assms(1,2) by (simp add: find_ceremony_def use_ceremony_def find_hash_update)
  then have "\<exists>c'. find_ceremony h e = Some c' \<and> mf_used_at c' \<noteq> None"
    by auto
  then show ?thesis
    using assms(3) by (auto simp: verify_login_def valid_ceremony_def run_bindp run_thenp)
qed

text \<open>C19 A sign-in passes the second factor only in a ceremony that was started for the same user, realm and
  client, has not expired, is unused and has had fewer than five wrong proofs; and only with a proof that is
  fresh: a code of the user's authenticator app for a time step within one of the present and later than
  the step of the last use, an unused recovery code, which is used afterwards, or a response of one of the
  user's passkeys to the challenge of the ceremony.  The methods of the session name that proof, and the
  ceremony is spent: no proof is accepted in it again.\<close>

theorem second_factor_sound:
  assumes "verify_login E k uid realm cid p d = (Inr (Some amr), e)"
  shows "\<exists>c. find_ceremony (sha2_256_hex E (lp_ceremony_token p)) d = Some c
    \<and> mf_user_id c = uid \<and> mf_realm_id c = realm \<and> mf_client_id c = Some cid \<and> mf_purpose c = ''login''
    \<and> mf_used_at c = None \<and> e_clock E k < mf_expires_at c \<and> mf_attempts c < 5
    \<and> (amr = [''pwd'', ''otp'', ''mfa''] \<and> app_shown E (e_clock E (Suc k)) uid p d
       \<or> amr = [''pwd'', ''recovery'', ''mfa''] \<and> code_shown E uid p d e
       \<or> amr = [''pwd'', ''hwk'', ''user'', ''mfa''] \<and> passkey_shown E uid (mf_state c) p d)
    \<and> (\<forall>F j uid' realm' cid' q. sha2_256_hex F (lp_ceremony_token q) = sha2_256_hex E (lp_ceremony_token p)
         \<longrightarrow> fst (verify_login F j uid' realm' cid' q e) = Inl challenge_error)"
proof -
  from verify_login_ok [OF assms] obtain c m where c: "find_ceremony (sha2_256_hex E (lp_ceremony_token p)) d = Some c"
    "valid_ceremony c uid ''login'' (e_clock E k)" "mf_realm_id c = realm" "mf_client_id c = Some cid"
    and judged: "judge E (Suc k) uid (mf_state c) p d = (Inr (Some amr), m)"
    and e: "e = use_ceremony (e_db_now E) (mf_id c) m"
    by (metis option.distinct(1))
  have "d_ceremonies m = d_ceremonies d"
    using judge_keeps [of E "Suc k" uid "mf_state c" p d] judged by simp
  then have "d_ceremonies e = d_ceremonies (use_ceremony (e_db_now E) (mf_id c) d)"
    by (simp add: e use_ceremony_def)
  note spent = spent_ceremony_refused [OF c(1) this]
  have "amr = [''pwd'', ''otp'', ''mfa''] \<and> app_shown E (e_clock E (Suc k)) uid p d
       \<or> amr = [''pwd'', ''recovery'', ''mfa''] \<and> code_shown E uid p d e
       \<or> amr = [''pwd'', ''hwk'', ''user'', ''mfa''] \<and> passkey_shown E uid (mf_state c) p d"
  proof (cases "lp_totp_code p")
    case (Some code)
    then have "judge_totp E (Suc k) uid code d = (Inr (Some amr), m)"
      using judged by (simp add: judge_def)
    then show ?thesis
      by (rule judge_totp_Some) (use Some in \<open>auto simp: app_shown_def dest!: matching_step_near\<close>)
  next
    case no_app: None
    show ?thesis
    proof (cases "lp_recovery_code p")
      case (Some code)
      then have "judge_recovery E uid code d = (Inr (Some amr), m)"
        using judged no_app by (simp add: judge_def)
      then obtain r where r: "r \<in> set (available_recovery_codes uid d)"
        "e_hasher_verify E (e_upper E (trim code)) (rv_code_hash r) = Inr True"
        "m = use_recovery_code (e_db_now E) (rv_id r) d" "amr = [''pwd'', ''recovery'', ''mfa'']"
        by (rule judge_recovery_Some)
      have "d_recovery_codes e = d_recovery_codes (use_recovery_code (e_db_now E) (rv_id r) d)"
        by (simp add: e r(3))
      from used_code_unavailable [OF r(1) this] show ?thesis
        using r Some by (auto simp: code_shown_def)
    next
      case None
      then obtain response where "lp_webauthn_response p = Some response"
        using judged no_app by (auto simp: judge_def ret_def split: option.splits)
      moreover from this have "judge_passkey E uid (mf_state c) response d = (Inr (Some amr), m)"
        using judged no_app None by (simp add: judge_def)
      ultimately show ?thesis
        by (auto simp: passkey_shown_def elim!: judge_passkey_Some)
    qed
  qed
  with c spent show ?thesis
    by (intro exI [of _ c]) (auto simp: valid_ceremony_def max_attempts_def)
qed


section \<open>The life of a ceremony\<close>

text \<open>The operations on second factors, each with its own environment.\<close>

datatype mfa_op =
    Totp_Start env hub "string option"
  | Totp_Finish env hub "string option" string string "string option"
  | Passkey_Start env hub "string option"
  | Passkey_Finish env hub "string option" string json "string option"
  | Regenerate env hub "string option"
  | Delete_Totp env hub "string option"
  | Delete_Passkey env hub "string option" "uuid option"
  | Begin_Login env nat nat nat uuid uuid uuid
  | Verify_Login env nat uuid uuid uuid mfa_proof

fun after_mfa :: "mfa_op \<Rightarrow> db \<Rightarrow> db" where
  "after_mfa (Totp_Start E H a) d = snd (totp_start E H a d)"
| "after_mfa (Totp_Finish E H a t c l) d = snd (totp_finish E H a t c l d)"
| "after_mfa (Passkey_Start E H a) d = snd (webauthn_start E H a d)"
| "after_mfa (Passkey_Finish E H a t r l) d = snd (webauthn_finish E H a t r l d)"
| "after_mfa (Regenerate E H a) d = snd (recovery_regenerate E H a d)"
| "after_mfa (Delete_Totp E H a) d = snd (delete_totp_handler E H a d)"
| "after_mfa (Delete_Passkey E H a i) d = snd (delete_webauthn_handler E H a i d)"
| "after_mfa (Begin_Login E n i k uid realm cid) d = snd (begin_login E n i k uid realm cid d)"
| "after_mfa (Verify_Login E k uid realm cid p) d = snd (verify_login E k uid realm cid p d)"

text \<open>The proof shown in the ceremony with this hash is judged, and accepted.\<close>

fun judged :: "string \<Rightarrow> mfa_op \<Rightarrow> db \<Rightarrow> bool" where
  "judged h (Verify_Login E k uid realm cid p) d \<longleftrightarrow>
     sha2_256_hex E (lp_ceremony_token p) = h \<and> is_ok (fst (verify_login E k uid realm cid p d))"
| "judged h _ d \<longleftrightarrow> False"

fun accepted :: "string \<Rightarrow> mfa_op \<Rightarrow> db \<Rightarrow> bool" where
  "accepted h (Verify_Login E k uid realm cid p) d \<longleftrightarrow>
     sha2_256_hex E (lp_ceremony_token p) = h \<and> (\<exists>amr. fst (verify_login E k uid realm cid p d) = Inr (Some amr))"
| "accepted h _ d \<longleftrightarrow> False"

fun judgements :: "string \<Rightarrow> mfa_op list \<Rightarrow> db \<Rightarrow> nat" where
  "judgements h [] d = 0"
| "judgements h (op # ops) d = (if judged h op d then 1 else 0) + judgements h ops (after_mfa op d)"

fun acceptances :: "string \<Rightarrow> mfa_op list \<Rightarrow> db \<Rightarrow> nat" where
  "acceptances h [] d = 0"
| "acceptances h (op # ops) d = (if accepted h op d then 1 else 0) + acceptances h ops (after_mfa op d)"

text \<open>What one operation does to the table of ceremonies.\<close>

definition failed_row :: "mfa_ceremony \<Rightarrow> mfa_ceremony" where
  "failed_row c = c\<lparr>mf_attempts := mf_attempts c + 1\<rparr>"

definition used_row :: "instant \<Rightarrow> mfa_ceremony \<Rightarrow> mfa_ceremony" where
  "used_row now c = c\<lparr>mf_used_at := Some now\<rparr>"

inductive ceremony_step :: "mfa_ceremony list \<Rightarrow> mfa_ceremony list \<Rightarrow> bool" for tbl where
  same: "ceremony_step tbl tbl"
| started: "mf_attempts c = 0 \<Longrightarrow> mf_used_at c = None \<Longrightarrow> \<forall>x \<in> set tbl. mf_id x \<noteq> mf_id c \<and> mf_token_hash x \<noteq> mf_token_hash c
    \<Longrightarrow> ceremony_step tbl (tbl @ [c])"
| failed: "ceremony_step tbl (update_where (\<lambda>x. mf_id x = i) failed_row tbl)"
| used: "ceremony_step tbl (update_where (\<lambda>x. mf_id x = i \<and> mf_used_at x = None) (used_row now) tbl)"

lemma row_keys [simp]:
  "mf_id (failed_row c) = mf_id c" "mf_token_hash (failed_row c) = mf_token_hash c"
  "mf_id (used_row now c) = mf_id c" "mf_token_hash (used_row now c) = mf_token_hash c"
  "mf_used_at (failed_row c) = mf_used_at c" "mf_attempts (failed_row c) = mf_attempts c + 1"
  "mf_used_at (used_row now c) = Some now" "mf_attempts (used_row now c) = mf_attempts c"
  by (simp_all add: failed_row_def used_row_def)

lemma fail_rows: "d_ceremonies (fail_ceremony i d) = update_where (\<lambda>x. mf_id x = i) failed_row (d_ceremonies d)"
  by (simp add: fail_ceremony_def failed_row_def [abs_def])

lemma use_rows: "d_ceremonies (use_ceremony now i d)
    = update_where (\<lambda>x. mf_id x = i \<and> mf_used_at x = None) (used_row now) (d_ceremonies d)"
  by (simp add: use_ceremony_def used_row_def [abs_def])

abbreviation steps_from :: "mfa_ceremony list \<Rightarrow> db \<Rightarrow> bool" where
  "steps_from tbl \<equiv> (\<lambda>e. ceremony_step tbl (d_ceremonies e))"

lemma create_ceremony_leads:
  assumes "mf_attempts c = 0" and "mf_used_at c = None"
  shows "leads (\<lambda>e. d_ceremonies e = tbl) (steps_from tbl) (create_ceremony c)"
  using assms
  by (auto simp: leads_def create_ceremony_def run_bindp run_thenp run_combinators intro: ceremony_step.intros)

lemma new_ceremony_fresh [simp]:
  "mf_attempts (new_ceremony E i k token uid realm cid purpose st) = 0"
  "mf_used_at (new_ceremony E i k token uid realm cid purpose st) = None"
  by (simp_all add: new_ceremony_def)

lemma insert_recovery_codes_keep:
  "preserves (\<lambda>e. d_ceremonies e = tbl) (insert_recovery_codes cs)"
proof (induction cs)
  case (Cons c cs)
  then show ?case
    unfolding insert_recovery_codes.simps
    by (intro preserves_bindp preserves_thenp preserves_intros preserves_exec) simp_all
qed (simp add: preserves_intros)

lemma replace_recovery_keeps: "preserves (\<lambda>e. P (d_ceremonies e)) (replace_recovery E n i uid)"
proof -
  have "P (d_ceremonies (snd (insert_recovery_codes cs e)))" if "P (d_ceremonies e)" for cs e
    using preserves_snd [OF insert_recovery_codes_keep, of e "d_ceremonies e"] that by simp
  then show ?thesis
    unfolding replace_recovery_def replace_recovery_codes_def case_prod_unfold
    by (intro preserves_bindp preserves_thenp preserves_intros preserves_exec) (simp_all add: preserves_def)
qed

lemma save_totp_keeps: "preserves (\<lambda>e. P (d_ceremonies e)) (save_totp t)"
  unfolding save_totp_def by (intro preserves_bindp preserves_thenp preserves_if preserves_intros preserves_exec) simp_all

lemma save_webauthn_keeps: "preserves (\<lambda>e. P (d_ceremonies e)) (save_webauthn w)"
  unfolding save_webauthn_def by (intro preserves_bindp preserves_thenp preserves_intros preserves_exec) simp_all

lemma leads_if: "leads I K m \<Longrightarrow> leads I K n \<Longrightarrow> leads I K (if b then m else n)"
  by simp

lemma leads_kept: "preserves I m \<Longrightarrow> (\<And>a. leads I K (f a)) \<Longrightarrow> (\<And>s. I s \<Longrightarrow> K s) \<Longrightarrow> leads I K (bindp m f)"
  by (rule leads_bindp [where J = I]) (simp_all add: leads_preserves)

lemma leads_then_kept: "leads I K m \<Longrightarrow> (\<And>a. preserves K (f a)) \<Longrightarrow> leads I K (bindp m f)"
  by (rule leads_bindp [where J = K]) (simp_all add: leads_preserves)

lemma start_step: "d_ceremonies e = tbl \<Longrightarrow> ceremony_step tbl (d_ceremonies e)"
  by (simp add: ceremony_step.same)

lemma fail_step: "d_ceremonies e = tbl \<Longrightarrow> ceremony_step tbl (d_ceremonies (fail_ceremony i e))"
  by (auto simp: fail_rows intro: ceremony_step.failed)

lemma use_step: "d_ceremonies e = tbl \<Longrightarrow> ceremony_step tbl (d_ceremonies (use_ceremony now i e))"
  by (auto simp: use_rows intro: ceremony_step.used)

lemma totp_start_leads: "leads (\<lambda>e. d_ceremonies e = tbl) (steps_from tbl) (totp_start E H a)"
  unfolding totp_start_def thenp_def Let_def
  by (rule leads_after_read, rule readonly_intros, erule start_step)+
    (rule leads_then_kept, rule create_ceremony_leads, simp, simp, rule preserves_intros)

lemma webauthn_start_leads: "leads (\<lambda>e. d_ceremonies e = tbl) (steps_from tbl) (webauthn_start E H a)"
  unfolding webauthn_start_def thenp_def Let_def case_prod_unfold
  by (rule leads_after_read, rule readonly_intros, erule start_step)+
    (rule leads_then_kept, rule create_ceremony_leads, simp, simp, rule preserves_intros)

lemma begin_login_leads: "leads (\<lambda>e. d_ceremonies e = tbl) (steps_from tbl) (begin_login E n i k uid realm cid)"
  unfolding begin_login_def thenp_def Let_def
  by (rule leads_after_read, rule readonly_intros, erule start_step)+
    (rule leads_then_kept, rule create_ceremony_leads, simp, simp, rule preserves_intros)

lemma totp_finish_leads: "leads (\<lambda>e. d_ceremonies e = tbl) (steps_from tbl) (totp_finish E H a t c l)"
  unfolding totp_finish_def thenp_def Let_def
  apply (rule leads_after_read, rule readonly_intros, erule start_step)+
  apply (rule leads_if)
   apply (rule leads_then_kept, rule leads_exec, erule fail_step, rule preserves_intros)
  apply (rule leads_kept, rule save_totp_keeps)
   apply (rule leads_then_kept, rule leads_exec, erule use_step, rule replace_recovery_keeps)
  apply (erule start_step)
  done

lemma webauthn_finish_leads: "leads (\<lambda>e. d_ceremonies e = tbl) (steps_from tbl) (webauthn_finish E H a t r l)"
  unfolding webauthn_finish_def thenp_def Let_def case_prod_unfold
  apply (rule leads_after_read, rule readonly_intros, erule start_step)+
  apply (rule leads_kept, rule save_webauthn_keeps)
   apply (rule leads_then_kept, rule leads_exec, erule use_step)
   apply (intro preserves_bindp preserves_if preserves_intros replace_recovery_keeps)
  apply (erule start_step)
  done

lemma kept_rows: "(\<And>P. preserves (\<lambda>e. P (d_ceremonies e)) m) \<Longrightarrow> d_ceremonies (snd (m d)) = d_ceremonies d"
  by (rule preserves_snd [where I = "\<lambda>e. d_ceremonies e = d_ceremonies d"]) simp_all

lemma judge_state: "judge E k uid st p d = (r, e) \<Longrightarrow> d_ceremonies e = d_ceremonies d"
  using judge_keeps [of E k uid st p d] by simp

lemma verify_login_cases:
  obtains (refused) err where "verify_login E k uid realm cid p d = (Inl err, d)"
  | (broken) err where "fst (verify_login E k uid realm cid p d) = Inl err"
      "d_ceremonies (snd (verify_login E k uid realm cid p d)) = d_ceremonies d"
  | (wrong) c where "find_ceremony (sha2_256_hex E (lp_ceremony_token p)) d = Some c"
      "mf_used_at c = None" "mf_attempts c < 5" "fst (verify_login E k uid realm cid p d) = Inr None"
      "d_ceremonies (snd (verify_login E k uid realm cid p d)) = update_where (\<lambda>x. mf_id x = mf_id c) failed_row (d_ceremonies d)"
  | (right) c amr where "find_ceremony (sha2_256_hex E (lp_ceremony_token p)) d = Some c"
      "mf_used_at c = None" "mf_attempts c < 5" "fst (verify_login E k uid realm cid p d) = Inr (Some amr)"
      "d_ceremonies (snd (verify_login E k uid realm cid p d))
         = update_where (\<lambda>x. mf_id x = mf_id c \<and> mf_used_at x = None) (used_row (e_db_now E)) (d_ceremonies d)"
proof (cases "verify_login E k uid realm cid p d")
  case (Pair r e)
  show thesis
  proof (cases r)
    case (Inl err)
    have "d_ceremonies e = d_ceremonies d"
      using Pair Inl unfolding verify_login_def
      by (auto dest: judge_state simp: bindp_def thenp_def query_def some_or_def guardp_def ret_def fail_def exec_def
          split: option.splits if_split_asm prod.splits sum.splits)
    then show thesis
      using Pair Inl broken by simp
  next
    case (Inr v)
    then have ok: "verify_login E k uid realm cid p d = (Inr v, e)"
      using Pair by simp
    then obtain c m where c: "find_ceremony (sha2_256_hex E (lp_ceremony_token p)) d = Some c"
      "valid_ceremony c uid ''login'' (e_clock E k)"
      and j: "judge E (Suc k) uid (mf_state c) p d = (Inr v, m)"
      and e: "e = (if v = None then fail_ceremony (mf_id c) m else use_ceremony (e_db_now E) (mf_id c) m)"
      by (rule verify_login_ok)
    have m: "d_ceremonies m = d_ceremonies d"
      using judge_keeps [of E "Suc k" uid "mf_state c" p d] j by simp
    have "mf_used_at c = None" "mf_attempts c < 5"
      using c(2) by (simp_all add: valid_ceremony_def max_attempts_def)
    then show thesis
      using wrong [OF c(1)] right [OF c(1)] ok e m by (cases v) (simp_all add: fail_rows use_rows)
  qed
qed

lemma after_mfa_step: "ceremony_step (d_ceremonies d) (d_ceremonies (after_mfa op d))"
proof (cases op)
  case (Totp_Start E H a)
  then show ?thesis
    using leads_snd [OF totp_start_leads refl] by simp
next
  case (Totp_Finish E H a t c l)
  then show ?thesis
    using leads_snd [OF totp_finish_leads refl] by simp
next
  case (Passkey_Start E H a)
  then show ?thesis
    using leads_snd [OF webauthn_start_leads refl] by simp
next
  case (Passkey_Finish E H a t r l)
  then show ?thesis
    using leads_snd [OF webauthn_finish_leads refl] by simp
next
  case (Begin_Login E n i k uid realm cid)
  then show ?thesis
    using leads_snd [OF begin_login_leads refl] by simp
next
  case (Regenerate E H a)
  have "preserves (\<lambda>e. P (d_ceremonies e)) (recovery_regenerate E H a)" for P
    unfolding recovery_regenerate_def
    by (intro preserves_bindp preserves_thenp preserves_intros replace_recovery_keeps)
  from kept_rows [OF this] show ?thesis
    using Regenerate by (simp add: ceremony_step.same)
next
  case (Delete_Totp E H a)
  have "preserves (\<lambda>e. P (d_ceremonies e)) (delete_totp_handler E H a)" for P
    unfolding delete_totp_handler_def
    by (intro preserves_bindp preserves_intros preserves_exec) (simp add: delete_totp_def)
  from kept_rows [OF this] show ?thesis
    using Delete_Totp by (simp add: ceremony_step.same)
next
  case (Delete_Passkey E H a i)
  have "preserves (\<lambda>e. P (d_ceremonies e)) (delete_webauthn_handler E H a i)" for P
    unfolding delete_webauthn_handler_def
    by (intro preserves_bindp preserves_intros preserves_exec) (simp add: delete_webauthn_def)
  from kept_rows [OF this] show ?thesis
    using Delete_Passkey by (simp add: ceremony_step.same)
next
  case (Verify_Login E k uid realm cid p)
  then show ?thesis
    by (cases rule: verify_login_cases [of E k uid realm cid p d])
      (auto intro: ceremony_step.intros)
qed


text \<open>How many proofs can still be judged in a ceremony.\<close>

definition budget :: "string \<Rightarrow> mfa_ceremony list \<Rightarrow> nat" where
  "budget h tbl = (case List.find (\<lambda>c. mf_token_hash c = h) tbl of
      None \<Rightarrow> 5
    | Some c \<Rightarrow> if mf_used_at c = None then nat (5 - mf_attempts c) else 0)"

lemma budget_step: "ceremony_step tbl tbl' \<Longrightarrow> budget h tbl' \<le> budget h tbl"
proof (induction rule: ceremony_step.induct)
  case (started c)
  then show ?case
    by (auto simp: budget_def find_append split: option.splits)
qed (auto simp: budget_def find_hash_update split: option.splits)

lemma ceremonies_ok_step: "ceremony_step tbl tbl' \<Longrightarrow> ceremonies_ok tbl \<Longrightarrow> ceremonies_ok tbl'"
  by (induction rule: ceremony_step.induct) (auto simp: ceremonies_ok_def map_update_where)

lemma judged_budget:
  assumes "judged h op d"
  shows "Suc (budget h (d_ceremonies (after_mfa op d))) \<le> budget h (d_ceremonies d)"
    and "accepted h op d \<Longrightarrow> budget h (d_ceremonies (after_mfa op d)) = 0"
proof -
  from assms obtain E k uid realm cid p where op: "op = Verify_Login E k uid realm cid p"
    and h: "sha2_256_hex E (lp_ceremony_token p) = h" and ok: "is_ok (fst (verify_login E k uid realm cid p d))"
    by (cases op) auto
  have "Suc (budget h (d_ceremonies (after_mfa op d))) \<le> budget h (d_ceremonies d)
    \<and> (accepted h op d \<longrightarrow> budget h (d_ceremonies (after_mfa op d)) = 0)"
    by (cases rule: verify_login_cases [of E k uid realm cid p d])
      (use op h ok in \<open>auto simp: budget_def find_ceremony_def find_hash_update\<close>)
  then show "Suc (budget h (d_ceremonies (after_mfa op d))) \<le> budget h (d_ceremonies d)"
    and "accepted h op d \<Longrightarrow> budget h (d_ceremonies (after_mfa op d)) = 0"
    by blast+
qed

lemma accepted_judged: "accepted h op d \<Longrightarrow> judged h op d"
  by (cases op) auto

lemma judgements_budget: "judgements h ops d \<le> budget h (d_ceremonies d)"
proof (induction ops arbitrary: d)
  case (Cons op ops)
  have "judgements h ops (after_mfa op d) \<le> budget h (d_ceremonies (after_mfa op d))"
    by (rule Cons.IH)
  then show ?case
    using judged_budget(1) [of h op d] budget_step [OF after_mfa_step [of d op], of h] by auto
qed simp

lemma acceptances_budget: "acceptances h ops d \<le> (if budget h (d_ceremonies d) = 0 then 0 else 1)"
proof (induction ops arbitrary: d)
  case (Cons op ops)
  show ?case
  proof (cases "accepted h op d")
    case True
    then show ?thesis
      using Cons.IH [of "after_mfa op d"] judged_budget [OF accepted_judged [OF True]] by simp
  next
    case False
    then show ?thesis
      using Cons.IH [of "after_mfa op d"] budget_step [OF after_mfa_step [of d op], of h] by (auto split: if_splits)
  qed
qed simp

text \<open>Over any sequence of operations on second factors, at most five proofs are judged in a ceremony,
  at most one of them is accepted, and none is judged after it: a wrong proof costs an attempt and a right
  one spends the ceremony, and no other operation gives attempts back.  The number is one of the ceremony:
  the password alone starts another one.\<close>

theorem ceremony_budget:
  assumes "\<forall>c \<in> set (d_ceremonies d). 0 \<le> mf_attempts c"
  shows "judgements h ops d \<le> 5 \<and> acceptances h ops d \<le> 1
    \<and> (accepted h op d \<longrightarrow> judgements h ops (after_mfa op d) = 0)"
proof -
  have "budget h (d_ceremonies d) \<le> 5"
    using assms by (auto simp: budget_def nat_le_iff split: option.splits dest!: find_Some_set)
  moreover have "acceptances h ops d \<le> 1"
    using acceptances_budget [of h ops d] by (simp split: if_splits)
  ultimately show ?thesis
    using judgements_budget [of h ops d] judgements_budget [of h ops "after_mfa op d"]
      judged_budget(2) [OF accepted_judged] by fastforce
qed


section \<open>A concrete sign-in\<close>

definition mfa_db :: db where
  "mfa_db = empty_db\<lparr>d_users := [sample_user],
     d_ceremonies := [\<lparr>mf_id = 80, mf_token_hash = ''tok'', mf_user_id = 7, mf_realm_id = 3, mf_client_id = Some 5,
       mf_purpose = ''login'', mf_state = JObj [], mf_attempts = 4, mf_expires_at = 10, mf_used_at = None,
       mf_created_at = 0\<rparr>],
     d_recovery_codes := [\<lparr>rv_id = 81, rv_user_id = 7, rv_code_hash = ''CODE'', rv_used_at = None\<rparr>]\<rparr>"

definition code_proof :: mfa_proof where
  "code_proof = \<lparr>lp_ceremony_token = ''tok'', lp_totp_code = None, lp_recovery_code = Some ''CODE'',
     lp_webauthn_response = None\<rparr>"

lemma mfa_db_run:
  "fst (verify_login sample_env 0 7 3 5 code_proof mfa_db) = Inr (Some [''pwd'', ''recovery'', ''mfa''])"
proof -
  have code: "trim ''CODE'' = ''CODE''"
    by code_simp
  have "sha2_256_hex sample_env ''tok'' = ''tok''" "e_upper sample_env = (\<lambda>s. s)" "e_clock sample_env n = 0"
    "e_hasher_verify sample_env = (\<lambda>p h. Inr (p = h))" for n
    by (simp_all add: sha2_256_hex_def sample_env_def)
  then show ?thesis
    by (simp add: verify_login_def judge_def judge_recovery_def code_proof_def code mfa_db_def find_ceremony_def
        valid_ceremony_def max_attempts_def available_recovery_codes_def prog_run bindp_def thenp_def)
qed

lemma second_factor_sound_witness:
  "\<exists>e. verify_login sample_env 0 7 3 5 code_proof mfa_db = (Inr (Some [''pwd'', ''recovery'', ''mfa'']), e)
     \<and> fst (verify_login sample_env 0 7 3 5 code_proof e) = Inl challenge_error"
proof -
  obtain e where "verify_login sample_env 0 7 3 5 code_proof mfa_db = (Inr (Some [''pwd'', ''recovery'', ''mfa'']), e)"
    using mfa_db_run by (metis prod.collapse)
  then show ?thesis
    using second_factor_sound by blast
qed

lemma ceremony_budget_witness:
  "judgements ''tok'' (replicate 9 (Verify_Login sample_env 0 7 3 5 code_proof)) mfa_db \<le> 5"
proof -
  have "\<forall>c \<in> set (d_ceremonies mfa_db). 0 \<le> mf_attempts c"
    by (simp add: mfa_db_def)
  then show ?thesis
    using ceremony_budget by blast
qed

end
