(* ===== verification/Password_Props.thy ===== *)
theory Password_Props
  imports Password Mfa_Props
begin

text \<open>What a sign-in with a password guarantees, what its lock-out does not, and the sign-in that asks for a
  second factor it then refuses to enrol.\<close>

section \<open>A completed sign-in\<close>

lemma finish_sign_in_ok:
  assumes "finish_sign_in E jkt u r c federation_amr scopes acrs shown d = (Inr (Authenticated res), e)"
  shows "actions_owed u r c (shown \<noteq> None) scopes acrs d = []
    \<and> issue_for_password E jkt u c scopes (if shown = None then acr_bronze else acr_silver)
        (session_methods shown federation_amr) d = (Inr res, e)"
  using assms unfolding finish_sign_in_def
  by (auto simp: prog_ok split: if_split_asm)

lemma second_factor_ok:
  assumes "second_factor E u r c proof d = (Inr factor, e)"
  shows "factor = Not_Enrolled \<and> \<not> has_mfa (u_id u) d \<and> e = d
    \<or> (\<exists>ch. factor = Challenge ch) \<or> factor = Rejected
    \<or> (\<exists>p amr. factor = Shown amr \<and> has_mfa (u_id u) d \<and> proof = Some p
         \<and> verify_login E 1 (u_id u) (r_id r) (c_id c) p d = (Inr (Some amr), e))"
  using assms unfolding second_factor_def
  by (auto simp: prog_ok split: if_split_asm option.splits)

text \<open>Who signed in: the directory, or the password against the stored hash.\<close>

definition proved_by :: "env \<Rightarrow> uuid \<Rightarrow> string \<Rightarrow> string \<Rightarrow> string option \<Rightarrow> user \<Rightarrow> string option \<Rightarrow> db \<Rightarrow> bool" where
  "proved_by E realm identifier password kerberos u amr d \<longleftrightarrow>
     (case amr of
        None \<Rightarrow> kerberos = None \<and> local_user E realm identifier d = Some u
          \<and> (\<exists>h. u_password_hash u = Some h \<and> e_hasher_verify E password h = Inr True)
      | Some f \<Rightarrow> \<exists>p \<in> set (d_providers d). fp_realm_id p = realm \<and> fp_enabled p \<and> fp_deleted_at p = None
          \<and> (case kerberos of
               Some ticket \<Rightarrow> fp_provider_type p = Kerberos \<and> f = ''kerberos''
                 \<and> (\<exists>du. kerberos_login E p ticket = Inr (Some du) \<and> u_email u = du_email du)
             | None \<Rightarrow> fp_provider_type p \<noteq> Kerberos \<and> f = federation_type_text (fp_provider_type p)
                 \<and> (\<exists>du. directory_login E p identifier password = Inr (Some du) \<and> u_email u = du_email du)))"

lemma import_user_email:
  assumes "import_user E i k p du login d = (Inr u, e)"
  shows "u_email u = du_email du"
  using assms unfolding import_user_def Let_def
  by (auto simp: prog_ok with_directory_values_def split: option.splits)

lemma try_directories_ok:
  assumes "try_directories E login ps d = (Inr (Some (u, f)), e)"
  shows "\<exists>p \<in> set ps. \<exists>du. login p = Inr (Some du) \<and> u_email u = du_email du
    \<and> f = federation_type_text (fp_provider_type p)"
  using assms
proof (induction ps)
  case Nil
  then show ?case
    by (simp add: prog_ok)
next
  case (Cons p ps)
  show ?case
  proof (cases "\<exists>du. login p = Inr (Some du)")
    case True
    then obtain du where "login p = Inr (Some du)"
      by blast
    with Cons.prems show ?thesis
      by (auto simp: prog_ok dest: import_user_email)
  next
    case False
    with Cons.prems have "try_directories E login ps d = (Inr (Some (u, f)), e)"
      by (auto split: sum.splits option.splits)
    with Cons.IH show ?thesis
      by auto
  qed
qed

lemma sign_in_user_ok:
  assumes "sign_in_user E realm identifier password kerberos d = (Inr (u, amr), m)"
    and "amr = None \<longrightarrow> (\<exists>h. u_password_hash u = Some h \<and> e_hasher_verify E password h = Inr True)"
  shows "proved_by E realm identifier password kerberos u amr d"
proof (cases kerberos)
  case (Some ticket)
  with assms(1) show ?thesis
    unfolding sign_in_user_def authenticate_kerberos_directory_def proved_by_def
    by (auto simp: prog_ok enabled_providers_def map_option_case dest!: try_directories_ok split: option.splits) blast
next
  case None
  show ?thesis
  proof (cases "Option.bind (local_user E realm identifier d) (\<lambda>u. if u_password_hash u = None then None else Some u)")
    case None
    with \<open>kerberos = None\<close> assms(1) show ?thesis
      unfolding sign_in_user_def authenticate_directory_def proved_by_def
      by (auto simp: prog_ok enabled_providers_def dest!: try_directories_ok split: option.splits)
  next
    case (Some v)
    with \<open>kerberos = None\<close> assms show ?thesis
      unfolding sign_in_user_def proved_by_def
      by (auto simp: prog_ok bind_eq_Some_conv split: if_split_asm)
  qed
qed

lemma check_sign_in_ok:
  "check_sign_in E realm identifier password (u, amr) d = (Inr x, e) \<longleftrightarrow>
     e = d \<and> u_enabled u \<and> \<not> is_managed_user_blocked (u_id u) d
     \<and> (amr = None \<longrightarrow> (\<exists>h. u_password_hash u = Some h \<and> e_hasher_verify E password h = Inr True))"
proof -
  have "map_err f r = Inr b \<longleftrightarrow> r = Inr b" for f :: "'x \<Rightarrow> oidc_error" and r :: "'x + bool" and b
    by (cases r) (simp_all add: map_err_def)
  then show ?thesis
    unfolding check_sign_in_def by (cases amr) (auto simp: prog_ok)
qed

text \<open>What a completed sign-in has stored.\<close>

definition session_of_sign_in :: "env \<Rightarrow> user \<Rightarrow> client \<Rightarrow> string \<Rightarrow> string list \<Rightarrow> password_result \<Rightarrow> session \<Rightarrow> bool" where
  "session_of_sign_in E u c acr amr res s \<longleftrightarrow>
     s_id s = pw_session_id res \<and> s_user_id s = Some (u_id u) \<and> s_realm_id s = u_realm_id u
     \<and> s_client_id s = c_id c \<and> s_acr s = acr \<and> s_amr s = amr
     \<and> s_access_token_hash s = sha2_256_hex E (pw_access_token res)
     \<and> s_refresh_token_hash s = Some (sha2_256_hex E (pw_refresh_token res))
     \<and> \<not> s_revoked s \<and> \<not> s_family_revoked s \<and> \<not> s_offline_session s \<and> s_rotated_at s = None
     \<and> s_expires_at s = e_clock E 7 + minutes 15"

lemma password_session_offline [simp]: "s_offline_max_expires_at (password_session E u c scopes sid at rtok acr amr) = None"
  by (simp add: password_session_def Let_def)

lemma issue_for_password_ok:
  assumes "issue_for_password E jkt u c scopes acr amr d = (Inr res, e)"
  shows "''offline_access'' \<notin> set scopes \<and> pw_user res = u
    \<and> (\<exists>s. session_of_sign_in E u c acr amr res s \<and> (\<forall>x \<in> set (d_sessions d). s_id x \<noteq> s_id s)
         \<and> e = record_event E 1000 (login_event E u c s)
                 (consent_grant (e_db_now E) (e_uuid E 5) (u_id u) (u_realm_id u) (c_id c) (s_scope s)
                    (d\<lparr>d_sessions := d_sessions d @ [s]\<rparr>)))"
proof -
  from assms obtain names at rtok idt where offline: "''offline_access'' \<notin> set scopes"
    and res: "pw_user res = u" "pw_access_token res = at" "pw_refresh_token res = rtok"
      "pw_session_id res = s_id (password_session E u c names (sid_or_default E 2) at rtok acr amr)"
    and fresh: "\<forall>x \<in> set (d_sessions d). s_id x \<noteq> s_id (password_session E u c names (sid_or_default E 2) at rtok acr amr)"
    and e: "e = record_event E 1000 (login_event E u c (password_session E u c names (sid_or_default E 2) at rtok acr amr))
                 (consent_grant (e_db_now E) (e_uuid E 5) (u_id u) (u_realm_id u) (c_id c) names
                    (d\<lparr>d_sessions := d_sessions d @
                       [(password_session E u c names (sid_or_default E 2) at rtok acr amr)\<lparr>s_created_at := e_db_now E, s_last_used_at := None\<rparr>]\<rparr>))"
    unfolding issue_for_password_def Let_def
    by (auto simp: prog_ok)
  let ?s = "(password_session E u c names (sid_or_default E 2) at rtok acr amr)\<lparr>s_created_at := e_db_now E, s_last_used_at := None\<rparr>"
  have "session_of_sign_in E u c acr amr res ?s"
    using res by (simp add: session_of_sign_in_def password_session_def Let_def)
  moreover have "login_event E u c (password_session E u c names (sid_or_default E 2) at rtok acr amr) = login_event E u c ?s"
    by (simp add: login_event_def)
  moreover have "s_scope ?s = names"
    by (simp add: password_session_def Let_def)
  ultimately show ?thesis
    using offline res(1) fresh e by (intro conjI exI [of _ ?s]) simp_all
qed

text \<open>C20 A sign-in is completed only for an enabled realm and an enabled client of it, by an enabled user whom
  no disabled organization manages, and who has proved the stored password or been accepted by an enabled
  directory of the realm, of the kind that the request addresses.  A user with a second factor has passed
  it in this request, and exactly these sign-ins have the higher assurance; a user without one is asked
  neither for a step-up nor for any required action.  One new session with these facts is stored, without
  offline access, and the consent and the event are recorded.\<close>

theorem password_flow_sound:
  assumes "password_flow E identifier password cid name jkt proof scopes acrs kerberos d = (Inr (Authenticated res), e)"
  shows "\<exists>r c u amr m n verified s.
      realm_by_name (case name of None \<Rightarrow> ''master'' | Some v \<Rightarrow> v) d = Some r \<and> r_enabled r
    \<and> sign_in_user E (r_id r) identifier password kerberos d = (Inr (u, amr), m)
    \<and> proved_by E (r_id r) identifier password kerberos u amr d
    \<and> u_enabled u \<and> \<not> is_managed_user_blocked (u_id u) m
    \<and> client_in_realm (case cid of None \<Rightarrow> ''admin-ui'' | Some v \<Rightarrow> v) (r_id r) m = Some c \<and> c_enabled c
    \<and> (case verified of
         None \<Rightarrow> \<not> has_mfa (u_id u) m \<and> n = m
           \<and> \<not> step_up_wanted (flow_config_of (r_config r)) c scopes acrs
       | Some ms \<Rightarrow> has_mfa (u_id u) m \<and> (\<exists>p. proof = Some p
           \<and> verify_login E 1 (u_id u) (r_id r) (c_id c) p m = (Inr (Some ms), n)))
    \<and> pending_actions u r n = []
    \<and> ''offline_access'' \<notin> set scopes \<and> pw_user res = u
    \<and> session_of_sign_in E u c (if has_mfa (u_id u) m then acr_silver else acr_bronze) (session_methods verified amr) res s
    \<and> (\<forall>x \<in> set (d_sessions n). s_id x \<noteq> s_id s)
    \<and> e = record_event E 1000 (login_event E u c s)
            (consent_grant (e_db_now E) (e_uuid E 5) (u_id u) (u_realm_id u) (c_id c) (s_scope s)
               (n\<lparr>d_sessions := d_sessions n @ [s]\<rparr>))"
proof -
  from assms obtain r u amr m where
    r: "realm_by_name (case name of None \<Rightarrow> ''master'' | Some v \<Rightarrow> v) d = Some r" "r_enabled r"
    and u: "sign_in_user E (r_id r) identifier password kerberos d = (Inr (u, amr), m)"
    and rest: "sign_in_to_client E identifier password cid r jkt proof scopes acrs u amr m = (Inr (Authenticated res), e)"
    unfolding password_flow_def by (auto simp: prog_ok)
  from rest have checked: "u_enabled u" "\<not> is_managed_user_blocked (u_id u) m"
      "amr = None \<longrightarrow> (\<exists>h. u_password_hash u = Some h \<and> e_hasher_verify E password h = Inr True)"
    unfolding sign_in_to_client_def by (auto simp: prog_ok check_sign_in_ok)
  from rest obtain c factor n where
    c: "client_in_realm (case cid of None \<Rightarrow> ''admin-ui'' | Some v \<Rightarrow> v) (r_id r) m = Some c" "c_enabled c"
    and factor: "second_factor E u r c proof m = (Inr factor, n)"
    and finish: "(case factor of Rejected \<Rightarrow> ret Mfa_Rejected | Challenge ch \<Rightarrow> ret (Mfa_Required ch)
        | Not_Enrolled \<Rightarrow> finish_sign_in E jkt u r c amr scopes acrs None
        | Shown ms \<Rightarrow> finish_sign_in E jkt u r c amr scopes acrs (Some ms)) n = (Inr (Authenticated res), e)"
    unfolding sign_in_to_client_def by (auto simp: prog_ok check_sign_in_ok)
  obtain verified where v: "case verified of
         None \<Rightarrow> \<not> has_mfa (u_id u) m \<and> n = m
       | Some ms \<Rightarrow> has_mfa (u_id u) m \<and> (\<exists>p. proof = Some p
           \<and> verify_login E 1 (u_id u) (r_id r) (c_id c) p m = (Inr (Some ms), n))"
    and fin: "finish_sign_in E jkt u r c amr scopes acrs verified n = (Inr (Authenticated res), e)"
  proof (cases factor)
    case Not_Enrolled
    then show ?thesis
      using that [of None] finish second_factor_ok [OF factor] by simp
  next
    case (Shown ms)
    then show ?thesis
      using that [of "Some ms"] finish second_factor_ok [OF factor] by simp
  qed (use finish in \<open>simp_all add: prog_ok\<close>)
  have enrolled: "has_mfa (u_id u) m \<longleftrightarrow> verified \<noteq> None"
    using v by (cases verified) simp_all
  from finish_sign_in_ok [OF fin] have owed: "actions_owed u r c (verified \<noteq> None) scopes acrs n = []"
    and issue: "issue_for_password E jkt u c scopes (if has_mfa (u_id u) m then acr_silver else acr_bronze)
        (session_methods verified amr) n = (Inr res, e)"
    by (cases verified; simp add: enrolled)+
  from owed have "pending_actions u r n = []"
    "verified = None \<longrightarrow> \<not> step_up_wanted (flow_config_of (r_config r)) c scopes acrs"
    by (auto simp: actions_owed_def Let_def split: if_split_asm)
  moreover have "proved_by E (r_id r) identifier password kerberos u amr d"
    using sign_in_user_ok [OF u] checked by blast
  moreover obtain s where "''offline_access'' \<notin> set scopes" "pw_user res = u"
    "session_of_sign_in E u c (if has_mfa (u_id u) m then acr_silver else acr_bronze) (session_methods verified amr) res s"
    "\<forall>x \<in> set (d_sessions n). s_id x \<noteq> s_id s"
    "e = record_event E 1000 (login_event E u c s)
            (consent_grant (e_db_now E) (e_uuid E 5) (u_id u) (u_realm_id u) (c_id c) (s_scope s)
               (n\<lparr>d_sessions := d_sessions n @ [s]\<rparr>))"
    using issue_for_password_ok [OF issue] by blast
  moreover have "case verified of
         None \<Rightarrow> \<not> has_mfa (u_id u) m \<and> n = m \<and> \<not> step_up_wanted (flow_config_of (r_config r)) c scopes acrs
       | Some ms \<Rightarrow> has_mfa (u_id u) m \<and> (\<exists>p. proof = Some p
           \<and> verify_login E 1 (u_id u) (r_id r) (c_id c) p m = (Inr (Some ms), n))"
    using v calculation(2) by (cases verified) simp_all
  ultimately show ?thesis
    using r u c checked(1, 2)
    by (intro exI [of _ r] exI [of _ c] exI [of _ u] exI [of _ amr] exI [of _ m] exI [of _ n]
        exI [of _ verified] exI [of _ s]) simp
qed


section \<open>Failed attempts\<close>

text \<open>Attempts with one identifier, each with its own readings of the outside world.\<close>

fun attempts ::
  "(env \<Rightarrow> string \<Rightarrow> (db, oidc_error, password_outcome) prog) \<Rightarrow> (env \<times> string) list
     \<Rightarrow> db \<Rightarrow> password_outcome result list \<times> db" where
  "attempts flow [] d = ([], d)"
| "attempts flow ((E, password) # rest) d =
     (case flow E password d of (answer, e) \<Rightarrow>
        case attempts flow rest e of (answers, f) \<Rightarrow> (answer # answers, f))"

lemma refused_sign_in_keeps:
  assumes "password_flow E identifier password cid name jkt proof scopes acrs kerberos d = (Inl err, e)"
  shows "e = d"
proof -
  have "thenp (guardp a x) (thenp (guardp b y) (with_transaction m)) d = (Inl err, e) \<Longrightarrow> e = d" for a x b y m
    by (auto simp: prog_run dest: with_transaction_err split: if_split_asm)
  with assms show ?thesis
    unfolding password_flow_def by blast
qed

lemma refused_attempts_keep:
  assumes "\<And>E password d err e. flow E password d = (Inl err, e) \<Longrightarrow> e = d"
    and "\<forall>answer \<in> set (fst (attempts flow tries d)). \<exists>err. answer = Inl err"
  shows "snd (attempts flow tries d) = d"
  using assms(2)
proof (induction tries arbitrary: d)
  case (Cons x rest)
  obtain E password answer e where x: "x = (E, password)" and step: "flow E password d = (answer, e)"
    by (metis prod.collapse)
  with Cons.prems obtain err where "answer = Inl err"
    by (auto split: prod.splits)
  then have "e = d"
    using assms(1) step by blast
  have "snd (attempts flow rest d) = d"
    using Cons.prems by (intro Cons.IH) (auto simp: x step \<open>e = d\<close> split: prod.splits)
  then show ?case
    by (simp add: x step \<open>e = d\<close> split_beta)
qed simp

text \<open>The lock-out never sets in.  A refused sign-in rolls its own failure event back, so that after any
  number of refused attempts, with any passwords, the database is the one before the first, and with it
  the number of failures counted for every address; and the event would not be counted if it stayed, for
  it names no actor.\<close>

theorem lockout_never_counts:
  assumes "\<forall>answer \<in> set (fst (attempts (\<lambda>E password.
      password_flow E identifier password cid name jkt proof scopes acrs None) tries d)). \<exists>err. answer = Inl err"
  shows "snd (attempts (\<lambda>E password. password_flow E identifier password cid name jkt proof scopes acrs None) tries d) = d
    \<and> count_recent_failures now email realm
        (snd (attempts (\<lambda>E password. password_flow E identifier password cid name jkt proof scopes acrs None) tries d))
      = count_recent_failures now email realm d
    \<and> count_recent_failures now email realm (d_audit_update (\<lambda>rows. rows @ [login_failure E realm email]) d)
      = count_recent_failures now email realm d"
proof -
  have "snd (attempts (\<lambda>E password. password_flow E identifier password cid name jkt proof scopes acrs None) tries d) = d"
    by (rule refused_attempts_keep [OF refused_sign_in_keeps assms])
  moreover have "count_recent_failures now email realm (d_audit_update (\<lambda>rows. rows @ [login_failure E realm email]) d)
      = count_recent_failures now email realm d"
    by (simp add: count_recent_failures_def login_failure_def split: option.split)
  ultimately show ?thesis
    by simp
qed


section \<open>A step-up without a way forward\<close>

text \<open>A sign-in that asks for a step-up which no other rule of the realm requires leads a user without a
  second factor nowhere: the challenge names the configuration of a second factor as the only action, but
  with the token of the challenge both enrolments are refused as not required, the action cannot be
  reported as done, and the status says that all actions are complete; the next sign-in asks again.\<close>

theorem step_up_dead_end:
  assumes "finish_sign_in E jkt u r c amr scopes acrs None d = (Inr (Actions_Required ch), e)"
    and "pending_actions u r d = []" and "\<not> has_mfa (u_id u) d"
    and "user_by_id (u_id u) d = Some u" and "realm_by_id (r_id r) d = Some r"
    and "sha2_256_hex F = sha2_256_hex E" and "e_db_now F < e_clock E 3 + minutes 10"
    and "bearer_of authorization = Some (ach_action_token ch)"
    and "\<exists>err. mfa_user F H authorization e = Inl err"
  shows "ach_required_actions ch = [''configure_mfa'']
    \<and> fst (totp_start F H authorization e) = Inl (AuthorizationDenied ''MFA enrollment is not required'')
    \<and> fst (webauthn_start F H authorization e) = Inl (AuthorizationDenied ''MFA enrollment is not required'')
    \<and> fst (action_complete_mfa F (ach_action_token ch) e) = Inl (InvalidInput ''Configure an authenticator before continuing'')
    \<and> (\<exists>st. fst (response_status F (ach_action_token ch) e) = Inr st \<and> ast_complete st)
    \<and> actions_owed u r c False scopes acrs e = [ConfigureMfa]"
proof -
  have owed: "actions_owed u r c False scopes acrs d = [ConfigureMfa]"
    using assms(1,2) by (auto simp: finish_sign_in_def prog_ok actions_owed_def split: if_split_asm)
  have challenged: "create_challenge E 1 2 3 u r (c_id c) [ConfigureMfa] d = (Inr ch, e)"
    using assms(1) owed by (auto simp: finish_sign_in_def prog_ok)
  let ?s = "\<lambda>token. \<lparr>acs_id = e_uuid E 2, acs_token_hash = sha2_256_hex E token, acs_user_id = u_id u,
               acs_realm_id = r_id r, acs_client_id = c_id c, acs_expires_at = e_clock E 3 + minutes 10,
               acs_used_at = None\<rparr>"
  define s where "s = ?s (ach_action_token ch)"
  from challenged have fresh: "\<forall>x \<in> set (d_action_sessions d). acs_token_hash x \<noteq> acs_token_hash s"
    and e: "e = d_action_sessions_update (\<lambda>rows. rows @ [s]) d"
    and ch: "ach_required_actions ch = map required_action_text [ConfigureMfa]"
    unfolding create_challenge_def create_action_session_def s_def
    by (auto simp: prog_ok)
  have s: "acs_user_id s = u_id u" "acs_realm_id s = r_id r" "acs_used_at s = None"
      "acs_token_hash s = sha2_256_hex E (ach_action_token ch)" "acs_expires_at s = e_clock E 3 + minutes 10"
    by (simp_all add: s_def)
  have same: "pending_actions u r e = pending_actions u r d" "has_mfa (u_id u) e = has_mfa (u_id u) d"
    by (simp_all add: e pending_actions_def has_mfa_def find_totp_def list_webauthn_def
        has_accepted_terms_def required_actions_of_def)
  have "List.find (\<lambda>x. acs_token_hash x = acs_token_hash s \<and> acs_used_at x = None \<and> e_db_now F < acs_expires_at x)
      (d_action_sessions d) = None"
    using fresh by (auto simp: find_None_iff)
  then have "find_action_session (e_db_now F) (sha2_256_hex E (ach_action_token ch)) e = Some s"
    using s assms(7) by (simp add: find_action_session_def e find_append)
  then have user: "action_user F (ach_action_token ch) e = Inr (s, u, r)"
    using assms(4-6) s by (simp add: action_user_Inr e user_by_id_def realm_by_id_def)
  have "enrollment_user F H authorization e = Inl (AuthorizationDenied ''MFA enrollment is not required'')"
    using assms(2,8,9) user same by (auto simp: enrollment_user_def or_error_def ensure_def)
  then have "fst (totp_start F H authorization e) = Inl (AuthorizationDenied ''MFA enrollment is not required'')"
    "fst (webauthn_start F H authorization e) = Inl (AuthorizationDenied ''MFA enrollment is not required'')"
    by (simp_all add: totp_start_def webauthn_start_def prog_run)
  moreover have "fst (action_complete_mfa F (ach_action_token ch) e) = Inl (InvalidInput ''Configure an authenticator before continuing'')"
    using assms(3) user same by (simp add: action_complete_mfa_def prog_run)
  moreover have "\<exists>st. fst (response_status F (ach_action_token ch) e) = Inr st \<and> ast_complete st"
    using assms(2) user same by (simp add: response_status_def prog_run)
  moreover have "actions_owed u r c False scopes acrs e = [ConfigureMfa]"
    using owed same by (simp add: actions_owed_def Let_def)
  ultimately show ?thesis
    using ch by simp
qed


section \<open>Runs\<close>

definition password_user :: user where
  "password_user = sample_user\<lparr>u_password_hash := Some ''correct horse''\<rparr>"

definition password_db :: db where
  "password_db = empty_db\<lparr>d_users := [password_user], d_realms := [acme (JObj [])], d_clients := [sample_client]\<rparr>"

lemma password_db_found:
  "realm_by_name ''acme'' password_db = Some (acme (JObj []))"
  "realm_by_id 3 password_db = Some (acme (JObj []))"
  "local_user sample_env 3 ''a@b.org'' password_db = Some password_user"
  "user_by_id 7 password_db = Some password_user"
  "client_in_realm ''app'' 3 password_db = Some sample_client"
  "count_recent_failures now ''a@b.org'' 3 password_db = 0"
  "\<not> is_managed_user_blocked i password_db"
  "\<not> has_mfa i password_db"
  by (simp_all add: password_db_def password_user_def realm_by_name_def realm_by_id_def acme_def local_user_def
      user_by_email_def user_by_id_def client_in_realm_def count_recent_failures_def is_managed_user_blocked_def
      has_mfa_def find_totp_def list_webauthn_def sample_user_def sample_client_def empty_db_def)

lemma password_user_fields [simp]:
  "u_id password_user = 7" "u_enabled password_user" "u_password_hash password_user = Some ''correct horse''"
  "r_id (acme c) = 3" "r_enabled (acme c)" "c_id sample_client = 5" "c_enabled sample_client"
  by (simp_all add: password_user_def sample_user_def acme_def sample_client_def)

lemma password_nothing_owed: "pending_actions password_user (acme (JObj [])) password_db = []"
  by code_simp

lemma sign_in_text: "trim ''a@b.org'' = ''a@b.org''"
  by code_simp

lemma password_found:
  "sign_in_user sample_env 3 ''a@b.org'' p None password_db = (Inr (password_user, None), password_db)"
  by (simp add: sign_in_user_def prog_run password_db_found)

lemma wrong_password_refused:
  assumes "8 \<le> length p" and "p \<noteq> ''correct horse''"
  shows "\<exists>e. password_flow sample_env ''a@b.org'' p (Some ''app'') (Some ''acme'') None None [] [] None password_db
    = (Inl bad_credentials, e)"
proof -
  have "p \<noteq> []"
    using assms(1) by auto
  have verify: "e_hasher_verify sample_env p ''correct horse'' = Inr False"
    using assms(2) by (simp add: sample_env_def)
  have "\<exists>e. check_sign_in sample_env 3 ''a@b.org'' p (password_user, None) password_db = (Inl bad_credentials, e)"
    by (simp add: check_sign_in_def prog_run password_db_found verify map_err_def bindp_def thenp_def)
  then obtain e where "check_sign_in sample_env 3 ''a@b.org'' p (password_user, None) password_db = (Inl bad_credentials, e)"
    by blast
  then have "sign_in_to_client sample_env ''a@b.org'' p (Some ''app'') (acme (JObj [])) None None [] [] password_user None
      password_db = (Inl bad_credentials, e)"
    by (simp add: sign_in_to_client_def thenp_def bindp_def)
  then show ?thesis
    using assms(1) \<open>p \<noteq> []\<close>
    by (simp add: password_flow_def prog_run sign_in_text password_db_found with_transaction_def bindp_def password_found)
qed

lemma lockout_never_counts_witness:
  "count_recent_failures 0 ''a@b.org'' 3 (snd (attempts (\<lambda>E password.
      password_flow E ''a@b.org'' password (Some ''app'') (Some ''acme'') None None [] [] None)
      (map (\<lambda>p. (sample_env, p)) (replicate 9 ''wrong horse'')) password_db)) = 0"
proof -
  let ?flow = "\<lambda>E password. password_flow E ''a@b.org'' password (Some ''app'') (Some ''acme'') None None [] [] None"
  have wrong: "?flow sample_env ''wrong horse'' password_db = (Inl bad_credentials, password_db)"
    using wrong_password_refused [of "''wrong horse''"] refused_sign_in_keeps by fastforce
  have "fst (attempts ?flow (replicate n (sample_env, ''wrong horse'')) password_db) = replicate n (Inl bad_credentials)" for n
    by (induction n) (simp_all add: wrong split_beta)
  then have "\<forall>answer \<in> set (fst (attempts ?flow (map (\<lambda>p. (sample_env, p)) (replicate 9 ''wrong horse'')) password_db)).
      \<exists>err. answer = Inl err"
    unfolding map_replicate by simp
  from lockout_never_counts [OF this, of 0 "''a@b.org''" 3] show ?thesis
    by (simp only: password_db_found)
qed

lemma issue_for_password_total:
  assumes "''offline_access'' \<notin> set scopes" and "scopes \<noteq> []"
    and "resolve_names_for_client (e_collate E) (c_id c) scopes (c_allowed_scopes c) d = Inr names"
    and "e_services E (u_realm_id u) = Inr svc" and "issuer_works E svc" and "c_id_token_alg c = None"
    and "\<forall>s \<in> set (d_sessions d). s_id s \<noteq> e_uuid E 3"
  shows "\<exists>res e. issue_for_password E jkt u c scopes acr amr d = (Inr res, e)"
proof -
  let ?mapped = "resolve_mapped_claims E (c_id c) (Some u) names d"
  obtain cl at where access: "issue_access_token E 7 svc (timestamp (e_clock E 4)) (subject_for E c (u_id u))
      (c_client_id c) names jkt None None (no_access_extra\<lparr>ax_custom_claims := mc_access_token ?mapped,
         ax_additional_audiences := mc_access_audiences ?mapped\<rparr>) = Inr (cl, at)"
    using issuer_works_tokens(1) [OF assms(5)] by blast
  obtain idt where idt: "issue_id_token E svc (timestamp (e_clock E 6)) (subject_for E c (u_id u)) (c_client_id c)
      (password_id_extra E u at (sid_or_default E 2) acr amr ?mapped
         (resolve_role_claims (e_collate E) (u_id u) d)) = Inr idt"
    using issuer_works_tokens(2) [OF assms(5)] by blast
  obtain rtok where refresh: "generate_opaque_token E 3 = Inr rtok"
    using issuer_works_tokens(3) [OF assms(5)] by blast
  have fresh: "s_id (password_session E u c names sid at rtok acr amr) = e_uuid E 3"
    "\<not> s_offline_session (password_session E u c names sid at rtok acr amr)" for sid
    by (simp_all add: password_session_def Let_def)
  have "maybe_encrypt_id_token E idt c = Inr idt"
    using assms(6) by (simp add: maybe_encrypt_id_token_def)
  then show ?thesis
    using assms(1-4,7) access idt refresh fresh unfolding issue_for_password_def
    by (simp add: prog_run Let_def bindp_def thenp_def session_create_def del: split_paired_Ex)
qed

lemma password_flow_run:
  "\<exists>res e. password_flow sample_env ''a@b.org'' ''correct horse'' (Some ''app'') (Some ''acme'') None None [''openid''] []
     None password_db = (Inr (Authenticated res), e)"
proof -
  have verify: "e_hasher_verify sample_env ''correct horse'' ''correct horse'' = Inr True"
    by (simp add: sample_env_def)
  have check: "check_sign_in sample_env 3 ''a@b.org'' ''correct horse'' (password_user, None) password_db = (Inr (), password_db)"
    by (simp add: check_sign_in_ok password_db_found verify)
  have factor: "second_factor sample_env password_user (acme (JObj [])) sample_client None password_db
      = (Inr Not_Enrolled, password_db)"
    by (simp add: second_factor_def prog_run password_db_found)
  have "flow_config_of (r_config (acme (JObj []))) = default_flow"
    by code_simp
  then have owed: "actions_owed password_user (acme (JObj [])) sample_client False [''openid''] [] password_db = []"
    using password_nothing_owed by (simp add: actions_owed_def step_up_wanted_def default_flow_def)
  have names: "resolve_names_for_client (e_collate sample_env) (c_id sample_client) [''openid'']
      (c_allowed_scopes sample_client) password_db = Inr [''openid'']"
    by (simp add: resolve_names_Inr allowed_names_def crate_scope_allowed_def scopes_of_client_def
        sample_client_def password_db_def empty_db_def)
  obtain res e where "issue_for_password sample_env None password_user sample_client [''openid''] acr_bronze
      (session_methods None None) password_db = (Inr res, e)"
    using issue_for_password_total [OF _ _ names _ sample_issuer]
    by (force simp: sample_env_def sample_client_def password_db_def empty_db_def)
  then have "finish_sign_in sample_env None password_user (acme (JObj [])) sample_client None [''openid''] [] None
      password_db = (Inr (Authenticated res), e)"
    by (simp add: finish_sign_in_def prog_run owed bindp_def)
  then show ?thesis
    by (simp add: password_flow_def sign_in_to_client_def prog_run sign_in_text password_db_found
        with_transaction_def bindp_def thenp_def password_found check factor)
qed

lemma password_flow_sound_witness:
  "\<exists>res e. password_flow sample_env ''a@b.org'' ''correct horse'' (Some ''app'') (Some ''acme'') None None [''openid''] []
     None password_db = (Inr (Authenticated res), e) \<and> u_enabled (pw_user res)"
  using password_flow_run password_flow_sound by blast

lemma step_up_run:
  "\<exists>ch e. finish_sign_in sample_env None password_user (acme (JObj [])) sample_client None [''openid''] [acr_silver] None
     password_db = (Inr (Actions_Required ch), e) \<and> ach_action_token ch = ''abcdefgh''"
proof -
  have "actions_owed password_user (acme (JObj [])) sample_client False [''openid''] [acr_silver] password_db = [ConfigureMfa]"
    using password_nothing_owed by (simp add: actions_owed_def step_up_wanted_def)
  moreover have "generate_opaque_token sample_env 1 = Inr ''abcdefgh''"
    by (simp add: generate_opaque_token_def sample_env_def)
  ultimately show ?thesis
    by (simp add: finish_sign_in_def create_challenge_def create_action_session_def prog_run bindp_def thenp_def
        password_db_def empty_db_def)
qed

lemma not_a_token: "payload_unverified sample_env f ''abcdefgh'' = Inl InvalidTokenSignature"
  by (simp add: payload_unverified_def)

lemma step_up_dead_end_witness:
  "\<exists>(ch :: action_challenge) e. ach_required_actions ch = [''configure_mfa'']
     \<and> fst (totp_start sample_env sample_hub (Some ''Bearer abcdefgh'') e)
        = Inl (AuthorizationDenied ''MFA enrollment is not required'')"
proof -
  obtain ch e where run: "finish_sign_in sample_env None password_user (acme (JObj [])) sample_client None [''openid'']
      [acr_silver] None password_db = (Inr (Actions_Required ch), e)" and token: "ach_action_token ch = ''abcdefgh''"
    using step_up_run by blast
  have bearer: "bearer_of (Some ''Bearer abcdefgh'') = Some (ach_action_token ch)"
    unfolding token by code_simp
  have other: "\<exists>err. mfa_user sample_env sample_hub (Some ''Bearer abcdefgh'') e = Inl err"
    unfolding mfa_user_def bearer token by (simp add: verify_access_any_def not_a_token)
  have "e_db_now sample_env < e_clock sample_env 3 + minutes 10"
    by (simp add: sample_env_def minutes_def secs_def)
  from step_up_dead_end [OF run password_nothing_owed _ _ _ refl this bearer other]
  have "ach_required_actions ch = [''configure_mfa'']
      \<and> fst (totp_start sample_env sample_hub (Some ''Bearer abcdefgh'') e)
        = Inl (AuthorizationDenied ''MFA enrollment is not required'')"
    by (simp add: password_db_found)
  then show ?thesis
    by blast
qed

end
