(* ===== verification/Request_Object.thy ===== *)
theory Request_Object
  imports Client_Auth Hub
begin

text \<open>Authorization requests that do not travel in the address: signed request objects
  (\<open>oidc-oidc/src/tokens/request_object.rs\<close>) and pushed requests
  (\<open>oidc-oidc/src/endpoints/par.rs\<close>, \<open>oidc-repository/src/repositories/par_repo.rs\<close>).\<close>

section \<open>Request objects\<close>

definition bad_object :: "string \<Rightarrow> oidc_error" where
  "bad_object = InvalidRequestObject"

(*@ oidc-oidc/src/tokens/request_object.rs 106-125 parse_request_object_unverified *)
definition parse_request_object ::
  "env \<Rightarrow> string \<Rightarrow> (jwt_header \<times> request_claims \<times> string \<times> string) result" where
  "parse_request_object E token =
     (case split_on (CHR ''.'') token of
        [p0, p1, p2] \<Rightarrow>
          bindr (or_error (e_unb64 E p0) (bad_object ''invalid header encoding'')) (\<lambda>hb.
          bindr (or_error (e_parse_header E hb) (bad_object ''invalid header JSON'')) (\<lambda>h.
          bindr (or_error (e_unb64 E p1) (bad_object ''invalid claims encoding'')) (\<lambda>cb.
          bindr (map_err (\<lambda>e. bad_object (''invalid claims JSON: '' @ e)) (e_parse_request E cb)) (\<lambda>c.
          bindr (or_error (e_unb64 E p2) (bad_object ''invalid signature encoding'')) (\<lambda>sig.
          Inr (h, c, p0 @ ''.'' @ p1, sig))))))
      | _ \<Rightarrow> Inl (bad_object ''invalid JWT format''))"

(*@ oidc-oidc/src/tokens/request_object.rs 96-101 AudValue::contains *)
fun aud_names :: "string + string list \<Rightarrow> string \<Rightarrow> bool" where
  "aud_names (Inl s) expected \<longleftrightarrow> s = expected"
| "aud_names (Inr v) expected \<longleftrightarrow> expected \<in> set v"

definition given :: "string \<Rightarrow> string option \<Rightarrow> (string \<times> string) list" where
  "given k v = (case v of None \<Rightarrow> [] | Some s \<Rightarrow> [(k, s)])"

text \<open>The parameters that an object carries, no key twice; the order of a hash map has no meaning.\<close>

(*@ oidc-oidc/src/tokens/request_object.rs 197-260 claims as parameters *)
definition object_params :: "env \<Rightarrow> request_claims \<Rightarrow> (string \<times> string) list" where
  "object_params E c =
     [(''iss'', rq_iss c),
      (''aud'', case rq_aud c of Inl s \<Rightarrow> s | Inr v \<Rightarrow> e_value_text E (JArr (map JStr v)))]
     @ given ''client_id'' (rq_client_id c) @ given ''response_type'' (rq_response_type c)
     @ given ''redirect_uri'' (rq_redirect_uri c) @ given ''scope'' (rq_scope c)
     @ given ''state'' (rq_state c) @ given ''nonce'' (rq_nonce c) @ given ''display'' (rq_display c)
     @ given ''prompt'' (rq_prompt c) @ given ''max_age'' (map_option decimal (rq_max_age c))
     @ given ''login_hint'' (rq_login_hint c) @ given ''code_challenge'' (rq_code_challenge c)
     @ given ''code_challenge_method'' (rq_code_challenge_method c)
     @ given ''response_mode'' (rq_response_mode c) @ given ''claims'' (map_option (e_value_text E) (rq_claims c))"

(*@ oidc-oidc/src/tokens/request_object.rs 139-196 verify_request_object *)
definition verify_request_object ::
  "env \<Rightarrow> string \<Rightarrow> json \<Rightarrow> string \<Rightarrow> string \<Rightarrow> int \<Rightarrow> (string \<times> string) list result" where
  "verify_request_object E token jwks issuer client_id now =
     bindr (parse_request_object E token) (\<lambda>(h, c, input, sig).
     bindr (ensure (rq_iss c = client_id) (bad_object ''iss does not match client_id'')) (\<lambda>_.
     bindr (ensure (aud_names (rq_aud c) issuer)
       (bad_object (''aud does not contain expected issuer '' @ [CHR 0x27] @ issuer @ [CHR 0x27]))) (\<lambda>_.
     bindr (ensure (\<not> rq_exp c < now) (bad_object ''request object expired'')) (\<lambda>_.
     bindr (ensure (\<not> now + 300 < rq_iat c) (bad_object ''request object issued too far in the future'')) (\<lambda>_.
     bindr (ensure (\<not> (case rq_nbf c of None \<Rightarrow> False | Some nbf \<Rightarrow> now < nbf))
       (bad_object ''request object not yet valid (nbf)'')) (\<lambda>_.
     bindr (ensure (rq_request_uri c = None)
       (bad_object ''request_uri MUST NOT be included in a Request Object'')) (\<lambda>_.
     bindr (find_jwk jwks (h_kid h) (h_alg h)) (\<lambda>k.
     bindr (verify_signature_with_jwk E input sig k) (\<lambda>_.
     Inr (object_params E c))))))))))"


section \<open>Merging into the parameters of the request\<close>

text \<open>The three parts of a failure: where the browser is sent, the code and the description.\<close>

type_synonym redirect_error = "string \<times> string \<times> string"

(*@ oidc-oidc/src/endpoints/authorize.rs 121-140 merge_protected_authorize_params *)
fun merge_protected :: "string \<Rightarrow> (string \<times> string) list \<Rightarrow> params \<Rightarrow> redirect_error + params" where
  "merge_protected code [] params = Inr params"
| "merge_protected code ((k, v) # rest) params =
     (if k \<in> {''client_id'', ''redirect_uri''} \<and> params k \<noteq> None \<and> params k \<noteq> Some v
      then Inl (''/oidc/error'', code, k @ '' in protected request data must match the outer request'')
      else merge_protected code rest (params(k \<mapsto> v)))"


section \<open>Pushed requests\<close>

(*@ oidc-repository/src/repositories/par_repo.rs 18-47 ParRepo::create *)
definition par_create :: "pushed_request \<Rightarrow> (db, oidc_error, unit) prog" where
  "par_create p =
     bindp (query d_pars) (\<lambda>rows.
     thenp (guardp (\<forall>x \<in> set rows. par_id x \<noteq> par_id p \<and> par_request_uri_token x \<noteq> par_request_uri_token p)
              (Conflict ''duplicate key''))
       (exec (d_pars_update (\<lambda>rows. rows @ [p]))))"

(*@ oidc-repository/src/repositories/par_repo.rs 49-67 ParRepo::find_by_request_uri_token *)
definition par_by_token :: "instant \<Rightarrow> string \<Rightarrow> db \<Rightarrow> pushed_request option" where
  "par_by_token now token d =
     List.find (\<lambda>p. par_request_uri_token p = token \<and> \<not> par_used p \<and> now < par_expires_at p) (d_pars d)"

(*@ oidc-repository/src/repositories/par_repo.rs 69-76 ParRepo::mark_used *)
definition par_mark_used :: "uuid \<Rightarrow> db \<Rightarrow> db" where
  "par_mark_used i = d_pars_update (update_where (\<lambda>p. par_id p = i) (\<lambda>p. p\<lparr>par_used := True\<rparr>))"

(*@ oidc-repository/src/repositories/par_repo.rs 78-86 ParRepo::cleanup_expired *)
definition par_cleanup :: "instant \<Rightarrow> db \<Rightarrow> db" where
  "par_cleanup now = d_pars_update (filter (\<lambda>p. \<not> par_expires_at p < now))"

text \<open>The form of a request as its pairs, no key twice.\<close>

definition form_insert :: "string \<Rightarrow> string \<Rightarrow> (string \<times> string) list \<Rightarrow> (string \<times> string) list" where
  "form_insert k v form = (if map_of form k = None then form @ [(k, v)] else form)"

definition basic_into_form :: "env \<Rightarrow> string option \<Rightarrow> (string \<times> string) list \<Rightarrow> (string \<times> string) list" where
  "basic_into_form E authorization form =
     (case Option.bind (basic_credentials authorization) (e_b64_standard E) of
        None \<Rightarrow> form
      | Some bytes \<Rightarrow>
          if \<not> e_is_utf8 E bytes then form
          else (case split_once (CHR '':'') bytes of
                  None \<Rightarrow> form
                | Some (cid, secret) \<Rightarrow> form_insert ''client_secret'' secret (form_insert ''client_id'' cid form)))"

(*@ oidc-oidc/src/endpoints/par.rs 106-207 authenticate_client_par *)
definition authenticate_client_par :: "env \<Rightarrow> params \<Rightarrow> string \<Rightarrow> int \<Rightarrow> db \<Rightarrow> client result" where
  "authenticate_client_par E params uri now d =
     (case params ''client_assertion'' of
        Some assertion \<Rightarrow>
          bindr (ensure (params ''client_assertion_type'' = Some jwt_bearer_type) InvalidClient) (\<lambda>_.
          bindr (parse_assertion E assertion) (\<lambda>(_, claims, _, _).
          let cid = as_iss claims
          in bindr (or_error (client_by_client_id cid d) InvalidClient) (\<lambda>c.
             bindr (ensure (c_enabled c) InvalidClient) (\<lambda>_.
             if c_token_endpoint_auth_method c = ''private_key_jwt'' then
               bindr (or_error (c_jwks c) (InvalidClientAssertion ''client has no jwks'')) (\<lambda>jwks.
               bindr (verify_client_assertion E assertion jwks uri cid now) (\<lambda>_. Inr c))
             else if c_token_endpoint_auth_method c = ''client_secret_jwt'' then
               bindr (or_error (c_client_secret_encrypted c)
                 (InvalidClientAssertion ''client has no encrypted secret for client_secret_jwt'')) (\<lambda>enc.
               bindr (map_err (\<lambda>_. InvalidClientAssertion ''failed to decrypt client secret'') (e_decrypt E enc)) (\<lambda>secret.
               bindr (ensure (e_is_utf8 E secret) (InvalidClientAssertion ''invalid client secret encoding'')) (\<lambda>_.
               bindr (verify_client_secret_jwt E assertion secret uri cid now) (\<lambda>_. Inr c))))
             else Inl InvalidClient))))
      | None \<Rightarrow>
          bindr (or_error (params ''client_id'') InvalidClient) (\<lambda>cid.
          bindr (or_error (client_by_client_id cid d) InvalidClient) (\<lambda>c.
          bindr (ensure (c_enabled c) InvalidClient) (\<lambda>_.
          case c_client_secret_hash c of
            None \<Rightarrow> Inr c
          | Some h \<Rightarrow>
              bindr (or_error (params ''client_secret'') InvalidClient) (\<lambda>secret.
              bindr (e_hasher_verify E secret h) (\<lambda>ok.
              bindr (ensure ok InvalidClient) (\<lambda>_. Inr c)))))))"

definition request_uri_prefix :: string where
  "request_uri_prefix = ''urn:ietf:params:oauth:request_uri:''"

(*@ oidc-oidc/src/endpoints/par.rs 29-103 par_handler *)
definition par_handler ::
  "env \<Rightarrow> hub \<Rightarrow> string option \<Rightarrow> (string \<times> string) list \<Rightarrow> (db, oidc_error, string) prog" where
  "par_handler E H authorization form =
     (let form = basic_into_form E authorization form
      in bindp (ask (authenticate_client_par E (map_of form) (par_endpoint_uri H) (timestamp (e_clock E 0)))) (\<lambda>c.
         bindp (query (\<lambda>d. if c_realm_id c = nil_uuid
                           then (case Option.bind (map_of form ''realm'') (\<lambda>n. realm_by_name n d) of
                                   None \<Rightarrow> nil_uuid | Some r \<Rightarrow> r_id r)
                           else c_realm_id c)) (\<lambda>realm.
         bindp (lift (generate_opaque_token E 0)) (\<lambda>token.
         thenp (par_create
                  \<lparr>par_id = e_uuid E 0, par_client_id = c_id c, par_realm_id = realm, par_request_uri_token = token,
                   par_request_params = json_object (map (\<lambda>(k, v). (k, JStr v))
                     (filter (\<lambda>(k, _). k \<notin> {''client_secret'', ''client_assertion'', ''client_assertion_type''}) form)),
                   par_expires_at = e_clock E 1 + secs 90, par_used = False, par_created_at = e_clock E 2\<rparr>)
           (ret (request_uri_prefix @ token))))))"

end
