(* ===== verification/Authorize.thy ===== *)
theory Authorize
  imports Request_Object Password "HOL-Library.Signed_Division"
begin

text \<open>The authorization endpoint (\<open>oidc-oidc/src/endpoints/authorize.rs\<close>).  The handler is a sequence of
  steps; each may end it early, with an error or with an answer, and what it has written stays, since no
  transaction surrounds it.  The pages that are rendered (consent, selection of an organization, form) are
  the values they show, their HTML is not modelled.  The clock is read at index 0 for the pushed request,
  1 for the request object, 2 for the session, 3 for the age, 4 and 5 for the consent token, 6 for the
  step-up, 7 for the code, 8 to 12 for the tokens, 13 for the signed response and 14 for the hint.\<close>

section \<open>Response modes\<close>

(*@ oidc-oidc/src/endpoints/authorize.rs 34-41 ResponseMode *)
datatype response_mode = In_Query | In_Fragment | By_Form

(*@ oidc-oidc/src/endpoints/authorize.rs 45-53 ParsedResponseMode *)
datatype parsed_mode = Plain response_mode | Signed "response_mode option"

(*@ oidc-oidc/src/endpoints/authorize.rs 56-67 ParsedResponseMode::parse *)
definition parse_response_mode :: "string \<Rightarrow> parsed_mode option" where
  "parse_response_mode s =
     (if s = ''query'' then Some (Plain In_Query)
      else if s = ''fragment'' then Some (Plain In_Fragment)
      else if s = ''form_post'' then Some (Plain By_Form)
      else if s = ''jwt'' then Some (Signed None)
      else if s = ''query.jwt'' then Some (Signed (Some In_Query))
      else if s = ''fragment.jwt'' then Some (Signed (Some In_Fragment))
      else if s = ''form_post.jwt'' then Some (Signed (Some By_Form))
      else None)"

(*@ oidc-oidc/src/endpoints/authorize.rs 70-75 ParsedResponseMode::is_jarm *)
fun is_jarm :: "parsed_mode option \<Rightarrow> bool" where
  "is_jarm (Some (Signed _)) = True"
| "is_jarm _ = False"

(*@ oidc-oidc/src/endpoints/authorize.rs 796-820 effective_mode *)
definition effective_mode :: "parsed_mode option \<Rightarrow> response_type \<Rightarrow> response_mode" where
  "effective_mode m rtype =
     (let standard = (if is_implicit_or_hybrid rtype then In_Fragment else In_Query)
      in case m of
           Some (Signed (Some base)) \<Rightarrow> base
         | Some (Plain mode) \<Rightarrow> mode
         | _ \<Rightarrow> standard)"


section \<open>Answers\<close>

text \<open>A page keeps what its form sends back: the parameters of the request without those it names itself.\<close>

(*@ oidc-oidc/src/endpoints/authorize.rs 102-109 AuthorizeResult *)
datatype authorize_result =
  Redirect_To string
| Form_Post string "(string \<times> string) list"
| Consent_Page string params string "string list" string
| Organization_Page params "(organization \<times> string) list"

datatype halt = Fails redirect_error | Answers authorize_result

type_synonym 'a step = "(db, halt, 'a) prog"

definition fails :: "string \<Rightarrow> string \<Rightarrow> string \<Rightarrow> 'a step" where
  "fails uri code description = fail (Fails (uri, code, description))"

definition require :: "bool \<Rightarrow> string \<Rightarrow> string \<Rightarrow> string \<Rightarrow> unit step" where
  "require b uri code description = guardp b (Fails (uri, code, description))"

definition get_or :: "'a option \<Rightarrow> string \<Rightarrow> string \<Rightarrow> string \<Rightarrow> 'a step" where
  "get_or x uri code description = some_or x (Fails (uri, code, description))"

definition error_page :: string where
  "error_page = ''/oidc/error''"

definition server_error :: "string \<Rightarrow> oidc_error \<Rightarrow> halt" where
  "server_error uri _ = Fails (uri, ''server_error'', ''An internal error occurred'')"

text \<open>An operation of the rest of the hub within a step: its error becomes an end of the request.\<close>

definition convert :: "('e \<Rightarrow> 'f) \<Rightarrow> ('s, 'e, 'a) prog \<Rightarrow> ('s, 'f, 'a) prog" where
  "convert f m s = (case m s of (r, t) \<Rightarrow> (map_err f r, t))"

(*@ oidc-oidc/src/endpoints/authorize.rs 2030-2047 build_error_url *)
definition build_error_url :: "env \<Rightarrow> string \<Rightarrow> string \<Rightarrow> string \<Rightarrow> string option \<Rightarrow> string" where
  "build_error_url E uri error description st =
     uri @ ''?error='' @ e_percent E error @ ''&error_description='' @ e_percent E description
     @ (case st of None \<Rightarrow> [] | Some s \<Rightarrow> ''&state='' @ e_percent E s)"

(*@ oidc-oidc/src/endpoints/authorize.rs 328-342 build_login_url *)
definition build_login_url :: "env \<Rightarrow> string option \<Rightarrow> params \<Rightarrow> string" where
  "build_login_url E realm_name params =
     (case realm_name of None \<Rightarrow> ''/login?return_to='' | Some n \<Rightarrow> ''/realms/'' @ n @ ''/login?return_to='')
     @ e_percent E (''/oidc/authorize?'' @ e_query_text E params)
     @ (case params ''state'' of None \<Rightarrow> [] | Some s \<Rightarrow> ''&state='' @ e_percent E s)"

definition to_login :: "env \<Rightarrow> string option \<Rightarrow> params \<Rightarrow> 'a step" where
  "to_login E realm_name params = fail (Answers (Redirect_To (build_login_url E realm_name params)))"


section \<open>The consent token\<close>

(*@ oidc-oidc/src/endpoints/authorize.rs 150-173 create_consent_token *)
definition create_consent_token :: "env \<Rightarrow> uuid \<Rightarrow> uuid \<Rightarrow> string list \<Rightarrow> string result" where
  "create_consent_token E uid cid scopes =
     (let encoded = e_b64 E (e_consent_text E \<lparr>ct_user_id = uid, ct_client_id = cid, ct_scopes = scopes,
                      ct_expires_at = timestamp (e_clock E 5) + 300\<rparr>)
      in bindr (e_key E) (\<lambda>key. Inr (encoded @ ''.'' @ e_hex E (e_hmac E ''HS256'' key encoded))))"

definition rsplit_once :: "char \<Rightarrow> string \<Rightarrow> (string \<times> string) option" where
  "rsplit_once c s = map_option (\<lambda>(a, b). (rev b, rev a)) (split_once c (rev s))"

(*@ oidc-oidc/src/endpoints/authorize.rs 175-208 verify_consent_token *)
definition verify_consent_token :: "env \<Rightarrow> string \<Rightarrow> uuid \<Rightarrow> uuid \<Rightarrow> string list \<Rightarrow> bool" where
  "verify_consent_token E token uid cid scopes \<longleftrightarrow>
     (case rsplit_once (CHR ''.'') token of
        None \<Rightarrow> False
      | Some (encoded, mac) \<Rightarrow>
          (case (e_unhex E mac, e_key E) of
             (Some sig, Inr key) \<Rightarrow>
               e_hmac E ''HS256'' key encoded = sig
               \<and> (case Option.bind (e_unb64 E encoded) (e_parse_consent E) of
                    None \<Rightarrow> False
                  | Some p \<Rightarrow> ct_user_id p = uid \<and> ct_client_id p = cid \<and> ct_scopes p = scopes
                      \<and> timestamp (e_clock E 4) \<le> ct_expires_at p)
           | _ \<Rightarrow> False))"


section \<open>Pushed and signed requests\<close>

text \<open>The lookup returns only unused and unexpired rows, so that the branch for a used one is not reached.\<close>

(*@ oidc-oidc/src/endpoints/authorize.rs 361-434 Pushed Authorization Request resolution *)
definition resolve_pushed :: "env \<Rightarrow> params \<Rightarrow> params step" where
  "resolve_pushed E params =
     thenp (require (\<not> (params ''request'' \<noteq> None \<and> params ''request_uri'' \<noteq> None)) error_page
              ''invalid_request'' ''request and request_uri MUST NOT be used together'')
       (case params ''request_uri'' of
          None \<Rightarrow> ret params
        | Some uri \<Rightarrow>
            (case strip_prefix uri request_uri_prefix of
               None \<Rightarrow> fails error_page ''invalid_request'' ''Invalid request_uri format''
             | Some token \<Rightarrow>
                 bindp (query (par_by_token (e_db_now E) token)) (\<lambda>found.
                 bindp (get_or found error_page ''invalid_request'' ''The request_uri was not found'') (\<lambda>p.
                 thenp (require (\<not> par_used p \<and> e_clock E 0 < par_expires_at p) error_page
                          ''invalid_request'' ''The request_uri is expired or has already been used'')
                (bindp (lift (map_err Fails
                   (merge_protected ''invalid_request''
                     (case par_request_params p of
                        JObj m \<Rightarrow> List.map_filter (\<lambda>(k, v). map_option (\<lambda>s. (k, s)) (as_str_json v)) m
                      | _ \<Rightarrow> []) params))) (\<lambda>params.
                 thenp (exec (par_mark_used (par_id p)))
                   (ret (params(''request_uri'' := None)))))))))"

definition object_key :: "env \<Rightarrow> client \<Rightarrow> (string option) step" where
  "object_key E c =
     (if c_request_object_alg c = Some ''dir'' then
        bindp (get_or (c_request_object_key_encrypted c) error_page ''invalid_request_object''
                 ''Client has dir encryption configured but no encryption key'') (\<lambda>enc.
        bindp (lift (map_err (\<lambda>e. Fails (error_page, ''invalid_request_object'',
                 ''Failed to decrypt request object key: '' @ error_text e)) (e_decrypt E enc))) (\<lambda>k. ret (Some k)))
      else ret None)"

(*@ oidc-oidc/src/endpoints/authorize.rs 436-545 Encrypted Request Object resolution *)
definition decrypt_object :: "env \<Rightarrow> params \<Rightarrow> params step" where
  "decrypt_object E params =
     (case params ''request'' of
        None \<Rightarrow> ret params
      | Some jwe \<Rightarrow>
          if length (split_on (CHR ''.'') jwe) \<noteq> 5 then ret params
          else thenp (require (params ''request_uri'' = None) error_page ''invalid_request''
                        ''request and request_uri MUST NOT be used together'')
              (bindp (get_or (params ''client_id'') error_page ''invalid_request'' ''Missing client_id'') (\<lambda>cid.
               bindp (query (client_by_client_id cid)) (\<lambda>found.
               bindp (get_or found error_page ''invalid_client'' ''Client not found'') (\<lambda>c.
               thenp (require (c_request_object_alg c \<noteq> None) error_page ''invalid_request_object''
                        ''Client has no request object encryption configured'')
              (bindp (object_key E c) (\<lambda>key.
               bindp (lift (map_err (\<lambda>e. Fails (error_page, ''invalid_request_object'',
                        ''Request object decryption failed: '' @ error_text e))
                      (decrypt_jwe E jwe key (c_request_object_key_pem c)))) (\<lambda>signed.
               ret (params(''request'' \<mapsto> signed))))))))))"

text \<open>The claims of the object are first read as those of a client assertion, for their issuer.\<close>

(*@ oidc-oidc/src/endpoints/authorize.rs 547-657 Signed Request Object resolution *)
definition verify_object :: "env \<Rightarrow> hub \<Rightarrow> params \<Rightarrow> params step" where
  "verify_object E H params =
     (case params ''request'' of
        None \<Rightarrow> ret params
      | Some jwt \<Rightarrow>
          thenp (require (params ''request_uri'' = None) error_page ''invalid_request''
                   ''request and request_uri MUST NOT be used together'')
         (bindp (lift (map_err (\<lambda>e. Fails (error_page, ''invalid_request_object'',
                   ''Request object parse error: '' @ error_text e)) (parse_assertion E jwt))) (\<lambda>(_, unverified, _, _).
          thenp (require (\<not> (params ''client_id'' \<noteq> None \<and> as_iss unverified \<noteq> []
                             \<and> params ''client_id'' \<noteq> Some (as_iss unverified)))
                   error_page ''invalid_request_object'' ''client_id in request object must match the outer request'')
         (let cid = (case params ''client_id'' of Some i \<Rightarrow> i | None \<Rightarrow> as_iss unverified)
          in bindp (query (client_by_client_id cid)) (\<lambda>found.
             bindp (get_or found error_page ''invalid_client'' ''Client not found'') (\<lambda>c.
             bindp (get_or (c_jwks c) error_page ''invalid_request''
                      ''Client has no JWKS for request object verification'') (\<lambda>jwks.
             bindp (lift (map_err (\<lambda>e. Fails (error_page, ''invalid_request_object'',
                      ''Request object verification failed: '' @ error_text e))
                    (verify_request_object E jwt jwks (hb_issuer H) cid (timestamp (e_clock E 1))))) (\<lambda>protected.
             lift (map_err Fails (merge_protected ''invalid_request_object'' protected params))))))))))"


section \<open>The request\<close>

definition url_ok :: "env \<Rightarrow> string \<Rightarrow> bool" where
  "url_ok E s \<longleftrightarrow> e_url_scheme E s \<noteq> None"

text \<open>Nothing is sent to an address before it has been found among those registered for the client.\<close>

(*@ oidc-oidc/src/endpoints/authorize.rs 659-752 client and redirect_uri of the request *)
definition client_of_request :: "env \<Rightarrow> string option \<Rightarrow> params \<Rightarrow> (client \<times> string) step" where
  "client_of_request E realm_name params =
     bindp (get_or (case params ''redirect_uri'' of
              Some u \<Rightarrow> if u \<noteq> [] \<and> url_ok E u then Some u else None | None \<Rightarrow> None)
              error_page ''invalid_request'' ''Missing or invalid redirect_uri'') (\<lambda>uri.
     bindp (get_or (params ''client_id'') error_page ''invalid_request'' ''Missing client_id'') (\<lambda>cid.
     bindp (case realm_name of
              None \<Rightarrow> ret nil_uuid
            | Some name \<Rightarrow>
                bindp (query (realm_by_name name)) (\<lambda>found.
                bindp (get_or found error_page ''invalid_request'' ''Realm not found'') (\<lambda>r.
                thenp (require (r_enabled r) error_page ''access_denied'' ''Realm is disabled'')
                  (ret (r_id r))))) (\<lambda>realm.
     bindp (query (\<lambda>d. if realm \<noteq> nil_uuid then client_in_realm cid realm d else client_by_client_id cid d)) (\<lambda>found.
     bindp (get_or found error_page ''invalid_client'' ''Client not found'') (\<lambda>c.
     thenp (require (c_enabled c) error_page ''unauthorized_client'' ''Client is disabled'')
    (thenp (require (uri \<in> set (c_redirect_uris c)) error_page ''invalid_request'' ''Invalid redirect_uri'')
       (ret (c, uri))))))))"

(*@ oidc-oidc/src/endpoints/authorize.rs 754-794 response_type and response_mode *)
definition read_response :: "string \<Rightarrow> params \<Rightarrow> (response_type \<times> parsed_mode option) step" where
  "read_response uri params =
     bindp (get_or (params ''response_type'') uri ''invalid_request'' ''Missing response_type'') (\<lambda>raw.
     bindp (lift (map_err (\<lambda>_. Fails (uri, ''unsupported_response_type'', ''Invalid or unsupported response_type''))
              (parse_response_type (\<lambda>xs. xs) raw))) (\<lambda>rtype.
     case params ''response_mode'' of
       None \<Rightarrow> ret (rtype, None)
     | Some rm \<Rightarrow>
         bindp (get_or (parse_response_mode rm) uri ''invalid_request'' (''Unsupported response_mode: '' @ rm)) (\<lambda>mode.
         ret (rtype, Some mode))))"

(*@ oidc-oidc/src/endpoints/authorize.rs 824-852 PKCE of the request *)
definition require_pkce :: "string \<Rightarrow> response_type \<Rightarrow> params \<Rightarrow> unit step" where
  "require_pkce uri rtype params =
     (if rt_code rtype
      then thenp (require (params ''code_challenge'' \<noteq> None) uri ''invalid_request'' ''Missing code_challenge'')
          (bindp (get_or (params ''code_challenge_method'') uri ''invalid_request'' ''Missing code_challenge_method'') (\<lambda>m.
           require (m = ''S256'') uri ''invalid_request'' ''Only S256 code_challenge_method is supported''))
      else ret ())"

definition words_param :: "params \<Rightarrow> string \<Rightarrow> string list" where
  "words_param params k = (case params k of None \<Rightarrow> [] | Some v \<Rightarrow> split_on (CHR '' '') v)"

(*@ oidc-oidc/src/endpoints/authorize.rs 2059-2072 extract_sub_from_jwt_payload *)
definition unverified_sub :: "env \<Rightarrow> string \<Rightarrow> string option" where
  "unverified_sub E jwt =
     (case split_on (CHR ''.'') jwt of
        [_, p, _] \<Rightarrow> Option.bind (Option.bind (e_unb64 E p) (e_parse_json E)) (\<lambda>v. Option.bind (jget v ''sub'') as_str_json)
      | _ \<Rightarrow> None)"

(*@ oidc-oidc/src/endpoints/authorize.rs 876-896 id_token_hint subject *)
definition hint_subject :: "env \<Rightarrow> hub \<Rightarrow> params \<Rightarrow> db \<Rightarrow> string option" where
  "hint_subject E H params d =
     Option.bind (params ''id_token_hint'') (\<lambda>hint.
     case verify_id_any E H (timestamp (e_clock E 14)) hint d of
       Inr sub \<Rightarrow> Some sub
     | Inl _ \<Rightarrow> unverified_sub E hint)"

definition detail_ok :: "json \<Rightarrow> bool" where
  "detail_ok item \<longleftrightarrow> is_object item \<and> (case jget item ''type'' of Some (JStr t) \<Rightarrow> t \<noteq> [] | _ \<Rightarrow> False)"

(*@ oidc-oidc/src/endpoints/authorize.rs 898-920 authorization_details of the request *)
definition read_details :: "env \<Rightarrow> string \<Rightarrow> params \<Rightarrow> (json option) step" where
  "read_details E uri params =
     (case Option.bind (params ''authorization_details'') (e_parse_json E) of
        Some (JArr items) \<Rightarrow>
          thenp (require (\<forall>item \<in> set items. detail_ok item) uri ''invalid_request''
                   (''Each authorization_detail must have a non-empty '' @ [CHR 0x27] @ ''type'' @ [CHR 0x27] @ '' field''))
            (ret (Some (JArr items)))
      | _ \<Rightarrow> ret None)"

text \<open>A map of parameters has at most one \<open>resource\<close>.\<close>

(*@ oidc-oidc/src/endpoints/authorize.rs 922-945 resource of the request *)
definition read_resources :: "env \<Rightarrow> string \<Rightarrow> params \<Rightarrow> (string list) step" where
  "read_resources E uri params =
     (case params ''resource'' of
        None \<Rightarrow> ret []
      | Some res \<Rightarrow>
          thenp (require (url_ok E res \<and> CHR '':'' \<in> set res) uri ''invalid_target'' ''Each resource must be an absolute URI'')
         (thenp (require (length res \<le> 512) uri ''invalid_target'' ''Resource URI must not exceed 512 characters'')
            (ret [res])))"

(*@ oidc-oidc/src/endpoints/authorize.rs 947-993 scopes of the request *)
definition read_scopes :: "env \<Rightarrow> string \<Rightarrow> client \<Rightarrow> response_type \<Rightarrow> params \<Rightarrow> (string list) step" where
  "read_scopes E uri c rtype params =
     thenp (require (\<not> (c_pkce_required c \<and> params ''code_challenge_method'' \<noteq> Some ''S256'')) uri
              ''invalid_request'' ''PKCE S256 required'')
    (bindp (ask (\<lambda>d. map_err (\<lambda>_. Fails (uri, ''invalid_scope'', ''A requested scope is not allowed for this client''))
              (resolve_names_for_client (e_collate E) (c_id c)
                 (split_on (CHR '' '') (case params ''scope'' of None \<Rightarrow> ''openid'' | Some s \<Rightarrow> s))
                 (c_allowed_scopes c) d))) (\<lambda>scopes.
     thenp (require (''openid'' \<in> set scopes) uri ''invalid_scope''
              (''The '' @ [CHR 0x27] @ ''openid'' @ [CHR 0x27] @ '' scope is required''))
    (thenp (require (\<not> (''offline_access'' \<in> set scopes \<and> \<not> rt_code rtype)) uri ''invalid_scope''
              (''The '' @ [CHR 0x27] @ ''offline_access'' @ [CHR 0x27] @ '' scope requires an authorization code flow''))
       (ret scopes))))"

text \<open>The request as it is worked with after the checks.\<close>

record auth_request =
  az_params :: params
  az_realm_name :: "string option"
  az_client :: client
  az_uri :: string
  az_type :: response_type
  az_mode :: "parsed_mode option"
  az_hint :: "string option"
  az_details :: "json option"
  az_resources :: "string list"
  az_scopes :: "string list"

definition prompts :: "auth_request \<Rightarrow> string list" where
  "prompts q = words_param (az_params q) ''prompt''"

definition silent :: "auth_request \<Rightarrow> bool" where
  "silent q \<longleftrightarrow> ''none'' \<in> set (prompts q)"

definition offline :: "auth_request \<Rightarrow> bool" where
  "offline q \<longleftrightarrow> ''offline_access'' \<in> set (az_scopes q)"

(*@ oidc-oidc/src/endpoints/authorize.rs 344-359 redirect_uri of the outer request *)
definition outer_uri_ok :: "env \<Rightarrow> params \<Rightarrow> bool" where
  "outer_uri_ok E params \<longleftrightarrow> (case params ''redirect_uri'' of None \<Rightarrow> True | Some u \<Rightarrow> u = [] \<or> url_ok E u)"

definition read_request :: "env \<Rightarrow> hub \<Rightarrow> string option \<Rightarrow> params \<Rightarrow> auth_request step" where
  "read_request E H realm_name params =
     thenp (require (outer_uri_ok E params) error_page ''invalid_request'' ''Invalid redirect_uri format'')
    (bindp (resolve_pushed E params) (\<lambda>params.
     bindp (decrypt_object E params) (\<lambda>params.
     bindp (verify_object E H params) (\<lambda>params.
     bindp (client_of_request E realm_name params) (\<lambda>(c, uri).
     bindp (read_response uri params) (\<lambda>(rtype, mode).
     thenp (require_pkce uri rtype params)
    (bindp (query (hint_subject E H params)) (\<lambda>hint.
     bindp (read_details E uri params) (\<lambda>details.
     bindp (read_resources E uri params) (\<lambda>resources.
     bindp (read_scopes E uri c rtype params) (\<lambda>scopes.
     ret \<lparr>az_params = params, az_realm_name = realm_name, az_client = c, az_uri = uri, az_type = rtype,
          az_mode = mode, az_hint = hint, az_details = details, az_resources = resources,
          az_scopes = scopes\<rparr>)))))))))))"


section \<open>The user\<close>

(*@ oidc-oidc/src/endpoints/authorize.rs 1001-1015 session identifier of the cookie *)
definition cookie_session_id :: "env \<Rightarrow> string option \<Rightarrow> auth_request \<Rightarrow> string option" where
  "cookie_session_id E cookie q =
     (if ''login'' \<in> set (prompts q) then None
      else case e_key E of Inl _ \<Rightarrow> None | Inr key \<Rightarrow> extract_session_id E cookie key)"

definition cookie_session :: "env \<Rightarrow> string option \<Rightarrow> db \<Rightarrow> session option" where
  "cookie_session E sid d = Option.bind (Option.bind sid (e_parse_uuid E)) (\<lambda>i. session_by_id i d)"

(*@ oidc-oidc/src/endpoints/authorize.rs 1017-1074 user of the session cookie *)
definition cookie_user :: "env \<Rightarrow> string option \<Rightarrow> db \<Rightarrow> user option" where
  "cookie_user E sid d =
     Option.bind (cookie_session E sid d) (\<lambda>s.
     if \<not> s_revoked s \<and> e_clock E 2 < s_expires_at s
     then Option.bind (s_user_id s) (\<lambda>uid.
          case user_by_id uid d of
            Some u \<Rightarrow> if u_enabled u then Some u else None
          | None \<Rightarrow> None)
     else None)"

definition num_seconds :: "int \<Rightarrow> int" where
  "num_seconds t = t sdiv 1000000"

(*@ oidc-oidc/src/endpoints/authorize.rs 1089-1124 max_age *)
definition too_old :: "env \<Rightarrow> string option \<Rightarrow> auth_request \<Rightarrow> user option \<Rightarrow> db \<Rightarrow> bool" where
  "too_old E sid q u d \<longleftrightarrow>
     (case Option.bind (az_params q ''max_age'') (parse_int (- (2 ^ 63)) (2 ^ 63 - 1)) of
        None \<Rightarrow> False
      | Some max_age \<Rightarrow>
          0 \<le> max_age
          \<and> (if u = None then True
             else case cookie_session E sid d of
                    None \<Rightarrow> False
                  | Some s \<Rightarrow> max_age < num_seconds (e_clock E 3 - s_created_at s)))"

(*@ oidc-oidc/src/endpoints/authorize.rs 1076-1146 authentication of the user *)
definition sign_in_of ::
  "env \<Rightarrow> string option \<Rightarrow> auth_request \<Rightarrow> user step" where
  "sign_in_of E sid q =
     bindp (query (cookie_user E sid)) (\<lambda>u.
     thenp (require (\<not> (silent q \<and> u = None)) (az_uri q) ''login_required''
              ''The Authorization Server requires End-User authentication.'')
    (bindp (query (too_old E sid q u)) (\<lambda>old.
     if old then to_login E (az_realm_name q) (az_params q)
     else case u of
       None \<Rightarrow> to_login E (az_realm_name q) (az_params q)
     | Some u \<Rightarrow>
         thenp (require (u_enabled u) (az_uri q) ''access_denied'' ''User account is disabled'')
           (ret u))))"

(*@ oidc-oidc/src/endpoints/authorize.rs 1147-1196 required actions and managed organization *)
definition check_account :: "env \<Rightarrow> auth_request \<Rightarrow> user \<Rightarrow> unit step" where
  "check_account E q u =
     bindp (query (\<lambda>d. case realm_by_id (u_realm_id u) d of None \<Rightarrow> [] | Some r \<Rightarrow> pending_actions u r d)) (\<lambda>actions.
     thenp (if actions = [] then ret ()
            else if silent q
            then fails (az_uri q) ''interaction_required'' ''The user must complete required account actions''
            else to_login E (az_realm_name q) (az_params q))
    (bindp (query (is_managed_user_blocked (u_id u))) (\<lambda>blocked.
     require (\<not> blocked) (az_uri q) ''access_denied'' ''The account organization is disabled'')))"

text \<open>The choices of the page: an organization with the scopes that its button sends.\<close>

(*@ oidc-oidc/src/endpoints/authorize.rs 1869-1900 render_organization_selection_html *)
definition organization_page :: "params \<Rightarrow> organization list \<Rightarrow> authorize_result" where
  "organization_page params orgs =
     (let base = filter (\<lambda>s. s \<noteq> ''organization'')
            (split_whitespace (case params ''scope'' of None \<Rightarrow> [] | Some s \<Rightarrow> s))
      in Organization_Page (params(''scope'' := None))
           (map (\<lambda>o'. (o', join '' '' (base @ [''organization:'' @ o_alias o']))) orgs))"

(*@ oidc-oidc/src/endpoints/authorize.rs 1198-1234 organization scope *)
definition check_organization :: "env \<Rightarrow> auth_request \<Rightarrow> user \<Rightarrow> unit step" where
  "check_organization E q u =
     bindp (query (resolve_organization_claim E (u_id u) (az_scopes q))) (\<lambda>claim.
     case claim of
       Inr _ \<Rightarrow> ret ()
     | Inl (AccountSelectionRequired m) \<Rightarrow>
         if silent q then fails (az_uri q) ''account_selection_required'' m
         else bindp (ask (\<lambda>d. map_err (server_error (az_uri q)) (enabled_orgs_of_user E (u_id u) d))) (\<lambda>orgs.
              fail (Answers (organization_page (az_params q) orgs)))
     | Inl (InvalidScope m) \<Rightarrow> fails (az_uri q) ''invalid_scope'' m
     | Inl e \<Rightarrow> fail (server_error (az_uri q) e))"

(*@ oidc-oidc/src/endpoints/authorize.rs 1236-1266 id_token_hint *)
definition check_hint :: "env \<Rightarrow> auth_request \<Rightarrow> user \<Rightarrow> unit step" where
  "check_hint E q u =
     (if az_hint q = None \<or> az_hint q = Some (e_uuid_text E (u_id u)) then ret ()
      else if silent q
      then fails (az_uri q) ''account_selection_required''
             ''The end-user identified by the id_token_hint is not the currently authenticated user.''
      else to_login E (az_realm_name q) (az_params q))"


section \<open>Consent\<close>

definition granted_before :: "auth_request \<Rightarrow> user \<Rightarrow> db \<Rightarrow> bool" where
  "granted_before q u d \<longleftrightarrow>
     (case consent_of (u_id u) (c_id (az_client q)) d of
        None \<Rightarrow> False
      | Some consent \<Rightarrow> set (az_scopes q) \<subseteq> set (uc_scopes consent))"

definition page_params :: "params \<Rightarrow> params" where
  "page_params params =
     (\<lambda>k. if k \<in> {''request'', ''request_uri'', ''consent_action'', ''consent_token''} then None else params k)"

(*@ oidc-oidc/src/endpoints/authorize.rs 1268-1356 User consent *)
definition check_consent :: "env \<Rightarrow> auth_request \<Rightarrow> user \<Rightarrow> unit step" where
  "check_consent E q u =
     bindp (query (granted_before q u)) (\<lambda>granted.
     let c = az_client q; token = az_params q ''consent_token''; action = az_params q ''consent_action'';
         valid = (case token of None \<Rightarrow> False | Some t \<Rightarrow> verify_consent_token E t (u_id u) (c_id c) (az_scopes q))
     in thenp (require (\<not> ((token \<noteq> None \<or> action \<noteq> None) \<and> \<not> valid)) (az_uri q) ''invalid_request''
                 ''The consent request is invalid or expired'')
       (if action = Some ''deny'' \<and> valid
        then fails (az_uri q) ''access_denied'' ''The user denied the request''
        else if action = Some ''allow'' \<and> valid
        then exec (consent_grant (e_db_now E) (e_uuid E 0) (u_id u) (u_realm_id u) (c_id c) (az_scopes q))
        else if silent q \<and> (offline q \<or> \<not> granted)
        then fails (az_uri q) ''consent_required'' ''The user has not approved the requested access''
        else if offline q \<or> ''consent'' \<in> set (prompts q) \<or> \<not> granted
        then bindp (lift (map_err (server_error (az_uri q)) (create_consent_token E (u_id u) (c_id c) (az_scopes q)))) (\<lambda>t.
             fail (Answers (Consent_Page
               (case az_realm_name q of None \<Rightarrow> ''/oidc/authorize''
                | Some n \<Rightarrow> ''/realms/'' @ n @ ''/protocol/openid-connect/auth'')
               (page_params (az_params q)) (c_name c) (az_scopes q) t)))
        else ret ()))"


section \<open>Assurance\<close>

definition flow_of_user :: "user \<Rightarrow> db \<Rightarrow> flow_config" where
  "flow_of_user u d =
     (case realm_by_id (u_realm_id u) d of None \<Rightarrow> default_flow | Some r \<Rightarrow> flow_config_of (r_config r))"

definition step_up_met :: "env \<Rightarrow> flow_config \<Rightarrow> session option \<Rightarrow> bool" where
  "step_up_met E f s \<longleftrightarrow>
     (case s of
        None \<Rightarrow> False
      | Some s \<Rightarrow> s_acr s = acr_silver
          \<and> (case su_max_auth_age (fc_step_up f) of
               None \<Rightarrow> True | Some m \<Rightarrow> num_seconds (e_clock E 6 - s_created_at s) \<le> m))"

text \<open>The description of an unmet request lists it in the Debug form, which is not modelled.\<close>

(*@ oidc-oidc/src/endpoints/authorize.rs 1358-1437 acr of the request *)
definition check_assurance :: "env \<Rightarrow> string option \<Rightarrow> auth_request \<Rightarrow> user \<Rightarrow> resolved_acr_amr step" where
  "check_assurance E sid q u =
     bindp (query (cookie_session E sid)) (\<lambda>s.
     bindp (query (flow_of_user u)) (\<lambda>f.
     thenp (if step_up_wanted f (az_client q) (az_scopes q) [] \<and> \<not> step_up_met E f s
            then if silent q
                 then fails (az_uri q) ''interaction_required'' ''Multi-factor authentication is required for this request''
                 else to_login E (az_realm_name q) (az_params q)
            else ret ())
    (bindp (lift (map_err (\<lambda>_. Fails (az_uri q, ''login_required'', ''Cannot satisfy requested ACR values: '' @ library_text))
              (resolve_acr_amr (if (case s of None \<Rightarrow> False | Some s \<Rightarrow> s_acr s = acr_silver) then ''mfa'' else ''pwd'')
                 (words_param (az_params q) ''acr_values'')))) (\<lambda>ra.
     ret (case s of None \<Rightarrow> ra | Some s \<Rightarrow> ra\<lparr>ra_amr := s_amr s\<rparr>)))))"


section \<open>The code and the tokens\<close>

(*@ oidc-oidc/src/endpoints/authorize.rs 1908-1917 generate_auth_code *)
definition generate_auth_code :: "env \<Rightarrow> string result" where
  "generate_auth_code E = generate_opaque_token E 0"

(*@ oidc-oidc/src/endpoints/authorize.rs 1452-1482 AuthCode of the request *)
definition code_of_request :: "env \<Rightarrow> auth_request \<Rightarrow> user \<Rightarrow> resolved_acr_amr \<Rightarrow> string \<Rightarrow> auth_code" where
  "code_of_request E q u ra code =
     \<lparr>ac_id = e_uuid E 1, ac_code = code, ac_client_id = c_id (az_client q), ac_user_id = u_id u,
      ac_realm_id = c_realm_id (az_client q), ac_redirect_uri = az_uri q, ac_scope = az_scopes q,
      ac_code_challenge = (case az_params q ''code_challenge'' of None \<Rightarrow> [] | Some v \<Rightarrow> v),
      ac_code_challenge_method = ''S256'', ac_nonce = az_params q ''nonce'', ac_used = False,
      ac_claims_request = Option.bind (az_params q ''claims'') (e_parse_json E),
      ac_display = az_params q ''display'', ac_response_type = az_type q,
      ac_acr_values = words_param (az_params q) ''acr_values'',
      ac_claims_locales = words_param (az_params q) ''claims_locales'',
      ac_expires_at = e_clock E 7 + secs 60, ac_response_mode = az_params q ''response_mode'',
      ac_authorization_details = az_details q, ac_resource = az_resources q,
      ac_auth_acr = Some (ra_acr ra), ac_auth_amr = ra_amr ra\<rparr>"

(*@ oidc-oidc/src/endpoints/authorize.rs 1622-1650 Session of the implicit flow *)
definition implicit_session :: "env \<Rightarrow> auth_request \<Rightarrow> user \<Rightarrow> resolved_acr_amr \<Rightarrow> string \<Rightarrow> string \<Rightarrow> session" where
  "implicit_session E q u ra sid access_token =
     \<lparr>s_id = e_uuid E 2, s_sid = sid, s_user_id = Some (u_id u), s_realm_id = c_realm_id (az_client q),
      s_client_id = c_id (az_client q), s_grant_type = ''implicit'',
      s_access_token_hash = sha2_256_hex E access_token, s_refresh_token_hash = None, s_id_token_jti = None,
      s_scope = az_scopes q, s_revoked = False, s_expires_at = e_clock E 9 + minutes 15,
      s_refresh_expires_at = None, s_offline_session = False, s_offline_max_expires_at = None,
      s_created_at = e_clock E 10, s_last_used_at = None, s_token_family_id = None,
      s_previous_session_id = None, s_rotated_at = None, s_reused_at = None, s_family_revoked = False,
      s_authorization_details = az_details q, s_resource = az_resources q,
      s_acr = ra_acr ra, s_amr = ra_amr ra\<rparr>"

(*@ oidc-oidc/src/endpoints/authorize.rs 1588-1668 access token of the implicit flow *)
definition implicit_access_token ::
  "env \<Rightarrow> auth_request \<Rightarrow> user \<Rightarrow> resolved_acr_amr \<Rightarrow> string \<Rightarrow> token_service \<Rightarrow> mapped_claims \<Rightarrow> role_claims
     \<Rightarrow> json option \<Rightarrow> (string list) step" where
  "implicit_access_token E q u ra sid svc mapped roles org =
     (if rt_token (az_type q)
      then bindp (lift (map_err (server_error (az_uri q))
             (issue_access_token E 2 svc (timestamp (e_clock E 8)) (subject_for E (az_client q) (u_id u))
                (c_client_id (az_client q)) (az_scopes q) None (az_details q) (Some (az_resources q))
                (user_access_extra mapped roles org (az_scopes q))))) (\<lambda>(_, access_token).
           thenp (convert (server_error (az_uri q))
                    (session_create (e_db_now E) (implicit_session E q u ra sid access_token)))
             (ret [''access_token='' @ e_percent E access_token @ ''&token_type=Bearer&expires_in=900'']))
      else ret [])"

text \<open>The hash is taken of what follows the name of the parameter.\<close>

(*@ oidc-oidc/src/endpoints/authorize.rs 1671-1681 at_hash of the implicit flow *)
definition at_hash_of_fragments :: "env \<Rightarrow> response_type \<Rightarrow> string list \<Rightarrow> string option" where
  "at_hash_of_fragments E rtype fragments =
     (if rt_token rtype \<and> fragments \<noteq> []
      then (case List.map_filter (\<lambda>f. strip_prefix f ''access_token='') fragments of
              [] \<Rightarrow> None
            | at # _ \<Rightarrow> Some (left_half_hash E (e_unpercent E at)))
      else None)"

(*@ oidc-oidc/src/endpoints/authorize.rs 1683-1727 IdTokenExtraClaims of the implicit flow *)
definition implicit_id_extra ::
  "env \<Rightarrow> auth_request \<Rightarrow> user \<Rightarrow> resolved_acr_amr \<Rightarrow> string \<Rightarrow> string option \<Rightarrow> mapped_claims \<Rightarrow> role_claims
     \<Rightarrow> json option \<Rightarrow> id_extra" where
  "implicit_id_extra E q u ra sid at_hash mapped roles org =
     (profile_extra u no_id_extra)
       \<lparr>ix_custom_claims := mc_id_token mapped, ix_additional_audiences := mc_id_audiences mapped,
        ix_nonce := az_params q ''nonce'', ix_at_hash := at_hash, ix_c_hash := None,
        ix_auth_time := Some (timestamp (e_clock E 11)), ix_sid := Some sid,
        ix_locale := Some (resolve_locale (u_locale u) (words_param (az_params q) ''claims_locales'')),
        ix_acr := Some (ra_acr ra), ix_amr := Some (ra_amr ra),
        ix_azp := (if az_resources q = [] then None else az_params q ''client_id''),
        ix_address := (if ''address'' \<in> set (az_scopes q) then address_claim u else None),
        ix_roles := rc_roles roles, ix_realm_access := rc_realm_access roles,
        ix_resource_access := rc_resource_access roles, ix_organization := org\<rparr>"

(*@ oidc-oidc/src/endpoints/authorize.rs 1670-1758 ID token of the implicit flow *)
definition implicit_id_token ::
  "env \<Rightarrow> auth_request \<Rightarrow> user \<Rightarrow> resolved_acr_amr \<Rightarrow> string \<Rightarrow> token_service \<Rightarrow> mapped_claims \<Rightarrow> role_claims
     \<Rightarrow> json option \<Rightarrow> string list \<Rightarrow> (string list) step" where
  "implicit_id_token E q u ra sid svc mapped roles org fragments =
     (if rt_id_token (az_type q)
      then bindp (lift (map_err (server_error (az_uri q))
             (bindr (issue_id_token E svc (timestamp (e_clock E 12)) (subject_for E (az_client q) (u_id u))
                       (c_client_id (az_client q))
                       (implicit_id_extra E q u ra sid (at_hash_of_fragments E (az_type q) fragments) mapped roles org)) (\<lambda>t.
              maybe_encrypt_id_token E t (az_client q))))) (\<lambda>id_token.
           ret [''id_token='' @ e_percent E id_token])
      else ret [])"

definition organization_for_tokens :: "env \<Rightarrow> auth_request \<Rightarrow> user \<Rightarrow> (json option) step" where
  "organization_for_tokens E q u =
     ask (\<lambda>d. map_err (\<lambda>e. case e of
                 InvalidScope m \<Rightarrow> Fails (az_uri q, ''invalid_scope'', m)
               | AccountSelectionRequired m \<Rightarrow> Fails (az_uri q, ''account_selection_required'', m)
               | _ \<Rightarrow> server_error (az_uri q) e)
            (resolve_organization_claim E (u_id u) (az_scopes q) d))"

(*@ oidc-oidc/src/endpoints/authorize.rs 1505-1587 tokens of the implicit and hybrid flows *)
definition implicit_tokens ::
  "env \<Rightarrow> auth_request \<Rightarrow> user \<Rightarrow> resolved_acr_amr \<Rightarrow> string list \<Rightarrow> (string list) step" where
  "implicit_tokens E q u ra fragments =
     (if is_implicit_or_hybrid (az_type q)
      then let sid = sid_or_default E 1
           in bindp (lift (map_err (server_error (az_uri q)) (e_services E (c_realm_id (az_client q))))) (\<lambda>svc.
              bindp (organization_for_tokens E q u) (\<lambda>org.
              bindp (query (resolve_role_claims (e_collate E) (u_id u))) (\<lambda>roles.
              bindp (query (resolve_mapped_claims E (c_id (az_client q)) (Some u) (az_scopes q))) (\<lambda>mapped.
              bindp (implicit_access_token E q u ra sid svc mapped roles org) (\<lambda>access.
              bindp (implicit_id_token E q u ra sid svc mapped roles org (fragments @ access)) (\<lambda>idt.
              ret (fragments @ access @ idt)))))))
      else ret fragments)"


section \<open>The response\<close>

(*@ oidc-oidc/src/endpoints/authorize.rs 1761-1791 state and session_state *)
definition browser_fragments :: "env \<Rightarrow> string option \<Rightarrow> auth_request \<Rightarrow> string list" where
  "browser_fragments E sid q =
     (case az_params q ''state'' of None \<Rightarrow> [] | Some s \<Rightarrow> [''state='' @ e_percent E s])
     @ (case (sid, extract_origin E (az_uri q)) of
          (Some i, Some origin) \<Rightarrow>
            [''session_state='' @ e_percent E (compute_session_state E (case az_params q ''client_id'' of None \<Rightarrow> [] | Some c \<Rightarrow> c) i origin)]
        | _ \<Rightarrow> [])"

definition pair_of_fragment :: "env \<Rightarrow> string \<Rightarrow> (string \<times> string) option" where
  "pair_of_fragment E f = map_option (\<lambda>(k, v). (k, e_unpercent E v)) (split_once (CHR ''='') f)"

(*@ oidc-oidc/src/endpoints/authorize.rs 1932-1971 issue_jarm_jwt *)
definition issue_jarm_jwt :: "env \<Rightarrow> hub \<Rightarrow> uuid \<Rightarrow> string \<Rightarrow> string list \<Rightarrow> string result" where
  "issue_jarm_jwt E H realm cid fragments =
     bindr (e_services E realm) (\<lambda>svc.
     let now = timestamp (e_clock E 13)
     in encode_jwt E svc
          (obj.ins_all ([(''iss'', JStr (hb_issuer H)), (''aud'', JStr cid), (''exp'', JNum (now + 300)), (''iat'', JNum now)]
             @ map (\<lambda>(k, v). (k, JStr v)) (List.map_filter (pair_of_fragment E) fragments)) []))"

(*@ oidc-oidc/src/endpoints/authorize.rs 1793-1866 delivery of the response *)
definition deliver :: "env \<Rightarrow> hub \<Rightarrow> auth_request \<Rightarrow> string list \<Rightarrow> authorize_result step" where
  "deliver E H q fragments =
     (let mode = effective_mode (az_mode q) (az_type q)
      in if is_jarm (az_mode q)
         then bindp (lift (map_err (server_error (az_uri q))
                (issue_jarm_jwt E H (c_realm_id (az_client q))
                   (case az_params q ''client_id'' of None \<Rightarrow> [] | Some c \<Rightarrow> c) fragments))) (\<lambda>jwt.
              ret (case mode of
                     In_Query \<Rightarrow> Redirect_To (az_uri q @ ''?response='' @ e_percent E jwt)
                   | In_Fragment \<Rightarrow> Redirect_To (az_uri q @ ''#response='' @ e_percent E jwt)
                   | By_Form \<Rightarrow> Form_Post (az_uri q) [(''response'', jwt)]))
         else ret (case mode of
                     In_Query \<Rightarrow> Redirect_To (az_uri q @ ''?'' @ join ''&'' fragments)
                   | In_Fragment \<Rightarrow> Redirect_To (az_uri q @ ''#'' @ join ''&'' fragments)
                   | By_Form \<Rightarrow> Form_Post (az_uri q) (List.map_filter (pair_of_fragment E) fragments)))"

(*@ oidc-oidc/src/endpoints/authorize.rs 1443-1503 authorization code *)
definition issue_code :: "env \<Rightarrow> auth_request \<Rightarrow> user \<Rightarrow> resolved_acr_amr \<Rightarrow> (string list) step" where
  "issue_code E q u ra =
     bindp (lift (map_err (server_error (az_uri q)) (generate_auth_code E))) (\<lambda>code.
     if rt_code (az_type q)
     then thenp (convert (server_error (az_uri q)) (code_create (sha2_256_hex E) (code_of_request E q u ra code)))
            (ret [''code='' @ e_percent E code])
     else ret [])"

definition respond :: "env \<Rightarrow> hub \<Rightarrow> string option \<Rightarrow> auth_request \<Rightarrow> user \<Rightarrow> resolved_acr_amr \<Rightarrow> authorize_result step" where
  "respond E H sid q u ra =
     bindp (issue_code E q u ra) (\<lambda>fragments.
     bindp (implicit_tokens E q u ra fragments) (\<lambda>fragments.
     deliver E H q (fragments @ browser_fragments E sid q)))"


section \<open>The endpoint\<close>

(*@ oidc-oidc/src/endpoints/authorize.rs 321-326 authorize_inner *)
definition authorize_steps ::
  "env \<Rightarrow> hub \<Rightarrow> string option \<Rightarrow> string option \<Rightarrow> params \<Rightarrow> authorize_result step" where
  "authorize_steps E H cookie realm_name params =
     bindp (read_request E H realm_name params) (\<lambda>q.
     let sid = cookie_session_id E cookie q
     in bindp (sign_in_of E sid q) (\<lambda>u.
        thenp (check_account E q u)
       (thenp (check_organization E q u)
       (thenp (check_hint E q u)
       (thenp (check_consent E q u)
       (bindp (check_assurance E sid q u) (\<lambda>ra.
        respond E H sid q u ra)))))))"

text \<open>The answer to the browser.  An error goes to the address in the query, with the state that the request
  came with.\<close>

(*@ oidc-oidc/src/endpoints/authorize.rs 267-319 authorize_handler, realm_authorize_handler *)
definition authorize_handler ::
  "env \<Rightarrow> hub \<Rightarrow> string option \<Rightarrow> string option \<Rightarrow> params \<Rightarrow> db \<Rightarrow> authorize_result \<times> db" where
  "authorize_handler E H cookie realm_name params d =
     (case authorize_steps E H cookie realm_name params d of
        (Inr answer, e) \<Rightarrow> (answer, e)
      | (Inl (Answers answer), e) \<Rightarrow> (answer, e)
      | (Inl (Fails (uri, error, description)), e) \<Rightarrow>
          (Redirect_To (build_error_url E uri error description (params ''state'')), e))"

end
