(* ===== verification/Authorize_Props.thy ===== *)
theory Authorize_Props
  imports Authorize Password_Props
begin

text \<open>What an answered authorization request guarantees, where its errors may go, and what signed and pushed
  parameters are worth.\<close>

section \<open>Steps\<close>

lemma require_ok [prog_ok]: "require b uri code text d = (Inr x, e) \<longleftrightarrow> b \<and> e = d"
  by (simp add: require_def prog_ok)

lemma fails_ok [prog_ok]: "fails uri code text d = (Inr x, e) \<longleftrightarrow> False"
  by (simp add: fails_def prog_ok)

lemma get_or_ok [prog_ok]: "get_or y uri code text d = (Inr x, e) \<longleftrightarrow> y = Some x \<and> e = d"
  by (simp add: get_or_def prog_ok)

lemma to_login_ok [prog_ok]: "to_login E name params d = (Inr x, e) \<longleftrightarrow> False"
  by (simp add: to_login_def prog_ok)

lemma convert_ok [prog_ok]: "convert f m d = (Inr x, e) \<longleftrightarrow> m d = (Inr x, e)"
  by (auto simp: convert_def split: prod.splits)

lemma step_run [prog_run]:
  "require b uri code text d = (if b then Inr () else Inl (Fails (uri, code, text)), d)"
  "fails uri code text d = (Inl (Fails (uri, code, text)), d)"
  "get_or y uri code text d = (case y of None \<Rightarrow> Inl (Fails (uri, code, text)) | Some x \<Rightarrow> Inr x, d)"
  "to_login E name params d = (Inl (Answers (Redirect_To (build_login_url E name params))), d)"
  by (simp_all add: require_def fails_def get_or_def to_login_def prog_run split: option.splits)


section \<open>The request that is worked with\<close>

definition client_for :: "string option \<Rightarrow> string \<Rightarrow> db \<Rightarrow> client option" where
  "client_for realm_name cid d =
     (case realm_name of
        None \<Rightarrow> client_by_client_id cid d
      | Some name \<Rightarrow> Option.bind (realm_by_name name d) (\<lambda>r.
          if \<not> r_enabled r then None
          else if r_id r \<noteq> nil_uuid then client_in_realm cid (r_id r) d else client_by_client_id cid d))"

text \<open>A request that has passed all checks that do not look at the user.\<close>

definition request_checked :: "env \<Rightarrow> db \<Rightarrow> auth_request \<Rightarrow> bool" where
  "request_checked E d q \<longleftrightarrow>
     (\<exists>cid. az_params q ''client_id'' = Some cid \<and> client_for (az_realm_name q) cid d = Some (az_client q))
     \<and> c_enabled (az_client q)
     \<and> az_params q ''redirect_uri'' = Some (az_uri q) \<and> az_uri q \<in> set (c_redirect_uris (az_client q))
     \<and> (\<exists>raw. az_params q ''response_type'' = Some raw \<and> parse_response_type (\<lambda>xs. xs) raw = Inr (az_type q))
     \<and> (rt_code (az_type q) \<longrightarrow> az_params q ''code_challenge'' \<noteq> None
          \<and> az_params q ''code_challenge_method'' = Some ''S256'')
     \<and> (c_pkce_required (az_client q) \<longrightarrow> az_params q ''code_challenge_method'' = Some ''S256'')
     \<and> resolve_names_for_client (e_collate E) (c_id (az_client q))
         (split_on (CHR '' '') (case az_params q ''scope'' of None \<Rightarrow> ''openid'' | Some s \<Rightarrow> s))
         (c_allowed_scopes (az_client q)) d = Inr (az_scopes q)
     \<and> ''openid'' \<in> set (az_scopes q)
     \<and> (''offline_access'' \<in> set (az_scopes q) \<longrightarrow> rt_code (az_type q))"

lemma client_of_request_ok:
  assumes "client_of_request E name params d = (Inr (c, uri), e)"
  shows "e = d \<and> (\<exists>cid. params ''client_id'' = Some cid \<and> client_for name cid d = Some c) \<and> c_enabled c
    \<and> params ''redirect_uri'' = Some uri \<and> uri \<in> set (c_redirect_uris c)"
  using assms unfolding client_of_request_def client_for_def
  by (auto simp: prog_ok split: option.splits if_split_asm)

lemma read_response_ok:
  assumes "read_response uri params d = (Inr (rtype, mode), e)"
  shows "e = d \<and> (\<exists>raw. params ''response_type'' = Some raw \<and> parse_response_type (\<lambda>xs. xs) raw = Inr rtype)"
  using assms unfolding read_response_def
  by (auto simp: prog_ok split: option.splits)

lemma require_pkce_ok:
  "require_pkce uri rtype params d = (Inr x, e) \<longleftrightarrow>
     e = d \<and> (rt_code rtype \<longrightarrow> params ''code_challenge'' \<noteq> None \<and> params ''code_challenge_method'' = Some ''S256'')"
  unfolding require_pkce_def by (auto simp: prog_ok)

lemma read_details_state: "read_details E uri params d = (Inr x, e) \<Longrightarrow> e = d"
  unfolding read_details_def by (auto simp: prog_ok split: option.splits json.splits)

lemma read_resources_state: "read_resources E uri params d = (Inr x, e) \<Longrightarrow> e = d"
  unfolding read_resources_def by (auto simp: prog_ok split: option.splits)

lemma read_scopes_ok:
  assumes "read_scopes E uri c rtype params d = (Inr scopes, e)"
  shows "e = d \<and> (c_pkce_required c \<longrightarrow> params ''code_challenge_method'' = Some ''S256'')
    \<and> resolve_names_for_client (e_collate E) (c_id c)
         (split_on (CHR '' '') (case params ''scope'' of None \<Rightarrow> ''openid'' | Some s \<Rightarrow> s)) (c_allowed_scopes c) d = Inr scopes
    \<and> ''openid'' \<in> set scopes \<and> (''offline_access'' \<in> set scopes \<longrightarrow> rt_code rtype)"
  using assms unfolding read_scopes_def by (auto simp: prog_ok)

text \<open>A pushed request that was used is the only thing that a refused or an answered request has written before
  the user is looked at.\<close>

definition pushed_spent :: "env \<Rightarrow> string option \<Rightarrow> db \<Rightarrow> db \<Rightarrow> bool" where
  "pushed_spent E uri d m \<longleftrightarrow>
     (case uri of
        None \<Rightarrow> m = d
      | Some u \<Rightarrow> \<exists>token p. u = request_uri_prefix @ token \<and> par_by_token (e_db_now E) token d = Some p
          \<and> m = par_mark_used (par_id p) d)"

lemma resolve_pushed_ok:
  assumes "resolve_pushed E params d = (Inr ps, m)"
  shows "pushed_spent E (params ''request_uri'') d m \<and> (params ''request_uri'' = None \<longrightarrow> ps = params)
    \<and> ps ''request_uri'' = None"
  using assms unfolding resolve_pushed_def pushed_spent_def
  by (auto simp: prog_ok strip_prefix_Some split: option.splits)

lemma object_key_state: "object_key E c d = (Inr x, e) \<Longrightarrow> e = d"
  unfolding object_key_def by (auto simp: prog_ok split: if_split_asm)

lemma decrypt_object_state: "decrypt_object E params d = (Inr ps, e) \<Longrightarrow> e = d"
  unfolding decrypt_object_def by (auto simp: prog_ok dest!: object_key_state split: option.splits if_split_asm)

lemma verify_object_state: "verify_object E H params d = (Inr ps, e) \<Longrightarrow> e = d"
  unfolding verify_object_def Let_def by (auto simp: prog_ok split: option.splits)

text \<open>Where the request that is worked with comes from: the parameters of the address, with those of a pushed and
  of a signed request over them, and what they say of the hint, the details and the resources.\<close>

definition read_from :: "env \<Rightarrow> hub \<Rightarrow> params \<Rightarrow> db \<Rightarrow> db \<Rightarrow> auth_request \<Rightarrow> bool" where
  "read_from E H params d m q \<longleftrightarrow>
     (\<exists>p1 p2. resolve_pushed E params d = (Inr p1, m) \<and> decrypt_object E p1 m = (Inr p2, m)
        \<and> verify_object E H p2 m = (Inr (az_params q), m))
     \<and> az_hint q = hint_subject E H (az_params q) m
     \<and> read_details E (az_uri q) (az_params q) m = (Inr (az_details q), m)
     \<and> read_resources E (az_uri q) (az_params q) m = (Inr (az_resources q), m)"

lemma read_request_ok:
  assumes "read_request E H name params d = (Inr q, m)"
  shows "pushed_spent E (params ''request_uri'') d m \<and> az_realm_name q = name \<and> request_checked E m q
    \<and> read_from E H params d m q"
proof -
  from assms obtain p1 p2 p3 c uri rtype mode x hint details resources scopes m2 m3 m4 m5 m6 m7 m8 m9 where
    run: "resolve_pushed E params d = (Inr p1, m2)" "decrypt_object E p1 m2 = (Inr p2, m3)"
      "verify_object E H p2 m3 = (Inr p3, m4)" "client_of_request E name p3 m4 = (Inr (c, uri), m5)"
      "read_response uri p3 m5 = (Inr (rtype, mode), m6)" "require_pkce uri rtype p3 m6 = (Inr x, m7)"
      "hint = hint_subject E H p3 m7" "read_details E uri p3 m7 = (Inr details, m8)" "read_resources E uri p3 m8 = (Inr resources, m9)"
      "read_scopes E uri c rtype p3 m9 = (Inr scopes, m)"
    and q: "q = \<lparr>az_params = p3, az_realm_name = name, az_client = c, az_uri = uri, az_type = rtype,
          az_mode = mode, az_hint = hint, az_details = details, az_resources = resources, az_scopes = scopes\<rparr>"
    unfolding read_request_def by (auto simp: prog_ok)
  have same: "m3 = m2" "m4 = m3" "m5 = m4" "m6 = m5" "m7 = m6" "m8 = m7" "m9 = m8" "m = m9"
    using decrypt_object_state [OF run(2)] verify_object_state [OF run(3)] client_of_request_ok [OF run(4)]
      read_response_ok [OF run(5)] run(6) read_details_state [OF run(8)] read_resources_state [OF run(9)]
      read_scopes_ok [OF run(10)]
    by (simp_all add: require_pkce_ok)
  have "pushed_spent E (params ''request_uri'') d m"
    using resolve_pushed_ok [OF run(1)] same by simp
  moreover have "request_checked E m q"
    using client_of_request_ok [OF run(4)] read_response_ok [OF run(5)] run(6) read_scopes_ok [OF run(10)] same
    unfolding request_checked_def q by (simp add: require_pkce_ok)
  moreover have "read_from E H params d m q"
    using run(1-3, 7-9) same unfolding read_from_def q by auto
  ultimately show ?thesis
    by (simp add: q)
qed


lemma read_request_plain:
  assumes "read_request E H name params d = (Inr q, m)" and "params ''request'' = None" and "params ''request_uri'' = None"
  shows "m = d \<and> az_params q = params \<and> az_realm_name q = name"
proof -
  have "resolve_pushed E params d = (Inr params, d)" "decrypt_object E params d = (Inr params, d)"
      "verify_object E H params d = (Inr params, d)"
    using assms(2,3) unfolding resolve_pushed_def decrypt_object_def verify_object_def by (simp_all add: prog_run step_run thenp_def bindp_def)
  with assms(1) have "az_params q = params"
    unfolding read_request_def by (auto simp: prog_ok)
  with read_request_ok [OF assms(1)] assms(3) show ?thesis
    by (simp add: pushed_spent_def)
qed


section \<open>The user\<close>

lemma sign_in_of_ok:
  assumes "sign_in_of E sid q d = (Inr u, e)"
  shows "e = d \<and> cookie_user E sid d = Some u \<and> \<not> too_old E sid q (Some u) d"
  using assms unfolding sign_in_of_def by (auto simp: prog_ok split: option.splits if_split_asm)

lemma cookie_user_Some:
  "cookie_user E sid d = Some u \<longleftrightarrow>
     (\<exists>s. cookie_session E sid d = Some s \<and> \<not> s_revoked s \<and> e_clock E 2 < s_expires_at s
        \<and> (\<exists>i. s_user_id s = Some i \<and> user_by_id i d = Some u) \<and> u_enabled u)"
  unfolding cookie_user_def
  by (cases "cookie_session E sid d"; cases "Option.bind (cookie_session E sid d) s_user_id")
     (auto split: option.splits)

lemma check_account_ok:
  assumes "check_account E q u d = (Inr x, e)"
  shows "e = d \<and> (\<forall>r. realm_by_id (u_realm_id u) d = Some r \<longrightarrow> pending_actions u r d = [])
    \<and> \<not> is_managed_user_blocked (u_id u) d"
  using assms unfolding check_account_def by (auto simp: prog_ok split: option.splits if_split_asm)

lemma check_organization_state: "check_organization E q u d = (Inr x, e) \<Longrightarrow> e = d"
  unfolding check_organization_def
  by (auto simp: prog_ok split: sum.splits oidc_error.splits if_split_asm)

lemma check_hint_ok:
  "check_hint E q u d = (Inr x, e) \<longleftrightarrow> e = d \<and> (az_hint q = None \<or> az_hint q = Some (e_uuid_text E (u_id u)))"
  unfolding check_hint_def by (auto simp: prog_ok)

text \<open>The user approved the scopes: earlier, or on the page of this request.\<close>

definition approved :: "env \<Rightarrow> auth_request \<Rightarrow> user \<Rightarrow> db \<Rightarrow> db \<Rightarrow> bool" where
  "approved E q u d e \<longleftrightarrow>
     e = d \<and> granted_before q u d \<and> \<not> offline q \<and> ''consent'' \<notin> set (prompts q)
     \<or> az_params q ''consent_action'' = Some ''allow''
       \<and> (\<exists>t. az_params q ''consent_token'' = Some t
            \<and> verify_consent_token E t (u_id u) (c_id (az_client q)) (az_scopes q))
       \<and> e = consent_grant (e_db_now E) (e_uuid E 0) (u_id u) (u_realm_id u) (c_id (az_client q)) (az_scopes q) d"

lemma check_consent_ok:
  assumes "check_consent E q u d = (Inr x, e)"
  shows "approved E q u d e"
proof -
  let ?valid = "case az_params q ''consent_token'' of None \<Rightarrow> False
    | Some t \<Rightarrow> verify_consent_token E t (u_id u) (c_id (az_client q)) (az_scopes q)"
  from assms have "az_params q ''consent_action'' = Some ''allow'' \<and> ?valid
      \<and> e = consent_grant (e_db_now E) (e_uuid E 0) (u_id u) (u_realm_id u) (c_id (az_client q)) (az_scopes q) d
    \<or> e = d \<and> granted_before q u d \<and> \<not> offline q \<and> ''consent'' \<notin> set (prompts q)"
    unfolding check_consent_def Let_def by (auto simp: prog_ok split: if_split_asm)
  then show ?thesis
    unfolding approved_def by (auto split: option.splits)
qed

lemma check_assurance_ok:
  assumes "check_assurance E sid q u d = (Inr ra, e)"
  shows "e = d \<and> (step_up_wanted (flow_of_user u d) (az_client q) (az_scopes q) []
      \<longrightarrow> step_up_met E (flow_of_user u d) (cookie_session E sid d))
    \<and> (\<forall>s. cookie_session E sid d = Some s \<longrightarrow> (\<exists>r. ra = r\<lparr>ra_amr := s_amr s\<rparr>
         \<and> resolve_acr_amr (if s_acr s = acr_silver then ''mfa'' else ''pwd'') (words_param (az_params q) ''acr_values'') = Inr r))"
  using assms unfolding check_assurance_def
  by (auto simp: prog_ok split: option.splits if_split_asm)


section \<open>The response\<close>

lemma issue_code_ok:
  assumes "issue_code E q u ra d = (Inr fragments, e)"
  shows "\<exists>code. generate_auth_code E = Inr code
    \<and> (if rt_code (az_type q)
       then fragments = [''code='' @ e_percent E code]
         \<and> e = d\<lparr>d_codes := d_codes d @ [(code_of_request E q u ra code)\<lparr>ac_code := sha2_256_hex E code\<rparr>]\<rparr>
       else fragments = [] \<and> e = d)"
  using assms unfolding issue_code_def code_create_def
  by (auto simp: prog_ok code_of_request_def split: if_split_asm)

lemma implicit_tokens_ok:
  assumes "implicit_tokens E q u ra fragments d = (Inr fs, e)"
  shows "if rt_token (az_type q)
    then \<exists>token. e = d\<lparr>d_sessions := d_sessions d @
        [(implicit_session E q u ra (sid_or_default E 1) token)\<lparr>s_created_at := e_db_now E, s_last_used_at := None\<rparr>]\<rparr>
    else e = d"
proof -
  have "implicit_access_token E q u ra sid svc mapped roles org d = (Inr fs, e) \<Longrightarrow>
     if rt_token (az_type q)
     then \<exists>token. e = d\<lparr>d_sessions := d_sessions d @
        [(implicit_session E q u ra sid token)\<lparr>s_created_at := e_db_now E, s_last_used_at := None\<rparr>]\<rparr>
     else e = d" for sid svc mapped roles org fs e
    unfolding implicit_access_token_def
    by (auto simp: prog_ok implicit_session_def split: if_split_asm)
  moreover have "implicit_id_token E q u ra sid svc mapped roles org fragments d = (Inr fs, e) \<Longrightarrow> e = d"
    for sid svc mapped roles org fragments fs d e
    unfolding implicit_id_token_def by (auto simp: prog_ok split: if_split_asm)
  moreover have "rt_token (az_type q) \<Longrightarrow> is_implicit_or_hybrid (az_type q)"
    by (simp add: is_implicit_or_hybrid_def)
  ultimately show ?thesis
    using assms unfolding implicit_tokens_def organization_for_tokens_def Let_def
    by (fastforce simp: prog_ok split: if_split_asm)
qed

definition goes_to :: "string \<Rightarrow> authorize_result \<Rightarrow> bool" where
  "goes_to uri answer \<longleftrightarrow>
     (case answer of
        Redirect_To url \<Rightarrow> (\<exists>rest. url = uri @ ''?'' @ rest) \<or> (\<exists>rest. url = uri @ ''#'' @ rest)
      | Form_Post action _ \<Rightarrow> action = uri
      | _ \<Rightarrow> False)"

lemma deliver_ok:
  assumes "deliver E H q fragments d = (Inr answer, e)"
  shows "e = d \<and> goes_to (az_uri q) answer"
  using assms unfolding deliver_def goes_to_def Let_def
  by (auto simp: prog_ok split: if_split_asm response_mode.splits)


text \<open>What an answer has stored: a code and a session of the implicit flow, each if the response type has it.\<close>

definition stored_for :: "env \<Rightarrow> auth_request \<Rightarrow> user \<Rightarrow> resolved_acr_amr \<Rightarrow> db \<Rightarrow> db \<Rightarrow> bool" where
  "stored_for E q u ra d e \<longleftrightarrow> (\<exists>code token. generate_auth_code E = Inr code
    \<and> e = d\<lparr>d_codes := d_codes d @ (if rt_code (az_type q)
                then [(code_of_request E q u ra code)\<lparr>ac_code := sha2_256_hex E code\<rparr>] else []),
            d_sessions := d_sessions d @ (if rt_token (az_type q)
                then [(implicit_session E q u ra (sid_or_default E 1) token)\<lparr>s_created_at := e_db_now E, s_last_used_at := None\<rparr>]
                else [])\<rparr>)"

lemma respond_ok:
  assumes "respond E H sid q u ra d = (Inr answer, e)"
  shows "goes_to (az_uri q) answer \<and> stored_for E q u ra d e"
proof -
  from assms obtain fs m fs' n where run: "issue_code E q u ra d = (Inr fs, m)" "implicit_tokens E q u ra fs m = (Inr fs', n)"
      "deliver E H q (fs' @ browser_fragments E sid q) n = (Inr answer, e)"
    unfolding respond_def by (auto simp: prog_ok)
  from issue_code_ok [OF run(1)] obtain code where code: "generate_auth_code E = Inr code"
    and m: "m = d\<lparr>d_codes := d_codes d @ (if rt_code (az_type q)
                then [(code_of_request E q u ra code)\<lparr>ac_code := sha2_256_hex E code\<rparr>] else [])\<rparr>"
    by (auto split: if_split_asm)
  from implicit_tokens_ok [OF run(2)] obtain token where n: "n = m\<lparr>d_sessions := d_sessions m @ (if rt_token (az_type q)
                then [(implicit_session E q u ra (sid_or_default E 1) token)\<lparr>s_created_at := e_db_now E, s_last_used_at := None\<rparr>]
                else [])\<rparr>"
    by (auto split: if_split_asm)
  have "n = d\<lparr>d_codes := d_codes d @ (if rt_code (az_type q)
                then [(code_of_request E q u ra code)\<lparr>ac_code := sha2_256_hex E code\<rparr>] else []),
            d_sessions := d_sessions d @ (if rt_token (az_type q)
                then [(implicit_session E q u ra (sid_or_default E 1) token)\<lparr>s_created_at := e_db_now E, s_last_used_at := None\<rparr>]
                else [])\<rparr>"
    unfolding n m by simp
  with deliver_ok [OF run(3)] code show ?thesis
    unfolding stored_for_def by blast
qed

lemma approved_keeps:
  assumes "approved E q u d e"
  shows "d_codes e = d_codes d \<and> d_sessions e = d_sessions d \<and> d_realms e = d_realms d"
  using assms unfolding approved_def by (auto simp: consent_grant_def split: option.splits)

text \<open>The session of the browser, for the user who is signed in.\<close>

definition signed_in :: "env \<Rightarrow> string option \<Rightarrow> auth_request \<Rightarrow> user \<Rightarrow> session \<Rightarrow> db \<Rightarrow> bool" where
  "signed_in E cookie q u s d \<longleftrightarrow>
     ''login'' \<notin> set (prompts q)
     \<and> (\<exists>key sid. e_key E = Inr key \<and> extract_session_id E cookie key = Some sid
          \<and> cookie_session E (Some sid) d = Some s)
     \<and> (\<forall>max_age. Option.bind (az_params q ''max_age'') (parse_int (- (2 ^ 63)) (2 ^ 63 - 1)) = Some max_age \<and> 0 \<le> max_age
          \<longrightarrow> num_seconds (e_clock E 3 - s_created_at s) \<le> max_age)
     \<and> \<not> s_revoked s \<and> e_clock E 2 < s_expires_at s
     \<and> s_user_id s = Some (u_id u) \<and> user_by_id (u_id u) d = Some u \<and> u_enabled u"

lemma sign_in_of_cookie:
  assumes "sign_in_of E (cookie_session_id E cookie q) q d = (Inr u, e)"
  shows "e = d \<and> (\<exists>s. signed_in E cookie q u s d \<and> cookie_session E (cookie_session_id E cookie q) d = Some s)"
proof -
  from sign_in_of_ok [OF assms] obtain s where s: "e = d" "cookie_session E (cookie_session_id E cookie q) d = Some s"
      "\<not> s_revoked s" "e_clock E 2 < s_expires_at s" "u_enabled u" "\<not> too_old E (cookie_session_id E cookie q) q (Some u) d"
    and u: "\<exists>i. s_user_id s = Some i \<and> user_by_id i d = Some u"
    by (auto simp: cookie_user_Some)
  from s(2) obtain sid where sid: "cookie_session_id E cookie q = Some sid"
    by (cases "cookie_session_id E cookie q") (auto simp: cookie_session_def)
  then have "''login'' \<notin> set (prompts q) \<and> (\<exists>key. e_key E = Inr key \<and> extract_session_id E cookie key = Some sid)"
    unfolding cookie_session_id_def by (auto split: if_split_asm sum.splits)
  moreover from u have "s_user_id s = Some (u_id u) \<and> user_by_id (u_id u) d = Some u"
    by (auto simp: user_by_id_def find_Some_iff)
  moreover have "\<forall>max_age. Option.bind (az_params q ''max_age'') (parse_int (- (2 ^ 63)) (2 ^ 63 - 1)) = Some max_age
        \<and> 0 \<le> max_age \<longrightarrow> num_seconds (e_clock E 3 - s_created_at s) \<le> max_age"
    using s(2, 6) by (auto simp: too_old_def)
  ultimately show ?thesis
    using s(1-5) sid unfolding signed_in_def by auto
qed

text \<open>C21 The request that is worked with is the one that was sent: its parameters are those of the address, with
  those of the pushed and of the signed request over them, and without either exactly those of the address.  It
  is answered with a code or tokens only if its client is enabled, of the realm
  that is named, and has registered the address, if PKCE with S256 comes with a code and all scopes are
  allowed to the client; if no new sign-in is asked for and the browser's cookie names a live session of an
  enabled user, not older than \<open>max_age\<close>, who owes no required action, whom no disabled organization manages and
  who is the subject of the hint when it has one (of a hint that does not verify as well); if the user has
  approved the scopes, earlier or with a token of the consent page, and has stepped up where that is wanted.
  Then exactly one code and one session are stored, as the response type says, bound to all of this and to the
  authentication of the session, and the answer goes to the registered address.\<close>

theorem authorize_sound:
  assumes "authorize_steps E H cookie name params d = (Inr answer, e)"
  shows "\<exists>q m u s n ra.
      pushed_spent E (params ''request_uri'') d m
    \<and> az_realm_name q = name \<and> read_from E H params d m q
    \<and> (params ''request'' = None \<and> params ''request_uri'' = None \<longrightarrow> az_params q = params)
    \<and> request_checked E m q
    \<and> signed_in E cookie q u s m
    \<and> (\<forall>r. realm_by_id (u_realm_id u) m = Some r \<longrightarrow> pending_actions u r m = [])
    \<and> \<not> is_managed_user_blocked (u_id u) m
    \<and> (\<forall>hint. az_params q ''id_token_hint'' = Some hint \<longrightarrow>
         (case verify_id_any E H (timestamp (e_clock E 14)) hint m of
            Inr sub \<Rightarrow> sub = e_uuid_text E (u_id u)
          | Inl _ \<Rightarrow> unverified_sub E hint \<in> {None, Some (e_uuid_text E (u_id u))}))
    \<and> approved E q u m n
    \<and> (step_up_wanted (flow_of_user u m) (az_client q) (az_scopes q) [] \<longrightarrow> step_up_met E (flow_of_user u m) (Some s))
    \<and> (\<exists>r. resolve_acr_amr (if s_acr s = acr_silver then ''mfa'' else ''pwd'') (words_param (az_params q) ''acr_values'') = Inr r
         \<and> ra = r\<lparr>ra_amr := s_amr s\<rparr>)
    \<and> goes_to (az_uri q) answer
    \<and> stored_for E q u ra n e"
proof -
  from assms obtain q m u m1 x2 m2 x3 m3 x4 m4 x5 n ra n' where
    q: "read_request E H name params d = (Inr q, m)"
    and u: "sign_in_of E (cookie_session_id E cookie q) q m = (Inr u, m1)"
    and rest: "check_account E q u m1 = (Inr x2, m2)" "check_organization E q u m2 = (Inr x3, m3)"
      "check_hint E q u m3 = (Inr x4, m4)" "check_consent E q u m4 = (Inr x5, n)"
      "check_assurance E (cookie_session_id E cookie q) q u n = (Inr ra, n')"
      "respond E H (cookie_session_id E cookie q) q u ra n' = (Inr answer, e)"
    unfolding authorize_steps_def Let_def by (auto simp: prog_ok)
  from sign_in_of_cookie [OF u] obtain s where m1: "m1 = m" and s: "signed_in E cookie q u s m"
      "cookie_session E (cookie_session_id E cookie q) m = Some s"
    by blast
  have same: "m2 = m" "m3 = m" "m4 = m"
    using check_account_ok [OF rest(1)] check_organization_state [OF rest(2)] rest(3) m1
    by (simp_all add: check_hint_ok)
  have ap: "approved E q u m n"
    using check_consent_ok [OF rest(4)] same by simp
  have "cookie_session E i n = cookie_session E i m" "flow_of_user u n = flow_of_user u m" for i
    using approved_keeps [OF ap]
    by (simp_all add: cookie_session_def session_by_id_def [abs_def] flow_of_user_def realm_by_id_def)
  then have "step_up_wanted (flow_of_user u m) (az_client q) (az_scopes q) [] \<longrightarrow> step_up_met E (flow_of_user u m) (Some s)"
    and n': "n' = n"
    and ra: "\<exists>r. resolve_acr_amr (if s_acr s = acr_silver then ''mfa'' else ''pwd'') (words_param (az_params q) ''acr_values'') = Inr r
         \<and> ra = r\<lparr>ra_amr := s_amr s\<rparr>"
    using check_assurance_ok [OF rest(5)] s(2) by auto
  have "az_hint q \<in> {None, Some (e_uuid_text E (u_id u))}" "az_hint q = hint_subject E H (az_params q) m"
    using rest(3) read_request_ok [OF q] by (simp_all add: check_hint_ok read_from_def)
  then have hint: "\<forall>hint. az_params q ''id_token_hint'' = Some hint \<longrightarrow>
         (case verify_id_any E H (timestamp (e_clock E 14)) hint m of
            Inr sub \<Rightarrow> sub = e_uuid_text E (u_id u)
          | Inl _ \<Rightarrow> unverified_sub E hint \<in> {None, Some (e_uuid_text E (u_id u))})"
    by (auto simp: hint_subject_def split: sum.splits)
  have plain: "params ''request'' = None \<and> params ''request_uri'' = None \<longrightarrow> az_params q = params"
    using read_request_plain [OF q] by blast
  note facts = read_request_ok [OF q] s(1) check_account_ok [OF rest(1)] ap respond_ok [OF rest(6)]
  show ?thesis
    by (intro exI [of _ q] exI [of _ m] exI [of _ u] exI [of _ s] exI [of _ n] exI [of _ ra])
      (use \<open>step_up_wanted (flow_of_user u m) (az_client q) (az_scopes q) [] \<longrightarrow> step_up_met E (flow_of_user u m) (Some s)\<close>
        facts hint plain ra m1 same n' in simp)
qed



section \<open>Where the browser is sent\<close>

text \<open>Every early end of a run satisfies \<open>P\<close>, and every completed run keeps \<open>I\<close>.\<close>

definition every_end :: "('s \<Rightarrow> bool) \<Rightarrow> ('e \<Rightarrow> bool) \<Rightarrow> ('s, 'e, 'a) prog \<Rightarrow> bool" where
  "every_end I P m \<longleftrightarrow> (\<forall>s. I s \<longrightarrow> (case m s of (Inl e, _) \<Rightarrow> P e | (Inr _, t) \<Rightarrow> I t))"

lemma every_end_bindp:
  assumes "every_end I P m" and "\<And>s a t. I s \<Longrightarrow> m s = (Inr a, t) \<Longrightarrow> every_end I P (f a)"
  shows "every_end I P (bindp m f)"
  unfolding every_end_def
proof (intro allI impI)
  fix s assume s: "I s"
  show "case bindp m f s of (Inl e, _) \<Rightarrow> P e | (Inr _, t) \<Rightarrow> I t"
  proof (cases "m s")
    case (Pair r t)
    then show ?thesis
      using assms(1) assms(2) [OF s] s unfolding every_end_def bindp_def
      by (cases r) force+
  qed
qed

lemma every_end_thenp: "every_end I P m \<Longrightarrow> every_end I P n \<Longrightarrow> every_end I P (thenp m n)"
  by (auto simp: thenp_def intro: every_end_bindp)

lemma every_end_if: "(b \<Longrightarrow> every_end I P m) \<Longrightarrow> (\<not> b \<Longrightarrow> every_end I P n) \<Longrightarrow> every_end I P (if b then m else n)"
  by simp

lemma every_end_option:
  "(y = None \<Longrightarrow> every_end I P m) \<Longrightarrow> (\<And>a. y = Some a \<Longrightarrow> every_end I P (f a))
     \<Longrightarrow> every_end I P (case y of None \<Rightarrow> m | Some a \<Rightarrow> f a)"
  by (cases y) simp_all

lemma every_end_leaves:
  "every_end I P (ret a)"
  "every_end I P (query f)"
  "P e \<Longrightarrow> every_end I P (fail e)"
  "(\<And>s. I s \<Longrightarrow> I (g s)) \<Longrightarrow> every_end I P (exec g)"
  "P (Fails (uri, code, text)) \<Longrightarrow> every_end I P (require b uri code text)"
  "P (Fails (uri, code, text)) \<Longrightarrow> every_end I P (fails uri code text)"
  "P (Fails (uri, code, text)) \<Longrightarrow> every_end I P (get_or y uri code text)"
  "P (Answers (Redirect_To (build_login_url E name params))) \<Longrightarrow> every_end I P (to_login E name params)"
  "(\<And>e. P (g' e)) \<Longrightarrow> every_end I P (lift (map_err g' r))"
  "(\<And>e. P (g' e)) \<Longrightarrow> every_end I P (ask (\<lambda>s. map_err g' (h s)))"
  by (auto simp: every_end_def step_run run_combinators map_err_def split: option.splits sum.splits)

lemma every_end_convert:
  assumes "\<And>e. P (g e)" and "\<And>s. I s \<Longrightarrow> I (snd (m s))"
  shows "every_end I P (convert g m)"
  unfolding every_end_def convert_def
  by (auto simp: assms(1) map_err_def split: prod.splits sum.splits) (metis assms(2) snd_conv)

lemmas every_end_rules = every_end_bindp every_end_thenp every_end_if every_end_option every_end_leaves

text \<open>The pages of the hub itself, and the addresses that the enabled clients have registered.\<close>

definition own_page :: "string \<Rightarrow> bool" where
  "own_page url \<longleftrightarrow> starts_with url ''/oidc/error?'' \<or> starts_with url ''/login?return_to=''
     \<or> (\<exists>name rest. url = ''/realms/'' @ name @ ''/login?return_to='' @ rest)"

definition registered :: "client list \<Rightarrow> string \<Rightarrow> bool" where
  "registered cs uri \<longleftrightarrow> (\<exists>c \<in> set cs. c_enabled c \<and> c_deleted_at c = None \<and> uri \<in> set (c_redirect_uris c))"

definition stays :: "client list \<Rightarrow> authorize_result \<Rightarrow> bool" where
  "stays cs answer \<longleftrightarrow>
     (case answer of
        Redirect_To url \<Rightarrow> own_page url \<or> (\<exists>uri. registered cs uri \<and> goes_to uri answer)
      | Form_Post action _ \<Rightarrow> registered cs action
      | _ \<Rightarrow> True)"

definition halt_stays :: "client list \<Rightarrow> halt \<Rightarrow> bool" where
  "halt_stays cs h \<longleftrightarrow>
     (case h of Fails (uri, _, _) \<Rightarrow> uri = error_page \<or> registered cs uri | Answers answer \<Rightarrow> stays cs answer)"

definition clients_are :: "client list \<Rightarrow> db \<Rightarrow> bool" where
  "clients_are cs d \<longleftrightarrow> d_clients d = cs"

lemma halt_stays_simps [simp]:
  "halt_stays cs (Fails (error_page, code, text))"
  "registered cs uri \<Longrightarrow> halt_stays cs (Fails (uri, code, text))"
  "registered cs uri \<Longrightarrow> halt_stays cs (server_error uri e)"
  "halt_stays cs (Answers (Redirect_To (build_login_url E name params)))"
  "halt_stays cs (Answers (Consent_Page a b c' d e'))"
  "halt_stays cs (Answers (organization_page params orgs))"
proof -
  have "starts_with (''/login?return_to='' @ rest) ''/login?return_to=''" for rest
    by (simp add: starts_with_iff)
  then show "halt_stays cs (Answers (Redirect_To (build_login_url E name params)))"
    unfolding halt_stays_def stays_def own_page_def build_login_url_def
    by (cases name) auto
qed (simp_all add: halt_stays_def stays_def server_error_def organization_page_def Let_def)

lemma client_for_member: "client_for name cid d = Some c \<Longrightarrow> c \<in> set (d_clients d) \<and> c_deleted_at c = None"
  unfolding client_for_def client_by_client_id_def client_in_realm_def
  by (auto simp: find_Some_iff bind_eq_Some_conv split: option.splits if_split_asm)

lemma client_of_request_registered:
  assumes "clients_are cs d" and "client_of_request E name params d = (Inr (c, uri), e)"
  shows "registered cs uri"
  using client_of_request_ok [OF assms(2)] client_for_member assms(1)
  unfolding registered_def clients_are_def by blast

lemma merge_protected_error: "merge_protected code ps params = Inl h \<Longrightarrow> fst h = error_page"
  by (induction code ps params rule: merge_protected.induct) (auto simp: error_page_def split: if_split_asm)

lemma merge_ends: "every_end I (halt_stays cs) (lift (map_err Fails (merge_protected code ps params)))"
  unfolding every_end_def
  by (auto simp: run_combinators map_err_def halt_stays_def split: sum.splits dest!: merge_protected_error)


lemma clients_are_rows [simp]:
  "clients_are cs (par_mark_used i d) = clients_are cs d"
  "clients_are cs (consent_grant now i uid realm cid scopes d) = clients_are cs d"
  "clients_are cs (d\<lparr>d_codes := x\<rparr>) = clients_are cs d"
  "clients_are cs (d\<lparr>d_sessions := y\<rparr>) = clients_are cs d"
  by (auto simp: clients_are_def par_mark_used_def consent_grant_def split: option.splits)

lemma resolve_pushed_ends: "every_end (clients_are cs) (halt_stays cs) (resolve_pushed E params)"
  unfolding resolve_pushed_def by (intro every_end_rules merge_ends) simp_all

lemma decrypt_object_ends: "every_end (clients_are cs) (halt_stays cs) (decrypt_object E params)"
  unfolding decrypt_object_def object_key_def by (intro every_end_rules) simp_all

lemma verify_object_ends: "every_end (clients_are cs) (halt_stays cs) (verify_object E H params)"
  unfolding verify_object_def Let_def
  by (auto intro!: every_end_rules merge_ends split: prod.split)

lemma client_of_request_ends: "every_end (clients_are cs) (halt_stays cs) (client_of_request E name params)"
  unfolding client_of_request_def by (intro every_end_rules) simp_all

lemma read_response_ends:
  "registered cs uri \<Longrightarrow> every_end (clients_are cs) (halt_stays cs) (read_response uri params)"
  unfolding read_response_def by (intro every_end_rules) simp_all

lemma read_rest_ends:
  assumes "registered cs uri"
  shows "every_end (clients_are cs) (halt_stays cs) (require_pkce uri rtype params)"
    and "every_end (clients_are cs) (halt_stays cs) (read_details E uri params)"
    and "every_end (clients_are cs) (halt_stays cs) (read_resources E uri params)"
    and "every_end (clients_are cs) (halt_stays cs) (read_scopes E uri c rtype params)"
proof -
  show "every_end (clients_are cs) (halt_stays cs) (require_pkce uri rtype params)"
    unfolding require_pkce_def by (intro every_end_rules) (simp_all add: assms)
  show "every_end (clients_are cs) (halt_stays cs) (read_details E uri params)"
    unfolding read_details_def
    by (auto intro!: every_end_rules simp: assms split: option.split json.split)
  show "every_end (clients_are cs) (halt_stays cs) (read_resources E uri params)"
    unfolding read_resources_def by (intro every_end_rules) (simp_all add: assms)
  show "every_end (clients_are cs) (halt_stays cs) (read_scopes E uri c rtype params)"
    unfolding read_scopes_def by (intro every_end_rules) (simp_all add: assms)
qed

lemma every_end_prod: "(\<And>a b. y = (a, b) \<Longrightarrow> every_end I P (f a b)) \<Longrightarrow> every_end I P (case y of (a, b) \<Rightarrow> f a b)"
  by (cases y) simp

lemma read_request_ends: "every_end (clients_are cs) (halt_stays cs) (read_request E H name params)"
  unfolding read_request_def
  by (intro every_end_bindp every_end_thenp every_end_prod every_end_leaves
        resolve_pushed_ends decrypt_object_ends verify_object_ends
        client_of_request_ends read_response_ends read_rest_ends)
     (auto dest: client_of_request_registered)

lemma user_steps_end:
  assumes "registered cs (az_uri q)"
  shows "every_end (clients_are cs) (halt_stays cs) (sign_in_of E sid q)"
    and "every_end (clients_are cs) (halt_stays cs) (check_account E q u)"
    and "every_end (clients_are cs) (halt_stays cs) (check_organization E q u)"
    and "every_end (clients_are cs) (halt_stays cs) (check_hint E q u)"
    and "every_end (clients_are cs) (halt_stays cs) (check_consent E q u)"
    and "every_end (clients_are cs) (halt_stays cs) (check_assurance E sid q u)"
proof -
  show "every_end (clients_are cs) (halt_stays cs) (sign_in_of E sid q)"
    unfolding sign_in_of_def by (intro every_end_rules) (simp_all add: assms)
  show "every_end (clients_are cs) (halt_stays cs) (check_account E q u)"
    unfolding check_account_def by (intro every_end_rules) (simp_all add: assms)
  show "every_end (clients_are cs) (halt_stays cs) (check_organization E q u)"
    unfolding check_organization_def
    by (auto intro!: every_end_rules simp: assms split: sum.split oidc_error.split)
  show "every_end (clients_are cs) (halt_stays cs) (check_hint E q u)"
    unfolding check_hint_def by (intro every_end_rules) (simp_all add: assms)
  show "every_end (clients_are cs) (halt_stays cs) (check_consent E q u)"
    unfolding check_consent_def Let_def by (intro every_end_rules) (simp_all add: assms)
  show "every_end (clients_are cs) (halt_stays cs) (check_assurance E sid q u)"
    unfolding check_assurance_def by (intro every_end_rules) (simp_all add: assms)
qed

lemma respond_ends:
  assumes "registered cs (az_uri q)"
  shows "every_end (clients_are cs) (halt_stays cs) (respond E H sid q u ra)"
proof -
  have create: "clients_are cs d \<Longrightarrow> clients_are cs (snd (code_create sha ac d))" for sha ac d
    unfolding code_create_def thenp_def by (simp add: prog_run clients_are_def)
  have session: "clients_are cs d \<Longrightarrow> clients_are cs (snd (session_create now x d))" for now x d
    unfolding session_create_def thenp_def by (simp add: prog_run bindp_def clients_are_def)
  have org: "every_end (clients_are cs) (halt_stays cs) (organization_for_tokens E q u)"
    unfolding organization_for_tokens_def
    by (intro every_end_leaves) (auto simp: assms split: oidc_error.split)
  show ?thesis
    unfolding respond_def issue_code_def implicit_tokens_def implicit_access_token_def implicit_id_token_def
      deliver_def Let_def
    by (intro every_end_rules every_end_convert every_end_prod org create session) (simp_all add: assms create session)
qed

lemma request_registered:
  assumes "clients_are cs d" and "read_request E H name params d = (Inr q, m)"
  shows "registered cs (az_uri q)"
proof -
  have "clients_are cs m"
    using read_request_ends [of cs E H name params] assms unfolding every_end_def by fastforce
  moreover have "request_checked E m q"
    using read_request_ok [OF assms(2)] by simp
  ultimately show ?thesis
    using client_for_member unfolding request_checked_def registered_def clients_are_def by blast
qed

lemma authorize_steps_ends: "every_end (clients_are cs) (halt_stays cs) (authorize_steps E H cookie name params)"
  unfolding authorize_steps_def Let_def
  by (intro every_end_bindp every_end_thenp read_request_ends user_steps_end respond_ends)
     (auto intro: request_registered)

text \<open>C22 Whatever the request, the browser is sent only to a page of the hub or to an address that an enabled,
  existing client has registered, exactly as it was registered: errors included, there is no open redirect.\<close>

theorem authorize_no_open_redirect: "stays (d_clients d) (fst (authorize_handler E H cookie name params d))"
proof (cases "authorize_steps E H cookie name params d")
  case (Pair r e)
  have start: "clients_are (d_clients d) d"
    by (simp add: clients_are_def)
  have ends: "r = Inl h \<Longrightarrow> halt_stays (d_clients d) h" for h
    using authorize_steps_ends [of "d_clients d" E H cookie name params] start Pair unfolding every_end_def by fastforce
  have answered: "r = Inr answer \<Longrightarrow> \<exists>uri. registered (d_clients d) uri \<and> goes_to uri answer" for answer
  proof -
    assume "r = Inr answer"
    with Pair obtain q m where "read_request E H name params d = (Inr q, m)" "goes_to (az_uri q) answer"
      using respond_ok unfolding authorize_steps_def Let_def by (auto simp: prog_ok)
    with request_registered [OF start] show ?thesis
      by blast
  qed
  show ?thesis
  proof (cases r)
    case (Inr answer)
    then show ?thesis
      using answered [OF Inr] Pair
      by (auto simp: authorize_handler_def stays_def goes_to_def split: authorize_result.splits)
  next
    case (Inl h)
    show ?thesis
    proof (cases h)
      case (Answers answer)
      then show ?thesis
        using ends [OF Inl] Inl Pair by (simp add: authorize_handler_def halt_stays_def)
    next
      case (Fails f)
      then obtain uri error why where f: "f = (uri, error, why)"
        by (cases f) auto
      have "uri = error_page \<Longrightarrow> own_page (build_error_url E uri error why st)" for st
        by (simp add: own_page_def build_error_url_def error_page_def starts_with_iff)
      moreover have "goes_to uri (Redirect_To (build_error_url E uri error why st))" for st
        by (simp add: goes_to_def build_error_url_def)
      ultimately show ?thesis
        using ends [OF Inl] Inl Pair Fails f
        by (auto simp: authorize_handler_def halt_stays_def stays_def)
    qed
  qed
qed



section \<open>A request that wants a new sign-in\<close>

text \<open>A request with \<open>prompt=login\<close> is never answered: for every cookie, that of a user who has just signed in
  included, it is sent to the sign-in, with itself as the address to return to.\<close>

theorem prompt_login_never_answered:
  assumes "read_request E H name params d = (Inr q, m)"
    and "params ''request'' = None" and "params ''request_uri'' = None"
    and "''login'' \<in> set (words_param params ''prompt'')" and "''none'' \<notin> set (words_param params ''prompt'')"
  shows "authorize_handler E H cookie name params d = (Redirect_To (build_login_url E name params), d)"
proof -
  have q: "m = d" "az_params q = params" "az_realm_name q = name"
    using read_request_plain [OF assms(1-3)] by simp_all
  then have "\<not> silent q" "cookie_session_id E cookie q = None"
    using assms(4,5) by (simp_all add: silent_def prompts_def cookie_session_id_def)
  then have "sign_in_of E (cookie_session_id E cookie q) q d = (Inl (Answers (Redirect_To (build_login_url E name params))), d)"
    using q unfolding sign_in_of_def
    by (simp add: cookie_user_def cookie_session_def prog_run step_run bindp_def thenp_def)
  then have "authorize_steps E H cookie name params d = (Inl (Answers (Redirect_To (build_login_url E name params))), d)"
    using assms(1) q unfolding authorize_steps_def by (simp add: bindp_def Let_def)
  then show ?thesis
    by (simp add: authorize_handler_def)
qed


section \<open>The hash of the access token\<close>

text \<open>The hash in the ID token of the implicit flow is taken of the token with the parameters that follow it.\<close>

lemma at_hash_covers_parameters:
  assumes "e_unpercent E (e_percent E token @ ''&token_type=Bearer&expires_in=900'') = token @ ''&token_type=Bearer&expires_in=900''"
    and "rt_token rtype"
  shows "at_hash_of_fragments E rtype [''access_token='' @ e_percent E token @ ''&token_type=Bearer&expires_in=900'']
     = Some (left_half_hash E (token @ ''&token_type=Bearer&expires_in=900''))"
  using assms unfolding at_hash_of_fragments_def
  by (simp add: map_filter_def strip_prefix_def starts_with_def)


section \<open>Parameters that are signed or pushed\<close>

lemma merge_protected_Inr:
  assumes "merge_protected code ps params = Inr result" and "distinct (map fst ps)"
  shows "\<forall>(k, v) \<in> set ps. result k = Some v"
    and "\<forall>(k, v) \<in> set ps. k \<in> {''client_id'', ''redirect_uri''} \<longrightarrow> params k \<in> {None, Some v}"
    and "\<forall>k. k \<notin> fst ` set ps \<longrightarrow> result k = params k"
proof -
  have "(\<forall>k v. (k, v) \<in> set ps \<longrightarrow> result k = Some v \<and> (k \<in> {''client_id'', ''redirect_uri''} \<longrightarrow> params k \<in> {None, Some v}))
    \<and> (\<forall>k. k \<notin> fst ` set ps \<longrightarrow> result k = params k)"
    using assms
  proof (induction ps arbitrary: params)
    case (Cons p rest)
    obtain k v where p: "p = (k, v)"
      by (cases p)
    from Cons.prems(1) have run: "merge_protected code rest (params(k \<mapsto> v)) = Inr result"
      and ok: "k \<in> {''client_id'', ''redirect_uri''} \<longrightarrow> params k \<in> {None, Some v}"
      unfolding p by (auto split: if_split_asm)
    have new: "k \<notin> fst ` set rest" "distinct (map fst rest)"
      using Cons.prems(2) p by simp_all
    note tail = Cons.IH [OF run new(2)]
    have "result k = Some v"
      using tail new(1) by (metis fun_upd_same)
    moreover have "result k' = params k'" if "k' \<notin> fst ` set (p # rest)" for k'
      using that tail p by simp
    moreover have "result k' = Some v' \<and> (k' \<in> {''client_id'', ''redirect_uri''} \<longrightarrow> params k' \<in> {None, Some v'})"
      if "(k', v') \<in> set rest" for k' v'
    proof -
      have "k' \<noteq> k"
        using that new(1) by (metis fst_conv image_eqI)
      with that tail show ?thesis
        by (metis fun_upd_other)
    qed
    ultimately show ?case
      using ok p by (metis prod.inject set_ConsD)
  qed simp
  note all = this
  have "result k = Some v" "k \<in> {''client_id'', ''redirect_uri''} \<Longrightarrow> params k \<in> {None, Some v}" if "(k, v) \<in> set ps" for k v
    by (rule conjunct1 [OF conjunct1 [OF all, THEN spec, THEN spec, THEN mp, OF that]],
        rule conjunct2 [OF conjunct1 [OF all, THEN spec, THEN spec, THEN mp, OF that], THEN mp])
  then show "\<forall>(k, v) \<in> set ps. result k = Some v"
    and "\<forall>(k, v) \<in> set ps. k \<in> {''client_id'', ''redirect_uri''} \<longrightarrow> params k \<in> {None, Some v}"
    unfolding Ball_def split_paired_All prod.case by iprover+
  show "\<forall>k. k \<notin> fst ` set ps \<longrightarrow> result k = params k"
    by (rule conjunct2 [OF all])
qed

lemma given_keys: "fst ` set (concat (map (\<lambda>(k, v). given k v) kvs)) \<subseteq> fst ` set kvs"
proof (induction kvs)
  case (Cons kv kvs)
  obtain k v where kv: "kv = (k, v)"
    by (cases kv)
  have "fst ` set (given k v) \<subseteq> {k}"
    by (cases v) (simp_all add: given_def)
  moreover have "fst ` set (concat (map (\<lambda>(k, v). given k v) (kv # kvs)))
      = fst ` set (given k v) \<union> fst ` set (concat (map (\<lambda>(k, v). given k v) kvs))"
    unfolding kv by (simp del: set_concat add: image_Un)
  ultimately show ?case
    using Cons kv by (auto simp del: set_concat concat.simps list.map)
qed simp

lemma distinct_given:
  assumes "distinct (map fst kvs)"
  shows "distinct (map fst (concat (map (\<lambda>(k, v). given k v) kvs)))"
  using assms
proof (induction kvs)
  case (Cons kv kvs)
  obtain k v where kv: "kv = (k, v)"
    by (cases kv)
  have "k \<notin> fst ` set (concat (map (\<lambda>(k, v). given k v) kvs))"
    using Cons.prems subsetD [OF given_keys, of k kvs] kv by (metis distinct.simps(2) fst_conv list.set_map list.simps(9))
  with Cons show ?case
    unfolding kv by (cases v) (simp_all add: given_def del: set_concat)
qed simp

lemma object_params_distinct: "distinct (map fst (object_params E c))"
proof -
  let ?kvs = "[(''iss'', Some (rq_iss c)),
     (''aud'', Some (case rq_aud c of Inl s \<Rightarrow> s | Inr v \<Rightarrow> e_value_text E (JArr (map JStr v)))),
     (''client_id'', rq_client_id c), (''response_type'', rq_response_type c),
     (''redirect_uri'', rq_redirect_uri c), (''scope'', rq_scope c),
     (''state'', rq_state c), (''nonce'', rq_nonce c), (''display'', rq_display c),
     (''prompt'', rq_prompt c), (''max_age'', map_option decimal (rq_max_age c)),
     (''login_hint'', rq_login_hint c), (''code_challenge'', rq_code_challenge c),
     (''code_challenge_method'', rq_code_challenge_method c),
     (''response_mode'', rq_response_mode c), (''claims'', map_option (e_value_text E) (rq_claims c))]"
  have "distinct (map fst ?kvs)"
    by simp
  moreover have "given ''iss'' (Some x) = [(''iss'', x)]" "given ''aud'' (Some x) = [(''aud'', x)]" for x
    by (simp_all add: given_def)
  then have "object_params E c = concat (map (\<lambda>(k, v). given k v) ?kvs)"
    by (simp add: object_params_def)
  ultimately show ?thesis
    using distinct_given by metis
qed

lemma verify_request_object_ok:
  assumes "verify_request_object E token jwks issuer cid now = Inr ps"
  shows "\<exists>h c input sig k. parse_request_object E token = Inr (h, c, input, sig) \<and> ps = object_params E c
    \<and> rq_iss c = cid \<and> aud_names (rq_aud c) issuer \<and> now \<le> rq_exp c \<and> rq_iat c \<le> now + 300
    \<and> (\<forall>t. rq_nbf c = Some t \<longrightarrow> t \<le> now) \<and> rq_request_uri c = None
    \<and> find_jwk jwks (h_kid h) (h_alg h) = Inr k \<and> verify_signature_with_jwk E input sig k = Inr ()"
  using assms unfolding verify_request_object_def
  by (auto simp: bindr_Inr split: option.splits)

lemma parse_request_object_ok:
  assumes "parse_request_object E token = Inr (h, c, input, sig)"
  shows "\<exists>p0 p1 p2 hb cb. split_on (CHR ''.'') token = [p0, p1, p2] \<and> input = p0 @ ''.'' @ p1
    \<and> e_unb64 E p0 = Some hb \<and> e_parse_header E hb = Some h
    \<and> e_unb64 E p1 = Some cb \<and> e_parse_request E cb = Inr c \<and> e_unb64 E p2 = Some sig"
  using assms unfolding parse_request_object_def
  by (auto simp: bindr_Inr split: list.splits)

text \<open>C23 A signed request is taken only with a signature that verifies with a key of the client it names as its
  issuer, for this hub and in its time: not expired, not issued more than 300 seconds ahead, and not before its
  \<open>nbf\<close>; it names no other request.  Its header and claims are what its first two segments decode to.  Then every
  parameter of it that the hub knows (the members that \<open>object_params\<close> lists; others are dropped when the claims
  are parsed) prevails over the one in the address, every other parameter stays, and the client and the address
  may not differ between the two.\<close>

theorem signed_parameters_prevail:
  assumes "verify_object E H params d = (Inr result, e)" and "params ''request'' = Some jwt"
  shows "e = d \<and> (\<exists>cl jwks p0 p1 p2 hb cb h c sig k.
      client_by_client_id (rq_iss c) d = Some cl \<and> c_jwks cl = Some jwks
    \<and> split_on (CHR ''.'') jwt = [p0, p1, p2]
    \<and> e_unb64 E p0 = Some hb \<and> e_parse_header E hb = Some h
    \<and> e_unb64 E p1 = Some cb \<and> e_parse_request E cb = Inr c \<and> e_unb64 E p2 = Some sig
    \<and> find_jwk jwks (h_kid h) (h_alg h) = Inr k \<and> verify_signature_with_jwk E (p0 @ ''.'' @ p1) sig k = Inr ()
    \<and> aud_names (rq_aud c) (hb_issuer H) \<and> timestamp (e_clock E 1) \<le> rq_exp c
    \<and> rq_iat c \<le> timestamp (e_clock E 1) + 300 \<and> (\<forall>t. rq_nbf c = Some t \<longrightarrow> t \<le> timestamp (e_clock E 1))
    \<and> rq_request_uri c = None
    \<and> (\<forall>(key, v) \<in> set (object_params E c). result key = Some v)
    \<and> (\<forall>key. key \<notin> fst ` set (object_params E c) \<longrightarrow> result key = params key)
    \<and> (\<forall>(key, v) \<in> set (object_params E c). key \<in> {''client_id'', ''redirect_uri''} \<longrightarrow> params key \<in> {None, Some v})
    \<and> params ''client_id'' \<in> {None, Some (rq_iss c)})"
proof -
  from assms obtain h0 unverified i0 s0 where parsed: "parse_assertion E jwt = Inr (h0, unverified, i0, s0)"
    unfolding verify_object_def by (auto simp: prog_ok)
  define cid where "cid = (case params ''client_id'' of Some i \<Rightarrow> i | None \<Rightarrow> as_iss unverified)"
  from assms parsed obtain cl jwks ps where
    run: "client_by_client_id cid d = Some cl" "c_jwks cl = Some jwks"
      "verify_request_object E jwt jwks (hb_issuer H) cid (timestamp (e_clock E 1)) = Inr ps"
      "merge_protected ''invalid_request_object'' ps params = Inr result" "e = d"
    unfolding verify_object_def cid_def Let_def by (auto simp: prog_ok)
  have cid: "params ''client_id'' \<noteq> None \<longrightarrow> params ''client_id'' = Some cid"
    by (auto simp: cid_def)
  from verify_request_object_ok [OF run(3)] obtain h c input sig k where
    obj: "parse_request_object E jwt = Inr (h, c, input, sig)" "ps = object_params E c" "rq_iss c = cid"
      "aud_names (rq_aud c) (hb_issuer H)" "timestamp (e_clock E 1) \<le> rq_exp c"
      "rq_iat c \<le> timestamp (e_clock E 1) + 300" "\<forall>t. rq_nbf c = Some t \<longrightarrow> t \<le> timestamp (e_clock E 1)"
      "rq_request_uri c = None" "find_jwk jwks (h_kid h) (h_alg h) = Inr k" "verify_signature_with_jwk E input sig k = Inr ()"
    by blast
  have client: "client_by_client_id (rq_iss c) d = Some cl"
    using run(1) obj(3) by simp
  have same: "params ''client_id'' \<in> {None, Some (rq_iss c)}"
    using cid obj(3) by auto
  have "distinct (map fst ps)"
    by (simp add: obj(2) object_params_distinct)
  note merged = merge_protected_Inr [OF run(4) this]
  obtain p0 p1 p2 hb cb where parts: "split_on (CHR ''.'') jwt = [p0, p1, p2]" "input = p0 @ ''.'' @ p1"
      "e_unb64 E p0 = Some hb" "e_parse_header E hb = Some h" "e_unb64 E p1 = Some cb" "e_parse_request E cb = Inr c"
      "e_unb64 E p2 = Some sig"
    using parse_request_object_ok [OF obj(1)] by blast
  show ?thesis
    by (intro exI conjI, rule run(5), rule client, rule run(2), rule parts(1), rule parts(3), rule parts(4), rule parts(5),
        rule parts(6), rule parts(7), rule obj(9), rule obj(10) [unfolded parts(2)], rule obj(4), rule obj(5), rule obj(6),
        rule obj(7), rule obj(8), rule merged(1) [unfolded obj(2)], rule merged(3) [unfolded obj(2)],
        rule merged(2) [unfolded obj(2)], rule same)
qed


lemma string_fields:
  "fst ` set (List.map_filter (\<lambda>(k, v). map_option (\<lambda>s. (k, s)) (as_str_json v)) members) \<subseteq> fst ` set members"
  "distinct (map fst members) \<Longrightarrow>
     distinct (map fst (List.map_filter (\<lambda>(k, v). map_option (\<lambda>s. (k, s)) (as_str_json v)) members))"
proof (induction members)
  case (Cons kv members)
  obtain k v where kv: "kv = (k, v)"
    by (cases kv)
  show 1: "fst ` set (List.map_filter (\<lambda>(k, v). map_option (\<lambda>s. (k, s)) (as_str_json v)) (kv # members)) \<subseteq> fst ` set (kv # members)"
    using Cons.IH(1) unfolding kv by (cases "as_str_json v") (auto simp: map_filter_simps)
  assume fresh: "distinct (map fst (kv # members))"
  then have "k \<notin> fst ` set (List.map_filter (\<lambda>(k, v). map_option (\<lambda>s. (k, s)) (as_str_json v)) members)"
    using subsetD [OF Cons.IH(1), of k] unfolding kv by auto
  then show "distinct (map fst (List.map_filter (\<lambda>(k, v). map_option (\<lambda>s. (k, s)) (as_str_json v)) (kv # members)))"
    using Cons.IH(2) fresh unfolding kv by (cases "as_str_json v") (simp_all add: map_filter_simps)
qed (simp_all add: map_filter_simps)

text \<open>C24 A pushed request is taken only while its row is unused and unexpired, and only once: if the rows of
  the table have different tokens, a second request with the same address is refused, however the first one was
  answered.  The parameters that were pushed as strings prevail over those in the address.\<close>

theorem pushed_request_once:
  assumes "resolve_pushed E params d = (Inr result, m)" and "params ''request_uri'' = Some uri"
    and "distinct (map par_request_uri_token (d_pars d))"
  shows "(\<exists>p \<in> set (d_pars d). uri = request_uri_prefix @ par_request_uri_token p \<and> \<not> par_used p
       \<and> e_db_now E < par_expires_at p \<and> e_clock E 0 < par_expires_at p
       \<and> (\<forall>members k v. par_request_params p = JObj members \<longrightarrow> distinct (map fst members) \<longrightarrow> (k, JStr v) \<in> set members
            \<longrightarrow> k \<noteq> ''request_uri'' \<longrightarrow> result k = Some v))
    \<and> (params' ''request_uri'' = Some uri \<longrightarrow> (\<exists>why. resolve_pushed F params' m = (Inl (Fails (error_page, ''invalid_request'', why)), m)))"
proof -
  from assms(1,2) obtain token p merged where uri: "uri = request_uri_prefix @ token"
    and p: "par_by_token (e_db_now E) token d = Some p" "\<not> par_used p" "e_clock E 0 < par_expires_at p"
    and merged: "merge_protected ''invalid_request'' (case par_request_params p of
                        JObj m \<Rightarrow> List.map_filter (\<lambda>(k, v). map_option (\<lambda>s. (k, s)) (as_str_json v)) m
                      | _ \<Rightarrow> []) params = Inr merged"
    and result: "result = merged(''request_uri'' := None)" and m: "m = par_mark_used (par_id p) d"
    unfolding resolve_pushed_def by (auto simp: prog_ok strip_prefix_Some split: option.splits)
  have row: "p \<in> set (d_pars d)" "par_request_uri_token p = token" "e_db_now E < par_expires_at p"
    using p(1) by (auto simp: par_by_token_def find_Some_iff)
  have "result k = Some v" if "par_request_params p = JObj members" "distinct (map fst members)" "(k, JStr v) \<in> set members"
    "k \<noteq> ''request_uri''" for members k v
  proof -
    let ?ps = "List.map_filter (\<lambda>(k, v). map_option (\<lambda>s. (k, s)) (as_str_json v)) members"
    have "distinct (map fst ?ps)"
      by (rule string_fields(2) [OF that(2)])
    moreover have "(k, v) \<in> set ?ps"
      using that(3) by (force simp: map_filter_def)
    ultimately have "merged k = Some v"
      using merge_protected_Inr(1) [of "''invalid_request''" ?ps params merged] merged that(1) by auto
    then show ?thesis
      using that(4) result by simp
  qed
  moreover have "par_by_token (e_db_now F) token m = None"
  proof -
    have "par_used x \<or> par_request_uri_token x \<noteq> token" if "x \<in> set (d_pars m)" for x
      using that distinct_map_same [OF assms(3) _ row(1)] row(2)
      by (fastforce simp: m par_mark_used_def update_where_elem)
    then show ?thesis
      by (auto simp: par_by_token_def find_None_iff)
  qed
  then have "\<exists>why. resolve_pushed F params' m = (Inl (Fails (error_page, ''invalid_request'', why)), m)"
    if "params' ''request_uri'' = Some uri" for params'
    using that uri unfolding resolve_pushed_def
    by (auto simp: step_run thenp_def bindp_def query_def strip_prefix_Some split: option.splits)
  ultimately show ?thesis
    using row p uri by blast
qed



section \<open>Runs\<close>

text \<open>A user of another realm than the client's, whose session the browser holds, and who has approved.\<close>

definition web_env :: env where
  "web_env = sample_env\<lparr>e_url_scheme := (\<lambda>_. Some ''https'')\<rparr>"

definition foreign_user :: user where
  "foreign_user = sample_user\<lparr>u_realm_id := 4\<rparr>"

definition foreign_session :: session where
  "foreign_session = sample_session\<lparr>s_id := 7\<rparr>"

definition web_db :: db where
  "web_db = empty_db\<lparr>d_clients := [sample_client], d_users := [foreign_user], d_sessions := [foreign_session],
     d_consents := [\<lparr>uc_id = 1, uc_user_id = 7, uc_realm_id = 4, uc_client_id = 5, uc_scopes = [''openid''],
       uc_created_at = 0, uc_updated_at = 0\<rparr>]\<rparr>"

definition web_params :: params where
  "web_params = map_of [(''redirect_uri'', ''https://app/cb''), (''client_id'', ''app''), (''response_type'', ''code''),
     (''code_challenge'', ''x''), (''code_challenge_method'', ''S256'')]"

definition web_request :: auth_request where
  "web_request = \<lparr>az_params = web_params, az_realm_name = None, az_client = sample_client, az_uri = ''https://app/cb'',
     az_type = rt True False False, az_mode = None, az_hint = None, az_details = None, az_resources = [],
     az_scopes = [''openid'']\<rparr>"

lemma web_names:
  "resolve_names_for_client str_le 5 [''openid''] [''openid''] d = Inr [''openid'']"
  if "d_client_scopes d = []" for d
  using that by (simp add: resolve_names_Inr allowed_names_def crate_scope_allowed_def scopes_of_client_def)

lemma web_param:
  "web_params ''redirect_uri'' = Some ''https://app/cb''" "web_params ''client_id'' = Some ''app''"
  "web_params ''response_type'' = Some ''code''" "web_params ''code_challenge'' = Some ''x''"
  "web_params ''code_challenge_method'' = Some ''S256''" "web_params ''request'' = None" "web_params ''request_uri'' = None"
  "web_params ''response_mode'' = None" "web_params ''id_token_hint'' = None" "web_params ''authorization_details'' = None"
  "web_params ''resource'' = None" "web_params ''scope'' = None" "web_params ''prompt'' = None" "web_params ''max_age'' = None"
  "web_params ''consent_token'' = None" "web_params ''consent_action'' = None" "web_params ''acr_values'' = None"
  "web_params ''state'' = None"
  by (simp_all add: web_params_def)

lemma web_read:
  assumes "params = web_params \<or> params = web_params(''prompt'' \<mapsto> p)"
  shows "read_request web_env H None params web_db = (Inr (web_request\<lparr>az_params := params\<rparr>), web_db)"
proof -
  have params: "params ''redirect_uri'' = Some ''https://app/cb''" "params ''client_id'' = Some ''app''"
    "params ''response_type'' = Some ''code''" "params ''code_challenge'' = Some ''x''"
    "params ''code_challenge_method'' = Some ''S256''" "params ''request'' = None" "params ''request_uri'' = None"
    "params ''response_mode'' = None" "params ''id_token_hint'' = None" "params ''authorization_details'' = None"
    "params ''resource'' = None" "params ''scope'' = None"
    using assms by (auto simp: web_param)
  have steps: "resolve_pushed web_env params web_db = (Inr params, web_db)" "decrypt_object web_env params web_db = (Inr params, web_db)"
      "verify_object web_env H params web_db = (Inr params, web_db)"
    unfolding resolve_pushed_def decrypt_object_def verify_object_def params
    by (simp_all add: prog_run step_run thenp_def bindp_def)
  have client: "client_of_request web_env None params web_db = (Inr (sample_client, ''https://app/cb''), web_db)"
    unfolding client_of_request_def params
    by (simp add: prog_run step_run thenp_def bindp_def url_ok_def web_env_def client_by_client_id_def web_db_def sample_client_def)
  have "read_response uri params web_db = (Inr (rt True False False, None), web_db)" for uri
    unfolding read_response_def params
    by (simp add: prog_run step_run bindp_def parse_response_type_def rt_def map_err_def)
  moreover have "require_pkce uri rtype params web_db = (Inr (), web_db)" for uri rtype
    unfolding require_pkce_def params by (simp add: prog_run step_run thenp_def bindp_def)
  moreover have "read_details web_env uri params web_db = (Inr None, web_db)"
      "read_resources web_env uri params web_db = (Inr [], web_db)" for uri
    unfolding read_details_def read_resources_def params by (simp_all add: prog_run)
  moreover have "read_scopes web_env uri sample_client (rt True False False) params web_db = (Inr [''openid''], web_db)" for uri
    unfolding read_scopes_def params
    by (simp add: prog_run step_run thenp_def bindp_def map_err_def web_env_def sample_env_def sample_client_def web_names
        web_db_def empty_db_def)
  moreover have "outer_uri_ok web_env params" "hint_subject web_env H params web_db = None"
    unfolding outer_uri_ok_def hint_subject_def params by (simp_all add: url_ok_def web_env_def)
  ultimately show ?thesis
    using steps client unfolding read_request_def
    by (simp add: prog_run step_run thenp_def bindp_def web_request_def)
qed

lemma prompt_login_never_answered_witness:
  "authorize_handler web_env sample_hub (Some ''oidc_session=sid.keysid'') None (web_params(''prompt'' \<mapsto> ''login'')) web_db
     = (Redirect_To (build_login_url web_env None (web_params(''prompt'' \<mapsto> ''login''))), web_db)"
  by (rule prompt_login_never_answered [OF web_read]) (auto simp: web_param words_param_def)


lemma web_cookie: "extract_session_id web_env (Some ''oidc_session=sid.keysid'') ''key'' = Some ''sid''"
proof -
  have "split_on (CHR '';'') ''oidc_session=sid.keysid'' = [''oidc_session=sid.keysid'']"
      "trim ''oidc_session=sid.keysid'' = ''oidc_session=sid.keysid''"
      "strip_prefix ''oidc_session=sid.keysid'' ''oidc_session='' = Some ''sid.keysid''"
      "split_once (CHR ''.'') ''sid.keysid'' = Some (''sid'', ''keysid'')"
    by code_simp+
  then show ?thesis
    by (simp add: extract_session_id_def verify_cookie_def cookie_mac_def web_env_def sample_env_def)
qed

lemma web_found:
  "cookie_session web_env (Some ''sid'') web_db = Some foreign_session"
  "user_by_id 7 web_db = Some foreign_user"
  "realm_by_id 4 web_db = None"
  "\<not> is_managed_user_blocked 7 web_db"
  "granted_before (web_request\<lparr>az_params := web_params\<rparr>) foreign_user web_db"
  by (simp_all add: cookie_session_def web_env_def sample_env_def session_by_id_def web_db_def empty_db_def foreign_session_def
      user_by_id_def foreign_user_def sample_user_def realm_by_id_def is_managed_user_blocked_def granted_before_def
      consent_of_def web_request_def sample_client_def)

lemma web_user_fields:
  "u_id foreign_user = 7" "u_realm_id foreign_user = 4" "u_enabled foreign_user" "\<not> s_revoked foreign_session"
  "0 < s_expires_at foreign_session" "s_user_id foreign_session = Some 7" "s_acr foreign_session = acr_bronze"
  by (simp_all add: foreign_user_def foreign_session_def sample_user_def sample_session_def minutes_def secs_def acr_bronze_def)

text \<open>The session of a user of one realm is a sign-in for a client of another: the code is issued.\<close>

lemma foreign_session_gets_code:
  "\<exists>answer e. authorize_steps web_env sample_hub (Some ''oidc_session=sid.keysid'') None web_params web_db = (Inr answer, e)
     \<and> map ac_user_id (d_codes e) = [u_id foreign_user] \<and> map ac_realm_id (d_codes e) = [c_realm_id sample_client]
     \<and> u_realm_id foreign_user \<noteq> c_realm_id sample_client"
proof -
  let ?q = "web_request\<lparr>az_params := web_params\<rparr>"
  have read: "read_request web_env sample_hub None web_params web_db = (Inr ?q, web_db)"
    by (rule web_read) simp
  have sid: "cookie_session_id web_env (Some ''oidc_session=sid.keysid'') ?q = Some ''sid''"
    using web_cookie by (simp add: cookie_session_id_def prompts_def words_param_def web_param web_env_def sample_env_def)
  have clock: "e_clock web_env k = 0" for k
    by (simp add: web_env_def sample_env_def)
  have user: "cookie_user web_env (Some ''sid'') web_db = Some foreign_user"
    unfolding cookie_user_Some using web_found web_user_fields clock by auto
  have sign_in: "sign_in_of web_env (Some ''sid'') ?q web_db = (Inr foreign_user, web_db)"
    unfolding sign_in_of_def by (simp add: prog_run step_run thenp_def bindp_def user too_old_def web_param web_user_fields)
  have account: "check_account web_env ?q foreign_user web_db = (Inr (), web_db)"
    unfolding check_account_def by (simp add: prog_run step_run web_found web_user_fields)
  have organization: "check_organization web_env ?q foreign_user web_db = (Inr (), web_db)"
    unfolding check_organization_def
    by (simp add: prog_run resolve_organization_claim_def map_filter_def strip_prefix_def starts_with_def web_request_def)
  have hint: "check_hint web_env ?q foreign_user web_db = (Inr (), web_db)"
    unfolding check_hint_def by (simp add: prog_run web_request_def)
  have consent: "check_consent web_env ?q foreign_user web_db = (Inr (), web_db)"
    unfolding check_consent_def Let_def
    by (simp add: prog_run step_run thenp_def bindp_def web_found web_param prompts_def words_param_def offline_def silent_def)
      (simp add: web_request_def)
  have "\<exists>ra. check_assurance web_env (Some ''sid'') ?q foreign_user web_db = (Inr ra, web_db)"
    unfolding check_assurance_def
    by (simp add: prog_run step_run thenp_def bindp_def flow_of_user_def web_found web_user_fields step_up_wanted_def
        default_flow_def words_param_def web_param resolve_acr_amr_def map_err_def)
  then obtain ra where assurance: "check_assurance web_env (Some ''sid'') ?q foreign_user web_db = (Inr ra, web_db)"
    by blast
  have code: "generate_auth_code web_env = Inr ''abcdefgh''"
    by (simp add: generate_auth_code_def generate_opaque_token_def web_env_def sample_env_def)
  have "\<exists>fragments e. issue_code web_env ?q foreign_user ra web_db = (Inr fragments, e)"
    unfolding issue_code_def
    by (simp add: prog_run code map_err_def web_request_def convert_def code_create_def thenp_def bindp_def web_db_def empty_db_def)
  then obtain fragments e where issued: "issue_code web_env ?q foreign_user ra web_db = (Inr fragments, e)"
    by blast
  have tokens: "implicit_tokens web_env ?q foreign_user ra fragments e = (Inr fragments, e)"
    by (simp add: implicit_tokens_def is_implicit_or_hybrid_def rt_def web_request_def prog_run)
  have "\<exists>answer. deliver web_env sample_hub ?q fs e = (Inr answer, e)" for fs
    by (simp add: deliver_def Let_def prog_run web_request_def effective_mode_def is_implicit_or_hybrid_def rt_def)
  then obtain answer where "respond web_env sample_hub (Some ''sid'') ?q foreign_user ra web_db = (Inr answer, e)"
    using issued tokens unfolding respond_def by (auto simp: bindp_def)
  then have run: "authorize_steps web_env sample_hub (Some ''oidc_session=sid.keysid'') None web_params web_db = (Inr answer, e)"
    using read sid sign_in account organization hint consent assurance
    by (simp add: authorize_steps_def bindp_def thenp_def Let_def)
  have "rt_code (az_type ?q)"
    by (simp add: web_request_def rt_def)
  with issue_code_ok [OF issued] have "map ac_user_id (d_codes e) = [u_id foreign_user]"
      "map ac_realm_id (d_codes e) = [c_realm_id sample_client]"
    by (auto simp: code_of_request_def web_db_def empty_db_def web_request_def)
  moreover have "u_realm_id foreign_user \<noteq> c_realm_id sample_client"
    by (simp add: web_user_fields sample_client_def)
  ultimately show ?thesis
    by (intro exI [of _ answer] exI [of _ e] conjI run)
qed

lemma authorize_sound_witness:
  "\<exists>answer e q m u s. authorize_steps web_env sample_hub (Some ''oidc_session=sid.keysid'') None web_params web_db = (Inr answer, e)
     \<and> request_checked web_env m q \<and> signed_in web_env (Some ''oidc_session=sid.keysid'') q u s m \<and> goes_to (az_uri q) answer"
proof -
  obtain answer e where run: "authorize_steps web_env sample_hub (Some ''oidc_session=sid.keysid'') None web_params web_db = (Inr answer, e)"
    using foreign_session_gets_code by blast
  from authorize_sound [OF run] run show ?thesis
    by blast
qed

definition pushed_db :: db where
  "pushed_db = empty_db\<lparr>d_pars := [\<lparr>par_id = 1, par_client_id = 5, par_realm_id = 3, par_request_uri_token = ''t'',
     par_request_params = JObj [(''scope'', JStr ''openid'')], par_expires_at = 90, par_used = False, par_created_at = 0\<rparr>]\<rparr>"

lemma pushed_request_once_witness:
  "\<exists>result m why. resolve_pushed sample_env (map_of [(''request_uri'', request_uri_prefix @ ''t'')]) pushed_db = (Inr result, m)
     \<and> result ''scope'' = Some ''openid''
     \<and> resolve_pushed sample_env (map_of [(''request_uri'', request_uri_prefix @ ''t'')]) m
         = (Inl (Fails (error_page, ''invalid_request'', why)), m)"
proof -
  let ?params = "map_of [(''request_uri'', request_uri_prefix @ ''t'')]"
  have strip: "strip_prefix (request_uri_prefix @ ''t'') request_uri_prefix = Some ''t''"
    by (simp add: strip_prefix_Some)
  have "\<exists>result m. resolve_pushed sample_env ?params pushed_db = (Inr result, m) \<and> result ''scope'' = Some ''openid''"
    unfolding resolve_pushed_def
    by (simp add: prog_run step_run thenp_def bindp_def strip par_by_token_def pushed_db_def sample_env_def map_err_def map_filter_def)
  then obtain result m where run: "resolve_pushed sample_env ?params pushed_db = (Inr result, m)" "result ''scope'' = Some ''openid''"
    by blast
  have "distinct (map par_request_uri_token (d_pars pushed_db))"
    by (simp add: pushed_db_def)
  from pushed_request_once [OF run(1) _ this] run show ?thesis
    by fastforce
qed


definition signed_claims :: request_claims where
  "signed_claims = \<lparr>rq_iss = ''app'', rq_aud = Inl ''https://op'', rq_exp = 300, rq_iat = 0, rq_nbf = None, rq_jti = None,
     rq_client_id = Some ''app'', rq_response_type = None, rq_redirect_uri = None, rq_scope = Some ''openid'',
     rq_state = None, rq_nonce = None, rq_display = None, rq_prompt = None, rq_max_age = None, rq_login_hint = None,
     rq_code_challenge = None, rq_code_challenge_method = None, rq_claims = None, rq_request_uri = None,
     rq_response_mode = None\<rparr>"

definition signing_env :: env where
  "signing_env = sample_env\<lparr>e_parse_header := (\<lambda>_. Some \<lparr>h_alg = ''RS256'', h_typ = ''JWT'', h_kid = ''k''\<rparr>),
     e_parse_assertion := (\<lambda>_. Some \<lparr>as_iss = ''app'', as_sub = [], as_aud = [], as_exp = 0, as_iat = 0, as_jti = None\<rparr>),
     e_parse_request := (\<lambda>_. Inr signed_claims)\<rparr>"

definition signing_keys :: json where
  "signing_keys = JObj [(''keys'', JArr [JObj [(''alg'', JStr ''RS256''), (''e'', JStr ''AQAB''), (''kid'', JStr ''k''),
     (''n'', JStr ''m'')]])]"

definition signing_db :: db where
  "signing_db = empty_db\<lparr>d_clients := [sample_client\<lparr>c_jwks := Some signing_keys\<rparr>]\<rparr>"

lemma signing_key:
  assumes "e_rsa_verify E = (\<lambda>_ _ _ _. Inr ())"
  shows "\<exists>k. find_jwk signing_keys ''k'' ''RS256'' = Inr k \<and> (\<forall>input sig. verify_signature_with_jwk E input sig k = Inr ())"
proof -
  let ?k = "JObj [(''alg'', JStr ''RS256''), (''e'', JStr ''AQAB''), (''kid'', JStr ''k''), (''n'', JStr ''m'')]"
  have "find_jwk signing_keys ''k'' ''RS256'' = Inr ?k"
    by code_simp
  moreover have "str_member_or_empty ?k ''alg'' = ''RS256''" "Dpop.member_or ?k ''n'' (InvalidClientAssertion ''RSA JWK missing n'') = Inr ''m''"
      "Dpop.member_or ?k ''e'' (InvalidClientAssertion ''RSA JWK missing e'') = Inr ''AQAB''"
    by code_simp+
  then have "verify_signature_with_jwk E input sig ?k = Inr ()" for input sig
    using assms by (simp add: verify_signature_with_jwk_def)
  ultimately show ?thesis
    by blast
qed

lemma signed_parameters_prevail_witness:
  "\<exists>result. fst (verify_object signing_env sample_hub (map_of [(''request'', ''h.c.s''), (''scope'', ''other'')]) signing_db) = Inr result
     \<and> result ''scope'' = Some ''openid''"
proof -
  let ?params = "map_of [(''request'', ''h.c.s''), (''scope'', ''other'')]"
  have parsed: "split_on (CHR ''.'') ''h.c.s'' = [''h'', ''c'', ''s'']"
    by simp
  obtain k where k: "find_jwk signing_keys ''k'' ''RS256'' = Inr k"
      "\<And>input sig. verify_signature_with_jwk signing_env input sig k = Inr ()"
    using signing_key [of signing_env] by (auto simp: signing_env_def sample_env_def)
  have "verify_request_object signing_env ''h.c.s'' signing_keys ''https://op'' ''app'' 0 = Inr (object_params signing_env signed_claims)"
    unfolding verify_request_object_def parse_request_object_def parsed
    by (simp add: signing_env_def [THEN arg_cong [where f = e_unb64]] signing_env_def [THEN arg_cong [where f = e_parse_header]]
        signing_env_def [THEN arg_cong [where f = e_parse_request]] sample_env_def or_error_def map_err_def ensure_def
        signed_claims_def k)
  moreover have "parse_assertion signing_env ''h.c.s'' = Inr (\<lparr>h_alg = ''RS256'', h_typ = ''JWT'', h_kid = ''k''\<rparr>,
      \<lparr>as_iss = ''app'', as_sub = [], as_aud = [], as_exp = 0, as_iat = 0, as_jti = None\<rparr>, ''h.c'', ''s'')"
    unfolding parse_assertion_def parsed by (simp add: signing_env_def sample_env_def)
  moreover have "client_by_client_id ''app'' signing_db = Some (sample_client\<lparr>c_jwks := Some signing_keys\<rparr>)"
    by (simp add: client_by_client_id_def signing_db_def sample_client_def)
  moreover have "timestamp (e_clock signing_env 1) = 0" "hb_issuer sample_hub = ''https://op''"
    by (simp_all add: signing_env_def sample_env_def sample_hub_def timestamp_def)
  moreover obtain result where "merge_protected ''invalid_request_object'' (object_params signing_env signed_claims) ?params = Inr result"
    by (simp add: object_params_def signed_claims_def given_def)
  ultimately have run: "verify_object signing_env sample_hub ?params signing_db = (Inr result, signing_db)"
    unfolding verify_object_def by (simp add: prog_ok Let_def)
  from signed_parameters_prevail [OF run, of "''h.c.s''"] obtain cb c where
    c: "e_parse_request signing_env cb = Inr c" "\<forall>(key, v) \<in> set (object_params signing_env c). result key = Some v"
    by auto
  have "c = signed_claims"
    using c(1) by (simp add: signing_env_def)
  then have "(''scope'', ''openid'') \<in> set (object_params signing_env c)"
    by (simp add: object_params_def given_def signed_claims_def)
  with c(2) run show ?thesis
    by auto
qed

end
