(* ===== verification/Exchange.thy ===== *)
theory Exchange
  imports Grants Hub Client_Auth
begin

text \<open>Grants that start from a token or an assertion: the token exchange
  (\<open>oidc-oidc/src/flows/token_exchange.rs\<close>) and the JWT bearer grant (\<open>oidc-oidc/src/flows/jwt_bearer.rs\<close>).
  The clock is read at index 0 and 1 for the subject and the actor token, 2 for the access token, 3 and 4
  for the ID token and 5 for the session; the assertion is judged at index 0.\<close>

section \<open>Token types\<close>

definition access_type :: string where
  "access_type = ''urn:ietf:params:oauth:token-type:access_token''"

definition refresh_type :: string where
  "refresh_type = ''urn:ietf:params:oauth:token-type:refresh_token''"

definition id_type :: string where
  "id_type = ''urn:ietf:params:oauth:token-type:id_token''"

definition saml2_type :: string where
  "saml2_type = ''urn:ietf:params:oauth:token-type:saml2''"

(*@ oidc-oidc/src/flows/token_exchange.rs 171-181 validate_subject_token_type *)
definition validate_subject_type :: "string \<Rightarrow> unit result" where
  "validate_subject_type ty =
     (if ty \<in> {access_type, refresh_type, id_type} then Inr ()
      else if ty = saml2_type then Inl (InvalidSubjectToken ''SAML2 tokens are not supported'')
      else Inl (InvalidSubjectToken (''Unknown subject_token_type: '' @ ty)))"

(*@ oidc-oidc/src/flows/token_exchange.rs 184-189 validate_requested_token_type *)
definition validate_requested_type :: "string \<Rightarrow> unit result" where
  "validate_requested_type ty = ensure (ty \<in> {access_type, refresh_type, id_type}) InvalidRequest"


section \<open>The presented tokens\<close>

(*@ oidc-oidc/src/flows/token_exchange.rs 350-359 client_id_from_audience *)
fun first_audience :: "json \<Rightarrow> string option" where
  "first_audience (JStr s) = Some s"
| "first_audience (JArr (v # _)) = as_str_json v"
| "first_audience _ = None"

definition issuer_realm_name :: "hub \<Rightarrow> string \<Rightarrow> string option" where
  "issuer_realm_name H issuer =
     (let base = trim_slashes (hb_base_issuer H); iss = trim_slashes issuer
      in if iss = base then None
         else Option.bind (strip_prefix iss (base @ ''/realms/'')) (\<lambda>name.
              if name \<noteq> [] \<and> CHR ''/'' \<notin> set name then Some name else None))"

text \<open>A realm that the issuer names but that does not exist is passed over, unlike in \<open>resolve_realm\<close>.\<close>

(*@ oidc-oidc/src/flows/token_exchange.rs 310-348 resolve_realm_id_from_issuer_or_audience *)
definition realm_of_token :: "hub \<Rightarrow> string \<Rightarrow> json \<Rightarrow> db \<Rightarrow> uuid result" where
  "realm_of_token H issuer aud d =
     (case Option.bind (issuer_realm_name H issuer) (\<lambda>name. realm_by_name name d) of
        Some r \<Rightarrow> Inr (r_id r)
      | None \<Rightarrow>
          bindr (or_error (first_audience aud) (InvalidSubjectToken ''unable to resolve realm from token audience'')) (\<lambda>cid.
          bindr (or_error (client_by_client_id cid d) (InvalidSubjectToken ''unable to resolve realm from client audience'')) (\<lambda>c.
          Inr (c_realm_id c))))"

text \<open>The lookup of the refresh token does not return revoked rows, so that only a revoked family is
  reported as revoked.\<close>

(*@ oidc-oidc/src/flows/token_exchange.rs 192-261 verify_subject_token *)
definition verify_subject :: "env \<Rightarrow> hub \<Rightarrow> string \<Rightarrow> string \<Rightarrow> db \<Rightarrow> (string \<times> uuid \<times> uuid option) result" where
  "verify_subject E H token ty d =
     (if ty = access_type then
        bindr (verify_access_any E H (timestamp (e_clock E 0)) token d) (\<lambda>claims.
        bindr (realm_of_token H (at_iss claims) (at_aud claims) d) (\<lambda>realm.
        Inr (at_sub claims, realm, None)))
      else if ty = refresh_type then
        (case session_by_refresh_hash (sha2_256_hex E token) d of
           None \<Rightarrow> Inl (InvalidSubjectToken ''Refresh token not found'')
         | Some s \<Rightarrow>
             bindr (ensure (\<not> s_revoked s \<and> \<not> s_family_revoked s)
                      (InvalidSubjectToken ''Refresh token is revoked'')) (\<lambda>_.
             bindr (or_error (s_user_id s) (InvalidSubjectToken ''Refresh token has no associated user'')) (\<lambda>uid.
             Inr (e_uuid_text E (case user_by_id uid d of Some u \<Rightarrow> u_id u | None \<Rightarrow> uid), s_realm_id s, Some uid))))
      else if ty = id_type then
        bindr (payload_unverified E (e_parse_id E) token) (\<lambda>claims.
        bindr (verify_id_any E H (timestamp (e_clock E 0)) token d) (\<lambda>sub.
        bindr (realm_of_token H (ic_iss claims) (ic_aud claims) d) (\<lambda>realm.
        Inr (sub, realm, e_parse_uuid E sub))))
      else Inl (InvalidSubjectToken (''Unsupported subject_token_type: '' @ ty)))"

(*@ oidc-oidc/src/flows/token_exchange.rs 264-307 verify_actor_token *)
definition verify_actor :: "env \<Rightarrow> hub \<Rightarrow> string \<Rightarrow> string \<Rightarrow> db \<Rightarrow> string result" where
  "verify_actor E H token ty d =
     (if ty = access_type then
        bindr (verify_access_any E H (timestamp (e_clock E 1)) token d) (\<lambda>claims. Inr (at_sub claims))
      else if ty = id_type then verify_id_any E H (timestamp (e_clock E 1)) token d
      else if ty = refresh_type then
        (case session_by_refresh_hash (sha2_256_hex E token) d of
           None \<Rightarrow> Inl (InvalidActorToken ''Actor refresh token not found'')
         | Some s \<Rightarrow>
             bindr (ensure (\<not> s_revoked s \<and> \<not> s_family_revoked s)
                      (InvalidActorToken ''Actor refresh token is revoked'')) (\<lambda>_.
             bindr (or_error (s_user_id s) (InvalidActorToken ''Actor refresh token has no associated user'')) (\<lambda>uid.
             Inr (e_uuid_text E uid))))
      else Inl (InvalidActorToken (''Unsupported actor_token_type: '' @ ty)))"


section \<open>Issue\<close>

definition no_role_claims :: role_claims where
  "no_role_claims = \<lparr>rc_roles = None, rc_realm_access = None, rc_resource_access = None\<rparr>"

text \<open>What every exchange issues for: the subject with its realm and, where it is known, its user.\<close>

record exchange =
  ex_subject :: string
  ex_audience :: string
  ex_scopes :: "string list"
  ex_client :: client
  ex_realm :: uuid
  ex_user :: "uuid option"
  ex_actor :: "string option"
  ex_resource :: "string option"
  ex_jkt :: "string option"

record exchange_response =
  xr_access_token :: string
  xr_issued_token_type :: string
  xr_token_type :: string
  xr_expires_in :: int
  xr_refresh_token :: "string option"
  xr_id_token :: "string option"
  xr_scope :: string
  xr_may_act :: "string option"
  xr_act :: "string option"
  xr_resource :: "string option"

definition exchange_roles :: "env \<Rightarrow> exchange \<Rightarrow> db \<Rightarrow> role_claims" where
  "exchange_roles E x d =
     (case ex_user x of None \<Rightarrow> no_role_claims | Some uid \<Rightarrow> resolve_role_claims (e_collate E) uid d)"

definition exchange_user :: "exchange \<Rightarrow> db \<Rightarrow> user option" where
  "exchange_user x d = Option.bind (ex_user x) (\<lambda>uid. user_by_id uid d)"

definition exchange_mapped :: "env \<Rightarrow> exchange \<Rightarrow> db \<Rightarrow> mapped_claims" where
  "exchange_mapped E x d =
     resolve_mapped_claims E (c_id (ex_client x)) (exchange_user x d) (ex_scopes x) d"

(*@ oidc-oidc/src/flows/token_exchange.rs 392-426 access token of the exchange *)
definition exchange_access :: "env \<Rightarrow> token_service \<Rightarrow> exchange \<Rightarrow> db \<Rightarrow> string result" where
  "exchange_access E svc x d =
     bindr (issue_access_token E 0 svc (timestamp (e_clock E 2)) (ex_subject x) (ex_audience x) (ex_scopes x)
              (ex_jkt x) None (map_option (\<lambda>r. [r]) (ex_resource x))
              (user_access_extra (exchange_mapped E x d) (exchange_roles E x d) None (ex_scopes x))) (\<lambda>(_, token).
     Inr token)"

(*@ oidc-oidc/src/flows/token_exchange.rs 432-459 Session of the exchange *)
definition exchange_session :: "env \<Rightarrow> exchange \<Rightarrow> string \<Rightarrow> session" where
  "exchange_session E x access_token =
     (let now = e_clock E 5 in
     \<lparr>s_id = e_uuid E 0, s_sid = sid_or_default E 1, s_user_id = ex_user x, s_realm_id = ex_realm x,
      s_client_id = c_id (ex_client x), s_grant_type = ''urn:ietf:params:oauth:grant-type:token-exchange'',
      s_access_token_hash = sha2_256_hex E access_token, s_refresh_token_hash = None, s_id_token_jti = None,
      s_scope = ex_scopes x, s_revoked = False, s_expires_at = now + minutes 15, s_refresh_expires_at = None,
      s_offline_session = False, s_offline_max_expires_at = None, s_created_at = now, s_last_used_at = None,
      s_token_family_id = None, s_previous_session_id = None, s_rotated_at = None, s_reused_at = None,
      s_family_revoked = False, s_authorization_details = None,
      s_resource = (case ex_resource x of None \<Rightarrow> [] | Some r \<Rightarrow> [r]), s_acr = acr_bronze,
      s_amr = [''token_exchange'']\<rparr>)"

definition exchange_answer :: "exchange \<Rightarrow> string \<Rightarrow> string \<Rightarrow> exchange_response" where
  "exchange_answer x issued access_token =
     \<lparr>xr_access_token = access_token, xr_issued_token_type = issued, xr_token_type = token_type_of (ex_jkt x),
      xr_expires_in = 900, xr_refresh_token = None, xr_id_token = None, xr_scope = join_scopes (ex_scopes x),
      xr_may_act = ex_actor x, xr_act = None, xr_resource = ex_resource x\<rparr>"

(*@ oidc-oidc/src/flows/token_exchange.rs 377-484 issue_access_token *)
definition issue_exchanged_access :: "env \<Rightarrow> token_service \<Rightarrow> exchange \<Rightarrow> (db, oidc_error, exchange_response) prog" where
  "issue_exchanged_access E svc x =
     bindp (ask (exchange_access E svc x)) (\<lambda>access_token.
     thenp (session_create (e_db_now E) (exchange_session E x access_token))
       (ret (exchange_answer x access_type access_token)))"

(*@ oidc-oidc/src/flows/token_exchange.rs 488-595 issue_refresh_token *)
definition issue_exchanged_refresh :: "env \<Rightarrow> token_service \<Rightarrow> exchange \<Rightarrow> (db, oidc_error, exchange_response) prog" where
  "issue_exchanged_refresh E svc x =
     bindp (ask (exchange_access E svc x)) (\<lambda>access_token.
     bindp (lift (generate_opaque_token E 2)) (\<lambda>refresh_token.
     thenp (session_create (e_db_now E) ((exchange_session E x access_token)
              \<lparr>s_id := e_uuid E 1, s_refresh_token_hash := Some (sha2_256_hex E refresh_token),
               s_refresh_expires_at := Some (e_clock E 5 + days 7), s_token_family_id := Some (e_uuid E 0)\<rparr>))
       (ret ((exchange_answer x refresh_type access_token)\<lparr>xr_refresh_token := Some refresh_token\<rparr>))))"

(*@ oidc-oidc/src/flows/token_exchange.rs 653-679 IdTokenExtraClaims of the exchange *)
definition exchange_id_extra :: "env \<Rightarrow> exchange \<Rightarrow> string \<Rightarrow> db \<Rightarrow> id_extra" where
  "exchange_id_extra E x access_token d =
     (let roles = exchange_roles E x d;
          base = no_id_extra\<lparr>ix_custom_claims := mc_id_token (exchange_mapped E x d),
             ix_additional_audiences := mc_id_audiences (exchange_mapped E x d),
             ix_at_hash := Some (left_half_hash E access_token), ix_auth_time := Some (timestamp (e_clock E 3)),
             ix_acr := Some acr_bronze, ix_amr := Some [''token_exchange''],
             ix_azp := map_option (\<lambda>_. ex_audience x) (ex_resource x),
             ix_roles := rc_roles roles, ix_realm_access := rc_realm_access roles,
             ix_resource_access := rc_resource_access roles\<rparr>
      in case exchange_user x d of
           None \<Rightarrow> base
         | Some u \<Rightarrow> base\<lparr>ix_email := Some (u_email u), ix_email_verified := Some (u_email_verified u),
             ix_name := u_username u, ix_given_name := u_given_name u, ix_family_name := u_family_name u,
             ix_locale := Some (u_locale u)\<rparr>)"

(*@ oidc-oidc/src/flows/token_exchange.rs 599-744 issue_id_token *)
definition issue_exchanged_id :: "env \<Rightarrow> token_service \<Rightarrow> exchange \<Rightarrow> (db, oidc_error, exchange_response) prog" where
  "issue_exchanged_id E svc x =
     bindp (ask (exchange_access E svc x)) (\<lambda>access_token.
     bindp (ask (\<lambda>d. issue_id_token E svc (timestamp (e_clock E 4)) (ex_subject x) (ex_audience x)
              (exchange_id_extra E x access_token d))) (\<lambda>id_token.
     bindp (lift (maybe_encrypt_id_token E id_token (ex_client x))) (\<lambda>id_token.
     thenp (session_create (e_db_now E) (exchange_session E x access_token))
       (ret ((exchange_answer x id_type access_token)
          \<lparr>xr_id_token := Some id_token, xr_may_act := None, xr_act := ex_actor x\<rparr>)))))"


section \<open>The exchange\<close>

record exchange_request =
  er_subject_token :: string
  er_subject_type :: string
  er_actor_token :: "string option"
  er_actor_type :: "string option"
  er_resource :: "string option"
  er_audience :: "string option"
  er_scopes :: "string list option"
  er_requested_type :: "string option"

definition requested_type :: "exchange_request \<Rightarrow> string" where
  "requested_type r = (case er_requested_type r of None \<Rightarrow> access_type | Some t \<Rightarrow> t)"

definition actor_of :: "env \<Rightarrow> hub \<Rightarrow> exchange_request \<Rightarrow> db \<Rightarrow> string option result" where
  "actor_of E H r d =
     (case (er_actor_token r, er_actor_type r) of
        (Some t, Some ty) \<Rightarrow> bindr (verify_actor E H t ty d) (\<lambda>a. Inr (Some a))
      | _ \<Rightarrow> Inr None)"

(*@ oidc-oidc/src/flows/token_exchange.rs 115-166 token of the requested type *)
definition issue_requested :: "env \<Rightarrow> exchange_request \<Rightarrow> token_service \<Rightarrow> exchange \<Rightarrow> (db, oidc_error, exchange_response) prog" where
  "issue_requested E r svc x =
     (if requested_type r = access_type then issue_exchanged_access E svc x
      else if requested_type r = refresh_type then issue_exchanged_refresh E svc x
      else if requested_type r = id_type then issue_exchanged_id E svc x
      else fail InvalidRequest)"

definition exchange_of ::
  "exchange_request \<Rightarrow> client \<Rightarrow> string list \<Rightarrow> string option \<Rightarrow> (string \<times> uuid \<times> uuid option) \<Rightarrow> string option \<Rightarrow> exchange" where
  "exchange_of r c scopes jkt subject actor =
     \<lparr>ex_subject = fst subject, ex_audience = (case er_audience r of Some a \<Rightarrow> a | None \<Rightarrow> c_client_id c),
      ex_scopes = scopes, ex_client = c, ex_realm = fst (snd subject), ex_user = snd (snd subject),
      ex_actor = actor, ex_resource = er_resource r, ex_jkt = jkt\<rparr>"

(*@ oidc-oidc/src/flows/token_exchange.rs 69-167 transaction of the exchange *)
definition exchange_transaction ::
  "env \<Rightarrow> exchange_request \<Rightarrow> string \<Rightarrow> string option \<Rightarrow> (string \<times> uuid \<times> uuid option) \<Rightarrow> string option
     \<Rightarrow> (db, oidc_error, exchange_response) prog" where
  "exchange_transaction E r client_id jkt subject actor =
     with_transaction
       (bindp (query (client_by_client_id client_id)) (\<lambda>found.
        bindp (some_or found InvalidClient) (\<lambda>c.
        thenp (guardp (c_enabled c) InvalidClient)
       (thenp (guardp (c_client_type c = Confidential) UnauthorizedClient)
       (bindp (ask (resolve_names_for_client (e_collate E) (c_id c)
                 (case er_scopes r of Some (s # ss) \<Rightarrow> s # ss | _ \<Rightarrow> c_allowed_scopes c) (c_allowed_scopes c))) (\<lambda>scopes.
        thenp (guardp (''offline_access'' \<notin> set scopes)
                 (InvalidScope ''offline_access cannot be granted through token exchange''))
       (bindp (lift (e_services E (fst (snd subject)))) (\<lambda>svc.
        issue_requested E r svc (exchange_of r c scopes jkt subject actor)))))))))"

(*@ oidc-oidc/src/flows/token_exchange.rs 35-66 TokenExchangeFlow::execute *)
definition token_exchange_flow ::
  "env \<Rightarrow> hub \<Rightarrow> exchange_request \<Rightarrow> string \<Rightarrow> string option \<Rightarrow> (db, oidc_error, exchange_response) prog" where
  "token_exchange_flow E H r client_id jkt =
     bindp (lift (validate_subject_type (er_subject_type r))) (\<lambda>_.
     bindp (lift (validate_requested_type (requested_type r))) (\<lambda>_.
     bindp (ask (verify_subject E H (er_subject_token r) (er_subject_type r))) (\<lambda>subject.
     bindp (ask (actor_of E H r)) (\<lambda>actor.
     exchange_transaction E r client_id jkt subject actor))))"



section \<open>JWT bearer grant\<close>

text \<open>The assertion is first read as a client assertion, for its header, and its claims once more on their own.
  Its audience is the token endpoint of the issuer, never that of a realm.\<close>

definition bad_assertion :: "string \<Rightarrow> oidc_error" where
  "bad_assertion = InvalidClientAssertion"

(*@ oidc-oidc/src/flows/jwt_bearer.rs 66-122 assertion of the JWT bearer grant *)
definition read_assertion ::
  "env \<Rightarrow> hub \<Rightarrow> string \<Rightarrow> string \<Rightarrow> (jwt_header \<times> bearer_claims \<times> string \<times> string) result" where
  "read_assertion E H assertion client_id =
     bindr (parse_assertion E assertion) (\<lambda>(h, _, input, sig).
     bindr (or_error (e_unb64 E (split_on (CHR ''.'') assertion ! 1)) (bad_assertion ''invalid claims encoding'')) (\<lambda>bytes.
     bindr (or_error (e_parse_bearer E bytes) (bad_assertion ''invalid claims JSON'')) (\<lambda>claims.
     bindr (ensure (jb_iss claims = client_id) (bad_assertion ''iss does not match client_id'')) (\<lambda>_.
     bindr (ensure (jb_aud claims = hb_issuer H @ ''/oidc/token'') (bad_assertion ''aud does not match token endpoint'')) (\<lambda>_.
     bindr (ensure (\<not> jb_exp claims < timestamp (e_clock E 0)) (bad_assertion ''JWT bearer assertion expired'')) (\<lambda>_.
     bindr (ensure (\<not> (case jb_iat claims of None \<Rightarrow> False | Some iat \<Rightarrow> timestamp (e_clock E 0) + 300 < iat))
              (bad_assertion ''JWT bearer assertion issued too far in the future'')) (\<lambda>_.
     Inr (h, claims, input, sig))))))))"

text \<open>The words of the request or, without that parameter, of the assertion.\<close>

(*@ oidc-oidc/src/flows/jwt_bearer.rs 155-166 requested_scopes *)
definition bearer_scopes :: "string option \<Rightarrow> bearer_claims \<Rightarrow> client \<Rightarrow> string list" where
  "bearer_scopes scope claims c =
     (let ws = (case scope of Some s \<Rightarrow> split_whitespace s
                | None \<Rightarrow> (case jb_scope claims of Some s \<Rightarrow> split_whitespace s | None \<Rightarrow> []))
      in if ws = [] then c_allowed_scopes c else ws)"

(*@ oidc-oidc/src/flows/jwt_bearer.rs 183-227 subject of the JWT bearer grant *)
definition bearer_subject :: "env \<Rightarrow> bearer_claims \<Rightarrow> client \<Rightarrow> db \<Rightarrow> (string \<times> user option) result" where
  "bearer_subject E claims c d =
     (if jb_sub claims = jb_iss claims then Inr (c_client_id c, None)
      else bindr (or_error (e_parse_uuid E (jb_sub claims)) (bad_assertion ''sub claim is not a valid user identifier'')) (\<lambda>uid.
           bindr (or_error (user_by_id uid d) (bad_assertion ''user referenced in sub not found'')) (\<lambda>u.
           bindr (ensure (u_enabled u) (bad_assertion ''user referenced in sub is disabled'')) (\<lambda>_.
           Inr (subject_for E c (u_id u), Some u)))))"

(*@ oidc-oidc/src/flows/jwt_bearer.rs 267-294 Session of the JWT bearer grant *)
definition bearer_session :: "env \<Rightarrow> client \<Rightarrow> user option \<Rightarrow> string list \<Rightarrow> string \<Rightarrow> session" where
  "bearer_session E c u scopes access_token =
     (let now = e_clock E 2 in
     \<lparr>s_id = e_uuid E 0, s_sid = sid_or_default E 1, s_user_id = map_option u_id u, s_realm_id = c_realm_id c,
      s_client_id = c_id c, s_grant_type = ''urn:ietf:params:oauth:grant-type:jwt-bearer'',
      s_access_token_hash = sha2_256_hex E access_token, s_refresh_token_hash = None, s_id_token_jti = None,
      s_scope = scopes, s_revoked = False, s_expires_at = now + minutes 15, s_refresh_expires_at = None,
      s_offline_session = False, s_offline_max_expires_at = None, s_created_at = now, s_last_used_at = None,
      s_token_family_id = None, s_previous_session_id = None, s_rotated_at = None, s_reused_at = None,
      s_family_revoked = False, s_authorization_details = None, s_resource = [], s_acr = acr_bronze,
      s_amr = [''jwt'']\<rparr>)"

(*@ oidc-oidc/src/flows/jwt_bearer.rs 127-307 transaction of the JWT bearer grant *)
definition bearer_transaction ::
  "env \<Rightarrow> jwt_header \<Rightarrow> bearer_claims \<Rightarrow> string \<Rightarrow> string \<Rightarrow> string option \<Rightarrow> string option
     \<Rightarrow> (db, oidc_error, token_response) prog" where
  "bearer_transaction E h claims input sig scope jkt =
     with_transaction
       (bindp (query (client_by_client_id (jb_iss claims))) (\<lambda>found.
        bindp (some_or found InvalidClient) (\<lambda>c.
        thenp (guardp (c_enabled c) InvalidClient)
       (bindp (some_or (c_jwks c) (bad_assertion ''client has no jwks registered for JWT bearer verification'')) (\<lambda>jwks.
        bindp (lift (find_jwk jwks (h_kid h) (h_alg h))) (\<lambda>k.
        bindp (lift (verify_signature_with_jwk E input sig k)) (\<lambda>_.
        bindp (ask (resolve_names_for_client (e_collate E) (c_id c) (bearer_scopes scope claims c) (c_allowed_scopes c))) (\<lambda>scopes.
        thenp (guardp (scopes \<noteq> []) (InvalidScope ''no valid scopes requested or allowed''))
       (bindp (ask (bearer_subject E claims c)) (\<lambda>(subject, u).
        bindp (lift (e_services E (c_realm_id c))) (\<lambda>svc.
        bindp (ask (\<lambda>d. issue_access_token E 0 svc (timestamp (e_clock E 1)) subject (c_client_id c) scopes jkt None None
                 (user_access_extra (resolve_mapped_claims E (c_id c) u scopes d)
                    (case u of None \<Rightarrow> no_role_claims | Some u \<Rightarrow> resolve_role_claims (e_collate E) (u_id u) d)
                    None scopes))) (\<lambda>(_, access_token).
        thenp (session_create (e_db_now E) (bearer_session E c u scopes access_token))
          (ret \<lparr>tr_access_token = access_token, tr_token_type = token_type_of jkt, tr_expires_in = 900,
                tr_refresh_token = None, tr_refresh_expires_in = None, tr_id_token = None,
                tr_scope = join_scopes scopes\<rparr>)))))))))))))"

(*@ oidc-oidc/src/flows/jwt_bearer.rs 59-65 JwtBearerFlow::execute *)
definition jwt_bearer_flow ::
  "env \<Rightarrow> hub \<Rightarrow> string \<Rightarrow> string option \<Rightarrow> string \<Rightarrow> string option \<Rightarrow> (db, oidc_error, token_response) prog" where
  "jwt_bearer_flow E H assertion scope client_id jkt =
     bindp (lift (read_assertion E H assertion client_id)) (\<lambda>(h, claims, input, sig).
     bearer_transaction E h claims input sig scope jkt)"

end
