(* ===== verification/Token_Endpoint.thy ===== *)
theory Token_Endpoint
  imports Exchange Refresh Ciba Uma
begin

text \<open>The token endpoint (\<open>oidc-oidc/src/endpoints/token.rs\<close>): client authentication, the allowed grants, the
  DPoP proof and the grant itself.  Three environments are read: the first for the authentication and the
  proof, the second for the grant, the third for the second transaction of a refresh.  A panic of the proof
  check is \<open>None\<close>; it happens before anything is written.\<close>

definition ciba_grant_type :: string where
  "ciba_grant_type = ''urn:openid:params:grant-type:ciba''"

definition uma_grant_type :: string where
  "uma_grant_type = ''urn:ietf:params:oauth:grant-type:uma-ticket''"

datatype token_answer =
  Token_Answer token_response
| Exchange_Answer exchange_response
| Rpt_Answer rpt_response

definition answered :: "('a \<Rightarrow> 'b) \<Rightarrow> ('s, 'e, 'a) prog \<Rightarrow> ('s, 'e, 'b) prog" where
  "answered f m = bindp m (\<lambda>a. ret (f a))"

definition needed :: "params \<Rightarrow> string \<Rightarrow> (string \<Rightarrow> (db, oidc_error, 'a) prog) \<Rightarrow> (db, oidc_error, 'a) prog" where
  "needed params k f = bindp (some_or (params k) InvalidRequest) f"

(*@ oidc-oidc/src/endpoints/token.rs 182-198 parameters of the token exchange *)
definition exchange_of_params :: "params \<Rightarrow> string \<Rightarrow> string \<Rightarrow> exchange_request" where
  "exchange_of_params params token ty =
     \<lparr>er_subject_token = token, er_subject_type = ty, er_actor_token = params ''actor_token'',
      er_actor_type = params ''actor_token_type'', er_resource = params ''resource'',
      er_audience = params ''audience'', er_scopes = map_option split_whitespace (params ''scope''),
      er_requested_type = params ''requested_token_type''\<rparr>"

(*@ oidc-oidc/src/endpoints/token.rs 126-222 grant of the request *)
definition run_grant ::
  "env \<Rightarrow> env \<Rightarrow> hub \<Rightarrow> (string list \<Rightarrow> string list) \<Rightarrow> string \<Rightarrow> client \<Rightarrow> string \<Rightarrow> params \<Rightarrow> string option
     \<Rightarrow> (db, oidc_error, token_answer) prog" where
  "run_grant E F H listing grant_type c cid params jkt =
     (if grant_type = ''authorization_code'' then
        needed params ''code'' (\<lambda>code.
        needed params ''redirect_uri'' (\<lambda>uri.
        needed params ''code_verifier'' (\<lambda>verifier.
        answered Token_Answer (auth_code_flow E code uri cid verifier jkt))))
      else if grant_type = ''client_credentials'' then
        answered Token_Answer (client_credentials_flow E c
          (case params ''scope'' of None \<Rightarrow> [] | Some s \<Rightarrow> split_whitespace s) jkt)
      else if grant_type = ''refresh_token'' then
        needed params ''refresh_token'' (\<lambda>token.
        answered Token_Answer (refresh_flow E F token (c_id c) jkt))
      else if grant_type = ''urn:ietf:params:oauth:grant-type:device_code'' then
        needed params ''device_code'' (\<lambda>code.
        answered Token_Answer (device_flow E code cid jkt))
      else if grant_type = ciba_grant_type then
        needed params ''auth_req_id'' (\<lambda>i.
        answered Token_Answer (ciba_flow E i cid jkt))
      else if grant_type = ''urn:ietf:params:oauth:grant-type:jwt-bearer'' then
        needed params ''assertion'' (\<lambda>assertion.
        answered Token_Answer (jwt_bearer_flow E H assertion (params ''scope'') cid jkt))
      else if grant_type = ''urn:ietf:params:oauth:grant-type:token-exchange'' then
        needed params ''subject_token'' (\<lambda>token.
        needed params ''subject_token_type'' (\<lambda>ty.
        answered Exchange_Answer (token_exchange_flow E H (exchange_of_params params token ty) cid jkt)))
      else if grant_type = uma_grant_type then
        answered Rpt_Answer (uma_ticket_grant E H listing c params jkt)
      else fail UnsupportedGrantType)"

text \<open>\<open>HeaderValue::to_str\<close>.\<close>

definition header_text :: "string \<Rightarrow> string option" where
  "header_text s = (if \<forall>c \<in> set s. c = CHR 0x09 \<or> (32 \<le> (of_char c :: nat) \<and> (of_char c :: nat) < 127) then Some s else None)"

(*@ oidc-oidc/src/endpoints/token.rs 110-124 DPoP proof of the request *)
definition proof_of_request :: "env \<Rightarrow> string \<Rightarrow> string option \<Rightarrow> string option result option" where
  "proof_of_request E uri header =
     (case header of
        None \<Rightarrow> Some (Inr None)
      | Some h \<Rightarrow>
          (case header_text h of
             None \<Rightarrow> Some (Inl (InvalidDPoPProof ''DPoP header is not valid UTF-8''))
           | Some value \<Rightarrow>
               map_option (\<lambda>r. bindr r (\<lambda>proof. Inr (Some (dpf_jwk_thumbprint proof))))
                 (verify_dpop_proof E value ''POST'' uri None (word_of_int (timestamp (e_clock E 1))))))"

(*@ oidc-oidc/src/endpoints/token.rs 71-108 client and grant of the request *)
definition client_of_token_request ::
  "env \<Rightarrow> string \<Rightarrow> string option \<Rightarrow> params \<Rightarrow> db \<Rightarrow> (client \<times> string \<times> string \<times> params) result" where
  "client_of_token_request E uri authorization params d =
     bindr (presented_method authorization params) (\<lambda>way.
     bindr (or_error (inject_basic E authorization params) InvalidClient) (\<lambda>params.
     bindr (or_error (params ''grant_type'') InvalidRequest) (\<lambda>grant_type.
     bindr (authenticate_client E params way uri (timestamp (e_clock E 0)) d) (\<lambda>(c, cid).
     bindr (ensure (grant_type \<in> set (c_allowed_grant_types c)) UnauthorizedClient) (\<lambda>_.
     Inr (c, cid, grant_type, params))))))"

(*@ oidc-oidc/src/endpoints/token.rs 40-54 token_handler, token_handler_with_endpoint_uri *)
definition token_handler ::
  "env \<Rightarrow> env \<Rightarrow> env \<Rightarrow> hub \<Rightarrow> (string list \<Rightarrow> string list) \<Rightarrow> string option \<Rightarrow> string option \<Rightarrow> params
     \<Rightarrow> db \<Rightarrow> (token_answer result \<times> db) option" where
  "token_handler E F G H listing authorization dpop params d =
     (let uri = token_endpoint_uri H
      in case client_of_token_request E uri authorization params d of
           Inl e \<Rightarrow> Some (Inl e, d)
         | Inr (c, cid, grant_type, params) \<Rightarrow>
             (case proof_of_request E uri dpop of
                None \<Rightarrow> None
              | Some (Inl e) \<Rightarrow> Some (Inl e, d)
              | Some (Inr jkt) \<Rightarrow> Some (run_grant F G H listing grant_type c cid params jkt d)))"

end
