(* ===== verification/Token_Props.thy ===== *)
theory Token_Props
  imports Token_Endpoint Authorize_Props
begin

text \<open>What the token endpoint asks for before it runs a grant, what a token exchange and a JWT bearer grant
  store, and what the exchange does not look at.\<close>

section \<open>Token exchange\<close>




lemma types_differ [simp]:
  "access_type \<noteq> refresh_type" "refresh_type \<noteq> access_type" "access_type \<noteq> id_type" "id_type \<noteq> access_type"
  "refresh_type \<noteq> id_type" "id_type \<noteq> refresh_type"
  by (simp_all add: access_type_def refresh_type_def id_type_def)

lemma exchange_session_fields [simp]:
  "s_offline_session (exchange_session E x t) = False" "s_offline_max_expires_at (exchange_session E x t) = None"
  "s_user_id (exchange_session E x t) = ex_user x" "s_realm_id (exchange_session E x t) = ex_realm x"
  "s_client_id (exchange_session E x t) = c_id (ex_client x)" "s_revoked (exchange_session E x t) = False"
  "s_access_token_hash (exchange_session E x t) = sha2_256_hex E t" "s_acr (exchange_session E x t) = acr_bronze"
  "s_scope (exchange_session E x t) = ex_scopes x" "s_refresh_token_hash (exchange_session E x t) = None"
  "s_expires_at (exchange_session E x t) = e_clock E 5 + minutes 15"
  by (simp_all add: exchange_session_def Let_def)




lemma resolved_within:
  assumes "resolve_names_for_client collate cid requested legacy d = Inr granted" and "x \<in> set granted"
  shows "crate_scope_allowed x (allowed_names collate cid legacy d)"
  using assms unfolding resolve_names_Inr
  by (auto simp: set_append_missing allowed_names_def crate_scope_allowed_def)




section \<open>JWT bearer grant\<close>

lemma read_assertion_ok:
  assumes "read_assertion E H assertion cid = Inr (h, claims, input, sig)"
  shows "jb_iss claims = cid \<and> jb_aud claims = hb_issuer H @ ''/oidc/token'' \<and> timestamp (e_clock E 0) \<le> jb_exp claims
    \<and> (\<forall>iat. jb_iat claims = Some iat \<longrightarrow> iat \<le> timestamp (e_clock E 0) + 300)
    \<and> (\<exists>p0 p1 p2 hb cb. split_on (CHR ''.'') assertion = [p0, p1, p2] \<and> input = p0 @ ''.'' @ p1
         \<and> e_unb64 E p0 = Some hb \<and> e_parse_header E hb = Some h
         \<and> e_unb64 E p1 = Some cb \<and> e_parse_bearer E cb = Some claims \<and> e_unb64 E p2 = Some sig)"
proof -
  obtain ac where "parse_assertion E assertion = Inr (h, ac, input, sig)"
      "Option.bind (e_unb64 E (split_on (CHR ''.'') assertion ! 1)) (e_parse_bearer E) = Some claims"
    using assms unfolding read_assertion_def by (auto simp: bindr_Inr)
  then show ?thesis
    using assms unfolding read_assertion_def parse_assertion_def
    by (auto simp: bindr_Inr bind_eq_Some_conv split: list.splits option.splits)
qed

lemma bearer_subject_ok:
  assumes "bearer_subject E claims c d = Inr (subject, u)"
  shows "case u of
      None \<Rightarrow> jb_sub claims = jb_iss claims \<and> subject = c_client_id c
    | Some u \<Rightarrow> jb_sub claims \<noteq> jb_iss claims \<and> e_parse_uuid E (jb_sub claims) = Some (u_id u)
        \<and> user_by_id (u_id u) d = Some u \<and> u_enabled u \<and> subject = subject_for E c (u_id u)"
proof -
  have "user_by_id i d = Some u \<Longrightarrow> u_id u = i" for i u
    by (auto simp: user_by_id_def find_Some_iff)
  with assms show ?thesis
    unfolding bearer_subject_def by (auto simp: bindr_Inr split: if_split_asm)
qed

lemma bearer_session_fields [simp]:
  "s_offline_session (bearer_session E c u scopes t) = False"
  "s_user_id (bearer_session E c u scopes t) = map_option u_id u" "s_realm_id (bearer_session E c u scopes t) = c_realm_id c"
  "s_client_id (bearer_session E c u scopes t) = c_id c" "s_scope (bearer_session E c u scopes t) = scopes"
  "s_access_token_hash (bearer_session E c u scopes t) = sha2_256_hex E t"
  "s_refresh_token_hash (bearer_session E c u scopes t) = None" "s_revoked (bearer_session E c u scopes t) = False"
  by (simp_all add: bearer_session_def Let_def)

text \<open>C27 The JWT bearer grant issues an access token only on an assertion whose claims, decoded from its second
  segment, are for the token endpoint of this issuer, name the client as their issuer, have not expired and were
  not issued more than 300 seconds ahead, and whose first two segments are signed under a key of that enabled
  client's set.  The subject of the token is the client itself, when the assertion names it, or the enabled user that
  the assertion names: any user, whatever realm the user is of, since neither consent nor realm is asked for.
  The scopes are allowed to the client.  One session without a refresh token is stored.\<close>

theorem jwt_bearer_sound:
  assumes "jwt_bearer_flow E H assertion scope cid jkt d = (Inr r, e)"
  shows "\<exists>c jwks p0 p1 p2 hb cb h claims sig k subject u scopes s.
      client_by_client_id cid d = Some c \<and> c_enabled c \<and> c_jwks c = Some jwks
    \<and> split_on (CHR ''.'') assertion = [p0, p1, p2]
    \<and> e_unb64 E p0 = Some hb \<and> e_parse_header E hb = Some h
    \<and> e_unb64 E p1 = Some cb \<and> e_parse_bearer E cb = Some claims \<and> e_unb64 E p2 = Some sig
    \<and> find_jwk jwks (h_kid h) (h_alg h) = Inr k \<and> verify_signature_with_jwk E (p0 @ ''.'' @ p1) sig k = Inr ()
    \<and> jb_iss claims = cid \<and> jb_aud claims = hb_issuer H @ ''/oidc/token'' \<and> timestamp (e_clock E 0) \<le> jb_exp claims
    \<and> (\<forall>iat. jb_iat claims = Some iat \<longrightarrow> iat \<le> timestamp (e_clock E 0) + 300)
    \<and> (case u of None \<Rightarrow> jb_sub claims = cid \<and> subject = c_client_id c
       | Some u \<Rightarrow> e_parse_uuid E (jb_sub claims) = Some (u_id u) \<and> user_by_id (u_id u) d = Some u \<and> u_enabled u
           \<and> subject = subject_for E c (u_id u))
    \<and> (\<exists>svc extra ac. e_services E (c_realm_id c) = Inr svc
         \<and> issue_access_token E 0 svc (timestamp (e_clock E 1)) subject (c_client_id c) scopes jkt None None extra
             = Inr (ac, tr_access_token r))
    \<and> (\<forall>x \<in> set scopes. crate_scope_allowed x (allowed_names (e_collate E) (c_id c) (c_allowed_scopes c) d))
    \<and> resolve_names_for_client (e_collate E) (c_id c) (bearer_scopes scope claims c) (c_allowed_scopes c) d = Inr scopes
    \<and> scopes \<noteq> []
    \<and> s = (bearer_session E c u scopes (tr_access_token r))\<lparr>s_created_at := e_db_now E, s_last_used_at := None\<rparr>
    \<and> e = d\<lparr>d_sessions := d_sessions d @ [s]\<rparr> \<and> tr_refresh_token r = None \<and> tr_id_token r = None"
proof -
  from assms obtain h claims input sig where read: "read_assertion E H assertion cid = Inr (h, claims, input, sig)"
    and run: "bearer_transaction E h claims input sig scope jkt d = (Inr r, e)"
    unfolding jwt_bearer_flow_def by (auto simp: prog_ok)
  from run obtain c jwks k scopes subject u svc ac where
    c: "client_by_client_id (jb_iss claims) d = Some c" "c_enabled c" "c_jwks c = Some jwks"
      "find_jwk jwks (h_kid h) (h_alg h) = Inr k" "verify_signature_with_jwk E input sig k = Inr ()"
      "resolve_names_for_client (e_collate E) (c_id c) (bearer_scopes scope claims c) (c_allowed_scopes c) d = Inr scopes"
      "scopes \<noteq> []" "bearer_subject E claims c d = Inr (subject, u)"
    and issued: "e_services E (c_realm_id c) = Inr svc"
      "issue_access_token E 0 svc (timestamp (e_clock E 1)) subject (c_client_id c) scopes jkt None None
         (user_access_extra (resolve_mapped_claims E (c_id c) u scopes d)
            (case u of None \<Rightarrow> no_role_claims | Some u \<Rightarrow> resolve_role_claims (e_collate E) (u_id u) d) None scopes)
       = Inr (ac, tr_access_token r)"
    and stored: "e = d\<lparr>d_sessions := d_sessions d @ [(bearer_session E c u scopes (tr_access_token r))
        \<lparr>s_created_at := e_db_now E, s_last_used_at := None\<rparr>]\<rparr>" "tr_refresh_token r = None" "tr_id_token r = None"
    unfolding bearer_transaction_def by (auto simp: prog_ok)
  from read_assertion_ok [OF read] obtain p0 p1 p2 hb cb where
    a: "jb_iss claims = cid" "jb_aud claims = hb_issuer H @ ''/oidc/token''" "timestamp (e_clock E 0) \<le> jb_exp claims"
      "\<forall>iat. jb_iat claims = Some iat \<longrightarrow> iat \<le> timestamp (e_clock E 0) + 300"
    and p: "split_on (CHR ''.'') assertion = [p0, p1, p2]" "input = p0 @ ''.'' @ p1"
      "e_unb64 E p0 = Some hb" "e_parse_header E hb = Some h" "e_unb64 E p1 = Some cb"
      "e_parse_bearer E cb = Some claims" "e_unb64 E p2 = Some sig"
    by blast
  have subject: "case u of None \<Rightarrow> jb_sub claims = cid \<and> subject = c_client_id c
       | Some u \<Rightarrow> e_parse_uuid E (jb_sub claims) = Some (u_id u) \<and> user_by_id (u_id u) d = Some u \<and> u_enabled u
           \<and> subject = subject_for E c (u_id u)"
    using bearer_subject_ok [OF c(8)] a(1) by (cases u) simp_all
  have within: "\<forall>x \<in> set scopes. crate_scope_allowed x (allowed_names (e_collate E) (c_id c) (c_allowed_scopes c) d)"
    using resolved_within [OF c(6)] by blast
  show ?thesis
    by (intro exI conjI, rule c(1) [unfolded a(1)], rule c(2), rule c(3), rule p(1), rule p(3), rule p(4), rule p(5),
        rule p(6), rule p(7), rule c(4), rule c(5) [unfolded p(2)], rule a(1), rule a(2), rule a(3), rule a(4),
        rule subject, rule issued(1), rule issued(2), rule within, rule c(6), rule c(7), rule refl, rule stored(1), rule stored(2),
        rule stored(3))
qed


section \<open>The token endpoint\<close>

lemma client_of_token_request_ok:
  assumes "client_of_token_request E uri authorization params d = Inr (c, cid, grant_type, p)"
  shows "\<exists>way. presented_method authorization params = Inr way \<and> inject_basic E authorization params = Some p
    \<and> authenticate_client E p way uri (timestamp (e_clock E 0)) d = Inr (c, cid)
    \<and> p ''grant_type'' = Some grant_type \<and> grant_type \<in> set (c_allowed_grant_types c)"
  using assms unfolding client_of_token_request_def by (auto simp: bindr_Inr)

text \<open>C28 The token endpoint runs a grant only for a client that has authenticated in the way it is registered for,
  that is allowed the grant, and with the key of a proof for this endpoint when one is presented; every other
  request is refused and has written nothing.\<close>

theorem token_endpoint_sound:
  assumes "token_handler E F G H listing authorization dpop params d = Some (answer, e)"
  shows "(\<exists>err. answer = Inl err \<and> e = d)
    \<or> (\<exists>c cid way p grant_type jkt.
          presented_method authorization params = Inr way \<and> inject_basic E authorization params = Some p
        \<and> client_by_client_id cid d = Some c \<and> c_enabled c
        \<and> identified E p way (token_endpoint_uri H) (timestamp (e_clock E 0)) c
        \<and> p ''grant_type'' = Some grant_type \<and> grant_type \<in> set (c_allowed_grant_types c)
        \<and> (case dpop of
             None \<Rightarrow> jkt = None
           | Some h \<Rightarrow> \<exists>proof. verify_dpop_proof E h ''POST'' (token_endpoint_uri H) None
                 (word_of_int (timestamp (e_clock E 1))) = Some (Inr proof) \<and> jkt = Some (dpf_jwk_thumbprint proof))
        \<and> run_grant F G H listing grant_type c cid p jkt d = (answer, e))"
proof (cases "client_of_token_request E (token_endpoint_uri H) authorization params d")
  case (Inl err)
  with assms show ?thesis
    by (auto simp: token_handler_def)
next
  case (Inr x)
  obtain c cid grant_type p where x: "x = (c, cid, grant_type, p)"
    by (cases x)
  from client_of_token_request_ok [OF Inr [unfolded x]] obtain way where
    way: "presented_method authorization params = Inr way" "inject_basic E authorization params = Some p"
      "authenticate_client E p way (token_endpoint_uri H) (timestamp (e_clock E 0)) d = Inr (c, cid)"
      "p ''grant_type'' = Some grant_type" "grant_type \<in> set (c_allowed_grant_types c)"
    by blast
  have c: "client_by_client_id cid d = Some c" "c_enabled c"
      "identified E p way (token_endpoint_uri H) (timestamp (e_clock E 0)) c"
    using way(3) unfolding authenticate_client_ok by auto
  obtain r where r: "proof_of_request E (token_endpoint_uri H) dpop = Some r"
    using assms Inr x by (cases "proof_of_request E (token_endpoint_uri H) dpop") (simp_all add: token_handler_def)
  show ?thesis
  proof (cases r)
    case (Inl err)
    with assms Inr x r show ?thesis
      by (auto simp: token_handler_def)
  next
    case (Inr jkt)
    with assms \<open>client_of_token_request E (token_endpoint_uri H) authorization params d = Inr x\<close> x r
    have "run_grant F G H listing grant_type c cid p jkt d = (answer, e)"
      by (simp add: token_handler_def)
    moreover have "case dpop of None \<Rightarrow> jkt = None
           | Some h \<Rightarrow> \<exists>proof. verify_dpop_proof E h ''POST'' (token_endpoint_uri H) None
                 (word_of_int (timestamp (e_clock E 1))) = Some (Inr proof) \<and> jkt = Some (dpf_jwk_thumbprint proof)"
      using r Inr by (auto simp: proof_of_request_def header_text_def bindr_Inr split: option.splits if_split_asm)
    ultimately show ?thesis
      using way c by blast
  qed
qed



section \<open>Runs\<close>

text \<open>A confidential client exchanges the refresh token of a session that was rotated long ago.\<close>

definition old_session :: session where
  "old_session = sample_session\<lparr>s_rotated_at := Some 0, s_refresh_expires_at := Some 0, s_client_id := 99\<rparr>"

definition exchange_db :: db where
  "exchange_db = empty_db\<lparr>d_clients := [secret_client], d_users := [sample_user], d_sessions := [old_session]\<rparr>"


lemma exchange_found:
  "session_by_refresh_hash (sha2_256_hex sample_env ''r'') exchange_db = Some old_session"
  "client_by_client_id ''app'' exchange_db = Some secret_client"
  "\<not> s_family_revoked old_session" "s_user_id old_session = Some 7" "s_realm_id old_session = 3"
  "c_id secret_client = 5" "c_client_id secret_client = ''app''" "c_enabled secret_client"
  "c_client_type secret_client = Confidential" "c_allowed_scopes secret_client = [''openid'']" "c_realm_id secret_client = 3"
  "\<forall>s \<in> set (d_sessions exchange_db). s_id s = 1"
  by (simp_all add: session_by_refresh_hash_def sha2_256_hex_def sample_env_def exchange_db_def old_session_def
      sample_session_def client_by_client_id_def secret_client_def sample_client_def)





definition bearer_env :: env where
  "bearer_env = signing_env\<lparr>e_parse_bearer := (\<lambda>_. Some \<lparr>jb_iss = ''app'', jb_sub = ''app'', jb_aud = ''https://op/oidc/token'',
     jb_exp = 300, jb_iat = None, jb_jti = None, jb_scope = None\<rparr>)\<rparr>"

lemma bearer_run:
  "\<exists>r e. jwt_bearer_flow bearer_env sample_hub ''h.c.s'' None ''app'' None signing_db = (Inr r, e)"
proof -
  let ?claims = "\<lparr>jb_iss = ''app'', jb_sub = ''app'', jb_aud = ''https://op/oidc/token'',
     jb_exp = 300, jb_iat = None, jb_jti = None, jb_scope = None\<rparr>"
  let ?h = "\<lparr>h_alg = ''RS256'', h_typ = ''JWT'', h_kid = ''k''\<rparr>"
  let ?c = "sample_client\<lparr>c_jwks := Some signing_keys\<rparr>"
  have parsed: "split_on (CHR ''.'') ''h.c.s'' = [''h'', ''c'', ''s'']"
    by simp
  have read: "read_assertion bearer_env sample_hub ''h.c.s'' ''app'' = Inr (?h, ?claims, ''h.c'', ''s'')"
    unfolding read_assertion_def parse_assertion_def parsed
    by (simp add: bearer_env_def signing_env_def sample_env_def or_error_def ensure_def sample_hub_def timestamp_def)
  obtain k where k: "find_jwk signing_keys ''k'' ''RS256'' = Inr k"
      "\<And>input sig. verify_signature_with_jwk bearer_env input sig k = Inr ()"
    using signing_key [of bearer_env] by (auto simp: bearer_env_def signing_env_def sample_env_def)
  have c: "client_by_client_id ''app'' signing_db = Some ?c" "c_enabled ?c" "c_id ?c = 5" "c_allowed_scopes ?c = [''openid'']"
    by (simp_all add: client_by_client_id_def signing_db_def sample_client_def)
  have names: "resolve_names_for_client (e_collate bearer_env) 5 [''openid''] [''openid''] signing_db = Inr [''openid'']"
    by (simp add: resolve_names_Inr allowed_names_def crate_scope_allowed_def scopes_of_client_def signing_db_def empty_db_def)
  have services: "e_services bearer_env i = Inr sample_service" for i
    by (simp add: bearer_env_def signing_env_def sample_env_def)
  have works: "issuer_works bearer_env sample_service"
    using sample_issuer by (simp add: issuer_works_def bearer_env_def signing_env_def)
  obtain cl t where access: "issue_access_token bearer_env 0 sample_service (timestamp (e_clock bearer_env 1)) (c_client_id ?c)
      (c_client_id ?c) [''openid''] None None None
      (user_access_extra (resolve_mapped_claims bearer_env 5 None [''openid''] signing_db) no_role_claims None [''openid'']) = Inr (cl, t)"
    using issuer_works_tokens(1) [OF works] by blast
  have fresh: "d_sessions signing_db = []" "\<not> s_offline_session (bearer_session bearer_env ?c None [''openid''] t)"
    by (simp_all add: signing_db_def empty_db_def)
  have scopes: "bearer_scopes None ?claims ?c = [''openid'']"
    by (simp add: bearer_scopes_def c(4))
  have subject: "bearer_subject bearer_env ?claims ?c signing_db = Inr (c_client_id ?c, None)"
    by (simp add: bearer_subject_def)
  have "\<exists>r e. bearer_transaction bearer_env ?h ?claims ''h.c'' ''s'' None None signing_db = (Inr r, e)"
    unfolding bearer_transaction_def using c k names services access fresh scopes subject
    by (simp add: prog_ok)
  then show ?thesis
    using read by (simp add: jwt_bearer_flow_def prog_run)
qed

lemma jwt_bearer_sound_witness:
  "\<exists>r e. jwt_bearer_flow bearer_env sample_hub ''h.c.s'' None ''app'' None signing_db = (Inr r, e) \<and> tr_refresh_token r = None"
proof -
  obtain r e where run: "jwt_bearer_flow bearer_env sample_hub ''h.c.s'' None ''app'' None signing_db = (Inr r, e)"
    using bearer_run by blast
  from jwt_bearer_sound [OF run] run show ?thesis
    by blast
qed


text \<open>A client signs in with its secret in the header and asks for a token of its own.\<close>

definition secret_db :: db where
  "secret_db = empty_db\<lparr>d_clients := [secret_client]\<rparr>"

lemma credentials_run:
  "\<exists>r e. client_credentials_flow sample_env secret_client [] None secret_db = (Inr r, e)"
proof -
  have names: "resolve_names_for_client (e_collate sample_env) (c_id secret_client) [''openid'']
      (c_allowed_scopes secret_client) secret_db = Inr [''openid'']"
    by (simp add: resolve_names_Inr allowed_names_def crate_scope_allowed_def scopes_of_client_def
        secret_client_def sample_client_def secret_db_def empty_db_def)
  obtain cl t where access: "issue_access_token sample_env 0 sample_service (timestamp (e_clock sample_env 0))
      (c_client_id secret_client) (c_client_id secret_client) [''openid''] None None None
      (no_access_extra\<lparr>ax_custom_claims := mc_access_token (resolve_mapped_claims sample_env
          (c_id secret_client) None [''openid''] secret_db),
         ax_additional_audiences := mc_access_audiences (resolve_mapped_claims sample_env
          (c_id secret_client) None [''openid''] secret_db)\<rparr>) = Inr (cl, t)"
    using issuer_works_tokens(1) [OF sample_issuer] by blast
  have services: "e_services sample_env i = Inr sample_service" for i
    by (simp add: sample_env_def)
  have "d_sessions secret_db = []" "\<not> s_offline_session (client_session sample_env secret_client [''openid''] t)"
    by (simp_all add: secret_db_def empty_db_def client_session_def Let_def)
  with names access services exchange_found show ?thesis
    unfolding client_credentials_flow_def by (simp add: prog_ok)
qed

lemma token_endpoint_sound_witness:
  "\<exists>answer e. token_handler sample_env sample_env sample_env sample_hub (\<lambda>xs. xs) (Some ''Basic app:s3'') None
      [''grant_type'' \<mapsto> ''client_credentials''] secret_db = Some (Inr answer, e)
    \<and> (\<exists>c. client_by_client_id ''app'' secret_db = Some c \<and> ''client_credentials'' \<in> set (c_allowed_grant_types c))"
proof -
  let ?params = "[''grant_type'' \<mapsto> ''client_credentials'']"
  have basic: "basic_credentials (Some ''Basic app:s3'') = Some ''app:s3''"
    by (simp add: basic_credentials_def strip_prefix_Some)
  have way: "presented_method (Some ''Basic app:s3'') ?params = Inr PresentedBasic"
    by (simp add: presented_method_def basic)
  have inject: "inject_basic sample_env (Some ''Basic app:s3'') ?params
      = Some (?params(''client_id'' \<mapsto> ''app'', ''client_secret'' \<mapsto> ''s3''))"
  proof -
    have "split_once (CHR '':'') ''app:s3'' = Some (''app'', ''s3'')"
      by code_simp
    then show ?thesis
      by (simp add: inject_basic_def basic sample_env_def or_insert_def)
  qed
  have "authenticate_client sample_env (?params(''client_id'' \<mapsto> ''app'', ''client_secret'' \<mapsto> ''s3'')) PresentedBasic uri now secret_db
      = Inr (secret_client, ''app'')" for uri now
    by (simp add: authenticate_client_ok identified_def by_secret_def secret_client_def
      sample_client_def client_by_client_id_def secret_db_def) (simp add: sample_env_def)
  then have client: "client_of_token_request sample_env uri (Some ''Basic app:s3'') ?params secret_db
      = Inr (secret_client, ''app'', ''client_credentials'', ?params(''client_id'' \<mapsto> ''app'', ''client_secret'' \<mapsto> ''s3''))" for uri
    by (simp add: client_of_token_request_def way inject or_error_def ensure_def secret_client_def)
  obtain r e where run: "client_credentials_flow sample_env secret_client [] None secret_db = (Inr r, e)"
    using credentials_run by blast
  have handled: "token_handler sample_env sample_env sample_env sample_hub (\<lambda>xs. xs) (Some ''Basic app:s3'') None ?params secret_db
      = Some (Inr (Token_Answer r), e)"
    using run by (simp add: token_handler_def client proof_of_request_def run_grant_def answered_def prog_run bindp_def)
  from token_endpoint_sound [OF handled] have "\<exists>c cid grant_type. client_by_client_id cid secret_db = Some c
      \<and> grant_type \<in> set (c_allowed_grant_types c)"
    by blast
  moreover have "client_by_client_id ''app'' secret_db = Some secret_client"
      "''client_credentials'' \<in> set (c_allowed_grant_types secret_client)"
    by (simp_all add: client_by_client_id_def secret_db_def secret_client_def sample_client_def)
  ultimately show ?thesis
    using handled by blast
qed

end
