(* ===== verification/Presentation.thy ===== *)
theory Presentation
  imports Issue
begin

text \<open>The presentation of a realm (\<open>oidc-core/src/models/realm_presentation.rs\<close>): its theme, its translations
  and its mail templates, read from the configuration of the realm with serde's rules for structs with
  defaults (an object, or an array in the order of the fields), checked, and used to render mails.\<close>

section \<open>Texts\<close>

(*@ oidc-core/src/models/realm_presentation.rs 320-320 str::find *)
fun find_sub :: "string \<Rightarrow> string \<Rightarrow> nat option" where
  "find_sub pat [] = (if pat = [] then Some 0 else None)"
| "find_sub pat (c # s) = (if starts_with (c # s) pat then Some 0 else map_option Suc (find_sub pat s))"

text \<open>\<open>str::replace\<close>, for the patterns of the code, which are not empty.\<close>

function replace_all :: "string \<Rightarrow> string \<Rightarrow> string \<Rightarrow> string" where
  "replace_all pat new s =
     (case s of
        [] \<Rightarrow> []
      | c # t \<Rightarrow> if pat \<noteq> [] \<and> starts_with s pat then new @ replace_all pat new (drop (length pat) s)
                else c # replace_all pat new t)"
  by pat_completeness auto
termination
  by (relation "measure (\<lambda>(_, _, s). length s)") auto

declare replace_all.simps [simp del]

definition replace_char :: "char \<Rightarrow> string \<Rightarrow> string \<Rightarrow> string" where
  "replace_char c new s = concat (map (\<lambda>x. if x = c then new else [x]) s)"

(*@ oidc-core/src/models/realm_presentation.rs 378-385 escape_html *)
definition escape_html :: "string \<Rightarrow> string" where
  "escape_html s =
     replace_char (CHR 0x27) ''&#39;'' (replace_char (CHR 0x22) ''&quot;'' (replace_char (CHR ''>'') ''&gt;''
       (replace_char (CHR ''<'') ''&lt;'' (replace_char (CHR ''&'') ''&amp;'' s))))"


section \<open>Data\<close>

(*@ oidc-core/src/models/realm_presentation.rs 9-19 RealmTheme *)
record realm_theme =
  th_login_title :: string
  th_logo_url :: string
  th_favicon_url :: string
  th_primary_color :: string
  th_background_color :: string
  th_card_color :: string
  th_text_color :: string
  th_font_family :: string
  th_footer_text :: string

(*@ oidc-core/src/models/realm_presentation.rs 21-35 RealmTheme::default *)
definition default_theme :: realm_theme where
  "default_theme = \<lparr>th_login_title = [], th_logo_url = [], th_favicon_url = [], th_primary_color = ''#2563eb'',
     th_background_color = ''#f8fafc'', th_card_color = ''#ffffff'', th_text_color = ''#111827'',
     th_font_family = ''system-ui, sans-serif'', th_footer_text = ''Powered by OpenID Connect Hub''\<rparr>"

(*@ oidc-core/src/models/realm_presentation.rs 39-43 RealmLocalization *)
record realm_localization =
  lz_default_locale :: string
  lz_supported_locales :: "string list"
  lz_messages :: "(string \<times> (string \<times> string) list) list"

(*@ oidc-core/src/models/realm_presentation.rs 45-53 RealmLocalization::default *)
definition default_localization :: realm_localization where
  "default_localization = \<lparr>lz_default_locale = ''en'', lz_supported_locales = [''en''], lz_messages = []\<rparr>"

(*@ oidc-core/src/models/realm_presentation.rs 57-71 EmailTemplate *)
record email_template =
  et_subject :: string
  et_text :: string
  et_html :: string

(*@ oidc-core/src/models/realm_presentation.rs 75-86 RealmEmailTemplates, RealmPresentation *)
record realm_presentation =
  rp_theme :: realm_theme
  rp_localization :: realm_localization
  rp_templates :: "(string \<times> (string \<times> email_template) list) list"

definition default_presentation :: realm_presentation where
  "default_presentation = \<lparr>rp_theme = default_theme, rp_localization = default_localization, rp_templates = []\<rparr>"


section \<open>Reading the configuration\<close>

text \<open>The members of a struct that is given as an object or as an array.\<close>

definition struct_members :: "string list \<Rightarrow> json \<Rightarrow> members option" where
  "struct_members names v =
     (case v of
        JObj m \<Rightarrow> Some m
      | JArr vs \<Rightarrow> if length vs \<le> length names then Some (zip names vs) else None
      | _ \<Rightarrow> None)"

definition field_or :: "(json \<Rightarrow> 'a option) \<Rightarrow> 'a \<Rightarrow> string \<Rightarrow> members \<Rightarrow> 'a option" where
  "field_or f def k m = (case obj_get m k of None \<Rightarrow> Some def | Some v \<Rightarrow> f v)"

fun map_of_json :: "(json \<Rightarrow> 'a option) \<Rightarrow> json \<Rightarrow> (string \<times> 'a) list option" where
  "map_of_json f (JObj m) = those (map (\<lambda>(k, v). map_option (\<lambda>a. (k, a)) (f v)) m)"
| "map_of_json f _ = None"

fun strings_of_json :: "json \<Rightarrow> string list option" where
  "strings_of_json (JArr vs) = those (map as_str_json vs)"
| "strings_of_json _ = None"

definition theme_names :: "string list" where
  "theme_names = [''login_title'', ''logo_url'', ''favicon_url'', ''primary_color'', ''background_color'', ''card_color'',
     ''text_color'', ''font_family'', ''footer_text'']"

definition theme_of_json :: "json \<Rightarrow> realm_theme option" where
  "theme_of_json v =
     Option.bind (struct_members theme_names v) (\<lambda>m. let text = (\<lambda>k d. field_or as_str_json d k m) in
     Option.bind (text ''login_title'' (th_login_title default_theme)) (\<lambda>login_title.
     Option.bind (text ''logo_url'' (th_logo_url default_theme)) (\<lambda>logo_url.
     Option.bind (text ''favicon_url'' (th_favicon_url default_theme)) (\<lambda>favicon_url.
     Option.bind (text ''primary_color'' (th_primary_color default_theme)) (\<lambda>primary_color.
     Option.bind (text ''background_color'' (th_background_color default_theme)) (\<lambda>background_color.
     Option.bind (text ''card_color'' (th_card_color default_theme)) (\<lambda>card_color.
     Option.bind (text ''text_color'' (th_text_color default_theme)) (\<lambda>text_color.
     Option.bind (text ''font_family'' (th_font_family default_theme)) (\<lambda>font_family.
     Option.bind (text ''footer_text'' (th_footer_text default_theme)) (\<lambda>footer_text.
     Some \<lparr>th_login_title = login_title, th_logo_url = logo_url, th_favicon_url = favicon_url,
           th_primary_color = primary_color, th_background_color = background_color, th_card_color = card_color,
           th_text_color = text_color, th_font_family = font_family, th_footer_text = footer_text\<rparr>))))))))))"

definition localization_of_json :: "json \<Rightarrow> realm_localization option" where
  "localization_of_json v =
     Option.bind (struct_members [''default_locale'', ''supported_locales'', ''messages''] v) (\<lambda>m.
     Option.bind (field_or as_str_json (lz_default_locale default_localization) ''default_locale'' m) (\<lambda>l.
     Option.bind (field_or strings_of_json (lz_supported_locales default_localization) ''supported_locales'' m) (\<lambda>ls.
     Option.bind (field_or (map_of_json (map_of_json as_str_json)) (lz_messages default_localization) ''messages'' m) (\<lambda>ms.
     Some \<lparr>lz_default_locale = l, lz_supported_locales = ls, lz_messages = ms\<rparr>))))"

definition template_of_json :: "json \<Rightarrow> email_template option" where
  "template_of_json v =
     Option.bind (struct_members [''subject'', ''text'', ''html''] v) (\<lambda>m.
     Option.bind (field_or as_str_json [] ''subject'' m) (\<lambda>subject.
     Option.bind (field_or as_str_json [] ''text'' m) (\<lambda>plain.
     Option.bind (field_or as_str_json [] ''html'' m) (\<lambda>html.
     Some \<lparr>et_subject = subject, et_text = plain, et_html = html\<rparr>))))"

definition templates_of_json :: "json \<Rightarrow> (string \<times> (string \<times> email_template) list) list option" where
  "templates_of_json v =
     Option.bind (struct_members [''locales''] v) (field_or (map_of_json (map_of_json template_of_json)) [] ''locales'')"

(*@ oidc-core/src/models/realm_presentation.rs 89-97 config_value *)
definition presentation_of_config :: "json \<Rightarrow> realm_presentation option" where
  "presentation_of_config config =
     Option.bind (case jget config ''theme'' of None \<Rightarrow> Some default_theme | Some v \<Rightarrow> theme_of_json v) (\<lambda>th.
     Option.bind (case jget config ''localization'' of None \<Rightarrow> Some default_localization | Some v \<Rightarrow> localization_of_json v) (\<lambda>lz.
     Option.bind (case jget config ''email_templates'' of None \<Rightarrow> Some [] | Some v \<Rightarrow> templates_of_json v) (\<lambda>ts.
     Some \<lparr>rp_theme = th, rp_localization = lz, rp_templates = ts\<rparr>)))"

(*@ oidc-core/src/models/realm_presentation.rs 99-109 RealmPresentation::from_realm_config *)
definition presentation_from_config :: "json \<Rightarrow> realm_presentation" where
  "presentation_from_config config =
     (let p = (case presentation_of_config config of None \<Rightarrow> default_presentation | Some p \<Rightarrow> p)
      in if th_background_color (rp_theme p) = th_background_color default_theme
         then (case Option.bind (Option.bind (jget config ''theme'') (\<lambda>t. jget t ''bg_color'')) as_str_json of
                 Some v \<Rightarrow> p\<lparr>rp_theme := (rp_theme p)\<lparr>th_background_color := v\<rparr>\<rparr>
               | None \<Rightarrow> p)
         else p)"



section \<open>Checks\<close>

(*@ oidc-core/src/models/realm_presentation.rs 303-316 template_variables *)
definition template_variables :: "string \<Rightarrow> string list option" where
  "template_variables name =
     (if name = ''password_reset'' \<or> name = ''email_verification''
      then Some [''realm_name'', ''user_name'', ''action_url'', ''expires_in'']
      else if name = ''organization_invitation''
      then Some [''realm_name'', ''organization_name'', ''action_url'', ''expires_in'']
      else None)"

text \<open>The loop runs until no opening braces are left; that it ends is a property.\<close>

(*@ oidc-core/src/models/realm_presentation.rs 318-334 validate_placeholders *)
partial_function (option) validate_placeholders :: "string list \<Rightarrow> string \<Rightarrow> (string + unit) option" where
  "validate_placeholders allowed rest_text =
     (case find_sub ''{{'' rest_text of
        None \<Rightarrow> Some (Inr ())
      | Some start \<Rightarrow>
          (case find_sub ''}}'' (drop (start + 2) rest_text) of
             None \<Rightarrow> Some (Inl ''email template has an unclosed placeholder'')
           | Some end' \<Rightarrow>
               if trim (take end' (drop (start + 2) rest_text)) \<notin> set allowed
               then Some (Inl (''email template uses unknown placeholder '' @ [CHR 0x27] @ ''{{''
                      @ trim (take end' (drop (start + 2) rest_text)) @ ''}}'' @ [CHR 0x27]))
               else validate_placeholders allowed (drop (end' + 2) (drop (start + 2) rest_text))))"

definition ascii_hexdigit :: "char \<Rightarrow> bool" where
  "ascii_hexdigit c \<longleftrightarrow> ascii_digit c \<or> 65 \<le> byte c \<and> byte c \<le> 70 \<or> 97 \<le> byte c \<and> byte c \<le> 102"

(*@ oidc-core/src/models/realm_presentation.rs 336-338 valid_hex_color *)
definition valid_hex_color :: "string \<Rightarrow> bool" where
  "valid_hex_color s \<longleftrightarrow> length s = 7 \<and> starts_with s ''#'' \<and> (\<forall>c \<in> set (tl s). ascii_hexdigit c)"

(*@ oidc-core/src/models/realm_presentation.rs 339-343 valid_locale *)
definition valid_locale :: "string \<Rightarrow> bool" where
  "valid_locale s \<longleftrightarrow> s \<noteq> [] \<and> length s \<le> 35 \<and> (\<forall>c \<in> set s. ascii_alnum c \<or> c = CHR ''-'')"

(*@ oidc-core/src/models/realm_presentation.rs 344-346 valid_asset_url *)
definition valid_asset_url :: "env \<Rightarrow> string \<Rightarrow> bool" where
  "valid_asset_url E s \<longleftrightarrow> starts_with s ''/'' \<or> e_url_scheme E s = Some ''https''"

(*@ oidc-core/src/models/realm_presentation.rs 118-145 theme checks *)
definition validate_theme :: "env \<Rightarrow> realm_theme \<Rightarrow> string + unit" where
  "validate_theme E th =
     bindr (check_all (\<lambda>(name, v). ensure (valid_hex_color v) (''theme '' @ name @ '' must be a six-digit hex color''))
       [(''primary_color'', th_primary_color th), (''background_color'', th_background_color th),
        (''card_color'', th_card_color th), (''text_color'', th_text_color th)]) (\<lambda>_.
     bindr (ensure (length (th_font_family th) \<le> 200
              \<and> (\<forall>c \<in> set (th_font_family th). ascii_alnum c \<or> c \<in> set ('' ,_-'' @ [CHR 0x27, CHR 0x22]))
              \<and> length (th_footer_text th) \<le> 500)
              ''theme font family or footer text is too long'') (\<lambda>_.
     check_all (\<lambda>(name, url). ensure (url = [] \<or> valid_asset_url E url) (name @ '' must use HTTPS or a root-relative path''))
       [(''logo URL'', th_logo_url th), (''favicon URL'', th_favicon_url th)]))"

definition in_quotes :: "string \<Rightarrow> string" where
  "in_quotes s = [CHR 0x27] @ s @ [CHR 0x27]"

(*@ oidc-core/src/models/realm_presentation.rs 146-176 localization checks *)
definition validate_localization :: "realm_localization \<Rightarrow> string + unit" where
  "validate_localization lz =
     bindr (ensure (lz_supported_locales lz \<noteq> [] \<and> length (lz_supported_locales lz) \<le> 50)
              ''localization needs between 1 and 50 supported locales'') (\<lambda>_.
     bindr (ensure (lz_default_locale lz \<in> set (lz_supported_locales lz))
              ''default locale must be included in supported locales'') (\<lambda>_.
     bindr (check_all (\<lambda>l. ensure (valid_locale l) (''invalid locale '' @ in_quotes l)) (lz_supported_locales lz)) (\<lambda>_.
     check_all (\<lambda>(l, ms).
       bindr (ensure (l \<in> set (lz_supported_locales lz)) (''translations use unsupported locale '' @ in_quotes l)) (\<lambda>_.
       bindr (ensure (length ms \<le> 200) (''locale '' @ in_quotes l @ '' has too many messages'')) (\<lambda>_.
       ensure (\<forall>(k, v) \<in> set ms. length k \<le> 100 \<and> length v \<le> 2000)
         (''locale '' @ in_quotes l @ '' contains an oversized message''))))
       (lz_messages lz))))"

fun checked_placeholders :: "string list \<Rightarrow> string list \<Rightarrow> (string + unit) option" where
  "checked_placeholders allowed [] = Some (Inr ())"
| "checked_placeholders allowed (v # vs) =
     Option.bind (validate_placeholders allowed v) (\<lambda>r.
     case r of Inl e \<Rightarrow> Some (Inl e) | Inr _ \<Rightarrow> checked_placeholders allowed vs)"

(*@ oidc-core/src/models/realm_presentation.rs 181-193 template checks *)
definition validate_template :: "string \<times> email_template \<Rightarrow> (string + unit) option" where
  "validate_template nt =
     (case template_variables (fst nt) of
        None \<Rightarrow> Some (Inl (''unknown email template '' @ in_quotes (fst nt)))
      | Some allowed \<Rightarrow>
          map_option (\<lambda>r. bindr r (\<lambda>_.
              ensure (length (et_subject (snd nt)) \<le> 300 \<and> length (et_text (snd nt)) \<le> 50000 \<and> length (et_html (snd nt)) \<le> 100000)
                (''email template '' @ in_quotes (fst nt) @ '' is too large'')))
            (checked_placeholders allowed [et_subject (snd nt), et_text (snd nt), et_html (snd nt)]))"

fun validate_templates :: "(string \<times> email_template) list \<Rightarrow> (string + unit) option" where
  "validate_templates [] = Some (Inr ())"
| "validate_templates (t # ts) =
     Option.bind (validate_template t) (\<lambda>r. case r of Inl e \<Rightarrow> Some (Inl e) | Inr _ \<Rightarrow> validate_templates ts)"

(*@ oidc-core/src/models/realm_presentation.rs 177-194 validate: email templates *)
fun validate_locales :: "string list \<Rightarrow> (string \<times> (string \<times> email_template) list) list \<Rightarrow> (string + unit) option" where
  "validate_locales supported [] = Some (Inr ())"
| "validate_locales supported ((l, ts) # rest) =
     (if l \<notin> set supported then Some (Inl (''email templates use unsupported locale '' @ in_quotes l))
      else Option.bind (validate_templates ts) (\<lambda>r.
           case r of Inl e \<Rightarrow> Some (Inl e) | Inr _ \<Rightarrow> validate_locales supported rest))"

(*@ oidc-core/src/models/realm_presentation.rs 117-196 RealmPresentation::validate *)
definition validate_presentation :: "env \<Rightarrow> realm_presentation \<Rightarrow> (string + unit) option" where
  "validate_presentation E p =
     (case bindr (validate_theme E (rp_theme p)) (\<lambda>_. validate_localization (rp_localization p)) of
        Inl e \<Rightarrow> Some (Inl e)
      | Inr _ \<Rightarrow> validate_locales (lz_supported_locales (rp_localization p)) (rp_templates p))"

text \<open>The message of serde is not modelled.\<close>

(*@ oidc-core/src/models/realm_presentation.rs 111-115 validate_realm_config *)
definition validate_realm_config :: "env \<Rightarrow> json \<Rightarrow> (string + unit) option" where
  "validate_realm_config E config =
     (case presentation_of_config config of
        None \<Rightarrow> Some (Inl ''invalid presentation configuration'')
      | Some p \<Rightarrow> validate_presentation E p)"


section \<open>Locales, messages and mails\<close>

definition first_part :: "char \<Rightarrow> string \<Rightarrow> string" where
  "first_part c s = hd (split_on c s)"

(*@ oidc-core/src/models/realm_presentation.rs 347-363 match_locale *)
definition match_locale :: "string \<Rightarrow> string list \<Rightarrow> string option" where
  "match_locale candidate supported =
     (case List.find (\<lambda>v. eq_ignore_ascii_case v candidate) supported of
        Some v \<Rightarrow> Some v
      | None \<Rightarrow> List.find (\<lambda>v. eq_ignore_ascii_case (first_part (CHR ''-'') v) (first_part (CHR ''-'') candidate)) supported)"

(*@ oidc-core/src/models/realm_presentation.rs 198-211 RealmPresentation::resolve_locale *)
definition presentation_locale :: "realm_presentation \<Rightarrow> string option \<Rightarrow> string option \<Rightarrow> string" where
  "presentation_locale p requested accept_language =
     (let candidates = (case requested of None \<Rightarrow> [] | Some v \<Rightarrow> split_whitespace v)
            @ (case accept_language of None \<Rightarrow> []
               | Some v \<Rightarrow> map (first_part (CHR '';'')) (split_on (CHR '','') v))
      in case List.map_filter (\<lambda>c. match_locale (trim c) (lz_supported_locales (rp_localization p))) candidates of
           [] \<Rightarrow> lz_default_locale (rp_localization p)
         | l # _ \<Rightarrow> l)"

(*@ oidc-core/src/models/realm_presentation.rs 364-377 default_message *)
definition default_message :: "string \<Rightarrow> string option" where
  "default_message = map_of
     [(''page_title'', ''Sign in''), (''subtitle'', ''Sign in to continue''), (''email'', ''Email''),
      (''email_placeholder'', ''you@example.com''), (''password'', ''Password''), (''sign_in'', ''Sign in''),
      (''signing_in'', ''Signing in'' @ [CHR 0xE2, CHR 0x80, CHR 0xA6]), (''login_failed'', ''Sign-in failed''),
      (''toggle_password'', ''Show or hide password'')]"

definition in_locale :: "(string \<times> (string \<times> 'a) list) list \<Rightarrow> string \<Rightarrow> string \<Rightarrow> string \<Rightarrow> 'a option" where
  "in_locale maps locale_name default_name key =
     (let look = (\<lambda>l. Option.bind (map_of maps l) (\<lambda>m. map_of m key))
      in case look locale_name of Some v \<Rightarrow> Some v | None \<Rightarrow> look default_name)"

(*@ oidc-core/src/models/realm_presentation.rs 213-226 RealmPresentation::message *)
definition presentation_message :: "realm_presentation \<Rightarrow> string \<Rightarrow> string \<Rightarrow> string" where
  "presentation_message p l key =
     (case in_locale (lz_messages (rp_localization p)) l (lz_default_locale (rp_localization p)) key of
        Some v \<Rightarrow> v
      | None \<Rightarrow> (case default_message key of Some v \<Rightarrow> v | None \<Rightarrow> key))"

(*@ oidc-core/src/models/realm_presentation.rs 282-301 default_email_template *)
definition default_email_template :: "string \<Rightarrow> email_template option" where
  "default_email_template name =
     (let nl = [CHR 0x0A]; q = [CHR 0x22] in
      if name = ''password_reset'' then Some
        \<lparr>et_subject = ''Reset your password'',
         et_text = ''Hello {{user_name}},'' @ nl @ nl @ ''Use this link to reset your password:'' @ nl @ ''{{action_url}}''
           @ nl @ nl @ ''This link expires in {{expires_in}}.'',
         et_html = ''<p>Hello {{user_name}},</p><p><a href='' @ q @ ''{{action_url}}'' @ q
           @ ''>Reset your password</a></p><p>This link expires in {{expires_in}}.</p>''\<rparr>
      else if name = ''email_verification'' then Some
        \<lparr>et_subject = ''Verify your email address'',
         et_text = ''Hello {{user_name}},'' @ nl @ nl @ ''Verify your email address:'' @ nl @ ''{{action_url}}''
           @ nl @ nl @ ''This link expires in {{expires_in}}.'',
         et_html = ''<p>Hello {{user_name}},</p><p><a href='' @ q @ ''{{action_url}}'' @ q
           @ ''>Verify your email address</a></p><p>This link expires in {{expires_in}}.</p>''\<rparr>
      else if name = ''organization_invitation'' then Some
        \<lparr>et_subject = ''Invitation to join {{organization_name}}'',
         et_text = ''You have been invited to join {{organization_name}}.'' @ nl @ nl @ ''Accept the invitation:'' @ nl
           @ ''{{action_url}}'' @ nl @ nl @ ''This link expires in {{expires_in}}.'',
         et_html = ''<p>You have been invited to join <strong>{{organization_name}}</strong>.</p><p><a href='' @ q
           @ ''{{action_url}}'' @ q @ ''>Accept invitation</a></p><p>This link expires in {{expires_in}}.</p>''\<rparr>
      else None)"

record mail =
  ml_subject :: string
  ml_text :: string
  ml_html :: "string option"

definition placeholder :: "string \<Rightarrow> string" where
  "placeholder key = ''{{'' @ key @ ''}}''"

definition fill :: "bool \<Rightarrow> (string \<times> string) list \<Rightarrow> string \<Rightarrow> string" where
  "fill html variables s =
     fold (\<lambda>(key, raw) v. replace_all (placeholder key) (if html then escape_html raw else raw) v) variables s"

definition choose_text :: "(email_template \<Rightarrow> string) \<Rightarrow> email_template option \<Rightarrow> email_template \<Rightarrow> string" where
  "choose_text f custom def =
     (case custom of None \<Rightarrow> f def | Some t \<Rightarrow> if f t = [] then f def else f t)"

(*@ oidc-core/src/models/realm_presentation.rs 228-274 RealmPresentation::render_email *)
definition render_email :: "realm_presentation \<Rightarrow> string \<Rightarrow> string \<Rightarrow> (string \<times> string) list \<Rightarrow> mail result" where
  "render_email p name l variables =
     (case default_email_template name of
        None \<Rightarrow> Inl (InvalidInput (''unknown email template '' @ in_quotes name))
      | Some def \<Rightarrow>
          let custom = in_locale (rp_templates p) l (lz_default_locale (rp_localization p)) name
          in Inr \<lparr>ml_subject = fill False variables (choose_text et_subject custom def),
                 ml_text = fill False variables (choose_text et_text custom def),
                 ml_html = Some (fill True variables (choose_text et_html custom def))\<rparr>)"



section \<open>Facts\<close>

lemma find_sub_bound: "find_sub pat s = Some i \<Longrightarrow> i + length pat \<le> length s"
proof (induction s arbitrary: i)
  case (Cons c s)
  show ?case
  proof (cases "starts_with (c # s) pat")
    case True
    then obtain r where r: "c # s = pat @ r"
      by (auto simp: starts_with_iff)
    have "length pat \<le> length (c # s)"
      unfolding r by simp
    with True Cons.prems show ?thesis
      by simp
  next
    case False
    with Cons show ?thesis
      by auto
  qed
qed (auto split: if_split_asm)

lemma validate_placeholders_returns: "\<exists>r. validate_placeholders allowed s = Some r"
proof (induction "length s" arbitrary: s rule: less_induct)
  case less
  show ?case
  proof (cases "find_sub ''{{'' s")
    case None
    then show ?thesis
      by (subst validate_placeholders.simps) simp
  next
    case (Some start)
    let ?after = "drop (start + 2) s"
    show ?thesis
    proof (cases "find_sub ''}}'' ?after")
      case None
      with Some show ?thesis
        by (subst validate_placeholders.simps) simp
    next
      case (Some end')
      have "length (drop (end' + 2) ?after) < length s"
        using find_sub_bound [OF \<open>find_sub ''{{'' s = Some start\<close>] by auto
      from less [OF this] show ?thesis
        using \<open>find_sub ''{{'' s = Some start\<close> Some by (subst validate_placeholders.simps) auto
    qed
  qed
qed

lemma checked_placeholders_returns: "\<exists>r. checked_placeholders allowed vs = Some r"
proof (induction vs)
  case (Cons v vs)
  obtain r where "validate_placeholders allowed v = Some r"
    using validate_placeholders_returns by blast
  with Cons show ?case
    by (cases r) auto
qed simp

lemma validate_templates_returns: "\<exists>r. validate_templates ts = Some r"
proof (induction ts)
  case (Cons t ts)
  have "\<exists>r. validate_template t = Some r"
    using checked_placeholders_returns unfolding validate_template_def
    by (cases "template_variables (fst t)") (simp_all del: checked_placeholders.simps)
  then obtain r where "validate_template t = Some r"
    by blast
  with Cons show ?case
    by (cases r) auto
qed simp

text \<open>C29 The check of a realm's presentation returns for every configuration: each turn of the search for
  placeholders leaves a shorter text, and the other loops are over lists.\<close>

theorem validate_realm_config_terminates: "\<exists>r. validate_realm_config E config = Some r"
proof -
  have "\<exists>r. validate_locales supported ls = Some r" for supported ls
  proof (induction supported ls rule: validate_locales.induct)
    case (2 supported l ts rest)
    obtain r where "validate_templates ts = Some r"
      using validate_templates_returns by blast
    with 2 show ?case
      by (cases r) auto
  qed simp
  then show ?thesis
    unfolding validate_realm_config_def validate_presentation_def by (auto split: option.split sum.split)
qed

definition markup :: "char \<Rightarrow> bool" where
  "markup c \<longleftrightarrow> c \<in> {CHR ''<'', CHR ''>'', CHR 0x22, CHR 0x27}"

text \<open>The five replacements one after the other are one replacement of every character.\<close>

definition html_of_char :: "char \<Rightarrow> string" where
  "html_of_char c = (if c = CHR ''&'' then ''&amp;'' else if c = CHR ''<'' then ''&lt;'' else if c = CHR ''>'' then ''&gt;''
     else if c = CHR 0x22 then ''&quot;'' else if c = CHR 0x27 then ''&#39;'' else [c])"

lemma replace_char_simps:
  "replace_char c new [] = []"
  "replace_char c new (x # s) = (if x = c then new else [x]) @ replace_char c new s"
  "replace_char c new (s @ t) = replace_char c new s @ replace_char c new t"
  by (simp_all add: replace_char_def)

lemma escape_html_by_char: "escape_html s = concat (map html_of_char s)"
proof (induction s)
  case (Cons c s)
  have "escape_html (c # s) = html_of_char c @ escape_html s"
    unfolding escape_html_def html_of_char_def by (simp add: replace_char_simps)
  with Cons show ?case
    by simp
qed (simp add: escape_html_def replace_char_simps)

lemma escape_html_no_markup: "filter markup (escape_html s) = []"
proof -
  have "filter markup (html_of_char c) = []" for c
    by (auto simp: html_of_char_def markup_def)
  then show ?thesis
    unfolding escape_html_by_char by (induction s) simp_all
qed

lemma replace_all_match:
  "starts_with s pat \<Longrightarrow> pat \<noteq> [] \<Longrightarrow> replace_all pat new s = new @ replace_all pat new (drop (length pat) s)"
  by (subst replace_all.simps) (auto simp: starts_with_def split: list.split)

lemma filter_replace_all:
  assumes "filter P pat = []" and "filter P new = []"
  shows "filter P (replace_all pat new s) = filter P s"
  using assms
proof (induction pat new s rule: replace_all.induct)
  case (1 pat new s)
  show ?case
  proof (cases s)
    case Nil
    then show ?thesis
      by (simp add: replace_all.simps)
  next
    case (Cons c t)
    show ?thesis
    proof (cases "pat \<noteq> [] \<and> starts_with s pat")
      case True
      then obtain r where r: "s = pat @ r"
        by (auto simp: starts_with_iff)
      then have "replace_all pat new s = new @ replace_all pat new r"
        using replace_all_match [of s pat new] True by simp
      moreover have "filter P (replace_all pat new r) = filter P r"
        using 1(1) [OF Cons True 1(3,4)] r by simp
      ultimately show ?thesis
        using r 1(3,4) by simp
    next
      case False
      then have "replace_all pat new s = c # replace_all pat new t"
        using Cons by (subst replace_all.simps) auto
      with 1(2) [OF Cons False 1(3,4)] Cons show ?thesis
        by simp
    qed
  qed
qed


lemma fill_markup:
  assumes "\<forall>(key, raw) \<in> set variables. filter markup key = []"
  shows "filter markup (fill True variables s) = filter markup s"
  using assms
proof (induction variables arbitrary: s)
  case (Cons kv variables)
  obtain key raw where kv: "kv = (key, raw)"
    by (cases kv)
  have "\<not> markup (CHR ''{'')" "\<not> markup (CHR ''}'')"
    by (simp_all add: markup_def)
  then have "filter markup (placeholder key) = []"
    using Cons.prems kv by (simp add: placeholder_def)
  then have "filter markup (replace_all (placeholder key) (escape_html raw) s) = filter markup s"
    by (rule filter_replace_all [OF _ escape_html_no_markup])
  with Cons kv show ?case
    by (simp add: fill_def)
qed (simp add: fill_def)

text \<open>A mail cannot be given markup by the values that are filled in: for variables whose names have none,
  the angle brackets and quotes of the HTML part are exactly those of the template, in their order, whatever a
  user has chosen as a name.  The template is the realm's own one where it is not empty, in the locale or else
  in the default locale, and otherwise the built-in one.\<close>

theorem mail_markup_from_template:
  assumes "render_email p name l variables = Inr m" and "\<forall>(key, raw) \<in> set variables. filter markup key = []"
  shows "\<exists>def html body. default_email_template name = Some def \<and> ml_html m = Some html
    \<and> filter markup html = filter markup body
    \<and> (body = et_html def \<or> (\<exists>t lc. lc \<in> {l, lz_default_locale (rp_localization p)} \<and> body = et_html t \<and> body \<noteq> []
         \<and> Option.bind (map_of (rp_templates p) lc) (\<lambda>ts. map_of ts name) = Some t))"
proof -
  from assms(1) obtain def where def: "default_email_template name = Some def"
    and m: "ml_html m = Some (fill True variables (choose_text et_html
        (in_locale (rp_templates p) l (lz_default_locale (rp_localization p)) name) def))"
    unfolding render_email_def by (auto simp: Let_def split: option.splits)
  let ?body = "choose_text et_html (in_locale (rp_templates p) l (lz_default_locale (rp_localization p)) name) def"
  have "?body = et_html def \<or> (\<exists>t lc. lc \<in> {l, lz_default_locale (rp_localization p)} \<and> ?body = et_html t \<and> ?body \<noteq> []
         \<and> Option.bind (map_of (rp_templates p) lc) (\<lambda>ts. map_of ts name) = Some t)"
    unfolding choose_text_def in_locale_def by (auto simp: Let_def split: option.splits if_splits)
  with def m fill_markup [OF assms(2)] show ?thesis
    by blast
qed

lemma mail_markup_from_template_witness:
  "\<exists>m html. render_email default_presentation ''password_reset'' ''en'' [(''user_name'', ''<b>'')] = Inr m
     \<and> ml_html m = Some html \<and> length (filter markup html) = length (filter markup (et_html (the (default_email_template ''password_reset''))))"
proof -
  have "\<exists>m. render_email default_presentation ''password_reset'' ''en'' [(''user_name'', ''<b>'')] = Inr m"
    by (simp add: render_email_def default_email_template_def Let_def)
  then obtain m where run: "render_email default_presentation ''password_reset'' ''en'' [(''user_name'', ''<b>'')] = Inr m"
    by blast
  have "\<forall>(key, raw) \<in> set [(''user_name'', ''<b>'')]. filter markup key = []"
    by (simp add: markup_def)
  from mail_markup_from_template [OF run this] run show ?thesis
    by (auto simp: default_presentation_def)
qed

text \<open>A placeholder with spaces passes the check and is never filled in.\<close>

lemma spaced_placeholder_stays:
  "validate_placeholders [''user_name''] ''{{ user_name }}'' = Some (Inr ())
   \<and> fill False [(''user_name'', v)] ''{{ user_name }}'' = ''{{ user_name }}''"
proof
  have "find_sub ''{{'' ''{{ user_name }}'' = Some 0" "find_sub ''}}'' '' user_name }}'' = Some 11"
      "trim '' user_name '' = ''user_name''" "find_sub ''{{'' [] = None"
    by code_simp+
  moreover from this(4) have "validate_placeholders [''user_name''] [] = Some (Inr ())"
    by (subst validate_placeholders.simps) simp
  ultimately show "validate_placeholders [''user_name''] ''{{ user_name }}'' = Some (Inr ())"
    by (subst validate_placeholders.simps) simp
  have absent: "replace_all pat v s = s" if "find_sub pat s = None" for pat s
    using that by (induction s) (auto simp: replace_all.simps [of pat v] split: if_split_asm)
  have "find_sub (placeholder ''user_name'') ''{{ user_name }}'' = None"
    by code_simp
  from absent [OF this] show "fill False [(''user_name'', v)] ''{{ user_name }}'' = ''{{ user_name }}''"
    by (simp add: fill_def)
qed

end
