(* ===== verification/Recovery.thy ===== *)
theory Recovery
  imports Presentation Account Federation
begin

text \<open>The links the hub sends by mail: a reset of the password (\<open>endpoints/password_reset.rs\<close>), the recovery of an
  account (\<open>account_recovery.rs\<close>), the verification of an address (\<open>email_verification.rs\<close>) and the invitation to
  an organization (\<open>organization_invitations.rs\<close>), with the queries of their tables.  A request answers with its
  message and the mail it tries to send, if any; a failure to send is logged only.\<close>

section \<open>Tables\<close>

(*@ oidc-repository/src/repositories/password_reset_token_repo.rs 17-41 PasswordResetTokenRepo::create *)
definition reset_create :: "reset_token \<Rightarrow> (db, oidc_error, unit) prog" where
  "reset_create t =
     bindp (query d_reset_tokens) (\<lambda>rows.
     thenp (guardp (\<forall>x \<in> set rows. rt_id x \<noteq> rt_id t) (Conflict ''duplicate key''))
       (exec (d_reset_tokens_update (\<lambda>rows. rows @ [t]))))"

(*@ oidc-repository/src/repositories/password_reset_token_repo.rs 44-57 PasswordResetTokenRepo::find_by_token_hash *)
definition reset_by_hash :: "instant \<Rightarrow> string \<Rightarrow> db \<Rightarrow> reset_token option" where
  "reset_by_hash now h d =
     List.find (\<lambda>t. rt_token_hash t = h \<and> \<not> rt_used t \<and> now < rt_expires_at t) (d_reset_tokens d)"

(*@ oidc-repository/src/repositories/password_reset_token_repo.rs 60-66 PasswordResetTokenRepo::mark_used *)
definition reset_mark_used :: "uuid \<Rightarrow> db \<Rightarrow> db" where
  "reset_mark_used i = d_reset_tokens_update (update_where (\<lambda>t. rt_id t = i) (\<lambda>t. t\<lparr>rt_used := True\<rparr>))"

(*@ oidc-repository/src/repositories/password_reset_token_repo.rs 69-76 PasswordResetTokenRepo::cleanup_expired *)
definition reset_cleanup :: "instant \<Rightarrow> db \<Rightarrow> nat \<times> db" where
  "reset_cleanup now d =
     (length (filter (\<lambda>t. rt_expires_at t \<le> now) (d_reset_tokens d)),
      d_reset_tokens_update (filter (\<lambda>t. \<not> rt_expires_at t \<le> now)) d)"

(*@ oidc-repository/src/repositories/account_recovery_token_repo.rs 17-44 AccountRecoveryTokenRepo::create *)
definition recovery_create :: "recovery_token \<Rightarrow> (db, oidc_error, unit) prog" where
  "recovery_create t =
     bindp (query d_recovery_tokens) (\<lambda>rows.
     thenp (guardp (\<forall>x \<in> set rows. art_id x \<noteq> art_id t) (Conflict ''duplicate key''))
       (exec (d_recovery_tokens_update (\<lambda>rows. rows @ [t]))))"

(*@ oidc-repository/src/repositories/account_recovery_token_repo.rs 47-60 AccountRecoveryTokenRepo::find_by_token_hash *)
definition recovery_by_hash :: "instant \<Rightarrow> string \<Rightarrow> db \<Rightarrow> recovery_token option" where
  "recovery_by_hash now h d =
     List.find (\<lambda>t. art_token_hash t = h \<and> \<not> art_used t \<and> now < art_expires_at t) (d_recovery_tokens d)"

(*@ oidc-repository/src/repositories/account_recovery_token_repo.rs 63-69 AccountRecoveryTokenRepo::mark_used *)
definition recovery_mark_used :: "instant \<Rightarrow> uuid \<Rightarrow> db \<Rightarrow> db" where
  "recovery_mark_used now i =
     d_recovery_tokens_update (update_where (\<lambda>t. art_id t = i) (\<lambda>t. t\<lparr>art_used := True, art_used_at := Some now\<rparr>))"

text \<open>The newest first; the order of rows of one instant is that of the table.\<close>

(*@ oidc-repository/src/repositories/account_recovery_token_repo.rs 72-85 AccountRecoveryTokenRepo::find_by_user_id *)
definition recoveries_of_user :: "uuid \<Rightarrow> db \<Rightarrow> recovery_token list" where
  "recoveries_of_user uid d =
     sort_by (\<lambda>x y. art_created_at y \<le> art_created_at x) (filter (\<lambda>t. art_user_id t = uid) (d_recovery_tokens d))"

(*@ oidc-repository/src/repositories/account_recovery_token_repo.rs 88-95 AccountRecoveryTokenRepo::cleanup_expired *)
definition recovery_cleanup :: "instant \<Rightarrow> db \<Rightarrow> nat \<times> db" where
  "recovery_cleanup now d =
     (length (filter (\<lambda>t. art_expires_at t \<le> now \<and> \<not> art_used t) (d_recovery_tokens d)),
      d_recovery_tokens_update (filter (\<lambda>t. \<not> (art_expires_at t \<le> now \<and> \<not> art_used t))) d)"

(*@ oidc-repository/src/repositories/email_verification_token_repo.rs 14-39 EmailVerificationTokenRepo::create *)
definition verification_create :: "email_token \<Rightarrow> (db, oidc_error, unit) prog" where
  "verification_create t =
     bindp (query d_email_tokens) (\<lambda>rows.
     thenp (guardp (\<forall>x \<in> set rows. ev_id x \<noteq> ev_id t) (Conflict ''duplicate key''))
       (exec (d_email_tokens_update (\<lambda>rows. rows @ [t]))))"

(*@ oidc-repository/src/repositories/email_verification_token_repo.rs 41-54 EmailVerificationTokenRepo::find_by_token_hash *)
definition verification_by_hash :: "instant \<Rightarrow> string \<Rightarrow> db \<Rightarrow> email_token option" where
  "verification_by_hash now h d =
     List.find (\<lambda>t. ev_token_hash t = h \<and> \<not> ev_used t \<and> now < ev_expires_at t) (d_email_tokens d)"

(*@ oidc-repository/src/repositories/email_verification_token_repo.rs 56-62 EmailVerificationTokenRepo::mark_used *)
definition verification_mark_used :: "uuid \<Rightarrow> db \<Rightarrow> db" where
  "verification_mark_used i = d_email_tokens_update (update_where (\<lambda>t. ev_id t = i) (\<lambda>t. t\<lparr>ev_used := True\<rparr>))"

(*@ oidc-repository/src/repositories/email_verification_token_repo.rs 65-72 EmailVerificationTokenRepo::cleanup_expired *)
definition verification_cleanup :: "instant \<Rightarrow> db \<Rightarrow> nat \<times> db" where
  "verification_cleanup now d =
     (length (filter (\<lambda>t. ev_expires_at t \<le> now) (d_email_tokens d)),
      d_email_tokens_update (filter (\<lambda>t. \<not> ev_expires_at t \<le> now)) d)"


section \<open>Invitations and members\<close>

text \<open>Two unique keys besides the identifier: the hash, and the organization with the address in lower case among
  the pending invitations.  Those of the address that have expired are marked so first.\<close>

definition expire_invitations :: "env \<Rightarrow> invitation \<Rightarrow> db \<Rightarrow> db" where
  "expire_invitations E i = d_invitations_update (update_where
     (\<lambda>x. in_organization_id x = in_organization_id i \<and> e_lower E (in_email x) = e_lower E (in_email i)
          \<and> in_status x = InvitePending \<and> in_expires_at x \<le> e_db_now E)
     (\<lambda>x. x\<lparr>in_status := InviteExpired\<rparr>))"

(*@ oidc-repository/src/repositories/organization_repo.rs 515-548 OrganizationRepo::create_invitation *)
definition invitation_create :: "env \<Rightarrow> invitation \<Rightarrow> (db, oidc_error, unit) prog" where
  "invitation_create E i =
     thenp (exec (expire_invitations E i))
    (bindp (query d_invitations) (\<lambda>rows.
     thenp (guardp (\<forall>x \<in> set rows. in_id x \<noteq> in_id i \<and> in_token_hash x \<noteq> in_token_hash i
              \<and> \<not> (in_status x = InvitePending \<and> in_organization_id x = in_organization_id i
                   \<and> e_lower E (in_email x) = e_lower E (in_email i)))
              (Conflict ''duplicate key''))
       (exec (d_invitations_update (\<lambda>rows. rows @ [i\<lparr>in_status := InvitePending, in_accepted_at := None\<rparr>])))))"

(*@ oidc-repository/src/repositories/organization_repo.rs 550-569 OrganizationRepo::list_invitations *)
definition invitations_of :: "instant \<Rightarrow> uuid \<Rightarrow> db \<Rightarrow> invitation list" where
  "invitations_of now org d =
     map (\<lambda>i. if in_status i = InvitePending \<and> in_expires_at i \<le> now then i\<lparr>in_status := InviteExpired\<rparr> else i)
       (sort_by (\<lambda>x y. in_created_at y \<le> in_created_at x) (filter (\<lambda>i. in_organization_id i = org) (d_invitations d)))"

(*@ oidc-repository/src/repositories/organization_repo.rs 571-586 OrganizationRepo::find_invitation_by_token_hash *)
definition invitation_by_hash :: "string \<Rightarrow> db \<Rightarrow> invitation option" where
  "invitation_by_hash h d = List.find (\<lambda>i. in_token_hash i = h) (d_invitations d)"

text \<open>The number of rows is answered too.\<close>

(*@ oidc-repository/src/repositories/organization_repo.rs 588-601 OrganizationRepo::revoke_invitation *)
definition invitation_revoke :: "uuid \<Rightarrow> uuid \<Rightarrow> db \<Rightarrow> nat \<times> db" where
  "invitation_revoke org i d =
     (let P = \<lambda>x. in_organization_id x = org \<and> in_id x = i \<and> in_status x = InvitePending
      in (length (filter P (d_invitations d)),
          d_invitations_update (update_where P (\<lambda>x. x\<lparr>in_status := InviteRevoked\<rparr>)) d))"

(*@ oidc-repository/src/repositories/organization_repo.rs 603-615 OrganizationRepo::accept_invitation *)
definition invitation_accept :: "instant \<Rightarrow> uuid \<Rightarrow> db \<Rightarrow> nat \<times> db" where
  "invitation_accept now i d =
     (let P = \<lambda>x. in_id x = i \<and> in_status x = InvitePending \<and> now < in_expires_at x
      in (length (filter P (d_invitations d)),
          d_invitations_update (update_where P (\<lambda>x. x\<lparr>in_status := InviteAccepted, in_accepted_at := Some now\<rparr>)) d))"

(*@ oidc-repository/src/repositories/organization_repo.rs 16-28 OrganizationRepo::find_by_id *)
definition org_by_id :: "uuid \<Rightarrow> db \<Rightarrow> organization option" where
  "org_by_id i d = List.find (\<lambda>org. o_id org = i \<and> o_deleted_at org = None) (d_orgs d)"

text \<open>A membership that is there already stays as it is, its kind included.\<close>

(*@ oidc-repository/src/repositories/organization_repo.rs 236-259 OrganizationRepo::add_member *)
definition add_member :: "membership \<Rightarrow> db \<Rightarrow> db" where
  "add_member m = d_memberships_update (\<lambda>rows.
     if \<exists>x \<in> set rows. om_organization_id x = om_organization_id m \<and> om_user_id x = om_user_id m
     then rows else rows @ [m])"


section \<open>Reset of the password\<close>

definition reset_message :: string where
  "reset_message = ''If the email exists, a reset link has been sent.''"

text \<open>The enabled user of an address in an enabled realm; every other outcome is answered alike.\<close>

definition addressee :: "string option \<Rightarrow> string \<Rightarrow> db \<Rightarrow> (realm \<times> user) option" where
  "addressee realm email d =
     (case realm_by_name (case realm of None \<Rightarrow> ''master'' | Some r \<Rightarrow> r) d of
        Some r \<Rightarrow> if r_enabled r
                  then (case user_by_email (r_id r) email d of
                          Some u \<Rightarrow> if u_enabled u then Some (r, u) else None
                        | None \<Rightarrow> None)
                  else None
      | None \<Rightarrow> None)"

(*@ oidc-oidc/src/endpoints/password_reset.rs 108-129 mail of the reset *)
definition link_mail ::
  "env \<Rightarrow> hub \<Rightarrow> string \<Rightarrow> string \<Rightarrow> string \<Rightarrow> realm \<Rightarrow> user \<Rightarrow> string \<Rightarrow> string \<Rightarrow> mail result" where
  "link_mail E H template page lifetime r u token email =
     (let url = hb_issuer H @ page @ ''?token='' @ e_percent E token @ ''&email='' @ e_percent E email;
          presentation = presentation_from_config (r_config r)
      in render_email presentation template (presentation_locale presentation (Some (u_locale u)) None)
           [(''realm_name'', r_display_name r),
            (''user_name'', case u_username u of Some n \<Rightarrow> n | None \<Rightarrow> u_email u),
            (''action_url'', url), (''expires_in'', lifetime)])"

(*@ oidc-oidc/src/endpoints/password_reset.rs 92-100 PasswordResetToken of the request *)
definition reset_row :: "env \<Rightarrow> realm \<Rightarrow> user \<Rightarrow> string \<Rightarrow> reset_token" where
  "reset_row E r u token =
     \<lparr>rt_id = e_uuid E 0, rt_user_id = u_id u, rt_realm_id = r_id r, rt_token_hash = sha2_256_hex E token,
      rt_used = False, rt_expires_at = e_clock E 0 + minutes 15, rt_created_at = e_clock E 0\<rparr>"

(*@ oidc-oidc/src/endpoints/password_reset.rs 54-141 password_reset_request_handler *)
definition reset_request ::
  "env \<Rightarrow> hub \<Rightarrow> string option \<Rightarrow> string \<Rightarrow> (db, oidc_error, string \<times> (string \<times> mail) option) prog" where
  "reset_request E H realm email =
     bindp (query (addressee realm email)) (\<lambda>found.
     case found of
       None \<Rightarrow> ret (reset_message, None)
     | Some (r, u) \<Rightarrow>
         bindp (lift (generate_opaque_token E 0)) (\<lambda>token.
         thenp (with_transaction (reset_create (reset_row E r u token)))
        (bindp (lift (link_mail E H ''password_reset'' ''/reset-password'' ''15 minutes'' r u token email)) (\<lambda>m.
         ret (reset_message, Some (email, m))))))"

(*@ oidc-oidc/src/endpoints/password_reset.rs 146-195 password_reset_confirm_handler *)
definition reset_confirm :: "env \<Rightarrow> string \<Rightarrow> string \<Rightarrow> (db, oidc_error, string) prog" where
  "reset_confirm E token new_password =
     thenp (guardp (\<not> length new_password < 8) (InvalidInput ''Password must be at least 8 characters''))
       (with_transaction
         (bindp (query (reset_by_hash (e_db_now E) (sha2_256_hex E token))) (\<lambda>found.
          bindp (some_or found InvalidRequest) (\<lambda>t.
          bindp (query (user_by_id (rt_user_id t))) (\<lambda>found.
          bindp (some_or found (NotFound ''user'')) (\<lambda>u.
          bindp (lift (e_hash_password E new_password)) (\<lambda>new_hash.
          thenp (user_update (e_db_now E) (u\<lparr>u_password_hash := Some new_hash\<rparr>))
         (thenp (exec (reset_mark_used (rt_id t)))
            (ret ''Password has been reset successfully.'')))))))))"


section \<open>Recovery of an account\<close>

(*@ oidc-core/src/models/account_recovery_token.rs 41-68 AccountRecoveryToken::new *)
definition new_recovery_token :: "env \<Rightarrow> uuid \<Rightarrow> uuid \<Rightarrow> uuid \<Rightarrow> string option \<Rightarrow> (recovery_token \<times> string) result" where
  "new_recovery_token E uid realm creator ip =
     bindr (generate_opaque_token E 0) (\<lambda>token.
     Inr (\<lparr>art_id = e_uuid E 0, art_user_id = uid, art_realm_id = realm, art_token_hash = sha2_256_hex E token,
           art_expires_at = e_clock E 0 + hours 24, art_used = False, art_used_at = None, art_created_by = creator,
           art_creator_ip = ip, art_created_at = e_clock E 0\<rparr>, token))"

(*@ oidc-core/src/models/account_recovery_token.rs 70-103 AccountRecoveryToken::is_expired, validate *)
definition validate_recovery :: "env \<Rightarrow> recovery_token \<Rightarrow> string \<Rightarrow> unit result" where
  "validate_recovery E t token =
     bindr (ensure (sha2_256_hex E token = art_token_hash t) (AuthenticationFailed ''invalid account recovery token'')) (\<lambda>_.
     bindr (ensure (\<not> art_expires_at t < e_clock E 0) TokenExpired) (\<lambda>_.
     ensure (\<not> art_used t) (AuthenticationFailed ''account recovery token already used'')))"

text \<open>A refusal is an HTTP status with a JSON body.  The handler runs outside a transaction.\<close>

definition fail_with :: "('e \<Rightarrow> 'f) \<Rightarrow> ('s, 'e, 'a) prog \<Rightarrow> ('s, 'f, 'a) prog" where
  "fail_with f m = (\<lambda>s. case m s of (Inl e, t) \<Rightarrow> (Inl (f e), t) | (Inr a, t) \<Rightarrow> (Inr a, t))"

lemma fail_with_ok [prog_ok]: "fail_with f m s = (Inr a, t) \<longleftrightarrow> m s = (Inr a, t)"
  by (auto simp: fail_with_def split: prod.splits sum.splits)

definition refusal :: "nat \<Rightarrow> string \<Rightarrow> nat \<times> members" where
  "refusal code message = (code, [(''error'', JStr message)])"

(*@ oidc-oidc/src/endpoints/account_recovery.rs 153-165 AuditEvent of the recovery *)
definition recovery_event :: "env \<Rightarrow> recovery_token \<Rightarrow> user \<Rightarrow> audit_event" where
  "recovery_event E t u =
     \<lparr>ae_id = e_uuid E 0, ae_realm_id = Some (u_realm_id u), ae_event_type = ''user.account_recovery_completed'',
      ae_actor_id = Some (art_created_by t), ae_actor_type = UserActor, ae_target_type = Some ''user'',
      ae_target_id = Some (u_id u), ae_details = JObj [], ae_ip_address = None, ae_user_agent = None,
      ae_created_at = e_clock E 1\<rparr>"

(*@ oidc-oidc/src/endpoints/account_recovery.rs 20-173 confirm_account_recovery *)
definition recovery_confirm :: "env \<Rightarrow> string \<Rightarrow> string \<Rightarrow> (db, nat \<times> members, members) prog" where
  "recovery_confirm E token new_password =
     bindp (query (recovery_by_hash (e_db_now E) (sha2_256_hex E token))) (\<lambda>found.
     bindp (some_or found (refusal 400 ''invalid_token'')) (\<lambda>t.
     thenp (lift (map_err (\<lambda>e. refusal 400 (error_text e)) (validate_recovery E t token)))
    (bindp (query (user_by_id (art_user_id t))) (\<lambda>found.
     bindp (some_or found (refusal 404 ''user_not_found'')) (\<lambda>u.
     bindp (query (realm_by_id (u_realm_id u))) (\<lambda>realm.
     thenp (lift (map_err (\<lambda>rules. (400, [(''error'', JStr ''password_policy_violation''),
                                             (''violated_rules'', JArr (map JStr rules))]))
              (validate_password E (case realm of Some r \<Rightarrow> password_policy_of (r_config r) | None \<Rightarrow> default_password_policy)
                 new_password)))
    (bindp (lift (map_err (\<lambda>_. refusal 500 ''internal'') (e_hash_password E new_password))) (\<lambda>new_hash.
     thenp (fail_with (\<lambda>_. refusal 500 ''internal'') (user_update (e_db_now E) (u\<lparr>u_password_hash := Some new_hash\<rparr>)))
    (thenp (exec (recovery_mark_used (e_db_now E) (art_id t)))
    (thenp (exec (record_event E 2 (recovery_event E t u)))
       (ret [(''recovered'', JBool True)])))))))))))"


section \<open>Verification of an address\<close>

definition verification_message :: string where
  "verification_message = ''If the email exists, a verification link has been sent.''"

(*@ oidc-oidc/src/endpoints/email_verification.rs 91-100 EmailVerificationToken of the request *)
definition verification_row :: "env \<Rightarrow> realm \<Rightarrow> user \<Rightarrow> string \<Rightarrow> email_token" where
  "verification_row E r u token =
     \<lparr>ev_id = e_uuid E 0, ev_user_id = u_id u, ev_realm_id = r_id r, ev_email = u_email u,
      ev_token_hash = sha2_256_hex E token, ev_used = False, ev_expires_at = e_clock E 0 + hours 24,
      ev_created_at = e_clock E 0\<rparr>"

(*@ oidc-oidc/src/endpoints/email_verification.rs 50-137 email_verification_request_handler *)
definition verification_request ::
  "env \<Rightarrow> hub \<Rightarrow> string option \<Rightarrow> string \<Rightarrow> (db, oidc_error, string \<times> (string \<times> mail) option) prog" where
  "verification_request E H realm email =
     bindp (query (addressee realm email)) (\<lambda>found.
     case found of
       None \<Rightarrow> ret (verification_message, None)
     | Some (r, u) \<Rightarrow>
         if u_email_verified u then ret (''Email is already verified.'', None)
         else
         bindp (lift (generate_opaque_token E 0)) (\<lambda>token.
         thenp (with_transaction (verification_create (verification_row E r u token)))
        (bindp (lift (link_mail E H ''email_verification'' ''/verify-email'' ''24 hours'' r u token email)) (\<lambda>m.
         ret (verification_message, Some (email, m))))))"

(*@ oidc-oidc/src/endpoints/email_verification.rs 140-180 email_verification_confirm_handler *)
definition verification_confirm :: "env \<Rightarrow> string \<Rightarrow> (db, oidc_error, string) prog" where
  "verification_confirm E token =
     with_transaction
       (bindp (query (verification_by_hash (e_db_now E) (sha2_256_hex E token))) (\<lambda>found.
        bindp (some_or found InvalidRequest) (\<lambda>t.
        bindp (query (user_by_id (ev_user_id t))) (\<lambda>found.
        bindp (some_or found (NotFound ''user'')) (\<lambda>u.
        thenp (guardp (u_email u = ev_email t) InvalidRequest)
       (thenp (user_update (e_db_now E) (u\<lparr>u_email_verified := True\<rparr>))
       (thenp (exec (verification_mark_used (ev_id t)))
          (ret ''Email has been verified successfully.''))))))))"


section \<open>Invitation to an organization\<close>

definition refused :: "string \<Rightarrow> oidc_error" where
  "refused why = AuthenticationFailed why"

definition wrong_account :: oidc_error where
  "wrong_account = refused ''the signed-in account does not match the invitation''"

text \<open>A browser session is preferred to an access token, and that to the password.\<close>

(*@ oidc-oidc/src/endpoints/organization_invitations.rs 87-133 account that accepts an invitation *)
definition invited_account ::
  "env \<Rightarrow> string option \<Rightarrow> string option \<Rightarrow> string option \<Rightarrow> user \<Rightarrow> db \<Rightarrow> unit result" where
  "invited_account E sid bearer password u d =
     (case (sid, bearer) of
        (Some i, _) \<Rightarrow>
          bindr (or_error (e_parse_uuid E i) (refused ''invalid browser session'')) (\<lambda>i.
          bindr (or_error (Option.bind (session_by_id i d) (\<lambda>s. if s_revoked s then None else Some s))
                   (refused ''invalid browser session'')) (\<lambda>s.
          ensure (s_user_id s = Some (u_id u)) wrong_account))
      | (None, Some token) \<Rightarrow>
          bindr (or_error (Option.bind (session_by_access_hash (e_db_now E) (sha2_256_hex E token) d)
                   (\<lambda>s. if s_revoked s then None else Some s)) (refused ''invalid access token session'')) (\<lambda>s.
          ensure (s_user_id s = Some (u_id u)) wrong_account)
      | (None, None) \<Rightarrow>
          bindr (or_error (u_password_hash u) (refused ''this account must sign in through its identity provider'')) (\<lambda>hash.
          bindr (e_hasher_verify E (case password of None \<Rightarrow> [] | Some p \<Rightarrow> p) hash) (\<lambda>right.
          ensure right (refused ''invalid invitation credentials''))))"

(*@ oidc-oidc/src/endpoints/organization_invitations.rs 142-173 User of an invitation *)
definition invited_user :: "env \<Rightarrow> organization \<Rightarrow> invitation \<Rightarrow> string option \<Rightarrow> string \<Rightarrow> user" where
  "invited_user E org i username hash =
     \<lparr>u_id = e_uuid E 0, u_realm_id = o_realm_id org, u_email = in_email i, u_email_verified = True,
      u_username = username, u_password_hash = Some hash, u_given_name = in_first_name i,
      u_family_name = in_last_name i, u_middle_name = None, u_nickname = None, u_preferred_username = username,
      u_profile = None, u_picture = None, u_website = None, u_gender = None, u_birthdate = None, u_zoneinfo = None,
      u_phone_number = None, u_phone_number_verified = None, u_street_address = None, u_locality = None,
      u_region = None, u_postal_code = None, u_country = None, u_locale = ''en'', u_attributes = JObj [],
      u_enabled = True, u_deleted_at = None, u_updated_at = e_clock E 2, u_created_at = e_clock E 2\<rparr>"

(*@ oidc-oidc/src/endpoints/organization_invitations.rs 83-177 user of the invitation, found or created *)
definition find_or_create_invited ::
  "env \<Rightarrow> organization \<Rightarrow> invitation \<Rightarrow> string option \<Rightarrow> string option \<Rightarrow> string option \<Rightarrow> string option
     \<Rightarrow> (db, oidc_error, user \<times> bool) prog" where
  "find_or_create_invited E org i sid bearer username password =
     bindp (query (user_by_email (o_realm_id org) (in_email i))) (\<lambda>found.
     case found of
       Some u \<Rightarrow> thenp (ask (invited_account E sid bearer password u)) (ret (u, False))
     | None \<Rightarrow>
         (let p = (case password of None \<Rightarrow> [] | Some p \<Rightarrow> p)
          in thenp (guardp (is_strong_password p) (InvalidInput
                ''password must contain at least eight characters, uppercase, lowercase, and a digit''))
            (bindp (lift (e_hash_password E p)) (\<lambda>hash.
             let u = invited_user E org i username hash
             in thenp (user_create (e_db_now E) u) (ret (u, True))))))"

record invitation_answer =
  ia_organization_id :: uuid
  ia_organization_alias :: string
  ia_user_id :: uuid
  ia_account_created :: bool
  ia_redirect_url :: "string option"

(*@ oidc-oidc/src/endpoints/organization_invitations.rs 67-209 transaction of the acceptance *)
definition acceptance ::
  "env \<Rightarrow> string \<Rightarrow> string option \<Rightarrow> string option \<Rightarrow> string option \<Rightarrow> string option \<Rightarrow> (db, oidc_error, invitation_answer) prog" where
  "acceptance E token sid bearer username password =
     with_transaction
       (bindp (query (invitation_by_hash (sha2_256_hex E token))) (\<lambda>found.
        bindp (some_or found InvalidRequest) (\<lambda>i.
        thenp (guardp (in_status i = InvitePending \<and> \<not> in_expires_at i \<le> e_clock E 1) InvalidRequest)
       (bindp (query (org_by_id (in_organization_id i))) (\<lambda>found.
        bindp (some_or (Option.bind found (\<lambda>org. if o_enabled org then Some org else None)) (NotFound ''organization'')) (\<lambda>org.
        bindp (find_or_create_invited E org i sid bearer username password) (\<lambda>(u, created).
        thenp (exec (add_member \<lparr>om_organization_id = o_id org, om_user_id = u_id u,
                 om_kind = (if created then Managed else Unmanaged), om_joined_at = e_clock E 3\<rparr>))
       (bindp (\<lambda>d. (Inr (fst (invitation_accept (e_db_now E) (in_id i) d)), snd (invitation_accept (e_db_now E) (in_id i) d))) (\<lambda>n.
        thenp (guardp (n \<noteq> 0) InvalidRequest)
          (ret \<lparr>ia_organization_id = o_id org, ia_organization_alias = o_alias org, ia_user_id = u_id u,
                ia_account_created = created, ia_redirect_url = o_redirect_url org\<rparr>))))))))))"

(*@ oidc-oidc/src/endpoints/organization_invitations.rs 36-66 accept_organization_invitation *)
definition accept_invitation ::
  "env \<Rightarrow> hub \<Rightarrow> string option \<Rightarrow> string option \<Rightarrow> string \<Rightarrow> string option \<Rightarrow> string option
     \<Rightarrow> (db, oidc_error, invitation_answer) prog" where
  "accept_invitation E H authorization cookie token username password =
     thenp (guardp (token \<noteq> []) (InvalidInput ''invitation token is required''))
    (thenp (guardp (case username of Some n \<Rightarrow> is_valid_username n | None \<Rightarrow> True) (InvalidInput ''username is invalid''))
       (let bearer = Option.bind authorization (\<lambda>h. strip_prefix h ''Bearer '');
            sid = (case e_key E of Inl _ \<Rightarrow> None | Inr key \<Rightarrow> extract_session_id E cookie key)
        in thenp (case bearer of
                    None \<Rightarrow> ret ()
                  | Some t \<Rightarrow> bindp (ask (verify_access_any E H (timestamp (e_clock E 0)) t)) (\<lambda>_. ret ()))
             (acceptance E token sid bearer username password)))"


section \<open>One use of every link\<close>

text \<open>The tables of tokens keep the promise of \<^term>\<open>one_time_store\<close> for one reason: the lookup asks for the key of a
  live row, and consumption leaves the key and ends the life.\<close>

lemma one_time_table:
  assumes found: "\<And>now key d. look now key d = List.find (\<lambda>t. key_of t = key \<and> live now t) (tbl d)"
    and consume: "\<And>i d. tbl (consume i d) = update_where (\<lambda>t. ident t = i) mark (tbl d)"
    and mark: "\<And>t. key_of (mark t) = key_of t" "\<And>now t. \<not> live now (mark t)"
  shows "one_time_store look ident consume (\<lambda>d. distinct (map key_of (tbl d)))"
proof (unfold_locales, goal_cases)
  case (1 d now key row later)
  then have row: "row \<in> set (tbl d)" "key_of row = key"
    by (auto simp: found dest!: find_Some_set)
  have "ident x = ident row" if "x \<in> set (tbl d)" "key_of x = key" for x
    using distinct_map_same [of key_of "tbl d" x row] 1(1) that row by simp
  then show ?case
    unfolding found consume by (auto intro!: find_update_where_None simp: mark)
next
  case (2 d now key i)
  then show ?case
    by (auto simp: found consume find_None_iff set_update_where mark split: if_splits)
next
  case (3 d i)
  then show ?case
    by (simp add: consume map_update_where mark)
qed

interpretation resets: one_time_store reset_by_hash rt_id reset_mark_used
    "\<lambda>d. distinct (map rt_token_hash (d_reset_tokens d))"
  by (rule one_time_table [where mark = "rt_used_update (\<lambda>_. True)"
        and live = "\<lambda>now t. \<not> rt_used t \<and> now < rt_expires_at t"])
    (simp_all add: reset_by_hash_def reset_mark_used_def)

interpretation recoveries: one_time_store recovery_by_hash art_id "recovery_mark_used now"
    "\<lambda>d. distinct (map art_token_hash (d_recovery_tokens d))" for now
  by (rule one_time_table [where mark = "\<lambda>t. t\<lparr>art_used := True, art_used_at := Some now\<rparr>"
        and live = "\<lambda>now t. \<not> art_used t \<and> now < art_expires_at t"])
    (simp_all add: recovery_by_hash_def recovery_mark_used_def)

interpretation verifications: one_time_store verification_by_hash ev_id verification_mark_used
    "\<lambda>d. distinct (map ev_token_hash (d_email_tokens d))"
  by (rule one_time_table [where mark = "ev_used_update (\<lambda>_. True)"
        and live = "\<lambda>now t. \<not> ev_used t \<and> now < ev_expires_at t"])
    (simp_all add: verification_by_hash_def verification_mark_used_def)


section \<open>The password is reset once\<close>

text \<open>A user that is found by the primary key is the only row with it.\<close>

lemma user_update_password:
  assumes ids: "distinct (map u_id (d_users d))" and u: "user_by_id i d = Some u"
    and run: "user_update now (u\<lparr>u_password_hash := h\<rparr>) d = (Inr (), e)"
  shows "password_is (u_id u) h e" and "d_sessions e = d_sessions d" and "d_reset_tokens e = d_reset_tokens d"
    and "x \<in> set (d_users d) \<Longrightarrow> u_id x \<noteq> u_id u \<Longrightarrow> x \<in> set (d_users e)"
proof -
  have row: "u \<in> set (d_users d)" "u_deleted_at u = None"
    using u by (auto simp: user_by_id_def dest!: find_Some_set)
  have "x = u" if "x \<in> set (d_users d)" "u_id x = u_id u" for x
    using distinct_map_same [OF ids that(1) row(1) that(2)] .
  then have "u_deleted_at x = None" if "x \<in> set (d_users d)" "u_id x = u_id u" for x
    using that row(2) by blast
  with run show "password_is (u_id u) h e"
    by (auto simp: user_update_ok password_is_def update_where_elem)
  show "d_sessions e = d_sessions d" "d_reset_tokens e = d_reset_tokens d"
    using run by (simp_all add: user_update_ok)
  show "x \<in> set (d_users d) \<Longrightarrow> u_id x \<noteq> u_id u \<Longrightarrow> x \<in> set (d_users e)"
    using run by (auto simp: user_update_ok update_where_elem)
qed

lemma reset_confirm_ok:
  "reset_confirm E token pw d = (Inr msg, e) \<longleftrightarrow>
     (\<exists>t u h m. reset_by_hash (e_db_now E) (sha2_256_hex E token) d = Some t \<and> user_by_id (rt_user_id t) d = Some u
       \<and> 8 \<le> length pw \<and> e_hash_password E pw = Inr h
       \<and> user_update (e_db_now E) (u\<lparr>u_password_hash := Some h\<rparr>) d = (Inr (), m)
       \<and> e = reset_mark_used (rt_id t) m \<and> msg = ''Password has been reset successfully.'')"
  by (auto simp: reset_confirm_def prog_ok not_less)

lemma reset_unknown:
  assumes "reset_by_hash (e_db_now E) (sha2_256_hex E token) d = None"
  shows "\<exists>err. reset_confirm E token pw d = (Inl err, d)"
  using assms by (simp add: reset_confirm_def thenp_def bindp_def guardp_def with_transaction_def query_def some_or_def
      ret_def fail_def)

text \<open>What a confirmation that succeeds has done.\<close>

definition reset_done :: "env \<Rightarrow> string \<Rightarrow> string \<Rightarrow> db \<Rightarrow> db \<Rightarrow> bool" where
  "reset_done E token pw d e \<longleftrightarrow>
     (\<exists>t u h. t \<in> set (d_reset_tokens d) \<and> rt_token_hash t = sha2_256_hex E token
    \<and> \<not> rt_used t \<and> e_db_now E < rt_expires_at t \<and> user_by_id (rt_user_id t) d = Some u
    \<and> 8 \<le> length pw \<and> e_hash_password E pw = Inr h \<and> password_is (u_id u) (Some h) e
    \<and> (\<forall>x \<in> set (d_users d). u_id x \<noteq> u_id u \<longrightarrow> x \<in> set (d_users e))
    \<and> (\<forall>F again. sha2_256_hex F token = sha2_256_hex E token \<longrightarrow> (\<exists>err. reset_confirm F token again e = (Inl err, e)))
    \<and> d_sessions e = d_sessions d
    \<and> (\<forall>x \<in> set (d_reset_tokens d). rt_id x \<noteq> rt_id t \<longrightarrow> x \<in> set (d_reset_tokens e)))"

lemma reset_confirm_done:
  assumes run: "reset_confirm E token pw d = (Inr msg, e)"
    and ids: "distinct (map u_id (d_users d))" and hashes: "distinct (map rt_token_hash (d_reset_tokens d))"
  shows "reset_done E token pw d e"
proof -
  from run obtain t u h m where t: "reset_by_hash (e_db_now E) (sha2_256_hex E token) d = Some t"
    and u: "user_by_id (rt_user_id t) d = Some u" "8 \<le> length pw" "e_hash_password E pw = Inr h"
    and m: "user_update (e_db_now E) (u\<lparr>u_password_hash := Some h\<rparr>) d = (Inr (), m)"
    and e: "e = reset_mark_used (rt_id t) m"
    unfolding reset_confirm_ok by blast
  note changed = user_update_password [OF ids u(1) m]
  have same: "d_reset_tokens e = d_reset_tokens (reset_mark_used (rt_id t) d)"
    unfolding e by (simp add: reset_mark_used_def changed(3))
  have spent: "reset_by_hash now (sha2_256_hex E token) e = None" for now
    using resets.consumed [OF hashes t] unfolding reset_by_hash_def same .
  have rest: "password_is (u_id u) (Some h) e" "d_sessions e = d_sessions d"
      "\<forall>x \<in> set (d_users d). u_id x \<noteq> u_id u \<longrightarrow> x \<in> set (d_users e)"
    using changed unfolding e by (simp_all add: reset_mark_used_def password_is_def)
  have others: "\<forall>x \<in> set (d_reset_tokens d). rt_id x \<noteq> rt_id t \<longrightarrow> x \<in> set (d_reset_tokens e)"
    unfolding same by (auto simp: reset_mark_used_def update_where_elem)
  have again: "\<forall>F again. sha2_256_hex F token = sha2_256_hex E token \<longrightarrow> (\<exists>err. reset_confirm F token again e = (Inl err, e))"
    using spent by (metis reset_unknown)
  have live: "t \<in> set (d_reset_tokens d)" "rt_token_hash t = sha2_256_hex E token" "\<not> rt_used t" "e_db_now E < rt_expires_at t"
    using t by (auto simp: reset_by_hash_def dest!: find_Some_set)
  show ?thesis
    unfolding reset_done_def by (intro exI [of _ t] exI [of _ u] exI [of _ h] conjI live u rest again others)
qed

lemma find_unique:
  assumes "x \<in> set xs" and "P x" and "\<And>y. y \<in> set xs \<Longrightarrow> P y \<Longrightarrow> y = x"
  shows "List.find P xs = Some x"
proof (cases "List.find P xs")
  case None
  with assms(1, 2) show ?thesis
    by (auto simp: find_None_iff)
next
  case (Some y)
  then show ?thesis
    using assms(3) find_Some_set by metis
qed

lemma reset_confirm_succeeds:
  assumes hashes: "distinct (map rt_token_hash (d_reset_tokens d))"
    and keys: "distinct (map u_id (d_users d))" "distinct (map (\<lambda>u. (u_realm_id u, u_email u)) (d_users d))"
    and t: "t \<in> set (d_reset_tokens d)" "rt_token_hash t = sha2_256_hex E token" "\<not> rt_used t"
      "e_db_now E < rt_expires_at t"
    and u: "user_by_id (rt_user_id t) d = Some u" and pw: "8 \<le> length pw" "e_hash_password E pw = Inr h"
  shows "\<exists>msg e. reset_confirm E token pw d = (Inr msg, e)"
proof -
  have "reset_by_hash (e_db_now E) (sha2_256_hex E token) d = Some t"
    unfolding reset_by_hash_def
  proof (rule find_unique)
    show "y = t" if "y \<in> set (d_reset_tokens d)"
      "rt_token_hash y = sha2_256_hex E token \<and> \<not> rt_used y \<and> e_db_now E < rt_expires_at y" for y
      using distinct_map_same [OF hashes that(1) t(1)] that(2) t(2) by simp
  qed (use t in simp_all)
  moreover have "u \<in> set (d_users d)"
    using u by (auto simp: user_by_id_def dest!: find_Some_set)
  then have "x = u \<longrightarrow> y \<in> set (d_users d) \<longrightarrow> u_id y \<noteq> u_id u \<longrightarrow> \<not> (u_realm_id y = u_realm_id x \<and> u_email y = u_email u)"
    "x \<in> set (d_users d) \<Longrightarrow> u_id x = u_id u \<Longrightarrow> x = u" for x y
    using distinct_map_same [OF keys(1)] distinct_map_same [OF keys(2)] by (metis prod.inject)+
  then have "\<exists>m. user_update (e_db_now E) (u\<lparr>u_password_hash := Some h\<rparr>) d = (Inr (), m)"
    by (simp add: user_update_ok) blast
  ultimately show ?thesis
    unfolding reset_confirm_ok using u pw by blast
qed

text \<open>C30 A reset is confirmed exactly when a live token is stored under the hash of the link, the user of the token
  still exists, and the new password has at least eight bytes and can be hashed: no password policy of the realm and
  no enabled flag of the user is among the conditions.  A confirmed reset spends the token and gives its user, and
  nobody else, the new password.  The same link never works again, whatever password it comes with.  Every session
  of the user goes on, and so do the other reset links.  The identifiers of users and the addresses of users within
  a realm are keys of their table; the hashes of the stored tokens are taken to be distinct.\<close>

theorem password_reset_correct:
  assumes ids: "distinct (map u_id (d_users d))" "distinct (map (\<lambda>u. (u_realm_id u, u_email u)) (d_users d))"
    and hashes: "distinct (map rt_token_hash (d_reset_tokens d))"
  shows "((\<exists>msg e. reset_confirm E token pw d = (Inr msg, e)) \<longleftrightarrow>
       (\<exists>t u h. t \<in> set (d_reset_tokens d) \<and> rt_token_hash t = sha2_256_hex E token \<and> \<not> rt_used t
          \<and> e_db_now E < rt_expires_at t \<and> user_by_id (rt_user_id t) d = Some u
          \<and> 8 \<le> length pw \<and> e_hash_password E pw = Inr h))
    \<and> (\<forall>msg e. reset_confirm E token pw d = (Inr msg, e) \<longrightarrow>
       (\<exists>t u h. t \<in> set (d_reset_tokens d) \<and> rt_token_hash t = sha2_256_hex E token
          \<and> \<not> rt_used t \<and> e_db_now E < rt_expires_at t \<and> user_by_id (rt_user_id t) d = Some u
          \<and> 8 \<le> length pw \<and> e_hash_password E pw = Inr h \<and> password_is (u_id u) (Some h) e
          \<and> (\<forall>x \<in> set (d_users d). u_id x \<noteq> u_id u \<longrightarrow> x \<in> set (d_users e))
          \<and> (\<forall>F again. sha2_256_hex F token = sha2_256_hex E token \<longrightarrow> (\<exists>err. reset_confirm F token again e = (Inl err, e)))
          \<and> d_sessions e = d_sessions d
          \<and> (\<forall>x \<in> set (d_reset_tokens d). rt_id x \<noteq> rt_id t \<longrightarrow> x \<in> set (d_reset_tokens e))))"
    (is "(?runs \<longleftrightarrow> ?live) \<and> ?effect")
proof (intro conjI iffI)
  show ?effect
    using reset_confirm_done [OF _ ids(1) hashes] unfolding reset_done_def by blast
  show ?live if ?runs
    using that reset_confirm_done [OF _ ids(1) hashes] unfolding reset_done_def by blast
  show ?runs if ?live
    using that reset_confirm_succeeds [OF hashes ids] by blast
qed

definition link_db :: db where
  "link_db = account_db\<lparr>d_reset_tokens := [\<lparr>rt_id = 80, rt_user_id = 7, rt_realm_id = 3, rt_token_hash = ''link'',
     rt_used = False, rt_expires_at = minutes 15, rt_created_at = 0\<rparr>]\<rparr>"

lemma link_db_users: "d_users link_db = [sample_user]" "user_by_id 7 link_db = Some sample_user"
  by (simp_all add: link_db_def account_db_def info_db_def user_by_id_def sample_user_def)

lemma link_row: "d_reset_tokens link_db = [\<lparr>rt_id = 80, rt_user_id = 7, rt_realm_id = 3, rt_token_hash = ''link'',
     rt_used = False, rt_expires_at = minutes 15, rt_created_at = 0\<rparr>]"
  by (simp add: link_db_def)

lemma password_reset_correct_witness:
  "\<exists>msg e. reset_confirm toy_env ''link'' ''Correct-Horse-9'' link_db = (Inr msg, e)
     \<and> password_is 7 (Some ''Correct-Horse-9'') e \<and> (\<exists>err. reset_confirm toy_env ''link'' ''other-password'' e = (Inl err, e))"
proof -
  have hash: "e_hash_password toy_env p = Inr p" for p
    by (simp add: toy_env_def sample_env_def)
  have "\<exists>msg e. reset_confirm toy_env ''link'' ''Correct-Horse-9'' link_db = (Inr msg, e)"
    unfolding reset_confirm_ok
    by (simp add: reset_by_hash_def link_row link_db_users hash user_update_ok minutes_def secs_def)
  then obtain msg e where run: "reset_confirm toy_env ''link'' ''Correct-Horse-9'' link_db = (Inr msg, e)"
    by blast
  have "distinct (map u_id (d_users link_db))" "distinct (map (\<lambda>u. (u_realm_id u, u_email u)) (d_users link_db))"
      "distinct (map rt_token_hash (d_reset_tokens link_db))"
    by (simp_all add: link_db_def account_db_def info_db_def)
  from password_reset_correct [OF this, of toy_env "''link''" "''Correct-Horse-9''"] run obtain t u where "t \<in> set (d_reset_tokens link_db)"
    and u: "user_by_id (rt_user_id t) link_db = Some u" "password_is (u_id u) (Some ''Correct-Horse-9'') e"
    and again: "\<exists>err. reset_confirm toy_env ''link'' ''other-password'' e = (Inl err, e)"
    unfolding hash by blast
  then have "rt_user_id t = 7"
    by (simp add: link_db_def)
  with u(1) have "u_id u = 7"
    by (auto simp: link_db_users sample_user_def)
  with u(2) have "password_is 7 (Some ''Correct-Horse-9'') e"
    by simp
  with run again show ?thesis
    by blast
qed

lemma reset_request_ok:
  "reset_request E H realm email d = (Inr (msg, Some (addr, m)), e) \<longleftrightarrow>
     (\<exists>r u token. addressee realm email d = Some (r, u) \<and> generate_opaque_token E 0 = Inr token
       \<and> (\<forall>x \<in> set (d_reset_tokens d). rt_id x \<noteq> e_uuid E 0)
       \<and> link_mail E H ''password_reset'' ''/reset-password'' ''15 minutes'' r u token email = Inr m
       \<and> addr = email \<and> msg = reset_message \<and> e = d\<lparr>d_reset_tokens := d_reset_tokens d @ [reset_row E r u token]\<rparr>)"
  by (cases "addressee realm email d")
    (auto simp: reset_request_def reset_create_def prog_ok reset_row_def split: prod.splits)

lemma addressee_Some:
  "addressee realm email d = Some (r, u) \<Longrightarrow>
     r_enabled r \<and> u_enabled u \<and> user_by_email (r_id r) email d = Some u
     \<and> u \<in> set (d_users d) \<and> u_deleted_at u = None \<and> u_email u = email \<and> u_realm_id u = r_id r"
proof -
  assume "addressee realm email d = Some (r, u)"
  then have user: "user_by_email (r_id r) email d = Some u" and on: "r_enabled r" "u_enabled u"
    by (auto simp: addressee_def split: option.splits if_splits)
  from user have "u \<in> set (d_users d) \<and> u_realm_id u = r_id r \<and> u_email u = email \<and> u_deleted_at u = None"
    unfolding user_by_email_def by (rule find_Some_set)
  with user on show ?thesis
    by simp
qed

lemma addressee_realm:
  "addressee realm email d = Some (r, u) \<Longrightarrow> realm_by_name (case realm of None \<Rightarrow> ''master'' | Some n \<Rightarrow> n) d = Some r"
  by (auto simp: addressee_def split: option.splits if_split_asm)

lemma user_by_id_member:
  assumes "u \<in> set (d_users d)" and "u_deleted_at u = None" and "distinct (map u_id (d_users d))"
  shows "user_by_id (u_id u) d = Some u"
  unfolding user_by_id_def
proof (rule find_unique)
  show "u \<in> set (d_users d)" "u_id u = u_id u \<and> u_deleted_at u = None"
    using assms by simp_all
  show "y = u" if "y \<in> set (d_users d)" "u_id y = u_id u \<and> u_deleted_at y = None" for y
    using distinct_map_same [OF assms(3) that(1) assms(1)] that(2) by blast
qed

lemma reset_found:
  assumes "\<forall>x \<in> set tbl. rt_token_hash x \<noteq> rt_token_hash t" and "\<not> rt_used t" and "now < rt_expires_at t"
  shows "reset_by_hash now (rt_token_hash t) (d\<lparr>d_reset_tokens := tbl @ [t]\<rparr>) = Some t"
  using assms by (induction tbl) (auto simp: reset_by_hash_def)

text \<open>C31 The link of a reset reaches its aim: the mail of a request goes only to the address that was asked for, and
  only when that is the address of an enabled user of an enabled realm; it is the reset template filled with a link
  to the reset page that carries the new token and the address; and until fifteen minutes after the request whoever
  presents that token sets the password of that user to any password of eight bytes or more.  The hash of the new
  token is taken to differ from the stored ones; identifiers and addresses within a realm are unique keys.\<close>

theorem password_reset_link_works:
  assumes request: "reset_request E H realm email d = (Inr (msg, Some (addr, m)), e)"
    and token: "generate_opaque_token E 0 = Inr token" and later: "e_db_now F < e_clock E 0 + minutes 15"
    and hash: "sha2_256_hex F token = sha2_256_hex E token" "\<forall>x \<in> set (d_reset_tokens d). rt_token_hash x \<noteq> sha2_256_hex E token"
    and keys: "distinct (map u_id (d_users d))" "distinct (map (\<lambda>u. (u_realm_id u, u_email u)) (d_users d))"
    and pw: "8 \<le> length pw" "e_hash_password F pw = Inr h"
  shows "\<exists>(r :: realm) u f. addr = email \<and> realm_by_name (case realm of None \<Rightarrow> ''master'' | Some n \<Rightarrow> n) d = Some r
    \<and> r_enabled r \<and> u_enabled u \<and> user_by_email (r_id r) email d = Some u
    \<and> render_email (presentation_from_config (r_config r)) ''password_reset''
        (presentation_locale (presentation_from_config (r_config r)) (Some (u_locale u)) None)
        [(''realm_name'', r_display_name r),
         (''user_name'', case u_username u of Some n \<Rightarrow> n | None \<Rightarrow> u_email u),
         (''action_url'', hb_issuer H @ ''/reset-password?token='' @ e_percent E token @ ''&email='' @ e_percent E email),
         (''expires_in'', ''15 minutes'')] = Inr m
    \<and> reset_confirm F token pw e = (Inr ''Password has been reset successfully.'', f) \<and> password_is (u_id u) (Some h) f"
proof -
  from request [unfolded reset_request_ok] token obtain r u where
    to: "addressee realm email d = Some (r, u)" and addr: "addr = email"
    and mail: "link_mail E H ''password_reset'' ''/reset-password'' ''15 minutes'' r u token email = Inr m"
    and e: "e = d\<lparr>d_reset_tokens := d_reset_tokens d @ [reset_row E r u token]\<rparr>"
    by auto
  note who = addressee_Some [OF to]
  have row: "reset_by_hash (e_db_now F) (sha2_256_hex F token) e = Some (reset_row E r u token)"
    unfolding e hash(1) using reset_found [of "d_reset_tokens d" "reset_row E r u token" "e_db_now F" d] hash(2) later
    by (simp add: reset_row_def)
  have users: "d_users e = d_users d"
    by (simp add: e)
  have ids: "distinct (map u_id (d_users e))"
    using keys(1) unfolding users .
  have u: "user_by_id (u_id u) e = Some u"
    using who ids by (intro user_by_id_member) (simp_all add: users)
  have "\<forall>x \<in> set (d_users e). u_id x = u_id u \<and> u_deleted_at x = None \<longrightarrow>
        (\<forall>y \<in> set (d_users e). u_id y \<noteq> u_id u \<longrightarrow> \<not> (u_realm_id y = u_realm_id x \<and> u_email y = u_email u))"
    unfolding users using who distinct_map_same [OF keys(1)] distinct_map_same [OF keys(2)] by (metis prod.inject)
  then obtain n where n: "user_update (e_db_now F) (u\<lparr>u_password_hash := Some h\<rparr>) e = (Inr (), n)"
    by (auto simp: user_update_ok)
  have run: "reset_confirm F token pw e = (Inr ''Password has been reset successfully.'', reset_mark_used (rt_id (reset_row E r u token)) n)"
    unfolding reset_confirm_ok using row u n pw by (auto simp: reset_row_def)
  have "password_is (u_id u) (Some h) (reset_mark_used (rt_id (reset_row E r u token)) n)"
    using user_update_password(1) [OF ids u n] by (simp add: reset_mark_used_def password_is_def)
  then show ?thesis
    using run addr who addressee_realm [OF to] mail
    by (intro exI [where x = r], intro exI [where x = u], intro exI conjI) (simp_all add: link_mail_def Let_def)
qed

lemma password_reset_link_works_witness:
  "\<exists>addr m e f. reset_request sample_env sample_hub (Some ''acme'') ''a@b.org'' account_db = (Inr (reset_message, Some (addr, m)), e)
     \<and> addr = ''a@b.org'' \<and> reset_confirm sample_env ''abcdefgh'' ''Correct-Horse-9'' e = (Inr ''Password has been reset successfully.'', f)"
proof -
  have token: "generate_opaque_token sample_env 0 = Inr ''abcdefgh''"
    by (simp add: generate_opaque_token_def sample_env_def)
  have "\<exists>m. link_mail sample_env sample_hub ''password_reset'' ''/reset-password'' ''15 minutes'' r u token email = Inr m"
    for r u token email
    by (simp add: link_mail_def Let_def render_email_def default_email_template_def)
  moreover have "addressee (Some ''acme'') ''a@b.org'' account_db = Some (hd (d_realms account_db), sample_user)"
    by (simp add: addressee_def account_db_def realm_by_name_def user_by_email_def info_db_def sample_user_def)
  moreover have none: "d_reset_tokens account_db = []"
    by (simp add: account_db_def info_db_def empty_db_def)
  ultimately obtain addr m e where run:
    "reset_request sample_env sample_hub (Some ''acme'') ''a@b.org'' account_db = (Inr (reset_message, Some (addr, m)), e)"
    unfolding reset_request_ok by (metis empty_iff list.set(1) token)
  have "distinct (map u_id (d_users account_db))" "distinct (map (\<lambda>u. (u_realm_id u, u_email u)) (d_users account_db))"
    by (simp_all add: account_db_def info_db_def)
  note works = password_reset_link_works [OF run token, where F = sample_env and pw = "''Correct-Horse-9''"
      and h = "''Correct-Horse-9''", OF _ _ _ this(1) this(2)]
  have "addr = ''a@b.org'' \<and> (\<exists>f. reset_confirm sample_env ''abcdefgh'' ''Correct-Horse-9'' e
      = (Inr ''Password has been reset successfully.'', f))"
    using works by (simp add: none) (auto simp: sample_env_def minutes_def secs_def)
  with run show ?thesis
    by blast
qed


section \<open>An invitation is accepted once, by the invited account\<close>

text \<open>What shows that the caller is the invited account: a browser session, or else an access token, or else the
  password.  A session counts while it is not revoked, expired or not.\<close>

definition account_shown :: "env \<Rightarrow> string option \<Rightarrow> string option \<Rightarrow> string option \<Rightarrow> user \<Rightarrow> db \<Rightarrow> bool" where
  "account_shown E sid bearer password u d \<longleftrightarrow>
     (case (sid, bearer) of
        (Some i, _) \<Rightarrow> \<exists>k s. e_parse_uuid E i = Some k \<and> session_by_id k d = Some s \<and> \<not> s_revoked s \<and> s_user_id s = Some (u_id u)
      | (None, Some token) \<Rightarrow> \<exists>s. session_by_access_hash (e_db_now E) (sha2_256_hex E token) d = Some s
          \<and> \<not> s_revoked s \<and> s_user_id s = Some (u_id u)
      | (None, None) \<Rightarrow> \<exists>hash. u_password_hash u = Some hash
          \<and> e_hasher_verify E (case password of None \<Rightarrow> [] | Some p \<Rightarrow> p) hash = Inr True)"

lemma invited_account_ok: "invited_account E sid bearer password u d = Inr () \<longleftrightarrow> account_shown E sid bearer password u d"
  unfolding invited_account_def account_shown_def
  by (auto simp: bindr_Inr or_error_Inr ensure_def bind_eq_Some_conv split: option.splits if_splits)

definition join_organization :: "env \<Rightarrow> organization \<Rightarrow> invitation \<Rightarrow> user \<Rightarrow> bool \<Rightarrow> db \<Rightarrow> db" where
  "join_organization E org i u created m =
     snd (invitation_accept (e_db_now E) (in_id i) (add_member \<lparr>om_organization_id = o_id org, om_user_id = u_id u,
       om_kind = (if created then Managed else Unmanaged), om_joined_at = e_clock E 3\<rparr> m))"

lemma acceptance_ok:
  assumes "acceptance E token sid bearer username password d = (Inr a, e)"
  shows "\<exists>i org u created m. invitation_by_hash (sha2_256_hex E token) d = Some i \<and> in_status i = InvitePending
    \<and> e_clock E 1 < in_expires_at i \<and> org_by_id (in_organization_id i) d = Some org \<and> o_enabled org
    \<and> find_or_create_invited E org i sid bearer username password d = (Inr (u, created), m)
    \<and> e = join_organization E org i u created m \<and> ia_organization_id a = o_id org \<and> ia_user_id a = u_id u
    \<and> ia_account_created a = created \<and> fst (invitation_accept (e_db_now E) (in_id i) m) \<noteq> 0"
proof -
  from assms obtain i org u created m where "invitation_by_hash (sha2_256_hex E token) d = Some i"
    "in_status i = InvitePending \<and> \<not> in_expires_at i \<le> e_clock E 1"
    "Option.bind (org_by_id (in_organization_id i) d) (\<lambda>org. if o_enabled org then Some org else None) = Some org"
    "find_or_create_invited E org i sid bearer username password d = (Inr (u, created), m)"
    "e = join_organization E org i u created m" "ia_organization_id a = o_id org" "ia_user_id a = u_id u"
    "ia_account_created a = created" "fst (invitation_accept (e_db_now E) (in_id i) m) \<noteq> 0"
    unfolding acceptance_def join_organization_def by (auto simp: prog_ok invitation_accept_def add_member_def Let_def)
  then show ?thesis
    by (auto simp: bind_eq_Some_conv not_le split: if_split_asm)
qed

lemma join_organization_effect:
  "\<exists>x \<in> set (d_memberships (join_organization E org i u created m)). om_organization_id x = o_id org \<and> om_user_id x = u_id u"
  "d_users (join_organization E org i u created m) = d_users m"
  "d_invitations (join_organization E org i u created m) =
     d_invitations (snd (invitation_accept (e_db_now E) (in_id i) m))"
  by (auto simp: join_organization_def invitation_accept_def add_member_def Let_def)

lemma invited_ok:
  assumes "find_or_create_invited E org i sid bearer username password d = (Inr (u, created), m)"
  shows "d_invitations m = d_invitations d"
    and "(\<not> created \<and> m = d \<and> user_by_email (o_realm_id org) (in_email i) d = Some u \<and> account_shown E sid bearer password u d)
      \<or> (created \<and> user_by_email (o_realm_id org) (in_email i) d = None
         \<and> (\<exists>p hash. password = Some p \<and> is_strong_password p \<and> e_hash_password E p = Inr hash
              \<and> u = invited_user E org i username hash \<and> (\<exists>x \<in> set (d_users m). u_id x = u_id u \<and> u_email x = in_email i)
              \<and> (\<forall>x \<in> set (d_users d). x \<in> set (d_users m) \<and> u_id x \<noteq> u_id u)))"
proof -
  have weak: "\<not> is_strong_password []"
    by code_simp
  show "d_invitations m = d_invitations d"
    "(\<not> created \<and> m = d \<and> user_by_email (o_realm_id org) (in_email i) d = Some u \<and> account_shown E sid bearer password u d)
      \<or> (created \<and> user_by_email (o_realm_id org) (in_email i) d = None
         \<and> (\<exists>p hash. password = Some p \<and> is_strong_password p \<and> e_hash_password E p = Inr hash
              \<and> u = invited_user E org i username hash \<and> (\<exists>x \<in> set (d_users m). u_id x = u_id u \<and> u_email x = in_email i)
              \<and> (\<forall>x \<in> set (d_users d). x \<in> set (d_users m) \<and> u_id x \<noteq> u_id u)))"
    using assms weak unfolding find_or_create_invited_def
    by (cases "user_by_email (o_realm_id org) (in_email i) d"; cases password;
        force simp: prog_ok Let_def user_create_def invited_account_ok invited_user_def)+
qed

lemma acceptance_refused:
  assumes "case invitation_by_hash (sha2_256_hex E token) d of None \<Rightarrow> True | Some i \<Rightarrow> in_status i \<noteq> InvitePending"
  shows "acceptance E token sid bearer username password d = (Inl InvalidRequest, d)"
  using assms unfolding acceptance_def
  by (auto simp: with_transaction_def bindp_def query_def some_or_def thenp_def guardp_def ret_def fail_def
      split: option.splits)

text \<open>An invitation is accepted only while it is pending and has not expired, into an enabled organization, and by
  the invited account: when the address has a user, the caller shows a session of that user that was not revoked or
  the password; otherwise a user is created with the invited address and a strong password.  The user is a member
  afterwards, and the same link is refused from then on, whoever follows it.\<close>

theorem invitation_sound:
  assumes run: "acceptance E token sid bearer username password d = (Inr a, e)"
    and keys: "distinct (map in_id (d_invitations d))" "distinct (map in_token_hash (d_invitations d))"
  shows "\<exists>i org u. i \<in> set (d_invitations d) \<and> in_token_hash i = sha2_256_hex E token \<and> in_status i = InvitePending
    \<and> e_clock E 1 < in_expires_at i \<and> org_by_id (in_organization_id i) d = Some org \<and> o_enabled org
    \<and> ia_organization_id a = o_id org \<and> ia_user_id a = u_id u
    \<and> (if ia_account_created a
       then user_by_email (o_realm_id org) (in_email i) d = None
         \<and> (\<exists>p hash. password = Some p \<and> is_strong_password p \<and> e_hash_password E p = Inr hash
              \<and> u = invited_user E org i username hash)
       else user_by_email (o_realm_id org) (in_email i) d = Some u \<and> account_shown E sid bearer password u d)
    \<and> (\<exists>x \<in> set (d_memberships e). om_organization_id x = o_id org \<and> om_user_id x = u_id u)
    \<and> (\<forall>F sid' bearer' username' password'. sha2_256_hex F token = sha2_256_hex E token \<longrightarrow>
         acceptance F token sid' bearer' username' password' e = (Inl InvalidRequest, e))"
proof -
  from acceptance_ok [OF run] obtain i org u created m where
    i: "invitation_by_hash (sha2_256_hex E token) d = Some i" "in_status i = InvitePending" "e_clock E 1 < in_expires_at i"
    and org: "org_by_id (in_organization_id i) d = Some org" "o_enabled org"
    and who: "find_or_create_invited E org i sid bearer username password d = (Inr (u, created), m)"
    and e: "e = join_organization E org i u created m"
    and a: "ia_organization_id a = o_id org" "ia_user_id a = u_id u" "ia_account_created a = created"
    and n: "fst (invitation_accept (e_db_now E) (in_id i) m) \<noteq> 0"
    by blast
  have row: "i \<in> set (d_invitations d)" "in_token_hash i = sha2_256_hex E token"
    using i(1) by (auto simp: invitation_by_hash_def dest!: find_Some_set)
  have "\<exists>y \<in> set (d_invitations d). in_id y = in_id i \<and> in_status y = InvitePending \<and> e_db_now E < in_expires_at y"
    using n unfolding invitation_accept_def Let_def invited_ok(1) [OF who] by (auto simp: filter_empty_conv)
  then have now: "e_db_now E < in_expires_at i"
    using distinct_map_same [OF keys(1) _ row(1)] by blast
  have "in_status x \<noteq> InvitePending" if "x \<in> set (d_invitations e)" "in_token_hash x = sha2_256_hex E token" for x
  proof -
    from that(1) obtain y where y: "y \<in> set (d_invitations d)"
      and x: "x = (if in_id y = in_id i \<and> in_status y = InvitePending \<and> e_db_now E < in_expires_at y
                   then y\<lparr>in_status := InviteAccepted, in_accepted_at := Some (e_db_now E)\<rparr> else y)"
      unfolding e join_organization_effect(3) invitation_accept_def Let_def
      by (auto simp: invited_ok(1) [OF who] set_update_where)
    then have "y = i"
      using distinct_map_same [OF keys(2) y row(1)] that(2) row(2) by (simp split: if_split_asm)
    with x i(2) now show ?thesis
      by simp
  qed
  then have "case invitation_by_hash (sha2_256_hex E token) e of None \<Rightarrow> True | Some x \<Rightarrow> in_status x \<noteq> InvitePending"
    by (auto simp: invitation_by_hash_def split: option.split dest!: find_Some_set)
  then have again: "\<forall>F sid' bearer' username' password'. sha2_256_hex F token = sha2_256_hex E token \<longrightarrow>
         acceptance F token sid' bearer' username' password' e = (Inl InvalidRequest, e)"
    by (metis acceptance_refused)
  have "if ia_account_created a
       then user_by_email (o_realm_id org) (in_email i) d = None
         \<and> (\<exists>p hash. password = Some p \<and> is_strong_password p \<and> e_hash_password E p = Inr hash
              \<and> u = invited_user E org i username hash)
       else user_by_email (o_realm_id org) (in_email i) d = Some u \<and> account_shown E sid bearer password u d"
    using invited_ok(2) [OF who] unfolding a(3) by auto
  then show ?thesis
    using row i org a(1, 2) again join_organization_effect(1) [of E org i u created m] unfolding e
    by (intro exI [of _ i] exI [of _ org] exI [of _ u] conjI) assumption+
qed

definition invite_org :: organization where
  "invite_org = \<lparr>o_id = 70, o_realm_id = 3, o_name = ''Acme'', o_alias = ''acme'', o_enabled = True, o_attributes = JObj [],
     o_claim_attribute_names = [], o_redirect_url = None, o_created_at = 0, o_updated_at = 0, o_deleted_at = None\<rparr>"

definition invite_row :: invitation where
  "invite_row = \<lparr>in_id = 71, in_organization_id = 70, in_email = ''a@b.org'', in_first_name = None, in_last_name = None,
     in_token_hash = ''invite'', in_status = InvitePending, in_invited_by = None, in_expires_at = 5, in_created_at = 0,
     in_accepted_at = None\<rparr>"

definition invite_db :: db where
  "invite_db = account_db\<lparr>d_orgs := [invite_org], d_invitations := [invite_row]\<rparr>"

lemma invite_db_rows [simp]:
  "d_invitations invite_db = [invite_row]" "d_orgs invite_db = [invite_org]" "d_users invite_db = [sample_user]"
  by (simp_all add: invite_db_def account_db_def info_db_def)

lemma invitation_sound_witness:
  "\<exists>a e. acceptance toy_env ''invite'' None None None (Some ''pw'') invite_db = (Inr a, e)
     \<and> (\<exists>x \<in> set (d_memberships e). om_organization_id x = 70 \<and> om_user_id x = 7)
     \<and> acceptance toy_env ''invite'' None None None (Some ''pw'') e = (Inl InvalidRequest, e)"
proof -
  have known: "user_by_email 3 ''a@b.org'' invite_db = Some sample_user"
    by (simp add: user_by_email_def sample_user_def)
  have "account_shown toy_env None None (Some ''pw'') sample_user invite_db"
    by (simp add: account_shown_def sample_user_def toy_env_def sample_env_def)
  with known have who: "find_or_create_invited toy_env invite_org invite_row None None None (Some ''pw'') invite_db
      = (Inr (sample_user, False), invite_db)"
    unfolding find_or_create_invited_def by (simp add: prog_ok invited_account_ok invite_org_def invite_row_def)
  have "invitation_by_hash ''invite'' invite_db = Some invite_row" "org_by_id (in_organization_id invite_row) invite_db = Some invite_org"
    by (simp_all add: invitation_by_hash_def org_by_id_def invite_row_def invite_org_def)
  moreover have "fst (invitation_accept 0 (in_id invite_row) (add_member m invite_db)) \<noteq> 0" for m
    by (simp add: invitation_accept_def add_member_def) (simp add: invite_row_def)
  moreover have "in_status invite_row = InvitePending" "in_expires_at invite_row = 5" "o_enabled invite_org"
    by (simp_all add: invite_row_def invite_org_def)
  ultimately have "\<exists>a e. acceptance toy_env ''invite'' None None None (Some ''pw'') invite_db = (Inr a, e)"
    unfolding acceptance_def by (simp add: prog_ok who) blast
  then obtain a e where run: "acceptance toy_env ''invite'' None None None (Some ''pw'') invite_db = (Inr a, e)"
    by blast
  have "distinct (map in_id (d_invitations invite_db))" "distinct (map in_token_hash (d_invitations invite_db))"
    by simp_all
  from invitation_sound [OF run this] obtain i org u where i: "i \<in> set (d_invitations invite_db)"
    and org: "org_by_id (in_organization_id i) invite_db = Some org"
    and found: "if ia_account_created a
       then user_by_email (o_realm_id org) (in_email i) invite_db = None
         \<and> (\<exists>p hash. Some ''pw'' = Some p \<and> is_strong_password p \<and> e_hash_password toy_env p = Inr hash
              \<and> u = invited_user toy_env org i None hash)
       else user_by_email (o_realm_id org) (in_email i) invite_db = Some u
         \<and> account_shown toy_env None None (Some ''pw'') u invite_db"
    and member: "\<exists>x \<in> set (d_memberships e). om_organization_id x = o_id org \<and> om_user_id x = u_id u"
    and again: "acceptance toy_env ''invite'' None None None (Some ''pw'') e = (Inl InvalidRequest, e)"
    by blast
  from i org have "o_id org = 70" "o_realm_id org = 3" "in_email i = ''a@b.org''"
    by (auto simp: org_by_id_def invite_row_def invite_org_def)
  moreover from this found known have "u = sample_user"
    by (simp split: if_split_asm)
  ultimately have "\<exists>x \<in> set (d_memberships e). om_organization_id x = 70 \<and> om_user_id x = 7"
    using member by (simp add: sample_user_def)
  with run again show ?thesis
    by blast
qed

section \<open>A recovery obeys the password policy\<close>

text \<open>Unlike a reset, a recovery asks the password policy of the realm; like it, it leaves every session of the
  user alone.\<close>

lemma recovery_confirm_ok:
  assumes "recovery_confirm E token pw d = (Inr r, e)"
  shows "\<exists>t u h m. recovery_by_hash (e_db_now E) (sha2_256_hex E token) d = Some t \<and> user_by_id (art_user_id t) d = Some u
    \<and> validate_password E (case realm_by_id (u_realm_id u) d of Some r \<Rightarrow> password_policy_of (r_config r)
         | None \<Rightarrow> default_password_policy) pw = Inr ()
    \<and> e_hash_password E pw = Inr h \<and> user_update (e_db_now E) (u\<lparr>u_password_hash := Some h\<rparr>) d = (Inr (), m)
    \<and> e = record_event E 2 (recovery_event E t u) (recovery_mark_used (e_db_now E) (art_id t) m)
    \<and> r = [(''recovered'', JBool True)]"
  using assms unfolding recovery_confirm_def
  by (auto simp: prog_ok map_err_Inr)

lemma recovered_password:
  assumes "recovery_confirm E token pw d = (Inr r, e)" and ids: "distinct (map u_id (d_users d))"
  shows "\<exists>(u :: user) h. e_hash_password E pw = Inr h \<and> password_is (u_id u) (Some h) e"
proof -
  from recovery_confirm_ok [OF assms(1)] obtain t u h m where u: "user_by_id (art_user_id t) d = Some u"
    and h: "e_hash_password E pw = Inr h" and m: "user_update (e_db_now E) (u\<lparr>u_password_hash := Some h\<rparr>) d = (Inr (), m)"
    and e: "e = record_event E 2 (recovery_event E t u) (recovery_mark_used (e_db_now E) (art_id t) m)"
    by blast
  have "password_is (u_id u) (Some h) (recovery_mark_used (e_db_now E) (art_id t) m)"
    using user_update_password(1) [OF ids u m] by (simp add: password_is_def recovery_mark_used_def)
  then have "password_is (u_id u) (Some h) e"
    unfolding e by (rule password.keeps_record)
  with h show ?thesis
    by blast
qed

end
