(* ===== verification/Logout.thy ===== *)
theory Logout
  imports Recovery
begin

text \<open>Logout: the handler (\<open>endpoints/logout.rs\<close>), the tokens sent to the back channel of the clients and the page
  with the frames of their front channel (\<open>endpoints/session\<close>).  The HTTP client is a parameter \<open>send\<close>: the
  address and the body give the status or an error.  Debug formatting of characters beyond ASCII is the parameter
  \<open>wide\<close>.\<close>

section \<open>Back channel\<close>

(*@ oidc-oidc/src/endpoints/session/backchannel_logout.rs 26-44 LogoutTokenClaims *)
record logout_claims =
  lo_iss :: string
  lo_sub :: "string option"
  lo_aud :: string
  lo_iat :: int
  lo_jti :: string
  lo_events :: json
  lo_sid :: "string option"

definition logout_members :: "logout_claims \<Rightarrow> members" where
  "logout_members c =
     [(''iss'', JStr (lo_iss c))]
     @ (case lo_sub c of None \<Rightarrow> [] | Some s \<Rightarrow> [(''sub'', JStr s)])
     @ [(''aud'', JStr (lo_aud c)), (''iat'', JNum (lo_iat c)), (''jti'', JStr (lo_jti c)), (''events'', lo_events c)]
     @ (case lo_sid c of None \<Rightarrow> [] | Some s \<Rightarrow> [(''sid'', JStr s)])"

definition logout_event :: json where
  "logout_event = JObj [(''http://schemas.openid.net/event/backchannel-logout'', JObj [])]"

(*@ oidc-oidc/src/tokens/jwt_service.rs 490-496 encode_logout_token *)
definition encode_logout_token :: "env \<Rightarrow> token_service \<Rightarrow> logout_claims \<Rightarrow> string result" where
  "encode_logout_token E svc c = encode_jwt E svc (logout_members c)"

text \<open>\<open>k\<close> counts the clients that were served before: each token has an identifier and a time of its own.\<close>

definition logout_claims_for :: "env \<Rightarrow> nat \<Rightarrow> string \<Rightarrow> string \<Rightarrow> string \<Rightarrow> string \<Rightarrow> bool \<Rightarrow> logout_claims" where
  "logout_claims_for E k issuer subject audience sid include_sid =
     \<lparr>lo_iss = issuer, lo_sub = Some subject, lo_aud = audience, lo_iat = timestamp (e_clock E k),
      lo_jti = e_uuid_text E (e_uuid E k), lo_events = logout_event, lo_sid = (if include_sid then Some sid else None)\<rparr>"

(*@ oidc-oidc/src/endpoints/session/backchannel_logout.rs 68-95 issue_logout_token *)
definition issue_logout_token ::
  "env \<Rightarrow> nat \<Rightarrow> token_service \<Rightarrow> string \<Rightarrow> string \<Rightarrow> string \<Rightarrow> string \<Rightarrow> bool \<Rightarrow> string result" where
  "issue_logout_token E k svc issuer subject audience sid include_sid =
     encode_logout_token E svc (logout_claims_for E k issuer subject audience sid include_sid)"

(*@ oidc-oidc/src/endpoints/session/backchannel_logout.rs 47-59 BackchannelLogoutResult *)
record delivery =
  dv_client_id :: string
  dv_uri :: string
  dv_success :: bool
  dv_status :: "nat option"
  dv_error :: "string option"

type_synonym sender = "string \<Rightarrow> string \<Rightarrow> string + nat"

(*@ oidc-oidc/src/endpoints/session/backchannel_logout.rs 106-171 send_backchannel_logout, send_logout_token_http *)
definition send_backchannel :: "env \<Rightarrow> sender \<Rightarrow> string \<Rightarrow> string \<Rightarrow> delivery" where
  "send_backchannel E send uri token =
     (case send uri (''logout_token='' @ e_percent E token) of
        Inr code \<Rightarrow> \<lparr>dv_client_id = [], dv_uri = uri, dv_success = (code = 200 \<or> code = 204), dv_status = Some code,
          dv_error = (if code = 200 \<or> code = 204 then None else Some (''RP returned HTTP '' @ decimal (int code)))\<rparr>
      | Inl e \<Rightarrow> \<lparr>dv_client_id = [], dv_uri = uri, dv_success = False, dv_status = None, dv_error = Some e\<rparr>)"

(*@ oidc-oidc/src/endpoints/session/backchannel_logout.rs 180-224 perform_backchannel_logout *)
fun perform_backchannel ::
  "env \<Rightarrow> nat \<Rightarrow> sender \<Rightarrow> token_service \<Rightarrow> string \<Rightarrow> string \<Rightarrow> string \<Rightarrow> client list \<Rightarrow> delivery list" where
  "perform_backchannel E k send svc issuer subject sid [] = []"
| "perform_backchannel E k send svc issuer subject sid (c # cs) =
     (case c_backchannel_logout_uri c of
        None \<Rightarrow> perform_backchannel E k send svc issuer subject sid cs
      | Some uri \<Rightarrow>
          (case issue_logout_token E k svc issuer subject (c_client_id c) sid (c_backchannel_logout_session_required c) of
             Inr token \<Rightarrow> (send_backchannel E send uri token)\<lparr>dv_client_id := c_client_id c\<rparr>
           | Inl e \<Rightarrow> \<lparr>dv_client_id = c_client_id c, dv_uri = uri, dv_success = False, dv_status = None,
               dv_error = Some (''Token issuance failed: '' @ error_text e)\<rparr>)
          # perform_backchannel E (k + 1) send svc issuer subject sid cs)"


section \<open>Front channel\<close>

text \<open>\<open>{:?}\<close> of a string: quotation marks, backslashes and control characters are escaped, nothing else of ASCII.\<close>

definition debug_char :: "(string \<Rightarrow> string) \<Rightarrow> string \<Rightarrow> string" where
  "debug_char wide ch =
     (case ch of
        [c] \<Rightarrow>
          let n = byte c in
          if c = CHR 0x22 then [CHR 0x5C, CHR 0x22]
          else if c = CHR 0x5C then [CHR 0x5C, CHR 0x5C]
          else if n = 0 then [CHR 0x5C, CHR ''0'']
          else if n = 9 then [CHR 0x5C, CHR ''t'']
          else if n = 10 then [CHR 0x5C, CHR ''n'']
          else if n = 13 then [CHR 0x5C, CHR ''r'']
          else if n < 32 then [CHR 0x5C] @ ''u{'' @ (if n < 16 then [] else [CHR ''1'']) @ [''0123456789abcdef'' ! (n mod 16)] @ ''}''
          else if n = 127 then [CHR 0x5C] @ ''u{7f}''
          else [c]
      | _ \<Rightarrow> wide ch)"

definition debug_text :: "(string \<Rightarrow> string) \<Rightarrow> string \<Rightarrow> string" where
  "debug_text wide s = [CHR 0x22] @ concat (map (debug_char wide) (utf8_chars s)) @ [CHR 0x22]"

(*@ oidc-oidc/src/endpoints/session/frontchannel_logout.rs 41-55 frame of a client *)
definition logout_frame :: "env \<Rightarrow> string \<Rightarrow> string \<Rightarrow> client \<Rightarrow> string \<Rightarrow> string" where
  "logout_frame E issuer sid c uri =
     ''<iframe src='' @ [CHR 0x22] @ uri @ ''?iss='' @ e_percent E issuer
     @ (if c_frontchannel_logout_session_required c then ''&sid='' @ e_percent E sid else [])
     @ [CHR 0x22] @ '' style='' @ [CHR 0x22] @ ''display:none;width:0;height:0;border:none;'' @ [CHR 0x22] @ ''></iframe>''"

definition nl :: string where "nl = [CHR 0x0A]"

text \<open>The page, line by line: what stands before and behind the state.\<close>

definition page_head :: "(string \<Rightarrow> string) \<Rightarrow> string \<Rightarrow> string \<Rightarrow> string" where
  "page_head wide frames target =
     ''<!DOCTYPE html>'' @ nl @ ''<html>'' @ nl @ ''<head><title>Front-Channel Logout</title></head>'' @ nl @ ''<body>'' @ nl
     @ frames @ nl @ ''<script>'' @ nl
     @ ''const redirectTarget = '' @ debug_text wide target @ '';'' @ nl"

definition page_tail :: string where
  "page_tail =
     '';'' @ nl @ ''setTimeout(function() {'' @ nl @ ''    var redirect = redirectTarget;'' @ nl
     @ ''    if (redirectState) {'' @ nl
     @ ''        redirect += (redirect.indexOf('?') === -1 ? '?' : '&') + 'state=' + encodeURIComponent(redirectState);'' @ nl
     @ ''    }'' @ nl @ ''    window.location.href = redirect;'' @ nl @ ''}, 5000);'' @ nl
     @ ''</script>'' @ nl @ ''</body>'' @ nl @ ''</html>''"

(*@ oidc-oidc/src/endpoints/session/frontchannel_logout.rs 62-83 html of the page *)
definition logout_html :: "(string \<Rightarrow> string) \<Rightarrow> string \<Rightarrow> string \<Rightarrow> string \<Rightarrow> string" where
  "logout_html wide frames target st =
     page_head wide frames target @ ''const redirectState = '' @ debug_text wide st @ page_tail"

text \<open>The origins are an ordered set of texts; \<open>origin\<close> is the origin of an address that parses.\<close>

(*@ oidc-oidc/src/endpoints/session/frontchannel_logout.rs 86-96 content security policy of the page *)
definition logout_policy :: "string list \<Rightarrow> string" where
  "logout_policy origins =
     ''default-src 'self'; '' @ ''script-src 'self' 'unsafe-inline';'' @ '' style-src 'self' 'unsafe-inline'; img-src 'self' data:; ''
     @ (let os = sort_by str_le (remdups origins)
        in if os = [] then ''frame-src 'none'' @ [CHR 0x27] else ''frame-src 'self' '' @ join '' '' os)
     @ ''; frame-ancestors 'none'' @ [CHR 0x27]"


text \<open>What the handler answers: a page with its policy, or a redirect.  Both clear the session cookie.\<close>

datatype logout_answer = Logout_Page string string | Logout_Redirect string

(*@ oidc-oidc/src/session_cookie.rs 78-83 clear_session_cookie_header *)
definition clear_cookie_header :: string where
  "clear_cookie_header = ''oidc_session=; HttpOnly; Secure; SameSite=Lax; Max-Age=0; Path=/''"

(*@ oidc-oidc/src/endpoints/session/frontchannel_logout.rs 30-104 build_frontchannel_logout_html *)
definition frontchannel_page ::
  "env \<Rightarrow> (string \<Rightarrow> string) \<Rightarrow> (string \<Rightarrow> string option) \<Rightarrow> string \<Rightarrow> string \<Rightarrow> client list \<Rightarrow> string option \<Rightarrow> string option
     \<Rightarrow> logout_answer" where
  "frontchannel_page E wide origin issuer sid cs target st =
     (let uris = List.map_filter (\<lambda>c. map_option (Pair c) (c_frontchannel_logout_uri c)) cs
      in Logout_Page
           (logout_html wide (concat (map (\<lambda>(c, uri). logout_frame E issuer sid c uri) uris))
              (case target of None \<Rightarrow> ''/'' | Some t \<Rightarrow> t) (case st of None \<Rightarrow> [] | Some s \<Rightarrow> s))
           (logout_policy (List.map_filter (\<lambda>(c, uri). origin uri) uris)))"


section \<open>The handler\<close>

definition note_client :: "uuid \<Rightarrow> uuid list \<Rightarrow> uuid list" where
  "note_client c ids = (if c \<in> set ids then ids else ids @ [c])"

definition note_clients :: "session list \<Rightarrow> uuid list \<Rightarrow> uuid list" where
  "note_clients ss ids = fold (\<lambda>s. note_client (s_client_id s)) ss ids"

text \<open>Who is logged out: the user, the session identifier for the clients, the clients, and the database after the
  revocation.  Failures of the database are not modelled, a hint that does not verify is ignored.\<close>

type_synonym logged_out = "uuid option \<times> string option \<times> uuid list \<times> db"

(*@ oidc-oidc/src/endpoints/logout.rs 43-72 logout by the hint *)
definition logout_by_hint :: "env \<Rightarrow> hub \<Rightarrow> string option \<Rightarrow> db \<Rightarrow> logged_out" where
  "logout_by_hint E H hint d =
     (case Option.bind hint (\<lambda>h. case verify_id_any E H (timestamp (e_clock E 0)) h d of
              Inr subject \<Rightarrow> e_parse_uuid E subject | Inl _ \<Rightarrow> None) of
        None \<Rightarrow> (None, None, [], d)
      | Some uid \<Rightarrow>
          let ss = sessions_active_of_user (e_db_now E) uid d
          in (Some uid, (case ss of [] \<Rightarrow> None | s # _ \<Rightarrow> Some (s_sid s)), note_clients ss [],
              session_revoke_online_user uid d))"

definition cookie_uuid :: "env \<Rightarrow> string option \<Rightarrow> uuid option" where
  "cookie_uuid E cookie =
     Option.bind (case e_key E of Inl _ \<Rightarrow> None | Inr key \<Rightarrow> extract_session_id E cookie key) (e_parse_uuid E)"

text \<open>The cookie counts when the hint gave no user.\<close>

(*@ oidc-oidc/src/endpoints/logout.rs 74-103 logout by the cookie *)
definition logout_by_cookie :: "env \<Rightarrow> string option \<Rightarrow> logged_out \<Rightarrow> logged_out" where
  "logout_by_cookie E cookie out =
     (case out of
        (Some uid, sid, ids, d) \<Rightarrow> out
      | (None, sid, ids, d) \<Rightarrow>
          (case cookie_uuid E cookie of
             None \<Rightarrow> out
           | Some i \<Rightarrow>
               (case session_by_id i d of
                  None \<Rightarrow> out
                | Some s \<Rightarrow>
                    if s_revoked s then out
                    else let ids = note_client (s_client_id s) ids
                         in case s_user_id s of
                              Some uid \<Rightarrow> (Some uid, Some (s_sid s),
                                 note_clients (sessions_active_of_user (e_db_now E) uid d) ids, session_revoke_online_user uid d)
                            | None \<Rightarrow> (None, Some (s_sid s), ids, session_revoke (s_id s) d))))"

(*@ oidc-oidc/src/endpoints/logout.rs 209-234 validate_redirect_uri *)
definition logout_target :: "string option \<Rightarrow> string option \<Rightarrow> db \<Rightarrow> string option" where
  "logout_target uri cid d =
     Option.bind uri (\<lambda>u. Option.bind cid (\<lambda>i. Option.bind (client_by_client_id i d) (\<lambda>c.
       if u \<in> set (c_post_logout_redirect_uris c) then Some u
       else if u \<in> set (c_redirect_uris c) then Some u else None)))"

(*@ oidc-oidc/src/endpoints/logout.rs 236-248 build_redirect *)
definition logout_redirect :: "env \<Rightarrow> string option \<Rightarrow> string option \<Rightarrow> string" where
  "logout_redirect E uri st =
     (case uri of
        None \<Rightarrow> ''/''
      | Some u \<Rightarrow> u @ (case st of None \<Rightarrow> [] | Some s \<Rightarrow> ''?state='' @ e_percent E s))"

(*@ oidc-oidc/src/endpoints/logout.rs 105-122 clients of the logout *)
definition logout_clients :: "uuid list \<Rightarrow> db \<Rightarrow> client list \<times> client list" where
  "logout_clients ids d =
     (let cs = List.map_filter (\<lambda>i. client_by_id i d) ids
      in (filter (\<lambda>c. c_frontchannel_logout_uri c \<noteq> None) cs, filter (\<lambda>c. c_backchannel_logout_uri c \<noteq> None) cs))"

(*@ oidc-oidc/src/endpoints/logout.rs 124-160 back channel of the logout *)
definition notify_clients :: "env \<Rightarrow> hub \<Rightarrow> sender \<Rightarrow> client list \<Rightarrow> uuid option \<Rightarrow> string option \<Rightarrow> delivery list" where
  "notify_clients E H send cs uid sid =
     (case (cs, uid, sid) of
        (c # _, Some u, Some s) \<Rightarrow>
          perform_backchannel E 1 send (case e_services E (c_realm_id c) of Inr svc \<Rightarrow> svc | Inl _ \<Rightarrow> hb_service H)
            (hb_issuer H) (e_uuid_text E u) s cs
      | _ \<Rightarrow> [])"

(*@ oidc-oidc/src/endpoints/logout.rs 29-204 logout_handler *)
definition logout_handler ::
  "env \<Rightarrow> hub \<Rightarrow> sender \<Rightarrow> (string \<Rightarrow> string) \<Rightarrow> (string \<Rightarrow> string option) \<Rightarrow> string option \<Rightarrow> params \<Rightarrow> db
     \<Rightarrow> (logout_answer \<times> delivery list) \<times> db" where
  "logout_handler E H send wide origin cookie params d =
     (let (uid, sid, ids, e) = logout_by_cookie E cookie (logout_by_hint E H (params ''id_token_hint'') d);
          (front, back) = logout_clients ids e;
          told = notify_clients E H send back uid sid;
          target = logout_target (params ''post_logout_redirect_uri'') (params ''client_id'') e
      in ((case (front, uid, sid) of
             (_ # _, Some _, Some s) \<Rightarrow> frontchannel_page E wide origin (hb_issuer H) s front target (params ''state'')
           | _ \<Rightarrow> Logout_Redirect (logout_redirect E target (params ''state'')), told), e))"

(*@ oidc-oidc/src/endpoints/session/check_session.rs 28-37 check_session_handler *)
definition check_session :: "nat \<times> string" where
  "check_session = (501, ''OIDC Session Management is not currently supported'')"


section \<open>What a logout does\<close>






text \<open>Revocation leaves the clients alone, so that the address is checked against those that were there.\<close>

lemma revoke_clients [simp]:
  "d_clients (session_revoke_online_user uid d) = d_clients d" "d_clients (session_revoke i d) = d_clients d"
  by (simp_all add: session_revoke_online_user_def session_revoke_def update_sessions_def)






definition plain :: "char \<Rightarrow> bool" where
  "plain c \<longleftrightarrow> 32 \<le> byte c \<and> byte c < 127 \<and> c \<noteq> CHR 0x22 \<and> c \<noteq> CHR 0x5C"

lemma utf8_chars_ascii: "\<forall>c \<in> set s. byte c < 128 \<Longrightarrow> utf8_chars s = map (\<lambda>c. [c]) s"
proof (induction s)
  case (Cons c s)
  then have "takeWhile is_cont s = []" "dropWhile is_cont s = s"
    by (cases s; simp add: is_cont_def)+
  with Cons show ?case
    by simp
qed simp

lemma debug_char_plain: "plain c \<Longrightarrow> debug_char wide [c] = [c]"
  by (simp add: debug_char_def plain_def Let_def)

lemma debug_text_plain:
  assumes "\<forall>c \<in> set s. plain c"
  shows "debug_text wide s = [CHR 0x22] @ s @ [CHR 0x22]"
proof -
  have "concat (map (debug_char wide) (map (\<lambda>c. [c]) s)) = s"
    using assms by (induction s) (simp_all add: debug_char_plain)
  moreover have "byte c < 128" if "plain c" for c
    using that by (simp add: plain_def)
  then have "utf8_chars s = map (\<lambda>c. [c]) s"
    using assms by (blast intro: utf8_chars_ascii)
  ultimately show ?thesis
    by (simp add: debug_text_def)
qed

text \<open>The page of the front channel hands the parameter \<open>state\<close> of the request through to its script: any text of
  printable ASCII without a quotation mark and a backslash, the end of a script element included, stands in the page
  as it was sent, and the policy of the page allows inline scripts.\<close>

theorem logout_page_reflects_state:
  assumes "logout_handler E H send wide origin cookie params d = ((Logout_Page html policy, told), e)"
    and "params ''state'' = Some s" and "\<forall>c \<in> set s. plain c"
  shows "(\<exists>before behind. html = before @ ''const redirectState = '' @ [CHR 0x22] @ s @ [CHR 0x22] @ behind)
    \<and> (\<exists>before behind. policy = before @ ''script-src 'self' 'unsafe-inline';'' @ behind)"
proof -
  obtain frames target origins where html: "html = logout_html wide frames target s"
    and policy: "policy = logout_policy origins"
    using assms(1, 2) unfolding logout_handler_def
    by (auto simp: Let_def frontchannel_page_def split: prod.splits list.splits option.splits)
  have "\<exists>before behind. html = before @ ''const redirectState = '' @ [CHR 0x22] @ s @ [CHR 0x22] @ behind"
    unfolding html logout_html_def debug_text_plain [OF assms(3)]
    by (intro exI [of _ "page_head wide frames target"] exI [of _ page_tail]) simp
  moreover have "\<exists>before behind. policy = before @ ''script-src 'self' 'unsafe-inline';'' @ behind"
    unfolding policy logout_policy_def by (rule exI, rule exI) (rule refl)
  ultimately show ?thesis
    by blast
qed

definition logout_env :: env where
  "logout_env = sample_env\<lparr>e_parse_uuid := (\<lambda>_. Some (s_id sample_session))\<rparr>"

definition logout_client :: client where
  "logout_client = secret_client\<lparr>c_frontchannel_logout_uri := Some ''https://rp/out'', c_post_logout_redirect_uris := [''https://rp'']\<rparr>"

definition logout_db :: db where
  "logout_db = account_db\<lparr>d_clients := [logout_client],
     d_sessions := [sample_session\<lparr>s_client_id := c_id logout_client\<rparr>]\<rparr>"

definition logout_params :: params where
  "logout_params = [''client_id'' \<mapsto> c_client_id secret_client, ''post_logout_redirect_uri'' \<mapsto> ''https://rp'',
     ''state'' \<mapsto> ''</script><script>alert(1)</script>'']"

abbreviation logout_run :: "(logout_answer \<times> delivery list) \<times> db" where
  "logout_run \<equiv> logout_handler logout_env sample_hub (\<lambda>_ _. Inl []) (\<lambda>c. c) (\<lambda>_. None)
     (Some ''oidc_session=S.keyS'') logout_params logout_db"

lemma logout_cookie: "cookie_uuid logout_env (Some ''oidc_session=S.keyS'') = Some 1"
proof -
  have "split_on (CHR '';'') ''oidc_session=S.keyS'' = [''oidc_session=S.keyS'']"
    "trim ''oidc_session=S.keyS'' = ''oidc_session=S.keyS''"
    "strip_prefix ''oidc_session=S.keyS'' ''oidc_session='' = Some ''S.keyS''"
    "split_once (CHR ''.'') ''S.keyS'' = Some (''S'', ''keyS'')"
    by code_simp+
  then show ?thesis
    by (simp add: cookie_uuid_def logout_env_def sample_env_def extract_session_id_def verify_cookie_def cookie_mac_def sample_session_def)
qed

lemma logout_session:
  "session_by_id 1 logout_db = Some (sample_session\<lparr>s_client_id := c_id logout_client\<rparr>)"
  "logout_by_hint logout_env sample_hub (logout_params ''id_token_hint'') logout_db = (None, None, [], logout_db)"
  by (simp_all add: session_by_id_def logout_db_def sample_session_def logout_by_hint_def logout_params_def)

lemma logout_page: "\<exists>html policy told e. logout_run = ((Logout_Page html policy, told), e)"
proof -
  let ?s = "sample_session\<lparr>s_client_id := c_id logout_client\<rparr>"
  have active: "sessions_active_of_user (e_db_now logout_env) 7 logout_db = [?s]"
    by (simp add: sessions_active_of_user_def logout_db_def sample_session_def logout_env_def sample_env_def minutes_def secs_def)
  have row: "\<not> s_revoked ?s" "s_user_id ?s = Some 7" "s_sid ?s = ''sid''"
    by (simp_all add: sample_session_def)
  have out: "logout_by_cookie logout_env (Some ''oidc_session=S.keyS'') (None, None, [], logout_db)
      = (Some 7, Some ''sid'', [c_id logout_client], session_revoke_online_user 7 logout_db)"
    using active row by (simp del: One_nat_def add: logout_by_cookie_def logout_cookie logout_session note_client_def note_clients_def)
  have "logout_clients [c_id logout_client] (session_revoke_online_user 7 logout_db) = ([logout_client], [])"
    by (simp add: logout_clients_def client_by_id_def)
      (simp add: logout_db_def logout_client_def secret_client_def sample_client_def Let_def map_filter_simps)
  then show ?thesis
    by (simp add: logout_handler_def logout_session out Let_def frontchannel_page_def)
qed


lemma logout_page_reflects_state_witness:
  "\<exists>html policy told e before behind. logout_run = ((Logout_Page html policy, told), e)
     \<and> html = before @ ''const redirectState = '' @ [CHR 0x22] @ ''</script><script>alert(1)</script>'' @ [CHR 0x22] @ behind"
proof -
  obtain html policy told e where run: "logout_run = ((Logout_Page html policy, told), e)"
    using logout_page by blast
  have "logout_params ''state'' = Some ''</script><script>alert(1)</script>''"
    by (simp add: logout_params_def)
  moreover have "\<forall>c \<in> set ''</script><script>alert(1)</script>''. plain c"
    by code_simp
  ultimately show ?thesis
    using logout_page_reflects_state [OF run] run by blast
qed

end
