(* ===== verification/Gateway.thy ===== *)
theory Gateway
  imports Logout Token_Endpoint "HOL-Library.Word"
begin

text \<open>The layers around the routes (\<open>openid-connect-wasi/src/middleware\<close>): the limit of requests per address, the
  check of the token against forged requests, the origins of cross-origin requests and the security headers.  Headers
  are given by name with their bytes; \<^const>\<open>header_text\<close> is \<open>HeaderValue::to_str\<close>.\<close>

type_synonym headers = "string \<Rightarrow> string option"

definition text_header :: "headers \<Rightarrow> string \<Rightarrow> string option" where
  "text_header hs name = Option.bind (hs name) header_text"


section \<open>Configuration of the limit\<close>

(*@ openid-connect-wasi/src/middleware/rate_limit.rs 27-35 RateLimitMode *)
datatype limit_mode = Local_Mode | Proxy_Mode | Disabled_Mode

(*@ openid-connect-wasi/src/middleware/rate_limit.rs 38-44 RateLimitMode::parse *)
definition parse_mode :: "string option \<Rightarrow> limit_mode" where
  "parse_mode value =
     (case map_option (\<lambda>v. to_ascii_lowercase (trim v)) value of
        Some v \<Rightarrow> if v \<in> {''proxy'', ''proxy-only'', ''upstream'', ''gateway''} then Proxy_Mode
                  else if v \<in> {''off'', ''disabled'', ''none''} then Disabled_Mode else Local_Mode
      | None \<Rightarrow> Local_Mode)"

(*@ openid-connect-wasi/src/middleware/rate_limit.rs 46-56 enforces_in_process, as_header_value *)
fun mode_text :: "limit_mode \<Rightarrow> string" where
  "mode_text Local_Mode = ''local''"
| "mode_text Proxy_Mode = ''proxy''"
| "mode_text Disabled_Mode = ''disabled''"

text \<open>\<open>str::parse\<close> of an unsigned integer below \<open>bound\<close>: digits, with an optional plus sign.\<close>

definition parse_unsigned :: "nat \<Rightarrow> string \<Rightarrow> nat option" where
  "parse_unsigned bound s =
     (let ds = (case s of c # cs \<Rightarrow> if c = CHR ''+'' then cs else s | [] \<Rightarrow> s);
          n = foldl (\<lambda>n c. 10 * n + (byte c - 48)) 0 ds
      in if ds \<noteq> [] \<and> (\<forall>c \<in> set ds. ascii_digit c) \<and> n < bound then Some n else None)"

text \<open>The buckets are a map from addresses to the start of a window and the number of requests in it.  An instant is a
  number of nanoseconds of the monotonic clock.\<close>

type_synonym bucket = "nat \<times> 32 word"

(*@ openid-connect-wasi/src/middleware/rate_limit.rs 59-73 RateLimiter, RateLimiterInner *)
record limiter =
  lm_buckets :: "string \<Rightarrow> bucket option"
  lm_max :: "32 word"
  lm_window :: nat
  lm_trust_proxy :: bool
  lm_mode :: limit_mode

(*@ openid-connect-wasi/src/middleware/rate_limit.rs 77-109 RateLimiter::from_env *)
definition limiter_of_env :: "(string \<Rightarrow> string option) \<Rightarrow> limiter" where
  "limiter_of_env var =
     \<lparr>lm_buckets = Map.empty,
      lm_max = of_nat (case Option.bind (var ''OIDC_RATE_LIMIT_MAX'') (parse_unsigned (2 ^ 32)) of None \<Rightarrow> 100 | Some n \<Rightarrow> n),
      lm_window = (case Option.bind (var ''OIDC_RATE_LIMIT_WINDOW_SECS'') (parse_unsigned (2 ^ 64)) of None \<Rightarrow> 60 | Some n \<Rightarrow> n),
      lm_trust_proxy = (case var ''OIDC_TRUST_PROXY_HEADERS'' of None \<Rightarrow> False
        | Some v \<Rightarrow> to_ascii_lowercase (trim v) \<in> {''1'', ''true'', ''yes'', ''on''}),
      lm_mode = parse_mode (var ''OIDC_RATE_LIMIT_MODE'')\<rparr>"


section \<open>Counting\<close>

definition second :: nat where
  "second = 1000000000"

definition saturating_pred :: "32 word \<Rightarrow> 32 word \<Rightarrow> 32 word" where
  "saturating_pred a b = (if a < b then 0 else a - b)"

text \<open>One bucket: \<open>None\<close> is the refusal.  The subtraction of instants saturates, the increment of the counter wraps in a
  release build.\<close>

definition count_request :: "32 word \<Rightarrow> nat \<Rightarrow> nat \<Rightarrow> bucket option \<Rightarrow> 32 word option \<times> bucket" where
  "count_request cap window now b =
     (let (start, n) = (case b of None \<Rightarrow> (now, 0) | Some entry \<Rightarrow> entry)
      in if window \<le> (now - start) div second then (Some (saturating_pred cap 1), (now, 1))
         else (if cap < n + 1 then None else Some (saturating_pred cap (n + 1)), (start, n + 1)))"

(*@ openid-connect-wasi/src/middleware/rate_limit.rs 113-133 RateLimiter::check *)
definition limiter_check :: "string \<Rightarrow> nat \<Rightarrow> limiter \<Rightarrow> 32 word option \<times> limiter" where
  "limiter_check ip now l =
     (let (answer, entry) = count_request (lm_max l) (lm_window l) now (lm_buckets l ip)
      in (answer, l\<lparr>lm_buckets := (lm_buckets l)(ip \<mapsto> entry)\<rparr>))"


section \<open>The address of the client\<close>

definition trim_quotes :: "string \<Rightarrow> string" where
  "trim_quotes s = rev (dropWhile (\<lambda>c. c = CHR 0x22) (rev (dropWhile (\<lambda>c. c = CHR 0x22) s)))"

text \<open>\<open>addr\<close> is the address part of a text that parses as an address with a port.\<close>

(*@ openid-connect-wasi/src/middleware/rate_limit.rs 272-288 normalize_forwarded_ip *)
definition normalize_ip :: "(string \<Rightarrow> string option) \<Rightarrow> string \<Rightarrow> string option" where
  "normalize_ip addr value =
     (if value = [] \<or> eq_ignore_ascii_case value ''unknown'' then None
      else case strip_prefix value ''['' of
             Some stripped \<Rightarrow> map_option fst (split_once (CHR '']'') stripped)
           | None \<Rightarrow> (case addr value of Some ip \<Rightarrow> Some ip | None \<Rightarrow> Some value))"

text \<open>The question mark of the code leaves the whole function at the first part that is not a \<open>for=\<close>.\<close>

fun first_forwarded :: "(string \<Rightarrow> string option) \<Rightarrow> string list \<Rightarrow> string option" where
  "first_forwarded addr [] = None"
| "first_forwarded addr (part # parts) =
     (case strip_prefix (trim part) ''for='' of
        None \<Rightarrow> None
      | Some value \<Rightarrow>
          (case normalize_ip addr (trim_quotes value) of Some ip \<Rightarrow> Some ip | None \<Rightarrow> first_forwarded addr parts))"

(*@ openid-connect-wasi/src/middleware/rate_limit.rs 247-259 forwarded_ip *)
definition forwarded_ip :: "(string \<Rightarrow> string option) \<Rightarrow> headers \<Rightarrow> string option" where
  "forwarded_ip addr hs =
     Option.bind (text_header hs ''forwarded'') (\<lambda>h.
       first_forwarded addr (concat (map (split_on (CHR '';'')) (split_on (CHR '','') h))))"

(*@ openid-connect-wasi/src/middleware/rate_limit.rs 261-270 x_forwarded_for_ip, x_real_ip *)
definition x_forwarded_for_ip :: "(string \<Rightarrow> string option) \<Rightarrow> headers \<Rightarrow> string option" where
  "x_forwarded_for_ip addr hs =
     Option.bind (text_header hs ''x-forwarded-for'') (\<lambda>h. normalize_ip addr (trim (hd (split_on (CHR '','') h))))"

definition x_real_ip :: "(string \<Rightarrow> string option) \<Rightarrow> headers \<Rightarrow> string option" where
  "x_real_ip addr hs = Option.bind (text_header hs ''x-real-ip'') (\<lambda>h. normalize_ip addr (trim h))"

text \<open>\<open>peer\<close> is the address of the connection, which the WebAssembly build does not have.\<close>

(*@ openid-connect-wasi/src/middleware/rate_limit.rs 218-245 extract_client_ip, peer_addr *)
definition client_ip :: "(string \<Rightarrow> string option) \<Rightarrow> bool \<Rightarrow> headers \<Rightarrow> string option \<Rightarrow> string" where
  "client_ip addr trust hs peer =
     (case (if trust then (case forwarded_ip addr hs of Some ip \<Rightarrow> Some ip
              | None \<Rightarrow> (case x_forwarded_for_ip addr hs of Some ip \<Rightarrow> Some ip | None \<Rightarrow> x_real_ip addr hs))
            else None) of
        Some ip \<Rightarrow> ip
      | None \<Rightarrow> (case peer of Some ip \<Rightarrow> ip | None \<Rightarrow> ''unknown''))"

text \<open>The answer is passed on with headers, or the request is refused with status 429.\<close>

datatype limit_answer = Passed_On "(string \<times> string) list" | Too_Many "(string \<times> string) list"

definition u32_text :: "32 word \<Rightarrow> string" where
  "u32_text n = decimal (uint n)"

(*@ openid-connect-wasi/src/middleware/rate_limit.rs 137-211 rate_limit_middleware *)
definition rate_limit :: "(string \<Rightarrow> string option) \<Rightarrow> headers \<Rightarrow> string option \<Rightarrow> nat \<Rightarrow> limiter option \<Rightarrow> limit_answer \<times> limiter option" where
  "rate_limit addr hs peer now found =
     (case found of
        None \<Rightarrow> (Passed_On [], None)
      | Some l \<Rightarrow>
          let mode = (''x-oidc-rate-limit-mode'', mode_text (lm_mode l))
          in if lm_mode l \<noteq> Local_Mode then (Passed_On [mode], Some l)
             else case limiter_check (client_ip addr (lm_trust_proxy l) hs peer) now l of
                    (Some n, l') \<Rightarrow> (Passed_On [(''x-ratelimit-limit'', u32_text (lm_max l)), (''x-ratelimit-remaining'', u32_text n), mode], Some l')
                  | (None, l') \<Rightarrow> (Too_Many [(''x-ratelimit-limit'', u32_text (lm_max l)), (''x-ratelimit-remaining'', ''0''),
                      (''retry-after'', decimal (int (lm_window l))), mode], Some l'))"


section \<open>Forged requests\<close>

(*@ openid-connect-wasi/src/middleware/csrf.rs 89-98 extract_csrf_cookie *)
definition csrf_cookie :: "headers \<Rightarrow> string option" where
  "csrf_cookie hs =
     Option.bind (text_header hs ''cookie'') (\<lambda>h.
       (case List.map_filter (\<lambda>pair. strip_prefix (trim pair) ''oidc_csrf_token='') (split_on (CHR '';'') h) of
          [] \<Rightarrow> None | v # _ \<Rightarrow> Some v))"

(*@ openid-connect-wasi/src/middleware/csrf.rs 82-87 is_browser_like_request *)
definition browser_like :: "headers \<Rightarrow> bool" where
  "browser_like hs \<longleftrightarrow> hs ''origin'' \<noteq> None \<or> hs ''referer'' \<noteq> None \<or> hs ''sec-fetch-site'' \<noteq> None \<or> hs ''sec-fetch-mode'' \<noteq> None"

(*@ openid-connect-wasi/src/middleware/csrf.rs 75-80 csrf_cookie_header *)
definition csrf_cookie_header :: "string \<Rightarrow> string" where
  "csrf_cookie_header value = ''oidc_csrf_token='' @ value @ ''; Path=/; SameSite=Strict; Secure; Max-Age=86400''"

text \<open>\<open>random\<close> is the hexadecimal text of 32 random bytes, \<open>None\<close> a failure of the source.  The answer is a refusal with
  status 403, or the request is passed on and a cookie is perhaps set.\<close>

datatype csrf_answer = Csrf_Refused | Csrf_Passed "string option"

(*@ openid-connect-wasi/src/middleware/csrf.rs 16-73 csrf_middleware, generate_csrf_token *)
definition csrf_check :: "string option \<Rightarrow> string \<Rightarrow> headers \<Rightarrow> csrf_answer" where
  "csrf_check random verb hs =
     (let cookie = csrf_cookie hs
      in if verb \<notin> {''GET'', ''HEAD'', ''OPTIONS''} \<and> hs ''x-api-key'' = None \<and> (browser_like hs \<or> cookie \<noteq> None)
            \<and> \<not> (case (cookie, text_header hs ''x-csrf-token'') of (Some c, Some h) \<Rightarrow> c = h | _ \<Rightarrow> False)
         then Csrf_Refused
         else Csrf_Passed (if cookie = None then map_option csrf_cookie_header random else None))"


section \<open>Origins and headers\<close>

(*@ openid-connect-wasi/src/middleware/cors.rs 9-20 origins of the environment *)
definition cors_origins :: "string option \<Rightarrow> string list" where
  "cors_origins var =
     filter (\<lambda>s. s \<noteq> []) (map trim (split_on (CHR '','') (case var of None \<Rightarrow> [] | Some v \<Rightarrow> v)))"

text \<open>The layer is built by the package \<open>tower-http\<close>: \<open>allow_origin\<close> is its method, \<open>base\<close> the layer with the methods
  and headers.  An origin that is not a header value is skipped.\<close>

(*@ openid-connect-wasi/src/middleware/cors.rs 8-63 cors_layer *)
definition cors_layer :: "(string \<Rightarrow> 'layer \<Rightarrow> 'layer) \<Rightarrow> 'layer \<Rightarrow> (string \<Rightarrow> bool) \<Rightarrow> string option \<Rightarrow> 'layer" where
  "cors_layer allow_origin base is_value var =
     fold (\<lambda>origin layer. if is_value origin then allow_origin origin layer else layer) (cors_origins var) base"

text \<open>\<open>allow_origin\<close> is documented to set the allowed origin, so that every call replaces the one before: of several
  configured origins the last one alone is allowed.\<close>

lemma cors_only_last:
  assumes sets: "\<And>a b layer. allow_origin a (allow_origin b layer) = allow_origin a layer"
    and "cors_origins var = before @ [origin]" and "is_value origin"
  shows "cors_layer allow_origin base is_value var = allow_origin origin base"
proof -
  have "allow_origin origin (fold (\<lambda>o' layer. if is_value o' then allow_origin o' layer else layer) xs layer)
      = allow_origin origin layer" for xs layer
    by (induction xs arbitrary: layer) (simp_all add: sets)
  with assms(2, 3) show ?thesis
    by (simp add: cors_layer_def)
qed

(*@ openid-connect-wasi/src/middleware/security_headers.rs 9-18 insert_header_if_absent *)
definition insert_if_absent :: "string \<times> string \<Rightarrow> headers \<Rightarrow> headers" where
  "insert_if_absent = (\<lambda>(name, value) hs. if hs name = None then hs(name \<mapsto> value) else hs)"

(*@ openid-connect-wasi/src/middleware/security_headers.rs 33-51 headers of every response *)
definition security_headers :: "(string \<times> string) list" where
  "security_headers =
     [(''x-content-type-options'', ''nosniff''), (''x-frame-options'', ''DENY''), (''x-xss-protection'', ''0''),
      (''referrer-policy'', ''strict-origin-when-cross-origin''),
      (''content-security-policy'', ''default-src 'self'; script-src 'self'; style-src 'self' 'unsafe-inline'; img-src 'self' data:; connect-src 'self'; font-src 'self'; object-src 'none'; base-uri 'self'; form-action 'self'; frame-ancestors 'none'' @ [CHR 0x27]),
      (''strict-transport-security'', ''max-age=63072000; includeSubDomains; preload''), (''cache-control'', ''no-store'')]"

(*@ openid-connect-wasi/src/middleware/security_headers.rs 29-54 security_headers_middleware *)
definition secure_response :: "headers \<Rightarrow> headers" where
  "secure_response hs = fold insert_if_absent security_headers hs"

text \<open>A handler that sets a policy of its own, as the logout page does, keeps it.\<close>

lemma secure_response_keeps: "hs name = Some v \<Longrightarrow> secure_response hs name = Some v"
proof -
  have "insert_if_absent h hs name = Some v" if "hs name = Some v" for h hs
    using that by (cases h) (auto simp: insert_if_absent_def)
  then have "fold insert_if_absent xs hs name = Some v" if "hs name = Some v" for xs hs
    using that by (induction xs arbitrary: hs) simp_all
  then show "hs name = Some v \<Longrightarrow> secure_response hs name = Some v"
    by (simp only: secure_response_def)
qed


section \<open>How many requests pass\<close>

text \<open>A stretch of requests is counted in the order in which the lock is taken.\<close>

fun serve :: "(string \<times> nat) list \<Rightarrow> limiter \<Rightarrow> (string \<times> bool) list \<times> limiter" where
  "serve [] l = ([], l)"
| "serve ((ip, now) # reqs) l =
     (let (answer, l') = limiter_check ip now l; (answers, l'') = serve reqs l'
      in ((ip, answer \<noteq> None) # answers, l''))"

definition passed :: "string \<Rightarrow> (string \<times> bool) list \<Rightarrow> nat" where
  "passed ip answers = length (filter (\<lambda>a. a = (ip, True)) answers)"

definition counter :: "string \<Rightarrow> limiter \<Rightarrow> nat" where
  "counter ip l = (case lm_buckets l ip of None \<Rightarrow> 0 | Some (start, n) \<Rightarrow> unat n)"


text \<open>Within a window of a bucket at most the rest of the limit passes.\<close>

lemma serve_other:
  assumes "ip' \<noteq> ip" and "limiter_check ip' now l = (answer, l')"
  shows "lm_buckets l' ip = lm_buckets l ip" "lm_max l' = lm_max l" "lm_window l' = lm_window l"
  using assms by (auto simp: limiter_check_def split: prod.splits)

lemma count_in_window:
  assumes "\<not> window \<le> (now - start) div second" and "unat n + 1 < 2 ^ 32"
  shows "count_request cap window now (Some (start, n)) =
    (if unat cap < unat n + 1 then None else Some (saturating_pred cap (n + 1)), (start, n + 1))"
    and "unat (n + 1) = unat n + 1"
proof -
  show n: "unat (n + 1) = unat n + 1"
    using assms(2) by (simp add: unat_word_ariths)
  show "count_request cap window now (Some (start, n)) =
    (if unat cap < unat n + 1 then None else Some (saturating_pred cap (n + 1)), (start, n + 1))"
    using assms(1) n by (simp add: count_request_def word_less_nat_alt)
qed

lemma passed_simps [simp]:
  "passed ip [] = 0" "passed ip ((ip', b) # as) = (if ip' = ip \<and> b then 1 else 0) + passed ip as"
  by (auto simp: passed_def)

lemma rest_of_window:
  assumes "serve reqs l = (answers, l')" and "lm_buckets l ip = Some (start, n)"
    and "\<forall>(ip', t) \<in> set reqs. \<not> lm_window l \<le> (t - start) div second"
    and "unat n + length reqs < 2 ^ 32"
  shows "passed ip answers \<le> unat (lm_max l) - unat n"
  using assms
proof (induction reqs arbitrary: l n answers)
  case (Cons r reqs)
  obtain ip' now where r: "r = (ip', now)"
    by (cases r)
  obtain answer m where check: "limiter_check ip' now l = (answer, m)"
    by (cases "limiter_check ip' now l")
  obtain rest where rest: "serve reqs m = (rest, l')" "answers = (ip', answer \<noteq> None) # rest"
    using Cons.prems(1) check by (auto simp: r split: prod.splits)
  show ?case
  proof (cases "ip' = ip")
    case False
    note same = serve_other [OF False check]
    have "passed ip rest \<le> unat (lm_max m) - unat n"
      using Cons.prems by (intro Cons.IH [OF rest(1)]) (auto simp: same r)
    with False rest(2) same show ?thesis
      by simp
  next
    case True
    have win: "\<not> lm_window l \<le> (now - start) div second" and n: "unat n + 1 < 2 ^ 32"
      using Cons.prems(3, 4) by (simp_all add: r)
    note step = count_in_window [OF win n]
    have m: "m = l\<lparr>lm_buckets := (lm_buckets l)(ip \<mapsto> (start, n + 1))\<rparr>"
        "answer = (if unat (lm_max l) < unat n + 1 then None else Some (saturating_pred (lm_max l) (n + 1)))"
      using check True step(1) [of "lm_max l"] by (auto simp: limiter_check_def Cons.prems(2))
    have "passed ip rest \<le> unat (lm_max m) - unat (n + 1)"
      using Cons.prems(3, 4) by (intro Cons.IH [OF rest(1)]) (auto simp: m(1) r step(2))
    with True rest(2) m show ?thesis
      by (auto simp: step(2))
  qed
qed auto

lemma two_windows:
  assumes "serve reqs l = (answers, l')" and "lm_buckets l ip = Some (start, n)"
    and "\<forall>(ip', t) \<in> set reqs. lo \<le> t \<and> t < lo + lm_window l * second"
    and "unat n + length reqs < 2 ^ 32"
  shows "passed ip answers \<le> (unat (lm_max l) - unat n) + max 1 (unat (lm_max l))"
  using assms
proof (induction reqs arbitrary: l n answers start)
  case (Cons r reqs)
  obtain ip' now where r: "r = (ip', now)"
    by (cases r)
  obtain answer m where check: "limiter_check ip' now l = (answer, m)"
    by (cases "limiter_check ip' now l")
  obtain rest where rest: "serve reqs m = (rest, l')" "answers = (ip', answer \<noteq> None) # rest"
    using Cons.prems(1) check by (auto simp: r split: prod.splits)
  have times: "lo \<le> now" "now < lo + lm_window l * second" "\<forall>(ip', t) \<in> set reqs. lo \<le> t \<and> t < lo + lm_window l * second"
    using Cons.prems(3) by (simp_all add: r)
  consider (other) "ip' \<noteq> ip" | (same) "ip' = ip" "\<not> lm_window l \<le> (now - start) div second"
    | (reset) "ip' = ip" "lm_window l \<le> (now - start) div second"
    by blast
  then show ?case
  proof cases
    case other
    note same = serve_other [OF other check]
    have "passed ip rest \<le> (unat (lm_max m) - unat n) + max 1 (unat (lm_max m))"
      using Cons.prems(2, 4) times(3) by (intro Cons.IH [OF rest(1)]) (simp_all add: same)
    with other rest(2) same show ?thesis
      by simp
  next
    case same
    have n: "unat n + 1 < 2 ^ 32"
      using Cons.prems(4) by simp
    note step = count_in_window [OF same(2) n]
    have m: "m = l\<lparr>lm_buckets := (lm_buckets l)(ip \<mapsto> (start, n + 1))\<rparr>"
        "answer = (if unat (lm_max l) < unat n + 1 then None else Some (saturating_pred (lm_max l) (n + 1)))"
      using check same(1) step(1) [of "lm_max l"] by (auto simp: limiter_check_def Cons.prems(2))
    have "passed ip rest \<le> (unat (lm_max m) - unat (n + 1)) + max 1 (unat (lm_max m))"
      using Cons.prems(4) times(3) by (intro Cons.IH [OF rest(1)]) (simp_all add: m(1) step(2))
    with same(1) rest(2) m show ?thesis
      by (auto simp: step(2))
  next
    case reset
    have m: "m = l\<lparr>lm_buckets := (lm_buckets l)(ip \<mapsto> (now, 1))\<rparr>"
      using check reset by (auto simp: limiter_check_def Cons.prems(2) count_request_def)
    have inside: "\<not> lm_window l \<le> (t - now) div second" if "t < lo + lm_window l * second" for t
    proof -
      have "0 < lm_window l * second" "t - now < lm_window l * second"
        using that times(1, 2) by linarith+
      then show ?thesis
        by (simp add: less_mult_imp_div_less not_le)
    qed
    have "passed ip rest \<le> unat (lm_max m) - unat (1 :: 32 word)"
      using Cons.prems(4) times(3) inside by (intro rest_of_window [OF rest(1)]) (auto simp: m)
    moreover have "passed ip answers \<le> Suc (passed ip rest)"
      using rest(2) by simp
    ultimately show ?thesis
      by (auto simp: m max_def)
  qed
qed simp

text \<open>C33 However many requests come from an address within the length of a window, at most twice the configured number of
  them passes, whatever came before: two windows can overlap the time.  A limit of zero counts as one here, since the
  request that opens a new window is not compared with it.  The counter has 32 bits, and the bound needs that it does
  not wrap.\<close>

theorem rate_limit_bound:
  assumes "serve reqs l = (answers, l')"
    and "\<forall>(ip', t) \<in> set reqs. lo \<le> t \<and> t < lo + lm_window l * second"
    and "counter ip l + length reqs < 2 ^ 32"
  shows "passed ip answers \<le> 2 * max 1 (unat (lm_max l))"
proof (cases "lm_buckets l ip")
  case (Some b)
  obtain start n where b: "b = (start, n)"
    by (cases b)
  have "passed ip answers \<le> (unat (lm_max l) - unat n) + max 1 (unat (lm_max l))"
    using assms Some by (intro two_windows [where start = start]) (simp_all add: counter_def b)
  then show ?thesis
    by simp
next
  case None
  show ?thesis
    using assms None
  proof (induction reqs arbitrary: l answers)
    case (Cons r reqs)
    obtain ip' now where r: "r = (ip', now)"
      by (cases r)
    show ?case
    proof (cases "ip' = ip")
      case True
      let ?m = "l\<lparr>lm_buckets := (lm_buckets l)(ip \<mapsto> (now, 0))\<rparr>"
      have "limiter_check ip now ?m = limiter_check ip now l"
        by (simp add: limiter_check_def count_request_def Cons.prems(4) Let_def split: prod.splits)
      then have "serve (r # reqs) ?m = (answers, l')"
        using Cons.prems(1) by (simp add: r True)
      then have "passed ip answers \<le> (unat (lm_max ?m) - unat (0 :: 32 word)) + max 1 (unat (lm_max ?m))"
      proof (rule two_windows [where start = now and lo = lo])
        show "\<forall>(ip', t) \<in> set (r # reqs). lo \<le> t \<and> t < lo + lm_window ?m * second"
          using Cons.prems(2) by simp
        show "unat (0 :: 32 word) + length (r # reqs) < 2 ^ 32"
          using Cons.prems(3) by (simp add: counter_def Cons.prems(4))
      qed simp
      then show ?thesis
        by simp
    next
      case False
      obtain answer m where check: "limiter_check ip' now l = (answer, m)"
        by (cases "limiter_check ip' now l")
      obtain rest where rest: "serve reqs m = (rest, l')" "answers = (ip', answer \<noteq> None) # rest"
        using Cons.prems(1) check by (auto simp: r split: prod.splits)
      note same = serve_other [OF False check]
      have "passed ip rest \<le> 2 * max 1 (unat (lm_max m))"
        using Cons.prems by (intro Cons.IH [OF rest(1)]) (simp_all add: same counter_def)
      with False rest(2) same show ?thesis
        by simp
    qed
  qed simp
qed

text \<open>The bound is reached: two requests at the end of a window and two at the start of the next.\<close>

definition sample_limiter :: limiter where
  "sample_limiter = \<lparr>lm_buckets = [''a'' \<mapsto> (0, 0)], lm_max = 2, lm_window = 1, lm_trust_proxy = False, lm_mode = Local_Mode\<rparr>"

definition burst :: "(string \<times> nat) list" where
  "burst = map (Pair ''a'') [999999998, 999999999, 1000000000, 1000000001, 1000000002]"

lemma rate_limit_bound_witness:
  "\<exists>answers l'. serve burst sample_limiter = (answers, l') \<and> passed ''a'' answers = 4 \<and> passed ''a'' answers \<le> 2 * max 1 2"
proof -
  have "\<exists>l'. serve burst sample_limiter = (map (Pair ''a'') [True, True, True, True, False], l')"
    by (simp add: burst_def sample_limiter_def limiter_check_def count_request_def second_def)
  then obtain answers l' where run: "serve burst sample_limiter = (answers, l')"
    and answers: "answers = map (Pair ''a'') [True, True, True, True, False]"
    by blast
  have "passed ''a'' answers \<le> 2 * max 1 (unat (lm_max sample_limiter))"
    by (rule rate_limit_bound [OF run, where lo = 999999998])
      (simp_all add: burst_def sample_limiter_def second_def counter_def)
  moreover have "passed ''a'' answers = 4"
    by (simp add: answers)
  ultimately show ?thesis
    using run by (simp add: sample_limiter_def)
qed

text \<open>Behind a proxy that names itself before the client, the client is not found in the standard header.\<close>

lemma forwarded_by_first:
  "first_forwarded addr [''by=10.0.0.1'', ''for=203.0.113.7''] = None"
proof -
  have "strip_prefix (trim ''by=10.0.0.1'') ''for='' = None"
    by code_simp
  then show ?thesis
    by simp
qed

text \<open>Without trusted headers every client of the WebAssembly build shares one bucket.\<close>

lemma wasm_clients_share: "client_ip addr False hs None = ''unknown''"
  by (simp add: client_ip_def)

text \<open>A limit of zero does not stop the request that opens a window.\<close>

lemma zero_limit_passes:
  assumes "lm_max l = 0" and "lm_buckets l ip = Some (start, n)" and "lm_window l \<le> (now - start) div second"
  shows "fst (limiter_check ip now l) = Some 0"
  using assms by (simp add: limiter_check_def count_request_def saturating_pred_def)

end
