(* ===== verification/Client_Policies.thy ===== *)
theory Client_Policies
  imports Grants
begin

text \<open>Client policies (\<open>oidc-core/src/models/client_policy.rs\<close>): conditions that select clients, profiles of executors
  that check them, the evaluation of all policies of a realm, and their tables
  (\<open>client_policy_repo.rs\<close>).  Two results stand out: the loop that matches a pattern is equal to the usual meaning of
  patterns as long as the value has no star, and a client passes the policies exactly when every executor of every
  policy that applies is satisfied.\<close>

section \<open>Patterns\<close>

text \<open>The loop keeps the rests of the pattern and of the value; a star that was passed is remembered with the rest of
  the pattern after it and the rest of the value at which it is tried.\<close>

function (sequential) glob_loop :: "string \<Rightarrow> string \<Rightarrow> (string \<times> string) option \<Rightarrow> bool" where
  "glob_loop p [] star = (\<forall>c \<in> set p. c = CHR ''*'')"
| "glob_loop (d # p) (c # v) star =
     (if d = CHR ''?'' \<or> d = c then glob_loop p v star
      else if d = CHR ''*'' then glob_loop p (c # v) (Some (p, c # v))
      else (case star of None \<Rightarrow> False | Some (ps, cs) \<Rightarrow> glob_loop ps (tl cs) (Some (ps, tl cs))))"
| "glob_loop [] (c # v) star =
     (case star of None \<Rightarrow> False | Some (ps, cs) \<Rightarrow> glob_loop ps (tl cs) (Some (ps, tl cs)))"
  by pat_completeness auto

definition glob_work :: "string \<Rightarrow> (string \<times> string) option \<Rightarrow> nat" where
  "glob_work v star = (case star of None \<Rightarrow> Suc (length v) | Some (ps, cs) \<Rightarrow> max (length cs) (length v))"

termination glob_loop
  by (relation "measures [\<lambda>(p, v, star). glob_work v star, \<lambda>(p, v, star). length p]") (auto simp: glob_work_def split: option.splits)

(*@ oidc-core/src/models/client_policy.rs 379-402 glob_matches *)
definition glob_matches :: "string \<Rightarrow> string \<Rightarrow> bool" where
  "glob_matches pattern value = glob_loop pattern value None"

text \<open>The meaning of a pattern: a star stands for any text, a question mark for one byte.\<close>

fun glob :: "string \<Rightarrow> string \<Rightarrow> bool" where
  "glob [] v \<longleftrightarrow> v = []"
| "glob (d # p) v \<longleftrightarrow>
     (if d = CHR ''*'' then glob p v \<or> (case v of [] \<Rightarrow> False | _ # w \<Rightarrow> glob (d # p) w)
      else (case v of [] \<Rightarrow> False | c # w \<Rightarrow> (d = CHR ''?'' \<or> d = c) \<and> glob p w))"

lemma glob_star: "glob (CHR ''*'' # p) v \<longleftrightarrow> (\<exists>s t. v = s @ t \<and> glob p t)"
proof (induction v)
  case (Cons c v)
  show ?case
  proof
    assume "glob (CHR ''*'' # p) (c # v)"
    then consider "glob p (c # v)" | s t where "v = s @ t" "glob p t"
      using Cons by auto
    then show "\<exists>s t. c # v = s @ t \<and> glob p t"
    proof cases
      case 1
      then show ?thesis by (metis append_Nil)
    next
      case 2
      then show ?thesis by (metis append_Cons)
    qed
  next
    assume "\<exists>s t. c # v = s @ t \<and> glob p t"
    then show "glob (CHR ''*'' # p) (c # v)"
      using Cons by (auto simp: Cons_eq_append_conv)
  qed
qed auto

lemma glob_Nil: "glob p [] \<longleftrightarrow> (\<forall>c \<in> set p. c = CHR ''*'')"
  by (induction p) auto

text \<open>A part of a pattern without stars takes as many bytes as it has.\<close>

lemma glob_literal:
  "CHR ''*'' \<notin> set lit \<Longrightarrow> glob (lit @ p) v \<Longrightarrow> \<exists>s t. v = s @ t \<and> length s = length lit \<and> glob p t"
proof (induction lit arbitrary: v)
  case (Cons d lit)
  then obtain c w where v: "v = c # w" and rest: "glob (lit @ p) w"
    by (auto split: list.splits)
  from Cons.IH [OF _ rest] Cons.prems(1) obtain s t where "w = s @ t" "length s = length lit" "glob p t"
    by auto
  then show ?case
    using v by (intro exI [of _ "c # s"] exI [of _ t]) auto
qed auto

lemma glob_literal_length: "CHR ''*'' \<notin> set lit \<Longrightarrow> glob (CHR ''*'' # lit @ p) v \<Longrightarrow> length lit \<le> length v"
  unfolding glob_star using glob_literal by fastforce

text \<open>Behind a star the shortest text that fits is enough: what follows the next star is found further left too.\<close>

lemma next_star:
  assumes "CHR ''*'' \<notin> set lit" and "length lit = length seg"
    and "glob (CHR ''*'' # lit @ CHR ''*'' # p) (tl (seg @ v))"
  shows "glob (CHR ''*'' # p) v"
proof -
  from assms(3) obtain a t where a: "tl (seg @ v) = a @ t" and t: "glob (lit @ CHR ''*'' # p) t"
    unfolding glob_star by blast
  from glob_literal [OF assms(1) t] obtain s u where s: "t = s @ u" "length s = length lit"
    and u: "glob (CHR ''*'' # p) u"
    by blast
  from u obtain b w where w: "u = b @ w" "glob p w"
    unfolding glob_star by blast
  have whole: "tl (seg @ v) = (a @ s @ b) @ w"
    using a s w by simp
  have "length w \<le> length v"
    using arg_cong [OF whole, of length] s(2) assms(2) by simp
  moreover have "suffix w (seg @ v)"
    using whole suffix_tl suffix_order.trans by (metis suffixI)
  ultimately have "suffix w v"
    by (metis suffix_length_suffix suffixI)
  then obtain z where "v = z @ w"
    by (auto simp: suffix_def)
  then show ?thesis
    unfolding glob_star using w(2) by blast
qed

lemma glob_loop_star:
  assumes "CHR ''*'' \<notin> set v" and "ps = lit @ p" and "cs = seg @ v" and "CHR ''*'' \<notin> set cs"
    and "CHR ''*'' \<notin> set lit" and "length lit = length seg"
  shows "glob_loop p v (Some (ps, cs)) \<longleftrightarrow> glob p v \<or> (cs \<noteq> [] \<and> glob (CHR ''*'' # ps) (tl cs))"
  using assms
proof (induction p v "Some (ps, cs)" arbitrary: ps cs lit seg rule: glob_loop.induct)
  case (1 p)
  have "\<not> glob (CHR ''*'' # ps) (tl cs)" if "cs \<noteq> []"
  proof
    assume "glob (CHR ''*'' # ps) (tl cs)"
    from glob_literal_length [OF 1(5) this [unfolded 1(2)]] that 1(3, 6) show False
      by (cases cs) auto
  qed
  then show ?case
    by (auto simp: glob_Nil)
next
  case (2 d p c v)
  have again: "glob_loop ps (tl cs) (Some (ps, tl cs)) \<longleftrightarrow> cs \<noteq> [] \<and> glob (CHR ''*'' # ps) (tl cs)"
    if other: "\<not> (d = CHR ''?'' \<or> d = c)" "d \<noteq> CHR ''*''"
  proof -
    have "CHR ''*'' \<notin> set (tl cs)"
      using 2(7) by (cases cs) auto
    then have "glob_loop ps (tl cs) (Some (ps, tl cs)) \<longleftrightarrow>
        glob ps (tl cs) \<or> (tl cs \<noteq> [] \<and> glob (CHR ''*'' # ps) (tl (tl cs)))"
      by (intro 2(3) [OF other refl refl, of "[]" "[]"]) simp_all
    then show ?thesis
      using 2(6) by (cases "tl cs") auto
  qed
  consider (same) "d = CHR ''?'' \<or> d = c" | (star) "\<not> (d = CHR ''?'' \<or> d = c)" "d = CHR ''*''"
    | (other) "\<not> (d = CHR ''?'' \<or> d = c)" "d \<noteq> CHR ''*''"
    by blast
  then show ?case
  proof cases
    case same
    have "d \<noteq> CHR ''*''"
      using same 2(4) by auto
    then show ?thesis
      using same 2(4-) 2(1) [OF same, of "lit @ [d]" "seg @ [c]"] by auto
  next
    case star
    have "glob_loop p (c # v) (Some (p, c # v)) \<longleftrightarrow> glob p (c # v) \<or> glob (CHR ''*'' # p) v"
      using 2(2) [OF star, of "[]" "[]"] 2(4) by simp
    moreover have "glob (CHR ''*'' # p) (c # v)" if "glob (CHR ''*'' # ps) (tl cs)"
      using next_star [OF 2(8) 2(9), of p "c # v"] that 2(5, 6) star by simp
    ultimately show ?thesis
      using star by auto
  next
    case other
    then show ?thesis
      using again by simp
  qed
next
  case (3 c v)
  have "CHR ''*'' \<notin> set (tl cs)"
    using 3(5) by (cases cs) auto
  then have "glob_loop ps (tl cs) (Some (ps, tl cs)) \<longleftrightarrow>
      glob ps (tl cs) \<or> (tl cs \<noteq> [] \<and> glob (CHR ''*'' # ps) (tl (tl cs)))"
    by (intro 3(1) [OF refl refl, of "[]" "[]"]) simp_all
  then show ?case
    using 3(4) by (cases "tl cs") auto
qed

lemma glob_loop_start: "CHR ''*'' \<notin> set v \<Longrightarrow> glob_loop p v None \<longleftrightarrow> glob p v"
proof (induction p v "None :: (string \<times> string) option" rule: glob_loop.induct)
  case (2 d p c v)
  then show ?case
    using glob_loop_star [of "c # v" p "[]" p "c # v" "[]"] by auto
qed (auto simp: glob_Nil)

text \<open>For a value without a star, the loop with its one point of return decides exactly whether the value has the
  form of the pattern.  The condition is needed: a byte of the value that is itself a star is taken for the star of the
  pattern, so that the pattern that matches everything refuses it.\<close>

theorem glob_matches_correct:
  assumes "CHR ''*'' \<notin> set value"
  shows "glob_matches pattern value \<longleftrightarrow> glob pattern value"
  unfolding glob_matches_def using assms by (rule glob_loop_start)

theorem glob_matches_correct_witness:
  "glob_matches ''web-*-v?'' ''web-a-v-v2'' \<longleftrightarrow> glob ''web-*-v?'' ''web-a-v-v2''"
  by (rule glob_matches_correct) simp

lemma star_in_value: "\<not> glob_matches ''*'' ''*a''" "glob ''*'' ''*a''"
  by (simp_all add: glob_matches_def)


section \<open>Conditions and executors\<close>

(*@ oidc-core/src/models/client_policy.rs 284-289 matches_values *)
fun values_match :: "string list \<Rightarrow> string list \<Rightarrow> match_mode \<Rightarrow> bool" where
  "values_match expected actual Match_Any \<longleftrightarrow> (\<exists>v \<in> set expected. v \<in> set actual)"
| "values_match expected actual Match_All \<longleftrightarrow> (\<forall>v \<in> set expected. v \<in> set actual)"

(*@ oidc-core/src/models/client_policy.rs 265-282 condition_matches *)
fun condition_matches :: "client \<Rightarrow> registration_context \<Rightarrow> policy_condition \<Rightarrow> bool" where
  "condition_matches c ctx Always \<longleftrightarrow> True"
| "condition_matches c ctx (Registration_Context contexts) \<longleftrightarrow> ctx \<in> set contexts"
| "condition_matches c ctx (Client_Type t) \<longleftrightarrow> t = c_client_type c"
| "condition_matches c ctx (Client_Id pattern) \<longleftrightarrow> glob_matches pattern (c_client_id c)"
| "condition_matches c ctx (Grant_Types values mode) \<longleftrightarrow> values_match values (c_allowed_grant_types c) mode"
| "condition_matches c ctx (Client_Scopes values mode) \<longleftrightarrow> values_match values (c_allowed_scopes c) mode"

text \<open>The host that the code compares with is that of \<open>Url::host_str\<close>, in which an IPv6 address has brackets.\<close>

definition secure_redirect :: "env \<Rightarrow> bool \<Rightarrow> string \<Rightarrow> string option" where
  "secure_redirect E allow_loopback uri =
     (case e_url_scheme E uri of
        None \<Rightarrow> Some (''redirect URI '' @ quoted uri @ '' is not a valid absolute URL'')
      | Some scheme \<Rightarrow>
          let loopback = (e_url_host E uri \<in> {Some ''localhost'', Some ''127.0.0.1'', Some ''::1''})
          in if scheme \<noteq> ''https'' \<and> \<not> (allow_loopback \<and> loopback \<and> scheme = ''http'')
             then Some (''redirect URI '' @ quoted uri @ '' must use HTTPS'') else None)"

fun first_some :: "('a \<Rightarrow> 'b option) \<Rightarrow> 'a list \<Rightarrow> 'b option" where
  "first_some f [] = None"
| "first_some f (x # xs) = (case f x of None \<Rightarrow> first_some f xs | Some y \<Rightarrow> Some y)"

lemma first_some_None: "first_some f xs = None \<longleftrightarrow> (\<forall>x \<in> set xs. f x = None)"
  by (induction xs) (auto split: option.splits)

definition type_text :: "client_type \<Rightarrow> string" where
  "type_text t = (case t of Public \<Rightarrow> ''public'' | Confidential \<Rightarrow> ''confidential'')"

text \<open>The kind of the executor that objects, and its message.\<close>

(*@ oidc-core/src/models/client_policy.rs 291-377 executor_violation *)
fun executor_violation :: "env \<Rightarrow> policy_executor \<Rightarrow> client \<Rightarrow> (string \<times> string) option" where
  "executor_violation E Require_Pkce c =
     (if \<not> c_pkce_required c then Some (''require_pkce'', ''PKCE must be required'') else None)"
| "executor_violation E (Secure_Redirect_Uris allow) c =
     map_option (Pair ''secure_redirect_uris'') (first_some (secure_redirect E allow) (c_redirect_uris c))"
| "executor_violation E (Allowed_Grant_Types values) c =
     map_option (\<lambda>v. (''allowed_grant_types'', ''grant type '' @ quoted v @ '' is not allowed''))
       (List.find (\<lambda>v. v \<notin> set values) (c_allowed_grant_types c))"
| "executor_violation E (Allowed_Scopes values) c =
     map_option (\<lambda>v. (''allowed_scopes'', ''scope '' @ quoted v @ '' is not allowed''))
       (List.find (\<lambda>v. v \<notin> set values) (c_allowed_scopes c))"
| "executor_violation E (Allowed_Client_Auth_Methods values) c =
     (if c_token_endpoint_auth_method c \<notin> set values
      then Some (''allowed_client_auth_methods'',
        ''client authentication method '' @ quoted (c_token_endpoint_auth_method c) @ '' is not allowed'') else None)"
| "executor_violation E (Require_Client_Type t) c =
     (if t \<noteq> c_client_type c then Some (''require_client_type'', ''client type must be '' @ type_text t) else None)"
| "executor_violation E (Maximum_Redirect_Uris n) c =
     (if n < length (c_redirect_uris c)
      then Some (''maximum_redirect_uris'', ''at most '' @ decimal (int n) @ '' redirect URIs are allowed'') else None)"
| "executor_violation E Require_Pairwise_Subject c =
     (if c_subject_type c \<noteq> ''pairwise''
      then Some (''require_pairwise_subject'', ''pairwise subject identifiers are required'') else None)"


section \<open>Evaluation\<close>

(*@ oidc-core/src/models/client_policy.rs 101-107 ClientPolicyViolation *)
record violation =
  vi_policy :: string
  vi_profile :: string
  vi_executor :: string
  vi_message :: string

(*@ oidc-core/src/models/client_policy.rs 109-115 ClientPolicyEvaluation *)
record evaluation =
  ev_allowed :: bool
  ev_matched_policies :: "string list"
  ev_matched_profiles :: "string list"
  ev_violations :: "violation list"

definition profile_of :: "client \<Rightarrow> policy_profile list \<Rightarrow> uuid \<Rightarrow> policy_profile option" where
  "profile_of c profiles i = List.find (\<lambda>p. pp_id p = i \<and> pp_realm_id p = c_realm_id c) profiles"

text \<open>The two loops over the profiles of a policy and the executors of a profile.\<close>

fun add_executors :: "env \<Rightarrow> client \<Rightarrow> client_policy \<Rightarrow> policy_profile \<Rightarrow> policy_executor list \<Rightarrow> evaluation \<Rightarrow> evaluation" where
  "add_executors E c pol prof [] r = r"
| "add_executors E c pol prof (x # xs) r =
     add_executors E c pol prof xs
       (case executor_violation E x c of
          None \<Rightarrow> r
        | Some (kind, message) \<Rightarrow>
            r\<lparr>ev_violations := ev_violations r @ [\<lparr>vi_policy = cp_name pol, vi_profile = pp_name prof,
                vi_executor = kind, vi_message = message\<rparr>]\<rparr>)"

fun add_profiles :: "env \<Rightarrow> client \<Rightarrow> policy_profile list \<Rightarrow> client_policy \<Rightarrow> uuid list \<Rightarrow> evaluation \<Rightarrow> evaluation" where
  "add_profiles E c profiles pol [] r = r"
| "add_profiles E c profiles pol (i # is) r =
     add_profiles E c profiles pol is
       (case profile_of c profiles i of
          None \<Rightarrow> r\<lparr>ev_violations := ev_violations r @ [\<lparr>vi_policy = cp_name pol, vi_profile = ''missing profile'',
                      vi_executor = ''profile_reference'',
                      vi_message = ''Referenced profile '' @ e_uuid_text E i @ '' does not exist in this realm''\<rparr>]\<rparr>
        | Some prof \<Rightarrow> add_executors E c pol prof (pp_executors prof)
            (if pp_name prof \<in> set (ev_matched_profiles r) then r
             else r\<lparr>ev_matched_profiles := ev_matched_profiles r @ [pp_name prof]\<rparr>))"

definition applies :: "client \<Rightarrow> registration_context \<Rightarrow> client_policy \<Rightarrow> bool" where
  "applies c ctx pol \<longleftrightarrow> (\<forall>x \<in> set (cp_conditions pol). condition_matches c ctx x)"

fun add_policies ::
  "env \<Rightarrow> client \<Rightarrow> registration_context \<Rightarrow> policy_profile list \<Rightarrow> client_policy list \<Rightarrow> evaluation \<Rightarrow> evaluation" where
  "add_policies E c ctx profiles [] r = r"
| "add_policies E c ctx profiles (pol # pols) r =
     add_policies E c ctx profiles pols
       (if applies c ctx pol
        then add_profiles E c profiles pol (cp_profile_ids pol)
               (r\<lparr>ev_matched_policies := ev_matched_policies r @ [cp_name pol]\<rparr>)
        else r)"

definition policy_before :: "client_policy \<Rightarrow> client_policy \<Rightarrow> bool" where
  "policy_before p q \<longleftrightarrow> cp_priority p < cp_priority q \<or> cp_priority p = cp_priority q \<and> str_le (cp_name p) (cp_name q)"

(*@ oidc-core/src/models/client_policy.rs 192-247 evaluate_client_policies *)
definition evaluate_policies ::
  "env \<Rightarrow> client \<Rightarrow> registration_context \<Rightarrow> client_policy list \<Rightarrow> policy_profile list \<Rightarrow> evaluation" where
  "evaluate_policies E c ctx policies profiles =
     (let r = add_policies E c ctx profiles (sort_by policy_before (filter cp_enabled policies))
                \<lparr>ev_allowed = True, ev_matched_policies = [], ev_matched_profiles = [], ev_violations = []\<rparr>
      in r\<lparr>ev_allowed := (ev_violations r = [])\<rparr>)"

(*@ oidc-core/src/models/client_policy.rs 249-263 enforce_client_policies *)
definition enforce_policies ::
  "env \<Rightarrow> client \<Rightarrow> registration_context \<Rightarrow> client_policy list \<Rightarrow> policy_profile list \<Rightarrow> evaluation result" where
  "enforce_policies E c ctx policies profiles =
     (let r = evaluate_policies E c ctx policies profiles
      in case ev_violations r of
           v # _ \<Rightarrow> Inl (InvalidInput (''client policy '' @ quoted (vi_policy v) @ '' / profile '' @ quoted (vi_profile v)
                      @ '': '' @ vi_message v))
         | [] \<Rightarrow> Inr r)"


section \<open>Configuration\<close>

(*@ oidc-core/src/models/client_policy.rs 117-148 ClientPolicyProfile::validate *)
definition validate_profile :: "policy_profile \<Rightarrow> unit result" where
  "validate_profile p =
     bindr (ensure (trim (pp_name p) \<noteq> []) (InvalidInput ''profile name is required'')) (\<lambda>_.
     bindr (ensure (pp_executors p \<noteq> []) (InvalidInput ''a profile needs at least one executor'')) (\<lambda>_.
     check_all (\<lambda>x. case x of
         Allowed_Grant_Types values \<Rightarrow> ensure (values \<noteq> []) (InvalidInput ''executor allow-list must not be empty'')
       | Allowed_Scopes values \<Rightarrow> ensure (values \<noteq> []) (InvalidInput ''executor allow-list must not be empty'')
       | Allowed_Client_Auth_Methods values \<Rightarrow> ensure (values \<noteq> []) (InvalidInput ''executor allow-list must not be empty'')
       | Maximum_Redirect_Uris n \<Rightarrow> ensure (n \<noteq> 0) (InvalidInput ''maximum redirect URIs must be greater than zero'')
       | _ \<Rightarrow> Inr ()) (pp_executors p)))"

(*@ oidc-core/src/models/client_policy.rs 150-190 ClientPolicy::validate *)
definition validate_client_policy :: "client_policy \<Rightarrow> unit result" where
  "validate_client_policy p =
     bindr (ensure (trim (cp_name p) \<noteq> []) (InvalidInput ''policy name is required'')) (\<lambda>_.
     bindr (ensure (cp_conditions p \<noteq> []) (InvalidInput ''a policy needs at least one condition'')) (\<lambda>_.
     bindr (ensure (cp_profile_ids p \<noteq> []) (InvalidInput ''a policy needs at least one profile'')) (\<lambda>_.
     check_all (\<lambda>x. case x of
         Registration_Context contexts \<Rightarrow> ensure (contexts \<noteq> []) (InvalidInput ''registration context condition must not be empty'')
       | Client_Id pattern \<Rightarrow> ensure (trim pattern \<noteq> []) (InvalidInput ''client ID pattern must not be empty'')
       | Grant_Types values _ \<Rightarrow> ensure (values \<noteq> []) (InvalidInput ''condition values must not be empty'')
       | Client_Scopes values _ \<Rightarrow> ensure (values \<noteq> []) (InvalidInput ''condition values must not be empty'')
       | _ \<Rightarrow> Inr ()) (cp_conditions p))))"


section \<open>Tables\<close>

text \<open>The name of a profile and that of a policy are unique in their realm, in any case of the letters.  The columns
  of conditions, executors and profiles hold the JSON of the values, which always reads back.\<close>

(*@ oidc-repository/src/repositories/client_policy_repo.rs 12-19 ClientPolicyRepo::list_profiles *)
definition profiles_of_realm :: "env \<Rightarrow> uuid \<Rightarrow> db \<Rightarrow> policy_profile list" where
  "profiles_of_realm E realm d =
     sort_by (\<lambda>p q. e_collate E (e_lower E (pp_name p)) (e_lower E (pp_name q)))
       (filter (\<lambda>p. pp_realm_id p = realm) (d_policy_profiles d))"

(*@ oidc-repository/src/repositories/client_policy_repo.rs 20-26 ClientPolicyRepo::find_profile *)
definition profile_by_id :: "uuid \<Rightarrow> db \<Rightarrow> policy_profile option" where
  "profile_by_id i d = List.find (\<lambda>p. pp_id p = i) (d_policy_profiles d)"

(*@ oidc-repository/src/repositories/client_policy_repo.rs 27-36 ClientPolicyRepo::create_profile *)
definition profile_create :: "env \<Rightarrow> policy_profile \<Rightarrow> (db, oidc_error, unit) prog" where
  "profile_create E p =
     bindp (query d_policy_profiles) (\<lambda>tbl.
     thenp (guardp (\<forall>q \<in> set tbl. pp_id q \<noteq> pp_id p
              \<and> \<not> (pp_realm_id q = pp_realm_id p \<and> e_lower E (pp_name q) = e_lower E (pp_name p))) (Conflict ''duplicate key''))
       (exec (d_policy_profiles_update (\<lambda>tbl. tbl @ [p]))))"

(*@ oidc-repository/src/repositories/client_policy_repo.rs 37-46 ClientPolicyRepo::update_profile *)
definition profile_update :: "env \<Rightarrow> policy_profile \<Rightarrow> (db, oidc_error, unit) prog" where
  "profile_update E p =
     bindp (query d_policy_profiles) (\<lambda>tbl.
     thenp (guardp (\<forall>q \<in> set tbl. \<forall>o' \<in> set tbl. pp_id o' = pp_id p \<and> pp_id q \<noteq> pp_id p \<longrightarrow>
              \<not> (pp_realm_id q = pp_realm_id o' \<and> e_lower E (pp_name q) = e_lower E (pp_name p))) (Conflict ''duplicate key''))
       (exec (d_policy_profiles_update (update_where (\<lambda>q. pp_id q = pp_id p)
          (\<lambda>q. q\<lparr>pp_name := pp_name p, pp_description := pp_description p, pp_executors := pp_executors p,
                 pp_updated_at := pp_updated_at p\<rparr>)))))"

(*@ oidc-repository/src/repositories/client_policy_repo.rs 47-67 ClientPolicyRepo::delete_profile *)
definition profile_delete :: "uuid \<Rightarrow> (db, oidc_error, unit) prog" where
  "profile_delete i =
     bindp (query d_client_policies) (\<lambda>tbl.
     thenp (guardp (\<forall>p \<in> set tbl. i \<notin> set (cp_profile_ids p)) (Conflict ''profile is assigned to a client policy''))
       (exec (d_policy_profiles_update (filter (\<lambda>p. pp_id p \<noteq> i)))))"

(*@ oidc-repository/src/repositories/client_policy_repo.rs 68-75 ClientPolicyRepo::list_policies *)
definition policies_of_realm :: "env \<Rightarrow> uuid \<Rightarrow> db \<Rightarrow> client_policy list" where
  "policies_of_realm E realm d =
     sort_by (\<lambda>p q. cp_priority p < cp_priority q
                \<or> cp_priority p = cp_priority q \<and> e_collate E (e_lower E (cp_name p)) (e_lower E (cp_name q)))
       (filter (\<lambda>p. cp_realm_id p = realm) (d_client_policies d))"

(*@ oidc-repository/src/repositories/client_policy_repo.rs 76-82 ClientPolicyRepo::find_policy *)
definition policy_by_id :: "uuid \<Rightarrow> db \<Rightarrow> client_policy option" where
  "policy_by_id i d = List.find (\<lambda>p. cp_id p = i) (d_client_policies d)"

(*@ oidc-repository/src/repositories/client_policy_repo.rs 83-94 ClientPolicyRepo::create_policy *)
definition policy_create :: "env \<Rightarrow> client_policy \<Rightarrow> (db, oidc_error, unit) prog" where
  "policy_create E p =
     bindp (query d_client_policies) (\<lambda>tbl.
     thenp (guardp (\<forall>q \<in> set tbl. cp_id q \<noteq> cp_id p
              \<and> \<not> (cp_realm_id q = cp_realm_id p \<and> e_lower E (cp_name q) = e_lower E (cp_name p))) (Conflict ''duplicate key''))
       (exec (d_client_policies_update (\<lambda>tbl. tbl @ [p]))))"

(*@ oidc-repository/src/repositories/client_policy_repo.rs 95-106 ClientPolicyRepo::update_policy *)
definition policy_update :: "env \<Rightarrow> client_policy \<Rightarrow> (db, oidc_error, unit) prog" where
  "policy_update E p =
     bindp (query d_client_policies) (\<lambda>tbl.
     thenp (guardp (\<forall>q \<in> set tbl. \<forall>o' \<in> set tbl. cp_id o' = cp_id p \<and> cp_id q \<noteq> cp_id p \<longrightarrow>
              \<not> (cp_realm_id q = cp_realm_id o' \<and> e_lower E (cp_name q) = e_lower E (cp_name p))) (Conflict ''duplicate key''))
       (exec (d_client_policies_update (update_where (\<lambda>q. cp_id q = cp_id p)
          (\<lambda>q. q\<lparr>cp_name := cp_name p, cp_description := cp_description p, cp_enabled := cp_enabled p,
                 cp_priority := cp_priority p, cp_conditions := cp_conditions p, cp_profile_ids := cp_profile_ids p,
                 cp_updated_at := cp_updated_at p\<rparr>)))))"

(*@ oidc-repository/src/repositories/client_policy_repo.rs 107-112 ClientPolicyRepo::delete_policy *)
definition policy_delete :: "uuid \<Rightarrow> db \<Rightarrow> db" where
  "policy_delete i = d_client_policies_update (filter (\<lambda>p. cp_id p \<noteq> i))"

(*@ oidc-oidc/src/client_policies.rs 10-24 evaluate *)
definition evaluate_client :: "env \<Rightarrow> registration_context \<Rightarrow> client \<Rightarrow> db \<Rightarrow> evaluation" where
  "evaluate_client E ctx c d =
     evaluate_policies E c ctx (policies_of_realm E (c_realm_id c) d) (profiles_of_realm E (c_realm_id c) d)"

(*@ oidc-oidc/src/client_policies.rs 26-38 enforce *)
definition enforce_client :: "env \<Rightarrow> registration_context \<Rightarrow> client \<Rightarrow> db \<Rightarrow> evaluation result" where
  "enforce_client E ctx c d =
     enforce_policies E c ctx (policies_of_realm E (c_realm_id c) d) (profiles_of_realm E (c_realm_id c) d)"


section \<open>What a client that passes satisfies\<close>

text \<open>What an executor demands, without messages.\<close>

fun satisfies :: "env \<Rightarrow> client \<Rightarrow> policy_executor \<Rightarrow> bool" where
  "satisfies E c Require_Pkce \<longleftrightarrow> c_pkce_required c"
| "satisfies E c (Secure_Redirect_Uris allow) \<longleftrightarrow>
     (\<forall>uri \<in> set (c_redirect_uris c). e_url_scheme E uri = Some ''https''
        \<or> allow \<and> e_url_scheme E uri = Some ''http''
            \<and> e_url_host E uri \<in> {Some ''localhost'', Some ''127.0.0.1'', Some ''::1''})"
| "satisfies E c (Allowed_Grant_Types values) \<longleftrightarrow> set (c_allowed_grant_types c) \<subseteq> set values"
| "satisfies E c (Allowed_Scopes values) \<longleftrightarrow> set (c_allowed_scopes c) \<subseteq> set values"
| "satisfies E c (Allowed_Client_Auth_Methods values) \<longleftrightarrow> c_token_endpoint_auth_method c \<in> set values"
| "satisfies E c (Require_Client_Type t) \<longleftrightarrow> c_client_type c = t"
| "satisfies E c (Maximum_Redirect_Uris n) \<longleftrightarrow> length (c_redirect_uris c) \<le> n"
| "satisfies E c Require_Pairwise_Subject \<longleftrightarrow> c_subject_type c = ''pairwise''"

lemma executor_violation_None: "executor_violation E x c = None \<longleftrightarrow> satisfies E c x"
proof (cases x)
  case (Secure_Redirect_Uris allow)
  have "secure_redirect E allow uri = None \<longleftrightarrow> e_url_scheme E uri = Some ''https''
        \<or> allow \<and> e_url_scheme E uri = Some ''http''
            \<and> e_url_host E uri \<in> {Some ''localhost'', Some ''127.0.0.1'', Some ''::1''}" for uri
    by (cases "e_url_scheme E uri") (auto simp: secure_redirect_def Let_def)
  then show ?thesis
    using Secure_Redirect_Uris by (simp add: first_some_None)
qed (auto simp: find_None_iff)

lemma add_executors_clean:
  "ev_violations (add_executors E c pol prof xs r) = [] \<longleftrightarrow> ev_violations r = [] \<and> (\<forall>x \<in> set xs. satisfies E c x)"
proof (induction xs arbitrary: r)
  case (Cons x xs)
  then show ?case
    using executor_violation_None [of E x c] by (auto split: option.splits)
qed simp

definition profile_ok :: "env \<Rightarrow> client \<Rightarrow> policy_profile list \<Rightarrow> uuid \<Rightarrow> bool" where
  "profile_ok E c profiles i \<longleftrightarrow>
     (\<exists>prof. profile_of c profiles i = Some prof \<and> (\<forall>x \<in> set (pp_executors prof). satisfies E c x))"

lemma add_profiles_clean:
  "ev_violations (add_profiles E c profiles pol is r) = [] \<longleftrightarrow>
     ev_violations r = [] \<and> (\<forall>i \<in> set is. profile_ok E c profiles i)"
proof (induction "is" arbitrary: r)
  case (Cons i "is")
  show ?case
  proof (cases "profile_of c profiles i")
    case None
    then show ?thesis
      by (simp add: Cons profile_ok_def)
  next
    case (Some prof)
    then show ?thesis
      by (simp add: Cons profile_ok_def add_executors_clean)
  qed
qed simp

lemma add_policies_clean:
  "ev_violations (add_policies E c ctx profiles pols r) = [] \<longleftrightarrow>
     ev_violations r = [] \<and> (\<forall>pol \<in> set pols. applies c ctx pol \<longrightarrow> (\<forall>i \<in> set (cp_profile_ids pol). profile_ok E c profiles i))"
  by (induction pols arbitrary: r) (auto simp: add_profiles_clean)

lemma enforce_policies_ok:
  "is_ok (enforce_policies E c ctx policies profiles) \<longleftrightarrow>
     (\<forall>pol \<in> set policies. cp_enabled pol \<and> applies c ctx pol \<longrightarrow> (\<forall>i \<in> set (cp_profile_ids pol). profile_ok E c profiles i))"
proof -
  have "is_ok (enforce_policies E c ctx policies profiles)
      \<longleftrightarrow> ev_violations (evaluate_policies E c ctx policies profiles) = []"
    by (simp add: enforce_policies_def Let_def split: list.splits)
  then show ?thesis
    by (auto simp: evaluate_policies_def Let_def add_policies_clean)
qed

lemma profile_of_unique:
  assumes "distinct (map pp_id tbl)"
  shows "profile_of c (sort_by le (filter (\<lambda>p. pp_realm_id p = c_realm_id c) tbl)) i = Some prof \<longleftrightarrow>
    prof \<in> set tbl \<and> pp_id prof = i \<and> pp_realm_id prof = c_realm_id c"
proof -
  let ?l = "sort_by le (filter (\<lambda>p. pp_realm_id p = c_realm_id c) tbl)"
  have one: "p = q" if "p \<in> set tbl" "q \<in> set tbl" "pp_id p = pp_id q" for p q
    using distinct_map_same [OF assms] that by blast
  show ?thesis
  proof
    assume "profile_of c ?l i = Some prof"
    then show "prof \<in> set tbl \<and> pp_id prof = i \<and> pp_realm_id prof = c_realm_id c"
      unfolding profile_of_def by (auto dest!: find_Some_set)
  next
    assume prof: "prof \<in> set tbl \<and> pp_id prof = i \<and> pp_realm_id prof = c_realm_id c"
    then have "profile_of c ?l i \<noteq> None"
      unfolding profile_of_def find_None_iff by auto
    then obtain q where q: "profile_of c ?l i = Some q"
      by blast
    then have "q \<in> set tbl" "pp_id q = i"
      unfolding profile_of_def by (auto dest!: find_Some_set)
    with one prof q show "profile_of c ?l i = Some prof"
      by blast
  qed
qed

text \<open>C39 A client passes the policies of its realm exactly when every enabled policy of the realm whose conditions
  all match refers only to profiles of the realm, and every executor of these profiles is satisfied; the order of the
  policies and the priorities play no part in the verdict.\<close>

theorem policies_enforced:
  assumes "distinct (map pp_id (d_policy_profiles d))"
  shows "is_ok (enforce_client E ctx c d) \<longleftrightarrow>
    (\<forall>pol \<in> set (d_client_policies d). cp_realm_id pol = c_realm_id c \<and> cp_enabled pol
        \<and> (\<forall>x \<in> set (cp_conditions pol). condition_matches c ctx x) \<longrightarrow>
      (\<forall>i \<in> set (cp_profile_ids pol). \<exists>prof \<in> set (d_policy_profiles d).
         pp_id prof = i \<and> pp_realm_id prof = c_realm_id c \<and> (\<forall>x \<in> set (pp_executors prof). satisfies E c x)))"
proof -
  have "profile_ok E c (profiles_of_realm E (c_realm_id c) d) i \<longleftrightarrow>
      (\<exists>prof \<in> set (d_policy_profiles d). pp_id prof = i \<and> pp_realm_id prof = c_realm_id c
         \<and> (\<forall>x \<in> set (pp_executors prof). satisfies E c x))" for i
    unfolding profile_ok_def profiles_of_realm_def profile_of_unique [OF assms] by blast
  then show ?thesis
    unfolding enforce_client_def enforce_policies_ok by (auto simp: policies_of_realm_def applies_def)
qed

definition policy_db :: db where
  "policy_db = empty_db\<lparr>
     d_policy_profiles := [\<lparr>pp_id = 1, pp_realm_id = 3, pp_name = ''strict'', pp_description = None,
        pp_executors = [Require_Pkce, Allowed_Grant_Types [''authorization_code'']], pp_created_at = 0, pp_updated_at = 0\<rparr>],
     d_client_policies := [\<lparr>cp_id = 2, cp_realm_id = 3, cp_name = ''all'', cp_description = None, cp_enabled = True,
        cp_priority = 1, cp_conditions = [Client_Id ''app*''], cp_profile_ids = [1], cp_created_at = 0, cp_updated_at = 0\<rparr>]\<rparr>"

theorem policies_enforced_witness:
  "distinct (map pp_id (d_policy_profiles policy_db))
   \<and> is_ok (enforce_client sample_env Admin_Context (sample_client\<lparr>c_allowed_grant_types := [''authorization_code'']\<rparr>) policy_db)
   \<and> \<not> is_ok (enforce_client sample_env Admin_Context (sample_client\<lparr>c_client_id := ''app1'', c_pkce_required := False\<rparr>) policy_db)"
  using policies_enforced [of policy_db sample_env Admin_Context]
  by (simp add: policy_db_def empty_db_def sample_client_def glob_matches_def)

end
