(* ===== verification/Api_Keys.thy ===== *)
theory Api_Keys
  imports Gateway Client_Policies
begin

text \<open>API keys: the table (\<open>api_key_repo.rs\<close>), the service that makes, checks and rotates keys
  (\<open>oidc-apikey/src/service.rs\<close>) and the extractor that reads a key from the headers of a request (\<open>auth.rs\<close>).
  Argon2 is a parameter: \<open>ke_hash\<close> and \<open>ke_verify\<close> stand for \<open>hashing.rs\<close>, whose salts are random.  The facts:
  a key authenticates only while it is live, a revoked key never again, and what a rotation does to the old and the
  new key.\<close>

record key_env =
  ke_hash :: "string \<Rightarrow> string result"
  ke_verify :: "string \<Rightarrow> string \<Rightarrow> bool result"
  ke_segment :: "string option"

section \<open>Table\<close>

(*@ oidc-repository/src/repositories/api_key_repo.rs 11-29 ApiKeyRepo::find_by_id *)
definition key_by_id :: "uuid \<Rightarrow> db \<Rightarrow> api_key option" where
  "key_by_id i d = List.find (\<lambda>k. ak_id k = i) (d_api_keys d)"

definition key_live :: "instant \<Rightarrow> api_key \<Rightarrow> bool" where
  "key_live now k \<longleftrightarrow> \<not> ak_revoked k \<and> (case ak_expires_at k of None \<Rightarrow> True | Some t \<Rightarrow> now < t)"

(*@ oidc-repository/src/repositories/api_key_repo.rs 31-49 ApiKeyRepo::find_by_prefix *)
definition key_by_prefix :: "instant \<Rightarrow> string \<Rightarrow> db \<Rightarrow> api_key option" where
  "key_by_prefix now pre d = List.find (\<lambda>k. ak_prefix k = pre \<and> key_live now k) (d_api_keys d)"

(*@ oidc-repository/src/repositories/api_key_repo.rs 51-86 ApiKeyRepo::find_by_realm *)
definition keys_of_realm :: "uuid \<Rightarrow> bool \<Rightarrow> db \<Rightarrow> api_key list" where
  "keys_of_realm realm include_revoked d =
     sort_key (\<lambda>k. - ak_created_at k)
       (filter (\<lambda>k. ak_realm_id k = realm \<and> (include_revoked \<or> \<not> ak_revoked k)) (d_api_keys d))"

(*@ oidc-repository/src/repositories/api_key_repo.rs 88-118 ApiKeyRepo::create *)
definition key_create :: "api_key \<Rightarrow> (db, oidc_error, unit) prog" where
  "key_create k =
     bindp (query d_api_keys) (\<lambda>tbl.
     thenp (guardp (\<forall>x \<in> set tbl. ak_id x \<noteq> ak_id k) (Conflict ''duplicate key''))
       (exec (d_api_keys_update (\<lambda>tbl. tbl @ [k]))))"

(*@ oidc-repository/src/repositories/api_key_repo.rs 120-127 ApiKeyRepo::revoke *)
definition key_revoke :: "uuid \<Rightarrow> db \<Rightarrow> db" where
  "key_revoke i = d_api_keys_update (update_where (\<lambda>k. ak_id k = i) (ak_revoked_update (\<lambda>_. True)))"

(*@ oidc-repository/src/repositories/api_key_repo.rs 129-136 ApiKeyRepo::mark_rotated *)
definition key_mark_rotated :: "instant \<Rightarrow> uuid \<Rightarrow> db \<Rightarrow> db" where
  "key_mark_rotated now i = d_api_keys_update (update_where (\<lambda>k. ak_id k = i) (ak_rotated_at_update (\<lambda>_. Some now)))"

(*@ oidc-repository/src/repositories/api_key_repo.rs 138-145 ApiKeyRepo::increment_count *)
definition key_increment :: "instant \<Rightarrow> uuid \<Rightarrow> db \<Rightarrow> db" where
  "key_increment now i =
     d_api_keys_update (update_where (\<lambda>k. ak_id k = i)
       (\<lambda>k. k\<lparr>ak_request_count := ak_request_count k + 1, ak_last_used_at := Some now\<rparr>))"

text \<open>The prefixes of two keys may agree (eight characters of 48 random bits); the promise of the table is made as
  long as they do not.\<close>

definition keys_ok :: "db \<Rightarrow> bool" where
  "keys_ok d \<longleftrightarrow> distinct (map ak_prefix (d_api_keys d))"

interpretation keys: one_time_store key_by_prefix ak_id key_revoke keys_ok
proof (unfold_locales, goal_cases)
  case (1 d now pre k later)
  then have k: "k \<in> set (d_api_keys d)" "ak_prefix k = pre"
    by (auto simp: key_by_prefix_def dest!: find_Some_set)
  have "ak_id x = ak_id k" if "x \<in> set (d_api_keys d)" "ak_prefix x = pre" for x
    using distinct_map_same [of ak_prefix "d_api_keys d" x k] 1(1) that k by (simp add: keys_ok_def)
  then show ?case
    unfolding key_by_prefix_def key_revoke_def key_live_def by (auto intro!: find_update_where_None)
next
  case (2 d now pre i)
  then show ?case
    by (auto simp: key_by_prefix_def key_revoke_def key_live_def find_None_iff set_update_where split: if_splits)
next
  case (3 d i)
  then show ?case
    by (simp add: keys_ok_def key_revoke_def map_update_where)
qed


section \<open>Service\<close>

(*@ oidc-core/src/models/api_key.rs 51-60 ApiKey::is_expired, is_active *)
definition key_expired :: "instant \<Rightarrow> api_key \<Rightarrow> bool" where
  "key_expired now k \<longleftrightarrow> (case ak_expires_at k of None \<Rightarrow> False | Some t \<Rightarrow> t < now)"

(*@ oidc-apikey/src/service.rs 147-157 parse_key *)
definition parse_key :: "string \<Rightarrow> (string \<times> string \<times> string) option" where
  "parse_key raw =
     Option.bind (strip_prefix raw ''oidc_'') (\<lambda>stripped.
     Option.bind (split_once (CHR ''.'') stripped) (\<lambda>(segment, rest).
     Option.bind (split_once (CHR ''.'') rest) (\<lambda>(pre, secret).
       if length pre \<noteq> 8 then None else Some (pre, segment, secret))))"

(*@ oidc-apikey/src/service.rs 159-162 env_segment *)
definition env_segment :: "key_env \<Rightarrow> string" where
  "env_segment K = (case ke_segment K of None \<Rightarrow> ''prod'' | Some s \<Rightarrow> s)"

definition key_prefix :: "string \<Rightarrow> string" where
  "key_prefix secret = concat (take 8 (utf8_chars secret))"

definition raw_key_of :: "key_env \<Rightarrow> string \<Rightarrow> string" where
  "raw_key_of K secret = ''oidc_'' @ env_segment K @ ''.'' @ key_prefix secret @ ''.'' @ secret"

(*@ oidc-apikey/src/service.rs 28-69 ApiKeyService::generate_key *)
definition generate_key ::
  "env \<Rightarrow> key_env \<Rightarrow> uuid \<Rightarrow> string \<Rightarrow> string list \<Rightarrow> nat option \<Rightarrow> uuid option \<Rightarrow> (db, oidc_error, api_key \<times> string) prog" where
  "generate_key E K realm name scopes expires_in_days created_by =
     bindp (some_or (e_random E 0) (Internal ''getrandom failed'')) (\<lambda>buf.
     let secret = e_b64 E (take 36 buf); raw = raw_key_of K secret
     in bindp (lift (ke_hash K raw)) (\<lambda>h.
        let k = \<lparr>ak_id = e_uuid E 0, ak_realm_id = realm, ak_name = name, ak_prefix = key_prefix secret,
                 ak_hashed_secret = h, ak_scopes = scopes, ak_revoked = False, ak_request_count = 0,
                 ak_expires_at = map_option (\<lambda>n. e_clock E 0 + days (int n)) expires_in_days,
                 ak_last_used_at = None, ak_created_at = e_clock E 1, ak_created_by = created_by, ak_rotated_at = None\<rparr>
        in thenp (key_create k) (ret (k, raw))))"

text \<open>The clock is read twice: for the expiry, and for the grace of a rotated key.\<close>

(*@ oidc-apikey/src/service.rs 71-103 ApiKeyService::verify_key *)
definition verify_key :: "env \<Rightarrow> key_env \<Rightarrow> string \<Rightarrow> db \<Rightarrow> api_key result" where
  "verify_key E K raw d =
     bindr (or_error (parse_key raw) (AuthenticationFailed ''invalid key format'')) (\<lambda>(pre, _, _).
     bindr (or_error (key_by_prefix (e_db_now E) pre d) (AuthenticationFailed ''unknown or revoked key'')) (\<lambda>k.
     bindr (ensure (\<not> key_expired (e_clock E 0) k) (AuthenticationFailed ''key expired'')) (\<lambda>_.
     bindr (ensure (case ak_rotated_at k of None \<Rightarrow> True | Some t \<Rightarrow> \<not> t + hours 24 < e_clock E 1)
              (AuthenticationFailed ''key rotation expired'')) (\<lambda>_.
     bindr (ke_verify K raw (ak_hashed_secret k)) (\<lambda>right.
     bindr (ensure right (AuthenticationFailed ''invalid key'')) (\<lambda>_. Inr k))))))"

(*@ oidc-apikey/src/service.rs 110-136 ApiKeyService::rotate_key *)
definition rotate_key :: "env \<Rightarrow> key_env \<Rightarrow> uuid \<Rightarrow> nat option \<Rightarrow> (db, oidc_error, api_key \<times> string) prog" where
  "rotate_key E K i expires_in_days =
     bindp (query (key_by_id i)) (\<lambda>found.
     bindp (some_or found (Internal ''key not found'')) (\<lambda>old.
     thenp (exec (key_mark_rotated (e_db_now E) i))
       (generate_key E K (ak_realm_id old) (ak_name old) (ak_scopes old) expires_in_days (ak_created_by old))))"


section \<open>Extractor\<close>

(*@ oidc-apikey/src/auth.rs 18-29 ApiKeyError *)
datatype key_error = Key_Missing | Key_Invalid | Key_Inactive | Key_Scope

text \<open>The status and the message of a refusal, and whether it carries a challenge.\<close>

(*@ oidc-apikey/src/auth.rs 31-62 ApiKeyError::into_response *)
fun key_error_response :: "key_error \<Rightarrow> nat \<times> string \<times> bool" where
  "key_error_response Key_Missing = (401, ''Missing API key'', True)"
| "key_error_response Key_Invalid = (401, ''Invalid API key'', True)"
| "key_error_response Key_Inactive = (401, ''API key expired or revoked'', True)"
| "key_error_response Key_Scope = (403, ''insufficient_scope'', False)"

(*@ oidc-apikey/src/auth.rs 110-136 extract_raw_key *)
definition extract_raw_key :: "headers \<Rightarrow> string option" where
  "extract_raw_key hs =
     (case text_header hs ''x-api-key'' of
        Some v \<Rightarrow> Some (trim v)
      | None \<Rightarrow>
          Option.bind (text_header hs ''authorization'') (\<lambda>h.
            case strip_prefix h ''Bearer '' of
              Some t \<Rightarrow> Some (trim t)
            | None \<Rightarrow> map_option trim (strip_prefix h ''bearer '')))"

fun contains_text :: "string \<Rightarrow> string \<Rightarrow> bool" where
  "contains_text [] t \<longleftrightarrow> t = []"
| "contains_text (c # s) t \<longleftrightarrow> starts_with (c # s) t \<or> contains_text s t"

fun key_error_of :: "oidc_error \<Rightarrow> key_error" where
  "key_error_of (AuthenticationFailed m) =
     (if contains_text m ''expired'' \<or> contains_text m ''revoked'' \<or> contains_text m ''rotation'' then Key_Inactive
      else Key_Invalid)"
| "key_error_of _ = Key_Invalid"

(*@ oidc-apikey/src/auth.rs 72-108 ApiKeyAuth::from_request_parts *)
definition authenticate_key :: "env \<Rightarrow> key_env \<Rightarrow> headers \<Rightarrow> (db, key_error, api_key) prog" where
  "authenticate_key E K hs =
     bindp (some_or (extract_raw_key hs) Key_Missing) (\<lambda>raw.
     bindp (ask (\<lambda>d. map_err key_error_of (verify_key E K raw d))) (\<lambda>k.
     thenp (exec (key_increment (e_db_now E) (ak_id k)))
       (ret k)))"

(*@ oidc-apikey/src/auth.rs 146-177 extract_raw_key_from_headers *)
definition raw_key_from_headers :: "headers \<Rightarrow> string option" where
  "raw_key_from_headers hs =
     (let given = Option.bind (text_header hs ''x-api-key'') (\<lambda>v. if trim v = [] then None else Some (trim v));
          undotted = (\<lambda>t. if trim t \<noteq> [] \<and> CHR ''.'' \<notin> set (trim t) then Some (trim t) else None)
      in case given of
           Some k \<Rightarrow> Some k
         | None \<Rightarrow>
             Option.bind (text_header hs ''authorization'') (\<lambda>h.
               case Option.bind (strip_prefix h ''Bearer '') undotted of
                 Some t \<Rightarrow> Some t
               | None \<Rightarrow> Option.bind (strip_prefix h ''bearer '') undotted))"

datatype route_auth = By_Key api_key | By_Token string string

text \<open>Either credential of an API route, the key first; a key that is presented and refused ends the request.\<close>

(*@ oidc-apikey/src/auth.rs 188-232 verify_request_auth *)
definition verify_request_auth ::
  "env \<Rightarrow> key_env \<Rightarrow> token_service \<Rightarrow> headers \<Rightarrow> (db, nat, route_auth) prog" where
  "verify_request_auth E K svc hs =
     (case raw_key_from_headers hs of
        Some raw \<Rightarrow>
          bindp (ask (\<lambda>d. map_err (\<lambda>_. 401) (verify_key E K raw d))) (\<lambda>k.
          thenp (exec (key_increment (e_db_now E) (ak_id k))) (ret (By_Key k)))
      | None \<Rightarrow>
          (case Option.bind (text_header hs ''authorization'') (\<lambda>h. strip_prefix h ''Bearer '') of
             Some token \<Rightarrow>
               (case verify_access_token E svc (timestamp (e_clock E 0)) token of
                  Inr c \<Rightarrow> ret (By_Token (at_sub c) (at_scope c))
                | Inl _ \<Rightarrow> fail 401)
           | None \<Rightarrow> fail 401))"

(*@ oidc-apikey/src/auth.rs 253-265 has_scope, require_scope *)
definition require_scope :: "api_key \<Rightarrow> string \<Rightarrow> key_error + unit" where
  "require_scope k s = ensure (''*'' \<in> set (ak_scopes k) \<or> s \<in> set (ak_scopes k)) Key_Scope"


section \<open>Facts\<close>

lemma ball_update_where: "(\<forall>x \<in> set (update_where P f xs). Q x) \<longleftrightarrow> (\<forall>x \<in> set xs. if P x then Q (f x) else Q x)"
  by (induction xs) (auto simp: update_where_def)

lemma verify_key_ok:
  "verify_key E K raw d = Inr k \<longleftrightarrow>
     (\<exists>pre segment secret. parse_key raw = Some (pre, segment, secret)
       \<and> key_by_prefix (e_db_now E) pre d = Some k)
     \<and> \<not> key_expired (e_clock E 0) k \<and> (\<forall>t. ak_rotated_at k = Some t \<longrightarrow> e_clock E 1 \<le> t + hours 24)
     \<and> ke_verify K raw (ak_hashed_secret k) = Inr True"
  by (cases "ak_rotated_at k") (auto simp: verify_key_def bindr_Inr not_less intro!: exI [of _ k])

text \<open>C37 What a request that the extractor accepts has shown: the header carries a key of the format
  \<open>oidc_env.prefix.secret\<close>; the row that is returned has this prefix, is neither revoked nor expired, was not rotated
  more than 24 hours ago, and its hash verifies the whole presented key.  Nothing is written but the counter and the
  time of use of the rows with its id.\<close>

theorem key_authentication_sound:
  assumes "authenticate_key E K hs d = (Inr k, d')"
  shows "(\<exists>raw segment secret. extract_raw_key hs = Some raw \<and> parse_key raw = Some (ak_prefix k, segment, secret)
      \<and> ke_verify K raw (ak_hashed_secret k) = Inr True)
    \<and> k \<in> set (d_api_keys d) \<and> \<not> ak_revoked k
    \<and> (\<forall>t. ak_expires_at k = Some t \<longrightarrow> e_db_now E < t \<and> e_clock E 0 \<le> t)
    \<and> (\<forall>t. ak_rotated_at k = Some t \<longrightarrow> e_clock E 1 \<le> t + hours 24)
    \<and> d' = key_increment (e_db_now E) (ak_id k) d"
proof (intro conjI)
  obtain raw where raw: "extract_raw_key hs = Some raw" "verify_key E K raw d = Inr k"
    and d': "d' = key_increment (e_db_now E) (ak_id k) d"
    using assms by (auto simp: authenticate_key_def prog_ok)
  obtain pre segment secret where found: "parse_key raw = Some (pre, segment, secret)"
      "key_by_prefix (e_db_now E) pre d = Some k"
    using raw(2) by (auto simp: verify_key_ok)
  then have k: "k \<in> set (d_api_keys d)" "ak_prefix k = pre" "key_live (e_db_now E) k"
    by (auto simp: key_by_prefix_def dest!: find_Some_set)
  show "\<exists>raw segment secret. extract_raw_key hs = Some raw \<and> parse_key raw = Some (ak_prefix k, segment, secret)
      \<and> ke_verify K raw (ak_hashed_secret k) = Inr True"
    using raw found(1) k(2) by (auto simp: verify_key_ok)
  show "k \<in> set (d_api_keys d)" "\<not> ak_revoked k"
    using k by (simp_all add: key_live_def)
  show "\<forall>t. ak_expires_at k = Some t \<longrightarrow> e_db_now E < t \<and> e_clock E 0 \<le> t"
    using raw(2) k(3) by (auto simp: verify_key_ok key_live_def key_expired_def)
  show "\<forall>t. ak_rotated_at k = Some t \<longrightarrow> e_clock E 1 \<le> t + hours 24"
    using raw(2) by (simp add: verify_key_ok)
  show "d' = key_increment (e_db_now E) (ak_id k) d"
    by (rule d')
qed

definition base64url_alphabet :: string where
  "base64url_alphabet = ''ABCDEFGHIJKLMNOPQRSTUVWXYZabcdefghijklmnopqrstuvwxyz0123456789-_''"

lemma base64url_ascii: "c \<in> set base64url_alphabet \<Longrightarrow> \<not> is_cont c \<and> c \<noteq> CHR ''.''"
  by (auto simp: base64url_alphabet_def is_cont_def byte_def)

lemma utf8_chars_single: "\<forall>c \<in> set s. \<not> is_cont c \<Longrightarrow> utf8_chars s = map (\<lambda>c. [c]) s"
proof (induction s)
  case (Cons c s)
  then have "takeWhile is_cont s = []" "dropWhile is_cont s = s"
    by (cases s; simp)+
  then show ?case
    using Cons by simp
qed simp

lemma key_prefix_base64:
  assumes "set secret \<subseteq> set base64url_alphabet"
  shows "key_prefix secret = take 8 secret"
proof -
  have "\<forall>c \<in> set secret. \<not> is_cont c"
    using assms base64url_ascii by blast
  then show ?thesis
    by (simp add: key_prefix_def utf8_chars_single take_map) 
qed

lemma parse_raw_key:
  assumes "set secret \<subseteq> set base64url_alphabet" and "8 \<le> length secret" and "CHR ''.'' \<notin> set (env_segment K)"
  shows "parse_key (raw_key_of K secret) = Some (take 8 secret, env_segment K, secret)"
proof -
  have "CHR ''.'' \<notin> set (take 8 secret)"
    using assms(1) base64url_ascii set_take_subset [of 8 secret] by blast
  then have "split_once (CHR ''.'') (take 8 secret @ ''.'' @ secret) = Some (take 8 secret, secret)"
    by (simp add: split_once_Some)
  moreover have "split_once (CHR ''.'') (env_segment K @ ''.'' @ r) = Some (env_segment K, r)" for r
    using assms(3) by (simp add: split_once_Some)
  moreover have "strip_prefix (raw_key_of K secret) ''oidc_'' = Some (env_segment K @ ''.'' @ take 8 secret @ ''.'' @ secret)"
    by (simp add: strip_prefix_Some raw_key_of_def key_prefix_base64 [OF assms(1)])
  ultimately show ?thesis
    using assms(2) by (simp add: parse_key_def)
qed

text \<open>A dot in the environment segment moves the place where the parser looks for the prefix.\<close>

lemma parse_dotted_key:
  assumes "env_segment K = before @ ''.'' @ behind" and "CHR ''.'' \<notin> set before"
    and "length (takeWhile (\<lambda>x. x \<noteq> CHR ''.'') behind) \<noteq> 8"
  shows "parse_key (raw_key_of K secret) = None"
proof -
  let ?rest = "behind @ ''.'' @ key_prefix secret @ ''.'' @ secret"
  have "strip_prefix (raw_key_of K secret) ''oidc_'' = Some (before @ CHR ''.'' # ?rest)"
    by (simp add: strip_prefix_Some raw_key_of_def assms(1))
  moreover have "split_once (CHR ''.'') (before @ CHR ''.'' # ?rest) = Some (before, ?rest)"
    using assms(2) by (simp add: split_once_Some)
  moreover have "takeWhile (\<lambda>x. x \<noteq> CHR ''.'') ?rest = takeWhile (\<lambda>x. x \<noteq> CHR ''.'') behind"
    by (auto simp: takeWhile_append intro: takeWhile_eq_all_conv [THEN iffD2, symmetric])
  then have "length pre \<noteq> 8" if "split_once (CHR ''.'') ?rest = Some (pre, secret')" for pre secret'
    using that assms(3) by (auto simp: split_once_def)
  ultimately show ?thesis
    by (cases "split_once (CHR ''.'') ?rest") (auto simp: parse_key_def simp del: append_Cons append_Nil)
qed

text \<open>C38 A key that was just made opens the door, provided that the environment segment \<open>OIDC_KEY_ENV\<close> has no dot: the
  text that \<open>generate_key\<close> returns is parsed back into its prefix and authenticates as the row that was inserted, for
  the realm and the scopes it was made for, until its expiry.  With a dot in the segment the key does not work: unless
  the part behind the first dot (up to the next one) happens to have eight bytes, the new key is refused at once as
  malformed.  No other row may have the same prefix, which the schema does not promise.  The hash verifies what it was
  made of, and the encoder gives characters of the base64 alphabet, at least eight for the 36 random bytes; that is
  what Argon2 and base64 promise.\<close>

theorem new_key_authenticates:
  assumes made: "generate_key E K realm name scopes expires_in_days created_by d = (Inr (k, raw), d')"
    and hash: "\<forall>p h. ke_hash K p = Inr h \<longrightarrow> ke_verify K p h = Inr True"
    and base64: "\<forall>buf. set (e_b64 E buf) \<subseteq> set base64url_alphabet"
    and len: "\<forall>buf. e_random E 0 = Some buf \<longrightarrow> 8 \<le> length (e_b64 E (take 36 buf))"
    and unique: "\<forall>x \<in> set (d_api_keys d). ak_prefix x \<noteq> ak_prefix k"
    and time: "\<forall>n. expires_in_days = Some n \<longrightarrow>
      e_db_now F < e_clock E 0 + days (int n) \<and> e_clock F 0 \<le> e_clock E 0 + days (int n)"
  shows "ak_realm_id k = realm \<and> ak_scopes k = scopes \<and> k \<in> set (d_api_keys d')
    \<and> (CHR ''.'' \<notin> set (env_segment K) \<longrightarrow> verify_key F K raw d' = Inr k)
    \<and> (\<forall>before behind. env_segment K = before @ ''.'' @ behind \<and> CHR ''.'' \<notin> set before
         \<and> length (takeWhile (\<lambda>x. x \<noteq> CHR ''.'') behind) \<noteq> 8
         \<longrightarrow> verify_key F K raw d' = Inl (AuthenticationFailed ''invalid key format''))"
proof -
  obtain buf h where buf: "e_random E 0 = Some buf" and h: "ke_hash K raw = Inr h"
    and raw: "raw = raw_key_of K (e_b64 E (take 36 buf))"
    and k: "k = \<lparr>ak_id = e_uuid E 0, ak_realm_id = realm, ak_name = name,
                 ak_prefix = key_prefix (e_b64 E (take 36 buf)), ak_hashed_secret = h, ak_scopes = scopes,
                 ak_revoked = False, ak_request_count = 0,
                 ak_expires_at = map_option (\<lambda>n. e_clock E 0 + days (int n)) expires_in_days,
                 ak_last_used_at = None, ak_created_at = e_clock E 1, ak_created_by = created_by, ak_rotated_at = None\<rparr>"
    and d': "d_api_keys d' = d_api_keys d @ [k]"
    using made by (auto simp: generate_key_def key_create_def Let_def prog_ok)
  have stored: "ak_realm_id k = realm" "ak_scopes k = scopes" "k \<in> set (d_api_keys d')"
    by (simp_all add: d') (simp_all add: k)
  have parsed: "parse_key raw = Some (ak_prefix k, env_segment K, e_b64 E (take 36 buf))" if "CHR ''.'' \<notin> set (env_segment K)"
    using base64 len buf that by (simp add: raw parse_raw_key k key_prefix_base64)
  have "key_live (e_db_now F) k"
    using time by (auto simp: key_live_def k split: option.splits)
  then have "key_by_prefix (e_db_now F) (ak_prefix k) d' = Some k"
    using unique by (auto simp: key_by_prefix_def d' find_append find_None_iff split: option.splits dest: find_Some_set)
  then have opens: "verify_key F K raw d' = Inr k" if "CHR ''.'' \<notin> set (env_segment K)"
    using parsed [OF that] hash h time by (auto simp: verify_key_ok k key_expired_def split: option.splits)
  have refused: "verify_key F K raw d' = Inl (AuthenticationFailed ''invalid key format'')"
    if "env_segment K = before @ ''.'' @ behind \<and> CHR ''.'' \<notin> set before
      \<and> length (takeWhile (\<lambda>x. x \<noteq> CHR ''.'') behind) \<noteq> 8" for before behind
  proof -
    have "parse_key raw = None"
      unfolding raw using that by (intro parse_dotted_key) blast+
    then show ?thesis
      by (simp add: verify_key_def or_error_def)
  qed
  show ?thesis
    using stored opens refused by (intro conjI impI allI) blast+
qed

text \<open>What a rotation leaves: the new key is live, of the realm, name and scopes of the old one, whatever the state
  of the old one (a revoked key gives a live key), and without the expiry of the old one; and from then on the old key
  authenticates for at most 24 hours.\<close>

theorem rotated_key_has_grace:
  assumes rot: "rotate_key E K i expires_in_days d = (Inr (k, raw), d')"
  shows "\<exists>old. key_by_id i d = Some old \<and> ak_realm_id k = ak_realm_id old \<and> ak_name k = ak_name old
      \<and> ak_scopes k = ak_scopes old"
    and "\<not> ak_revoked k" "ak_rotated_at k = None" "expires_in_days = None \<longrightarrow> ak_expires_at k = None"
      "k \<in> set (d_api_keys d')"
    and "verify_key F K presented d' = Inr x \<and> ak_id x = i \<longrightarrow> e_clock F 1 \<le> e_db_now E + hours 24"
proof -
  obtain old where old: "key_by_id i d = Some old"
    and made: "generate_key E K (ak_realm_id old) (ak_name old) (ak_scopes old) expires_in_days (ak_created_by old)
                 (key_mark_rotated (e_db_now E) i d) = (Inr (k, raw), d')"
    using rot by (auto simp: rotate_key_def prog_ok)
  have k: "ak_realm_id k = ak_realm_id old" "ak_name k = ak_name old" "ak_scopes k = ak_scopes old" "\<not> ak_revoked k"
      "ak_rotated_at k = None" "expires_in_days = None \<longrightarrow> ak_expires_at k = None" "ak_id k = e_uuid E 0"
    and d': "d_api_keys d' = d_api_keys (key_mark_rotated (e_db_now E) i d) @ [k]"
    and fresh_id: "\<forall>x \<in> set (d_api_keys (key_mark_rotated (e_db_now E) i d)). ak_id x \<noteq> e_uuid E 0"
    using made by (auto simp: generate_key_def key_create_def Let_def prog_ok)
  show "\<exists>old. key_by_id i d = Some old \<and> ak_realm_id k = ak_realm_id old \<and> ak_name k = ak_name old
      \<and> ak_scopes k = ak_scopes old"
    using old k by blast
  show "\<not> ak_revoked k" "ak_rotated_at k = None" "expires_in_days = None \<longrightarrow> ak_expires_at k = None"
    "k \<in> set (d_api_keys d')"
    using k(4-6) by (simp_all add: d')
  have marked: "\<forall>x \<in> set (d_api_keys (key_mark_rotated (e_db_now E) i d)). ak_id x = i \<longrightarrow> ak_rotated_at x = Some (e_db_now E)"
    unfolding key_mark_rotated_def by (simp add: ball_update_where)
  have "old \<in> set (d_api_keys d)" "ak_id old = i"
    using find_Some_set [OF old [unfolded key_by_id_def]] by simp_all
  then have "old\<lparr>ak_rotated_at := Some (e_db_now E)\<rparr> \<in> set (d_api_keys (key_mark_rotated (e_db_now E) i d))"
    by (auto simp: key_mark_rotated_def set_update_where)
  then have "\<exists>x \<in> set (d_api_keys (key_mark_rotated (e_db_now E) i d)). ak_id x = i"
    using \<open>ak_id old = i\<close> by (metis api_key.ext_inject api_key.surjective api_key.update_convs(13))
  then have "ak_id k \<noteq> i"
    using fresh_id k(7) by auto
  then have "ak_rotated_at x = Some (e_db_now E)" if "x \<in> set (d_api_keys d')" "ak_id x = i" for x
    using that marked d' by auto
  then show "verify_key F K presented d' = Inr x \<and> ak_id x = i \<longrightarrow> e_clock F 1 \<le> e_db_now E + hours 24"
    by (auto simp: verify_key_ok key_by_prefix_def dest!: find_Some_set)
qed

text \<open>The key of a toy table, made, used, and rotated.\<close>

definition toy_keys :: key_env where
  "toy_keys = \<lparr>ke_hash = Inr, ke_verify = (\<lambda>p h. Inr (p = h)), ke_segment = None\<rparr>"

definition toy_key :: api_key where
  "toy_key =
     \<lparr>ak_id = 100, ak_realm_id = 3, ak_name = ''k'', ak_prefix = ''abcdefgh'',
      ak_hashed_secret = ''oidc_prod.abcdefgh.abcdefgh'', ak_scopes = [''admin''], ak_revoked = False,
      ak_request_count = 0, ak_expires_at = None, ak_last_used_at = None, ak_created_at = 0, ak_created_by = None,
      ak_rotated_at = None\<rparr>"

definition key_env_sample :: env where
  "key_env_sample = sample_env\<lparr>e_b64 := filter (\<lambda>c. c \<in> set base64url_alphabet)\<rparr>"

definition key_headers :: headers where
  "key_headers = [''x-api-key'' \<mapsto> ''oidc_prod.abcdefgh.abcdefgh'']"

lemma key_segment_toy: "env_segment toy_keys = ''prod''"
  by (simp add: env_segment_def toy_keys_def)

lemma toy_key_made:
  "generate_key key_env_sample toy_keys 3 ''k'' [''admin''] None None empty_db
     = (Inr (toy_key, ''oidc_prod.abcdefgh.abcdefgh''), empty_db\<lparr>d_api_keys := [toy_key]\<rparr>)"
proof -
  have "filter (\<lambda>c. c \<in> set base64url_alphabet) ''abcdefgh'' = ''abcdefgh''"
    by code_simp
  moreover have "key_prefix ''abcdefgh'' = ''abcdefgh''"
    by code_simp
  ultimately show ?thesis
    by (simp add: generate_key_def key_create_def key_env_sample_def sample_env_def toy_keys_def toy_key_def raw_key_of_def
        env_segment_def empty_db_def Let_def prog_ok)
qed

lemma new_key_authenticates_witness:
  "verify_key sample_env toy_keys ''oidc_prod.abcdefgh.abcdefgh'' (empty_db\<lparr>d_api_keys := [toy_key]\<rparr>) = Inr toy_key
    \<and> ak_realm_id toy_key = 3"
  using new_key_authenticates [OF toy_key_made, where F = sample_env]
  by (force simp: toy_keys_def key_env_sample_def sample_env_def empty_db_def base64url_alphabet_def env_segment_def)

lemma key_authentication_sound_witness:
  "\<exists>d'. authenticate_key sample_env toy_keys key_headers (empty_db\<lparr>d_api_keys := [toy_key]\<rparr>) = (Inr toy_key, d')
    \<and> \<not> ak_revoked toy_key"
proof -
  have "extract_raw_key key_headers = Some ''oidc_prod.abcdefgh.abcdefgh''"
    by code_simp
  moreover have "parse_key ''oidc_prod.abcdefgh.abcdefgh'' = Some (''abcdefgh'', ''prod'', ''abcdefgh'')"
    by code_simp
  ultimately have run: "\<exists>d'. authenticate_key sample_env toy_keys key_headers (empty_db\<lparr>d_api_keys := [toy_key]\<rparr>)
      = (Inr toy_key, d')"
    by (simp add: authenticate_key_def prog_ok verify_key_ok key_by_prefix_def toy_key_def toy_keys_def key_live_def
        key_expired_def)
  then show ?thesis
    using key_authentication_sound by blast
qed

lemma rotated_key_has_grace_witness:
  "\<exists>k raw d'. rotate_key (key_env_sample\<lparr>e_uuid := \<lambda>k. 200\<rparr>) toy_keys 100 None
        (empty_db\<lparr>d_api_keys := [toy_key\<lparr>ak_revoked := True\<rparr>]\<rparr>) = (Inr (k, raw), d')
      \<and> \<not> ak_revoked k \<and> ak_realm_id k = 3"
proof -
  have "\<exists>k raw d'. rotate_key (key_env_sample\<lparr>e_uuid := \<lambda>k. 200\<rparr>) toy_keys 100 None
        (empty_db\<lparr>d_api_keys := [toy_key\<lparr>ak_revoked := True\<rparr>]\<rparr>) = (Inr (k, raw), d')"
    by (simp add: rotate_key_def generate_key_def key_create_def key_mark_rotated_def update_where_def key_by_id_def
        prog_ok key_env_sample_def sample_env_def toy_keys_def toy_key_def Let_def)
  then obtain k raw d' where r: "rotate_key (key_env_sample\<lparr>e_uuid := \<lambda>k. 200\<rparr>) toy_keys 100 None
        (empty_db\<lparr>d_api_keys := [toy_key\<lparr>ak_revoked := True\<rparr>]\<rparr>) = (Inr (k, raw), d')"
    by blast
  then show ?thesis
    using rotated_key_has_grace(1, 2) [OF r] by (auto simp: key_by_id_def toy_key_def)
qed

end
