(* ===== verification/Admin_Repos.thy ===== *)
theory Admin_Repos
  imports Api_Keys
begin

text \<open>The queries of the administration: roles, groups, users, clients, scopes and protocol mappers, one definition per
  repository function.  A \<open>SELECT\<close> with a page is a result, because PostgreSQL rejects a negative \<open>LIMIT\<close> or
  \<open>OFFSET\<close>; a search compares with \<open>ILIKE\<close>, whose pattern is the escaped text between two \<open>%\<close>.\<close>

definition page :: "int \<Rightarrow> int \<Rightarrow> 'a list \<Rightarrow> 'a list result" where
  "page limit offset xs =
     (if limit < 0 then Inl (Internal ''LIMIT must not be negative'')
      else if offset < 0 then Inl (Internal ''OFFSET must not be negative'')
      else Inr (take (nat limit) (drop (nat offset) xs)))"

lemma page_set: "page limit offset xs = Inr ys \<Longrightarrow> set ys \<subseteq> set xs \<and> int (length ys) \<le> limit"
  by (auto simp: page_def split: if_splits dest!: in_set_takeD in_set_dropD)

(*@ oidc-repository/src/repositories/role_repo.rs 8-20 escape_like, and ILIKE *)
definition found_by :: "env \<Rightarrow> string option \<Rightarrow> string option list \<Rightarrow> bool" where
  "found_by E search columns =
     (case search of
        None \<Rightarrow> True
      | Some t \<Rightarrow> (\<exists>v \<in> set columns. case v of None \<Rightarrow> False | Some s \<Rightarrow> contains_text (e_lower E s) (e_lower E t)))"

definition of_realm :: "uuid option \<Rightarrow> uuid \<Rightarrow> bool" where
  "of_realm realm r = (case realm of None \<Rightarrow> True | Some i \<Rightarrow> r = i)"


section \<open>Roles\<close>

(*@ oidc-repository/src/repositories/role_repo.rs 31-43 RoleRepo::find_by_id *)
definition role_by_id :: "uuid \<Rightarrow> db \<Rightarrow> role option" where
  "role_by_id i d = List.find (\<lambda>r. ro_id r = i \<and> ro_deleted_at r = None) (d_roles d)"

(*@ oidc-repository/src/repositories/role_repo.rs 45-60 RoleRepo::find_by_name *)
definition role_by_name :: "uuid \<Rightarrow> string \<Rightarrow> db \<Rightarrow> role option" where
  "role_by_name realm name d =
     List.find (\<lambda>r. ro_realm_id r = realm \<and> ro_client_id r = None \<and> ro_name r = name \<and> ro_deleted_at r = None)
       (d_roles d)"

(*@ oidc-repository/src/repositories/role_repo.rs 62-76 RoleRepo::find_by_client_and_name *)
definition role_by_client_and_name :: "uuid \<Rightarrow> string \<Rightarrow> db \<Rightarrow> role option" where
  "role_by_client_and_name cid name d =
     List.find (\<lambda>r. ro_client_id r = Some cid \<and> ro_name r = name \<and> ro_deleted_at r = None) (d_roles d)"

text \<open>The two partial unique indexes: the name of a realm role in its realm, of a client role at its client.\<close>

definition same_role_name :: "role \<Rightarrow> role \<Rightarrow> bool" where
  "same_role_name a b \<longleftrightarrow> ro_deleted_at a = None \<and> ro_deleted_at b = None \<and> ro_client_id a = ro_client_id b
     \<and> ro_name a = ro_name b \<and> (ro_client_id a = None \<longrightarrow> ro_realm_id a = ro_realm_id b)"

(*@ oidc-repository/src/repositories/role_repo.rs 78-101 RoleRepo::create *)
definition role_create :: "role \<Rightarrow> (db, oidc_error, unit) prog" where
  "role_create r =
     bindp (query d_roles) (\<lambda>tbl.
     thenp (guardp (\<forall>x \<in> set tbl. ro_id x \<noteq> ro_id r \<and> \<not> same_role_name x (r\<lparr>ro_deleted_at := None\<rparr>))
              (Conflict ''duplicate key''))
       (exec (d_roles_update (\<lambda>tbl. tbl @ [r\<lparr>ro_deleted_at := None\<rparr>]))))"

(*@ oidc-repository/src/repositories/role_repo.rs 103-125 RoleRepo::update *)
definition role_update :: "instant \<Rightarrow> role \<Rightarrow> (db, oidc_error, unit) prog" where
  "role_update now r =
     (let written = (\<lambda>x. x\<lparr>ro_name := ro_name r, ro_description := ro_description r,
                           ro_permissions := ro_permissions r, ro_updated_at := now\<rparr>)
      in bindp (query d_roles) (\<lambda>tbl.
         thenp (guardp (\<forall>x \<in> set tbl. ro_id x = ro_id r \<and> ro_deleted_at x = None \<longrightarrow>
                  (\<forall>y \<in> set tbl. ro_id y \<noteq> ro_id r \<longrightarrow> \<not> same_role_name y (written x)))
                  (Conflict ''duplicate key''))
           (exec (d_roles_update (update_where (\<lambda>x. ro_id x = ro_id r \<and> ro_deleted_at x = None) written)))))"

(*@ oidc-repository/src/repositories/role_repo.rs 127-134 RoleRepo::delete *)
definition role_delete :: "instant \<Rightarrow> uuid \<Rightarrow> db \<Rightarrow> db" where
  "role_delete now i = d_roles_update (update_where (\<lambda>r. ro_id r = i) (ro_deleted_at_update (\<lambda>_. Some now)))"

(*@ oidc-repository/src/repositories/role_repo.rs 136-191 RoleRepo::list *)
definition role_list :: "env \<Rightarrow> uuid option \<Rightarrow> string option \<Rightarrow> int \<Rightarrow> int \<Rightarrow> db \<Rightarrow> role list result" where
  "role_list E realm search limit offset d =
     page limit offset (sort_key (\<lambda>r. - ro_created_at r)
       (filter (\<lambda>r. ro_deleted_at r = None \<and> of_realm realm (ro_realm_id r)
          \<and> found_by E search [Some (ro_name r), ro_description r]) (d_roles d)))"

(*@ oidc-repository/src/repositories/role_repo.rs 193-216 RoleRepo::count *)
definition role_count :: "uuid option \<Rightarrow> db \<Rightarrow> nat" where
  "role_count realm d = length (filter (\<lambda>r. ro_deleted_at r = None \<and> of_realm realm (ro_realm_id r)) (d_roles d))"

(*@ oidc-repository/src/repositories/role_repo.rs 218-238 RoleRepo::find_by_user_id *)
definition roles_of_user :: "uuid \<Rightarrow> db \<Rightarrow> role list" where
  "roles_of_user uid d =
     filter (\<lambda>r. (uid, ro_id r) \<in> set (d_user_roles d) \<and> ro_deleted_at r = None) (d_roles d)"

(*@ oidc-repository/src/repositories/user_role_repo.rs 51-64 UserRoleRepo::assign *)
definition role_assign :: "uuid \<Rightarrow> uuid \<Rightarrow> db \<Rightarrow> db" where
  "role_assign uid rid =
     d_user_roles_update (\<lambda>tbl. if (uid, rid) \<in> set tbl then tbl else tbl @ [(uid, rid)])"

(*@ oidc-repository/src/repositories/user_role_repo.rs 66-78 UserRoleRepo::unassign *)
definition role_unassign :: "uuid \<Rightarrow> uuid \<Rightarrow> db \<Rightarrow> db" where
  "role_unassign uid rid = d_user_roles_update (filter (\<lambda>p. p \<noteq> (uid, rid)))"

(*@ oidc-repository/src/repositories/role_composite_repo.rs 49-64 RoleCompositeRepo::list_children *)
definition child_roles :: "env \<Rightarrow> uuid \<Rightarrow> db \<Rightarrow> role list" where
  "child_roles E i d =
     sort_by (\<lambda>a b. e_collate E (ro_name a) (ro_name b))
       (filter (\<lambda>r. (i, ro_id r) \<in> set (d_role_composites d) \<and> ro_deleted_at r = None) (d_roles d))"


section \<open>Groups\<close>

(*@ oidc-repository/src/repositories/group_repo.rs 31-44 GroupRepo::find_by_id *)
definition group_by_id :: "uuid \<Rightarrow> db \<Rightarrow> group option" where
  "group_by_id i d = List.find (\<lambda>g. g_id g = i \<and> g_deleted_at g = None) (d_groups d)"

(*@ oidc-repository/src/repositories/group_repo.rs 87-110 GroupRepo::update *)
definition group_update :: "instant \<Rightarrow> group \<Rightarrow> (db, oidc_error, unit) prog" where
  "group_update now g =
     bindp (query d_groups) (\<lambda>tbl.
     thenp (guardp (\<forall>x \<in> set tbl. g_id x = g_id g \<and> g_deleted_at x = None \<longrightarrow>
              (\<forall>y \<in> set tbl. g_id y \<noteq> g_id g \<longrightarrow>
                 \<not> (g_realm_id y = g_realm_id x \<and> g_name y = g_name g \<and> g_deleted_at y = None)))
              (Conflict ''duplicate key''))
       (exec (d_groups_update (update_where (\<lambda>x. g_id x = g_id g \<and> g_deleted_at x = None)
          (\<lambda>x. x\<lparr>g_name := g_name g, g_description := g_description g, g_parent_id := g_parent_id g,
                 g_updated_at := now\<rparr>)))))"

(*@ oidc-repository/src/repositories/group_repo.rs 120-175 GroupRepo::list *)
definition group_list :: "env \<Rightarrow> uuid option \<Rightarrow> string option \<Rightarrow> int \<Rightarrow> int \<Rightarrow> db \<Rightarrow> group list result" where
  "group_list E realm search limit offset d =
     page limit offset (sort_key (\<lambda>g. - g_created_at g)
       (filter (\<lambda>g. g_deleted_at g = None \<and> of_realm realm (g_realm_id g)
          \<and> found_by E search [Some (g_name g), g_description g]) (d_groups d)))"

(*@ oidc-repository/src/repositories/group_repo.rs 177-200 GroupRepo::count *)
definition group_count :: "uuid option \<Rightarrow> db \<Rightarrow> nat" where
  "group_count realm d = length (filter (\<lambda>g. g_deleted_at g = None \<and> of_realm realm (g_realm_id g)) (d_groups d))"

(*@ oidc-repository/src/repositories/user_group_repo.rs 46-58 UserGroupRepo::unassign *)
definition group_unassign :: "uuid \<Rightarrow> uuid \<Rightarrow> db \<Rightarrow> db" where
  "group_unassign uid gid = d_user_groups_update (filter (\<lambda>p. p \<noteq> (uid, gid)))"

(*@ oidc-repository/src/repositories/group_role_repo.rs 16-28 GroupRoleRepo::assign *)
definition group_role_assign :: "uuid \<Rightarrow> uuid \<Rightarrow> (db, oidc_error, unit) prog" where
  "group_role_assign gid rid =
     bindp (query d_group_roles) (\<lambda>tbl.
     thenp (guardp ((gid, rid) \<notin> set tbl) (Conflict ''duplicate key''))
       (exec (d_group_roles_update (\<lambda>tbl. tbl @ [(gid, rid)]))))"

(*@ oidc-repository/src/repositories/group_role_repo.rs 30-42 GroupRoleRepo::unassign *)
definition group_role_unassign :: "uuid \<Rightarrow> uuid \<Rightarrow> db \<Rightarrow> db" where
  "group_role_unassign gid rid = d_group_roles_update (filter (\<lambda>p. p \<noteq> (gid, rid)))"

(*@ oidc-repository/src/repositories/group_role_repo.rs 44-65 GroupRoleRepo::find_roles_by_group *)
definition roles_of_group :: "uuid \<Rightarrow> db \<Rightarrow> role list" where
  "roles_of_group gid d =
     filter (\<lambda>r. (gid, ro_id r) \<in> set (d_group_roles d) \<and> ro_deleted_at r = None) (d_roles d)"


section \<open>Users and clients\<close>

(*@ oidc-repository/src/repositories/user_repo.rs 202-209 UserRepo::delete *)
definition user_delete :: "instant \<Rightarrow> uuid \<Rightarrow> db \<Rightarrow> db" where
  "user_delete now i = d_users_update (update_where (\<lambda>u. u_id u = i) (u_deleted_at_update (\<lambda>_. Some now)))"

(*@ oidc-repository/src/repositories/user_repo.rs 211-265 UserRepo::list *)
definition user_list :: "env \<Rightarrow> uuid option \<Rightarrow> string option \<Rightarrow> int \<Rightarrow> int \<Rightarrow> db \<Rightarrow> user list result" where
  "user_list E realm search limit offset d =
     page limit offset (sort_key (\<lambda>u. - u_created_at u)
       (filter (\<lambda>u. u_deleted_at u = None \<and> of_realm realm (u_realm_id u)
          \<and> found_by E search [Some (u_email u), u_username u, u_given_name u, u_family_name u]) (d_users d)))"

(*@ oidc-repository/src/repositories/user_repo.rs 267-298 UserRepo::count *)
definition user_count :: "uuid option \<Rightarrow> db \<Rightarrow> nat" where
  "user_count realm d = length (filter (\<lambda>u. u_deleted_at u = None \<and> of_realm realm (u_realm_id u)) (d_users d))"

text \<open>The identifier of a client is unique among all rows, those of deleted clients included.\<close>

(*@ oidc-repository/src/repositories/client_repo.rs 95-159 ClientRepo::create *)
definition client_create :: "client \<Rightarrow> (db, oidc_error, unit) prog" where
  "client_create c =
     bindp (query d_clients) (\<lambda>tbl.
     thenp (guardp (\<forall>x \<in> set tbl. c_id x \<noteq> c_id c \<and> c_client_id x \<noteq> c_client_id c) (Conflict ''duplicate key''))
       (exec (d_clients_update (\<lambda>tbl. tbl @ [c\<lparr>c_deleted_at := None\<rparr>]))))"

(*@ oidc-repository/src/repositories/client_repo.rs 161-241 ClientRepo::update *)
definition client_update :: "client \<Rightarrow> (db, oidc_error, unit) prog" where
  "client_update c =
     bindp (query d_clients) (\<lambda>tbl.
     thenp (guardp (\<forall>x \<in> set tbl. c_id x = c_id c \<and> c_deleted_at x = None \<longrightarrow>
              (\<forall>y \<in> set tbl. c_id y \<noteq> c_id c \<longrightarrow> c_client_id y \<noteq> c_client_id c)) (Conflict ''duplicate key''))
       (exec (d_clients_update (update_where (\<lambda>x. c_id x = c_id c \<and> c_deleted_at x = None)
          (\<lambda>x. c\<lparr>c_id := c_id x, c_realm_id := c_realm_id x, c_deleted_at := c_deleted_at x\<rparr>)))))"

(*@ oidc-repository/src/repositories/client_repo.rs 243-250 ClientRepo::delete *)
definition client_delete :: "instant \<Rightarrow> uuid \<Rightarrow> db \<Rightarrow> db" where
  "client_delete now i = d_clients_update (update_where (\<lambda>c. c_id c = i) (c_deleted_at_update (\<lambda>_. Some now)))"

(*@ oidc-repository/src/repositories/client_repo.rs 308-339 ClientRepo::count *)
definition client_count :: "uuid option \<Rightarrow> db \<Rightarrow> nat" where
  "client_count realm d =
     length (filter (\<lambda>c. c_deleted_at c = None \<and> of_realm realm (c_realm_id c)) (d_clients d))"


section \<open>Scopes and mappers\<close>

(*@ oidc-repository/src/repositories/scope_repo.rs 96-108 ScopeRepo::find_by_id *)
definition scope_by_id :: "uuid \<Rightarrow> db \<Rightarrow> scope option" where
  "scope_by_id i d = List.find (\<lambda>s. sc_id s = i) (d_scopes d)"

(*@ oidc-repository/src/repositories/scope_repo.rs 110-123 ScopeRepo::find_by_name *)
definition scope_by_name :: "uuid \<Rightarrow> string \<Rightarrow> db \<Rightarrow> scope option" where
  "scope_by_name realm name d = List.find (\<lambda>s. sc_realm_id s = realm \<and> sc_name s = name) (d_scopes d)"

(*@ oidc-repository/src/repositories/scope_repo.rs 125-137 ScopeRepo::list_by_realm *)
definition scopes_of_realm :: "env \<Rightarrow> uuid \<Rightarrow> db \<Rightarrow> scope list" where
  "scopes_of_realm E realm d =
     sort_by (\<lambda>a b. e_collate E (sc_name a) (sc_name b)) (filter (\<lambda>s. sc_realm_id s = realm) (d_scopes d))"

(*@ oidc-repository/src/repositories/scope_repo.rs 139-155 ScopeRepo::create *)
definition scope_create :: "scope \<Rightarrow> (db, oidc_error, unit) prog" where
  "scope_create s =
     bindp (query d_scopes) (\<lambda>tbl.
     thenp (guardp (\<forall>x \<in> set tbl. sc_id x \<noteq> sc_id s \<and> \<not> (sc_realm_id x = sc_realm_id s \<and> sc_name x = sc_name s))
              (Conflict ''duplicate key''))
       (exec (d_scopes_update (\<lambda>tbl. tbl @ [s]))))"

(*@ oidc-repository/src/repositories/scope_repo.rs 157-172 ScopeRepo::update *)
definition scope_update :: "scope \<Rightarrow> (db, oidc_error, unit) prog" where
  "scope_update s =
     bindp (query d_scopes) (\<lambda>tbl.
     thenp (guardp (\<forall>x \<in> set tbl. sc_id x = sc_id s \<longrightarrow>
              (\<forall>y \<in> set tbl. sc_id y \<noteq> sc_id s \<longrightarrow> \<not> (sc_realm_id y = sc_realm_id x \<and> sc_name y = sc_name s)))
              (Conflict ''duplicate key''))
       (exec (d_scopes_update (update_where (\<lambda>x. sc_id x = sc_id s)
          (\<lambda>x. x\<lparr>sc_name := sc_name s, sc_description := sc_description s, sc_enabled := sc_enabled s\<rparr>)))))"

text \<open>The rows of \<open>client_scopes\<close> and \<open>protocol_mappers\<close> that refer to a scope go with it (\<open>ON DELETE CASCADE\<close>).\<close>

(*@ oidc-repository/src/repositories/scope_repo.rs 174-181 ScopeRepo::delete *)
definition scope_delete :: "uuid \<Rightarrow> db \<Rightarrow> db" where
  "scope_delete i d =
     d\<lparr>d_scopes := filter (\<lambda>s. sc_id s \<noteq> i) (d_scopes d),
       d_client_scopes := filter (\<lambda>(_, s, _). s \<noteq> i) (d_client_scopes d),
       d_mappers := filter (\<lambda>m. pm_scope_id m \<noteq> i) (d_mappers d)\<rparr>"

(*@ oidc-repository/src/repositories/scope_repo.rs 29-46 ScopeRepo::assign_to_client *)
definition scope_assign :: "uuid \<Rightarrow> uuid \<Rightarrow> string \<Rightarrow> (db, oidc_error, unit) prog" where
  "scope_assign cid sid kind =
     thenp (guardp (kind \<in> {''default'', ''optional''}) (InvalidInput ''assignment type must be default or optional''))
       (exec (d_client_scopes_update (\<lambda>tbl.
          if \<exists>k. (cid, sid, k) \<in> set tbl
          then map (\<lambda>(c, s, k). if c = cid \<and> s = sid then (c, s, kind) else (c, s, k)) tbl
          else tbl @ [(cid, sid, kind)])))"

(*@ oidc-repository/src/repositories/scope_repo.rs 48-61 ScopeRepo::unassign_from_client *)
definition scope_unassign :: "uuid \<Rightarrow> uuid \<Rightarrow> db \<Rightarrow> db" where
  "scope_unassign cid sid = d_client_scopes_update (filter (\<lambda>(c, s, _). \<not> (c = cid \<and> s = sid)))"

(*@ oidc-repository/src/repositories/protocol_mapper_repo.rs 15-28 ProtocolMapperRepo::find_by_id *)
definition mapper_by_id :: "uuid \<Rightarrow> db \<Rightarrow> protocol_mapper option" where
  "mapper_by_id i d = List.find (\<lambda>m. pm_id m = i) (d_mappers d)"

(*@ oidc-repository/src/repositories/protocol_mapper_repo.rs 30-45 ProtocolMapperRepo::list_by_scope *)
definition mappers_of_scope :: "env \<Rightarrow> uuid \<Rightarrow> db \<Rightarrow> protocol_mapper list" where
  "mappers_of_scope E i d =
     sort_by (\<lambda>a b. e_collate E (pm_name a) (pm_name b)) (filter (\<lambda>m. pm_scope_id m = i) (d_mappers d))"

(*@ oidc-repository/src/repositories/protocol_mapper_repo.rs 60-71 ProtocolMapperRepo::create *)
definition mapper_create :: "protocol_mapper \<Rightarrow> (db, oidc_error, unit) prog" where
  "mapper_create m =
     thenp (lift (validate_mapper m))
    (bindp (query d_mappers) (\<lambda>tbl.
     thenp (guardp (\<forall>x \<in> set tbl. pm_id x \<noteq> pm_id m \<and> \<not> (pm_scope_id x = pm_scope_id m \<and> pm_name x = pm_name m))
              (Conflict ''duplicate key''))
       (exec (d_mappers_update (\<lambda>tbl. tbl @ [m])))))"

(*@ oidc-repository/src/repositories/protocol_mapper_repo.rs 73-84 ProtocolMapperRepo::update *)
definition mapper_update :: "protocol_mapper \<Rightarrow> (db, oidc_error, unit) prog" where
  "mapper_update m =
     thenp (lift (validate_mapper m))
    (bindp (query d_mappers) (\<lambda>tbl.
     thenp (guardp (\<forall>x \<in> set tbl. pm_id x = pm_id m \<longrightarrow>
              (\<forall>y \<in> set tbl. pm_id y \<noteq> pm_id m \<longrightarrow> \<not> (pm_scope_id y = pm_scope_id x \<and> pm_name y = pm_name m)))
              (Conflict ''duplicate key''))
       (exec (d_mappers_update (update_where (\<lambda>x. pm_id x = pm_id m) (\<lambda>x. m\<lparr>pm_scope_id := pm_scope_id x\<rparr>))))))"

(*@ oidc-repository/src/repositories/protocol_mapper_repo.rs 86-91 ProtocolMapperRepo::delete *)
definition mapper_delete :: "uuid \<Rightarrow> db \<Rightarrow> db" where
  "mapper_delete i = d_mappers_update (filter (\<lambda>m. pm_id m \<noteq> i))"

end
