(* ===== verification/Admin_Auth.thy ===== *)
theory Admin_Auth
  imports Admin_Repos Authorize
begin

text \<open>Who may call the administration: the extractor of \<open>openid-connect-wasi/src/middleware/admin_auth.rs\<close> (an API key,
  or an access token of the hub), the permission that a route asks for, the confinement of an administrator to the
  realm of its identity, the helpers of \<open>router/admin/mod.rs\<close>, and the routes of API keys (\<open>router/apikey.rs\<close>).\<close>

datatype verb = Get | Head | Post | Put | Delete | Other_Verb string

record admin_env =
  am_keys :: key_env
  am_service :: token_service
  am_time :: "instant \<Rightarrow> string"

(*@ openid-connect-wasi/src/middleware/admin_auth.rs 33-46 AdminAuth *)
record admin_auth =
  au_subject :: string
  au_api_key :: bool
  au_realm_id :: "uuid option"
  au_permissions :: "string list"
  au_route :: bool

section \<open>Permissions\<close>

(*@ openid-connect-wasi/src/middleware/admin_auth.rs 49-55 AdminAuth::is_global_admin *)
definition is_global_admin :: "admin_auth \<Rightarrow> bool" where
  "is_global_admin a \<longleftrightarrow> \<not> au_api_key a \<and> (\<exists>v \<in> set (au_permissions a). v = ''admin'' \<or> v = ''*'')"

(*@ openid-connect-wasi/src/middleware/admin_auth.rs 57-67 AdminAuth::has_permission *)
definition has_permission :: "admin_auth \<Rightarrow> string \<Rightarrow> bool" where
  "has_permission a p \<longleftrightarrow>
     (let wildcard = map_option (\<lambda>(resource, _). resource @ '':*'') (rsplit_once (CHR '':'') p)
      in \<exists>v \<in> set (au_permissions a). v = ''admin'' \<or> v = ''*'' \<or> v = p \<or> wildcard = Some v)"

(*@ openid-connect-wasi/src/middleware/admin_auth.rs 69-73 AdminAuth::has_any_organization_permission *)
definition any_organization_permission :: "admin_auth \<Rightarrow> bool" where
  "any_organization_permission a \<longleftrightarrow>
     (\<exists>v \<in> set (au_permissions a). v = ''admin'' \<or> starts_with v ''organizations:'')"

(*@ openid-connect-wasi/src/middleware/admin_auth.rs 75-79 AdminAuth::has_organization_permission *)
definition has_organization_permission :: "env \<Rightarrow> admin_auth \<Rightarrow> string \<Rightarrow> uuid \<Rightarrow> bool" where
  "has_organization_permission E a action org \<longleftrightarrow>
     has_permission a ''organizations:*'' \<or> has_permission a (''organizations:'' @ action)
     \<or> has_permission a (''organizations:'' @ e_uuid_text E org @ '':'' @ action)"

(*@ openid-connect-wasi/src/middleware/admin_auth.rs 81-91 AdminAuth::organization_ids_with_permission *)
definition organization_ids :: "env \<Rightarrow> admin_auth \<Rightarrow> string \<Rightarrow> uuid list" where
  "organization_ids E a action =
     List.map_filter (\<lambda>p. case split_on (CHR '':'') p of
         [kind, org, act] \<Rightarrow> if kind = ''organizations'' \<and> act = action then e_parse_uuid E org else None
       | _ \<Rightarrow> None) (au_permissions a)"

definition organizations_path :: string where
  "organizations_path = ''/api/organizations''"

text \<open>The permission of a path outside the organizations, in the order of the tests.\<close>

definition ends_with :: "string \<Rightarrow> string \<Rightarrow> bool" where
  "ends_with s t \<longleftrightarrow> starts_with (rev s) (rev t)"

definition below :: "string \<Rightarrow> string \<Rightarrow> bool" where
  "below root path \<longleftrightarrow> path = root \<or> starts_with path (root @ ''/'')"

(*@ openid-connect-wasi/src/middleware/admin_auth.rs 126-219 permission of a route *)
definition required_permission :: "verb \<Rightarrow> string \<Rightarrow> string option" where
  "required_permission verb path =
     (let read = (verb = Get \<or> verb = Head);
          rw = (\<lambda>r. Some (r @ (if read then '':read'' else '':write'')));
          user = starts_with path ''/api/users/'';
          realm = starts_with path ''/api/realms/''
      in if path = ''/api/stats'' then Some ''stats:read''
         else if below ''/api/authorization'' path then rw ''authorization''
         else if user \<and> ends_with path ''/impersonate'' then Some ''users:impersonate''
         else if user \<and> contains_text path ''/roles'' then rw ''roles''
         else if user \<and> contains_text path ''/groups'' then rw ''groups''
         else if below ''/api/users'' path then rw ''users''
         else if below ''/api/clients'' path then rw ''clients''
         else if realm \<and> contains_text path ''/workflows'' then
           (if read then Some ''workflows:read''
            else if ends_with path ''/run-due'' \<or> ends_with path ''/activate'' \<or> ends_with path ''/retry''
                 \<or> ends_with path ''/cancel'' then Some ''workflows:execute''
            else Some ''workflows:write'')
         else if realm \<and> (contains_text path ''/client-policies'' \<or> contains_text path ''/client-policy-profiles'') then
           (if read \<or> ends_with path ''/evaluate'' then Some ''clients:read'' else Some ''clients:write'')
         else if realm \<and> ends_with path ''/export'' then Some ''realms:read''
         else if realm \<and> ends_with path ''/email-template-preview'' then Some ''realms:read''
         else if below ''/api/realms'' path then rw ''realms''
         else if below ''/api/sessions'' path then Some (if read then ''sessions:read'' else ''sessions:revoke'')
         else if path = ''/api/audit/events'' then Some ''audit:read''
         else if below ''/api/scopes'' path then rw ''scopes''
         else if below ''/api/roles'' path then rw ''roles''
         else if below ''/api/groups'' path then rw ''groups''
         else if below ''/api/user-federation'' path then rw ''user_federation''
         else if below ''/api/saml/clients'' path then rw ''clients''
         else if below ''/api/identity-providers'' path then rw ''identity_providers''
         else if below ''/api/keys'' path then rw ''api_keys''
         else if starts_with path ''/api/maintenance/'' then Some ''maintenance:execute''
         else if path = ''/oidc/register'' then Some ''clients:write''
         else None)"

(*@ openid-connect-wasi/src/middleware/admin_auth.rs 94-221 route_is_authorized *)
definition route_is_authorized :: "env \<Rightarrow> verb \<Rightarrow> string \<Rightarrow> admin_auth \<Rightarrow> bool" where
  "route_is_authorized E verb path a \<longleftrightarrow>
     has_permission a ''admin'' \<or>
     (case strip_prefix path organizations_path of
        Some tail \<Rightarrow>
          (let segments = filter (\<lambda>s. s \<noteq> []) (split_on (CHR ''/'') tail);
               org = (case segments of [] \<Rightarrow> None | s # _ \<Rightarrow> e_parse_uuid E s);
               action = (if verb = Get then ''view''
                         else if (case segments of _ # s # _ \<Rightarrow> s \<in> {''members'', ''invitations''} | _ \<Rightarrow> False) then ''members''
                         else ''manage'')
           in case org of
                Some i \<Rightarrow> has_organization_permission E a action i
              | None \<Rightarrow> (if verb = Get
                         then has_permission a ''organizations:view'' \<or> has_permission a ''organizations:*''
                              \<or> organization_ids E a ''view'' \<noteq> []
                         else has_permission a ''organizations:manage''))
      | None \<Rightarrow> (case required_permission verb path of None \<Rightarrow> False | Some p \<Rightarrow> has_permission a p))"

definition trim_slashes :: "string \<Rightarrow> string" where
  "trim_slashes s = rev (dropWhile (\<lambda>c. c = CHR ''/'') (rev (dropWhile (\<lambda>c. c = CHR ''/'') s)))"

(*@ oidc-repository/src/repositories/identity_provider_repo.rs 20-34 IdentityProviderRepo::find_by_id *)
definition idp_by_id :: "uuid \<Rightarrow> db \<Rightarrow> identity_provider option" where
  "idp_by_id i d = List.find (\<lambda>p. ip_id p = i \<and> ip_deleted_at p = None) (d_identity_providers d)"

(*@ openid-connect-wasi/src/middleware/admin_auth.rs 249-294 realm of a resource *)
definition resource_realm :: "string \<Rightarrow> uuid \<Rightarrow> db \<Rightarrow> uuid option" where
  "resource_realm kind i d =
     (if kind = ''users'' then map_option u_realm_id (user_by_id i d)
      else if kind = ''clients'' then map_option c_realm_id (client_by_id i d)
      else if kind = ''sessions'' then map_option s_realm_id (session_by_id i d)
      else if kind = ''scopes'' then map_option sc_realm_id (scope_by_id i d)
      else if kind = ''roles'' then map_option ro_realm_id (role_by_id i d)
      else if kind = ''groups'' then map_option g_realm_id (group_by_id i d)
      else if kind = ''identity-providers'' then map_option ip_realm_id (idp_by_id i d)
      else if kind = ''organizations'' then map_option o_realm_id (org_by_id i d)
      else None)"

(*@ openid-connect-wasi/src/middleware/admin_auth.rs 223-297 route_realm_is_authorized *)
definition realm_is_authorized :: "env \<Rightarrow> string \<Rightarrow> admin_auth \<Rightarrow> db \<Rightarrow> bool" where
  "realm_is_authorized E path a d =
     (case au_realm_id a of
        None \<Rightarrow> True
      | Some realm \<Rightarrow>
          is_global_admin a \<or>
          (case split_on (CHR ''/'') (trim_slashes path) of
             api # kind # ident # _ \<Rightarrow>
               (if api \<noteq> ''api'' then True
                else case e_parse_uuid E ident of
                       None \<Rightarrow> True
                     | Some i \<Rightarrow>
                         (if kind = ''realms'' then i = realm
                          else case resource_realm kind i d of None \<Rightarrow> True | Some r \<Rightarrow> r = realm))
           | _ \<Rightarrow> True))"

text \<open>The identity of a request: an API key whose extraction succeeds, else a bearer token that the hub's own token service
  verifies.  A key that does not verify is not a refusal: the token is tried next, and without one the answer is
  \<open>Missing\<close>.\<close>

(*@ openid-connect-wasi/src/middleware/admin_auth.rs 308-323 authorisation of an identity *)
definition authorize_route :: "env \<Rightarrow> verb \<Rightarrow> string \<Rightarrow> admin_auth \<Rightarrow> (db, key_error, admin_auth) prog" where
  "authorize_route E verb path a =
     bindp (query (\<lambda>d. route_is_authorized E verb path a \<and> realm_is_authorized E path a d)) (\<lambda>yes.
     thenp (guardp yes Key_Scope) (ret (a\<lparr>au_route := True\<rparr>)))"

(*@ openid-connect-wasi/src/middleware/admin_auth.rs 337-373 identity of a token *)
definition token_identity :: "env \<Rightarrow> access_claims \<Rightarrow> db \<Rightarrow> key_error + admin_auth" where
  "token_identity E c d =
     (let identity = (\<lambda>realm permissions. \<lparr>au_subject = at_sub c, au_api_key = False, au_realm_id = realm,
                        au_permissions = permissions, au_route = False\<rparr>)
      in case e_parse_uuid E (at_sub c) of
           None \<Rightarrow> Inr (identity None (split_whitespace (at_scope c)))
         | Some uid \<Rightarrow>
             (case user_by_id uid d of
                None \<Rightarrow> Inl Key_Invalid
              | Some u \<Rightarrow> Inr (identity (Some (u_realm_id u)) (effective_permissions (e_collate E) uid d))))"

(*@ openid-connect-wasi/src/middleware/admin_auth.rs 299-393 AdminAuth::from_request_parts *)
definition admin_identity ::
  "env \<Rightarrow> admin_env \<Rightarrow> verb \<Rightarrow> string \<Rightarrow> headers \<Rightarrow> (db, key_error, admin_auth) prog" where
  "admin_identity E A verb path hs =
     bindp (attempt (authenticate_key E (am_keys A) hs)) (\<lambda>r. case r of
       Inr k \<Rightarrow> authorize_route E verb path
                  \<lparr>au_subject = e_uuid_text E (ak_id k), au_api_key = True, au_realm_id = Some (ak_realm_id k),
                   au_permissions = ak_scopes k, au_route = False\<rparr>
     | Inl _ \<Rightarrow>
         (case Option.bind (text_header hs ''authorization'') (\<lambda>h. strip_prefix h ''Bearer '') of
            None \<Rightarrow> fail Key_Missing
          | Some token \<Rightarrow>
              (case verify_access_token E (am_service A) (timestamp (e_clock E 2)) token of
                 Inl _ \<Rightarrow> fail Key_Missing
               | Inr c \<Rightarrow> bindp (ask (token_identity E c)) (authorize_route E verb path))))"

section \<open>Answers and realms\<close>

type_synonym 'a handler = "(db, nat \<times> members, 'a) prog"

(*@ openid-connect-wasi/src/router/admin/mod.rs 28-47 internal_error, not_found, bad_request, conflict *)
definition internal_answer :: "nat \<times> members" where "internal_answer = refusal 500 ''internal''"
definition missing_answer :: "nat \<times> members" where "missing_answer = refusal 404 ''not found''"
definition malformed_answer :: "nat \<times> members" where "malformed_answer = refusal 400 ''bad_request''"
definition duplicate_answer :: "nat \<times> members" where "duplicate_answer = refusal 409 ''duplicate''"
definition forbidden_answer :: "nat \<times> members" where "forbidden_answer = refusal 403 ''forbidden''"

(*@ openid-connect-wasi/src/router/admin/mod.rs 383-386 admin_or_forbidden *)
definition admitted :: "admin_auth \<Rightarrow> unit handler" where
  "admitted a = guardp (au_route a) forbidden_answer"

(*@ openid-connect-wasi/src/router/admin/mod.rs 390-404 scoped_realm *)
definition scoped_realm :: "admin_auth \<Rightarrow> uuid option \<Rightarrow> (nat \<times> members) + uuid option" where
  "scoped_realm a requested =
     (if is_global_admin a then Inr requested
      else case (au_realm_id a, requested) of
        (Some realm, Some r) \<Rightarrow> if realm \<noteq> r then Inl forbidden_answer else Inr requested
      | (Some realm, None) \<Rightarrow> Inr (Some realm)
      | (None, _) \<Rightarrow> Inr requested)"

(*@ openid-connect-wasi/src/router/admin/mod.rs 406-408 realm_or_forbidden *)
definition in_realm :: "admin_auth \<Rightarrow> uuid \<Rightarrow> unit handler" where
  "in_realm a realm = thenp (lift (scoped_realm a (Some realm))) (ret ())"

text \<open>The body of a request, when it could be parsed; a row that must be there; a query that must not fail.\<close>

definition parsed :: "'r option \<Rightarrow> 'r handler" where
  "parsed body = some_or body malformed_answer"

definition found_row :: "(db \<Rightarrow> 'a option) \<Rightarrow> 'a handler" where
  "found_row q = bindp (query q) (\<lambda>x. some_or x missing_answer)"

definition or_internal :: "(db, oidc_error, 'a) prog \<Rightarrow> 'a handler" where
  "or_internal m = fail_with (\<lambda>_. internal_answer) m"

fun conflict_or_internal :: "oidc_error \<Rightarrow> nat \<times> members" where
  "conflict_or_internal (Conflict _) = duplicate_answer"
| "conflict_or_internal _ = internal_answer"

text \<open>The audit event of a change: the actor is the identity, when its subject is a UUID.\<close>

(*@ openid-connect-wasi/src/router/apikey.rs 32-41 auth_actor *)
definition actor_of :: "env \<Rightarrow> admin_auth \<Rightarrow> uuid option \<times> actor_type" where
  "actor_of E a = (e_parse_uuid E (au_subject a), if au_api_key a then ApiKeyActor else UserActor)"

definition admin_event ::
  "env \<Rightarrow> nat \<Rightarrow> admin_auth \<Rightarrow> uuid option \<Rightarrow> string \<Rightarrow> string option \<Rightarrow> uuid option \<Rightarrow> json \<Rightarrow> db \<Rightarrow> db" where
  "admin_event E k a realm event kind target info =
     record_event E (k + 1)
       \<lparr>ae_id = e_uuid E k, ae_realm_id = realm, ae_event_type = event, ae_actor_id = fst (actor_of E a),
        ae_actor_type = snd (actor_of E a), ae_target_type = kind, ae_target_id = target, ae_details = info,
        ae_ip_address = None, ae_user_agent = None, ae_created_at = e_clock E k\<rparr>"

definition said :: "string \<Rightarrow> members" where
  "said word = [(word, JBool True)]"

section \<open>API keys\<close>

(*@ openid-connect-wasi/src/router/apikey.rs 45-57 ensure_realm_access *)
definition key_realm :: "admin_auth \<Rightarrow> uuid \<Rightarrow> unit handler" where
  "key_realm a realm = guardp (is_global_admin a \<or> au_realm_id a = Some realm) forbidden_answer"

(*@ openid-connect-wasi/src/router/apikey.rs 239-252 body of a key *)
definition key_row :: "env \<Rightarrow> admin_env \<Rightarrow> api_key \<Rightarrow> members" where
  "key_row E A k =
     (let at = opt_json (\<lambda>t. JStr (am_time A t))
      in [(''id'', JStr (e_uuid_text E (ak_id k))), (''realm_id'', JStr (e_uuid_text E (ak_realm_id k))),
          (''name'', JStr (ak_name k)), (''prefix'', JStr (ak_prefix k)), (''scopes'', strs (ak_scopes k)),
          (''revoked'', JBool (ak_revoked k)), (''request_count'', JNum (ak_request_count k)),
          (''expires_at'', at (ak_expires_at k)), (''last_used_at'', at (ak_last_used_at k)),
          (''created_at'', JStr (am_time A (ak_created_at k))),
          (''created_by'', opt_json (\<lambda>i. JStr (e_uuid_text E i)) (ak_created_by k)),
          (''rotated_at'', at (ak_rotated_at k))])"

(*@ openid-connect-wasi/src/router/apikey.rs 59-120 list_keys *)
definition list_keys :: "env \<Rightarrow> admin_env \<Rightarrow> admin_auth \<Rightarrow> uuid \<Rightarrow> bool option \<Rightarrow> members list handler" where
  "list_keys E A a realm include_revoked =
     thenp (key_realm a realm)
    (bindp (query (keys_of_realm realm (include_revoked = Some True))) (\<lambda>keys.
     ret (map (key_row E A) keys)))"

(*@ oidc-apikey/src/models.rs 10-20 CreateKeyRequest *)
record key_request =
  kr_realm_id :: uuid
  kr_name :: string
  kr_scopes :: "string list"
  kr_expires_in_days :: "nat option"

(*@ openid-connect-wasi/src/router/apikey.rs 122-208 create_key *)
definition create_key_request ::
  "env \<Rightarrow> admin_env \<Rightarrow> admin_auth \<Rightarrow> key_request option \<Rightarrow> (api_key \<times> string) handler" where
  "create_key_request E A a body =
     bindp (parsed body) (\<lambda>req.
     thenp (key_realm a (kr_realm_id req))
    (let created_by = (if au_api_key a then None else e_parse_uuid E (au_subject a))
     in bindp (or_internal (generate_key E (am_keys A) (kr_realm_id req) (kr_name req) (kr_scopes req)
                 (kr_expires_in_days req) created_by)) (\<lambda>(k, raw).
        thenp (exec (admin_event E 2 a (Some (ak_realm_id k)) ''api_key.created'' (Some ''api_key'') (Some (ak_id k))
                 (json_object [(''name'', JStr (ak_name k)), (''scopes'', strs (ak_scopes k))])))
          (ret (k, raw)))))"

definition missing_key :: "nat \<times> members" where
  "missing_key = refusal 404 ''not_found''"

(*@ openid-connect-wasi/src/router/apikey.rs 210-273 get_key *)
definition get_key :: "env \<Rightarrow> admin_env \<Rightarrow> admin_auth \<Rightarrow> uuid \<Rightarrow> members handler" where
  "get_key E A a i =
     bindp (query (key_by_id i)) (\<lambda>found.
     bindp (some_or found missing_key) (\<lambda>k.
     thenp (key_realm a (ak_realm_id k)) (ret (key_row E A k))))"

(*@ openid-connect-wasi/src/router/apikey.rs 275-348 revoke_key *)
definition revoke_key_request :: "env \<Rightarrow> admin_auth \<Rightarrow> uuid \<Rightarrow> members handler" where
  "revoke_key_request E a i =
     bindp (query (key_by_id i)) (\<lambda>found.
     bindp (some_or found missing_key) (\<lambda>k.
     thenp (key_realm a (ak_realm_id k))
    (thenp (exec (key_revoke i))
    (thenp (exec (admin_event E 0 a None ''api_key.revoked'' (Some ''api_key'') (Some i) (JObj [])))
       (ret (said ''revoked''))))))"

(*@ openid-connect-wasi/src/router/apikey.rs 350-431 rotate_key *)
definition rotate_key_request :: "env \<Rightarrow> admin_env \<Rightarrow> admin_auth \<Rightarrow> uuid \<Rightarrow> (api_key \<times> string) handler" where
  "rotate_key_request E A a i =
     bindp (query (key_by_id i)) (\<lambda>found.
     bindp (some_or found missing_key) (\<lambda>k.
     thenp (key_realm a (ak_realm_id k))
    (bindp (or_internal (rotate_key E (am_keys A) i None)) (\<lambda>(n, raw).
     thenp (exec (admin_event E 2 a (Some (ak_realm_id n)) ''api_key.rotated'' (Some ''api_key'') (Some (ak_id n))
              (json_object [(''previous_id'', JStr (e_uuid_text E i))])))
       (ret (n, raw))))))"

end
