(* ===== verification/Admin_Users.thy ===== *)
theory Admin_Users
  imports Admin_Auth
begin

text \<open>The administration of users (\<open>router/admin/users.rs\<close>): listing, creation, change and deletion, second factors and
  required actions, roles and groups, the recovery token and the token of an impersonation.\<close>

section \<open>Reading\<close>

text \<open>Every member of \<open>json!\<close> that is an \<open>Option\<close> is written as \<open>null\<close> when it is absent.\<close>

definition text_member :: "string option \<Rightarrow> json" where
  "text_member = opt_json JStr"

(*@ openid-connect-wasi/src/router/admin/users.rs 135-163 body of a user *)
definition user_row :: "env \<Rightarrow> admin_env \<Rightarrow> user \<Rightarrow> members" where
  "user_row E A u =
     [(''id'', JStr (e_uuid_text E (u_id u))), (''realm_id'', JStr (e_uuid_text E (u_realm_id u))),
      (''email'', JStr (u_email u)), (''email_verified'', JBool (u_email_verified u)),
      (''username'', text_member (u_username u)), (''given_name'', text_member (u_given_name u)),
      (''family_name'', text_member (u_family_name u)), (''middle_name'', text_member (u_middle_name u)),
      (''nickname'', text_member (u_nickname u)), (''preferred_username'', text_member (u_preferred_username u)),
      (''profile'', text_member (u_profile u)), (''picture'', text_member (u_picture u)),
      (''website'', text_member (u_website u)), (''gender'', text_member (u_gender u)),
      (''birthdate'', text_member (u_birthdate u)), (''zoneinfo'', text_member (u_zoneinfo u)),
      (''phone_number'', text_member (u_phone_number u)),
      (''phone_number_verified'', opt_json JBool (u_phone_number_verified u)),
      (''street_address'', text_member (u_street_address u)), (''locality'', text_member (u_locality u)),
      (''region'', text_member (u_region u)), (''postal_code'', text_member (u_postal_code u)),
      (''country'', text_member (u_country u)), (''locale'', JStr (u_locale u)),
      (''attributes'', u_attributes u), (''enabled'', JBool (u_enabled u)),
      (''updated_at'', JStr (am_time A (u_updated_at u)))]"

(*@ openid-connect-wasi/src/router/admin/users.rs 29-120 ListQuery, list *)
definition list_users ::
  "env \<Rightarrow> admin_env \<Rightarrow> admin_auth \<Rightarrow> uuid option \<Rightarrow> string option \<Rightarrow> int option \<Rightarrow> int option
     \<Rightarrow> (members list \<times> nat) handler" where
  "list_users E A a realm search limit offset =
     thenp (admitted a)
    (bindp (lift (scoped_realm a realm)) (\<lambda>r.
     bindp (or_internal (ask (user_list E r search (case limit of None \<Rightarrow> 20 | Some n \<Rightarrow> n)
              (case offset of None \<Rightarrow> 0 | Some n \<Rightarrow> n)))) (\<lambda>us.
     bindp (query (user_count r)) (\<lambda>total.
     ret (map (user_row E A) us, total)))))"

(*@ openid-connect-wasi/src/router/admin/users.rs 122-171 get *)
definition get_user :: "env \<Rightarrow> admin_env \<Rightarrow> admin_auth \<Rightarrow> uuid \<Rightarrow> members handler" where
  "get_user E A a i =
     thenp (admitted a) (bindp (found_row (user_by_id i)) (\<lambda>u. ret (user_row E A u)))"

(*@ openid-connect-wasi/src/router/admin/users.rs 173-212 get_mfa *)
definition get_user_mfa :: "env \<Rightarrow> admin_auth \<Rightarrow> uuid \<Rightarrow> (bool \<times> webauthn_credential list \<times> nat) handler" where
  "get_user_mfa E a i =
     thenp (admitted a)
    (bindp (found_row (user_by_id i)) (\<lambda>_.
     bindp (query (find_totp i)) (\<lambda>totp.
     bindp (query (list_webauthn i)) (\<lambda>passkeys.
     bindp (query (recovery_code_count i)) (\<lambda>n.
     ret (totp \<noteq> None, passkeys, n))))))"

(*@ openid-connect-wasi/src/router/admin/users.rs 214-244 get_required_actions *)
definition get_required_actions :: "admin_auth \<Rightarrow> uuid \<Rightarrow> string list handler" where
  "get_required_actions a i =
     thenp (admitted a)
    (bindp (found_row (user_by_id i)) (\<lambda>u.
     thenp (in_realm a (u_realm_id u))
    (bindp (query (required_actions_of i)) (\<lambda>acts. ret (map required_action_text acts)))))"

section \<open>Writing\<close>

fun all_some :: "'a option list \<Rightarrow> 'a list option" where
  "all_some [] = Some []"
| "all_some (None # _) = None"
| "all_some (Some x # xs) = map_option (\<lambda>ys. x # ys) (all_some xs)"

(*@ openid-connect-wasi/src/router/admin/users.rs 246-297 replace_required_actions *)
definition replace_actions_request :: "admin_auth \<Rightarrow> uuid \<Rightarrow> string list \<Rightarrow> string list handler" where
  "replace_actions_request a i wanted =
     thenp (admitted a)
    (bindp (found_row (user_by_id i)) (\<lambda>u.
     thenp (in_realm a (u_realm_id u))
    (bindp (some_or (all_some (map required_action_of wanted)) (refusal 400 ''Unknown required action'')) (\<lambda>acts.
     thenp (exec (replace_required_actions i acts))
       (ret (map required_action_text acts))))))"

(*@ openid-connect-wasi/src/router/admin/users.rs 299-348 reset_mfa *)
definition reset_mfa_request :: "env \<Rightarrow> admin_auth \<Rightarrow> uuid \<Rightarrow> members handler" where
  "reset_mfa_request E a i =
     thenp (admitted a)
    (bindp (found_row (user_by_id i)) (\<lambda>u.
     thenp (exec (reset_mfa i))
    (thenp (exec (session_revoke_user i))
    (thenp (exec (admin_event E 0 a (Some (u_realm_id u)) ''user.mfa_reset'' (Some ''user'') (Some i)
              (json_object [(''sessions_revoked'', JBool True)])))
       (ret (said ''reset''))))))"

(*@ openid-connect-wasi/src/router/admin/users.rs 350-376 CreateRequest *)
record new_user =
  nu_realm_id :: uuid
  nu_email :: string
  nu_password :: string
  nu_username :: "string option"
  nu_given_name :: "string option"
  nu_family_name :: "string option"
  nu_middle_name :: "string option"
  nu_nickname :: "string option"
  nu_preferred_username :: "string option"
  nu_profile :: "string option"
  nu_picture :: "string option"
  nu_website :: "string option"
  nu_gender :: "string option"
  nu_birthdate :: "string option"
  nu_zoneinfo :: "string option"
  nu_phone_number :: "string option"
  nu_phone_number_verified :: "bool option"
  nu_street_address :: "string option"
  nu_locality :: "string option"
  nu_region :: "string option"
  nu_postal_code :: "string option"
  nu_country :: "string option"
  nu_locale :: "string option"
  nu_enabled :: "bool option"

text \<open>The column \<open>created_at\<close> is not part of the inserted row; \<open>user_create\<close> sets it.\<close>

(*@ openid-connect-wasi/src/router/admin/users.rs 434-465 User of a CreateRequest *)
definition user_of_request :: "env \<Rightarrow> new_user \<Rightarrow> string \<Rightarrow> user" where
  "user_of_request E req hashed =
     \<lparr>u_id = e_uuid E 0, u_realm_id = nu_realm_id req, u_email = nu_email req, u_email_verified = False,
      u_username = nu_username req, u_password_hash = Some hashed, u_given_name = nu_given_name req,
      u_family_name = nu_family_name req, u_middle_name = nu_middle_name req, u_nickname = nu_nickname req,
      u_preferred_username = nu_preferred_username req, u_profile = nu_profile req, u_picture = nu_picture req,
      u_website = nu_website req, u_gender = nu_gender req, u_birthdate = nu_birthdate req,
      u_zoneinfo = nu_zoneinfo req, u_phone_number = nu_phone_number req,
      u_phone_number_verified = nu_phone_number_verified req, u_street_address = nu_street_address req,
      u_locality = nu_locality req, u_region = nu_region req, u_postal_code = nu_postal_code req,
      u_country = nu_country req, u_locale = (case nu_locale req of None \<Rightarrow> ''en'' | Some l \<Rightarrow> l),
      u_attributes = JObj [], u_enabled = (nu_enabled req \<noteq> Some False), u_deleted_at = None,
      u_updated_at = e_clock E 0, u_created_at = e_clock E 0\<rparr>"

definition invalid_input :: "nat \<times> members" where
  "invalid_input =
     (400, [(''error'', JStr ''invalid_request''), (''error_description'', JStr ''Invalid input'')])"

(*@ openid-connect-wasi/src/router/admin/users.rs 378-524 create *)
definition create_user :: "env \<Rightarrow> admin_env \<Rightarrow> admin_auth \<Rightarrow> new_user option \<Rightarrow> members handler" where
  "create_user E A a body =
     thenp (admitted a)
    (bindp (parsed body) (\<lambda>req.
     thenp (in_realm a (nu_realm_id req))
    (thenp (guardp (is_valid_email (nu_email req)) invalid_input)
    (thenp (guardp (is_strong_password (nu_password req)) invalid_input)
    (thenp (guardp (case nu_username req of None \<Rightarrow> True | Some n \<Rightarrow> is_valid_username n) invalid_input)
    (bindp (query (user_by_email (nu_realm_id req) (nu_email req))) (\<lambda>taken.
     thenp (guardp (taken = None) duplicate_answer)
    (bindp (lift (map_err (\<lambda>_. internal_answer) (e_hash_password E (nu_password req)))) (\<lambda>hashed.
     let u = user_of_request E req hashed
     in thenp (or_internal (user_create (e_db_now E) u))
       (thenp (exec (admin_event E 1 a (Some (u_realm_id u)) ''user.created'' (Some ''user'') (Some (u_id u))
                 (json_object [(''email'', JStr (u_email u))])))
          (ret (butlast (user_row E A u)))))))))))))"

(*@ openid-connect-wasi/src/router/admin/users.rs 526-551 UpdateRequest *)
record user_change =
  uc_email :: "string option"
  uc_email_verified :: "bool option"
  uc_username :: "string option"
  uc_given_name :: "string option"
  uc_family_name :: "string option"
  uc_middle_name :: "string option"
  uc_nickname :: "string option"
  uc_preferred_username :: "string option"
  uc_profile :: "string option"
  uc_picture :: "string option"
  uc_website :: "string option"
  uc_gender :: "string option"
  uc_birthdate :: "string option"
  uc_zoneinfo :: "string option"
  uc_phone_number :: "string option"
  uc_phone_number_verified :: "bool option"
  uc_street_address :: "string option"
  uc_locality :: "string option"
  uc_region :: "string option"
  uc_postal_code :: "string option"
  uc_country :: "string option"
  uc_locale :: "string option"
  uc_enabled :: "bool option"

definition given :: "'a option \<Rightarrow> 'a \<Rightarrow> 'a" where
  "given new old = (case new of None \<Rightarrow> old | Some v \<Rightarrow> v)"

definition given_some :: "'a option \<Rightarrow> 'a option \<Rightarrow> 'a option" where
  "given_some new old = (case new of None \<Rightarrow> old | Some v \<Rightarrow> Some v)"

(*@ openid-connect-wasi/src/router/admin/users.rs 578-646 update, the changed fields *)
definition changed_user :: "user_change \<Rightarrow> user \<Rightarrow> user" where
  "changed_user req u =
     u\<lparr>u_email := given (uc_email req) (u_email u),
       u_email_verified := given (uc_email_verified req) (u_email_verified u),
       u_username := given_some (uc_username req) (u_username u),
       u_given_name := given_some (uc_given_name req) (u_given_name u),
       u_family_name := given_some (uc_family_name req) (u_family_name u),
       u_middle_name := given_some (uc_middle_name req) (u_middle_name u),
       u_nickname := given_some (uc_nickname req) (u_nickname u),
       u_preferred_username := given_some (uc_preferred_username req) (u_preferred_username u),
       u_profile := given_some (uc_profile req) (u_profile u),
       u_picture := given_some (uc_picture req) (u_picture u),
       u_website := given_some (uc_website req) (u_website u),
       u_gender := given_some (uc_gender req) (u_gender u),
       u_birthdate := given_some (uc_birthdate req) (u_birthdate u),
       u_zoneinfo := given_some (uc_zoneinfo req) (u_zoneinfo u),
       u_phone_number := given_some (uc_phone_number req) (u_phone_number u),
       u_phone_number_verified := given_some (uc_phone_number_verified req) (u_phone_number_verified u),
       u_street_address := given_some (uc_street_address req) (u_street_address u),
       u_locality := given_some (uc_locality req) (u_locality u),
       u_region := given_some (uc_region req) (u_region u),
       u_postal_code := given_some (uc_postal_code req) (u_postal_code u),
       u_country := given_some (uc_country req) (u_country u),
       u_locale := given (uc_locale req) (u_locale u),
       u_enabled := given (uc_enabled req) (u_enabled u)\<rparr>"

(*@ openid-connect-wasi/src/router/admin/users.rs 553-654 update *)
definition update_user_request :: "env \<Rightarrow> admin_auth \<Rightarrow> uuid \<Rightarrow> user_change option \<Rightarrow> members handler" where
  "update_user_request E a i body =
     thenp (admitted a)
    (bindp (parsed body) (\<lambda>req.
     bindp (found_row (user_by_id i)) (\<lambda>u.
     thenp (or_internal (user_update (e_db_now E) (changed_user req u)))
       (ret (said ''updated'')))))"

(*@ openid-connect-wasi/src/router/admin/users.rs 656-675 delete *)
definition delete_user :: "env \<Rightarrow> admin_auth \<Rightarrow> uuid \<Rightarrow> members handler" where
  "delete_user E a i =
     thenp (admitted a) (thenp (exec (user_delete (e_db_now E) i)) (ret (said ''deleted'')))"

section \<open>Roles and groups of a user\<close>

(*@ openid-connect-wasi/src/router/admin/users.rs 701-708 body of a role *)
definition short_role_row :: "env \<Rightarrow> role \<Rightarrow> members" where
  "short_role_row E r =
     [(''id'', JStr (e_uuid_text E (ro_id r))), (''realm_id'', JStr (e_uuid_text E (ro_realm_id r))),
      (''name'', JStr (ro_name r)), (''description'', text_member (ro_description r)),
      (''permissions'', strs (ro_permissions r)),
      (''client_id'', opt_json (\<lambda>i. JStr (e_uuid_text E i)) (ro_client_id r))]"

(*@ openid-connect-wasi/src/router/admin/users.rs 847-853 body of a group *)
definition short_group_row :: "env \<Rightarrow> group \<Rightarrow> members" where
  "short_group_row E g =
     [(''id'', JStr (e_uuid_text E (g_id g))), (''realm_id'', JStr (e_uuid_text E (g_realm_id g))),
      (''name'', JStr (g_name g)), (''description'', text_member (g_description g)),
      (''parent_id'', opt_json (\<lambda>i. JStr (e_uuid_text E i)) (g_parent_id g))]"

(*@ openid-connect-wasi/src/router/admin/users.rs 679-712 list_roles *)
definition list_user_roles :: "env \<Rightarrow> admin_auth \<Rightarrow> uuid \<Rightarrow> members list handler" where
  "list_user_roles E a i =
     thenp (admitted a) (bindp (query (roles_of_user i)) (\<lambda>rs. ret (map (short_role_row E) rs)))"

definition link_event :: "env \<Rightarrow> admin_auth \<Rightarrow> string \<Rightarrow> string \<Rightarrow> uuid \<Rightarrow> string \<Rightarrow> uuid \<Rightarrow> db \<Rightarrow> db" where
  "link_event E a event kind target key linked =
     admin_event E 0 a None event (Some kind) (Some target) (json_object [(key, JStr (e_uuid_text E linked))])"

(*@ openid-connect-wasi/src/router/admin/users.rs 714-778 assign_role *)
definition assign_user_role :: "env \<Rightarrow> admin_auth \<Rightarrow> uuid \<Rightarrow> uuid option \<Rightarrow> members handler" where
  "assign_user_role E a i body =
     thenp (admitted a)
    (bindp (parsed body) (\<lambda>rid.
     bindp (found_row (user_by_id i)) (\<lambda>u.
     bindp (found_row (role_by_id rid)) (\<lambda>r.
     thenp (guardp (u_realm_id u = ro_realm_id r) malformed_answer)
    (thenp (exec (role_assign i rid))
    (thenp (exec (link_event E a ''user.role_assigned'' ''user'' i ''role_id'' rid))
       (ret (said ''assigned''))))))))"

(*@ openid-connect-wasi/src/router/admin/users.rs 780-821 unassign_role *)
definition unassign_user_role :: "env \<Rightarrow> admin_auth \<Rightarrow> uuid \<Rightarrow> uuid \<Rightarrow> members handler" where
  "unassign_user_role E a i rid =
     thenp (admitted a)
    (thenp (exec (role_unassign i rid))
    (thenp (exec (link_event E a ''user.role_unassigned'' ''user'' i ''role_id'' rid))
       (ret (said ''unassigned''))))"

(*@ openid-connect-wasi/src/router/admin/users.rs 825-857 list_groups *)
definition list_user_groups :: "env \<Rightarrow> admin_auth \<Rightarrow> uuid \<Rightarrow> members list handler" where
  "list_user_groups E a i =
     thenp (admitted a) (bindp (query (groups_of_user i)) (\<lambda>gs. ret (map (short_group_row E) gs)))"

(*@ openid-connect-wasi/src/router/admin/users.rs 859-926 assign_group *)
definition assign_user_group :: "env \<Rightarrow> admin_auth \<Rightarrow> uuid \<Rightarrow> uuid option \<Rightarrow> members handler" where
  "assign_user_group E a i body =
     thenp (admitted a)
    (bindp (parsed body) (\<lambda>gid.
     bindp (found_row (user_by_id i)) (\<lambda>u.
     bindp (found_row (group_by_id gid)) (\<lambda>g.
     thenp (guardp (u_realm_id u = g_realm_id g) malformed_answer)
    (thenp (or_internal (group_assign i gid))
    (thenp (exec (link_event E a ''user.group_assigned'' ''user'' i ''group_id'' gid))
       (ret (said ''assigned''))))))))"

(*@ openid-connect-wasi/src/router/admin/users.rs 928-969 unassign_group *)
definition unassign_user_group :: "env \<Rightarrow> admin_auth \<Rightarrow> uuid \<Rightarrow> uuid \<Rightarrow> members handler" where
  "unassign_user_group E a i gid =
     thenp (admitted a)
    (thenp (exec (group_unassign i gid))
    (thenp (exec (link_event E a ''user.group_unassigned'' ''user'' i ''group_id'' gid))
       (ret (said ''unassigned''))))"

section \<open>Recovery and impersonation\<close>

(*@ openid-connect-wasi/src/router/admin/users.rs 973-1064 initiate_account_recovery *)
definition initiate_recovery ::
  "env \<Rightarrow> admin_auth \<Rightarrow> uuid \<Rightarrow> string option \<Rightarrow> (string \<times> user \<times> instant) handler" where
  "initiate_recovery E a i creator_ip =
     thenp (admitted a)
    (bindp (query (user_by_id i)) (\<lambda>found.
     bindp (some_or found (refusal 404 ''user not found'')) (\<lambda>u.
     bindp (some_or (e_parse_uuid E (au_subject a)) (refusal 500 ''invalid admin identity'')) (\<lambda>admin.
     bindp (lift (map_err (\<lambda>_. internal_answer) (new_recovery_token E (u_id u) (u_realm_id u) admin creator_ip)))
       (\<lambda>(t, raw).
     thenp (or_internal (recovery_create t))
    (thenp (exec (admin_event E 1 a (Some (u_realm_id u)) ''user.account_recovery_initiated'' (Some ''user'')
              (Some (u_id u)) (JObj [])))
       (ret (raw, u, art_expires_at t))))))))"

(*@ oidc-oidc/src/tokens/jwt_service.rs 702-749 encode_access_token_with_act, encode_claims *)
definition token_with_act ::
  "env \<Rightarrow> token_service \<Rightarrow> int \<Rightarrow> string \<Rightarrow> string \<Rightarrow> string \<Rightarrow> string list \<Rightarrow> int \<Rightarrow> string result" where
  "token_with_act E svc now sub act_sub scope audience expires_in =
     bindr (generate_opaque_token E 0) (\<lambda>jti.
     encode_jwt E svc (obj.ins_all
       [(''iss'', JStr (ts_issuer svc)), (''sub'', JStr sub), (''aud'', strs audience), (''exp'', JNum (now + expires_in)),
        (''iat'', JNum now), (''jti'', JStr jti), (''scope'', JStr scope),
        (''act'', json_object [(''sub'', JStr act_sub)])] []))"

(*@ openid-connect-wasi/src/router/admin/users.rs 1068-1143 impersonate *)
definition impersonate :: "env \<Rightarrow> admin_env \<Rightarrow> admin_auth \<Rightarrow> uuid \<Rightarrow> (string \<times> members) handler" where
  "impersonate E A a i =
     thenp (admitted a)
    (bindp (query (user_by_id i)) (\<lambda>found.
     bindp (some_or found (refusal 404 ''user not found'')) (\<lambda>u.
     thenp (guardp (u_enabled u) (refusal 400 ''user is disabled''))
    (bindp (lift (map_err (\<lambda>_. internal_answer)
              (token_with_act E (am_service A) (timestamp (e_clock E 0)) (e_uuid_text E (u_id u)) (au_subject a)
                 ''openid profile email'' [''account''] 300))) (\<lambda>token.
     thenp (exec (admin_event E 1 a (Some (u_realm_id u)) ''user.impersonated'' (Some ''user'') (Some (u_id u))
              (json_object [(''impersonated_user_id'', JStr (e_uuid_text E (u_id u))),
                            (''impersonated_by'', JStr (au_subject a))])))
       (ret (token, [(''token_type'', JStr ''Bearer''), (''expires_in'', JNum 300),
                     (''impersonated_user_id'', JStr (e_uuid_text E (u_id u))),
                     (''impersonated_by'', JStr (au_subject a))])))))))"

end
