(* ===== verification/Admin_Clients.thy ===== *)
theory Admin_Clients
  imports Admin_Users Ciba
begin

text \<open>The administration of clients (\<open>router/admin/clients.rs\<close>) with their CIBA configuration, and of the policies that
  clients are checked against (\<open>router/admin/client_policies.rs\<close>).  A client is written only after the policies of its
  realm accepted it.\<close>

section \<open>Clients\<close>

(*@ openid-connect-wasi/src/router/admin/clients.rs 119-145 body of a client *)
definition client_row :: "env \<Rightarrow> client \<Rightarrow> members" where
  "client_row E c =
     [(''id'', JStr (e_uuid_text E (c_id c))), (''realm_id'', JStr (e_uuid_text E (c_realm_id c))),
      (''client_id'', JStr (c_client_id c)),
      (''client_type'', JStr (case c_client_type c of Confidential \<Rightarrow> ''confidential'' | Public \<Rightarrow> ''public'')),
      (''name'', JStr (c_name c)), (''redirect_uris'', strs (c_redirect_uris c)),
      (''allowed_scopes'', strs (c_allowed_scopes c)), (''allowed_grant_types'', strs (c_allowed_grant_types c)),
      (''pkce_required'', JBool (c_pkce_required c)), (''enabled'', JBool (c_enabled c)),
      (''subject_type'', JStr (c_subject_type c)), (''sector_identifier_uri'', text_member (c_sector_identifier_uri c)),
      (''token_endpoint_auth_method'', JStr (c_token_endpoint_auth_method c)), (''jwks_uri'', text_member (c_jwks_uri c)),
      (''request_uris'', strs (c_request_uris c)),
      (''frontchannel_logout_uri'', text_member (c_frontchannel_logout_uri c)),
      (''frontchannel_logout_session_required'', JBool (c_frontchannel_logout_session_required c)),
      (''backchannel_logout_uri'', text_member (c_backchannel_logout_uri c)),
      (''backchannel_logout_session_required'', JBool (c_backchannel_logout_session_required c)),
      (''post_logout_redirect_uris'', strs (c_post_logout_redirect_uris c)),
      (''response_modes'', strs (c_response_modes c)),
      (''id_token_encrypted_response_alg'', text_member (c_id_token_alg c)),
      (''id_token_encrypted_response_enc'', text_member (c_id_token_enc c)),
      (''request_object_encryption_alg'', text_member (c_request_object_alg c)),
      (''request_object_encryption_enc'', text_member (c_request_object_enc c))]"

(*@ openid-connect-wasi/src/router/admin/clients.rs 106-152 get *)
definition get_client :: "env \<Rightarrow> admin_auth \<Rightarrow> uuid \<Rightarrow> members handler" where
  "get_client E a i = thenp (admitted a) (bindp (found_row (client_by_id i)) (\<lambda>c. ret (client_row E c)))"

text \<open>The members that the creation and the change of a client share.\<close>

(*@ openid-connect-wasi/src/router/admin/clients.rs 338-364 UpdateRequest *)
record client_change =
  cq_name :: "string option"
  cq_redirect_uris :: "string list option"
  cq_allowed_scopes :: "string list option"
  cq_allowed_grant_types :: "string list option"
  cq_pkce_required :: "bool option"
  cq_enabled :: "bool option"
  cq_subject_type :: "string option"
  cq_sector_identifier_uri :: "string option"
  cq_token_endpoint_auth :: "string option"
  cq_jwks_uri :: "string option"
  cq_jwks :: "json option"
  cq_request_uris :: "string list option"
  cq_frontchannel_logout_uri :: "string option"
  cq_frontchannel_logout_session_required :: "bool option"
  cq_backchannel_logout_uri :: "string option"
  cq_backchannel_logout_session_required :: "bool option"
  cq_post_logout_redirect_uris :: "string list option"
  cq_response_modes :: "string list option"
  cq_id_token_alg :: "string option"
  cq_id_token_enc :: "string option"
  cq_id_token_key_pem :: "string option"
  cq_request_object_alg :: "string option"
  cq_request_object_enc :: "string option"
  cq_request_object_key_pem :: "string option"

text \<open>The name is required in a creation: a body without it is not parsed.\<close>

(*@ openid-connect-wasi/src/router/admin/clients.rs 154-184 CreateRequest *)
record new_client = client_change +
  nc_realm_id :: uuid
  nc_client_id :: string
  nc_name :: string
  nc_client_type :: "string option"
  nc_client_secret :: "string option"

(*@ openid-connect-wasi/src/router/admin/clients.rs 212-215 client_type *)
definition type_of_request :: "new_client \<Rightarrow> client_type" where
  "type_of_request req = (if nc_client_type req = Some ''public'' then Public else Confidential)"

text \<open>\<open>generate_opaque_token().unwrap_or_default()\<close>: when the random source fails, the secret is empty.\<close>

(*@ openid-connect-wasi/src/router/admin/clients.rs 216-231 client_secret_hash, plain_secret *)
definition secret_of_request :: "env \<Rightarrow> new_client \<Rightarrow> (string option \<times> string option) result" where
  "secret_of_request E req =
     (case type_of_request req of
        Public \<Rightarrow> Inr (None, None)
      | Confidential \<Rightarrow>
          let plain = (case nc_client_secret req of
                Some s \<Rightarrow> s
              | None \<Rightarrow> (case generate_opaque_token E 0 of Inl _ \<Rightarrow> [] | Inr t \<Rightarrow> t))
          in bindr (e_hash_password E plain) (\<lambda>hashed. Inr (Some hashed, Some plain)))"

(*@ openid-connect-wasi/src/router/admin/clients.rs 232-287 Client of a CreateRequest *)
definition client_of_body :: "env \<Rightarrow> new_client \<Rightarrow> string option \<Rightarrow> client" where
  "client_of_body E req hashed =
     \<lparr>c_id = e_uuid E 0, c_realm_id = nc_realm_id req, c_client_id = nc_client_id req,
      c_client_type = type_of_request req, c_client_secret_hash = hashed, c_name = nc_name req,
      c_redirect_uris = given (cq_redirect_uris req) [], c_allowed_scopes = given (cq_allowed_scopes req) [''openid''],
      c_allowed_grant_types = given (cq_allowed_grant_types req) [''authorization_code''],
      c_pkce_required = given (cq_pkce_required req) True, c_enabled = given (cq_enabled req) True, c_deleted_at = None,
      c_token_endpoint_auth_method = given (cq_token_endpoint_auth req)
        (case type_of_request req of Confidential \<Rightarrow> ''client_secret_basic'' | Public \<Rightarrow> ''none''),
      c_jwks_uri = cq_jwks_uri req, c_jwks = cq_jwks req, c_request_uris = given (cq_request_uris req) [],
      c_client_secret_encrypted = None, c_frontchannel_logout_uri = cq_frontchannel_logout_uri req,
      c_frontchannel_logout_session_required = given (cq_frontchannel_logout_session_required req) False,
      c_backchannel_logout_uri = cq_backchannel_logout_uri req,
      c_backchannel_logout_session_required = given (cq_backchannel_logout_session_required req) False,
      c_post_logout_redirect_uris = given (cq_post_logout_redirect_uris req) [],
      c_subject_type = given (cq_subject_type req) ''public'', c_sector_identifier_uri = cq_sector_identifier_uri req,
      c_response_modes = given (cq_response_modes req) [''query'', ''fragment''],
      c_id_token_alg = cq_id_token_alg req, c_id_token_enc = cq_id_token_enc req, c_id_token_key_encrypted = None,
      c_id_token_key_pem = cq_id_token_key_pem req, c_request_object_alg = cq_request_object_alg req,
      c_request_object_enc = cq_request_object_enc req, c_request_object_key_encrypted = None,
      c_request_object_key_pem = cq_request_object_key_pem req\<rparr>"

(*@ openid-connect-wasi/src/router/admin/clients.rs 288-297 client_policies::enforce *)
definition policies_allow :: "env \<Rightarrow> client \<Rightarrow> unit handler" where
  "policies_allow E c =
     bindp (ask (\<lambda>d. map_err (\<lambda>e. (400, [(''error'', JStr ''client_policy_violation''),
                                          (''error_description'', JStr (error_text e))]))
              (enforce_client E Admin_Context c d))) (\<lambda>_. ret ())"

(*@ openid-connect-wasi/src/router/admin/clients.rs 186-336 create *)
definition create_client :: "env \<Rightarrow> admin_auth \<Rightarrow> new_client option \<Rightarrow> members handler" where
  "create_client E a body =
     thenp (admitted a)
    (bindp (parsed body) (\<lambda>req.
     thenp (in_realm a (nc_realm_id req))
    (bindp (query (client_by_client_id (nc_client_id req))) (\<lambda>taken.
     thenp (guardp (taken = None) duplicate_answer)
    (bindp (lift (map_err (\<lambda>_. internal_answer) (secret_of_request E req))) (\<lambda>(hashed, plain).
     let c = client_of_body E req hashed
     in thenp (policies_allow E c)
       (thenp (or_internal (client_create c))
          (ret (client_row E c @ opt_member ''client_secret'' JStr plain)))))))))"

(*@ openid-connect-wasi/src/router/admin/clients.rs 391-462 update, the changed fields *)
definition changed_client :: "client_change \<Rightarrow> client \<Rightarrow> client" where
  "changed_client req c =
     c\<lparr>c_name := given (cq_name req) (c_name c), c_redirect_uris := given (cq_redirect_uris req) (c_redirect_uris c),
       c_allowed_scopes := given (cq_allowed_scopes req) (c_allowed_scopes c),
       c_allowed_grant_types := given (cq_allowed_grant_types req) (c_allowed_grant_types c),
       c_pkce_required := given (cq_pkce_required req) (c_pkce_required c),
       c_enabled := given (cq_enabled req) (c_enabled c),
       c_subject_type := given (cq_subject_type req) (c_subject_type c),
       c_sector_identifier_uri := given_some (cq_sector_identifier_uri req) (c_sector_identifier_uri c),
       c_token_endpoint_auth_method := given (cq_token_endpoint_auth req) (c_token_endpoint_auth_method c),
       c_jwks_uri := given_some (cq_jwks_uri req) (c_jwks_uri c), c_jwks := given_some (cq_jwks req) (c_jwks c),
       c_request_uris := given (cq_request_uris req) (c_request_uris c),
       c_frontchannel_logout_uri := given_some (cq_frontchannel_logout_uri req) (c_frontchannel_logout_uri c),
       c_frontchannel_logout_session_required :=
         given (cq_frontchannel_logout_session_required req) (c_frontchannel_logout_session_required c),
       c_backchannel_logout_uri := given_some (cq_backchannel_logout_uri req) (c_backchannel_logout_uri c),
       c_backchannel_logout_session_required :=
         given (cq_backchannel_logout_session_required req) (c_backchannel_logout_session_required c),
       c_post_logout_redirect_uris := given (cq_post_logout_redirect_uris req) (c_post_logout_redirect_uris c),
       c_response_modes := given (cq_response_modes req) (c_response_modes c),
       c_id_token_alg := given_some (cq_id_token_alg req) (c_id_token_alg c),
       c_id_token_enc := given_some (cq_id_token_enc req) (c_id_token_enc c),
       c_id_token_key_pem := given_some (cq_id_token_key_pem req) (c_id_token_key_pem c),
       c_request_object_alg := given_some (cq_request_object_alg req) (c_request_object_alg c),
       c_request_object_enc := given_some (cq_request_object_enc req) (c_request_object_enc c),
       c_request_object_key_pem := given_some (cq_request_object_key_pem req) (c_request_object_key_pem c)\<rparr>"

(*@ openid-connect-wasi/src/router/admin/clients.rs 366-480 update *)
definition update_client_request :: "env \<Rightarrow> admin_auth \<Rightarrow> uuid \<Rightarrow> client_change option \<Rightarrow> members handler" where
  "update_client_request E a i body =
     thenp (admitted a)
    (bindp (parsed body) (\<lambda>req.
     bindp (found_row (client_by_id i)) (\<lambda>c.
     thenp (policies_allow E (changed_client req c))
    (thenp (or_internal (client_update (changed_client req c)))
       (ret (said ''updated''))))))"

(*@ openid-connect-wasi/src/router/admin/clients.rs 482-501 delete *)
definition delete_client :: "env \<Rightarrow> admin_auth \<Rightarrow> uuid \<Rightarrow> members handler" where
  "delete_client E a i =
     thenp (admitted a) (thenp (exec (client_delete (e_db_now E) i)) (ret (said ''deleted'')))"

(*@ openid-connect-wasi/src/router/admin/clients.rs 503-531 get_ciba *)
definition get_ciba_config :: "admin_auth \<Rightarrow> uuid \<Rightarrow> (bool \<times> ciba_config) handler" where
  "get_ciba_config a i =
     thenp (admitted a)
    (bindp (found_row (client_by_id i)) (\<lambda>c.
     thenp (in_realm a (c_realm_id c))
    (bindp (query (ciba_config_of i)) (\<lambda>cfg.
     ret (case cfg of
            Some x \<Rightarrow> (True, x)
          | None \<Rightarrow> (False, \<lparr>cc_client_id = i, cc_delivery_mode = ''poll'', cc_notification_endpoint = None,
                            cc_request_lifetime_seconds = 300, cc_polling_interval_seconds = 5\<rparr>))))))"

(*@ oidc-repository/src/repositories/ciba_repo.rs 31-38 CibaRepo::save_config *)
definition ciba_save_config :: "ciba_config \<Rightarrow> db \<Rightarrow> db" where
  "ciba_save_config cfg =
     d_ciba_configs_update (\<lambda>tbl.
       if \<exists>x \<in> set tbl. cc_client_id x = cc_client_id cfg
       then update_where (\<lambda>x. cc_client_id x = cc_client_id cfg) (\<lambda>_. cfg) tbl else tbl @ [cfg])"

(*@ openid-connect-wasi/src/router/admin/clients.rs 533-540 CibaConfigRequest *)
record ciba_change =
  cb_enabled :: bool
  cb_delivery_mode :: "string option"
  cb_notification_endpoint :: "string option"
  cb_request_lifetime_seconds :: "int option"
  cb_polling_interval_seconds :: "int option"

(*@ openid-connect-wasi/src/router/admin/clients.rs 542-642 update_ciba *)
definition update_ciba :: "env \<Rightarrow> admin_auth \<Rightarrow> uuid \<Rightarrow> ciba_change \<Rightarrow> bool handler" where
  "update_ciba E a i req =
     thenp (admitted a)
    (bindp (found_row (client_by_id i)) (\<lambda>c.
     thenp (in_realm a (c_realm_id c))
    (if \<not> cb_enabled req
     then let c = c\<lparr>c_allowed_grant_types := filter (\<lambda>v. v \<noteq> ciba_grant) (c_allowed_grant_types c)\<rparr>
          in thenp (policies_allow E c)
            (thenp (or_internal (client_update c))
            (thenp (exec (d_ciba_configs_update (filter (\<lambda>x. cc_client_id x \<noteq> i))))
               (ret False)))
     else let cfg = \<lparr>cc_client_id = i, cc_delivery_mode = given (cb_delivery_mode req) ''poll'',
                     cc_notification_endpoint = (case cb_notification_endpoint req of
                        None \<Rightarrow> None | Some v \<Rightarrow> if blank v then None else Some v),
                     cc_request_lifetime_seconds = given (cb_request_lifetime_seconds req) 300,
                     cc_polling_interval_seconds = given (cb_polling_interval_seconds req) 5\<rparr>;
              c = (if ciba_grant \<in> set (c_allowed_grant_types c) then c
                   else c\<lparr>c_allowed_grant_types := c_allowed_grant_types c @ [ciba_grant]\<rparr>)
          in thenp (lift (map_err (\<lambda>e. (400, [(''error'', JStr ''invalid_request''),
                                              (''error_description'', JStr (error_text e))]))
                      (validate_ciba_config E cfg)))
            (thenp (policies_allow E c)
            (thenp (or_internal (client_update c))
            (thenp (exec (ciba_save_config cfg))
               (ret True)))))))"

section \<open>Client policies\<close>

definition described :: "nat \<Rightarrow> string \<Rightarrow> string \<Rightarrow> nat \<times> members" where
  "described code err message = (code, [(''error'', JStr err), (''error_description'', JStr message)])"

(*@ openid-connect-wasi/src/router/admin/client_policies.rs 54-78 error, oidc_error *)
fun policy_refusal :: "oidc_error \<Rightarrow> nat \<times> members" where
  "policy_refusal (InvalidInput m) = described 400 ''invalid_request'' m"
| "policy_refusal (Conflict m) =
     (if m = ''profile is assigned to a client policy'' then described 409 ''conflict'' m
      else described 409 ''conflict'' ''A client policy or security profile with this name already exists'')"
| "policy_refusal (NotFound m) = described 404 ''not_found'' m"
| "policy_refusal _ = internal_answer"

(*@ openid-connect-wasi/src/router/admin/client_policies.rs 79-106 audit *)
definition policy_event :: "env \<Rightarrow> nat \<Rightarrow> admin_auth \<Rightarrow> uuid \<Rightarrow> string \<Rightarrow> uuid \<Rightarrow> db \<Rightarrow> db" where
  "policy_event E k a realm event target =
     admin_event E k a (Some realm) event (Some ''client_policy'') (Some target) (JObj [])"

(*@ openid-connect-wasi/src/router/admin/client_policies.rs 107-124 valid_profiles *)
definition valid_profiles :: "env \<Rightarrow> uuid \<Rightarrow> uuid list \<Rightarrow> db \<Rightarrow> unit result" where
  "valid_profiles E realm ids d =
     check_all (\<lambda>i. ensure (case profile_by_id i d of None \<Rightarrow> False | Some p \<Rightarrow> pp_realm_id p = realm)
       (InvalidInput (''profile '' @ e_uuid_text E i @ '' does not exist in this realm''))) ids"

definition nonblank :: "string option \<Rightarrow> string option" where
  "nonblank s = (case s of None \<Rightarrow> None | Some v \<Rightarrow> if blank v then None else Some v)"

(*@ openid-connect-wasi/src/router/admin/client_policies.rs 26-42 ProfileRequest, PolicyRequest *)
record policy_profile_request =
  pr_name :: string
  pr_description :: "string option"
  pr_executors :: "policy_executor list"

record policy_request =
  pq_name :: string
  pq_description :: "string option"
  pq_enabled :: bool
  pq_priority :: int
  pq_conditions :: "policy_condition list"
  pq_profile_ids :: "uuid list"

definition of_policies :: "admin_auth \<Rightarrow> uuid \<Rightarrow> unit handler" where
  "of_policies a realm = thenp (admitted a) (in_realm a realm)"

(*@ openid-connect-wasi/src/router/admin/client_policies.rs 126-145 list_profiles *)
definition list_profiles :: "env \<Rightarrow> admin_auth \<Rightarrow> uuid \<Rightarrow> policy_profile list handler" where
  "list_profiles E a realm = thenp (of_policies a realm) (query (profiles_of_realm E realm))"

(*@ openid-connect-wasi/src/router/admin/client_policies.rs 146-182 create_profile *)
definition create_profile :: "env \<Rightarrow> admin_auth \<Rightarrow> uuid \<Rightarrow> policy_profile_request \<Rightarrow> policy_profile handler" where
  "create_profile E a realm req =
     thenp (of_policies a realm)
    (let p = \<lparr>pp_id = e_uuid E 0, pp_realm_id = realm, pp_name = trim (pr_name req),
              pp_description = nonblank (pr_description req), pp_executors = pr_executors req,
              pp_created_at = e_clock E 0, pp_updated_at = e_clock E 0\<rparr>
     in thenp (lift (map_err policy_refusal (validate_profile p)))
       (thenp (fail_with policy_refusal (profile_create E p))
       (thenp (exec (policy_event E 1 a realm ''client_policy.profile_created'' (pp_id p)))
          (ret p))))"

(*@ openid-connect-wasi/src/router/admin/client_policies.rs 183-226 update_profile *)
definition update_policy_profile :: "env \<Rightarrow> admin_auth \<Rightarrow> uuid \<Rightarrow> uuid \<Rightarrow> policy_profile_request \<Rightarrow> policy_profile handler" where
  "update_policy_profile E a realm i req =
     thenp (of_policies a realm)
    (bindp (found_row (profile_by_id i)) (\<lambda>old.
     thenp (guardp (pp_realm_id old = realm) missing_answer)
    (let p = \<lparr>pp_id = i, pp_realm_id = realm, pp_name = trim (pr_name req),
              pp_description = nonblank (pr_description req), pp_executors = pr_executors req,
              pp_created_at = pp_created_at old, pp_updated_at = e_clock E 0\<rparr>
     in thenp (lift (map_err policy_refusal (validate_profile p)))
       (thenp (fail_with policy_refusal (profile_update E p))
       (thenp (exec (policy_event E 1 a realm ''client_policy.profile_updated'' i))
          (ret p))))))"

(*@ openid-connect-wasi/src/router/admin/client_policies.rs 227-254 delete_profile *)
definition delete_profile :: "env \<Rightarrow> admin_auth \<Rightarrow> uuid \<Rightarrow> uuid \<Rightarrow> members handler" where
  "delete_profile E a realm i =
     thenp (of_policies a realm)
    (bindp (found_row (profile_by_id i)) (\<lambda>old.
     thenp (guardp (pp_realm_id old = realm) missing_answer)
    (thenp (fail_with policy_refusal (profile_delete i))
    (thenp (exec (policy_event E 0 a realm ''client_policy.profile_deleted'' i))
       (ret (said ''deleted''))))))"

(*@ openid-connect-wasi/src/router/admin/client_policies.rs 256-275 list_policies *)
definition list_policies :: "env \<Rightarrow> admin_auth \<Rightarrow> uuid \<Rightarrow> client_policy list handler" where
  "list_policies E a realm = thenp (of_policies a realm) (query (policies_of_realm E realm))"

(*@ openid-connect-wasi/src/router/admin/client_policies.rs 276-318 create_policy *)
definition create_policy :: "env \<Rightarrow> admin_auth \<Rightarrow> uuid \<Rightarrow> policy_request \<Rightarrow> client_policy handler" where
  "create_policy E a realm req =
     thenp (of_policies a realm)
    (let p = \<lparr>cp_id = e_uuid E 0, cp_realm_id = realm, cp_name = trim (pq_name req),
              cp_description = nonblank (pq_description req), cp_enabled = pq_enabled req, cp_priority = pq_priority req,
              cp_conditions = pq_conditions req, cp_profile_ids = pq_profile_ids req,
              cp_created_at = e_clock E 0, cp_updated_at = e_clock E 0\<rparr>
     in thenp (lift (map_err policy_refusal (validate_client_policy p)))
       (thenp (fail_with policy_refusal (ask (valid_profiles E realm (cp_profile_ids p))))
       (thenp (fail_with policy_refusal (policy_create E p))
       (thenp (exec (policy_event E 1 a realm ''client_policy.created'' (cp_id p)))
          (ret p)))))"

(*@ openid-connect-wasi/src/router/admin/client_policies.rs 319-368 update_policy *)
definition update_policy :: "env \<Rightarrow> admin_auth \<Rightarrow> uuid \<Rightarrow> uuid \<Rightarrow> policy_request \<Rightarrow> client_policy handler" where
  "update_policy E a realm i req =
     thenp (of_policies a realm)
    (bindp (found_row (policy_by_id i)) (\<lambda>old.
     thenp (guardp (cp_realm_id old = realm) missing_answer)
    (let p = \<lparr>cp_id = i, cp_realm_id = realm, cp_name = trim (pq_name req),
              cp_description = nonblank (pq_description req), cp_enabled = pq_enabled req, cp_priority = pq_priority req,
              cp_conditions = pq_conditions req, cp_profile_ids = pq_profile_ids req,
              cp_created_at = cp_created_at old, cp_updated_at = e_clock E 0\<rparr>
     in thenp (lift (map_err policy_refusal (validate_client_policy p)))
       (thenp (fail_with policy_refusal (ask (valid_profiles E realm (cp_profile_ids p))))
       (thenp (fail_with policy_refusal (policy_update E p))
       (thenp (exec (policy_event E 1 a realm ''client_policy.updated'' i))
          (ret p)))))))"

(*@ openid-connect-wasi/src/router/admin/client_policies.rs 369-396 delete_policy *)
definition delete_policy :: "env \<Rightarrow> admin_auth \<Rightarrow> uuid \<Rightarrow> uuid \<Rightarrow> members handler" where
  "delete_policy E a realm i =
     thenp (of_policies a realm)
    (bindp (found_row (policy_by_id i)) (\<lambda>old.
     thenp (guardp (cp_realm_id old = realm) missing_answer)
    (thenp (exec (policy_delete i))
    (thenp (exec (policy_event E 0 a realm ''client_policy.deleted'' i))
       (ret (said ''deleted''))))))"

(*@ openid-connect-wasi/src/router/admin/client_policies.rs 397-429 evaluate *)
definition evaluate_request ::
  "env \<Rightarrow> admin_auth \<Rightarrow> uuid \<Rightarrow> registration_context \<Rightarrow> uuid \<Rightarrow> evaluation handler" where
  "evaluate_request E a realm ctx cid =
     thenp (of_policies a realm)
    (bindp (found_row (client_by_id cid)) (\<lambda>c.
     thenp (guardp (c_realm_id c = realm)
              (described 400 ''invalid_request'' ''the sample client must belong to the selected realm''))
       (query (evaluate_client E ctx c))))"

end
