(* ===== verification/Registration.thy ===== *)
theory Registration
  imports Admin_Clients
begin

text \<open>Dynamic client registration (\<open>oidc-oidc/src/endpoints/registration.rs\<close>): the validation of the request, the client
  that is made of it, the policies it has to pass, and the answer.  The router passes the realm of an identity that is
  not a global administrator.\<close>

(*@ oidc-oidc/src/endpoints/registration.rs 29-59 RegisterClientRequest *)
record registration =
  rg_client_name :: string
  rg_redirect_uris :: "string list"
  rg_grant_types :: "string list"
  rg_scope :: string
  rg_auth :: string
  rg_realm_id :: uuid
  rg_jwks_uri :: "string option"
  rg_jwks :: "json option"
  rg_subject_type :: "string option"
  rg_sector_identifier_uri :: "string option"
  rg_request_object_alg :: "string option"
  rg_request_object_enc :: "string option"
  rg_request_object_key_pem :: "string option"

(*@ oidc-oidc/src/endpoints/registration.rs 15-26 SUPPORTED_GRANT_TYPES, SUPPORTED_AUTH_METHODS *)
definition registered_grants :: "string list" where
  "registered_grants = [''authorization_code'', ''client_credentials'', ''refresh_token'']"

definition registered_auths :: "string list" where
  "registered_auths =
     [''none'', ''client_secret_basic'', ''client_secret_post'', ''client_secret_jwt'', ''private_key_jwt'']"

definition comma_joined :: "string list \<Rightarrow> string" where
  "comma_joined xs = (case xs of [] \<Rightarrow> [] | y # ys \<Rightarrow> y @ concat (map (\<lambda>s. '', '' @ s) ys))"

(*@ oidc-oidc/src/endpoints/registration.rs 64-84 validate_redirect_uri *)
definition validate_redirect_uri :: "env \<Rightarrow> string \<Rightarrow> unit result" where
  "validate_redirect_uri E uri =
     bindr (or_error (e_url_scheme E uri) (InvalidInput (''invalid redirect URI: '' @ uri))) (\<lambda>scheme.
     ensure (scheme = ''https'' \<or> scheme = ''http'' \<and>
         (case e_url_host E uri of None \<Rightarrow> False | Some h \<Rightarrow> h \<in> {''localhost'', ''127.0.0.1'', ''[::1]''}))
       (InvalidInput (''redirect URI must use HTTPS (or http://localhost for development): '' @ uri)))"

(*@ oidc-oidc/src/endpoints/registration.rs 87-145 validate_registration_request *)
definition validate_registration :: "env \<Rightarrow> registration \<Rightarrow> unit result" where
  "validate_registration E req =
     bindr (ensure (\<not> blank (rg_client_name req)) (InvalidInput ''client_name must not be empty'')) (\<lambda>_.
     bindr (ensure (rg_redirect_uris req \<noteq> []) (InvalidInput ''redirect_uris must not be empty'')) (\<lambda>_.
     bindr (check_all (validate_redirect_uri E) (rg_redirect_uris req)) (\<lambda>_.
     bindr (ensure (rg_grant_types req \<noteq> []) (InvalidInput ''grant_types must not be empty'')) (\<lambda>_.
     bindr (check_all (\<lambda>g. ensure (g \<in> set registered_grants)
              (InvalidInput (''unsupported grant_type: '' @ g @ ''. Supported: '' @ comma_joined registered_grants)))
              (rg_grant_types req)) (\<lambda>_.
     bindr (ensure (rg_auth req \<in> set registered_auths)
              (InvalidInput (''unsupported token_endpoint_auth_method: '' @ rg_auth req @ ''. Supported: ''
                 @ comma_joined registered_auths))) (\<lambda>_.
     bindr (ensure (\<not> (rg_auth req = ''private_key_jwt'' \<and> rg_jwks req = None))
              (InvalidInput ''jwks is required when token_endpoint_auth_method is private_key_jwt'')) (\<lambda>_.
     ensure (\<not> (rg_auth req = ''client_secret_jwt'' \<and> rg_jwks req \<noteq> None))
       (InvalidInput ''jwks must not be provided when token_endpoint_auth_method is client_secret_jwt''))))))))"

text \<open>The secret, its hash and its encrypted form; \<open>encode\<close> is base64 with padding.\<close>

(*@ oidc-oidc/src/endpoints/registration.rs 176-201 client_type and client_secret *)
definition registered_secret ::
  "env \<Rightarrow> (string \<Rightarrow> string) \<Rightarrow> string \<Rightarrow> (client_type \<times> string option \<times> string option \<times> string option) result" where
  "registered_secret E encode auth =
     (if auth \<in> {''client_secret_basic'', ''client_secret_post'', ''client_secret_jwt''}
      then bindr (or_error (e_random E 0) (Internal library_text)) (\<lambda>buf.
           let secret = encode (take 32 buf)
           in bindr (e_hash_password E secret) (\<lambda>hashed.
              if auth = ''client_secret_jwt''
              then bindr (e_encrypt E secret) (\<lambda>locked. Inr (Confidential, Some secret, Some hashed, Some locked))
              else Inr (Confidential, Some secret, Some hashed, None)))
      else Inr (Public, None, None, None))"

(*@ oidc-oidc/src/endpoints/registration.rs 205-243 Client of a registration *)
definition registered_client ::
  "env \<Rightarrow> uuid \<Rightarrow> registration \<Rightarrow> client_type \<Rightarrow> string option \<Rightarrow> string option \<Rightarrow> client" where
  "registered_client E realm req kind hashed locked =
     \<lparr>c_id = e_uuid E 1, c_realm_id = realm,
      c_client_id = ''client_'' @ filter (\<lambda>x. x \<noteq> CHR ''-'') (e_uuid_text E (e_uuid E 0)), c_client_type = kind,
      c_client_secret_hash = hashed, c_name = rg_client_name req, c_redirect_uris = rg_redirect_uris req,
      c_allowed_scopes = split_whitespace (rg_scope req), c_allowed_grant_types = rg_grant_types req,
      c_pkce_required = True, c_enabled = True, c_deleted_at = None, c_token_endpoint_auth_method = rg_auth req,
      c_jwks_uri = rg_jwks_uri req, c_jwks = rg_jwks req, c_request_uris = [], c_client_secret_encrypted = locked,
      c_frontchannel_logout_uri = None, c_frontchannel_logout_session_required = False,
      c_backchannel_logout_uri = None, c_backchannel_logout_session_required = False,
      c_post_logout_redirect_uris = [], c_subject_type = given (rg_subject_type req) ''public'',
      c_sector_identifier_uri = rg_sector_identifier_uri req, c_response_modes = [''query'', ''fragment''],
      c_id_token_alg = None, c_id_token_enc = None, c_id_token_key_encrypted = None, c_id_token_key_pem = None,
      c_request_object_alg = rg_request_object_alg req, c_request_object_enc = rg_request_object_enc req,
      c_request_object_key_encrypted = None, c_request_object_key_pem = rg_request_object_key_pem req\<rparr>"

(*@ oidc-oidc/src/endpoints/registration.rs 252-277 response *)
definition registration_answer :: "client \<Rightarrow> string option \<Rightarrow> members" where
  "registration_answer c secret =
     [(''client_id'', JStr (c_client_id c)), (''client_name'', JStr (c_name c)),
      (''redirect_uris'', strs (c_redirect_uris c)), (''grant_types'', strs (c_allowed_grant_types c)),
      (''scope'', JStr (join_scopes (c_allowed_scopes c))),
      (''token_endpoint_auth_method'', JStr (c_token_endpoint_auth_method c))]
     @ opt_member ''client_secret'' JStr secret @ opt_member ''jwks_uri'' JStr (c_jwks_uri c)
     @ opt_member ''jwks'' (\<lambda>v. v) (c_jwks c)
     @ opt_member ''request_object_encryption_alg'' JStr (c_request_object_alg c)
     @ opt_member ''request_object_encryption_enc'' JStr (c_request_object_enc c)"

(*@ oidc-oidc/src/endpoints/registration.rs 158-280 register_handler *)
definition register_client ::
  "env \<Rightarrow> (string \<Rightarrow> string) \<Rightarrow> uuid option \<Rightarrow> registration \<Rightarrow> (db, oidc_error, members) prog" where
  "register_client E encode admin_realm req =
     thenp (lift (validate_registration E req))
    (bindp (lift (registered_secret E encode (rg_auth req))) (\<lambda>(kind, secret, hashed, locked).
     let c = registered_client E (given admin_realm (rg_realm_id req)) req kind hashed locked
     in thenp (ask (enforce_client E Dynamic_Context c))
       (thenp (with_transaction (client_create c))
          (ret (registration_answer c secret)))))"

(*@ openid-connect-wasi/src/router/oidc.rs 69-75 /oidc/register *)
definition register_route ::
  "env \<Rightarrow> (string \<Rightarrow> string) \<Rightarrow> admin_auth \<Rightarrow> registration \<Rightarrow> (db, error_response, members) prog" where
  "register_route E encode a req =
     fail_with from_oidc_error
       (register_client E encode (if is_global_admin a then None else au_realm_id a) req)"


section \<open>Facts\<close>

lemma validate_redirect_uri_ok:
  "validate_redirect_uri E uri = Inr () \<longleftrightarrow>
     e_url_scheme E uri = Some ''https'' \<or>
     e_url_scheme E uri = Some ''http'' \<and> (\<exists>h \<in> {''localhost'', ''127.0.0.1'', ''[::1]''}. e_url_host E uri = Some h)"
  by (auto simp: validate_redirect_uri_def bindr_Inr split: option.splits)

lemma registered_secret_ok:
  assumes "registered_secret E encode auth = Inr (kind, secret, hashed, locked)"
  shows "kind = Confidential \<longleftrightarrow> auth \<in> {''client_secret_basic'', ''client_secret_post'', ''client_secret_jwt''}"
    and "kind = Confidential \<longleftrightarrow> secret \<noteq> None" "kind = Confidential \<longleftrightarrow> hashed \<noteq> None"
    and "locked \<noteq> None \<longleftrightarrow> auth = ''client_secret_jwt''"
  using assms by (auto simp: registered_secret_def bindr_Inr Let_def split: if_splits)

lemma registered_secret_told:
  assumes "registered_secret E encode auth = Inr (kind, secret, Some h, locked)"
  shows "\<exists>s. secret = Some s \<and> e_hash_password E s = Inr h"
  using assms by (auto simp: registered_secret_def bindr_Inr Let_def split: if_splits)

text \<open>C40 What a registration stores.  The table of clients gets one row more, and nothing else changes.  The row has the
  name, redirect URIs, grants, scopes, keys and way of authentication of the request, requires PKCE, and lies in the
  realm of the administrator or, when the administrator is global or has no realm, in that of the request.  The
  redirect URIs of the request are HTTPS or go to the loopback host, its grants are among the three supported ones,
  and the row passes the policies of its realm for a dynamic registration.  When the request asks for an
  authentication by a shared secret, the client is confidential and the answer tells the secret, of which the row has
  the hash; for every other way, the client is public and has no secret.  So a request for \<open>private_key_jwt\<close>, which has
  to bring keys, is stored as a public client.\<close>

theorem registration_sound:
  assumes "register_route E encode a req d = (Inr answer, d')"
  shows "\<exists>c. d' = d\<lparr>d_clients := d_clients d @ [c]\<rparr> \<and> jget (JObj answer) ''client_id'' = Some (JStr (c_client_id c))
      \<and> c_realm_id c = (if is_global_admin a then rg_realm_id req
                          else case au_realm_id a of Some r \<Rightarrow> r | None \<Rightarrow> rg_realm_id req)
      \<and> c_name c = rg_client_name req \<and> c_redirect_uris c = rg_redirect_uris req
      \<and> c_allowed_grant_types c = rg_grant_types req \<and> c_allowed_scopes c = split_whitespace (rg_scope req)
      \<and> c_token_endpoint_auth_method c = rg_auth req \<and> c_jwks c = rg_jwks req
      \<and> c_pkce_required c \<and> rg_redirect_uris req \<noteq> []
      \<and> (\<forall>uri \<in> set (rg_redirect_uris req). e_url_scheme E uri = Some ''https'' \<or> e_url_scheme E uri = Some ''http''
           \<and> (\<exists>h \<in> {''localhost'', ''127.0.0.1'', ''[::1]''}. e_url_host E uri = Some h))
      \<and> set (rg_grant_types req) \<subseteq> {''authorization_code'', ''client_credentials'', ''refresh_token''}
      \<and> is_ok (enforce_client E Dynamic_Context c d')
      \<and> (if rg_auth req \<in> {''client_secret_basic'', ''client_secret_post'', ''client_secret_jwt''}
          then c_client_type c = Confidential
            \<and> (\<exists>s h. jget (JObj answer) ''client_secret'' = Some (JStr s) \<and> e_hash_password E s = Inr h
                 \<and> c_client_secret_hash c = Some h)
          else c_client_type c = Public \<and> c_client_secret_hash c = None
            \<and> jget (JObj answer) ''client_secret'' = None)
      \<and> (rg_auth req = ''private_key_jwt'' \<longrightarrow> c_client_type c = Public \<and> c_jwks c \<noteq> None)"
proof -
  let ?realm = "given (if is_global_admin a then None else au_realm_id a) (rg_realm_id req)"
  obtain kind secret hashed locked where valid: "validate_registration E req = Inr ()"
    and secret: "registered_secret E encode (rg_auth req) = Inr (kind, secret, hashed, locked)"
    and ok: "is_ok (enforce_client E Dynamic_Context (registered_client E ?realm req kind hashed locked) d)"
    and d': "d' = d\<lparr>d_clients := d_clients d @ [registered_client E ?realm req kind hashed locked]\<rparr>"
    and answer: "answer = registration_answer (registered_client E ?realm req kind hashed locked) secret"
    using assms
    by (auto simp: register_route_def register_client_def client_create_def Let_def prog_ok is_ok_iff
        registered_client_def split: prod.splits)
  let ?c = "registered_client E ?realm req kind hashed locked"
  have "enforce_client E Dynamic_Context ?c d' = enforce_client E Dynamic_Context ?c d"
    by (simp add: d' enforce_client_def policies_of_realm_def profiles_of_realm_def)
  moreover have "jget (JObj answer) ''client_id'' = Some (JStr (c_client_id ?c))"
    by (simp add: answer registration_answer_def obj_get_def)
  moreover have "rg_redirect_uris req \<noteq> []" "\<forall>uri \<in> set (rg_redirect_uris req). validate_redirect_uri E uri = Inr ()"
      "set (rg_grant_types req) \<subseteq> {''authorization_code'', ''client_credentials'', ''refresh_token''}"
    using valid by (auto simp: validate_registration_def bindr_Inr check_all_ok registered_grants_def)
  moreover have "rg_auth req = ''private_key_jwt'' \<longrightarrow> rg_jwks req \<noteq> None"
    using valid by (auto simp: validate_registration_def bindr_Inr)
  moreover have "if rg_auth req \<in> {''client_secret_basic'', ''client_secret_post'', ''client_secret_jwt''}
      then kind = Confidential \<and> (\<exists>s h. secret = Some s \<and> e_hash_password E s = Inr h \<and> hashed = Some h)
      else kind = Public \<and> hashed = None \<and> secret = None"
    using registered_secret_ok [OF secret] secret registered_secret_told by (cases kind; cases hashed) auto
  moreover have "jget (JObj answer) ''client_secret'' = map_option JStr secret"
    unfolding answer by (cases secret) (simp_all add: registration_answer_def obj_get_def opt_member_def split: option.splits)
  ultimately show ?thesis
    using ok unfolding d'
    by (intro exI [of _ ?c]) (auto simp: registered_client_def validate_redirect_uri_ok given_def split: option.splits)
qed

text \<open>A public client that registers for \<open>private_key_jwt\<close> at a hub without policies.\<close>

definition registering_env :: env where
  "registering_env = sample_env\<lparr>e_url_scheme := \<lambda>_. Some ''https''\<rparr>"

definition toy_registration :: registration where
  "toy_registration =
     \<lparr>rg_client_name = ''app'', rg_redirect_uris = [''https://app/cb''], rg_grant_types = [''authorization_code''],
      rg_scope = ''openid'', rg_auth = ''private_key_jwt'', rg_realm_id = 9, rg_jwks_uri = None, rg_jwks = Some JNull,
      rg_subject_type = None, rg_sector_identifier_uri = None, rg_request_object_alg = None,
      rg_request_object_enc = None, rg_request_object_key_pem = None\<rparr>"

definition realm_admin :: admin_auth where
  "realm_admin = \<lparr>au_subject = ''uuid'', au_api_key = False, au_realm_id = Some 3,
     au_permissions = [''clients:write'', ''roles:write''], au_route = True\<rparr>"

lemma toy_registered:
  "\<exists>answer d'. register_route registering_env id realm_admin toy_registration empty_db = (Inr answer, d')"
proof -
  have "validate_registration registering_env toy_registration = Inr ()"
  proof -
    have "\<not> blank ''app''"
      by code_simp
    then show ?thesis
      by (simp add: validate_registration_def toy_registration_def registering_env_def
          validate_redirect_uri_def or_error_def registered_grants_def registered_auths_def ensure_def)
  qed
  moreover have "is_ok (enforce_client registering_env Dynamic_Context c empty_db)" for c
    by (simp add: enforce_client_def enforce_policies_ok policies_of_realm_def empty_db_def)
  ultimately show ?thesis
    by (simp add: register_route_def register_client_def registered_secret_def toy_registration_def prog_ok Let_def
        client_create_def empty_db_def is_ok_iff)
qed

lemma registration_sound_witness:
  "\<exists>answer d' c. register_route registering_env id realm_admin toy_registration empty_db = (Inr answer, d')
     \<and> d' = empty_db\<lparr>d_clients := [c]\<rparr> \<and> c_realm_id c = 3"
proof -
  obtain answer d' where r: "register_route registering_env id realm_admin toy_registration empty_db = (Inr answer, d')"
    using toy_registered by blast
  show ?thesis
    using registration_sound [OF r] r by (auto simp: realm_admin_def is_global_admin_def empty_db_def)
qed

end
