(* ===== verification/Admin_Resources.thy ===== *)
theory Admin_Resources
  imports Admin_Clients
begin

text \<open>The remaining administration of \<open>router/admin/audit.rs\<close>: counters, sessions, the audit log, scopes with their
  protocol mappers and the clients they are assigned to, roles with their composites, groups with their roles, and the
  removal of expired rows.\<close>

definition or_default :: "int option \<Rightarrow> int \<Rightarrow> int" where
  "or_default n v = given n v"

section \<open>Counters, sessions and the audit log\<close>

(*@ oidc-repository/src/repositories/realm_repo.rs 112-123 RealmRepo::count *)
definition realm_count :: "db \<Rightarrow> nat" where
  "realm_count d = length (filter (\<lambda>r. r_deleted_at r = None) (d_realms d))"

(*@ openid-connect-wasi/src/router/admin/audit.rs 43-100 stats_handler *)
definition stats :: "admin_auth \<Rightarrow> uuid option \<Rightarrow> (string \<times> nat) list handler" where
  "stats a realm =
     thenp (admitted a)
    (bindp (lift (scoped_realm a realm)) (\<lambda>r.
     query (\<lambda>d. [(''users'', user_count r d), (''clients'', client_count r d),
                 (''realms'', case r of Some _ \<Rightarrow> 1 | None \<Rightarrow> realm_count d),
                 (''active_sessions'', session_count None r (Some False) d)])))"

(*@ openid-connect-wasi/src/router/admin/audit.rs 165-177 body of a session *)
definition session_row :: "env \<Rightarrow> admin_env \<Rightarrow> session \<Rightarrow> members" where
  "session_row E A s =
     [(''id'', JStr (e_uuid_text E (s_id s))), (''user_id'', opt_json (\<lambda>i. JStr (e_uuid_text E i)) (s_user_id s)),
      (''realm_id'', JStr (e_uuid_text E (s_realm_id s))), (''client_id'', JStr (e_uuid_text E (s_client_id s))),
      (''grant_type'', JStr (s_grant_type s)), (''scope'', strs (s_scope s)), (''revoked'', JBool (s_revoked s)),
      (''family_revoked'', JBool (s_family_revoked s)), (''offline'', JBool (s_offline_session s)),
      (''expires_at'', JStr (am_time A (given (s_refresh_expires_at s) (s_expires_at s)))),
      (''maximum_expires_at'', opt_json (\<lambda>t. JStr (am_time A t)) (s_offline_max_expires_at s))]"

(*@ openid-connect-wasi/src/router/admin/audit.rs 104-181 SessionListQuery, list_sessions *)
definition list_sessions ::
  "env \<Rightarrow> admin_env \<Rightarrow> admin_auth \<Rightarrow> uuid option \<Rightarrow> uuid option \<Rightarrow> bool option \<Rightarrow> int option \<Rightarrow> int option
     \<Rightarrow> (members list \<times> nat) handler" where
  "list_sessions E A a uid realm rvk limit offset =
     thenp (admitted a)
    (bindp (lift (scoped_realm a realm)) (\<lambda>r.
     bindp (or_internal (ask (session_list uid r rvk (or_default limit 20) (or_default offset 0)))) (\<lambda>ss.
     bindp (query (session_count uid r rvk)) (\<lambda>total.
     ret (map (session_row E A) ss, total)))))"

(*@ openid-connect-wasi/src/router/admin/audit.rs 183-215 revoke_session *)
definition revoke_session_request :: "admin_auth \<Rightarrow> uuid \<Rightarrow> members handler" where
  "revoke_session_request a i =
     thenp (admitted a)
    (bindp (found_row (session_by_id i)) (\<lambda>s.
     thenp (exec (case s_token_family_id s of Some f \<Rightarrow> session_revoke_family f | None \<Rightarrow> session_revoke i))
       (ret (said ''revoked''))))"

definition event_matches :: "string option \<Rightarrow> uuid option \<Rightarrow> uuid option \<Rightarrow> audit_event \<Rightarrow> bool" where
  "event_matches kind actor realm ev \<longleftrightarrow>
     (case kind of None \<Rightarrow> True | Some k \<Rightarrow> ae_event_type ev = k)
     \<and> (case actor of None \<Rightarrow> True | Some i \<Rightarrow> ae_actor_id ev = Some i)
     \<and> (case realm of None \<Rightarrow> True | Some i \<Rightarrow> ae_realm_id ev = Some i)"

text \<open>The bounds on the time are not used by the administration.\<close>

(*@ oidc-repository/src/repositories/audit_event_repo.rs 123-207 AuditEventRepo::list_recent *)
definition events_recent ::
  "int \<Rightarrow> int \<Rightarrow> string option \<Rightarrow> uuid option \<Rightarrow> uuid option \<Rightarrow> db \<Rightarrow> audit_event list result" where
  "events_recent limit offset kind actor realm d =
     page limit offset (sort_key (\<lambda>ev. - ae_created_at ev) (filter (event_matches kind actor realm) (d_audit d)))"

(*@ oidc-repository/src/repositories/audit_event_repo.rs 210-287 AuditEventRepo::count *)
definition events_count :: "string option \<Rightarrow> uuid option \<Rightarrow> uuid option \<Rightarrow> db \<Rightarrow> nat" where
  "events_count kind actor realm d = length (filter (event_matches kind actor realm) (d_audit d))"

(*@ openid-connect-wasi/src/router/admin/audit.rs 285-295 body of an event *)
definition event_row :: "env \<Rightarrow> admin_env \<Rightarrow> audit_event \<Rightarrow> members" where
  "event_row E A ev =
     (let ident = opt_json (\<lambda>i. JStr (e_uuid_text E i))
      in [(''id'', JStr (e_uuid_text E (ae_id ev))), (''realm_id'', ident (ae_realm_id ev)),
          (''event_type'', JStr (ae_event_type ev)), (''actor_id'', ident (ae_actor_id ev)),
          (''actor_type'', JStr (case ae_actor_type ev of UserActor \<Rightarrow> ''user'' | ApiKeyActor \<Rightarrow> ''api_key''
             | SystemActor \<Rightarrow> ''system'')),
          (''target_type'', text_member (ae_target_type ev)), (''target_id'', ident (ae_target_id ev)),
          (''details'', ae_details ev), (''created_at'', JStr (am_time A (ae_created_at ev)))])"

text \<open>An actor that is not a UUID is no restriction.\<close>

(*@ openid-connect-wasi/src/router/admin/audit.rs 219-297 AuditListQuery, list *)
definition list_events ::
  "env \<Rightarrow> admin_env \<Rightarrow> admin_auth \<Rightarrow> int option \<Rightarrow> int option \<Rightarrow> string option \<Rightarrow> string option \<Rightarrow> uuid option
     \<Rightarrow> (members list \<times> nat) handler" where
  "list_events E A a limit offset kind actor realm =
     thenp (admitted a)
    (bindp (lift (scoped_realm a realm)) (\<lambda>r.
     let who = Option.bind actor (e_parse_uuid E)
     in bindp (query (events_count kind who r)) (\<lambda>total.
        bindp (or_internal (ask (events_recent (or_default limit 20) (or_default offset 0) kind who r))) (\<lambda>evs.
        ret (map (event_row E A) evs, total)))))"

section \<open>Scopes\<close>

(*@ openid-connect-wasi/src/router/admin/audit.rs 409-415 body of a scope *)
definition scope_row :: "env \<Rightarrow> scope \<Rightarrow> members" where
  "scope_row E s =
     [(''id'', JStr (e_uuid_text E (sc_id s))), (''realm_id'', JStr (e_uuid_text E (sc_realm_id s))),
      (''name'', JStr (sc_name s)), (''description'', text_member (sc_description s)), (''enabled'', JBool (sc_enabled s))]"

(*@ openid-connect-wasi/src/router/admin/audit.rs 301-338 ScopeListQuery, list_scopes *)
definition list_scopes :: "env \<Rightarrow> admin_auth \<Rightarrow> uuid \<Rightarrow> members list handler" where
  "list_scopes E a realm =
     thenp (admitted a)
    (thenp (in_realm a realm)
    (bindp (query (scopes_of_realm E realm)) (\<lambda>ss. ret (map (scope_row E) ss))))"

text \<open>The second component is the description, the third \<open>enabled\<close>.\<close>

(*@ openid-connect-wasi/src/router/admin/audit.rs 340-394 CreateScopeRequest, create_scope *)
definition create_scope ::
  "env \<Rightarrow> admin_auth \<Rightarrow> (uuid \<times> string \<times> string option \<times> bool option) option \<Rightarrow> members handler" where
  "create_scope E a body =
     thenp (admitted a)
    (bindp (parsed body) (\<lambda>(realm, name, description, enabled).
     thenp (in_realm a realm)
    (bindp (query (scope_by_name realm name)) (\<lambda>taken.
     thenp (guardp (taken = None) duplicate_answer)
    (let s = \<lparr>sc_id = e_uuid E 0, sc_realm_id = realm, sc_name = name, sc_description = description,
              sc_enabled = given enabled True\<rparr>
     in thenp (or_internal (scope_create s)) (ret (scope_row E s)))))))"

(*@ openid-connect-wasi/src/router/admin/audit.rs 396-423 get_scope *)
definition get_scope :: "env \<Rightarrow> admin_auth \<Rightarrow> uuid \<Rightarrow> members handler" where
  "get_scope E a i = thenp (admitted a) (bindp (found_row (scope_by_id i)) (\<lambda>s. ret (scope_row E s)))"

(*@ openid-connect-wasi/src/router/admin/audit.rs 425-473 UpdateScopeRequest, update_scope *)
definition update_scope_request ::
  "admin_auth \<Rightarrow> uuid \<Rightarrow> (string option \<times> string option \<times> bool option) option \<Rightarrow> members handler" where
  "update_scope_request a i body =
     thenp (admitted a)
    (bindp (parsed body) (\<lambda>(name, description, enabled).
     bindp (found_row (scope_by_id i)) (\<lambda>s.
     thenp (or_internal (scope_update (s\<lparr>sc_name := given name (sc_name s),
              sc_description := given_some description (sc_description s), sc_enabled := given enabled (sc_enabled s)\<rparr>)))
       (ret (said ''updated'')))))"

(*@ openid-connect-wasi/src/router/admin/audit.rs 475-494 delete_scope *)
definition delete_scope :: "admin_auth \<Rightarrow> uuid \<Rightarrow> members handler" where
  "delete_scope a i = thenp (admitted a) (thenp (exec (scope_delete i)) (ret (said ''deleted'')))"

(*@ oidc-core/src/models/protocol_mapper.rs 18-29 ProtocolMapperType::as_str *)
fun mapper_type_text :: "mapper_type \<Rightarrow> string" where
  "mapper_type_text UserProperty = ''user_property''"
| "mapper_type_text UserAttribute = ''user_attribute''"
| "mapper_type_text HardcodedClaim = ''hardcoded_claim''"
| "mapper_type_text Audience = ''audience''"
| "mapper_type_text RealmRoles = ''realm_roles''"
| "mapper_type_text ClientRoles = ''client_roles''"

(*@ oidc-core/src/models/protocol_mapper.rs 31-47 ProtocolMapperType::try_from *)
definition mapper_type_of :: "string \<Rightarrow> mapper_type result" where
  "mapper_type_of s =
     or_error (List.find (\<lambda>t. mapper_type_text t = s)
       [UserProperty, UserAttribute, HardcodedClaim, Audience, RealmRoles, ClientRoles])
       (InvalidInput ''unsupported protocol mapper type'')"

(*@ openid-connect-wasi/src/router/admin/audit.rs 496-504 protocol_mapper_json *)
definition mapper_row :: "env \<Rightarrow> protocol_mapper \<Rightarrow> members" where
  "mapper_row E m =
     [(''id'', JStr (e_uuid_text E (pm_id m))), (''scope_id'', JStr (e_uuid_text E (pm_scope_id m))),
      (''name'', JStr (pm_name m)), (''mapper_type'', JStr (mapper_type_text (pm_mapper_type m))),
      (''claim_name'', text_member (pm_claim_name m)), (''source'', text_member (pm_source m)),
      (''claim_value'', opt_json (\<lambda>v. v) (pm_claim_value m)), (''multivalued'', JBool (pm_multivalued m)),
      (''add_to_access_token'', JBool (pm_access_token m)), (''add_to_id_token'', JBool (pm_id_token m)),
      (''add_to_userinfo'', JBool (pm_userinfo m))]"

text \<open>The defaults of the flags are filled in when the body is parsed.\<close>

(*@ openid-connect-wasi/src/router/admin/audit.rs 506-525 ProtocolMapperRequest *)
record mapper_request =
  mq_name :: string
  mq_mapper_type :: string
  mq_claim_name :: "string option"
  mq_source :: "string option"
  mq_claim_value :: "json option"
  mq_multivalued :: bool
  mq_access_token :: bool
  mq_id_token :: bool
  mq_userinfo :: bool

(*@ openid-connect-wasi/src/router/admin/audit.rs 527-547 mapper_from_request *)
definition mapper_from_request :: "uuid \<Rightarrow> uuid \<Rightarrow> mapper_request \<Rightarrow> protocol_mapper result" where
  "mapper_from_request i scope req =
     bindr (mapper_type_of (mq_mapper_type req)) (\<lambda>kind.
     let m = \<lparr>pm_id = i, pm_scope_id = scope, pm_name = mq_name req, pm_mapper_type = kind,
              pm_claim_name = mq_claim_name req, pm_source = mq_source req, pm_claim_value = mq_claim_value req,
              pm_multivalued = mq_multivalued req, pm_access_token = mq_access_token req,
              pm_id_token = mq_id_token req, pm_userinfo = mq_userinfo req\<rparr>
     in bindr (validate_mapper m) (\<lambda>_. Inr m))"

(*@ openid-connect-wasi/src/router/admin/audit.rs 549-579 list_protocol_mappers *)
definition list_mappers :: "env \<Rightarrow> admin_auth \<Rightarrow> uuid \<Rightarrow> members list handler" where
  "list_mappers E a scope =
     thenp (admitted a)
    (bindp (found_row (scope_by_id scope)) (\<lambda>_.
     bindp (query (mappers_of_scope E scope)) (\<lambda>ms. ret (map (mapper_row E) ms))))"

(*@ openid-connect-wasi/src/router/admin/audit.rs 616-636 client of a client role mapper *)
definition role_source_ok :: "protocol_mapper \<Rightarrow> scope \<Rightarrow> unit handler" where
  "role_source_ok m s =
     (if pm_mapper_type m \<noteq> ClientRoles then ret ()
      else bindp (query (client_by_client_id (given (pm_source m) []))) (\<lambda>c.
           guardp (case c of None \<Rightarrow> False | Some x \<Rightarrow> c_realm_id x = sc_realm_id s)
             (refusal 400 ''client role source must identify a client in this realm'')))"

(*@ openid-connect-wasi/src/router/admin/audit.rs 581-645 create_protocol_mapper *)
definition create_mapper :: "env \<Rightarrow> admin_auth \<Rightarrow> uuid \<Rightarrow> mapper_request option \<Rightarrow> members handler" where
  "create_mapper E a scope body =
     thenp (admitted a)
    (bindp (parsed body) (\<lambda>req.
     bindp (lift (map_err (\<lambda>e. refusal 400 (error_text e)) (mapper_from_request (e_uuid E 0) scope req))) (\<lambda>m.
     bindp (found_row (scope_by_id scope)) (\<lambda>s.
     thenp (role_source_ok m s)
    (thenp (fail_with conflict_or_internal (mapper_create m)) (ret (mapper_row E m)))))))"

definition mapper_of_scope :: "uuid \<Rightarrow> uuid \<Rightarrow> unit handler" where
  "mapper_of_scope i scope =
     bindp (query (mapper_by_id i)) (\<lambda>m.
     guardp (case m of None \<Rightarrow> False | Some x \<Rightarrow> pm_scope_id x = scope) missing_answer)"

(*@ openid-connect-wasi/src/router/admin/audit.rs 647-719 update_protocol_mapper *)
definition update_mapper :: "env \<Rightarrow> admin_auth \<Rightarrow> uuid \<Rightarrow> uuid \<Rightarrow> mapper_request option \<Rightarrow> members handler" where
  "update_mapper E a scope i body =
     thenp (admitted a)
    (bindp (parsed body) (\<lambda>req.
     bindp (lift (map_err (\<lambda>e. refusal 400 (error_text e)) (mapper_from_request i scope req))) (\<lambda>m.
     thenp (mapper_of_scope i scope)
    (bindp (found_row (scope_by_id scope)) (\<lambda>s.
     thenp (role_source_ok m s)
    (thenp (fail_with conflict_or_internal (mapper_update m)) (ret (mapper_row E m))))))))"

(*@ openid-connect-wasi/src/router/admin/audit.rs 721-748 delete_protocol_mapper *)
definition delete_mapper :: "admin_auth \<Rightarrow> uuid \<Rightarrow> uuid \<Rightarrow> members handler" where
  "delete_mapper a scope i =
     thenp (admitted a)
    (thenp (mapper_of_scope i scope)
    (thenp (exec (mapper_delete i)) (ret (said ''deleted''))))"

(*@ openid-connect-wasi/src/router/admin/audit.rs 756-781 list_client_scopes *)
definition list_client_scopes :: "env \<Rightarrow> admin_auth \<Rightarrow> uuid \<Rightarrow> client_scope_assignment list handler" where
  "list_client_scopes E a i =
     thenp (admitted a) (bindp (found_row (client_by_id i)) (\<lambda>_. query (scopes_of_client (e_collate E) i)))"

(*@ openid-connect-wasi/src/router/admin/audit.rs 835-841 errors of assign_to_client *)
fun assign_refusal :: "oidc_error \<Rightarrow> nat \<times> members" where
  "assign_refusal (InvalidInput m) = refusal 400 m"
| "assign_refusal _ = internal_answer"

(*@ openid-connect-wasi/src/router/admin/audit.rs 750-843 ClientScopeRequest, assign_client_scope *)
definition assign_client_scope :: "env \<Rightarrow> admin_auth \<Rightarrow> uuid \<Rightarrow> (uuid \<times> string) option \<Rightarrow> members handler" where
  "assign_client_scope E a i body =
     thenp (admitted a)
    (bindp (parsed body) (\<lambda>(sid, kind).
     bindp (found_row (client_by_id i)) (\<lambda>c.
     bindp (found_row (scope_by_id sid)) (\<lambda>s.
     thenp (guardp (c_realm_id c = sc_realm_id s) malformed_answer)
    (thenp (policies_allow E (if sc_name s \<in> set (c_allowed_scopes c) then c
                              else c\<lparr>c_allowed_scopes := c_allowed_scopes c @ [sc_name s]\<rparr>))
    (thenp (fail_with assign_refusal (scope_assign i sid kind)) (ret (said ''assigned''))))))))"

(*@ openid-connect-wasi/src/router/admin/audit.rs 845-867 unassign_client_scope *)
definition unassign_client_scope :: "admin_auth \<Rightarrow> uuid \<Rightarrow> uuid \<Rightarrow> members handler" where
  "unassign_client_scope a i sid =
     thenp (admitted a) (thenp (exec (scope_unassign i sid)) (ret (said ''removed'')))"

section \<open>Roles\<close>

(*@ oidc-core/src/models/role.rs 126-148 Role::validate *)
definition validate_role :: "role \<Rightarrow> unit result" where
  "validate_role r =
     (let name = trim (ro_name r)
      in bindr (ensure (name \<noteq> []) (InvalidInput ''name must not be empty'')) (\<lambda>_.
         bindr (ensure (2 \<le> length name \<and> length name \<le> 100)
           (InvalidInput ''name must be between 2 and 100 characters'')) (\<lambda>_.
         ensure (\<forall>ch \<in> set (utf8_chars name). is_ascii ascii_alnum ch \<or> ch = ''-'' \<or> ch = ''_'' \<or> ch = '':'')
           (InvalidInput ''name must be alphanumeric with hyphens, underscores, or colons''))))"

(*@ openid-connect-wasi/src/router/admin/audit.rs 1064-1073 body of a role *)
definition role_row :: "env \<Rightarrow> admin_env \<Rightarrow> role \<Rightarrow> members" where
  "role_row E A r =
     short_role_row E r @ [(''created_at'', JStr (am_time A (ro_created_at r))),
                           (''updated_at'', JStr (am_time A (ro_updated_at r)))]"

(*@ openid-connect-wasi/src/router/admin/audit.rs 871-936 RoleListQuery, list_roles *)
definition list_roles ::
  "env \<Rightarrow> admin_env \<Rightarrow> admin_auth \<Rightarrow> uuid option \<Rightarrow> string option \<Rightarrow> int option \<Rightarrow> int option
     \<Rightarrow> (members list \<times> nat) handler" where
  "list_roles E A a realm search limit offset =
     thenp (admitted a)
    (bindp (lift (scoped_realm a realm)) (\<lambda>r.
     bindp (or_internal (ask (role_list E r search (or_default limit 20) (or_default offset 0)))) (\<lambda>rs.
     bindp (query (role_count r)) (\<lambda>total.
     ret (map (role_row E A) rs, total)))))"

(*@ openid-connect-wasi/src/router/admin/audit.rs 938-946 CreateRoleRequest *)
record new_role =
  nr_realm_id :: uuid
  nr_name :: string
  nr_description :: "string option"
  nr_permissions :: "string list"
  nr_client_id :: "uuid option"

definition role_named :: "role \<Rightarrow> db \<Rightarrow> role option" where
  "role_named r d =
     (case ro_client_id r of
        Some cid \<Rightarrow> role_by_client_and_name cid (ro_name r) d
      | None \<Rightarrow> role_by_name (ro_realm_id r) (ro_name r) d)"

(*@ openid-connect-wasi/src/router/admin/audit.rs 948-1049 create_role *)
definition create_role :: "env \<Rightarrow> admin_auth \<Rightarrow> new_role option \<Rightarrow> members handler" where
  "create_role E a body =
     thenp (admitted a)
    (bindp (parsed body) (\<lambda>req.
     thenp (in_realm a (nr_realm_id req))
    (bindp (query (\<lambda>d. Option.bind (nr_client_id req) (\<lambda>i. client_by_id i d))) (\<lambda>owner.
     thenp (guardp (nr_client_id req \<noteq> None \<longrightarrow> (case owner of None \<Rightarrow> False | Some c \<Rightarrow> c_realm_id c = nr_realm_id req))
              malformed_answer)
    (let r = \<lparr>ro_id = e_uuid E 0, ro_realm_id = nr_realm_id req, ro_name = nr_name req,
              ro_description = nr_description req, ro_permissions = nr_permissions req, ro_created_at = e_clock E 0,
              ro_updated_at = e_clock E 0, ro_client_id = nr_client_id req, ro_deleted_at = None\<rparr>
     in thenp (lift (map_err (\<lambda>e. refusal 400 (error_text e)) (validate_role r)))
       (bindp (query (role_named r)) (\<lambda>taken.
        thenp (guardp (taken = None) duplicate_answer)
       (thenp (fail_with conflict_or_internal (role_create r))
       (thenp (exec (admin_event E 1 a (Some (ro_realm_id r)) ''role.created'' (Some ''role'') (Some (ro_id r))
                 (json_object [(''name'', JStr (ro_name r))])))
          (ret (short_role_row E r)))))))))))"

(*@ openid-connect-wasi/src/router/admin/audit.rs 1051-1081 get_role *)
definition get_role :: "env \<Rightarrow> admin_env \<Rightarrow> admin_auth \<Rightarrow> uuid \<Rightarrow> members handler" where
  "get_role E A a i = thenp (admitted a) (bindp (found_row (role_by_id i)) (\<lambda>r. ret (role_row E A r)))"

(*@ openid-connect-wasi/src/router/admin/audit.rs 1104-1111 body of a child role *)
definition child_row :: "env \<Rightarrow> role \<Rightarrow> members" where
  "child_row E r =
     [(''id'', JStr (e_uuid_text E (ro_id r))), (''realm_id'', JStr (e_uuid_text E (ro_realm_id r))),
      (''client_id'', opt_json (\<lambda>i. JStr (e_uuid_text E i)) (ro_client_id r)), (''name'', JStr (ro_name r)),
      (''description'', text_member (ro_description r))]"

(*@ openid-connect-wasi/src/router/admin/audit.rs 1088-1117 list_role_composites *)
definition list_composites :: "env \<Rightarrow> admin_auth \<Rightarrow> uuid \<Rightarrow> members list handler" where
  "list_composites E a i =
     thenp (admitted a)
    (bindp (found_row (role_by_id i)) (\<lambda>_.
     bindp (query (child_roles E i)) (\<lambda>rs. ret (map (child_row E) rs))))"

(*@ openid-connect-wasi/src/router/admin/audit.rs 1119-1163 add_role_composite *)
definition add_composite :: "admin_auth \<Rightarrow> uuid \<Rightarrow> uuid option \<Rightarrow> members handler" where
  "add_composite a i body =
     thenp (admitted a)
    (bindp (parsed body) (\<lambda>cid.
     bindp (found_row (role_by_id i)) (\<lambda>p.
     bindp (found_row (role_by_id cid)) (\<lambda>c.
     thenp (guardp (ro_realm_id c = ro_realm_id p) malformed_answer)
    (thenp (fail_with assign_refusal (composite_add i (ro_id c)))
       (ret (said ''added'')))))))"

(*@ openid-connect-wasi/src/router/admin/audit.rs 1165-1184 remove_role_composite *)
definition remove_composite :: "admin_auth \<Rightarrow> uuid \<Rightarrow> uuid \<Rightarrow> members handler" where
  "remove_composite a i cid = thenp (admitted a) (thenp (exec (composite_remove i cid)) (ret (said ''removed'')))"

(*@ openid-connect-wasi/src/router/admin/audit.rs 1186-1284 UpdateRoleRequest, update_role *)
definition update_role_request ::
  "env \<Rightarrow> admin_auth \<Rightarrow> uuid \<Rightarrow> (string option \<times> string option \<times> string list option) option \<Rightarrow> members handler" where
  "update_role_request E a i body =
     thenp (admitted a)
    (bindp (parsed body) (\<lambda>(name, description, permissions).
     bindp (found_row (role_by_id i)) (\<lambda>old.
     let r = old\<lparr>ro_name := given name (ro_name old), ro_description := given_some description (ro_description old),
                 ro_permissions := given permissions (ro_permissions old)\<rparr>
     in thenp (lift (map_err (\<lambda>e. refusal 400 (error_text e)) (validate_role r)))
       (bindp (query (role_named r)) (\<lambda>taken.
        thenp (guardp (case taken of None \<Rightarrow> True | Some x \<Rightarrow> ro_id x = ro_id r) duplicate_answer)
       (thenp (fail_with conflict_or_internal (role_update (e_db_now E) r))
       (thenp (exec (admin_event E 0 a (Some (ro_realm_id r)) ''role.updated'' (Some ''role'') (Some (ro_id r))
                 (json_object [(''name'', JStr (ro_name r))])))
          (ret (said ''updated'')))))))))"

(*@ openid-connect-wasi/src/router/admin/audit.rs 1286-1335 delete_role *)
definition delete_role :: "env \<Rightarrow> admin_auth \<Rightarrow> uuid \<Rightarrow> members handler" where
  "delete_role E a i =
     thenp (admitted a)
    (bindp (found_row (role_by_id i)) (\<lambda>r.
     thenp (exec (role_delete (e_db_now E) i))
    (thenp (exec (admin_event E 0 a (Some (ro_realm_id r)) ''role.deleted'' (Some ''role'') (Some (ro_id r))
              (json_object [(''name'', JStr (ro_name r))])))
       (ret (said ''deleted'')))))"

section \<open>Groups\<close>

(*@ oidc-core/src/models/group.rs 122-144 Group::validate *)
definition validate_group :: "group \<Rightarrow> unit result" where
  "validate_group g =
     (let name = trim (g_name g)
      in bindr (ensure (name \<noteq> []) (InvalidInput ''name must not be empty'')) (\<lambda>_.
         bindr (ensure (2 \<le> length name \<and> length name \<le> 100)
           (InvalidInput ''name must be between 2 and 100 characters'')) (\<lambda>_.
         ensure (\<forall>ch \<in> set (utf8_chars name). is_ascii ascii_alnum ch \<or> ch = ''-'' \<or> ch = '' '')
           (InvalidInput ''name must be alphanumeric with hyphens or spaces''))))"

(*@ openid-connect-wasi/src/router/admin/audit.rs 1506-1514 body of a group *)
definition group_row :: "env \<Rightarrow> admin_env \<Rightarrow> group \<Rightarrow> members" where
  "group_row E A g =
     short_group_row E g @ [(''created_at'', JStr (am_time A (g_created_at g))),
                            (''updated_at'', JStr (am_time A (g_updated_at g)))]"

(*@ openid-connect-wasi/src/router/admin/audit.rs 1339-1403 GroupListQuery, list_groups *)
definition list_groups ::
  "env \<Rightarrow> admin_env \<Rightarrow> admin_auth \<Rightarrow> uuid option \<Rightarrow> string option \<Rightarrow> int option \<Rightarrow> int option
     \<Rightarrow> (members list \<times> nat) handler" where
  "list_groups E A a realm search limit offset =
     thenp (admitted a)
    (bindp (lift (scoped_realm a realm)) (\<lambda>r.
     bindp (or_internal (ask (group_list E r search (or_default limit 20) (or_default offset 0)))) (\<lambda>gs.
     bindp (query (group_count r)) (\<lambda>total.
     ret (map (group_row E A) gs, total)))))"

text \<open>\<open>parent_id\<close> refers to \<open>groups(id)\<close>: any row, of any realm, deleted or not.\<close>

definition parent_exists :: "uuid option \<Rightarrow> (db, oidc_error, unit) prog" where
  "parent_exists parent =
     bindp (query d_groups) (\<lambda>tbl.
     guardp (case parent of None \<Rightarrow> True | Some p \<Rightarrow> \<exists>g \<in> set tbl. g_id g = p)
       (Internal ''foreign key violation''))"

(*@ openid-connect-wasi/src/router/admin/audit.rs 1405-1491 CreateGroupRequest, create_group *)
definition create_group ::
  "env \<Rightarrow> admin_auth \<Rightarrow> (uuid \<times> string \<times> string option \<times> uuid option) option \<Rightarrow> members handler" where
  "create_group E a body =
     thenp (admitted a)
    (bindp (parsed body) (\<lambda>(realm, name, description, parent).
     thenp (in_realm a realm)
    (let g = \<lparr>g_id = e_uuid E 0, g_realm_id = realm, g_name = name, g_description = description, g_parent_id = parent,
              g_created_at = e_clock E 0, g_updated_at = e_clock E 0, g_deleted_at = None\<rparr>
     in thenp (lift (map_err (\<lambda>e. refusal 400 (error_text e)) (validate_group g)))
       (bindp (query (group_by_name realm name)) (\<lambda>taken.
        thenp (guardp (taken = None) duplicate_answer)
       (thenp (or_internal (thenp (parent_exists parent) (group_create g)))
       (thenp (exec (admin_event E 1 a (Some realm) ''group.created'' (Some ''group'') (Some (g_id g))
                 (json_object [(''name'', JStr name)])))
          (ret (short_group_row E g)))))))))"

(*@ openid-connect-wasi/src/router/admin/audit.rs 1493-1522 get_group *)
definition get_group :: "env \<Rightarrow> admin_env \<Rightarrow> admin_auth \<Rightarrow> uuid \<Rightarrow> members handler" where
  "get_group E A a i = thenp (admitted a) (bindp (found_row (group_by_id i)) (\<lambda>g. ret (group_row E A g)))"

text \<open>A parent in the body replaces the old one; \<open>null\<close> parses as no change.\<close>

(*@ openid-connect-wasi/src/router/admin/audit.rs 1524-1601 UpdateGroupRequest, update_group *)
definition update_group_request ::
  "env \<Rightarrow> admin_auth \<Rightarrow> uuid \<Rightarrow> (string option \<times> string option \<times> uuid option option) option \<Rightarrow> members handler" where
  "update_group_request E a i body =
     thenp (admitted a)
    (bindp (parsed body) (\<lambda>(name, description, parent).
     bindp (found_row (group_by_id i)) (\<lambda>old.
     let g = old\<lparr>g_name := given name (g_name old), g_description := given_some description (g_description old),
                 g_parent_id := given parent (g_parent_id old)\<rparr>
     in thenp (lift (map_err (\<lambda>e. refusal 400 (error_text e)) (validate_group g)))
       (thenp (or_internal (thenp (parent_exists (g_parent_id g)) (group_update (e_db_now E) g)))
       (thenp (exec (admin_event E 0 a (Some (g_realm_id g)) ''group.updated'' (Some ''group'') (Some (g_id g))
                 (json_object [(''name'', JStr (g_name g))])))
          (ret (said ''updated'')))))))"

(*@ openid-connect-wasi/src/router/admin/audit.rs 1603-1652 delete_group *)
definition delete_group :: "env \<Rightarrow> admin_auth \<Rightarrow> uuid \<Rightarrow> members handler" where
  "delete_group E a i =
     thenp (admitted a)
    (bindp (found_row (group_by_id i)) (\<lambda>g.
     thenp (exec (group_delete (e_db_now E) i))
    (thenp (exec (admin_event E 0 a (Some (g_realm_id g)) ''group.deleted'' (Some ''group'') (Some (g_id g))
              (json_object [(''name'', JStr (g_name g))])))
       (ret (said ''deleted'')))))"

(*@ openid-connect-wasi/src/router/admin/audit.rs 1656-1689 list_group_roles *)
definition list_group_roles :: "env \<Rightarrow> admin_auth \<Rightarrow> uuid \<Rightarrow> members list handler" where
  "list_group_roles E a i =
     thenp (admitted a) (bindp (query (roles_of_group i)) (\<lambda>rs. ret (map (short_role_row E) rs)))"

(*@ openid-connect-wasi/src/router/admin/audit.rs 1691-1755 assign_role_to_group *)
definition assign_group_role :: "env \<Rightarrow> admin_auth \<Rightarrow> uuid \<Rightarrow> uuid option \<Rightarrow> members handler" where
  "assign_group_role E a i body =
     thenp (admitted a)
    (bindp (parsed body) (\<lambda>rid.
     bindp (found_row (group_by_id i)) (\<lambda>g.
     bindp (found_row (role_by_id rid)) (\<lambda>r.
     thenp (guardp (g_realm_id g = ro_realm_id r) malformed_answer)
    (thenp (or_internal (group_role_assign i rid))
    (thenp (exec (link_event E a ''group.role_assigned'' ''group'' i ''role_id'' rid))
       (ret (said ''assigned''))))))))"

(*@ openid-connect-wasi/src/router/admin/audit.rs 1757-1798 unassign_role_from_group *)
definition unassign_group_role :: "env \<Rightarrow> admin_auth \<Rightarrow> uuid \<Rightarrow> uuid \<Rightarrow> members handler" where
  "unassign_group_role E a i rid =
     thenp (admitted a)
    (thenp (exec (group_role_unassign i rid))
    (thenp (exec (link_event E a ''group.role_unassigned'' ''group'' i ''role_id'' rid))
       (ret (said ''unassigned''))))"

section \<open>Removal of expired rows\<close>

text \<open>The number of rows that a deletion took.\<close>

definition taken_by :: "(db \<Rightarrow> 'x list) \<Rightarrow> (db \<Rightarrow> db) \<Rightarrow> nat handler" where
  "taken_by tbl f =
     bindp (query (\<lambda>d. length (tbl d) - length (tbl (f d)))) (\<lambda>n. thenp (exec f) (ret n))"

text \<open>The tables of SAML are not part of the model; the number of rows that are removed there is an argument.\<close>

(*@ openid-connect-wasi/src/router/admin/audit.rs 1802-1920 cleanup_expired *)
definition cleanup_expired :: "env \<Rightarrow> admin_auth \<Rightarrow> nat \<Rightarrow> (string \<times> nat) list handler" where
  "cleanup_expired E a saml_entries =
     thenp (admitted a)
    (let now = e_db_now E
     in bindp (taken_by d_sessions (session_cleanup now)) (\<lambda>sessions.
        bindp (taken_by d_reset_tokens (snd \<circ> reset_cleanup now)) (\<lambda>resets.
        bindp (taken_by d_email_tokens (snd \<circ> verification_cleanup now)) (\<lambda>emails.
        bindp (taken_by d_recovery_tokens (snd \<circ> recovery_cleanup now)) (\<lambda>recoveries.
        bindp (taken_by d_devices (device_cleanup now)) (\<lambda>devs.
        bindp (taken_by d_ciba (ciba_cleanup now)) (\<lambda>cibas.
        bindp (taken_by d_codes (code_cleanup now)) (\<lambda>codes.
        bindp (taken_by d_pars (par_cleanup now)) (\<lambda>pars.
        bindp (taken_by (\<lambda>d. map (\<lambda>_. ()) (d_tickets d) @ map (\<lambda>_. ()) (d_rpts d)) (authorization_cleanup now)) (\<lambda>grants.
        let counts = [(''sessions_deleted'', sessions), (''password_reset_deleted'', resets),
              (''email_verification_deleted'', emails), (''account_recovery_deleted'', recoveries),
              (''device_codes_deleted'', devs), (''ciba_requests_deleted'', cibas), (''auth_codes_deleted'', codes),
              (''par_deleted'', pars), (''authorization_grants_deleted'', grants)]
        in thenp (exec (admin_event E 0 a None ''maintenance.cleanup'' None None
                    (json_object (map (\<lambda>(k, n). (k, JNum (int n))) (counts @ [(''saml_entries_deleted'', saml_entries)])))))
             (ret counts)))))))))))"

end
