(* ===== verification/Admin_Props.thy ===== *)
theory Admin_Props
  imports Admin_Resources
begin

text \<open>What the administration promises: who gets in and with what authority, that an administrator of a realm changes
  no row of another realm, and that assignments join rows of one realm.\<close>

section \<open>Who gets in\<close>

lemma authorize_route_ok:
  "authorize_route E verb path a d = (Inr b, d') \<longleftrightarrow>
     route_is_authorized E verb path a \<and> realm_is_authorized E path a d \<and> b = a\<lparr>au_route := True\<rparr> \<and> d' = d"
  by (auto simp: authorize_route_def prog_ok)

lemma admin_identity_facts:
  assumes "admin_identity E A verb path hs d = (Inr a, d')"
  shows "au_route a \<and> route_is_authorized E verb path (a\<lparr>au_route := False\<rparr>)
     \<and> realm_is_authorized E path (a\<lparr>au_route := False\<rparr>) d'
     \<and> ((\<exists>k. authenticate_key E (am_keys A) hs d = (Inr k, d') \<and> au_subject a = e_uuid_text E (ak_id k) \<and> au_api_key a
            \<and> au_realm_id a = Some (ak_realm_id k) \<and> au_permissions a = ak_scopes k)
      \<or> (\<exists>err token c i. authenticate_key E (am_keys A) hs d = (Inl err, d')
            \<and> Option.bind (text_header hs ''authorization'') (\<lambda>h. strip_prefix h ''Bearer '') = Some token
            \<and> verify_access_token E (am_service A) (timestamp (e_clock E 2)) token = Inr c
            \<and> token_identity E c d' = Inr i \<and> a = i\<lparr>au_route := True\<rparr>))"
proof (cases "authenticate_key E (am_keys A) hs d")
  case (Pair r e)
  show ?thesis
  proof (cases r)
    case (Inr k)
    then show ?thesis
      using assms Pair by (auto simp: admin_identity_def prog_ok authorize_route_ok)
  next
    case (Inl x)
    then obtain token c i where run: "e = d'"
        "Option.bind (text_header hs ''authorization'') (\<lambda>h. strip_prefix h ''Bearer '') = Some token"
        "verify_access_token E (am_service A) (timestamp (e_clock E 2)) token = Inr c"
        "token_identity E c d' = Inr i" "authorize_route E verb path i d' = (Inr a, d')"
      using assms Pair
      by (auto simp: admin_identity_def prog_ok authorize_route_ok split: option.splits sum.splits)
    have "\<not> au_route i"
      using run(4) by (auto simp: token_identity_def Let_def split: option.splits)
    then have "i\<lparr>au_route := False\<rparr> = i"
      by simp
    then show ?thesis
      using run Pair Inl by (auto simp: authorize_route_ok)
  qed
qed

text \<open>The authority of an identity: of the key that the headers carry, or else of the bearer token that they carry.\<close>

lemma token_authority:
  assumes "token_identity E c d = Inr i" and "a = i\<lparr>au_route := True\<rparr>"
  shows "au_subject a = at_sub c \<and> \<not> au_api_key a
    \<and> (case e_parse_uuid E (at_sub c) of
         Some uid \<Rightarrow> \<exists>u. user_by_id uid d = Some u \<and> au_realm_id a = Some (u_realm_id u)
           \<and> au_permissions a = effective_permissions (e_collate E) uid d
       | None \<Rightarrow> au_realm_id a = None \<and> au_permissions a = split_whitespace (at_scope c))"
  using assms by (auto simp: token_identity_def Let_def split: option.splits)

lemma identity_source:
  assumes "admin_identity E A verb path hs d = (Inr a, d')"
  shows "(\<exists>k. authenticate_key E (am_keys A) hs d = (Inr k, d') \<and> au_subject a = e_uuid_text E (ak_id k) \<and> au_api_key a
            \<and> au_realm_id a = Some (ak_realm_id k) \<and> au_permissions a = ak_scopes k)
      \<or> (\<exists>err header token c. authenticate_key E (am_keys A) hs d = (Inl err, d')
            \<and> text_header hs ''authorization'' = Some header \<and> header = ''Bearer '' @ token
            \<and> verify_access_token E (am_service A) (timestamp (e_clock E 2)) token = Inr c
            \<and> au_subject a = at_sub c \<and> \<not> au_api_key a
            \<and> (case e_parse_uuid E (at_sub c) of
                 Some uid \<Rightarrow> \<exists>u. user_by_id uid d' = Some u \<and> au_realm_id a = Some (u_realm_id u)
                   \<and> au_permissions a = effective_permissions (e_collate E) uid d'
               | None \<Rightarrow> au_realm_id a = None \<and> au_permissions a = split_whitespace (at_scope c)))"
proof -
  consider (key) k where "authenticate_key E (am_keys A) hs d = (Inr k, d')" "au_subject a = e_uuid_text E (ak_id k)"
      "au_api_key a" "au_realm_id a = Some (ak_realm_id k)" "au_permissions a = ak_scopes k"
    | (bearer) err token c i where "authenticate_key E (am_keys A) hs d = (Inl err, d')"
      "Option.bind (text_header hs ''authorization'') (\<lambda>h. strip_prefix h ''Bearer '') = Some token"
      "verify_access_token E (am_service A) (timestamp (e_clock E 2)) token = Inr c"
      "token_identity E c d' = Inr i" "a = i\<lparr>au_route := True\<rparr>"
    using admin_identity_facts [OF assms] by blast
  then show ?thesis
  proof cases
    case key
    then show ?thesis
      by blast
  next
    case bearer
    from bearer(2) obtain header where "text_header hs ''authorization'' = Some header" "header = ''Bearer '' @ token"
      by (auto simp: bind_eq_Some_conv strip_prefix_Some)
    then show ?thesis
      using bearer(1, 3) token_authority [OF bearer(4, 5)] by blast
  qed
qed

text \<open>C35 Every identity that the extractor accepts was authorised for the route and its realm, and its subject and
  authority have one of three sources: the live API key that the headers carry (its identifier and scopes, confined to
  its realm); or, when no key is accepted, the token of the hub in the \<open>Authorization\<close> header, whose subject is the
  subject of the identity.  If that subject is a UUID, it is that of a user who still exists: the permissions are
  those of the roles the user has now, whatever the scopes of the token, and the realm is the realm of the user.  If
  it is no UUID, the scopes of the token are the permissions and no realm confines them.\<close>

theorem admin_identity_sound:
  assumes "admin_identity E A verb path hs d = (Inr a, d')"
  shows "au_route a \<and> route_is_authorized E verb path (a\<lparr>au_route := False\<rparr>)
    \<and> realm_is_authorized E path (a\<lparr>au_route := False\<rparr>) d'
    \<and> ((\<exists>k. authenticate_key E (am_keys A) hs d = (Inr k, d') \<and> au_subject a = e_uuid_text E (ak_id k) \<and> au_api_key a
            \<and> au_realm_id a = Some (ak_realm_id k) \<and> au_permissions a = ak_scopes k)
      \<or> (\<exists>err header token c. authenticate_key E (am_keys A) hs d = (Inl err, d')
            \<and> text_header hs ''authorization'' = Some header \<and> header = ''Bearer '' @ token
            \<and> verify_access_token E (am_service A) (timestamp (e_clock E 2)) token = Inr c
            \<and> au_subject a = at_sub c \<and> \<not> au_api_key a
            \<and> (case e_parse_uuid E (at_sub c) of
                 Some uid \<Rightarrow> \<exists>u. user_by_id uid d' = Some u \<and> au_realm_id a = Some (u_realm_id u)
                   \<and> au_permissions a = effective_permissions (e_collate E) uid d'
               | None \<Rightarrow> au_realm_id a = None \<and> au_permissions a = split_whitespace (at_scope c))))"
  using admin_identity_facts [OF assms] identity_source [OF assms] by blast

section \<open>Confinement to a realm\<close>

text \<open>The calls that change users, clients, scopes, mappers, roles and groups, with the route of each.\<close>

datatype admin_call =
    Create_User "new_user option" | Update_User uuid "user_change option" | Delete_User uuid
  | Create_Client "new_client option" | Update_Client uuid "client_change option" | Delete_Client uuid
  | Update_Ciba uuid ciba_change
  | Create_Scope "(uuid \<times> string \<times> string option \<times> bool option) option"
  | Update_Scope uuid "(string option \<times> string option \<times> bool option) option" | Delete_Scope uuid
  | Create_Mapper uuid "mapper_request option" | Update_Mapper uuid uuid "mapper_request option"
  | Delete_Mapper uuid uuid
  | Assign_Scope uuid "(uuid \<times> string) option" | Unassign_Scope uuid uuid
  | Create_Role "new_role option" | Update_Role uuid "(string option \<times> string option \<times> string list option) option"
  | Delete_Role uuid | Add_Composite uuid "uuid option" | Remove_Composite uuid uuid
  | Create_Group "(uuid \<times> string \<times> string option \<times> uuid option) option"
  | Update_Group uuid "(string option \<times> string option \<times> uuid option option) option" | Delete_Group uuid
  | Assign_Group_Role uuid "uuid option" | Unassign_Group_Role uuid uuid
  | Assign_User_Role uuid "uuid option" | Unassign_User_Role uuid uuid
  | Assign_User_Group uuid "uuid option" | Unassign_User_Group uuid uuid

definition item :: "env \<Rightarrow> string \<Rightarrow> uuid \<Rightarrow> string" where
  "item E kind i = ''/api/'' @ kind @ ''/'' @ e_uuid_text E i"

(*@ openid-connect-wasi/src/router/admin/mod.rs 273-339 routes of the calls *)
fun route_of :: "env \<Rightarrow> admin_call \<Rightarrow> verb \<times> string" where
  "route_of E (Create_User _) = (Post, ''/api/users'')"
| "route_of E (Update_User i _) = (Put, item E ''users'' i)"
| "route_of E (Delete_User i) = (Delete, item E ''users'' i)"
| "route_of E (Create_Client _) = (Post, ''/api/clients'')"
| "route_of E (Update_Client i _) = (Put, item E ''clients'' i)"
| "route_of E (Delete_Client i) = (Delete, item E ''clients'' i)"
| "route_of E (Update_Ciba i _) = (Put, item E ''clients'' i @ ''/ciba'')"
| "route_of E (Create_Scope _) = (Post, ''/api/scopes'')"
| "route_of E (Update_Scope i _) = (Put, item E ''scopes'' i)"
| "route_of E (Delete_Scope i) = (Delete, item E ''scopes'' i)"
| "route_of E (Create_Mapper i _) = (Post, item E ''scopes'' i @ ''/mappers'')"
| "route_of E (Update_Mapper i m _) = (Put, item E ''scopes'' i @ ''/mappers/'' @ e_uuid_text E m)"
| "route_of E (Delete_Mapper i m) = (Delete, item E ''scopes'' i @ ''/mappers/'' @ e_uuid_text E m)"
| "route_of E (Assign_Scope i _) = (Post, item E ''clients'' i @ ''/scopes'')"
| "route_of E (Unassign_Scope i s) = (Delete, item E ''clients'' i @ ''/scopes/'' @ e_uuid_text E s)"
| "route_of E (Create_Role _) = (Post, ''/api/roles'')"
| "route_of E (Update_Role i _) = (Put, item E ''roles'' i)"
| "route_of E (Delete_Role i) = (Delete, item E ''roles'' i)"
| "route_of E (Add_Composite i _) = (Post, item E ''roles'' i @ ''/composites'')"
| "route_of E (Remove_Composite i c) = (Delete, item E ''roles'' i @ ''/composites/'' @ e_uuid_text E c)"
| "route_of E (Create_Group _) = (Post, ''/api/groups'')"
| "route_of E (Update_Group i _) = (Put, item E ''groups'' i)"
| "route_of E (Delete_Group i) = (Delete, item E ''groups'' i)"
| "route_of E (Assign_Group_Role i _) = (Post, item E ''groups'' i @ ''/roles'')"
| "route_of E (Unassign_Group_Role i r) = (Delete, item E ''groups'' i @ ''/roles/'' @ e_uuid_text E r)"
| "route_of E (Assign_User_Role i _) = (Post, item E ''users'' i @ ''/roles'')"
| "route_of E (Unassign_User_Role i r) = (Delete, item E ''users'' i @ ''/roles/'' @ e_uuid_text E r)"
| "route_of E (Assign_User_Group i _) = (Post, item E ''users'' i @ ''/groups'')"
| "route_of E (Unassign_User_Group i g) = (Delete, item E ''users'' i @ ''/groups/'' @ e_uuid_text E g)"

definition done_by :: "'a handler \<Rightarrow> unit handler" where
  "done_by m = bindp m (\<lambda>_. ret ())"

lemma done_by_ok [prog_ok]: "done_by m s = (Inr u, t) \<longleftrightarrow> (\<exists>x. m s = (Inr x, t))"
  by (auto simp: done_by_def prog_ok)

(*@ openid-connect-wasi/src/router/admin/mod.rs 167-186 handlers of the calls *)
fun run_call :: "env \<Rightarrow> admin_env \<Rightarrow> admin_auth \<Rightarrow> admin_call \<Rightarrow> unit handler" where
  "run_call E A a (Create_User b) = done_by (create_user E A a b)"
| "run_call E A a (Update_User i b) = done_by (update_user_request E a i b)"
| "run_call E A a (Delete_User i) = done_by (delete_user E a i)"
| "run_call E A a (Create_Client b) = done_by (create_client E a b)"
| "run_call E A a (Update_Client i b) = done_by (update_client_request E a i b)"
| "run_call E A a (Delete_Client i) = done_by (delete_client E a i)"
| "run_call E A a (Update_Ciba i b) = done_by (update_ciba E a i b)"
| "run_call E A a (Create_Scope b) = done_by (create_scope E a b)"
| "run_call E A a (Update_Scope i b) = done_by (update_scope_request a i b)"
| "run_call E A a (Delete_Scope i) = done_by (delete_scope a i)"
| "run_call E A a (Create_Mapper i b) = done_by (create_mapper E a i b)"
| "run_call E A a (Update_Mapper i m b) = done_by (update_mapper E a i m b)"
| "run_call E A a (Delete_Mapper i m) = done_by (delete_mapper a i m)"
| "run_call E A a (Assign_Scope i b) = done_by (assign_client_scope E a i b)"
| "run_call E A a (Unassign_Scope i s) = done_by (unassign_client_scope a i s)"
| "run_call E A a (Create_Role b) = done_by (create_role E a b)"
| "run_call E A a (Update_Role i b) = done_by (update_role_request E a i b)"
| "run_call E A a (Delete_Role i) = done_by (delete_role E a i)"
| "run_call E A a (Add_Composite i b) = done_by (add_composite a i b)"
| "run_call E A a (Remove_Composite i c) = done_by (remove_composite a i c)"
| "run_call E A a (Create_Group b) = done_by (create_group E a b)"
| "run_call E A a (Update_Group i b) = done_by (update_group_request E a i b)"
| "run_call E A a (Delete_Group i) = done_by (delete_group E a i)"
| "run_call E A a (Assign_Group_Role i b) = done_by (assign_group_role E a i b)"
| "run_call E A a (Unassign_Group_Role i r) = done_by (unassign_group_role E a i r)"
| "run_call E A a (Assign_User_Role i b) = done_by (assign_user_role E a i b)"
| "run_call E A a (Unassign_User_Role i r) = done_by (unassign_user_role E a i r)"
| "run_call E A a (Assign_User_Group i b) = done_by (assign_user_group E a i b)"
| "run_call E A a (Unassign_User_Group i g) = done_by (unassign_user_group E a i g)"

definition serve_admin :: "env \<Rightarrow> admin_env \<Rightarrow> headers \<Rightarrow> admin_call \<Rightarrow> unit handler" where
  "serve_admin E A hs call =
     bindp (fail_with (\<lambda>e. (fst (key_error_response e), [(''error'', JStr (fst (snd (key_error_response e))))]))
              (admin_identity E A (fst (route_of E call)) (snd (route_of E call)) hs)) (\<lambda>a.
     run_call E A a call)"

text \<open>The live rows of all realms but one.\<close>

definition foreign_rows :: "uuid \<Rightarrow> db \<Rightarrow> client list \<times> scope list \<times> role list \<times> group list" where
  "foreign_rows realm d =
     (filter (\<lambda>c. c_realm_id c \<noteq> realm \<and> c_deleted_at c = None) (d_clients d),
      filter (\<lambda>s. sc_realm_id s \<noteq> realm) (d_scopes d),
      filter (\<lambda>r. ro_realm_id r \<noteq> realm \<and> ro_deleted_at r = None) (d_roles d),
      filter (\<lambda>g. g_realm_id g \<noteq> realm \<and> g_deleted_at g = None) (d_groups d))"

text \<open>The users are apart: an event may start a workflow whose steps change users of its realm, and some calls record
  events.\<close>

definition foreign_users :: "uuid \<Rightarrow> db \<Rightarrow> user list" where
  "foreign_users realm d = filter (\<lambda>u. u_realm_id u \<noteq> realm \<and> u_deleted_at u = None) (d_users d)"

definition ids_unique :: "db \<Rightarrow> bool" where
  "ids_unique d \<longleftrightarrow> distinct (map u_id (d_users d)) \<and> distinct (map c_id (d_clients d)) \<and> distinct (map sc_id (d_scopes d))
     \<and> distinct (map ro_id (d_roles d)) \<and> distinct (map g_id (d_groups d))"

text \<open>How a UUID is written: it reads back, it is not empty and it has no slash.\<close>

definition uuid_texts :: "env \<Rightarrow> bool" where
  "uuid_texts E \<longleftrightarrow> (\<forall>i. e_parse_uuid E (e_uuid_text E i) = Some i \<and> e_uuid_text E i \<noteq> [] \<and> CHR ''/'' \<notin> set (e_uuid_text E i))"

lemma filter_update_where:
  assumes "\<And>x. x \<in> set tbl \<Longrightarrow> P x \<Longrightarrow> \<not> Q x \<and> \<not> Q (f x)"
  shows "filter Q (update_where P f tbl) = filter Q tbl"
  using assms unfolding update_where_def by (induction tbl) auto

lemma foreign_record [simp]: "foreign_rows realm (record_event E k ev d) = foreign_rows realm d"
  using record_event_beyond [of E k ev d]
  by (auto simp: foreign_rows_def beyond_workflows_def dest: arg_cong [where f = d_scopes]
      arg_cong [where f = d_groups] arg_cong [where f = d_clients] arg_cong [where f = d_roles])

lemma foreign_event [simp]: "foreign_rows realm (admin_event E k a r event kind t info d) = foreign_rows realm d"
  by (simp add: admin_event_def)

lemma foreign_link [simp]: "foreign_rows realm (link_event E a event kind t key x d) = foreign_rows realm d"
  by (simp add: link_event_def)

lemma admitted_ok [prog_ok]: "admitted a s = (Inr u, t) \<longleftrightarrow> au_route a \<and> t = s"
  by (auto simp: admitted_def prog_ok)

lemma in_realm_ok [prog_ok]:
  "in_realm a x s = (Inr u, t) \<longleftrightarrow> (is_global_admin a \<or> au_realm_id a = None \<or> au_realm_id a = Some x) \<and> t = s"
  by (auto simp: in_realm_def scoped_realm_def prog_ok split: option.splits)

lemma found_row_ok [prog_ok]: "found_row q s = (Inr x, t) \<longleftrightarrow> q s = Some x \<and> t = s"
  by (auto simp: found_row_def prog_ok)

lemma parsed_ok [prog_ok]: "parsed b s = (Inr x, t) \<longleftrightarrow> b = Some x \<and> t = s"
  by (auto simp: parsed_def prog_ok)

lemma or_internal_ok [prog_ok]: "or_internal m s = (Inr x, t) \<longleftrightarrow> m s = (Inr x, t)"
  by (simp add: or_internal_def prog_ok)

lemma policies_allow_ok [prog_ok]:
  "policies_allow E c s = (Inr u, t) \<longleftrightarrow> is_ok (enforce_client E Admin_Context c s) \<and> t = s"
  by (auto simp: policies_allow_def prog_ok is_ok_iff)

lemma role_source_ok_state: "role_source_ok m s d = (Inr u, d') \<Longrightarrow> d' = d"
  by (auto simp: role_source_ok_def prog_ok split: if_splits)

lemma mapper_of_scope_ok [prog_ok]:
  "mapper_of_scope i scope d = (Inr u, d') \<longleftrightarrow> (\<exists>m. mapper_by_id i d = Some m \<and> pm_scope_id m = scope) \<and> d' = d"
  by (auto simp: mapper_of_scope_def prog_ok split: option.splits)

text \<open>The realm that the path of a row names is the realm of the identity.\<close>

lemma trim_slashes_body: "s \<noteq> [] \<Longrightarrow> hd s \<noteq> CHR ''/'' \<Longrightarrow> last s \<noteq> CHR ''/'' \<Longrightarrow> trim_slashes (CHR ''/'' # s) = s"
proof -
  assume s: "s \<noteq> []" "hd s \<noteq> CHR ''/''" "last s \<noteq> CHR ''/''"
  have keep: "dropWhile (\<lambda>c. c = CHR ''/'') xs = xs" if "xs \<noteq> []" "hd xs \<noteq> CHR ''/''" for xs
    using that by (cases xs) auto
  show ?thesis
    using s by (simp add: trim_slashes_def keep hd_rev)
qed

lemma find_by_ident:
  "distinct (map f tbl) \<Longrightarrow> x \<in> set tbl \<Longrightarrow> f x = i \<Longrightarrow> P x \<Longrightarrow> List.find (\<lambda>y. f y = i \<and> P y) tbl = Some x"
  by (induction tbl) (auto simp: rev_image_eqI)

lemma item_confined:
  assumes "uuid_texts E" and "realm_is_authorized E (item E kind i @ tail) a d"
    and "\<not> is_global_admin a" "au_realm_id a = Some r"
    and kind: "CHR ''/'' \<notin> set kind" "kind \<noteq> ''realms''"
    and tail: "tail = [] \<or> (\<exists>u. tail = CHR ''/'' # u \<and> u \<noteq> [] \<and> last u \<noteq> CHR ''/'')"
    and "resource_realm kind i d = Some x"
  shows "x = r"
proof -
  let ?t = "e_uuid_text E i"
  have t: "?t \<noteq> []" "CHR ''/'' \<notin> set ?t" "e_parse_uuid E ?t = Some i"
    using assms(1) by (auto simp: uuid_texts_def)
  have "last ?t \<noteq> CHR ''/''"
    using t by (metis last_in_set)
  then have "last (''api/'' @ kind @ ''/'' @ ?t @ tail) \<noteq> CHR ''/''"
    using t(1) tail by auto
  then have trim: "trim_slashes (item E kind i @ tail) = ''api/'' @ kind @ ''/'' @ ?t @ tail"
    by (simp add: item_def trim_slashes_body)
  have "split_on (CHR ''/'') (''api'' @ CHR ''/'' # kind @ CHR ''/'' # q) = ''api'' # kind # split_on (CHR ''/'') q" for q
    using kind by (subst split_on_append_sep, simp, subst split_on_append_sep, simp_all)
  then have "split_on (CHR ''/'') (trim_slashes (item E kind i @ tail)) = ''api'' # kind # split_on (CHR ''/'') (?t @ tail)"
    unfolding trim by simp
  moreover have "\<exists>rest. split_on (CHR ''/'') (?t @ tail) = ?t # rest"
    using tail t(2) split_on_append_sep [of "CHR ''/''" ?t] split_on_append_sep [of "CHR ''/''" ?t "[]"]
    by (auto simp: split_on_single)
  ultimately show ?thesis
    using assms(2-4, 8) t(3) kind(2) by (auto simp: realm_is_authorized_def split: option.splits)
qed

lemma realm_authorized_route [simp]:
  "realm_is_authorized E path (a\<lparr>au_route := b\<rparr>) d = realm_is_authorized E path a d"
  by (simp add: realm_is_authorized_def is_global_admin_def cong: option.case_cong)

definition confined :: "env \<Rightarrow> admin_auth \<Rightarrow> uuid \<Rightarrow> db \<Rightarrow> bool" where
  "confined E a r d \<longleftrightarrow> uuid_texts E \<and> ids_unique d \<and> \<not> is_global_admin a \<and> au_realm_id a = Some r"

lemma own_realm_only: "confined E a r d \<Longrightarrow> in_realm a x s = (Inr u, t) \<Longrightarrow> x = r \<and> t = s"
  by (auto simp: confined_def prog_ok)


lemma own_user:
  assumes con: "confined E a r d" and "realm_is_authorized E (item E ''users'' i @ tail) a d"
    and "tail = [] \<or> (\<exists>u. tail = CHR ''/'' # u \<and> u \<noteq> [] \<and> last u \<noteq> CHR ''/'')"
  shows "\<forall>x \<in> set (d_users d). u_id x = i \<and> u_deleted_at x = None \<longrightarrow> u_realm_id x = r"
proof safe
  fix x assume "x \<in> set (d_users d)" "u_deleted_at x = None" "i = u_id x"
  then have "user_by_id i d = Some x"
    using con unfolding user_by_id_def by (intro find_by_ident) (auto simp: confined_def ids_unique_def)
  then show "u_realm_id x = r"
    using item_confined [OF _ assms(2) _ _ _ _ assms(3)] con by (simp add: confined_def resource_realm_def)
qed

lemma own_client:
  assumes con: "confined E a r d" and "realm_is_authorized E (item E ''clients'' i @ tail) a d"
    and "tail = [] \<or> (\<exists>u. tail = CHR ''/'' # u \<and> u \<noteq> [] \<and> last u \<noteq> CHR ''/'')"
  shows "\<forall>x \<in> set (d_clients d). c_id x = i \<and> c_deleted_at x = None \<longrightarrow> c_realm_id x = r"
proof safe
  fix x assume "x \<in> set (d_clients d)" "c_deleted_at x = None" "i = c_id x"
  then have "client_by_id i d = Some x"
    using con unfolding client_by_id_def by (intro find_by_ident) (auto simp: confined_def ids_unique_def)
  then show "c_realm_id x = r"
    using item_confined [OF _ assms(2) _ _ _ _ assms(3)] con by (simp add: confined_def resource_realm_def)
qed

lemma own_scope:
  assumes con: "confined E a r d" and "realm_is_authorized E (item E ''scopes'' i @ tail) a d"
    and "tail = [] \<or> (\<exists>u. tail = CHR ''/'' # u \<and> u \<noteq> [] \<and> last u \<noteq> CHR ''/'')"
  shows "\<forall>x \<in> set (d_scopes d). sc_id x = i \<longrightarrow> sc_realm_id x = r"
proof safe
  fix x assume "x \<in> set (d_scopes d)" "i = sc_id x"
  then have "scope_by_id i d = Some x"
    using con find_by_ident [of sc_id "d_scopes d" x i "\<lambda>_. True"] by (auto simp: confined_def ids_unique_def scope_by_id_def)
  then show "sc_realm_id x = r"
    using item_confined [OF _ assms(2) _ _ _ _ assms(3)] con by (simp add: confined_def resource_realm_def)
qed

lemma own_role:
  assumes con: "confined E a r d" and "realm_is_authorized E (item E ''roles'' i @ tail) a d"
    and "tail = [] \<or> (\<exists>u. tail = CHR ''/'' # u \<and> u \<noteq> [] \<and> last u \<noteq> CHR ''/'')"
  shows "\<forall>x \<in> set (d_roles d). ro_id x = i \<and> ro_deleted_at x = None \<longrightarrow> ro_realm_id x = r"
proof safe
  fix x assume "x \<in> set (d_roles d)" "ro_deleted_at x = None" "i = ro_id x"
  then have "role_by_id i d = Some x"
    using con unfolding role_by_id_def by (intro find_by_ident) (auto simp: confined_def ids_unique_def)
  then show "ro_realm_id x = r"
    using item_confined [OF _ assms(2) _ _ _ _ assms(3)] con by (simp add: confined_def resource_realm_def)
qed

lemma own_group:
  assumes con: "confined E a r d" and "realm_is_authorized E (item E ''groups'' i @ tail) a d"
    and "tail = [] \<or> (\<exists>u. tail = CHR ''/'' # u \<and> u \<noteq> [] \<and> last u \<noteq> CHR ''/'')"
  shows "\<forall>x \<in> set (d_groups d). g_id x = i \<and> g_deleted_at x = None \<longrightarrow> g_realm_id x = r"
proof safe
  fix x assume "x \<in> set (d_groups d)" "g_deleted_at x = None" "i = g_id x"
  then have "group_by_id i d = Some x"
    using con unfolding group_by_id_def by (intro find_by_ident) (auto simp: confined_def ids_unique_def)
  then show "g_realm_id x = r"
    using item_confined [OF _ assms(2) _ _ _ _ assms(3)] con by (simp add: confined_def resource_realm_def)
qed

lemma update_client_row:
  assumes "client_update c d = (Inr u, d')"
    and "\<forall>x \<in> set (d_clients d). c_id x = c_id c \<and> c_deleted_at x = None \<longrightarrow> c_realm_id x = r"
  shows "foreign_rows r d' = foreign_rows r d"
  using assms by (auto simp: client_update_def prog_ok foreign_rows_def intro!: filter_update_where)

lemma ciba_grants:
  assumes "update_ciba E a i q d = (Inr z, d')"
  shows "\<exists>c gs e. client_by_id i d = Some c \<and> au_route a \<and> in_realm a (c_realm_id c) d = (Inr (), d)
    \<and> is_ok (enforce_client E Admin_Context (c\<lparr>c_allowed_grant_types := gs\<rparr>) d)
    \<and> client_update (c\<lparr>c_allowed_grant_types := gs\<rparr>) d = (Inr (), e)
    \<and> (\<exists>f. d' = d_ciba_configs_update f e)"
proof (cases "cb_enabled q")
  case True
  then obtain c e v where run: "client_by_id i d = Some c" "au_route a" "in_realm a (c_realm_id c) d = (Inr (), d)"
      "d' = ciba_save_config v e"
    and stored: "is_ok (enforce_client E Admin_Context (if ciba_grant \<in> set (c_allowed_grant_types c) then c
             else c\<lparr>c_allowed_grant_types := c_allowed_grant_types c @ [ciba_grant]\<rparr>) d)"
      "client_update (if ciba_grant \<in> set (c_allowed_grant_types c) then c
             else c\<lparr>c_allowed_grant_types := c_allowed_grant_types c @ [ciba_grant]\<rparr>) d = (Inr (), e)"
    using assms by (auto simp: update_ciba_def Let_def prog_ok simp del: if_split)
  let ?gs = "if ciba_grant \<in> set (c_allowed_grant_types c) then c_allowed_grant_types c
      else c_allowed_grant_types c @ [ciba_grant]"
  have same: "(if ciba_grant \<in> set (c_allowed_grant_types c) then c
             else c\<lparr>c_allowed_grant_types := c_allowed_grant_types c @ [ciba_grant]\<rparr>) = c\<lparr>c_allowed_grant_types := ?gs\<rparr>"
    by simp
  have "\<exists>f. d' = d_ciba_configs_update f e"
    using run(4) unfolding ciba_save_config_def by blast
  then show ?thesis
    using run(1-3) stored [unfolded same] by blast
next
  case False
  then obtain c e where "client_by_id i d = Some c" "au_route a" "in_realm a (c_realm_id c) d = (Inr (), d)"
      "is_ok (enforce_client E Admin_Context
         (c\<lparr>c_allowed_grant_types := filter (\<lambda>v. v \<noteq> ciba_grant) (c_allowed_grant_types c)\<rparr>) d)"
      "client_update (c\<lparr>c_allowed_grant_types := filter (\<lambda>v. v \<noteq> ciba_grant) (c_allowed_grant_types c)\<rparr>) d = (Inr (), e)"
      "d' = d_ciba_configs_update (filter (\<lambda>x. cc_client_id x \<noteq> i)) e"
    using assms by (auto simp: update_ciba_def Let_def prog_ok)
  then show ?thesis
    by blast
qed

lemma confined_clients:
  assumes con: "confined E a r d"
  shows "create_client E a b d = (Inr x, d') \<Longrightarrow> foreign_rows r d' = foreign_rows r d"
  "update_client_request E a i c d = (Inr y, d') \<Longrightarrow> realm_is_authorized E (item E ''clients'' i) a d \<Longrightarrow>
     foreign_rows r d' = foreign_rows r d"
  "delete_client E a i d = (Inr y, d') \<Longrightarrow> realm_is_authorized E (item E ''clients'' i) a d \<Longrightarrow>
     foreign_rows r d' = foreign_rows r d"
  "update_ciba E a i q d = (Inr z, d') \<Longrightarrow> foreign_rows r d' = foreign_rows r d"
proof goal_cases
  case 1
  then show ?case
    using con
    by (auto simp: create_client_def client_create_def client_of_body_def Let_def prog_ok foreign_rows_def
        confined_def split: prod.splits)
next
  case 2
  then obtain old req where old: "client_by_id i d = Some old"
    and upd: "\<exists>u. client_update (changed_client req old) d = (Inr u, d')"
    by (auto simp: update_client_request_def prog_ok)
  have "c_id old = i"
    using old by (auto simp: client_by_id_def dest!: find_Some_set)
  then show ?case
    using upd own_client [OF con, of i "[]"] 2(2) by (auto intro!: update_client_row simp: changed_client_def)
next
  case 3
  then show ?case
    using own_client [OF con, of i "[]"]
    by (auto simp: delete_client_def client_delete_def prog_ok foreign_rows_def intro!: filter_update_where)
next
  case 4
  obtain c gs e f where c: "client_by_id i d = Some c" "in_realm a (c_realm_id c) d = (Inr (), d)"
    and upd: "client_update (c\<lparr>c_allowed_grant_types := gs\<rparr>) d = (Inr (), e)" "d' = d_ciba_configs_update f e"
    using ciba_grants [OF 4] by blast
  have "c_realm_id c = r"
    using own_realm_only [OF con c(2)] by simp
  then have "\<forall>x \<in> set (d_clients d). c_id x = c_id c \<and> c_deleted_at x = None \<longrightarrow> c_realm_id x = r"
    using c(1) con find_by_ident [of c_id "d_clients d" _ i "\<lambda>c. c_deleted_at c = None"]
    by (auto simp: confined_def ids_unique_def client_by_id_def dest!: find_Some_set)
  then have "foreign_rows r e = foreign_rows r d"
    by (intro update_client_row [OF upd(1)]) simp
  then show ?case
    using upd(2) by (simp add: foreign_rows_def)
qed

lemma confined_users:
  assumes con: "confined E a r d"
  shows "create_user E A a b d = (Inr x, d') \<Longrightarrow> foreign_rows r d' = foreign_rows r d"
  "update_user_request E a i c d = (Inr y, d') \<Longrightarrow> realm_is_authorized E (item E ''users'' i) a d \<Longrightarrow>
     foreign_rows r d' = foreign_rows r d \<and> foreign_users r d' = foreign_users r d"
  "delete_user E a i d = (Inr y, d') \<Longrightarrow> realm_is_authorized E (item E ''users'' i) a d \<Longrightarrow>
     foreign_rows r d' = foreign_rows r d \<and> foreign_users r d' = foreign_users r d"
proof goal_cases
  case 1
  then obtain u e where "user_create (e_db_now E) u d = (Inr (), e)" "foreign_rows r d' = foreign_rows r e"
    by (auto simp: create_user_def Let_def prog_ok simp del: split_paired_All split_paired_Ex)
  then show ?case
    by (auto simp: user_create_def prog_ok foreign_rows_def)
next
  case 2
  then obtain old req where old: "user_by_id i d = Some old"
    and upd: "\<exists>u. user_update (e_db_now E) (changed_user req old) d = (Inr u, d')"
    by (auto simp: update_user_request_def prog_ok)
  have "u_id old = i"
    using old by (auto simp: user_by_id_def dest!: find_Some_set)
  then show ?case
    using upd own_user [OF con, of i "[]"] 2(2)
    by (auto simp: user_update_def changed_user_def prog_ok foreign_rows_def foreign_users_def
        intro!: filter_update_where)
next
  case 3
  then show ?case
    using own_user [OF con, of i "[]"]
    by (auto simp: delete_user_def user_delete_def prog_ok foreign_rows_def foreign_users_def
        intro!: filter_update_where)
qed

lemma confined_scopes:
  assumes con: "confined E a r d"
  shows "create_scope E a b d = (Inr x, d') \<Longrightarrow> foreign_rows r d' = foreign_rows r d"
  "update_scope_request a i c d = (Inr y, d') \<Longrightarrow> realm_is_authorized E (item E ''scopes'' i) a d \<Longrightarrow>
     foreign_rows r d' = foreign_rows r d"
  "delete_scope a i d = (Inr y, d') \<Longrightarrow> realm_is_authorized E (item E ''scopes'' i) a d \<Longrightarrow>
     foreign_rows r d' = foreign_rows r d"
proof goal_cases
  case 1
  then show ?case
    using con by (auto simp: create_scope_def scope_create_def Let_def prog_ok foreign_rows_def confined_def
        split: prod.splits)
next
  case 2
  then obtain old n u v w where old: "scope_by_id i d = Some old"
    and upd: "scope_update (old\<lparr>sc_name := n, sc_description := u, sc_enabled := v\<rparr>) d = (Inr w, d')"
    by (auto simp: update_scope_request_def prog_ok split: prod.splits)
  have "sc_id old = i"
    using old by (auto simp: scope_by_id_def dest!: find_Some_set)
  then show ?case
    using upd own_scope [OF con, of i "[]"] 2(2)
    by (auto simp: scope_update_def prog_ok foreign_rows_def intro!: filter_update_where)
next
  case 3
  then have "\<forall>x \<in> set (d_scopes d). sc_id x = i \<longrightarrow> sc_realm_id x = r"
    using own_scope [OF con, of i "[]"] by simp
  then have "filter (\<lambda>s. sc_realm_id s \<noteq> r) (filter (\<lambda>s. sc_id s \<noteq> i) (d_scopes d)) = filter (\<lambda>s. sc_realm_id s \<noteq> r) (d_scopes d)"
    by (auto intro: filter_cong)
  then show ?case
    using 3(1) by (auto simp: delete_scope_def scope_delete_def prog_ok foreign_rows_def)
qed

lemma created_foreign:
  "role_create x d = (Inr u, e) \<Longrightarrow> ro_realm_id x = r \<Longrightarrow> foreign_rows r e = foreign_rows r d"
  "group_create y d = (Inr u, e) \<Longrightarrow> g_realm_id y = r \<Longrightarrow> foreign_rows r e = foreign_rows r d"
  by (auto simp: role_create_def group_create_def prog_ok foreign_rows_def)

lemma confined_roles:
  assumes con: "confined E a r d"
  shows "create_role E a b d = (Inr x, d') \<Longrightarrow> foreign_rows r d' = foreign_rows r d"
  "update_role_request E a i c d = (Inr y, d') \<Longrightarrow> realm_is_authorized E (item E ''roles'' i) a d \<Longrightarrow>
     foreign_rows r d' = foreign_rows r d"
  "delete_role E a i d = (Inr y, d') \<Longrightarrow> realm_is_authorized E (item E ''roles'' i) a d \<Longrightarrow>
     foreign_rows r d' = foreign_rows r d"
proof goal_cases
  case 1
  then show ?case
    using con by (auto simp: create_role_def Let_def prog_ok confined_def dest!: created_foreign(1) [where r = r])
next
  case 2
  then obtain old n u v w e where old: "role_by_id i d = Some old"
    and upd: "role_update (e_db_now E) (old\<lparr>ro_name := n, ro_description := u, ro_permissions := v\<rparr>) d = (Inr w, e)"
      "foreign_rows r d' = foreign_rows r e"
    by (auto simp: update_role_request_def Let_def prog_ok split: prod.splits)
  have "ro_id old = i"
    using old by (auto simp: role_by_id_def dest!: find_Some_set)
  then show ?case
    using upd own_role [OF con, of i "[]"] 2(2)
    by (auto simp: role_update_def Let_def prog_ok foreign_rows_def intro!: filter_update_where)
next
  case 3
  then obtain e where "e = role_delete (e_db_now E) i d" "foreign_rows r d' = foreign_rows r e"
    by (auto simp: delete_role_def prog_ok)
  then show ?case
    using own_role [OF con, of i "[]"] 3(2)
    by (auto simp: role_delete_def foreign_rows_def intro!: filter_update_where)
qed

lemma confined_groups:
  assumes con: "confined E a r d"
  shows "create_group E a b d = (Inr x, d') \<Longrightarrow> foreign_rows r d' = foreign_rows r d"
  "update_group_request E a i c d = (Inr y, d') \<Longrightarrow> realm_is_authorized E (item E ''groups'' i) a d \<Longrightarrow>
     foreign_rows r d' = foreign_rows r d"
  "delete_group E a i d = (Inr y, d') \<Longrightarrow> realm_is_authorized E (item E ''groups'' i) a d \<Longrightarrow>
     foreign_rows r d' = foreign_rows r d"
proof goal_cases
  case 1
  then show ?case
    using con by (auto simp: create_group_def parent_exists_def Let_def prog_ok confined_def
        dest!: created_foreign(2) [where r = r] split: prod.splits)
next
  case 2
  then obtain old n u v w e where old: "group_by_id i d = Some old"
    and upd: "group_update (e_db_now E) (old\<lparr>g_name := n, g_description := u, g_parent_id := v\<rparr>) d = (Inr w, e)"
      "foreign_rows r d' = foreign_rows r e"
    by (auto simp: update_group_request_def parent_exists_def Let_def prog_ok split: prod.splits)
  have "g_id old = i"
    using old by (auto simp: group_by_id_def dest!: find_Some_set)
  then show ?case
    using upd own_group [OF con, of i "[]"] 2(2)
    by (auto simp: group_update_def prog_ok foreign_rows_def intro!: filter_update_where)
next
  case 3
  then obtain e where "e = group_delete (e_db_now E) i d" "foreign_rows r d' = foreign_rows r e"
    by (auto simp: delete_group_def prog_ok)
  then show ?case
    using own_group [OF con, of i "[]"] 3(2)
    by (auto simp: group_delete_def foreign_rows_def intro!: filter_update_where)
qed

text \<open>Rows that link two others, and mappers, are in none of the tables above.\<close>

lemma link_rows_foreign [simp]:
  "foreign_rows r (role_assign i j d) = foreign_rows r d" "foreign_rows r (role_unassign i j d) = foreign_rows r d"
  "foreign_rows r (group_unassign i j d) = foreign_rows r d"
  "foreign_rows r (group_role_unassign i j d) = foreign_rows r d"
  "foreign_rows r (scope_unassign i j d) = foreign_rows r d" "foreign_rows r (composite_remove i j d) = foreign_rows r d"
  "foreign_rows r (mapper_delete i d) = foreign_rows r d" "foreign_rows r (d_api_keys_update f d) = foreign_rows r d"
  by (simp_all add: foreign_rows_def role_assign_def role_unassign_def group_unassign_def group_role_unassign_def
      scope_unassign_def composite_remove_def mapper_delete_def)

lemma linked_foreign:
  "group_assign i j d = (Inr u, e) \<Longrightarrow> foreign_rows r e = foreign_rows r d"
  "group_role_assign i j d = (Inr u, e) \<Longrightarrow> foreign_rows r e = foreign_rows r d"
  "scope_assign i j k d = (Inr u, e) \<Longrightarrow> foreign_rows r e = foreign_rows r d"
  "composite_add i j d = (Inr u, e) \<Longrightarrow> foreign_rows r e = foreign_rows r d"
  "mapper_create m d = (Inr u, e) \<Longrightarrow> foreign_rows r e = foreign_rows r d"
  "mapper_update m d = (Inr u, e) \<Longrightarrow> foreign_rows r e = foreign_rows r d"
  by (auto simp: foreign_rows_def group_assign_def group_role_assign_def scope_assign_def composite_add_def
      mapper_create_def mapper_update_def prog_ok)

lemma linking_foreign:
  "assign_user_role E a i b d = (Inr x, d') \<Longrightarrow> foreign_rows r d' = foreign_rows r d"
  "unassign_user_role E a i j d = (Inr x, d') \<Longrightarrow> foreign_rows r d' = foreign_rows r d"
  "assign_user_group E a i b d = (Inr x, d') \<Longrightarrow> foreign_rows r d' = foreign_rows r d"
  "unassign_user_group E a i j d = (Inr x, d') \<Longrightarrow> foreign_rows r d' = foreign_rows r d"
  "assign_group_role E a i b d = (Inr x, d') \<Longrightarrow> foreign_rows r d' = foreign_rows r d"
  "unassign_group_role E a i j d = (Inr x, d') \<Longrightarrow> foreign_rows r d' = foreign_rows r d"
  "add_composite a i b d = (Inr x, d') \<Longrightarrow> foreign_rows r d' = foreign_rows r d"
  "remove_composite a i j d = (Inr x, d') \<Longrightarrow> foreign_rows r d' = foreign_rows r d"
  by (auto simp: assign_user_role_def unassign_user_role_def assign_user_group_def unassign_user_group_def
      assign_group_role_def unassign_group_role_def add_composite_def remove_composite_def prog_ok
      dest!: linked_foreign [where r = r])

lemma mapping_foreign:
  "assign_client_scope E a i s d = (Inr x, d') \<Longrightarrow> foreign_rows r d' = foreign_rows r d"
  "unassign_client_scope a i j d = (Inr x, d') \<Longrightarrow> foreign_rows r d' = foreign_rows r d"
  "create_mapper E a i q d = (Inr x, d') \<Longrightarrow> foreign_rows r d' = foreign_rows r d"
  "update_mapper E a i j q d = (Inr x, d') \<Longrightarrow> foreign_rows r d' = foreign_rows r d"
  "delete_mapper a i j d = (Inr x, d') \<Longrightarrow> foreign_rows r d' = foreign_rows r d"
  by (auto simp: assign_client_scope_def unassign_client_scope_def create_mapper_def update_mapper_def
      delete_mapper_def prog_ok split: prod.splits dest!: linked_foreign [where r = r] role_source_ok_state)

lemma confined_call:
  assumes con: "confined E a r d" and path: "realm_is_authorized E (snd (route_of E call)) a d"
    and run: "run_call E A a call d = (Inr u, d')"
  shows "foreign_rows r d' = foreign_rows r d"
  using run path
  by (cases call)
    (auto simp: prog_ok intro: confined_users [OF con] confined_clients [OF con] confined_scopes [OF con]
      confined_roles [OF con] confined_groups [OF con] linking_foreign mapping_foreign dest: confined_users(2, 3) [OF con])

lemma confined_users_call:
  assumes con: "confined E a r d" and path: "realm_is_authorized E (snd (route_of E call)) a d"
    and run: "run_call E A a call d = (Inr u, d')" and call: "call = Update_User i b \<or> call = Delete_User i"
  shows "foreign_users r d' = foreign_users r d"
  using run path call by (auto simp: prog_ok dest: confined_users(2, 3) [OF con])

lemma identity_changes_keys:
  assumes "admin_identity E A verb path hs d = (Inr a, e)"
  shows "\<exists>f. e = d_api_keys_update f d"
proof (cases "authenticate_key E (am_keys A) hs d")
  case (Pair x e')
  have "e' = d \<or> (\<exists>f. e' = d_api_keys_update f d)"
    using Pair
    by (auto simp: authenticate_key_def key_increment_def bindp_def some_or_def ask_def exec_def thenp_def lift_def
        fail_def ret_def split: prod.splits sum.splits option.splits)
  moreover have "d = d_api_keys_update (\<lambda>ks. ks) d"
    by simp
  ultimately have "\<exists>f. e' = d_api_keys_update f d"
    by blast
  moreover have "e = e'"
    using assms Pair by (auto simp: admin_identity_def prog_ok authorize_route_ok split: sum.splits option.splits)
  ultimately show ?thesis
    by simp
qed

lemma serve_admin_ok:
  "serve_admin E A hs call d = (Inr u, d') \<longleftrightarrow>
     (\<exists>a e. admin_identity E A (fst (route_of E call)) (snd (route_of E call)) hs d = (Inr a, e)
        \<and> run_call E A a call e = (Inr u, d'))"
  by (auto simp: serve_admin_def prog_ok)

text \<open>C34 A delegated administrator changes its own realm only.  A request that is served ran its handler with the identity
  the extractor accepted, and if that identity belongs to a realm and is no global administrator, then every live client,
  scope, role and group of any other realm is as it was before the request, whatever the call and its parameters, and
  so are the users of other realms when a user is updated or deleted.  What the code relies on: identifiers are unique in
  each table, and the text of a UUID in a path reads back as that UUID.\<close>

theorem delegated_admin_confined:
  assumes texts: "uuid_texts E" and ids: "ids_unique d"
    and served: "serve_admin E A hs call d = (Inr u, d')"
  shows "\<exists>a e. admin_identity E A (fst (route_of E call)) (snd (route_of E call)) hs d = (Inr a, e)
    \<and> run_call E A a call e = (Inr u, d')
    \<and> (\<forall>r. \<not> is_global_admin a \<and> au_realm_id a = Some r \<longrightarrow> foreign_rows r d' = foreign_rows r d
         \<and> ((\<exists>i b. call = Update_User i b \<or> call = Delete_User i) \<longrightarrow> foreign_users r d' = foreign_users r d))"
proof -
  obtain a e where who: "admin_identity E A (fst (route_of E call)) (snd (route_of E call)) hs d = (Inr a, e)"
    and run: "run_call E A a call e = (Inr u, d')"
    using served by (auto simp: serve_admin_ok)
  obtain f where e: "e = d_api_keys_update f d"
    using identity_changes_keys [OF who] by blast
  have same: "foreign_rows r e = foreign_rows r d" "foreign_users r e = foreign_users r d" for r
    by (simp_all add: e foreign_users_def)
  have con: "confined E a r e" if "\<not> is_global_admin a" "au_realm_id a = Some r" for r
    using texts ids that by (simp add: confined_def ids_unique_def e)
  have path: "realm_is_authorized E (snd (route_of E call)) a e"
    using admin_identity_facts [OF who] by simp
  show ?thesis
    using who run confined_call [OF con path run] confined_users_call [OF con path run] same by metis
qed

section \<open>Assignments stay inside a realm\<close>

text \<open>The identifier and the realm of the rows of a table.\<close>

definition places :: "('x \<Rightarrow> uuid) \<Rightarrow> ('x \<Rightarrow> uuid) \<Rightarrow> 'x list \<Rightarrow> (uuid \<times> uuid) set" where
  "places ident realm tbl = (\<lambda>x. (ident x, realm x)) ` set tbl"

definition linked :: "(uuid \<times> uuid) set \<Rightarrow> (uuid \<times> uuid) set \<Rightarrow> uuid \<times> uuid \<Rightarrow> bool" where
  "linked A B p \<longleftrightarrow> (\<exists>realm. (fst p, realm) \<in> A \<and> (snd p, realm) \<in> B)"

text \<open>Every assignment of a role to a group, of a scope to a client and of a role to a composite role joins two existing
  rows of one realm.\<close>

definition assignments_ok :: "db \<Rightarrow> bool" where
  "assignments_ok d \<longleftrightarrow>
     (let groups = places g_id g_realm_id (d_groups d); roles = places ro_id ro_realm_id (d_roles d);
          clients = places c_id c_realm_id (d_clients d); scopes = places sc_id sc_realm_id (d_scopes d)
      in (\<forall>p \<in> set (d_group_roles d). linked groups roles p)
       \<and> (\<forall>p \<in> set (d_role_composites d). linked roles roles p)
       \<and> (\<forall>(c, s, _) \<in> set (d_client_scopes d). linked clients scopes (c, s)))"

lemma places_append [simp]: "places f g (xs @ ys) = places f g xs \<union> places f g ys"
  by (auto simp: places_def)

lemma places_update_where:
  assumes "\<And>x. x \<in> set tbl \<Longrightarrow> P x \<Longrightarrow> f (h x) = f x \<and> g (h x) = g x"
  shows "places f g (update_where P h tbl) = places f g tbl"
  using assms unfolding places_def update_where_def set_map image_image by (intro image_cong refl) auto

lemma linked_mono: "linked A B p \<Longrightarrow> A \<subseteq> A' \<Longrightarrow> B \<subseteq> B' \<Longrightarrow> linked A' B' p"
  by (auto simp: linked_def)

text \<open>Rows may be added, assignments may go.\<close>

lemma assignments_grow:
  assumes "assignments_ok d"
    and "places g_id g_realm_id (d_groups d) \<subseteq> places g_id g_realm_id (d_groups e)"
    "places ro_id ro_realm_id (d_roles d) \<subseteq> places ro_id ro_realm_id (d_roles e)"
    "places c_id c_realm_id (d_clients d) \<subseteq> places c_id c_realm_id (d_clients e)"
    "places sc_id sc_realm_id (d_scopes d) \<subseteq> places sc_id sc_realm_id (d_scopes e)"
    and "set (d_group_roles e) \<subseteq> set (d_group_roles d)" "set (d_role_composites e) \<subseteq> set (d_role_composites d)"
    "set (d_client_scopes e) \<subseteq> set (d_client_scopes d)"
  shows "assignments_ok e"
proof -
  let ?g = "\<lambda>d. places g_id g_realm_id (d_groups d)" and ?r = "\<lambda>d. places ro_id ro_realm_id (d_roles d)"
  let ?c = "\<lambda>d. places c_id c_realm_id (d_clients d)" and ?s = "\<lambda>d. places sc_id sc_realm_id (d_scopes d)"
  have "linked (?g e) (?r e) p" if "p \<in> set (d_group_roles e)" for p
    using that assms(6) assms(1) by (intro linked_mono [OF _ assms(2, 3)]) (auto simp: assignments_ok_def Let_def)
  moreover have "linked (?r e) (?r e) p" if "p \<in> set (d_role_composites e)" for p
    using that assms(7) assms(1) by (intro linked_mono [OF _ assms(3, 3)]) (auto simp: assignments_ok_def Let_def)
  moreover have "linked (?c e) (?s e) (c, s)" if "(c, s, k) \<in> set (d_client_scopes e)" for c s k
    using that assms(8) assms(1) by (intro linked_mono [OF _ assms(4, 5)]) (auto simp: assignments_ok_def Let_def)
  ultimately show ?thesis
    by (auto simp: assignments_ok_def Let_def)
qed

lemma assignments_same:
  assumes "d_groups e = d_groups d" "d_roles e = d_roles d" "d_clients e = d_clients d" "d_scopes e = d_scopes d"
    "d_group_roles e = d_group_roles d" "d_role_composites e = d_role_composites d"
    "d_client_scopes e = d_client_scopes d"
  shows "assignments_ok e = assignments_ok d"
  using assms by (simp add: assignments_ok_def)

lemma assignments_record [simp]: "assignments_ok (record_event E k ev d) = assignments_ok d"
proof -
  have same: "beyond_workflows (record_event E k ev d) = beyond_workflows d"
    by (rule record_event_beyond)
  show ?thesis
    by (rule assignments_same) (insert same, auto simp: beyond_workflows_def dest: arg_cong [where f = d_groups]
        arg_cong [where f = d_roles] arg_cong [where f = d_clients] arg_cong [where f = d_scopes]
        arg_cong [where f = d_group_roles] arg_cong [where f = d_role_composites] arg_cong [where f = d_client_scopes])
qed

lemma record_group_roles [simp]: "d_group_roles (record_event E k ev d) = d_group_roles d"
  using record_event_beyond [of E k ev d] by (auto simp: beyond_workflows_def dest: arg_cong [where f = d_group_roles])

lemma assignments_event [simp]: "assignments_ok (admin_event E k a r event kind t info d) = assignments_ok d"
  "assignments_ok (link_event E a event target i key x d) = assignments_ok d"
  by (simp_all add: admin_event_def link_event_def)

lemma assignments_rows:
  assumes "assignments_ok d"
  shows "user_create t u d = (Inr v, e) \<Longrightarrow> assignments_ok e" "user_update t u d = (Inr v, e) \<Longrightarrow> assignments_ok e"
    "assignments_ok (user_delete t i d)"
    "client_create c d = (Inr v, e) \<Longrightarrow> assignments_ok e" "client_update c d = (Inr v, e) \<Longrightarrow> assignments_ok e"
    "assignments_ok (client_delete t i d)" "assignments_ok (d_ciba_configs_update f d)"
    "scope_create s d = (Inr v, e) \<Longrightarrow> assignments_ok e" "scope_update s d = (Inr v, e) \<Longrightarrow> assignments_ok e"
    "role_create r d = (Inr v, e) \<Longrightarrow> assignments_ok e" "role_update t r d = (Inr v, e) \<Longrightarrow> assignments_ok e"
    "assignments_ok (role_delete t i d)"
    "group_create g d = (Inr v, e) \<Longrightarrow> assignments_ok e" "group_update t g d = (Inr v, e) \<Longrightarrow> assignments_ok e"
    "assignments_ok (group_delete t i d)"
  by (rule assignments_grow [OF assms];
      auto simp: user_create_def user_update_def user_delete_def client_create_def client_update_def client_delete_def
        scope_create_def scope_update_def role_create_def role_update_def role_delete_def group_create_def
        group_update_def group_delete_def Let_def prog_ok places_update_where)+

lemma assignments_links:
  assumes "assignments_ok d"
  shows "assignments_ok (role_assign i j d)" "assignments_ok (role_unassign i j d)" "assignments_ok (group_unassign i j d)"
    "assignments_ok (group_role_unassign i j d)" "assignments_ok (scope_unassign i j d)"
    "assignments_ok (composite_remove i j d)" "assignments_ok (mapper_delete i d)"
    "group_assign i j d = (Inr v, e) \<Longrightarrow> assignments_ok e"
    "mapper_create m d = (Inr v, e) \<Longrightarrow> assignments_ok e" "mapper_update m d = (Inr v, e) \<Longrightarrow> assignments_ok e"
  by (rule assignments_grow [OF assms];
      auto simp: role_assign_def role_unassign_def group_unassign_def group_role_unassign_def scope_unassign_def
        composite_remove_def mapper_delete_def group_assign_def mapper_create_def mapper_update_def prog_ok)+

lemma placed_row:
  "role_by_id i d = Some r \<Longrightarrow> (i, ro_realm_id r) \<in> places ro_id ro_realm_id (d_roles d)"
  "group_by_id i d = Some g \<Longrightarrow> (i, g_realm_id g) \<in> places g_id g_realm_id (d_groups d)"
  "client_by_id i d = Some c \<Longrightarrow> (i, c_realm_id c) \<in> places c_id c_realm_id (d_clients d)"
  "scope_by_id i d = Some s \<Longrightarrow> (i, sc_realm_id s) \<in> places sc_id sc_realm_id (d_scopes d)"
  by (auto simp: places_def role_by_id_def group_by_id_def client_by_id_def scope_by_id_def
      dest!: find_Some_set intro: image_eqI)

lemma assignments_group_role:
  assumes "assignments_ok d" "group_role_assign i j d = (Inr v, e)"
    and "group_by_id i d = Some g" "role_by_id j d = Some r" "g_realm_id g = ro_realm_id r"
  shows "assignments_ok e"
proof -
  have "linked (places g_id g_realm_id (d_groups d)) (places ro_id ro_realm_id (d_roles d)) (i, j)"
    using placed_row(1) [OF assms(4)] placed_row(2) [OF assms(3)] assms(5) by (auto simp: linked_def)
  then show ?thesis
    using assms(1, 2) by (auto simp: group_role_assign_def prog_ok assignments_ok_def Let_def)
qed

lemma assignments_composite:
  assumes "assignments_ok d" "composite_add i (ro_id c) d = (Inr v, e)"
    and "role_by_id i d = Some p" "role_by_id j d = Some c" "ro_realm_id c = ro_realm_id p"
  shows "assignments_ok e"
proof -
  have "ro_id c = j"
    using assms(4) by (auto simp: role_by_id_def dest!: find_Some_set)
  then have "linked (places ro_id ro_realm_id (d_roles d)) (places ro_id ro_realm_id (d_roles d)) (i, ro_id c)"
    using placed_row(1) [OF assms(3)] placed_row(1) [OF assms(4)] assms(5) by (auto simp: linked_def)
  then show ?thesis
    using assms(1, 2) by (auto simp: composite_add_def prog_ok assignments_ok_def Let_def)
qed

lemma assignments_scope:
  assumes "assignments_ok d" "scope_assign i j k d = (Inr v, e)"
    and "client_by_id i d = Some c" "scope_by_id j d = Some s" "c_realm_id c = sc_realm_id s"
  shows "assignments_ok e"
proof -
  have "linked (places c_id c_realm_id (d_clients d)) (places sc_id sc_realm_id (d_scopes d)) (i, j)"
    using placed_row(3) [OF assms(3)] placed_row(4) [OF assms(4)] assms(5) by (auto simp: linked_def)
  then show ?thesis
    using assms(1, 2) by (auto simp: scope_assign_def prog_ok assignments_ok_def Let_def split: prod.splits)
qed

lemma assignments_scope_delete: "assignments_ok d \<Longrightarrow> assignments_ok (scope_delete i d)"
  by (auto simp: scope_delete_def assignments_ok_def Let_def linked_def places_def image_iff split: prod.splits)
    (metis (no_types, lifting))

lemmas stored_rows = assignments_rows(1, 2, 4, 5, 8, 9, 10, 11, 13, 14) assignments_links(8-10)
lemmas marked_rows = assignments_rows(3, 6, 7, 12, 15) assignments_links(1-7)

lemma assignments_calls:
  assumes ok: "assignments_ok d"
  shows "create_user E A a b d = (Inr x, d') \<Longrightarrow> assignments_ok d'"
    "update_user_request E a i c d = (Inr x, d') \<Longrightarrow> assignments_ok d'"
    "delete_user E a i d = (Inr x, d') \<Longrightarrow> assignments_ok d'"
    "create_client E a nc d = (Inr x, d') \<Longrightarrow> assignments_ok d'"
    "update_client_request E a i cc d = (Inr x, d') \<Longrightarrow> assignments_ok d'"
    "delete_client E a i d = (Inr x, d') \<Longrightarrow> assignments_ok d'"
    "create_scope E a ns d = (Inr x, d') \<Longrightarrow> assignments_ok d'"
    "update_scope_request a i cs d = (Inr x, d') \<Longrightarrow> assignments_ok d'"
    "delete_scope a i d = (Inr x, d') \<Longrightarrow> assignments_ok d'"
    "create_mapper E a i q d = (Inr x, d') \<Longrightarrow> assignments_ok d'"
    "update_mapper E a i j q d = (Inr x, d') \<Longrightarrow> assignments_ok d'"
    "delete_mapper a i j d = (Inr x, d') \<Longrightarrow> assignments_ok d'"
    "assign_client_scope E a i p d = (Inr x, d') \<Longrightarrow> assignments_ok d'"
    "unassign_client_scope a i j d = (Inr x, d') \<Longrightarrow> assignments_ok d'"
    "create_role E a nr d = (Inr x, d') \<Longrightarrow> assignments_ok d'"
    "update_role_request E a i cr d = (Inr x, d') \<Longrightarrow> assignments_ok d'"
    "delete_role E a i d = (Inr x, d') \<Longrightarrow> assignments_ok d'"
    "add_composite a i l d = (Inr x, d') \<Longrightarrow> assignments_ok d'"
    "remove_composite a i j d = (Inr x, d') \<Longrightarrow> assignments_ok d'"
    "create_group E a ng d = (Inr x, d') \<Longrightarrow> assignments_ok d'"
    "update_group_request E a i cg d = (Inr x, d') \<Longrightarrow> assignments_ok d'"
    "delete_group E a i d = (Inr x, d') \<Longrightarrow> assignments_ok d'"
    "assign_group_role E a i l d = (Inr x, d') \<Longrightarrow> assignments_ok d'"
    "unassign_group_role E a i j d = (Inr x, d') \<Longrightarrow> assignments_ok d'"
    "assign_user_role E a i l d = (Inr x, d') \<Longrightarrow> assignments_ok d'"
    "unassign_user_role E a i j d = (Inr x, d') \<Longrightarrow> assignments_ok d'"
    "assign_user_group E a i l d = (Inr x, d') \<Longrightarrow> assignments_ok d'"
    "unassign_user_group E a i j d = (Inr x, d') \<Longrightarrow> assignments_ok d'"
  by (auto simp: create_user_def update_user_request_def delete_user_def create_client_def update_client_request_def
      delete_client_def create_scope_def update_scope_request_def delete_scope_def create_mapper_def
      update_mapper_def delete_mapper_def assign_client_scope_def unassign_client_scope_def create_role_def
      update_role_request_def delete_role_def add_composite_def remove_composite_def create_group_def
      update_group_request_def delete_group_def assign_group_role_def unassign_group_role_def
      assign_user_role_def unassign_user_role_def assign_user_group_def unassign_user_group_def
      parent_exists_def Let_def prog_ok split: prod.splits dest!: role_source_ok_state
      dest: stored_rows [OF ok] assignments_group_role [OF ok] assignments_composite [OF ok] assignments_scope [OF ok]
      intro: marked_rows [OF ok] assignments_scope_delete [OF ok])

lemma assignments_ciba:
  assumes ok: "assignments_ok d"
  shows "update_ciba E a i w d = (Inr y, d') \<Longrightarrow> assignments_ok d'"
  using ciba_grants [of E a i w d y d'] stored_rows(4) [OF ok] marked_rows(3) by blast

text \<open>C36 No call of the administration ever assigns across realms.  If every assignment joins two existing rows of one
  realm (a role of a group, a scope of a client, a role of a composite role), it still does after any call that
  succeeds, whoever makes it: the handlers compare the realms before they assign, no update moves a row to another
  realm, and the rows that go away keep their assignments consistent (a deleted scope takes its assignments along).\<close>

theorem assignments_stay_in_realm:
  assumes ok: "assignments_ok d" and run: "run_call E A a call d = (Inr u, d')"
  shows "assignments_ok d'"
proof -
  show ?thesis
    using run
    by (cases call) (auto simp: prog_ok intro: assignments_calls [OF ok] assignments_ciba [OF ok])
qed

section \<open>Samples\<close>

definition path_env :: env where
  "path_env = sample_env\<lparr>e_uuid_text := (\<lambda>i. replicate (Suc i) (CHR ''a'')),
     e_parse_uuid := (\<lambda>s. if s = [] then None else Some (length s - 1))\<rparr>"

definition admin_sample :: admin_env where
  "admin_sample = \<lparr>am_keys = toy_keys, am_service = sample_service, am_time = (\<lambda>_. ''t'')\<rparr>"

definition admin_db :: db where
  "admin_db = empty_db\<lparr>d_users := [sample_user, sample_user\<lparr>u_id := 8, u_realm_id := 4\<rparr>], d_api_keys := [toy_key]\<rparr>"

definition key_admin :: admin_auth where
  "key_admin = \<lparr>au_subject = replicate (Suc 100) (CHR ''a''), au_api_key = True, au_realm_id = Some 3,
     au_permissions = [''admin''], au_route = True\<rparr>"

definition counted_db :: db where
  "counted_db = key_increment 0 100 admin_db"

lemma uuid_texts_sample: "uuid_texts path_env"
  by (auto simp: uuid_texts_def path_env_def)

lemma identity_sample:
  "admin_identity path_env admin_sample Delete ''/api/users/aaaaaaaa'' key_headers admin_db = (Inr key_admin, counted_db)"
proof -
  have "extract_raw_key key_headers = Some ''oidc_prod.abcdefgh.abcdefgh''"
    by code_simp
  moreover have "parse_key ''oidc_prod.abcdefgh.abcdefgh'' = Some (''abcdefgh'', ''prod'', ''abcdefgh'')"
    by code_simp
  ultimately have key: "authenticate_key path_env toy_keys key_headers admin_db = (Inr toy_key, counted_db)"
    by (simp add: authenticate_key_def prog_ok verify_key_ok key_by_prefix_def toy_key_def toy_keys_def key_live_def
        key_expired_def admin_db_def counted_db_def path_env_def sample_env_def)
  have route: "route_is_authorized path_env Delete ''/api/users/aaaaaaaa'' (key_admin\<lparr>au_route := False\<rparr>)"
    by (simp add: route_is_authorized_def has_permission_def key_admin_def)
  have "split_on (CHR ''/'') (trim_slashes ''/api/users/aaaaaaaa'') = [''api'', ''users'', ''aaaaaaaa'']"
    by code_simp
  then have realm: "realm_is_authorized path_env ''/api/users/aaaaaaaa'' (key_admin\<lparr>au_route := False\<rparr>) counted_db"
    by (simp add: realm_is_authorized_def key_admin_def path_env_def resource_realm_def user_by_id_def counted_db_def
        key_increment_def admin_db_def sample_user_def)
  have "key_admin\<lparr>au_route := False\<rparr> = \<lparr>au_subject = e_uuid_text path_env (ak_id toy_key), au_api_key = True,
      au_realm_id = Some (ak_realm_id toy_key), au_permissions = ak_scopes toy_key, au_route = False\<rparr>"
    by (simp add: key_admin_def path_env_def toy_key_def del: replicate.simps)
  moreover have "key_admin = key_admin\<lparr>au_route := False\<rparr>\<lparr>au_route := True\<rparr>"
    by (simp add: key_admin_def)
  ultimately show ?thesis
    using key route realm by (simp add: admin_identity_def prog_ok authorize_route_ok admin_sample_def)
qed

lemma admin_identity_sound_witness: "au_route key_admin"
  using admin_identity_sound [OF identity_sample] by (rule conjunct1)

lemma delegated_admin_confined_witness:
  "\<exists>d'. serve_admin path_env admin_sample key_headers (Delete_User 7) admin_db = (Inr (), d')
     \<and> foreign_rows 3 d' = foreign_rows 3 admin_db \<and> foreign_users 3 d' = [sample_user\<lparr>u_id := 8, u_realm_id := 4\<rparr>]"
proof -
  have path: "snd (route_of path_env (Delete_User 7)) = ''/api/users/aaaaaaaa''" "fst (route_of path_env (Delete_User 7)) = Delete"
    by (simp_all add: item_def path_env_def numeral_eq_Suc)
  have "run_call path_env admin_sample key_admin (Delete_User 7) counted_db = (Inr (), user_delete 0 7 counted_db)"
    by (simp add: prog_ok delete_user_def key_admin_def path_env_def sample_env_def)
  then have served: "serve_admin path_env admin_sample key_headers (Delete_User 7) admin_db
      = (Inr (), user_delete 0 7 counted_db)"
    unfolding serve_admin_ok path using identity_sample by blast
  have ids: "ids_unique admin_db"
    by (simp add: ids_unique_def admin_db_def empty_db_def sample_user_def)
  have key: "\<not> is_global_admin key_admin" "au_realm_id key_admin = Some 3"
    by (simp_all add: is_global_admin_def key_admin_def)
  have "foreign_rows 3 (user_delete 0 7 counted_db) = foreign_rows 3 admin_db
      \<and> foreign_users 3 (user_delete 0 7 counted_db) = foreign_users 3 admin_db"
    using delegated_admin_confined [OF uuid_texts_sample ids served, unfolded path identity_sample] key by force
  then show ?thesis
    using served by (simp add: foreign_users_def admin_db_def sample_user_def)
qed

definition group_role_db :: db where
  "group_role_db = empty_db\<lparr>
     d_groups := [\<lparr>g_id = 1, g_realm_id = 3, g_name = ''staff'', g_description = None, g_parent_id = None, g_created_at = 0,
                   g_updated_at = 0, g_deleted_at = None\<rparr>],
     d_roles := [\<lparr>ro_id = 2, ro_realm_id = 3, ro_name = ''reader'', ro_description = None,
                  ro_permissions = [''users:read''], ro_created_at = 0, ro_updated_at = 0, ro_client_id = None,
                  ro_deleted_at = None\<rparr>]\<rparr>"

lemma assignments_stay_in_realm_witness:
  "\<exists>d'. run_call path_env admin_sample key_admin (Assign_Group_Role 1 (Some 2)) group_role_db = (Inr (), d')
     \<and> assignments_ok d' \<and> (1, 2) \<in> set (d_group_roles d')"
proof -
  have "\<exists>d'. run_call path_env admin_sample key_admin (Assign_Group_Role 1 (Some 2)) group_role_db = (Inr (), d')
      \<and> (1, 2) \<in> set (d_group_roles d')"
    by (simp add: assign_group_role_def group_role_assign_def group_by_id_def role_by_id_def prog_ok group_role_db_def
        key_admin_def empty_db_def link_event_def admin_event_def del: One_nat_def)
  moreover have "assignments_ok group_role_db"
    by (simp add: assignments_ok_def group_role_db_def empty_db_def)
  ultimately show ?thesis
    using assignments_stay_in_realm by blast
qed

end
