(* ===== verification/Spec2Isabelle.thy ===== *)
theory Spec2Isabelle
  imports Response_Type Sessions Roles Tokens Claims Acr Issue Grants Refresh
    Device Workflow_Props Hub Dpop Client_Auth Token_Info Audit_Log Validation Uma_Props
    Account Password_Props Authorize_Props Token_Props Gateway Registration Admin_Props
begin

text \<open>
  \<^bold>\<open>A verification library for the OpenID Connect hub\<close>

  The hub is an OpenID provider written in Rust.  The crate \<open>oidc-core\<close> holds the data model, the error
  type and pure helpers, \<open>oidc-repository\<close> the SQL queries (one repository per table),
  \<open>oidc-oidc\<close> the protocol: grant flows (\<open>src/flows\<close>), tokens (\<open>src/tokens\<close>) and endpoints
  (\<open>src/endpoints\<close>).  A request to the token endpoint authenticates a client and runs one flow;
  the flow opens a transaction, reads and checks its credential (a code, a refresh token, a device
  code, ...), collects the claims of the user, signs the tokens and inserts a session that holds
  their hashes.  This library translates these parts into HOL functions, in the order of the
  code, and proves what each promises.

  \<^bold>\<open>How the code is represented.\<close>
  A Rust \<open>struct\<close> is a record and an \<open>enum\<close> a datatype, with the fields that modelled code reads.
  The database is the record \<open>db\<close> of theory \<open>Store\<close>: one list of rows for each table.  A repository
  method is a function on \<open>db\<close>: a \<open>SELECT\<close> of at most one row is \<open>List.find\<close>, an \<open>UPDATE ... WHERE\<close> maps
  the rows that the clause selects, an \<open>INSERT\<close> checks the unique keys and appends.  An operation
  that may fail is a \<open>prog\<close> (theory \<open>Prelude\<close>): it takes a state and returns an error or a result
  together with the state it leaves, also when it fails; \<open>with_transaction\<close> is the macro of the
  same name, which rolls the state back on an error.  What an operation reads from outside the
  repository (the clock, random bytes, identifiers, hash functions, signatures, parsers of other
  crates) is the record \<open>env\<close> of theory \<open>Env\<close>; the clock and the random source are indexed by the
  number of the reading inside the operation, so that two readings may differ.  Times are integers
  in microseconds, strings lists of UTF-8 bytes, JSON values the datatype of theory \<open>Json\<close>, whose
  objects are key sorted lists as in \<open>serde_json\<close>.  64 bit quantities that the code only compares
  or adds within validated bounds are \<open>int\<close>.

  \<^bold>\<open>Theories.\<close>
  \<^item> \<open>Prelude\<close>, \<open>Strings\<close>, \<open>Json\<close>: programs, tables, byte strings and claims with the path insertion
    of \<open>protocol_mappers.rs\<close>; the map interface is a locale interpreted on JSON objects.
  \<^item> \<open>Errors\<close>: \<open>OidcError\<close>, HTTP status, OAuth error bodies.
  \<^item> \<open>Response_Type\<close>, \<open>Acr\<close>: the enumerations and the resolution of authentication contexts.
  \<^item> \<open>Models\<close>, \<open>Store\<close>: records of \<open>oidc-core/src/models\<close>, tables and queries; the locale
    \<open>one_time_store\<close> states what a table of one-time credentials promises, interpreted on the
    authorization codes, the device codes, the API keys (whose revocation is the end of a row) and the
    tokens of the mailed links.
  \<^item> \<open>Sessions\<close>: the session repository; revocation is final under every operation.
  \<^item> \<open>Roles\<close>: composite roles with the cycle check, effective permissions as the least fixed point of the
    recursive query, role claims.
  \<^item> \<open>Tokens\<close>: JWT encoding, signature check and claims of access and ID tokens.
  \<^item> \<open>Claims\<close>: scopes granted to a client, organization claim, protocol mappers.
  \<^item> \<open>Issue\<close>, \<open>Grants\<close>, \<open>Refresh\<close>, \<open>Device\<close>: the grant flows, each with its functional
    correctness, its errors and its single use or replay property.
  \<^item> \<open>Workflows\<close>, \<open>Workflow_Props\<close>: the lifecycle workflow engine of \<open>workflow_repo.rs\<close>: activation by
    audit events, the scheduler, the execution of steps, retry and cancellation, with an invariant on
    executions and a functional specification of one processing run.
  \<^item> \<open>Audit_Log\<close>: what recording an event, and with it the dispatch to workflows, leaves alone; the locales
    \<open>undisturbed\<close> and \<open>out_of_reach\<close> state it for views of the database.
  \<^item> \<open>Hub\<close>, \<open>Dpop\<close>, \<open>Client_Auth\<close>, \<open>Token_Info\<close>: the token service of a realm, DPoP proofs, client
    authentication, and revocation, introspection and user information, with the soundness of each.
  \<^item> \<open>Validation\<close>, \<open>Required_Actions\<close>, \<open>Totp\<close>, \<open>Factors\<close>, \<open>Mfa\<close>, \<open>Mfa_Props\<close>, \<open>Federation\<close>, \<open>Account\<close>,
    \<open>Password\<close>, \<open>Password_Props\<close>: what users type, second factors, required actions, directory users, the
    account pages and the sign-in with a password.  One-time passwords are computed on machine words.
  \<^item> \<open>Policies\<close>, \<open>Uma\<close>, \<open>Uma_Props\<close>: the authorization services; a requesting party token carries only what
    the policies permit or a previous token of the same user and client carried.
  \<^item> \<open>Ciba\<close>, \<open>Ciba_Props\<close>: backchannel authentication, with the state machine \<open>request_step\<close> that its
    operations refine.
  \<^item> \<open>Jwe\<close>, \<open>Request_Object\<close>, \<open>Authorize\<close>, \<open>Authorize_Props\<close>: encrypted tokens, signed and pushed requests
    and the authorization endpoint: the conditions of a sign-in, where answers may go, and which parameters count.
  \<^item> \<open>Exchange\<close>, \<open>Token_Endpoint\<close>, \<open>Token_Props\<close>: token exchange, the JWT bearer grant and the dispatch of the
    token endpoint.
  \<^item> \<open>Presentation\<close>, \<open>Recovery\<close>, \<open>Logout\<close>: themes and mails of a realm, the links sent by mail, logout with its
    front and back channels.
  \<^item> \<open>Gateway\<close>: the request limit per address (32-bit counters), CSRF tokens, CORS and security headers.
  \<^item> \<open>Client_Policies\<close>, \<open>Api_Keys\<close>, \<open>Registration\<close>: the policies a client has to pass, API keys, dynamic
    registration.
  \<^item> \<open>Admin_Repos\<close>, \<open>Admin_Auth\<close>, \<open>Admin_Users\<close>, \<open>Admin_Clients\<close>, \<open>Admin_Resources\<close>, \<open>Admin_Props\<close>: the
    administration: its queries, who gets in, and the handlers; administrators of one realm stay in it.

  \<^bold>\<open>Properties.\<close>  A claim \<open>C<n>\<close> is introduced by the text before its theorem.  A theorem about a run
  has the run (or the rows that it finds) as hypotheses and a witness after it, which applies the
  theorem to a concrete database and environment (\<open>sample_env\<close>).  No loop needs fuel: the
  closure of the composite roles, the matching of patterns and the loops over rows, steps and scopes
  terminate structurally or by a measure, and the search for placeholders in a mail template, a
  \<open>partial_function\<close>, is proved to return.

  \<^bold>\<open>What is idealised.\<close>  A transport failure of the database, an abort of a transaction by a
  serialisation conflict, the order in which SQL returns rows that its \<open>ORDER BY\<close> leaves equal, and
  clashes of the random primary keys of audit rows are not modelled.  An operation runs alone
  between its reads and writes, as under the row locks of the code; two transactions of one
  flow are composed explicitly (the refresh flow).

  \<^bold>\<open>What is not modelled.\<close>  SAML, social login, the LDAP client, the discovery documents, the
  generation and storage of signing keys, the administration of realms, organizations, workflows and
  federation providers with the transfer of realms, the routers of the administration for authorization
  services, the migration runner, the development servers, the admin console, and mocks and tests.
  Routing, the parsing of HTTP requests, cryptographic primitives and the I/O of mail are parameters or
  left out; pages are the values they show, except the page of a logout by the front channel, which is
  modelled as text.
\<close>

end
